(* ===== verification/Vectron_Prelude.thy ===== *)
theory Vectron_Prelude
  imports Complex_Main "HOL-Library.Word" "HOL-Library.AList"
begin

text \<open>
  The parts of the TypeScript language and its standard library that the Vectron sources use,
  and the generic lemmas that the component theories share:

  \<^item> \<open>js_num\<close>: a JavaScript number. Finite numbers are exact rationals, so IEEE rounding
    is idealised away; \<open>NaN\<close> and the infinities are kept, because comparisons with them
    decide branches of the client. The two zeros are identified (no test of the sources,
    \<open>===\<close>, \<open><\<close> or truthiness, tells them apart).
  \<^item> \<open>string\<close>: a JavaScript string whose code units are below 256.
  \<^item> \<open>js_obj\<close>: an object used as a dictionary, as the list of its own entries in
    \<^verbatim>\<open>Object.entries\<close> order, with the assignment \<open>js_set\<close>.
  \<^item> \<open>res_bind\<close>: sequencing of computations that may throw (\<open>Inl\<close> is a throw).
\<close>

named_theorems js_simps \<open>evaluation of the JavaScript number operations\<close>

text \<open>\<^verbatim>\<open>x ?? d\<close>\<close>

abbreviation nullish :: "'a option \<Rightarrow> 'a \<Rightarrow> 'a" where
  "nullish x d \<equiv> (case x of None \<Rightarrow> d | Some v \<Rightarrow> v)"

section \<open>Numbers\<close>

datatype js_num = NaN | NegInf | PosInf | Fin rat

abbreviation num_of_nat :: "nat \<Rightarrow> js_num" where
  "num_of_nat n \<equiv> Fin (of_nat n)"

abbreviation num_of_int :: "int \<Rightarrow> js_num" where
  "num_of_int i \<equiv> Fin (of_int i)"

fun js_lt :: "js_num \<Rightarrow> js_num \<Rightarrow> bool" where
  "js_lt NaN _ = False"
| "js_lt _ NaN = False"
| "js_lt (Fin a) (Fin b) = (a < b)"
| "js_lt (Fin _) PosInf = True"
| "js_lt (Fin _) NegInf = False"
| "js_lt NegInf y = (y \<noteq> NegInf)"
| "js_lt PosInf _ = False"

definition js_le :: "js_num \<Rightarrow> js_num \<Rightarrow> bool" where
  "js_le x y = (x \<noteq> NaN \<and> y \<noteq> NaN \<and> \<not> js_lt y x)"

definition truthy_num :: "js_num \<Rightarrow> bool" where
  "truthy_num x = (x \<noteq> NaN \<and> x \<noteq> Fin 0)"

definition js_eq :: "js_num \<Rightarrow> js_num \<Rightarrow> bool" where
  "js_eq x y = (x = y \<and> x \<noteq> NaN)"

fun js_mul :: "js_num \<Rightarrow> js_num \<Rightarrow> js_num" where
  "js_mul NaN _ = NaN"
| "js_mul _ NaN = NaN"
| "js_mul (Fin a) (Fin b) = Fin (a * b)"
| "js_mul (Fin a) PosInf = (if a = 0 then NaN else if 0 < a then PosInf else NegInf)"
| "js_mul (Fin a) NegInf = (if a = 0 then NaN else if 0 < a then NegInf else PosInf)"
| "js_mul PosInf (Fin b) = (if b = 0 then NaN else if 0 < b then PosInf else NegInf)"
| "js_mul NegInf (Fin b) = (if b = 0 then NaN else if 0 < b then NegInf else PosInf)"
| "js_mul PosInf PosInf = PosInf"
| "js_mul NegInf NegInf = PosInf"
| "js_mul PosInf NegInf = NegInf"
| "js_mul NegInf PosInf = NegInf"

fun js_add :: "js_num \<Rightarrow> js_num \<Rightarrow> js_num" where
  "js_add NaN _ = NaN"
| "js_add _ NaN = NaN"
| "js_add (Fin a) (Fin b) = Fin (a + b)"
| "js_add (Fin _) PosInf = PosInf"
| "js_add (Fin _) NegInf = NegInf"
| "js_add PosInf (Fin _) = PosInf"
| "js_add NegInf (Fin _) = NegInf"
| "js_add PosInf PosInf = PosInf"
| "js_add NegInf NegInf = NegInf"
| "js_add PosInf NegInf = NaN"
| "js_add NegInf PosInf = NaN"

text \<open>\<^verbatim>\<open>Math.max\<close>, \<^verbatim>\<open>Math.floor\<close> and \<^verbatim>\<open>Math.round\<close> (round half up).\<close>

definition js_max :: "js_num \<Rightarrow> js_num \<Rightarrow> js_num" where
  "js_max x y = (if x = NaN \<or> y = NaN then NaN else if js_lt x y then y else x)"

fun js_floor :: "js_num \<Rightarrow> js_num" where
  "js_floor (Fin a) = num_of_int \<lfloor>a\<rfloor>"
| "js_floor x = x"

fun js_round :: "js_num \<Rightarrow> js_num" where
  "js_round (Fin a) = num_of_int \<lfloor>a + 1 / 2\<rfloor>"
| "js_round x = x"

lemma js_lt_Fin_NaN [simp]: "js_lt x NaN = False"
  by (cases x) simp_all

lemma js_le_Fin [simp]: "js_le (Fin a) (Fin b) = (a \<le> b)"
  by (simp add: js_le_def not_less)

lemma js_le_NaN [simp]: "js_le NaN x = False" "js_le x NaN = False"
  by (simp_all add: js_le_def)

lemma js_le_PosInf_Fin [simp]: "js_le PosInf (Fin a) = False" "js_le (Fin a) PosInf = True"
  by (simp_all add: js_le_def)

lemma js_le_NegInf_Fin [simp]: "js_le NegInf (Fin a) = True" "js_le (Fin a) NegInf = False"
  by (simp_all add: js_le_def)

lemma js_max_Fin [simp]: "js_max (Fin a) (Fin b) = Fin (max a b)"
  by (auto simp: js_max_def max_def)

lemma truthy_num_Fin [simp]: "truthy_num (Fin a) = (a \<noteq> 0)"
  by (simp add: truthy_num_def)

lemma js_round_int [simp]: "js_round (num_of_int i) = num_of_int i"
proof -
  have "\<lfloor>(of_int i :: rat) + 1 / 2\<rfloor> = i"
    by (rule floor_unique) simp_all
  then show ?thesis by simp
qed

lemma js_floor_int [simp]: "js_floor (num_of_int i) = num_of_int i"
  by simp

section \<open>Computations that may throw\<close>

definition res_bind :: "'e + 'a \<Rightarrow> ('a \<Rightarrow> 'e + 'b) \<Rightarrow> 'e + 'b" where
  "res_bind x f = (case x of Inl e \<Rightarrow> Inl e | Inr a \<Rightarrow> f a)"

lemma res_bind_simps [simp]:
  "res_bind (Inl e) f = Inl e"
  "res_bind (Inr a) f = f a"
  by (simp_all add: res_bind_def)

lemma res_bind_Inr_iff: "res_bind x f = Inr b \<longleftrightarrow> (\<exists>a. x = Inr a \<and> f a = Inr b)"
  by (cases x) simp_all

text \<open>\<^verbatim>\<open>array.map(f)\<close> where \<open>f\<close> may throw: the first throw ends the map.\<close>

fun res_map :: "('a \<Rightarrow> 'e + 'b) \<Rightarrow> 'a list \<Rightarrow> 'e + 'b list" where
  "res_map f [] = Inr []"
| "res_map f (x # xs) = res_bind (f x) (\<lambda>y. res_bind (res_map f xs) (\<lambda>ys. Inr (y # ys)))"

lemma res_map_Inr_iff:
  "res_map f xs = Inr ys \<longleftrightarrow> list_all2 (\<lambda>x y. f x = Inr y) xs ys"
  by (induction xs arbitrary: ys) (auto simp: res_bind_Inr_iff list_all2_Cons1)

lemma res_map_Inl_witness: "res_map f xs = Inl e \<Longrightarrow> \<exists>x\<in>set xs. f x = Inl e"
proof (induction xs)
  case Nil
  then show ?case by simp
next
  case (Cons x xs)
  then show ?case
    by (cases "f x"; cases "res_map f xs") auto
qed

section \<open>Decimal strings\<close>

definition digit_char :: "nat \<Rightarrow> char" where
  "digit_char d = char_of (48 + d)"

fun show_nat :: "nat \<Rightarrow> string" where
  "show_nat n =
     (if n < 10 then [digit_char n] else show_nat (n div 10) @ [digit_char (n mod 10)])"

declare show_nat.simps [simp del]

definition show_int :: "int \<Rightarrow> string" where
  "show_int i = (if i < 0 then ''-'' @ show_nat (nat (- i)) else show_nat (nat i))"

definition is_digit :: "char \<Rightarrow> bool" where
  "is_digit c = (48 \<le> (of_char c :: nat) \<and> (of_char c :: nat) \<le> 57)"

definition digit_val :: "char \<Rightarrow> nat" where
  "digit_val c = of_char c - 48"

definition parse_nat :: "string \<Rightarrow> nat" where
  "parse_nat s = foldl (\<lambda>a c. 10 * a + digit_val c) 0 s"

fun parse_int :: "string \<Rightarrow> int" where
  "parse_int (CHR ''-'' # s) = - int (parse_nat s)"
| "parse_int s = int (parse_nat s)"

lemma of_char_digit_char: "d < 10 \<Longrightarrow> (of_char (digit_char d) :: nat) = 48 + d"
  by (simp add: digit_char_def)

lemma digit_val_char [simp]: "d < 10 \<Longrightarrow> digit_val (digit_char d) = d"
  by (simp add: digit_val_def of_char_digit_char)

lemma is_digit_char [simp]: "d < 10 \<Longrightarrow> is_digit (digit_char d)"
  by (simp add: is_digit_def of_char_digit_char)

lemma show_nat_nonempty [simp]: "show_nat n \<noteq> []"
  by (subst show_nat.simps) simp

lemma show_nat_digits: "\<forall>c \<in> set (show_nat n). is_digit c"
proof (induction n rule: show_nat.induct)
  case (1 n)
  then show ?case
    by (cases "n < 10") (auto simp: show_nat.simps [of n])
qed

lemma parse_show_nat [simp]: "parse_nat (show_nat n) = n"
proof (induction n rule: show_nat.induct)
  case (1 n)
  show ?case
  proof (cases "n < 10")
    case True
    then show ?thesis by (simp add: show_nat.simps [of n] parse_nat_def)
  next
    case False
    with 1 have "parse_nat (show_nat (n div 10)) = n div 10" by simp
    with False show ?thesis by (simp add: show_nat.simps [of n] parse_nat_def)
  qed
qed

lemma show_nat_inject [simp]: "show_nat m = show_nat n \<longleftrightarrow> m = n"
  by (metis parse_show_nat)

section \<open>Objects as dictionaries\<close>

text \<open>
  A plain object used as a string dictionary is its list of own entries in enumeration order.
  JavaScript enumerates array-index keys first, in ascending numeric order, and then the other
  keys in the order of their creation. Assigning to an existing key keeps its place. Assigning
  a string to \<^verbatim>\<open>__proto__\<close> reaches the setter inherited from \<^verbatim>\<open>Object.prototype\<close>, which
  ignores it: no own entry appears.
\<close>

type_synonym 'v js_obj = "(string \<times> 'v) list"

definition is_index_key :: "string \<Rightarrow> bool" where
  "is_index_key k = (k \<noteq> [] \<and> list_all is_digit k \<and> (length k = 1 \<or> hd k \<noteq> CHR ''0'')
     \<and> parse_nat k < 2 ^ 32 - 1)"

definition key_before :: "string \<Rightarrow> string \<times> 'v \<Rightarrow> bool" where
  "key_before k e = (is_index_key (fst e) \<and> parse_nat (fst e) < parse_nat k)"

definition js_set :: "string \<Rightarrow> 'v \<Rightarrow> 'v js_obj \<Rightarrow> 'v js_obj" where
  "js_set k v obj =
     (if k = ''__proto__'' then obj
      else if k \<in> fst ` set obj then AList.update k v obj
      else if is_index_key k
      then takeWhile (key_before k) obj @ (k, v) # dropWhile (key_before k) obj
      else obj @ [(k, v)])"

fun js_obj_ok :: "'v js_obj \<Rightarrow> bool" where
  "js_obj_ok [] = True"
| "js_obj_ok (e # es) =
     (fst e \<noteq> ''__proto__'' \<and> fst e \<notin> fst ` set es \<and> js_obj_ok es
      \<and> (\<forall>e' \<in> set es. is_index_key (fst e') \<longrightarrow> key_before (fst e') e))"

text \<open>The copy that \<^verbatim>\<open>fromPartial\<close> makes of a dictionary: entries with an undefined value are
  left out, the others are assigned one by one.\<close>

definition js_copy :: "'v option js_obj \<Rightarrow> 'v js_obj" where
  "js_copy es =
     foldl (\<lambda>acc (k, v). case v of None \<Rightarrow> acc | Some x \<Rightarrow> js_set k x acc) [] es"

lemma js_obj_ok_append:
  "js_obj_ok (es @ [e]) \<longleftrightarrow>
     js_obj_ok es \<and> fst e \<noteq> ''__proto__'' \<and> fst e \<notin> fst ` set es
     \<and> (is_index_key (fst e) \<longrightarrow> (\<forall>e' \<in> set es. key_before (fst e) e'))"
  by (induction es) auto

lemma js_set_snoc: "js_obj_ok (es @ [(k, v)]) \<Longrightarrow> js_set k v es = es @ [(k, v)]"
proof -
  assume "js_obj_ok (es @ [(k, v)])"
  then have k: "k \<noteq> ''__proto__''" "k \<notin> fst ` set es"
    and idx: "is_index_key k \<longrightarrow> (\<forall>e' \<in> set es. key_before k e')"
    by (simp_all add: js_obj_ok_append)
  show ?thesis
  proof (cases "is_index_key k")
    case True
    with idx have all: "\<forall>e' \<in> set es. key_before k e'" by simp
    from all have "takeWhile (key_before k) es = es" by simp
    moreover from all have "dropWhile (key_before k) es = []" by simp
    ultimately show ?thesis using k True by (simp add: js_set_def)
  next
    case False
    with k show ?thesis by (simp add: js_set_def)
  qed
qed

text \<open>Copying the entries of an object one by one into a fresh one rebuilds it.\<close>

lemma foldl_js_set_snoc:
  "js_obj_ok (es @ es') \<Longrightarrow> foldl (\<lambda>o' (k, v). js_set k v o') es es' = es @ es'"
proof (induction es' arbitrary: es)
  case Nil
  then show ?case by simp
next
  case (Cons e es')
  obtain k v where e: "e = (k, v)" by (cases e)
  have "js_obj_ok (es @ [(k, v)])"
    using Cons.prems e by (induction es) (auto simp: image_iff)
  then have "js_set k v es = es @ [(k, v)]" by (rule js_set_snoc)
  moreover have "foldl (\<lambda>o' (k, v). js_set k v o') (es @ [e]) es' = (es @ [e]) @ es'"
    using Cons.prems by (intro Cons.IH) simp
  ultimately show ?case by (simp add: e)
qed

lemma foldl_js_set_id: "js_obj_ok es \<Longrightarrow> foldl (\<lambda>o' (k, v). js_set k v o') [] es = es"
  using foldl_js_set_snoc [of "[]" es] by simp

lemma js_set_lookup:
  fixes obj :: "'v js_obj"
  assumes "k \<noteq> ''__proto__''"
  shows "map_of (js_set k v obj) = (map_of obj)(k \<mapsto> v)"
proof (cases "k \<in> fst ` set obj")
  case True
  with assms show ?thesis by (simp add: js_set_def update_conv')
next
  case False
  define P :: "string \<times> 'v \<Rightarrow> bool" where "P = key_before k"
  have split: "map_of obj = map_of (dropWhile P obj) ++ map_of (takeWhile P obj)"
    by (metis map_of_append takeWhile_dropWhile_id)
  from False have "k \<notin> dom (map_of (takeWhile P obj))"
    by (metis dom_map_of_conv_image_fst image_eqI imageE set_takeWhileD)
  then have "map_of (takeWhile P obj @ (k, v) # dropWhile P obj) = (map_of obj)(k \<mapsto> v)"
    by (auto simp: split fun_eq_iff map_add_def domIff split: option.splits)
  moreover from False have "map_of (obj @ [(k, v)]) = (map_of obj)(k \<mapsto> v)"
    by (auto simp: fun_eq_iff map_add_def dom_map_of_conv_image_fst [symmetric] domIff
        split: option.splits)
  ultimately show ?thesis using assms False by (auto simp: js_set_def P_def)
qed

lemma digit_char_val: "is_digit c \<Longrightarrow> digit_char (digit_val c) = c \<and> digit_val c < 10"
  by (auto simp: is_digit_def digit_char_def digit_val_def)

lemma show_parse_nat:
  "list_all is_digit k \<Longrightarrow> k \<noteq> [] \<Longrightarrow> length k = 1 \<or> hd k \<noteq> CHR ''0'' \<Longrightarrow> show_nat (parse_nat k) = k"
proof (induction k rule: rev_induct)
  case Nil
  then show ?case by simp
next
  case (snoc c xs)
  from snoc.prems(1) have c: "digit_char (digit_val c) = c" "digit_val c < 10"
    using digit_char_val [of c] by simp_all
  show ?case
  proof (cases "xs = []")
    case True
    with c show ?thesis by (simp add: parse_nat_def show_nat.simps)
  next
    case False
    with snoc have IH: "show_nat (parse_nat xs) = xs" by auto
    have "parse_nat xs \<noteq> 0"
    proof
      assume "parse_nat xs = 0"
      with IH have "xs = [digit_char 0]" by (simp add: show_nat.simps)
      moreover have "digit_char 0 = CHR ''0''" by code_simp
      ultimately show False using snoc.prems(3) by simp
    qed
    moreover have "parse_nat (xs @ [c]) = 10 * parse_nat xs + digit_val c"
      by (simp add: parse_nat_def)
    ultimately show ?thesis using c IH by (simp add: show_nat.simps [of "10 * parse_nat xs + digit_val c"])
  qed
qed

lemma index_key_inject:
  "is_index_key k \<Longrightarrow> is_index_key k' \<Longrightarrow> parse_nat k = parse_nat k' \<Longrightarrow> k = k'"
  by (metis is_index_key_def show_parse_nat)

lemma js_obj_ok_iff:
  "js_obj_ok es \<longleftrightarrow> ''__proto__'' \<notin> fst ` set es \<and> distinct (map fst es)
     \<and> sorted_wrt (\<lambda>e e'. is_index_key (fst e') \<longrightarrow> key_before (fst e') e) es"
  by (induction es) auto

lemma keys_ordered:
  "sorted_wrt (\<lambda>e e'. is_index_key (fst e') \<longrightarrow> key_before (fst e') e) es \<longleftrightarrow>
     sorted_wrt (\<lambda>k k'. is_index_key k' \<longrightarrow> is_index_key k \<and> parse_nat k < parse_nat k') (map fst es)"
  by (simp add: sorted_wrt_map key_before_def)

lemma js_insert_ordered:
  fixes obj :: "'v js_obj"
  assumes ord: "sorted_wrt (\<lambda>e e'. is_index_key (fst e') \<longrightarrow> key_before (fst e') e) obj"
    and k: "is_index_key k" "k \<notin> fst ` set obj"
  shows "sorted_wrt (\<lambda>e e'. is_index_key (fst e') \<longrightarrow> key_before (fst e') e)
           (takeWhile (key_before k) obj @ (k, v) # dropWhile (key_before k) obj)"
proof -
  let ?A = "takeWhile (key_before k) obj" and ?B = "dropWhile (key_before k) obj"
  from ord have ab: "sorted_wrt (\<lambda>e e'. is_index_key (fst e') \<longrightarrow> key_before (fst e') e) (?A @ ?B)"
    by simp
  have "key_before (fst e) (k, v)" if e: "e \<in> set ?B" "is_index_key (fst e)" for e
  proof (cases ?B)
    case Nil
    with e show ?thesis by simp
  next
    case (Cons b bs)
    then have nb: "\<not> key_before k b" by (metis hd_dropWhile list.sel(1) list.distinct(1))
    have "b \<in> set obj" using Cons set_dropWhileD [of b "key_before k" obj] by simp
    with k(2) have bk: "fst b \<noteq> k" by auto
    from ab Cons e have "e = b \<or> key_before (fst e) b"
      by (auto simp: sorted_wrt_append simp del: takeWhile_dropWhile_id)
    then have b: "is_index_key (fst b)" "parse_nat (fst b) \<le> parse_nat (fst e)"
      using e(2) by (auto simp: key_before_def)
    with nb have "parse_nat k \<le> parse_nat (fst b)" by (simp add: key_before_def)
    with bk b(1) k(1) have "parse_nat k < parse_nat (fst b)"
      using index_key_inject by (metis le_neq_implies_less)
    with b(2) k(1) show ?thesis by (simp add: key_before_def)
  qed
  moreover have "key_before k e" if "e \<in> set ?A" for e using set_takeWhileD [OF that] ..
  ultimately show ?thesis using ab [unfolded sorted_wrt_append]
    by (auto simp del: takeWhile_dropWhile_id simp: sorted_wrt_append)
qed

lemma js_set_ok:
  fixes obj :: "'v js_obj"
  assumes "js_obj_ok obj"
  shows "js_obj_ok (js_set k v obj)"
proof (cases "k = ''__proto__'' \<or> k \<in> fst ` set obj")
  case True
  moreover have "js_obj_ok (AList.update k v obj)" if "k \<in> fst ` set obj"
  proof -
    have "map fst (AList.update k v obj) = map fst obj" using that by (simp add: update_keys)
    then show ?thesis using assms unfolding js_obj_ok_iff keys_ordered
      by (metis list.set_map)
  qed
  ultimately show ?thesis using assms by (auto simp: js_set_def)
next
  case False
  show ?thesis
  proof (cases "is_index_key k")
    case True
    let ?A = "takeWhile (key_before k) obj" and ?B = "dropWhile (key_before k) obj"
    have "obj = ?A @ ?B" by simp
    then have "set obj = set ?A \<union> set ?B" "distinct (map fst ?A @ map fst ?B)"
      using assms by (metis set_append, metis js_obj_ok_iff map_append)
    with False True assms js_insert_ordered [of obj k v] show ?thesis
      by (auto simp: js_set_def js_obj_ok_iff)
  next
    case False
    with \<open>\<not> (k = ''__proto__'' \<or> k \<in> fst ` set obj)\<close> assms show ?thesis
      by (simp add: js_set_def js_obj_ok_append)
  qed
qed

lemma js_copy_ok: "js_obj_ok (js_copy es)"
proof -
  have "js_obj_ok (foldl (\<lambda>acc (k, v). case v of None \<Rightarrow> acc | Some x \<Rightarrow> js_set k x acc) acc es)"
    if "js_obj_ok acc" for acc :: "'a js_obj"
    using that by (induction es arbitrary: acc) (auto simp: js_set_ok split: option.splits)
  then show ?thesis by (simp add: js_copy_def)
qed

lemma js_copy_lookup:
  assumes "distinct (map fst es)"
  shows "map_of (js_copy es) k = (if k = ''__proto__'' then None else Option.bind (map_of es k) id)"
  using assms
proof (induction es rule: rev_induct)
  case Nil
  then show ?case by (simp add: js_copy_def)
next
  case (snoc e es)
  obtain k' v where e: "e = (k', v)" by (cases e)
  have step: "js_copy (es @ [e]) = (case v of None \<Rightarrow> js_copy es | Some x \<Rightarrow> js_set k' x (js_copy es))"
    by (simp add: js_copy_def e split: option.split)
  have IH: "map_of (js_copy es) k = (if k = ''__proto__'' then None else Option.bind (map_of es k) id)"
    using snoc by simp
  have new: "map_of es k' = None" using snoc.prems by (auto simp: e map_of_eq_None_iff)
  show ?case
  proof (cases v)
    case None
    with step IH new show ?thesis by (auto simp: e map_add_def split: option.splits)
  next
    case (Some x)
    show ?thesis
    proof (cases "k' = ''__proto__''")
      case True
      with step Some IH new show ?thesis
        by (auto simp: e js_set_def map_add_def split: option.splits)
    next
      case False
      with step Some IH new js_set_lookup [where k = k' and v = x and obj = "js_copy es"] show ?thesis
        by (auto simp: e map_add_def split: option.splits)
    qed
  qed
qed

end
