(* ===== verification/Client_Errors.thy ===== *)
theory Client_Errors
  imports Vectron_Prelude
begin

text \<open>
  The error classes of \<^verbatim>\<open>clientlibs/js/src/errors.ts\<close>, the values the client can throw,
  and the translation \<open>handleError\<close> (\<^verbatim>\<open>_handleError\<close> of \<^verbatim>\<open>client.ts\<close>) of a gRPC
  \<^verbatim>\<open>ServiceError\<close> into one of the classes.
\<close>

section \<open>The class hierarchy\<close>

datatype error_class =
    VectronError
  | AuthenticationError
  | NotFoundError
  | InvalidArgumentError
  | AlreadyExistsError
  | InternalServerError

text \<open>\<^verbatim>\<open>class X extends Y\<close>; the base class extends the built-in \<^verbatim>\<open>Error\<close>.\<close>

fun extends_class :: "error_class \<Rightarrow> error_class option" where
  "extends_class VectronError = None"
| "extends_class AuthenticationError = Some VectronError"
| "extends_class NotFoundError = Some VectronError"
| "extends_class InvalidArgumentError = Some VectronError"
| "extends_class AlreadyExistsError = Some VectronError"
| "extends_class InternalServerError = Some VectronError"

record client_error =
  err_class :: error_class
  name :: string
  message :: string

text \<open>Each constructor calls \<^verbatim>\<open>super(message)\<close> and then overwrites \<^verbatim>\<open>this.name\<close>.\<close>

definition new_VectronError :: "string \<Rightarrow> client_error" where
  "new_VectronError msg = \<lparr>err_class = VectronError, name = ''VectronError'', message = msg\<rparr>"

definition new_AuthenticationError :: "string \<Rightarrow> client_error" where
  "new_AuthenticationError msg =
     (new_VectronError msg)\<lparr>err_class := AuthenticationError, name := ''AuthenticationError''\<rparr>"

definition new_NotFoundError :: "string \<Rightarrow> client_error" where
  "new_NotFoundError msg =
     (new_VectronError msg)\<lparr>err_class := NotFoundError, name := ''NotFoundError''\<rparr>"

definition new_InvalidArgumentError :: "string \<Rightarrow> client_error" where
  "new_InvalidArgumentError msg =
     (new_VectronError msg)\<lparr>err_class := InvalidArgumentError, name := ''InvalidArgumentError''\<rparr>"

definition new_AlreadyExistsError :: "string \<Rightarrow> client_error" where
  "new_AlreadyExistsError msg =
     (new_VectronError msg)\<lparr>err_class := AlreadyExistsError, name := ''AlreadyExistsError''\<rparr>"

definition new_InternalServerError :: "string \<Rightarrow> client_error" where
  "new_InternalServerError msg =
     (new_VectronError msg)\<lparr>err_class := InternalServerError, name := ''InternalServerError''\<rparr>"

lemmas new_error_defs =
  new_VectronError_def new_AuthenticationError_def new_NotFoundError_def
  new_InvalidArgumentError_def new_AlreadyExistsError_def new_InternalServerError_def

section \<open>Thrown values\<close>

text \<open>
  The status codes of \<^verbatim>\<open>@grpc/grpc-js\<close> by name; \<open>OtherCode\<close> is any further number a
  caller may put into \<^verbatim>\<open>retryableStatusCodes\<close>. Only equality of codes is ever used.
\<close>

datatype grpc_status =
    OK | CANCELLED | UNKNOWN | INVALID_ARGUMENT | DEADLINE_EXCEEDED | NOT_FOUND
  | ALREADY_EXISTS | PERMISSION_DENIED | RESOURCE_EXHAUSTED | FAILED_PRECONDITION
  | ABORTED | OUT_OF_RANGE | UNIMPLEMENTED | INTERNAL | UNAVAILABLE | DATA_LOSS
  | UNAUTHENTICATED | OtherCode js_num

record service_error =
  code :: grpc_status
  details :: string

text \<open>
  What a rejected promise carries: an error of the client's own classes, a gRPC
  \<^verbatim>\<open>ServiceError\<close> (which has a \<^verbatim>\<open>code\<close>), or any other thrown value, which has none.
\<close>

datatype thrown = TError client_error | TService service_error | TOther string

fun instanceof_VectronError :: "thrown \<Rightarrow> bool" where
  "instanceof_VectronError (TError e) =
     (err_class e = VectronError \<or> extends_class (err_class e) = Some VectronError)"
| "instanceof_VectronError _ = False"

text \<open>\<^verbatim>\<open>(err as grpc.ServiceError)?.code\<close>\<close>

fun code_of :: "thrown \<Rightarrow> grpc_status option" where
  "code_of (TService s) = Some (code s)"
| "code_of _ = None"

lemma instanceof_TError [simp]: "instanceof_VectronError (TError e)"
  by (cases "err_class e") simp_all

declare instanceof_VectronError.simps(1) [simp del]

section \<open>Translation of gRPC errors\<close>

definition handleError :: "service_error \<Rightarrow> client_error" where
  "handleError err =
     (case code err of
        UNAUTHENTICATED \<Rightarrow> new_AuthenticationError (details err)
      | NOT_FOUND \<Rightarrow> new_NotFoundError (details err)
      | INVALID_ARGUMENT \<Rightarrow> new_InvalidArgumentError (details err)
      | ALREADY_EXISTS \<Rightarrow> new_AlreadyExistsError (details err)
      | INTERNAL \<Rightarrow> new_InternalServerError (details err)
      | _ \<Rightarrow> new_VectronError (''An unexpected gRPC error occurred: '' @ details err))"

text \<open>The rethrow of the catch block of \<^verbatim>\<open>callWithRetry\<close>, which occurs there twice.\<close>

definition rethrow :: "thrown \<Rightarrow> thrown" where
  "rethrow err =
     (if instanceof_VectronError err then err
      else case err of
          TService s \<Rightarrow> TError (handleError s)
        | _ \<Rightarrow> err)"

lemma rethrow_simps [simp]:
  "rethrow (TError e) = TError e"
  "rethrow (TService s) = TError (handleError s)"
  "rethrow (TOther x) = TOther x"
  by (simp_all add: rethrow_def)

lemma rethrow_idem [simp]: "rethrow (rethrow e) = rethrow e"
  by (cases e) simp_all

text \<open>The class a caller catches is decided by the status code alone.\<close>

definition class_of_code :: "grpc_status \<Rightarrow> error_class" where
  "class_of_code c =
     (if c = UNAUTHENTICATED then AuthenticationError
      else if c = NOT_FOUND then NotFoundError
      else if c = INVALID_ARGUMENT then InvalidArgumentError
      else if c = ALREADY_EXISTS then AlreadyExistsError
      else if c = INTERNAL then InternalServerError
      else VectronError)"

lemma handleError_class: "err_class (handleError s) = class_of_code (code s)"
  by (simp add: handleError_def class_of_code_def new_error_defs split: grpc_status.split)

end
