(* ===== verification/Client_Options.thy ===== *)
theory Client_Options
  imports Client_Errors
begin

text \<open>
  The configuration of \<^verbatim>\<open>clientlibs/js/src/client.ts\<close>: \<^verbatim>\<open>ClientOptions\<close>,
  \<^verbatim>\<open>defaultOptions\<close>, \<^verbatim>\<open>normalizeOptions\<close>, the constructor of \<^verbatim>\<open>VectronClient\<close>, the
  metadata and the call options that accompany every request.
\<close>

section \<open>Options\<close>

text \<open>
  A property of an options object is absent, present with the value \<^verbatim>\<open>undefined\<close>, or
  present with a value. The spread \<^verbatim>\<open>{...defaultOptions, ...options}\<close> tells the first two
  apart: a property that is present overwrites the default even when it is \<^verbatim>\<open>undefined\<close>.
\<close>

datatype 'a opt_field = Absent | Undef | Val 'a

record ClientOptions =
  timeoutMs :: "js_num opt_field"
  useTLS :: "bool opt_field"
  tlsRootCerts :: "string opt_field"
  tlsServerName :: "string opt_field"
  maxRecvMsgSize :: "js_num opt_field"
  maxSendMsgSize :: "js_num opt_field"
  keepaliveTimeMs :: "js_num opt_field"
  keepaliveTimeoutMs :: "js_num opt_field"
  keepalivePermitWithoutCalls :: "bool opt_field"
  expectedVectorDim :: "js_num opt_field"
  userAgent :: "string opt_field"
  compression :: "string opt_field"
  hedgedReads :: "bool opt_field"
  hedgeDelayMs :: "js_num opt_field"
  maxBatchBytes :: "js_num opt_field"
  retryMaxAttempts :: "js_num opt_field"
  retryInitialBackoffMs :: "js_num opt_field"
  retryMaxBackoffMs :: "js_num opt_field"
  retryBackoffMultiplier :: "js_num opt_field"
  retryJitter :: "js_num opt_field"
  retryOnWrites :: "bool opt_field"
  retryableStatusCodes :: "grpc_status list opt_field"

text \<open>The normalised options: every property is present, possibly \<^verbatim>\<open>undefined\<close> (\<open>None\<close>).\<close>

record norm_options =
  o_timeoutMs :: "js_num option"
  o_useTLS :: "bool option"
  o_tlsRootCerts :: "string option"
  o_tlsServerName :: "string option"
  o_maxRecvMsgSize :: "js_num option"
  o_maxSendMsgSize :: "js_num option"
  o_keepaliveTimeMs :: "js_num option"
  o_keepaliveTimeoutMs :: "js_num option"
  o_keepalivePermitWithoutCalls :: "bool option"
  o_expectedVectorDim :: "js_num option"
  o_userAgent :: "string option"
  o_compression :: "string option"
  o_hedgedReads :: "bool option"
  o_hedgeDelayMs :: "js_num option"
  o_maxBatchBytes :: "js_num option"
  o_retryMaxAttempts :: "js_num option"
  o_retryInitialBackoffMs :: "js_num option"
  o_retryMaxBackoffMs :: "js_num option"
  o_retryBackoffMultiplier :: "js_num option"
  o_retryJitter :: "js_num option"
  o_retryOnWrites :: "bool option"
  o_retryableStatusCodes :: "grpc_status list option"

definition defaultOptions :: norm_options where
  "defaultOptions =
     \<lparr>o_timeoutMs = Some (Fin 10000),
      o_useTLS = Some False,
      o_tlsRootCerts = None,
      o_tlsServerName = None,
      o_maxRecvMsgSize = Some (Fin (16 * 1024 * 1024)),
      o_maxSendMsgSize = Some (Fin (16 * 1024 * 1024)),
      o_keepaliveTimeMs = Some (Fin 30000),
      o_keepaliveTimeoutMs = Some (Fin 10000),
      o_keepalivePermitWithoutCalls = Some False,
      o_expectedVectorDim = Some (Fin 0),
      o_userAgent = Some ''vectron-js-client'',
      o_compression = None,
      o_hedgedReads = Some False,
      o_hedgeDelayMs = Some (Fin 75),
      o_maxBatchBytes = Some (Fin 0),
      o_retryMaxAttempts = Some (Fin 3),
      o_retryInitialBackoffMs = Some (Fin 100),
      o_retryMaxBackoffMs = Some (Fin 2000),
      o_retryBackoffMultiplier = Some (Fin 2),
      o_retryJitter = Some (Fin (1 / 5)),
      o_retryOnWrites = Some False,
      o_retryableStatusCodes = None\<rparr>"

fun spread :: "'a option \<Rightarrow> 'a opt_field \<Rightarrow> 'a option" where
  "spread d Absent = d"
| "spread d Undef = None"
| "spread d (Val x) = Some x"

definition normalizeOptions :: "ClientOptions option \<Rightarrow> norm_options" where
  "normalizeOptions options =
     (case options of None \<Rightarrow> defaultOptions
      | Some u \<Rightarrow>
        \<lparr>o_timeoutMs = spread (o_timeoutMs defaultOptions) (timeoutMs u),
         o_useTLS = spread (o_useTLS defaultOptions) (useTLS u),
         o_tlsRootCerts = spread (o_tlsRootCerts defaultOptions) (tlsRootCerts u),
         o_tlsServerName = spread (o_tlsServerName defaultOptions) (tlsServerName u),
         o_maxRecvMsgSize = spread (o_maxRecvMsgSize defaultOptions) (maxRecvMsgSize u),
         o_maxSendMsgSize = spread (o_maxSendMsgSize defaultOptions) (maxSendMsgSize u),
         o_keepaliveTimeMs = spread (o_keepaliveTimeMs defaultOptions) (keepaliveTimeMs u),
         o_keepaliveTimeoutMs =
           spread (o_keepaliveTimeoutMs defaultOptions) (keepaliveTimeoutMs u),
         o_keepalivePermitWithoutCalls =
           spread (o_keepalivePermitWithoutCalls defaultOptions) (keepalivePermitWithoutCalls u),
         o_expectedVectorDim = spread (o_expectedVectorDim defaultOptions) (expectedVectorDim u),
         o_userAgent = spread (o_userAgent defaultOptions) (userAgent u),
         o_compression = spread (o_compression defaultOptions) (compression u),
         o_hedgedReads = spread (o_hedgedReads defaultOptions) (hedgedReads u),
         o_hedgeDelayMs = spread (o_hedgeDelayMs defaultOptions) (hedgeDelayMs u),
         o_maxBatchBytes = spread (o_maxBatchBytes defaultOptions) (maxBatchBytes u),
         o_retryMaxAttempts = spread (o_retryMaxAttempts defaultOptions) (retryMaxAttempts u),
         o_retryInitialBackoffMs =
           spread (o_retryInitialBackoffMs defaultOptions) (retryInitialBackoffMs u),
         o_retryMaxBackoffMs = spread (o_retryMaxBackoffMs defaultOptions) (retryMaxBackoffMs u),
         o_retryBackoffMultiplier =
           spread (o_retryBackoffMultiplier defaultOptions) (retryBackoffMultiplier u),
         o_retryJitter = spread (o_retryJitter defaultOptions) (retryJitter u),
         o_retryOnWrites = spread (o_retryOnWrites defaultOptions) (retryOnWrites u),
         o_retryableStatusCodes =
           spread (o_retryableStatusCodes defaultOptions) (retryableStatusCodes u)\<rparr>)"

text \<open>An options object with no property at all.\<close>

definition no_options :: ClientOptions where
  "no_options =
     \<lparr>timeoutMs = Absent, useTLS = Absent, tlsRootCerts = Absent, tlsServerName = Absent,
      maxRecvMsgSize = Absent, maxSendMsgSize = Absent, keepaliveTimeMs = Absent,
      keepaliveTimeoutMs = Absent, keepalivePermitWithoutCalls = Absent,
      expectedVectorDim = Absent, userAgent = Absent, compression = Absent,
      hedgedReads = Absent, hedgeDelayMs = Absent, maxBatchBytes = Absent,
      retryMaxAttempts = Absent, retryInitialBackoffMs = Absent, retryMaxBackoffMs = Absent,
      retryBackoffMultiplier = Absent, retryJitter = Absent, retryOnWrites = Absent,
      retryableStatusCodes = Absent\<rparr>"

text \<open>\<^verbatim>\<open>x ?? d\<close> and the truthiness of possibly undefined values.\<close>

definition truthy_onum :: "js_num option \<Rightarrow> bool" where
  "truthy_onum x = (case x of None \<Rightarrow> False | Some n \<Rightarrow> truthy_num n)"

definition truthy_obool :: "bool option \<Rightarrow> bool" where
  "truthy_obool x = (x = Some True)"

definition truthy_ostr :: "string option \<Rightarrow> bool" where
  "truthy_ostr x = (case x of None \<Rightarrow> False | Some s \<Rightarrow> s \<noteq> [])"

lemma truthy_simps [simp]:
  "truthy_onum None = False"
  "truthy_onum (Some n) = truthy_num n"
  "truthy_obool None = False"
  "truthy_obool (Some b) = b"
  "truthy_ostr None = False"
  "truthy_ostr (Some s) = (s \<noteq> [])"
  by (simp_all add: truthy_onum_def truthy_obool_def truthy_ostr_def)

section \<open>The constructor\<close>

datatype chan_val = CNum js_num | CStr string

datatype channel_creds = CreateInsecure | CreateSsl "string option"

record VectronClient =
  c_host :: string
  c_creds :: channel_creds
  c_channelOptions :: "chan_val js_obj"
  c_apiKey :: "string option"
  c_options :: norm_options

definition set_if :: "bool \<Rightarrow> string \<Rightarrow> 'v \<Rightarrow> 'v js_obj \<Rightarrow> 'v js_obj" where
  "set_if c k v obj = (if c then js_set k v obj else obj)"

definition channel_options :: "norm_options \<Rightarrow> chan_val js_obj" where
  "channel_options o' =
    (let c0 = [];
         c1 = set_if (truthy_onum (o_maxRecvMsgSize o')) ''grpc.max_receive_message_length''
                (CNum (the (o_maxRecvMsgSize o'))) c0;
         c2 = set_if (truthy_onum (o_maxSendMsgSize o')) ''grpc.max_send_message_length''
                (CNum (the (o_maxSendMsgSize o'))) c1;
         c3 = set_if (truthy_onum (o_keepaliveTimeMs o')) ''grpc.keepalive_time_ms''
                (CNum (the (o_keepaliveTimeMs o'))) c2;
         c4 = set_if (truthy_onum (o_keepaliveTimeoutMs o')) ''grpc.keepalive_timeout_ms''
                (CNum (the (o_keepaliveTimeoutMs o'))) c3;
         c5 = js_set ''grpc.keepalive_permit_without_calls''
                (CNum (if truthy_obool (o_keepalivePermitWithoutCalls o') then Fin 1 else Fin 0)) c4;
         c6 = set_if (truthy_ostr (o_userAgent o')) ''grpc.primary_user_agent''
                (CStr (the (o_userAgent o'))) c5;
         c7 = set_if (truthy_ostr (o_tlsServerName o')) ''grpc.ssl_target_name_override''
                (CStr (the (o_tlsServerName o'))) c6
     in c7)"

definition new_VectronClient ::
  "string \<Rightarrow> string option \<Rightarrow> ClientOptions option \<Rightarrow> thrown + VectronClient" where
  "new_VectronClient host apiKey options =
     (if host = [] then Inl (TError (new_InvalidArgumentError ''Host cannot be empty.''))
      else
        let o' = normalizeOptions options;
            creds = (if truthy_obool (o_useTLS o') then CreateSsl (o_tlsRootCerts o')
                     else CreateInsecure)
        in Inr \<lparr>c_host = host, c_creds = creds, c_channelOptions = channel_options o',
                c_apiKey = apiKey, c_options = o'\<rparr>)"

section \<open>Request metadata and call options\<close>

definition getMetadata :: "VectronClient \<Rightarrow> (string \<times> string) list" where
  "getMetadata c =
     (if truthy_ostr (c_apiKey c) then [(''authorization'', ''Bearer '' @ the (c_apiKey c))]
      else [])"

record call_options =
  deadline :: "js_num option"
  call_compression :: "string option"

text \<open>\<open>now\<close> is the value of \<^verbatim>\<open>Date.now()\<close> when the call is made.\<close>

definition getCallOptions :: "VectronClient \<Rightarrow> js_num \<Rightarrow> call_options" where
  "getCallOptions c now =
     \<lparr>deadline =
        (case o_timeoutMs (c_options c) of
           None \<Rightarrow> None
         | Some t \<Rightarrow> if truthy_num t \<and> js_lt (Fin 0) t then Some (js_add now t) else None),
      call_compression = (if o_compression (c_options c) = Some ''gzip'' then Some ''gzip'' else None)\<rparr>"

section \<open>Laws\<close>

lemma spread_Val: "spread d f = Some x \<longleftrightarrow> f = Val x \<or> (f = Absent \<and> d = Some x)"
  by (cases f) auto

lemma normalizeOptions_None [simp]: "normalizeOptions None = defaultOptions"
  by (simp add: normalizeOptions_def)

lemma normalizeOptions_no_options: "normalizeOptions (Some no_options) = defaultOptions"
  by (simp add: normalizeOptions_def no_options_def)

lemma new_VectronClient_Inr:
  "new_VectronClient host key opts = Inr c \<Longrightarrow>
     host \<noteq> [] \<and> c_host c = host \<and> c_apiKey c = key \<and> c_options c = normalizeOptions opts"
  by (auto simp: new_VectronClient_def Let_def split: if_splits)

end
