(* ===== verification/Retry.thy ===== *)
theory Retry
  imports Client_Options
begin

text \<open>
  The retry machinery of \<^verbatim>\<open>VectronClient\<close> (\<^verbatim>\<open>client.ts\<close>): which errors are retried
  (\<open>shouldRetry\<close>), how long the client waits (\<open>computeBackoffMs\<close>) and the loop
  \<open>callWithRetry\<close>.

  An asynchronous operation is a function of the state \<open>'w\<close> of the world outside the client;
  it settles with a value or a thrown error and the world it leaves behind, or never settles
  (\<open>None\<close>). The random numbers of \<^verbatim>\<open>Math.random()\<close> are a parameter, one per attempt.
\<close>

section \<open>Which errors are retried\<close>

definition getRetryableCodes :: "norm_options \<Rightarrow> grpc_status list" where
  "getRetryableCodes o' =
     (case o_retryableStatusCodes o' of
        Some cs \<Rightarrow> if 0 < length cs then cs
                  else [UNAVAILABLE, DEADLINE_EXCEEDED, RESOURCE_EXHAUSTED]
      | None \<Rightarrow> [UNAVAILABLE, DEADLINE_EXCEEDED, RESOURCE_EXHAUSTED])"

abbreviation max_attempts :: "norm_options \<Rightarrow> js_num" where
  "max_attempts o' \<equiv> nullish (o_retryMaxAttempts o') (Fin 1)"

definition shouldRetry :: "norm_options \<Rightarrow> thrown \<Rightarrow> bool \<Rightarrow> nat \<Rightarrow> bool" where
  "shouldRetry o' err isWrite attempt =
     (if js_le (max_attempts o') (Fin 1) \<or> js_le (max_attempts o') (num_of_nat attempt) then False
      else if isWrite \<and> \<not> truthy_obool (o_retryOnWrites o') then False
      else case code_of err of
          None \<Rightarrow> False
        | Some c \<Rightarrow> c \<in> set (getRetryableCodes o'))"

section \<open>How long the client waits\<close>

text \<open>The iterations \<^verbatim>\<open>i = 1 .. attempt - 1\<close> of the loop, counted by the first argument.\<close>

fun backoff_loop :: "nat \<Rightarrow> js_num \<Rightarrow> js_num option \<Rightarrow> js_num \<Rightarrow> js_num" where
  "backoff_loop 0 multiplier maxBackoff backoff = backoff"
| "backoff_loop (Suc n) multiplier maxBackoff backoff =
     (let b = js_floor (js_mul backoff multiplier) in
      case maxBackoff of
        Some cap \<Rightarrow> if truthy_num cap \<and> js_lt cap b then cap
                   else backoff_loop n multiplier maxBackoff b
      | None \<Rightarrow> backoff_loop n multiplier maxBackoff b)"

definition base_backoff :: "norm_options \<Rightarrow> nat \<Rightarrow> js_num" where
  "base_backoff o' attempt =
     backoff_loop (attempt - 1)
       (js_max (nullish (o_retryBackoffMultiplier o') (Fin 2)) (Fin 2))
       (o_retryMaxBackoffMs o')
       (js_max (nullish (o_retryInitialBackoffMs o') (Fin 100)) (Fin 1))"

text \<open>\<open>random\<close> is the number drawn by \<^verbatim>\<open>Math.random()\<close>, used only when there is jitter.\<close>

definition computeBackoffMs :: "norm_options \<Rightarrow> rat \<Rightarrow> nat \<Rightarrow> js_num" where
  "computeBackoffMs o' random attempt =
     (let backoff = base_backoff o' attempt;
          jitter = nullish (o_retryJitter o') (Fin 0)
      in if js_lt (Fin 0) jitter
         then let delta = js_mul (Fin (random * 2 - 1)) jitter
              in js_max (Fin 0) (js_floor (js_mul backoff (js_add (Fin 1) delta)))
         else backoff)"

section \<open>The loop\<close>

type_synonym ('a, 'w) async = "'w \<Rightarrow> ((thrown + 'a) \<times> 'w) option"

text \<open>
  \<open>slept\<close> collects the arguments of \<^verbatim>\<open>sleep\<close>. The loop of the source has no bound of its
  own, so it is a partial function: \<open>None\<close> is a call that never settles.
\<close>

partial_function (option) retry_loop ::
  "norm_options \<Rightarrow> (nat \<Rightarrow> rat) \<Rightarrow> bool \<Rightarrow> ('a, 'w) async \<Rightarrow> nat \<Rightarrow> js_num list \<Rightarrow> 'w
     \<Rightarrow> ((thrown + 'a) \<times> js_num list \<times> 'w) option" where
  "retry_loop o' rnd isWrite fn attempt slept w =
     Option.bind (fn w) (\<lambda>(res, w').
       case res of
         Inr v \<Rightarrow> Some (Inr v, slept, w')
       | Inl err \<Rightarrow>
           if \<not> shouldRetry o' err isWrite attempt then Some (Inl (rethrow err), slept, w')
           else
             (let slept' = slept @ [computeBackoffMs o' (rnd attempt) attempt];
                  attempt' = attempt + 1
              in if js_lt (max_attempts o') (num_of_nat attempt')
                 then Some (Inl (rethrow err), slept', w')
                 else retry_loop o' rnd isWrite fn attempt' slept' w'))"

definition callWithRetry ::
  "norm_options \<Rightarrow> (nat \<Rightarrow> rat) \<Rightarrow> bool \<Rightarrow> ('a, 'w) async \<Rightarrow> 'w
     \<Rightarrow> ((thrown + 'a) \<times> js_num list \<times> 'w) option" where
  "callWithRetry o' rnd isWrite fn w = retry_loop o' rnd isWrite fn 1 [] w"

text \<open>
  The operation whose \<open>n\<close>-th execution settles with \<open>outs n\<close>: the world counts the
  executions, so its final value is the number of times the operation was attempted.
\<close>

definition scripted :: "(nat \<Rightarrow> thrown + 'a) \<Rightarrow> ('a, nat) async" where
  "scripted outs n = Some (outs n, Suc n)"

section \<open>Laws of the retry decision\<close>

lemma shouldRetry_bound:
  assumes "shouldRetry o' err isWrite a"
  shows "max_attempts o' = NaN \<or> js_lt (num_of_nat a) (max_attempts o')"
  using assms by (auto simp: shouldRetry_def js_le_def split: if_splits)

lemma shouldRetry_single:
  "js_le (max_attempts o') (Fin 1) \<Longrightarrow> \<not> shouldRetry o' err isWrite a"
  by (simp add: shouldRetry_def)

lemma shouldRetry_write:
  "\<not> truthy_obool (o_retryOnWrites o') \<Longrightarrow> \<not> shouldRetry o' err True a"
  by (simp add: shouldRetry_def)

lemma shouldRetry_service:
  "shouldRetry o' err isWrite a \<Longrightarrow> \<exists>s. err = TService s \<and> code s \<in> set (getRetryableCodes o')"
  by (cases err) (auto simp: shouldRetry_def split: if_splits)

section \<open>Laws of the loop\<close>

lemma retry_loop_Inr:
  "fn w = Some (Inr v, w') \<Longrightarrow>
     retry_loop o' rnd isWrite fn a slept w = Some (Inr v, slept, w')"
  by (simp add: retry_loop.simps)

lemma retry_loop_stop:
  "fn w = Some (Inl e, w') \<Longrightarrow> \<not> shouldRetry o' e isWrite a \<Longrightarrow>
     retry_loop o' rnd isWrite fn a slept w = Some (Inl (rethrow e), slept, w')"
  by (simp add: retry_loop.simps)

lemma retry_loop_next:
  "fn w = Some (Inl e, w') \<Longrightarrow> shouldRetry o' e isWrite a \<Longrightarrow>
     \<not> js_lt (max_attempts o') (num_of_nat (a + 1)) \<Longrightarrow>
     retry_loop o' rnd isWrite fn a slept w =
       retry_loop o' rnd isWrite fn (a + 1) (slept @ [computeBackoffMs o' (rnd a) a]) w'"
  by (subst retry_loop.simps) (simp add: Let_def)

lemma retry_loop_late_stop:
  "fn w = Some (Inl e, w') \<Longrightarrow> shouldRetry o' e isWrite a \<Longrightarrow>
     js_lt (max_attempts o') (num_of_nat (a + 1)) \<Longrightarrow>
     retry_loop o' rnd isWrite fn a slept w =
       Some (Inl (rethrow e), slept @ [computeBackoffMs o' (rnd a) a], w')"
  by (subst retry_loop.simps) (simp add: Let_def)

lemma retry_loop_hangs:
  "fn w = None \<Longrightarrow> retry_loop o' rnd isWrite fn a slept w = None"
  by (simp add: retry_loop.simps)

lemmas retry_loop_rules =
  retry_loop_Inr retry_loop_stop retry_loop_next retry_loop_late_stop

text \<open>A finite limit ends the loop: the distance of the attempt from the limit shrinks.\<close>

lemma retry_loop_terminates:
  assumes q: "max_attempts o' = Fin q" and a: "1 \<le> a" "a = 1 \<or> of_nat a \<le> q"
  shows "\<exists>res sl n. retry_loop o' rnd isWrite (scripted outs) a slept w = Some (res, sl, n)
           \<and> w < n \<and> (n - w) + a \<le> Suc (max 1 (nat \<lfloor>q\<rfloor>))"
  using a
proof (induction "nat \<lfloor>q\<rfloor> - a" arbitrary: a slept w rule: less_induct)
  case less
  note step = retry_loop_rules [where fn = "scripted outs" and w = w]
  have a_le: "a \<le> max 1 (nat \<lfloor>q\<rfloor>)"
    using less.prems(2) by (auto simp: le_max_iff_disj le_nat_iff le_floor_iff)
  show ?case
  proof (cases "outs w")
    case (Inr v)
    then have "scripted outs w = Some (Inr v, Suc w)" by (simp add: scripted_def)
    from step(1) [OF this] a_le show ?thesis by fastforce
  next
    case (Inl e)
    then have fn: "scripted outs w = Some (Inl e, Suc w)" by (simp add: scripted_def)
    show ?thesis
    proof (cases "shouldRetry o' e isWrite a")
      case False
      from step(2) [OF fn this] a_le show ?thesis by fastforce
    next
      case True
      show ?thesis
      proof (cases "js_lt (max_attempts o') (num_of_nat (a + 1))")
        case late: True
        from step(4) [OF fn True this] a_le show ?thesis by fastforce
      next
        case next_try: False
        with q have le: "of_nat (Suc a) \<le> q" by (simp add: not_less)
        then have "Suc a \<le> nat \<lfloor>q\<rfloor>" by (simp add: le_nat_iff le_floor_iff)
        then obtain res sl n where
          "retry_loop o' rnd isWrite (scripted outs) (Suc a)
             (slept @ [computeBackoffMs o' (rnd a) a]) (Suc w) = Some (res, sl, n)"
          and "Suc w < n" "n - Suc w + Suc a \<le> Suc (max 1 (nat \<lfloor>q\<rfloor>))"
          using less.hyps [of "Suc a"] le by fastforce
        with step(3) [OF fn True next_try] show ?thesis by auto
      qed
    qed
  qed
qed

text \<open>
  The attempt after which the loop stops: a success, or an error that is not retried. Before
  it the loop waits once per attempt. With a limit that is a whole number (or \<^verbatim>\<open>NaN\<close> or
  infinite) the second test of the loop never fires.
\<close>

definition stops_at :: "norm_options \<Rightarrow> bool \<Rightarrow> (nat \<Rightarrow> thrown + 'a) \<Rightarrow> nat \<Rightarrow> bool" where
  "stops_at o' isWrite outs k =
     (case outs k of Inr _ \<Rightarrow> True | Inl e \<Rightarrow> \<not> shouldRetry o' e isWrite (Suc k))"

definition whole_limit :: "norm_options \<Rightarrow> bool" where
  "whole_limit o' =
     (case max_attempts o' of Fin q \<Rightarrow> q = of_int \<lfloor>q\<rfloor> | _ \<Rightarrow> True)"

definition settle :: "thrown + 'a \<Rightarrow> thrown + 'a" where
  "settle r = (case r of Inr v \<Rightarrow> Inr v | Inl e \<Rightarrow> Inl (rethrow e))"

lemma second_test_dead:
  assumes "whole_limit o'" "shouldRetry o' e isWrite a"
  shows "\<not> js_lt (max_attempts o') (num_of_nat (a + 1))"
proof (cases "max_attempts o'")
  case (Fin q)
  with assms(1) have whole: "q = of_int \<lfloor>q\<rfloor>" by (simp add: whole_limit_def)
  from shouldRetry_bound [OF assms(2)] Fin have "of_nat a < q" by simp
  then have "of_int (int a) < (of_int \<lfloor>q\<rfloor> :: rat)" using whole by simp
  then have "int a + 1 \<le> \<lfloor>q\<rfloor>" by simp
  then have "(of_int (int a + 1) :: rat) \<le> of_int \<lfloor>q\<rfloor>" by (simp only: of_int_le_iff)
  then have "of_nat (a + 1) \<le> q" using whole by simp
  then show ?thesis by (simp add: Fin)
next
  case NegInf
  with shouldRetry_bound [OF assms(2)] show ?thesis by simp
qed simp_all

lemma retry_loop_stops_at:
  assumes limit: "whole_limit o'"
    and stop: "stops_at o' isWrite outs k"
    and before: "\<And>j. w \<le> j \<Longrightarrow> j < k \<Longrightarrow> \<not> stops_at o' isWrite outs j"
    and "w \<le> k"
  shows "retry_loop o' rnd isWrite (scripted outs) (Suc w) slept w =
           Some (settle (outs k), slept @ map (\<lambda>i. computeBackoffMs o' (rnd i) i) [Suc w..<Suc k],
                 Suc k)"
  using before \<open>w \<le> k\<close>
proof (induction "k - w" arbitrary: w slept)
  case 0
  then have "w = k" by simp
  have fn: "scripted outs k = Some (outs k, Suc k)" by (simp add: scripted_def)
  with stop \<open>w = k\<close> show ?case
    by (cases "outs k") (auto simp: stops_at_def settle_def retry_loop_Inr retry_loop_stop)
next
  case (Suc d)
  then have "w < k" by simp
  with Suc.prems(1) [of w] obtain e where e: "outs w = Inl e" "shouldRetry o' e isWrite (Suc w)"
    by (auto simp: stops_at_def split: sum.splits)
  have fn: "scripted outs w = Some (Inl e, Suc w)" using e by (simp add: scripted_def)
  have "retry_loop o' rnd isWrite (scripted outs) (Suc w) slept w =
      retry_loop o' rnd isWrite (scripted outs) (Suc w + 1)
        (slept @ [computeBackoffMs o' (rnd (Suc w)) (Suc w)]) (Suc w)"
    by (rule retry_loop_next [where fn = "scripted outs" and w = w,
          OF fn e(2) second_test_dead [OF limit e(2)]])
  also have "\<dots> = Some (settle (outs k),
      (slept @ [computeBackoffMs o' (rnd (Suc w)) (Suc w)])
        @ map (\<lambda>i. computeBackoffMs o' (rnd i) i) [Suc (Suc w)..<Suc k], Suc k)"
    using Suc.hyps(1) [of "Suc w"] Suc.hyps(2) Suc.prems \<open>w < k\<close> by simp
  also have "[Suc w..<Suc k] = Suc w # [Suc (Suc w)..<Suc k]"
    using \<open>w < k\<close> by (simp add: upt_rec)
  then have "(slept @ [computeBackoffMs o' (rnd (Suc w)) (Suc w)])
        @ map (\<lambda>i. computeBackoffMs o' (rnd i) i) [Suc (Suc w)..<Suc k]
      = slept @ map (\<lambda>i. computeBackoffMs o' (rnd i) i) [Suc w..<Suc k]"
    by (simp del: upt_Suc)
  finally show ?case .
qed

text \<open>Without a usable limit and with nothing but retryable errors the loop never returns.\<close>

lemma retry_loop_no_return:
  assumes "retry_loop o' rnd isWrite fn a slept w = Some r"
    and "max_attempts o' = NaN"
    and "\<And>w'. \<exists>e w''. fn w' = Some (Inl e, w'') \<and> code_of e \<in> Some ` set (getRetryableCodes o')"
    and "isWrite \<longrightarrow> truthy_obool (o_retryOnWrites o')"
  shows False
proof -
  have retry: "shouldRetry o' e isWrite a'" if "code_of e \<in> Some ` set (getRetryableCodes o')" for e a'
    using that assms(2,4) by (auto simp: shouldRetry_def)
  define P where "P = (\<lambda>o1 (rnd1 :: nat \<Rightarrow> rat) i1 (f1 :: ('a, 'b) async) (a1 :: nat)
      (s1 :: js_num list) (w1 :: 'b) (r1 :: (thrown + 'a) \<times> js_num list \<times> 'b).
        \<not> (o1 = o' \<and> i1 = isWrite \<and> f1 = fn))"
  have "P o' rnd isWrite fn a slept w r"
  proof (rule retry_loop.raw_induct [OF _ assms(1)])
    fix loop o1 rnd1 i1 f1 a1 s1 w1 r1
    assume IH: "\<And>o2 rnd2 i2 f2 a2 s2 w2 r2.
        loop o2 rnd2 i2 f2 a2 s2 w2 = Some r2 \<Longrightarrow> P o2 rnd2 i2 f2 a2 s2 w2 r2"
      and eq: "Option.bind (f1 w1) (\<lambda>(res, w'). case res of
          Inl err \<Rightarrow>
            if \<not> shouldRetry o1 err i1 a1 then Some (Inl (rethrow err), s1, w')
            else (let slept' = s1 @ [computeBackoffMs o1 (rnd1 a1) a1]; attempt' = a1 + 1
              in if js_lt (max_attempts o1) (num_of_nat attempt')
                 then Some (Inl (rethrow err), slept', w')
                 else loop o1 rnd1 i1 f1 attempt' slept' w')
        | Inr v \<Rightarrow> Some (Inr v, s1, w')) = Some r1"
    show "P o1 rnd1 i1 f1 a1 s1 w1 r1"
    proof (cases "o1 = o' \<and> i1 = isWrite \<and> f1 = fn")
      case True
      from assms(3) obtain e w2 where "fn w1 = Some (Inl e, w2)"
        and "code_of e \<in> Some ` set (getRetryableCodes o')" by blast
      with eq True retry assms(2) have
        "loop o' rnd1 isWrite fn (a1 + 1) (s1 @ [computeBackoffMs o' (rnd1 a1) a1]) w2 = Some r1"
        by (simp add: Let_def)
      from IH [OF this] show ?thesis by (simp add: P_def)
    next
      case False
      then show ?thesis by (auto simp: P_def)
    qed
  qed
  then show False by (simp add: P_def)
qed

text \<open>What is thrown to the caller never is a raw gRPC error.\<close>

lemma retry_loop_translated:
  assumes "retry_loop o' rnd isWrite fn a slept w = Some r"
  shows "\<forall>e sl w'. r = (Inl e, sl, w') \<longrightarrow> code_of e = None"
proof (rule retry_loop.raw_induct [where
      P = "\<lambda>_ _ _ _ _ _ _ r. \<forall>e sl w'. r = (Inl e, sl, w') \<longrightarrow> code_of e = None", OF _ assms])
  fix loop o1 rnd1 i1 and f1 :: "('a, 'b) async" and a1 s1 w1 r1
  assume IH: "\<And>o2 rnd2 i2 f2 a2 s2 w2 r2. loop o2 rnd2 i2 f2 a2 s2 w2 = Some r2 \<Longrightarrow>
      \<forall>e sl w'. r2 = (Inl e, sl, w') \<longrightarrow> code_of e = None"
    and eq: "Option.bind (f1 w1) (\<lambda>(res, w'). case res of
          Inl err \<Rightarrow>
            if \<not> shouldRetry o1 err i1 a1 then Some (Inl (rethrow err), s1, w')
            else (let slept' = s1 @ [computeBackoffMs o1 (rnd1 a1) a1]; attempt' = a1 + 1
              in if js_lt (max_attempts o1) (num_of_nat attempt')
                 then Some (Inl (rethrow err), slept', w')
                 else loop o1 rnd1 i1 f1 attempt' slept' w')
        | Inr v \<Rightarrow> Some (Inr v, s1, w')) = Some r1"
  have no_code: "code_of (rethrow err) = None" for err
    by (cases err) simp_all
  from eq obtain res w2 where f1: "f1 w1 = Some (res, w2)"
    by (auto simp: bind_eq_Some_conv)
  show "\<forall>e sl w'. r1 = (Inl e, sl, w') \<longrightarrow> code_of e = None"
  proof (cases res)
    case (Inl err)
    with eq f1 IH [of o1 rnd1 i1 f1 "a1 + 1" "s1 @ [computeBackoffMs o1 (rnd1 a1) a1]" w2 r1]
    show ?thesis by (auto simp: Let_def no_code split: if_splits)
  next
    case (Inr v)
    with eq f1 show ?thesis by auto
  qed
qed

lemma callWithRetry_write:
  assumes "\<not> truthy_obool (o_retryOnWrites o')" "fn w = Some (res, w')"
  shows "callWithRetry o' rnd True fn w = Some (settle res, [], w')"
proof (cases res)
  case (Inl e)
  with retry_loop_stop [of fn w e w' o' True 1 rnd "[]"] assms shouldRetry_write show ?thesis
    by (simp add: callWithRetry_def settle_def)
next
  case (Inr v)
  with retry_loop_Inr [of fn w v w' o' rnd True 1 "[]"] assms show ?thesis
    by (simp add: callWithRetry_def settle_def)
qed

lemma callWithRetry_Inr:
  "fn w = Some (Inr v, w') \<Longrightarrow> callWithRetry o' rnd isWrite fn w = Some (Inr v, [], w')"
  by (simp add: callWithRetry_def retry_loop_Inr)

lemma callWithRetry_TError:
  "fn w = Some (Inl (TError e), w') \<Longrightarrow>
     callWithRetry o' rnd isWrite fn w = Some (Inl (TError e), [], w')"
  using retry_loop_stop [of fn w "TError e" w' o' isWrite 1 rnd "[]"] shouldRetry_service
  by (fastforce simp: callWithRetry_def)

lemma callWithRetry_translated:
  assumes "callWithRetry o' rnd isWrite fn w = Some (Inl e, slept, w')"
  shows "instanceof_VectronError e \<or> (\<exists>x. e = TOther x)"
proof -
  from retry_loop_translated [OF assms [unfolded callWithRetry_def]] have "code_of e = None" by simp
  then show ?thesis by (cases e) simp_all
qed

subsection \<open>What the calls of the client rely on\<close>

text \<open>
  A runner executes an operation, perhaps several times. The calls of the client rely on three
  facts: an operation that succeeds at once is not repeated, neither is one that fails with an
  error of the client itself, and what is thrown is not a gRPC error.
\<close>

locale runner =
  fixes run :: "('a, 'w) async \<Rightarrow> 'w \<Rightarrow> ((thrown + 'a) \<times> js_num list \<times> 'w) option"
  assumes run_Inr: "fn w = Some (Inr v, w') \<Longrightarrow> run fn w = Some (Inr v, [], w')"
    and run_TError: "fn w = Some (Inl (TError e), w') \<Longrightarrow> run fn w = Some (Inl (TError e), [], w')"
    and run_translated: "run fn w = Some (Inl t, slept, w') \<Longrightarrow>
        instanceof_VectronError t \<or> (\<exists>x. t = TOther x)"

interpretation retry: runner "callWithRetry o' rnd isWrite" for o' rnd isWrite
  by unfold_locales (rule callWithRetry_Inr callWithRetry_TError callWithRetry_translated; assumption)+

section \<open>Laws of the waiting time\<close>

text \<open>The cap: a missing one and 0 are the same, none.\<close>

definition cap_at :: "nat \<Rightarrow> nat \<Rightarrow> nat" where
  "cap_at cap b = (if cap = 0 then b else min b cap)"

lemma cap_at_simps:
  "cap = 0 \<or> b \<le> cap \<Longrightarrow> cap_at cap b = b" "0 < cap \<Longrightarrow> cap \<le> b \<Longrightarrow> cap_at cap b = cap"
  by (auto simp: cap_at_def)

lemma backoff_loop_step:
  assumes "nullish mb (Fin 0) = num_of_nat cap"
  shows "backoff_loop (Suc n) (num_of_nat m) mb (num_of_nat b) =
     (if 0 < cap \<and> cap < b * m then num_of_nat cap else backoff_loop n (num_of_nat m) mb (num_of_nat (b * m)))"
proof -
  have floor: "js_floor (js_mul (num_of_nat b) (num_of_nat m)) = num_of_nat (b * m)"
    using floor_of_int [where 'a = rat, of "int (b * m)"] by simp
  have "truthy_num (num_of_nat cap) \<longleftrightarrow> 0 < cap" by (simp add: truthy_num_def)
  moreover have "js_lt (num_of_nat cap) (num_of_nat (b * m)) \<longleftrightarrow> cap < b * m"
    by (simp del: of_nat_mult)
  ultimately show ?thesis
    using assms unfolding backoff_loop.simps floor Let_def by (cases mb) auto
qed

lemma backoff_loop_closed:
  assumes "1 \<le> m" "nullish mb (Fin 0) = num_of_nat cap"
  shows "backoff_loop (Suc n) (num_of_nat m) mb (num_of_nat b) = num_of_nat (cap_at cap (b * m ^ Suc n))"
proof (induction n arbitrary: b)
  case 0
  show ?case unfolding backoff_loop_step [OF assms(2)] by (auto simp: cap_at_def min_def)
next
  case (Suc n)
  show ?case
  proof (cases "0 < cap \<and> cap < b * m")
    case True
    have "b * m * 1 \<le> b * m * m ^ Suc n" using assms(1) by (intro mult_left_mono) simp_all
    then have "b * m \<le> b * m ^ Suc (Suc n)" by (simp add: mult.assoc)
    with True have "cap \<le> b * m ^ Suc (Suc n)" by linarith
    with True show ?thesis by (simp only: backoff_loop_step [OF assms(2)] cap_at_simps simp_thms if_True)
  next
    case False
    have "b * m ^ Suc (Suc n) = b * m * m ^ Suc n" by simp
    with False Suc.IH [of "b * m"] show ?thesis
      by (simp only: backoff_loop_step [OF assms(2), of "Suc n"] simp_thms if_False)
  qed
qed

lemma computeBackoffMs_no_jitter:
  "\<not> js_lt (Fin 0) (nullish (o_retryJitter o') (Fin 0)) \<Longrightarrow>
     computeBackoffMs o' r a = base_backoff o' a"
  by (simp add: computeBackoffMs_def Let_def)

section \<open>Properties\<close>

text \<open>C13: \<^verbatim>\<open>callWithRetry\<close> always settles when \<^verbatim>\<open>retryMaxAttempts\<close> is a finite number:
  whatever the outcomes of the attempts are, the operation is executed at least once and at
  most \<open>max 1 \<lfloor>retryMaxAttempts\<rfloor>\<close> times.\<close>

theorem callWithRetry_terminates:
  assumes "max_attempts o' = Fin q"
  shows "\<exists>res slept n. callWithRetry o' rnd isWrite (scripted outs) 0 = Some (res, slept, n)
           \<and> 1 \<le> n \<and> n \<le> max 1 (nat \<lfloor>q\<rfloor>)"
proof -
  from retry_loop_terminates [OF assms, of 1 rnd isWrite outs "[]" 0]
  show ?thesis by (auto simp: callWithRetry_def)
qed

theorem callWithRetry_terminates_witness:
  "\<exists>res slept n. callWithRetry defaultOptions (\<lambda>_. 0) False
       (scripted (\<lambda>_. Inl (TService \<lparr>code = UNAVAILABLE, details = ''down''\<rparr>) :: thrown + nat)) 0
       = Some (res, slept, n) \<and> 1 \<le> n \<and> n \<le> 3"
  using callWithRetry_terminates [where o' = defaultOptions and q = 3 and rnd = "\<lambda>_. 0"
      and isWrite = False
      and outs = "\<lambda>_. Inl (TService \<lparr>code = UNAVAILABLE, details = ''down''\<rparr>) :: thrown + nat"]
  by (simp add: defaultOptions_def)

text \<open>C5: what \<^verbatim>\<open>callWithRetry\<close> returns, for a \<^verbatim>\<open>retryMaxAttempts\<close> that is a whole number. The loop runs up to the first attempt \<open>k\<close> that
  succeeds or whose error is not to be retried; it returns that outcome (a gRPC error
  translated by \<^verbatim>\<open>_handleError\<close>), has executed the operation \<open>k + 1\<close> times and has slept
  exactly once between consecutive attempts, for the backoff of that attempt.\<close>

theorem callWithRetry_result:
  assumes "whole_limit o'" "stops_at o' isWrite outs k"
    and "\<And>j. j < k \<Longrightarrow> \<not> stops_at o' isWrite outs j"
  shows "callWithRetry o' rnd isWrite (scripted outs) 0 =
           Some (settle (outs k), map (\<lambda>i. computeBackoffMs o' (rnd i) i) [1..<Suc k], Suc k)"
  using retry_loop_stops_at [OF assms(1,2), of 0 rnd "[]"] assms(3)
  by (simp add: callWithRetry_def)

theorem callWithRetry_result_witness:
  "callWithRetry (defaultOptions\<lparr>o_retryJitter := None\<rparr>) (\<lambda>_. 0) False
     (scripted (\<lambda>n. if n < 2 then Inl (TService \<lparr>code = UNAVAILABLE, details = []\<rparr>) else Inr (7::nat))) 0
     = Some (Inr 7, [Fin 100, Fin 200], 3)"
proof -
  define o1 where "o1 = defaultOptions\<lparr>o_retryJitter := None\<rparr>"
  define outs :: "nat \<Rightarrow> thrown + nat" where
    "outs = (\<lambda>n. if n < 2 then Inl (TService \<lparr>code = UNAVAILABLE, details = []\<rparr>) else Inr 7)"
  have "whole_limit o1" by (simp add: whole_limit_def o1_def defaultOptions_def)
  moreover have "stops_at o1 False outs 2" by (simp add: stops_at_def outs_def)
  moreover have "\<not> stops_at o1 False outs j" if "j < 2" for j
    using that by (auto simp: stops_at_def outs_def shouldRetry_def o1_def defaultOptions_def
        getRetryableCodes_def)
  ultimately have "callWithRetry o1 (\<lambda>_. 0) False (scripted outs) 0 =
      Some (settle (outs 2), map (\<lambda>i. computeBackoffMs o1 0 i) [1..<Suc 2], Suc 2)"
    by (rule callWithRetry_result)
  moreover have "map (\<lambda>i. computeBackoffMs o1 0 i) [1..<Suc 2] = [Fin 100, Fin 200]"
    by (simp add: upt_rec computeBackoffMs_def base_backoff_def o1_def defaultOptions_def)
  ultimately show ?thesis by (simp add: o1_def outs_def settle_def)
qed

text \<open>C14: a write is never repeated unless \<^verbatim>\<open>retryOnWrites\<close> is set: the operation is executed
  exactly once, nothing is slept, and its outcome is returned.\<close>

theorem write_executed_once:
  assumes "\<not> truthy_obool (o_retryOnWrites o')" "fn w = Some (res, w')"
  shows "callWithRetry o' rnd True fn w = Some (settle res, [], w')"
  using assms by (rule callWithRetry_write)

theorem write_executed_once_witness:
  "callWithRetry defaultOptions (\<lambda>_. 0) True
     (scripted (\<lambda>_. Inl (TService \<lparr>code = UNAVAILABLE, details = ''x''\<rparr>) :: thrown + unit)) 0
   = Some (settle (Inl (TService \<lparr>code = UNAVAILABLE, details = ''x''\<rparr>)), [], 1)"
  by (rule write_executed_once) (simp_all add: defaultOptions_def scripted_def)

text \<open>with \<^verbatim>\<open>retryMaxAttempts\<close> set to \<^verbatim>\<open>NaN\<close> both tests against the limit are false, so a
  service that stays unavailable is retried for ever: the call never settles.\<close>

theorem nan_limit_never_settles:
  assumes "max_attempts o' = NaN"
    and "\<And>n. \<exists>s. outs n = Inl (TService s) \<and> code s \<in> set (getRetryableCodes o')"
    and "\<not> isWrite \<or> truthy_obool (o_retryOnWrites o')"
  shows "callWithRetry o' rnd isWrite (scripted outs) 0 = None"
proof (rule ccontr)
  assume "callWithRetry o' rnd isWrite (scripted outs) 0 \<noteq> None"
  then obtain r where "retry_loop o' rnd isWrite (scripted outs) 1 [] 0 = Some r"
    by (auto simp: callWithRetry_def)
  moreover have "\<exists>e w''. scripted outs w' = Some (Inl e, w'') \<and>
      code_of e \<in> Some ` set (getRetryableCodes o')" for w'
    using assms(2) [of w'] by (auto simp: scripted_def)
  moreover have "isWrite \<longrightarrow> truthy_obool (o_retryOnWrites o')" using assms(3) by blast
  ultimately show False
    using retry_loop_no_return [where fn = "scripted outs"] assms(1) by metis
qed

theorem nan_limit_never_settles_witness:
  "callWithRetry (defaultOptions\<lparr>o_retryMaxAttempts := Some NaN\<rparr>) (\<lambda>_. 0) False
     (scripted (\<lambda>_. Inl (TService \<lparr>code = UNAVAILABLE, details = []\<rparr>) :: thrown + unit)) 0 = None"
  by (rule nan_limit_never_settles) (simp_all add: defaultOptions_def getRetryableCodes_def)

text \<open>whatever the operation does, an error that \<^verbatim>\<open>callWithRetry\<close> throws is never a raw
  gRPC error: it is one of the client's own classes, or a value without a status code that
  the operation itself threw.\<close>

theorem callWithRetry_translates_errors:
  assumes "callWithRetry o' rnd isWrite fn w = Some (Inl e, slept, w')"
  shows "instanceof_VectronError e \<or> (\<exists>x. e = TOther x)"
  using assms by (rule callWithRetry_translated)

theorem callWithRetry_translates_errors_witness:
  "instanceof_VectronError (TError (handleError \<lparr>code = NOT_FOUND, details = ''gone''\<rparr>)) \<or>
     (\<exists>x. TError (handleError \<lparr>code = NOT_FOUND, details = ''gone''\<rparr>) = TOther x)"
proof (rule callWithRetry_translates_errors)
  show "callWithRetry defaultOptions (\<lambda>_. 0) False
      (scripted (\<lambda>_. Inl (TService \<lparr>code = NOT_FOUND, details = ''gone''\<rparr>) :: thrown + unit)) 0
      = Some (Inl (TError (handleError \<lparr>code = NOT_FOUND, details = ''gone''\<rparr>)), [], 1)"
    by (simp add: callWithRetry_def retry_loop.simps scripted_def shouldRetry_def
        defaultOptions_def getRetryableCodes_def)
qed

text \<open>C27: exponential backoff with a cap, for options that are whole numbers. With the initial backoff
  raised to at least 1 and the multiplier to at least 2, the wait before jitter after the first attempt
  is the initial backoff, which is not capped; after attempt \<open>a \<ge> 2\<close> it is
  \<open>initial * multiplier ^ (a - 1)\<close>, cut to \<^verbatim>\<open>retryMaxBackoffMs\<close> unless that is 0 or missing. Missing
  options are 100 and 2.\<close>

theorem backoff_is_capped_exponential:
  assumes "nullish (o_retryInitialBackoffMs o') (Fin 100) = num_of_nat i"
    and "nullish (o_retryBackoffMultiplier o') (Fin 2) = num_of_nat m"
    and "nullish (o_retryMaxBackoffMs o') (Fin 0) = num_of_nat cap"
  shows "base_backoff o' a =
     num_of_nat (if a \<le> 1 then max i 1
       else if cap = 0 then max i 1 * max m 2 ^ (a - 1) else min (max i 1 * max m 2 ^ (a - 1)) cap)"
proof -
  have *: "max (of_nat m) (2::rat) = of_nat (max m 2)" "max (of_nat i) (1::rat) = of_nat (max i 1)"
    by (simp_all add: max_def)
  show ?thesis
  proof (cases "a \<le> 1")
    case True
    with assms(1) show ?thesis by (simp add: base_backoff_def *)
  next
    case False
    then obtain n where n: "a = Suc (Suc n)" by (metis One_nat_def Suc_le_D not_less_eq_eq)
    have "base_backoff o' a = backoff_loop (Suc n) (num_of_nat (max m 2)) (o_retryMaxBackoffMs o') (num_of_nat (max i 1))"
      using assms(1,2) by (simp add: base_backoff_def n * del: of_nat_max)
    also have "\<dots> = num_of_nat (cap_at cap (max i 1 * max m 2 ^ Suc n))"
      by (rule backoff_loop_closed [OF _ assms(3)]) simp
    finally show ?thesis by (simp only: n cap_at_def) simp
  qed
qed

theorem backoff_is_capped_exponential_witness:
  "base_backoff defaultOptions 1 = num_of_nat 100 \<and> base_backoff defaultOptions 4 = num_of_nat 800
   \<and> base_backoff defaultOptions 6 = num_of_nat 2000"
  using backoff_is_capped_exponential [where o' = defaultOptions and i = 100 and m = 2 and cap = 2000]
  by (simp add: defaultOptions_def)

text \<open>the cap is not applied before the first retry. Whatever \<^verbatim>\<open>retryMaxBackoffMs\<close> is,
  the wait before the second attempt, without jitter, is the initial backoff.\<close>

theorem first_wait_ignores_cap:
  assumes "o_retryJitter o' = Some (Fin 0)" "o_retryInitialBackoffMs o' = Some (Fin i)" "1 \<le> i"
  shows "computeBackoffMs o' r 1 = Fin i"
proof -
  have "max i 1 = i" using assms(3) by simp
  with assms show ?thesis
    by (simp add: computeBackoffMs_no_jitter base_backoff_def)
qed

theorem first_wait_ignores_cap_witness:
  "js_lt (Fin 2000)
     (computeBackoffMs (defaultOptions\<lparr>o_retryJitter := Some (Fin 0),
        o_retryInitialBackoffMs := Some (Fin 5000)\<rparr>) 0 1)"
  using first_wait_ignores_cap [where i = 5000 and r = 0
      and o' = "defaultOptions\<lparr>o_retryJitter := Some (Fin 0),
        o_retryInitialBackoffMs := Some (Fin 5000)\<rparr>"]
  by simp

text \<open>C28: jitter spreads the wait around the backoff: with a backoff of \<open>b\<close> and a jitter
  fraction \<open>j\<close>, the wait is a whole number of milliseconds, at least zero, between
  \<open>\<lfloor>b (1 - j)\<rfloor>\<close> and \<open>b (1 + j)\<close>.\<close>

theorem jitter_bounds:
  assumes b: "base_backoff o' a = Fin b" "0 \<le> b"
    and j: "o_retryJitter o' = Some (Fin j)" "0 < j"
    and r: "0 \<le> r" "r < 1"
  shows "\<exists>ms. computeBackoffMs o' r a = num_of_int ms \<and> 0 \<le> ms
           \<and> \<lfloor>b * (1 - j)\<rfloor> \<le> ms \<and> of_int ms \<le> b * (1 + j)"
proof -
  define d where "d = (r * 2 - 1) * j"
  have d: "- j \<le> d" "d \<le> j"
  proof -
    have "(-1) * j \<le> (r * 2 - 1) * j" using j(2) r by (intro mult_right_mono) simp_all
    then show "- j \<le> d" by (simp add: d_def)
    have "(r * 2 - 1) * j \<le> 1 * j" using j(2) r by (intro mult_right_mono) simp_all
    then show "d \<le> j" by (simp add: d_def)
  qed
  define ms where "ms = max 0 \<lfloor>b * (1 + d)\<rfloor>"
  have "computeBackoffMs o' r a = num_of_int ms"
    using b j by (simp add: computeBackoffMs_def d_def ms_def of_int_max)
  moreover have "\<lfloor>b * (1 - j)\<rfloor> \<le> ms"
  proof -
    have "b * (1 - j) \<le> b * (1 + d)" using b(2) d(1) by (intro mult_left_mono) simp_all
    then have "\<lfloor>b * (1 - j)\<rfloor> \<le> \<lfloor>b * (1 + d)\<rfloor>" by (rule floor_mono)
    then show ?thesis by (simp add: ms_def)
  qed
  moreover have "of_int ms \<le> b * (1 + j)"
  proof -
    have "b * (1 + d) \<le> b * (1 + j)" using b(2) d(2) by (intro mult_left_mono) simp_all
    then have "of_int \<lfloor>b * (1 + d)\<rfloor> \<le> b * (1 + j)"
      using of_int_floor_le order_trans by blast
    moreover have "0 \<le> b * (1 + j)" using b(2) j(2) by simp
    ultimately show ?thesis by (simp add: ms_def of_int_max)
  qed
  ultimately show ?thesis by (auto simp: ms_def)
qed

theorem jitter_bounds_witness:
  "\<exists>ms. computeBackoffMs defaultOptions (1 / 2) 1 = num_of_int ms \<and> 0 \<le> ms
     \<and> \<lfloor>(100::rat) * (1 - 1 / 5)\<rfloor> \<le> ms \<and> of_int ms \<le> (100::rat) * (1 + 1 / 5)"
  by (rule jitter_bounds) (simp_all add: defaultOptions_def base_backoff_def)

end
