(* ===== verification/Hedged_Read.thy ===== *)
theory Hedged_Read
  imports Retry
begin

text \<open>
  Hedged reads of \<^verbatim>\<open>client.ts\<close>: \<^verbatim>\<open>hedged\<close> starts an operation, starts it a second
  time if no result has arrived after a delay, and settles its promise from whichever run
  comes first; \<^verbatim>\<open>callRead\<close> chooses between the hedged and the plain operation.

  One call of \<^verbatim>\<open>hedged\<close> is a state machine. Its state is the closure's variables
  (\<open>settled\<close>, \<open>lastError\<close>, the promise \<open>out\<close>) with the runs in flight and the
  timer; its events are what the JavaScript event loop delivers: a run resolves, a run
  rejects, the timer fires. The order of the events is the environment's choice.
\<close>

section \<open>The state machine\<close>

datatype 'a promise = Pending | Resolved 'a | Rejected thrown

datatype 'a hedge_event = RunResolves 'a | RunRejects thrown | TimerFires

record 'a hedge =
  settled :: bool
  lastError :: "thrown option"
  out :: "'a promise"
  armed :: bool
  in_flight :: nat
  started :: nat

text \<open>The calls \<^verbatim>\<open>run()\<close> and \<^verbatim>\<open>setTimeout\<close> made before \<^verbatim>\<open>hedged\<close> first waits.\<close>

definition hedged_start :: "js_num \<Rightarrow> 'a hedge" where
  "hedged_start delayMs =
     \<lparr>settled = False, lastError = None, out = Pending, armed = js_lt (Fin 0) delayMs,
      in_flight = 1, started = 1\<rparr>"

text \<open>The two halves of \<^verbatim>\<open>run\<close> after its \<^verbatim>\<open>await fn()\<close>.\<close>

definition run_resolves :: "'a \<Rightarrow> 'a hedge \<Rightarrow> 'a hedge" where
  "run_resolves res s =
     (let s1 = s\<lparr>in_flight := in_flight s - 1\<rparr> in
      if \<not> settled s1 then s1\<lparr>settled := True, out := Resolved res\<rparr> else s1)"

definition run_rejects :: "js_num \<Rightarrow> thrown \<Rightarrow> 'a hedge \<Rightarrow> 'a hedge" where
  "run_rejects delayMs err s =
     (let s1 = s\<lparr>in_flight := in_flight s - 1, lastError := Some err\<rparr> in
      if settled s1 then s1
      else if js_eq delayMs (Fin 0) then s1\<lparr>settled := True, out := Rejected err\<rparr>
      else s1)"

definition timer_fires :: "'a hedge \<Rightarrow> 'a hedge" where
  "timer_fires s =
     (let s1 = s\<lparr>armed := False\<rparr> in
      if \<not> settled s1 then s1\<lparr>in_flight := in_flight s1 + 1, started := started s1 + 1\<rparr> else s1)"

text \<open>An event can happen when a run is in flight, or the timer is armed.\<close>

inductive hedge_step :: "js_num \<Rightarrow> 'a hedge \<Rightarrow> 'a hedge_event \<Rightarrow> 'a hedge \<Rightarrow> bool" where
  resolves: "0 < in_flight s \<Longrightarrow> hedge_step d s (RunResolves v) (run_resolves v s)"
| rejects: "0 < in_flight s \<Longrightarrow> hedge_step d s (RunRejects e) (run_rejects d e s)"
| timer: "armed s \<Longrightarrow> hedge_step d s TimerFires (timer_fires s)"

inductive hedge_reach :: "js_num \<Rightarrow> 'a hedge \<Rightarrow> 'a hedge_event list \<Rightarrow> bool" where
  start: "hedge_reach d (hedged_start d) []"
| step: "hedge_reach d s es \<Longrightarrow> hedge_step d s e t \<Longrightarrow> hedge_reach d t (es @ [e])"

inductive_cases hedge_step_resolvesE: "hedge_step d s (RunResolves v) t"
inductive_cases hedge_step_rejectsE: "hedge_step d s (RunRejects e) t"
inductive_cases hedge_step_timerE: "hedge_step d s TimerFires t"
inductive_simps hedge_step_simps [simp]:
  "hedge_step d s (RunResolves v) t"
  "hedge_step d s (RunRejects e) t"
  "hedge_step d s TimerFires t"

text \<open>The same machine as a function, for execution: \<open>None\<close> if an event cannot happen.\<close>

fun hedge_exec :: "js_num \<Rightarrow> 'a hedge \<Rightarrow> 'a hedge_event list \<Rightarrow> 'a hedge option" where
  "hedge_exec d s [] = Some s"
| "hedge_exec d s (RunResolves v # es) =
     (if 0 < in_flight s then hedge_exec d (run_resolves v s) es else None)"
| "hedge_exec d s (RunRejects e # es) =
     (if 0 < in_flight s then hedge_exec d (run_rejects d e s) es else None)"
| "hedge_exec d s (TimerFires # es) =
     (if armed s then hedge_exec d (timer_fires s) es else None)"

text \<open>The \<^verbatim>\<open>return await out\<close> at the end of \<^verbatim>\<open>hedged\<close>: \<open>None\<close> while the promise is pending.\<close>

definition hedged_result :: "'a hedge \<Rightarrow> (thrown + 'a) option" where
  "hedged_result s =
     (case out s of Pending \<Rightarrow> None | Resolved v \<Rightarrow> Some (Inr v) | Rejected e \<Rightarrow> Some (Inl e))"

lemmas hedge_defs =
  hedged_start_def run_resolves_def run_rejects_def timer_fires_def hedged_result_def Let_def

section \<open>Reading through \<^verbatim>\<open>callRead\<close>\<close>

text \<open>
  The environment's part of one hedged call is the complete sequence of events it delivers;
  the call settles with the result of the machine after them.
\<close>

definition hedged :: "js_num \<Rightarrow> ('w \<Rightarrow> 'a hedge_event list \<times> 'w) \<Rightarrow> ('a, 'w) async" where
  "hedged delayMs env w =
     (case env w of (es, w') \<Rightarrow>
        Option.bind (hedge_exec delayMs (hedged_start delayMs) es) (\<lambda>s.
          Option.bind (hedged_result s) (\<lambda>r. Some (r, w'))))"

definition hedge_delay :: "norm_options \<Rightarrow> js_num" where
  "hedge_delay o' = js_max (nullish (o_hedgeDelayMs o') (Fin 75)) (Fin 0)"

definition callRead ::
  "norm_options \<Rightarrow> (nat \<Rightarrow> rat) \<Rightarrow> ('a, 'w) async \<Rightarrow> ('w \<Rightarrow> 'a hedge_event list \<times> 'w) \<Rightarrow> 'w
     \<Rightarrow> ((thrown + 'a) \<times> js_num list \<times> 'w) option" where
  "callRead o' rnd fn env w =
     (if \<not> truthy_obool (o_hedgedReads o') then callWithRetry o' rnd False fn w
      else callWithRetry o' rnd False (hedged (hedge_delay o') env) w)"

section \<open>Invariants\<close>

definition hedge_inv :: "js_num \<Rightarrow> 'a hedge \<Rightarrow> 'a hedge_event list \<Rightarrow> bool" where
  "hedge_inv d s es \<longleftrightarrow>
     (settled s \<longleftrightarrow> out s \<noteq> Pending)
     \<and> in_flight s \<le> started s
     \<and> 1 \<le> started s
     \<and> (armed s \<longrightarrow> started s = 1)
     \<and> started s \<le> 2
     \<and> (\<not> js_lt (Fin 0) d \<longrightarrow> \<not> armed s \<and> started s = 1)
     \<and> (\<forall>e. out s = Rejected e \<longrightarrow> js_eq d (Fin 0) \<and> RunRejects e \<in> set es)
     \<and> (\<forall>v. out s = Resolved v \<longrightarrow> RunResolves v \<in> set es)"

lemma hedge_inv_start: "hedge_inv d (hedged_start d) []"
  by (simp add: hedge_inv_def hedged_start_def)

lemma hedge_inv_step:
  "hedge_step d s e t \<Longrightarrow> hedge_inv d s es \<Longrightarrow> hedge_inv d t (es @ [e])"
  by (induction rule: hedge_step.induct)
     (auto simp: hedge_inv_def run_resolves_def run_rejects_def timer_fires_def Let_def)

lemma hedge_reach_inv: "hedge_reach d s es \<Longrightarrow> hedge_inv d s es"
  by (induction rule: hedge_reach.induct) (auto intro: hedge_inv_start hedge_inv_step)

lemma hedge_step_settled:
  "hedge_step d s e t \<Longrightarrow> settled s \<Longrightarrow> settled t \<and> out t = out s"
  by (induction rule: hedge_step.induct)
     (auto simp: run_resolves_def run_rejects_def timer_fires_def Let_def)

text \<open>What the promise becomes: the outcome of the first event that settles it.\<close>

fun first_outcome :: "js_num \<Rightarrow> 'a hedge_event list \<Rightarrow> 'a promise" where
  "first_outcome d [] = Pending"
| "first_outcome d (RunResolves v # es) = Resolved v"
| "first_outcome d (RunRejects e # es) =
     (if js_eq d (Fin 0) then Rejected e else first_outcome d es)"
| "first_outcome d (TimerFires # es) = first_outcome d es"

lemma first_outcome_append:
  "first_outcome d (es @ es') = (if first_outcome d es = Pending then first_outcome d es' else first_outcome d es)"
  by (induction d es rule: first_outcome.induct) simp_all

lemma hedge_step_outcome:
  "hedge_step d s e t \<Longrightarrow> settled s = (out s \<noteq> Pending) \<Longrightarrow>
     out t = (if out s = Pending then first_outcome d [e] else out s)"
  by (induction rule: hedge_step.induct)
     (auto simp: run_resolves_def run_rejects_def timer_fires_def Let_def)

lemma hedge_reach_outcome: "hedge_reach d s es \<Longrightarrow> out s = first_outcome d es"
proof (induction rule: hedge_reach.induct)
  case (step d s es e t)
  from hedge_reach_inv [OF step.hyps(1)] have "settled s = (out s \<noteq> Pending)"
    by (simp add: hedge_inv_def)
  from hedge_step_outcome [OF step.hyps(2) this] step.IH show ?case
    by (simp add: first_outcome_append)
qed (simp add: hedged_start_def)

text \<open>The executable runs are exactly the runs of the step relation.\<close>

lemma hedge_exec_append:
  "hedge_exec d s (es @ es') = Option.bind (hedge_exec d s es) (\<lambda>t. hedge_exec d t es')"
  by (induction d s es rule: hedge_exec.induct) simp_all

lemma hedge_exec_idle:
  assumes "in_flight s = 0" "\<not> armed s"
  shows "hedge_exec d s es = (if es = [] then Some s else None)"
proof (cases es)
  case (Cons e es')
  with assms show ?thesis by (cases e) simp_all
qed simp

lemma hedge_exec_single: "hedge_exec d s [e] = Some t \<longleftrightarrow> hedge_step d s e t"
  by (cases e) auto

lemma hedge_exec_settled_out:
  "settled s \<Longrightarrow> hedge_exec d s es = Some t \<Longrightarrow> out t = out s"
proof (induction es arbitrary: s)
  case (Cons e es)
  have "Option.bind (hedge_exec d s [e]) (\<lambda>u. hedge_exec d u es) = Some t"
    using Cons.prems(2) hedge_exec_append [of d s "[e]" es] by simp
  then obtain u where u: "hedge_step d s e u" "hedge_exec d u es = Some t"
    unfolding bind_eq_Some_conv hedge_exec_single by blast
  from hedge_step_settled [OF u(1) Cons.prems(1)] Cons.IH [OF _ u(2)] show ?case by simp
qed simp

lemma hedge_exec_settled:
  "hedge_inv d s es \<Longrightarrow> out s \<noteq> Pending \<Longrightarrow> hedge_exec d s es' = Some t \<Longrightarrow> out t = out s"
  by (simp add: hedge_inv_def hedge_exec_settled_out)

lemma hedge_reach_exec: "hedge_reach d s es \<longleftrightarrow> hedge_exec d (hedged_start d) es = Some s"
proof
  assume "hedge_reach d s es"
  then show "hedge_exec d (hedged_start d) es = Some s"
    by (induction rule: hedge_reach.induct) (simp_all add: hedge_exec_append hedge_exec_single)
next
  assume "hedge_exec d (hedged_start d) es = Some s"
  then show "hedge_reach d s es"
  proof (induction es arbitrary: s rule: rev_induct)
    case Nil
    then show ?case by (auto intro: hedge_reach.start)
  next
    case (snoc e es)
    then obtain u where "hedge_exec d (hedged_start d) es = Some u" "hedge_step d u e s"
      by (auto simp: hedge_exec_append bind_eq_Some_conv hedge_exec_single)
    with snoc.IH show ?case by (auto intro: hedge_reach.step)
  qed
qed

lemma hedged_Some:
  assumes "hedged d env w = Some (r, w')"
  shows "\<exists>es s. env w = (es, w') \<and> hedge_reach d s es \<and> hedged_result s = Some r"
  using assms by (auto simp: hedged_def hedge_reach_exec bind_eq_Some_conv split: prod.splits)

lemma hedged_never_throws:
  fixes env :: "'w \<Rightarrow> 'a hedge_event list \<times> 'w"
  assumes "\<not> js_eq d (Fin 0)"
  shows "hedged d env w \<noteq> Some (Inl e, w')"
proof
  assume "hedged d env w = Some (Inl e, w')"
  from hedged_Some [OF this] obtain es and s :: "'a hedge" where
    "hedge_reach d s es" "hedged_result s = Some (Inl e)" by blast
  with hedge_reach_inv [of d s es] assms show False
    by (auto simp: hedge_inv_def hedged_result_def split: promise.splits)
qed

text \<open>All runs failed and nothing left to wait for.\<close>

lemma hedge_failed_stuck:
  assumes "hedge_reach d s es" "\<not> js_eq d (Fin 0)" "\<And>v. RunResolves v \<notin> set es"
  shows "out s = Pending"
  using hedge_reach_inv [OF assms(1)] assms(2,3)
  by (cases "out s") (auto simp: hedge_inv_def)

section \<open>Properties\<close>

text \<open>C8: a hedged read starts the operation at most twice, and its promise is settled at most once:
  it is the outcome of the first event that settles it, the first run to resolve (or, with a delay
  of zero, the first run to settle), and whatever happens after it is settled leaves it as it is.\<close>

theorem hedged_settles_once:
  assumes "hedge_reach d s es"
  shows "1 \<le> started s \<and> started s \<le> 2
     \<and> out s = first_outcome d es
     \<and> (\<forall>v. out s = Resolved v \<longrightarrow> RunResolves v \<in> set es)
     \<and> (\<forall>es' t. out s \<noteq> Pending \<and> hedge_exec d s es' = Some t \<longrightarrow> out t = out s)"
  using hedge_reach_inv [OF assms] hedge_reach_outcome [OF assms] hedge_exec_settled [OF hedge_reach_inv [OF assms]]
  by (simp add: hedge_inv_def) blast

theorem hedged_settles_once_witness:
  "let s = run_resolves (7::nat) (timer_fires (hedged_start (Fin 75))) in
     out s = Resolved 7 \<and> out (run_resolves 8 s) = Resolved 7 \<and> 1 \<le> started s \<and> started s \<le> 2
     \<and> out s = first_outcome (Fin 75) [TimerFires, RunResolves 7]"
proof -
  let ?s = "run_resolves (7::nat) (timer_fires (hedged_start (Fin 75)))"
  have "hedge_reach (Fin 75) ?s [TimerFires, RunResolves 7]"
    by (simp add: hedge_reach_exec hedge_defs)
  note s = hedged_settles_once [OF this]
  moreover have "hedge_exec (Fin 75) ?s [RunResolves 8] = Some (run_resolves 8 ?s)"
    by (simp add: hedge_defs)
  with s have "out (run_resolves 8 ?s) = out ?s" by (metis first_outcome.simps(2,4) promise.distinct(1))
  ultimately show ?thesis by (simp add: Let_def)
qed

text \<open>with a positive delay a hedged read loses errors. Whatever errors the runs reject
  with, the promise is never rejected, and after every run has failed it is still pending and
  no event is left that could settle it.\<close>

theorem hedged_failure_hangs:
  assumes "js_lt (Fin 0) d" "hedge_reach d s es"
    and "\<And>v. RunResolves v \<notin> set es" "in_flight s = 0" "\<not> armed s"
  shows "hedged_result s = None \<and> (\<forall>e t. \<not> hedge_step d s e t)"
proof -
  from assms(1) have "\<not> js_eq d (Fin 0)" by (auto simp: js_eq_def)
  with hedge_failed_stuck assms(2,3) have "out s = Pending" by blast
  moreover have "\<not> hedge_step d s e t" for e t
    using assms(4,5) by (cases e) simp_all
  ultimately show ?thesis by (simp add: hedged_result_def)
qed

theorem hedged_failure_hangs_witness:
  "let d = Fin 75; e = TService \<lparr>code = NOT_FOUND, details = ''no such point''\<rparr>;
       s = run_rejects d e (run_rejects d e (timer_fires (hedged_start d))) :: nat hedge
   in hedged_result s = None \<and> (\<forall>ev t. \<not> hedge_step d s ev t)"
proof -
  define e where "e = TService \<lparr>code = NOT_FOUND, details = ''no such point''\<rparr>"
  define s :: "nat hedge" where
    "s = run_rejects (Fin 75) e (run_rejects (Fin 75) e (timer_fires (hedged_start (Fin 75))))"
  have "hedge_reach (Fin 75) s [TimerFires, RunRejects e, RunRejects e]"
    by (simp add: hedge_reach_exec s_def hedge_defs js_eq_def)
  then have "hedged_result s = None \<and> (\<forall>ev t. \<not> hedge_step (Fin 75) s ev t)"
    by (rule hedged_failure_hangs [rotated])
       (auto simp: s_def hedge_defs js_eq_def)
  then show ?thesis by (simp add: s_def e_def Let_def)
qed

text \<open>C9: consequently \<^verbatim>\<open>callRead\<close> with hedging enabled and a delay that is not zero (\<open>hedge_delay\<close> is 75 ms by
  default, and zero if \<^verbatim>\<open>hedgeDelayMs\<close> is zero or negative, when rejections do get through) never
  reports an error: no retry happens and no exception reaches the caller, whatever the
  network does; a read whose runs all fail never settles.\<close>

theorem hedged_callRead_never_throws:
  assumes "truthy_obool (o_hedgedReads o')" "\<not> js_eq (hedge_delay o') (Fin 0)"
  shows "callRead o' rnd fn env w = None
     \<or> (\<exists>v w'. callRead o' rnd fn env w = Some (Inr v, [], w'))"
proof -
  define h where "h = hedged (hedge_delay o') env"
  have "callRead o' rnd fn env w = retry_loop o' rnd False h 1 [] w"
    using assms(1) by (simp add: callRead_def callWithRetry_def h_def)
  moreover have "h w = None \<or> (\<exists>v w'. h w = Some (Inr v, w'))"
    using hedged_never_throws [OF assms(2)] unfolding h_def
    by (metis (no_types, lifting) option.exhaust prod.exhaust sum.exhaust)
  ultimately show ?thesis
    using retry_loop_hangs [of h w] retry_loop_Inr [of h w] by metis
qed

theorem hedged_callRead_never_throws_witness:
  "callRead (defaultOptions\<lparr>o_hedgedReads := Some True\<rparr>) (\<lambda>_. 0)
     (\<lambda>w. Some (Inl (TOther ''x''), w) :: ((thrown + nat) \<times> unit) option)
     (\<lambda>w. ([RunRejects (TOther ''x''), TimerFires, RunRejects (TOther ''x'')], w)) () = None"
proof -
  define o1 where "o1 = defaultOptions\<lparr>o_hedgedReads := Some True\<rparr>"
  define fn :: "(nat, unit) async" where "fn = (\<lambda>w. Some (Inl (TOther ''x''), w))"
  define env :: "unit \<Rightarrow> nat hedge_event list \<times> unit" where
    "env = (\<lambda>w. ([RunRejects (TOther ''x''), TimerFires, RunRejects (TOther ''x'')], w))"
  have "callRead o1 (\<lambda>_. 0) fn env () = None
      \<or> (\<exists>v w'. callRead o1 (\<lambda>_. 0) fn env () = Some (Inr v, [], w'))"
    by (rule hedged_callRead_never_throws)
       (simp_all add: o1_def defaultOptions_def hedge_delay_def js_eq_def)
  moreover have "hedged (hedge_delay o1) env () = None"
    by (simp add: hedged_def env_def o1_def defaultOptions_def hedge_delay_def hedge_defs js_eq_def)
  then have "callRead o1 (\<lambda>_. 0) fn env () \<noteq> Some (Inr v, [], w')" for v w'
    using retry_loop_hangs [of "hedged (hedge_delay o1) env" "()" o1]
    by (simp add: callRead_def callWithRetry_def o1_def defaultOptions_def)
  ultimately have "callRead o1 (\<lambda>_. 0) fn env () = None" by auto
  then show ?thesis by (simp add: o1_def fn_def env_def)
qed

text \<open>with a delay of zero hedging is off: the operation is started once, no timer is ever
  armed, and the promise settles with the outcome of that single run.\<close>

theorem zero_delay_is_plain:
  assumes "hedge_reach (Fin 0) s es"
  shows "started s = 1 \<and> \<not> armed s \<and>
     hedged_result s =
       (case es of [] \<Rightarrow> None
        | RunResolves v # _ \<Rightarrow> Some (Inr v)
        | RunRejects e # _ \<Rightarrow> Some (Inl e)
        | TimerFires # _ \<Rightarrow> None)"
proof -
  from hedge_reach_inv [OF assms] have *: "started s = 1" "\<not> armed s"
    by (auto simp: hedge_inv_def)
  from assms have run: "hedge_exec (Fin 0) (hedged_start (Fin 0)) es = Some s"
    by (simp add: hedge_reach_exec)
  show ?thesis
  proof (cases es)
    case Nil
    with run * show ?thesis by (auto simp: hedge_defs)
  next
    case (Cons e es')
    with run * show ?thesis
      by (cases e) (auto simp: hedge_exec_idle hedge_defs js_eq_def split: if_splits)
  qed
qed

theorem zero_delay_is_plain_witness:
  "hedged_result (run_rejects (Fin 0) (TOther ''x'') (hedged_start (Fin 0)) :: nat hedge)
     = Some (Inl (TOther ''x''))"
proof -
  have "hedge_reach (Fin 0) (run_rejects (Fin 0) (TOther ''x'') (hedged_start (Fin 0)) :: nat hedge)
      [RunRejects (TOther ''x'')]"
    by (simp add: hedge_reach_exec hedge_defs)
  from zero_delay_is_plain [OF this] show ?thesis by simp
qed

end
