(* ===== verification/Wire.thy ===== *)
theory Wire
  imports Client_Errors
begin

unbundle bit_operations_syntax

text \<open>
  The protobuf layer under the generated messages. \<^verbatim>\<open>BinaryWriter\<close> and \<^verbatim>\<open>BinaryReader\<close>
  of \<^verbatim>\<open>@bufbuild/protobuf/wire\<close> are not part of the repository: they are the parameter
  \<open>W\<close> (a record of their methods) of every definition, and what the generated code relies on
  is stated in the locales \<open>wire_writer\<close>, \<open>wire_reader\<close> and \<open>wire_codec\<close>.

  The generated \<^verbatim>\<open>encode\<close> and \<^verbatim>\<open>decode\<close> functions all have the same shape. \<open>w_seq\<close> and
  \<open>w_if\<close> are their statement sequences; \<open>decode_loop\<close> is the \<^verbatim>\<open>while\<close> loop of every
  \<^verbatim>\<open>decode\<close>, with the \<^verbatim>\<open>switch\<close> over the field number as its argument; \<open>arm_read\<close>,
  \<open>arm_sub\<close> and \<open>arm_packed\<close> are the three kinds of switch arms.
\<close>

section \<open>Methods of the writer and the reader\<close>

type_synonym byte = "8 word"

type_synonym 'w writes = "'w \<Rightarrow> thrown + 'w"

type_synonym ('r, 'v) reads = "'r \<Rightarrow> thrown + 'v \<times> 'r"

record ('w, 'r) wire =
  w_new :: 'w
  w_uint32 :: "js_num \<Rightarrow> 'w writes"
  w_int32 :: "js_num \<Rightarrow> 'w writes"
  w_bool :: "bool \<Rightarrow> 'w writes"
  w_float :: "js_num \<Rightarrow> 'w writes"
  w_string :: "string \<Rightarrow> 'w writes"
  w_bytes :: "byte list \<Rightarrow> 'w writes"
  w_uint64 :: "string \<Rightarrow> 'w writes"
  w_int64 :: "string \<Rightarrow> 'w writes"
  w_fork :: "'w writes"
  w_join :: "'w writes"
  w_finish :: "'w \<Rightarrow> byte list"
  r_new :: "byte list \<Rightarrow> 'r"
  r_pos :: "'r \<Rightarrow> nat"
  r_len :: "'r \<Rightarrow> nat"
  r_uint32 :: "('r, 32 word) reads"
  r_int32 :: "('r, 32 word) reads"
  r_bool :: "('r, bool) reads"
  r_float :: "('r, js_num) reads"
  r_string :: "('r, string) reads"
  r_bytes :: "('r, byte list) reads"
  r_uint64 :: "('r, 64 word) reads"
  r_int64 :: "('r, 64 word) reads"
  r_skip :: "32 word \<Rightarrow> ('r, unit) reads"

section \<open>Statement sequences of \<^verbatim>\<open>encode\<close>\<close>

fun w_seq :: "'w writes list \<Rightarrow> 'w writes" where
  "w_seq [] w = Inr w"
| "w_seq (f # fs) w = res_bind (f w) (w_seq fs)"

definition w_if :: "bool \<Rightarrow> 'w writes \<Rightarrow> 'w writes" where
  "w_if c f w = (if c then f w else Inr w)"

text \<open>\<^verbatim>\<open>writer.uint32(tag)\<close> followed by one write, and by a nested message.\<close>

definition w_field :: "('w, 'r) wire \<Rightarrow> 32 word \<Rightarrow> 'w writes \<Rightarrow> 'w writes" where
  "w_field W tag f = w_seq [w_uint32 W (num_of_nat (unat tag)), f]"

definition w_nested :: "('w, 'r) wire \<Rightarrow> 32 word \<Rightarrow> 'w writes \<Rightarrow> 'w writes" where
  "w_nested W tag f = w_seq [w_uint32 W (num_of_nat (unat tag)), w_fork W, f, w_join W]"

section \<open>The loop of \<^verbatim>\<open>decode\<close>\<close>

text \<open>A computation that may throw and may not return.\<close>

type_synonym 'x comp = "(thrown + 'x) option"

definition c_bind :: "'x comp \<Rightarrow> ('x \<Rightarrow> 'y comp) \<Rightarrow> 'y comp" where
  "c_bind c f = Option.bind c (\<lambda>x. case x of Inl e \<Rightarrow> Some (Inl e) | Inr y \<Rightarrow> f y)"

lemma c_bind_simps [simp]:
  "c_bind None f = None"
  "c_bind (Some (Inl e)) f = Some (Inl e)"
  "c_bind (Some (Inr y)) f = f y"
  by (simp_all add: c_bind_def)

lemma c_bind_mono [partial_function_mono]:
  assumes "mono_option B" and "\<And>y. mono_option (\<lambda>f. C y f)"
  shows "mono_option (\<lambda>f. c_bind (B f) (\<lambda>y. C y f))"
  unfolding c_bind_def
proof (rule bind_mono [OF assms(1)])
  fix x :: "thrown + 'c"
  show "mono_option (\<lambda>f. case x of Inl e \<Rightarrow> Some (Inl e) | Inr y \<Rightarrow> C y f)"
    by (cases x) (simp_all add: assms(2) option.const_mono)
qed

text \<open>An arm of the switch ends in \<^verbatim>\<open>continue\<close>, after a computation, or in \<^verbatim>\<open>break\<close>.\<close>

datatype 'x arm = Break | Continue "'x comp"

type_synonym ('r, 'm) switch = "32 word \<Rightarrow> 'm \<Rightarrow> 'r \<Rightarrow> ('m \<times> 'r) arm"

partial_function (option) decode_loop ::
  "('w, 'r) wire \<Rightarrow> ('r, 'm) switch \<Rightarrow> nat \<Rightarrow> 'm \<Rightarrow> 'r \<Rightarrow> (thrown + 'm \<times> 'r) option" where
  "decode_loop W fld end m r =
     (if r_pos W r < end
      then c_bind (Some (r_uint32 W r)) (\<lambda>(tag, r1).
        case fld tag m r1 of
          Continue c \<Rightarrow> c_bind c (\<lambda>(m2, r2). decode_loop W fld end m2 r2)
        | Break \<Rightarrow>
            if tag AND 7 = 4 \<or> tag = 0 then Some (Inr (m, r1))
            else c_bind (Some (r_skip W (tag AND 7) r1)) (\<lambda>(u, r2). decode_loop W fld end m r2))
      else Some (Inr (m, r)))"

text \<open>\<^verbatim>\<open>decode(reader, length)\<close>: up to the given length, or to the end of the input.\<close>

definition decode_with ::
  "('w, 'r) wire \<Rightarrow> ('r, 'm) switch \<Rightarrow> 'm \<Rightarrow> 'r \<Rightarrow> nat option \<Rightarrow> ('m \<times> 'r) comp" where
  "decode_with W fld base r len =
     decode_loop W fld (case len of None \<Rightarrow> r_len W r | Some n \<Rightarrow> r_pos W r + n) base r"

definition decode_bytes ::
  "('w, 'r) wire \<Rightarrow> ('r \<Rightarrow> nat option \<Rightarrow> ('m \<times> 'r) comp) \<Rightarrow> byte list \<Rightarrow> 'm comp" where
  "decode_bytes W dec bs = c_bind (dec (r_new W bs) None) (\<lambda>(m, r). Some (Inr m))"

subsection \<open>Arms\<close>

definition arm_read :: "('r, 'v) reads \<Rightarrow> ('v \<Rightarrow> 'm) \<Rightarrow> 'r \<Rightarrow> ('m \<times> 'r) arm" where
  "arm_read rd upd r = Continue (c_bind (Some (rd r)) (\<lambda>(v, r'). Some (Inr (upd v, r'))))"

definition arm_sub ::
  "('w, 'r) wire \<Rightarrow> ('r \<Rightarrow> nat option \<Rightarrow> ('x \<times> 'r) comp) \<Rightarrow> ('x \<Rightarrow> 'm) \<Rightarrow> 'r \<Rightarrow> ('m \<times> 'r) arm" where
  "arm_sub W dec upd r =
     Continue (c_bind (Some (r_uint32 W r)) (\<lambda>(n, r1).
       c_bind (dec r1 (Some (unat n))) (\<lambda>(x, r2). Some (Inr (upd x, r2)))))"

partial_function (option) packed_loop ::
  "('w, 'r) wire \<Rightarrow> ('r, 'v) reads \<Rightarrow> nat \<Rightarrow> 'v list \<Rightarrow> 'r \<Rightarrow> (thrown + 'v list \<times> 'r) option" where
  "packed_loop W rd end2 vs r =
     (if r_pos W r < end2
      then c_bind (Some (rd r)) (\<lambda>(v, r'). packed_loop W rd end2 (vs @ [v]) r')
      else Some (Inr (vs, r)))"

definition arm_packed ::
  "('w, 'r) wire \<Rightarrow> ('r, 'v) reads \<Rightarrow> ('v list \<Rightarrow> 'm) \<Rightarrow> 'r \<Rightarrow> ('m \<times> 'r) arm" where
  "arm_packed W rd upd r =
     Continue (c_bind (Some (r_uint32 W r)) (\<lambda>(n, r1).
       c_bind (packed_loop W rd (unat n + r_pos W r1) [] r1) (\<lambda>(vs, r2). Some (Inr (upd vs, r2)))))"

section \<open>What the generated code relies on\<close>

text \<open>The values that the methods write and read.\<close>

datatype prim =
    PUint32 "32 word" | PInt32 "32 word" | PBool bool | PFloat js_num | PString string
  | PBytes "byte list" | PUint64 "64 word" | PInt64 "64 word"

text \<open>A write that succeeds appends the bytes \<open>bs\<close> to the innermost open fork.\<close>

definition appends :: "('w \<Rightarrow> byte list list) \<Rightarrow> 'w writes \<Rightarrow> byte list \<Rightarrow> bool" where
  "appends frames f bs \<longleftrightarrow>
     (\<forall>w w' t fs. frames w = t # fs \<longrightarrow> f w = Inr w' \<longrightarrow> frames w' = (t @ bs) # fs)"

definition never_fails :: "('w \<Rightarrow> byte list list) \<Rightarrow> 'w writes \<Rightarrow> bool" where
  "never_fails frames f \<longleftrightarrow> (\<forall>w. frames w \<noteq> [] \<longrightarrow> (\<exists>w'. f w = Inr w' \<and> frames w' \<noteq> []))"

text \<open>A read positioned at the bytes \<open>bs\<close> returns \<open>v\<close> and moves behind them.\<close>

definition reads_back ::
  "('w, 'r) wire \<Rightarrow> ('r \<Rightarrow> byte list) \<Rightarrow> ('r, 'v) reads \<Rightarrow> byte list \<Rightarrow> 'v \<Rightarrow> bool" where
  "reads_back W buf rd bs v \<longleftrightarrow>
     (\<forall>r rest. drop (r_pos W r) (buf r) = bs @ rest \<longrightarrow>
        (\<exists>r'. rd r = Inr (v, r') \<and> buf r' = buf r \<and> r_pos W r' = r_pos W r + length bs))"

text \<open>A read that returns has moved forward and stays inside the input.\<close>

definition advances :: "('w, 'r) wire \<Rightarrow> ('r \<Rightarrow> byte list) \<Rightarrow> ('r, 'v) reads \<Rightarrow> bool" where
  "advances W buf rd \<longleftrightarrow>
     (\<forall>r v r'. rd r = Inr (v, r') \<longrightarrow>
        buf r' = buf r \<and> r_pos W r < r_pos W r' \<and> r_pos W r' \<le> length (buf r))"

locale wire_writer =
  fixes W :: "('w, 'r) wire"
    and frames :: "'w \<Rightarrow> byte list list"
    and enc :: "prim \<Rightarrow> byte list"
  assumes new: "frames (w_new W) = [[]]"
    and uint32_appends: "appends frames (w_uint32 W (num_of_nat (unat u))) (enc (PUint32 u))"
    and uint32_checked: "w_uint32 W n w = Inr w' \<Longrightarrow> \<exists>u :: 32 word. n = num_of_nat (unat u)"
    and uint32_total: "never_fails frames (w_uint32 W (num_of_nat (unat u)))"
    and int32_appends: "appends frames (w_int32 W (num_of_int (sint u))) (enc (PInt32 u))"
    and int32_checked: "w_int32 W n w = Inr w' \<Longrightarrow> \<exists>u :: 32 word. n = num_of_int (sint u)"
    and int32_total: "never_fails frames (w_int32 W (num_of_int (sint u)))"
    and bool_appends: "appends frames (w_bool W b) (enc (PBool b))"
    and bool_total: "never_fails frames (w_bool W b)"
    and float_appends: "appends frames (w_float W x) (enc (PFloat x))"
    and string_appends: "appends frames (w_string W s) (enc (PString s))"
    and string_total: "length s < 2 ^ 30 \<Longrightarrow> never_fails frames (w_string W s)"
    and bytes_appends: "appends frames (w_bytes W bs) (enc (PBytes bs))"
    and uint64_appends: "appends frames (w_uint64 W (show_nat (unat l))) (enc (PUint64 l))"
    and uint64_total: "never_fails frames (w_uint64 W (show_nat (unat l)))"
    and int64_appends: "appends frames (w_int64 W (show_int (sint l))) (enc (PInt64 l))"
    and int64_total: "never_fails frames (w_int64 W (show_int (sint l)))"
    and fork_opens: "w_fork W w = Inr w' \<Longrightarrow> frames w' = [] # frames w"
    and join_closes: "frames w = t # t' # fs \<Longrightarrow> w_join W w = Inr w' \<Longrightarrow>
        length t < 2 ^ 32 \<and> frames w' = (t' @ enc (PUint32 (of_nat (length t))) @ t) # fs"
    and finish_bytes: "frames w = [t] \<Longrightarrow> w_finish W w = t"

locale wire_reader =
  fixes W :: "('w, 'r) wire"
    and buf :: "'r \<Rightarrow> byte list"
  assumes new_buf: "buf (r_new W bs) = bs"
    and new_pos: "r_pos W (r_new W bs) = 0"
    and len_buf: "r_len W r = length (buf r)"
    and uint32_advances: "advances W buf (r_uint32 W)"
    and int32_advances: "advances W buf (r_int32 W)"
    and bool_advances: "advances W buf (r_bool W)"
    and float_advances: "advances W buf (r_float W)"
    and string_advances: "advances W buf (r_string W)"
    and bytes_advances: "advances W buf (r_bytes W)"
    and uint64_advances: "advances W buf (r_uint64 W)"
    and int64_advances: "advances W buf (r_int64 W)"
    and skip_advances: "advances W buf (r_skip W wt)"

locale wire_codec = wire_writer W frames enc + wire_reader W buf
  for W :: "('w, 'r) wire" and frames and enc and buf +
  fixes fround :: "js_num \<Rightarrow> js_num"
  assumes uint32_reads: "reads_back W buf (r_uint32 W) (enc (PUint32 u)) u"
    and int32_reads: "reads_back W buf (r_int32 W) (enc (PInt32 u)) u"
    and bool_reads: "reads_back W buf (r_bool W) (enc (PBool b)) b"
    and float_reads: "reads_back W buf (r_float W) (enc (PFloat x)) (fround x)"
    and string_reads: "w_string W s w = Inr w' \<Longrightarrow> reads_back W buf (r_string W) (enc (PString s)) s"
    and bytes_reads: "w_bytes W bs w = Inr w' \<Longrightarrow> reads_back W buf (r_bytes W) (enc (PBytes bs)) bs"
    and uint64_reads: "reads_back W buf (r_uint64 W) (enc (PUint64 l)) l"
    and int64_reads: "reads_back W buf (r_int64 W) (enc (PInt64 l)) l"
    and fround_zero: "fround (Fin 0) = Fin 0"

end
