(* ===== verification/Wire_Laws.thy ===== *)
theory Wire_Laws
  imports Wire
begin

unbundle bit_operations_syntax

text \<open>
  The proof rules for generated messages, proved once from the contracts of \<open>Wire\<close>.

  \<^item> \<open>codes e fld m m'\<close>: whatever the statements \<open>e\<close> of an \<^verbatim>\<open>encode\<close> append, the
    loop of \<^verbatim>\<open>decode\<close> with the switch \<open>fld\<close>, started on the message \<open>m\<close>, consumes it
    and is left with \<open>m'\<close>. The relation composes along statement sequences, so the round
    trip of a message is one rule per field.
  \<^item> \<open>arm_total\<close> and \<open>fld_total\<close>: the arms of a switch return and never move the reader
    backwards; then the loop ends on every input.
  \<^item> \<open>fld_keeps\<close> and \<open>yields\<close>: a property that the base message has and every arm keeps holds of
    every message that decoding returns.
\<close>

definition absorbs ::
  "('w, 'r) wire \<Rightarrow> ('r \<Rightarrow> byte list) \<Rightarrow> ('r, 'm) switch \<Rightarrow> 'm \<Rightarrow> byte list \<Rightarrow> 'm \<Rightarrow> bool" where
  "absorbs W buf fld m bs m' \<longleftrightarrow>
     (\<forall>r e rest. drop (r_pos W r) (buf r) = bs @ rest \<longrightarrow> r_pos W r + length bs \<le> e \<longrightarrow>
        (\<exists>r'. decode_loop W fld e m r = decode_loop W fld e m' r' \<and> buf r' = buf r
           \<and> r_pos W r' = r_pos W r + length bs))"

definition codes ::
  "('w, 'r) wire \<Rightarrow> ('w \<Rightarrow> byte list list) \<Rightarrow> ('r \<Rightarrow> byte list) \<Rightarrow> 'w writes \<Rightarrow> ('r, 'm) switch
     \<Rightarrow> 'm \<Rightarrow> 'm \<Rightarrow> bool" where
  "codes W frames buf e fld m m' \<longleftrightarrow>
     (\<forall>w w' t fs. frames w = t # fs \<longrightarrow> e w = Inr w' \<longrightarrow>
        (\<exists>bs. frames w' = (t @ bs) # fs \<and> absorbs W buf fld m bs m'))"

fun arm_total :: "('w, 'r) wire \<Rightarrow> ('r \<Rightarrow> byte list) \<Rightarrow> 'r \<Rightarrow> ('m \<times> 'r) arm \<Rightarrow> bool" where
  "arm_total W buf r Break = True"
| "arm_total W buf r (Continue c) =
     (\<exists>x. c = Some x \<and> (\<forall>m' r'. x = Inr (m', r') \<longrightarrow>
        buf r' = buf r \<and> r_pos W r \<le> r_pos W r' \<and> r_pos W r' \<le> length (buf r)))"

definition fld_total :: "('w, 'r) wire \<Rightarrow> ('r \<Rightarrow> byte list) \<Rightarrow> ('r, 'm) switch \<Rightarrow> bool" where
  "fld_total W buf fld \<longleftrightarrow>
     (\<forall>tag m r. r_pos W r \<le> length (buf r) \<longrightarrow> arm_total W buf r (fld tag m r))"

definition dec_total ::
  "('w, 'r) wire \<Rightarrow> ('r \<Rightarrow> byte list) \<Rightarrow> ('r \<Rightarrow> nat option \<Rightarrow> ('m \<times> 'r) comp) \<Rightarrow> bool" where
  "dec_total W buf dec \<longleftrightarrow>
     (\<forall>r len. r_pos W r \<le> length (buf r) \<longrightarrow> arm_total W buf r (Continue (dec r len)))"

text \<open>The strings that the 64-bit writers accept and the readers print back unchanged.\<close>

definition uint64_string :: "string \<Rightarrow> bool" where
  "uint64_string s \<longleftrightarrow> s = show_nat (parse_nat s) \<and> parse_nat s < 2 ^ 64"

definition int64_string :: "string \<Rightarrow> bool" where
  "int64_string s \<longleftrightarrow>
     s = show_int (parse_int s) \<and> - (2 ^ 63) \<le> parse_int s \<and> parse_int s < 2 ^ 63"

lemma uint64_stringE:
  assumes "uint64_string s"
  obtains l :: "64 word" where "s = show_nat (unat l)"
proof -
  from assms have "unat (of_nat (parse_nat s) :: 64 word) = parse_nat s"
    by (simp add: uint64_string_def unat_of_nat)
  with assms show thesis using that [of "of_nat (parse_nat s)"] by (simp add: uint64_string_def)
qed

lemma int64_stringE:
  assumes "int64_string s"
  obtains l :: "64 word" where "s = show_int (sint l)"
proof -
  from assms have "sint (word_of_int (parse_int s) :: 64 word) = parse_int s"
    by (simp add: int64_string_def sint_sbintrunc' signed_take_bit_int_eq_self)
  with assms show thesis using that [of "word_of_int (parse_int s)"] by (simp add: int64_string_def)
qed

lemma absorbsD:
  assumes "absorbs W buf fld m bs m'" "drop (r_pos W r) (buf r) = bs @ rest"
    and "r_pos W r + length bs \<le> e"
  obtains r' where "decode_loop W fld e m r = decode_loop W fld e m' r'" "buf r' = buf r"
    "r_pos W r' = r_pos W r + length bs"
  using assms unfolding absorbs_def by blast

lemma reads_backD:
  assumes "reads_back W buf rd bs v" "drop (r_pos W r) (buf r) = bs @ rest"
  obtains r' where "rd r = Inr (v, r')" "buf r' = buf r" "r_pos W r' = r_pos W r + length bs"
  using assms unfolding reads_back_def by blast

lemma appendsD:
  "appends frames f bs \<Longrightarrow> frames w = t # fs \<Longrightarrow> f w = Inr w' \<Longrightarrow> frames w' = (t @ bs) # fs"
  unfolding appends_def by blast

lemma codesD:
  assumes "codes W frames buf e fld m m'" "frames w = t # fs" "e w = Inr w'"
  obtains bs where "frames w' = (t @ bs) # fs" "absorbs W buf fld m bs m'"
  using assms unfolding codes_def by blast

text \<open>The part of the input behind a chunk that was read.\<close>

lemma drop_behind:
  assumes "drop p xs = bs @ rest" "p' = p + length bs"
  shows "drop p' xs = rest"
proof -
  have "drop p' xs = drop (length bs) (drop p xs)" using assms(2) by (simp add: add.commute)
  with assms(1) show ?thesis by simp
qed

lemma absorbs_nil: "absorbs W buf fld m [] m"
  unfolding absorbs_def by auto

lemma absorbs_append:
  assumes "absorbs W buf fld m b1 m1" "absorbs W buf fld m1 b2 m2"
  shows "absorbs W buf fld m (b1 @ b2) m2"
  unfolding absorbs_def
proof (intro allI impI)
  fix r e rest
  assume at: "drop (r_pos W r) (buf r) = (b1 @ b2) @ rest"
    and le: "r_pos W r + length (b1 @ b2) \<le> e"
  from at have at1: "drop (r_pos W r) (buf r) = b1 @ (b2 @ rest)" by simp
  from le have le1: "r_pos W r + length b1 \<le> e" by simp
  from absorbsD [OF assms(1) at1 le1] obtain r1 where
    r1: "decode_loop W fld e m r = decode_loop W fld e m1 r1" "buf r1 = buf r"
      "r_pos W r1 = r_pos W r + length b1" .
  from drop_behind [OF at1 r1(3)] r1(2) have at2: "drop (r_pos W r1) (buf r1) = b2 @ rest" by simp
  from le r1(3) have "r_pos W r1 + length b2 \<le> e" by simp
  from absorbsD [OF assms(2) at2 this] obtain r2 where
    "decode_loop W fld e m1 r1 = decode_loop W fld e m2 r2" "buf r2 = buf r1"
    "r_pos W r2 = r_pos W r1 + length b2" .
  with r1 show "\<exists>r'. decode_loop W fld e m r = decode_loop W fld e m2 r' \<and> buf r' = buf r
      \<and> r_pos W r' = r_pos W r + length (b1 @ b2)"
    by auto
qed

lemma codes_nil: "codes W frames buf (w_seq []) fld m m"
  unfolding codes_def using absorbs_nil by auto

lemma codes_done: "m = m' \<Longrightarrow> codes W frames buf (w_seq []) fld m m'"
  using codes_nil by simp

lemma codes_cons:
  assumes "codes W frames buf f fld m m1" "codes W frames buf (w_seq fs) fld m1 m2"
  shows "codes W frames buf (w_seq (f # fs)) fld m m2"
  unfolding codes_def
proof (intro allI impI)
  fix w w' t us
  assume fr: "frames w = t # us" and run: "w_seq (f # fs) w = Inr w'"
  from run obtain w1 where w1: "f w = Inr w1" "w_seq fs w1 = Inr w'"
    by (auto simp: res_bind_Inr_iff)
  from codesD [OF assms(1) fr w1(1)] obtain b1 where
    b1: "frames w1 = (t @ b1) # us" "absorbs W buf fld m b1 m1" .
  from codesD [OF assms(2) b1(1) w1(2)] obtain b2 where
    "frames w' = ((t @ b1) @ b2) # us" "absorbs W buf fld m1 b2 m2" .
  with b1 show "\<exists>bs. frames w' = (t @ bs) # us \<and> absorbs W buf fld m bs m2"
    using absorbs_append by (metis append_assoc)
qed

lemma codes_if:
  assumes "c \<Longrightarrow> codes W frames buf f fld m m'" and "\<not> c \<Longrightarrow> m' = m"
  shows "codes W frames buf (w_if c f) fld m m'"
proof (cases c)
  case True
  then have "w_if c f = f" by (simp add: w_if_def fun_eq_iff)
  with assms(1) True show ?thesis by simp
next
  case False
  with assms(2) show ?thesis
    unfolding codes_def w_if_def using absorbs_nil by auto
qed

lemma codes_map:
  assumes "\<And>v m. v \<in> set vs \<Longrightarrow> codes W frames buf (f v) fld m (upd v m)"
  shows "codes W frames buf (w_seq (map f vs)) fld m (foldl (\<lambda>m v. upd v m) m vs)"
  using assms
proof (induction vs arbitrary: m)
  case Nil
  show ?case unfolding list.map foldl.simps by (rule codes_nil)
next
  case (Cons v vs)
  have "codes W frames buf (f v) fld m (upd v m)" using Cons.prems by simp
  moreover have "codes W frames buf (w_seq (map f vs)) fld (upd v m)
      (foldl (\<lambda>m v. upd v m) (upd v m) vs)"
    using Cons by simp
  ultimately show ?case unfolding list.map foldl.simps by (rule codes_cons)
qed

section \<open>Termination\<close>

context wire_reader
begin

lemma advancesD:
  "advances W buf rd \<Longrightarrow> rd r = Inr (v, r') \<Longrightarrow>
     buf r' = buf r \<and> r_pos W r < r_pos W r' \<and> r_pos W r' \<le> length (buf r)"
  unfolding advances_def by blast

lemma arm_read_total: "advances W buf rd \<Longrightarrow> arm_total W buf r (arm_read rd upd r)"
  by (cases "rd r") (auto simp: arm_read_def dest: advancesD)

lemma packed_loop_total:
  assumes rd: "advances W buf rd" and "r_pos W r \<le> length (buf r)"
  shows "arm_total W buf r (Continue (packed_loop W rd end2 vs r))"
  using assms(2)
proof (induction "length (buf r) - r_pos W r" arbitrary: r vs rule: less_induct)
  case less
  show ?case
  proof (cases "r_pos W r < end2")
    case False
    with less.prems show ?thesis by (simp add: packed_loop.simps)
  next
    case True
    show ?thesis
    proof (cases "rd r")
      case (Inl e)
      with True show ?thesis by (simp add: packed_loop.simps)
    next
      case (Inr p)
      then obtain v r' where p: "rd r = Inr (v, r')" by (cases p) simp
      from advancesD [OF rd p] have adv:
        "buf r' = buf r" "r_pos W r < r_pos W r'" "r_pos W r' \<le> length (buf r)" by auto
      then have "arm_total W buf r' (Continue (packed_loop W rd end2 (vs @ [v]) r'))"
        by (intro less.hyps) auto
      moreover have "packed_loop W rd end2 vs r = packed_loop W rd end2 (vs @ [v]) r'"
        using True p by (subst packed_loop.simps) simp
      ultimately show ?thesis using adv by fastforce
    qed
  qed
qed

lemma arm_packed_total:
  assumes "advances W buf rd"
  shows "arm_total W buf r (arm_packed W rd upd r)"
proof (cases "r_uint32 W r")
  case (Inl e)
  then show ?thesis by (simp add: arm_packed_def)
next
  case (Inr p)
  then obtain n r1 where p: "r_uint32 W r = Inr (n, r1)" by (cases p) simp
  from advancesD [OF uint32_advances p] have adv:
    "buf r1 = buf r" "r_pos W r < r_pos W r1" "r_pos W r1 \<le> length (buf r)" by auto
  with packed_loop_total [OF assms, of r1 "unat n + r_pos W r1" "[]"] obtain x where
    x: "packed_loop W rd (unat n + r_pos W r1) [] r1 = Some x"
    "\<forall>m' r'. x = Inr (m', r') \<longrightarrow> buf r' = buf r \<and> r_pos W r1 \<le> r_pos W r'
       \<and> r_pos W r' \<le> length (buf r)" by auto
  with p adv show ?thesis
    by (cases x) (auto simp: arm_packed_def)
qed

lemma arm_sub_total:
  assumes "dec_total W buf dec"
  shows "arm_total W buf r (arm_sub W dec upd r)"
proof (cases "r_uint32 W r")
  case (Inl e)
  then show ?thesis by (simp add: arm_sub_def)
next
  case (Inr p)
  then obtain n r1 where p: "r_uint32 W r = Inr (n, r1)" by (cases p) simp
  from advancesD [OF uint32_advances p] have adv:
    "buf r1 = buf r" "r_pos W r < r_pos W r1" "r_pos W r1 \<le> length (buf r)" by auto
  have "r_pos W r1 \<le> length (buf r1)" using adv by simp
  with assms have "arm_total W buf r1 (Continue (dec r1 (Some (unat n))))"
    unfolding dec_total_def by blast
  with adv obtain x where
    x: "dec r1 (Some (unat n)) = Some x"
    "\<forall>m' r'. x = Inr (m', r') \<longrightarrow> buf r' = buf r \<and> r_pos W r1 \<le> r_pos W r'
       \<and> r_pos W r' \<le> length (buf r)" by auto
  with p adv show ?thesis
    by (cases x) (auto simp: arm_sub_def)
qed

lemma decode_loop_total:
  assumes fld: "fld_total W buf fld" and "r_pos W r \<le> length (buf r)"
  shows "arm_total W buf r (Continue (decode_loop W fld e m r))"
  using assms(2)
proof (induction "length (buf r) - r_pos W r" arbitrary: r m rule: less_induct)
  case less
  have step: "arm_total W buf r (Continue (decode_loop W fld e m' r'))"
    if "buf r' = buf r" "r_pos W r < r_pos W r'" "r_pos W r' \<le> length (buf r)" for m' r'
  proof -
    have "arm_total W buf r' (Continue (decode_loop W fld e m' r'))"
      using that by (intro less.hyps) auto
    with that show ?thesis by fastforce
  qed
  show ?case
  proof (cases "r_pos W r < e")
    case False
    with less.prems show ?thesis by (simp add: decode_loop.simps)
  next
    case True
    show ?thesis
    proof (cases "r_uint32 W r")
      case (Inl x)
      with True show ?thesis by (simp add: decode_loop.simps)
    next
      case (Inr p)
      then obtain tag r1 where p: "r_uint32 W r = Inr (tag, r1)" by (cases p) simp
      from advancesD [OF uint32_advances p] have adv:
        "buf r1 = buf r" "r_pos W r < r_pos W r1" "r_pos W r1 \<le> length (buf r)" by auto
      have tot: "arm_total W buf r1 (fld tag m r1)"
        using fld adv unfolding fld_total_def by simp
      show ?thesis
      proof (cases "fld tag m r1")
        case Break
        show ?thesis
        proof (cases "tag AND 7 = 4 \<or> tag = 0")
          case True
          with Break p adv \<open>r_pos W r < e\<close> show ?thesis
            by (subst decode_loop.simps) auto
        next
          case skip: False
          have unf: "decode_loop W fld e m r =
              c_bind (Some (r_skip W (tag AND 7) r1)) (\<lambda>(u, r2). decode_loop W fld e m r2)"
            using Break p skip \<open>r_pos W r < e\<close> by (subst decode_loop.simps) auto
          show ?thesis
          proof (cases "r_skip W (tag AND 7) r1")
            case (Inl x)
            then show ?thesis by (simp add: unf)
          next
            case (Inr q)
            then obtain u r2 where q: "r_skip W (tag AND 7) r1 = Inr (u, r2)" by (cases q) simp
            from advancesD [OF skip_advances q] adv have
              "buf r2 = buf r" "r_pos W r < r_pos W r2" "r_pos W r2 \<le> length (buf r)" by auto
            from step [OF this] q show ?thesis by (simp add: unf)
          qed
        qed
      next
        case (Continue c)
        with tot obtain x where x: "c = Some x"
          "\<forall>m' r'. x = Inr (m', r') \<longrightarrow> buf r' = buf r1 \<and> r_pos W r1 \<le> r_pos W r'
             \<and> r_pos W r' \<le> length (buf r1)" by auto
        have unf: "decode_loop W fld e m r = c_bind c (\<lambda>(m2, r2). decode_loop W fld e m2 r2)"
          using Continue p \<open>r_pos W r < e\<close> by (subst decode_loop.simps) auto
        show ?thesis
        proof (cases x)
          case (Inl y)
          with x show ?thesis by (simp add: unf)
        next
          case (Inr q)
          obtain m2 r2 where q: "q = (m2, r2)" by (cases q)
          with x Inr adv have "buf r2 = buf r" "r_pos W r < r_pos W r2" "r_pos W r2 \<le> length (buf r)"
            by auto
          from step [OF this, of m2] q x Inr show ?thesis by (simp add: unf)
        qed
      qed
    qed
  qed
qed

lemma decode_with_total:
  "fld_total W buf fld \<Longrightarrow> dec_total W buf (decode_with W fld base)"
  unfolding dec_total_def decode_with_def by (intro allI impI decode_loop_total)

text \<open>Decoding a byte string always returns: a message, or an error.\<close>

lemma decode_bytes_returns:
  assumes "dec_total W buf dec"
  shows "\<exists>x. decode_bytes W dec bs = Some x"
proof -
  have "r_pos W (r_new W bs) \<le> length (buf (r_new W bs))" by (simp add: new_pos)
  with assms obtain x where x: "dec (r_new W bs) None = Some x"
    unfolding dec_total_def by fastforce
  show ?thesis
  proof (cases x)
    case (Inl e)
    with x show ?thesis by (simp add: decode_bytes_def)
  next
    case (Inr p)
    with x show ?thesis by (cases p) (simp add: decode_bytes_def)
  qed
qed

lemmas reads_advance =
  uint32_advances int32_advances bool_advances float_advances string_advances
  bytes_advances uint64_advances int64_advances

lemmas arms_total = arm_read_total arm_packed_total arm_sub_total reads_advance decode_with_total

end

section \<open>Round trips\<close>

context wire_codec
begin

lemma enc_nonempty:
  assumes "advances W buf rd" "reads_back W buf rd bs v"
  shows "bs \<noteq> []"
proof
  assume "bs = []"
  then have "drop (r_pos W (r_new W [])) (buf (r_new W [])) = bs @ []" by (simp add: new_buf)
  from reads_backD [OF assms(2) this] obtain r' where
    "rd (r_new W []) = Inr (v, r')" "r_pos W r' = r_pos W (r_new W []) + length bs" .
  with advancesD [OF assms(1)] \<open>bs = []\<close> show False by fastforce
qed

lemma enc_uint32_nonempty: "enc (PUint32 u) \<noteq> []"
  by (rule enc_nonempty [OF uint32_advances uint32_reads])

text \<open>One turn of the loop: the tag is read and its arm consumes the payload.\<close>

lemma absorbs_tagged:
  assumes arm: "\<And>r rest. drop (r_pos W r) (buf r) = bs @ rest \<Longrightarrow>
      \<exists>r'. fld tag m r = Continue (Some (Inr (m', r'))) \<and> buf r' = buf r
         \<and> r_pos W r' = r_pos W r + length bs"
  shows "absorbs W buf fld m (enc (PUint32 tag) @ bs) m'"
  unfolding absorbs_def
proof (intro allI impI)
  fix r e rest
  assume at: "drop (r_pos W r) (buf r) = (enc (PUint32 tag) @ bs) @ rest"
    and le: "r_pos W r + length (enc (PUint32 tag) @ bs) \<le> e"
  then have at1: "drop (r_pos W r) (buf r) = enc (PUint32 tag) @ (bs @ rest)" by simp
  from reads_backD [OF uint32_reads at1] obtain r1 where
    r1: "r_uint32 W r = Inr (tag, r1)" "buf r1 = buf r"
      "r_pos W r1 = r_pos W r + length (enc (PUint32 tag))" .
  from drop_behind [OF at1 r1(3)] r1(2) have "drop (r_pos W r1) (buf r1) = bs @ rest" by simp
  from arm [OF this] obtain r2 where
    r2: "fld tag m r1 = Continue (Some (Inr (m', r2)))" "buf r2 = buf r1"
      "r_pos W r2 = r_pos W r1 + length bs" by blast
  have "0 < length (enc (PUint32 tag))" using enc_uint32_nonempty by simp
  with le have "r_pos W r < e" unfolding length_append by linarith
  with r1 r2 have "decode_loop W fld e m r = decode_loop W fld e m' r2"
    by (subst decode_loop.simps) simp
  with r1 r2 show "\<exists>r'. decode_loop W fld e m r = decode_loop W fld e m' r' \<and> buf r' = buf r
      \<and> r_pos W r' = r_pos W r + length (enc (PUint32 tag) @ bs)"
    by auto
qed

lemma tag_written:
  assumes "w_uint32 W (num_of_nat (unat tag)) w = Inr w1" "frames w = t # fs"
  shows "frames w1 = (t @ enc (PUint32 tag)) # fs"
  using appendsD [OF uint32_appends assms(2,1)] .

lemma codes_written_field:
  assumes wr: "appends frames f bs" and rd: "\<And>w w'. f w = Inr w' \<Longrightarrow> reads_back W buf rd bs v"
    and arm: "fld tag m = arm_read rd upd"
  shows "codes W frames buf (w_field W tag f) fld m (upd v)"
  unfolding codes_def
proof (intro allI impI)
  fix w w' t fs
  assume fr: "frames w = t # fs" and run: "w_field W tag f w = Inr w'"
  from run obtain w1 where w1: "w_uint32 W (num_of_nat (unat tag)) w = Inr w1" "f w1 = Inr w'"
    by (auto simp: w_field_def res_bind_Inr_iff)
  have "frames w' = ((t @ enc (PUint32 tag)) @ bs) # fs"
    by (rule appendsD [OF wr tag_written [OF w1(1) fr] w1(2)])
  moreover have "absorbs W buf fld m (enc (PUint32 tag) @ bs) (upd v)"
  proof (rule absorbs_tagged)
    fix r rest
    assume "drop (r_pos W r) (buf r) = bs @ rest"
    from reads_backD [OF rd [OF w1(2)] this] obtain r' where
      "rd r = Inr (v, r')" "buf r' = buf r" "r_pos W r' = r_pos W r + length bs" .
    then show "\<exists>r'. fld tag m r = Continue (Some (Inr (upd v, r'))) \<and> buf r' = buf r
        \<and> r_pos W r' = r_pos W r + length bs"
      by (simp add: arm arm_read_def)
  qed
  ultimately show "\<exists>bs. frames w' = (t @ bs) # fs \<and> absorbs W buf fld m bs (upd v)"
    by (metis append_assoc)
qed

lemma codes_field:
  assumes "appends frames f bs" and "reads_back W buf rd bs v"
    and "fld tag m = arm_read rd upd"
  shows "codes W frames buf (w_field W tag f) fld m (upd v)"
  by (rule codes_written_field) (rule assms)+

lemma codes_string:
  assumes "fld tag m = arm_read (r_string W) upd"
  shows "codes W frames buf (w_field W tag (w_string W s)) fld m (upd s)"
  by (rule codes_written_field [where upd = upd and tag = tag, OF string_appends])
     (rule string_reads assms, assumption?)+

lemma codes_bytes:
  assumes "fld tag m = arm_read (r_bytes W) upd"
  shows "codes W frames buf (w_field W tag (w_bytes W bs)) fld m (upd bs)"
  by (rule codes_written_field [where upd = upd and tag = tag, OF bytes_appends])
     (rule bytes_reads assms, assumption?)+

lemma codes_bool:
  assumes "fld tag m = arm_read (r_bool W) upd"
  shows "codes W frames buf (w_field W tag (w_bool W b)) fld m (upd b)"
  by (rule codes_field [where upd = upd and tag = tag, OF bool_appends bool_reads]) (rule assms)+

lemma codes_float:
  assumes "fld tag m = arm_read (r_float W) upd"
  shows "codes W frames buf (w_field W tag (w_float W x)) fld m (upd (fround x))"
  by (rule codes_field [where upd = upd and tag = tag, OF float_appends float_reads]) (rule assms)+

lemma codes_uint64:
  assumes "fld tag m = arm_read (r_uint64 W) (\<lambda>l. upd (show_nat (unat l)))"
    and "s = show_nat (unat (l :: 64 word))"
  shows "codes W frames buf (w_field W tag (w_uint64 W s)) fld m (upd s)"
  unfolding assms(2)
  by (rule codes_field [where upd = "\<lambda>l. upd (show_nat (unat l))" and tag = tag,
        OF uint64_appends uint64_reads]) (rule assms)+

lemma codes_int64:
  assumes "fld tag m = arm_read (r_int64 W) (\<lambda>l. upd (show_int (sint l)))"
    and "s = show_int (sint (l :: 64 word))"
  shows "codes W frames buf (w_field W tag (w_int64 W s)) fld m (upd s)"
  unfolding assms(2)
  by (rule codes_field [where upd = "\<lambda>l. upd (show_int (sint l))" and tag = tag,
        OF int64_appends int64_reads]) (rule assms)+

text \<open>A number field: the writer has checked that the value is in range.\<close>

lemma codes_uint32:
  assumes "fld tag m = arm_read (r_uint32 W) (\<lambda>u. upd (num_of_nat (unat u)))"
  shows "codes W frames buf (w_field W tag (w_uint32 W x)) fld m (upd x)"
  unfolding codes_def
proof (intro allI impI)
  fix w w' t fs
  assume fr: "frames w = t # fs" and run: "w_field W tag (w_uint32 W x) w = Inr w'"
  then obtain w1 where "w_uint32 W x w1 = Inr w'" by (auto simp: w_field_def res_bind_Inr_iff)
  from uint32_checked [OF this] obtain u :: "32 word" where x: "x = num_of_nat (unat u)" ..
  have "codes W frames buf (w_field W tag (w_uint32 W x)) fld m (upd x)"
    unfolding x by (rule codes_field [where upd = "\<lambda>u. upd (num_of_nat (unat u))" and tag = tag,
          OF uint32_appends uint32_reads]) (rule assms)+
  from codesD [OF this fr run] obtain bs where
    "frames w' = (t @ bs) # fs" "absorbs W buf fld m bs (upd x)" .
  then show "\<exists>bs. frames w' = (t @ bs) # fs \<and> absorbs W buf fld m bs (upd x)" by blast
qed

lemma codes_int32:
  assumes "fld tag m = arm_read (r_int32 W) (\<lambda>u. upd (num_of_int (sint u)))"
  shows "codes W frames buf (w_field W tag (w_int32 W x)) fld m (upd x)"
  unfolding codes_def
proof (intro allI impI)
  fix w w' t fs
  assume fr: "frames w = t # fs" and run: "w_field W tag (w_int32 W x) w = Inr w'"
  then obtain w1 where "w_int32 W x w1 = Inr w'" by (auto simp: w_field_def res_bind_Inr_iff)
  from int32_checked [OF this] obtain u :: "32 word" where x: "x = num_of_int (sint u)" ..
  have "codes W frames buf (w_field W tag (w_int32 W x)) fld m (upd x)"
    unfolding x by (rule codes_field [where upd = "\<lambda>u. upd (num_of_int (sint u))" and tag = tag,
          OF int32_appends int32_reads]) (rule assms)+
  from codesD [OF this fr run] obtain bs where
    "frames w' = (t @ bs) # fs" "absorbs W buf fld m bs (upd x)" .
  then show "\<exists>bs. frames w' = (t @ bs) # fs \<and> absorbs W buf fld m bs (upd x)" by blast
qed

text \<open>The bytes of a fork, its length and the enclosed payload.\<close>

lemma nested_written:
  assumes run: "w_nested W tag f w = Inr w'"
    and fr: "frames w = t # fs"
  obtains w2 w3 where "f w2 = Inr w3" "frames w2 = [] # (t @ enc (PUint32 tag)) # fs"
    and "\<And>bs. frames w3 = bs # (t @ enc (PUint32 tag)) # fs \<Longrightarrow> length bs < 2 ^ 32 \<and>
        frames w' = (t @ enc (PUint32 tag) @ enc (PUint32 (of_nat (length bs))) @ bs) # fs"
proof -
  from run obtain w1 w2 w3 where w: "w_uint32 W (num_of_nat (unat tag)) w = Inr w1" "w_fork W w1 = Inr w2"
    "f w2 = Inr w3" "w_join W w3 = Inr w'"
    by (auto simp: w_nested_def res_bind_Inr_iff)
  have "frames w2 = [] # (t @ enc (PUint32 tag)) # fs"
    using fork_opens [OF w(2)] tag_written [OF w(1) fr] by simp
  moreover have "length bs < 2 ^ 32 \<and>
      frames w' = (t @ enc (PUint32 tag) @ enc (PUint32 (of_nat (length bs))) @ bs) # fs"
    if "frames w3 = bs # (t @ enc (PUint32 tag)) # fs" for bs
    using join_closes [OF that w(4)] by simp
  ultimately show thesis using w(3) that by blast
qed

lemma unat_of_length: "length bs < 2 ^ 32 \<Longrightarrow> unat (of_nat (length bs) :: 32 word) = length bs"
  by (simp add: unat_of_nat)

lemma codes_nested:
  assumes sub: "codes W frames buf f sfld base x"
    and arm: "fld tag m = arm_sub W (decode_with W sfld base) upd"
   
  shows "codes W frames buf (w_nested W tag f) fld m (upd x)"
  unfolding codes_def
proof (intro allI impI)
  fix w w' t fs
  assume fr: "frames w = t # fs" and run: "w_nested W tag f w = Inr w'"
  from nested_written [OF run fr] obtain w2 w3 where
    w: "f w2 = Inr w3" "frames w2 = [] # (t @ enc (PUint32 tag)) # fs"
    and join: "\<And>bs. frames w3 = bs # (t @ enc (PUint32 tag)) # fs \<Longrightarrow> length bs < 2 ^ 32 \<and>
        frames w' = (t @ enc (PUint32 tag) @ enc (PUint32 (of_nat (length bs))) @ bs) # fs"
    by blast
  from codesD [OF sub w(2,1)] obtain bs where
    "frames w3 = ([] @ bs) # (t @ enc (PUint32 tag)) # fs" and abs: "absorbs W buf sfld base bs x" .
  with join have small: "length bs < 2 ^ 32" and
    fr': "frames w' = (t @ enc (PUint32 tag) @ enc (PUint32 (of_nat (length bs))) @ bs) # fs"
    by auto
  let ?hd = "enc (PUint32 (of_nat (length bs)))"
  have "absorbs W buf fld m (enc (PUint32 tag) @ ?hd @ bs) (upd x)"
  proof (rule absorbs_tagged)
    fix r rest
    assume "drop (r_pos W r) (buf r) = (?hd @ bs) @ rest"
    then have at: "drop (r_pos W r) (buf r) = ?hd @ (bs @ rest)" by simp
    from reads_backD [OF uint32_reads at] obtain r1 where
      r1: "r_uint32 W r = Inr (of_nat (length bs), r1)" "buf r1 = buf r"
        "r_pos W r1 = r_pos W r + length ?hd" .
    from drop_behind [OF at r1(3)] r1(2) have at1: "drop (r_pos W r1) (buf r1) = bs @ rest" by simp
    from absorbsD [OF abs at1 order.refl] obtain r2 where
      r2: "decode_loop W sfld (r_pos W r1 + length bs) base r1
           = decode_loop W sfld (r_pos W r1 + length bs) x r2"
        "buf r2 = buf r1" "r_pos W r2 = r_pos W r1 + length bs" .
    have "decode_with W sfld base r1 (Some (length bs)) = Some (Inr (x, r2))"
      using r2 by (simp add: decode_with_def decode_loop.simps)
    with r1 r2 unat_of_length [OF small]
    show "\<exists>r'. fld tag m r = Continue (Some (Inr (upd x, r'))) \<and> buf r' = buf r
        \<and> r_pos W r' = r_pos W r + length (?hd @ bs)"
      by (simp add: arm arm_sub_def)
  qed
  with fr' show "\<exists>bs. frames w' = (t @ bs) # fs \<and> absorbs W buf fld m bs (upd x)" by blast
qed

subsection \<open>Packed repeated fields\<close>

lemma packed_written:
  assumes "\<And>v. v \<in> set vs \<Longrightarrow> appends frames (f v) (b v)"
    and "frames w = t # fs" "w_seq (map f vs) w = Inr w'"
  shows "frames w' = (t @ concat (map b vs)) # fs"
  using assms
proof (induction vs arbitrary: w t)
  case Nil
  then show ?case by simp
next
  case (Cons v vs)
  from Cons.prems(3) obtain w1 where w1: "f v w = Inr w1" "w_seq (map f vs) w1 = Inr w'"
    by (auto simp: res_bind_Inr_iff)
  have "frames w1 = (t @ b v) # fs"
    by (rule appendsD [where f = "f v" and w = w]) (simp_all add: Cons.prems(1,2) w1(1))
  from Cons.IH [OF _ this w1(2)] Cons.prems(1) show ?case by simp
qed

lemma packed_read:
  assumes "\<And>v. v \<in> set vs \<Longrightarrow> reads_back W buf rd (b v) (g v)" and adv: "advances W buf rd"
    and "drop (r_pos W r) (buf r) = concat (map b vs) @ rest"
    and "end2 = r_pos W r + length (concat (map b vs))"
  shows "\<exists>r'. packed_loop W rd end2 us r = Some (Inr (us @ map g vs, r')) \<and> buf r' = buf r
           \<and> r_pos W r' = end2"
  using assms(1,3,4)
proof (induction vs arbitrary: r us)
  case Nil
  then show ?case by (simp add: packed_loop.simps)
next
  case (Cons v vs)
  have rb: "reads_back W buf rd (b v) (g v)" using Cons.prems(1) by simp
  from Cons.prems(2) have at: "drop (r_pos W r) (buf r) = b v @ (concat (map b vs) @ rest)" by simp
  from reads_backD [OF rb at] obtain r1 where
    r1: "rd r = Inr (g v, r1)" "buf r1 = buf r" "r_pos W r1 = r_pos W r + length (b v)" .
  have "0 < length (b v)" using enc_nonempty [OF adv rb] by simp
  with Cons.prems(3) r1 have "packed_loop W rd end2 us r = packed_loop W rd end2 (us @ [g v]) r1"
    by (subst packed_loop.simps) simp
  moreover have "\<exists>r'. packed_loop W rd end2 (us @ [g v]) r1 = Some (Inr ((us @ [g v]) @ map g vs, r'))
      \<and> buf r' = buf r1 \<and> r_pos W r' = end2"
    using Cons.prems drop_behind [OF at r1(3)] r1 by (intro Cons.IH) simp_all
  ultimately show ?case using r1(2) by simp
qed

lemma codes_packed:
  assumes wr: "\<And>v. v \<in> set vs \<Longrightarrow> appends frames (f v) (b v)"
    and rd: "\<And>v. v \<in> set vs \<Longrightarrow> reads_back W buf rd (b v) (g v)"
    and adv: "advances W buf rd"
    and arm: "fld tag m = arm_packed W rd upd"
  shows "codes W frames buf (w_nested W tag (w_seq (map f vs))) fld m (upd (map g vs))"
  unfolding codes_def
proof (intro allI impI)
  fix w w' t fs
  assume fr: "frames w = t # fs" and run: "w_nested W tag (w_seq (map f vs)) w = Inr w'"
  from nested_written [OF run fr] obtain w2 w3 where
    w: "w_seq (map f vs) w2 = Inr w3" "frames w2 = [] # (t @ enc (PUint32 tag)) # fs"
    and join: "\<And>bs. frames w3 = bs # (t @ enc (PUint32 tag)) # fs \<Longrightarrow> length bs < 2 ^ 32 \<and>
        frames w' = (t @ enc (PUint32 tag) @ enc (PUint32 (of_nat (length bs))) @ bs) # fs"
    by blast
  define bs where "bs = concat (map b vs)"
  have "frames w3 = ([] @ bs) # (t @ enc (PUint32 tag)) # fs"
    unfolding bs_def by (rule packed_written [OF wr w(2,1)])
  with join have small: "length bs < 2 ^ 32" and
    fr': "frames w' = (t @ enc (PUint32 tag) @ enc (PUint32 (of_nat (length bs))) @ bs) # fs"
    by auto
  let ?hd = "enc (PUint32 (of_nat (length bs)))"
  have "absorbs W buf fld m (enc (PUint32 tag) @ ?hd @ bs) (upd (map g vs))"
  proof (rule absorbs_tagged)
    fix r rest
    assume "drop (r_pos W r) (buf r) = (?hd @ bs) @ rest"
    then have at: "drop (r_pos W r) (buf r) = ?hd @ (bs @ rest)" by simp
    from reads_backD [OF uint32_reads at] obtain r1 where
      r1: "r_uint32 W r = Inr (of_nat (length bs), r1)" "buf r1 = buf r"
        "r_pos W r1 = r_pos W r + length ?hd" .
    from drop_behind [OF at r1(3)] r1(2)
    have at1: "drop (r_pos W r1) (buf r1) = concat (map b vs) @ rest" by (simp add: bs_def)
    have "\<exists>r'. packed_loop W rd (length bs + r_pos W r1) [] r1 = Some (Inr ([] @ map g vs, r'))
        \<and> buf r' = buf r1 \<and> r_pos W r' = length bs + r_pos W r1"
      by (rule packed_read [OF rd adv at1]) (simp_all add: bs_def)
    with r1 unat_of_length [OF small]
    show "\<exists>r'. fld tag m r = Continue (Some (Inr (upd (map g vs), r'))) \<and> buf r' = buf r
        \<and> r_pos W r' = r_pos W r + length (?hd @ bs)"
      by (auto simp: arm arm_packed_def)
  qed
  with fr' show "\<exists>bs. frames w' = (t @ bs) # fs \<and> absorbs W buf fld m bs (upd (map g vs))" by blast
qed

lemma codes_packed_float:
  assumes "fld tag m = arm_packed W (r_float W) upd"
  shows "codes W frames buf (w_nested W tag (w_seq (map (w_float W) vs))) fld m (upd (map fround vs))"
  by (rule codes_packed [where upd = upd and tag = tag and b = "\<lambda>x. enc (PFloat x)",
        OF float_appends float_reads float_advances]) (rule assms)+

subsection \<open>Fields as the generated code writes them\<close>

text \<open>A singular field is written only when it differs from its default.\<close>

lemma codes_opt_string:
  assumes "fld tag m = arm_read (r_string W) upd" "upd [] = m"
  shows "codes W frames buf (w_if (s \<noteq> []) (w_field W tag (w_string W s))) fld m (upd s)"
  by (rule codes_if) (auto simp: assms(2) intro: codes_string [where fld = fld and m = m] assms(1))

lemma codes_opt_bytes:
  assumes "fld tag m = arm_read (r_bytes W) upd" "upd [] = m"
  shows "codes W frames buf (w_if (bs \<noteq> []) (w_field W tag (w_bytes W bs))) fld m (upd bs)"
  by (rule codes_if) (auto simp: assms(2) intro: codes_bytes [where fld = fld and m = m] assms(1))

lemma codes_opt_bool:
  assumes "fld tag m = arm_read (r_bool W) upd" "upd False = m"
  shows "codes W frames buf (w_if b (w_field W tag (w_bool W b))) fld m (upd b)"
  by (rule codes_if) (auto simp: assms(2) intro: codes_bool [where fld = fld and m = m] assms(1))

lemma codes_opt_float:
  assumes "fld tag m = arm_read (r_float W) upd" "upd (Fin 0) = m"
  shows "codes W frames buf (w_if (\<not> js_eq x (Fin 0)) (w_field W tag (w_float W x))) fld m
           (upd (fround x))"
  by (rule codes_if)
     (auto simp: js_eq_def fround_zero assms(2) intro: codes_float [where fld = fld and m = m] assms(1))

lemma codes_opt_uint32:
  assumes "fld tag m = arm_read (r_uint32 W) (\<lambda>u. upd (num_of_nat (unat u)))" "upd (Fin 0) = m"
  shows "codes W frames buf (w_if (\<not> js_eq x (Fin 0)) (w_field W tag (w_uint32 W x))) fld m (upd x)"
  by (rule codes_if)
     (auto simp: js_eq_def assms(2) intro: codes_uint32 [where fld = fld and m = m] assms(1))

lemma codes_opt_int32:
  assumes "fld tag m = arm_read (r_int32 W) (\<lambda>u. upd (num_of_int (sint u)))" "upd (Fin 0) = m"
  shows "codes W frames buf (w_if (\<not> js_eq x (Fin 0)) (w_field W tag (w_int32 W x))) fld m (upd x)"
  by (rule codes_if)
     (auto simp: js_eq_def assms(2) intro: codes_int32 [where fld = fld and m = m] assms(1))

lemma codes_opt_uint64:
  assumes "fld tag m = arm_read (r_uint64 W) (\<lambda>l. upd (show_nat (unat l)))" "upd ''0'' = m"
    and "uint64_string s"
  shows "codes W frames buf (w_if (s \<noteq> ''0'') (w_field W tag (w_uint64 W s))) fld m (upd s)"
proof (rule codes_if)
  from assms(3) obtain l :: "64 word" where "s = show_nat (unat l)"
    by (rule uint64_stringE)
  then show "codes W frames buf (w_field W tag (w_uint64 W s)) fld m (upd s)"
    using codes_uint64 [of fld tag m upd s l] assms(1) by simp
qed (use assms(2) in auto)

lemma codes_opt_int64:
  assumes "fld tag m = arm_read (r_int64 W) (\<lambda>l. upd (show_int (sint l)))" "upd ''0'' = m"
    and "int64_string s"
  shows "codes W frames buf (w_if (s \<noteq> ''0'') (w_field W tag (w_int64 W s))) fld m (upd s)"
proof (rule codes_if)
  from assms(3) obtain l :: "64 word" where "s = show_int (sint l)"
    by (rule int64_stringE)
  then show "codes W frames buf (w_field W tag (w_int64 W s)) fld m (upd s)"
    using codes_int64 [of fld tag m upd s l] assms(1) by simp
qed (use assms(2) in auto)

lemma codes_opt_nested:
  assumes "\<And>v. x = Some v \<Longrightarrow> codes W frames buf (f v) sfld base (g v)"
    and "fld tag m = arm_sub W (decode_with W sfld base) (\<lambda>v. upd (Some v))" "upd None = m"
  shows "codes W frames buf (case x of None \<Rightarrow> w_seq [] | Some v \<Rightarrow> w_nested W tag (f v)) fld m
           (upd (map_option g x))"
proof (cases x)
  case None
  with assms(3) show ?thesis unfolding None option.case option.map by (simp only: codes_nil)
next
  case (Some v)
  have "codes W frames buf (w_nested W tag (f v)) fld m (upd (Some (g v)))"
    by (rule codes_nested [where upd = "\<lambda>v. upd (Some v)", OF assms(1) [OF Some]]) (rule assms(2))
  with Some show ?thesis by simp
qed

text \<open>A repeated field is written element by element.\<close>

lemma codes_rep_string:
  assumes "\<And>y. fld tag y = arm_read (r_string W) (\<lambda>v. upd v y)"
  shows "codes W frames buf (w_seq (map (\<lambda>v. w_field W tag (w_string W v)) vs)) fld m
           (foldl (\<lambda>y v. upd v y) m vs)"
  by (rule codes_map [where upd = upd])
     (rule codes_string [where upd = "\<lambda>v. upd v y" for y], rule assms)

lemma codes_rep_bytes:
  assumes "\<And>y. fld tag y = arm_read (r_bytes W) (\<lambda>v. upd v y)"
  shows "codes W frames buf (w_seq (map (\<lambda>v. w_field W tag (w_bytes W v)) vs)) fld m
           (foldl (\<lambda>y v. upd v y) m vs)"
  by (rule codes_map [where upd = upd])
     (rule codes_bytes [where upd = "\<lambda>v. upd v y" for y], rule assms)

lemma codes_rep_float:
  assumes "\<And>y. fld tag y = arm_read (r_float W) (\<lambda>v. upd v y)"
  shows "codes W frames buf (w_seq (map (\<lambda>v. w_field W tag (w_float W v)) vs)) fld m
           (foldl (\<lambda>y v. upd (fround v) y) m vs)"
  by (rule codes_map [where upd = "\<lambda>v. upd (fround v)"])
     (rule codes_float [where upd = "\<lambda>v. upd v y" for y], rule assms)

lemma codes_rep_nested:
  assumes "\<And>v. v \<in> set vs \<Longrightarrow> codes W frames buf (f v) sfld base (g v)"
    and "\<And>y. fld tag y = arm_sub W (decode_with W sfld base) (\<lambda>v. upd v y)"
  shows "codes W frames buf (w_seq (map (\<lambda>v. w_nested W tag (f v)) vs)) fld m
           (foldl (\<lambda>y v. upd (g v) y) m vs)"
proof (rule codes_map [where upd = "\<lambda>v. upd (g v)"])
  fix v y
  assume "v \<in> set vs"
  then show "codes W frames buf (w_nested W tag (f v)) fld y (upd (g v) y)"
    by (rule codes_nested [where upd = "\<lambda>v. upd v y", OF assms(1)]) (rule assms(2))
qed

text \<open>A map field is written as one nested entry per key.\<close>

lemma codes_entries:
  fixes es :: "('k \<times> 'v) list"
  assumes "\<And>k v. codes W frames buf (f k v) sfld base (g k v)"
    and "\<And>y. fld tag y = arm_sub W (decode_with W sfld base) (\<lambda>e. upd e y)"
  shows "codes W frames buf (w_seq (map (\<lambda>(k, v). w_nested W tag (f k v)) es)) fld m
           (foldl (\<lambda>y (k, v). upd (g k v) y) m es)"
proof -
  have "codes W frames buf (w_seq (map (\<lambda>(k, v). w_nested W tag (f k v)) es)) fld m
      (foldl (\<lambda>m p. (case p of (k, v) \<Rightarrow> upd (g k v)) m) m es)"
  proof (rule codes_map)
    fix p :: "'k \<times> 'v" and y
    obtain k v where p: "p = (k, v)" by (cases p)
    have "codes W frames buf (w_nested W tag (f k v)) fld y (upd (g k v) y)"
      by (rule codes_nested [where upd = "\<lambda>v. upd v y", OF assms(1)]) (rule assms(2))
    then show "codes W frames buf (case p of (k, v) \<Rightarrow> w_nested W tag (f k v)) fld y
        ((case p of (k, v) \<Rightarrow> upd (g k v)) y)" by (simp add: p)
  qed
  moreover have "(\<lambda>m p. (case p of (k, v) \<Rightarrow> upd (g k v)) m) = (\<lambda>y (k, v). upd (g k v) y)"
    by (auto simp: fun_eq_iff)
  ultimately show ?thesis by simp
qed

lemma codes_packed_uint64:
  assumes "fld tag m = arm_packed W (r_uint64 W) (\<lambda>ls. upd (map (\<lambda>l. show_nat (unat l)) ls))"
    and "\<forall>s \<in> set vs. uint64_string s"
  shows "codes W frames buf (w_nested W tag (w_seq (map (w_uint64 W) vs))) fld m (upd vs)"
proof -
  define g where "g = (\<lambda>s. of_nat (parse_nat s) :: 64 word)"
  have g: "show_nat (unat (g s)) = s" if "s \<in> set vs" for s
  proof -
    from that assms(2) obtain l :: "64 word" where "s = show_nat (unat l)"
      using uint64_stringE by blast
    then show ?thesis by (simp add: g_def)
  qed
  have "codes W frames buf (w_nested W tag (w_seq (map (w_uint64 W) vs))) fld m
      (upd (map (\<lambda>l. show_nat (unat l)) (map g vs)))"
  proof (rule codes_packed [where b = "\<lambda>s. enc (PUint64 (g s))" and rd = "r_uint64 W"
        and upd = "\<lambda>ls. upd (map (\<lambda>l. show_nat (unat l)) ls)"])
    fix s
    assume "s \<in> set vs"
    from uint64_appends [of "g s"] g [OF this]
    show "appends frames (w_uint64 W s) (enc (PUint64 (g s)))" by simp
  qed (auto intro: uint64_reads uint64_advances assms(1))
  moreover have "map (\<lambda>l. show_nat (unat l)) (map g vs) = vs"
    by (simp add: map_idI g)
  ultimately show ?thesis by simp
qed

lemmas codes_fields =
  codes_cons codes_opt_string codes_opt_bytes codes_opt_bool codes_opt_float codes_opt_uint32 codes_opt_int32
  codes_opt_uint64 codes_opt_int64 codes_opt_nested codes_rep_string codes_rep_bytes codes_rep_float
  codes_rep_nested codes_entries codes_packed_float codes_packed_uint64 codes_done

text \<open>The whole message.\<close>

lemma codes_decode_bytes:
  assumes "codes W frames buf e fld base m" and "e (w_new W) = Inr w"
  shows "decode_bytes W (decode_with W fld base) (w_finish W w) = Some (Inr m)"
proof -
  from codesD [OF assms(1) new assms(2)] obtain bs where
    "frames w = ([] @ bs) # []" and abs: "absorbs W buf fld base bs m" .
  then have fin: "w_finish W w = bs" using finish_bytes by simp
  define r where "r = r_new W bs"
  have r: "buf r = bs" "r_pos W r = 0" "r_len W r = length bs"
    by (simp_all add: r_def new_buf new_pos len_buf)
  then have "drop (r_pos W r) (buf r) = bs @ []" by simp
  from absorbsD [OF abs this order.refl] r obtain r' where
    "decode_loop W fld (length bs) base r = decode_loop W fld (length bs) m r'"
    "r_pos W r' = length bs" by auto
  then have "decode_with W fld base r None = Some (Inr (m, r'))"
    using r by (simp add: decode_with_def decode_loop.simps)
  then show ?thesis by (simp add: decode_bytes_def fin r_def)
qed

end

section \<open>What decoding returns\<close>

text \<open>A switch keeps a property of the message under construction, and a decoder only yields
  messages with a property.\<close>

definition arm_keeps :: "('m \<Rightarrow> bool) \<Rightarrow> ('m \<times> 'r) arm \<Rightarrow> bool" where
  "arm_keeps P a \<longleftrightarrow> (\<forall>m r. a = Continue (Some (Inr (m, r))) \<longrightarrow> P m)"

definition fld_keeps :: "('m \<Rightarrow> bool) \<Rightarrow> ('r, 'm) switch \<Rightarrow> bool" where
  "fld_keeps P fld \<longleftrightarrow> (\<forall>tag m r. P m \<longrightarrow> arm_keeps P (fld tag m r))"

definition yields :: "('r \<Rightarrow> nat option \<Rightarrow> ('m \<times> 'r) comp) \<Rightarrow> ('m \<Rightarrow> bool) \<Rightarrow> bool" where
  "yields dec P \<longleftrightarrow> (\<forall>r len m r'. dec r len = Some (Inr (m, r')) \<longrightarrow> P m)"

lemma c_bind_Inr_iff: "c_bind c f = Some (Inr y) \<longleftrightarrow> (\<exists>x. c = Some (Inr x) \<and> f x = Some (Inr y))"
  by (cases c) (auto simp: c_bind_def split: sum.splits)

lemma break_keeps: "arm_keeps P Break"
  by (simp add: arm_keeps_def)

lemma arm_read_keeps: "(\<And>v. P (upd v)) \<Longrightarrow> arm_keeps P (arm_read rd upd r)"
  by (auto simp: arm_keeps_def arm_read_def c_bind_Inr_iff)

lemma arm_packed_keeps: "(\<And>vs. P (upd vs)) \<Longrightarrow> arm_keeps P (arm_packed W rd upd r)"
  by (auto simp: arm_keeps_def arm_packed_def c_bind_Inr_iff)

lemma arm_sub_keeps:
  "yields dec Q \<Longrightarrow> (\<And>x. Q x \<Longrightarrow> P (upd x)) \<Longrightarrow> arm_keeps P (arm_sub W dec upd r)"
  by (auto simp: arm_keeps_def arm_sub_def yields_def c_bind_Inr_iff)

lemma arm_any_sub_keeps: "(\<And>x. P (upd x)) \<Longrightarrow> arm_keeps P (arm_sub W dec upd r)"
  by (rule arm_sub_keeps [where Q = "\<lambda>x. True"]) (simp_all add: yields_def)

lemma if_keeps: "(c \<Longrightarrow> arm_keeps P a) \<Longrightarrow> (\<not> c \<Longrightarrow> arm_keeps P b) \<Longrightarrow> arm_keeps P (if c then a else b)"
  by simp

lemmas arms_keep = break_keeps arm_read_keeps arm_packed_keeps arm_any_sub_keeps

lemma fld_keepsI: "(\<And>tag m r. P m \<Longrightarrow> arm_keeps P (fld tag m r)) \<Longrightarrow> fld_keeps P fld"
  by (simp add: fld_keeps_def)

lemma decode_step_keeps:
  assumes fld: "fld_keeps P fld" and m: "P m"
    and loop: "\<And>m r y. loop m r = Some y \<Longrightarrow> P m \<Longrightarrow> \<forall>m' r'. y = Inr (m', r') \<longrightarrow> P m'"
    and body: "(case fld tag m r1 of
          Continue c \<Rightarrow> c_bind c (\<lambda>(m2, r2). loop m2 r2)
        | Break \<Rightarrow>
            if tag AND 7 = 4 \<or> tag = 0 then Some (Inr (m, r1))
            else c_bind (Some (r_skip W (tag AND 7) r1)) (\<lambda>(u, r2). loop m r2)) = Some (Inr (m', r'))"
  shows "P m'"
proof (cases "fld tag m r1")
  case Break
  with body m loop show ?thesis by (fastforce simp: c_bind_Inr_iff split: if_splits)
next
  case (Continue c)
  with body obtain m2 r2 where c: "c = Some (Inr (m2, r2))" and
    rest: "loop m2 r2 = Some (Inr (m', r'))" by (auto simp: c_bind_Inr_iff)
  from fld m have "arm_keeps P (fld tag m r1)" by (simp add: fld_keeps_def)
  with Continue c have "P m2" by (simp add: arm_keeps_def)
  with loop [OF rest] show ?thesis by simp
qed

lemma decode_loop_keeps:
  fixes W :: "('w, 'r) wire" and fld :: "('r, 'm) switch"
  assumes run: "decode_loop W fld e m r = Some y"
  shows "fld_keeps P fld \<longrightarrow> P m \<longrightarrow> (\<forall>m' r'. y = Inr (m', r') \<longrightarrow> P m')"
proof (rule decode_loop.raw_induct [OF _ run], intro allI impI)
  fix loop and W :: "('w, 'r) wire" and fld :: "('r, 'm) switch" and e m r y m' r'
  assume IH: "\<And>W (fld :: ('r, 'm) switch) e m r y. loop W fld e m r = Some y
      \<Longrightarrow> fld_keeps P fld \<longrightarrow> P m \<longrightarrow> (\<forall>m' r'. y = Inr (m', r') \<longrightarrow> P m')"
    and body: "(if r_pos W r < e
      then c_bind (Some (r_uint32 W r)) (\<lambda>(tag, r1).
        case fld tag m r1 of
          Continue c \<Rightarrow> c_bind c (\<lambda>(m2, r2). loop W fld e m2 r2)
        | Break \<Rightarrow>
            if tag AND 7 = 4 \<or> tag = 0 then Some (Inr (m, r1))
            else c_bind (Some (r_skip W (tag AND 7) r1)) (\<lambda>(u, r2). loop W fld e m r2))
      else Some (Inr (m, r))) = Some y"
    and fld: "fld_keeps P fld" and m: "P m" and y: "y = Inr (m', r')"
  show "P m'"
  proof (cases "r_pos W r < e")
    case False
    with body m y show ?thesis by simp
  next
    case True
    with body y obtain tag r1 where step: "(case fld tag m r1 of
          Continue c \<Rightarrow> c_bind c (\<lambda>(m2, r2). loop W fld e m2 r2)
        | Break \<Rightarrow>
            if tag AND 7 = 4 \<or> tag = 0 then Some (Inr (m, r1))
            else c_bind (Some (r_skip W (tag AND 7) r1)) (\<lambda>(u, r2). loop W fld e m r2))
          = Some (Inr (m', r'))"
      by (auto simp: c_bind_Inr_iff)
    show ?thesis by (rule decode_step_keeps [OF fld m _ step]) (use IH fld in blast)
  qed
qed

lemma decode_with_yields:
  "fld_keeps P fld \<Longrightarrow> P base \<Longrightarrow> yields (decode_with W fld base) P"
  unfolding yields_def decode_with_def using decode_loop_keeps [of W fld _ base _ _ P] by blast

lemma decode_bytes_yields:
  "yields dec P \<Longrightarrow> decode_bytes W dec bs = Some (Inr m) \<Longrightarrow> P m"
  by (auto simp: decode_bytes_def yields_def c_bind_Inr_iff)

end
