(* ===== verification/Wire_Bytes.thy ===== *)
theory Wire_Bytes
  imports Wire_Laws
begin

unbundle bit_operations_syntax

text \<open>
  The protobuf wire format, as a concrete reader and writer: base-128 varints, length-prefixed
  UTF-8 strings and nested messages, little-endian binary32 floats with rounding to nearest
  even, 64-bit integers as decimal strings. It instantiates the contracts of \<open>Wire\<close>, so the
  hypotheses of the message properties are met by the format that the services speak.

  The state of the writer is the stack of its open forks; the state of the reader is the input
  and the position. Strings are sequences of the characters up to \<^verbatim>\<open>U+00FF\<close>; bytes that are no
  such text decode to \<^verbatim>\<open>?\<close>.
\<close>

section \<open>Varints\<close>

fun varint :: "nat \<Rightarrow> byte list" where
  "varint n =
     (if n < 128 then [of_nat n] else of_nat (128 + n mod 128) # varint (n div 128))"

declare varint.simps [simp del]

fun read_varint :: "nat \<Rightarrow> byte list \<Rightarrow> (nat \<times> nat) option" where
  "read_varint 0 bs = None"
| "read_varint (Suc k) [] = None"
| "read_varint (Suc k) (b # bs) =
     (if unat b < 128 then Some (unat b, 1)
      else case read_varint k bs of
             None \<Rightarrow> None
           | Some (v, c) \<Rightarrow> Some (unat b - 128 + 128 * v, Suc c))"

lemma unat_byte: "n < 256 \<Longrightarrow> unat (of_nat n :: byte) = n"
  by (simp add: unat_of_nat)

lemma unat_byte_add:
  assumes "m + n < 256"
  shows "unat (of_nat m + of_nat n :: byte) = m + n"
  using unat_byte [OF assms] by simp

lemma unat_128_add: "n < 128 \<Longrightarrow> unat (128 + of_nat n :: byte) = 128 + n"
  using unat_byte_add [of 128 n] by simp

lemma read_varint_varint:
  "n < 128 ^ Suc k \<Longrightarrow> read_varint (Suc k) (varint n @ rest) = Some (n, length (varint n))"
proof (induction k arbitrary: n)
  case 0
  then show ?case by (simp add: varint.simps [of n] unat_byte)
next
  case (Suc k)
  show ?case
  proof (cases "n < 128")
    case True
    then show ?thesis by (simp add: varint.simps [of n] unat_byte)
  next
    case False
    have "n div 128 < 128 ^ Suc k" using Suc.prems by (simp add: less_mult_imp_div_less mult.commute)
    from Suc.IH [OF this] False show ?thesis
      by (simp add: varint.simps [of n] unat_128_add)
  qed
qed

lemma read_varint_bounds:
  "read_varint k bs = Some (v, c) \<Longrightarrow> 0 < c \<and> c \<le> length bs"
  by (induction k bs arbitrary: v c rule: read_varint.induct) (auto split: if_splits option.splits)

section \<open>Text\<close>

definition utf8_char :: "char \<Rightarrow> byte list" where
  "utf8_char c =
     (let n = of_char c :: nat
      in if n < 128 then [of_nat n] else [of_nat (192 + n div 64), of_nat (128 + n mod 64)])"

definition utf8 :: "string \<Rightarrow> byte list" where
  "utf8 s = concat (map utf8_char s)"

fun utf8_decode :: "byte list \<Rightarrow> string" where
  "utf8_decode [] = []"
| "utf8_decode [b] = [if unat b < 128 then char_of (unat b) else CHR ''?'']"
| "utf8_decode (b # b' # bs) =
     (if unat b < 128 then char_of (unat b) # utf8_decode (b' # bs)
      else if unat b \<in> {194, 195} \<and> 128 \<le> unat b' \<and> unat b' < 192
      then char_of ((unat b - 192) * 64 + (unat b' - 128)) # utf8_decode bs
      else CHR ''?'' # utf8_decode (b' # bs))"

lemma utf8_decode_char: "utf8_decode (utf8_char c @ bs) = c # utf8_decode bs"
proof -
  define n where "n = (of_char c :: nat)"
  have n: "n < 256" and c: "char_of n = c" by (simp_all add: n_def)
  show ?thesis
  proof (cases "n < 128")
    case True
    then show ?thesis
      by (cases bs) (simp_all add: utf8_char_def Let_def unat_byte c flip: n_def)
  next
    case False
    have q: "n div 64 \<in> {2, 3}" using False n by auto
    have "n div 64 * 64 + n mod 64 = n" by simp
    moreover have "utf8_char c = [of_nat (192 + n div 64), of_nat (128 + n mod 64)]"
      using False by (simp add: utf8_char_def Let_def flip: n_def)
    moreover have "unat (of_nat (192 + n div 64) :: byte) = 192 + n div 64"
      using q by (intro unat_byte) auto
    moreover have "unat (of_nat (128 + n mod 64) :: byte) = 128 + n mod 64"
      by (intro unat_byte) (simp add: trans_less_add1)
    ultimately show ?thesis using q c by (simp del: of_nat_add)
  qed
qed

lemma utf8_decode_utf8 [simp]: "utf8_decode (utf8 s) = s"
  by (induction s) (simp_all add: utf8_def utf8_decode_char)

lemma length_utf8: "length (utf8 s) \<le> 2 * length s"
  by (induction s) (auto simp: utf8_def utf8_char_def Let_def)

section \<open>Floats\<close>

text \<open>The exponent of a positive rational, \<open>2 ^ e \<le> a < 2 ^ (e + 1)\<close>, and scaling by a power of two.\<close>

fun bit_count :: "nat \<Rightarrow> nat" where
  "bit_count n = (if n = 0 then 0 else Suc (bit_count (n div 2)))"

declare bit_count.simps [simp del]

definition scale :: "rat \<Rightarrow> int \<Rightarrow> rat" where
  "scale a e = (if 0 \<le> e then a * 2 ^ nat e else a / 2 ^ nat (- e))"

definition exponent :: "rat \<Rightarrow> int" where
  "exponent a =
     (let (p, q) = quotient_of a; k = int (bit_count (nat p)) - int (bit_count (nat q))
      in if scale 1 k \<le> a then k else k - 1)"

definition round_even :: "rat \<Rightarrow> int" where
  "round_even a =
     (let f = \<lfloor>a\<rfloor>; d = a - of_int f
      in if d < 1 / 2 \<or> (d = 1 / 2 \<and> even f) then f else f + 1)"

definition float32_abs :: "rat \<Rightarrow> nat" where
  "float32_abs a =
     (if a = 0 then 0
      else let e = max (- 126) (exponent a)
           in min (255 * 2 ^ 23) (nat (e + 126) * 2 ^ 23 + nat (round_even (scale a (23 - e)))))"

fun float32_bits :: "js_num \<Rightarrow> nat" where
  "float32_bits NaN = 255 * 2 ^ 23 + 2 ^ 22"
| "float32_bits PosInf = 255 * 2 ^ 23"
| "float32_bits NegInf = 2 ^ 31 + 255 * 2 ^ 23"
| "float32_bits (Fin q) = (if q < 0 then 2 ^ 31 + float32_abs (- q) else float32_abs q)"

definition float32_value :: "nat \<Rightarrow> js_num" where
  "float32_value b =
     (let neg = 2 ^ 31 \<le> b; e = b div 2 ^ 23 mod 256; f = b mod 2 ^ 23;
          a = (if e = 0 then scale (of_nat f) (- 149) else scale (of_nat (2 ^ 23 + f)) (int e - 150))
      in if e = 255 then (if f \<noteq> 0 then NaN else if neg then NegInf else PosInf)
         else Fin (if neg then - a else a))"

definition float32_le :: "nat \<Rightarrow> byte list" where
  "float32_le b = [of_nat b, of_nat (b div 2 ^ 8), of_nat (b div 2 ^ 16), of_nat (b div 2 ^ 24)]"

fun float32_of_le :: "byte list \<Rightarrow> nat" where
  "float32_of_le [] = 0"
| "float32_of_le (b # bs) = unat b + 256 * float32_of_le bs"

text \<open>What a number is after a trip through binary32, \<^verbatim>\<open>Math.fround\<close>.\<close>

definition fround32 :: "js_num \<Rightarrow> js_num" where
  "fround32 x = float32_value (float32_of_le (float32_le (float32_bits x)))"

section \<open>The writer\<close>

definition wire_error :: "string \<Rightarrow> thrown" where
  "wire_error s = TError (new_VectronError s)"

definition raw :: "byte list \<Rightarrow> byte list list writes" where
  "raw bs w = (case w of [] \<Rightarrow> Inl (wire_error ''invalid state, fork stack empty'')
                 | t # fs \<Rightarrow> Inr ((t @ bs) # fs))"

fun enc_bytes :: "prim \<Rightarrow> byte list" where
  "enc_bytes (PUint32 u) = varint (unat u)"
| "enc_bytes (PInt32 u) = varint (unat (scast u :: 64 word))"
| "enc_bytes (PBool b) = [if b then 1 else 0]"
| "enc_bytes (PFloat x) = float32_le (float32_bits x)"
| "enc_bytes (PString s) = varint (length (utf8 s)) @ utf8 s"
| "enc_bytes (PBytes bs) = varint (length bs) @ bs"
| "enc_bytes (PUint64 l) = varint (unat l)"
| "enc_bytes (PInt64 l) = varint (unat l)"

definition whole :: "js_num \<Rightarrow> int option" where
  "whole n = (case n of Fin q \<Rightarrow> if of_int \<lfloor>q\<rfloor> = q then Some \<lfloor>q\<rfloor> else None | _ \<Rightarrow> None)"

definition put_uint32 :: "js_num \<Rightarrow> byte list list writes" where
  "put_uint32 n =
     (case whole n of
        Some i \<Rightarrow> if 0 \<le> i \<and> i < 2 ^ 32 then raw (enc_bytes (PUint32 (word_of_int i)))
                  else (\<lambda>w. Inl (wire_error ''invalid uint32''))
      | None \<Rightarrow> (\<lambda>w. Inl (wire_error ''invalid uint32'')))"

definition put_int32 :: "js_num \<Rightarrow> byte list list writes" where
  "put_int32 n =
     (case whole n of
        Some i \<Rightarrow> if - (2 ^ 31) \<le> i \<and> i < 2 ^ 31 then raw (enc_bytes (PInt32 (word_of_int i)))
                  else (\<lambda>w. Inl (wire_error ''invalid int32''))
      | None \<Rightarrow> (\<lambda>w. Inl (wire_error ''invalid int32'')))"

definition float32_ok :: "js_num \<Rightarrow> bool" where
  "float32_ok x = (case x of Fin q \<Rightarrow> \<bar>q\<bar> \<le> of_nat ((2 ^ 24 - 1) * 2 ^ 104) | _ \<Rightarrow> True)"

definition put_float :: "js_num \<Rightarrow> byte list list writes" where
  "put_float x = (if float32_ok x then raw (enc_bytes (PFloat x))
                  else (\<lambda>w. Inl (wire_error ''invalid float32'')))"

definition put_string :: "string \<Rightarrow> byte list list writes" where
  "put_string s = (if length (utf8 s) < 2 ^ 32 then raw (enc_bytes (PString s))
                   else (\<lambda>w. Inl (wire_error ''invalid uint32'')))"

definition put_bytes :: "byte list \<Rightarrow> byte list list writes" where
  "put_bytes bs = (if length bs < 2 ^ 32 then raw (enc_bytes (PBytes bs))
                   else (\<lambda>w. Inl (wire_error ''invalid uint32'')))"

definition put_uint64 :: "string \<Rightarrow> byte list list writes" where
  "put_uint64 s = (if uint64_string s then raw (enc_bytes (PUint64 (of_nat (parse_nat s))))
                   else (\<lambda>w. Inl (wire_error ''invalid uint64'')))"

definition put_int64 :: "string \<Rightarrow> byte list list writes" where
  "put_int64 s = (if int64_string s then raw (enc_bytes (PInt64 (word_of_int (parse_int s))))
                  else (\<lambda>w. Inl (wire_error ''invalid int64'')))"

definition put_fork :: "byte list list writes" where
  "put_fork w = Inr ([] # w)"

fun put_join :: "byte list list writes" where
  "put_join (t # t' # fs) =
     (if length t < 2 ^ 32 then Inr ((t' @ varint (length t) @ t) # fs)
      else Inl (wire_error ''invalid uint32''))"
| "put_join w = Inl (wire_error ''invalid state, fork stack empty'')"

fun put_finish :: "byte list list \<Rightarrow> byte list" where
  "put_finish [] = []"
| "put_finish (t # fs) = t"

section \<open>The reader\<close>

type_synonym cursor = "byte list \<times> nat"

definition get_varint :: "(nat \<Rightarrow> 'v) \<Rightarrow> (cursor, 'v) reads" where
  "get_varint f r =
     (case read_varint 10 (drop (snd r) (fst r)) of
        None \<Rightarrow> Inl (wire_error ''invalid varint'')
      | Some (v, c) \<Rightarrow> Inr (f v, (fst r, snd r + c)))"

definition get_bytes :: "nat \<Rightarrow> (cursor, byte list) reads" where
  "get_bytes n r =
     (if snd r + n \<le> length (fst r) then Inr (take n (drop (snd r) (fst r)), (fst r, snd r + n))
      else Inl (wire_error ''premature EOF''))"

definition get_float :: "(cursor, js_num) reads" where
  "get_float r = map_sum id (\<lambda>(bs, r'). (float32_value (float32_of_le bs), r')) (get_bytes 4 r)"

text \<open>A length-delimited value: \<^verbatim>\<open>string()\<close> decodes its bytes, \<^verbatim>\<open>bytes()\<close> returns them.\<close>

definition get_delimited :: "(byte list \<Rightarrow> 'v) \<Rightarrow> (cursor, 'v) reads" where
  "get_delimited f r =
     res_bind (get_varint (of_nat :: nat \<Rightarrow> 32 word) r) (\<lambda>(n, r1).
       map_sum id (\<lambda>(bs, r'). (f bs, r')) (get_bytes (unat n) r1))"

fun skip_varint :: "byte list \<Rightarrow> nat \<Rightarrow> nat option" where
  "skip_varint [] p = None"
| "skip_varint (b # bs) p = (if unat b < 128 then Some (Suc p) else skip_varint bs (Suc p))"

text \<open>A group is skipped tag by tag up to its end tag; every tag takes at least one byte, so the
  number of bytes left bounds the nesting and the length of the group.\<close>

fun skip_field :: "nat \<Rightarrow> 32 word \<Rightarrow> (cursor, unit) reads"
  and skip_group :: "nat \<Rightarrow> (cursor, unit) reads" where
  "skip_field 0 wt r = Inl (wire_error ''premature EOF'')"
| "skip_field (Suc k) wt r =
     (if wt = 0 then
        (case skip_varint (drop (snd r) (fst r)) (snd r) of
           None \<Rightarrow> Inl (wire_error ''premature EOF'')
         | Some p \<Rightarrow> Inr ((), (fst r, p)))
      else if wt = 1 then map_sum id (\<lambda>(bs, r'). ((), r')) (get_bytes 8 r)
      else if wt = 5 then map_sum id (\<lambda>(bs, r'). ((), r')) (get_bytes 4 r)
      else if wt = 2 then
        res_bind (get_varint (of_nat :: nat \<Rightarrow> 32 word) r) (\<lambda>(n, r1).
          map_sum id (\<lambda>(bs, r'). ((), r')) (get_bytes (unat n) r1))
      else if wt = 3 then skip_group k r
      else Inl (wire_error ''cant skip wire type''))"
| "skip_group 0 r = Inl (wire_error ''premature EOF'')"
| "skip_group (Suc k) r =
     res_bind (get_varint (of_nat :: nat \<Rightarrow> 32 word) r) (\<lambda>(tag, r1).
       if tag AND 7 = 4 then Inr ((), r1)
       else res_bind (skip_field k (tag AND 7) r1) (\<lambda>(u, r2). skip_group k r2))"

definition get_skip :: "32 word \<Rightarrow> (cursor, unit) reads" where
  "get_skip wt r = skip_field (2 * length (fst r) + 2) wt r"

definition protobuf :: "(byte list list, cursor) wire" where
  "protobuf =
     \<lparr>w_new = [[]], w_uint32 = put_uint32, w_int32 = put_int32,
      w_bool = (\<lambda>b. raw (enc_bytes (PBool b))), w_float = put_float, w_string = put_string,
      w_bytes = put_bytes, w_uint64 = put_uint64, w_int64 = put_int64, w_fork = put_fork, w_join = put_join,
      w_finish = put_finish, r_new = (\<lambda>bs. (bs, 0)), r_pos = snd,
      r_len = (\<lambda>r. length (fst r)), r_uint32 = get_varint of_nat, r_int32 = get_varint of_nat,
      r_bool = get_varint (\<lambda>n. n mod 2 ^ 64 \<noteq> 0), r_float = get_float, r_string = get_delimited utf8_decode,
      r_bytes = get_delimited id, r_uint64 = get_varint of_nat, r_int64 = get_varint of_nat, r_skip = get_skip\<rparr>"


section \<open>The format meets the contracts\<close>

subsection \<open>Writing\<close>

lemma raw_appends: "appends (\<lambda>w. w) (raw bs) bs"
  by (simp add: appends_def raw_def)

lemma raw_total: "never_fails (\<lambda>w. w) (raw bs)"
  by (auto simp: never_fails_def raw_def neq_Nil_conv)

lemma whole_of_nat: "whole (num_of_nat n) = Some (int n)"
  by (simp add: whole_def)

lemma whole_of_int: "whole (num_of_int i) = Some i"
  by (simp add: whole_def)

lemma whole_Some: "whole n = Some i \<Longrightarrow> n = num_of_int i"
  by (auto simp: whole_def split: js_num.splits if_splits)

lemma unat_less_32: "unat (u :: 32 word) < 2 ^ 32"
  using unsigned_less [of u] by simp

lemma unat_less_64: "unat (l :: 64 word) < 2 ^ 64"
  using unsigned_less [of l] by simp

lemma put_uint32_unat: "put_uint32 (num_of_nat (unat u)) = raw (enc_bytes (PUint32 u))"
proof -
  have "int (unat u) < 2 ^ 32" using unat_less_32 [of u]
    by (simp only: of_nat_less_numeral_power_cancel_iff)
  then show ?thesis unfolding put_uint32_def whole_of_nat by simp
qed

lemma put_uint32_ok:
  assumes "put_uint32 n w = Inr w'"
  shows "\<exists>u :: 32 word. n = num_of_nat (unat u)"
proof -
  from assms obtain i where i: "whole n = Some i" "0 \<le> i" "i < 2 ^ 32"
    by (auto simp: put_uint32_def split: option.splits if_splits)
  then have "unat (word_of_int i :: 32 word) = nat i"
    by (simp add: unat_eq_nat_uint uint_word_of_int)
  with i have "n = num_of_nat (unat (word_of_int i :: 32 word))"
    using whole_Some [OF i(1)] by simp
  then show ?thesis ..
qed

lemma put_int32_sint: "put_int32 (num_of_int (sint u)) = raw (enc_bytes (PInt32 u))"
  using sint_greater_eq [of u] sint_less [of u] unfolding put_int32_def whole_of_int by simp

lemma put_int32_ok:
  assumes "put_int32 n w = Inr w'"
  shows "\<exists>u :: 32 word. n = num_of_int (sint u)"
proof -
  from assms obtain i where i: "whole n = Some i" "- (2 ^ 31) \<le> i" "i < 2 ^ 31"
    by (auto simp: put_int32_def split: option.splits if_splits)
  then have "sint (word_of_int i :: 32 word) = i"
    by (simp add: sint_sbintrunc' signed_take_bit_int_eq_self)
  with i have "n = num_of_int (sint (word_of_int i :: 32 word))"
    using whole_Some [OF i(1)] by simp
  then show ?thesis ..
qed

lemma uint64_string_unat: "uint64_string (show_nat (unat (l :: 64 word)))"
  using unat_less_64 [of l] by (simp add: uint64_string_def)

lemma put_uint64_unat: "put_uint64 (show_nat (unat l)) = raw (enc_bytes (PUint64 l))"
  by (simp add: put_uint64_def uint64_string_unat)

lemma parse_show_int [simp]: "parse_int (show_int i) = i"
proof (cases "i < 0")
  case True
  then show ?thesis by (simp add: show_int_def)
next
  case False
  obtain c cs where cs: "show_nat (nat i) = c # cs"
    using show_nat_nonempty [of "nat i"] by (cases "show_nat (nat i)") simp_all
  have "is_digit c" using show_nat_digits [of "nat i"] cs by simp
  then have "c \<noteq> CHR ''-''" by (auto simp: is_digit_def)
  then have "parse_int (c # cs) = int (parse_nat (c # cs))"
    by (cases "c # cs" rule: parse_int.cases) auto
  with False show ?thesis by (simp add: show_int_def flip: cs)
qed

lemma int64_string_sint: "int64_string (show_int (sint (l :: 64 word)))"
  using sint_greater_eq [of l] sint_less [of l] by (simp add: int64_string_def)

lemma put_int64_sint: "put_int64 (show_int (sint l)) = raw (enc_bytes (PInt64 l))"
  by (simp add: put_int64_def int64_string_sint)

lemma put_join_closes:
  "put_join (t # t' # fs) = Inr w' \<Longrightarrow>
     length t < 2 ^ 32 \<and> w' = (t' @ enc_bytes (PUint32 (of_nat (length t))) @ t) # fs"
  by (auto simp: unat_of_nat split: if_splits)

lemma put_float_appends: "appends (\<lambda>w. w) (put_float x) (enc_bytes (PFloat x))"
  using raw_appends by (auto simp: put_float_def appends_def)

lemma put_string_appends: "appends (\<lambda>w. w) (put_string s) (enc_bytes (PString s))"
  using raw_appends by (auto simp: put_string_def appends_def)

lemma put_string_total:
  assumes "length s < 2 ^ 30"
  shows "never_fails (\<lambda>w. w) (put_string s)"
proof -
  have "length (utf8 s) < 2 ^ 32" using assms length_utf8 [of s] by simp
  then show ?thesis by (simp only: put_string_def if_True raw_total)
qed

lemma put_bytes_appends: "appends (\<lambda>w. w) (put_bytes bs) (enc_bytes (PBytes bs))"
  using raw_appends by (auto simp: put_bytes_def appends_def)

lemma put_fork_opens: "put_fork w = Inr w' \<Longrightarrow> w' = [] # w"
  by (simp add: put_fork_def)

interpretation pb: wire_writer protobuf "\<lambda>w. w" enc_bytes
  by unfold_locales
     (simp_all only: protobuf_def wire.simps put_uint32_unat put_int32_sint put_uint64_unat
       put_int64_sint raw_appends raw_total put_float_appends put_string_appends
       put_bytes_appends put_string_total put_finish.simps put_fork_opens,
      (erule put_uint32_ok put_int32_ok put_join_closes)+)

subsection \<open>Reading moves forward\<close>

text \<open>A read keeps the input, moves by at least \<open>n\<close> and, if it moves, ends inside the input.\<close>

definition moves :: "nat \<Rightarrow> (cursor, 'v) reads \<Rightarrow> bool" where
  "moves n rd \<longleftrightarrow>
     (\<forall>b p v b' p'. rd (b, p) = Inr (v, (b', p')) \<longrightarrow> b' = b \<and> p + n \<le> p' \<and> p' \<le> max p (length b))"

lemma movesI:
  assumes "\<And>b p v b' p'. rd (b, p) = Inr (v, (b', p')) \<Longrightarrow> b' = b \<and> p + n \<le> p' \<and> p' \<le> max p (length b)"
  shows "moves n rd"
  using assms by (auto simp: moves_def)

lemma movesD:
  "moves n rd \<Longrightarrow> rd (b, p) = Inr (v, (b', p')) \<Longrightarrow> b' = b \<and> p + n \<le> p' \<and> p' \<le> max p (length b)"
  unfolding moves_def by blast

lemma get_varint_moves: "moves 1 (get_varint f)"
proof (rule movesI)
  fix b p v b' p'
  assume "get_varint f (b, p) = Inr (v, (b', p'))"
  then obtain n c where "read_varint 10 (drop p b) = Some (n, c)" "b' = b" "p' = p + c"
    by (auto simp: get_varint_def split: option.splits)
  with read_varint_bounds [of 10 "drop p b" n c]
  show "b' = b \<and> p + 1 \<le> p' \<and> p' \<le> max p (length b)" by auto
qed

lemma get_bytes_moves: "moves n (get_bytes n)"
  by (rule movesI) (auto simp: get_bytes_def split: if_splits)

lemma moves_map: "moves n rd \<Longrightarrow> moves n (\<lambda>r. map_sum id (\<lambda>(x, r'). (f x, r')) (rd r))"
proof (rule movesI)
  fix b p v b' p'
  assume mv: "moves n rd" and "map_sum id (\<lambda>(x, r'). (f x, r')) (rd (b, p)) = Inr (v, (b', p'))"
  then obtain x where "rd (b, p) = Inr (x, (b', p'))" by (cases "rd (b, p)") auto
  with mv show "b' = b \<and> p + n \<le> p' \<and> p' \<le> max p (length b)" by (rule movesD)
qed

lemma moves_bind:
  assumes "moves n rd" "\<And>x. moves k (f x)"
  shows "moves (n + k) (\<lambda>r. res_bind (rd r) (\<lambda>(x, r'). f x r'))"
proof (rule movesI)
  fix b p v b' p'
  assume "res_bind (rd (b, p)) (\<lambda>(x, r'). f x r') = Inr (v, (b', p'))"
  then obtain x b1 p1 where "rd (b, p) = Inr (x, (b1, p1))" "f x (b1, p1) = Inr (v, (b', p'))"
    by (auto simp: res_bind_Inr_iff)
  with movesD [OF assms(1)] movesD [OF assms(2)]
  show "b' = b \<and> p + (n + k) \<le> p' \<and> p' \<le> max p (length b)" by fastforce
qed

lemma moves_weaken: "moves n rd \<Longrightarrow> k \<le> n \<Longrightarrow> moves k rd"
  unfolding moves_def by fastforce

lemma skip_varint_bounds: "skip_varint bs p = Some q \<Longrightarrow> p < q \<and> q \<le> p + length bs"
  by (induction bs p arbitrary: q rule: skip_varint.induct) (auto split: if_splits)

lemma skip_varint_moves:
  "moves 1 (\<lambda>r. case skip_varint (drop (snd r) (fst r)) (snd r) of
     None \<Rightarrow> Inl e | Some p \<Rightarrow> Inr ((), (fst r, p)))"
proof (rule movesI)
  fix b p v b' p'
  assume "(case skip_varint (drop (snd (b, p)) (fst (b, p))) (snd (b, p)) of
     None \<Rightarrow> Inl e | Some q \<Rightarrow> Inr ((), (fst (b, p), q))) = Inr (v, (b', p'))"
  then have "skip_varint (drop p b) p = Some p'" "b' = b" by (auto split: option.splits)
  with skip_varint_bounds [of "drop p b" p p']
  show "b' = b \<and> p + 1 \<le> p' \<and> p' \<le> max p (length b)" by auto
qed

lemma get_delimited_moves:
  "moves 1 (\<lambda>r. res_bind (get_varint (of_nat :: nat \<Rightarrow> 32 word) r) (\<lambda>(n, r1).
     map_sum id (\<lambda>(bs, r'). (f bs, r')) (get_bytes (unat n) r1)))"
  using moves_bind [OF get_varint_moves moves_weaken [OF moves_map [OF get_bytes_moves], of 0]]
  by simp

lemma moves_if: "moves n f \<Longrightarrow> moves n g \<Longrightarrow> moves n (\<lambda>r. if c then f r else g r)"
  by (cases c) simp_all

lemma moves_return: "moves 0 (\<lambda>r. Inr (x, r))"
  by (rule movesI) simp

lemma moves_fails: "moves n (\<lambda>r. Inl e)"
  by (rule movesI) simp

lemma skip_moves:
  "moves 1 (skip_field k wt)" "moves 1 (skip_group k)"
proof (induction k arbitrary: wt)
  case 0
  { case 1 show ?case by (simp add: moves_def) }
  { case 2 show ?case by (simp add: moves_def) }
next
  case (Suc k)
  note bytes = moves_weaken [OF moves_map [OF get_bytes_moves], of 1]
  { case 1
    show ?case
      unfolding skip_field.simps(2)
      by (intro moves_if skip_varint_moves bytes get_delimited_moves Suc.IH moves_fails) simp_all }
  { case 2
    have "moves 0 (\<lambda>r1. if tag AND 7 = 4 then Inr ((), r1)
       else res_bind (skip_field k (tag AND 7) r1) (\<lambda>(u, r2). skip_group k r2))" for tag :: "32 word"
      by (intro moves_if moves_return moves_weaken [OF moves_bind [OF Suc.IH]]) simp
    from moves_bind [OF get_varint_moves this] show ?case
      unfolding skip_group.simps by simp }
qed

lemma get_skip_moves: "moves 1 (get_skip wt)"
proof (rule movesI)
  fix b p v b' p'
  assume "get_skip wt (b, p) = Inr (v, (b', p'))"
  then have "skip_field (2 * length b + 2) wt (b, p) = Inr (v, (b', p'))" by (simp add: get_skip_def)
  with skip_moves(1) show "b' = b \<and> p + 1 \<le> p' \<and> p' \<le> max p (length b)" by (rule movesD)
qed

lemma get_float_moves: "moves 4 get_float"
  using moves_map [OF get_bytes_moves [of 4], of "\<lambda>bs. float32_value (float32_of_le bs)"]
  by (simp add: get_float_def [abs_def])

lemma get_value_moves: "moves 1 (get_delimited f)"
  using get_delimited_moves by (simp only: get_delimited_def [abs_def])

lemma moves_advances: "moves n rd \<Longrightarrow> 0 < n \<Longrightarrow> advances protobuf fst rd"
  unfolding advances_def by (auto simp: protobuf_def dest!: movesD)

lemma protobuf_reader:
  "r_new protobuf bs = (bs, 0)" "r_pos protobuf = snd" "r_len protobuf r = length (fst r)"
  "r_uint32 protobuf = get_varint of_nat" "r_int32 protobuf = get_varint of_nat"
  "r_bool protobuf = get_varint (\<lambda>n. n mod 2 ^ 64 \<noteq> 0)" "r_float protobuf = get_float"
  "r_string protobuf = get_delimited utf8_decode" "r_bytes protobuf = get_delimited id"
  "r_uint64 protobuf = get_varint of_nat"
  "r_int64 protobuf = get_varint of_nat" "r_skip protobuf = get_skip"
  by (simp_all add: protobuf_def)

interpretation pb: wire_reader protobuf fst
  by unfold_locales
     (simp_all only: protobuf_reader fst_conv snd_conv,
      (rule moves_advances, rule get_varint_moves get_float_moves get_value_moves get_skip_moves,
       simp)+)

subsection \<open>What was written is read back\<close>

lemma reads_backI:
  assumes "\<And>b p rest. drop p b = bs @ rest \<Longrightarrow> rd (b, p) = Inr (v, (b, p + length bs))"
  shows "reads_back protobuf fst rd bs v"
  using assms by (auto simp: reads_back_def protobuf_def)

lemma get_varint_at:
  assumes "n < 2 ^ 64" and at: "drop p b = varint n @ rest"
  shows "get_varint f (b, p) = Inr (f n, (b, p + length (varint n)))"
proof -
  have "n < 128 ^ Suc 9" using assms(1) by simp
  from read_varint_varint [OF this] have "read_varint 10 (varint n @ rest) = Some (n, length (varint n))"
    by (simp only: numeral_eq_Suc pred_numeral_simps One_nat_def [symmetric]) simp
  with at show ?thesis by (simp add: get_varint_def)
qed

lemma get_varint_reads:
  "n < 2 ^ 64 \<Longrightarrow> f n = v \<Longrightarrow> reads_back protobuf fst (get_varint f) (varint n) v"
  using get_varint_at by (intro reads_backI) blast

lemma get_bytes_reads:
  assumes at: "drop p b = bs @ rest" and "p \<le> length b"
  shows "get_bytes (length bs) (b, p) = Inr (bs, (b, p + length bs))"
proof -
  have "length (drop p b) = length bs + length rest" by (simp add: at)
  with assms(2) have "p + length bs \<le> length b" by simp
  with at show ?thesis by (simp add: get_bytes_def)
qed

lemma get_float_reads: "reads_back protobuf fst get_float (float32_le (float32_bits x)) (fround32 x)"
proof (rule reads_backI)
  fix b p rest
  let ?bs = "float32_le (float32_bits x)"
  assume at: "drop p b = ?bs @ rest"
  then have "drop p b \<noteq> []" by (simp add: float32_le_def)
  then have "p \<le> length b" by simp
  moreover have len: "length ?bs = 4" by (simp add: float32_le_def)
  ultimately have "get_bytes 4 (b, p) = Inr (?bs, (b, p + 4))"
    using get_bytes_reads [OF at] by (simp only: len)
  then show "get_float (b, p) = Inr (fround32 x, (b, p + length ?bs))"
    by (simp add: get_float_def fround32_def len)
qed

lemma get_delimited_reads:
  assumes "length bs < 2 ^ 32" and "f bs = v"
  shows "reads_back protobuf fst (get_delimited f) (varint (length bs) @ bs) v"
proof (rule reads_backI)
  fix b p rest
  let ?n = "length bs"
  assume "drop p b = (varint ?n @ bs) @ rest"
  then have at: "drop p b = varint ?n @ bs @ rest" by simp
  have len: "get_varint (of_nat :: nat \<Rightarrow> 32 word) (b, p) = Inr (of_nat ?n, (b, p + length (varint ?n)))"
    using assms by (intro get_varint_at [OF _ at]) simp
  from movesD [OF get_varint_moves len] have inside: "p + length (varint ?n) \<le> length b" by auto
  have "drop (p + length (varint ?n)) b = bs @ rest"
    using at by (metis add.commute append_eq_conv_conj drop_drop)
  from get_bytes_reads [OF this inside] len assms
  show "get_delimited f (b, p) = Inr (v, (b, p + length (varint ?n @ bs)))"
    by (simp add: get_delimited_def unat_of_nat add.assoc)
qed

lemma fround32_zero: "fround32 (Fin 0) = Fin 0"
  by (simp add: fround32_def float32_abs_def float32_le_def float32_value_def scale_def)

lemma unat_scast_low: "(of_nat (unat (scast u :: 64 word)) :: 32 word) = u"
proof -
  have "(of_nat (unat (scast u :: 64 word)) :: 32 word) = ucast (scast u :: 64 word)"
    by simp
  also have "\<dots> = u" by (rule bit_word_eqI) (simp add: bit_simps)
  finally show ?thesis .
qed

interpretation pb: wire_codec protobuf "\<lambda>w. w" enc_bytes fst fround32
proof unfold_locales
  fix s w w'
  assume "w_string protobuf s w = Inr w'"
  then have "length (utf8 s) < 2 ^ 32"
    by (auto simp: protobuf_def put_string_def split: if_splits)
  then show "reads_back protobuf fst (r_string protobuf) (enc_bytes (PString s)) s"
    unfolding protobuf_reader enc_bytes.simps by (rule get_delimited_reads) simp
next
  fix bs w w'
  assume "w_bytes protobuf bs w = Inr w'"
  then have "length bs < 2 ^ 32"
    by (auto simp: protobuf_def put_bytes_def split: if_splits)
  then show "reads_back protobuf fst (r_bytes protobuf) (enc_bytes (PBytes bs)) bs"
    unfolding protobuf_reader enc_bytes.simps by (rule get_delimited_reads) simp
next
  fix u :: "32 word"
  have "unat u < 2 ^ 64" using unat_less_32 [of u] by simp
  then show "reads_back protobuf fst (r_uint32 protobuf) (enc_bytes (PUint32 u)) u"
    unfolding protobuf_reader enc_bytes.simps by (rule get_varint_reads) simp
  show "reads_back protobuf fst (r_int32 protobuf) (enc_bytes (PInt32 u)) u"
    unfolding protobuf_reader enc_bytes.simps
    by (rule get_varint_reads) (rule unat_less_64 unat_scast_low)+
next
  fix b
  have "enc_bytes (PBool b) = varint (of_bool b)" by (simp add: varint.simps)
  moreover have "reads_back protobuf fst (r_bool protobuf) (varint (of_bool b)) b"
    unfolding protobuf_reader by (rule get_varint_reads) simp_all
  ultimately show "reads_back protobuf fst (r_bool protobuf) (enc_bytes (PBool b)) b" by simp
next
  fix l :: "64 word"
  show "reads_back protobuf fst (r_uint64 protobuf) (enc_bytes (PUint64 l)) l"
    "reads_back protobuf fst (r_int64 protobuf) (enc_bytes (PInt64 l)) l"
    unfolding protobuf_reader enc_bytes.simps
    by (rule get_varint_reads, rule unat_less_64, simp)+
qed (simp_all only: protobuf_reader enc_bytes.simps get_float_reads fround32_zero)

section \<open>Values that every wire reads\<close>

lemma zero_string: "uint64_string ''0''" "int64_string ''0''"
proof -
  have "''0'' = show_nat 0" by code_simp
  then show "uint64_string ''0''" "int64_string ''0''"
    using uint64_string_unat [of 0] int64_string_sint [of 0] by (simp_all add: show_int_def)
qed

lemmas read_values = uint64_string_unat int64_string_sint zero_string js_set_ok

section \<open>Evaluation on concrete messages\<close>

lemma protobuf_writer:
  "w_new protobuf = [[]]" "w_uint32 protobuf = put_uint32" "w_int32 protobuf = put_int32"
  "w_bool protobuf b = raw (enc_bytes (PBool b))" "w_float protobuf = put_float"
  "w_string protobuf = put_string" "w_bytes protobuf = put_bytes" "w_uint64 protobuf = put_uint64" "w_int64 protobuf = put_int64"
  "w_fork protobuf = put_fork" "w_join protobuf = put_join" "w_finish protobuf = put_finish"
  by (simp_all add: protobuf_def)

lemma float32_bits_one: "float32_bits (Fin 1) = 1065353216"
  by (simp add: float32_abs_def exponent_def bit_count.simps scale_def Let_def quotient_of_int
      round_even_def)

lemma float32_bits_odd: "float32_bits (Fin 16777217) = 1266679808"
proof -
  have "\<lfloor>16777217 / 2 :: rat\<rfloor> = 8388608" by (simp add: floor_eq_iff)
  then show ?thesis
    by (simp add: float32_abs_def exponent_def bit_count.simps scale_def Let_def quotient_of_int
        round_even_def)
qed

text \<open>\<open>16777217 = 2 ^ 24 + 1\<close> is the first integer that binary32 cannot hold.\<close>

lemma fround32_values: "fround32 (Fin 1) = Fin 1" "fround32 (Fin 16777217) = Fin 16777216"
  unfolding fround32_def float32_bits_one float32_bits_odd
  by (simp_all add: float32_le_def float32_value_def Let_def scale_def)

lemma varint_small: "n < 128 \<Longrightarrow> varint n = [of_nat n]"
  by (simp add: varint.simps)

lemmas protobuf_eval =
  protobuf_writer w_field_def w_nested_def w_if_def put_uint32_def put_int32_def put_float_def
  put_string_def put_bytes_def put_uint64_def put_int64_def put_fork_def raw_def whole_def float32_ok_def
  js_eq_def utf8_def utf8_char_def Let_def varint_small float32_le_def

end
