(* ===== verification/Auth_Messages.thy ===== *)
theory Auth_Messages
  imports Wire_Bytes
begin

unbundle bit_operations_syntax

text \<open>
  The messages of the auth service, translated from \<^verbatim>\<open>clientlibs/js/proto/auth/auth.ts\<close>: for each
  message its interface as a record, \<^verbatim>\<open>createBase\<close>, \<^verbatim>\<open>encode\<close>, the switch of \<^verbatim>\<open>decode\<close> with
  \<^verbatim>\<open>decode\<close> itself, \<^verbatim>\<open>fromPartial\<close> and \<^verbatim>\<open>create\<close>. Field names carry the message name. Numbers
  are \<open>js_num\<close>, 64-bit integers decimal strings, enum values their numbers, map fields
  dictionaries in entry order. A partial object is the tuple of its possibly missing fields.

  The two messages that \<^verbatim>\<open>apigateway.ts\<close> declares under the same names carry the prefix \<^verbatim>\<open>Auth\<close>
  here. \<open>wf_X\<close> says which messages travel unchanged, and \<open>rounded_X\<close> what binary32 does to the
  others.
\<close>

section \<open>Messages\<close>

subsection \<open>\<^verbatim>\<open>UserProfile\<close>\<close>

record UserProfile =
  UserProfile_id :: string
  UserProfile_email :: string
  UserProfile_createdAt :: string
  UserProfile_plan :: js_num
  UserProfile_subscriptionStatus :: js_num

definition createBaseUserProfile :: UserProfile where
  "createBaseUserProfile =
     \<lparr>UserProfile_id = [],
      UserProfile_email = [],
      UserProfile_createdAt = ''0'',
      UserProfile_plan = Fin 0,
      UserProfile_subscriptionStatus = Fin 0\<rparr>"

definition encode_UserProfile :: "('w, 'r) wire \<Rightarrow> UserProfile \<Rightarrow> 'w writes" where
  "encode_UserProfile W m =
     w_seq
      [w_if (UserProfile_id m \<noteq> []) (w_field W 10 (w_string W (UserProfile_id m))),
       w_if (UserProfile_email m \<noteq> []) (w_field W 18 (w_string W (UserProfile_email m))),
       w_if (UserProfile_createdAt m \<noteq> ''0'') (w_field W 24 (w_int64 W (UserProfile_createdAt m))),
       w_if (\<not> js_eq (UserProfile_plan m) (Fin 0)) (w_field W 32 (w_int32 W (UserProfile_plan m))),
       w_if (\<not> js_eq (UserProfile_subscriptionStatus m) (Fin 0)) (w_field W 40 (w_int32 W (UserProfile_subscriptionStatus m)))]"

definition switch_UserProfile :: "('w, 'r) wire \<Rightarrow> ('r, UserProfile) switch" where
  "switch_UserProfile W tag m r =
     (if drop_bit 3 tag = 1 then
       (if tag \<noteq> 10 then Break
        else arm_read (r_string W) (\<lambda>v. m\<lparr>UserProfile_id := v\<rparr>) r)
      else if drop_bit 3 tag = 2 then
       (if tag \<noteq> 18 then Break
        else arm_read (r_string W) (\<lambda>v. m\<lparr>UserProfile_email := v\<rparr>) r)
      else if drop_bit 3 tag = 3 then
       (if tag \<noteq> 24 then Break
        else arm_read (r_int64 W) (\<lambda>v. m\<lparr>UserProfile_createdAt := show_int (sint v)\<rparr>) r)
      else if drop_bit 3 tag = 4 then
       (if tag \<noteq> 32 then Break
        else arm_read (r_int32 W) (\<lambda>v. m\<lparr>UserProfile_plan := num_of_int (sint v)\<rparr>) r)
      else if drop_bit 3 tag = 5 then
       (if tag \<noteq> 40 then Break
        else arm_read (r_int32 W) (\<lambda>v. m\<lparr>UserProfile_subscriptionStatus := num_of_int (sint v)\<rparr>) r)
      else Break)"

type_synonym UserProfile_partial = "(string option) \<times> (string option) \<times> (string option) \<times> (js_num option) \<times> (js_num option)"

fun fromPartial_UserProfile :: "UserProfile_partial \<Rightarrow> UserProfile" where
  "fromPartial_UserProfile (id', email', createdAt', plan', subscriptionStatus') =
     \<lparr>UserProfile_id = nullish id' [],
      UserProfile_email = nullish email' [],
      UserProfile_createdAt = nullish createdAt' ''0'',
      UserProfile_plan = nullish plan' (Fin 0),
      UserProfile_subscriptionStatus = nullish subscriptionStatus' (Fin 0)\<rparr>"

definition create_UserProfile :: "UserProfile_partial option \<Rightarrow> UserProfile" where
  "create_UserProfile base = fromPartial_UserProfile (nullish base (None, None, None, None, None))"

definition decode_UserProfile :: "('w, 'r) wire \<Rightarrow> 'r \<Rightarrow> nat option \<Rightarrow> (UserProfile \<times> 'r) comp" where
  "decode_UserProfile W = decode_with W (switch_UserProfile W) createBaseUserProfile"

subsection \<open>\<^verbatim>\<open>APIKey\<close>\<close>

record APIKey =
  APIKey_keyPrefix :: string
  APIKey_userId :: string
  APIKey_createdAt :: string
  APIKey_name :: string

definition createBaseAPIKey :: APIKey where
  "createBaseAPIKey =
     \<lparr>APIKey_keyPrefix = [],
      APIKey_userId = [],
      APIKey_createdAt = ''0'',
      APIKey_name = []\<rparr>"

definition encode_APIKey :: "('w, 'r) wire \<Rightarrow> APIKey \<Rightarrow> 'w writes" where
  "encode_APIKey W m =
     w_seq
      [w_if (APIKey_keyPrefix m \<noteq> []) (w_field W 10 (w_string W (APIKey_keyPrefix m))),
       w_if (APIKey_userId m \<noteq> []) (w_field W 18 (w_string W (APIKey_userId m))),
       w_if (APIKey_createdAt m \<noteq> ''0'') (w_field W 24 (w_int64 W (APIKey_createdAt m))),
       w_if (APIKey_name m \<noteq> []) (w_field W 34 (w_string W (APIKey_name m)))]"

definition switch_APIKey :: "('w, 'r) wire \<Rightarrow> ('r, APIKey) switch" where
  "switch_APIKey W tag m r =
     (if drop_bit 3 tag = 1 then
       (if tag \<noteq> 10 then Break
        else arm_read (r_string W) (\<lambda>v. m\<lparr>APIKey_keyPrefix := v\<rparr>) r)
      else if drop_bit 3 tag = 2 then
       (if tag \<noteq> 18 then Break
        else arm_read (r_string W) (\<lambda>v. m\<lparr>APIKey_userId := v\<rparr>) r)
      else if drop_bit 3 tag = 3 then
       (if tag \<noteq> 24 then Break
        else arm_read (r_int64 W) (\<lambda>v. m\<lparr>APIKey_createdAt := show_int (sint v)\<rparr>) r)
      else if drop_bit 3 tag = 4 then
       (if tag \<noteq> 34 then Break
        else arm_read (r_string W) (\<lambda>v. m\<lparr>APIKey_name := v\<rparr>) r)
      else Break)"

type_synonym APIKey_partial = "(string option) \<times> (string option) \<times> (string option) \<times> (string option)"

fun fromPartial_APIKey :: "APIKey_partial \<Rightarrow> APIKey" where
  "fromPartial_APIKey (keyPrefix', userId', createdAt', name') =
     \<lparr>APIKey_keyPrefix = nullish keyPrefix' [],
      APIKey_userId = nullish userId' [],
      APIKey_createdAt = nullish createdAt' ''0'',
      APIKey_name = nullish name' []\<rparr>"

definition create_APIKey :: "APIKey_partial option \<Rightarrow> APIKey" where
  "create_APIKey base = fromPartial_APIKey (nullish base (None, None, None, None))"

definition decode_APIKey :: "('w, 'r) wire \<Rightarrow> 'r \<Rightarrow> nat option \<Rightarrow> (APIKey \<times> 'r) comp" where
  "decode_APIKey W = decode_with W (switch_APIKey W) createBaseAPIKey"

subsection \<open>\<^verbatim>\<open>RegisterUserRequest\<close>\<close>

record RegisterUserRequest =
  RegisterUserRequest_email :: string
  RegisterUserRequest_password :: string

definition createBaseRegisterUserRequest :: RegisterUserRequest where
  "createBaseRegisterUserRequest =
     \<lparr>RegisterUserRequest_email = [],
      RegisterUserRequest_password = []\<rparr>"

definition encode_RegisterUserRequest :: "('w, 'r) wire \<Rightarrow> RegisterUserRequest \<Rightarrow> 'w writes" where
  "encode_RegisterUserRequest W m =
     w_seq
      [w_if (RegisterUserRequest_email m \<noteq> []) (w_field W 10 (w_string W (RegisterUserRequest_email m))),
       w_if (RegisterUserRequest_password m \<noteq> []) (w_field W 18 (w_string W (RegisterUserRequest_password m)))]"

definition switch_RegisterUserRequest :: "('w, 'r) wire \<Rightarrow> ('r, RegisterUserRequest) switch" where
  "switch_RegisterUserRequest W tag m r =
     (if drop_bit 3 tag = 1 then
       (if tag \<noteq> 10 then Break
        else arm_read (r_string W) (\<lambda>v. m\<lparr>RegisterUserRequest_email := v\<rparr>) r)
      else if drop_bit 3 tag = 2 then
       (if tag \<noteq> 18 then Break
        else arm_read (r_string W) (\<lambda>v. m\<lparr>RegisterUserRequest_password := v\<rparr>) r)
      else Break)"

type_synonym RegisterUserRequest_partial = "(string option) \<times> (string option)"

fun fromPartial_RegisterUserRequest :: "RegisterUserRequest_partial \<Rightarrow> RegisterUserRequest" where
  "fromPartial_RegisterUserRequest (email', password') =
     \<lparr>RegisterUserRequest_email = nullish email' [],
      RegisterUserRequest_password = nullish password' []\<rparr>"

definition create_RegisterUserRequest :: "RegisterUserRequest_partial option \<Rightarrow> RegisterUserRequest" where
  "create_RegisterUserRequest base = fromPartial_RegisterUserRequest (nullish base (None, None))"

definition decode_RegisterUserRequest :: "('w, 'r) wire \<Rightarrow> 'r \<Rightarrow> nat option \<Rightarrow> (RegisterUserRequest \<times> 'r) comp" where
  "decode_RegisterUserRequest W = decode_with W (switch_RegisterUserRequest W) createBaseRegisterUserRequest"

subsection \<open>\<^verbatim>\<open>RegisterUserResponse\<close>\<close>

record RegisterUserResponse =
  RegisterUserResponse_user :: "UserProfile option"

definition createBaseRegisterUserResponse :: RegisterUserResponse where
  "createBaseRegisterUserResponse =
     \<lparr>RegisterUserResponse_user = None\<rparr>"

definition encode_RegisterUserResponse :: "('w, 'r) wire \<Rightarrow> RegisterUserResponse \<Rightarrow> 'w writes" where
  "encode_RegisterUserResponse W m =
     w_seq
      [(case RegisterUserResponse_user m of None \<Rightarrow> w_seq [] | Some v \<Rightarrow> w_nested W 10 (encode_UserProfile W v))]"

definition switch_RegisterUserResponse :: "('w, 'r) wire \<Rightarrow> ('r, RegisterUserResponse) switch" where
  "switch_RegisterUserResponse W tag m r =
     (if drop_bit 3 tag = 1 then
       (if tag \<noteq> 10 then Break
        else arm_sub W (decode_UserProfile W) (\<lambda>v. m\<lparr>RegisterUserResponse_user := Some v\<rparr>) r)
      else Break)"

type_synonym RegisterUserResponse_partial = "UserProfile_partial option"

fun fromPartial_RegisterUserResponse :: "RegisterUserResponse_partial \<Rightarrow> RegisterUserResponse" where
  "fromPartial_RegisterUserResponse user' =
     \<lparr>RegisterUserResponse_user = map_option fromPartial_UserProfile user'\<rparr>"

definition create_RegisterUserResponse :: "RegisterUserResponse_partial option \<Rightarrow> RegisterUserResponse" where
  "create_RegisterUserResponse base = fromPartial_RegisterUserResponse (nullish base None)"

definition decode_RegisterUserResponse :: "('w, 'r) wire \<Rightarrow> 'r \<Rightarrow> nat option \<Rightarrow> (RegisterUserResponse \<times> 'r) comp" where
  "decode_RegisterUserResponse W = decode_with W (switch_RegisterUserResponse W) createBaseRegisterUserResponse"

subsection \<open>\<^verbatim>\<open>LoginRequest\<close>\<close>

record LoginRequest =
  LoginRequest_email :: string
  LoginRequest_password :: string

definition createBaseLoginRequest :: LoginRequest where
  "createBaseLoginRequest =
     \<lparr>LoginRequest_email = [],
      LoginRequest_password = []\<rparr>"

definition encode_LoginRequest :: "('w, 'r) wire \<Rightarrow> LoginRequest \<Rightarrow> 'w writes" where
  "encode_LoginRequest W m =
     w_seq
      [w_if (LoginRequest_email m \<noteq> []) (w_field W 10 (w_string W (LoginRequest_email m))),
       w_if (LoginRequest_password m \<noteq> []) (w_field W 18 (w_string W (LoginRequest_password m)))]"

definition switch_LoginRequest :: "('w, 'r) wire \<Rightarrow> ('r, LoginRequest) switch" where
  "switch_LoginRequest W tag m r =
     (if drop_bit 3 tag = 1 then
       (if tag \<noteq> 10 then Break
        else arm_read (r_string W) (\<lambda>v. m\<lparr>LoginRequest_email := v\<rparr>) r)
      else if drop_bit 3 tag = 2 then
       (if tag \<noteq> 18 then Break
        else arm_read (r_string W) (\<lambda>v. m\<lparr>LoginRequest_password := v\<rparr>) r)
      else Break)"

type_synonym LoginRequest_partial = "(string option) \<times> (string option)"

fun fromPartial_LoginRequest :: "LoginRequest_partial \<Rightarrow> LoginRequest" where
  "fromPartial_LoginRequest (email', password') =
     \<lparr>LoginRequest_email = nullish email' [],
      LoginRequest_password = nullish password' []\<rparr>"

definition create_LoginRequest :: "LoginRequest_partial option \<Rightarrow> LoginRequest" where
  "create_LoginRequest base = fromPartial_LoginRequest (nullish base (None, None))"

definition decode_LoginRequest :: "('w, 'r) wire \<Rightarrow> 'r \<Rightarrow> nat option \<Rightarrow> (LoginRequest \<times> 'r) comp" where
  "decode_LoginRequest W = decode_with W (switch_LoginRequest W) createBaseLoginRequest"

subsection \<open>\<^verbatim>\<open>LoginResponse\<close>\<close>

record LoginResponse =
  LoginResponse_jwtToken :: string
  LoginResponse_user :: "UserProfile option"

definition createBaseLoginResponse :: LoginResponse where
  "createBaseLoginResponse =
     \<lparr>LoginResponse_jwtToken = [],
      LoginResponse_user = None\<rparr>"

definition encode_LoginResponse :: "('w, 'r) wire \<Rightarrow> LoginResponse \<Rightarrow> 'w writes" where
  "encode_LoginResponse W m =
     w_seq
      [w_if (LoginResponse_jwtToken m \<noteq> []) (w_field W 10 (w_string W (LoginResponse_jwtToken m))),
       (case LoginResponse_user m of None \<Rightarrow> w_seq [] | Some v \<Rightarrow> w_nested W 18 (encode_UserProfile W v))]"

definition switch_LoginResponse :: "('w, 'r) wire \<Rightarrow> ('r, LoginResponse) switch" where
  "switch_LoginResponse W tag m r =
     (if drop_bit 3 tag = 1 then
       (if tag \<noteq> 10 then Break
        else arm_read (r_string W) (\<lambda>v. m\<lparr>LoginResponse_jwtToken := v\<rparr>) r)
      else if drop_bit 3 tag = 2 then
       (if tag \<noteq> 18 then Break
        else arm_sub W (decode_UserProfile W) (\<lambda>v. m\<lparr>LoginResponse_user := Some v\<rparr>) r)
      else Break)"

type_synonym LoginResponse_partial = "(string option) \<times> (UserProfile_partial option)"

fun fromPartial_LoginResponse :: "LoginResponse_partial \<Rightarrow> LoginResponse" where
  "fromPartial_LoginResponse (jwtToken', user') =
     \<lparr>LoginResponse_jwtToken = nullish jwtToken' [],
      LoginResponse_user = map_option fromPartial_UserProfile user'\<rparr>"

definition create_LoginResponse :: "LoginResponse_partial option \<Rightarrow> LoginResponse" where
  "create_LoginResponse base = fromPartial_LoginResponse (nullish base (None, None))"

definition decode_LoginResponse :: "('w, 'r) wire \<Rightarrow> 'r \<Rightarrow> nat option \<Rightarrow> (LoginResponse \<times> 'r) comp" where
  "decode_LoginResponse W = decode_with W (switch_LoginResponse W) createBaseLoginResponse"

subsection \<open>\<^verbatim>\<open>GetUserProfileRequest\<close>\<close>

datatype GetUserProfileRequest = GetUserProfileRequest

definition createBaseGetUserProfileRequest :: GetUserProfileRequest where
  "createBaseGetUserProfileRequest = GetUserProfileRequest"

definition encode_GetUserProfileRequest :: "('w, 'r) wire \<Rightarrow> GetUserProfileRequest \<Rightarrow> 'w writes" where
  "encode_GetUserProfileRequest W m = w_seq []"

definition switch_GetUserProfileRequest :: "('w, 'r) wire \<Rightarrow> ('r, GetUserProfileRequest) switch" where
  "switch_GetUserProfileRequest W tag m r = Break"

definition fromPartial_GetUserProfileRequest :: "unit \<Rightarrow> GetUserProfileRequest" where
  "fromPartial_GetUserProfileRequest u = createBaseGetUserProfileRequest"

definition create_GetUserProfileRequest :: "unit option \<Rightarrow> GetUserProfileRequest" where
  "create_GetUserProfileRequest base = fromPartial_GetUserProfileRequest (nullish base ())"

definition decode_GetUserProfileRequest :: "('w, 'r) wire \<Rightarrow> 'r \<Rightarrow> nat option \<Rightarrow> (GetUserProfileRequest \<times> 'r) comp" where
  "decode_GetUserProfileRequest W = decode_with W (switch_GetUserProfileRequest W) createBaseGetUserProfileRequest"

subsection \<open>\<^verbatim>\<open>GetUserProfileResponse\<close>\<close>

record GetUserProfileResponse =
  GetUserProfileResponse_user :: "UserProfile option"

definition createBaseGetUserProfileResponse :: GetUserProfileResponse where
  "createBaseGetUserProfileResponse =
     \<lparr>GetUserProfileResponse_user = None\<rparr>"

definition encode_GetUserProfileResponse :: "('w, 'r) wire \<Rightarrow> GetUserProfileResponse \<Rightarrow> 'w writes" where
  "encode_GetUserProfileResponse W m =
     w_seq
      [(case GetUserProfileResponse_user m of None \<Rightarrow> w_seq [] | Some v \<Rightarrow> w_nested W 10 (encode_UserProfile W v))]"

definition switch_GetUserProfileResponse :: "('w, 'r) wire \<Rightarrow> ('r, GetUserProfileResponse) switch" where
  "switch_GetUserProfileResponse W tag m r =
     (if drop_bit 3 tag = 1 then
       (if tag \<noteq> 10 then Break
        else arm_sub W (decode_UserProfile W) (\<lambda>v. m\<lparr>GetUserProfileResponse_user := Some v\<rparr>) r)
      else Break)"

type_synonym GetUserProfileResponse_partial = "UserProfile_partial option"

fun fromPartial_GetUserProfileResponse :: "GetUserProfileResponse_partial \<Rightarrow> GetUserProfileResponse" where
  "fromPartial_GetUserProfileResponse user' =
     \<lparr>GetUserProfileResponse_user = map_option fromPartial_UserProfile user'\<rparr>"

definition create_GetUserProfileResponse :: "GetUserProfileResponse_partial option \<Rightarrow> GetUserProfileResponse" where
  "create_GetUserProfileResponse base = fromPartial_GetUserProfileResponse (nullish base None)"

definition decode_GetUserProfileResponse :: "('w, 'r) wire \<Rightarrow> 'r \<Rightarrow> nat option \<Rightarrow> (GetUserProfileResponse \<times> 'r) comp" where
  "decode_GetUserProfileResponse W = decode_with W (switch_GetUserProfileResponse W) createBaseGetUserProfileResponse"

subsection \<open>\<^verbatim>\<open>UpdateUserProfileRequest\<close>\<close>

record AuthUpdateUserProfileRequest =
  AuthUpdateUserProfileRequest_plan :: js_num

definition createBaseAuthUpdateUserProfileRequest :: AuthUpdateUserProfileRequest where
  "createBaseAuthUpdateUserProfileRequest =
     \<lparr>AuthUpdateUserProfileRequest_plan = Fin 0\<rparr>"

definition encode_AuthUpdateUserProfileRequest :: "('w, 'r) wire \<Rightarrow> AuthUpdateUserProfileRequest \<Rightarrow> 'w writes" where
  "encode_AuthUpdateUserProfileRequest W m =
     w_seq
      [w_if (\<not> js_eq (AuthUpdateUserProfileRequest_plan m) (Fin 0)) (w_field W 8 (w_int32 W (AuthUpdateUserProfileRequest_plan m)))]"

definition switch_AuthUpdateUserProfileRequest :: "('w, 'r) wire \<Rightarrow> ('r, AuthUpdateUserProfileRequest) switch" where
  "switch_AuthUpdateUserProfileRequest W tag m r =
     (if drop_bit 3 tag = 1 then
       (if tag \<noteq> 8 then Break
        else arm_read (r_int32 W) (\<lambda>v. m\<lparr>AuthUpdateUserProfileRequest_plan := num_of_int (sint v)\<rparr>) r)
      else Break)"

type_synonym AuthUpdateUserProfileRequest_partial = "js_num option"

fun fromPartial_AuthUpdateUserProfileRequest :: "AuthUpdateUserProfileRequest_partial \<Rightarrow> AuthUpdateUserProfileRequest" where
  "fromPartial_AuthUpdateUserProfileRequest plan' =
     \<lparr>AuthUpdateUserProfileRequest_plan = nullish plan' (Fin 0)\<rparr>"

definition create_AuthUpdateUserProfileRequest :: "AuthUpdateUserProfileRequest_partial option \<Rightarrow> AuthUpdateUserProfileRequest" where
  "create_AuthUpdateUserProfileRequest base = fromPartial_AuthUpdateUserProfileRequest (nullish base None)"

definition decode_AuthUpdateUserProfileRequest :: "('w, 'r) wire \<Rightarrow> 'r \<Rightarrow> nat option \<Rightarrow> (AuthUpdateUserProfileRequest \<times> 'r) comp" where
  "decode_AuthUpdateUserProfileRequest W = decode_with W (switch_AuthUpdateUserProfileRequest W) createBaseAuthUpdateUserProfileRequest"

subsection \<open>\<^verbatim>\<open>UpdateUserProfileResponse\<close>\<close>

record AuthUpdateUserProfileResponse =
  AuthUpdateUserProfileResponse_user :: "UserProfile option"
  AuthUpdateUserProfileResponse_jwtToken :: string

definition createBaseAuthUpdateUserProfileResponse :: AuthUpdateUserProfileResponse where
  "createBaseAuthUpdateUserProfileResponse =
     \<lparr>AuthUpdateUserProfileResponse_user = None,
      AuthUpdateUserProfileResponse_jwtToken = []\<rparr>"

definition encode_AuthUpdateUserProfileResponse :: "('w, 'r) wire \<Rightarrow> AuthUpdateUserProfileResponse \<Rightarrow> 'w writes" where
  "encode_AuthUpdateUserProfileResponse W m =
     w_seq
      [(case AuthUpdateUserProfileResponse_user m of None \<Rightarrow> w_seq [] | Some v \<Rightarrow> w_nested W 10 (encode_UserProfile W v)),
       w_if (AuthUpdateUserProfileResponse_jwtToken m \<noteq> []) (w_field W 18 (w_string W (AuthUpdateUserProfileResponse_jwtToken m)))]"

definition switch_AuthUpdateUserProfileResponse :: "('w, 'r) wire \<Rightarrow> ('r, AuthUpdateUserProfileResponse) switch" where
  "switch_AuthUpdateUserProfileResponse W tag m r =
     (if drop_bit 3 tag = 1 then
       (if tag \<noteq> 10 then Break
        else arm_sub W (decode_UserProfile W) (\<lambda>v. m\<lparr>AuthUpdateUserProfileResponse_user := Some v\<rparr>) r)
      else if drop_bit 3 tag = 2 then
       (if tag \<noteq> 18 then Break
        else arm_read (r_string W) (\<lambda>v. m\<lparr>AuthUpdateUserProfileResponse_jwtToken := v\<rparr>) r)
      else Break)"

type_synonym AuthUpdateUserProfileResponse_partial = "(UserProfile_partial option) \<times> (string option)"

fun fromPartial_AuthUpdateUserProfileResponse :: "AuthUpdateUserProfileResponse_partial \<Rightarrow> AuthUpdateUserProfileResponse" where
  "fromPartial_AuthUpdateUserProfileResponse (user', jwtToken') =
     \<lparr>AuthUpdateUserProfileResponse_user = map_option fromPartial_UserProfile user',
      AuthUpdateUserProfileResponse_jwtToken = nullish jwtToken' []\<rparr>"

definition create_AuthUpdateUserProfileResponse :: "AuthUpdateUserProfileResponse_partial option \<Rightarrow> AuthUpdateUserProfileResponse" where
  "create_AuthUpdateUserProfileResponse base = fromPartial_AuthUpdateUserProfileResponse (nullish base (None, None))"

definition decode_AuthUpdateUserProfileResponse :: "('w, 'r) wire \<Rightarrow> 'r \<Rightarrow> nat option \<Rightarrow> (AuthUpdateUserProfileResponse \<times> 'r) comp" where
  "decode_AuthUpdateUserProfileResponse W = decode_with W (switch_AuthUpdateUserProfileResponse W) createBaseAuthUpdateUserProfileResponse"

subsection \<open>\<^verbatim>\<open>CreateAPIKeyRequest\<close>\<close>

record CreateAPIKeyRequest =
  CreateAPIKeyRequest_name :: string

definition createBaseCreateAPIKeyRequest :: CreateAPIKeyRequest where
  "createBaseCreateAPIKeyRequest =
     \<lparr>CreateAPIKeyRequest_name = []\<rparr>"

definition encode_CreateAPIKeyRequest :: "('w, 'r) wire \<Rightarrow> CreateAPIKeyRequest \<Rightarrow> 'w writes" where
  "encode_CreateAPIKeyRequest W m =
     w_seq
      [w_if (CreateAPIKeyRequest_name m \<noteq> []) (w_field W 10 (w_string W (CreateAPIKeyRequest_name m)))]"

definition switch_CreateAPIKeyRequest :: "('w, 'r) wire \<Rightarrow> ('r, CreateAPIKeyRequest) switch" where
  "switch_CreateAPIKeyRequest W tag m r =
     (if drop_bit 3 tag = 1 then
       (if tag \<noteq> 10 then Break
        else arm_read (r_string W) (\<lambda>v. m\<lparr>CreateAPIKeyRequest_name := v\<rparr>) r)
      else Break)"

type_synonym CreateAPIKeyRequest_partial = "string option"

fun fromPartial_CreateAPIKeyRequest :: "CreateAPIKeyRequest_partial \<Rightarrow> CreateAPIKeyRequest" where
  "fromPartial_CreateAPIKeyRequest name' =
     \<lparr>CreateAPIKeyRequest_name = nullish name' []\<rparr>"

definition create_CreateAPIKeyRequest :: "CreateAPIKeyRequest_partial option \<Rightarrow> CreateAPIKeyRequest" where
  "create_CreateAPIKeyRequest base = fromPartial_CreateAPIKeyRequest (nullish base None)"

definition decode_CreateAPIKeyRequest :: "('w, 'r) wire \<Rightarrow> 'r \<Rightarrow> nat option \<Rightarrow> (CreateAPIKeyRequest \<times> 'r) comp" where
  "decode_CreateAPIKeyRequest W = decode_with W (switch_CreateAPIKeyRequest W) createBaseCreateAPIKeyRequest"

subsection \<open>\<^verbatim>\<open>CreateAPIKeyResponse\<close>\<close>

record CreateAPIKeyResponse =
  CreateAPIKeyResponse_fullKey :: string
  CreateAPIKeyResponse_keyInfo :: "APIKey option"

definition createBaseCreateAPIKeyResponse :: CreateAPIKeyResponse where
  "createBaseCreateAPIKeyResponse =
     \<lparr>CreateAPIKeyResponse_fullKey = [],
      CreateAPIKeyResponse_keyInfo = None\<rparr>"

definition encode_CreateAPIKeyResponse :: "('w, 'r) wire \<Rightarrow> CreateAPIKeyResponse \<Rightarrow> 'w writes" where
  "encode_CreateAPIKeyResponse W m =
     w_seq
      [w_if (CreateAPIKeyResponse_fullKey m \<noteq> []) (w_field W 10 (w_string W (CreateAPIKeyResponse_fullKey m))),
       (case CreateAPIKeyResponse_keyInfo m of None \<Rightarrow> w_seq [] | Some v \<Rightarrow> w_nested W 18 (encode_APIKey W v))]"

definition switch_CreateAPIKeyResponse :: "('w, 'r) wire \<Rightarrow> ('r, CreateAPIKeyResponse) switch" where
  "switch_CreateAPIKeyResponse W tag m r =
     (if drop_bit 3 tag = 1 then
       (if tag \<noteq> 10 then Break
        else arm_read (r_string W) (\<lambda>v. m\<lparr>CreateAPIKeyResponse_fullKey := v\<rparr>) r)
      else if drop_bit 3 tag = 2 then
       (if tag \<noteq> 18 then Break
        else arm_sub W (decode_APIKey W) (\<lambda>v. m\<lparr>CreateAPIKeyResponse_keyInfo := Some v\<rparr>) r)
      else Break)"

type_synonym CreateAPIKeyResponse_partial = "(string option) \<times> (APIKey_partial option)"

fun fromPartial_CreateAPIKeyResponse :: "CreateAPIKeyResponse_partial \<Rightarrow> CreateAPIKeyResponse" where
  "fromPartial_CreateAPIKeyResponse (fullKey', keyInfo') =
     \<lparr>CreateAPIKeyResponse_fullKey = nullish fullKey' [],
      CreateAPIKeyResponse_keyInfo = map_option fromPartial_APIKey keyInfo'\<rparr>"

definition create_CreateAPIKeyResponse :: "CreateAPIKeyResponse_partial option \<Rightarrow> CreateAPIKeyResponse" where
  "create_CreateAPIKeyResponse base = fromPartial_CreateAPIKeyResponse (nullish base (None, None))"

definition decode_CreateAPIKeyResponse :: "('w, 'r) wire \<Rightarrow> 'r \<Rightarrow> nat option \<Rightarrow> (CreateAPIKeyResponse \<times> 'r) comp" where
  "decode_CreateAPIKeyResponse W = decode_with W (switch_CreateAPIKeyResponse W) createBaseCreateAPIKeyResponse"

subsection \<open>\<^verbatim>\<open>ListAPIKeysRequest\<close>\<close>

datatype ListAPIKeysRequest = ListAPIKeysRequest

definition createBaseListAPIKeysRequest :: ListAPIKeysRequest where
  "createBaseListAPIKeysRequest = ListAPIKeysRequest"

definition encode_ListAPIKeysRequest :: "('w, 'r) wire \<Rightarrow> ListAPIKeysRequest \<Rightarrow> 'w writes" where
  "encode_ListAPIKeysRequest W m = w_seq []"

definition switch_ListAPIKeysRequest :: "('w, 'r) wire \<Rightarrow> ('r, ListAPIKeysRequest) switch" where
  "switch_ListAPIKeysRequest W tag m r = Break"

definition fromPartial_ListAPIKeysRequest :: "unit \<Rightarrow> ListAPIKeysRequest" where
  "fromPartial_ListAPIKeysRequest u = createBaseListAPIKeysRequest"

definition create_ListAPIKeysRequest :: "unit option \<Rightarrow> ListAPIKeysRequest" where
  "create_ListAPIKeysRequest base = fromPartial_ListAPIKeysRequest (nullish base ())"

definition decode_ListAPIKeysRequest :: "('w, 'r) wire \<Rightarrow> 'r \<Rightarrow> nat option \<Rightarrow> (ListAPIKeysRequest \<times> 'r) comp" where
  "decode_ListAPIKeysRequest W = decode_with W (switch_ListAPIKeysRequest W) createBaseListAPIKeysRequest"

subsection \<open>\<^verbatim>\<open>ListAPIKeysResponse\<close>\<close>

record ListAPIKeysResponse =
  ListAPIKeysResponse_keys :: "APIKey list"

definition createBaseListAPIKeysResponse :: ListAPIKeysResponse where
  "createBaseListAPIKeysResponse =
     \<lparr>ListAPIKeysResponse_keys = []\<rparr>"

definition encode_ListAPIKeysResponse :: "('w, 'r) wire \<Rightarrow> ListAPIKeysResponse \<Rightarrow> 'w writes" where
  "encode_ListAPIKeysResponse W m =
     w_seq
      [w_seq (map (\<lambda>v. w_nested W 10 (encode_APIKey W v)) (ListAPIKeysResponse_keys m))]"

definition switch_ListAPIKeysResponse :: "('w, 'r) wire \<Rightarrow> ('r, ListAPIKeysResponse) switch" where
  "switch_ListAPIKeysResponse W tag m r =
     (if drop_bit 3 tag = 1 then
       (if tag \<noteq> 10 then Break
        else arm_sub W (decode_APIKey W) (\<lambda>v. m\<lparr>ListAPIKeysResponse_keys := ListAPIKeysResponse_keys m @ [v]\<rparr>) r)
      else Break)"

type_synonym ListAPIKeysResponse_partial = "APIKey_partial list option"

fun fromPartial_ListAPIKeysResponse :: "ListAPIKeysResponse_partial \<Rightarrow> ListAPIKeysResponse" where
  "fromPartial_ListAPIKeysResponse keys' =
     \<lparr>ListAPIKeysResponse_keys = map fromPartial_APIKey (nullish keys' [])\<rparr>"

definition create_ListAPIKeysResponse :: "ListAPIKeysResponse_partial option \<Rightarrow> ListAPIKeysResponse" where
  "create_ListAPIKeysResponse base = fromPartial_ListAPIKeysResponse (nullish base None)"

definition decode_ListAPIKeysResponse :: "('w, 'r) wire \<Rightarrow> 'r \<Rightarrow> nat option \<Rightarrow> (ListAPIKeysResponse \<times> 'r) comp" where
  "decode_ListAPIKeysResponse W = decode_with W (switch_ListAPIKeysResponse W) createBaseListAPIKeysResponse"

subsection \<open>\<^verbatim>\<open>DeleteAPIKeyRequest\<close>\<close>

record DeleteAPIKeyRequest =
  DeleteAPIKeyRequest_keyPrefix :: string

definition createBaseDeleteAPIKeyRequest :: DeleteAPIKeyRequest where
  "createBaseDeleteAPIKeyRequest =
     \<lparr>DeleteAPIKeyRequest_keyPrefix = []\<rparr>"

definition encode_DeleteAPIKeyRequest :: "('w, 'r) wire \<Rightarrow> DeleteAPIKeyRequest \<Rightarrow> 'w writes" where
  "encode_DeleteAPIKeyRequest W m =
     w_seq
      [w_if (DeleteAPIKeyRequest_keyPrefix m \<noteq> []) (w_field W 10 (w_string W (DeleteAPIKeyRequest_keyPrefix m)))]"

definition switch_DeleteAPIKeyRequest :: "('w, 'r) wire \<Rightarrow> ('r, DeleteAPIKeyRequest) switch" where
  "switch_DeleteAPIKeyRequest W tag m r =
     (if drop_bit 3 tag = 1 then
       (if tag \<noteq> 10 then Break
        else arm_read (r_string W) (\<lambda>v. m\<lparr>DeleteAPIKeyRequest_keyPrefix := v\<rparr>) r)
      else Break)"

type_synonym DeleteAPIKeyRequest_partial = "string option"

fun fromPartial_DeleteAPIKeyRequest :: "DeleteAPIKeyRequest_partial \<Rightarrow> DeleteAPIKeyRequest" where
  "fromPartial_DeleteAPIKeyRequest keyPrefix' =
     \<lparr>DeleteAPIKeyRequest_keyPrefix = nullish keyPrefix' []\<rparr>"

definition create_DeleteAPIKeyRequest :: "DeleteAPIKeyRequest_partial option \<Rightarrow> DeleteAPIKeyRequest" where
  "create_DeleteAPIKeyRequest base = fromPartial_DeleteAPIKeyRequest (nullish base None)"

definition decode_DeleteAPIKeyRequest :: "('w, 'r) wire \<Rightarrow> 'r \<Rightarrow> nat option \<Rightarrow> (DeleteAPIKeyRequest \<times> 'r) comp" where
  "decode_DeleteAPIKeyRequest W = decode_with W (switch_DeleteAPIKeyRequest W) createBaseDeleteAPIKeyRequest"

subsection \<open>\<^verbatim>\<open>DeleteAPIKeyResponse\<close>\<close>

record DeleteAPIKeyResponse =
  DeleteAPIKeyResponse_success :: bool

definition createBaseDeleteAPIKeyResponse :: DeleteAPIKeyResponse where
  "createBaseDeleteAPIKeyResponse =
     \<lparr>DeleteAPIKeyResponse_success = False\<rparr>"

definition encode_DeleteAPIKeyResponse :: "('w, 'r) wire \<Rightarrow> DeleteAPIKeyResponse \<Rightarrow> 'w writes" where
  "encode_DeleteAPIKeyResponse W m =
     w_seq
      [w_if (DeleteAPIKeyResponse_success m) (w_field W 8 (w_bool W (DeleteAPIKeyResponse_success m)))]"

definition switch_DeleteAPIKeyResponse :: "('w, 'r) wire \<Rightarrow> ('r, DeleteAPIKeyResponse) switch" where
  "switch_DeleteAPIKeyResponse W tag m r =
     (if drop_bit 3 tag = 1 then
       (if tag \<noteq> 8 then Break
        else arm_read (r_bool W) (\<lambda>v. m\<lparr>DeleteAPIKeyResponse_success := v\<rparr>) r)
      else Break)"

type_synonym DeleteAPIKeyResponse_partial = "bool option"

fun fromPartial_DeleteAPIKeyResponse :: "DeleteAPIKeyResponse_partial \<Rightarrow> DeleteAPIKeyResponse" where
  "fromPartial_DeleteAPIKeyResponse success' =
     \<lparr>DeleteAPIKeyResponse_success = nullish success' False\<rparr>"

definition create_DeleteAPIKeyResponse :: "DeleteAPIKeyResponse_partial option \<Rightarrow> DeleteAPIKeyResponse" where
  "create_DeleteAPIKeyResponse base = fromPartial_DeleteAPIKeyResponse (nullish base None)"

definition decode_DeleteAPIKeyResponse :: "('w, 'r) wire \<Rightarrow> 'r \<Rightarrow> nat option \<Rightarrow> (DeleteAPIKeyResponse \<times> 'r) comp" where
  "decode_DeleteAPIKeyResponse W = decode_with W (switch_DeleteAPIKeyResponse W) createBaseDeleteAPIKeyResponse"

subsection \<open>\<^verbatim>\<open>ValidateAPIKeyRequest\<close>\<close>

record ValidateAPIKeyRequest =
  ValidateAPIKeyRequest_fullKey :: string

definition createBaseValidateAPIKeyRequest :: ValidateAPIKeyRequest where
  "createBaseValidateAPIKeyRequest =
     \<lparr>ValidateAPIKeyRequest_fullKey = []\<rparr>"

definition encode_ValidateAPIKeyRequest :: "('w, 'r) wire \<Rightarrow> ValidateAPIKeyRequest \<Rightarrow> 'w writes" where
  "encode_ValidateAPIKeyRequest W m =
     w_seq
      [w_if (ValidateAPIKeyRequest_fullKey m \<noteq> []) (w_field W 10 (w_string W (ValidateAPIKeyRequest_fullKey m)))]"

definition switch_ValidateAPIKeyRequest :: "('w, 'r) wire \<Rightarrow> ('r, ValidateAPIKeyRequest) switch" where
  "switch_ValidateAPIKeyRequest W tag m r =
     (if drop_bit 3 tag = 1 then
       (if tag \<noteq> 10 then Break
        else arm_read (r_string W) (\<lambda>v. m\<lparr>ValidateAPIKeyRequest_fullKey := v\<rparr>) r)
      else Break)"

type_synonym ValidateAPIKeyRequest_partial = "string option"

fun fromPartial_ValidateAPIKeyRequest :: "ValidateAPIKeyRequest_partial \<Rightarrow> ValidateAPIKeyRequest" where
  "fromPartial_ValidateAPIKeyRequest fullKey' =
     \<lparr>ValidateAPIKeyRequest_fullKey = nullish fullKey' []\<rparr>"

definition create_ValidateAPIKeyRequest :: "ValidateAPIKeyRequest_partial option \<Rightarrow> ValidateAPIKeyRequest" where
  "create_ValidateAPIKeyRequest base = fromPartial_ValidateAPIKeyRequest (nullish base None)"

definition decode_ValidateAPIKeyRequest :: "('w, 'r) wire \<Rightarrow> 'r \<Rightarrow> nat option \<Rightarrow> (ValidateAPIKeyRequest \<times> 'r) comp" where
  "decode_ValidateAPIKeyRequest W = decode_with W (switch_ValidateAPIKeyRequest W) createBaseValidateAPIKeyRequest"

subsection \<open>\<^verbatim>\<open>ValidateAPIKeyResponse\<close>\<close>

record ValidateAPIKeyResponse =
  ValidateAPIKeyResponse_valid :: bool
  ValidateAPIKeyResponse_userId :: string
  ValidateAPIKeyResponse_plan :: string
  ValidateAPIKeyResponse_apiKeyId :: string

definition createBaseValidateAPIKeyResponse :: ValidateAPIKeyResponse where
  "createBaseValidateAPIKeyResponse =
     \<lparr>ValidateAPIKeyResponse_valid = False,
      ValidateAPIKeyResponse_userId = [],
      ValidateAPIKeyResponse_plan = [],
      ValidateAPIKeyResponse_apiKeyId = []\<rparr>"

definition encode_ValidateAPIKeyResponse :: "('w, 'r) wire \<Rightarrow> ValidateAPIKeyResponse \<Rightarrow> 'w writes" where
  "encode_ValidateAPIKeyResponse W m =
     w_seq
      [w_if (ValidateAPIKeyResponse_valid m) (w_field W 8 (w_bool W (ValidateAPIKeyResponse_valid m))),
       w_if (ValidateAPIKeyResponse_userId m \<noteq> []) (w_field W 18 (w_string W (ValidateAPIKeyResponse_userId m))),
       w_if (ValidateAPIKeyResponse_plan m \<noteq> []) (w_field W 26 (w_string W (ValidateAPIKeyResponse_plan m))),
       w_if (ValidateAPIKeyResponse_apiKeyId m \<noteq> []) (w_field W 34 (w_string W (ValidateAPIKeyResponse_apiKeyId m)))]"

definition switch_ValidateAPIKeyResponse :: "('w, 'r) wire \<Rightarrow> ('r, ValidateAPIKeyResponse) switch" where
  "switch_ValidateAPIKeyResponse W tag m r =
     (if drop_bit 3 tag = 1 then
       (if tag \<noteq> 8 then Break
        else arm_read (r_bool W) (\<lambda>v. m\<lparr>ValidateAPIKeyResponse_valid := v\<rparr>) r)
      else if drop_bit 3 tag = 2 then
       (if tag \<noteq> 18 then Break
        else arm_read (r_string W) (\<lambda>v. m\<lparr>ValidateAPIKeyResponse_userId := v\<rparr>) r)
      else if drop_bit 3 tag = 3 then
       (if tag \<noteq> 26 then Break
        else arm_read (r_string W) (\<lambda>v. m\<lparr>ValidateAPIKeyResponse_plan := v\<rparr>) r)
      else if drop_bit 3 tag = 4 then
       (if tag \<noteq> 34 then Break
        else arm_read (r_string W) (\<lambda>v. m\<lparr>ValidateAPIKeyResponse_apiKeyId := v\<rparr>) r)
      else Break)"

type_synonym ValidateAPIKeyResponse_partial = "(bool option) \<times> (string option) \<times> (string option) \<times> (string option)"

fun fromPartial_ValidateAPIKeyResponse :: "ValidateAPIKeyResponse_partial \<Rightarrow> ValidateAPIKeyResponse" where
  "fromPartial_ValidateAPIKeyResponse (valid', userId', plan', apiKeyId') =
     \<lparr>ValidateAPIKeyResponse_valid = nullish valid' False,
      ValidateAPIKeyResponse_userId = nullish userId' [],
      ValidateAPIKeyResponse_plan = nullish plan' [],
      ValidateAPIKeyResponse_apiKeyId = nullish apiKeyId' []\<rparr>"

definition create_ValidateAPIKeyResponse :: "ValidateAPIKeyResponse_partial option \<Rightarrow> ValidateAPIKeyResponse" where
  "create_ValidateAPIKeyResponse base = fromPartial_ValidateAPIKeyResponse (nullish base (None, None, None, None))"

definition decode_ValidateAPIKeyResponse :: "('w, 'r) wire \<Rightarrow> 'r \<Rightarrow> nat option \<Rightarrow> (ValidateAPIKeyResponse \<times> 'r) comp" where
  "decode_ValidateAPIKeyResponse W = decode_with W (switch_ValidateAPIKeyResponse W) createBaseValidateAPIKeyResponse"

subsection \<open>\<^verbatim>\<open>CreateSDKJWTRequest\<close>\<close>

record CreateSDKJWTRequest =
  CreateSDKJWTRequest_apiKeyId :: string

definition createBaseCreateSDKJWTRequest :: CreateSDKJWTRequest where
  "createBaseCreateSDKJWTRequest =
     \<lparr>CreateSDKJWTRequest_apiKeyId = []\<rparr>"

definition encode_CreateSDKJWTRequest :: "('w, 'r) wire \<Rightarrow> CreateSDKJWTRequest \<Rightarrow> 'w writes" where
  "encode_CreateSDKJWTRequest W m =
     w_seq
      [w_if (CreateSDKJWTRequest_apiKeyId m \<noteq> []) (w_field W 10 (w_string W (CreateSDKJWTRequest_apiKeyId m)))]"

definition switch_CreateSDKJWTRequest :: "('w, 'r) wire \<Rightarrow> ('r, CreateSDKJWTRequest) switch" where
  "switch_CreateSDKJWTRequest W tag m r =
     (if drop_bit 3 tag = 1 then
       (if tag \<noteq> 10 then Break
        else arm_read (r_string W) (\<lambda>v. m\<lparr>CreateSDKJWTRequest_apiKeyId := v\<rparr>) r)
      else Break)"

type_synonym CreateSDKJWTRequest_partial = "string option"

fun fromPartial_CreateSDKJWTRequest :: "CreateSDKJWTRequest_partial \<Rightarrow> CreateSDKJWTRequest" where
  "fromPartial_CreateSDKJWTRequest apiKeyId' =
     \<lparr>CreateSDKJWTRequest_apiKeyId = nullish apiKeyId' []\<rparr>"

definition create_CreateSDKJWTRequest :: "CreateSDKJWTRequest_partial option \<Rightarrow> CreateSDKJWTRequest" where
  "create_CreateSDKJWTRequest base = fromPartial_CreateSDKJWTRequest (nullish base None)"

definition decode_CreateSDKJWTRequest :: "('w, 'r) wire \<Rightarrow> 'r \<Rightarrow> nat option \<Rightarrow> (CreateSDKJWTRequest \<times> 'r) comp" where
  "decode_CreateSDKJWTRequest W = decode_with W (switch_CreateSDKJWTRequest W) createBaseCreateSDKJWTRequest"

subsection \<open>\<^verbatim>\<open>CreateSDKJWTResponse\<close>\<close>

record CreateSDKJWTResponse =
  CreateSDKJWTResponse_sdkJwt :: string

definition createBaseCreateSDKJWTResponse :: CreateSDKJWTResponse where
  "createBaseCreateSDKJWTResponse =
     \<lparr>CreateSDKJWTResponse_sdkJwt = []\<rparr>"

definition encode_CreateSDKJWTResponse :: "('w, 'r) wire \<Rightarrow> CreateSDKJWTResponse \<Rightarrow> 'w writes" where
  "encode_CreateSDKJWTResponse W m =
     w_seq
      [w_if (CreateSDKJWTResponse_sdkJwt m \<noteq> []) (w_field W 10 (w_string W (CreateSDKJWTResponse_sdkJwt m)))]"

definition switch_CreateSDKJWTResponse :: "('w, 'r) wire \<Rightarrow> ('r, CreateSDKJWTResponse) switch" where
  "switch_CreateSDKJWTResponse W tag m r =
     (if drop_bit 3 tag = 1 then
       (if tag \<noteq> 10 then Break
        else arm_read (r_string W) (\<lambda>v. m\<lparr>CreateSDKJWTResponse_sdkJwt := v\<rparr>) r)
      else Break)"

type_synonym CreateSDKJWTResponse_partial = "string option"

fun fromPartial_CreateSDKJWTResponse :: "CreateSDKJWTResponse_partial \<Rightarrow> CreateSDKJWTResponse" where
  "fromPartial_CreateSDKJWTResponse sdkJwt' =
     \<lparr>CreateSDKJWTResponse_sdkJwt = nullish sdkJwt' []\<rparr>"

definition create_CreateSDKJWTResponse :: "CreateSDKJWTResponse_partial option \<Rightarrow> CreateSDKJWTResponse" where
  "create_CreateSDKJWTResponse base = fromPartial_CreateSDKJWTResponse (nullish base None)"

definition decode_CreateSDKJWTResponse :: "('w, 'r) wire \<Rightarrow> 'r \<Rightarrow> nat option \<Rightarrow> (CreateSDKJWTResponse \<times> 'r) comp" where
  "decode_CreateSDKJWTResponse W = decode_with W (switch_CreateSDKJWTResponse W) createBaseCreateSDKJWTResponse"

subsection \<open>\<^verbatim>\<open>GetAuthDetailsForSDKRequest\<close>\<close>

record GetAuthDetailsForSDKRequest =
  GetAuthDetailsForSDKRequest_apiKeyId :: string

definition createBaseGetAuthDetailsForSDKRequest :: GetAuthDetailsForSDKRequest where
  "createBaseGetAuthDetailsForSDKRequest =
     \<lparr>GetAuthDetailsForSDKRequest_apiKeyId = []\<rparr>"

definition encode_GetAuthDetailsForSDKRequest :: "('w, 'r) wire \<Rightarrow> GetAuthDetailsForSDKRequest \<Rightarrow> 'w writes" where
  "encode_GetAuthDetailsForSDKRequest W m =
     w_seq
      [w_if (GetAuthDetailsForSDKRequest_apiKeyId m \<noteq> []) (w_field W 10 (w_string W (GetAuthDetailsForSDKRequest_apiKeyId m)))]"

definition switch_GetAuthDetailsForSDKRequest :: "('w, 'r) wire \<Rightarrow> ('r, GetAuthDetailsForSDKRequest) switch" where
  "switch_GetAuthDetailsForSDKRequest W tag m r =
     (if drop_bit 3 tag = 1 then
       (if tag \<noteq> 10 then Break
        else arm_read (r_string W) (\<lambda>v. m\<lparr>GetAuthDetailsForSDKRequest_apiKeyId := v\<rparr>) r)
      else Break)"

type_synonym GetAuthDetailsForSDKRequest_partial = "string option"

fun fromPartial_GetAuthDetailsForSDKRequest :: "GetAuthDetailsForSDKRequest_partial \<Rightarrow> GetAuthDetailsForSDKRequest" where
  "fromPartial_GetAuthDetailsForSDKRequest apiKeyId' =
     \<lparr>GetAuthDetailsForSDKRequest_apiKeyId = nullish apiKeyId' []\<rparr>"

definition create_GetAuthDetailsForSDKRequest :: "GetAuthDetailsForSDKRequest_partial option \<Rightarrow> GetAuthDetailsForSDKRequest" where
  "create_GetAuthDetailsForSDKRequest base = fromPartial_GetAuthDetailsForSDKRequest (nullish base None)"

definition decode_GetAuthDetailsForSDKRequest :: "('w, 'r) wire \<Rightarrow> 'r \<Rightarrow> nat option \<Rightarrow> (GetAuthDetailsForSDKRequest \<times> 'r) comp" where
  "decode_GetAuthDetailsForSDKRequest W = decode_with W (switch_GetAuthDetailsForSDKRequest W) createBaseGetAuthDetailsForSDKRequest"

subsection \<open>\<^verbatim>\<open>GetAuthDetailsForSDKResponse\<close>\<close>

record GetAuthDetailsForSDKResponse =
  GetAuthDetailsForSDKResponse_userId :: string
  GetAuthDetailsForSDKResponse_plan :: js_num
  GetAuthDetailsForSDKResponse_success :: bool

definition createBaseGetAuthDetailsForSDKResponse :: GetAuthDetailsForSDKResponse where
  "createBaseGetAuthDetailsForSDKResponse =
     \<lparr>GetAuthDetailsForSDKResponse_userId = [],
      GetAuthDetailsForSDKResponse_plan = Fin 0,
      GetAuthDetailsForSDKResponse_success = False\<rparr>"

definition encode_GetAuthDetailsForSDKResponse :: "('w, 'r) wire \<Rightarrow> GetAuthDetailsForSDKResponse \<Rightarrow> 'w writes" where
  "encode_GetAuthDetailsForSDKResponse W m =
     w_seq
      [w_if (GetAuthDetailsForSDKResponse_userId m \<noteq> []) (w_field W 10 (w_string W (GetAuthDetailsForSDKResponse_userId m))),
       w_if (\<not> js_eq (GetAuthDetailsForSDKResponse_plan m) (Fin 0)) (w_field W 16 (w_int32 W (GetAuthDetailsForSDKResponse_plan m))),
       w_if (GetAuthDetailsForSDKResponse_success m) (w_field W 24 (w_bool W (GetAuthDetailsForSDKResponse_success m)))]"

definition switch_GetAuthDetailsForSDKResponse :: "('w, 'r) wire \<Rightarrow> ('r, GetAuthDetailsForSDKResponse) switch" where
  "switch_GetAuthDetailsForSDKResponse W tag m r =
     (if drop_bit 3 tag = 1 then
       (if tag \<noteq> 10 then Break
        else arm_read (r_string W) (\<lambda>v. m\<lparr>GetAuthDetailsForSDKResponse_userId := v\<rparr>) r)
      else if drop_bit 3 tag = 2 then
       (if tag \<noteq> 16 then Break
        else arm_read (r_int32 W) (\<lambda>v. m\<lparr>GetAuthDetailsForSDKResponse_plan := num_of_int (sint v)\<rparr>) r)
      else if drop_bit 3 tag = 3 then
       (if tag \<noteq> 24 then Break
        else arm_read (r_bool W) (\<lambda>v. m\<lparr>GetAuthDetailsForSDKResponse_success := v\<rparr>) r)
      else Break)"

type_synonym GetAuthDetailsForSDKResponse_partial = "(string option) \<times> (js_num option) \<times> (bool option)"

fun fromPartial_GetAuthDetailsForSDKResponse :: "GetAuthDetailsForSDKResponse_partial \<Rightarrow> GetAuthDetailsForSDKResponse" where
  "fromPartial_GetAuthDetailsForSDKResponse (userId', plan', success') =
     \<lparr>GetAuthDetailsForSDKResponse_userId = nullish userId' [],
      GetAuthDetailsForSDKResponse_plan = nullish plan' (Fin 0),
      GetAuthDetailsForSDKResponse_success = nullish success' False\<rparr>"

definition create_GetAuthDetailsForSDKResponse :: "GetAuthDetailsForSDKResponse_partial option \<Rightarrow> GetAuthDetailsForSDKResponse" where
  "create_GetAuthDetailsForSDKResponse base = fromPartial_GetAuthDetailsForSDKResponse (nullish base (None, None, None))"

definition decode_GetAuthDetailsForSDKResponse :: "('w, 'r) wire \<Rightarrow> 'r \<Rightarrow> nat option \<Rightarrow> (GetAuthDetailsForSDKResponse \<times> 'r) comp" where
  "decode_GetAuthDetailsForSDKResponse W = decode_with W (switch_GetAuthDetailsForSDKResponse W) createBaseGetAuthDetailsForSDKResponse"

subsection \<open>\<^verbatim>\<open>DeleteUserRequest\<close>\<close>

record DeleteUserRequest =
  DeleteUserRequest_password :: string

definition createBaseDeleteUserRequest :: DeleteUserRequest where
  "createBaseDeleteUserRequest =
     \<lparr>DeleteUserRequest_password = []\<rparr>"

definition encode_DeleteUserRequest :: "('w, 'r) wire \<Rightarrow> DeleteUserRequest \<Rightarrow> 'w writes" where
  "encode_DeleteUserRequest W m =
     w_seq
      [w_if (DeleteUserRequest_password m \<noteq> []) (w_field W 10 (w_string W (DeleteUserRequest_password m)))]"

definition switch_DeleteUserRequest :: "('w, 'r) wire \<Rightarrow> ('r, DeleteUserRequest) switch" where
  "switch_DeleteUserRequest W tag m r =
     (if drop_bit 3 tag = 1 then
       (if tag \<noteq> 10 then Break
        else arm_read (r_string W) (\<lambda>v. m\<lparr>DeleteUserRequest_password := v\<rparr>) r)
      else Break)"

type_synonym DeleteUserRequest_partial = "string option"

fun fromPartial_DeleteUserRequest :: "DeleteUserRequest_partial \<Rightarrow> DeleteUserRequest" where
  "fromPartial_DeleteUserRequest password' =
     \<lparr>DeleteUserRequest_password = nullish password' []\<rparr>"

definition create_DeleteUserRequest :: "DeleteUserRequest_partial option \<Rightarrow> DeleteUserRequest" where
  "create_DeleteUserRequest base = fromPartial_DeleteUserRequest (nullish base None)"

definition decode_DeleteUserRequest :: "('w, 'r) wire \<Rightarrow> 'r \<Rightarrow> nat option \<Rightarrow> (DeleteUserRequest \<times> 'r) comp" where
  "decode_DeleteUserRequest W = decode_with W (switch_DeleteUserRequest W) createBaseDeleteUserRequest"

subsection \<open>\<^verbatim>\<open>DeleteUserResponse\<close>\<close>

record DeleteUserResponse =
  DeleteUserResponse_success :: bool

definition createBaseDeleteUserResponse :: DeleteUserResponse where
  "createBaseDeleteUserResponse =
     \<lparr>DeleteUserResponse_success = False\<rparr>"

definition encode_DeleteUserResponse :: "('w, 'r) wire \<Rightarrow> DeleteUserResponse \<Rightarrow> 'w writes" where
  "encode_DeleteUserResponse W m =
     w_seq
      [w_if (DeleteUserResponse_success m) (w_field W 8 (w_bool W (DeleteUserResponse_success m)))]"

definition switch_DeleteUserResponse :: "('w, 'r) wire \<Rightarrow> ('r, DeleteUserResponse) switch" where
  "switch_DeleteUserResponse W tag m r =
     (if drop_bit 3 tag = 1 then
       (if tag \<noteq> 8 then Break
        else arm_read (r_bool W) (\<lambda>v. m\<lparr>DeleteUserResponse_success := v\<rparr>) r)
      else Break)"

type_synonym DeleteUserResponse_partial = "bool option"

fun fromPartial_DeleteUserResponse :: "DeleteUserResponse_partial \<Rightarrow> DeleteUserResponse" where
  "fromPartial_DeleteUserResponse success' =
     \<lparr>DeleteUserResponse_success = nullish success' False\<rparr>"

definition create_DeleteUserResponse :: "DeleteUserResponse_partial option \<Rightarrow> DeleteUserResponse" where
  "create_DeleteUserResponse base = fromPartial_DeleteUserResponse (nullish base None)"

definition decode_DeleteUserResponse :: "('w, 'r) wire \<Rightarrow> 'r \<Rightarrow> nat option \<Rightarrow> (DeleteUserResponse \<times> 'r) comp" where
  "decode_DeleteUserResponse W = decode_with W (switch_DeleteUserResponse W) createBaseDeleteUserResponse"

subsection \<open>\<^verbatim>\<open>RefreshTokenRequest\<close>\<close>

datatype RefreshTokenRequest = RefreshTokenRequest

definition createBaseRefreshTokenRequest :: RefreshTokenRequest where
  "createBaseRefreshTokenRequest = RefreshTokenRequest"

definition encode_RefreshTokenRequest :: "('w, 'r) wire \<Rightarrow> RefreshTokenRequest \<Rightarrow> 'w writes" where
  "encode_RefreshTokenRequest W m = w_seq []"

definition switch_RefreshTokenRequest :: "('w, 'r) wire \<Rightarrow> ('r, RefreshTokenRequest) switch" where
  "switch_RefreshTokenRequest W tag m r = Break"

definition fromPartial_RefreshTokenRequest :: "unit \<Rightarrow> RefreshTokenRequest" where
  "fromPartial_RefreshTokenRequest u = createBaseRefreshTokenRequest"

definition create_RefreshTokenRequest :: "unit option \<Rightarrow> RefreshTokenRequest" where
  "create_RefreshTokenRequest base = fromPartial_RefreshTokenRequest (nullish base ())"

definition decode_RefreshTokenRequest :: "('w, 'r) wire \<Rightarrow> 'r \<Rightarrow> nat option \<Rightarrow> (RefreshTokenRequest \<times> 'r) comp" where
  "decode_RefreshTokenRequest W = decode_with W (switch_RefreshTokenRequest W) createBaseRefreshTokenRequest"

subsection \<open>\<^verbatim>\<open>RefreshTokenResponse\<close>\<close>

record RefreshTokenResponse =
  RefreshTokenResponse_jwtToken :: string
  RefreshTokenResponse_expiresAt :: string

definition createBaseRefreshTokenResponse :: RefreshTokenResponse where
  "createBaseRefreshTokenResponse =
     \<lparr>RefreshTokenResponse_jwtToken = [],
      RefreshTokenResponse_expiresAt = ''0''\<rparr>"

definition encode_RefreshTokenResponse :: "('w, 'r) wire \<Rightarrow> RefreshTokenResponse \<Rightarrow> 'w writes" where
  "encode_RefreshTokenResponse W m =
     w_seq
      [w_if (RefreshTokenResponse_jwtToken m \<noteq> []) (w_field W 10 (w_string W (RefreshTokenResponse_jwtToken m))),
       w_if (RefreshTokenResponse_expiresAt m \<noteq> ''0'') (w_field W 16 (w_int64 W (RefreshTokenResponse_expiresAt m)))]"

definition switch_RefreshTokenResponse :: "('w, 'r) wire \<Rightarrow> ('r, RefreshTokenResponse) switch" where
  "switch_RefreshTokenResponse W tag m r =
     (if drop_bit 3 tag = 1 then
       (if tag \<noteq> 10 then Break
        else arm_read (r_string W) (\<lambda>v. m\<lparr>RefreshTokenResponse_jwtToken := v\<rparr>) r)
      else if drop_bit 3 tag = 2 then
       (if tag \<noteq> 16 then Break
        else arm_read (r_int64 W) (\<lambda>v. m\<lparr>RefreshTokenResponse_expiresAt := show_int (sint v)\<rparr>) r)
      else Break)"

type_synonym RefreshTokenResponse_partial = "(string option) \<times> (string option)"

fun fromPartial_RefreshTokenResponse :: "RefreshTokenResponse_partial \<Rightarrow> RefreshTokenResponse" where
  "fromPartial_RefreshTokenResponse (jwtToken', expiresAt') =
     \<lparr>RefreshTokenResponse_jwtToken = nullish jwtToken' [],
      RefreshTokenResponse_expiresAt = nullish expiresAt' ''0''\<rparr>"

definition create_RefreshTokenResponse :: "RefreshTokenResponse_partial option \<Rightarrow> RefreshTokenResponse" where
  "create_RefreshTokenResponse base = fromPartial_RefreshTokenResponse (nullish base (None, None))"

definition decode_RefreshTokenResponse :: "('w, 'r) wire \<Rightarrow> 'r \<Rightarrow> nat option \<Rightarrow> (RefreshTokenResponse \<times> 'r) comp" where
  "decode_RefreshTokenResponse W = decode_with W (switch_RefreshTokenResponse W) createBaseRefreshTokenResponse"

section \<open>The switches, arm by arm\<close>

definition wf_UserProfile :: "UserProfile \<Rightarrow> bool" where
  "wf_UserProfile m \<longleftrightarrow> int64_string (UserProfile_createdAt m)"

lemma switch_UserProfile_arms:
  "switch_UserProfile W 10 m = arm_read (r_string W) (\<lambda>v. m\<lparr>UserProfile_id := v\<rparr>)"
  "switch_UserProfile W 18 m = arm_read (r_string W) (\<lambda>v. m\<lparr>UserProfile_email := v\<rparr>)"
  "switch_UserProfile W 24 m = arm_read (r_int64 W) (\<lambda>v. m\<lparr>UserProfile_createdAt := show_int (sint v)\<rparr>)"
  "switch_UserProfile W 32 m = arm_read (r_int32 W) (\<lambda>v. m\<lparr>UserProfile_plan := num_of_int (sint v)\<rparr>)"
  "switch_UserProfile W 40 m = arm_read (r_int32 W) (\<lambda>v. m\<lparr>UserProfile_subscriptionStatus := num_of_int (sint v)\<rparr>)"
  by (simp_all add: switch_UserProfile_def fun_eq_iff)

definition wf_APIKey :: "APIKey \<Rightarrow> bool" where
  "wf_APIKey m \<longleftrightarrow> int64_string (APIKey_createdAt m)"

lemma switch_APIKey_arms:
  "switch_APIKey W 10 m = arm_read (r_string W) (\<lambda>v. m\<lparr>APIKey_keyPrefix := v\<rparr>)"
  "switch_APIKey W 18 m = arm_read (r_string W) (\<lambda>v. m\<lparr>APIKey_userId := v\<rparr>)"
  "switch_APIKey W 24 m = arm_read (r_int64 W) (\<lambda>v. m\<lparr>APIKey_createdAt := show_int (sint v)\<rparr>)"
  "switch_APIKey W 34 m = arm_read (r_string W) (\<lambda>v. m\<lparr>APIKey_name := v\<rparr>)"
  by (simp_all add: switch_APIKey_def fun_eq_iff)

lemma switch_RegisterUserRequest_arms:
  "switch_RegisterUserRequest W 10 m = arm_read (r_string W) (\<lambda>v. m\<lparr>RegisterUserRequest_email := v\<rparr>)"
  "switch_RegisterUserRequest W 18 m = arm_read (r_string W) (\<lambda>v. m\<lparr>RegisterUserRequest_password := v\<rparr>)"
  by (simp_all add: switch_RegisterUserRequest_def fun_eq_iff)

definition wf_RegisterUserResponse :: "RegisterUserResponse \<Rightarrow> bool" where
  "wf_RegisterUserResponse m \<longleftrightarrow> (\<forall>v \<in> set_option (RegisterUserResponse_user m). wf_UserProfile v)"

lemma switch_RegisterUserResponse_arms:
  "switch_RegisterUserResponse W 10 m = arm_sub W (decode_with W (switch_UserProfile W) createBaseUserProfile) (\<lambda>v. m\<lparr>RegisterUserResponse_user := Some v\<rparr>)"
  by (simp_all add: switch_RegisterUserResponse_def fun_eq_iff decode_UserProfile_def)

lemma switch_LoginRequest_arms:
  "switch_LoginRequest W 10 m = arm_read (r_string W) (\<lambda>v. m\<lparr>LoginRequest_email := v\<rparr>)"
  "switch_LoginRequest W 18 m = arm_read (r_string W) (\<lambda>v. m\<lparr>LoginRequest_password := v\<rparr>)"
  by (simp_all add: switch_LoginRequest_def fun_eq_iff)

definition wf_LoginResponse :: "LoginResponse \<Rightarrow> bool" where
  "wf_LoginResponse m \<longleftrightarrow> (\<forall>v \<in> set_option (LoginResponse_user m). wf_UserProfile v)"

lemma switch_LoginResponse_arms:
  "switch_LoginResponse W 10 m = arm_read (r_string W) (\<lambda>v. m\<lparr>LoginResponse_jwtToken := v\<rparr>)"
  "switch_LoginResponse W 18 m = arm_sub W (decode_with W (switch_UserProfile W) createBaseUserProfile) (\<lambda>v. m\<lparr>LoginResponse_user := Some v\<rparr>)"
  by (simp_all add: switch_LoginResponse_def fun_eq_iff decode_UserProfile_def)

definition wf_GetUserProfileResponse :: "GetUserProfileResponse \<Rightarrow> bool" where
  "wf_GetUserProfileResponse m \<longleftrightarrow> (\<forall>v \<in> set_option (GetUserProfileResponse_user m). wf_UserProfile v)"

lemma switch_GetUserProfileResponse_arms:
  "switch_GetUserProfileResponse W 10 m = arm_sub W (decode_with W (switch_UserProfile W) createBaseUserProfile) (\<lambda>v. m\<lparr>GetUserProfileResponse_user := Some v\<rparr>)"
  by (simp_all add: switch_GetUserProfileResponse_def fun_eq_iff decode_UserProfile_def)

lemma switch_AuthUpdateUserProfileRequest_arms:
  "switch_AuthUpdateUserProfileRequest W 8 m = arm_read (r_int32 W) (\<lambda>v. m\<lparr>AuthUpdateUserProfileRequest_plan := num_of_int (sint v)\<rparr>)"
  by (simp_all add: switch_AuthUpdateUserProfileRequest_def fun_eq_iff)

definition wf_AuthUpdateUserProfileResponse :: "AuthUpdateUserProfileResponse \<Rightarrow> bool" where
  "wf_AuthUpdateUserProfileResponse m \<longleftrightarrow> (\<forall>v \<in> set_option (AuthUpdateUserProfileResponse_user m). wf_UserProfile v)"

lemma switch_AuthUpdateUserProfileResponse_arms:
  "switch_AuthUpdateUserProfileResponse W 10 m = arm_sub W (decode_with W (switch_UserProfile W) createBaseUserProfile) (\<lambda>v. m\<lparr>AuthUpdateUserProfileResponse_user := Some v\<rparr>)"
  "switch_AuthUpdateUserProfileResponse W 18 m = arm_read (r_string W) (\<lambda>v. m\<lparr>AuthUpdateUserProfileResponse_jwtToken := v\<rparr>)"
  by (simp_all add: switch_AuthUpdateUserProfileResponse_def fun_eq_iff decode_UserProfile_def)

lemma switch_CreateAPIKeyRequest_arms:
  "switch_CreateAPIKeyRequest W 10 m = arm_read (r_string W) (\<lambda>v. m\<lparr>CreateAPIKeyRequest_name := v\<rparr>)"
  by (simp_all add: switch_CreateAPIKeyRequest_def fun_eq_iff)

definition wf_CreateAPIKeyResponse :: "CreateAPIKeyResponse \<Rightarrow> bool" where
  "wf_CreateAPIKeyResponse m \<longleftrightarrow> (\<forall>v \<in> set_option (CreateAPIKeyResponse_keyInfo m). wf_APIKey v)"

lemma switch_CreateAPIKeyResponse_arms:
  "switch_CreateAPIKeyResponse W 10 m = arm_read (r_string W) (\<lambda>v. m\<lparr>CreateAPIKeyResponse_fullKey := v\<rparr>)"
  "switch_CreateAPIKeyResponse W 18 m = arm_sub W (decode_with W (switch_APIKey W) createBaseAPIKey) (\<lambda>v. m\<lparr>CreateAPIKeyResponse_keyInfo := Some v\<rparr>)"
  by (simp_all add: switch_CreateAPIKeyResponse_def fun_eq_iff decode_APIKey_def)

definition wf_ListAPIKeysResponse :: "ListAPIKeysResponse \<Rightarrow> bool" where
  "wf_ListAPIKeysResponse m \<longleftrightarrow> (\<forall>v \<in> set (ListAPIKeysResponse_keys m). wf_APIKey v)"

lemma foldl_ListAPIKeysResponse_keys:
  "foldl (\<lambda>y v. y\<lparr>ListAPIKeysResponse_keys := ListAPIKeysResponse_keys y @ [h v]\<rparr>) m vs = m\<lparr>ListAPIKeysResponse_keys := ListAPIKeysResponse_keys m @ map h vs\<rparr>"
  by (induction vs arbitrary: m) simp_all

lemma switch_ListAPIKeysResponse_arms:
  "switch_ListAPIKeysResponse W 10 m = arm_sub W (decode_with W (switch_APIKey W) createBaseAPIKey) (\<lambda>v. m\<lparr>ListAPIKeysResponse_keys := ListAPIKeysResponse_keys m @ [v]\<rparr>)"
  by (simp_all add: switch_ListAPIKeysResponse_def fun_eq_iff decode_APIKey_def)

lemma switch_DeleteAPIKeyRequest_arms:
  "switch_DeleteAPIKeyRequest W 10 m = arm_read (r_string W) (\<lambda>v. m\<lparr>DeleteAPIKeyRequest_keyPrefix := v\<rparr>)"
  by (simp_all add: switch_DeleteAPIKeyRequest_def fun_eq_iff)

lemma switch_DeleteAPIKeyResponse_arms:
  "switch_DeleteAPIKeyResponse W 8 m = arm_read (r_bool W) (\<lambda>v. m\<lparr>DeleteAPIKeyResponse_success := v\<rparr>)"
  by (simp_all add: switch_DeleteAPIKeyResponse_def fun_eq_iff)

lemma switch_ValidateAPIKeyRequest_arms:
  "switch_ValidateAPIKeyRequest W 10 m = arm_read (r_string W) (\<lambda>v. m\<lparr>ValidateAPIKeyRequest_fullKey := v\<rparr>)"
  by (simp_all add: switch_ValidateAPIKeyRequest_def fun_eq_iff)

lemma switch_ValidateAPIKeyResponse_arms:
  "switch_ValidateAPIKeyResponse W 8 m = arm_read (r_bool W) (\<lambda>v. m\<lparr>ValidateAPIKeyResponse_valid := v\<rparr>)"
  "switch_ValidateAPIKeyResponse W 18 m = arm_read (r_string W) (\<lambda>v. m\<lparr>ValidateAPIKeyResponse_userId := v\<rparr>)"
  "switch_ValidateAPIKeyResponse W 26 m = arm_read (r_string W) (\<lambda>v. m\<lparr>ValidateAPIKeyResponse_plan := v\<rparr>)"
  "switch_ValidateAPIKeyResponse W 34 m = arm_read (r_string W) (\<lambda>v. m\<lparr>ValidateAPIKeyResponse_apiKeyId := v\<rparr>)"
  by (simp_all add: switch_ValidateAPIKeyResponse_def fun_eq_iff)

lemma switch_CreateSDKJWTRequest_arms:
  "switch_CreateSDKJWTRequest W 10 m = arm_read (r_string W) (\<lambda>v. m\<lparr>CreateSDKJWTRequest_apiKeyId := v\<rparr>)"
  by (simp_all add: switch_CreateSDKJWTRequest_def fun_eq_iff)

lemma switch_CreateSDKJWTResponse_arms:
  "switch_CreateSDKJWTResponse W 10 m = arm_read (r_string W) (\<lambda>v. m\<lparr>CreateSDKJWTResponse_sdkJwt := v\<rparr>)"
  by (simp_all add: switch_CreateSDKJWTResponse_def fun_eq_iff)

lemma switch_GetAuthDetailsForSDKRequest_arms:
  "switch_GetAuthDetailsForSDKRequest W 10 m = arm_read (r_string W) (\<lambda>v. m\<lparr>GetAuthDetailsForSDKRequest_apiKeyId := v\<rparr>)"
  by (simp_all add: switch_GetAuthDetailsForSDKRequest_def fun_eq_iff)

lemma switch_GetAuthDetailsForSDKResponse_arms:
  "switch_GetAuthDetailsForSDKResponse W 10 m = arm_read (r_string W) (\<lambda>v. m\<lparr>GetAuthDetailsForSDKResponse_userId := v\<rparr>)"
  "switch_GetAuthDetailsForSDKResponse W 16 m = arm_read (r_int32 W) (\<lambda>v. m\<lparr>GetAuthDetailsForSDKResponse_plan := num_of_int (sint v)\<rparr>)"
  "switch_GetAuthDetailsForSDKResponse W 24 m = arm_read (r_bool W) (\<lambda>v. m\<lparr>GetAuthDetailsForSDKResponse_success := v\<rparr>)"
  by (simp_all add: switch_GetAuthDetailsForSDKResponse_def fun_eq_iff)

lemma switch_DeleteUserRequest_arms:
  "switch_DeleteUserRequest W 10 m = arm_read (r_string W) (\<lambda>v. m\<lparr>DeleteUserRequest_password := v\<rparr>)"
  by (simp_all add: switch_DeleteUserRequest_def fun_eq_iff)

lemma switch_DeleteUserResponse_arms:
  "switch_DeleteUserResponse W 8 m = arm_read (r_bool W) (\<lambda>v. m\<lparr>DeleteUserResponse_success := v\<rparr>)"
  by (simp_all add: switch_DeleteUserResponse_def fun_eq_iff)

definition wf_RefreshTokenResponse :: "RefreshTokenResponse \<Rightarrow> bool" where
  "wf_RefreshTokenResponse m \<longleftrightarrow> int64_string (RefreshTokenResponse_expiresAt m)"

lemma switch_RefreshTokenResponse_arms:
  "switch_RefreshTokenResponse W 10 m = arm_read (r_string W) (\<lambda>v. m\<lparr>RefreshTokenResponse_jwtToken := v\<rparr>)"
  "switch_RefreshTokenResponse W 16 m = arm_read (r_int64 W) (\<lambda>v. m\<lparr>RefreshTokenResponse_expiresAt := show_int (sint v)\<rparr>)"
  by (simp_all add: switch_RefreshTokenResponse_def fun_eq_iff)

section \<open>Decoding returns well-formed messages\<close>

lemma decode_UserProfile_wf: "yields (decode_UserProfile W) wf_UserProfile"
  unfolding decode_UserProfile_def switch_UserProfile_def
  by (rule decode_with_yields, rule fld_keepsI)
     (rule if_keeps | rule arms_keep
       | (auto simp: wf_UserProfile_def createBaseUserProfile_def read_values) [1])+

lemma decode_APIKey_wf: "yields (decode_APIKey W) wf_APIKey"
  unfolding decode_APIKey_def switch_APIKey_def
  by (rule decode_with_yields, rule fld_keepsI)
     (rule if_keeps | rule arms_keep
       | (auto simp: wf_APIKey_def createBaseAPIKey_def read_values) [1])+

lemma decode_RegisterUserResponse_wf: "yields (decode_RegisterUserResponse W) wf_RegisterUserResponse"
  unfolding decode_RegisterUserResponse_def switch_RegisterUserResponse_def
  by (rule decode_with_yields, rule fld_keepsI)
     (rule if_keeps | rule arm_sub_keeps [OF decode_UserProfile_wf] | rule arms_keep
       | (auto simp: wf_RegisterUserResponse_def createBaseRegisterUserResponse_def read_values) [1])+

lemma decode_LoginResponse_wf: "yields (decode_LoginResponse W) wf_LoginResponse"
  unfolding decode_LoginResponse_def switch_LoginResponse_def
  by (rule decode_with_yields, rule fld_keepsI)
     (rule if_keeps | rule arm_sub_keeps [OF decode_UserProfile_wf] | rule arms_keep
       | (auto simp: wf_LoginResponse_def createBaseLoginResponse_def read_values) [1])+

lemma decode_GetUserProfileResponse_wf: "yields (decode_GetUserProfileResponse W) wf_GetUserProfileResponse"
  unfolding decode_GetUserProfileResponse_def switch_GetUserProfileResponse_def
  by (rule decode_with_yields, rule fld_keepsI)
     (rule if_keeps | rule arm_sub_keeps [OF decode_UserProfile_wf] | rule arms_keep
       | (auto simp: wf_GetUserProfileResponse_def createBaseGetUserProfileResponse_def read_values) [1])+

lemma decode_AuthUpdateUserProfileResponse_wf: "yields (decode_AuthUpdateUserProfileResponse W) wf_AuthUpdateUserProfileResponse"
  unfolding decode_AuthUpdateUserProfileResponse_def switch_AuthUpdateUserProfileResponse_def
  by (rule decode_with_yields, rule fld_keepsI)
     (rule if_keeps | rule arm_sub_keeps [OF decode_UserProfile_wf] | rule arms_keep
       | (auto simp: wf_AuthUpdateUserProfileResponse_def createBaseAuthUpdateUserProfileResponse_def read_values) [1])+

lemma decode_CreateAPIKeyResponse_wf: "yields (decode_CreateAPIKeyResponse W) wf_CreateAPIKeyResponse"
  unfolding decode_CreateAPIKeyResponse_def switch_CreateAPIKeyResponse_def
  by (rule decode_with_yields, rule fld_keepsI)
     (rule if_keeps | rule arm_sub_keeps [OF decode_APIKey_wf] | rule arms_keep
       | (auto simp: wf_CreateAPIKeyResponse_def createBaseCreateAPIKeyResponse_def read_values) [1])+

lemma decode_ListAPIKeysResponse_wf: "yields (decode_ListAPIKeysResponse W) wf_ListAPIKeysResponse"
  unfolding decode_ListAPIKeysResponse_def switch_ListAPIKeysResponse_def
  by (rule decode_with_yields, rule fld_keepsI)
     (rule if_keeps | rule arm_sub_keeps [OF decode_APIKey_wf] | rule arms_keep
       | (auto simp: wf_ListAPIKeysResponse_def createBaseListAPIKeysResponse_def read_values) [1])+

lemma decode_RefreshTokenResponse_wf: "yields (decode_RefreshTokenResponse W) wf_RefreshTokenResponse"
  unfolding decode_RefreshTokenResponse_def switch_RefreshTokenResponse_def
  by (rule decode_with_yields, rule fld_keepsI)
     (rule if_keeps | rule arms_keep
       | (auto simp: wf_RefreshTokenResponse_def createBaseRefreshTokenResponse_def read_values) [1])+

section \<open>Decoding ends on every input\<close>

context wire_reader
begin

lemma UserProfile_total: "dec_total W buf (decode_UserProfile W)"
  unfolding decode_UserProfile_def
  by (intro decode_with_total) (auto simp: fld_total_def switch_UserProfile_def simp del: arm_total.simps(2) intro: arms_total)

lemma APIKey_total: "dec_total W buf (decode_APIKey W)"
  unfolding decode_APIKey_def
  by (intro decode_with_total) (auto simp: fld_total_def switch_APIKey_def simp del: arm_total.simps(2) intro: arms_total)

lemma RegisterUserRequest_total: "dec_total W buf (decode_RegisterUserRequest W)"
  unfolding decode_RegisterUserRequest_def
  by (intro decode_with_total) (auto simp: fld_total_def switch_RegisterUserRequest_def simp del: arm_total.simps(2) intro: arms_total)

lemma RegisterUserResponse_total: "dec_total W buf (decode_RegisterUserResponse W)"
  unfolding decode_RegisterUserResponse_def
  by (intro decode_with_total) (auto simp: fld_total_def switch_RegisterUserResponse_def simp del: arm_total.simps(2) intro: arms_total UserProfile_total)

lemma LoginRequest_total: "dec_total W buf (decode_LoginRequest W)"
  unfolding decode_LoginRequest_def
  by (intro decode_with_total) (auto simp: fld_total_def switch_LoginRequest_def simp del: arm_total.simps(2) intro: arms_total)

lemma LoginResponse_total: "dec_total W buf (decode_LoginResponse W)"
  unfolding decode_LoginResponse_def
  by (intro decode_with_total) (auto simp: fld_total_def switch_LoginResponse_def simp del: arm_total.simps(2) intro: arms_total UserProfile_total)

lemma GetUserProfileRequest_total: "dec_total W buf (decode_GetUserProfileRequest W)"
  unfolding decode_GetUserProfileRequest_def
  by (intro decode_with_total) (auto simp: fld_total_def switch_GetUserProfileRequest_def simp del: arm_total.simps(2) intro: arms_total)

lemma GetUserProfileResponse_total: "dec_total W buf (decode_GetUserProfileResponse W)"
  unfolding decode_GetUserProfileResponse_def
  by (intro decode_with_total) (auto simp: fld_total_def switch_GetUserProfileResponse_def simp del: arm_total.simps(2) intro: arms_total UserProfile_total)

lemma AuthUpdateUserProfileRequest_total: "dec_total W buf (decode_AuthUpdateUserProfileRequest W)"
  unfolding decode_AuthUpdateUserProfileRequest_def
  by (intro decode_with_total) (auto simp: fld_total_def switch_AuthUpdateUserProfileRequest_def simp del: arm_total.simps(2) intro: arms_total)

lemma AuthUpdateUserProfileResponse_total: "dec_total W buf (decode_AuthUpdateUserProfileResponse W)"
  unfolding decode_AuthUpdateUserProfileResponse_def
  by (intro decode_with_total) (auto simp: fld_total_def switch_AuthUpdateUserProfileResponse_def simp del: arm_total.simps(2) intro: arms_total UserProfile_total)

lemma CreateAPIKeyRequest_total: "dec_total W buf (decode_CreateAPIKeyRequest W)"
  unfolding decode_CreateAPIKeyRequest_def
  by (intro decode_with_total) (auto simp: fld_total_def switch_CreateAPIKeyRequest_def simp del: arm_total.simps(2) intro: arms_total)

lemma CreateAPIKeyResponse_total: "dec_total W buf (decode_CreateAPIKeyResponse W)"
  unfolding decode_CreateAPIKeyResponse_def
  by (intro decode_with_total) (auto simp: fld_total_def switch_CreateAPIKeyResponse_def simp del: arm_total.simps(2) intro: arms_total APIKey_total)

lemma ListAPIKeysRequest_total: "dec_total W buf (decode_ListAPIKeysRequest W)"
  unfolding decode_ListAPIKeysRequest_def
  by (intro decode_with_total) (auto simp: fld_total_def switch_ListAPIKeysRequest_def simp del: arm_total.simps(2) intro: arms_total)

lemma ListAPIKeysResponse_total: "dec_total W buf (decode_ListAPIKeysResponse W)"
  unfolding decode_ListAPIKeysResponse_def
  by (intro decode_with_total) (auto simp: fld_total_def switch_ListAPIKeysResponse_def simp del: arm_total.simps(2) intro: arms_total APIKey_total)

lemma DeleteAPIKeyRequest_total: "dec_total W buf (decode_DeleteAPIKeyRequest W)"
  unfolding decode_DeleteAPIKeyRequest_def
  by (intro decode_with_total) (auto simp: fld_total_def switch_DeleteAPIKeyRequest_def simp del: arm_total.simps(2) intro: arms_total)

lemma DeleteAPIKeyResponse_total: "dec_total W buf (decode_DeleteAPIKeyResponse W)"
  unfolding decode_DeleteAPIKeyResponse_def
  by (intro decode_with_total) (auto simp: fld_total_def switch_DeleteAPIKeyResponse_def simp del: arm_total.simps(2) intro: arms_total)

lemma ValidateAPIKeyRequest_total: "dec_total W buf (decode_ValidateAPIKeyRequest W)"
  unfolding decode_ValidateAPIKeyRequest_def
  by (intro decode_with_total) (auto simp: fld_total_def switch_ValidateAPIKeyRequest_def simp del: arm_total.simps(2) intro: arms_total)

lemma ValidateAPIKeyResponse_total: "dec_total W buf (decode_ValidateAPIKeyResponse W)"
  unfolding decode_ValidateAPIKeyResponse_def
  by (intro decode_with_total) (auto simp: fld_total_def switch_ValidateAPIKeyResponse_def simp del: arm_total.simps(2) intro: arms_total)

lemma CreateSDKJWTRequest_total: "dec_total W buf (decode_CreateSDKJWTRequest W)"
  unfolding decode_CreateSDKJWTRequest_def
  by (intro decode_with_total) (auto simp: fld_total_def switch_CreateSDKJWTRequest_def simp del: arm_total.simps(2) intro: arms_total)

lemma CreateSDKJWTResponse_total: "dec_total W buf (decode_CreateSDKJWTResponse W)"
  unfolding decode_CreateSDKJWTResponse_def
  by (intro decode_with_total) (auto simp: fld_total_def switch_CreateSDKJWTResponse_def simp del: arm_total.simps(2) intro: arms_total)

lemma GetAuthDetailsForSDKRequest_total: "dec_total W buf (decode_GetAuthDetailsForSDKRequest W)"
  unfolding decode_GetAuthDetailsForSDKRequest_def
  by (intro decode_with_total) (auto simp: fld_total_def switch_GetAuthDetailsForSDKRequest_def simp del: arm_total.simps(2) intro: arms_total)

lemma GetAuthDetailsForSDKResponse_total: "dec_total W buf (decode_GetAuthDetailsForSDKResponse W)"
  unfolding decode_GetAuthDetailsForSDKResponse_def
  by (intro decode_with_total) (auto simp: fld_total_def switch_GetAuthDetailsForSDKResponse_def simp del: arm_total.simps(2) intro: arms_total)

lemma DeleteUserRequest_total: "dec_total W buf (decode_DeleteUserRequest W)"
  unfolding decode_DeleteUserRequest_def
  by (intro decode_with_total) (auto simp: fld_total_def switch_DeleteUserRequest_def simp del: arm_total.simps(2) intro: arms_total)

lemma DeleteUserResponse_total: "dec_total W buf (decode_DeleteUserResponse W)"
  unfolding decode_DeleteUserResponse_def
  by (intro decode_with_total) (auto simp: fld_total_def switch_DeleteUserResponse_def simp del: arm_total.simps(2) intro: arms_total)

lemma RefreshTokenRequest_total: "dec_total W buf (decode_RefreshTokenRequest W)"
  unfolding decode_RefreshTokenRequest_def
  by (intro decode_with_total) (auto simp: fld_total_def switch_RefreshTokenRequest_def simp del: arm_total.simps(2) intro: arms_total)

lemma RefreshTokenResponse_total: "dec_total W buf (decode_RefreshTokenResponse W)"
  unfolding decode_RefreshTokenResponse_def
  by (intro decode_with_total) (auto simp: fld_total_def switch_RefreshTokenResponse_def simp del: arm_total.simps(2) intro: arms_total)

end

section \<open>Encoding and decoding\<close>

context wire_codec
begin

lemma codes_UserProfile:
  assumes "wf_UserProfile m"
  shows "codes W frames buf (encode_UserProfile W m) (switch_UserProfile W) createBaseUserProfile m"
  using assms
  unfolding encode_UserProfile_def
  by (cases m) ((rule codes_fields switch_UserProfile_arms | simp add: createBaseUserProfile_def wf_UserProfile_def)+)

lemma codes_APIKey:
  assumes "wf_APIKey m"
  shows "codes W frames buf (encode_APIKey W m) (switch_APIKey W) createBaseAPIKey m"
  using assms
  unfolding encode_APIKey_def
  by (cases m) ((rule codes_fields switch_APIKey_arms | simp add: createBaseAPIKey_def wf_APIKey_def)+)

lemma codes_RegisterUserRequest:
  "codes W frames buf (encode_RegisterUserRequest W m) (switch_RegisterUserRequest W) createBaseRegisterUserRequest m"
  unfolding encode_RegisterUserRequest_def
  by (cases m) ((rule codes_fields switch_RegisterUserRequest_arms | simp add: createBaseRegisterUserRequest_def)+)

lemma codes_RegisterUserResponse:
  assumes "wf_RegisterUserResponse m"
  shows "codes W frames buf (encode_RegisterUserResponse W m) (switch_RegisterUserResponse W) createBaseRegisterUserResponse m"
  using assms
  unfolding encode_RegisterUserResponse_def
  by (cases m) ((rule codes_fields switch_RegisterUserResponse_arms codes_UserProfile | simp add: createBaseRegisterUserResponse_def wf_RegisterUserResponse_def option.map_ident)+)

lemma codes_LoginRequest:
  "codes W frames buf (encode_LoginRequest W m) (switch_LoginRequest W) createBaseLoginRequest m"
  unfolding encode_LoginRequest_def
  by (cases m) ((rule codes_fields switch_LoginRequest_arms | simp add: createBaseLoginRequest_def)+)

lemma codes_LoginResponse:
  assumes "wf_LoginResponse m"
  shows "codes W frames buf (encode_LoginResponse W m) (switch_LoginResponse W) createBaseLoginResponse m"
  using assms
  unfolding encode_LoginResponse_def
  by (cases m) ((rule codes_fields switch_LoginResponse_arms codes_UserProfile | simp add: createBaseLoginResponse_def wf_LoginResponse_def option.map_ident)+)

lemma codes_GetUserProfileRequest:
  "codes W frames buf (encode_GetUserProfileRequest W m) (switch_GetUserProfileRequest W) createBaseGetUserProfileRequest m"
  unfolding encode_GetUserProfileRequest_def by (rule codes_done) (cases m, simp add: createBaseGetUserProfileRequest_def)

lemma codes_GetUserProfileResponse:
  assumes "wf_GetUserProfileResponse m"
  shows "codes W frames buf (encode_GetUserProfileResponse W m) (switch_GetUserProfileResponse W) createBaseGetUserProfileResponse m"
  using assms
  unfolding encode_GetUserProfileResponse_def
  by (cases m) ((rule codes_fields switch_GetUserProfileResponse_arms codes_UserProfile | simp add: createBaseGetUserProfileResponse_def wf_GetUserProfileResponse_def option.map_ident)+)

lemma codes_AuthUpdateUserProfileRequest:
  "codes W frames buf (encode_AuthUpdateUserProfileRequest W m) (switch_AuthUpdateUserProfileRequest W) createBaseAuthUpdateUserProfileRequest m"
  unfolding encode_AuthUpdateUserProfileRequest_def
  by (cases m) ((rule codes_fields switch_AuthUpdateUserProfileRequest_arms | simp add: createBaseAuthUpdateUserProfileRequest_def)+)

lemma codes_AuthUpdateUserProfileResponse:
  assumes "wf_AuthUpdateUserProfileResponse m"
  shows "codes W frames buf (encode_AuthUpdateUserProfileResponse W m) (switch_AuthUpdateUserProfileResponse W) createBaseAuthUpdateUserProfileResponse m"
  using assms
  unfolding encode_AuthUpdateUserProfileResponse_def
  by (cases m) ((rule codes_fields switch_AuthUpdateUserProfileResponse_arms codes_UserProfile | simp add: createBaseAuthUpdateUserProfileResponse_def wf_AuthUpdateUserProfileResponse_def option.map_ident)+)

lemma codes_CreateAPIKeyRequest:
  "codes W frames buf (encode_CreateAPIKeyRequest W m) (switch_CreateAPIKeyRequest W) createBaseCreateAPIKeyRequest m"
  unfolding encode_CreateAPIKeyRequest_def
  by (cases m) ((rule codes_fields switch_CreateAPIKeyRequest_arms | simp add: createBaseCreateAPIKeyRequest_def)+)

lemma codes_CreateAPIKeyResponse:
  assumes "wf_CreateAPIKeyResponse m"
  shows "codes W frames buf (encode_CreateAPIKeyResponse W m) (switch_CreateAPIKeyResponse W) createBaseCreateAPIKeyResponse m"
  using assms
  unfolding encode_CreateAPIKeyResponse_def
  by (cases m) ((rule codes_fields switch_CreateAPIKeyResponse_arms codes_APIKey | simp add: createBaseCreateAPIKeyResponse_def wf_CreateAPIKeyResponse_def option.map_ident)+)

lemma codes_ListAPIKeysRequest:
  "codes W frames buf (encode_ListAPIKeysRequest W m) (switch_ListAPIKeysRequest W) createBaseListAPIKeysRequest m"
  unfolding encode_ListAPIKeysRequest_def by (rule codes_done) (cases m, simp add: createBaseListAPIKeysRequest_def)

lemma codes_ListAPIKeysResponse:
  assumes "wf_ListAPIKeysResponse m"
  shows "codes W frames buf (encode_ListAPIKeysResponse W m) (switch_ListAPIKeysResponse W) createBaseListAPIKeysResponse m"
  using assms
  unfolding encode_ListAPIKeysResponse_def
  by (cases m) ((rule codes_fields switch_ListAPIKeysResponse_arms codes_APIKey | simp add: createBaseListAPIKeysResponse_def wf_ListAPIKeysResponse_def foldl_ListAPIKeysResponse_keys)+)

lemma codes_DeleteAPIKeyRequest:
  "codes W frames buf (encode_DeleteAPIKeyRequest W m) (switch_DeleteAPIKeyRequest W) createBaseDeleteAPIKeyRequest m"
  unfolding encode_DeleteAPIKeyRequest_def
  by (cases m) ((rule codes_fields switch_DeleteAPIKeyRequest_arms | simp add: createBaseDeleteAPIKeyRequest_def)+)

lemma codes_DeleteAPIKeyResponse:
  "codes W frames buf (encode_DeleteAPIKeyResponse W m) (switch_DeleteAPIKeyResponse W) createBaseDeleteAPIKeyResponse m"
  unfolding encode_DeleteAPIKeyResponse_def
  by (cases m) ((rule codes_fields switch_DeleteAPIKeyResponse_arms | simp add: createBaseDeleteAPIKeyResponse_def)+)

lemma codes_ValidateAPIKeyRequest:
  "codes W frames buf (encode_ValidateAPIKeyRequest W m) (switch_ValidateAPIKeyRequest W) createBaseValidateAPIKeyRequest m"
  unfolding encode_ValidateAPIKeyRequest_def
  by (cases m) ((rule codes_fields switch_ValidateAPIKeyRequest_arms | simp add: createBaseValidateAPIKeyRequest_def)+)

lemma codes_ValidateAPIKeyResponse:
  "codes W frames buf (encode_ValidateAPIKeyResponse W m) (switch_ValidateAPIKeyResponse W) createBaseValidateAPIKeyResponse m"
  unfolding encode_ValidateAPIKeyResponse_def
  by (cases m) ((rule codes_fields switch_ValidateAPIKeyResponse_arms | simp add: createBaseValidateAPIKeyResponse_def)+)

lemma codes_CreateSDKJWTRequest:
  "codes W frames buf (encode_CreateSDKJWTRequest W m) (switch_CreateSDKJWTRequest W) createBaseCreateSDKJWTRequest m"
  unfolding encode_CreateSDKJWTRequest_def
  by (cases m) ((rule codes_fields switch_CreateSDKJWTRequest_arms | simp add: createBaseCreateSDKJWTRequest_def)+)

lemma codes_CreateSDKJWTResponse:
  "codes W frames buf (encode_CreateSDKJWTResponse W m) (switch_CreateSDKJWTResponse W) createBaseCreateSDKJWTResponse m"
  unfolding encode_CreateSDKJWTResponse_def
  by (cases m) ((rule codes_fields switch_CreateSDKJWTResponse_arms | simp add: createBaseCreateSDKJWTResponse_def)+)

lemma codes_GetAuthDetailsForSDKRequest:
  "codes W frames buf (encode_GetAuthDetailsForSDKRequest W m) (switch_GetAuthDetailsForSDKRequest W) createBaseGetAuthDetailsForSDKRequest m"
  unfolding encode_GetAuthDetailsForSDKRequest_def
  by (cases m) ((rule codes_fields switch_GetAuthDetailsForSDKRequest_arms | simp add: createBaseGetAuthDetailsForSDKRequest_def)+)

lemma codes_GetAuthDetailsForSDKResponse:
  "codes W frames buf (encode_GetAuthDetailsForSDKResponse W m) (switch_GetAuthDetailsForSDKResponse W) createBaseGetAuthDetailsForSDKResponse m"
  unfolding encode_GetAuthDetailsForSDKResponse_def
  by (cases m) ((rule codes_fields switch_GetAuthDetailsForSDKResponse_arms | simp add: createBaseGetAuthDetailsForSDKResponse_def)+)

lemma codes_DeleteUserRequest:
  "codes W frames buf (encode_DeleteUserRequest W m) (switch_DeleteUserRequest W) createBaseDeleteUserRequest m"
  unfolding encode_DeleteUserRequest_def
  by (cases m) ((rule codes_fields switch_DeleteUserRequest_arms | simp add: createBaseDeleteUserRequest_def)+)

lemma codes_DeleteUserResponse:
  "codes W frames buf (encode_DeleteUserResponse W m) (switch_DeleteUserResponse W) createBaseDeleteUserResponse m"
  unfolding encode_DeleteUserResponse_def
  by (cases m) ((rule codes_fields switch_DeleteUserResponse_arms | simp add: createBaseDeleteUserResponse_def)+)

lemma codes_RefreshTokenRequest:
  "codes W frames buf (encode_RefreshTokenRequest W m) (switch_RefreshTokenRequest W) createBaseRefreshTokenRequest m"
  unfolding encode_RefreshTokenRequest_def by (rule codes_done) (cases m, simp add: createBaseRefreshTokenRequest_def)

lemma codes_RefreshTokenResponse:
  assumes "wf_RefreshTokenResponse m"
  shows "codes W frames buf (encode_RefreshTokenResponse W m) (switch_RefreshTokenResponse W) createBaseRefreshTokenResponse m"
  using assms
  unfolding encode_RefreshTokenResponse_def
  by (cases m) ((rule codes_fields switch_RefreshTokenResponse_arms | simp add: createBaseRefreshTokenResponse_def wf_RefreshTokenResponse_def)+)

end

section \<open>Properties\<close>

text \<open>A login response survives the wire: whenever \<^verbatim>\<open>LoginResponse.encode\<close> succeeds, what
  \<^verbatim>\<open>LoginResponse.decode\<close> reads from its bytes is the same token and the same user profile,
  with the 64-bit creation time as the same decimal string.\<close>

theorem LoginResponse_roundtrip:
  assumes "wire_codec W frames enc buf fround" and "wf_LoginResponse m"
    and "encode_LoginResponse W m (w_new W) = Inr w"
  shows "decode_bytes W (decode_LoginResponse W) (w_finish W w) = Some (Inr m)"
  unfolding decode_LoginResponse_def
  by (rule wire_codec.codes_decode_bytes
      [OF assms(1) wire_codec.codes_LoginResponse [OF assms(1,2)] assms(3)])

definition sample_login :: LoginResponse where
  "sample_login =
     \<lparr>LoginResponse_jwtToken = ''t.t'',
      LoginResponse_user =
        Some \<lparr>UserProfile_id = ''u1'', UserProfile_email = ''a@b'', UserProfile_createdAt = ''12'',
              UserProfile_plan = Fin 1, UserProfile_subscriptionStatus = Fin 0\<rparr>\<rparr>"

lemma sample_login_int64: "int64_string ''12''"
proof -
  have "''12'' = show_int 12" by code_simp
  then show ?thesis by (simp add: int64_string_def)
qed

lemma sample_login_parse: "parse_nat ''12'' = 12"
  by code_simp

lemma sample_login_encodes: "\<exists>w. encode_LoginResponse protobuf sample_login (w_new protobuf) = Inr w"
  by (simp add: sample_login_def encode_LoginResponse_def encode_UserProfile_def protobuf_eval
      sample_login_int64 sample_login_parse)

theorem LoginResponse_roundtrip_witness:
  "\<exists>w. encode_LoginResponse protobuf sample_login (w_new protobuf) = Inr w
     \<and> decode_bytes protobuf (decode_LoginResponse protobuf) (w_finish protobuf w)
         = Some (Inr sample_login)"
proof -
  obtain w where w: "encode_LoginResponse protobuf sample_login (w_new protobuf) = Inr w"
    using sample_login_encodes ..
  have "wf_LoginResponse sample_login"
    by (simp add: sample_login_def wf_LoginResponse_def wf_UserProfile_def sample_login_int64)
  from LoginResponse_roundtrip [OF pb.wire_codec_axioms this w] w show ?thesis by blast
qed

end
