(* ===== verification/Api_Messages.thy ===== *)
theory Api_Messages
  imports Auth_Messages
begin

unbundle bit_operations_syntax

text \<open>
  The messages of the gateway, translated from \<^verbatim>\<open>clientlibs/js/proto/apigateway/apigateway.ts\<close> in
  the same way as those of \<open>Auth_Messages\<close>. These are the requests and responses of the client.
\<close>

section \<open>Messages\<close>

subsection \<open>\<^verbatim>\<open>CreateCollectionRequest\<close>\<close>

record CreateCollectionRequest =
  CreateCollectionRequest_name :: string
  CreateCollectionRequest_dimension :: js_num
  CreateCollectionRequest_distance :: string

definition createBaseCreateCollectionRequest :: CreateCollectionRequest where
  "createBaseCreateCollectionRequest =
     \<lparr>CreateCollectionRequest_name = [],
      CreateCollectionRequest_dimension = Fin 0,
      CreateCollectionRequest_distance = []\<rparr>"

definition encode_CreateCollectionRequest :: "('w, 'r) wire \<Rightarrow> CreateCollectionRequest \<Rightarrow> 'w writes" where
  "encode_CreateCollectionRequest W m =
     w_seq
      [w_if (CreateCollectionRequest_name m \<noteq> []) (w_field W 10 (w_string W (CreateCollectionRequest_name m))),
       w_if (\<not> js_eq (CreateCollectionRequest_dimension m) (Fin 0)) (w_field W 16 (w_int32 W (CreateCollectionRequest_dimension m))),
       w_if (CreateCollectionRequest_distance m \<noteq> []) (w_field W 26 (w_string W (CreateCollectionRequest_distance m)))]"

definition switch_CreateCollectionRequest :: "('w, 'r) wire \<Rightarrow> ('r, CreateCollectionRequest) switch" where
  "switch_CreateCollectionRequest W tag m r =
     (if drop_bit 3 tag = 1 then
       (if tag \<noteq> 10 then Break
        else arm_read (r_string W) (\<lambda>v. m\<lparr>CreateCollectionRequest_name := v\<rparr>) r)
      else if drop_bit 3 tag = 2 then
       (if tag \<noteq> 16 then Break
        else arm_read (r_int32 W) (\<lambda>v. m\<lparr>CreateCollectionRequest_dimension := num_of_int (sint v)\<rparr>) r)
      else if drop_bit 3 tag = 3 then
       (if tag \<noteq> 26 then Break
        else arm_read (r_string W) (\<lambda>v. m\<lparr>CreateCollectionRequest_distance := v\<rparr>) r)
      else Break)"

type_synonym CreateCollectionRequest_partial = "(string option) \<times> (js_num option) \<times> (string option)"

fun fromPartial_CreateCollectionRequest :: "CreateCollectionRequest_partial \<Rightarrow> CreateCollectionRequest" where
  "fromPartial_CreateCollectionRequest (name', dimension', distance') =
     \<lparr>CreateCollectionRequest_name = nullish name' [],
      CreateCollectionRequest_dimension = nullish dimension' (Fin 0),
      CreateCollectionRequest_distance = nullish distance' []\<rparr>"

definition create_CreateCollectionRequest :: "CreateCollectionRequest_partial option \<Rightarrow> CreateCollectionRequest" where
  "create_CreateCollectionRequest base = fromPartial_CreateCollectionRequest (nullish base (None, None, None))"

definition decode_CreateCollectionRequest :: "('w, 'r) wire \<Rightarrow> 'r \<Rightarrow> nat option \<Rightarrow> (CreateCollectionRequest \<times> 'r) comp" where
  "decode_CreateCollectionRequest W = decode_with W (switch_CreateCollectionRequest W) createBaseCreateCollectionRequest"

subsection \<open>\<^verbatim>\<open>CreateCollectionResponse\<close>\<close>

record CreateCollectionResponse =
  CreateCollectionResponse_success :: bool

definition createBaseCreateCollectionResponse :: CreateCollectionResponse where
  "createBaseCreateCollectionResponse =
     \<lparr>CreateCollectionResponse_success = False\<rparr>"

definition encode_CreateCollectionResponse :: "('w, 'r) wire \<Rightarrow> CreateCollectionResponse \<Rightarrow> 'w writes" where
  "encode_CreateCollectionResponse W m =
     w_seq
      [w_if (CreateCollectionResponse_success m) (w_field W 8 (w_bool W (CreateCollectionResponse_success m)))]"

definition switch_CreateCollectionResponse :: "('w, 'r) wire \<Rightarrow> ('r, CreateCollectionResponse) switch" where
  "switch_CreateCollectionResponse W tag m r =
     (if drop_bit 3 tag = 1 then
       (if tag \<noteq> 8 then Break
        else arm_read (r_bool W) (\<lambda>v. m\<lparr>CreateCollectionResponse_success := v\<rparr>) r)
      else Break)"

type_synonym CreateCollectionResponse_partial = "bool option"

fun fromPartial_CreateCollectionResponse :: "CreateCollectionResponse_partial \<Rightarrow> CreateCollectionResponse" where
  "fromPartial_CreateCollectionResponse success' =
     \<lparr>CreateCollectionResponse_success = nullish success' False\<rparr>"

definition create_CreateCollectionResponse :: "CreateCollectionResponse_partial option \<Rightarrow> CreateCollectionResponse" where
  "create_CreateCollectionResponse base = fromPartial_CreateCollectionResponse (nullish base None)"

definition decode_CreateCollectionResponse :: "('w, 'r) wire \<Rightarrow> 'r \<Rightarrow> nat option \<Rightarrow> (CreateCollectionResponse \<times> 'r) comp" where
  "decode_CreateCollectionResponse W = decode_with W (switch_CreateCollectionResponse W) createBaseCreateCollectionResponse"

subsection \<open>\<^verbatim>\<open>DeleteCollectionRequest\<close>\<close>

record DeleteCollectionRequest =
  DeleteCollectionRequest_name :: string

definition createBaseDeleteCollectionRequest :: DeleteCollectionRequest where
  "createBaseDeleteCollectionRequest =
     \<lparr>DeleteCollectionRequest_name = []\<rparr>"

definition encode_DeleteCollectionRequest :: "('w, 'r) wire \<Rightarrow> DeleteCollectionRequest \<Rightarrow> 'w writes" where
  "encode_DeleteCollectionRequest W m =
     w_seq
      [w_if (DeleteCollectionRequest_name m \<noteq> []) (w_field W 10 (w_string W (DeleteCollectionRequest_name m)))]"

definition switch_DeleteCollectionRequest :: "('w, 'r) wire \<Rightarrow> ('r, DeleteCollectionRequest) switch" where
  "switch_DeleteCollectionRequest W tag m r =
     (if drop_bit 3 tag = 1 then
       (if tag \<noteq> 10 then Break
        else arm_read (r_string W) (\<lambda>v. m\<lparr>DeleteCollectionRequest_name := v\<rparr>) r)
      else Break)"

type_synonym DeleteCollectionRequest_partial = "string option"

fun fromPartial_DeleteCollectionRequest :: "DeleteCollectionRequest_partial \<Rightarrow> DeleteCollectionRequest" where
  "fromPartial_DeleteCollectionRequest name' =
     \<lparr>DeleteCollectionRequest_name = nullish name' []\<rparr>"

definition create_DeleteCollectionRequest :: "DeleteCollectionRequest_partial option \<Rightarrow> DeleteCollectionRequest" where
  "create_DeleteCollectionRequest base = fromPartial_DeleteCollectionRequest (nullish base None)"

definition decode_DeleteCollectionRequest :: "('w, 'r) wire \<Rightarrow> 'r \<Rightarrow> nat option \<Rightarrow> (DeleteCollectionRequest \<times> 'r) comp" where
  "decode_DeleteCollectionRequest W = decode_with W (switch_DeleteCollectionRequest W) createBaseDeleteCollectionRequest"

subsection \<open>\<^verbatim>\<open>DeleteCollectionResponse\<close>\<close>

record DeleteCollectionResponse =
  DeleteCollectionResponse_success :: bool

definition createBaseDeleteCollectionResponse :: DeleteCollectionResponse where
  "createBaseDeleteCollectionResponse =
     \<lparr>DeleteCollectionResponse_success = False\<rparr>"

definition encode_DeleteCollectionResponse :: "('w, 'r) wire \<Rightarrow> DeleteCollectionResponse \<Rightarrow> 'w writes" where
  "encode_DeleteCollectionResponse W m =
     w_seq
      [w_if (DeleteCollectionResponse_success m) (w_field W 8 (w_bool W (DeleteCollectionResponse_success m)))]"

definition switch_DeleteCollectionResponse :: "('w, 'r) wire \<Rightarrow> ('r, DeleteCollectionResponse) switch" where
  "switch_DeleteCollectionResponse W tag m r =
     (if drop_bit 3 tag = 1 then
       (if tag \<noteq> 8 then Break
        else arm_read (r_bool W) (\<lambda>v. m\<lparr>DeleteCollectionResponse_success := v\<rparr>) r)
      else Break)"

type_synonym DeleteCollectionResponse_partial = "bool option"

fun fromPartial_DeleteCollectionResponse :: "DeleteCollectionResponse_partial \<Rightarrow> DeleteCollectionResponse" where
  "fromPartial_DeleteCollectionResponse success' =
     \<lparr>DeleteCollectionResponse_success = nullish success' False\<rparr>"

definition create_DeleteCollectionResponse :: "DeleteCollectionResponse_partial option \<Rightarrow> DeleteCollectionResponse" where
  "create_DeleteCollectionResponse base = fromPartial_DeleteCollectionResponse (nullish base None)"

definition decode_DeleteCollectionResponse :: "('w, 'r) wire \<Rightarrow> 'r \<Rightarrow> nat option \<Rightarrow> (DeleteCollectionResponse \<times> 'r) comp" where
  "decode_DeleteCollectionResponse W = decode_with W (switch_DeleteCollectionResponse W) createBaseDeleteCollectionResponse"

subsection \<open>\<^verbatim>\<open>Point_PayloadEntry\<close>\<close>

record Point_PayloadEntry =
  Point_PayloadEntry_key :: string
  Point_PayloadEntry_value :: string

definition createBasePoint_PayloadEntry :: Point_PayloadEntry where
  "createBasePoint_PayloadEntry =
     \<lparr>Point_PayloadEntry_key = [],
      Point_PayloadEntry_value = []\<rparr>"

definition encode_Point_PayloadEntry :: "('w, 'r) wire \<Rightarrow> Point_PayloadEntry \<Rightarrow> 'w writes" where
  "encode_Point_PayloadEntry W m =
     w_seq
      [w_if (Point_PayloadEntry_key m \<noteq> []) (w_field W 10 (w_string W (Point_PayloadEntry_key m))),
       w_if (Point_PayloadEntry_value m \<noteq> []) (w_field W 18 (w_string W (Point_PayloadEntry_value m)))]"

definition switch_Point_PayloadEntry :: "('w, 'r) wire \<Rightarrow> ('r, Point_PayloadEntry) switch" where
  "switch_Point_PayloadEntry W tag m r =
     (if drop_bit 3 tag = 1 then
       (if tag \<noteq> 10 then Break
        else arm_read (r_string W) (\<lambda>v. m\<lparr>Point_PayloadEntry_key := v\<rparr>) r)
      else if drop_bit 3 tag = 2 then
       (if tag \<noteq> 18 then Break
        else arm_read (r_string W) (\<lambda>v. m\<lparr>Point_PayloadEntry_value := v\<rparr>) r)
      else Break)"

type_synonym Point_PayloadEntry_partial = "(string option) \<times> (string option)"

fun fromPartial_Point_PayloadEntry :: "Point_PayloadEntry_partial \<Rightarrow> Point_PayloadEntry" where
  "fromPartial_Point_PayloadEntry (key', value') =
     \<lparr>Point_PayloadEntry_key = nullish key' [],
      Point_PayloadEntry_value = nullish value' []\<rparr>"

definition create_Point_PayloadEntry :: "Point_PayloadEntry_partial option \<Rightarrow> Point_PayloadEntry" where
  "create_Point_PayloadEntry base = fromPartial_Point_PayloadEntry (nullish base (None, None))"

definition decode_Point_PayloadEntry :: "('w, 'r) wire \<Rightarrow> 'r \<Rightarrow> nat option \<Rightarrow> (Point_PayloadEntry \<times> 'r) comp" where
  "decode_Point_PayloadEntry W = decode_with W (switch_Point_PayloadEntry W) createBasePoint_PayloadEntry"

subsection \<open>\<^verbatim>\<open>Point\<close>\<close>

record Point =
  Point_id :: string
  Point_vector :: "js_num list"
  Point_payload :: "string js_obj"

definition createBasePoint :: Point where
  "createBasePoint =
     \<lparr>Point_id = [],
      Point_vector = [],
      Point_payload = []\<rparr>"

definition encode_Point :: "('w, 'r) wire \<Rightarrow> Point \<Rightarrow> 'w writes" where
  "encode_Point W m =
     w_seq
      [w_if (Point_id m \<noteq> []) (w_field W 10 (w_string W (Point_id m))),
       w_nested W 18 (w_seq (map (w_float W) (Point_vector m))),
       w_seq (map (\<lambda>(key, value). w_nested W 26
          (encode_Point_PayloadEntry W \<lparr>Point_PayloadEntry_key = key, Point_PayloadEntry_value = value\<rparr>)) (Point_payload m))]"

definition switch_Point :: "('w, 'r) wire \<Rightarrow> ('r, Point) switch" where
  "switch_Point W tag m r =
     (if drop_bit 3 tag = 1 then
       (if tag \<noteq> 10 then Break
        else arm_read (r_string W) (\<lambda>v. m\<lparr>Point_id := v\<rparr>) r)
      else if drop_bit 3 tag = 2 then
       (if tag = 21 then arm_read (r_float W) (\<lambda>v. m\<lparr>Point_vector := Point_vector m @ [v]\<rparr>) r
        else if tag = 18 then arm_packed W (r_float W) (\<lambda>vs. m\<lparr>Point_vector := Point_vector m @ vs\<rparr>) r
        else Break)
      else if drop_bit 3 tag = 3 then
       (if tag \<noteq> 26 then Break
        else arm_sub W (decode_Point_PayloadEntry W)
          (\<lambda>e. m\<lparr>Point_payload := js_set (Point_PayloadEntry_key e) (Point_PayloadEntry_value e) (Point_payload m)\<rparr>) r)
      else Break)"

type_synonym Point_partial = "(string option) \<times> (js_num list option) \<times> (string option js_obj option)"

fun fromPartial_Point :: "Point_partial \<Rightarrow> Point" where
  "fromPartial_Point (id', vector', payload') =
     \<lparr>Point_id = nullish id' [],
      Point_vector = nullish vector' [],
      Point_payload = js_copy (nullish payload' [])\<rparr>"

definition create_Point :: "Point_partial option \<Rightarrow> Point" where
  "create_Point base = fromPartial_Point (nullish base (None, None, None))"

definition decode_Point :: "('w, 'r) wire \<Rightarrow> 'r \<Rightarrow> nat option \<Rightarrow> (Point \<times> 'r) comp" where
  "decode_Point W = decode_with W (switch_Point W) createBasePoint"

subsection \<open>\<^verbatim>\<open>UpsertRequest\<close>\<close>

record UpsertRequest =
  UpsertRequest_collection :: string
  UpsertRequest_points :: "Point list"

definition createBaseUpsertRequest :: UpsertRequest where
  "createBaseUpsertRequest =
     \<lparr>UpsertRequest_collection = [],
      UpsertRequest_points = []\<rparr>"

definition encode_UpsertRequest :: "('w, 'r) wire \<Rightarrow> UpsertRequest \<Rightarrow> 'w writes" where
  "encode_UpsertRequest W m =
     w_seq
      [w_if (UpsertRequest_collection m \<noteq> []) (w_field W 10 (w_string W (UpsertRequest_collection m))),
       w_seq (map (\<lambda>v. w_nested W 18 (encode_Point W v)) (UpsertRequest_points m))]"

definition switch_UpsertRequest :: "('w, 'r) wire \<Rightarrow> ('r, UpsertRequest) switch" where
  "switch_UpsertRequest W tag m r =
     (if drop_bit 3 tag = 1 then
       (if tag \<noteq> 10 then Break
        else arm_read (r_string W) (\<lambda>v. m\<lparr>UpsertRequest_collection := v\<rparr>) r)
      else if drop_bit 3 tag = 2 then
       (if tag \<noteq> 18 then Break
        else arm_sub W (decode_Point W) (\<lambda>v. m\<lparr>UpsertRequest_points := UpsertRequest_points m @ [v]\<rparr>) r)
      else Break)"

type_synonym UpsertRequest_partial = "(string option) \<times> (Point_partial list option)"

fun fromPartial_UpsertRequest :: "UpsertRequest_partial \<Rightarrow> UpsertRequest" where
  "fromPartial_UpsertRequest (collection', points') =
     \<lparr>UpsertRequest_collection = nullish collection' [],
      UpsertRequest_points = map fromPartial_Point (nullish points' [])\<rparr>"

definition create_UpsertRequest :: "UpsertRequest_partial option \<Rightarrow> UpsertRequest" where
  "create_UpsertRequest base = fromPartial_UpsertRequest (nullish base (None, None))"

definition decode_UpsertRequest :: "('w, 'r) wire \<Rightarrow> 'r \<Rightarrow> nat option \<Rightarrow> (UpsertRequest \<times> 'r) comp" where
  "decode_UpsertRequest W = decode_with W (switch_UpsertRequest W) createBaseUpsertRequest"

subsection \<open>\<^verbatim>\<open>UpsertResponse\<close>\<close>

record UpsertResponse =
  UpsertResponse_upserted :: js_num

definition createBaseUpsertResponse :: UpsertResponse where
  "createBaseUpsertResponse =
     \<lparr>UpsertResponse_upserted = Fin 0\<rparr>"

definition encode_UpsertResponse :: "('w, 'r) wire \<Rightarrow> UpsertResponse \<Rightarrow> 'w writes" where
  "encode_UpsertResponse W m =
     w_seq
      [w_if (\<not> js_eq (UpsertResponse_upserted m) (Fin 0)) (w_field W 8 (w_int32 W (UpsertResponse_upserted m)))]"

definition switch_UpsertResponse :: "('w, 'r) wire \<Rightarrow> ('r, UpsertResponse) switch" where
  "switch_UpsertResponse W tag m r =
     (if drop_bit 3 tag = 1 then
       (if tag \<noteq> 8 then Break
        else arm_read (r_int32 W) (\<lambda>v. m\<lparr>UpsertResponse_upserted := num_of_int (sint v)\<rparr>) r)
      else Break)"

type_synonym UpsertResponse_partial = "js_num option"

fun fromPartial_UpsertResponse :: "UpsertResponse_partial \<Rightarrow> UpsertResponse" where
  "fromPartial_UpsertResponse upserted' =
     \<lparr>UpsertResponse_upserted = nullish upserted' (Fin 0)\<rparr>"

definition create_UpsertResponse :: "UpsertResponse_partial option \<Rightarrow> UpsertResponse" where
  "create_UpsertResponse base = fromPartial_UpsertResponse (nullish base None)"

definition decode_UpsertResponse :: "('w, 'r) wire \<Rightarrow> 'r \<Rightarrow> nat option \<Rightarrow> (UpsertResponse \<times> 'r) comp" where
  "decode_UpsertResponse W = decode_with W (switch_UpsertResponse W) createBaseUpsertResponse"

subsection \<open>\<^verbatim>\<open>SearchRequest\<close>\<close>

record SearchRequest =
  SearchRequest_collection :: string
  SearchRequest_vector :: "js_num list"
  SearchRequest_topK :: js_num
  SearchRequest_query :: string
  SearchRequest_timeoutMs :: js_num
  SearchRequest_includeVectors :: bool
  SearchRequest_includeMetadata :: bool

definition createBaseSearchRequest :: SearchRequest where
  "createBaseSearchRequest =
     \<lparr>SearchRequest_collection = [],
      SearchRequest_vector = [],
      SearchRequest_topK = Fin 0,
      SearchRequest_query = [],
      SearchRequest_timeoutMs = Fin 0,
      SearchRequest_includeVectors = False,
      SearchRequest_includeMetadata = False\<rparr>"

definition encode_SearchRequest :: "('w, 'r) wire \<Rightarrow> SearchRequest \<Rightarrow> 'w writes" where
  "encode_SearchRequest W m =
     w_seq
      [w_if (SearchRequest_collection m \<noteq> []) (w_field W 10 (w_string W (SearchRequest_collection m))),
       w_seq (map (\<lambda>v. w_field W 21 (w_float W v)) (SearchRequest_vector m)),
       w_if (\<not> js_eq (SearchRequest_topK m) (Fin 0)) (w_field W 24 (w_uint32 W (SearchRequest_topK m))),
       w_if (SearchRequest_query m \<noteq> []) (w_field W 34 (w_string W (SearchRequest_query m))),
       w_if (\<not> js_eq (SearchRequest_timeoutMs m) (Fin 0)) (w_field W 40 (w_uint32 W (SearchRequest_timeoutMs m))),
       w_if (SearchRequest_includeVectors m) (w_field W 48 (w_bool W (SearchRequest_includeVectors m))),
       w_if (SearchRequest_includeMetadata m) (w_field W 56 (w_bool W (SearchRequest_includeMetadata m)))]"

definition switch_SearchRequest :: "('w, 'r) wire \<Rightarrow> ('r, SearchRequest) switch" where
  "switch_SearchRequest W tag m r =
     (if drop_bit 3 tag = 1 then
       (if tag \<noteq> 10 then Break
        else arm_read (r_string W) (\<lambda>v. m\<lparr>SearchRequest_collection := v\<rparr>) r)
      else if drop_bit 3 tag = 2 then
       (if tag = 21 then arm_read (r_float W) (\<lambda>v. m\<lparr>SearchRequest_vector := SearchRequest_vector m @ [v]\<rparr>) r
        else if tag = 18 then arm_packed W (r_float W) (\<lambda>vs. m\<lparr>SearchRequest_vector := SearchRequest_vector m @ vs\<rparr>) r
        else Break)
      else if drop_bit 3 tag = 3 then
       (if tag \<noteq> 24 then Break
        else arm_read (r_uint32 W) (\<lambda>v. m\<lparr>SearchRequest_topK := num_of_nat (unat v)\<rparr>) r)
      else if drop_bit 3 tag = 4 then
       (if tag \<noteq> 34 then Break
        else arm_read (r_string W) (\<lambda>v. m\<lparr>SearchRequest_query := v\<rparr>) r)
      else if drop_bit 3 tag = 5 then
       (if tag \<noteq> 40 then Break
        else arm_read (r_uint32 W) (\<lambda>v. m\<lparr>SearchRequest_timeoutMs := num_of_nat (unat v)\<rparr>) r)
      else if drop_bit 3 tag = 6 then
       (if tag \<noteq> 48 then Break
        else arm_read (r_bool W) (\<lambda>v. m\<lparr>SearchRequest_includeVectors := v\<rparr>) r)
      else if drop_bit 3 tag = 7 then
       (if tag \<noteq> 56 then Break
        else arm_read (r_bool W) (\<lambda>v. m\<lparr>SearchRequest_includeMetadata := v\<rparr>) r)
      else Break)"

type_synonym SearchRequest_partial = "(string option) \<times> (js_num list option) \<times> (js_num option) \<times> (string option) \<times> (js_num option) \<times> (bool option) \<times> (bool option)"

fun fromPartial_SearchRequest :: "SearchRequest_partial \<Rightarrow> SearchRequest" where
  "fromPartial_SearchRequest (collection', vector', topK', query', timeoutMs', includeVectors', includeMetadata') =
     \<lparr>SearchRequest_collection = nullish collection' [],
      SearchRequest_vector = nullish vector' [],
      SearchRequest_topK = nullish topK' (Fin 0),
      SearchRequest_query = nullish query' [],
      SearchRequest_timeoutMs = nullish timeoutMs' (Fin 0),
      SearchRequest_includeVectors = nullish includeVectors' False,
      SearchRequest_includeMetadata = nullish includeMetadata' False\<rparr>"

definition create_SearchRequest :: "SearchRequest_partial option \<Rightarrow> SearchRequest" where
  "create_SearchRequest base = fromPartial_SearchRequest (nullish base (None, None, None, None, None, None, None))"

definition decode_SearchRequest :: "('w, 'r) wire \<Rightarrow> 'r \<Rightarrow> nat option \<Rightarrow> (SearchRequest \<times> 'r) comp" where
  "decode_SearchRequest W = decode_with W (switch_SearchRequest W) createBaseSearchRequest"

subsection \<open>\<^verbatim>\<open>SearchResult_PayloadEntry\<close>\<close>

record SearchResult_PayloadEntry =
  SearchResult_PayloadEntry_key :: string
  SearchResult_PayloadEntry_value :: string

definition createBaseSearchResult_PayloadEntry :: SearchResult_PayloadEntry where
  "createBaseSearchResult_PayloadEntry =
     \<lparr>SearchResult_PayloadEntry_key = [],
      SearchResult_PayloadEntry_value = []\<rparr>"

definition encode_SearchResult_PayloadEntry :: "('w, 'r) wire \<Rightarrow> SearchResult_PayloadEntry \<Rightarrow> 'w writes" where
  "encode_SearchResult_PayloadEntry W m =
     w_seq
      [w_if (SearchResult_PayloadEntry_key m \<noteq> []) (w_field W 10 (w_string W (SearchResult_PayloadEntry_key m))),
       w_if (SearchResult_PayloadEntry_value m \<noteq> []) (w_field W 18 (w_string W (SearchResult_PayloadEntry_value m)))]"

definition switch_SearchResult_PayloadEntry :: "('w, 'r) wire \<Rightarrow> ('r, SearchResult_PayloadEntry) switch" where
  "switch_SearchResult_PayloadEntry W tag m r =
     (if drop_bit 3 tag = 1 then
       (if tag \<noteq> 10 then Break
        else arm_read (r_string W) (\<lambda>v. m\<lparr>SearchResult_PayloadEntry_key := v\<rparr>) r)
      else if drop_bit 3 tag = 2 then
       (if tag \<noteq> 18 then Break
        else arm_read (r_string W) (\<lambda>v. m\<lparr>SearchResult_PayloadEntry_value := v\<rparr>) r)
      else Break)"

type_synonym SearchResult_PayloadEntry_partial = "(string option) \<times> (string option)"

fun fromPartial_SearchResult_PayloadEntry :: "SearchResult_PayloadEntry_partial \<Rightarrow> SearchResult_PayloadEntry" where
  "fromPartial_SearchResult_PayloadEntry (key', value') =
     \<lparr>SearchResult_PayloadEntry_key = nullish key' [],
      SearchResult_PayloadEntry_value = nullish value' []\<rparr>"

definition create_SearchResult_PayloadEntry :: "SearchResult_PayloadEntry_partial option \<Rightarrow> SearchResult_PayloadEntry" where
  "create_SearchResult_PayloadEntry base = fromPartial_SearchResult_PayloadEntry (nullish base (None, None))"

definition decode_SearchResult_PayloadEntry :: "('w, 'r) wire \<Rightarrow> 'r \<Rightarrow> nat option \<Rightarrow> (SearchResult_PayloadEntry \<times> 'r) comp" where
  "decode_SearchResult_PayloadEntry W = decode_with W (switch_SearchResult_PayloadEntry W) createBaseSearchResult_PayloadEntry"

subsection \<open>\<^verbatim>\<open>SearchResult\<close>\<close>

record SearchResult =
  SearchResult_id :: string
  SearchResult_score :: js_num
  SearchResult_payload :: "string js_obj"
  SearchResult_vector :: "js_num list"

definition createBaseSearchResult :: SearchResult where
  "createBaseSearchResult =
     \<lparr>SearchResult_id = [],
      SearchResult_score = Fin 0,
      SearchResult_payload = [],
      SearchResult_vector = []\<rparr>"

definition encode_SearchResult :: "('w, 'r) wire \<Rightarrow> SearchResult \<Rightarrow> 'w writes" where
  "encode_SearchResult W m =
     w_seq
      [w_if (SearchResult_id m \<noteq> []) (w_field W 10 (w_string W (SearchResult_id m))),
       w_if (\<not> js_eq (SearchResult_score m) (Fin 0)) (w_field W 21 (w_float W (SearchResult_score m))),
       w_seq (map (\<lambda>(key, value). w_nested W 26
          (encode_SearchResult_PayloadEntry W \<lparr>SearchResult_PayloadEntry_key = key, SearchResult_PayloadEntry_value = value\<rparr>)) (SearchResult_payload m)),
       w_nested W 34 (w_seq (map (w_float W) (SearchResult_vector m)))]"

definition switch_SearchResult :: "('w, 'r) wire \<Rightarrow> ('r, SearchResult) switch" where
  "switch_SearchResult W tag m r =
     (if drop_bit 3 tag = 1 then
       (if tag \<noteq> 10 then Break
        else arm_read (r_string W) (\<lambda>v. m\<lparr>SearchResult_id := v\<rparr>) r)
      else if drop_bit 3 tag = 2 then
       (if tag \<noteq> 21 then Break
        else arm_read (r_float W) (\<lambda>v. m\<lparr>SearchResult_score := v\<rparr>) r)
      else if drop_bit 3 tag = 3 then
       (if tag \<noteq> 26 then Break
        else arm_sub W (decode_SearchResult_PayloadEntry W)
          (\<lambda>e. m\<lparr>SearchResult_payload := js_set (SearchResult_PayloadEntry_key e) (SearchResult_PayloadEntry_value e) (SearchResult_payload m)\<rparr>) r)
      else if drop_bit 3 tag = 4 then
       (if tag = 37 then arm_read (r_float W) (\<lambda>v. m\<lparr>SearchResult_vector := SearchResult_vector m @ [v]\<rparr>) r
        else if tag = 34 then arm_packed W (r_float W) (\<lambda>vs. m\<lparr>SearchResult_vector := SearchResult_vector m @ vs\<rparr>) r
        else Break)
      else Break)"

type_synonym SearchResult_partial = "(string option) \<times> (js_num option) \<times> (string option js_obj option) \<times> (js_num list option)"

fun fromPartial_SearchResult :: "SearchResult_partial \<Rightarrow> SearchResult" where
  "fromPartial_SearchResult (id', score', payload', vector') =
     \<lparr>SearchResult_id = nullish id' [],
      SearchResult_score = nullish score' (Fin 0),
      SearchResult_payload = js_copy (nullish payload' []),
      SearchResult_vector = nullish vector' []\<rparr>"

definition create_SearchResult :: "SearchResult_partial option \<Rightarrow> SearchResult" where
  "create_SearchResult base = fromPartial_SearchResult (nullish base (None, None, None, None))"

definition decode_SearchResult :: "('w, 'r) wire \<Rightarrow> 'r \<Rightarrow> nat option \<Rightarrow> (SearchResult \<times> 'r) comp" where
  "decode_SearchResult W = decode_with W (switch_SearchResult W) createBaseSearchResult"

subsection \<open>\<^verbatim>\<open>SearchResponse\<close>\<close>

record SearchResponse =
  SearchResponse_results :: "SearchResult list"

definition createBaseSearchResponse :: SearchResponse where
  "createBaseSearchResponse =
     \<lparr>SearchResponse_results = []\<rparr>"

definition encode_SearchResponse :: "('w, 'r) wire \<Rightarrow> SearchResponse \<Rightarrow> 'w writes" where
  "encode_SearchResponse W m =
     w_seq
      [w_seq (map (\<lambda>v. w_nested W 10 (encode_SearchResult W v)) (SearchResponse_results m))]"

definition switch_SearchResponse :: "('w, 'r) wire \<Rightarrow> ('r, SearchResponse) switch" where
  "switch_SearchResponse W tag m r =
     (if drop_bit 3 tag = 1 then
       (if tag \<noteq> 10 then Break
        else arm_sub W (decode_SearchResult W) (\<lambda>v. m\<lparr>SearchResponse_results := SearchResponse_results m @ [v]\<rparr>) r)
      else Break)"

type_synonym SearchResponse_partial = "SearchResult_partial list option"

fun fromPartial_SearchResponse :: "SearchResponse_partial \<Rightarrow> SearchResponse" where
  "fromPartial_SearchResponse results' =
     \<lparr>SearchResponse_results = map fromPartial_SearchResult (nullish results' [])\<rparr>"

definition create_SearchResponse :: "SearchResponse_partial option \<Rightarrow> SearchResponse" where
  "create_SearchResponse base = fromPartial_SearchResponse (nullish base None)"

definition decode_SearchResponse :: "('w, 'r) wire \<Rightarrow> 'r \<Rightarrow> nat option \<Rightarrow> (SearchResponse \<times> 'r) comp" where
  "decode_SearchResponse W = decode_with W (switch_SearchResponse W) createBaseSearchResponse"

subsection \<open>\<^verbatim>\<open>GetRequest\<close>\<close>

record GetRequest =
  GetRequest_collection :: string
  GetRequest_id :: string

definition createBaseGetRequest :: GetRequest where
  "createBaseGetRequest =
     \<lparr>GetRequest_collection = [],
      GetRequest_id = []\<rparr>"

definition encode_GetRequest :: "('w, 'r) wire \<Rightarrow> GetRequest \<Rightarrow> 'w writes" where
  "encode_GetRequest W m =
     w_seq
      [w_if (GetRequest_collection m \<noteq> []) (w_field W 10 (w_string W (GetRequest_collection m))),
       w_if (GetRequest_id m \<noteq> []) (w_field W 18 (w_string W (GetRequest_id m)))]"

definition switch_GetRequest :: "('w, 'r) wire \<Rightarrow> ('r, GetRequest) switch" where
  "switch_GetRequest W tag m r =
     (if drop_bit 3 tag = 1 then
       (if tag \<noteq> 10 then Break
        else arm_read (r_string W) (\<lambda>v. m\<lparr>GetRequest_collection := v\<rparr>) r)
      else if drop_bit 3 tag = 2 then
       (if tag \<noteq> 18 then Break
        else arm_read (r_string W) (\<lambda>v. m\<lparr>GetRequest_id := v\<rparr>) r)
      else Break)"

type_synonym GetRequest_partial = "(string option) \<times> (string option)"

fun fromPartial_GetRequest :: "GetRequest_partial \<Rightarrow> GetRequest" where
  "fromPartial_GetRequest (collection', id') =
     \<lparr>GetRequest_collection = nullish collection' [],
      GetRequest_id = nullish id' []\<rparr>"

definition create_GetRequest :: "GetRequest_partial option \<Rightarrow> GetRequest" where
  "create_GetRequest base = fromPartial_GetRequest (nullish base (None, None))"

definition decode_GetRequest :: "('w, 'r) wire \<Rightarrow> 'r \<Rightarrow> nat option \<Rightarrow> (GetRequest \<times> 'r) comp" where
  "decode_GetRequest W = decode_with W (switch_GetRequest W) createBaseGetRequest"

subsection \<open>\<^verbatim>\<open>GetResponse\<close>\<close>

record GetResponse =
  GetResponse_point :: "Point option"

definition createBaseGetResponse :: GetResponse where
  "createBaseGetResponse =
     \<lparr>GetResponse_point = None\<rparr>"

definition encode_GetResponse :: "('w, 'r) wire \<Rightarrow> GetResponse \<Rightarrow> 'w writes" where
  "encode_GetResponse W m =
     w_seq
      [(case GetResponse_point m of None \<Rightarrow> w_seq [] | Some v \<Rightarrow> w_nested W 10 (encode_Point W v))]"

definition switch_GetResponse :: "('w, 'r) wire \<Rightarrow> ('r, GetResponse) switch" where
  "switch_GetResponse W tag m r =
     (if drop_bit 3 tag = 1 then
       (if tag \<noteq> 10 then Break
        else arm_sub W (decode_Point W) (\<lambda>v. m\<lparr>GetResponse_point := Some v\<rparr>) r)
      else Break)"

type_synonym GetResponse_partial = "Point_partial option"

fun fromPartial_GetResponse :: "GetResponse_partial \<Rightarrow> GetResponse" where
  "fromPartial_GetResponse point' =
     \<lparr>GetResponse_point = map_option fromPartial_Point point'\<rparr>"

definition create_GetResponse :: "GetResponse_partial option \<Rightarrow> GetResponse" where
  "create_GetResponse base = fromPartial_GetResponse (nullish base None)"

definition decode_GetResponse :: "('w, 'r) wire \<Rightarrow> 'r \<Rightarrow> nat option \<Rightarrow> (GetResponse \<times> 'r) comp" where
  "decode_GetResponse W = decode_with W (switch_GetResponse W) createBaseGetResponse"

subsection \<open>\<^verbatim>\<open>DeleteRequest\<close>\<close>

record DeleteRequest =
  DeleteRequest_collection :: string
  DeleteRequest_id :: string

definition createBaseDeleteRequest :: DeleteRequest where
  "createBaseDeleteRequest =
     \<lparr>DeleteRequest_collection = [],
      DeleteRequest_id = []\<rparr>"

definition encode_DeleteRequest :: "('w, 'r) wire \<Rightarrow> DeleteRequest \<Rightarrow> 'w writes" where
  "encode_DeleteRequest W m =
     w_seq
      [w_if (DeleteRequest_collection m \<noteq> []) (w_field W 10 (w_string W (DeleteRequest_collection m))),
       w_if (DeleteRequest_id m \<noteq> []) (w_field W 18 (w_string W (DeleteRequest_id m)))]"

definition switch_DeleteRequest :: "('w, 'r) wire \<Rightarrow> ('r, DeleteRequest) switch" where
  "switch_DeleteRequest W tag m r =
     (if drop_bit 3 tag = 1 then
       (if tag \<noteq> 10 then Break
        else arm_read (r_string W) (\<lambda>v. m\<lparr>DeleteRequest_collection := v\<rparr>) r)
      else if drop_bit 3 tag = 2 then
       (if tag \<noteq> 18 then Break
        else arm_read (r_string W) (\<lambda>v. m\<lparr>DeleteRequest_id := v\<rparr>) r)
      else Break)"

type_synonym DeleteRequest_partial = "(string option) \<times> (string option)"

fun fromPartial_DeleteRequest :: "DeleteRequest_partial \<Rightarrow> DeleteRequest" where
  "fromPartial_DeleteRequest (collection', id') =
     \<lparr>DeleteRequest_collection = nullish collection' [],
      DeleteRequest_id = nullish id' []\<rparr>"

definition create_DeleteRequest :: "DeleteRequest_partial option \<Rightarrow> DeleteRequest" where
  "create_DeleteRequest base = fromPartial_DeleteRequest (nullish base (None, None))"

definition decode_DeleteRequest :: "('w, 'r) wire \<Rightarrow> 'r \<Rightarrow> nat option \<Rightarrow> (DeleteRequest \<times> 'r) comp" where
  "decode_DeleteRequest W = decode_with W (switch_DeleteRequest W) createBaseDeleteRequest"

subsection \<open>\<^verbatim>\<open>DeleteResponse\<close>\<close>

datatype DeleteResponse = DeleteResponse

definition createBaseDeleteResponse :: DeleteResponse where
  "createBaseDeleteResponse = DeleteResponse"

definition encode_DeleteResponse :: "('w, 'r) wire \<Rightarrow> DeleteResponse \<Rightarrow> 'w writes" where
  "encode_DeleteResponse W m = w_seq []"

definition switch_DeleteResponse :: "('w, 'r) wire \<Rightarrow> ('r, DeleteResponse) switch" where
  "switch_DeleteResponse W tag m r = Break"

definition fromPartial_DeleteResponse :: "unit \<Rightarrow> DeleteResponse" where
  "fromPartial_DeleteResponse u = createBaseDeleteResponse"

definition create_DeleteResponse :: "unit option \<Rightarrow> DeleteResponse" where
  "create_DeleteResponse base = fromPartial_DeleteResponse (nullish base ())"

definition decode_DeleteResponse :: "('w, 'r) wire \<Rightarrow> 'r \<Rightarrow> nat option \<Rightarrow> (DeleteResponse \<times> 'r) comp" where
  "decode_DeleteResponse W = decode_with W (switch_DeleteResponse W) createBaseDeleteResponse"

subsection \<open>\<^verbatim>\<open>ListCollectionsRequest\<close>\<close>

datatype ListCollectionsRequest = ListCollectionsRequest

definition createBaseListCollectionsRequest :: ListCollectionsRequest where
  "createBaseListCollectionsRequest = ListCollectionsRequest"

definition encode_ListCollectionsRequest :: "('w, 'r) wire \<Rightarrow> ListCollectionsRequest \<Rightarrow> 'w writes" where
  "encode_ListCollectionsRequest W m = w_seq []"

definition switch_ListCollectionsRequest :: "('w, 'r) wire \<Rightarrow> ('r, ListCollectionsRequest) switch" where
  "switch_ListCollectionsRequest W tag m r = Break"

definition fromPartial_ListCollectionsRequest :: "unit \<Rightarrow> ListCollectionsRequest" where
  "fromPartial_ListCollectionsRequest u = createBaseListCollectionsRequest"

definition create_ListCollectionsRequest :: "unit option \<Rightarrow> ListCollectionsRequest" where
  "create_ListCollectionsRequest base = fromPartial_ListCollectionsRequest (nullish base ())"

definition decode_ListCollectionsRequest :: "('w, 'r) wire \<Rightarrow> 'r \<Rightarrow> nat option \<Rightarrow> (ListCollectionsRequest \<times> 'r) comp" where
  "decode_ListCollectionsRequest W = decode_with W (switch_ListCollectionsRequest W) createBaseListCollectionsRequest"

subsection \<open>\<^verbatim>\<open>ListCollectionsResponse\<close>\<close>

record ListCollectionsResponse =
  ListCollectionsResponse_collections :: "string list"

definition createBaseListCollectionsResponse :: ListCollectionsResponse where
  "createBaseListCollectionsResponse =
     \<lparr>ListCollectionsResponse_collections = []\<rparr>"

definition encode_ListCollectionsResponse :: "('w, 'r) wire \<Rightarrow> ListCollectionsResponse \<Rightarrow> 'w writes" where
  "encode_ListCollectionsResponse W m =
     w_seq
      [w_seq (map (\<lambda>v. w_field W 10 (w_string W v)) (ListCollectionsResponse_collections m))]"

definition switch_ListCollectionsResponse :: "('w, 'r) wire \<Rightarrow> ('r, ListCollectionsResponse) switch" where
  "switch_ListCollectionsResponse W tag m r =
     (if drop_bit 3 tag = 1 then
       (if tag \<noteq> 10 then Break
        else arm_read (r_string W) (\<lambda>v. m\<lparr>ListCollectionsResponse_collections := ListCollectionsResponse_collections m @ [v]\<rparr>) r)
      else Break)"

type_synonym ListCollectionsResponse_partial = "string list option"

fun fromPartial_ListCollectionsResponse :: "ListCollectionsResponse_partial \<Rightarrow> ListCollectionsResponse" where
  "fromPartial_ListCollectionsResponse collections' =
     \<lparr>ListCollectionsResponse_collections = nullish collections' []\<rparr>"

definition create_ListCollectionsResponse :: "ListCollectionsResponse_partial option \<Rightarrow> ListCollectionsResponse" where
  "create_ListCollectionsResponse base = fromPartial_ListCollectionsResponse (nullish base None)"

definition decode_ListCollectionsResponse :: "('w, 'r) wire \<Rightarrow> 'r \<Rightarrow> nat option \<Rightarrow> (ListCollectionsResponse \<times> 'r) comp" where
  "decode_ListCollectionsResponse W = decode_with W (switch_ListCollectionsResponse W) createBaseListCollectionsResponse"

subsection \<open>\<^verbatim>\<open>GetCollectionStatusRequest\<close>\<close>

record GetCollectionStatusRequest =
  GetCollectionStatusRequest_name :: string

definition createBaseGetCollectionStatusRequest :: GetCollectionStatusRequest where
  "createBaseGetCollectionStatusRequest =
     \<lparr>GetCollectionStatusRequest_name = []\<rparr>"

definition encode_GetCollectionStatusRequest :: "('w, 'r) wire \<Rightarrow> GetCollectionStatusRequest \<Rightarrow> 'w writes" where
  "encode_GetCollectionStatusRequest W m =
     w_seq
      [w_if (GetCollectionStatusRequest_name m \<noteq> []) (w_field W 10 (w_string W (GetCollectionStatusRequest_name m)))]"

definition switch_GetCollectionStatusRequest :: "('w, 'r) wire \<Rightarrow> ('r, GetCollectionStatusRequest) switch" where
  "switch_GetCollectionStatusRequest W tag m r =
     (if drop_bit 3 tag = 1 then
       (if tag \<noteq> 10 then Break
        else arm_read (r_string W) (\<lambda>v. m\<lparr>GetCollectionStatusRequest_name := v\<rparr>) r)
      else Break)"

type_synonym GetCollectionStatusRequest_partial = "string option"

fun fromPartial_GetCollectionStatusRequest :: "GetCollectionStatusRequest_partial \<Rightarrow> GetCollectionStatusRequest" where
  "fromPartial_GetCollectionStatusRequest name' =
     \<lparr>GetCollectionStatusRequest_name = nullish name' []\<rparr>"

definition create_GetCollectionStatusRequest :: "GetCollectionStatusRequest_partial option \<Rightarrow> GetCollectionStatusRequest" where
  "create_GetCollectionStatusRequest base = fromPartial_GetCollectionStatusRequest (nullish base None)"

definition decode_GetCollectionStatusRequest :: "('w, 'r) wire \<Rightarrow> 'r \<Rightarrow> nat option \<Rightarrow> (GetCollectionStatusRequest \<times> 'r) comp" where
  "decode_GetCollectionStatusRequest W = decode_with W (switch_GetCollectionStatusRequest W) createBaseGetCollectionStatusRequest"

subsection \<open>\<^verbatim>\<open>ShardStatus\<close>\<close>

record ShardStatus =
  ShardStatus_shardId :: js_num
  ShardStatus_replicas :: "string list"
  ShardStatus_leaderId :: string
  ShardStatus_ready :: bool

definition createBaseShardStatus :: ShardStatus where
  "createBaseShardStatus =
     \<lparr>ShardStatus_shardId = Fin 0,
      ShardStatus_replicas = [],
      ShardStatus_leaderId = ''0'',
      ShardStatus_ready = False\<rparr>"

definition encode_ShardStatus :: "('w, 'r) wire \<Rightarrow> ShardStatus \<Rightarrow> 'w writes" where
  "encode_ShardStatus W m =
     w_seq
      [w_if (\<not> js_eq (ShardStatus_shardId m) (Fin 0)) (w_field W 8 (w_uint32 W (ShardStatus_shardId m))),
       w_nested W 18 (w_seq (map (w_uint64 W) (ShardStatus_replicas m))),
       w_if (ShardStatus_leaderId m \<noteq> ''0'') (w_field W 24 (w_uint64 W (ShardStatus_leaderId m))),
       w_if (ShardStatus_ready m) (w_field W 32 (w_bool W (ShardStatus_ready m)))]"

definition switch_ShardStatus :: "('w, 'r) wire \<Rightarrow> ('r, ShardStatus) switch" where
  "switch_ShardStatus W tag m r =
     (if drop_bit 3 tag = 1 then
       (if tag \<noteq> 8 then Break
        else arm_read (r_uint32 W) (\<lambda>v. m\<lparr>ShardStatus_shardId := num_of_nat (unat v)\<rparr>) r)
      else if drop_bit 3 tag = 2 then
       (if tag = 16 then arm_read (r_uint64 W) (\<lambda>v. m\<lparr>ShardStatus_replicas := ShardStatus_replicas m @ [show_nat (unat v)]\<rparr>) r
        else if tag = 18 then arm_packed W (r_uint64 W) (\<lambda>vs. m\<lparr>ShardStatus_replicas := ShardStatus_replicas m @ map (\<lambda>v. show_nat (unat v)) vs\<rparr>) r
        else Break)
      else if drop_bit 3 tag = 3 then
       (if tag \<noteq> 24 then Break
        else arm_read (r_uint64 W) (\<lambda>v. m\<lparr>ShardStatus_leaderId := show_nat (unat v)\<rparr>) r)
      else if drop_bit 3 tag = 4 then
       (if tag \<noteq> 32 then Break
        else arm_read (r_bool W) (\<lambda>v. m\<lparr>ShardStatus_ready := v\<rparr>) r)
      else Break)"

type_synonym ShardStatus_partial = "(js_num option) \<times> (string list option) \<times> (string option) \<times> (bool option)"

fun fromPartial_ShardStatus :: "ShardStatus_partial \<Rightarrow> ShardStatus" where
  "fromPartial_ShardStatus (shardId', replicas', leaderId', ready') =
     \<lparr>ShardStatus_shardId = nullish shardId' (Fin 0),
      ShardStatus_replicas = nullish replicas' [],
      ShardStatus_leaderId = nullish leaderId' ''0'',
      ShardStatus_ready = nullish ready' False\<rparr>"

definition create_ShardStatus :: "ShardStatus_partial option \<Rightarrow> ShardStatus" where
  "create_ShardStatus base = fromPartial_ShardStatus (nullish base (None, None, None, None))"

definition decode_ShardStatus :: "('w, 'r) wire \<Rightarrow> 'r \<Rightarrow> nat option \<Rightarrow> (ShardStatus \<times> 'r) comp" where
  "decode_ShardStatus W = decode_with W (switch_ShardStatus W) createBaseShardStatus"

subsection \<open>\<^verbatim>\<open>GetCollectionStatusResponse\<close>\<close>

record GetCollectionStatusResponse =
  GetCollectionStatusResponse_name :: string
  GetCollectionStatusResponse_dimension :: js_num
  GetCollectionStatusResponse_distance :: string
  GetCollectionStatusResponse_shards :: "ShardStatus list"

definition createBaseGetCollectionStatusResponse :: GetCollectionStatusResponse where
  "createBaseGetCollectionStatusResponse =
     \<lparr>GetCollectionStatusResponse_name = [],
      GetCollectionStatusResponse_dimension = Fin 0,
      GetCollectionStatusResponse_distance = [],
      GetCollectionStatusResponse_shards = []\<rparr>"

definition encode_GetCollectionStatusResponse :: "('w, 'r) wire \<Rightarrow> GetCollectionStatusResponse \<Rightarrow> 'w writes" where
  "encode_GetCollectionStatusResponse W m =
     w_seq
      [w_if (GetCollectionStatusResponse_name m \<noteq> []) (w_field W 10 (w_string W (GetCollectionStatusResponse_name m))),
       w_if (\<not> js_eq (GetCollectionStatusResponse_dimension m) (Fin 0)) (w_field W 16 (w_int32 W (GetCollectionStatusResponse_dimension m))),
       w_if (GetCollectionStatusResponse_distance m \<noteq> []) (w_field W 26 (w_string W (GetCollectionStatusResponse_distance m))),
       w_seq (map (\<lambda>v. w_nested W 34 (encode_ShardStatus W v)) (GetCollectionStatusResponse_shards m))]"

definition switch_GetCollectionStatusResponse :: "('w, 'r) wire \<Rightarrow> ('r, GetCollectionStatusResponse) switch" where
  "switch_GetCollectionStatusResponse W tag m r =
     (if drop_bit 3 tag = 1 then
       (if tag \<noteq> 10 then Break
        else arm_read (r_string W) (\<lambda>v. m\<lparr>GetCollectionStatusResponse_name := v\<rparr>) r)
      else if drop_bit 3 tag = 2 then
       (if tag \<noteq> 16 then Break
        else arm_read (r_int32 W) (\<lambda>v. m\<lparr>GetCollectionStatusResponse_dimension := num_of_int (sint v)\<rparr>) r)
      else if drop_bit 3 tag = 3 then
       (if tag \<noteq> 26 then Break
        else arm_read (r_string W) (\<lambda>v. m\<lparr>GetCollectionStatusResponse_distance := v\<rparr>) r)
      else if drop_bit 3 tag = 4 then
       (if tag \<noteq> 34 then Break
        else arm_sub W (decode_ShardStatus W) (\<lambda>v. m\<lparr>GetCollectionStatusResponse_shards := GetCollectionStatusResponse_shards m @ [v]\<rparr>) r)
      else Break)"

type_synonym GetCollectionStatusResponse_partial = "(string option) \<times> (js_num option) \<times> (string option) \<times> (ShardStatus_partial list option)"

fun fromPartial_GetCollectionStatusResponse :: "GetCollectionStatusResponse_partial \<Rightarrow> GetCollectionStatusResponse" where
  "fromPartial_GetCollectionStatusResponse (name', dimension', distance', shards') =
     \<lparr>GetCollectionStatusResponse_name = nullish name' [],
      GetCollectionStatusResponse_dimension = nullish dimension' (Fin 0),
      GetCollectionStatusResponse_distance = nullish distance' [],
      GetCollectionStatusResponse_shards = map fromPartial_ShardStatus (nullish shards' [])\<rparr>"

definition create_GetCollectionStatusResponse :: "GetCollectionStatusResponse_partial option \<Rightarrow> GetCollectionStatusResponse" where
  "create_GetCollectionStatusResponse base = fromPartial_GetCollectionStatusResponse (nullish base (None, None, None, None))"

definition decode_GetCollectionStatusResponse :: "('w, 'r) wire \<Rightarrow> 'r \<Rightarrow> nat option \<Rightarrow> (GetCollectionStatusResponse \<times> 'r) comp" where
  "decode_GetCollectionStatusResponse W = decode_with W (switch_GetCollectionStatusResponse W) createBaseGetCollectionStatusResponse"

subsection \<open>\<^verbatim>\<open>UpdateUserProfileRequest\<close>\<close>

record UpdateUserProfileRequest =
  UpdateUserProfileRequest_plan :: js_num

definition createBaseUpdateUserProfileRequest :: UpdateUserProfileRequest where
  "createBaseUpdateUserProfileRequest =
     \<lparr>UpdateUserProfileRequest_plan = Fin 0\<rparr>"

definition encode_UpdateUserProfileRequest :: "('w, 'r) wire \<Rightarrow> UpdateUserProfileRequest \<Rightarrow> 'w writes" where
  "encode_UpdateUserProfileRequest W m =
     w_seq
      [w_if (\<not> js_eq (UpdateUserProfileRequest_plan m) (Fin 0)) (w_field W 8 (w_int32 W (UpdateUserProfileRequest_plan m)))]"

definition switch_UpdateUserProfileRequest :: "('w, 'r) wire \<Rightarrow> ('r, UpdateUserProfileRequest) switch" where
  "switch_UpdateUserProfileRequest W tag m r =
     (if drop_bit 3 tag = 1 then
       (if tag \<noteq> 8 then Break
        else arm_read (r_int32 W) (\<lambda>v. m\<lparr>UpdateUserProfileRequest_plan := num_of_int (sint v)\<rparr>) r)
      else Break)"

type_synonym UpdateUserProfileRequest_partial = "js_num option"

fun fromPartial_UpdateUserProfileRequest :: "UpdateUserProfileRequest_partial \<Rightarrow> UpdateUserProfileRequest" where
  "fromPartial_UpdateUserProfileRequest plan' =
     \<lparr>UpdateUserProfileRequest_plan = nullish plan' (Fin 0)\<rparr>"

definition create_UpdateUserProfileRequest :: "UpdateUserProfileRequest_partial option \<Rightarrow> UpdateUserProfileRequest" where
  "create_UpdateUserProfileRequest base = fromPartial_UpdateUserProfileRequest (nullish base None)"

definition decode_UpdateUserProfileRequest :: "('w, 'r) wire \<Rightarrow> 'r \<Rightarrow> nat option \<Rightarrow> (UpdateUserProfileRequest \<times> 'r) comp" where
  "decode_UpdateUserProfileRequest W = decode_with W (switch_UpdateUserProfileRequest W) createBaseUpdateUserProfileRequest"

subsection \<open>\<^verbatim>\<open>UpdateUserProfileResponse\<close>\<close>

record UpdateUserProfileResponse =
  UpdateUserProfileResponse_user :: "UserProfile option"

definition createBaseUpdateUserProfileResponse :: UpdateUserProfileResponse where
  "createBaseUpdateUserProfileResponse =
     \<lparr>UpdateUserProfileResponse_user = None\<rparr>"

definition encode_UpdateUserProfileResponse :: "('w, 'r) wire \<Rightarrow> UpdateUserProfileResponse \<Rightarrow> 'w writes" where
  "encode_UpdateUserProfileResponse W m =
     w_seq
      [(case UpdateUserProfileResponse_user m of None \<Rightarrow> w_seq [] | Some v \<Rightarrow> w_nested W 10 (encode_UserProfile W v))]"

definition switch_UpdateUserProfileResponse :: "('w, 'r) wire \<Rightarrow> ('r, UpdateUserProfileResponse) switch" where
  "switch_UpdateUserProfileResponse W tag m r =
     (if drop_bit 3 tag = 1 then
       (if tag \<noteq> 10 then Break
        else arm_sub W (decode_UserProfile W) (\<lambda>v. m\<lparr>UpdateUserProfileResponse_user := Some v\<rparr>) r)
      else Break)"

type_synonym UpdateUserProfileResponse_partial = "UserProfile_partial option"

fun fromPartial_UpdateUserProfileResponse :: "UpdateUserProfileResponse_partial \<Rightarrow> UpdateUserProfileResponse" where
  "fromPartial_UpdateUserProfileResponse user' =
     \<lparr>UpdateUserProfileResponse_user = map_option fromPartial_UserProfile user'\<rparr>"

definition create_UpdateUserProfileResponse :: "UpdateUserProfileResponse_partial option \<Rightarrow> UpdateUserProfileResponse" where
  "create_UpdateUserProfileResponse base = fromPartial_UpdateUserProfileResponse (nullish base None)"

definition decode_UpdateUserProfileResponse :: "('w, 'r) wire \<Rightarrow> 'r \<Rightarrow> nat option \<Rightarrow> (UpdateUserProfileResponse \<times> 'r) comp" where
  "decode_UpdateUserProfileResponse W = decode_with W (switch_UpdateUserProfileResponse W) createBaseUpdateUserProfileResponse"

subsection \<open>\<^verbatim>\<open>FeedbackItem\<close>\<close>

record FeedbackItem =
  FeedbackItem_resultId :: string
  FeedbackItem_relevanceScore :: js_num
  FeedbackItem_clicked :: bool
  FeedbackItem_position :: js_num
  FeedbackItem_comment :: string

definition createBaseFeedbackItem :: FeedbackItem where
  "createBaseFeedbackItem =
     \<lparr>FeedbackItem_resultId = [],
      FeedbackItem_relevanceScore = Fin 0,
      FeedbackItem_clicked = False,
      FeedbackItem_position = Fin 0,
      FeedbackItem_comment = []\<rparr>"

definition encode_FeedbackItem :: "('w, 'r) wire \<Rightarrow> FeedbackItem \<Rightarrow> 'w writes" where
  "encode_FeedbackItem W m =
     w_seq
      [w_if (FeedbackItem_resultId m \<noteq> []) (w_field W 10 (w_string W (FeedbackItem_resultId m))),
       w_if (\<not> js_eq (FeedbackItem_relevanceScore m) (Fin 0)) (w_field W 16 (w_int32 W (FeedbackItem_relevanceScore m))),
       w_if (FeedbackItem_clicked m) (w_field W 24 (w_bool W (FeedbackItem_clicked m))),
       w_if (\<not> js_eq (FeedbackItem_position m) (Fin 0)) (w_field W 32 (w_int32 W (FeedbackItem_position m))),
       w_if (FeedbackItem_comment m \<noteq> []) (w_field W 42 (w_string W (FeedbackItem_comment m)))]"

definition switch_FeedbackItem :: "('w, 'r) wire \<Rightarrow> ('r, FeedbackItem) switch" where
  "switch_FeedbackItem W tag m r =
     (if drop_bit 3 tag = 1 then
       (if tag \<noteq> 10 then Break
        else arm_read (r_string W) (\<lambda>v. m\<lparr>FeedbackItem_resultId := v\<rparr>) r)
      else if drop_bit 3 tag = 2 then
       (if tag \<noteq> 16 then Break
        else arm_read (r_int32 W) (\<lambda>v. m\<lparr>FeedbackItem_relevanceScore := num_of_int (sint v)\<rparr>) r)
      else if drop_bit 3 tag = 3 then
       (if tag \<noteq> 24 then Break
        else arm_read (r_bool W) (\<lambda>v. m\<lparr>FeedbackItem_clicked := v\<rparr>) r)
      else if drop_bit 3 tag = 4 then
       (if tag \<noteq> 32 then Break
        else arm_read (r_int32 W) (\<lambda>v. m\<lparr>FeedbackItem_position := num_of_int (sint v)\<rparr>) r)
      else if drop_bit 3 tag = 5 then
       (if tag \<noteq> 42 then Break
        else arm_read (r_string W) (\<lambda>v. m\<lparr>FeedbackItem_comment := v\<rparr>) r)
      else Break)"

type_synonym FeedbackItem_partial = "(string option) \<times> (js_num option) \<times> (bool option) \<times> (js_num option) \<times> (string option)"

fun fromPartial_FeedbackItem :: "FeedbackItem_partial \<Rightarrow> FeedbackItem" where
  "fromPartial_FeedbackItem (resultId', relevanceScore', clicked', position', comment') =
     \<lparr>FeedbackItem_resultId = nullish resultId' [],
      FeedbackItem_relevanceScore = nullish relevanceScore' (Fin 0),
      FeedbackItem_clicked = nullish clicked' False,
      FeedbackItem_position = nullish position' (Fin 0),
      FeedbackItem_comment = nullish comment' []\<rparr>"

definition create_FeedbackItem :: "FeedbackItem_partial option \<Rightarrow> FeedbackItem" where
  "create_FeedbackItem base = fromPartial_FeedbackItem (nullish base (None, None, None, None, None))"

definition decode_FeedbackItem :: "('w, 'r) wire \<Rightarrow> 'r \<Rightarrow> nat option \<Rightarrow> (FeedbackItem \<times> 'r) comp" where
  "decode_FeedbackItem W = decode_with W (switch_FeedbackItem W) createBaseFeedbackItem"

subsection \<open>\<^verbatim>\<open>SubmitFeedbackRequest_ContextEntry\<close>\<close>

record SubmitFeedbackRequest_ContextEntry =
  SubmitFeedbackRequest_ContextEntry_key :: string
  SubmitFeedbackRequest_ContextEntry_value :: string

definition createBaseSubmitFeedbackRequest_ContextEntry :: SubmitFeedbackRequest_ContextEntry where
  "createBaseSubmitFeedbackRequest_ContextEntry =
     \<lparr>SubmitFeedbackRequest_ContextEntry_key = [],
      SubmitFeedbackRequest_ContextEntry_value = []\<rparr>"

definition encode_SubmitFeedbackRequest_ContextEntry :: "('w, 'r) wire \<Rightarrow> SubmitFeedbackRequest_ContextEntry \<Rightarrow> 'w writes" where
  "encode_SubmitFeedbackRequest_ContextEntry W m =
     w_seq
      [w_if (SubmitFeedbackRequest_ContextEntry_key m \<noteq> []) (w_field W 10 (w_string W (SubmitFeedbackRequest_ContextEntry_key m))),
       w_if (SubmitFeedbackRequest_ContextEntry_value m \<noteq> []) (w_field W 18 (w_string W (SubmitFeedbackRequest_ContextEntry_value m)))]"

definition switch_SubmitFeedbackRequest_ContextEntry :: "('w, 'r) wire \<Rightarrow> ('r, SubmitFeedbackRequest_ContextEntry) switch" where
  "switch_SubmitFeedbackRequest_ContextEntry W tag m r =
     (if drop_bit 3 tag = 1 then
       (if tag \<noteq> 10 then Break
        else arm_read (r_string W) (\<lambda>v. m\<lparr>SubmitFeedbackRequest_ContextEntry_key := v\<rparr>) r)
      else if drop_bit 3 tag = 2 then
       (if tag \<noteq> 18 then Break
        else arm_read (r_string W) (\<lambda>v. m\<lparr>SubmitFeedbackRequest_ContextEntry_value := v\<rparr>) r)
      else Break)"

type_synonym SubmitFeedbackRequest_ContextEntry_partial = "(string option) \<times> (string option)"

fun fromPartial_SubmitFeedbackRequest_ContextEntry :: "SubmitFeedbackRequest_ContextEntry_partial \<Rightarrow> SubmitFeedbackRequest_ContextEntry" where
  "fromPartial_SubmitFeedbackRequest_ContextEntry (key', value') =
     \<lparr>SubmitFeedbackRequest_ContextEntry_key = nullish key' [],
      SubmitFeedbackRequest_ContextEntry_value = nullish value' []\<rparr>"

definition create_SubmitFeedbackRequest_ContextEntry :: "SubmitFeedbackRequest_ContextEntry_partial option \<Rightarrow> SubmitFeedbackRequest_ContextEntry" where
  "create_SubmitFeedbackRequest_ContextEntry base = fromPartial_SubmitFeedbackRequest_ContextEntry (nullish base (None, None))"

definition decode_SubmitFeedbackRequest_ContextEntry :: "('w, 'r) wire \<Rightarrow> 'r \<Rightarrow> nat option \<Rightarrow> (SubmitFeedbackRequest_ContextEntry \<times> 'r) comp" where
  "decode_SubmitFeedbackRequest_ContextEntry W = decode_with W (switch_SubmitFeedbackRequest_ContextEntry W) createBaseSubmitFeedbackRequest_ContextEntry"

subsection \<open>\<^verbatim>\<open>SubmitFeedbackRequest\<close>\<close>

record SubmitFeedbackRequest =
  SubmitFeedbackRequest_collection :: string
  SubmitFeedbackRequest_query :: string
  SubmitFeedbackRequest_resultIds :: "string list"
  SubmitFeedbackRequest_feedbackItems :: "FeedbackItem list"
  SubmitFeedbackRequest_context :: "string js_obj"

definition createBaseSubmitFeedbackRequest :: SubmitFeedbackRequest where
  "createBaseSubmitFeedbackRequest =
     \<lparr>SubmitFeedbackRequest_collection = [],
      SubmitFeedbackRequest_query = [],
      SubmitFeedbackRequest_resultIds = [],
      SubmitFeedbackRequest_feedbackItems = [],
      SubmitFeedbackRequest_context = []\<rparr>"

definition encode_SubmitFeedbackRequest :: "('w, 'r) wire \<Rightarrow> SubmitFeedbackRequest \<Rightarrow> 'w writes" where
  "encode_SubmitFeedbackRequest W m =
     w_seq
      [w_if (SubmitFeedbackRequest_collection m \<noteq> []) (w_field W 10 (w_string W (SubmitFeedbackRequest_collection m))),
       w_if (SubmitFeedbackRequest_query m \<noteq> []) (w_field W 18 (w_string W (SubmitFeedbackRequest_query m))),
       w_seq (map (\<lambda>v. w_field W 26 (w_string W v)) (SubmitFeedbackRequest_resultIds m)),
       w_seq (map (\<lambda>v. w_nested W 34 (encode_FeedbackItem W v)) (SubmitFeedbackRequest_feedbackItems m)),
       w_seq (map (\<lambda>(key, value). w_nested W 42
          (encode_SubmitFeedbackRequest_ContextEntry W \<lparr>SubmitFeedbackRequest_ContextEntry_key = key, SubmitFeedbackRequest_ContextEntry_value = value\<rparr>)) (SubmitFeedbackRequest_context m))]"

definition switch_SubmitFeedbackRequest :: "('w, 'r) wire \<Rightarrow> ('r, SubmitFeedbackRequest) switch" where
  "switch_SubmitFeedbackRequest W tag m r =
     (if drop_bit 3 tag = 1 then
       (if tag \<noteq> 10 then Break
        else arm_read (r_string W) (\<lambda>v. m\<lparr>SubmitFeedbackRequest_collection := v\<rparr>) r)
      else if drop_bit 3 tag = 2 then
       (if tag \<noteq> 18 then Break
        else arm_read (r_string W) (\<lambda>v. m\<lparr>SubmitFeedbackRequest_query := v\<rparr>) r)
      else if drop_bit 3 tag = 3 then
       (if tag \<noteq> 26 then Break
        else arm_read (r_string W) (\<lambda>v. m\<lparr>SubmitFeedbackRequest_resultIds := SubmitFeedbackRequest_resultIds m @ [v]\<rparr>) r)
      else if drop_bit 3 tag = 4 then
       (if tag \<noteq> 34 then Break
        else arm_sub W (decode_FeedbackItem W) (\<lambda>v. m\<lparr>SubmitFeedbackRequest_feedbackItems := SubmitFeedbackRequest_feedbackItems m @ [v]\<rparr>) r)
      else if drop_bit 3 tag = 5 then
       (if tag \<noteq> 42 then Break
        else arm_sub W (decode_SubmitFeedbackRequest_ContextEntry W)
          (\<lambda>e. m\<lparr>SubmitFeedbackRequest_context := js_set (SubmitFeedbackRequest_ContextEntry_key e) (SubmitFeedbackRequest_ContextEntry_value e) (SubmitFeedbackRequest_context m)\<rparr>) r)
      else Break)"

type_synonym SubmitFeedbackRequest_partial = "(string option) \<times> (string option) \<times> (string list option) \<times> (FeedbackItem_partial list option) \<times> (string option js_obj option)"

fun fromPartial_SubmitFeedbackRequest :: "SubmitFeedbackRequest_partial \<Rightarrow> SubmitFeedbackRequest" where
  "fromPartial_SubmitFeedbackRequest (collection', query', resultIds', feedbackItems', context') =
     \<lparr>SubmitFeedbackRequest_collection = nullish collection' [],
      SubmitFeedbackRequest_query = nullish query' [],
      SubmitFeedbackRequest_resultIds = nullish resultIds' [],
      SubmitFeedbackRequest_feedbackItems = map fromPartial_FeedbackItem (nullish feedbackItems' []),
      SubmitFeedbackRequest_context = js_copy (nullish context' [])\<rparr>"

definition create_SubmitFeedbackRequest :: "SubmitFeedbackRequest_partial option \<Rightarrow> SubmitFeedbackRequest" where
  "create_SubmitFeedbackRequest base = fromPartial_SubmitFeedbackRequest (nullish base (None, None, None, None, None))"

definition decode_SubmitFeedbackRequest :: "('w, 'r) wire \<Rightarrow> 'r \<Rightarrow> nat option \<Rightarrow> (SubmitFeedbackRequest \<times> 'r) comp" where
  "decode_SubmitFeedbackRequest W = decode_with W (switch_SubmitFeedbackRequest W) createBaseSubmitFeedbackRequest"

subsection \<open>\<^verbatim>\<open>SubmitFeedbackResponse\<close>\<close>

record SubmitFeedbackResponse =
  SubmitFeedbackResponse_success :: bool
  SubmitFeedbackResponse_feedbackId :: string

definition createBaseSubmitFeedbackResponse :: SubmitFeedbackResponse where
  "createBaseSubmitFeedbackResponse =
     \<lparr>SubmitFeedbackResponse_success = False,
      SubmitFeedbackResponse_feedbackId = []\<rparr>"

definition encode_SubmitFeedbackResponse :: "('w, 'r) wire \<Rightarrow> SubmitFeedbackResponse \<Rightarrow> 'w writes" where
  "encode_SubmitFeedbackResponse W m =
     w_seq
      [w_if (SubmitFeedbackResponse_success m) (w_field W 8 (w_bool W (SubmitFeedbackResponse_success m))),
       w_if (SubmitFeedbackResponse_feedbackId m \<noteq> []) (w_field W 18 (w_string W (SubmitFeedbackResponse_feedbackId m)))]"

definition switch_SubmitFeedbackResponse :: "('w, 'r) wire \<Rightarrow> ('r, SubmitFeedbackResponse) switch" where
  "switch_SubmitFeedbackResponse W tag m r =
     (if drop_bit 3 tag = 1 then
       (if tag \<noteq> 8 then Break
        else arm_read (r_bool W) (\<lambda>v. m\<lparr>SubmitFeedbackResponse_success := v\<rparr>) r)
      else if drop_bit 3 tag = 2 then
       (if tag \<noteq> 18 then Break
        else arm_read (r_string W) (\<lambda>v. m\<lparr>SubmitFeedbackResponse_feedbackId := v\<rparr>) r)
      else Break)"

type_synonym SubmitFeedbackResponse_partial = "(bool option) \<times> (string option)"

fun fromPartial_SubmitFeedbackResponse :: "SubmitFeedbackResponse_partial \<Rightarrow> SubmitFeedbackResponse" where
  "fromPartial_SubmitFeedbackResponse (success', feedbackId') =
     \<lparr>SubmitFeedbackResponse_success = nullish success' False,
      SubmitFeedbackResponse_feedbackId = nullish feedbackId' []\<rparr>"

definition create_SubmitFeedbackResponse :: "SubmitFeedbackResponse_partial option \<Rightarrow> SubmitFeedbackResponse" where
  "create_SubmitFeedbackResponse base = fromPartial_SubmitFeedbackResponse (nullish base (None, None))"

definition decode_SubmitFeedbackResponse :: "('w, 'r) wire \<Rightarrow> 'r \<Rightarrow> nat option \<Rightarrow> (SubmitFeedbackResponse \<times> 'r) comp" where
  "decode_SubmitFeedbackResponse W = decode_with W (switch_SubmitFeedbackResponse W) createBaseSubmitFeedbackResponse"

section \<open>The switches, arm by arm\<close>

lemma switch_CreateCollectionRequest_arms:
  "switch_CreateCollectionRequest W 10 m = arm_read (r_string W) (\<lambda>v. m\<lparr>CreateCollectionRequest_name := v\<rparr>)"
  "switch_CreateCollectionRequest W 16 m = arm_read (r_int32 W) (\<lambda>v. m\<lparr>CreateCollectionRequest_dimension := num_of_int (sint v)\<rparr>)"
  "switch_CreateCollectionRequest W 26 m = arm_read (r_string W) (\<lambda>v. m\<lparr>CreateCollectionRequest_distance := v\<rparr>)"
  by (simp_all add: switch_CreateCollectionRequest_def fun_eq_iff)

lemma switch_CreateCollectionResponse_arms:
  "switch_CreateCollectionResponse W 8 m = arm_read (r_bool W) (\<lambda>v. m\<lparr>CreateCollectionResponse_success := v\<rparr>)"
  by (simp_all add: switch_CreateCollectionResponse_def fun_eq_iff)

lemma switch_DeleteCollectionRequest_arms:
  "switch_DeleteCollectionRequest W 10 m = arm_read (r_string W) (\<lambda>v. m\<lparr>DeleteCollectionRequest_name := v\<rparr>)"
  by (simp_all add: switch_DeleteCollectionRequest_def fun_eq_iff)

lemma switch_DeleteCollectionResponse_arms:
  "switch_DeleteCollectionResponse W 8 m = arm_read (r_bool W) (\<lambda>v. m\<lparr>DeleteCollectionResponse_success := v\<rparr>)"
  by (simp_all add: switch_DeleteCollectionResponse_def fun_eq_iff)

lemma switch_Point_PayloadEntry_arms:
  "switch_Point_PayloadEntry W 10 m = arm_read (r_string W) (\<lambda>v. m\<lparr>Point_PayloadEntry_key := v\<rparr>)"
  "switch_Point_PayloadEntry W 18 m = arm_read (r_string W) (\<lambda>v. m\<lparr>Point_PayloadEntry_value := v\<rparr>)"
  by (simp_all add: switch_Point_PayloadEntry_def fun_eq_iff)

definition rounded_Point :: "(js_num \<Rightarrow> js_num) \<Rightarrow> Point \<Rightarrow> Point" where
  "rounded_Point fround m = m\<lparr>Point_vector := map fround (Point_vector m)\<rparr>"

definition wf_Point :: "Point \<Rightarrow> bool" where
  "wf_Point m \<longleftrightarrow> js_obj_ok (Point_payload m)"

lemma foldl_Point_payload:
  "foldl (\<lambda>y (k, v). y\<lparr>Point_payload := js_set k v (Point_payload y)\<rparr>) m es
     = m\<lparr>Point_payload := foldl (\<lambda>o' (k, v). js_set k v o') (Point_payload m) es\<rparr>"
  by (induction es arbitrary: m) (simp_all add: split_beta)

lemma switch_Point_arms:
  "switch_Point W 10 m = arm_read (r_string W) (\<lambda>v. m\<lparr>Point_id := v\<rparr>)"
  "switch_Point W 21 m = arm_read (r_float W) (\<lambda>v. m\<lparr>Point_vector := Point_vector m @ [v]\<rparr>)"
  "switch_Point W 18 m = arm_packed W (r_float W) (\<lambda>vs. m\<lparr>Point_vector := Point_vector m @ vs\<rparr>)"
  "switch_Point W 26 m = arm_sub W (decode_with W (switch_Point_PayloadEntry W) createBasePoint_PayloadEntry)
          (\<lambda>e. m\<lparr>Point_payload := js_set (Point_PayloadEntry_key e) (Point_PayloadEntry_value e) (Point_payload m)\<rparr>)"
  by (simp_all add: switch_Point_def fun_eq_iff decode_Point_PayloadEntry_def)

definition rounded_UpsertRequest :: "(js_num \<Rightarrow> js_num) \<Rightarrow> UpsertRequest \<Rightarrow> UpsertRequest" where
  "rounded_UpsertRequest fround m = m\<lparr>UpsertRequest_points := map (rounded_Point fround) (UpsertRequest_points m)\<rparr>"

definition wf_UpsertRequest :: "UpsertRequest \<Rightarrow> bool" where
  "wf_UpsertRequest m \<longleftrightarrow> (\<forall>v \<in> set (UpsertRequest_points m). wf_Point v)"

lemma foldl_UpsertRequest_points:
  "foldl (\<lambda>y v. y\<lparr>UpsertRequest_points := UpsertRequest_points y @ [h v]\<rparr>) m vs = m\<lparr>UpsertRequest_points := UpsertRequest_points m @ map h vs\<rparr>"
  by (induction vs arbitrary: m) simp_all

lemma switch_UpsertRequest_arms:
  "switch_UpsertRequest W 10 m = arm_read (r_string W) (\<lambda>v. m\<lparr>UpsertRequest_collection := v\<rparr>)"
  "switch_UpsertRequest W 18 m = arm_sub W (decode_with W (switch_Point W) createBasePoint) (\<lambda>v. m\<lparr>UpsertRequest_points := UpsertRequest_points m @ [v]\<rparr>)"
  by (simp_all add: switch_UpsertRequest_def fun_eq_iff decode_Point_def)

lemma switch_UpsertResponse_arms:
  "switch_UpsertResponse W 8 m = arm_read (r_int32 W) (\<lambda>v. m\<lparr>UpsertResponse_upserted := num_of_int (sint v)\<rparr>)"
  by (simp_all add: switch_UpsertResponse_def fun_eq_iff)

definition rounded_SearchRequest :: "(js_num \<Rightarrow> js_num) \<Rightarrow> SearchRequest \<Rightarrow> SearchRequest" where
  "rounded_SearchRequest fround m = m\<lparr>SearchRequest_vector := map fround (SearchRequest_vector m)\<rparr>"

lemma foldl_SearchRequest_vector:
  "foldl (\<lambda>y v. y\<lparr>SearchRequest_vector := SearchRequest_vector y @ [h v]\<rparr>) m vs = m\<lparr>SearchRequest_vector := SearchRequest_vector m @ map h vs\<rparr>"
  by (induction vs arbitrary: m) simp_all

lemma switch_SearchRequest_arms:
  "switch_SearchRequest W 10 m = arm_read (r_string W) (\<lambda>v. m\<lparr>SearchRequest_collection := v\<rparr>)"
  "switch_SearchRequest W 21 m = arm_read (r_float W) (\<lambda>v. m\<lparr>SearchRequest_vector := SearchRequest_vector m @ [v]\<rparr>)"
  "switch_SearchRequest W 18 m = arm_packed W (r_float W) (\<lambda>vs. m\<lparr>SearchRequest_vector := SearchRequest_vector m @ vs\<rparr>)"
  "switch_SearchRequest W 24 m = arm_read (r_uint32 W) (\<lambda>v. m\<lparr>SearchRequest_topK := num_of_nat (unat v)\<rparr>)"
  "switch_SearchRequest W 34 m = arm_read (r_string W) (\<lambda>v. m\<lparr>SearchRequest_query := v\<rparr>)"
  "switch_SearchRequest W 40 m = arm_read (r_uint32 W) (\<lambda>v. m\<lparr>SearchRequest_timeoutMs := num_of_nat (unat v)\<rparr>)"
  "switch_SearchRequest W 48 m = arm_read (r_bool W) (\<lambda>v. m\<lparr>SearchRequest_includeVectors := v\<rparr>)"
  "switch_SearchRequest W 56 m = arm_read (r_bool W) (\<lambda>v. m\<lparr>SearchRequest_includeMetadata := v\<rparr>)"
  by (simp_all add: switch_SearchRequest_def fun_eq_iff)

lemma switch_SearchResult_PayloadEntry_arms:
  "switch_SearchResult_PayloadEntry W 10 m = arm_read (r_string W) (\<lambda>v. m\<lparr>SearchResult_PayloadEntry_key := v\<rparr>)"
  "switch_SearchResult_PayloadEntry W 18 m = arm_read (r_string W) (\<lambda>v. m\<lparr>SearchResult_PayloadEntry_value := v\<rparr>)"
  by (simp_all add: switch_SearchResult_PayloadEntry_def fun_eq_iff)

definition rounded_SearchResult :: "(js_num \<Rightarrow> js_num) \<Rightarrow> SearchResult \<Rightarrow> SearchResult" where
  "rounded_SearchResult fround m = m\<lparr>SearchResult_score := fround (SearchResult_score m), SearchResult_vector := map fround (SearchResult_vector m)\<rparr>"

definition wf_SearchResult :: "SearchResult \<Rightarrow> bool" where
  "wf_SearchResult m \<longleftrightarrow> js_obj_ok (SearchResult_payload m)"

lemma foldl_SearchResult_payload:
  "foldl (\<lambda>y (k, v). y\<lparr>SearchResult_payload := js_set k v (SearchResult_payload y)\<rparr>) m es
     = m\<lparr>SearchResult_payload := foldl (\<lambda>o' (k, v). js_set k v o') (SearchResult_payload m) es\<rparr>"
  by (induction es arbitrary: m) (simp_all add: split_beta)

lemma switch_SearchResult_arms:
  "switch_SearchResult W 10 m = arm_read (r_string W) (\<lambda>v. m\<lparr>SearchResult_id := v\<rparr>)"
  "switch_SearchResult W 21 m = arm_read (r_float W) (\<lambda>v. m\<lparr>SearchResult_score := v\<rparr>)"
  "switch_SearchResult W 26 m = arm_sub W (decode_with W (switch_SearchResult_PayloadEntry W) createBaseSearchResult_PayloadEntry)
          (\<lambda>e. m\<lparr>SearchResult_payload := js_set (SearchResult_PayloadEntry_key e) (SearchResult_PayloadEntry_value e) (SearchResult_payload m)\<rparr>)"
  "switch_SearchResult W 37 m = arm_read (r_float W) (\<lambda>v. m\<lparr>SearchResult_vector := SearchResult_vector m @ [v]\<rparr>)"
  "switch_SearchResult W 34 m = arm_packed W (r_float W) (\<lambda>vs. m\<lparr>SearchResult_vector := SearchResult_vector m @ vs\<rparr>)"
  by (simp_all add: switch_SearchResult_def fun_eq_iff decode_SearchResult_PayloadEntry_def)

definition rounded_SearchResponse :: "(js_num \<Rightarrow> js_num) \<Rightarrow> SearchResponse \<Rightarrow> SearchResponse" where
  "rounded_SearchResponse fround m = m\<lparr>SearchResponse_results := map (rounded_SearchResult fround) (SearchResponse_results m)\<rparr>"

definition wf_SearchResponse :: "SearchResponse \<Rightarrow> bool" where
  "wf_SearchResponse m \<longleftrightarrow> (\<forall>v \<in> set (SearchResponse_results m). wf_SearchResult v)"

lemma foldl_SearchResponse_results:
  "foldl (\<lambda>y v. y\<lparr>SearchResponse_results := SearchResponse_results y @ [h v]\<rparr>) m vs = m\<lparr>SearchResponse_results := SearchResponse_results m @ map h vs\<rparr>"
  by (induction vs arbitrary: m) simp_all

lemma switch_SearchResponse_arms:
  "switch_SearchResponse W 10 m = arm_sub W (decode_with W (switch_SearchResult W) createBaseSearchResult) (\<lambda>v. m\<lparr>SearchResponse_results := SearchResponse_results m @ [v]\<rparr>)"
  by (simp_all add: switch_SearchResponse_def fun_eq_iff decode_SearchResult_def)

lemma switch_GetRequest_arms:
  "switch_GetRequest W 10 m = arm_read (r_string W) (\<lambda>v. m\<lparr>GetRequest_collection := v\<rparr>)"
  "switch_GetRequest W 18 m = arm_read (r_string W) (\<lambda>v. m\<lparr>GetRequest_id := v\<rparr>)"
  by (simp_all add: switch_GetRequest_def fun_eq_iff)

definition rounded_GetResponse :: "(js_num \<Rightarrow> js_num) \<Rightarrow> GetResponse \<Rightarrow> GetResponse" where
  "rounded_GetResponse fround m = m\<lparr>GetResponse_point := map_option (rounded_Point fround) (GetResponse_point m)\<rparr>"

definition wf_GetResponse :: "GetResponse \<Rightarrow> bool" where
  "wf_GetResponse m \<longleftrightarrow> (\<forall>v \<in> set_option (GetResponse_point m). wf_Point v)"

lemma switch_GetResponse_arms:
  "switch_GetResponse W 10 m = arm_sub W (decode_with W (switch_Point W) createBasePoint) (\<lambda>v. m\<lparr>GetResponse_point := Some v\<rparr>)"
  by (simp_all add: switch_GetResponse_def fun_eq_iff decode_Point_def)

lemma switch_DeleteRequest_arms:
  "switch_DeleteRequest W 10 m = arm_read (r_string W) (\<lambda>v. m\<lparr>DeleteRequest_collection := v\<rparr>)"
  "switch_DeleteRequest W 18 m = arm_read (r_string W) (\<lambda>v. m\<lparr>DeleteRequest_id := v\<rparr>)"
  by (simp_all add: switch_DeleteRequest_def fun_eq_iff)

lemma foldl_ListCollectionsResponse_collections:
  "foldl (\<lambda>y v. y\<lparr>ListCollectionsResponse_collections := ListCollectionsResponse_collections y @ [h v]\<rparr>) m vs = m\<lparr>ListCollectionsResponse_collections := ListCollectionsResponse_collections m @ map h vs\<rparr>"
  by (induction vs arbitrary: m) simp_all

lemma switch_ListCollectionsResponse_arms:
  "switch_ListCollectionsResponse W 10 m = arm_read (r_string W) (\<lambda>v. m\<lparr>ListCollectionsResponse_collections := ListCollectionsResponse_collections m @ [v]\<rparr>)"
  by (simp_all add: switch_ListCollectionsResponse_def fun_eq_iff)

lemma switch_GetCollectionStatusRequest_arms:
  "switch_GetCollectionStatusRequest W 10 m = arm_read (r_string W) (\<lambda>v. m\<lparr>GetCollectionStatusRequest_name := v\<rparr>)"
  by (simp_all add: switch_GetCollectionStatusRequest_def fun_eq_iff)

definition wf_ShardStatus :: "ShardStatus \<Rightarrow> bool" where
  "wf_ShardStatus m \<longleftrightarrow> (\<forall>s \<in> set (ShardStatus_replicas m). uint64_string s) \<and> uint64_string (ShardStatus_leaderId m)"

lemma switch_ShardStatus_arms:
  "switch_ShardStatus W 8 m = arm_read (r_uint32 W) (\<lambda>v. m\<lparr>ShardStatus_shardId := num_of_nat (unat v)\<rparr>)"
  "switch_ShardStatus W 16 m = arm_read (r_uint64 W) (\<lambda>v. m\<lparr>ShardStatus_replicas := ShardStatus_replicas m @ [show_nat (unat v)]\<rparr>)"
  "switch_ShardStatus W 18 m = arm_packed W (r_uint64 W) (\<lambda>vs. m\<lparr>ShardStatus_replicas := ShardStatus_replicas m @ map (\<lambda>v. show_nat (unat v)) vs\<rparr>)"
  "switch_ShardStatus W 24 m = arm_read (r_uint64 W) (\<lambda>v. m\<lparr>ShardStatus_leaderId := show_nat (unat v)\<rparr>)"
  "switch_ShardStatus W 32 m = arm_read (r_bool W) (\<lambda>v. m\<lparr>ShardStatus_ready := v\<rparr>)"
  by (simp_all add: switch_ShardStatus_def fun_eq_iff)

definition wf_GetCollectionStatusResponse :: "GetCollectionStatusResponse \<Rightarrow> bool" where
  "wf_GetCollectionStatusResponse m \<longleftrightarrow> (\<forall>v \<in> set (GetCollectionStatusResponse_shards m). wf_ShardStatus v)"

lemma foldl_GetCollectionStatusResponse_shards:
  "foldl (\<lambda>y v. y\<lparr>GetCollectionStatusResponse_shards := GetCollectionStatusResponse_shards y @ [h v]\<rparr>) m vs = m\<lparr>GetCollectionStatusResponse_shards := GetCollectionStatusResponse_shards m @ map h vs\<rparr>"
  by (induction vs arbitrary: m) simp_all

lemma switch_GetCollectionStatusResponse_arms:
  "switch_GetCollectionStatusResponse W 10 m = arm_read (r_string W) (\<lambda>v. m\<lparr>GetCollectionStatusResponse_name := v\<rparr>)"
  "switch_GetCollectionStatusResponse W 16 m = arm_read (r_int32 W) (\<lambda>v. m\<lparr>GetCollectionStatusResponse_dimension := num_of_int (sint v)\<rparr>)"
  "switch_GetCollectionStatusResponse W 26 m = arm_read (r_string W) (\<lambda>v. m\<lparr>GetCollectionStatusResponse_distance := v\<rparr>)"
  "switch_GetCollectionStatusResponse W 34 m = arm_sub W (decode_with W (switch_ShardStatus W) createBaseShardStatus) (\<lambda>v. m\<lparr>GetCollectionStatusResponse_shards := GetCollectionStatusResponse_shards m @ [v]\<rparr>)"
  by (simp_all add: switch_GetCollectionStatusResponse_def fun_eq_iff decode_ShardStatus_def)

lemma switch_UpdateUserProfileRequest_arms:
  "switch_UpdateUserProfileRequest W 8 m = arm_read (r_int32 W) (\<lambda>v. m\<lparr>UpdateUserProfileRequest_plan := num_of_int (sint v)\<rparr>)"
  by (simp_all add: switch_UpdateUserProfileRequest_def fun_eq_iff)

definition wf_UpdateUserProfileResponse :: "UpdateUserProfileResponse \<Rightarrow> bool" where
  "wf_UpdateUserProfileResponse m \<longleftrightarrow> (\<forall>v \<in> set_option (UpdateUserProfileResponse_user m). wf_UserProfile v)"

lemma switch_UpdateUserProfileResponse_arms:
  "switch_UpdateUserProfileResponse W 10 m = arm_sub W (decode_with W (switch_UserProfile W) createBaseUserProfile) (\<lambda>v. m\<lparr>UpdateUserProfileResponse_user := Some v\<rparr>)"
  by (simp_all add: switch_UpdateUserProfileResponse_def fun_eq_iff decode_UserProfile_def)

lemma switch_FeedbackItem_arms:
  "switch_FeedbackItem W 10 m = arm_read (r_string W) (\<lambda>v. m\<lparr>FeedbackItem_resultId := v\<rparr>)"
  "switch_FeedbackItem W 16 m = arm_read (r_int32 W) (\<lambda>v. m\<lparr>FeedbackItem_relevanceScore := num_of_int (sint v)\<rparr>)"
  "switch_FeedbackItem W 24 m = arm_read (r_bool W) (\<lambda>v. m\<lparr>FeedbackItem_clicked := v\<rparr>)"
  "switch_FeedbackItem W 32 m = arm_read (r_int32 W) (\<lambda>v. m\<lparr>FeedbackItem_position := num_of_int (sint v)\<rparr>)"
  "switch_FeedbackItem W 42 m = arm_read (r_string W) (\<lambda>v. m\<lparr>FeedbackItem_comment := v\<rparr>)"
  by (simp_all add: switch_FeedbackItem_def fun_eq_iff)

lemma switch_SubmitFeedbackRequest_ContextEntry_arms:
  "switch_SubmitFeedbackRequest_ContextEntry W 10 m = arm_read (r_string W) (\<lambda>v. m\<lparr>SubmitFeedbackRequest_ContextEntry_key := v\<rparr>)"
  "switch_SubmitFeedbackRequest_ContextEntry W 18 m = arm_read (r_string W) (\<lambda>v. m\<lparr>SubmitFeedbackRequest_ContextEntry_value := v\<rparr>)"
  by (simp_all add: switch_SubmitFeedbackRequest_ContextEntry_def fun_eq_iff)

definition wf_SubmitFeedbackRequest :: "SubmitFeedbackRequest \<Rightarrow> bool" where
  "wf_SubmitFeedbackRequest m \<longleftrightarrow> js_obj_ok (SubmitFeedbackRequest_context m)"

lemma foldl_SubmitFeedbackRequest_resultIds:
  "foldl (\<lambda>y v. y\<lparr>SubmitFeedbackRequest_resultIds := SubmitFeedbackRequest_resultIds y @ [h v]\<rparr>) m vs = m\<lparr>SubmitFeedbackRequest_resultIds := SubmitFeedbackRequest_resultIds m @ map h vs\<rparr>"
  by (induction vs arbitrary: m) simp_all

lemma foldl_SubmitFeedbackRequest_feedbackItems:
  "foldl (\<lambda>y v. y\<lparr>SubmitFeedbackRequest_feedbackItems := SubmitFeedbackRequest_feedbackItems y @ [h v]\<rparr>) m vs = m\<lparr>SubmitFeedbackRequest_feedbackItems := SubmitFeedbackRequest_feedbackItems m @ map h vs\<rparr>"
  by (induction vs arbitrary: m) simp_all

lemma foldl_SubmitFeedbackRequest_context:
  "foldl (\<lambda>y (k, v). y\<lparr>SubmitFeedbackRequest_context := js_set k v (SubmitFeedbackRequest_context y)\<rparr>) m es
     = m\<lparr>SubmitFeedbackRequest_context := foldl (\<lambda>o' (k, v). js_set k v o') (SubmitFeedbackRequest_context m) es\<rparr>"
  by (induction es arbitrary: m) (simp_all add: split_beta)

lemma switch_SubmitFeedbackRequest_arms:
  "switch_SubmitFeedbackRequest W 10 m = arm_read (r_string W) (\<lambda>v. m\<lparr>SubmitFeedbackRequest_collection := v\<rparr>)"
  "switch_SubmitFeedbackRequest W 18 m = arm_read (r_string W) (\<lambda>v. m\<lparr>SubmitFeedbackRequest_query := v\<rparr>)"
  "switch_SubmitFeedbackRequest W 26 m = arm_read (r_string W) (\<lambda>v. m\<lparr>SubmitFeedbackRequest_resultIds := SubmitFeedbackRequest_resultIds m @ [v]\<rparr>)"
  "switch_SubmitFeedbackRequest W 34 m = arm_sub W (decode_with W (switch_FeedbackItem W) createBaseFeedbackItem) (\<lambda>v. m\<lparr>SubmitFeedbackRequest_feedbackItems := SubmitFeedbackRequest_feedbackItems m @ [v]\<rparr>)"
  "switch_SubmitFeedbackRequest W 42 m = arm_sub W (decode_with W (switch_SubmitFeedbackRequest_ContextEntry W) createBaseSubmitFeedbackRequest_ContextEntry)
          (\<lambda>e. m\<lparr>SubmitFeedbackRequest_context := js_set (SubmitFeedbackRequest_ContextEntry_key e) (SubmitFeedbackRequest_ContextEntry_value e) (SubmitFeedbackRequest_context m)\<rparr>)"
  by (simp_all add: switch_SubmitFeedbackRequest_def fun_eq_iff decode_FeedbackItem_def decode_SubmitFeedbackRequest_ContextEntry_def)

lemma switch_SubmitFeedbackResponse_arms:
  "switch_SubmitFeedbackResponse W 8 m = arm_read (r_bool W) (\<lambda>v. m\<lparr>SubmitFeedbackResponse_success := v\<rparr>)"
  "switch_SubmitFeedbackResponse W 18 m = arm_read (r_string W) (\<lambda>v. m\<lparr>SubmitFeedbackResponse_feedbackId := v\<rparr>)"
  by (simp_all add: switch_SubmitFeedbackResponse_def fun_eq_iff)

section \<open>Decoding returns well-formed messages\<close>

lemma decode_Point_wf: "yields (decode_Point W) wf_Point"
  unfolding decode_Point_def switch_Point_def
  by (rule decode_with_yields, rule fld_keepsI)
     (rule if_keeps | rule arms_keep
       | (auto simp: wf_Point_def createBasePoint_def read_values) [1])+

lemma decode_UpsertRequest_wf: "yields (decode_UpsertRequest W) wf_UpsertRequest"
  unfolding decode_UpsertRequest_def switch_UpsertRequest_def
  by (rule decode_with_yields, rule fld_keepsI)
     (rule if_keeps | rule arm_sub_keeps [OF decode_Point_wf] | rule arms_keep
       | (auto simp: wf_UpsertRequest_def createBaseUpsertRequest_def read_values) [1])+

lemma decode_SearchResult_wf: "yields (decode_SearchResult W) wf_SearchResult"
  unfolding decode_SearchResult_def switch_SearchResult_def
  by (rule decode_with_yields, rule fld_keepsI)
     (rule if_keeps | rule arms_keep
       | (auto simp: wf_SearchResult_def createBaseSearchResult_def read_values) [1])+

lemma decode_SearchResponse_wf: "yields (decode_SearchResponse W) wf_SearchResponse"
  unfolding decode_SearchResponse_def switch_SearchResponse_def
  by (rule decode_with_yields, rule fld_keepsI)
     (rule if_keeps | rule arm_sub_keeps [OF decode_SearchResult_wf] | rule arms_keep
       | (auto simp: wf_SearchResponse_def createBaseSearchResponse_def read_values) [1])+

lemma decode_GetResponse_wf: "yields (decode_GetResponse W) wf_GetResponse"
  unfolding decode_GetResponse_def switch_GetResponse_def
  by (rule decode_with_yields, rule fld_keepsI)
     (rule if_keeps | rule arm_sub_keeps [OF decode_Point_wf] | rule arms_keep
       | (auto simp: wf_GetResponse_def createBaseGetResponse_def read_values) [1])+

lemma decode_ShardStatus_wf: "yields (decode_ShardStatus W) wf_ShardStatus"
  unfolding decode_ShardStatus_def switch_ShardStatus_def
  by (rule decode_with_yields, rule fld_keepsI)
     (rule if_keeps | rule arms_keep
       | (auto simp: wf_ShardStatus_def createBaseShardStatus_def read_values) [1])+

lemma decode_GetCollectionStatusResponse_wf: "yields (decode_GetCollectionStatusResponse W) wf_GetCollectionStatusResponse"
  unfolding decode_GetCollectionStatusResponse_def switch_GetCollectionStatusResponse_def
  by (rule decode_with_yields, rule fld_keepsI)
     (rule if_keeps | rule arm_sub_keeps [OF decode_ShardStatus_wf] | rule arms_keep
       | (auto simp: wf_GetCollectionStatusResponse_def createBaseGetCollectionStatusResponse_def read_values) [1])+

lemma decode_UpdateUserProfileResponse_wf: "yields (decode_UpdateUserProfileResponse W) wf_UpdateUserProfileResponse"
  unfolding decode_UpdateUserProfileResponse_def switch_UpdateUserProfileResponse_def
  by (rule decode_with_yields, rule fld_keepsI)
     (rule if_keeps | rule arm_sub_keeps [OF decode_UserProfile_wf] | rule arms_keep
       | (auto simp: wf_UpdateUserProfileResponse_def createBaseUpdateUserProfileResponse_def read_values) [1])+

lemma decode_SubmitFeedbackRequest_wf: "yields (decode_SubmitFeedbackRequest W) wf_SubmitFeedbackRequest"
  unfolding decode_SubmitFeedbackRequest_def switch_SubmitFeedbackRequest_def
  by (rule decode_with_yields, rule fld_keepsI)
     (rule if_keeps | rule arms_keep
       | (auto simp: wf_SubmitFeedbackRequest_def createBaseSubmitFeedbackRequest_def read_values) [1])+

section \<open>Decoding ends on every input\<close>

context wire_reader
begin

lemma CreateCollectionRequest_total: "dec_total W buf (decode_CreateCollectionRequest W)"
  unfolding decode_CreateCollectionRequest_def
  by (intro decode_with_total) (auto simp: fld_total_def switch_CreateCollectionRequest_def simp del: arm_total.simps(2) intro: arms_total)

lemma CreateCollectionResponse_total: "dec_total W buf (decode_CreateCollectionResponse W)"
  unfolding decode_CreateCollectionResponse_def
  by (intro decode_with_total) (auto simp: fld_total_def switch_CreateCollectionResponse_def simp del: arm_total.simps(2) intro: arms_total)

lemma DeleteCollectionRequest_total: "dec_total W buf (decode_DeleteCollectionRequest W)"
  unfolding decode_DeleteCollectionRequest_def
  by (intro decode_with_total) (auto simp: fld_total_def switch_DeleteCollectionRequest_def simp del: arm_total.simps(2) intro: arms_total)

lemma DeleteCollectionResponse_total: "dec_total W buf (decode_DeleteCollectionResponse W)"
  unfolding decode_DeleteCollectionResponse_def
  by (intro decode_with_total) (auto simp: fld_total_def switch_DeleteCollectionResponse_def simp del: arm_total.simps(2) intro: arms_total)

lemma Point_PayloadEntry_total: "dec_total W buf (decode_Point_PayloadEntry W)"
  unfolding decode_Point_PayloadEntry_def
  by (intro decode_with_total) (auto simp: fld_total_def switch_Point_PayloadEntry_def simp del: arm_total.simps(2) intro: arms_total)

lemma Point_total: "dec_total W buf (decode_Point W)"
  unfolding decode_Point_def
  by (intro decode_with_total) (auto simp: fld_total_def switch_Point_def simp del: arm_total.simps(2) intro: arms_total Point_PayloadEntry_total)

lemma UpsertRequest_total: "dec_total W buf (decode_UpsertRequest W)"
  unfolding decode_UpsertRequest_def
  by (intro decode_with_total) (auto simp: fld_total_def switch_UpsertRequest_def simp del: arm_total.simps(2) intro: arms_total Point_total)

lemma UpsertResponse_total: "dec_total W buf (decode_UpsertResponse W)"
  unfolding decode_UpsertResponse_def
  by (intro decode_with_total) (auto simp: fld_total_def switch_UpsertResponse_def simp del: arm_total.simps(2) intro: arms_total)

lemma SearchRequest_total: "dec_total W buf (decode_SearchRequest W)"
  unfolding decode_SearchRequest_def
  by (intro decode_with_total) (auto simp: fld_total_def switch_SearchRequest_def simp del: arm_total.simps(2) intro: arms_total)

lemma SearchResult_PayloadEntry_total: "dec_total W buf (decode_SearchResult_PayloadEntry W)"
  unfolding decode_SearchResult_PayloadEntry_def
  by (intro decode_with_total) (auto simp: fld_total_def switch_SearchResult_PayloadEntry_def simp del: arm_total.simps(2) intro: arms_total)

lemma SearchResult_total: "dec_total W buf (decode_SearchResult W)"
  unfolding decode_SearchResult_def
  by (intro decode_with_total) (auto simp: fld_total_def switch_SearchResult_def simp del: arm_total.simps(2) intro: arms_total SearchResult_PayloadEntry_total)

lemma SearchResponse_total: "dec_total W buf (decode_SearchResponse W)"
  unfolding decode_SearchResponse_def
  by (intro decode_with_total) (auto simp: fld_total_def switch_SearchResponse_def simp del: arm_total.simps(2) intro: arms_total SearchResult_total)

lemma GetRequest_total: "dec_total W buf (decode_GetRequest W)"
  unfolding decode_GetRequest_def
  by (intro decode_with_total) (auto simp: fld_total_def switch_GetRequest_def simp del: arm_total.simps(2) intro: arms_total)

lemma GetResponse_total: "dec_total W buf (decode_GetResponse W)"
  unfolding decode_GetResponse_def
  by (intro decode_with_total) (auto simp: fld_total_def switch_GetResponse_def simp del: arm_total.simps(2) intro: arms_total Point_total)

lemma DeleteRequest_total: "dec_total W buf (decode_DeleteRequest W)"
  unfolding decode_DeleteRequest_def
  by (intro decode_with_total) (auto simp: fld_total_def switch_DeleteRequest_def simp del: arm_total.simps(2) intro: arms_total)

lemma DeleteResponse_total: "dec_total W buf (decode_DeleteResponse W)"
  unfolding decode_DeleteResponse_def
  by (intro decode_with_total) (auto simp: fld_total_def switch_DeleteResponse_def simp del: arm_total.simps(2) intro: arms_total)

lemma ListCollectionsRequest_total: "dec_total W buf (decode_ListCollectionsRequest W)"
  unfolding decode_ListCollectionsRequest_def
  by (intro decode_with_total) (auto simp: fld_total_def switch_ListCollectionsRequest_def simp del: arm_total.simps(2) intro: arms_total)

lemma ListCollectionsResponse_total: "dec_total W buf (decode_ListCollectionsResponse W)"
  unfolding decode_ListCollectionsResponse_def
  by (intro decode_with_total) (auto simp: fld_total_def switch_ListCollectionsResponse_def simp del: arm_total.simps(2) intro: arms_total)

lemma GetCollectionStatusRequest_total: "dec_total W buf (decode_GetCollectionStatusRequest W)"
  unfolding decode_GetCollectionStatusRequest_def
  by (intro decode_with_total) (auto simp: fld_total_def switch_GetCollectionStatusRequest_def simp del: arm_total.simps(2) intro: arms_total)

lemma ShardStatus_total: "dec_total W buf (decode_ShardStatus W)"
  unfolding decode_ShardStatus_def
  by (intro decode_with_total) (auto simp: fld_total_def switch_ShardStatus_def simp del: arm_total.simps(2) intro: arms_total)

lemma GetCollectionStatusResponse_total: "dec_total W buf (decode_GetCollectionStatusResponse W)"
  unfolding decode_GetCollectionStatusResponse_def
  by (intro decode_with_total) (auto simp: fld_total_def switch_GetCollectionStatusResponse_def simp del: arm_total.simps(2) intro: arms_total ShardStatus_total)

lemma UpdateUserProfileRequest_total: "dec_total W buf (decode_UpdateUserProfileRequest W)"
  unfolding decode_UpdateUserProfileRequest_def
  by (intro decode_with_total) (auto simp: fld_total_def switch_UpdateUserProfileRequest_def simp del: arm_total.simps(2) intro: arms_total)

lemma UpdateUserProfileResponse_total: "dec_total W buf (decode_UpdateUserProfileResponse W)"
  unfolding decode_UpdateUserProfileResponse_def
  by (intro decode_with_total) (auto simp: fld_total_def switch_UpdateUserProfileResponse_def simp del: arm_total.simps(2) intro: arms_total UserProfile_total)

lemma FeedbackItem_total: "dec_total W buf (decode_FeedbackItem W)"
  unfolding decode_FeedbackItem_def
  by (intro decode_with_total) (auto simp: fld_total_def switch_FeedbackItem_def simp del: arm_total.simps(2) intro: arms_total)

lemma SubmitFeedbackRequest_ContextEntry_total: "dec_total W buf (decode_SubmitFeedbackRequest_ContextEntry W)"
  unfolding decode_SubmitFeedbackRequest_ContextEntry_def
  by (intro decode_with_total) (auto simp: fld_total_def switch_SubmitFeedbackRequest_ContextEntry_def simp del: arm_total.simps(2) intro: arms_total)

lemma SubmitFeedbackRequest_total: "dec_total W buf (decode_SubmitFeedbackRequest W)"
  unfolding decode_SubmitFeedbackRequest_def
  by (intro decode_with_total) (auto simp: fld_total_def switch_SubmitFeedbackRequest_def simp del: arm_total.simps(2) intro: arms_total FeedbackItem_total SubmitFeedbackRequest_ContextEntry_total)

lemma SubmitFeedbackResponse_total: "dec_total W buf (decode_SubmitFeedbackResponse W)"
  unfolding decode_SubmitFeedbackResponse_def
  by (intro decode_with_total) (auto simp: fld_total_def switch_SubmitFeedbackResponse_def simp del: arm_total.simps(2) intro: arms_total)

end

section \<open>Encoding and decoding\<close>

context wire_codec
begin

lemma codes_CreateCollectionRequest:
  "codes W frames buf (encode_CreateCollectionRequest W m) (switch_CreateCollectionRequest W) createBaseCreateCollectionRequest m"
  unfolding encode_CreateCollectionRequest_def
  by (cases m) ((rule codes_fields switch_CreateCollectionRequest_arms | simp add: createBaseCreateCollectionRequest_def)+)

lemma codes_CreateCollectionResponse:
  "codes W frames buf (encode_CreateCollectionResponse W m) (switch_CreateCollectionResponse W) createBaseCreateCollectionResponse m"
  unfolding encode_CreateCollectionResponse_def
  by (cases m) ((rule codes_fields switch_CreateCollectionResponse_arms | simp add: createBaseCreateCollectionResponse_def)+)

lemma codes_DeleteCollectionRequest:
  "codes W frames buf (encode_DeleteCollectionRequest W m) (switch_DeleteCollectionRequest W) createBaseDeleteCollectionRequest m"
  unfolding encode_DeleteCollectionRequest_def
  by (cases m) ((rule codes_fields switch_DeleteCollectionRequest_arms | simp add: createBaseDeleteCollectionRequest_def)+)

lemma codes_DeleteCollectionResponse:
  "codes W frames buf (encode_DeleteCollectionResponse W m) (switch_DeleteCollectionResponse W) createBaseDeleteCollectionResponse m"
  unfolding encode_DeleteCollectionResponse_def
  by (cases m) ((rule codes_fields switch_DeleteCollectionResponse_arms | simp add: createBaseDeleteCollectionResponse_def)+)

lemma codes_Point_PayloadEntry:
  "codes W frames buf (encode_Point_PayloadEntry W m) (switch_Point_PayloadEntry W) createBasePoint_PayloadEntry m"
  unfolding encode_Point_PayloadEntry_def
  by (cases m) ((rule codes_fields switch_Point_PayloadEntry_arms | simp add: createBasePoint_PayloadEntry_def)+)

lemma codes_Point:
  assumes "wf_Point m"
  shows "codes W frames buf (encode_Point W m) (switch_Point W) createBasePoint (rounded_Point fround m)"
  using assms
  unfolding encode_Point_def
  by (cases m) ((rule codes_fields switch_Point_arms codes_Point_PayloadEntry | simp add: createBasePoint_def rounded_Point_def wf_Point_def foldl_Point_payload foldl_js_set_id)+)

lemma codes_UpsertRequest:
  assumes "wf_UpsertRequest m"
  shows "codes W frames buf (encode_UpsertRequest W m) (switch_UpsertRequest W) createBaseUpsertRequest (rounded_UpsertRequest fround m)"
  using assms
  unfolding encode_UpsertRequest_def
  by (cases m) ((rule codes_fields switch_UpsertRequest_arms codes_Point | simp add: createBaseUpsertRequest_def rounded_UpsertRequest_def wf_UpsertRequest_def foldl_UpsertRequest_points)+)

lemma codes_UpsertResponse:
  "codes W frames buf (encode_UpsertResponse W m) (switch_UpsertResponse W) createBaseUpsertResponse m"
  unfolding encode_UpsertResponse_def
  by (cases m) ((rule codes_fields switch_UpsertResponse_arms | simp add: createBaseUpsertResponse_def)+)

lemma codes_SearchRequest:
  "codes W frames buf (encode_SearchRequest W m) (switch_SearchRequest W) createBaseSearchRequest (rounded_SearchRequest fround m)"
  unfolding encode_SearchRequest_def
  by (cases m) ((rule codes_fields switch_SearchRequest_arms | simp add: createBaseSearchRequest_def rounded_SearchRequest_def foldl_SearchRequest_vector)+)

lemma codes_SearchResult_PayloadEntry:
  "codes W frames buf (encode_SearchResult_PayloadEntry W m) (switch_SearchResult_PayloadEntry W) createBaseSearchResult_PayloadEntry m"
  unfolding encode_SearchResult_PayloadEntry_def
  by (cases m) ((rule codes_fields switch_SearchResult_PayloadEntry_arms | simp add: createBaseSearchResult_PayloadEntry_def)+)

lemma codes_SearchResult:
  assumes "wf_SearchResult m"
  shows "codes W frames buf (encode_SearchResult W m) (switch_SearchResult W) createBaseSearchResult (rounded_SearchResult fround m)"
  using assms
  unfolding encode_SearchResult_def
  by (cases m) ((rule codes_fields switch_SearchResult_arms codes_SearchResult_PayloadEntry | simp add: createBaseSearchResult_def rounded_SearchResult_def wf_SearchResult_def foldl_SearchResult_payload foldl_js_set_id)+)

lemma codes_SearchResponse:
  assumes "wf_SearchResponse m"
  shows "codes W frames buf (encode_SearchResponse W m) (switch_SearchResponse W) createBaseSearchResponse (rounded_SearchResponse fround m)"
  using assms
  unfolding encode_SearchResponse_def
  by (cases m) ((rule codes_fields switch_SearchResponse_arms codes_SearchResult | simp add: createBaseSearchResponse_def rounded_SearchResponse_def wf_SearchResponse_def foldl_SearchResponse_results)+)

lemma codes_GetRequest:
  "codes W frames buf (encode_GetRequest W m) (switch_GetRequest W) createBaseGetRequest m"
  unfolding encode_GetRequest_def
  by (cases m) ((rule codes_fields switch_GetRequest_arms | simp add: createBaseGetRequest_def)+)

lemma codes_GetResponse:
  assumes "wf_GetResponse m"
  shows "codes W frames buf (encode_GetResponse W m) (switch_GetResponse W) createBaseGetResponse (rounded_GetResponse fround m)"
  using assms
  unfolding encode_GetResponse_def
  by (cases m) ((rule codes_fields switch_GetResponse_arms codes_Point | simp add: createBaseGetResponse_def rounded_GetResponse_def wf_GetResponse_def option.map_ident)+)

lemma codes_DeleteRequest:
  "codes W frames buf (encode_DeleteRequest W m) (switch_DeleteRequest W) createBaseDeleteRequest m"
  unfolding encode_DeleteRequest_def
  by (cases m) ((rule codes_fields switch_DeleteRequest_arms | simp add: createBaseDeleteRequest_def)+)

lemma codes_DeleteResponse:
  "codes W frames buf (encode_DeleteResponse W m) (switch_DeleteResponse W) createBaseDeleteResponse m"
  unfolding encode_DeleteResponse_def by (rule codes_done) (cases m, simp add: createBaseDeleteResponse_def)

lemma codes_ListCollectionsRequest:
  "codes W frames buf (encode_ListCollectionsRequest W m) (switch_ListCollectionsRequest W) createBaseListCollectionsRequest m"
  unfolding encode_ListCollectionsRequest_def by (rule codes_done) (cases m, simp add: createBaseListCollectionsRequest_def)

lemma codes_ListCollectionsResponse:
  "codes W frames buf (encode_ListCollectionsResponse W m) (switch_ListCollectionsResponse W) createBaseListCollectionsResponse m"
  unfolding encode_ListCollectionsResponse_def
  by (cases m) ((rule codes_fields switch_ListCollectionsResponse_arms | simp add: createBaseListCollectionsResponse_def foldl_ListCollectionsResponse_collections)+)

lemma codes_GetCollectionStatusRequest:
  "codes W frames buf (encode_GetCollectionStatusRequest W m) (switch_GetCollectionStatusRequest W) createBaseGetCollectionStatusRequest m"
  unfolding encode_GetCollectionStatusRequest_def
  by (cases m) ((rule codes_fields switch_GetCollectionStatusRequest_arms | simp add: createBaseGetCollectionStatusRequest_def)+)

lemma codes_ShardStatus:
  assumes "wf_ShardStatus m"
  shows "codes W frames buf (encode_ShardStatus W m) (switch_ShardStatus W) createBaseShardStatus m"
  using assms
  unfolding encode_ShardStatus_def
  by (cases m) ((rule codes_fields switch_ShardStatus_arms | simp add: createBaseShardStatus_def wf_ShardStatus_def)+)

lemma codes_GetCollectionStatusResponse:
  assumes "wf_GetCollectionStatusResponse m"
  shows "codes W frames buf (encode_GetCollectionStatusResponse W m) (switch_GetCollectionStatusResponse W) createBaseGetCollectionStatusResponse m"
  using assms
  unfolding encode_GetCollectionStatusResponse_def
  by (cases m) ((rule codes_fields switch_GetCollectionStatusResponse_arms codes_ShardStatus | simp add: createBaseGetCollectionStatusResponse_def wf_GetCollectionStatusResponse_def foldl_GetCollectionStatusResponse_shards)+)

lemma codes_UpdateUserProfileRequest:
  "codes W frames buf (encode_UpdateUserProfileRequest W m) (switch_UpdateUserProfileRequest W) createBaseUpdateUserProfileRequest m"
  unfolding encode_UpdateUserProfileRequest_def
  by (cases m) ((rule codes_fields switch_UpdateUserProfileRequest_arms | simp add: createBaseUpdateUserProfileRequest_def)+)

lemma codes_UpdateUserProfileResponse:
  assumes "wf_UpdateUserProfileResponse m"
  shows "codes W frames buf (encode_UpdateUserProfileResponse W m) (switch_UpdateUserProfileResponse W) createBaseUpdateUserProfileResponse m"
  using assms
  unfolding encode_UpdateUserProfileResponse_def
  by (cases m) ((rule codes_fields switch_UpdateUserProfileResponse_arms codes_UserProfile | simp add: createBaseUpdateUserProfileResponse_def wf_UpdateUserProfileResponse_def option.map_ident)+)

lemma codes_FeedbackItem:
  "codes W frames buf (encode_FeedbackItem W m) (switch_FeedbackItem W) createBaseFeedbackItem m"
  unfolding encode_FeedbackItem_def
  by (cases m) ((rule codes_fields switch_FeedbackItem_arms | simp add: createBaseFeedbackItem_def)+)

lemma codes_SubmitFeedbackRequest_ContextEntry:
  "codes W frames buf (encode_SubmitFeedbackRequest_ContextEntry W m) (switch_SubmitFeedbackRequest_ContextEntry W) createBaseSubmitFeedbackRequest_ContextEntry m"
  unfolding encode_SubmitFeedbackRequest_ContextEntry_def
  by (cases m) ((rule codes_fields switch_SubmitFeedbackRequest_ContextEntry_arms | simp add: createBaseSubmitFeedbackRequest_ContextEntry_def)+)

lemma codes_SubmitFeedbackRequest:
  assumes "wf_SubmitFeedbackRequest m"
  shows "codes W frames buf (encode_SubmitFeedbackRequest W m) (switch_SubmitFeedbackRequest W) createBaseSubmitFeedbackRequest m"
  using assms
  unfolding encode_SubmitFeedbackRequest_def
  by (cases m) ((rule codes_fields switch_SubmitFeedbackRequest_arms codes_FeedbackItem codes_SubmitFeedbackRequest_ContextEntry | simp add: createBaseSubmitFeedbackRequest_def wf_SubmitFeedbackRequest_def foldl_SubmitFeedbackRequest_resultIds foldl_SubmitFeedbackRequest_feedbackItems foldl_SubmitFeedbackRequest_context foldl_js_set_id)+)

lemma codes_SubmitFeedbackResponse:
  "codes W frames buf (encode_SubmitFeedbackResponse W m) (switch_SubmitFeedbackResponse W) createBaseSubmitFeedbackResponse m"
  unfolding encode_SubmitFeedbackResponse_def
  by (cases m) ((rule codes_fields switch_SubmitFeedbackResponse_arms | simp add: createBaseSubmitFeedbackResponse_def)+)

end

section \<open>Properties\<close>

text \<open>C6: An upsert request survives the wire: whenever \<^verbatim>\<open>UpsertRequest.encode\<close> succeeds, what
  \<^verbatim>\<open>UpsertRequest.decode\<close> reads from its bytes is the request, point by point and payload key by
  payload key, with the vector components rounded to binary32. The payload dictionaries have to be in the
  order of \<^verbatim>\<open>Object.entries\<close> and without the key \<^verbatim>\<open>__proto__\<close>.\<close>

theorem UpsertRequest_roundtrip:
  assumes "wire_codec W frames enc buf fround" and "wf_UpsertRequest m"
    and "encode_UpsertRequest W m (w_new W) = Inr w"
  shows "decode_bytes W (decode_UpsertRequest W) (w_finish W w)
           = Some (Inr (rounded_UpsertRequest fround m))"
  unfolding decode_UpsertRequest_def
  by (rule wire_codec.codes_decode_bytes [OF assms(1) wire_codec.codes_UpsertRequest [OF assms(1,2)] assms(3)])

definition sample_upsert :: "js_num \<Rightarrow> UpsertRequest" where
  "sample_upsert x =
     \<lparr>UpsertRequest_collection = ''docs'',
      UpsertRequest_points =
        [\<lparr>Point_id = ''a'', Point_vector = [Fin 1, x], Point_payload = [(''k'', ''v'')]\<rparr>]\<rparr>"

theorem UpsertRequest_roundtrip_witness:
  "\<exists>w. encode_UpsertRequest protobuf (sample_upsert (Fin 16777217)) (w_new protobuf) = Inr w
     \<and> decode_bytes protobuf (decode_UpsertRequest protobuf) (w_finish protobuf w)
         = Some (Inr (sample_upsert (Fin 16777216)))"
proof -
  have "\<exists>w. encode_UpsertRequest protobuf (sample_upsert (Fin 16777217)) (w_new protobuf) = Inr w"
    by (simp add: sample_upsert_def encode_UpsertRequest_def encode_Point_def
        encode_Point_PayloadEntry_def protobuf_eval del: float32_bits.simps)
  then obtain w where
    w: "encode_UpsertRequest protobuf (sample_upsert (Fin 16777217)) (w_new protobuf) = Inr w" ..
  have "wf_UpsertRequest (sample_upsert (Fin 16777217))"
    by (simp add: sample_upsert_def wf_UpsertRequest_def wf_Point_def)
  from UpsertRequest_roundtrip [OF pb.wire_codec_axioms this w] w show ?thesis
    by (auto simp: sample_upsert_def rounded_UpsertRequest_def rounded_Point_def fround32_values)
qed

text \<open>A search response survives the wire: ids, payloads and order of the results are kept,
  scores and vectors are rounded to binary32.\<close>

theorem SearchResponse_roundtrip:
  assumes "wire_codec W frames enc buf fround" and "wf_SearchResponse m"
    and "encode_SearchResponse W m (w_new W) = Inr w"
  shows "decode_bytes W (decode_SearchResponse W) (w_finish W w)
           = Some (Inr (rounded_SearchResponse fround m))"
  unfolding decode_SearchResponse_def
  by (rule wire_codec.codes_decode_bytes [OF assms(1) wire_codec.codes_SearchResponse [OF assms(1,2)] assms(3)])

definition sample_hits :: "js_num \<Rightarrow> SearchResponse" where
  "sample_hits x =
     \<lparr>SearchResponse_results =
        [\<lparr>SearchResult_id = ''a'', SearchResult_score = Fin 1,
          SearchResult_payload = [(''1'', ''v''), (''k'', ''w'')], SearchResult_vector = [x]\<rparr>]\<rparr>"

theorem SearchResponse_roundtrip_witness:
  "\<exists>w. encode_SearchResponse protobuf (sample_hits (Fin 16777217)) (w_new protobuf) = Inr w
     \<and> decode_bytes protobuf (decode_SearchResponse protobuf) (w_finish protobuf w)
         = Some (Inr (sample_hits (Fin 16777216)))"
proof -
  have "\<exists>w. encode_SearchResponse protobuf (sample_hits (Fin 16777217)) (w_new protobuf) = Inr w"
    by (simp add: sample_hits_def encode_SearchResponse_def encode_SearchResult_def
        encode_SearchResult_PayloadEntry_def protobuf_eval del: float32_bits.simps)
  then obtain w where
    w: "encode_SearchResponse protobuf (sample_hits (Fin 16777217)) (w_new protobuf) = Inr w" ..
  have "wf_SearchResponse (sample_hits (Fin 16777217))"
    by (simp add: sample_hits_def wf_SearchResponse_def wf_SearchResult_def key_before_def
        is_index_key_def is_digit_def)
  from SearchResponse_roundtrip [OF pb.wire_codec_axioms this w] w show ?thesis
    by (auto simp: sample_hits_def rounded_SearchResponse_def rounded_SearchResult_def fround32_values)
qed

text \<open>A collection status survives the wire unchanged: the 64-bit shard and replica ids travel as
  decimal strings and come back as the same strings, digit for digit.\<close>

theorem GetCollectionStatusResponse_roundtrip:
  assumes "wire_codec W frames enc buf fround" and "wf_GetCollectionStatusResponse m"
    and "encode_GetCollectionStatusResponse W m (w_new W) = Inr w"
  shows "decode_bytes W (decode_GetCollectionStatusResponse W) (w_finish W w) = Some (Inr m)"
  unfolding decode_GetCollectionStatusResponse_def
  by (rule wire_codec.codes_decode_bytes
      [OF assms(1) wire_codec.codes_GetCollectionStatusResponse [OF assms(1,2)] assms(3)])

definition sample_status :: GetCollectionStatusResponse where
  "sample_status =
     \<lparr>GetCollectionStatusResponse_name = ''docs'', GetCollectionStatusResponse_dimension = Fin 3,
      GetCollectionStatusResponse_distance = ''cosine'',
      GetCollectionStatusResponse_shards =
        [\<lparr>ShardStatus_shardId = Fin 1, ShardStatus_replicas = [''7'', ''12''],
          ShardStatus_leaderId = ''12'', ShardStatus_ready = True\<rparr>]\<rparr>"

lemma sample_ids: "uint64_string ''7''" "uint64_string ''12''" "parse_nat ''7'' = 7" "parse_nat ''12'' = 12"
proof -
  have "''7'' = show_nat 7" "''12'' = show_nat 12" by code_simp+
  then show "uint64_string ''7''" "uint64_string ''12''" "parse_nat ''7'' = 7" "parse_nat ''12'' = 12"
    by (simp_all add: uint64_string_def)
qed

theorem GetCollectionStatusResponse_roundtrip_witness:
  "\<exists>w. encode_GetCollectionStatusResponse protobuf sample_status (w_new protobuf) = Inr w
     \<and> decode_bytes protobuf (decode_GetCollectionStatusResponse protobuf) (w_finish protobuf w)
         = Some (Inr sample_status)"
proof -
  have "\<exists>w. encode_GetCollectionStatusResponse protobuf sample_status (w_new protobuf) = Inr w"
    by (simp add: sample_status_def encode_GetCollectionStatusResponse_def encode_ShardStatus_def
        protobuf_eval sample_ids)
  then obtain w where
    w: "encode_GetCollectionStatusResponse protobuf sample_status (w_new protobuf) = Inr w" ..
  have "wf_GetCollectionStatusResponse sample_status"
    by (simp add: sample_status_def wf_GetCollectionStatusResponse_def wf_ShardStatus_def sample_ids)
  from GetCollectionStatusResponse_roundtrip [OF pb.wire_codec_axioms this w] w
  show ?thesis by blast
qed

text \<open>Decoding a search response from any bytes at all ends, with a message or with an exception:
  the reader moves forward on every turn of the loops, nested and packed ones included, so a
  malformed or hostile answer cannot hang the client.\<close>

theorem SearchResponse_decode_returns:
  assumes "wire_reader W buf"
  shows "\<exists>x. decode_bytes W (decode_SearchResponse W) bs = Some x"
  by (rule wire_reader.decode_bytes_returns [OF assms wire_reader.SearchResponse_total [OF assms]])

theorem SearchResponse_decode_returns_witness:
  "\<exists>x. decode_bytes protobuf (decode_SearchResponse protobuf) [10, 200, 1, 255] = Some x"
  by (rule SearchResponse_decode_returns [OF pb.wire_reader_axioms])

text \<open>C30: \<^verbatim>\<open>Point.fromPartial\<close> makes a well-formed message, as the round trip over the wire needs it, out of any partial point: its
  payload is in \<^verbatim>\<open>Object.entries\<close> order and holds exactly the defined entries of the given
  dictionary, except one under the name \<^verbatim>\<open>__proto__\<close>: assigning that name sets the prototype
  instead of a property, so such an entry is dropped.\<close>

theorem fromPartial_Point_payload:
  assumes "distinct (map fst es)"
  shows "wf_Point (fromPartial_Point (i, v, Some es))
     \<and> (map_of (Point_payload (fromPartial_Point (i, v, Some es))) k
           = (if k = ''__proto__'' then None else Option.bind (map_of es k) id))"
  using assms by (simp_all add: wf_Point_def js_copy_ok js_copy_lookup)

theorem fromPartial_Point_payload_witness:
  "wf_Point (fromPartial_Point (Some ''a'', None, Some [(''k'', Some ''v''), (''__proto__'', Some ''x'')]))
   \<and> map_of (Point_payload (fromPartial_Point
       (Some ''a'', None, Some [(''k'', Some ''v''), (''__proto__'', Some ''x'')]))) ''__proto__'' = None"
  using fromPartial_Point_payload
    [of "[(''k'', Some ''v''), (''__proto__'', Some ''x'')]" "Some ''a''" None "''__proto__''"]
  by simp

end
