(* ===== verification/Client_Api.thy ===== *)
theory Client_Api
  imports Hedged_Read Api_Messages
begin

text \<open>
  The calls of \<^verbatim>\<open>VectronClient\<close> (\<^verbatim>\<open>clientlibs/js/src/client.ts\<close>): parameter checks, the request
  message, the RPC through \<^verbatim>\<open>callWithRetry\<close> or \<^verbatim>\<open>callRead\<close>, and what is made of the response.

  \<^verbatim>\<open>VectronServiceClient\<close> is a gRPC stub; the network behind it is the parameter \<open>S\<close>, one
  entry per method. \<open>unary\<close> is one call and the answer its callback receives; \<open>events\<close>
  is what a hedged read receives: the answers of the one or two calls and the expiry of the
  timer, in order. The clock, \<^verbatim>\<open>Math.random()\<close> and the rendering of fractional numbers are
  parameters too. Arrays are never null here; the checks for a missing array coincide with
  the ones for an empty one.
\<close>

section \<open>The service behind the stub\<close>

type_synonym metadata = "(string \<times> string) list"

datatype 'r call_event = Answer "thrown + 'r" | Expired

record ('q, 'r, 'w) rpc =
  unary :: "'q \<Rightarrow> metadata \<Rightarrow> call_options \<Rightarrow> ('r, 'w) async"
  events :: "'q \<Rightarrow> metadata \<Rightarrow> (js_num \<Rightarrow> call_options) \<Rightarrow> 'w \<Rightarrow> 'r call_event list \<times> 'w"

record 'w service =
  s_now :: "'w \<Rightarrow> js_num"
  s_random :: "nat \<Rightarrow> rat"
  s_show :: "js_num \<Rightarrow> string"
  s_createCollection :: "(CreateCollectionRequest, CreateCollectionResponse, 'w) rpc"
  s_listCollections :: "(ListCollectionsRequest, ListCollectionsResponse, 'w) rpc"
  s_getCollectionStatus :: "(GetCollectionStatusRequest, GetCollectionStatusResponse, 'w) rpc"
  s_upsert :: "(UpsertRequest, UpsertResponse, 'w) rpc"
  s_search :: "(SearchRequest, SearchResponse, 'w) rpc"
  s_get :: "(GetRequest, GetResponse, 'w) rpc"
  s_delete :: "(DeleteRequest, DeleteResponse, 'w) rpc"
  s_close :: "'w \<Rightarrow> 'w"

text \<open>One execution of the function given to \<^verbatim>\<open>callWithRetry\<close>: the stub is called with fresh
  metadata and call options, and the callback \<open>cb\<close> turns a response into the value of the
  promise or rejects it. An error given to the callback rejects the promise.\<close>

definition invoke ::
  "VectronClient \<Rightarrow> 'w service \<Rightarrow> ('q, 'r, 'w) rpc \<Rightarrow> 'q \<Rightarrow> ('r \<Rightarrow> thrown + 'a) \<Rightarrow> ('a, 'w) async" where
  "invoke c S m request cb w =
     Option.bind (unary m request (getMetadata c) (getCallOptions c (s_now S w)) w)
       (\<lambda>(res, w'). Some (res_bind res cb, w'))"

fun hedge_event_of :: "('r \<Rightarrow> thrown + 'a) \<Rightarrow> 'r call_event \<Rightarrow> 'a hedge_event" where
  "hedge_event_of cb (Answer res) =
     (case res_bind res cb of Inr v \<Rightarrow> RunResolves v | Inl e \<Rightarrow> RunRejects e)"
| "hedge_event_of cb Expired = TimerFires"

definition hedge_events ::
  "VectronClient \<Rightarrow> ('q, 'r, 'w) rpc \<Rightarrow> 'q \<Rightarrow> ('r \<Rightarrow> thrown + 'a) \<Rightarrow> 'w \<Rightarrow> 'a hedge_event list \<times> 'w" where
  "hedge_events c m request cb w =
     (case events m request (getMetadata c) (getCallOptions c) w of
        (es, w') \<Rightarrow> (map (hedge_event_of cb) es, w'))"

type_synonym ('a, 'w) outcome = "((thrown + 'a) \<times> js_num list \<times> 'w) option"

definition write_call ::
  "VectronClient \<Rightarrow> 'w service \<Rightarrow> ('q, 'r, 'w) rpc \<Rightarrow> 'q \<Rightarrow> ('r \<Rightarrow> thrown + 'a) \<Rightarrow> 'w \<Rightarrow> ('a, 'w) outcome" where
  "write_call c S m request cb = callWithRetry (c_options c) (s_random S) True (invoke c S m request cb)"

definition read_call ::
  "VectronClient \<Rightarrow> 'w service \<Rightarrow> ('q, 'r, 'w) rpc \<Rightarrow> 'q \<Rightarrow> ('r \<Rightarrow> thrown + 'a) \<Rightarrow> 'w \<Rightarrow> ('a, 'w) outcome" where
  "read_call c S m request cb =
     callRead (c_options c) (s_random S) (invoke c S m request cb) (hedge_events c m request cb)"

text \<open>\<^verbatim>\<open>throw new InvalidArgumentError(msg)\<close> before any call: the promise rejects, the world is
  as it was.\<close>

definition invalid :: "string \<Rightarrow> thrown" where
  "invalid msg = TError (new_InvalidArgumentError msg)"

definition throw :: "thrown \<Rightarrow> 'w \<Rightarrow> ('a, 'w) outcome" where
  "throw e w = Some (Inl e, [], w)"

section \<open>Points\<close>

record ClientPoint =
  cp_id :: string
  cp_vector :: "js_num list"
  cp_payload :: "string js_obj option"

record ClientSearchResult =
  csr_id :: string
  csr_score :: js_num
  csr_payload :: "string js_obj option"

definition js_show :: "'w service \<Rightarrow> js_num \<Rightarrow> string" where
  "js_show S n =
     (case n of
        NaN \<Rightarrow> ''NaN''
      | PosInf \<Rightarrow> ''Infinity''
      | NegInf \<Rightarrow> ''-Infinity''
      | Fin q \<Rightarrow> if of_int \<lfloor>q\<rfloor> = q \<and> \<bar>q\<bar> < 10 ^ 21 then show_int \<lfloor>q\<rfloor> else s_show S n)"

definition validateVectorDim :: "VectronClient \<Rightarrow> 'w service \<Rightarrow> js_num list \<Rightarrow> thrown + unit" where
  "validateVectorDim c S vector =
     (case o_expectedVectorDim (c_options c) of
        None \<Rightarrow> Inr ()
      | Some d \<Rightarrow>
          if truthy_num d \<and> \<not> js_eq (num_of_nat (length vector)) d
          then Inl (invalid (''Vector dimension '' @ show_nat (length vector)
                     @ '' does not match expected '' @ js_show S d @ ''.''))
          else Inr ())"

section \<open>Collections\<close>

text \<open>\<^verbatim>\<open>distance\<close> has the default value \<^verbatim>\<open>"euclidean"\<close>.\<close>

definition createCollection ::
  "VectronClient \<Rightarrow> 'w service \<Rightarrow> string \<Rightarrow> js_num \<Rightarrow> string option \<Rightarrow> 'w \<Rightarrow> (unit, 'w) outcome" where
  "createCollection c S nm dimension distance w =
     (if nm = [] then throw (invalid ''Collection name cannot be empty.'') w
      else if js_le dimension (Fin 0)
      then throw (invalid ''Dimension must be a positive integer.'') w
      else let request = create_CreateCollectionRequest
                 (Some (Some nm, Some dimension, Some (nullish distance ''euclidean'')))
           in write_call c S (s_createCollection S) request (\<lambda>response. Inr ()) w)"

definition listCollections :: "VectronClient \<Rightarrow> 'w service \<Rightarrow> 'w \<Rightarrow> (string list, 'w) outcome" where
  "listCollections c S w =
     (let request = create_ListCollectionsRequest None
      in read_call c S (s_listCollections S) request
           (\<lambda>response. Inr (ListCollectionsResponse_collections response)) w)"

definition getCollectionStatus ::
  "VectronClient \<Rightarrow> 'w service \<Rightarrow> string \<Rightarrow> 'w \<Rightarrow> (GetCollectionStatusResponse, 'w) outcome" where
  "getCollectionStatus c S nm w =
     (if nm = [] then throw (invalid ''Collection name cannot be empty.'') w
      else let request = create_GetCollectionStatusRequest (Some (Some nm))
           in read_call c S (s_getCollectionStatus S) request (\<lambda>response. Inr response) w)"

section \<open>Points in a collection\<close>

text \<open>The function that \<^verbatim>\<open>points.map\<close> applies; it throws for a point that cannot be stored.\<close>

definition proto_point :: "VectronClient \<Rightarrow> 'w service \<Rightarrow> ClientPoint \<Rightarrow> thrown + Point" where
  "proto_point c S p =
     (if cp_id p = [] then Inl (invalid ''Point ID cannot be empty.'')
      else if cp_vector p = [] then Inl (invalid ''Point vector cannot be empty.'')
      else res_bind (validateVectorDim c S (cp_vector p)) (\<lambda>_.
        Inr (create_Point (Some (Some (cp_id p), Some (cp_vector p),
               map_option (map (\<lambda>(k, v). (k, Some v))) (cp_payload p))))))"

definition point_partial :: "Point \<Rightarrow> Point_partial" where
  "point_partial p =
     (Some (Point_id p), Some (Point_vector p), Some (map (\<lambda>(k, v). (k, Some v)) (Point_payload p)))"

definition upsert ::
  "VectronClient \<Rightarrow> 'w service \<Rightarrow> string \<Rightarrow> ClientPoint list \<Rightarrow> 'w \<Rightarrow> (js_num, 'w) outcome" where
  "upsert c S collection points w =
     (if collection = [] then throw (invalid ''Collection name cannot be empty.'') w
      else if points = [] then Some (Inr (Fin 0), [], w)
      else case res_map (proto_point c S) points of
          Inl e \<Rightarrow> throw e w
        | Inr protoPoints \<Rightarrow>
            let request = create_UpsertRequest
                  (Some (Some collection, Some (map point_partial protoPoints)))
            in write_call c S (s_upsert S) request (\<lambda>response. Inr (UpsertResponse_upserted response)) w)"

text \<open>\<^verbatim>\<open>topK\<close> has the default value 10.\<close>

definition search ::
  "VectronClient \<Rightarrow> 'w service \<Rightarrow> string \<Rightarrow> js_num list \<Rightarrow> js_num option \<Rightarrow> 'w
     \<Rightarrow> (ClientSearchResult list, 'w) outcome" where
  "search c S collection vector topK w =
     (if collection = [] then throw (invalid ''Collection name cannot be empty.'') w
      else if vector = [] then throw (invalid ''Query vector cannot be empty.'') w
      else case validateVectorDim c S vector of
          Inl e \<Rightarrow> throw e w
        | Inr _ \<Rightarrow>
            let request = create_SearchRequest
                  (Some (Some collection, Some vector, Some (nullish topK (Fin 10)), None, None, None, None))
            in read_call c S (s_search S) request
                 (\<lambda>response. Inr (map (\<lambda>r. \<lparr>csr_id = SearchResult_id r, csr_score = SearchResult_score r,
                     csr_payload = Some (SearchResult_payload r)\<rparr>) (SearchResponse_results response))) w)"

definition get ::
  "VectronClient \<Rightarrow> 'w service \<Rightarrow> string \<Rightarrow> string \<Rightarrow> 'w \<Rightarrow> (ClientPoint, 'w) outcome" where
  "get c S collection pointId w =
     (if collection = [] \<or> pointId = []
      then throw (invalid ''Collection name and point ID cannot be empty.'') w
      else let request = create_GetRequest (Some (Some collection, Some pointId))
           in read_call c S (s_get S) request
                (\<lambda>response. case GetResponse_point response of
                   None \<Rightarrow> Inl (TError (new_NotFoundError (''Point with id '' @ pointId @ '' not found.'')))
                 | Some point \<Rightarrow> Inr \<lparr>cp_id = Point_id point, cp_vector = Point_vector point,
                     cp_payload = Some (Point_payload point)\<rparr>) w)"

definition delete ::
  "VectronClient \<Rightarrow> 'w service \<Rightarrow> string \<Rightarrow> string \<Rightarrow> 'w \<Rightarrow> (unit, 'w) outcome" where
  "delete c S collection pointId w =
     (if collection = [] \<or> pointId = []
      then throw (invalid ''Collection name and point ID cannot be empty.'') w
      else let request = create_DeleteRequest (Some (Some collection, Some pointId))
           in write_call c S (s_delete S) request (\<lambda>response. Inr ()) w)"

definition close :: "VectronClient \<Rightarrow> 'w service \<Rightarrow> 'w \<Rightarrow> 'w" where
  "close c S w = s_close S w"

section \<open>Laws\<close>

lemmas api_simps = throw_def invalid_def Let_def

context runner
begin

text \<open>An answer to the first call is the answer of the whole call.\<close>

lemma run_answered:
  assumes "unary m request (getMetadata c) (getCallOptions c (s_now S w)) w = Some (Inr response, w')"
  shows "cb response = Inr v \<Longrightarrow> run (invoke c S m request cb) w = Some (Inr v, [], w')"
    and "cb response = Inl (TError e) \<Longrightarrow>
           run (invoke c S m request cb) w = Some (Inl (TError e), [], w')"
  using assms by (auto simp: invoke_def intro: run_Inr run_TError)

end

text \<open>Without hedging a read is a retried call like any other.\<close>

lemma read_call_plain:
  "\<not> truthy_obool (o_hedgedReads (c_options c)) \<Longrightarrow>
     read_call c S m request cb
       = callWithRetry (c_options c) (s_random S) False (invoke c S m request cb)"
  by (rule ext) (simp add: read_call_def callRead_def)

lemma read_call_answered:
  assumes "\<not> truthy_obool (o_hedgedReads (c_options c))"
    and "unary m request (getMetadata c) (getCallOptions c (s_now S w)) w = Some (Inr response, w')"
  shows "cb response = Inr v \<Longrightarrow> read_call c S m request cb w = Some (Inr v, [], w')"
    and "cb response = Inl (TError e) \<Longrightarrow> read_call c S m request cb w = Some (Inl (TError e), [], w')"
  using retry.run_answered [OF assms(2)] by (simp_all add: read_call_plain [OF assms(1)])

lemma read_call_translated:
  "read_call c S m request cb w = Some (Inl t, slept, w') \<Longrightarrow>
     instanceof_VectronError t \<or> (\<exists>x. t = TOther x)"
  by (auto simp: read_call_def callRead_def split: if_splits dest!: retry.run_translated)

lemma write_call_translated:
  "write_call c S m request cb w = Some (Inl t, slept, w') \<Longrightarrow>
     instanceof_VectronError t \<or> (\<exists>x. t = TOther x)"
  by (auto simp: write_call_def dest: retry.run_translated)

lemma write_call_once:
  assumes "\<not> truthy_obool (o_retryOnWrites (c_options c))"
    and "unary m request (getMetadata c) (getCallOptions c (s_now S w)) w = Some (res, w')"
  shows "write_call c S m request cb w = Some (settle (res_bind res cb), [], w')"
  unfolding write_call_def
  by (rule callWithRetry_write [OF assms(1)]) (simp add: invoke_def assms(2))

lemma throw_translated:
  "throw (TError e) w = Some (Inl t, slept, w') \<Longrightarrow> instanceof_VectronError t \<or> (\<exists>x. t = TOther x)"
  by (auto simp: throw_def)

subsection \<open>Points that can be stored\<close>

definition dim_ok :: "VectronClient \<Rightarrow> js_num list \<Rightarrow> bool" where
  "dim_ok c v \<longleftrightarrow>
     (case o_expectedVectorDim (c_options c) of
        None \<Rightarrow> True | Some d \<Rightarrow> \<not> truthy_num d \<or> js_eq (num_of_nat (length v)) d)"

definition storable :: "VectronClient \<Rightarrow> ClientPoint \<Rightarrow> bool" where
  "storable c p \<longleftrightarrow> cp_id p \<noteq> [] \<and> cp_vector p \<noteq> [] \<and> dim_ok c (cp_vector p)"

definition stored :: "ClientPoint \<Rightarrow> Point" where
  "stored p =
     \<lparr>Point_id = cp_id p, Point_vector = cp_vector p,
      Point_payload = js_copy (map (\<lambda>(k, v). (k, Some v)) (nullish (cp_payload p) []))\<rparr>"

lemma validateVectorDim_ok: "validateVectorDim c S v = Inr () \<longleftrightarrow> dim_ok c v"
  by (auto simp: validateVectorDim_def dim_ok_def split: option.splits)

lemma validateVectorDim_error:
  "validateVectorDim c S v = Inl t \<Longrightarrow> \<exists>msg. t = invalid msg"
  by (auto simp: validateVectorDim_def split: option.splits if_splits)

text \<open>No vector has a negative dimension, so a negative \<^verbatim>\<open>expectedVectorDim\<close> admits no point at all.\<close>

lemma negative_dim_rejects:
  "o_expectedVectorDim (c_options c) = Some (Fin q) \<Longrightarrow> q < 0 \<Longrightarrow> \<not> storable c p"
  by (simp add: storable_def dim_ok_def truthy_num_def js_eq_def)

lemma proto_point_storable: "storable c p \<Longrightarrow> proto_point c S p = Inr (stored p)"
  by (auto simp: storable_def proto_point_def stored_def create_Point_def res_bind_def
      validateVectorDim_ok [THEN iffD2] split: option.split)

lemma is_invalid [simp]: "\<exists>msg'. invalid msg = invalid msg'"
  by blast

lemma proto_point_error:
  "\<not> storable c p \<Longrightarrow> \<exists>msg. proto_point c S p = Inl (invalid msg)"
proof -
  assume "\<not> storable c p"
  moreover have "\<exists>msg. validateVectorDim c S (cp_vector p) = Inl (invalid msg)"
    if "\<not> dim_ok c (cp_vector p)"
    using that validateVectorDim_ok [of c S] validateVectorDim_error [of c S "cp_vector p"]
    by (cases "validateVectorDim c S (cp_vector p)") auto
  ultimately show ?thesis by (auto simp: storable_def proto_point_def)
qed

lemma proto_points_storable:
  "\<forall>p \<in> set ps. storable c p \<Longrightarrow> res_map (proto_point c S) ps = Inr (map stored ps)"
  by (induction ps) (simp_all add: proto_point_storable)

lemma proto_points_error:
  assumes "\<exists>p \<in> set ps. \<not> storable c p"
  shows "\<exists>msg. res_map (proto_point c S) ps = Inl (invalid msg)"
  using assms
proof (induction ps)
  case Nil
  then show ?case by simp
next
  case (Cons p ps)
  show ?case
  proof (cases "storable c p")
    case True
    with Cons obtain msg where "res_map (proto_point c S) ps = Inl (invalid msg)" by auto
    with True show ?thesis by (simp add: proto_point_storable)
  next
    case False
    then obtain msg where "proto_point c S p = Inl (invalid msg)"
      using proto_point_error by blast
    then show ?thesis by simp
  qed
qed

text \<open>Copying a dictionary that already is in entry order changes nothing, so the second copy that
  \<^verbatim>\<open>UpsertRequest.create\<close> makes of the points is the first one.\<close>

lemma js_copy_id: "js_obj_ok es \<Longrightarrow> js_copy (map (\<lambda>(k, v). (k, Some v)) es) = es"
  using foldl_js_set_id [of es] by (simp add: js_copy_def foldl_map split_beta')

lemma fromPartial_point_partial: "wf_Point p \<Longrightarrow> fromPartial_Point (point_partial p) = p"
  by (simp add: point_partial_def wf_Point_def js_copy_id)

lemma stored_wf: "wf_Point (stored p)"
  by (simp add: stored_def wf_Point_def js_copy_ok)

definition upsert_request :: "string \<Rightarrow> ClientPoint list \<Rightarrow> UpsertRequest" where
  "upsert_request collection ps =
     \<lparr>UpsertRequest_collection = collection, UpsertRequest_points = map stored ps\<rparr>"

lemma create_upsert_request:
  "create_UpsertRequest (Some (Some collection, Some (map point_partial (map stored ps))))
     = upsert_request collection ps"
  by (simp add: create_UpsertRequest_def upsert_request_def fromPartial_point_partial stored_wf
      comp_def)

lemma upsert_valid:
  assumes "collection \<noteq> []" "ps \<noteq> []" "\<forall>p \<in> set ps. storable c p"
  shows "upsert c S collection ps w =
     write_call c S (s_upsert S) (upsert_request collection ps)
       (\<lambda>response. Inr (UpsertResponse_upserted response)) w"
  using assms unfolding upsert_def
  by (simp add: proto_points_storable Let_def create_upsert_request [simplified])

section \<open>Properties\<close>

text \<open>A service for the concrete examples: every call is answered at once and counted; a point is
  found only under the id \<^verbatim>\<open>a\<close>.\<close>

definition answering :: "('q \<Rightarrow> 'r) \<Rightarrow> ('q, 'r, nat) rpc" where
  "answering f =
     \<lparr>unary = (\<lambda>request meta opts n. Some (Inr (f request), Suc n)),
      events = (\<lambda>request meta opts n. ([Answer (Inr (f request))], Suc n))\<rparr>"

definition hit :: SearchResult where
  "hit = \<lparr>SearchResult_id = ''a'', SearchResult_score = Fin 1, SearchResult_payload = [],
          SearchResult_vector = []\<rparr>"

definition echo_service :: "nat service" where
  "echo_service =
     \<lparr>s_now = num_of_nat, s_random = (\<lambda>_. 0), s_show = (\<lambda>_. []),
      s_createCollection = answering (\<lambda>_. \<lparr>CreateCollectionResponse_success = True\<rparr>),
      s_listCollections = answering (\<lambda>_. \<lparr>ListCollectionsResponse_collections = [''docs'']\<rparr>),
      s_getCollectionStatus = answering (\<lambda>_. createBaseGetCollectionStatusResponse),
      s_upsert = answering (\<lambda>q. \<lparr>UpsertResponse_upserted = num_of_nat (length (UpsertRequest_points q))\<rparr>),
      s_search = answering (\<lambda>_. \<lparr>SearchResponse_results = [hit]\<rparr>),
      s_get = answering (\<lambda>q. \<lparr>GetResponse_point =
        (if GetRequest_id q = ''a'' then Some (createBasePoint\<lparr>Point_id := ''a''\<rparr>) else None)\<rparr>),
      s_delete = answering (\<lambda>_. DeleteResponse), s_close = (\<lambda>n. n)\<rparr>"

definition sample_client :: VectronClient where
  "sample_client =
     \<lparr>c_host = ''localhost:8081'', c_creds = CreateInsecure,
      c_channelOptions = channel_options defaultOptions, c_apiKey = Some ''k'',
      c_options = defaultOptions\<lparr>o_expectedVectorDim := Some (Fin 2)\<rparr>\<rparr>"

lemmas sample_simps =
  answering_def hit_def echo_service_def sample_client_def defaultOptions_def storable_def
  dim_ok_def js_eq_def truthy_num_def

text \<open>C15: An upsert with an empty collection name, or with a point that has no id, no vector or a
  vector of another dimension than \<^verbatim>\<open>expectedVectorDim\<close>, is rejected with an
  \<^verbatim>\<open>InvalidArgumentError\<close> before anything is sent: one bad point among many keeps all of them
  from the network. The dimension is compared when \<^verbatim>\<open>expectedVectorDim\<close> is truthy. The help text says
  when it is positive; with a negative one every point is rejected (\<open>negative_dim_rejects\<close>).\<close>

theorem upsert_rejects_invalid:
  assumes "collection = [] \<or> (\<exists>p \<in> set ps. \<not> storable c p)"
  shows "\<exists>msg. upsert c S collection ps w = Some (Inl (TError (new_InvalidArgumentError msg)), [], w)"
proof (cases "collection = []")
  case True
  then have "upsert c S collection ps w
      = Some (Inl (TError (new_InvalidArgumentError ''Collection name cannot be empty.'')), [], w)"
    by (simp add: upsert_def api_simps)
  then show ?thesis ..
next
  case False
  with assms have bad: "\<exists>p \<in> set ps. \<not> storable c p" by simp
  then obtain msg where "res_map (proto_point c S) ps = Inl (invalid msg)"
    using proto_points_error by blast
  with False bad show ?thesis by (auto simp: upsert_def api_simps)
qed

theorem upsert_rejects_invalid_witness:
  "\<exists>msg. upsert sample_client echo_service ''docs''
      [\<lparr>cp_id = ''a'', cp_vector = [Fin 1, Fin 2], cp_payload = None\<rparr>,
       \<lparr>cp_id = ''b'', cp_vector = [Fin 1], cp_payload = None\<rparr>] 0
    = Some (Inl (TError (new_InvalidArgumentError msg)), [], 0)"
  by (rule upsert_rejects_invalid) (simp add: sample_simps)

text \<open>A valid upsert makes, unless \<^verbatim>\<open>retryOnWrites\<close> is set, exactly one RPC, with the caller's
  points in their order, the API key in the metadata and the deadline in the options; its
  outcome is the server's count, or the server's error translated to a class of the client.\<close>

theorem upsert_sends_once:
  assumes "collection \<noteq> []" "ps \<noteq> []" "\<forall>p \<in> set ps. storable c p"
    and "\<not> truthy_obool (o_retryOnWrites (c_options c))"
    and "unary (s_upsert S)
           \<lparr>UpsertRequest_collection = collection, UpsertRequest_points = map stored ps\<rparr>
           (getMetadata c) (getCallOptions c (s_now S w)) w = Some (res, w')"
  shows "upsert c S collection ps w =
     Some (case res of Inl e \<Rightarrow> Inl (rethrow e) | Inr r \<Rightarrow> Inr (UpsertResponse_upserted r), [], w')"
  unfolding upsert_valid [OF assms(1-3)]
  using write_call_once [OF assms(4,5), where cb = "\<lambda>r. Inr (UpsertResponse_upserted r)"]
  by (simp add: upsert_request_def settle_def res_bind_def split: sum.split_asm)

theorem upsert_sends_once_witness:
  "upsert sample_client echo_service ''docs''
     [\<lparr>cp_id = ''a'', cp_vector = [Fin 1, Fin 2], cp_payload = None\<rparr>] 4
   = Some (Inr (Fin 1), [], 5)"
  using upsert_sends_once [where c = sample_client and S = echo_service and collection = "''docs''"
      and ps = "[\<lparr>cp_id = ''a'', cp_vector = [Fin 1, Fin 2], cp_payload = None\<rparr>]" and w = 4
      and w' = 5 and res = "Inr \<lparr>UpsertResponse_upserted = Fin 1\<rparr>"]
  by (simp add: sample_simps)

text \<open>A point that is not there is reported as a \<^verbatim>\<open>NotFoundError\<close>, also when the server answers
  without an error: the empty answer is not retried, and the caller gets no half-filled point.\<close>

theorem get_missing_point:
  assumes "collection \<noteq> []" "pointId \<noteq> []" "\<not> truthy_obool (o_hedgedReads (c_options c))"
    and "unary (s_get S) \<lparr>GetRequest_collection = collection, GetRequest_id = pointId\<rparr>
           (getMetadata c) (getCallOptions c (s_now S w)) w
         = Some (Inr \<lparr>GetResponse_point = None\<rparr>, w')"
  shows "get c S collection pointId w =
     Some (Inl (TError (new_NotFoundError (''Point with id '' @ pointId @ '' not found.''))), [], w')"
  using assms(1,2) by (auto simp: get_def create_GetRequest_def intro: read_call_answered(2) [OF assms(3,4)])

theorem get_missing_point_witness:
  "get sample_client echo_service ''docs'' ''b'' 0 =
     Some (Inl (TError (new_NotFoundError (''Point with id '' @ ''b'' @ '' not found.''))), [], 1)"
  by (rule get_missing_point) (simp_all add: sample_simps)

text \<open>A search returns one result per hit of the server, in the server's order, with its id,
  score and payload; the query goes out with the caller's vector and \<^verbatim>\<open>topK\<close>, 10 by default,
  and every other request field at its protobuf default.\<close>

theorem search_returns_hits:
  assumes "collection \<noteq> []" "vector \<noteq> []" "dim_ok c vector"
    and "\<not> truthy_obool (o_hedgedReads (c_options c))"
    and "unary (s_search S)
           (createBaseSearchRequest\<lparr>SearchRequest_collection := collection,
              SearchRequest_vector := vector, SearchRequest_topK := nullish topK (Fin 10)\<rparr>)
           (getMetadata c) (getCallOptions c (s_now S w)) w
         = Some (Inr \<lparr>SearchResponse_results = hits\<rparr>, w')"
  shows "\<exists>rs. search c S collection vector topK w = Some (Inr rs, [], w')
     \<and> length rs = length hits
     \<and> list_all2 (\<lambda>r h. csr_id r = SearchResult_id h \<and> csr_score r = SearchResult_score h
          \<and> csr_payload r = Some (SearchResult_payload h)) rs hits"
proof -
  have "unary (s_search S)
      (create_SearchRequest (Some (Some collection, Some vector, Some (nullish topK (Fin 10)), None, None, None, None)))
      (getMetadata c) (getCallOptions c (s_now S w)) w = Some (Inr \<lparr>SearchResponse_results = hits\<rparr>, w')"
    using assms(5) by (simp add: create_SearchRequest_def createBaseSearchRequest_def)
  note answered = read_call_answered(1) [OF assms(4) this]
  let ?rs = "map (\<lambda>r. \<lparr>csr_id = SearchResult_id r, csr_score = SearchResult_score r,
     csr_payload = Some (SearchResult_payload r)\<rparr>) hits"
  have "search c S collection vector topK w = Some (Inr ?rs, [], w')"
    using assms(1-3) by (simp add: search_def validateVectorDim_ok [THEN iffD2] Let_def answered)
  then show ?thesis by (auto simp: list_all2_conv_all_nth)
qed

theorem search_returns_hits_witness:
  "\<exists>rs. search sample_client echo_service ''docs'' [Fin 1, Fin 2] None 0 = Some (Inr rs, [], 1)
     \<and> length rs = length [hit]
     \<and> list_all2 (\<lambda>r h. csr_id r = SearchResult_id h \<and> csr_score r = SearchResult_score h
          \<and> csr_payload r = Some (SearchResult_payload h)) rs [hit]"
  by (rule search_returns_hits) (simp_all add: sample_simps)

text \<open>What one of these calls throws is an instance of \<^verbatim>\<open>VectronError\<close>, or a value without status
  code that the transport itself threw.\<close>

lemma single_call_throws_own:
  assumes "createCollection c S nm d metric w = Some (Inl t, slept, w')
    \<or> listCollections c S w = Some (Inl t, slept, w')
    \<or> getCollectionStatus c S nm w = Some (Inl t, slept, w')
    \<or> upsert c S nm ps w = Some (Inl t, slept, w')
    \<or> search c S nm v k w = Some (Inl t, slept, w')
    \<or> get c S nm i w = Some (Inl t, slept, w')
    \<or> delete c S nm i w = Some (Inl t, slept, w')"
  shows "instanceof_VectronError t \<or> (\<exists>x. t = TOther x)"
proof -
  have proto: "\<exists>msg. e = invalid msg" if "res_map (proto_point c S) ps = Inl e" for e
    using res_map_Inl_witness [OF that] proto_point_error proto_point_storable
    by (metis Inl_inject Inr_Inl_False)
  have dims: "\<exists>msg. e = invalid msg" if "validateVectorDim c S v = Inl e" for e
    using that by (rule validateVectorDim_error)
  note own = throw_translated read_call_translated write_call_translated
  note defs = createCollection_def listCollections_def getCollectionStatus_def upsert_def
    search_def get_def delete_def Let_def invalid_def
  from assms show ?thesis
    by (elim disjE)
       (auto simp: defs split: if_splits sum.splits dest!: own dims proto)
qed

end
