(* ===== verification/Service_Wire.thy ===== *)
theory Service_Wire
  imports Client_Api
begin

text \<open>
  The method tables of the generated services (\<^verbatim>\<open>VectronServiceService\<close> in \<^verbatim>\<open>apigateway.ts\<close> and
  \<^verbatim>\<open>AuthServiceService\<close> in \<^verbatim>\<open>auth.ts\<close>): the path of each RPC and the functions that turn its
  messages into bytes and back. \<open>remote\<close> is an RPC whose transport delivers those bytes: the
  stub serializes, the server reads the bytes and handles the message, and its answer comes back
  the same way.
\<close>

section \<open>Methods\<close>

record ('q, 'p) rpc_method =
  path :: string
  requestStream :: bool
  responseStream :: bool
  requestSerialize :: "'q \<Rightarrow> thrown + byte list"
  requestDeserialize :: "byte list \<Rightarrow> 'q comp"
  responseSerialize :: "'p \<Rightarrow> thrown + byte list"
  responseDeserialize :: "byte list \<Rightarrow> 'p comp"

text \<open>\<^verbatim>\<open>Buffer.from(X.encode(value).finish())\<close>\<close>

definition serialize :: "('w, 'r) wire \<Rightarrow> ('x \<Rightarrow> 'w writes) \<Rightarrow> 'x \<Rightarrow> thrown + byte list" where
  "serialize W e x = res_bind (e x (w_new W)) (\<lambda>w. Inr (w_finish W w))"

section \<open>The gateway\<close>

definition VectronService_createCollection :: "('w, 'r) wire \<Rightarrow> (CreateCollectionRequest, CreateCollectionResponse) rpc_method" where
  "VectronService_createCollection W =
     \<lparr>path = ''/vectron.v1.VectronService/CreateCollection'', requestStream = False, responseStream = False,
      requestSerialize = serialize W (encode_CreateCollectionRequest W), requestDeserialize = decode_bytes W (decode_CreateCollectionRequest W),
      responseSerialize = serialize W (encode_CreateCollectionResponse W), responseDeserialize = decode_bytes W (decode_CreateCollectionResponse W)\<rparr>"

definition VectronService_deleteCollection :: "('w, 'r) wire \<Rightarrow> (DeleteCollectionRequest, DeleteCollectionResponse) rpc_method" where
  "VectronService_deleteCollection W =
     \<lparr>path = ''/vectron.v1.VectronService/DeleteCollection'', requestStream = False, responseStream = False,
      requestSerialize = serialize W (encode_DeleteCollectionRequest W), requestDeserialize = decode_bytes W (decode_DeleteCollectionRequest W),
      responseSerialize = serialize W (encode_DeleteCollectionResponse W), responseDeserialize = decode_bytes W (decode_DeleteCollectionResponse W)\<rparr>"

definition VectronService_upsert :: "('w, 'r) wire \<Rightarrow> (UpsertRequest, UpsertResponse) rpc_method" where
  "VectronService_upsert W =
     \<lparr>path = ''/vectron.v1.VectronService/Upsert'', requestStream = False, responseStream = False,
      requestSerialize = serialize W (encode_UpsertRequest W), requestDeserialize = decode_bytes W (decode_UpsertRequest W),
      responseSerialize = serialize W (encode_UpsertResponse W), responseDeserialize = decode_bytes W (decode_UpsertResponse W)\<rparr>"

definition VectronService_search :: "('w, 'r) wire \<Rightarrow> (SearchRequest, SearchResponse) rpc_method" where
  "VectronService_search W =
     \<lparr>path = ''/vectron.v1.VectronService/Search'', requestStream = False, responseStream = False,
      requestSerialize = serialize W (encode_SearchRequest W), requestDeserialize = decode_bytes W (decode_SearchRequest W),
      responseSerialize = serialize W (encode_SearchResponse W), responseDeserialize = decode_bytes W (decode_SearchResponse W)\<rparr>"

definition VectronService_searchStream :: "('w, 'r) wire \<Rightarrow> (SearchRequest, SearchResponse) rpc_method" where
  "VectronService_searchStream W =
     \<lparr>path = ''/vectron.v1.VectronService/SearchStream'', requestStream = False, responseStream = True,
      requestSerialize = serialize W (encode_SearchRequest W), requestDeserialize = decode_bytes W (decode_SearchRequest W),
      responseSerialize = serialize W (encode_SearchResponse W), responseDeserialize = decode_bytes W (decode_SearchResponse W)\<rparr>"

definition VectronService_get :: "('w, 'r) wire \<Rightarrow> (GetRequest, GetResponse) rpc_method" where
  "VectronService_get W =
     \<lparr>path = ''/vectron.v1.VectronService/Get'', requestStream = False, responseStream = False,
      requestSerialize = serialize W (encode_GetRequest W), requestDeserialize = decode_bytes W (decode_GetRequest W),
      responseSerialize = serialize W (encode_GetResponse W), responseDeserialize = decode_bytes W (decode_GetResponse W)\<rparr>"

definition VectronService_delete :: "('w, 'r) wire \<Rightarrow> (DeleteRequest, DeleteResponse) rpc_method" where
  "VectronService_delete W =
     \<lparr>path = ''/vectron.v1.VectronService/Delete'', requestStream = False, responseStream = False,
      requestSerialize = serialize W (encode_DeleteRequest W), requestDeserialize = decode_bytes W (decode_DeleteRequest W),
      responseSerialize = serialize W (encode_DeleteResponse W), responseDeserialize = decode_bytes W (decode_DeleteResponse W)\<rparr>"

definition VectronService_listCollections :: "('w, 'r) wire \<Rightarrow> (ListCollectionsRequest, ListCollectionsResponse) rpc_method" where
  "VectronService_listCollections W =
     \<lparr>path = ''/vectron.v1.VectronService/ListCollections'', requestStream = False, responseStream = False,
      requestSerialize = serialize W (encode_ListCollectionsRequest W), requestDeserialize = decode_bytes W (decode_ListCollectionsRequest W),
      responseSerialize = serialize W (encode_ListCollectionsResponse W), responseDeserialize = decode_bytes W (decode_ListCollectionsResponse W)\<rparr>"

definition VectronService_getCollectionStatus :: "('w, 'r) wire \<Rightarrow> (GetCollectionStatusRequest, GetCollectionStatusResponse) rpc_method" where
  "VectronService_getCollectionStatus W =
     \<lparr>path = ''/vectron.v1.VectronService/GetCollectionStatus'', requestStream = False, responseStream = False,
      requestSerialize = serialize W (encode_GetCollectionStatusRequest W), requestDeserialize = decode_bytes W (decode_GetCollectionStatusRequest W),
      responseSerialize = serialize W (encode_GetCollectionStatusResponse W), responseDeserialize = decode_bytes W (decode_GetCollectionStatusResponse W)\<rparr>"

definition VectronService_updateUserProfile :: "('w, 'r) wire \<Rightarrow> (UpdateUserProfileRequest, UpdateUserProfileResponse) rpc_method" where
  "VectronService_updateUserProfile W =
     \<lparr>path = ''/vectron.v1.VectronService/UpdateUserProfile'', requestStream = False, responseStream = False,
      requestSerialize = serialize W (encode_UpdateUserProfileRequest W), requestDeserialize = decode_bytes W (decode_UpdateUserProfileRequest W),
      responseSerialize = serialize W (encode_UpdateUserProfileResponse W), responseDeserialize = decode_bytes W (decode_UpdateUserProfileResponse W)\<rparr>"

definition VectronService_submitFeedback :: "('w, 'r) wire \<Rightarrow> (SubmitFeedbackRequest, SubmitFeedbackResponse) rpc_method" where
  "VectronService_submitFeedback W =
     \<lparr>path = ''/vectron.v1.VectronService/SubmitFeedback'', requestStream = False, responseStream = False,
      requestSerialize = serialize W (encode_SubmitFeedbackRequest W), requestDeserialize = decode_bytes W (decode_SubmitFeedbackRequest W),
      responseSerialize = serialize W (encode_SubmitFeedbackResponse W), responseDeserialize = decode_bytes W (decode_SubmitFeedbackResponse W)\<rparr>"

section \<open>The auth service\<close>

definition AuthService_registerUser :: "('w, 'r) wire \<Rightarrow> (RegisterUserRequest, RegisterUserResponse) rpc_method" where
  "AuthService_registerUser W =
     \<lparr>path = ''/vectron.auth.v1.AuthService/RegisterUser'', requestStream = False, responseStream = False,
      requestSerialize = serialize W (encode_RegisterUserRequest W), requestDeserialize = decode_bytes W (decode_RegisterUserRequest W),
      responseSerialize = serialize W (encode_RegisterUserResponse W), responseDeserialize = decode_bytes W (decode_RegisterUserResponse W)\<rparr>"

definition AuthService_login :: "('w, 'r) wire \<Rightarrow> (LoginRequest, LoginResponse) rpc_method" where
  "AuthService_login W =
     \<lparr>path = ''/vectron.auth.v1.AuthService/Login'', requestStream = False, responseStream = False,
      requestSerialize = serialize W (encode_LoginRequest W), requestDeserialize = decode_bytes W (decode_LoginRequest W),
      responseSerialize = serialize W (encode_LoginResponse W), responseDeserialize = decode_bytes W (decode_LoginResponse W)\<rparr>"

definition AuthService_getUserProfile :: "('w, 'r) wire \<Rightarrow> (GetUserProfileRequest, GetUserProfileResponse) rpc_method" where
  "AuthService_getUserProfile W =
     \<lparr>path = ''/vectron.auth.v1.AuthService/GetUserProfile'', requestStream = False, responseStream = False,
      requestSerialize = serialize W (encode_GetUserProfileRequest W), requestDeserialize = decode_bytes W (decode_GetUserProfileRequest W),
      responseSerialize = serialize W (encode_GetUserProfileResponse W), responseDeserialize = decode_bytes W (decode_GetUserProfileResponse W)\<rparr>"

definition AuthService_updateUserProfile :: "('w, 'r) wire \<Rightarrow> (AuthUpdateUserProfileRequest, AuthUpdateUserProfileResponse) rpc_method" where
  "AuthService_updateUserProfile W =
     \<lparr>path = ''/vectron.auth.v1.AuthService/UpdateUserProfile'', requestStream = False, responseStream = False,
      requestSerialize = serialize W (encode_AuthUpdateUserProfileRequest W), requestDeserialize = decode_bytes W (decode_AuthUpdateUserProfileRequest W),
      responseSerialize = serialize W (encode_AuthUpdateUserProfileResponse W), responseDeserialize = decode_bytes W (decode_AuthUpdateUserProfileResponse W)\<rparr>"

definition AuthService_deleteUser :: "('w, 'r) wire \<Rightarrow> (DeleteUserRequest, DeleteUserResponse) rpc_method" where
  "AuthService_deleteUser W =
     \<lparr>path = ''/vectron.auth.v1.AuthService/DeleteUser'', requestStream = False, responseStream = False,
      requestSerialize = serialize W (encode_DeleteUserRequest W), requestDeserialize = decode_bytes W (decode_DeleteUserRequest W),
      responseSerialize = serialize W (encode_DeleteUserResponse W), responseDeserialize = decode_bytes W (decode_DeleteUserResponse W)\<rparr>"

definition AuthService_refreshToken :: "('w, 'r) wire \<Rightarrow> (RefreshTokenRequest, RefreshTokenResponse) rpc_method" where
  "AuthService_refreshToken W =
     \<lparr>path = ''/vectron.auth.v1.AuthService/RefreshToken'', requestStream = False, responseStream = False,
      requestSerialize = serialize W (encode_RefreshTokenRequest W), requestDeserialize = decode_bytes W (decode_RefreshTokenRequest W),
      responseSerialize = serialize W (encode_RefreshTokenResponse W), responseDeserialize = decode_bytes W (decode_RefreshTokenResponse W)\<rparr>"

definition AuthService_createApiKey :: "('w, 'r) wire \<Rightarrow> (CreateAPIKeyRequest, CreateAPIKeyResponse) rpc_method" where
  "AuthService_createApiKey W =
     \<lparr>path = ''/vectron.auth.v1.AuthService/CreateAPIKey'', requestStream = False, responseStream = False,
      requestSerialize = serialize W (encode_CreateAPIKeyRequest W), requestDeserialize = decode_bytes W (decode_CreateAPIKeyRequest W),
      responseSerialize = serialize W (encode_CreateAPIKeyResponse W), responseDeserialize = decode_bytes W (decode_CreateAPIKeyResponse W)\<rparr>"

definition AuthService_listApiKeys :: "('w, 'r) wire \<Rightarrow> (ListAPIKeysRequest, ListAPIKeysResponse) rpc_method" where
  "AuthService_listApiKeys W =
     \<lparr>path = ''/vectron.auth.v1.AuthService/ListAPIKeys'', requestStream = False, responseStream = False,
      requestSerialize = serialize W (encode_ListAPIKeysRequest W), requestDeserialize = decode_bytes W (decode_ListAPIKeysRequest W),
      responseSerialize = serialize W (encode_ListAPIKeysResponse W), responseDeserialize = decode_bytes W (decode_ListAPIKeysResponse W)\<rparr>"

definition AuthService_deleteApiKey :: "('w, 'r) wire \<Rightarrow> (DeleteAPIKeyRequest, DeleteAPIKeyResponse) rpc_method" where
  "AuthService_deleteApiKey W =
     \<lparr>path = ''/vectron.auth.v1.AuthService/DeleteAPIKey'', requestStream = False, responseStream = False,
      requestSerialize = serialize W (encode_DeleteAPIKeyRequest W), requestDeserialize = decode_bytes W (decode_DeleteAPIKeyRequest W),
      responseSerialize = serialize W (encode_DeleteAPIKeyResponse W), responseDeserialize = decode_bytes W (decode_DeleteAPIKeyResponse W)\<rparr>"

definition AuthService_validateApiKey :: "('w, 'r) wire \<Rightarrow> (ValidateAPIKeyRequest, ValidateAPIKeyResponse) rpc_method" where
  "AuthService_validateApiKey W =
     \<lparr>path = ''/vectron.auth.v1.AuthService/ValidateAPIKey'', requestStream = False, responseStream = False,
      requestSerialize = serialize W (encode_ValidateAPIKeyRequest W), requestDeserialize = decode_bytes W (decode_ValidateAPIKeyRequest W),
      responseSerialize = serialize W (encode_ValidateAPIKeyResponse W), responseDeserialize = decode_bytes W (decode_ValidateAPIKeyResponse W)\<rparr>"

definition AuthService_createSdkjwt :: "('w, 'r) wire \<Rightarrow> (CreateSDKJWTRequest, CreateSDKJWTResponse) rpc_method" where
  "AuthService_createSdkjwt W =
     \<lparr>path = ''/vectron.auth.v1.AuthService/CreateSDKJWT'', requestStream = False, responseStream = False,
      requestSerialize = serialize W (encode_CreateSDKJWTRequest W), requestDeserialize = decode_bytes W (decode_CreateSDKJWTRequest W),
      responseSerialize = serialize W (encode_CreateSDKJWTResponse W), responseDeserialize = decode_bytes W (decode_CreateSDKJWTResponse W)\<rparr>"

definition AuthService_getAuthDetailsForSdk :: "('w, 'r) wire \<Rightarrow> (GetAuthDetailsForSDKRequest, GetAuthDetailsForSDKResponse) rpc_method" where
  "AuthService_getAuthDetailsForSdk W =
     \<lparr>path = ''/vectron.auth.v1.AuthService/GetAuthDetailsForSDK'', requestStream = False, responseStream = False,
      requestSerialize = serialize W (encode_GetAuthDetailsForSDKRequest W), requestDeserialize = decode_bytes W (decode_GetAuthDetailsForSDKRequest W),
      responseSerialize = serialize W (encode_GetAuthDetailsForSDKResponse W), responseDeserialize = decode_bytes W (decode_GetAuthDetailsForSDKResponse W)\<rparr>"

section \<open>Calls over the wire\<close>

definition remote ::
  "('q, 'p) rpc_method \<Rightarrow> ('q \<Rightarrow> metadata \<Rightarrow> call_options \<Rightarrow> ('p, 'w) async)
     \<Rightarrow> 'q \<Rightarrow> metadata \<Rightarrow> call_options \<Rightarrow> ('p, 'w) async" where
  "remote md handler request meta opts w =
     (case requestSerialize md request of
        Inl e \<Rightarrow> Some (Inl e, w)
      | Inr bs \<Rightarrow>
          Option.bind (requestDeserialize md bs) (\<lambda>x. case x of
            Inl e \<Rightarrow> Some (Inl e, w)
          | Inr q \<Rightarrow>
              Option.bind (handler q meta opts w) (\<lambda>(res, w'). case res of
                Inl e \<Rightarrow> Some (Inl e, w')
              | Inr r \<Rightarrow> (case responseSerialize md r of
                  Inl e \<Rightarrow> Some (Inl e, w')
                | Inr bs' \<Rightarrow> Option.bind (responseDeserialize md bs') (\<lambda>y. Some (y, w'))))))"

text \<open>A method carries its messages: what arrives is the image of what was sent.\<close>

definition carries ::
  "('q, 'p) rpc_method \<Rightarrow> ('q \<Rightarrow> 'q) \<Rightarrow> ('p \<Rightarrow> 'p) \<Rightarrow> 'q \<Rightarrow> 'p \<Rightarrow> bool" where
  "carries md f g q p \<longleftrightarrow>
     (\<forall>bs. requestSerialize md q = Inr bs \<longrightarrow> requestDeserialize md bs = Some (Inr (f q)))
     \<and> (\<forall>bs. responseSerialize md p = Inr bs \<longrightarrow> responseDeserialize md bs = Some (Inr (g p)))"

lemma remote_carried:
  assumes "carries md f g q p" "requestSerialize md q = Inr bs" "responseSerialize md p = Inr bs'"
    and "handler (f q) meta opts w = Some (Inr p, w')"
  shows "remote md handler q meta opts w = Some (Inr (g p), w')"
  using assms by (simp add: remote_def carries_def)

context wire_codec
begin

lemma serialize_back:
  assumes "codes W frames buf (e x) fld base x'" "serialize W e x = Inr bs"
  shows "decode_bytes W (decode_with W fld base) bs = Some (Inr x')"
  using assms codes_decode_bytes by (auto simp: serialize_def res_bind_Inr_iff)

lemma upsert_carries:
  assumes "wf_UpsertRequest q"
  shows "carries (VectronService_upsert W) (rounded_UpsertRequest fround) id q p"
  unfolding carries_def VectronService_upsert_def rpc_method.simps decode_UpsertRequest_def
    decode_UpsertResponse_def
  by (intro conjI allI impI; erule serialize_back [rotated])
     (simp_all add: codes_UpsertRequest [OF assms] codes_UpsertResponse)

lemma search_carries:
  assumes "wf_SearchResponse p"
  shows "carries (VectronService_search W) (rounded_SearchRequest fround) (rounded_SearchResponse fround) q p"
  unfolding carries_def VectronService_search_def rpc_method.simps decode_SearchRequest_def
    decode_SearchResponse_def
  by (intro conjI allI impI; erule serialize_back [rotated])
     (simp_all add: codes_SearchRequest codes_SearchResponse [OF assms])

lemma get_carries:
  assumes "wf_GetResponse p"
  shows "carries (VectronService_get W) id (rounded_GetResponse fround) q p"
  unfolding carries_def VectronService_get_def rpc_method.simps decode_GetRequest_def
    decode_GetResponse_def
  by (intro conjI allI impI; erule serialize_back [rotated])
     (simp_all add: codes_GetRequest codes_GetResponse [OF assms])

end

end
