(* ===== verification/Reranker_Messages.thy ===== *)
theory Reranker_Messages
  imports Wire_Bytes
begin

unbundle bit_operations_syntax

text \<open>
  The messages of \<^verbatim>\<open>clientlibs/js/proto/reranker/reranker.ts\<close>, translated in the same way as those of
  \<open>Auth_Messages\<close>.
\<close>

section \<open>Messages\<close>

subsection \<open>\<^verbatim>\<open>Candidate_MetadataEntry\<close>\<close>

record Candidate_MetadataEntry =
  Candidate_MetadataEntry_key :: string
  Candidate_MetadataEntry_value :: string

definition createBaseCandidate_MetadataEntry :: Candidate_MetadataEntry where
  "createBaseCandidate_MetadataEntry =
     \<lparr>Candidate_MetadataEntry_key = [],
      Candidate_MetadataEntry_value = []\<rparr>"

definition encode_Candidate_MetadataEntry :: "('w, 'r) wire \<Rightarrow> Candidate_MetadataEntry \<Rightarrow> 'w writes" where
  "encode_Candidate_MetadataEntry W m =
     w_seq
      [w_if (Candidate_MetadataEntry_key m \<noteq> []) (w_field W 10 (w_string W (Candidate_MetadataEntry_key m))),
       w_if (Candidate_MetadataEntry_value m \<noteq> []) (w_field W 18 (w_string W (Candidate_MetadataEntry_value m)))]"

definition switch_Candidate_MetadataEntry :: "('w, 'r) wire \<Rightarrow> ('r, Candidate_MetadataEntry) switch" where
  "switch_Candidate_MetadataEntry W tag m r =
     (if drop_bit 3 tag = 1 then
       (if tag \<noteq> 10 then Break
        else arm_read (r_string W) (\<lambda>v. m\<lparr>Candidate_MetadataEntry_key := v\<rparr>) r)
      else if drop_bit 3 tag = 2 then
       (if tag \<noteq> 18 then Break
        else arm_read (r_string W) (\<lambda>v. m\<lparr>Candidate_MetadataEntry_value := v\<rparr>) r)
      else Break)"

type_synonym Candidate_MetadataEntry_partial = "(string option) \<times> (string option)"

fun fromPartial_Candidate_MetadataEntry :: "Candidate_MetadataEntry_partial \<Rightarrow> Candidate_MetadataEntry" where
  "fromPartial_Candidate_MetadataEntry (key', value') =
     \<lparr>Candidate_MetadataEntry_key = nullish key' [],
      Candidate_MetadataEntry_value = nullish value' []\<rparr>"

definition create_Candidate_MetadataEntry :: "Candidate_MetadataEntry_partial option \<Rightarrow> Candidate_MetadataEntry" where
  "create_Candidate_MetadataEntry base = fromPartial_Candidate_MetadataEntry (nullish base (None, None))"

definition decode_Candidate_MetadataEntry :: "('w, 'r) wire \<Rightarrow> 'r \<Rightarrow> nat option \<Rightarrow> (Candidate_MetadataEntry \<times> 'r) comp" where
  "decode_Candidate_MetadataEntry W = decode_with W (switch_Candidate_MetadataEntry W) createBaseCandidate_MetadataEntry"

subsection \<open>\<^verbatim>\<open>Candidate\<close>\<close>

record Candidate =
  Candidate_id :: string
  Candidate_score :: js_num
  Candidate_vector :: "js_num list"
  Candidate_metadata :: "string js_obj"

definition createBaseCandidate :: Candidate where
  "createBaseCandidate =
     \<lparr>Candidate_id = [],
      Candidate_score = Fin 0,
      Candidate_vector = [],
      Candidate_metadata = []\<rparr>"

definition encode_Candidate :: "('w, 'r) wire \<Rightarrow> Candidate \<Rightarrow> 'w writes" where
  "encode_Candidate W m =
     w_seq
      [w_if (Candidate_id m \<noteq> []) (w_field W 10 (w_string W (Candidate_id m))),
       w_if (\<not> js_eq (Candidate_score m) (Fin 0)) (w_field W 21 (w_float W (Candidate_score m))),
       w_nested W 26 (w_seq (map (w_float W) (Candidate_vector m))),
       w_seq (map (\<lambda>(key, value). w_nested W 34
          (encode_Candidate_MetadataEntry W \<lparr>Candidate_MetadataEntry_key = key, Candidate_MetadataEntry_value = value\<rparr>)) (Candidate_metadata m))]"

definition switch_Candidate :: "('w, 'r) wire \<Rightarrow> ('r, Candidate) switch" where
  "switch_Candidate W tag m r =
     (if drop_bit 3 tag = 1 then
       (if tag \<noteq> 10 then Break
        else arm_read (r_string W) (\<lambda>v. m\<lparr>Candidate_id := v\<rparr>) r)
      else if drop_bit 3 tag = 2 then
       (if tag \<noteq> 21 then Break
        else arm_read (r_float W) (\<lambda>v. m\<lparr>Candidate_score := v\<rparr>) r)
      else if drop_bit 3 tag = 3 then
       (if tag = 29 then arm_read (r_float W) (\<lambda>v. m\<lparr>Candidate_vector := Candidate_vector m @ [v]\<rparr>) r
        else if tag = 26 then arm_packed W (r_float W) (\<lambda>vs. m\<lparr>Candidate_vector := Candidate_vector m @ vs\<rparr>) r
        else Break)
      else if drop_bit 3 tag = 4 then
       (if tag \<noteq> 34 then Break
        else arm_sub W (decode_Candidate_MetadataEntry W)
          (\<lambda>e. m\<lparr>Candidate_metadata := js_set (Candidate_MetadataEntry_key e) (Candidate_MetadataEntry_value e) (Candidate_metadata m)\<rparr>) r)
      else Break)"

type_synonym Candidate_partial = "(string option) \<times> (js_num option) \<times> (js_num list option) \<times> (string option js_obj option)"

fun fromPartial_Candidate :: "Candidate_partial \<Rightarrow> Candidate" where
  "fromPartial_Candidate (id', score', vector', metadata') =
     \<lparr>Candidate_id = nullish id' [],
      Candidate_score = nullish score' (Fin 0),
      Candidate_vector = nullish vector' [],
      Candidate_metadata = js_copy (nullish metadata' [])\<rparr>"

definition create_Candidate :: "Candidate_partial option \<Rightarrow> Candidate" where
  "create_Candidate base = fromPartial_Candidate (nullish base (None, None, None, None))"

definition decode_Candidate :: "('w, 'r) wire \<Rightarrow> 'r \<Rightarrow> nat option \<Rightarrow> (Candidate \<times> 'r) comp" where
  "decode_Candidate W = decode_with W (switch_Candidate W) createBaseCandidate"

subsection \<open>\<^verbatim>\<open>RerankRequest_OptionsEntry\<close>\<close>

record RerankRequest_OptionsEntry =
  RerankRequest_OptionsEntry_key :: string
  RerankRequest_OptionsEntry_value :: string

definition createBaseRerankRequest_OptionsEntry :: RerankRequest_OptionsEntry where
  "createBaseRerankRequest_OptionsEntry =
     \<lparr>RerankRequest_OptionsEntry_key = [],
      RerankRequest_OptionsEntry_value = []\<rparr>"

definition encode_RerankRequest_OptionsEntry :: "('w, 'r) wire \<Rightarrow> RerankRequest_OptionsEntry \<Rightarrow> 'w writes" where
  "encode_RerankRequest_OptionsEntry W m =
     w_seq
      [w_if (RerankRequest_OptionsEntry_key m \<noteq> []) (w_field W 10 (w_string W (RerankRequest_OptionsEntry_key m))),
       w_if (RerankRequest_OptionsEntry_value m \<noteq> []) (w_field W 18 (w_string W (RerankRequest_OptionsEntry_value m)))]"

definition switch_RerankRequest_OptionsEntry :: "('w, 'r) wire \<Rightarrow> ('r, RerankRequest_OptionsEntry) switch" where
  "switch_RerankRequest_OptionsEntry W tag m r =
     (if drop_bit 3 tag = 1 then
       (if tag \<noteq> 10 then Break
        else arm_read (r_string W) (\<lambda>v. m\<lparr>RerankRequest_OptionsEntry_key := v\<rparr>) r)
      else if drop_bit 3 tag = 2 then
       (if tag \<noteq> 18 then Break
        else arm_read (r_string W) (\<lambda>v. m\<lparr>RerankRequest_OptionsEntry_value := v\<rparr>) r)
      else Break)"

type_synonym RerankRequest_OptionsEntry_partial = "(string option) \<times> (string option)"

fun fromPartial_RerankRequest_OptionsEntry :: "RerankRequest_OptionsEntry_partial \<Rightarrow> RerankRequest_OptionsEntry" where
  "fromPartial_RerankRequest_OptionsEntry (key', value') =
     \<lparr>RerankRequest_OptionsEntry_key = nullish key' [],
      RerankRequest_OptionsEntry_value = nullish value' []\<rparr>"

definition create_RerankRequest_OptionsEntry :: "RerankRequest_OptionsEntry_partial option \<Rightarrow> RerankRequest_OptionsEntry" where
  "create_RerankRequest_OptionsEntry base = fromPartial_RerankRequest_OptionsEntry (nullish base (None, None))"

definition decode_RerankRequest_OptionsEntry :: "('w, 'r) wire \<Rightarrow> 'r \<Rightarrow> nat option \<Rightarrow> (RerankRequest_OptionsEntry \<times> 'r) comp" where
  "decode_RerankRequest_OptionsEntry W = decode_with W (switch_RerankRequest_OptionsEntry W) createBaseRerankRequest_OptionsEntry"

subsection \<open>\<^verbatim>\<open>RerankRequest\<close>\<close>

record RerankRequest =
  RerankRequest_query :: string
  RerankRequest_candidates :: "Candidate list"
  RerankRequest_topN :: js_num
  RerankRequest_options :: "string js_obj"

definition createBaseRerankRequest :: RerankRequest where
  "createBaseRerankRequest =
     \<lparr>RerankRequest_query = [],
      RerankRequest_candidates = [],
      RerankRequest_topN = Fin 0,
      RerankRequest_options = []\<rparr>"

definition encode_RerankRequest :: "('w, 'r) wire \<Rightarrow> RerankRequest \<Rightarrow> 'w writes" where
  "encode_RerankRequest W m =
     w_seq
      [w_if (RerankRequest_query m \<noteq> []) (w_field W 10 (w_string W (RerankRequest_query m))),
       w_seq (map (\<lambda>v. w_nested W 18 (encode_Candidate W v)) (RerankRequest_candidates m)),
       w_if (\<not> js_eq (RerankRequest_topN m) (Fin 0)) (w_field W 24 (w_int32 W (RerankRequest_topN m))),
       w_seq (map (\<lambda>(key, value). w_nested W 34
          (encode_RerankRequest_OptionsEntry W \<lparr>RerankRequest_OptionsEntry_key = key, RerankRequest_OptionsEntry_value = value\<rparr>)) (RerankRequest_options m))]"

definition switch_RerankRequest :: "('w, 'r) wire \<Rightarrow> ('r, RerankRequest) switch" where
  "switch_RerankRequest W tag m r =
     (if drop_bit 3 tag = 1 then
       (if tag \<noteq> 10 then Break
        else arm_read (r_string W) (\<lambda>v. m\<lparr>RerankRequest_query := v\<rparr>) r)
      else if drop_bit 3 tag = 2 then
       (if tag \<noteq> 18 then Break
        else arm_sub W (decode_Candidate W) (\<lambda>v. m\<lparr>RerankRequest_candidates := RerankRequest_candidates m @ [v]\<rparr>) r)
      else if drop_bit 3 tag = 3 then
       (if tag \<noteq> 24 then Break
        else arm_read (r_int32 W) (\<lambda>v. m\<lparr>RerankRequest_topN := num_of_int (sint v)\<rparr>) r)
      else if drop_bit 3 tag = 4 then
       (if tag \<noteq> 34 then Break
        else arm_sub W (decode_RerankRequest_OptionsEntry W)
          (\<lambda>e. m\<lparr>RerankRequest_options := js_set (RerankRequest_OptionsEntry_key e) (RerankRequest_OptionsEntry_value e) (RerankRequest_options m)\<rparr>) r)
      else Break)"

type_synonym RerankRequest_partial = "(string option) \<times> (Candidate_partial list option) \<times> (js_num option) \<times> (string option js_obj option)"

fun fromPartial_RerankRequest :: "RerankRequest_partial \<Rightarrow> RerankRequest" where
  "fromPartial_RerankRequest (query', candidates', topN', options') =
     \<lparr>RerankRequest_query = nullish query' [],
      RerankRequest_candidates = map fromPartial_Candidate (nullish candidates' []),
      RerankRequest_topN = nullish topN' (Fin 0),
      RerankRequest_options = js_copy (nullish options' [])\<rparr>"

definition create_RerankRequest :: "RerankRequest_partial option \<Rightarrow> RerankRequest" where
  "create_RerankRequest base = fromPartial_RerankRequest (nullish base (None, None, None, None))"

definition decode_RerankRequest :: "('w, 'r) wire \<Rightarrow> 'r \<Rightarrow> nat option \<Rightarrow> (RerankRequest \<times> 'r) comp" where
  "decode_RerankRequest W = decode_with W (switch_RerankRequest W) createBaseRerankRequest"

subsection \<open>\<^verbatim>\<open>ScoredCandidate\<close>\<close>

record ScoredCandidate =
  ScoredCandidate_id :: string
  ScoredCandidate_rerankScore :: js_num
  ScoredCandidate_originalScore :: js_num
  ScoredCandidate_explanation :: string

definition createBaseScoredCandidate :: ScoredCandidate where
  "createBaseScoredCandidate =
     \<lparr>ScoredCandidate_id = [],
      ScoredCandidate_rerankScore = Fin 0,
      ScoredCandidate_originalScore = Fin 0,
      ScoredCandidate_explanation = []\<rparr>"

definition encode_ScoredCandidate :: "('w, 'r) wire \<Rightarrow> ScoredCandidate \<Rightarrow> 'w writes" where
  "encode_ScoredCandidate W m =
     w_seq
      [w_if (ScoredCandidate_id m \<noteq> []) (w_field W 10 (w_string W (ScoredCandidate_id m))),
       w_if (\<not> js_eq (ScoredCandidate_rerankScore m) (Fin 0)) (w_field W 21 (w_float W (ScoredCandidate_rerankScore m))),
       w_if (\<not> js_eq (ScoredCandidate_originalScore m) (Fin 0)) (w_field W 29 (w_float W (ScoredCandidate_originalScore m))),
       w_if (ScoredCandidate_explanation m \<noteq> []) (w_field W 34 (w_string W (ScoredCandidate_explanation m)))]"

definition switch_ScoredCandidate :: "('w, 'r) wire \<Rightarrow> ('r, ScoredCandidate) switch" where
  "switch_ScoredCandidate W tag m r =
     (if drop_bit 3 tag = 1 then
       (if tag \<noteq> 10 then Break
        else arm_read (r_string W) (\<lambda>v. m\<lparr>ScoredCandidate_id := v\<rparr>) r)
      else if drop_bit 3 tag = 2 then
       (if tag \<noteq> 21 then Break
        else arm_read (r_float W) (\<lambda>v. m\<lparr>ScoredCandidate_rerankScore := v\<rparr>) r)
      else if drop_bit 3 tag = 3 then
       (if tag \<noteq> 29 then Break
        else arm_read (r_float W) (\<lambda>v. m\<lparr>ScoredCandidate_originalScore := v\<rparr>) r)
      else if drop_bit 3 tag = 4 then
       (if tag \<noteq> 34 then Break
        else arm_read (r_string W) (\<lambda>v. m\<lparr>ScoredCandidate_explanation := v\<rparr>) r)
      else Break)"

type_synonym ScoredCandidate_partial = "(string option) \<times> (js_num option) \<times> (js_num option) \<times> (string option)"

fun fromPartial_ScoredCandidate :: "ScoredCandidate_partial \<Rightarrow> ScoredCandidate" where
  "fromPartial_ScoredCandidate (id', rerankScore', originalScore', explanation') =
     \<lparr>ScoredCandidate_id = nullish id' [],
      ScoredCandidate_rerankScore = nullish rerankScore' (Fin 0),
      ScoredCandidate_originalScore = nullish originalScore' (Fin 0),
      ScoredCandidate_explanation = nullish explanation' []\<rparr>"

definition create_ScoredCandidate :: "ScoredCandidate_partial option \<Rightarrow> ScoredCandidate" where
  "create_ScoredCandidate base = fromPartial_ScoredCandidate (nullish base (None, None, None, None))"

definition decode_ScoredCandidate :: "('w, 'r) wire \<Rightarrow> 'r \<Rightarrow> nat option \<Rightarrow> (ScoredCandidate \<times> 'r) comp" where
  "decode_ScoredCandidate W = decode_with W (switch_ScoredCandidate W) createBaseScoredCandidate"

subsection \<open>\<^verbatim>\<open>RerankResponse\<close>\<close>

record RerankResponse =
  RerankResponse_results :: "ScoredCandidate list"
  RerankResponse_strategyUsed :: string
  RerankResponse_fromCache :: bool
  RerankResponse_latencyMs :: string

definition createBaseRerankResponse :: RerankResponse where
  "createBaseRerankResponse =
     \<lparr>RerankResponse_results = [],
      RerankResponse_strategyUsed = [],
      RerankResponse_fromCache = False,
      RerankResponse_latencyMs = ''0''\<rparr>"

definition encode_RerankResponse :: "('w, 'r) wire \<Rightarrow> RerankResponse \<Rightarrow> 'w writes" where
  "encode_RerankResponse W m =
     w_seq
      [w_seq (map (\<lambda>v. w_nested W 10 (encode_ScoredCandidate W v)) (RerankResponse_results m)),
       w_if (RerankResponse_strategyUsed m \<noteq> []) (w_field W 18 (w_string W (RerankResponse_strategyUsed m))),
       w_if (RerankResponse_fromCache m) (w_field W 24 (w_bool W (RerankResponse_fromCache m))),
       w_if (RerankResponse_latencyMs m \<noteq> ''0'') (w_field W 32 (w_int64 W (RerankResponse_latencyMs m)))]"

definition switch_RerankResponse :: "('w, 'r) wire \<Rightarrow> ('r, RerankResponse) switch" where
  "switch_RerankResponse W tag m r =
     (if drop_bit 3 tag = 1 then
       (if tag \<noteq> 10 then Break
        else arm_sub W (decode_ScoredCandidate W) (\<lambda>v. m\<lparr>RerankResponse_results := RerankResponse_results m @ [v]\<rparr>) r)
      else if drop_bit 3 tag = 2 then
       (if tag \<noteq> 18 then Break
        else arm_read (r_string W) (\<lambda>v. m\<lparr>RerankResponse_strategyUsed := v\<rparr>) r)
      else if drop_bit 3 tag = 3 then
       (if tag \<noteq> 24 then Break
        else arm_read (r_bool W) (\<lambda>v. m\<lparr>RerankResponse_fromCache := v\<rparr>) r)
      else if drop_bit 3 tag = 4 then
       (if tag \<noteq> 32 then Break
        else arm_read (r_int64 W) (\<lambda>v. m\<lparr>RerankResponse_latencyMs := show_int (sint v)\<rparr>) r)
      else Break)"

type_synonym RerankResponse_partial = "(ScoredCandidate_partial list option) \<times> (string option) \<times> (bool option) \<times> (string option)"

fun fromPartial_RerankResponse :: "RerankResponse_partial \<Rightarrow> RerankResponse" where
  "fromPartial_RerankResponse (results', strategyUsed', fromCache', latencyMs') =
     \<lparr>RerankResponse_results = map fromPartial_ScoredCandidate (nullish results' []),
      RerankResponse_strategyUsed = nullish strategyUsed' [],
      RerankResponse_fromCache = nullish fromCache' False,
      RerankResponse_latencyMs = nullish latencyMs' ''0''\<rparr>"

definition create_RerankResponse :: "RerankResponse_partial option \<Rightarrow> RerankResponse" where
  "create_RerankResponse base = fromPartial_RerankResponse (nullish base (None, None, None, None))"

definition decode_RerankResponse :: "('w, 'r) wire \<Rightarrow> 'r \<Rightarrow> nat option \<Rightarrow> (RerankResponse \<times> 'r) comp" where
  "decode_RerankResponse W = decode_with W (switch_RerankResponse W) createBaseRerankResponse"

subsection \<open>\<^verbatim>\<open>GetStrategyRequest\<close>\<close>

datatype GetStrategyRequest = GetStrategyRequest

definition createBaseGetStrategyRequest :: GetStrategyRequest where
  "createBaseGetStrategyRequest = GetStrategyRequest"

definition encode_GetStrategyRequest :: "('w, 'r) wire \<Rightarrow> GetStrategyRequest \<Rightarrow> 'w writes" where
  "encode_GetStrategyRequest W m = w_seq []"

definition switch_GetStrategyRequest :: "('w, 'r) wire \<Rightarrow> ('r, GetStrategyRequest) switch" where
  "switch_GetStrategyRequest W tag m r = Break"

definition fromPartial_GetStrategyRequest :: "unit \<Rightarrow> GetStrategyRequest" where
  "fromPartial_GetStrategyRequest u = createBaseGetStrategyRequest"

definition create_GetStrategyRequest :: "unit option \<Rightarrow> GetStrategyRequest" where
  "create_GetStrategyRequest base = fromPartial_GetStrategyRequest (nullish base ())"

definition decode_GetStrategyRequest :: "('w, 'r) wire \<Rightarrow> 'r \<Rightarrow> nat option \<Rightarrow> (GetStrategyRequest \<times> 'r) comp" where
  "decode_GetStrategyRequest W = decode_with W (switch_GetStrategyRequest W) createBaseGetStrategyRequest"

subsection \<open>\<^verbatim>\<open>GetStrategyResponse_ConfigEntry\<close>\<close>

record GetStrategyResponse_ConfigEntry =
  GetStrategyResponse_ConfigEntry_key :: string
  GetStrategyResponse_ConfigEntry_value :: string

definition createBaseGetStrategyResponse_ConfigEntry :: GetStrategyResponse_ConfigEntry where
  "createBaseGetStrategyResponse_ConfigEntry =
     \<lparr>GetStrategyResponse_ConfigEntry_key = [],
      GetStrategyResponse_ConfigEntry_value = []\<rparr>"

definition encode_GetStrategyResponse_ConfigEntry :: "('w, 'r) wire \<Rightarrow> GetStrategyResponse_ConfigEntry \<Rightarrow> 'w writes" where
  "encode_GetStrategyResponse_ConfigEntry W m =
     w_seq
      [w_if (GetStrategyResponse_ConfigEntry_key m \<noteq> []) (w_field W 10 (w_string W (GetStrategyResponse_ConfigEntry_key m))),
       w_if (GetStrategyResponse_ConfigEntry_value m \<noteq> []) (w_field W 18 (w_string W (GetStrategyResponse_ConfigEntry_value m)))]"

definition switch_GetStrategyResponse_ConfigEntry :: "('w, 'r) wire \<Rightarrow> ('r, GetStrategyResponse_ConfigEntry) switch" where
  "switch_GetStrategyResponse_ConfigEntry W tag m r =
     (if drop_bit 3 tag = 1 then
       (if tag \<noteq> 10 then Break
        else arm_read (r_string W) (\<lambda>v. m\<lparr>GetStrategyResponse_ConfigEntry_key := v\<rparr>) r)
      else if drop_bit 3 tag = 2 then
       (if tag \<noteq> 18 then Break
        else arm_read (r_string W) (\<lambda>v. m\<lparr>GetStrategyResponse_ConfigEntry_value := v\<rparr>) r)
      else Break)"

type_synonym GetStrategyResponse_ConfigEntry_partial = "(string option) \<times> (string option)"

fun fromPartial_GetStrategyResponse_ConfigEntry :: "GetStrategyResponse_ConfigEntry_partial \<Rightarrow> GetStrategyResponse_ConfigEntry" where
  "fromPartial_GetStrategyResponse_ConfigEntry (key', value') =
     \<lparr>GetStrategyResponse_ConfigEntry_key = nullish key' [],
      GetStrategyResponse_ConfigEntry_value = nullish value' []\<rparr>"

definition create_GetStrategyResponse_ConfigEntry :: "GetStrategyResponse_ConfigEntry_partial option \<Rightarrow> GetStrategyResponse_ConfigEntry" where
  "create_GetStrategyResponse_ConfigEntry base = fromPartial_GetStrategyResponse_ConfigEntry (nullish base (None, None))"

definition decode_GetStrategyResponse_ConfigEntry :: "('w, 'r) wire \<Rightarrow> 'r \<Rightarrow> nat option \<Rightarrow> (GetStrategyResponse_ConfigEntry \<times> 'r) comp" where
  "decode_GetStrategyResponse_ConfigEntry W = decode_with W (switch_GetStrategyResponse_ConfigEntry W) createBaseGetStrategyResponse_ConfigEntry"

subsection \<open>\<^verbatim>\<open>GetStrategyResponse\<close>\<close>

record GetStrategyResponse =
  GetStrategyResponse_strategyName :: string
  GetStrategyResponse_version :: string
  GetStrategyResponse_config :: "string js_obj"

definition createBaseGetStrategyResponse :: GetStrategyResponse where
  "createBaseGetStrategyResponse =
     \<lparr>GetStrategyResponse_strategyName = [],
      GetStrategyResponse_version = [],
      GetStrategyResponse_config = []\<rparr>"

definition encode_GetStrategyResponse :: "('w, 'r) wire \<Rightarrow> GetStrategyResponse \<Rightarrow> 'w writes" where
  "encode_GetStrategyResponse W m =
     w_seq
      [w_if (GetStrategyResponse_strategyName m \<noteq> []) (w_field W 10 (w_string W (GetStrategyResponse_strategyName m))),
       w_if (GetStrategyResponse_version m \<noteq> []) (w_field W 18 (w_string W (GetStrategyResponse_version m))),
       w_seq (map (\<lambda>(key, value). w_nested W 26
          (encode_GetStrategyResponse_ConfigEntry W \<lparr>GetStrategyResponse_ConfigEntry_key = key, GetStrategyResponse_ConfigEntry_value = value\<rparr>)) (GetStrategyResponse_config m))]"

definition switch_GetStrategyResponse :: "('w, 'r) wire \<Rightarrow> ('r, GetStrategyResponse) switch" where
  "switch_GetStrategyResponse W tag m r =
     (if drop_bit 3 tag = 1 then
       (if tag \<noteq> 10 then Break
        else arm_read (r_string W) (\<lambda>v. m\<lparr>GetStrategyResponse_strategyName := v\<rparr>) r)
      else if drop_bit 3 tag = 2 then
       (if tag \<noteq> 18 then Break
        else arm_read (r_string W) (\<lambda>v. m\<lparr>GetStrategyResponse_version := v\<rparr>) r)
      else if drop_bit 3 tag = 3 then
       (if tag \<noteq> 26 then Break
        else arm_sub W (decode_GetStrategyResponse_ConfigEntry W)
          (\<lambda>e. m\<lparr>GetStrategyResponse_config := js_set (GetStrategyResponse_ConfigEntry_key e) (GetStrategyResponse_ConfigEntry_value e) (GetStrategyResponse_config m)\<rparr>) r)
      else Break)"

type_synonym GetStrategyResponse_partial = "(string option) \<times> (string option) \<times> (string option js_obj option)"

fun fromPartial_GetStrategyResponse :: "GetStrategyResponse_partial \<Rightarrow> GetStrategyResponse" where
  "fromPartial_GetStrategyResponse (strategyName', version', config') =
     \<lparr>GetStrategyResponse_strategyName = nullish strategyName' [],
      GetStrategyResponse_version = nullish version' [],
      GetStrategyResponse_config = js_copy (nullish config' [])\<rparr>"

definition create_GetStrategyResponse :: "GetStrategyResponse_partial option \<Rightarrow> GetStrategyResponse" where
  "create_GetStrategyResponse base = fromPartial_GetStrategyResponse (nullish base (None, None, None))"

definition decode_GetStrategyResponse :: "('w, 'r) wire \<Rightarrow> 'r \<Rightarrow> nat option \<Rightarrow> (GetStrategyResponse \<times> 'r) comp" where
  "decode_GetStrategyResponse W = decode_with W (switch_GetStrategyResponse W) createBaseGetStrategyResponse"

subsection \<open>\<^verbatim>\<open>InvalidateCacheRequest\<close>\<close>

record InvalidateCacheRequest =
  InvalidateCacheRequest_query :: string
  InvalidateCacheRequest_candidateIds :: "string list"

definition createBaseInvalidateCacheRequest :: InvalidateCacheRequest where
  "createBaseInvalidateCacheRequest =
     \<lparr>InvalidateCacheRequest_query = [],
      InvalidateCacheRequest_candidateIds = []\<rparr>"

definition encode_InvalidateCacheRequest :: "('w, 'r) wire \<Rightarrow> InvalidateCacheRequest \<Rightarrow> 'w writes" where
  "encode_InvalidateCacheRequest W m =
     w_seq
      [w_if (InvalidateCacheRequest_query m \<noteq> []) (w_field W 10 (w_string W (InvalidateCacheRequest_query m))),
       w_seq (map (\<lambda>v. w_field W 18 (w_string W v)) (InvalidateCacheRequest_candidateIds m))]"

definition switch_InvalidateCacheRequest :: "('w, 'r) wire \<Rightarrow> ('r, InvalidateCacheRequest) switch" where
  "switch_InvalidateCacheRequest W tag m r =
     (if drop_bit 3 tag = 1 then
       (if tag \<noteq> 10 then Break
        else arm_read (r_string W) (\<lambda>v. m\<lparr>InvalidateCacheRequest_query := v\<rparr>) r)
      else if drop_bit 3 tag = 2 then
       (if tag \<noteq> 18 then Break
        else arm_read (r_string W) (\<lambda>v. m\<lparr>InvalidateCacheRequest_candidateIds := InvalidateCacheRequest_candidateIds m @ [v]\<rparr>) r)
      else Break)"

type_synonym InvalidateCacheRequest_partial = "(string option) \<times> (string list option)"

fun fromPartial_InvalidateCacheRequest :: "InvalidateCacheRequest_partial \<Rightarrow> InvalidateCacheRequest" where
  "fromPartial_InvalidateCacheRequest (query', candidateIds') =
     \<lparr>InvalidateCacheRequest_query = nullish query' [],
      InvalidateCacheRequest_candidateIds = nullish candidateIds' []\<rparr>"

definition create_InvalidateCacheRequest :: "InvalidateCacheRequest_partial option \<Rightarrow> InvalidateCacheRequest" where
  "create_InvalidateCacheRequest base = fromPartial_InvalidateCacheRequest (nullish base (None, None))"

definition decode_InvalidateCacheRequest :: "('w, 'r) wire \<Rightarrow> 'r \<Rightarrow> nat option \<Rightarrow> (InvalidateCacheRequest \<times> 'r) comp" where
  "decode_InvalidateCacheRequest W = decode_with W (switch_InvalidateCacheRequest W) createBaseInvalidateCacheRequest"

subsection \<open>\<^verbatim>\<open>InvalidateCacheResponse\<close>\<close>

record InvalidateCacheResponse =
  InvalidateCacheResponse_entriesCleared :: js_num

definition createBaseInvalidateCacheResponse :: InvalidateCacheResponse where
  "createBaseInvalidateCacheResponse =
     \<lparr>InvalidateCacheResponse_entriesCleared = Fin 0\<rparr>"

definition encode_InvalidateCacheResponse :: "('w, 'r) wire \<Rightarrow> InvalidateCacheResponse \<Rightarrow> 'w writes" where
  "encode_InvalidateCacheResponse W m =
     w_seq
      [w_if (\<not> js_eq (InvalidateCacheResponse_entriesCleared m) (Fin 0)) (w_field W 8 (w_int32 W (InvalidateCacheResponse_entriesCleared m)))]"

definition switch_InvalidateCacheResponse :: "('w, 'r) wire \<Rightarrow> ('r, InvalidateCacheResponse) switch" where
  "switch_InvalidateCacheResponse W tag m r =
     (if drop_bit 3 tag = 1 then
       (if tag \<noteq> 8 then Break
        else arm_read (r_int32 W) (\<lambda>v. m\<lparr>InvalidateCacheResponse_entriesCleared := num_of_int (sint v)\<rparr>) r)
      else Break)"

type_synonym InvalidateCacheResponse_partial = "js_num option"

fun fromPartial_InvalidateCacheResponse :: "InvalidateCacheResponse_partial \<Rightarrow> InvalidateCacheResponse" where
  "fromPartial_InvalidateCacheResponse entriesCleared' =
     \<lparr>InvalidateCacheResponse_entriesCleared = nullish entriesCleared' (Fin 0)\<rparr>"

definition create_InvalidateCacheResponse :: "InvalidateCacheResponse_partial option \<Rightarrow> InvalidateCacheResponse" where
  "create_InvalidateCacheResponse base = fromPartial_InvalidateCacheResponse (nullish base None)"

definition decode_InvalidateCacheResponse :: "('w, 'r) wire \<Rightarrow> 'r \<Rightarrow> nat option \<Rightarrow> (InvalidateCacheResponse \<times> 'r) comp" where
  "decode_InvalidateCacheResponse W = decode_with W (switch_InvalidateCacheResponse W) createBaseInvalidateCacheResponse"

section \<open>The switches, arm by arm\<close>

lemma switch_Candidate_MetadataEntry_arms:
  "switch_Candidate_MetadataEntry W 10 m = arm_read (r_string W) (\<lambda>v. m\<lparr>Candidate_MetadataEntry_key := v\<rparr>)"
  "switch_Candidate_MetadataEntry W 18 m = arm_read (r_string W) (\<lambda>v. m\<lparr>Candidate_MetadataEntry_value := v\<rparr>)"
  by (simp_all add: switch_Candidate_MetadataEntry_def fun_eq_iff)

definition rounded_Candidate :: "(js_num \<Rightarrow> js_num) \<Rightarrow> Candidate \<Rightarrow> Candidate" where
  "rounded_Candidate fround m = m\<lparr>Candidate_score := fround (Candidate_score m), Candidate_vector := map fround (Candidate_vector m)\<rparr>"

definition wf_Candidate :: "Candidate \<Rightarrow> bool" where
  "wf_Candidate m \<longleftrightarrow> js_obj_ok (Candidate_metadata m)"

lemma foldl_Candidate_metadata:
  "foldl (\<lambda>y (k, v). y\<lparr>Candidate_metadata := js_set k v (Candidate_metadata y)\<rparr>) m es
     = m\<lparr>Candidate_metadata := foldl (\<lambda>o' (k, v). js_set k v o') (Candidate_metadata m) es\<rparr>"
  by (induction es arbitrary: m) (simp_all add: split_beta)

lemma switch_Candidate_arms:
  "switch_Candidate W 10 m = arm_read (r_string W) (\<lambda>v. m\<lparr>Candidate_id := v\<rparr>)"
  "switch_Candidate W 21 m = arm_read (r_float W) (\<lambda>v. m\<lparr>Candidate_score := v\<rparr>)"
  "switch_Candidate W 29 m = arm_read (r_float W) (\<lambda>v. m\<lparr>Candidate_vector := Candidate_vector m @ [v]\<rparr>)"
  "switch_Candidate W 26 m = arm_packed W (r_float W) (\<lambda>vs. m\<lparr>Candidate_vector := Candidate_vector m @ vs\<rparr>)"
  "switch_Candidate W 34 m = arm_sub W (decode_with W (switch_Candidate_MetadataEntry W) createBaseCandidate_MetadataEntry)
          (\<lambda>e. m\<lparr>Candidate_metadata := js_set (Candidate_MetadataEntry_key e) (Candidate_MetadataEntry_value e) (Candidate_metadata m)\<rparr>)"
  by (simp_all add: switch_Candidate_def fun_eq_iff decode_Candidate_MetadataEntry_def)

lemma switch_RerankRequest_OptionsEntry_arms:
  "switch_RerankRequest_OptionsEntry W 10 m = arm_read (r_string W) (\<lambda>v. m\<lparr>RerankRequest_OptionsEntry_key := v\<rparr>)"
  "switch_RerankRequest_OptionsEntry W 18 m = arm_read (r_string W) (\<lambda>v. m\<lparr>RerankRequest_OptionsEntry_value := v\<rparr>)"
  by (simp_all add: switch_RerankRequest_OptionsEntry_def fun_eq_iff)

definition rounded_RerankRequest :: "(js_num \<Rightarrow> js_num) \<Rightarrow> RerankRequest \<Rightarrow> RerankRequest" where
  "rounded_RerankRequest fround m = m\<lparr>RerankRequest_candidates := map (rounded_Candidate fround) (RerankRequest_candidates m)\<rparr>"

definition wf_RerankRequest :: "RerankRequest \<Rightarrow> bool" where
  "wf_RerankRequest m \<longleftrightarrow> (\<forall>v \<in> set (RerankRequest_candidates m). wf_Candidate v) \<and> js_obj_ok (RerankRequest_options m)"

lemma foldl_RerankRequest_candidates:
  "foldl (\<lambda>y v. y\<lparr>RerankRequest_candidates := RerankRequest_candidates y @ [h v]\<rparr>) m vs = m\<lparr>RerankRequest_candidates := RerankRequest_candidates m @ map h vs\<rparr>"
  by (induction vs arbitrary: m) simp_all

lemma foldl_RerankRequest_options:
  "foldl (\<lambda>y (k, v). y\<lparr>RerankRequest_options := js_set k v (RerankRequest_options y)\<rparr>) m es
     = m\<lparr>RerankRequest_options := foldl (\<lambda>o' (k, v). js_set k v o') (RerankRequest_options m) es\<rparr>"
  by (induction es arbitrary: m) (simp_all add: split_beta)

lemma switch_RerankRequest_arms:
  "switch_RerankRequest W 10 m = arm_read (r_string W) (\<lambda>v. m\<lparr>RerankRequest_query := v\<rparr>)"
  "switch_RerankRequest W 18 m = arm_sub W (decode_with W (switch_Candidate W) createBaseCandidate) (\<lambda>v. m\<lparr>RerankRequest_candidates := RerankRequest_candidates m @ [v]\<rparr>)"
  "switch_RerankRequest W 24 m = arm_read (r_int32 W) (\<lambda>v. m\<lparr>RerankRequest_topN := num_of_int (sint v)\<rparr>)"
  "switch_RerankRequest W 34 m = arm_sub W (decode_with W (switch_RerankRequest_OptionsEntry W) createBaseRerankRequest_OptionsEntry)
          (\<lambda>e. m\<lparr>RerankRequest_options := js_set (RerankRequest_OptionsEntry_key e) (RerankRequest_OptionsEntry_value e) (RerankRequest_options m)\<rparr>)"
  by (simp_all add: switch_RerankRequest_def fun_eq_iff decode_Candidate_def decode_RerankRequest_OptionsEntry_def)

definition rounded_ScoredCandidate :: "(js_num \<Rightarrow> js_num) \<Rightarrow> ScoredCandidate \<Rightarrow> ScoredCandidate" where
  "rounded_ScoredCandidate fround m = m\<lparr>ScoredCandidate_rerankScore := fround (ScoredCandidate_rerankScore m), ScoredCandidate_originalScore := fround (ScoredCandidate_originalScore m)\<rparr>"

lemma switch_ScoredCandidate_arms:
  "switch_ScoredCandidate W 10 m = arm_read (r_string W) (\<lambda>v. m\<lparr>ScoredCandidate_id := v\<rparr>)"
  "switch_ScoredCandidate W 21 m = arm_read (r_float W) (\<lambda>v. m\<lparr>ScoredCandidate_rerankScore := v\<rparr>)"
  "switch_ScoredCandidate W 29 m = arm_read (r_float W) (\<lambda>v. m\<lparr>ScoredCandidate_originalScore := v\<rparr>)"
  "switch_ScoredCandidate W 34 m = arm_read (r_string W) (\<lambda>v. m\<lparr>ScoredCandidate_explanation := v\<rparr>)"
  by (simp_all add: switch_ScoredCandidate_def fun_eq_iff)

definition rounded_RerankResponse :: "(js_num \<Rightarrow> js_num) \<Rightarrow> RerankResponse \<Rightarrow> RerankResponse" where
  "rounded_RerankResponse fround m = m\<lparr>RerankResponse_results := map (rounded_ScoredCandidate fround) (RerankResponse_results m)\<rparr>"

definition wf_RerankResponse :: "RerankResponse \<Rightarrow> bool" where
  "wf_RerankResponse m \<longleftrightarrow> int64_string (RerankResponse_latencyMs m)"

lemma foldl_RerankResponse_results:
  "foldl (\<lambda>y v. y\<lparr>RerankResponse_results := RerankResponse_results y @ [h v]\<rparr>) m vs = m\<lparr>RerankResponse_results := RerankResponse_results m @ map h vs\<rparr>"
  by (induction vs arbitrary: m) simp_all

lemma switch_RerankResponse_arms:
  "switch_RerankResponse W 10 m = arm_sub W (decode_with W (switch_ScoredCandidate W) createBaseScoredCandidate) (\<lambda>v. m\<lparr>RerankResponse_results := RerankResponse_results m @ [v]\<rparr>)"
  "switch_RerankResponse W 18 m = arm_read (r_string W) (\<lambda>v. m\<lparr>RerankResponse_strategyUsed := v\<rparr>)"
  "switch_RerankResponse W 24 m = arm_read (r_bool W) (\<lambda>v. m\<lparr>RerankResponse_fromCache := v\<rparr>)"
  "switch_RerankResponse W 32 m = arm_read (r_int64 W) (\<lambda>v. m\<lparr>RerankResponse_latencyMs := show_int (sint v)\<rparr>)"
  by (simp_all add: switch_RerankResponse_def fun_eq_iff decode_ScoredCandidate_def)

lemma switch_GetStrategyResponse_ConfigEntry_arms:
  "switch_GetStrategyResponse_ConfigEntry W 10 m = arm_read (r_string W) (\<lambda>v. m\<lparr>GetStrategyResponse_ConfigEntry_key := v\<rparr>)"
  "switch_GetStrategyResponse_ConfigEntry W 18 m = arm_read (r_string W) (\<lambda>v. m\<lparr>GetStrategyResponse_ConfigEntry_value := v\<rparr>)"
  by (simp_all add: switch_GetStrategyResponse_ConfigEntry_def fun_eq_iff)

definition wf_GetStrategyResponse :: "GetStrategyResponse \<Rightarrow> bool" where
  "wf_GetStrategyResponse m \<longleftrightarrow> js_obj_ok (GetStrategyResponse_config m)"

lemma foldl_GetStrategyResponse_config:
  "foldl (\<lambda>y (k, v). y\<lparr>GetStrategyResponse_config := js_set k v (GetStrategyResponse_config y)\<rparr>) m es
     = m\<lparr>GetStrategyResponse_config := foldl (\<lambda>o' (k, v). js_set k v o') (GetStrategyResponse_config m) es\<rparr>"
  by (induction es arbitrary: m) (simp_all add: split_beta)

lemma switch_GetStrategyResponse_arms:
  "switch_GetStrategyResponse W 10 m = arm_read (r_string W) (\<lambda>v. m\<lparr>GetStrategyResponse_strategyName := v\<rparr>)"
  "switch_GetStrategyResponse W 18 m = arm_read (r_string W) (\<lambda>v. m\<lparr>GetStrategyResponse_version := v\<rparr>)"
  "switch_GetStrategyResponse W 26 m = arm_sub W (decode_with W (switch_GetStrategyResponse_ConfigEntry W) createBaseGetStrategyResponse_ConfigEntry)
          (\<lambda>e. m\<lparr>GetStrategyResponse_config := js_set (GetStrategyResponse_ConfigEntry_key e) (GetStrategyResponse_ConfigEntry_value e) (GetStrategyResponse_config m)\<rparr>)"
  by (simp_all add: switch_GetStrategyResponse_def fun_eq_iff decode_GetStrategyResponse_ConfigEntry_def)

lemma foldl_InvalidateCacheRequest_candidateIds:
  "foldl (\<lambda>y v. y\<lparr>InvalidateCacheRequest_candidateIds := InvalidateCacheRequest_candidateIds y @ [h v]\<rparr>) m vs = m\<lparr>InvalidateCacheRequest_candidateIds := InvalidateCacheRequest_candidateIds m @ map h vs\<rparr>"
  by (induction vs arbitrary: m) simp_all

lemma switch_InvalidateCacheRequest_arms:
  "switch_InvalidateCacheRequest W 10 m = arm_read (r_string W) (\<lambda>v. m\<lparr>InvalidateCacheRequest_query := v\<rparr>)"
  "switch_InvalidateCacheRequest W 18 m = arm_read (r_string W) (\<lambda>v. m\<lparr>InvalidateCacheRequest_candidateIds := InvalidateCacheRequest_candidateIds m @ [v]\<rparr>)"
  by (simp_all add: switch_InvalidateCacheRequest_def fun_eq_iff)

lemma switch_InvalidateCacheResponse_arms:
  "switch_InvalidateCacheResponse W 8 m = arm_read (r_int32 W) (\<lambda>v. m\<lparr>InvalidateCacheResponse_entriesCleared := num_of_int (sint v)\<rparr>)"
  by (simp_all add: switch_InvalidateCacheResponse_def fun_eq_iff)

section \<open>Decoding returns well-formed messages\<close>

lemma decode_Candidate_wf: "yields (decode_Candidate W) wf_Candidate"
  unfolding decode_Candidate_def switch_Candidate_def
  by (rule decode_with_yields, rule fld_keepsI)
     (rule if_keeps | rule arms_keep
       | (auto simp: wf_Candidate_def createBaseCandidate_def read_values) [1])+

lemma decode_RerankRequest_wf: "yields (decode_RerankRequest W) wf_RerankRequest"
  unfolding decode_RerankRequest_def switch_RerankRequest_def
  by (rule decode_with_yields, rule fld_keepsI)
     (rule if_keeps | rule arm_sub_keeps [OF decode_Candidate_wf] | rule arms_keep
       | (auto simp: wf_RerankRequest_def createBaseRerankRequest_def read_values) [1])+

lemma decode_RerankResponse_wf: "yields (decode_RerankResponse W) wf_RerankResponse"
  unfolding decode_RerankResponse_def switch_RerankResponse_def
  by (rule decode_with_yields, rule fld_keepsI)
     (rule if_keeps | rule arms_keep
       | (auto simp: wf_RerankResponse_def createBaseRerankResponse_def read_values) [1])+

lemma decode_GetStrategyResponse_wf: "yields (decode_GetStrategyResponse W) wf_GetStrategyResponse"
  unfolding decode_GetStrategyResponse_def switch_GetStrategyResponse_def
  by (rule decode_with_yields, rule fld_keepsI)
     (rule if_keeps | rule arms_keep
       | (auto simp: wf_GetStrategyResponse_def createBaseGetStrategyResponse_def read_values) [1])+

section \<open>Decoding ends on every input\<close>

context wire_reader
begin

lemma Candidate_MetadataEntry_total: "dec_total W buf (decode_Candidate_MetadataEntry W)"
  unfolding decode_Candidate_MetadataEntry_def
  by (intro decode_with_total) (auto simp: fld_total_def switch_Candidate_MetadataEntry_def simp del: arm_total.simps(2) intro: arms_total)

lemma Candidate_total: "dec_total W buf (decode_Candidate W)"
  unfolding decode_Candidate_def
  by (intro decode_with_total) (auto simp: fld_total_def switch_Candidate_def simp del: arm_total.simps(2) intro: arms_total Candidate_MetadataEntry_total)

lemma RerankRequest_OptionsEntry_total: "dec_total W buf (decode_RerankRequest_OptionsEntry W)"
  unfolding decode_RerankRequest_OptionsEntry_def
  by (intro decode_with_total) (auto simp: fld_total_def switch_RerankRequest_OptionsEntry_def simp del: arm_total.simps(2) intro: arms_total)

lemma RerankRequest_total: "dec_total W buf (decode_RerankRequest W)"
  unfolding decode_RerankRequest_def
  by (intro decode_with_total) (auto simp: fld_total_def switch_RerankRequest_def simp del: arm_total.simps(2) intro: arms_total Candidate_total RerankRequest_OptionsEntry_total)

lemma ScoredCandidate_total: "dec_total W buf (decode_ScoredCandidate W)"
  unfolding decode_ScoredCandidate_def
  by (intro decode_with_total) (auto simp: fld_total_def switch_ScoredCandidate_def simp del: arm_total.simps(2) intro: arms_total)

lemma RerankResponse_total: "dec_total W buf (decode_RerankResponse W)"
  unfolding decode_RerankResponse_def
  by (intro decode_with_total) (auto simp: fld_total_def switch_RerankResponse_def simp del: arm_total.simps(2) intro: arms_total ScoredCandidate_total)

lemma GetStrategyRequest_total: "dec_total W buf (decode_GetStrategyRequest W)"
  unfolding decode_GetStrategyRequest_def
  by (intro decode_with_total) (auto simp: fld_total_def switch_GetStrategyRequest_def simp del: arm_total.simps(2) intro: arms_total)

lemma GetStrategyResponse_ConfigEntry_total: "dec_total W buf (decode_GetStrategyResponse_ConfigEntry W)"
  unfolding decode_GetStrategyResponse_ConfigEntry_def
  by (intro decode_with_total) (auto simp: fld_total_def switch_GetStrategyResponse_ConfigEntry_def simp del: arm_total.simps(2) intro: arms_total)

lemma GetStrategyResponse_total: "dec_total W buf (decode_GetStrategyResponse W)"
  unfolding decode_GetStrategyResponse_def
  by (intro decode_with_total) (auto simp: fld_total_def switch_GetStrategyResponse_def simp del: arm_total.simps(2) intro: arms_total GetStrategyResponse_ConfigEntry_total)

lemma InvalidateCacheRequest_total: "dec_total W buf (decode_InvalidateCacheRequest W)"
  unfolding decode_InvalidateCacheRequest_def
  by (intro decode_with_total) (auto simp: fld_total_def switch_InvalidateCacheRequest_def simp del: arm_total.simps(2) intro: arms_total)

lemma InvalidateCacheResponse_total: "dec_total W buf (decode_InvalidateCacheResponse W)"
  unfolding decode_InvalidateCacheResponse_def
  by (intro decode_with_total) (auto simp: fld_total_def switch_InvalidateCacheResponse_def simp del: arm_total.simps(2) intro: arms_total)

end

section \<open>Encoding and decoding\<close>

context wire_codec
begin

lemma codes_Candidate_MetadataEntry:
  "codes W frames buf (encode_Candidate_MetadataEntry W m) (switch_Candidate_MetadataEntry W) createBaseCandidate_MetadataEntry m"
  unfolding encode_Candidate_MetadataEntry_def
  by (cases m) ((rule codes_fields switch_Candidate_MetadataEntry_arms | simp add: createBaseCandidate_MetadataEntry_def)+)

lemma codes_Candidate:
  assumes "wf_Candidate m"
  shows "codes W frames buf (encode_Candidate W m) (switch_Candidate W) createBaseCandidate (rounded_Candidate fround m)"
  using assms
  unfolding encode_Candidate_def
  by (cases m) ((rule codes_fields switch_Candidate_arms codes_Candidate_MetadataEntry | simp add: createBaseCandidate_def rounded_Candidate_def wf_Candidate_def foldl_Candidate_metadata foldl_js_set_id)+)

lemma codes_RerankRequest_OptionsEntry:
  "codes W frames buf (encode_RerankRequest_OptionsEntry W m) (switch_RerankRequest_OptionsEntry W) createBaseRerankRequest_OptionsEntry m"
  unfolding encode_RerankRequest_OptionsEntry_def
  by (cases m) ((rule codes_fields switch_RerankRequest_OptionsEntry_arms | simp add: createBaseRerankRequest_OptionsEntry_def)+)

lemma codes_RerankRequest:
  assumes "wf_RerankRequest m"
  shows "codes W frames buf (encode_RerankRequest W m) (switch_RerankRequest W) createBaseRerankRequest (rounded_RerankRequest fround m)"
  using assms
  unfolding encode_RerankRequest_def
  by (cases m) ((rule codes_fields switch_RerankRequest_arms codes_Candidate codes_RerankRequest_OptionsEntry | simp add: createBaseRerankRequest_def rounded_RerankRequest_def wf_RerankRequest_def foldl_RerankRequest_candidates foldl_RerankRequest_options foldl_js_set_id)+)

lemma codes_ScoredCandidate:
  "codes W frames buf (encode_ScoredCandidate W m) (switch_ScoredCandidate W) createBaseScoredCandidate (rounded_ScoredCandidate fround m)"
  unfolding encode_ScoredCandidate_def
  by (cases m) ((rule codes_fields switch_ScoredCandidate_arms | simp add: createBaseScoredCandidate_def rounded_ScoredCandidate_def)+)

lemma codes_RerankResponse:
  assumes "wf_RerankResponse m"
  shows "codes W frames buf (encode_RerankResponse W m) (switch_RerankResponse W) createBaseRerankResponse (rounded_RerankResponse fround m)"
  using assms
  unfolding encode_RerankResponse_def
  by (cases m) ((rule codes_fields switch_RerankResponse_arms codes_ScoredCandidate | simp add: createBaseRerankResponse_def rounded_RerankResponse_def wf_RerankResponse_def foldl_RerankResponse_results)+)

lemma codes_GetStrategyRequest:
  "codes W frames buf (encode_GetStrategyRequest W m) (switch_GetStrategyRequest W) createBaseGetStrategyRequest m"
  unfolding encode_GetStrategyRequest_def by (rule codes_done) (cases m, simp add: createBaseGetStrategyRequest_def)

lemma codes_GetStrategyResponse_ConfigEntry:
  "codes W frames buf (encode_GetStrategyResponse_ConfigEntry W m) (switch_GetStrategyResponse_ConfigEntry W) createBaseGetStrategyResponse_ConfigEntry m"
  unfolding encode_GetStrategyResponse_ConfigEntry_def
  by (cases m) ((rule codes_fields switch_GetStrategyResponse_ConfigEntry_arms | simp add: createBaseGetStrategyResponse_ConfigEntry_def)+)

lemma codes_GetStrategyResponse:
  assumes "wf_GetStrategyResponse m"
  shows "codes W frames buf (encode_GetStrategyResponse W m) (switch_GetStrategyResponse W) createBaseGetStrategyResponse m"
  using assms
  unfolding encode_GetStrategyResponse_def
  by (cases m) ((rule codes_fields switch_GetStrategyResponse_arms codes_GetStrategyResponse_ConfigEntry | simp add: createBaseGetStrategyResponse_def wf_GetStrategyResponse_def foldl_GetStrategyResponse_config foldl_js_set_id)+)

lemma codes_InvalidateCacheRequest:
  "codes W frames buf (encode_InvalidateCacheRequest W m) (switch_InvalidateCacheRequest W) createBaseInvalidateCacheRequest m"
  unfolding encode_InvalidateCacheRequest_def
  by (cases m) ((rule codes_fields switch_InvalidateCacheRequest_arms | simp add: createBaseInvalidateCacheRequest_def foldl_InvalidateCacheRequest_candidateIds)+)

lemma codes_InvalidateCacheResponse:
  "codes W frames buf (encode_InvalidateCacheResponse W m) (switch_InvalidateCacheResponse W) createBaseInvalidateCacheResponse m"
  unfolding encode_InvalidateCacheResponse_def
  by (cases m) ((rule codes_fields switch_InvalidateCacheResponse_arms | simp add: createBaseInvalidateCacheResponse_def)+)

end


end
