(* ===== verification/Json.thy ===== *)
theory Json
  imports Client_Errors
begin

text \<open>
  JSON values and the conversions that the generated \<^verbatim>\<open>fromJSON\<close> and \<^verbatim>\<open>toJSON\<close> functions apply to
  them. \<open>js_val\<close> has the values that occur in decoded JSON, and \<^verbatim>\<open>undefined\<close>; members that
  values inherit from their prototypes are left out. How numbers are printed, how strings are
  read as numbers and what \<^verbatim>\<open>Buffer.from(v, "base64")\<close> returns are the parameter \<open>K\<close>. No law of the
  generated code depends on the first two; of the third it needs that it reads back what
  \<^verbatim>\<open>toString("base64")\<close> wrote, the locale \<open>base64_runtime\<close>.
\<close>

section \<open>Values\<close>

datatype js_val =
    JUndefined | JNull | JBool bool | JNum js_num | JStr string
  | JArr "js_val list" | JObj "(string \<times> js_val) list"

record text_conv =
  str_of_num :: "js_num \<Rightarrow> string"
  num_of_str :: "string \<Rightarrow> js_num"
  buffer_from :: "js_val \<Rightarrow> thrown + 8 word list"

text \<open>\<^verbatim>\<open>globalThis.String\<close>, \<^verbatim>\<open>globalThis.Number\<close> and \<^verbatim>\<open>globalThis.Boolean\<close>. An array is the comma-separated
  list of its elements, in which null and undefined are empty.\<close>

fun join_comma :: "string list \<Rightarrow> string" where
  "join_comma [] = []"
| "join_comma [s] = s"
| "join_comma (s # t # ss) = s @ '','' @ join_comma (t # ss)"

fun js_String :: "text_conv \<Rightarrow> js_val \<Rightarrow> string" where
  "js_String K JUndefined = ''undefined''"
| "js_String K JNull = ''null''"
| "js_String K (JBool b) = (if b then ''true'' else ''false'')"
| "js_String K (JNum n) = str_of_num K n"
| "js_String K (JStr s) = s"
| "js_String K (JArr vs) =
     join_comma (map (\<lambda>v. if v = JUndefined \<or> v = JNull then [] else js_String K v) vs)"
| "js_String K (JObj es) = ''[object Object]''"

fun js_Number :: "text_conv \<Rightarrow> js_val \<Rightarrow> js_num" where
  "js_Number K JUndefined = NaN"
| "js_Number K JNull = Fin 0"
| "js_Number K (JBool b) = (if b then Fin 1 else Fin 0)"
| "js_Number K (JNum n) = n"
| "js_Number K (JStr s) = num_of_str K s"
| "js_Number K (JArr vs) = num_of_str K (js_String K (JArr vs))"
| "js_Number K (JObj es) = NaN"

fun js_Boolean :: "js_val \<Rightarrow> bool" where
  "js_Boolean JUndefined = False"
| "js_Boolean JNull = False"
| "js_Boolean (JBool b) = b"
| "js_Boolean (JNum n) = truthy_num n"
| "js_Boolean (JStr s) = (s \<noteq> [])"
| "js_Boolean (JArr vs) = True"
| "js_Boolean (JObj es) = True"

text \<open>The helpers at the end of every generated file.\<close>

definition isSet :: "js_val \<Rightarrow> bool" where
  "isSet v = (v \<noteq> JNull \<and> v \<noteq> JUndefined)"

fun isObject :: "js_val \<Rightarrow> bool" where
  "isObject (JObj es) = True"
| "isObject (JArr vs) = True"
| "isObject _ = False"

fun isArray :: "js_val \<Rightarrow> bool" where
  "isArray (JArr vs) = True"
| "isArray _ = False"

fun elements :: "js_val \<Rightarrow> js_val list" where
  "elements (JArr vs) = vs"
| "elements _ = []"

text \<open>\<^verbatim>\<open>Object.entries\<close> of an object or an array.\<close>

fun js_entries :: "js_val \<Rightarrow> (string \<times> js_val) list" where
  "js_entries (JObj es) = es"
| "js_entries (JArr vs) = map (\<lambda>(i, v). (show_nat i, v)) (enumerate 0 vs)"
| "js_entries _ = []"

text \<open>\<^verbatim>\<open>object.f\<close>: reading a property of null or undefined throws a \<^verbatim>\<open>TypeError\<close>.\<close>

fun js_get :: "js_val \<Rightarrow> string \<Rightarrow> js_val" where
  "js_get (JObj es) f = (case map_of es f of Some v \<Rightarrow> v | None \<Rightarrow> JUndefined)"
| "js_get _ f = JUndefined"

definition with_object :: "js_val \<Rightarrow> (js_val \<Rightarrow> thrown + 'm) \<Rightarrow> thrown + 'm" where
  "with_object v f = (if isSet v then f v else Inl (TOther ''TypeError''))"

section \<open>Base64\<close>

definition base64_alphabet :: string where
  "base64_alphabet = ''ABCDEFGHIJKLMNOPQRSTUVWXYZabcdefghijklmnopqrstuvwxyz0123456789+/''"

definition base64_char :: "nat \<Rightarrow> char" where
  "base64_char i = base64_alphabet ! i"

text \<open>\<^verbatim>\<open>Buffer.from(arr).toString("base64")\<close>: three bytes in four characters, padded with \<^verbatim>\<open>=\<close>.\<close>

fun base64FromBytes :: "8 word list \<Rightarrow> string" where
  "base64FromBytes [] = []"
| "base64FromBytes [a] =
     [base64_char (unat a div 4), base64_char (unat a mod 4 * 16), CHR ''='', CHR ''='']"
| "base64FromBytes [a, b] =
     [base64_char (unat a div 4), base64_char (unat a mod 4 * 16 + unat b div 16),
      base64_char (unat b mod 16 * 4), CHR ''='']"
| "base64FromBytes (a # b # c # bs) =
     base64_char (unat a div 4) # base64_char (unat a mod 4 * 16 + unat b div 16)
     # base64_char (unat b mod 16 * 4 + unat c div 64) # base64_char (unat c mod 64)
     # base64FromBytes bs"

text \<open>\<^verbatim>\<open>Uint8Array.from(globalThis.Buffer.from(b64, "base64"))\<close>\<close>

definition bytesFromBase64 :: "text_conv \<Rightarrow> js_val \<Rightarrow> thrown + 8 word list" where
  "bytesFromBase64 K v = buffer_from K v"

locale base64_runtime =
  fixes K :: text_conv
  assumes buffer_back: "buffer_from K (JStr (base64FromBytes bs)) = Inr bs"

section \<open>Fields of \<^verbatim>\<open>fromJSON\<close>\<close>

definition json_string :: "text_conv \<Rightarrow> string \<Rightarrow> js_val \<Rightarrow> string" where
  "json_string K d v = (if isSet v then js_String K v else d)"

definition json_number :: "text_conv \<Rightarrow> js_val \<Rightarrow> js_num" where
  "json_number K v = (if isSet v then js_Number K v else Fin 0)"

definition json_boolean :: "js_val \<Rightarrow> bool" where
  "json_boolean v = (if isSet v then js_Boolean v else False)"

definition json_enum :: "(js_val \<Rightarrow> js_num) \<Rightarrow> js_val \<Rightarrow> js_num" where
  "json_enum f v = (if isSet v then f v else Fin 0)"

definition json_strings :: "text_conv \<Rightarrow> js_val \<Rightarrow> string list" where
  "json_strings K v = (if isArray v then map (js_String K) (elements v) else [])"

definition json_numbers :: "text_conv \<Rightarrow> js_val \<Rightarrow> js_num list" where
  "json_numbers K v = (if isArray v then map (js_Number K) (elements v) else [])"

definition json_dict :: "text_conv \<Rightarrow> js_val \<Rightarrow> string js_obj" where
  "json_dict K v =
     (if isObject v then foldl (\<lambda>acc (k, x). js_set k (js_String K x) acc) [] (js_entries v) else [])"

definition json_sub :: "(js_val \<Rightarrow> thrown + 'm) \<Rightarrow> js_val \<Rightarrow> thrown + 'm option" where
  "json_sub f v = (if isSet v then map_sum id Some (f v) else Inr None)"

definition json_subs :: "(js_val \<Rightarrow> thrown + 'm) \<Rightarrow> js_val \<Rightarrow> thrown + 'm list" where
  "json_subs f v = (if isArray v then res_map f (elements v) else Inr [])"

definition json_bytes :: "text_conv \<Rightarrow> js_val \<Rightarrow> thrown + 8 word list" where
  "json_bytes K v = (if isSet v then bytesFromBase64 K v else Inr [])"

definition json_bytess :: "text_conv \<Rightarrow> js_val \<Rightarrow> thrown + 8 word list list" where
  "json_bytess K v = (if isArray v then res_map (bytesFromBase64 K) (elements v) else Inr [])"

lemmas json_fields =
  json_string_def json_number_def json_boolean_def json_enum_def json_strings_def
  json_numbers_def json_dict_def json_sub_def json_subs_def isSet_def

section \<open>Statements of \<^verbatim>\<open>toJSON\<close>\<close>

text \<open>A message is converted by one conditional assignment \<^verbatim>\<open>if (c) { obj.k = v; }\<close> per field.\<close>

definition json_obj :: "(bool \<times> string \<times> js_val) list \<Rightarrow> js_val" where
  "json_obj stmts = JObj (foldl (\<lambda>obj (c, k, v). if c then js_set k v obj else obj) [] stmts)"

definition json_of_dict :: "string js_obj \<Rightarrow> js_val" where
  "json_of_dict d = JObj (foldl (\<lambda>obj (k, v). js_set k (JStr v) obj) [] d)"

definition given :: "bool \<Rightarrow> js_val \<Rightarrow> js_val" where
  "given c v = (if c then v else JUndefined)"

fun stmt_value :: "(bool \<times> string \<times> js_val) list \<Rightarrow> string \<Rightarrow> js_val" where
  "stmt_value [] f = JUndefined"
| "stmt_value ((c, k, v) # ss) f = (if k = f then given c v else stmt_value ss f)"

definition stmt_keys :: "(bool \<times> string \<times> js_val) list \<Rightarrow> string list" where
  "stmt_keys = map (\<lambda>(c, k, v). k)"

lemma json_obj_entries:
  assumes "''__proto__'' \<notin> set (stmt_keys ss)"
  shows "map_of (foldl (\<lambda>obj (c, k, v). if c then js_set k v obj else obj) obj ss)
     = map_of obj ++ map_of (rev (map snd (filter fst ss)))"
  using assms
proof (induction ss arbitrary: obj)
  case Nil
  then show ?case by simp
next
  case (Cons s ss)
  obtain c k v where s: "s = (c, k, v)" by (cases s)
  with Cons.prems have k: "k \<noteq> ''__proto__''" and ss: "''__proto__'' \<notin> set (stmt_keys ss)"
    by (auto simp: stmt_keys_def)
  show ?case
  proof (cases c)
    case True
    then show ?thesis
      using Cons.IH [OF ss, of "js_set k v obj"]
      by (simp add: s fun_eq_iff js_set_lookup [OF k] map_add_def split: option.split)
  next
    case False
    then show ?thesis using Cons.IH [OF ss, of obj] by (simp add: s)
  qed
qed

lemma stmt_value_map_of:
  assumes "distinct (stmt_keys ss)"
  shows "(case map_of (rev (map snd (filter fst ss))) f of
            Some v \<Rightarrow> v | None \<Rightarrow> JUndefined) = stmt_value ss f"
  using assms
proof (induction ss)
  case Nil
  then show ?case by simp
next
  case (Cons s ss)
  obtain c k v where s: "s = (c, k, v)" by (cases s)
  have new: "map_of (rev (map snd (filter fst ss))) k = None"
    using Cons.prems by (force simp: s stmt_keys_def map_of_eq_None_iff)
  have IH: "(case map_of (rev (map snd (filter fst ss))) f of
      Some v \<Rightarrow> v | None \<Rightarrow> JUndefined) = stmt_value ss f"
    using Cons by (simp add: s stmt_keys_def)
  have undef: "stmt_value ss k = JUndefined"
    using Cons.prems by (induction ss) (auto simp: s stmt_keys_def)
  show ?case
    using IH new undef by (auto simp: s given_def map_add_def split: option.splits)
qed

lemma js_get_json_obj:
  assumes "distinct (stmt_keys ss)" "''__proto__'' \<notin> set (stmt_keys ss)"
  shows "js_get (json_obj ss) f = stmt_value ss f"
  using stmt_value_map_of [OF assms(1)] json_obj_entries [OF assms(2), of "[]"]
  by (simp add: json_obj_def)

lemma with_json_obj: "with_object (json_obj ss) f = f (json_obj ss)"
  by (simp add: with_object_def isSet_def json_obj_def)

section \<open>Round trips of the fields\<close>

text \<open>Each lemma reads back what the statement of \<^verbatim>\<open>toJSON\<close> for the same kind of field assigned, if
  it assigned anything.\<close>

lemma json_string_back: "json_string K d (given (s \<noteq> d) (JStr s)) = s"
  by (simp add: json_fields given_def)

lemma json_number_back: "json_number K (given (\<not> js_eq n (Fin 0)) (JNum n)) = n"
  by (auto simp: json_fields given_def js_eq_def)

lemma json_round_back:
  "js_round n = n \<Longrightarrow> json_number K (given (\<not> js_eq n (Fin 0)) (JNum (js_round n))) = n"
  by (auto simp: json_fields given_def js_eq_def)

lemma json_boolean_back: "json_boolean (given b (JBool b)) = b"
  by (simp add: json_fields given_def)

lemma json_strings_back: "json_strings K (given (ss \<noteq> []) (JArr (map JStr ss))) = ss"
  by (simp add: json_fields given_def map_idI)

lemma json_numbers_back: "json_numbers K (given (ns \<noteq> []) (JArr (map JNum ns))) = ns"
  by (simp add: json_fields given_def map_idI)

lemma js_set_map:
  "js_set k (h v) (map (\<lambda>(k, v). (k, h v)) obj) = map (\<lambda>(k, v). (k, h v)) (js_set k v obj)"
proof -
  have keys: "fst ` set (map (\<lambda>(k, v). (k, h v)) obj) = fst ` set obj"
    by (force simp: image_image)
  have upd: "AList.update k (h v) (map (\<lambda>(k, v). (k, h v)) obj) = map (\<lambda>(k, v). (k, h v)) (AList.update k v obj)"
    by (induction obj) auto
  have before: "key_before k (case e of (k, v) \<Rightarrow> (k, h v)) = key_before k e" for e
    by (cases e) (simp add: key_before_def)
  have tw: "takeWhile (key_before k) (map (\<lambda>(k, v). (k, h v)) obj) = map (\<lambda>(k, v). (k, h v)) (takeWhile (key_before k) obj)"
    by (induction obj) (auto simp: before key_before_def)
  have dw: "dropWhile (key_before k) (map (\<lambda>(k, v). (k, h v)) obj) = map (\<lambda>(k, v). (k, h v)) (dropWhile (key_before k) obj)"
    by (induction obj) (auto simp: before key_before_def)
  show ?thesis unfolding js_set_def keys upd tw dw by simp
qed

lemma json_of_dict_ok:
  assumes "js_obj_ok d"
  shows "json_of_dict d = JObj (map (\<lambda>(k, v). (k, JStr v)) d)"
proof -
  have "foldl (\<lambda>obj (k, v). js_set k (JStr v) obj) (map (\<lambda>(k, v). (k, JStr v)) a) d
      = map (\<lambda>(k, v). (k, JStr v)) (foldl (\<lambda>obj (k, v). js_set k v obj) a d)" for a
    by (induction d arbitrary: a) (auto simp: js_set_map split_beta)
  from this [of "[]"] foldl_js_set_id [OF assms] show ?thesis by (simp add: json_of_dict_def)
qed

lemma json_dict_back:
  assumes "js_obj_ok d"
  shows "json_dict K (given (d \<noteq> []) (json_of_dict d)) = d"
  using foldl_js_set_id [OF assms]
  by (simp add: json_dict_def given_def json_of_dict_ok [OF assms] foldl_map split_beta')

lemma json_sub_back:
  assumes "\<And>m. x = Some m \<Longrightarrow> f (g m) = Inr m" and "\<And>m. isSet (g m)"
  shows "json_sub f (given (\<exists>m. x = Some m) (case x of None \<Rightarrow> JUndefined | Some m \<Rightarrow> g m)) = Inr x"
  using assms by (cases x) (simp_all add: json_sub_def given_def isSet_def)

lemma json_subs_back:
  assumes "\<And>m. m \<in> set ms \<Longrightarrow> f (g m) = Inr m"
  shows "json_subs f (given (ms \<noteq> []) (JArr (map g ms))) = Inr ms"
proof -
  have "res_map f (map g ms) = Inr ms" using assms by (induction ms) auto
  then show ?thesis by (simp add: json_subs_def given_def)
qed

context base64_runtime
begin

lemma json_bytes_back:
  "json_bytes K (given (bs \<noteq> []) (JStr (base64FromBytes bs))) = Inr bs"
  by (simp add: json_bytes_def given_def isSet_def bytesFromBase64_def buffer_back)

lemma json_bytess_back:
  "json_bytess K (given (bss \<noteq> []) (JArr (map (\<lambda>bs. JStr (base64FromBytes bs)) bss)))
     = Inr bss"
proof -
  have "res_map (bytesFromBase64 K) (map (\<lambda>bs. JStr (base64FromBytes bs)) bss) = Inr bss"
    by (induction bss) (simp_all add: bytesFromBase64_def buffer_back)
  then show ?thesis by (simp add: json_bytess_def given_def)
qed

end

lemma isSet_json_obj: "isSet (json_obj ss)"
  by (simp add: json_obj_def isSet_def)

lemma isObject_json_obj: "isObject (json_obj ss)"
  by (simp add: json_obj_def)

lemmas json_back =
  with_json_obj js_get_json_obj stmt_keys_def json_string_back json_number_back json_round_back
  json_boolean_back json_strings_back json_numbers_back json_dict_back json_sub_back json_subs_back

section \<open>A runtime that reads base64 back\<close>

definition base64_index :: "char \<Rightarrow> nat" where
  "base64_index c = length (takeWhile (\<lambda>d. d \<noteq> c) base64_alphabet)"

fun base64_decode :: "string \<Rightarrow> 8 word list" where
  "base64_decode (p # q # r # s # cs) =
     (let i = base64_index p; j = base64_index q; k = base64_index r; l = base64_index s;
          a = of_nat (i * 4 + j div 16); b = of_nat (j mod 16 * 16 + k div 4);
          c = of_nat (k mod 4 * 64 + l)
      in if r = CHR ''='' then [a] else if s = CHR ''='' then [a, b]
         else a # b # c # base64_decode cs)"
| "base64_decode _ = []"

fun base64_buffer :: "js_val \<Rightarrow> thrown + 8 word list" where
  "base64_buffer (JStr s) = Inr (base64_decode s)"
| "base64_buffer _ = Inl (TOther ''TypeError'')"

lemma base64_char_table:
  "list_all (\<lambda>i. base64_index (base64_char i) = i \<and> base64_char i \<noteq> CHR ''='') [0..<64]"
  by code_simp

lemma base64_char_back [simp]:
  assumes "i < 64"
  shows "base64_index (base64_char i) = i" "base64_char i \<noteq> CHR ''=''"
  using base64_char_table assms by (auto simp: list_all_iff)

lemma byte_less [simp]: "unat (a :: 8 word) < 256"
  using unsigned_less [of a] by simp

lemma base64_bits [simp]:
  fixes a b c :: "8 word"
  shows "unat a div 4 < 64" "unat a mod 4 * 16 < 64" "unat a mod 4 * 16 + unat b div 16 < 64"
    "unat b mod 16 * 4 < 64" "unat b mod 16 * 4 + unat c div 64 < 64" "unat c mod 64 < 64"
  using byte_less [of a] byte_less [of b] byte_less [of c] by linarith+

lemma base64_regroup:
  fixes x y z :: nat
  assumes "x < 256" "y < 256" "z < 256"
  shows "x div 4 * 4 + (x mod 4 * 16 + y div 16) div 16 = x"
    and "(x mod 4 * 16 + y div 16) mod 16 * 16 + (y mod 16 * 4 + z div 64) div 4 = y"
    and "(y mod 16 * 4 + z div 64) mod 4 * 64 + z mod 64 = z"
proof -
  have "y div 16 < 16" "z div 64 < 4" using assms by linarith+
  then show "x div 4 * 4 + (x mod 4 * 16 + y div 16) div 16 = x"
    and "(x mod 4 * 16 + y div 16) mod 16 * 16 + (y mod 16 * 4 + z div 64) div 4 = y"
    and "(y mod 16 * 4 + z div 64) mod 4 * 64 + z mod 64 = z"
    by simp_all
qed

lemma base64_decode_back: "base64_decode (base64FromBytes bs) = bs"
proof (induction bs rule: base64FromBytes.induct)
  case (2 a)
  then show ?case using base64_regroup(1) [of "unat a" 0 0] by (simp add: Let_def del: of_nat_add of_nat_mult)
next
  case (3 a b)
  then show ?case using base64_regroup(1,2) [of "unat a" "unat b" 0]
    by (simp add: Let_def del: of_nat_add of_nat_mult)
next
  case (4 a b c bs)
  then show ?case using base64_regroup [of "unat a" "unat b" "unat c"]
    by (simp add: Let_def del: of_nat_add of_nat_mult)
qed simp

lemma base64_buffer_runtime: "base64_runtime (K\<lparr>buffer_from := base64_buffer\<rparr>)"
  by unfold_locales (simp add: base64_decode_back)

text \<open>A runtime that prints integers and reads no numbers, for examples.\<close>

definition plain_conv :: text_conv where
  "plain_conv =
     \<lparr>str_of_num = (\<lambda>n. case n of Fin a \<Rightarrow> show_int \<lfloor>a\<rfloor> | _ \<Rightarrow> ''NaN''), num_of_str = (\<lambda>s. NaN),
      buffer_from = base64_buffer\<rparr>"

interpretation node: base64_runtime plain_conv
  by unfold_locales (simp add: plain_conv_def base64_decode_back)

end
