(* ===== verification/Reranker_Json.thy ===== *)
theory Reranker_Json
  imports Reranker_Messages Json
begin

text \<open>
  The JSON side of the messages of \<open>Reranker_Messages\<close>: \<^verbatim>\<open>fromJSON\<close> and \<^verbatim>\<open>toJSON\<close> of each of them.
  \<open>json_ok_X\<close> says which messages come back unchanged: their integer fields are integers
  (\<^verbatim>\<open>toJSON\<close> rounds), their enum fields have a value of the enum (others become
  \<^verbatim>\<open>UNRECOGNIZED\<close>) and their dictionaries are in the order of \<^verbatim>\<open>Object.entries\<close>. A message
  without \<open>json_ok_X\<close> always comes back.
\<close>

section \<open>\<^verbatim>\<open>fromJSON\<close> and \<^verbatim>\<open>toJSON\<close>\<close>

definition fromJSON_Candidate_MetadataEntry :: "text_conv \<Rightarrow> js_val \<Rightarrow> thrown + Candidate_MetadataEntry" where
  "fromJSON_Candidate_MetadataEntry K object =
     with_object object (\<lambda>object.
       Inr \<lparr>Candidate_MetadataEntry_key = json_string K [] (js_get object ''key''),
          Candidate_MetadataEntry_value = json_string K [] (js_get object ''value'')\<rparr>)"

definition toJSON_Candidate_MetadataEntry :: "Candidate_MetadataEntry \<Rightarrow> js_val" where
  "toJSON_Candidate_MetadataEntry m =
     json_obj
      [(Candidate_MetadataEntry_key m \<noteq> [], ''key'', JStr (Candidate_MetadataEntry_key m)),
       (Candidate_MetadataEntry_value m \<noteq> [], ''value'', JStr (Candidate_MetadataEntry_value m))]"

definition fromJSON_Candidate :: "text_conv \<Rightarrow> js_val \<Rightarrow> thrown + Candidate" where
  "fromJSON_Candidate K object =
     with_object object (\<lambda>object.
       Inr \<lparr>Candidate_id = json_string K [] (js_get object ''id''),
          Candidate_score = json_number K (js_get object ''score''),
          Candidate_vector = json_numbers K (js_get object ''vector''),
          Candidate_metadata = json_dict K (js_get object ''metadata'')\<rparr>)"

definition toJSON_Candidate :: "Candidate \<Rightarrow> js_val" where
  "toJSON_Candidate m =
     json_obj
      [(Candidate_id m \<noteq> [], ''id'', JStr (Candidate_id m)),
       (\<not> js_eq (Candidate_score m) (Fin 0), ''score'', JNum (Candidate_score m)),
       (Candidate_vector m \<noteq> [], ''vector'', JArr (map JNum (Candidate_vector m))),
       (Candidate_metadata m \<noteq> [], ''metadata'', json_of_dict (Candidate_metadata m))]"

definition fromJSON_RerankRequest_OptionsEntry :: "text_conv \<Rightarrow> js_val \<Rightarrow> thrown + RerankRequest_OptionsEntry" where
  "fromJSON_RerankRequest_OptionsEntry K object =
     with_object object (\<lambda>object.
       Inr \<lparr>RerankRequest_OptionsEntry_key = json_string K [] (js_get object ''key''),
          RerankRequest_OptionsEntry_value = json_string K [] (js_get object ''value'')\<rparr>)"

definition toJSON_RerankRequest_OptionsEntry :: "RerankRequest_OptionsEntry \<Rightarrow> js_val" where
  "toJSON_RerankRequest_OptionsEntry m =
     json_obj
      [(RerankRequest_OptionsEntry_key m \<noteq> [], ''key'', JStr (RerankRequest_OptionsEntry_key m)),
       (RerankRequest_OptionsEntry_value m \<noteq> [], ''value'', JStr (RerankRequest_OptionsEntry_value m))]"

definition fromJSON_RerankRequest :: "text_conv \<Rightarrow> js_val \<Rightarrow> thrown + RerankRequest" where
  "fromJSON_RerankRequest K object =
     with_object object (\<lambda>object.
       res_bind (json_subs (fromJSON_Candidate K) (js_get object ''candidates'')) (\<lambda>candidates'.
       Inr \<lparr>RerankRequest_query = json_string K [] (js_get object ''query''),
          RerankRequest_candidates = candidates',
          RerankRequest_topN = json_number K (js_get object ''topN''),
          RerankRequest_options = json_dict K (js_get object ''options'')\<rparr>))"

definition toJSON_RerankRequest :: "RerankRequest \<Rightarrow> js_val" where
  "toJSON_RerankRequest m =
     json_obj
      [(RerankRequest_query m \<noteq> [], ''query'', JStr (RerankRequest_query m)),
       (RerankRequest_candidates m \<noteq> [], ''candidates'', JArr (map toJSON_Candidate (RerankRequest_candidates m))),
       (\<not> js_eq (RerankRequest_topN m) (Fin 0), ''topN'', JNum (js_round (RerankRequest_topN m))),
       (RerankRequest_options m \<noteq> [], ''options'', json_of_dict (RerankRequest_options m))]"

definition fromJSON_ScoredCandidate :: "text_conv \<Rightarrow> js_val \<Rightarrow> thrown + ScoredCandidate" where
  "fromJSON_ScoredCandidate K object =
     with_object object (\<lambda>object.
       Inr \<lparr>ScoredCandidate_id = json_string K [] (js_get object ''id''),
          ScoredCandidate_rerankScore = json_number K (js_get object ''rerankScore''),
          ScoredCandidate_originalScore = json_number K (js_get object ''originalScore''),
          ScoredCandidate_explanation = json_string K [] (js_get object ''explanation'')\<rparr>)"

definition toJSON_ScoredCandidate :: "ScoredCandidate \<Rightarrow> js_val" where
  "toJSON_ScoredCandidate m =
     json_obj
      [(ScoredCandidate_id m \<noteq> [], ''id'', JStr (ScoredCandidate_id m)),
       (\<not> js_eq (ScoredCandidate_rerankScore m) (Fin 0), ''rerankScore'', JNum (ScoredCandidate_rerankScore m)),
       (\<not> js_eq (ScoredCandidate_originalScore m) (Fin 0), ''originalScore'', JNum (ScoredCandidate_originalScore m)),
       (ScoredCandidate_explanation m \<noteq> [], ''explanation'', JStr (ScoredCandidate_explanation m))]"

definition fromJSON_RerankResponse :: "text_conv \<Rightarrow> js_val \<Rightarrow> thrown + RerankResponse" where
  "fromJSON_RerankResponse K object =
     with_object object (\<lambda>object.
       res_bind (json_subs (fromJSON_ScoredCandidate K) (js_get object ''results'')) (\<lambda>results'.
       Inr \<lparr>RerankResponse_results = results',
          RerankResponse_strategyUsed = json_string K [] (js_get object ''strategyUsed''),
          RerankResponse_fromCache = json_boolean (js_get object ''fromCache''),
          RerankResponse_latencyMs = json_string K ''0'' (js_get object ''latencyMs'')\<rparr>))"

definition toJSON_RerankResponse :: "RerankResponse \<Rightarrow> js_val" where
  "toJSON_RerankResponse m =
     json_obj
      [(RerankResponse_results m \<noteq> [], ''results'', JArr (map toJSON_ScoredCandidate (RerankResponse_results m))),
       (RerankResponse_strategyUsed m \<noteq> [], ''strategyUsed'', JStr (RerankResponse_strategyUsed m)),
       (RerankResponse_fromCache m, ''fromCache'', JBool (RerankResponse_fromCache m)),
       (RerankResponse_latencyMs m \<noteq> ''0'', ''latencyMs'', JStr (RerankResponse_latencyMs m))]"

definition fromJSON_GetStrategyRequest :: "text_conv \<Rightarrow> js_val \<Rightarrow> thrown + GetStrategyRequest" where
  "fromJSON_GetStrategyRequest K object = Inr GetStrategyRequest"

definition toJSON_GetStrategyRequest :: "GetStrategyRequest \<Rightarrow> js_val" where
  "toJSON_GetStrategyRequest m = json_obj []"

definition fromJSON_GetStrategyResponse_ConfigEntry :: "text_conv \<Rightarrow> js_val \<Rightarrow> thrown + GetStrategyResponse_ConfigEntry" where
  "fromJSON_GetStrategyResponse_ConfigEntry K object =
     with_object object (\<lambda>object.
       Inr \<lparr>GetStrategyResponse_ConfigEntry_key = json_string K [] (js_get object ''key''),
          GetStrategyResponse_ConfigEntry_value = json_string K [] (js_get object ''value'')\<rparr>)"

definition toJSON_GetStrategyResponse_ConfigEntry :: "GetStrategyResponse_ConfigEntry \<Rightarrow> js_val" where
  "toJSON_GetStrategyResponse_ConfigEntry m =
     json_obj
      [(GetStrategyResponse_ConfigEntry_key m \<noteq> [], ''key'', JStr (GetStrategyResponse_ConfigEntry_key m)),
       (GetStrategyResponse_ConfigEntry_value m \<noteq> [], ''value'', JStr (GetStrategyResponse_ConfigEntry_value m))]"

definition fromJSON_GetStrategyResponse :: "text_conv \<Rightarrow> js_val \<Rightarrow> thrown + GetStrategyResponse" where
  "fromJSON_GetStrategyResponse K object =
     with_object object (\<lambda>object.
       Inr \<lparr>GetStrategyResponse_strategyName = json_string K [] (js_get object ''strategyName''),
          GetStrategyResponse_version = json_string K [] (js_get object ''version''),
          GetStrategyResponse_config = json_dict K (js_get object ''config'')\<rparr>)"

definition toJSON_GetStrategyResponse :: "GetStrategyResponse \<Rightarrow> js_val" where
  "toJSON_GetStrategyResponse m =
     json_obj
      [(GetStrategyResponse_strategyName m \<noteq> [], ''strategyName'', JStr (GetStrategyResponse_strategyName m)),
       (GetStrategyResponse_version m \<noteq> [], ''version'', JStr (GetStrategyResponse_version m)),
       (GetStrategyResponse_config m \<noteq> [], ''config'', json_of_dict (GetStrategyResponse_config m))]"

definition fromJSON_InvalidateCacheRequest :: "text_conv \<Rightarrow> js_val \<Rightarrow> thrown + InvalidateCacheRequest" where
  "fromJSON_InvalidateCacheRequest K object =
     with_object object (\<lambda>object.
       Inr \<lparr>InvalidateCacheRequest_query = json_string K [] (js_get object ''query''),
          InvalidateCacheRequest_candidateIds = json_strings K (js_get object ''candidateIds'')\<rparr>)"

definition toJSON_InvalidateCacheRequest :: "InvalidateCacheRequest \<Rightarrow> js_val" where
  "toJSON_InvalidateCacheRequest m =
     json_obj
      [(InvalidateCacheRequest_query m \<noteq> [], ''query'', JStr (InvalidateCacheRequest_query m)),
       (InvalidateCacheRequest_candidateIds m \<noteq> [], ''candidateIds'', JArr (map JStr (InvalidateCacheRequest_candidateIds m)))]"

definition fromJSON_InvalidateCacheResponse :: "text_conv \<Rightarrow> js_val \<Rightarrow> thrown + InvalidateCacheResponse" where
  "fromJSON_InvalidateCacheResponse K object =
     with_object object (\<lambda>object.
       Inr \<lparr>InvalidateCacheResponse_entriesCleared = json_number K (js_get object ''entriesCleared'')\<rparr>)"

definition toJSON_InvalidateCacheResponse :: "InvalidateCacheResponse \<Rightarrow> js_val" where
  "toJSON_InvalidateCacheResponse m =
     json_obj
      [(\<not> js_eq (InvalidateCacheResponse_entriesCleared m) (Fin 0), ''entriesCleared'', JNum (js_round (InvalidateCacheResponse_entriesCleared m)))]"

section \<open>What \<^verbatim>\<open>toJSON\<close> writes, \<^verbatim>\<open>fromJSON\<close> reads\<close>

lemma isSet_toJSON_Candidate_MetadataEntry: "isSet (toJSON_Candidate_MetadataEntry m)"
  by (simp add: toJSON_Candidate_MetadataEntry_def isSet_json_obj)

lemma isSet_toJSON_Candidate: "isSet (toJSON_Candidate m)"
  by (simp add: toJSON_Candidate_def isSet_json_obj)

lemma isSet_toJSON_RerankRequest_OptionsEntry: "isSet (toJSON_RerankRequest_OptionsEntry m)"
  by (simp add: toJSON_RerankRequest_OptionsEntry_def isSet_json_obj)

lemma isSet_toJSON_RerankRequest: "isSet (toJSON_RerankRequest m)"
  by (simp add: toJSON_RerankRequest_def isSet_json_obj)

lemma isSet_toJSON_ScoredCandidate: "isSet (toJSON_ScoredCandidate m)"
  by (simp add: toJSON_ScoredCandidate_def isSet_json_obj)

lemma isSet_toJSON_RerankResponse: "isSet (toJSON_RerankResponse m)"
  by (simp add: toJSON_RerankResponse_def isSet_json_obj)

lemma isSet_toJSON_GetStrategyResponse_ConfigEntry: "isSet (toJSON_GetStrategyResponse_ConfigEntry m)"
  by (simp add: toJSON_GetStrategyResponse_ConfigEntry_def isSet_json_obj)

lemma isSet_toJSON_GetStrategyResponse: "isSet (toJSON_GetStrategyResponse m)"
  by (simp add: toJSON_GetStrategyResponse_def isSet_json_obj)

lemma isSet_toJSON_InvalidateCacheRequest: "isSet (toJSON_InvalidateCacheRequest m)"
  by (simp add: toJSON_InvalidateCacheRequest_def isSet_json_obj)

lemma isSet_toJSON_InvalidateCacheResponse: "isSet (toJSON_InvalidateCacheResponse m)"
  by (simp add: toJSON_InvalidateCacheResponse_def isSet_json_obj)

lemma json_Candidate_MetadataEntry:
  "fromJSON_Candidate_MetadataEntry K (toJSON_Candidate_MetadataEntry m) = Inr m"
  by (cases m) (simp add: fromJSON_Candidate_MetadataEntry_def toJSON_Candidate_MetadataEntry_def json_back)

definition json_ok_Candidate :: "Candidate \<Rightarrow> bool" where
  "json_ok_Candidate m \<longleftrightarrow> js_obj_ok (Candidate_metadata m)"

lemma json_Candidate:
  assumes "json_ok_Candidate m"
  shows "fromJSON_Candidate K (toJSON_Candidate m) = Inr m"
  using assms
  by (cases m) (simp add: fromJSON_Candidate_def toJSON_Candidate_def json_back json_ok_Candidate_def)

lemma json_RerankRequest_OptionsEntry:
  "fromJSON_RerankRequest_OptionsEntry K (toJSON_RerankRequest_OptionsEntry m) = Inr m"
  by (cases m) (simp add: fromJSON_RerankRequest_OptionsEntry_def toJSON_RerankRequest_OptionsEntry_def json_back)

definition json_ok_RerankRequest :: "RerankRequest \<Rightarrow> bool" where
  "json_ok_RerankRequest m \<longleftrightarrow> (\<forall>v \<in> set (RerankRequest_candidates m). json_ok_Candidate v) \<and> js_round (RerankRequest_topN m) = RerankRequest_topN m \<and> js_obj_ok (RerankRequest_options m)"

lemma json_RerankRequest:
  assumes "json_ok_RerankRequest m"
  shows "fromJSON_RerankRequest K (toJSON_RerankRequest m) = Inr m"
  using assms
  by (cases m) (simp add: fromJSON_RerankRequest_def toJSON_RerankRequest_def json_back json_ok_RerankRequest_def json_Candidate isSet_toJSON_Candidate)

lemma json_ScoredCandidate:
  "fromJSON_ScoredCandidate K (toJSON_ScoredCandidate m) = Inr m"
  by (cases m) (simp add: fromJSON_ScoredCandidate_def toJSON_ScoredCandidate_def json_back)

lemma json_RerankResponse:
  "fromJSON_RerankResponse K (toJSON_RerankResponse m) = Inr m"
  by (cases m) (simp add: fromJSON_RerankResponse_def toJSON_RerankResponse_def json_back json_ScoredCandidate isSet_toJSON_ScoredCandidate)

lemma json_GetStrategyRequest: "fromJSON_GetStrategyRequest K (toJSON_GetStrategyRequest m) = Inr m"
  by (cases m) (simp add: fromJSON_GetStrategyRequest_def)

lemma json_GetStrategyResponse_ConfigEntry:
  "fromJSON_GetStrategyResponse_ConfigEntry K (toJSON_GetStrategyResponse_ConfigEntry m) = Inr m"
  by (cases m) (simp add: fromJSON_GetStrategyResponse_ConfigEntry_def toJSON_GetStrategyResponse_ConfigEntry_def json_back)

definition json_ok_GetStrategyResponse :: "GetStrategyResponse \<Rightarrow> bool" where
  "json_ok_GetStrategyResponse m \<longleftrightarrow> js_obj_ok (GetStrategyResponse_config m)"

lemma json_GetStrategyResponse:
  assumes "json_ok_GetStrategyResponse m"
  shows "fromJSON_GetStrategyResponse K (toJSON_GetStrategyResponse m) = Inr m"
  using assms
  by (cases m) (simp add: fromJSON_GetStrategyResponse_def toJSON_GetStrategyResponse_def json_back json_ok_GetStrategyResponse_def)

lemma json_InvalidateCacheRequest:
  "fromJSON_InvalidateCacheRequest K (toJSON_InvalidateCacheRequest m) = Inr m"
  by (cases m) (simp add: fromJSON_InvalidateCacheRequest_def toJSON_InvalidateCacheRequest_def json_back)

definition json_ok_InvalidateCacheResponse :: "InvalidateCacheResponse \<Rightarrow> bool" where
  "json_ok_InvalidateCacheResponse m \<longleftrightarrow> js_round (InvalidateCacheResponse_entriesCleared m) = InvalidateCacheResponse_entriesCleared m"

lemma json_InvalidateCacheResponse:
  assumes "json_ok_InvalidateCacheResponse m"
  shows "fromJSON_InvalidateCacheResponse K (toJSON_InvalidateCacheResponse m) = Inr m"
  using assms
  by (cases m) (simp add: fromJSON_InvalidateCacheResponse_def toJSON_InvalidateCacheResponse_def json_back json_ok_InvalidateCacheResponse_def)


end
