(* ===== verification/Placement_Messages.thy ===== *)
theory Placement_Messages
  imports Wire_Bytes
begin

unbundle bit_operations_syntax

text \<open>
  The messages of \<^verbatim>\<open>clientlibs/js/proto/placementdriver/placementdriver.ts\<close>, translated in the same way as those of
  \<open>Auth_Messages\<close>. Names that other services use as well carry the prefix \<^verbatim>\<open>Pd\<close>.
\<close>

section \<open>Messages\<close>

subsection \<open>\<^verbatim>\<open>GetLeaderRequest\<close>\<close>

datatype GetLeaderRequest = GetLeaderRequest

definition createBaseGetLeaderRequest :: GetLeaderRequest where
  "createBaseGetLeaderRequest = GetLeaderRequest"

definition encode_GetLeaderRequest :: "('w, 'r) wire \<Rightarrow> GetLeaderRequest \<Rightarrow> 'w writes" where
  "encode_GetLeaderRequest W m = w_seq []"

definition switch_GetLeaderRequest :: "('w, 'r) wire \<Rightarrow> ('r, GetLeaderRequest) switch" where
  "switch_GetLeaderRequest W tag m r = Break"

definition fromPartial_GetLeaderRequest :: "unit \<Rightarrow> GetLeaderRequest" where
  "fromPartial_GetLeaderRequest u = createBaseGetLeaderRequest"

definition create_GetLeaderRequest :: "unit option \<Rightarrow> GetLeaderRequest" where
  "create_GetLeaderRequest base = fromPartial_GetLeaderRequest (nullish base ())"

definition decode_GetLeaderRequest :: "('w, 'r) wire \<Rightarrow> 'r \<Rightarrow> nat option \<Rightarrow> (GetLeaderRequest \<times> 'r) comp" where
  "decode_GetLeaderRequest W = decode_with W (switch_GetLeaderRequest W) createBaseGetLeaderRequest"

subsection \<open>\<^verbatim>\<open>GetLeaderResponse\<close>\<close>

record GetLeaderResponse =
  GetLeaderResponse_leaderAddress :: string

definition createBaseGetLeaderResponse :: GetLeaderResponse where
  "createBaseGetLeaderResponse =
     \<lparr>GetLeaderResponse_leaderAddress = []\<rparr>"

definition encode_GetLeaderResponse :: "('w, 'r) wire \<Rightarrow> GetLeaderResponse \<Rightarrow> 'w writes" where
  "encode_GetLeaderResponse W m =
     w_seq
      [w_if (GetLeaderResponse_leaderAddress m \<noteq> []) (w_field W 10 (w_string W (GetLeaderResponse_leaderAddress m)))]"

definition switch_GetLeaderResponse :: "('w, 'r) wire \<Rightarrow> ('r, GetLeaderResponse) switch" where
  "switch_GetLeaderResponse W tag m r =
     (if drop_bit 3 tag = 1 then
       (if tag \<noteq> 10 then Break
        else arm_read (r_string W) (\<lambda>v. m\<lparr>GetLeaderResponse_leaderAddress := v\<rparr>) r)
      else Break)"

type_synonym GetLeaderResponse_partial = "string option"

fun fromPartial_GetLeaderResponse :: "GetLeaderResponse_partial \<Rightarrow> GetLeaderResponse" where
  "fromPartial_GetLeaderResponse leaderAddress' =
     \<lparr>GetLeaderResponse_leaderAddress = nullish leaderAddress' []\<rparr>"

definition create_GetLeaderResponse :: "GetLeaderResponse_partial option \<Rightarrow> GetLeaderResponse" where
  "create_GetLeaderResponse base = fromPartial_GetLeaderResponse (nullish base None)"

definition decode_GetLeaderResponse :: "('w, 'r) wire \<Rightarrow> 'r \<Rightarrow> nat option \<Rightarrow> (GetLeaderResponse \<times> 'r) comp" where
  "decode_GetLeaderResponse W = decode_with W (switch_GetLeaderResponse W) createBaseGetLeaderResponse"

subsection \<open>\<^verbatim>\<open>GetWorkerRequest\<close>\<close>

record GetWorkerRequest =
  GetWorkerRequest_collection :: string
  GetWorkerRequest_vectorId :: string

definition createBaseGetWorkerRequest :: GetWorkerRequest where
  "createBaseGetWorkerRequest =
     \<lparr>GetWorkerRequest_collection = [],
      GetWorkerRequest_vectorId = []\<rparr>"

definition encode_GetWorkerRequest :: "('w, 'r) wire \<Rightarrow> GetWorkerRequest \<Rightarrow> 'w writes" where
  "encode_GetWorkerRequest W m =
     w_seq
      [w_if (GetWorkerRequest_collection m \<noteq> []) (w_field W 10 (w_string W (GetWorkerRequest_collection m))),
       w_if (GetWorkerRequest_vectorId m \<noteq> []) (w_field W 18 (w_string W (GetWorkerRequest_vectorId m)))]"

definition switch_GetWorkerRequest :: "('w, 'r) wire \<Rightarrow> ('r, GetWorkerRequest) switch" where
  "switch_GetWorkerRequest W tag m r =
     (if drop_bit 3 tag = 1 then
       (if tag \<noteq> 10 then Break
        else arm_read (r_string W) (\<lambda>v. m\<lparr>GetWorkerRequest_collection := v\<rparr>) r)
      else if drop_bit 3 tag = 2 then
       (if tag \<noteq> 18 then Break
        else arm_read (r_string W) (\<lambda>v. m\<lparr>GetWorkerRequest_vectorId := v\<rparr>) r)
      else Break)"

type_synonym GetWorkerRequest_partial = "(string option) \<times> (string option)"

fun fromPartial_GetWorkerRequest :: "GetWorkerRequest_partial \<Rightarrow> GetWorkerRequest" where
  "fromPartial_GetWorkerRequest (collection', vectorId') =
     \<lparr>GetWorkerRequest_collection = nullish collection' [],
      GetWorkerRequest_vectorId = nullish vectorId' []\<rparr>"

definition create_GetWorkerRequest :: "GetWorkerRequest_partial option \<Rightarrow> GetWorkerRequest" where
  "create_GetWorkerRequest base = fromPartial_GetWorkerRequest (nullish base (None, None))"

definition decode_GetWorkerRequest :: "('w, 'r) wire \<Rightarrow> 'r \<Rightarrow> nat option \<Rightarrow> (GetWorkerRequest \<times> 'r) comp" where
  "decode_GetWorkerRequest W = decode_with W (switch_GetWorkerRequest W) createBaseGetWorkerRequest"

subsection \<open>\<^verbatim>\<open>GetWorkerResponse\<close>\<close>

record GetWorkerResponse =
  GetWorkerResponse_grpcAddress :: string
  GetWorkerResponse_shardId :: js_num
  GetWorkerResponse_shardEpoch :: string
  GetWorkerResponse_leaseExpiryUnixMs :: string

definition createBaseGetWorkerResponse :: GetWorkerResponse where
  "createBaseGetWorkerResponse =
     \<lparr>GetWorkerResponse_grpcAddress = [],
      GetWorkerResponse_shardId = Fin 0,
      GetWorkerResponse_shardEpoch = ''0'',
      GetWorkerResponse_leaseExpiryUnixMs = ''0''\<rparr>"

definition encode_GetWorkerResponse :: "('w, 'r) wire \<Rightarrow> GetWorkerResponse \<Rightarrow> 'w writes" where
  "encode_GetWorkerResponse W m =
     w_seq
      [w_if (GetWorkerResponse_grpcAddress m \<noteq> []) (w_field W 10 (w_string W (GetWorkerResponse_grpcAddress m))),
       w_if (\<not> js_eq (GetWorkerResponse_shardId m) (Fin 0)) (w_field W 16 (w_uint32 W (GetWorkerResponse_shardId m))),
       w_if (GetWorkerResponse_shardEpoch m \<noteq> ''0'') (w_field W 24 (w_uint64 W (GetWorkerResponse_shardEpoch m))),
       w_if (GetWorkerResponse_leaseExpiryUnixMs m \<noteq> ''0'') (w_field W 32 (w_int64 W (GetWorkerResponse_leaseExpiryUnixMs m)))]"

definition switch_GetWorkerResponse :: "('w, 'r) wire \<Rightarrow> ('r, GetWorkerResponse) switch" where
  "switch_GetWorkerResponse W tag m r =
     (if drop_bit 3 tag = 1 then
       (if tag \<noteq> 10 then Break
        else arm_read (r_string W) (\<lambda>v. m\<lparr>GetWorkerResponse_grpcAddress := v\<rparr>) r)
      else if drop_bit 3 tag = 2 then
       (if tag \<noteq> 16 then Break
        else arm_read (r_uint32 W) (\<lambda>v. m\<lparr>GetWorkerResponse_shardId := num_of_nat (unat v)\<rparr>) r)
      else if drop_bit 3 tag = 3 then
       (if tag \<noteq> 24 then Break
        else arm_read (r_uint64 W) (\<lambda>v. m\<lparr>GetWorkerResponse_shardEpoch := show_nat (unat v)\<rparr>) r)
      else if drop_bit 3 tag = 4 then
       (if tag \<noteq> 32 then Break
        else arm_read (r_int64 W) (\<lambda>v. m\<lparr>GetWorkerResponse_leaseExpiryUnixMs := show_int (sint v)\<rparr>) r)
      else Break)"

type_synonym GetWorkerResponse_partial = "(string option) \<times> (js_num option) \<times> (string option) \<times> (string option)"

fun fromPartial_GetWorkerResponse :: "GetWorkerResponse_partial \<Rightarrow> GetWorkerResponse" where
  "fromPartial_GetWorkerResponse (grpcAddress', shardId', shardEpoch', leaseExpiryUnixMs') =
     \<lparr>GetWorkerResponse_grpcAddress = nullish grpcAddress' [],
      GetWorkerResponse_shardId = nullish shardId' (Fin 0),
      GetWorkerResponse_shardEpoch = nullish shardEpoch' ''0'',
      GetWorkerResponse_leaseExpiryUnixMs = nullish leaseExpiryUnixMs' ''0''\<rparr>"

definition create_GetWorkerResponse :: "GetWorkerResponse_partial option \<Rightarrow> GetWorkerResponse" where
  "create_GetWorkerResponse base = fromPartial_GetWorkerResponse (nullish base (None, None, None, None))"

definition decode_GetWorkerResponse :: "('w, 'r) wire \<Rightarrow> 'r \<Rightarrow> nat option \<Rightarrow> (GetWorkerResponse \<times> 'r) comp" where
  "decode_GetWorkerResponse W = decode_with W (switch_GetWorkerResponse W) createBaseGetWorkerResponse"

subsection \<open>\<^verbatim>\<open>RegisterWorkerRequest\<close>\<close>

record RegisterWorkerRequest =
  RegisterWorkerRequest_grpcAddress :: string
  RegisterWorkerRequest_raftAddress :: string
  RegisterWorkerRequest_capabilities :: "string list"
  RegisterWorkerRequest_timestamp :: string
  RegisterWorkerRequest_cpuCores :: js_num
  RegisterWorkerRequest_memoryBytes :: string
  RegisterWorkerRequest_diskBytes :: string
  RegisterWorkerRequest_rack :: string
  RegisterWorkerRequest_zone :: string
  RegisterWorkerRequest_region :: string

definition createBaseRegisterWorkerRequest :: RegisterWorkerRequest where
  "createBaseRegisterWorkerRequest =
     \<lparr>RegisterWorkerRequest_grpcAddress = [],
      RegisterWorkerRequest_raftAddress = [],
      RegisterWorkerRequest_capabilities = [],
      RegisterWorkerRequest_timestamp = ''0'',
      RegisterWorkerRequest_cpuCores = Fin 0,
      RegisterWorkerRequest_memoryBytes = ''0'',
      RegisterWorkerRequest_diskBytes = ''0'',
      RegisterWorkerRequest_rack = [],
      RegisterWorkerRequest_zone = [],
      RegisterWorkerRequest_region = []\<rparr>"

definition encode_RegisterWorkerRequest :: "('w, 'r) wire \<Rightarrow> RegisterWorkerRequest \<Rightarrow> 'w writes" where
  "encode_RegisterWorkerRequest W m =
     w_seq
      [w_if (RegisterWorkerRequest_grpcAddress m \<noteq> []) (w_field W 10 (w_string W (RegisterWorkerRequest_grpcAddress m))),
       w_if (RegisterWorkerRequest_raftAddress m \<noteq> []) (w_field W 18 (w_string W (RegisterWorkerRequest_raftAddress m))),
       w_seq (map (\<lambda>v. w_field W 26 (w_string W v)) (RegisterWorkerRequest_capabilities m)),
       w_if (RegisterWorkerRequest_timestamp m \<noteq> ''0'') (w_field W 32 (w_int64 W (RegisterWorkerRequest_timestamp m))),
       w_if (\<not> js_eq (RegisterWorkerRequest_cpuCores m) (Fin 0)) (w_field W 40 (w_int32 W (RegisterWorkerRequest_cpuCores m))),
       w_if (RegisterWorkerRequest_memoryBytes m \<noteq> ''0'') (w_field W 48 (w_int64 W (RegisterWorkerRequest_memoryBytes m))),
       w_if (RegisterWorkerRequest_diskBytes m \<noteq> ''0'') (w_field W 56 (w_int64 W (RegisterWorkerRequest_diskBytes m))),
       w_if (RegisterWorkerRequest_rack m \<noteq> []) (w_field W 66 (w_string W (RegisterWorkerRequest_rack m))),
       w_if (RegisterWorkerRequest_zone m \<noteq> []) (w_field W 74 (w_string W (RegisterWorkerRequest_zone m))),
       w_if (RegisterWorkerRequest_region m \<noteq> []) (w_field W 82 (w_string W (RegisterWorkerRequest_region m)))]"

definition switch_RegisterWorkerRequest :: "('w, 'r) wire \<Rightarrow> ('r, RegisterWorkerRequest) switch" where
  "switch_RegisterWorkerRequest W tag m r =
     (if drop_bit 3 tag = 1 then
       (if tag \<noteq> 10 then Break
        else arm_read (r_string W) (\<lambda>v. m\<lparr>RegisterWorkerRequest_grpcAddress := v\<rparr>) r)
      else if drop_bit 3 tag = 2 then
       (if tag \<noteq> 18 then Break
        else arm_read (r_string W) (\<lambda>v. m\<lparr>RegisterWorkerRequest_raftAddress := v\<rparr>) r)
      else if drop_bit 3 tag = 3 then
       (if tag \<noteq> 26 then Break
        else arm_read (r_string W) (\<lambda>v. m\<lparr>RegisterWorkerRequest_capabilities := RegisterWorkerRequest_capabilities m @ [v]\<rparr>) r)
      else if drop_bit 3 tag = 4 then
       (if tag \<noteq> 32 then Break
        else arm_read (r_int64 W) (\<lambda>v. m\<lparr>RegisterWorkerRequest_timestamp := show_int (sint v)\<rparr>) r)
      else if drop_bit 3 tag = 5 then
       (if tag \<noteq> 40 then Break
        else arm_read (r_int32 W) (\<lambda>v. m\<lparr>RegisterWorkerRequest_cpuCores := num_of_int (sint v)\<rparr>) r)
      else if drop_bit 3 tag = 6 then
       (if tag \<noteq> 48 then Break
        else arm_read (r_int64 W) (\<lambda>v. m\<lparr>RegisterWorkerRequest_memoryBytes := show_int (sint v)\<rparr>) r)
      else if drop_bit 3 tag = 7 then
       (if tag \<noteq> 56 then Break
        else arm_read (r_int64 W) (\<lambda>v. m\<lparr>RegisterWorkerRequest_diskBytes := show_int (sint v)\<rparr>) r)
      else if drop_bit 3 tag = 8 then
       (if tag \<noteq> 66 then Break
        else arm_read (r_string W) (\<lambda>v. m\<lparr>RegisterWorkerRequest_rack := v\<rparr>) r)
      else if drop_bit 3 tag = 9 then
       (if tag \<noteq> 74 then Break
        else arm_read (r_string W) (\<lambda>v. m\<lparr>RegisterWorkerRequest_zone := v\<rparr>) r)
      else if drop_bit 3 tag = 10 then
       (if tag \<noteq> 82 then Break
        else arm_read (r_string W) (\<lambda>v. m\<lparr>RegisterWorkerRequest_region := v\<rparr>) r)
      else Break)"

type_synonym RegisterWorkerRequest_partial = "(string option) \<times> (string option) \<times> (string list option) \<times> (string option) \<times> (js_num option) \<times> (string option) \<times> (string option) \<times> (string option) \<times> (string option) \<times> (string option)"

fun fromPartial_RegisterWorkerRequest :: "RegisterWorkerRequest_partial \<Rightarrow> RegisterWorkerRequest" where
  "fromPartial_RegisterWorkerRequest (grpcAddress', raftAddress', capabilities', timestamp', cpuCores', memoryBytes', diskBytes', rack', zone', region') =
     \<lparr>RegisterWorkerRequest_grpcAddress = nullish grpcAddress' [],
      RegisterWorkerRequest_raftAddress = nullish raftAddress' [],
      RegisterWorkerRequest_capabilities = nullish capabilities' [],
      RegisterWorkerRequest_timestamp = nullish timestamp' ''0'',
      RegisterWorkerRequest_cpuCores = nullish cpuCores' (Fin 0),
      RegisterWorkerRequest_memoryBytes = nullish memoryBytes' ''0'',
      RegisterWorkerRequest_diskBytes = nullish diskBytes' ''0'',
      RegisterWorkerRequest_rack = nullish rack' [],
      RegisterWorkerRequest_zone = nullish zone' [],
      RegisterWorkerRequest_region = nullish region' []\<rparr>"

definition create_RegisterWorkerRequest :: "RegisterWorkerRequest_partial option \<Rightarrow> RegisterWorkerRequest" where
  "create_RegisterWorkerRequest base = fromPartial_RegisterWorkerRequest (nullish base (None, None, None, None, None, None, None, None, None, None))"

definition decode_RegisterWorkerRequest :: "('w, 'r) wire \<Rightarrow> 'r \<Rightarrow> nat option \<Rightarrow> (RegisterWorkerRequest \<times> 'r) comp" where
  "decode_RegisterWorkerRequest W = decode_with W (switch_RegisterWorkerRequest W) createBaseRegisterWorkerRequest"

subsection \<open>\<^verbatim>\<open>RegisterWorkerResponse\<close>\<close>

record RegisterWorkerResponse =
  RegisterWorkerResponse_workerId :: string
  RegisterWorkerResponse_success :: bool

definition createBaseRegisterWorkerResponse :: RegisterWorkerResponse where
  "createBaseRegisterWorkerResponse =
     \<lparr>RegisterWorkerResponse_workerId = [],
      RegisterWorkerResponse_success = False\<rparr>"

definition encode_RegisterWorkerResponse :: "('w, 'r) wire \<Rightarrow> RegisterWorkerResponse \<Rightarrow> 'w writes" where
  "encode_RegisterWorkerResponse W m =
     w_seq
      [w_if (RegisterWorkerResponse_workerId m \<noteq> []) (w_field W 10 (w_string W (RegisterWorkerResponse_workerId m))),
       w_if (RegisterWorkerResponse_success m) (w_field W 16 (w_bool W (RegisterWorkerResponse_success m)))]"

definition switch_RegisterWorkerResponse :: "('w, 'r) wire \<Rightarrow> ('r, RegisterWorkerResponse) switch" where
  "switch_RegisterWorkerResponse W tag m r =
     (if drop_bit 3 tag = 1 then
       (if tag \<noteq> 10 then Break
        else arm_read (r_string W) (\<lambda>v. m\<lparr>RegisterWorkerResponse_workerId := v\<rparr>) r)
      else if drop_bit 3 tag = 2 then
       (if tag \<noteq> 16 then Break
        else arm_read (r_bool W) (\<lambda>v. m\<lparr>RegisterWorkerResponse_success := v\<rparr>) r)
      else Break)"

type_synonym RegisterWorkerResponse_partial = "(string option) \<times> (bool option)"

fun fromPartial_RegisterWorkerResponse :: "RegisterWorkerResponse_partial \<Rightarrow> RegisterWorkerResponse" where
  "fromPartial_RegisterWorkerResponse (workerId', success') =
     \<lparr>RegisterWorkerResponse_workerId = nullish workerId' [],
      RegisterWorkerResponse_success = nullish success' False\<rparr>"

definition create_RegisterWorkerResponse :: "RegisterWorkerResponse_partial option \<Rightarrow> RegisterWorkerResponse" where
  "create_RegisterWorkerResponse base = fromPartial_RegisterWorkerResponse (nullish base (None, None))"

definition decode_RegisterWorkerResponse :: "('w, 'r) wire \<Rightarrow> 'r \<Rightarrow> nat option \<Rightarrow> (RegisterWorkerResponse \<times> 'r) comp" where
  "decode_RegisterWorkerResponse W = decode_with W (switch_RegisterWorkerResponse W) createBaseRegisterWorkerResponse"

subsection \<open>\<^verbatim>\<open>ShardLeaderInfo\<close>\<close>

record ShardLeaderInfo =
  ShardLeaderInfo_shardId :: string
  ShardLeaderInfo_leaderId :: string

definition createBaseShardLeaderInfo :: ShardLeaderInfo where
  "createBaseShardLeaderInfo =
     \<lparr>ShardLeaderInfo_shardId = ''0'',
      ShardLeaderInfo_leaderId = ''0''\<rparr>"

definition encode_ShardLeaderInfo :: "('w, 'r) wire \<Rightarrow> ShardLeaderInfo \<Rightarrow> 'w writes" where
  "encode_ShardLeaderInfo W m =
     w_seq
      [w_if (ShardLeaderInfo_shardId m \<noteq> ''0'') (w_field W 8 (w_uint64 W (ShardLeaderInfo_shardId m))),
       w_if (ShardLeaderInfo_leaderId m \<noteq> ''0'') (w_field W 16 (w_uint64 W (ShardLeaderInfo_leaderId m)))]"

definition switch_ShardLeaderInfo :: "('w, 'r) wire \<Rightarrow> ('r, ShardLeaderInfo) switch" where
  "switch_ShardLeaderInfo W tag m r =
     (if drop_bit 3 tag = 1 then
       (if tag \<noteq> 8 then Break
        else arm_read (r_uint64 W) (\<lambda>v. m\<lparr>ShardLeaderInfo_shardId := show_nat (unat v)\<rparr>) r)
      else if drop_bit 3 tag = 2 then
       (if tag \<noteq> 16 then Break
        else arm_read (r_uint64 W) (\<lambda>v. m\<lparr>ShardLeaderInfo_leaderId := show_nat (unat v)\<rparr>) r)
      else Break)"

type_synonym ShardLeaderInfo_partial = "(string option) \<times> (string option)"

fun fromPartial_ShardLeaderInfo :: "ShardLeaderInfo_partial \<Rightarrow> ShardLeaderInfo" where
  "fromPartial_ShardLeaderInfo (shardId', leaderId') =
     \<lparr>ShardLeaderInfo_shardId = nullish shardId' ''0'',
      ShardLeaderInfo_leaderId = nullish leaderId' ''0''\<rparr>"

definition create_ShardLeaderInfo :: "ShardLeaderInfo_partial option \<Rightarrow> ShardLeaderInfo" where
  "create_ShardLeaderInfo base = fromPartial_ShardLeaderInfo (nullish base (None, None))"

definition decode_ShardLeaderInfo :: "('w, 'r) wire \<Rightarrow> 'r \<Rightarrow> nat option \<Rightarrow> (ShardLeaderInfo \<times> 'r) comp" where
  "decode_ShardLeaderInfo W = decode_with W (switch_ShardLeaderInfo W) createBaseShardLeaderInfo"

subsection \<open>\<^verbatim>\<open>ShardMembershipInfo\<close>\<close>

record ShardMembershipInfo =
  ShardMembershipInfo_shardId :: string
  ShardMembershipInfo_configChangeId :: string
  ShardMembershipInfo_nodeIds :: "string list"

definition createBaseShardMembershipInfo :: ShardMembershipInfo where
  "createBaseShardMembershipInfo =
     \<lparr>ShardMembershipInfo_shardId = ''0'',
      ShardMembershipInfo_configChangeId = ''0'',
      ShardMembershipInfo_nodeIds = []\<rparr>"

definition encode_ShardMembershipInfo :: "('w, 'r) wire \<Rightarrow> ShardMembershipInfo \<Rightarrow> 'w writes" where
  "encode_ShardMembershipInfo W m =
     w_seq
      [w_if (ShardMembershipInfo_shardId m \<noteq> ''0'') (w_field W 8 (w_uint64 W (ShardMembershipInfo_shardId m))),
       w_if (ShardMembershipInfo_configChangeId m \<noteq> ''0'') (w_field W 16 (w_uint64 W (ShardMembershipInfo_configChangeId m))),
       w_nested W 26 (w_seq (map (w_uint64 W) (ShardMembershipInfo_nodeIds m)))]"

definition switch_ShardMembershipInfo :: "('w, 'r) wire \<Rightarrow> ('r, ShardMembershipInfo) switch" where
  "switch_ShardMembershipInfo W tag m r =
     (if drop_bit 3 tag = 1 then
       (if tag \<noteq> 8 then Break
        else arm_read (r_uint64 W) (\<lambda>v. m\<lparr>ShardMembershipInfo_shardId := show_nat (unat v)\<rparr>) r)
      else if drop_bit 3 tag = 2 then
       (if tag \<noteq> 16 then Break
        else arm_read (r_uint64 W) (\<lambda>v. m\<lparr>ShardMembershipInfo_configChangeId := show_nat (unat v)\<rparr>) r)
      else if drop_bit 3 tag = 3 then
       (if tag = 24 then arm_read (r_uint64 W) (\<lambda>v. m\<lparr>ShardMembershipInfo_nodeIds := ShardMembershipInfo_nodeIds m @ [show_nat (unat v)]\<rparr>) r
        else if tag = 26 then arm_packed W (r_uint64 W) (\<lambda>vs. m\<lparr>ShardMembershipInfo_nodeIds := ShardMembershipInfo_nodeIds m @ map (\<lambda>v. show_nat (unat v)) vs\<rparr>) r
        else Break)
      else Break)"

type_synonym ShardMembershipInfo_partial = "(string option) \<times> (string option) \<times> (string list option)"

fun fromPartial_ShardMembershipInfo :: "ShardMembershipInfo_partial \<Rightarrow> ShardMembershipInfo" where
  "fromPartial_ShardMembershipInfo (shardId', configChangeId', nodeIds') =
     \<lparr>ShardMembershipInfo_shardId = nullish shardId' ''0'',
      ShardMembershipInfo_configChangeId = nullish configChangeId' ''0'',
      ShardMembershipInfo_nodeIds = nullish nodeIds' []\<rparr>"

definition create_ShardMembershipInfo :: "ShardMembershipInfo_partial option \<Rightarrow> ShardMembershipInfo" where
  "create_ShardMembershipInfo base = fromPartial_ShardMembershipInfo (nullish base (None, None, None))"

definition decode_ShardMembershipInfo :: "('w, 'r) wire \<Rightarrow> 'r \<Rightarrow> nat option \<Rightarrow> (ShardMembershipInfo \<times> 'r) comp" where
  "decode_ShardMembershipInfo W = decode_with W (switch_ShardMembershipInfo W) createBaseShardMembershipInfo"

subsection \<open>\<^verbatim>\<open>ShardProgressInfo\<close>\<close>

record ShardProgressInfo =
  ShardProgressInfo_shardId :: string
  ShardProgressInfo_appliedIndex :: string
  ShardProgressInfo_shardEpoch :: string

definition createBaseShardProgressInfo :: ShardProgressInfo where
  "createBaseShardProgressInfo =
     \<lparr>ShardProgressInfo_shardId = ''0'',
      ShardProgressInfo_appliedIndex = ''0'',
      ShardProgressInfo_shardEpoch = ''0''\<rparr>"

definition encode_ShardProgressInfo :: "('w, 'r) wire \<Rightarrow> ShardProgressInfo \<Rightarrow> 'w writes" where
  "encode_ShardProgressInfo W m =
     w_seq
      [w_if (ShardProgressInfo_shardId m \<noteq> ''0'') (w_field W 8 (w_uint64 W (ShardProgressInfo_shardId m))),
       w_if (ShardProgressInfo_appliedIndex m \<noteq> ''0'') (w_field W 16 (w_uint64 W (ShardProgressInfo_appliedIndex m))),
       w_if (ShardProgressInfo_shardEpoch m \<noteq> ''0'') (w_field W 24 (w_uint64 W (ShardProgressInfo_shardEpoch m)))]"

definition switch_ShardProgressInfo :: "('w, 'r) wire \<Rightarrow> ('r, ShardProgressInfo) switch" where
  "switch_ShardProgressInfo W tag m r =
     (if drop_bit 3 tag = 1 then
       (if tag \<noteq> 8 then Break
        else arm_read (r_uint64 W) (\<lambda>v. m\<lparr>ShardProgressInfo_shardId := show_nat (unat v)\<rparr>) r)
      else if drop_bit 3 tag = 2 then
       (if tag \<noteq> 16 then Break
        else arm_read (r_uint64 W) (\<lambda>v. m\<lparr>ShardProgressInfo_appliedIndex := show_nat (unat v)\<rparr>) r)
      else if drop_bit 3 tag = 3 then
       (if tag \<noteq> 24 then Break
        else arm_read (r_uint64 W) (\<lambda>v. m\<lparr>ShardProgressInfo_shardEpoch := show_nat (unat v)\<rparr>) r)
      else Break)"

type_synonym ShardProgressInfo_partial = "(string option) \<times> (string option) \<times> (string option)"

fun fromPartial_ShardProgressInfo :: "ShardProgressInfo_partial \<Rightarrow> ShardProgressInfo" where
  "fromPartial_ShardProgressInfo (shardId', appliedIndex', shardEpoch') =
     \<lparr>ShardProgressInfo_shardId = nullish shardId' ''0'',
      ShardProgressInfo_appliedIndex = nullish appliedIndex' ''0'',
      ShardProgressInfo_shardEpoch = nullish shardEpoch' ''0''\<rparr>"

definition create_ShardProgressInfo :: "ShardProgressInfo_partial option \<Rightarrow> ShardProgressInfo" where
  "create_ShardProgressInfo base = fromPartial_ShardProgressInfo (nullish base (None, None, None))"

definition decode_ShardProgressInfo :: "('w, 'r) wire \<Rightarrow> 'r \<Rightarrow> nat option \<Rightarrow> (ShardProgressInfo \<times> 'r) comp" where
  "decode_ShardProgressInfo W = decode_with W (switch_ShardProgressInfo W) createBaseShardProgressInfo"

subsection \<open>\<^verbatim>\<open>ShardLeaderTransferAck\<close>\<close>

record ShardLeaderTransferAck =
  ShardLeaderTransferAck_shardId :: string
  ShardLeaderTransferAck_fromNodeId :: string
  ShardLeaderTransferAck_toNodeId :: string
  ShardLeaderTransferAck_shardEpoch :: string
  ShardLeaderTransferAck_timestampUnixMs :: string

definition createBaseShardLeaderTransferAck :: ShardLeaderTransferAck where
  "createBaseShardLeaderTransferAck =
     \<lparr>ShardLeaderTransferAck_shardId = ''0'',
      ShardLeaderTransferAck_fromNodeId = ''0'',
      ShardLeaderTransferAck_toNodeId = ''0'',
      ShardLeaderTransferAck_shardEpoch = ''0'',
      ShardLeaderTransferAck_timestampUnixMs = ''0''\<rparr>"

definition encode_ShardLeaderTransferAck :: "('w, 'r) wire \<Rightarrow> ShardLeaderTransferAck \<Rightarrow> 'w writes" where
  "encode_ShardLeaderTransferAck W m =
     w_seq
      [w_if (ShardLeaderTransferAck_shardId m \<noteq> ''0'') (w_field W 8 (w_uint64 W (ShardLeaderTransferAck_shardId m))),
       w_if (ShardLeaderTransferAck_fromNodeId m \<noteq> ''0'') (w_field W 16 (w_uint64 W (ShardLeaderTransferAck_fromNodeId m))),
       w_if (ShardLeaderTransferAck_toNodeId m \<noteq> ''0'') (w_field W 24 (w_uint64 W (ShardLeaderTransferAck_toNodeId m))),
       w_if (ShardLeaderTransferAck_shardEpoch m \<noteq> ''0'') (w_field W 32 (w_uint64 W (ShardLeaderTransferAck_shardEpoch m))),
       w_if (ShardLeaderTransferAck_timestampUnixMs m \<noteq> ''0'') (w_field W 40 (w_int64 W (ShardLeaderTransferAck_timestampUnixMs m)))]"

definition switch_ShardLeaderTransferAck :: "('w, 'r) wire \<Rightarrow> ('r, ShardLeaderTransferAck) switch" where
  "switch_ShardLeaderTransferAck W tag m r =
     (if drop_bit 3 tag = 1 then
       (if tag \<noteq> 8 then Break
        else arm_read (r_uint64 W) (\<lambda>v. m\<lparr>ShardLeaderTransferAck_shardId := show_nat (unat v)\<rparr>) r)
      else if drop_bit 3 tag = 2 then
       (if tag \<noteq> 16 then Break
        else arm_read (r_uint64 W) (\<lambda>v. m\<lparr>ShardLeaderTransferAck_fromNodeId := show_nat (unat v)\<rparr>) r)
      else if drop_bit 3 tag = 3 then
       (if tag \<noteq> 24 then Break
        else arm_read (r_uint64 W) (\<lambda>v. m\<lparr>ShardLeaderTransferAck_toNodeId := show_nat (unat v)\<rparr>) r)
      else if drop_bit 3 tag = 4 then
       (if tag \<noteq> 32 then Break
        else arm_read (r_uint64 W) (\<lambda>v. m\<lparr>ShardLeaderTransferAck_shardEpoch := show_nat (unat v)\<rparr>) r)
      else if drop_bit 3 tag = 5 then
       (if tag \<noteq> 40 then Break
        else arm_read (r_int64 W) (\<lambda>v. m\<lparr>ShardLeaderTransferAck_timestampUnixMs := show_int (sint v)\<rparr>) r)
      else Break)"

type_synonym ShardLeaderTransferAck_partial = "(string option) \<times> (string option) \<times> (string option) \<times> (string option) \<times> (string option)"

fun fromPartial_ShardLeaderTransferAck :: "ShardLeaderTransferAck_partial \<Rightarrow> ShardLeaderTransferAck" where
  "fromPartial_ShardLeaderTransferAck (shardId', fromNodeId', toNodeId', shardEpoch', timestampUnixMs') =
     \<lparr>ShardLeaderTransferAck_shardId = nullish shardId' ''0'',
      ShardLeaderTransferAck_fromNodeId = nullish fromNodeId' ''0'',
      ShardLeaderTransferAck_toNodeId = nullish toNodeId' ''0'',
      ShardLeaderTransferAck_shardEpoch = nullish shardEpoch' ''0'',
      ShardLeaderTransferAck_timestampUnixMs = nullish timestampUnixMs' ''0''\<rparr>"

definition create_ShardLeaderTransferAck :: "ShardLeaderTransferAck_partial option \<Rightarrow> ShardLeaderTransferAck" where
  "create_ShardLeaderTransferAck base = fromPartial_ShardLeaderTransferAck (nullish base (None, None, None, None, None))"

definition decode_ShardLeaderTransferAck :: "('w, 'r) wire \<Rightarrow> 'r \<Rightarrow> nat option \<Rightarrow> (ShardLeaderTransferAck \<times> 'r) comp" where
  "decode_ShardLeaderTransferAck W = decode_with W (switch_ShardLeaderTransferAck W) createBaseShardLeaderTransferAck"

subsection \<open>\<^verbatim>\<open>ShardMetrics\<close>\<close>

record ShardMetrics =
  ShardMetrics_shardId :: string
  ShardMetrics_queriesPerSecond :: js_num
  ShardMetrics_vectorCount :: string
  ShardMetrics_avgLatencyMs :: js_num

definition createBaseShardMetrics :: ShardMetrics where
  "createBaseShardMetrics =
     \<lparr>ShardMetrics_shardId = ''0'',
      ShardMetrics_queriesPerSecond = Fin 0,
      ShardMetrics_vectorCount = ''0'',
      ShardMetrics_avgLatencyMs = Fin 0\<rparr>"

definition encode_ShardMetrics :: "('w, 'r) wire \<Rightarrow> ShardMetrics \<Rightarrow> 'w writes" where
  "encode_ShardMetrics W m =
     w_seq
      [w_if (ShardMetrics_shardId m \<noteq> ''0'') (w_field W 8 (w_uint64 W (ShardMetrics_shardId m))),
       w_if (\<not> js_eq (ShardMetrics_queriesPerSecond m) (Fin 0)) (w_field W 21 (w_float W (ShardMetrics_queriesPerSecond m))),
       w_if (ShardMetrics_vectorCount m \<noteq> ''0'') (w_field W 24 (w_int64 W (ShardMetrics_vectorCount m))),
       w_if (\<not> js_eq (ShardMetrics_avgLatencyMs m) (Fin 0)) (w_field W 37 (w_float W (ShardMetrics_avgLatencyMs m)))]"

definition switch_ShardMetrics :: "('w, 'r) wire \<Rightarrow> ('r, ShardMetrics) switch" where
  "switch_ShardMetrics W tag m r =
     (if drop_bit 3 tag = 1 then
       (if tag \<noteq> 8 then Break
        else arm_read (r_uint64 W) (\<lambda>v. m\<lparr>ShardMetrics_shardId := show_nat (unat v)\<rparr>) r)
      else if drop_bit 3 tag = 2 then
       (if tag \<noteq> 21 then Break
        else arm_read (r_float W) (\<lambda>v. m\<lparr>ShardMetrics_queriesPerSecond := v\<rparr>) r)
      else if drop_bit 3 tag = 3 then
       (if tag \<noteq> 24 then Break
        else arm_read (r_int64 W) (\<lambda>v. m\<lparr>ShardMetrics_vectorCount := show_int (sint v)\<rparr>) r)
      else if drop_bit 3 tag = 4 then
       (if tag \<noteq> 37 then Break
        else arm_read (r_float W) (\<lambda>v. m\<lparr>ShardMetrics_avgLatencyMs := v\<rparr>) r)
      else Break)"

type_synonym ShardMetrics_partial = "(string option) \<times> (js_num option) \<times> (string option) \<times> (js_num option)"

fun fromPartial_ShardMetrics :: "ShardMetrics_partial \<Rightarrow> ShardMetrics" where
  "fromPartial_ShardMetrics (shardId', queriesPerSecond', vectorCount', avgLatencyMs') =
     \<lparr>ShardMetrics_shardId = nullish shardId' ''0'',
      ShardMetrics_queriesPerSecond = nullish queriesPerSecond' (Fin 0),
      ShardMetrics_vectorCount = nullish vectorCount' ''0'',
      ShardMetrics_avgLatencyMs = nullish avgLatencyMs' (Fin 0)\<rparr>"

definition create_ShardMetrics :: "ShardMetrics_partial option \<Rightarrow> ShardMetrics" where
  "create_ShardMetrics base = fromPartial_ShardMetrics (nullish base (None, None, None, None))"

definition decode_ShardMetrics :: "('w, 'r) wire \<Rightarrow> 'r \<Rightarrow> nat option \<Rightarrow> (ShardMetrics \<times> 'r) comp" where
  "decode_ShardMetrics W = decode_with W (switch_ShardMetrics W) createBaseShardMetrics"

subsection \<open>\<^verbatim>\<open>HeartbeatRequest\<close>\<close>

record HeartbeatRequest =
  HeartbeatRequest_workerId :: string
  HeartbeatRequest_timestamp :: string
  HeartbeatRequest_vectorCount :: string
  HeartbeatRequest_memoryBytes :: string
  HeartbeatRequest_shardLeaderInfo :: "ShardLeaderInfo list"
  HeartbeatRequest_cpuUsagePercent :: js_num
  HeartbeatRequest_memoryUsagePercent :: js_num
  HeartbeatRequest_diskUsagePercent :: js_num
  HeartbeatRequest_queriesPerSecond :: js_num
  HeartbeatRequest_activeShards :: string
  HeartbeatRequest_shardMetrics :: "ShardMetrics list"
  HeartbeatRequest_runningShards :: "string list"
  HeartbeatRequest_shardMembership :: "ShardMembershipInfo list"
  HeartbeatRequest_shardProgress :: "ShardProgressInfo list"
  HeartbeatRequest_leaderTransferAcks :: "ShardLeaderTransferAck list"

definition createBaseHeartbeatRequest :: HeartbeatRequest where
  "createBaseHeartbeatRequest =
     \<lparr>HeartbeatRequest_workerId = [],
      HeartbeatRequest_timestamp = ''0'',
      HeartbeatRequest_vectorCount = ''0'',
      HeartbeatRequest_memoryBytes = ''0'',
      HeartbeatRequest_shardLeaderInfo = [],
      HeartbeatRequest_cpuUsagePercent = Fin 0,
      HeartbeatRequest_memoryUsagePercent = Fin 0,
      HeartbeatRequest_diskUsagePercent = Fin 0,
      HeartbeatRequest_queriesPerSecond = Fin 0,
      HeartbeatRequest_activeShards = ''0'',
      HeartbeatRequest_shardMetrics = [],
      HeartbeatRequest_runningShards = [],
      HeartbeatRequest_shardMembership = [],
      HeartbeatRequest_shardProgress = [],
      HeartbeatRequest_leaderTransferAcks = []\<rparr>"

definition encode_HeartbeatRequest :: "('w, 'r) wire \<Rightarrow> HeartbeatRequest \<Rightarrow> 'w writes" where
  "encode_HeartbeatRequest W m =
     w_seq
      [w_if (HeartbeatRequest_workerId m \<noteq> []) (w_field W 10 (w_string W (HeartbeatRequest_workerId m))),
       w_if (HeartbeatRequest_timestamp m \<noteq> ''0'') (w_field W 16 (w_int64 W (HeartbeatRequest_timestamp m))),
       w_if (HeartbeatRequest_vectorCount m \<noteq> ''0'') (w_field W 24 (w_int64 W (HeartbeatRequest_vectorCount m))),
       w_if (HeartbeatRequest_memoryBytes m \<noteq> ''0'') (w_field W 32 (w_int64 W (HeartbeatRequest_memoryBytes m))),
       w_seq (map (\<lambda>v. w_nested W 42 (encode_ShardLeaderInfo W v)) (HeartbeatRequest_shardLeaderInfo m)),
       w_if (\<not> js_eq (HeartbeatRequest_cpuUsagePercent m) (Fin 0)) (w_field W 53 (w_float W (HeartbeatRequest_cpuUsagePercent m))),
       w_if (\<not> js_eq (HeartbeatRequest_memoryUsagePercent m) (Fin 0)) (w_field W 61 (w_float W (HeartbeatRequest_memoryUsagePercent m))),
       w_if (\<not> js_eq (HeartbeatRequest_diskUsagePercent m) (Fin 0)) (w_field W 69 (w_float W (HeartbeatRequest_diskUsagePercent m))),
       w_if (\<not> js_eq (HeartbeatRequest_queriesPerSecond m) (Fin 0)) (w_field W 77 (w_float W (HeartbeatRequest_queriesPerSecond m))),
       w_if (HeartbeatRequest_activeShards m \<noteq> ''0'') (w_field W 80 (w_int64 W (HeartbeatRequest_activeShards m))),
       w_seq (map (\<lambda>v. w_nested W 90 (encode_ShardMetrics W v)) (HeartbeatRequest_shardMetrics m)),
       w_nested W 98 (w_seq (map (w_uint64 W) (HeartbeatRequest_runningShards m))),
       w_seq (map (\<lambda>v. w_nested W 106 (encode_ShardMembershipInfo W v)) (HeartbeatRequest_shardMembership m)),
       w_seq (map (\<lambda>v. w_nested W 114 (encode_ShardProgressInfo W v)) (HeartbeatRequest_shardProgress m)),
       w_seq (map (\<lambda>v. w_nested W 122 (encode_ShardLeaderTransferAck W v)) (HeartbeatRequest_leaderTransferAcks m))]"

definition switch_HeartbeatRequest :: "('w, 'r) wire \<Rightarrow> ('r, HeartbeatRequest) switch" where
  "switch_HeartbeatRequest W tag m r =
     (if drop_bit 3 tag = 1 then
       (if tag \<noteq> 10 then Break
        else arm_read (r_string W) (\<lambda>v. m\<lparr>HeartbeatRequest_workerId := v\<rparr>) r)
      else if drop_bit 3 tag = 2 then
       (if tag \<noteq> 16 then Break
        else arm_read (r_int64 W) (\<lambda>v. m\<lparr>HeartbeatRequest_timestamp := show_int (sint v)\<rparr>) r)
      else if drop_bit 3 tag = 3 then
       (if tag \<noteq> 24 then Break
        else arm_read (r_int64 W) (\<lambda>v. m\<lparr>HeartbeatRequest_vectorCount := show_int (sint v)\<rparr>) r)
      else if drop_bit 3 tag = 4 then
       (if tag \<noteq> 32 then Break
        else arm_read (r_int64 W) (\<lambda>v. m\<lparr>HeartbeatRequest_memoryBytes := show_int (sint v)\<rparr>) r)
      else if drop_bit 3 tag = 5 then
       (if tag \<noteq> 42 then Break
        else arm_sub W (decode_ShardLeaderInfo W) (\<lambda>v. m\<lparr>HeartbeatRequest_shardLeaderInfo := HeartbeatRequest_shardLeaderInfo m @ [v]\<rparr>) r)
      else if drop_bit 3 tag = 6 then
       (if tag \<noteq> 53 then Break
        else arm_read (r_float W) (\<lambda>v. m\<lparr>HeartbeatRequest_cpuUsagePercent := v\<rparr>) r)
      else if drop_bit 3 tag = 7 then
       (if tag \<noteq> 61 then Break
        else arm_read (r_float W) (\<lambda>v. m\<lparr>HeartbeatRequest_memoryUsagePercent := v\<rparr>) r)
      else if drop_bit 3 tag = 8 then
       (if tag \<noteq> 69 then Break
        else arm_read (r_float W) (\<lambda>v. m\<lparr>HeartbeatRequest_diskUsagePercent := v\<rparr>) r)
      else if drop_bit 3 tag = 9 then
       (if tag \<noteq> 77 then Break
        else arm_read (r_float W) (\<lambda>v. m\<lparr>HeartbeatRequest_queriesPerSecond := v\<rparr>) r)
      else if drop_bit 3 tag = 10 then
       (if tag \<noteq> 80 then Break
        else arm_read (r_int64 W) (\<lambda>v. m\<lparr>HeartbeatRequest_activeShards := show_int (sint v)\<rparr>) r)
      else if drop_bit 3 tag = 11 then
       (if tag \<noteq> 90 then Break
        else arm_sub W (decode_ShardMetrics W) (\<lambda>v. m\<lparr>HeartbeatRequest_shardMetrics := HeartbeatRequest_shardMetrics m @ [v]\<rparr>) r)
      else if drop_bit 3 tag = 12 then
       (if tag = 96 then arm_read (r_uint64 W) (\<lambda>v. m\<lparr>HeartbeatRequest_runningShards := HeartbeatRequest_runningShards m @ [show_nat (unat v)]\<rparr>) r
        else if tag = 98 then arm_packed W (r_uint64 W) (\<lambda>vs. m\<lparr>HeartbeatRequest_runningShards := HeartbeatRequest_runningShards m @ map (\<lambda>v. show_nat (unat v)) vs\<rparr>) r
        else Break)
      else if drop_bit 3 tag = 13 then
       (if tag \<noteq> 106 then Break
        else arm_sub W (decode_ShardMembershipInfo W) (\<lambda>v. m\<lparr>HeartbeatRequest_shardMembership := HeartbeatRequest_shardMembership m @ [v]\<rparr>) r)
      else if drop_bit 3 tag = 14 then
       (if tag \<noteq> 114 then Break
        else arm_sub W (decode_ShardProgressInfo W) (\<lambda>v. m\<lparr>HeartbeatRequest_shardProgress := HeartbeatRequest_shardProgress m @ [v]\<rparr>) r)
      else if drop_bit 3 tag = 15 then
       (if tag \<noteq> 122 then Break
        else arm_sub W (decode_ShardLeaderTransferAck W) (\<lambda>v. m\<lparr>HeartbeatRequest_leaderTransferAcks := HeartbeatRequest_leaderTransferAcks m @ [v]\<rparr>) r)
      else Break)"

type_synonym HeartbeatRequest_partial = "(string option) \<times> (string option) \<times> (string option) \<times> (string option) \<times> (ShardLeaderInfo_partial list option) \<times> (js_num option) \<times> (js_num option) \<times> (js_num option) \<times> (js_num option) \<times> (string option) \<times> (ShardMetrics_partial list option) \<times> (string list option) \<times> (ShardMembershipInfo_partial list option) \<times> (ShardProgressInfo_partial list option) \<times> (ShardLeaderTransferAck_partial list option)"

fun fromPartial_HeartbeatRequest :: "HeartbeatRequest_partial \<Rightarrow> HeartbeatRequest" where
  "fromPartial_HeartbeatRequest (workerId', timestamp', vectorCount', memoryBytes', shardLeaderInfo', cpuUsagePercent', memoryUsagePercent', diskUsagePercent', queriesPerSecond', activeShards', shardMetrics', runningShards', shardMembership', shardProgress', leaderTransferAcks') =
     \<lparr>HeartbeatRequest_workerId = nullish workerId' [],
      HeartbeatRequest_timestamp = nullish timestamp' ''0'',
      HeartbeatRequest_vectorCount = nullish vectorCount' ''0'',
      HeartbeatRequest_memoryBytes = nullish memoryBytes' ''0'',
      HeartbeatRequest_shardLeaderInfo = map fromPartial_ShardLeaderInfo (nullish shardLeaderInfo' []),
      HeartbeatRequest_cpuUsagePercent = nullish cpuUsagePercent' (Fin 0),
      HeartbeatRequest_memoryUsagePercent = nullish memoryUsagePercent' (Fin 0),
      HeartbeatRequest_diskUsagePercent = nullish diskUsagePercent' (Fin 0),
      HeartbeatRequest_queriesPerSecond = nullish queriesPerSecond' (Fin 0),
      HeartbeatRequest_activeShards = nullish activeShards' ''0'',
      HeartbeatRequest_shardMetrics = map fromPartial_ShardMetrics (nullish shardMetrics' []),
      HeartbeatRequest_runningShards = nullish runningShards' [],
      HeartbeatRequest_shardMembership = map fromPartial_ShardMembershipInfo (nullish shardMembership' []),
      HeartbeatRequest_shardProgress = map fromPartial_ShardProgressInfo (nullish shardProgress' []),
      HeartbeatRequest_leaderTransferAcks = map fromPartial_ShardLeaderTransferAck (nullish leaderTransferAcks' [])\<rparr>"

definition create_HeartbeatRequest :: "HeartbeatRequest_partial option \<Rightarrow> HeartbeatRequest" where
  "create_HeartbeatRequest base = fromPartial_HeartbeatRequest (nullish base (None, None, None, None, None, None, None, None, None, None, None, None, None, None, None))"

definition decode_HeartbeatRequest :: "('w, 'r) wire \<Rightarrow> 'r \<Rightarrow> nat option \<Rightarrow> (HeartbeatRequest \<times> 'r) comp" where
  "decode_HeartbeatRequest W = decode_with W (switch_HeartbeatRequest W) createBaseHeartbeatRequest"

subsection \<open>\<^verbatim>\<open>HeartbeatResponse\<close>\<close>

record HeartbeatResponse =
  HeartbeatResponse_ok :: bool
  HeartbeatResponse_message :: string
  HeartbeatResponse_assignmentsEpoch :: string

definition createBaseHeartbeatResponse :: HeartbeatResponse where
  "createBaseHeartbeatResponse =
     \<lparr>HeartbeatResponse_ok = False,
      HeartbeatResponse_message = [],
      HeartbeatResponse_assignmentsEpoch = ''0''\<rparr>"

definition encode_HeartbeatResponse :: "('w, 'r) wire \<Rightarrow> HeartbeatResponse \<Rightarrow> 'w writes" where
  "encode_HeartbeatResponse W m =
     w_seq
      [w_if (HeartbeatResponse_ok m) (w_field W 8 (w_bool W (HeartbeatResponse_ok m))),
       w_if (HeartbeatResponse_message m \<noteq> []) (w_field W 18 (w_string W (HeartbeatResponse_message m))),
       w_if (HeartbeatResponse_assignmentsEpoch m \<noteq> ''0'') (w_field W 24 (w_uint64 W (HeartbeatResponse_assignmentsEpoch m)))]"

definition switch_HeartbeatResponse :: "('w, 'r) wire \<Rightarrow> ('r, HeartbeatResponse) switch" where
  "switch_HeartbeatResponse W tag m r =
     (if drop_bit 3 tag = 1 then
       (if tag \<noteq> 8 then Break
        else arm_read (r_bool W) (\<lambda>v. m\<lparr>HeartbeatResponse_ok := v\<rparr>) r)
      else if drop_bit 3 tag = 2 then
       (if tag \<noteq> 18 then Break
        else arm_read (r_string W) (\<lambda>v. m\<lparr>HeartbeatResponse_message := v\<rparr>) r)
      else if drop_bit 3 tag = 3 then
       (if tag \<noteq> 24 then Break
        else arm_read (r_uint64 W) (\<lambda>v. m\<lparr>HeartbeatResponse_assignmentsEpoch := show_nat (unat v)\<rparr>) r)
      else Break)"

type_synonym HeartbeatResponse_partial = "(bool option) \<times> (string option) \<times> (string option)"

fun fromPartial_HeartbeatResponse :: "HeartbeatResponse_partial \<Rightarrow> HeartbeatResponse" where
  "fromPartial_HeartbeatResponse (ok', message', assignmentsEpoch') =
     \<lparr>HeartbeatResponse_ok = nullish ok' False,
      HeartbeatResponse_message = nullish message' [],
      HeartbeatResponse_assignmentsEpoch = nullish assignmentsEpoch' ''0''\<rparr>"

definition create_HeartbeatResponse :: "HeartbeatResponse_partial option \<Rightarrow> HeartbeatResponse" where
  "create_HeartbeatResponse base = fromPartial_HeartbeatResponse (nullish base (None, None, None))"

definition decode_HeartbeatResponse :: "('w, 'r) wire \<Rightarrow> 'r \<Rightarrow> nat option \<Rightarrow> (HeartbeatResponse \<times> 'r) comp" where
  "decode_HeartbeatResponse W = decode_with W (switch_HeartbeatResponse W) createBaseHeartbeatResponse"

subsection \<open>\<^verbatim>\<open>ListWorkersRequest\<close>\<close>

datatype ListWorkersRequest = ListWorkersRequest

definition createBaseListWorkersRequest :: ListWorkersRequest where
  "createBaseListWorkersRequest = ListWorkersRequest"

definition encode_ListWorkersRequest :: "('w, 'r) wire \<Rightarrow> ListWorkersRequest \<Rightarrow> 'w writes" where
  "encode_ListWorkersRequest W m = w_seq []"

definition switch_ListWorkersRequest :: "('w, 'r) wire \<Rightarrow> ('r, ListWorkersRequest) switch" where
  "switch_ListWorkersRequest W tag m r = Break"

definition fromPartial_ListWorkersRequest :: "unit \<Rightarrow> ListWorkersRequest" where
  "fromPartial_ListWorkersRequest u = createBaseListWorkersRequest"

definition create_ListWorkersRequest :: "unit option \<Rightarrow> ListWorkersRequest" where
  "create_ListWorkersRequest base = fromPartial_ListWorkersRequest (nullish base ())"

definition decode_ListWorkersRequest :: "('w, 'r) wire \<Rightarrow> 'r \<Rightarrow> nat option \<Rightarrow> (ListWorkersRequest \<times> 'r) comp" where
  "decode_ListWorkersRequest W = decode_with W (switch_ListWorkersRequest W) createBaseListWorkersRequest"

subsection \<open>\<^verbatim>\<open>WorkerInfo_MetadataEntry\<close>\<close>

record WorkerInfo_MetadataEntry =
  WorkerInfo_MetadataEntry_key :: string
  WorkerInfo_MetadataEntry_value :: string

definition createBaseWorkerInfo_MetadataEntry :: WorkerInfo_MetadataEntry where
  "createBaseWorkerInfo_MetadataEntry =
     \<lparr>WorkerInfo_MetadataEntry_key = [],
      WorkerInfo_MetadataEntry_value = []\<rparr>"

definition encode_WorkerInfo_MetadataEntry :: "('w, 'r) wire \<Rightarrow> WorkerInfo_MetadataEntry \<Rightarrow> 'w writes" where
  "encode_WorkerInfo_MetadataEntry W m =
     w_seq
      [w_if (WorkerInfo_MetadataEntry_key m \<noteq> []) (w_field W 10 (w_string W (WorkerInfo_MetadataEntry_key m))),
       w_if (WorkerInfo_MetadataEntry_value m \<noteq> []) (w_field W 18 (w_string W (WorkerInfo_MetadataEntry_value m)))]"

definition switch_WorkerInfo_MetadataEntry :: "('w, 'r) wire \<Rightarrow> ('r, WorkerInfo_MetadataEntry) switch" where
  "switch_WorkerInfo_MetadataEntry W tag m r =
     (if drop_bit 3 tag = 1 then
       (if tag \<noteq> 10 then Break
        else arm_read (r_string W) (\<lambda>v. m\<lparr>WorkerInfo_MetadataEntry_key := v\<rparr>) r)
      else if drop_bit 3 tag = 2 then
       (if tag \<noteq> 18 then Break
        else arm_read (r_string W) (\<lambda>v. m\<lparr>WorkerInfo_MetadataEntry_value := v\<rparr>) r)
      else Break)"

type_synonym WorkerInfo_MetadataEntry_partial = "(string option) \<times> (string option)"

fun fromPartial_WorkerInfo_MetadataEntry :: "WorkerInfo_MetadataEntry_partial \<Rightarrow> WorkerInfo_MetadataEntry" where
  "fromPartial_WorkerInfo_MetadataEntry (key', value') =
     \<lparr>WorkerInfo_MetadataEntry_key = nullish key' [],
      WorkerInfo_MetadataEntry_value = nullish value' []\<rparr>"

definition create_WorkerInfo_MetadataEntry :: "WorkerInfo_MetadataEntry_partial option \<Rightarrow> WorkerInfo_MetadataEntry" where
  "create_WorkerInfo_MetadataEntry base = fromPartial_WorkerInfo_MetadataEntry (nullish base (None, None))"

definition decode_WorkerInfo_MetadataEntry :: "('w, 'r) wire \<Rightarrow> 'r \<Rightarrow> nat option \<Rightarrow> (WorkerInfo_MetadataEntry \<times> 'r) comp" where
  "decode_WorkerInfo_MetadataEntry W = decode_with W (switch_WorkerInfo_MetadataEntry W) createBaseWorkerInfo_MetadataEntry"

subsection \<open>\<^verbatim>\<open>WorkerInfo\<close>\<close>

record WorkerInfo =
  WorkerInfo_workerId :: string
  WorkerInfo_grpcAddress :: string
  WorkerInfo_raftAddress :: string
  WorkerInfo_collections :: "string list"
  WorkerInfo_lastHeartbeat :: string
  WorkerInfo_healthy :: bool
  WorkerInfo_metadata :: "string js_obj"
  WorkerInfo_state :: js_num

definition createBaseWorkerInfo :: WorkerInfo where
  "createBaseWorkerInfo =
     \<lparr>WorkerInfo_workerId = [],
      WorkerInfo_grpcAddress = [],
      WorkerInfo_raftAddress = [],
      WorkerInfo_collections = [],
      WorkerInfo_lastHeartbeat = ''0'',
      WorkerInfo_healthy = False,
      WorkerInfo_metadata = [],
      WorkerInfo_state = Fin 0\<rparr>"

definition encode_WorkerInfo :: "('w, 'r) wire \<Rightarrow> WorkerInfo \<Rightarrow> 'w writes" where
  "encode_WorkerInfo W m =
     w_seq
      [w_if (WorkerInfo_workerId m \<noteq> []) (w_field W 10 (w_string W (WorkerInfo_workerId m))),
       w_if (WorkerInfo_grpcAddress m \<noteq> []) (w_field W 18 (w_string W (WorkerInfo_grpcAddress m))),
       w_if (WorkerInfo_raftAddress m \<noteq> []) (w_field W 26 (w_string W (WorkerInfo_raftAddress m))),
       w_seq (map (\<lambda>v. w_field W 34 (w_string W v)) (WorkerInfo_collections m)),
       w_if (WorkerInfo_lastHeartbeat m \<noteq> ''0'') (w_field W 40 (w_int64 W (WorkerInfo_lastHeartbeat m))),
       w_if (WorkerInfo_healthy m) (w_field W 48 (w_bool W (WorkerInfo_healthy m))),
       w_seq (map (\<lambda>(key, value). w_nested W 58
          (encode_WorkerInfo_MetadataEntry W \<lparr>WorkerInfo_MetadataEntry_key = key, WorkerInfo_MetadataEntry_value = value\<rparr>)) (WorkerInfo_metadata m)),
       w_if (\<not> js_eq (WorkerInfo_state m) (Fin 0)) (w_field W 64 (w_int32 W (WorkerInfo_state m)))]"

definition switch_WorkerInfo :: "('w, 'r) wire \<Rightarrow> ('r, WorkerInfo) switch" where
  "switch_WorkerInfo W tag m r =
     (if drop_bit 3 tag = 1 then
       (if tag \<noteq> 10 then Break
        else arm_read (r_string W) (\<lambda>v. m\<lparr>WorkerInfo_workerId := v\<rparr>) r)
      else if drop_bit 3 tag = 2 then
       (if tag \<noteq> 18 then Break
        else arm_read (r_string W) (\<lambda>v. m\<lparr>WorkerInfo_grpcAddress := v\<rparr>) r)
      else if drop_bit 3 tag = 3 then
       (if tag \<noteq> 26 then Break
        else arm_read (r_string W) (\<lambda>v. m\<lparr>WorkerInfo_raftAddress := v\<rparr>) r)
      else if drop_bit 3 tag = 4 then
       (if tag \<noteq> 34 then Break
        else arm_read (r_string W) (\<lambda>v. m\<lparr>WorkerInfo_collections := WorkerInfo_collections m @ [v]\<rparr>) r)
      else if drop_bit 3 tag = 5 then
       (if tag \<noteq> 40 then Break
        else arm_read (r_int64 W) (\<lambda>v. m\<lparr>WorkerInfo_lastHeartbeat := show_int (sint v)\<rparr>) r)
      else if drop_bit 3 tag = 6 then
       (if tag \<noteq> 48 then Break
        else arm_read (r_bool W) (\<lambda>v. m\<lparr>WorkerInfo_healthy := v\<rparr>) r)
      else if drop_bit 3 tag = 7 then
       (if tag \<noteq> 58 then Break
        else arm_sub W (decode_WorkerInfo_MetadataEntry W)
          (\<lambda>e. m\<lparr>WorkerInfo_metadata := js_set (WorkerInfo_MetadataEntry_key e) (WorkerInfo_MetadataEntry_value e) (WorkerInfo_metadata m)\<rparr>) r)
      else if drop_bit 3 tag = 8 then
       (if tag \<noteq> 64 then Break
        else arm_read (r_int32 W) (\<lambda>v. m\<lparr>WorkerInfo_state := num_of_int (sint v)\<rparr>) r)
      else Break)"

type_synonym WorkerInfo_partial = "(string option) \<times> (string option) \<times> (string option) \<times> (string list option) \<times> (string option) \<times> (bool option) \<times> (string option js_obj option) \<times> (js_num option)"

fun fromPartial_WorkerInfo :: "WorkerInfo_partial \<Rightarrow> WorkerInfo" where
  "fromPartial_WorkerInfo (workerId', grpcAddress', raftAddress', collections', lastHeartbeat', healthy', metadata', state') =
     \<lparr>WorkerInfo_workerId = nullish workerId' [],
      WorkerInfo_grpcAddress = nullish grpcAddress' [],
      WorkerInfo_raftAddress = nullish raftAddress' [],
      WorkerInfo_collections = nullish collections' [],
      WorkerInfo_lastHeartbeat = nullish lastHeartbeat' ''0'',
      WorkerInfo_healthy = nullish healthy' False,
      WorkerInfo_metadata = js_copy (nullish metadata' []),
      WorkerInfo_state = nullish state' (Fin 0)\<rparr>"

definition create_WorkerInfo :: "WorkerInfo_partial option \<Rightarrow> WorkerInfo" where
  "create_WorkerInfo base = fromPartial_WorkerInfo (nullish base (None, None, None, None, None, None, None, None))"

definition decode_WorkerInfo :: "('w, 'r) wire \<Rightarrow> 'r \<Rightarrow> nat option \<Rightarrow> (WorkerInfo \<times> 'r) comp" where
  "decode_WorkerInfo W = decode_with W (switch_WorkerInfo W) createBaseWorkerInfo"

subsection \<open>\<^verbatim>\<open>ListWorkersResponse\<close>\<close>

record ListWorkersResponse =
  ListWorkersResponse_workers :: "WorkerInfo list"

definition createBaseListWorkersResponse :: ListWorkersResponse where
  "createBaseListWorkersResponse =
     \<lparr>ListWorkersResponse_workers = []\<rparr>"

definition encode_ListWorkersResponse :: "('w, 'r) wire \<Rightarrow> ListWorkersResponse \<Rightarrow> 'w writes" where
  "encode_ListWorkersResponse W m =
     w_seq
      [w_seq (map (\<lambda>v. w_nested W 10 (encode_WorkerInfo W v)) (ListWorkersResponse_workers m))]"

definition switch_ListWorkersResponse :: "('w, 'r) wire \<Rightarrow> ('r, ListWorkersResponse) switch" where
  "switch_ListWorkersResponse W tag m r =
     (if drop_bit 3 tag = 1 then
       (if tag \<noteq> 10 then Break
        else arm_sub W (decode_WorkerInfo W) (\<lambda>v. m\<lparr>ListWorkersResponse_workers := ListWorkersResponse_workers m @ [v]\<rparr>) r)
      else Break)"

type_synonym ListWorkersResponse_partial = "WorkerInfo_partial list option"

fun fromPartial_ListWorkersResponse :: "ListWorkersResponse_partial \<Rightarrow> ListWorkersResponse" where
  "fromPartial_ListWorkersResponse workers' =
     \<lparr>ListWorkersResponse_workers = map fromPartial_WorkerInfo (nullish workers' [])\<rparr>"

definition create_ListWorkersResponse :: "ListWorkersResponse_partial option \<Rightarrow> ListWorkersResponse" where
  "create_ListWorkersResponse base = fromPartial_ListWorkersResponse (nullish base None)"

definition decode_ListWorkersResponse :: "('w, 'r) wire \<Rightarrow> 'r \<Rightarrow> nat option \<Rightarrow> (ListWorkersResponse \<times> 'r) comp" where
  "decode_ListWorkersResponse W = decode_with W (switch_ListWorkersResponse W) createBaseListWorkersResponse"

subsection \<open>\<^verbatim>\<open>RegisterRerankerRequest\<close>\<close>

record RegisterRerankerRequest =
  RegisterRerankerRequest_grpcAddress :: string
  RegisterRerankerRequest_capabilities :: "string list"
  RegisterRerankerRequest_timestamp :: string
  RegisterRerankerRequest_cpuCores :: js_num
  RegisterRerankerRequest_memoryBytes :: string
  RegisterRerankerRequest_diskBytes :: string
  RegisterRerankerRequest_rack :: string
  RegisterRerankerRequest_zone :: string
  RegisterRerankerRequest_region :: string

definition createBaseRegisterRerankerRequest :: RegisterRerankerRequest where
  "createBaseRegisterRerankerRequest =
     \<lparr>RegisterRerankerRequest_grpcAddress = [],
      RegisterRerankerRequest_capabilities = [],
      RegisterRerankerRequest_timestamp = ''0'',
      RegisterRerankerRequest_cpuCores = Fin 0,
      RegisterRerankerRequest_memoryBytes = ''0'',
      RegisterRerankerRequest_diskBytes = ''0'',
      RegisterRerankerRequest_rack = [],
      RegisterRerankerRequest_zone = [],
      RegisterRerankerRequest_region = []\<rparr>"

definition encode_RegisterRerankerRequest :: "('w, 'r) wire \<Rightarrow> RegisterRerankerRequest \<Rightarrow> 'w writes" where
  "encode_RegisterRerankerRequest W m =
     w_seq
      [w_if (RegisterRerankerRequest_grpcAddress m \<noteq> []) (w_field W 10 (w_string W (RegisterRerankerRequest_grpcAddress m))),
       w_seq (map (\<lambda>v. w_field W 18 (w_string W v)) (RegisterRerankerRequest_capabilities m)),
       w_if (RegisterRerankerRequest_timestamp m \<noteq> ''0'') (w_field W 24 (w_int64 W (RegisterRerankerRequest_timestamp m))),
       w_if (\<not> js_eq (RegisterRerankerRequest_cpuCores m) (Fin 0)) (w_field W 32 (w_int32 W (RegisterRerankerRequest_cpuCores m))),
       w_if (RegisterRerankerRequest_memoryBytes m \<noteq> ''0'') (w_field W 40 (w_int64 W (RegisterRerankerRequest_memoryBytes m))),
       w_if (RegisterRerankerRequest_diskBytes m \<noteq> ''0'') (w_field W 48 (w_int64 W (RegisterRerankerRequest_diskBytes m))),
       w_if (RegisterRerankerRequest_rack m \<noteq> []) (w_field W 58 (w_string W (RegisterRerankerRequest_rack m))),
       w_if (RegisterRerankerRequest_zone m \<noteq> []) (w_field W 66 (w_string W (RegisterRerankerRequest_zone m))),
       w_if (RegisterRerankerRequest_region m \<noteq> []) (w_field W 74 (w_string W (RegisterRerankerRequest_region m)))]"

definition switch_RegisterRerankerRequest :: "('w, 'r) wire \<Rightarrow> ('r, RegisterRerankerRequest) switch" where
  "switch_RegisterRerankerRequest W tag m r =
     (if drop_bit 3 tag = 1 then
       (if tag \<noteq> 10 then Break
        else arm_read (r_string W) (\<lambda>v. m\<lparr>RegisterRerankerRequest_grpcAddress := v\<rparr>) r)
      else if drop_bit 3 tag = 2 then
       (if tag \<noteq> 18 then Break
        else arm_read (r_string W) (\<lambda>v. m\<lparr>RegisterRerankerRequest_capabilities := RegisterRerankerRequest_capabilities m @ [v]\<rparr>) r)
      else if drop_bit 3 tag = 3 then
       (if tag \<noteq> 24 then Break
        else arm_read (r_int64 W) (\<lambda>v. m\<lparr>RegisterRerankerRequest_timestamp := show_int (sint v)\<rparr>) r)
      else if drop_bit 3 tag = 4 then
       (if tag \<noteq> 32 then Break
        else arm_read (r_int32 W) (\<lambda>v. m\<lparr>RegisterRerankerRequest_cpuCores := num_of_int (sint v)\<rparr>) r)
      else if drop_bit 3 tag = 5 then
       (if tag \<noteq> 40 then Break
        else arm_read (r_int64 W) (\<lambda>v. m\<lparr>RegisterRerankerRequest_memoryBytes := show_int (sint v)\<rparr>) r)
      else if drop_bit 3 tag = 6 then
       (if tag \<noteq> 48 then Break
        else arm_read (r_int64 W) (\<lambda>v. m\<lparr>RegisterRerankerRequest_diskBytes := show_int (sint v)\<rparr>) r)
      else if drop_bit 3 tag = 7 then
       (if tag \<noteq> 58 then Break
        else arm_read (r_string W) (\<lambda>v. m\<lparr>RegisterRerankerRequest_rack := v\<rparr>) r)
      else if drop_bit 3 tag = 8 then
       (if tag \<noteq> 66 then Break
        else arm_read (r_string W) (\<lambda>v. m\<lparr>RegisterRerankerRequest_zone := v\<rparr>) r)
      else if drop_bit 3 tag = 9 then
       (if tag \<noteq> 74 then Break
        else arm_read (r_string W) (\<lambda>v. m\<lparr>RegisterRerankerRequest_region := v\<rparr>) r)
      else Break)"

type_synonym RegisterRerankerRequest_partial = "(string option) \<times> (string list option) \<times> (string option) \<times> (js_num option) \<times> (string option) \<times> (string option) \<times> (string option) \<times> (string option) \<times> (string option)"

fun fromPartial_RegisterRerankerRequest :: "RegisterRerankerRequest_partial \<Rightarrow> RegisterRerankerRequest" where
  "fromPartial_RegisterRerankerRequest (grpcAddress', capabilities', timestamp', cpuCores', memoryBytes', diskBytes', rack', zone', region') =
     \<lparr>RegisterRerankerRequest_grpcAddress = nullish grpcAddress' [],
      RegisterRerankerRequest_capabilities = nullish capabilities' [],
      RegisterRerankerRequest_timestamp = nullish timestamp' ''0'',
      RegisterRerankerRequest_cpuCores = nullish cpuCores' (Fin 0),
      RegisterRerankerRequest_memoryBytes = nullish memoryBytes' ''0'',
      RegisterRerankerRequest_diskBytes = nullish diskBytes' ''0'',
      RegisterRerankerRequest_rack = nullish rack' [],
      RegisterRerankerRequest_zone = nullish zone' [],
      RegisterRerankerRequest_region = nullish region' []\<rparr>"

definition create_RegisterRerankerRequest :: "RegisterRerankerRequest_partial option \<Rightarrow> RegisterRerankerRequest" where
  "create_RegisterRerankerRequest base = fromPartial_RegisterRerankerRequest (nullish base (None, None, None, None, None, None, None, None, None))"

definition decode_RegisterRerankerRequest :: "('w, 'r) wire \<Rightarrow> 'r \<Rightarrow> nat option \<Rightarrow> (RegisterRerankerRequest \<times> 'r) comp" where
  "decode_RegisterRerankerRequest W = decode_with W (switch_RegisterRerankerRequest W) createBaseRegisterRerankerRequest"

subsection \<open>\<^verbatim>\<open>RegisterRerankerResponse\<close>\<close>

record RegisterRerankerResponse =
  RegisterRerankerResponse_rerankerId :: string
  RegisterRerankerResponse_success :: bool

definition createBaseRegisterRerankerResponse :: RegisterRerankerResponse where
  "createBaseRegisterRerankerResponse =
     \<lparr>RegisterRerankerResponse_rerankerId = [],
      RegisterRerankerResponse_success = False\<rparr>"

definition encode_RegisterRerankerResponse :: "('w, 'r) wire \<Rightarrow> RegisterRerankerResponse \<Rightarrow> 'w writes" where
  "encode_RegisterRerankerResponse W m =
     w_seq
      [w_if (RegisterRerankerResponse_rerankerId m \<noteq> []) (w_field W 10 (w_string W (RegisterRerankerResponse_rerankerId m))),
       w_if (RegisterRerankerResponse_success m) (w_field W 16 (w_bool W (RegisterRerankerResponse_success m)))]"

definition switch_RegisterRerankerResponse :: "('w, 'r) wire \<Rightarrow> ('r, RegisterRerankerResponse) switch" where
  "switch_RegisterRerankerResponse W tag m r =
     (if drop_bit 3 tag = 1 then
       (if tag \<noteq> 10 then Break
        else arm_read (r_string W) (\<lambda>v. m\<lparr>RegisterRerankerResponse_rerankerId := v\<rparr>) r)
      else if drop_bit 3 tag = 2 then
       (if tag \<noteq> 16 then Break
        else arm_read (r_bool W) (\<lambda>v. m\<lparr>RegisterRerankerResponse_success := v\<rparr>) r)
      else Break)"

type_synonym RegisterRerankerResponse_partial = "(string option) \<times> (bool option)"

fun fromPartial_RegisterRerankerResponse :: "RegisterRerankerResponse_partial \<Rightarrow> RegisterRerankerResponse" where
  "fromPartial_RegisterRerankerResponse (rerankerId', success') =
     \<lparr>RegisterRerankerResponse_rerankerId = nullish rerankerId' [],
      RegisterRerankerResponse_success = nullish success' False\<rparr>"

definition create_RegisterRerankerResponse :: "RegisterRerankerResponse_partial option \<Rightarrow> RegisterRerankerResponse" where
  "create_RegisterRerankerResponse base = fromPartial_RegisterRerankerResponse (nullish base (None, None))"

definition decode_RegisterRerankerResponse :: "('w, 'r) wire \<Rightarrow> 'r \<Rightarrow> nat option \<Rightarrow> (RegisterRerankerResponse \<times> 'r) comp" where
  "decode_RegisterRerankerResponse W = decode_with W (switch_RegisterRerankerResponse W) createBaseRegisterRerankerResponse"

subsection \<open>\<^verbatim>\<open>RerankerHeartbeatRequest\<close>\<close>

record RerankerHeartbeatRequest =
  RerankerHeartbeatRequest_rerankerId :: string
  RerankerHeartbeatRequest_timestamp :: string
  RerankerHeartbeatRequest_cpuUsagePercent :: js_num
  RerankerHeartbeatRequest_memoryUsagePercent :: js_num
  RerankerHeartbeatRequest_diskUsagePercent :: js_num
  RerankerHeartbeatRequest_queriesPerSecond :: js_num

definition createBaseRerankerHeartbeatRequest :: RerankerHeartbeatRequest where
  "createBaseRerankerHeartbeatRequest =
     \<lparr>RerankerHeartbeatRequest_rerankerId = [],
      RerankerHeartbeatRequest_timestamp = ''0'',
      RerankerHeartbeatRequest_cpuUsagePercent = Fin 0,
      RerankerHeartbeatRequest_memoryUsagePercent = Fin 0,
      RerankerHeartbeatRequest_diskUsagePercent = Fin 0,
      RerankerHeartbeatRequest_queriesPerSecond = Fin 0\<rparr>"

definition encode_RerankerHeartbeatRequest :: "('w, 'r) wire \<Rightarrow> RerankerHeartbeatRequest \<Rightarrow> 'w writes" where
  "encode_RerankerHeartbeatRequest W m =
     w_seq
      [w_if (RerankerHeartbeatRequest_rerankerId m \<noteq> []) (w_field W 10 (w_string W (RerankerHeartbeatRequest_rerankerId m))),
       w_if (RerankerHeartbeatRequest_timestamp m \<noteq> ''0'') (w_field W 16 (w_int64 W (RerankerHeartbeatRequest_timestamp m))),
       w_if (\<not> js_eq (RerankerHeartbeatRequest_cpuUsagePercent m) (Fin 0)) (w_field W 29 (w_float W (RerankerHeartbeatRequest_cpuUsagePercent m))),
       w_if (\<not> js_eq (RerankerHeartbeatRequest_memoryUsagePercent m) (Fin 0)) (w_field W 37 (w_float W (RerankerHeartbeatRequest_memoryUsagePercent m))),
       w_if (\<not> js_eq (RerankerHeartbeatRequest_diskUsagePercent m) (Fin 0)) (w_field W 45 (w_float W (RerankerHeartbeatRequest_diskUsagePercent m))),
       w_if (\<not> js_eq (RerankerHeartbeatRequest_queriesPerSecond m) (Fin 0)) (w_field W 53 (w_float W (RerankerHeartbeatRequest_queriesPerSecond m)))]"

definition switch_RerankerHeartbeatRequest :: "('w, 'r) wire \<Rightarrow> ('r, RerankerHeartbeatRequest) switch" where
  "switch_RerankerHeartbeatRequest W tag m r =
     (if drop_bit 3 tag = 1 then
       (if tag \<noteq> 10 then Break
        else arm_read (r_string W) (\<lambda>v. m\<lparr>RerankerHeartbeatRequest_rerankerId := v\<rparr>) r)
      else if drop_bit 3 tag = 2 then
       (if tag \<noteq> 16 then Break
        else arm_read (r_int64 W) (\<lambda>v. m\<lparr>RerankerHeartbeatRequest_timestamp := show_int (sint v)\<rparr>) r)
      else if drop_bit 3 tag = 3 then
       (if tag \<noteq> 29 then Break
        else arm_read (r_float W) (\<lambda>v. m\<lparr>RerankerHeartbeatRequest_cpuUsagePercent := v\<rparr>) r)
      else if drop_bit 3 tag = 4 then
       (if tag \<noteq> 37 then Break
        else arm_read (r_float W) (\<lambda>v. m\<lparr>RerankerHeartbeatRequest_memoryUsagePercent := v\<rparr>) r)
      else if drop_bit 3 tag = 5 then
       (if tag \<noteq> 45 then Break
        else arm_read (r_float W) (\<lambda>v. m\<lparr>RerankerHeartbeatRequest_diskUsagePercent := v\<rparr>) r)
      else if drop_bit 3 tag = 6 then
       (if tag \<noteq> 53 then Break
        else arm_read (r_float W) (\<lambda>v. m\<lparr>RerankerHeartbeatRequest_queriesPerSecond := v\<rparr>) r)
      else Break)"

type_synonym RerankerHeartbeatRequest_partial = "(string option) \<times> (string option) \<times> (js_num option) \<times> (js_num option) \<times> (js_num option) \<times> (js_num option)"

fun fromPartial_RerankerHeartbeatRequest :: "RerankerHeartbeatRequest_partial \<Rightarrow> RerankerHeartbeatRequest" where
  "fromPartial_RerankerHeartbeatRequest (rerankerId', timestamp', cpuUsagePercent', memoryUsagePercent', diskUsagePercent', queriesPerSecond') =
     \<lparr>RerankerHeartbeatRequest_rerankerId = nullish rerankerId' [],
      RerankerHeartbeatRequest_timestamp = nullish timestamp' ''0'',
      RerankerHeartbeatRequest_cpuUsagePercent = nullish cpuUsagePercent' (Fin 0),
      RerankerHeartbeatRequest_memoryUsagePercent = nullish memoryUsagePercent' (Fin 0),
      RerankerHeartbeatRequest_diskUsagePercent = nullish diskUsagePercent' (Fin 0),
      RerankerHeartbeatRequest_queriesPerSecond = nullish queriesPerSecond' (Fin 0)\<rparr>"

definition create_RerankerHeartbeatRequest :: "RerankerHeartbeatRequest_partial option \<Rightarrow> RerankerHeartbeatRequest" where
  "create_RerankerHeartbeatRequest base = fromPartial_RerankerHeartbeatRequest (nullish base (None, None, None, None, None, None))"

definition decode_RerankerHeartbeatRequest :: "('w, 'r) wire \<Rightarrow> 'r \<Rightarrow> nat option \<Rightarrow> (RerankerHeartbeatRequest \<times> 'r) comp" where
  "decode_RerankerHeartbeatRequest W = decode_with W (switch_RerankerHeartbeatRequest W) createBaseRerankerHeartbeatRequest"

subsection \<open>\<^verbatim>\<open>RerankerHeartbeatResponse\<close>\<close>

record RerankerHeartbeatResponse =
  RerankerHeartbeatResponse_ok :: bool
  RerankerHeartbeatResponse_message :: string

definition createBaseRerankerHeartbeatResponse :: RerankerHeartbeatResponse where
  "createBaseRerankerHeartbeatResponse =
     \<lparr>RerankerHeartbeatResponse_ok = False,
      RerankerHeartbeatResponse_message = []\<rparr>"

definition encode_RerankerHeartbeatResponse :: "('w, 'r) wire \<Rightarrow> RerankerHeartbeatResponse \<Rightarrow> 'w writes" where
  "encode_RerankerHeartbeatResponse W m =
     w_seq
      [w_if (RerankerHeartbeatResponse_ok m) (w_field W 8 (w_bool W (RerankerHeartbeatResponse_ok m))),
       w_if (RerankerHeartbeatResponse_message m \<noteq> []) (w_field W 18 (w_string W (RerankerHeartbeatResponse_message m)))]"

definition switch_RerankerHeartbeatResponse :: "('w, 'r) wire \<Rightarrow> ('r, RerankerHeartbeatResponse) switch" where
  "switch_RerankerHeartbeatResponse W tag m r =
     (if drop_bit 3 tag = 1 then
       (if tag \<noteq> 8 then Break
        else arm_read (r_bool W) (\<lambda>v. m\<lparr>RerankerHeartbeatResponse_ok := v\<rparr>) r)
      else if drop_bit 3 tag = 2 then
       (if tag \<noteq> 18 then Break
        else arm_read (r_string W) (\<lambda>v. m\<lparr>RerankerHeartbeatResponse_message := v\<rparr>) r)
      else Break)"

type_synonym RerankerHeartbeatResponse_partial = "(bool option) \<times> (string option)"

fun fromPartial_RerankerHeartbeatResponse :: "RerankerHeartbeatResponse_partial \<Rightarrow> RerankerHeartbeatResponse" where
  "fromPartial_RerankerHeartbeatResponse (ok', message') =
     \<lparr>RerankerHeartbeatResponse_ok = nullish ok' False,
      RerankerHeartbeatResponse_message = nullish message' []\<rparr>"

definition create_RerankerHeartbeatResponse :: "RerankerHeartbeatResponse_partial option \<Rightarrow> RerankerHeartbeatResponse" where
  "create_RerankerHeartbeatResponse base = fromPartial_RerankerHeartbeatResponse (nullish base (None, None))"

definition decode_RerankerHeartbeatResponse :: "('w, 'r) wire \<Rightarrow> 'r \<Rightarrow> nat option \<Rightarrow> (RerankerHeartbeatResponse \<times> 'r) comp" where
  "decode_RerankerHeartbeatResponse W = decode_with W (switch_RerankerHeartbeatResponse W) createBaseRerankerHeartbeatResponse"

subsection \<open>\<^verbatim>\<open>ListRerankersRequest\<close>\<close>

datatype ListRerankersRequest = ListRerankersRequest

definition createBaseListRerankersRequest :: ListRerankersRequest where
  "createBaseListRerankersRequest = ListRerankersRequest"

definition encode_ListRerankersRequest :: "('w, 'r) wire \<Rightarrow> ListRerankersRequest \<Rightarrow> 'w writes" where
  "encode_ListRerankersRequest W m = w_seq []"

definition switch_ListRerankersRequest :: "('w, 'r) wire \<Rightarrow> ('r, ListRerankersRequest) switch" where
  "switch_ListRerankersRequest W tag m r = Break"

definition fromPartial_ListRerankersRequest :: "unit \<Rightarrow> ListRerankersRequest" where
  "fromPartial_ListRerankersRequest u = createBaseListRerankersRequest"

definition create_ListRerankersRequest :: "unit option \<Rightarrow> ListRerankersRequest" where
  "create_ListRerankersRequest base = fromPartial_ListRerankersRequest (nullish base ())"

definition decode_ListRerankersRequest :: "('w, 'r) wire \<Rightarrow> 'r \<Rightarrow> nat option \<Rightarrow> (ListRerankersRequest \<times> 'r) comp" where
  "decode_ListRerankersRequest W = decode_with W (switch_ListRerankersRequest W) createBaseListRerankersRequest"

subsection \<open>\<^verbatim>\<open>RerankerInfo_MetadataEntry\<close>\<close>

record RerankerInfo_MetadataEntry =
  RerankerInfo_MetadataEntry_key :: string
  RerankerInfo_MetadataEntry_value :: string

definition createBaseRerankerInfo_MetadataEntry :: RerankerInfo_MetadataEntry where
  "createBaseRerankerInfo_MetadataEntry =
     \<lparr>RerankerInfo_MetadataEntry_key = [],
      RerankerInfo_MetadataEntry_value = []\<rparr>"

definition encode_RerankerInfo_MetadataEntry :: "('w, 'r) wire \<Rightarrow> RerankerInfo_MetadataEntry \<Rightarrow> 'w writes" where
  "encode_RerankerInfo_MetadataEntry W m =
     w_seq
      [w_if (RerankerInfo_MetadataEntry_key m \<noteq> []) (w_field W 10 (w_string W (RerankerInfo_MetadataEntry_key m))),
       w_if (RerankerInfo_MetadataEntry_value m \<noteq> []) (w_field W 18 (w_string W (RerankerInfo_MetadataEntry_value m)))]"

definition switch_RerankerInfo_MetadataEntry :: "('w, 'r) wire \<Rightarrow> ('r, RerankerInfo_MetadataEntry) switch" where
  "switch_RerankerInfo_MetadataEntry W tag m r =
     (if drop_bit 3 tag = 1 then
       (if tag \<noteq> 10 then Break
        else arm_read (r_string W) (\<lambda>v. m\<lparr>RerankerInfo_MetadataEntry_key := v\<rparr>) r)
      else if drop_bit 3 tag = 2 then
       (if tag \<noteq> 18 then Break
        else arm_read (r_string W) (\<lambda>v. m\<lparr>RerankerInfo_MetadataEntry_value := v\<rparr>) r)
      else Break)"

type_synonym RerankerInfo_MetadataEntry_partial = "(string option) \<times> (string option)"

fun fromPartial_RerankerInfo_MetadataEntry :: "RerankerInfo_MetadataEntry_partial \<Rightarrow> RerankerInfo_MetadataEntry" where
  "fromPartial_RerankerInfo_MetadataEntry (key', value') =
     \<lparr>RerankerInfo_MetadataEntry_key = nullish key' [],
      RerankerInfo_MetadataEntry_value = nullish value' []\<rparr>"

definition create_RerankerInfo_MetadataEntry :: "RerankerInfo_MetadataEntry_partial option \<Rightarrow> RerankerInfo_MetadataEntry" where
  "create_RerankerInfo_MetadataEntry base = fromPartial_RerankerInfo_MetadataEntry (nullish base (None, None))"

definition decode_RerankerInfo_MetadataEntry :: "('w, 'r) wire \<Rightarrow> 'r \<Rightarrow> nat option \<Rightarrow> (RerankerInfo_MetadataEntry \<times> 'r) comp" where
  "decode_RerankerInfo_MetadataEntry W = decode_with W (switch_RerankerInfo_MetadataEntry W) createBaseRerankerInfo_MetadataEntry"

subsection \<open>\<^verbatim>\<open>RerankerInfo\<close>\<close>

record RerankerInfo =
  RerankerInfo_rerankerId :: string
  RerankerInfo_grpcAddress :: string
  RerankerInfo_lastHeartbeat :: string
  RerankerInfo_healthy :: bool
  RerankerInfo_metadata :: "string js_obj"

definition createBaseRerankerInfo :: RerankerInfo where
  "createBaseRerankerInfo =
     \<lparr>RerankerInfo_rerankerId = [],
      RerankerInfo_grpcAddress = [],
      RerankerInfo_lastHeartbeat = ''0'',
      RerankerInfo_healthy = False,
      RerankerInfo_metadata = []\<rparr>"

definition encode_RerankerInfo :: "('w, 'r) wire \<Rightarrow> RerankerInfo \<Rightarrow> 'w writes" where
  "encode_RerankerInfo W m =
     w_seq
      [w_if (RerankerInfo_rerankerId m \<noteq> []) (w_field W 10 (w_string W (RerankerInfo_rerankerId m))),
       w_if (RerankerInfo_grpcAddress m \<noteq> []) (w_field W 18 (w_string W (RerankerInfo_grpcAddress m))),
       w_if (RerankerInfo_lastHeartbeat m \<noteq> ''0'') (w_field W 24 (w_int64 W (RerankerInfo_lastHeartbeat m))),
       w_if (RerankerInfo_healthy m) (w_field W 32 (w_bool W (RerankerInfo_healthy m))),
       w_seq (map (\<lambda>(key, value). w_nested W 42
          (encode_RerankerInfo_MetadataEntry W \<lparr>RerankerInfo_MetadataEntry_key = key, RerankerInfo_MetadataEntry_value = value\<rparr>)) (RerankerInfo_metadata m))]"

definition switch_RerankerInfo :: "('w, 'r) wire \<Rightarrow> ('r, RerankerInfo) switch" where
  "switch_RerankerInfo W tag m r =
     (if drop_bit 3 tag = 1 then
       (if tag \<noteq> 10 then Break
        else arm_read (r_string W) (\<lambda>v. m\<lparr>RerankerInfo_rerankerId := v\<rparr>) r)
      else if drop_bit 3 tag = 2 then
       (if tag \<noteq> 18 then Break
        else arm_read (r_string W) (\<lambda>v. m\<lparr>RerankerInfo_grpcAddress := v\<rparr>) r)
      else if drop_bit 3 tag = 3 then
       (if tag \<noteq> 24 then Break
        else arm_read (r_int64 W) (\<lambda>v. m\<lparr>RerankerInfo_lastHeartbeat := show_int (sint v)\<rparr>) r)
      else if drop_bit 3 tag = 4 then
       (if tag \<noteq> 32 then Break
        else arm_read (r_bool W) (\<lambda>v. m\<lparr>RerankerInfo_healthy := v\<rparr>) r)
      else if drop_bit 3 tag = 5 then
       (if tag \<noteq> 42 then Break
        else arm_sub W (decode_RerankerInfo_MetadataEntry W)
          (\<lambda>e. m\<lparr>RerankerInfo_metadata := js_set (RerankerInfo_MetadataEntry_key e) (RerankerInfo_MetadataEntry_value e) (RerankerInfo_metadata m)\<rparr>) r)
      else Break)"

type_synonym RerankerInfo_partial = "(string option) \<times> (string option) \<times> (string option) \<times> (bool option) \<times> (string option js_obj option)"

fun fromPartial_RerankerInfo :: "RerankerInfo_partial \<Rightarrow> RerankerInfo" where
  "fromPartial_RerankerInfo (rerankerId', grpcAddress', lastHeartbeat', healthy', metadata') =
     \<lparr>RerankerInfo_rerankerId = nullish rerankerId' [],
      RerankerInfo_grpcAddress = nullish grpcAddress' [],
      RerankerInfo_lastHeartbeat = nullish lastHeartbeat' ''0'',
      RerankerInfo_healthy = nullish healthy' False,
      RerankerInfo_metadata = js_copy (nullish metadata' [])\<rparr>"

definition create_RerankerInfo :: "RerankerInfo_partial option \<Rightarrow> RerankerInfo" where
  "create_RerankerInfo base = fromPartial_RerankerInfo (nullish base (None, None, None, None, None))"

definition decode_RerankerInfo :: "('w, 'r) wire \<Rightarrow> 'r \<Rightarrow> nat option \<Rightarrow> (RerankerInfo \<times> 'r) comp" where
  "decode_RerankerInfo W = decode_with W (switch_RerankerInfo W) createBaseRerankerInfo"

subsection \<open>\<^verbatim>\<open>ListRerankersResponse\<close>\<close>

record ListRerankersResponse =
  ListRerankersResponse_rerankers :: "RerankerInfo list"

definition createBaseListRerankersResponse :: ListRerankersResponse where
  "createBaseListRerankersResponse =
     \<lparr>ListRerankersResponse_rerankers = []\<rparr>"

definition encode_ListRerankersResponse :: "('w, 'r) wire \<Rightarrow> ListRerankersResponse \<Rightarrow> 'w writes" where
  "encode_ListRerankersResponse W m =
     w_seq
      [w_seq (map (\<lambda>v. w_nested W 10 (encode_RerankerInfo W v)) (ListRerankersResponse_rerankers m))]"

definition switch_ListRerankersResponse :: "('w, 'r) wire \<Rightarrow> ('r, ListRerankersResponse) switch" where
  "switch_ListRerankersResponse W tag m r =
     (if drop_bit 3 tag = 1 then
       (if tag \<noteq> 10 then Break
        else arm_sub W (decode_RerankerInfo W) (\<lambda>v. m\<lparr>ListRerankersResponse_rerankers := ListRerankersResponse_rerankers m @ [v]\<rparr>) r)
      else Break)"

type_synonym ListRerankersResponse_partial = "RerankerInfo_partial list option"

fun fromPartial_ListRerankersResponse :: "ListRerankersResponse_partial \<Rightarrow> ListRerankersResponse" where
  "fromPartial_ListRerankersResponse rerankers' =
     \<lparr>ListRerankersResponse_rerankers = map fromPartial_RerankerInfo (nullish rerankers' [])\<rparr>"

definition create_ListRerankersResponse :: "ListRerankersResponse_partial option \<Rightarrow> ListRerankersResponse" where
  "create_ListRerankersResponse base = fromPartial_ListRerankersResponse (nullish base None)"

definition decode_ListRerankersResponse :: "('w, 'r) wire \<Rightarrow> 'r \<Rightarrow> nat option \<Rightarrow> (ListRerankersResponse \<times> 'r) comp" where
  "decode_ListRerankersResponse W = decode_with W (switch_ListRerankersResponse W) createBaseListRerankersResponse"

subsection \<open>\<^verbatim>\<open>GetRerankerRequest\<close>\<close>

datatype GetRerankerRequest = GetRerankerRequest

definition createBaseGetRerankerRequest :: GetRerankerRequest where
  "createBaseGetRerankerRequest = GetRerankerRequest"

definition encode_GetRerankerRequest :: "('w, 'r) wire \<Rightarrow> GetRerankerRequest \<Rightarrow> 'w writes" where
  "encode_GetRerankerRequest W m = w_seq []"

definition switch_GetRerankerRequest :: "('w, 'r) wire \<Rightarrow> ('r, GetRerankerRequest) switch" where
  "switch_GetRerankerRequest W tag m r = Break"

definition fromPartial_GetRerankerRequest :: "unit \<Rightarrow> GetRerankerRequest" where
  "fromPartial_GetRerankerRequest u = createBaseGetRerankerRequest"

definition create_GetRerankerRequest :: "unit option \<Rightarrow> GetRerankerRequest" where
  "create_GetRerankerRequest base = fromPartial_GetRerankerRequest (nullish base ())"

definition decode_GetRerankerRequest :: "('w, 'r) wire \<Rightarrow> 'r \<Rightarrow> nat option \<Rightarrow> (GetRerankerRequest \<times> 'r) comp" where
  "decode_GetRerankerRequest W = decode_with W (switch_GetRerankerRequest W) createBaseGetRerankerRequest"

subsection \<open>\<^verbatim>\<open>GetRerankerResponse\<close>\<close>

record GetRerankerResponse =
  GetRerankerResponse_rerankerId :: string
  GetRerankerResponse_grpcAddress :: string

definition createBaseGetRerankerResponse :: GetRerankerResponse where
  "createBaseGetRerankerResponse =
     \<lparr>GetRerankerResponse_rerankerId = [],
      GetRerankerResponse_grpcAddress = []\<rparr>"

definition encode_GetRerankerResponse :: "('w, 'r) wire \<Rightarrow> GetRerankerResponse \<Rightarrow> 'w writes" where
  "encode_GetRerankerResponse W m =
     w_seq
      [w_if (GetRerankerResponse_rerankerId m \<noteq> []) (w_field W 10 (w_string W (GetRerankerResponse_rerankerId m))),
       w_if (GetRerankerResponse_grpcAddress m \<noteq> []) (w_field W 18 (w_string W (GetRerankerResponse_grpcAddress m)))]"

definition switch_GetRerankerResponse :: "('w, 'r) wire \<Rightarrow> ('r, GetRerankerResponse) switch" where
  "switch_GetRerankerResponse W tag m r =
     (if drop_bit 3 tag = 1 then
       (if tag \<noteq> 10 then Break
        else arm_read (r_string W) (\<lambda>v. m\<lparr>GetRerankerResponse_rerankerId := v\<rparr>) r)
      else if drop_bit 3 tag = 2 then
       (if tag \<noteq> 18 then Break
        else arm_read (r_string W) (\<lambda>v. m\<lparr>GetRerankerResponse_grpcAddress := v\<rparr>) r)
      else Break)"

type_synonym GetRerankerResponse_partial = "(string option) \<times> (string option)"

fun fromPartial_GetRerankerResponse :: "GetRerankerResponse_partial \<Rightarrow> GetRerankerResponse" where
  "fromPartial_GetRerankerResponse (rerankerId', grpcAddress') =
     \<lparr>GetRerankerResponse_rerankerId = nullish rerankerId' [],
      GetRerankerResponse_grpcAddress = nullish grpcAddress' []\<rparr>"

definition create_GetRerankerResponse :: "GetRerankerResponse_partial option \<Rightarrow> GetRerankerResponse" where
  "create_GetRerankerResponse base = fromPartial_GetRerankerResponse (nullish base (None, None))"

definition decode_GetRerankerResponse :: "('w, 'r) wire \<Rightarrow> 'r \<Rightarrow> nat option \<Rightarrow> (GetRerankerResponse \<times> 'r) comp" where
  "decode_GetRerankerResponse W = decode_with W (switch_GetRerankerResponse W) createBaseGetRerankerResponse"

subsection \<open>\<^verbatim>\<open>ListWorkersForCollectionRequest\<close>\<close>

record ListWorkersForCollectionRequest =
  ListWorkersForCollectionRequest_collection :: string

definition createBaseListWorkersForCollectionRequest :: ListWorkersForCollectionRequest where
  "createBaseListWorkersForCollectionRequest =
     \<lparr>ListWorkersForCollectionRequest_collection = []\<rparr>"

definition encode_ListWorkersForCollectionRequest :: "('w, 'r) wire \<Rightarrow> ListWorkersForCollectionRequest \<Rightarrow> 'w writes" where
  "encode_ListWorkersForCollectionRequest W m =
     w_seq
      [w_if (ListWorkersForCollectionRequest_collection m \<noteq> []) (w_field W 10 (w_string W (ListWorkersForCollectionRequest_collection m)))]"

definition switch_ListWorkersForCollectionRequest :: "('w, 'r) wire \<Rightarrow> ('r, ListWorkersForCollectionRequest) switch" where
  "switch_ListWorkersForCollectionRequest W tag m r =
     (if drop_bit 3 tag = 1 then
       (if tag \<noteq> 10 then Break
        else arm_read (r_string W) (\<lambda>v. m\<lparr>ListWorkersForCollectionRequest_collection := v\<rparr>) r)
      else Break)"

type_synonym ListWorkersForCollectionRequest_partial = "string option"

fun fromPartial_ListWorkersForCollectionRequest :: "ListWorkersForCollectionRequest_partial \<Rightarrow> ListWorkersForCollectionRequest" where
  "fromPartial_ListWorkersForCollectionRequest collection' =
     \<lparr>ListWorkersForCollectionRequest_collection = nullish collection' []\<rparr>"

definition create_ListWorkersForCollectionRequest :: "ListWorkersForCollectionRequest_partial option \<Rightarrow> ListWorkersForCollectionRequest" where
  "create_ListWorkersForCollectionRequest base = fromPartial_ListWorkersForCollectionRequest (nullish base None)"

definition decode_ListWorkersForCollectionRequest :: "('w, 'r) wire \<Rightarrow> 'r \<Rightarrow> nat option \<Rightarrow> (ListWorkersForCollectionRequest \<times> 'r) comp" where
  "decode_ListWorkersForCollectionRequest W = decode_with W (switch_ListWorkersForCollectionRequest W) createBaseListWorkersForCollectionRequest"

subsection \<open>\<^verbatim>\<open>ListWorkersForCollectionResponse\<close>\<close>

record ListWorkersForCollectionResponse =
  ListWorkersForCollectionResponse_grpcAddresses :: "string list"

definition createBaseListWorkersForCollectionResponse :: ListWorkersForCollectionResponse where
  "createBaseListWorkersForCollectionResponse =
     \<lparr>ListWorkersForCollectionResponse_grpcAddresses = []\<rparr>"

definition encode_ListWorkersForCollectionResponse :: "('w, 'r) wire \<Rightarrow> ListWorkersForCollectionResponse \<Rightarrow> 'w writes" where
  "encode_ListWorkersForCollectionResponse W m =
     w_seq
      [w_seq (map (\<lambda>v. w_field W 10 (w_string W v)) (ListWorkersForCollectionResponse_grpcAddresses m))]"

definition switch_ListWorkersForCollectionResponse :: "('w, 'r) wire \<Rightarrow> ('r, ListWorkersForCollectionResponse) switch" where
  "switch_ListWorkersForCollectionResponse W tag m r =
     (if drop_bit 3 tag = 1 then
       (if tag \<noteq> 10 then Break
        else arm_read (r_string W) (\<lambda>v. m\<lparr>ListWorkersForCollectionResponse_grpcAddresses := ListWorkersForCollectionResponse_grpcAddresses m @ [v]\<rparr>) r)
      else Break)"

type_synonym ListWorkersForCollectionResponse_partial = "string list option"

fun fromPartial_ListWorkersForCollectionResponse :: "ListWorkersForCollectionResponse_partial \<Rightarrow> ListWorkersForCollectionResponse" where
  "fromPartial_ListWorkersForCollectionResponse grpcAddresses' =
     \<lparr>ListWorkersForCollectionResponse_grpcAddresses = nullish grpcAddresses' []\<rparr>"

definition create_ListWorkersForCollectionResponse :: "ListWorkersForCollectionResponse_partial option \<Rightarrow> ListWorkersForCollectionResponse" where
  "create_ListWorkersForCollectionResponse base = fromPartial_ListWorkersForCollectionResponse (nullish base None)"

definition decode_ListWorkersForCollectionResponse :: "('w, 'r) wire \<Rightarrow> 'r \<Rightarrow> nat option \<Rightarrow> (ListWorkersForCollectionResponse \<times> 'r) comp" where
  "decode_ListWorkersForCollectionResponse W = decode_with W (switch_ListWorkersForCollectionResponse W) createBaseListWorkersForCollectionResponse"

subsection \<open>\<^verbatim>\<open>DrainWorkerRequest\<close>\<close>

record DrainWorkerRequest =
  DrainWorkerRequest_workerId :: string

definition createBaseDrainWorkerRequest :: DrainWorkerRequest where
  "createBaseDrainWorkerRequest =
     \<lparr>DrainWorkerRequest_workerId = []\<rparr>"

definition encode_DrainWorkerRequest :: "('w, 'r) wire \<Rightarrow> DrainWorkerRequest \<Rightarrow> 'w writes" where
  "encode_DrainWorkerRequest W m =
     w_seq
      [w_if (DrainWorkerRequest_workerId m \<noteq> []) (w_field W 10 (w_string W (DrainWorkerRequest_workerId m)))]"

definition switch_DrainWorkerRequest :: "('w, 'r) wire \<Rightarrow> ('r, DrainWorkerRequest) switch" where
  "switch_DrainWorkerRequest W tag m r =
     (if drop_bit 3 tag = 1 then
       (if tag \<noteq> 10 then Break
        else arm_read (r_string W) (\<lambda>v. m\<lparr>DrainWorkerRequest_workerId := v\<rparr>) r)
      else Break)"

type_synonym DrainWorkerRequest_partial = "string option"

fun fromPartial_DrainWorkerRequest :: "DrainWorkerRequest_partial \<Rightarrow> DrainWorkerRequest" where
  "fromPartial_DrainWorkerRequest workerId' =
     \<lparr>DrainWorkerRequest_workerId = nullish workerId' []\<rparr>"

definition create_DrainWorkerRequest :: "DrainWorkerRequest_partial option \<Rightarrow> DrainWorkerRequest" where
  "create_DrainWorkerRequest base = fromPartial_DrainWorkerRequest (nullish base None)"

definition decode_DrainWorkerRequest :: "('w, 'r) wire \<Rightarrow> 'r \<Rightarrow> nat option \<Rightarrow> (DrainWorkerRequest \<times> 'r) comp" where
  "decode_DrainWorkerRequest W = decode_with W (switch_DrainWorkerRequest W) createBaseDrainWorkerRequest"

subsection \<open>\<^verbatim>\<open>DrainWorkerResponse\<close>\<close>

record DrainWorkerResponse =
  DrainWorkerResponse_success :: bool

definition createBaseDrainWorkerResponse :: DrainWorkerResponse where
  "createBaseDrainWorkerResponse =
     \<lparr>DrainWorkerResponse_success = False\<rparr>"

definition encode_DrainWorkerResponse :: "('w, 'r) wire \<Rightarrow> DrainWorkerResponse \<Rightarrow> 'w writes" where
  "encode_DrainWorkerResponse W m =
     w_seq
      [w_if (DrainWorkerResponse_success m) (w_field W 8 (w_bool W (DrainWorkerResponse_success m)))]"

definition switch_DrainWorkerResponse :: "('w, 'r) wire \<Rightarrow> ('r, DrainWorkerResponse) switch" where
  "switch_DrainWorkerResponse W tag m r =
     (if drop_bit 3 tag = 1 then
       (if tag \<noteq> 8 then Break
        else arm_read (r_bool W) (\<lambda>v. m\<lparr>DrainWorkerResponse_success := v\<rparr>) r)
      else Break)"

type_synonym DrainWorkerResponse_partial = "bool option"

fun fromPartial_DrainWorkerResponse :: "DrainWorkerResponse_partial \<Rightarrow> DrainWorkerResponse" where
  "fromPartial_DrainWorkerResponse success' =
     \<lparr>DrainWorkerResponse_success = nullish success' False\<rparr>"

definition create_DrainWorkerResponse :: "DrainWorkerResponse_partial option \<Rightarrow> DrainWorkerResponse" where
  "create_DrainWorkerResponse base = fromPartial_DrainWorkerResponse (nullish base None)"

definition decode_DrainWorkerResponse :: "('w, 'r) wire \<Rightarrow> 'r \<Rightarrow> nat option \<Rightarrow> (DrainWorkerResponse \<times> 'r) comp" where
  "decode_DrainWorkerResponse W = decode_with W (switch_DrainWorkerResponse W) createBaseDrainWorkerResponse"

subsection \<open>\<^verbatim>\<open>RemoveWorkerRequest\<close>\<close>

record RemoveWorkerRequest =
  RemoveWorkerRequest_workerId :: string

definition createBaseRemoveWorkerRequest :: RemoveWorkerRequest where
  "createBaseRemoveWorkerRequest =
     \<lparr>RemoveWorkerRequest_workerId = []\<rparr>"

definition encode_RemoveWorkerRequest :: "('w, 'r) wire \<Rightarrow> RemoveWorkerRequest \<Rightarrow> 'w writes" where
  "encode_RemoveWorkerRequest W m =
     w_seq
      [w_if (RemoveWorkerRequest_workerId m \<noteq> []) (w_field W 10 (w_string W (RemoveWorkerRequest_workerId m)))]"

definition switch_RemoveWorkerRequest :: "('w, 'r) wire \<Rightarrow> ('r, RemoveWorkerRequest) switch" where
  "switch_RemoveWorkerRequest W tag m r =
     (if drop_bit 3 tag = 1 then
       (if tag \<noteq> 10 then Break
        else arm_read (r_string W) (\<lambda>v. m\<lparr>RemoveWorkerRequest_workerId := v\<rparr>) r)
      else Break)"

type_synonym RemoveWorkerRequest_partial = "string option"

fun fromPartial_RemoveWorkerRequest :: "RemoveWorkerRequest_partial \<Rightarrow> RemoveWorkerRequest" where
  "fromPartial_RemoveWorkerRequest workerId' =
     \<lparr>RemoveWorkerRequest_workerId = nullish workerId' []\<rparr>"

definition create_RemoveWorkerRequest :: "RemoveWorkerRequest_partial option \<Rightarrow> RemoveWorkerRequest" where
  "create_RemoveWorkerRequest base = fromPartial_RemoveWorkerRequest (nullish base None)"

definition decode_RemoveWorkerRequest :: "('w, 'r) wire \<Rightarrow> 'r \<Rightarrow> nat option \<Rightarrow> (RemoveWorkerRequest \<times> 'r) comp" where
  "decode_RemoveWorkerRequest W = decode_with W (switch_RemoveWorkerRequest W) createBaseRemoveWorkerRequest"

subsection \<open>\<^verbatim>\<open>RemoveWorkerResponse\<close>\<close>

record RemoveWorkerResponse =
  RemoveWorkerResponse_success :: bool

definition createBaseRemoveWorkerResponse :: RemoveWorkerResponse where
  "createBaseRemoveWorkerResponse =
     \<lparr>RemoveWorkerResponse_success = False\<rparr>"

definition encode_RemoveWorkerResponse :: "('w, 'r) wire \<Rightarrow> RemoveWorkerResponse \<Rightarrow> 'w writes" where
  "encode_RemoveWorkerResponse W m =
     w_seq
      [w_if (RemoveWorkerResponse_success m) (w_field W 8 (w_bool W (RemoveWorkerResponse_success m)))]"

definition switch_RemoveWorkerResponse :: "('w, 'r) wire \<Rightarrow> ('r, RemoveWorkerResponse) switch" where
  "switch_RemoveWorkerResponse W tag m r =
     (if drop_bit 3 tag = 1 then
       (if tag \<noteq> 8 then Break
        else arm_read (r_bool W) (\<lambda>v. m\<lparr>RemoveWorkerResponse_success := v\<rparr>) r)
      else Break)"

type_synonym RemoveWorkerResponse_partial = "bool option"

fun fromPartial_RemoveWorkerResponse :: "RemoveWorkerResponse_partial \<Rightarrow> RemoveWorkerResponse" where
  "fromPartial_RemoveWorkerResponse success' =
     \<lparr>RemoveWorkerResponse_success = nullish success' False\<rparr>"

definition create_RemoveWorkerResponse :: "RemoveWorkerResponse_partial option \<Rightarrow> RemoveWorkerResponse" where
  "create_RemoveWorkerResponse base = fromPartial_RemoveWorkerResponse (nullish base None)"

definition decode_RemoveWorkerResponse :: "('w, 'r) wire \<Rightarrow> 'r \<Rightarrow> nat option \<Rightarrow> (RemoveWorkerResponse \<times> 'r) comp" where
  "decode_RemoveWorkerResponse W = decode_with W (switch_RemoveWorkerResponse W) createBaseRemoveWorkerResponse"

subsection \<open>\<^verbatim>\<open>RebalanceRequest\<close>\<close>

datatype RebalanceRequest = RebalanceRequest

definition createBaseRebalanceRequest :: RebalanceRequest where
  "createBaseRebalanceRequest = RebalanceRequest"

definition encode_RebalanceRequest :: "('w, 'r) wire \<Rightarrow> RebalanceRequest \<Rightarrow> 'w writes" where
  "encode_RebalanceRequest W m = w_seq []"

definition switch_RebalanceRequest :: "('w, 'r) wire \<Rightarrow> ('r, RebalanceRequest) switch" where
  "switch_RebalanceRequest W tag m r = Break"

definition fromPartial_RebalanceRequest :: "unit \<Rightarrow> RebalanceRequest" where
  "fromPartial_RebalanceRequest u = createBaseRebalanceRequest"

definition create_RebalanceRequest :: "unit option \<Rightarrow> RebalanceRequest" where
  "create_RebalanceRequest base = fromPartial_RebalanceRequest (nullish base ())"

definition decode_RebalanceRequest :: "('w, 'r) wire \<Rightarrow> 'r \<Rightarrow> nat option \<Rightarrow> (RebalanceRequest \<times> 'r) comp" where
  "decode_RebalanceRequest W = decode_with W (switch_RebalanceRequest W) createBaseRebalanceRequest"

subsection \<open>\<^verbatim>\<open>RebalanceResponse\<close>\<close>

record RebalanceResponse =
  RebalanceResponse_started :: bool

definition createBaseRebalanceResponse :: RebalanceResponse where
  "createBaseRebalanceResponse =
     \<lparr>RebalanceResponse_started = False\<rparr>"

definition encode_RebalanceResponse :: "('w, 'r) wire \<Rightarrow> RebalanceResponse \<Rightarrow> 'w writes" where
  "encode_RebalanceResponse W m =
     w_seq
      [w_if (RebalanceResponse_started m) (w_field W 8 (w_bool W (RebalanceResponse_started m)))]"

definition switch_RebalanceResponse :: "('w, 'r) wire \<Rightarrow> ('r, RebalanceResponse) switch" where
  "switch_RebalanceResponse W tag m r =
     (if drop_bit 3 tag = 1 then
       (if tag \<noteq> 8 then Break
        else arm_read (r_bool W) (\<lambda>v. m\<lparr>RebalanceResponse_started := v\<rparr>) r)
      else Break)"

type_synonym RebalanceResponse_partial = "bool option"

fun fromPartial_RebalanceResponse :: "RebalanceResponse_partial \<Rightarrow> RebalanceResponse" where
  "fromPartial_RebalanceResponse started' =
     \<lparr>RebalanceResponse_started = nullish started' False\<rparr>"

definition create_RebalanceResponse :: "RebalanceResponse_partial option \<Rightarrow> RebalanceResponse" where
  "create_RebalanceResponse base = fromPartial_RebalanceResponse (nullish base None)"

definition decode_RebalanceResponse :: "('w, 'r) wire \<Rightarrow> 'r \<Rightarrow> nat option \<Rightarrow> (RebalanceResponse \<times> 'r) comp" where
  "decode_RebalanceResponse W = decode_with W (switch_RebalanceResponse W) createBaseRebalanceResponse"

subsection \<open>\<^verbatim>\<open>CreateCollectionRequest\<close>\<close>

record PdCreateCollectionRequest =
  PdCreateCollectionRequest_name :: string
  PdCreateCollectionRequest_dimension :: js_num
  PdCreateCollectionRequest_distance :: string

definition createBasePdCreateCollectionRequest :: PdCreateCollectionRequest where
  "createBasePdCreateCollectionRequest =
     \<lparr>PdCreateCollectionRequest_name = [],
      PdCreateCollectionRequest_dimension = Fin 0,
      PdCreateCollectionRequest_distance = []\<rparr>"

definition encode_PdCreateCollectionRequest :: "('w, 'r) wire \<Rightarrow> PdCreateCollectionRequest \<Rightarrow> 'w writes" where
  "encode_PdCreateCollectionRequest W m =
     w_seq
      [w_if (PdCreateCollectionRequest_name m \<noteq> []) (w_field W 10 (w_string W (PdCreateCollectionRequest_name m))),
       w_if (\<not> js_eq (PdCreateCollectionRequest_dimension m) (Fin 0)) (w_field W 16 (w_int32 W (PdCreateCollectionRequest_dimension m))),
       w_if (PdCreateCollectionRequest_distance m \<noteq> []) (w_field W 26 (w_string W (PdCreateCollectionRequest_distance m)))]"

definition switch_PdCreateCollectionRequest :: "('w, 'r) wire \<Rightarrow> ('r, PdCreateCollectionRequest) switch" where
  "switch_PdCreateCollectionRequest W tag m r =
     (if drop_bit 3 tag = 1 then
       (if tag \<noteq> 10 then Break
        else arm_read (r_string W) (\<lambda>v. m\<lparr>PdCreateCollectionRequest_name := v\<rparr>) r)
      else if drop_bit 3 tag = 2 then
       (if tag \<noteq> 16 then Break
        else arm_read (r_int32 W) (\<lambda>v. m\<lparr>PdCreateCollectionRequest_dimension := num_of_int (sint v)\<rparr>) r)
      else if drop_bit 3 tag = 3 then
       (if tag \<noteq> 26 then Break
        else arm_read (r_string W) (\<lambda>v. m\<lparr>PdCreateCollectionRequest_distance := v\<rparr>) r)
      else Break)"

type_synonym PdCreateCollectionRequest_partial = "(string option) \<times> (js_num option) \<times> (string option)"

fun fromPartial_PdCreateCollectionRequest :: "PdCreateCollectionRequest_partial \<Rightarrow> PdCreateCollectionRequest" where
  "fromPartial_PdCreateCollectionRequest (name', dimension', distance') =
     \<lparr>PdCreateCollectionRequest_name = nullish name' [],
      PdCreateCollectionRequest_dimension = nullish dimension' (Fin 0),
      PdCreateCollectionRequest_distance = nullish distance' []\<rparr>"

definition create_PdCreateCollectionRequest :: "PdCreateCollectionRequest_partial option \<Rightarrow> PdCreateCollectionRequest" where
  "create_PdCreateCollectionRequest base = fromPartial_PdCreateCollectionRequest (nullish base (None, None, None))"

definition decode_PdCreateCollectionRequest :: "('w, 'r) wire \<Rightarrow> 'r \<Rightarrow> nat option \<Rightarrow> (PdCreateCollectionRequest \<times> 'r) comp" where
  "decode_PdCreateCollectionRequest W = decode_with W (switch_PdCreateCollectionRequest W) createBasePdCreateCollectionRequest"

subsection \<open>\<^verbatim>\<open>CreateCollectionResponse\<close>\<close>

record PdCreateCollectionResponse =
  PdCreateCollectionResponse_success :: bool

definition createBasePdCreateCollectionResponse :: PdCreateCollectionResponse where
  "createBasePdCreateCollectionResponse =
     \<lparr>PdCreateCollectionResponse_success = False\<rparr>"

definition encode_PdCreateCollectionResponse :: "('w, 'r) wire \<Rightarrow> PdCreateCollectionResponse \<Rightarrow> 'w writes" where
  "encode_PdCreateCollectionResponse W m =
     w_seq
      [w_if (PdCreateCollectionResponse_success m) (w_field W 8 (w_bool W (PdCreateCollectionResponse_success m)))]"

definition switch_PdCreateCollectionResponse :: "('w, 'r) wire \<Rightarrow> ('r, PdCreateCollectionResponse) switch" where
  "switch_PdCreateCollectionResponse W tag m r =
     (if drop_bit 3 tag = 1 then
       (if tag \<noteq> 8 then Break
        else arm_read (r_bool W) (\<lambda>v. m\<lparr>PdCreateCollectionResponse_success := v\<rparr>) r)
      else Break)"

type_synonym PdCreateCollectionResponse_partial = "bool option"

fun fromPartial_PdCreateCollectionResponse :: "PdCreateCollectionResponse_partial \<Rightarrow> PdCreateCollectionResponse" where
  "fromPartial_PdCreateCollectionResponse success' =
     \<lparr>PdCreateCollectionResponse_success = nullish success' False\<rparr>"

definition create_PdCreateCollectionResponse :: "PdCreateCollectionResponse_partial option \<Rightarrow> PdCreateCollectionResponse" where
  "create_PdCreateCollectionResponse base = fromPartial_PdCreateCollectionResponse (nullish base None)"

definition decode_PdCreateCollectionResponse :: "('w, 'r) wire \<Rightarrow> 'r \<Rightarrow> nat option \<Rightarrow> (PdCreateCollectionResponse \<times> 'r) comp" where
  "decode_PdCreateCollectionResponse W = decode_with W (switch_PdCreateCollectionResponse W) createBasePdCreateCollectionResponse"

subsection \<open>\<^verbatim>\<open>ListCollectionsRequest\<close>\<close>

datatype PdListCollectionsRequest = PdListCollectionsRequest

definition createBasePdListCollectionsRequest :: PdListCollectionsRequest where
  "createBasePdListCollectionsRequest = PdListCollectionsRequest"

definition encode_PdListCollectionsRequest :: "('w, 'r) wire \<Rightarrow> PdListCollectionsRequest \<Rightarrow> 'w writes" where
  "encode_PdListCollectionsRequest W m = w_seq []"

definition switch_PdListCollectionsRequest :: "('w, 'r) wire \<Rightarrow> ('r, PdListCollectionsRequest) switch" where
  "switch_PdListCollectionsRequest W tag m r = Break"

definition fromPartial_PdListCollectionsRequest :: "unit \<Rightarrow> PdListCollectionsRequest" where
  "fromPartial_PdListCollectionsRequest u = createBasePdListCollectionsRequest"

definition create_PdListCollectionsRequest :: "unit option \<Rightarrow> PdListCollectionsRequest" where
  "create_PdListCollectionsRequest base = fromPartial_PdListCollectionsRequest (nullish base ())"

definition decode_PdListCollectionsRequest :: "('w, 'r) wire \<Rightarrow> 'r \<Rightarrow> nat option \<Rightarrow> (PdListCollectionsRequest \<times> 'r) comp" where
  "decode_PdListCollectionsRequest W = decode_with W (switch_PdListCollectionsRequest W) createBasePdListCollectionsRequest"

subsection \<open>\<^verbatim>\<open>ListCollectionsResponse\<close>\<close>

record PdListCollectionsResponse =
  PdListCollectionsResponse_collections :: "string list"

definition createBasePdListCollectionsResponse :: PdListCollectionsResponse where
  "createBasePdListCollectionsResponse =
     \<lparr>PdListCollectionsResponse_collections = []\<rparr>"

definition encode_PdListCollectionsResponse :: "('w, 'r) wire \<Rightarrow> PdListCollectionsResponse \<Rightarrow> 'w writes" where
  "encode_PdListCollectionsResponse W m =
     w_seq
      [w_seq (map (\<lambda>v. w_field W 10 (w_string W v)) (PdListCollectionsResponse_collections m))]"

definition switch_PdListCollectionsResponse :: "('w, 'r) wire \<Rightarrow> ('r, PdListCollectionsResponse) switch" where
  "switch_PdListCollectionsResponse W tag m r =
     (if drop_bit 3 tag = 1 then
       (if tag \<noteq> 10 then Break
        else arm_read (r_string W) (\<lambda>v. m\<lparr>PdListCollectionsResponse_collections := PdListCollectionsResponse_collections m @ [v]\<rparr>) r)
      else Break)"

type_synonym PdListCollectionsResponse_partial = "string list option"

fun fromPartial_PdListCollectionsResponse :: "PdListCollectionsResponse_partial \<Rightarrow> PdListCollectionsResponse" where
  "fromPartial_PdListCollectionsResponse collections' =
     \<lparr>PdListCollectionsResponse_collections = nullish collections' []\<rparr>"

definition create_PdListCollectionsResponse :: "PdListCollectionsResponse_partial option \<Rightarrow> PdListCollectionsResponse" where
  "create_PdListCollectionsResponse base = fromPartial_PdListCollectionsResponse (nullish base None)"

definition decode_PdListCollectionsResponse :: "('w, 'r) wire \<Rightarrow> 'r \<Rightarrow> nat option \<Rightarrow> (PdListCollectionsResponse \<times> 'r) comp" where
  "decode_PdListCollectionsResponse W = decode_with W (switch_PdListCollectionsResponse W) createBasePdListCollectionsResponse"

subsection \<open>\<^verbatim>\<open>DeleteCollectionRequest\<close>\<close>

record PdDeleteCollectionRequest =
  PdDeleteCollectionRequest_name :: string

definition createBasePdDeleteCollectionRequest :: PdDeleteCollectionRequest where
  "createBasePdDeleteCollectionRequest =
     \<lparr>PdDeleteCollectionRequest_name = []\<rparr>"

definition encode_PdDeleteCollectionRequest :: "('w, 'r) wire \<Rightarrow> PdDeleteCollectionRequest \<Rightarrow> 'w writes" where
  "encode_PdDeleteCollectionRequest W m =
     w_seq
      [w_if (PdDeleteCollectionRequest_name m \<noteq> []) (w_field W 10 (w_string W (PdDeleteCollectionRequest_name m)))]"

definition switch_PdDeleteCollectionRequest :: "('w, 'r) wire \<Rightarrow> ('r, PdDeleteCollectionRequest) switch" where
  "switch_PdDeleteCollectionRequest W tag m r =
     (if drop_bit 3 tag = 1 then
       (if tag \<noteq> 10 then Break
        else arm_read (r_string W) (\<lambda>v. m\<lparr>PdDeleteCollectionRequest_name := v\<rparr>) r)
      else Break)"

type_synonym PdDeleteCollectionRequest_partial = "string option"

fun fromPartial_PdDeleteCollectionRequest :: "PdDeleteCollectionRequest_partial \<Rightarrow> PdDeleteCollectionRequest" where
  "fromPartial_PdDeleteCollectionRequest name' =
     \<lparr>PdDeleteCollectionRequest_name = nullish name' []\<rparr>"

definition create_PdDeleteCollectionRequest :: "PdDeleteCollectionRequest_partial option \<Rightarrow> PdDeleteCollectionRequest" where
  "create_PdDeleteCollectionRequest base = fromPartial_PdDeleteCollectionRequest (nullish base None)"

definition decode_PdDeleteCollectionRequest :: "('w, 'r) wire \<Rightarrow> 'r \<Rightarrow> nat option \<Rightarrow> (PdDeleteCollectionRequest \<times> 'r) comp" where
  "decode_PdDeleteCollectionRequest W = decode_with W (switch_PdDeleteCollectionRequest W) createBasePdDeleteCollectionRequest"

subsection \<open>\<^verbatim>\<open>DeleteCollectionResponse\<close>\<close>

record PdDeleteCollectionResponse =
  PdDeleteCollectionResponse_success :: bool

definition createBasePdDeleteCollectionResponse :: PdDeleteCollectionResponse where
  "createBasePdDeleteCollectionResponse =
     \<lparr>PdDeleteCollectionResponse_success = False\<rparr>"

definition encode_PdDeleteCollectionResponse :: "('w, 'r) wire \<Rightarrow> PdDeleteCollectionResponse \<Rightarrow> 'w writes" where
  "encode_PdDeleteCollectionResponse W m =
     w_seq
      [w_if (PdDeleteCollectionResponse_success m) (w_field W 8 (w_bool W (PdDeleteCollectionResponse_success m)))]"

definition switch_PdDeleteCollectionResponse :: "('w, 'r) wire \<Rightarrow> ('r, PdDeleteCollectionResponse) switch" where
  "switch_PdDeleteCollectionResponse W tag m r =
     (if drop_bit 3 tag = 1 then
       (if tag \<noteq> 8 then Break
        else arm_read (r_bool W) (\<lambda>v. m\<lparr>PdDeleteCollectionResponse_success := v\<rparr>) r)
      else Break)"

type_synonym PdDeleteCollectionResponse_partial = "bool option"

fun fromPartial_PdDeleteCollectionResponse :: "PdDeleteCollectionResponse_partial \<Rightarrow> PdDeleteCollectionResponse" where
  "fromPartial_PdDeleteCollectionResponse success' =
     \<lparr>PdDeleteCollectionResponse_success = nullish success' False\<rparr>"

definition create_PdDeleteCollectionResponse :: "PdDeleteCollectionResponse_partial option \<Rightarrow> PdDeleteCollectionResponse" where
  "create_PdDeleteCollectionResponse base = fromPartial_PdDeleteCollectionResponse (nullish base None)"

definition decode_PdDeleteCollectionResponse :: "('w, 'r) wire \<Rightarrow> 'r \<Rightarrow> nat option \<Rightarrow> (PdDeleteCollectionResponse \<times> 'r) comp" where
  "decode_PdDeleteCollectionResponse W = decode_with W (switch_PdDeleteCollectionResponse W) createBasePdDeleteCollectionResponse"

subsection \<open>\<^verbatim>\<open>GetCollectionStatusRequest\<close>\<close>

record PdGetCollectionStatusRequest =
  PdGetCollectionStatusRequest_name :: string

definition createBasePdGetCollectionStatusRequest :: PdGetCollectionStatusRequest where
  "createBasePdGetCollectionStatusRequest =
     \<lparr>PdGetCollectionStatusRequest_name = []\<rparr>"

definition encode_PdGetCollectionStatusRequest :: "('w, 'r) wire \<Rightarrow> PdGetCollectionStatusRequest \<Rightarrow> 'w writes" where
  "encode_PdGetCollectionStatusRequest W m =
     w_seq
      [w_if (PdGetCollectionStatusRequest_name m \<noteq> []) (w_field W 10 (w_string W (PdGetCollectionStatusRequest_name m)))]"

definition switch_PdGetCollectionStatusRequest :: "('w, 'r) wire \<Rightarrow> ('r, PdGetCollectionStatusRequest) switch" where
  "switch_PdGetCollectionStatusRequest W tag m r =
     (if drop_bit 3 tag = 1 then
       (if tag \<noteq> 10 then Break
        else arm_read (r_string W) (\<lambda>v. m\<lparr>PdGetCollectionStatusRequest_name := v\<rparr>) r)
      else Break)"

type_synonym PdGetCollectionStatusRequest_partial = "string option"

fun fromPartial_PdGetCollectionStatusRequest :: "PdGetCollectionStatusRequest_partial \<Rightarrow> PdGetCollectionStatusRequest" where
  "fromPartial_PdGetCollectionStatusRequest name' =
     \<lparr>PdGetCollectionStatusRequest_name = nullish name' []\<rparr>"

definition create_PdGetCollectionStatusRequest :: "PdGetCollectionStatusRequest_partial option \<Rightarrow> PdGetCollectionStatusRequest" where
  "create_PdGetCollectionStatusRequest base = fromPartial_PdGetCollectionStatusRequest (nullish base None)"

definition decode_PdGetCollectionStatusRequest :: "('w, 'r) wire \<Rightarrow> 'r \<Rightarrow> nat option \<Rightarrow> (PdGetCollectionStatusRequest \<times> 'r) comp" where
  "decode_PdGetCollectionStatusRequest W = decode_with W (switch_PdGetCollectionStatusRequest W) createBasePdGetCollectionStatusRequest"

subsection \<open>\<^verbatim>\<open>ShardStatus\<close>\<close>

record PdShardStatus =
  PdShardStatus_shardId :: js_num
  PdShardStatus_replicas :: "string list"
  PdShardStatus_leaderId :: string
  PdShardStatus_ready :: bool
  PdShardStatus_keyRangeStart :: string
  PdShardStatus_keyRangeEnd :: string
  PdShardStatus_shardEpoch :: string
  PdShardStatus_leaderGrpcAddress :: string
  PdShardStatus_replicaGrpcAddresses :: "string list"

definition createBasePdShardStatus :: PdShardStatus where
  "createBasePdShardStatus =
     \<lparr>PdShardStatus_shardId = Fin 0,
      PdShardStatus_replicas = [],
      PdShardStatus_leaderId = ''0'',
      PdShardStatus_ready = False,
      PdShardStatus_keyRangeStart = ''0'',
      PdShardStatus_keyRangeEnd = ''0'',
      PdShardStatus_shardEpoch = ''0'',
      PdShardStatus_leaderGrpcAddress = [],
      PdShardStatus_replicaGrpcAddresses = []\<rparr>"

definition encode_PdShardStatus :: "('w, 'r) wire \<Rightarrow> PdShardStatus \<Rightarrow> 'w writes" where
  "encode_PdShardStatus W m =
     w_seq
      [w_if (\<not> js_eq (PdShardStatus_shardId m) (Fin 0)) (w_field W 8 (w_uint32 W (PdShardStatus_shardId m))),
       w_nested W 18 (w_seq (map (w_uint64 W) (PdShardStatus_replicas m))),
       w_if (PdShardStatus_leaderId m \<noteq> ''0'') (w_field W 24 (w_uint64 W (PdShardStatus_leaderId m))),
       w_if (PdShardStatus_ready m) (w_field W 32 (w_bool W (PdShardStatus_ready m))),
       w_if (PdShardStatus_keyRangeStart m \<noteq> ''0'') (w_field W 40 (w_uint64 W (PdShardStatus_keyRangeStart m))),
       w_if (PdShardStatus_keyRangeEnd m \<noteq> ''0'') (w_field W 48 (w_uint64 W (PdShardStatus_keyRangeEnd m))),
       w_if (PdShardStatus_shardEpoch m \<noteq> ''0'') (w_field W 56 (w_uint64 W (PdShardStatus_shardEpoch m))),
       w_if (PdShardStatus_leaderGrpcAddress m \<noteq> []) (w_field W 66 (w_string W (PdShardStatus_leaderGrpcAddress m))),
       w_seq (map (\<lambda>v. w_field W 74 (w_string W v)) (PdShardStatus_replicaGrpcAddresses m))]"

definition switch_PdShardStatus :: "('w, 'r) wire \<Rightarrow> ('r, PdShardStatus) switch" where
  "switch_PdShardStatus W tag m r =
     (if drop_bit 3 tag = 1 then
       (if tag \<noteq> 8 then Break
        else arm_read (r_uint32 W) (\<lambda>v. m\<lparr>PdShardStatus_shardId := num_of_nat (unat v)\<rparr>) r)
      else if drop_bit 3 tag = 2 then
       (if tag = 16 then arm_read (r_uint64 W) (\<lambda>v. m\<lparr>PdShardStatus_replicas := PdShardStatus_replicas m @ [show_nat (unat v)]\<rparr>) r
        else if tag = 18 then arm_packed W (r_uint64 W) (\<lambda>vs. m\<lparr>PdShardStatus_replicas := PdShardStatus_replicas m @ map (\<lambda>v. show_nat (unat v)) vs\<rparr>) r
        else Break)
      else if drop_bit 3 tag = 3 then
       (if tag \<noteq> 24 then Break
        else arm_read (r_uint64 W) (\<lambda>v. m\<lparr>PdShardStatus_leaderId := show_nat (unat v)\<rparr>) r)
      else if drop_bit 3 tag = 4 then
       (if tag \<noteq> 32 then Break
        else arm_read (r_bool W) (\<lambda>v. m\<lparr>PdShardStatus_ready := v\<rparr>) r)
      else if drop_bit 3 tag = 5 then
       (if tag \<noteq> 40 then Break
        else arm_read (r_uint64 W) (\<lambda>v. m\<lparr>PdShardStatus_keyRangeStart := show_nat (unat v)\<rparr>) r)
      else if drop_bit 3 tag = 6 then
       (if tag \<noteq> 48 then Break
        else arm_read (r_uint64 W) (\<lambda>v. m\<lparr>PdShardStatus_keyRangeEnd := show_nat (unat v)\<rparr>) r)
      else if drop_bit 3 tag = 7 then
       (if tag \<noteq> 56 then Break
        else arm_read (r_uint64 W) (\<lambda>v. m\<lparr>PdShardStatus_shardEpoch := show_nat (unat v)\<rparr>) r)
      else if drop_bit 3 tag = 8 then
       (if tag \<noteq> 66 then Break
        else arm_read (r_string W) (\<lambda>v. m\<lparr>PdShardStatus_leaderGrpcAddress := v\<rparr>) r)
      else if drop_bit 3 tag = 9 then
       (if tag \<noteq> 74 then Break
        else arm_read (r_string W) (\<lambda>v. m\<lparr>PdShardStatus_replicaGrpcAddresses := PdShardStatus_replicaGrpcAddresses m @ [v]\<rparr>) r)
      else Break)"

type_synonym PdShardStatus_partial = "(js_num option) \<times> (string list option) \<times> (string option) \<times> (bool option) \<times> (string option) \<times> (string option) \<times> (string option) \<times> (string option) \<times> (string list option)"

fun fromPartial_PdShardStatus :: "PdShardStatus_partial \<Rightarrow> PdShardStatus" where
  "fromPartial_PdShardStatus (shardId', replicas', leaderId', ready', keyRangeStart', keyRangeEnd', shardEpoch', leaderGrpcAddress', replicaGrpcAddresses') =
     \<lparr>PdShardStatus_shardId = nullish shardId' (Fin 0),
      PdShardStatus_replicas = nullish replicas' [],
      PdShardStatus_leaderId = nullish leaderId' ''0'',
      PdShardStatus_ready = nullish ready' False,
      PdShardStatus_keyRangeStart = nullish keyRangeStart' ''0'',
      PdShardStatus_keyRangeEnd = nullish keyRangeEnd' ''0'',
      PdShardStatus_shardEpoch = nullish shardEpoch' ''0'',
      PdShardStatus_leaderGrpcAddress = nullish leaderGrpcAddress' [],
      PdShardStatus_replicaGrpcAddresses = nullish replicaGrpcAddresses' []\<rparr>"

definition create_PdShardStatus :: "PdShardStatus_partial option \<Rightarrow> PdShardStatus" where
  "create_PdShardStatus base = fromPartial_PdShardStatus (nullish base (None, None, None, None, None, None, None, None, None))"

definition decode_PdShardStatus :: "('w, 'r) wire \<Rightarrow> 'r \<Rightarrow> nat option \<Rightarrow> (PdShardStatus \<times> 'r) comp" where
  "decode_PdShardStatus W = decode_with W (switch_PdShardStatus W) createBasePdShardStatus"

subsection \<open>\<^verbatim>\<open>GetCollectionStatusResponse\<close>\<close>

record PdGetCollectionStatusResponse =
  PdGetCollectionStatusResponse_name :: string
  PdGetCollectionStatusResponse_dimension :: js_num
  PdGetCollectionStatusResponse_distance :: string
  PdGetCollectionStatusResponse_shards :: "PdShardStatus list"

definition createBasePdGetCollectionStatusResponse :: PdGetCollectionStatusResponse where
  "createBasePdGetCollectionStatusResponse =
     \<lparr>PdGetCollectionStatusResponse_name = [],
      PdGetCollectionStatusResponse_dimension = Fin 0,
      PdGetCollectionStatusResponse_distance = [],
      PdGetCollectionStatusResponse_shards = []\<rparr>"

definition encode_PdGetCollectionStatusResponse :: "('w, 'r) wire \<Rightarrow> PdGetCollectionStatusResponse \<Rightarrow> 'w writes" where
  "encode_PdGetCollectionStatusResponse W m =
     w_seq
      [w_if (PdGetCollectionStatusResponse_name m \<noteq> []) (w_field W 10 (w_string W (PdGetCollectionStatusResponse_name m))),
       w_if (\<not> js_eq (PdGetCollectionStatusResponse_dimension m) (Fin 0)) (w_field W 16 (w_int32 W (PdGetCollectionStatusResponse_dimension m))),
       w_if (PdGetCollectionStatusResponse_distance m \<noteq> []) (w_field W 26 (w_string W (PdGetCollectionStatusResponse_distance m))),
       w_seq (map (\<lambda>v. w_nested W 34 (encode_PdShardStatus W v)) (PdGetCollectionStatusResponse_shards m))]"

definition switch_PdGetCollectionStatusResponse :: "('w, 'r) wire \<Rightarrow> ('r, PdGetCollectionStatusResponse) switch" where
  "switch_PdGetCollectionStatusResponse W tag m r =
     (if drop_bit 3 tag = 1 then
       (if tag \<noteq> 10 then Break
        else arm_read (r_string W) (\<lambda>v. m\<lparr>PdGetCollectionStatusResponse_name := v\<rparr>) r)
      else if drop_bit 3 tag = 2 then
       (if tag \<noteq> 16 then Break
        else arm_read (r_int32 W) (\<lambda>v. m\<lparr>PdGetCollectionStatusResponse_dimension := num_of_int (sint v)\<rparr>) r)
      else if drop_bit 3 tag = 3 then
       (if tag \<noteq> 26 then Break
        else arm_read (r_string W) (\<lambda>v. m\<lparr>PdGetCollectionStatusResponse_distance := v\<rparr>) r)
      else if drop_bit 3 tag = 4 then
       (if tag \<noteq> 34 then Break
        else arm_sub W (decode_PdShardStatus W) (\<lambda>v. m\<lparr>PdGetCollectionStatusResponse_shards := PdGetCollectionStatusResponse_shards m @ [v]\<rparr>) r)
      else Break)"

type_synonym PdGetCollectionStatusResponse_partial = "(string option) \<times> (js_num option) \<times> (string option) \<times> (PdShardStatus_partial list option)"

fun fromPartial_PdGetCollectionStatusResponse :: "PdGetCollectionStatusResponse_partial \<Rightarrow> PdGetCollectionStatusResponse" where
  "fromPartial_PdGetCollectionStatusResponse (name', dimension', distance', shards') =
     \<lparr>PdGetCollectionStatusResponse_name = nullish name' [],
      PdGetCollectionStatusResponse_dimension = nullish dimension' (Fin 0),
      PdGetCollectionStatusResponse_distance = nullish distance' [],
      PdGetCollectionStatusResponse_shards = map fromPartial_PdShardStatus (nullish shards' [])\<rparr>"

definition create_PdGetCollectionStatusResponse :: "PdGetCollectionStatusResponse_partial option \<Rightarrow> PdGetCollectionStatusResponse" where
  "create_PdGetCollectionStatusResponse base = fromPartial_PdGetCollectionStatusResponse (nullish base (None, None, None, None))"

definition decode_PdGetCollectionStatusResponse :: "('w, 'r) wire \<Rightarrow> 'r \<Rightarrow> nat option \<Rightarrow> (PdGetCollectionStatusResponse \<times> 'r) comp" where
  "decode_PdGetCollectionStatusResponse W = decode_with W (switch_PdGetCollectionStatusResponse W) createBasePdGetCollectionStatusResponse"

section \<open>The switches, arm by arm\<close>

lemma switch_GetLeaderResponse_arms:
  "switch_GetLeaderResponse W 10 m = arm_read (r_string W) (\<lambda>v. m\<lparr>GetLeaderResponse_leaderAddress := v\<rparr>)"
  by (simp_all add: switch_GetLeaderResponse_def fun_eq_iff)

lemma switch_GetWorkerRequest_arms:
  "switch_GetWorkerRequest W 10 m = arm_read (r_string W) (\<lambda>v. m\<lparr>GetWorkerRequest_collection := v\<rparr>)"
  "switch_GetWorkerRequest W 18 m = arm_read (r_string W) (\<lambda>v. m\<lparr>GetWorkerRequest_vectorId := v\<rparr>)"
  by (simp_all add: switch_GetWorkerRequest_def fun_eq_iff)

definition wf_GetWorkerResponse :: "GetWorkerResponse \<Rightarrow> bool" where
  "wf_GetWorkerResponse m \<longleftrightarrow> uint64_string (GetWorkerResponse_shardEpoch m) \<and> int64_string (GetWorkerResponse_leaseExpiryUnixMs m)"

lemma switch_GetWorkerResponse_arms:
  "switch_GetWorkerResponse W 10 m = arm_read (r_string W) (\<lambda>v. m\<lparr>GetWorkerResponse_grpcAddress := v\<rparr>)"
  "switch_GetWorkerResponse W 16 m = arm_read (r_uint32 W) (\<lambda>v. m\<lparr>GetWorkerResponse_shardId := num_of_nat (unat v)\<rparr>)"
  "switch_GetWorkerResponse W 24 m = arm_read (r_uint64 W) (\<lambda>v. m\<lparr>GetWorkerResponse_shardEpoch := show_nat (unat v)\<rparr>)"
  "switch_GetWorkerResponse W 32 m = arm_read (r_int64 W) (\<lambda>v. m\<lparr>GetWorkerResponse_leaseExpiryUnixMs := show_int (sint v)\<rparr>)"
  by (simp_all add: switch_GetWorkerResponse_def fun_eq_iff)

definition wf_RegisterWorkerRequest :: "RegisterWorkerRequest \<Rightarrow> bool" where
  "wf_RegisterWorkerRequest m \<longleftrightarrow> int64_string (RegisterWorkerRequest_timestamp m) \<and> int64_string (RegisterWorkerRequest_memoryBytes m) \<and> int64_string (RegisterWorkerRequest_diskBytes m)"

lemma foldl_RegisterWorkerRequest_capabilities:
  "foldl (\<lambda>y v. y\<lparr>RegisterWorkerRequest_capabilities := RegisterWorkerRequest_capabilities y @ [h v]\<rparr>) m vs = m\<lparr>RegisterWorkerRequest_capabilities := RegisterWorkerRequest_capabilities m @ map h vs\<rparr>"
  by (induction vs arbitrary: m) simp_all

lemma switch_RegisterWorkerRequest_arms:
  "switch_RegisterWorkerRequest W 10 m = arm_read (r_string W) (\<lambda>v. m\<lparr>RegisterWorkerRequest_grpcAddress := v\<rparr>)"
  "switch_RegisterWorkerRequest W 18 m = arm_read (r_string W) (\<lambda>v. m\<lparr>RegisterWorkerRequest_raftAddress := v\<rparr>)"
  "switch_RegisterWorkerRequest W 26 m = arm_read (r_string W) (\<lambda>v. m\<lparr>RegisterWorkerRequest_capabilities := RegisterWorkerRequest_capabilities m @ [v]\<rparr>)"
  "switch_RegisterWorkerRequest W 32 m = arm_read (r_int64 W) (\<lambda>v. m\<lparr>RegisterWorkerRequest_timestamp := show_int (sint v)\<rparr>)"
  "switch_RegisterWorkerRequest W 40 m = arm_read (r_int32 W) (\<lambda>v. m\<lparr>RegisterWorkerRequest_cpuCores := num_of_int (sint v)\<rparr>)"
  "switch_RegisterWorkerRequest W 48 m = arm_read (r_int64 W) (\<lambda>v. m\<lparr>RegisterWorkerRequest_memoryBytes := show_int (sint v)\<rparr>)"
  "switch_RegisterWorkerRequest W 56 m = arm_read (r_int64 W) (\<lambda>v. m\<lparr>RegisterWorkerRequest_diskBytes := show_int (sint v)\<rparr>)"
  "switch_RegisterWorkerRequest W 66 m = arm_read (r_string W) (\<lambda>v. m\<lparr>RegisterWorkerRequest_rack := v\<rparr>)"
  "switch_RegisterWorkerRequest W 74 m = arm_read (r_string W) (\<lambda>v. m\<lparr>RegisterWorkerRequest_zone := v\<rparr>)"
  "switch_RegisterWorkerRequest W 82 m = arm_read (r_string W) (\<lambda>v. m\<lparr>RegisterWorkerRequest_region := v\<rparr>)"
  by (simp_all add: switch_RegisterWorkerRequest_def fun_eq_iff)

lemma switch_RegisterWorkerResponse_arms:
  "switch_RegisterWorkerResponse W 10 m = arm_read (r_string W) (\<lambda>v. m\<lparr>RegisterWorkerResponse_workerId := v\<rparr>)"
  "switch_RegisterWorkerResponse W 16 m = arm_read (r_bool W) (\<lambda>v. m\<lparr>RegisterWorkerResponse_success := v\<rparr>)"
  by (simp_all add: switch_RegisterWorkerResponse_def fun_eq_iff)

definition wf_ShardLeaderInfo :: "ShardLeaderInfo \<Rightarrow> bool" where
  "wf_ShardLeaderInfo m \<longleftrightarrow> uint64_string (ShardLeaderInfo_shardId m) \<and> uint64_string (ShardLeaderInfo_leaderId m)"

lemma switch_ShardLeaderInfo_arms:
  "switch_ShardLeaderInfo W 8 m = arm_read (r_uint64 W) (\<lambda>v. m\<lparr>ShardLeaderInfo_shardId := show_nat (unat v)\<rparr>)"
  "switch_ShardLeaderInfo W 16 m = arm_read (r_uint64 W) (\<lambda>v. m\<lparr>ShardLeaderInfo_leaderId := show_nat (unat v)\<rparr>)"
  by (simp_all add: switch_ShardLeaderInfo_def fun_eq_iff)

definition wf_ShardMembershipInfo :: "ShardMembershipInfo \<Rightarrow> bool" where
  "wf_ShardMembershipInfo m \<longleftrightarrow> uint64_string (ShardMembershipInfo_shardId m) \<and> uint64_string (ShardMembershipInfo_configChangeId m) \<and> (\<forall>s \<in> set (ShardMembershipInfo_nodeIds m). uint64_string s)"

lemma switch_ShardMembershipInfo_arms:
  "switch_ShardMembershipInfo W 8 m = arm_read (r_uint64 W) (\<lambda>v. m\<lparr>ShardMembershipInfo_shardId := show_nat (unat v)\<rparr>)"
  "switch_ShardMembershipInfo W 16 m = arm_read (r_uint64 W) (\<lambda>v. m\<lparr>ShardMembershipInfo_configChangeId := show_nat (unat v)\<rparr>)"
  "switch_ShardMembershipInfo W 24 m = arm_read (r_uint64 W) (\<lambda>v. m\<lparr>ShardMembershipInfo_nodeIds := ShardMembershipInfo_nodeIds m @ [show_nat (unat v)]\<rparr>)"
  "switch_ShardMembershipInfo W 26 m = arm_packed W (r_uint64 W) (\<lambda>vs. m\<lparr>ShardMembershipInfo_nodeIds := ShardMembershipInfo_nodeIds m @ map (\<lambda>v. show_nat (unat v)) vs\<rparr>)"
  by (simp_all add: switch_ShardMembershipInfo_def fun_eq_iff)

definition wf_ShardProgressInfo :: "ShardProgressInfo \<Rightarrow> bool" where
  "wf_ShardProgressInfo m \<longleftrightarrow> uint64_string (ShardProgressInfo_shardId m) \<and> uint64_string (ShardProgressInfo_appliedIndex m) \<and> uint64_string (ShardProgressInfo_shardEpoch m)"

lemma switch_ShardProgressInfo_arms:
  "switch_ShardProgressInfo W 8 m = arm_read (r_uint64 W) (\<lambda>v. m\<lparr>ShardProgressInfo_shardId := show_nat (unat v)\<rparr>)"
  "switch_ShardProgressInfo W 16 m = arm_read (r_uint64 W) (\<lambda>v. m\<lparr>ShardProgressInfo_appliedIndex := show_nat (unat v)\<rparr>)"
  "switch_ShardProgressInfo W 24 m = arm_read (r_uint64 W) (\<lambda>v. m\<lparr>ShardProgressInfo_shardEpoch := show_nat (unat v)\<rparr>)"
  by (simp_all add: switch_ShardProgressInfo_def fun_eq_iff)

definition wf_ShardLeaderTransferAck :: "ShardLeaderTransferAck \<Rightarrow> bool" where
  "wf_ShardLeaderTransferAck m \<longleftrightarrow> uint64_string (ShardLeaderTransferAck_shardId m) \<and> uint64_string (ShardLeaderTransferAck_fromNodeId m) \<and> uint64_string (ShardLeaderTransferAck_toNodeId m) \<and> uint64_string (ShardLeaderTransferAck_shardEpoch m) \<and> int64_string (ShardLeaderTransferAck_timestampUnixMs m)"

lemma switch_ShardLeaderTransferAck_arms:
  "switch_ShardLeaderTransferAck W 8 m = arm_read (r_uint64 W) (\<lambda>v. m\<lparr>ShardLeaderTransferAck_shardId := show_nat (unat v)\<rparr>)"
  "switch_ShardLeaderTransferAck W 16 m = arm_read (r_uint64 W) (\<lambda>v. m\<lparr>ShardLeaderTransferAck_fromNodeId := show_nat (unat v)\<rparr>)"
  "switch_ShardLeaderTransferAck W 24 m = arm_read (r_uint64 W) (\<lambda>v. m\<lparr>ShardLeaderTransferAck_toNodeId := show_nat (unat v)\<rparr>)"
  "switch_ShardLeaderTransferAck W 32 m = arm_read (r_uint64 W) (\<lambda>v. m\<lparr>ShardLeaderTransferAck_shardEpoch := show_nat (unat v)\<rparr>)"
  "switch_ShardLeaderTransferAck W 40 m = arm_read (r_int64 W) (\<lambda>v. m\<lparr>ShardLeaderTransferAck_timestampUnixMs := show_int (sint v)\<rparr>)"
  by (simp_all add: switch_ShardLeaderTransferAck_def fun_eq_iff)

definition rounded_ShardMetrics :: "(js_num \<Rightarrow> js_num) \<Rightarrow> ShardMetrics \<Rightarrow> ShardMetrics" where
  "rounded_ShardMetrics fround m = m\<lparr>ShardMetrics_queriesPerSecond := fround (ShardMetrics_queriesPerSecond m), ShardMetrics_avgLatencyMs := fround (ShardMetrics_avgLatencyMs m)\<rparr>"

definition wf_ShardMetrics :: "ShardMetrics \<Rightarrow> bool" where
  "wf_ShardMetrics m \<longleftrightarrow> uint64_string (ShardMetrics_shardId m) \<and> int64_string (ShardMetrics_vectorCount m)"

lemma switch_ShardMetrics_arms:
  "switch_ShardMetrics W 8 m = arm_read (r_uint64 W) (\<lambda>v. m\<lparr>ShardMetrics_shardId := show_nat (unat v)\<rparr>)"
  "switch_ShardMetrics W 21 m = arm_read (r_float W) (\<lambda>v. m\<lparr>ShardMetrics_queriesPerSecond := v\<rparr>)"
  "switch_ShardMetrics W 24 m = arm_read (r_int64 W) (\<lambda>v. m\<lparr>ShardMetrics_vectorCount := show_int (sint v)\<rparr>)"
  "switch_ShardMetrics W 37 m = arm_read (r_float W) (\<lambda>v. m\<lparr>ShardMetrics_avgLatencyMs := v\<rparr>)"
  by (simp_all add: switch_ShardMetrics_def fun_eq_iff)

definition rounded_HeartbeatRequest :: "(js_num \<Rightarrow> js_num) \<Rightarrow> HeartbeatRequest \<Rightarrow> HeartbeatRequest" where
  "rounded_HeartbeatRequest fround m = m\<lparr>HeartbeatRequest_cpuUsagePercent := fround (HeartbeatRequest_cpuUsagePercent m), HeartbeatRequest_memoryUsagePercent := fround (HeartbeatRequest_memoryUsagePercent m), HeartbeatRequest_diskUsagePercent := fround (HeartbeatRequest_diskUsagePercent m), HeartbeatRequest_queriesPerSecond := fround (HeartbeatRequest_queriesPerSecond m), HeartbeatRequest_shardMetrics := map (rounded_ShardMetrics fround) (HeartbeatRequest_shardMetrics m)\<rparr>"

definition wf_HeartbeatRequest :: "HeartbeatRequest \<Rightarrow> bool" where
  "wf_HeartbeatRequest m \<longleftrightarrow> int64_string (HeartbeatRequest_timestamp m) \<and> int64_string (HeartbeatRequest_vectorCount m) \<and> int64_string (HeartbeatRequest_memoryBytes m) \<and> (\<forall>v \<in> set (HeartbeatRequest_shardLeaderInfo m). wf_ShardLeaderInfo v) \<and> int64_string (HeartbeatRequest_activeShards m) \<and> (\<forall>v \<in> set (HeartbeatRequest_shardMetrics m). wf_ShardMetrics v) \<and> (\<forall>s \<in> set (HeartbeatRequest_runningShards m). uint64_string s) \<and> (\<forall>v \<in> set (HeartbeatRequest_shardMembership m). wf_ShardMembershipInfo v) \<and> (\<forall>v \<in> set (HeartbeatRequest_shardProgress m). wf_ShardProgressInfo v) \<and> (\<forall>v \<in> set (HeartbeatRequest_leaderTransferAcks m). wf_ShardLeaderTransferAck v)"

lemma foldl_HeartbeatRequest_shardLeaderInfo:
  "foldl (\<lambda>y v. y\<lparr>HeartbeatRequest_shardLeaderInfo := HeartbeatRequest_shardLeaderInfo y @ [h v]\<rparr>) m vs = m\<lparr>HeartbeatRequest_shardLeaderInfo := HeartbeatRequest_shardLeaderInfo m @ map h vs\<rparr>"
  by (induction vs arbitrary: m) simp_all

lemma foldl_HeartbeatRequest_shardMetrics:
  "foldl (\<lambda>y v. y\<lparr>HeartbeatRequest_shardMetrics := HeartbeatRequest_shardMetrics y @ [h v]\<rparr>) m vs = m\<lparr>HeartbeatRequest_shardMetrics := HeartbeatRequest_shardMetrics m @ map h vs\<rparr>"
  by (induction vs arbitrary: m) simp_all

lemma foldl_HeartbeatRequest_shardMembership:
  "foldl (\<lambda>y v. y\<lparr>HeartbeatRequest_shardMembership := HeartbeatRequest_shardMembership y @ [h v]\<rparr>) m vs = m\<lparr>HeartbeatRequest_shardMembership := HeartbeatRequest_shardMembership m @ map h vs\<rparr>"
  by (induction vs arbitrary: m) simp_all

lemma foldl_HeartbeatRequest_shardProgress:
  "foldl (\<lambda>y v. y\<lparr>HeartbeatRequest_shardProgress := HeartbeatRequest_shardProgress y @ [h v]\<rparr>) m vs = m\<lparr>HeartbeatRequest_shardProgress := HeartbeatRequest_shardProgress m @ map h vs\<rparr>"
  by (induction vs arbitrary: m) simp_all

lemma foldl_HeartbeatRequest_leaderTransferAcks:
  "foldl (\<lambda>y v. y\<lparr>HeartbeatRequest_leaderTransferAcks := HeartbeatRequest_leaderTransferAcks y @ [h v]\<rparr>) m vs = m\<lparr>HeartbeatRequest_leaderTransferAcks := HeartbeatRequest_leaderTransferAcks m @ map h vs\<rparr>"
  by (induction vs arbitrary: m) simp_all

lemma switch_HeartbeatRequest_arms:
  "switch_HeartbeatRequest W 10 m = arm_read (r_string W) (\<lambda>v. m\<lparr>HeartbeatRequest_workerId := v\<rparr>)"
  "switch_HeartbeatRequest W 16 m = arm_read (r_int64 W) (\<lambda>v. m\<lparr>HeartbeatRequest_timestamp := show_int (sint v)\<rparr>)"
  "switch_HeartbeatRequest W 24 m = arm_read (r_int64 W) (\<lambda>v. m\<lparr>HeartbeatRequest_vectorCount := show_int (sint v)\<rparr>)"
  "switch_HeartbeatRequest W 32 m = arm_read (r_int64 W) (\<lambda>v. m\<lparr>HeartbeatRequest_memoryBytes := show_int (sint v)\<rparr>)"
  "switch_HeartbeatRequest W 42 m = arm_sub W (decode_with W (switch_ShardLeaderInfo W) createBaseShardLeaderInfo) (\<lambda>v. m\<lparr>HeartbeatRequest_shardLeaderInfo := HeartbeatRequest_shardLeaderInfo m @ [v]\<rparr>)"
  "switch_HeartbeatRequest W 53 m = arm_read (r_float W) (\<lambda>v. m\<lparr>HeartbeatRequest_cpuUsagePercent := v\<rparr>)"
  "switch_HeartbeatRequest W 61 m = arm_read (r_float W) (\<lambda>v. m\<lparr>HeartbeatRequest_memoryUsagePercent := v\<rparr>)"
  "switch_HeartbeatRequest W 69 m = arm_read (r_float W) (\<lambda>v. m\<lparr>HeartbeatRequest_diskUsagePercent := v\<rparr>)"
  "switch_HeartbeatRequest W 77 m = arm_read (r_float W) (\<lambda>v. m\<lparr>HeartbeatRequest_queriesPerSecond := v\<rparr>)"
  "switch_HeartbeatRequest W 80 m = arm_read (r_int64 W) (\<lambda>v. m\<lparr>HeartbeatRequest_activeShards := show_int (sint v)\<rparr>)"
  "switch_HeartbeatRequest W 90 m = arm_sub W (decode_with W (switch_ShardMetrics W) createBaseShardMetrics) (\<lambda>v. m\<lparr>HeartbeatRequest_shardMetrics := HeartbeatRequest_shardMetrics m @ [v]\<rparr>)"
  "switch_HeartbeatRequest W 96 m = arm_read (r_uint64 W) (\<lambda>v. m\<lparr>HeartbeatRequest_runningShards := HeartbeatRequest_runningShards m @ [show_nat (unat v)]\<rparr>)"
  "switch_HeartbeatRequest W 98 m = arm_packed W (r_uint64 W) (\<lambda>vs. m\<lparr>HeartbeatRequest_runningShards := HeartbeatRequest_runningShards m @ map (\<lambda>v. show_nat (unat v)) vs\<rparr>)"
  "switch_HeartbeatRequest W 106 m = arm_sub W (decode_with W (switch_ShardMembershipInfo W) createBaseShardMembershipInfo) (\<lambda>v. m\<lparr>HeartbeatRequest_shardMembership := HeartbeatRequest_shardMembership m @ [v]\<rparr>)"
  "switch_HeartbeatRequest W 114 m = arm_sub W (decode_with W (switch_ShardProgressInfo W) createBaseShardProgressInfo) (\<lambda>v. m\<lparr>HeartbeatRequest_shardProgress := HeartbeatRequest_shardProgress m @ [v]\<rparr>)"
  "switch_HeartbeatRequest W 122 m = arm_sub W (decode_with W (switch_ShardLeaderTransferAck W) createBaseShardLeaderTransferAck) (\<lambda>v. m\<lparr>HeartbeatRequest_leaderTransferAcks := HeartbeatRequest_leaderTransferAcks m @ [v]\<rparr>)"
  by (simp_all add: switch_HeartbeatRequest_def fun_eq_iff decode_ShardLeaderInfo_def decode_ShardLeaderTransferAck_def decode_ShardMembershipInfo_def decode_ShardMetrics_def decode_ShardProgressInfo_def)

definition wf_HeartbeatResponse :: "HeartbeatResponse \<Rightarrow> bool" where
  "wf_HeartbeatResponse m \<longleftrightarrow> uint64_string (HeartbeatResponse_assignmentsEpoch m)"

lemma switch_HeartbeatResponse_arms:
  "switch_HeartbeatResponse W 8 m = arm_read (r_bool W) (\<lambda>v. m\<lparr>HeartbeatResponse_ok := v\<rparr>)"
  "switch_HeartbeatResponse W 18 m = arm_read (r_string W) (\<lambda>v. m\<lparr>HeartbeatResponse_message := v\<rparr>)"
  "switch_HeartbeatResponse W 24 m = arm_read (r_uint64 W) (\<lambda>v. m\<lparr>HeartbeatResponse_assignmentsEpoch := show_nat (unat v)\<rparr>)"
  by (simp_all add: switch_HeartbeatResponse_def fun_eq_iff)

lemma switch_WorkerInfo_MetadataEntry_arms:
  "switch_WorkerInfo_MetadataEntry W 10 m = arm_read (r_string W) (\<lambda>v. m\<lparr>WorkerInfo_MetadataEntry_key := v\<rparr>)"
  "switch_WorkerInfo_MetadataEntry W 18 m = arm_read (r_string W) (\<lambda>v. m\<lparr>WorkerInfo_MetadataEntry_value := v\<rparr>)"
  by (simp_all add: switch_WorkerInfo_MetadataEntry_def fun_eq_iff)

definition wf_WorkerInfo :: "WorkerInfo \<Rightarrow> bool" where
  "wf_WorkerInfo m \<longleftrightarrow> int64_string (WorkerInfo_lastHeartbeat m) \<and> js_obj_ok (WorkerInfo_metadata m)"

lemma foldl_WorkerInfo_collections:
  "foldl (\<lambda>y v. y\<lparr>WorkerInfo_collections := WorkerInfo_collections y @ [h v]\<rparr>) m vs = m\<lparr>WorkerInfo_collections := WorkerInfo_collections m @ map h vs\<rparr>"
  by (induction vs arbitrary: m) simp_all

lemma foldl_WorkerInfo_metadata:
  "foldl (\<lambda>y (k, v). y\<lparr>WorkerInfo_metadata := js_set k v (WorkerInfo_metadata y)\<rparr>) m es
     = m\<lparr>WorkerInfo_metadata := foldl (\<lambda>o' (k, v). js_set k v o') (WorkerInfo_metadata m) es\<rparr>"
  by (induction es arbitrary: m) (simp_all add: split_beta)

lemma switch_WorkerInfo_arms:
  "switch_WorkerInfo W 10 m = arm_read (r_string W) (\<lambda>v. m\<lparr>WorkerInfo_workerId := v\<rparr>)"
  "switch_WorkerInfo W 18 m = arm_read (r_string W) (\<lambda>v. m\<lparr>WorkerInfo_grpcAddress := v\<rparr>)"
  "switch_WorkerInfo W 26 m = arm_read (r_string W) (\<lambda>v. m\<lparr>WorkerInfo_raftAddress := v\<rparr>)"
  "switch_WorkerInfo W 34 m = arm_read (r_string W) (\<lambda>v. m\<lparr>WorkerInfo_collections := WorkerInfo_collections m @ [v]\<rparr>)"
  "switch_WorkerInfo W 40 m = arm_read (r_int64 W) (\<lambda>v. m\<lparr>WorkerInfo_lastHeartbeat := show_int (sint v)\<rparr>)"
  "switch_WorkerInfo W 48 m = arm_read (r_bool W) (\<lambda>v. m\<lparr>WorkerInfo_healthy := v\<rparr>)"
  "switch_WorkerInfo W 58 m = arm_sub W (decode_with W (switch_WorkerInfo_MetadataEntry W) createBaseWorkerInfo_MetadataEntry)
          (\<lambda>e. m\<lparr>WorkerInfo_metadata := js_set (WorkerInfo_MetadataEntry_key e) (WorkerInfo_MetadataEntry_value e) (WorkerInfo_metadata m)\<rparr>)"
  "switch_WorkerInfo W 64 m = arm_read (r_int32 W) (\<lambda>v. m\<lparr>WorkerInfo_state := num_of_int (sint v)\<rparr>)"
  by (simp_all add: switch_WorkerInfo_def fun_eq_iff decode_WorkerInfo_MetadataEntry_def)

definition wf_ListWorkersResponse :: "ListWorkersResponse \<Rightarrow> bool" where
  "wf_ListWorkersResponse m \<longleftrightarrow> (\<forall>v \<in> set (ListWorkersResponse_workers m). wf_WorkerInfo v)"

lemma foldl_ListWorkersResponse_workers:
  "foldl (\<lambda>y v. y\<lparr>ListWorkersResponse_workers := ListWorkersResponse_workers y @ [h v]\<rparr>) m vs = m\<lparr>ListWorkersResponse_workers := ListWorkersResponse_workers m @ map h vs\<rparr>"
  by (induction vs arbitrary: m) simp_all

lemma switch_ListWorkersResponse_arms:
  "switch_ListWorkersResponse W 10 m = arm_sub W (decode_with W (switch_WorkerInfo W) createBaseWorkerInfo) (\<lambda>v. m\<lparr>ListWorkersResponse_workers := ListWorkersResponse_workers m @ [v]\<rparr>)"
  by (simp_all add: switch_ListWorkersResponse_def fun_eq_iff decode_WorkerInfo_def)

definition wf_RegisterRerankerRequest :: "RegisterRerankerRequest \<Rightarrow> bool" where
  "wf_RegisterRerankerRequest m \<longleftrightarrow> int64_string (RegisterRerankerRequest_timestamp m) \<and> int64_string (RegisterRerankerRequest_memoryBytes m) \<and> int64_string (RegisterRerankerRequest_diskBytes m)"

lemma foldl_RegisterRerankerRequest_capabilities:
  "foldl (\<lambda>y v. y\<lparr>RegisterRerankerRequest_capabilities := RegisterRerankerRequest_capabilities y @ [h v]\<rparr>) m vs = m\<lparr>RegisterRerankerRequest_capabilities := RegisterRerankerRequest_capabilities m @ map h vs\<rparr>"
  by (induction vs arbitrary: m) simp_all

lemma switch_RegisterRerankerRequest_arms:
  "switch_RegisterRerankerRequest W 10 m = arm_read (r_string W) (\<lambda>v. m\<lparr>RegisterRerankerRequest_grpcAddress := v\<rparr>)"
  "switch_RegisterRerankerRequest W 18 m = arm_read (r_string W) (\<lambda>v. m\<lparr>RegisterRerankerRequest_capabilities := RegisterRerankerRequest_capabilities m @ [v]\<rparr>)"
  "switch_RegisterRerankerRequest W 24 m = arm_read (r_int64 W) (\<lambda>v. m\<lparr>RegisterRerankerRequest_timestamp := show_int (sint v)\<rparr>)"
  "switch_RegisterRerankerRequest W 32 m = arm_read (r_int32 W) (\<lambda>v. m\<lparr>RegisterRerankerRequest_cpuCores := num_of_int (sint v)\<rparr>)"
  "switch_RegisterRerankerRequest W 40 m = arm_read (r_int64 W) (\<lambda>v. m\<lparr>RegisterRerankerRequest_memoryBytes := show_int (sint v)\<rparr>)"
  "switch_RegisterRerankerRequest W 48 m = arm_read (r_int64 W) (\<lambda>v. m\<lparr>RegisterRerankerRequest_diskBytes := show_int (sint v)\<rparr>)"
  "switch_RegisterRerankerRequest W 58 m = arm_read (r_string W) (\<lambda>v. m\<lparr>RegisterRerankerRequest_rack := v\<rparr>)"
  "switch_RegisterRerankerRequest W 66 m = arm_read (r_string W) (\<lambda>v. m\<lparr>RegisterRerankerRequest_zone := v\<rparr>)"
  "switch_RegisterRerankerRequest W 74 m = arm_read (r_string W) (\<lambda>v. m\<lparr>RegisterRerankerRequest_region := v\<rparr>)"
  by (simp_all add: switch_RegisterRerankerRequest_def fun_eq_iff)

lemma switch_RegisterRerankerResponse_arms:
  "switch_RegisterRerankerResponse W 10 m = arm_read (r_string W) (\<lambda>v. m\<lparr>RegisterRerankerResponse_rerankerId := v\<rparr>)"
  "switch_RegisterRerankerResponse W 16 m = arm_read (r_bool W) (\<lambda>v. m\<lparr>RegisterRerankerResponse_success := v\<rparr>)"
  by (simp_all add: switch_RegisterRerankerResponse_def fun_eq_iff)

definition rounded_RerankerHeartbeatRequest :: "(js_num \<Rightarrow> js_num) \<Rightarrow> RerankerHeartbeatRequest \<Rightarrow> RerankerHeartbeatRequest" where
  "rounded_RerankerHeartbeatRequest fround m = m\<lparr>RerankerHeartbeatRequest_cpuUsagePercent := fround (RerankerHeartbeatRequest_cpuUsagePercent m), RerankerHeartbeatRequest_memoryUsagePercent := fround (RerankerHeartbeatRequest_memoryUsagePercent m), RerankerHeartbeatRequest_diskUsagePercent := fround (RerankerHeartbeatRequest_diskUsagePercent m), RerankerHeartbeatRequest_queriesPerSecond := fround (RerankerHeartbeatRequest_queriesPerSecond m)\<rparr>"

definition wf_RerankerHeartbeatRequest :: "RerankerHeartbeatRequest \<Rightarrow> bool" where
  "wf_RerankerHeartbeatRequest m \<longleftrightarrow> int64_string (RerankerHeartbeatRequest_timestamp m)"

lemma switch_RerankerHeartbeatRequest_arms:
  "switch_RerankerHeartbeatRequest W 10 m = arm_read (r_string W) (\<lambda>v. m\<lparr>RerankerHeartbeatRequest_rerankerId := v\<rparr>)"
  "switch_RerankerHeartbeatRequest W 16 m = arm_read (r_int64 W) (\<lambda>v. m\<lparr>RerankerHeartbeatRequest_timestamp := show_int (sint v)\<rparr>)"
  "switch_RerankerHeartbeatRequest W 29 m = arm_read (r_float W) (\<lambda>v. m\<lparr>RerankerHeartbeatRequest_cpuUsagePercent := v\<rparr>)"
  "switch_RerankerHeartbeatRequest W 37 m = arm_read (r_float W) (\<lambda>v. m\<lparr>RerankerHeartbeatRequest_memoryUsagePercent := v\<rparr>)"
  "switch_RerankerHeartbeatRequest W 45 m = arm_read (r_float W) (\<lambda>v. m\<lparr>RerankerHeartbeatRequest_diskUsagePercent := v\<rparr>)"
  "switch_RerankerHeartbeatRequest W 53 m = arm_read (r_float W) (\<lambda>v. m\<lparr>RerankerHeartbeatRequest_queriesPerSecond := v\<rparr>)"
  by (simp_all add: switch_RerankerHeartbeatRequest_def fun_eq_iff)

lemma switch_RerankerHeartbeatResponse_arms:
  "switch_RerankerHeartbeatResponse W 8 m = arm_read (r_bool W) (\<lambda>v. m\<lparr>RerankerHeartbeatResponse_ok := v\<rparr>)"
  "switch_RerankerHeartbeatResponse W 18 m = arm_read (r_string W) (\<lambda>v. m\<lparr>RerankerHeartbeatResponse_message := v\<rparr>)"
  by (simp_all add: switch_RerankerHeartbeatResponse_def fun_eq_iff)

lemma switch_RerankerInfo_MetadataEntry_arms:
  "switch_RerankerInfo_MetadataEntry W 10 m = arm_read (r_string W) (\<lambda>v. m\<lparr>RerankerInfo_MetadataEntry_key := v\<rparr>)"
  "switch_RerankerInfo_MetadataEntry W 18 m = arm_read (r_string W) (\<lambda>v. m\<lparr>RerankerInfo_MetadataEntry_value := v\<rparr>)"
  by (simp_all add: switch_RerankerInfo_MetadataEntry_def fun_eq_iff)

definition wf_RerankerInfo :: "RerankerInfo \<Rightarrow> bool" where
  "wf_RerankerInfo m \<longleftrightarrow> int64_string (RerankerInfo_lastHeartbeat m) \<and> js_obj_ok (RerankerInfo_metadata m)"

lemma foldl_RerankerInfo_metadata:
  "foldl (\<lambda>y (k, v). y\<lparr>RerankerInfo_metadata := js_set k v (RerankerInfo_metadata y)\<rparr>) m es
     = m\<lparr>RerankerInfo_metadata := foldl (\<lambda>o' (k, v). js_set k v o') (RerankerInfo_metadata m) es\<rparr>"
  by (induction es arbitrary: m) (simp_all add: split_beta)

lemma switch_RerankerInfo_arms:
  "switch_RerankerInfo W 10 m = arm_read (r_string W) (\<lambda>v. m\<lparr>RerankerInfo_rerankerId := v\<rparr>)"
  "switch_RerankerInfo W 18 m = arm_read (r_string W) (\<lambda>v. m\<lparr>RerankerInfo_grpcAddress := v\<rparr>)"
  "switch_RerankerInfo W 24 m = arm_read (r_int64 W) (\<lambda>v. m\<lparr>RerankerInfo_lastHeartbeat := show_int (sint v)\<rparr>)"
  "switch_RerankerInfo W 32 m = arm_read (r_bool W) (\<lambda>v. m\<lparr>RerankerInfo_healthy := v\<rparr>)"
  "switch_RerankerInfo W 42 m = arm_sub W (decode_with W (switch_RerankerInfo_MetadataEntry W) createBaseRerankerInfo_MetadataEntry)
          (\<lambda>e. m\<lparr>RerankerInfo_metadata := js_set (RerankerInfo_MetadataEntry_key e) (RerankerInfo_MetadataEntry_value e) (RerankerInfo_metadata m)\<rparr>)"
  by (simp_all add: switch_RerankerInfo_def fun_eq_iff decode_RerankerInfo_MetadataEntry_def)

definition wf_ListRerankersResponse :: "ListRerankersResponse \<Rightarrow> bool" where
  "wf_ListRerankersResponse m \<longleftrightarrow> (\<forall>v \<in> set (ListRerankersResponse_rerankers m). wf_RerankerInfo v)"

lemma foldl_ListRerankersResponse_rerankers:
  "foldl (\<lambda>y v. y\<lparr>ListRerankersResponse_rerankers := ListRerankersResponse_rerankers y @ [h v]\<rparr>) m vs = m\<lparr>ListRerankersResponse_rerankers := ListRerankersResponse_rerankers m @ map h vs\<rparr>"
  by (induction vs arbitrary: m) simp_all

lemma switch_ListRerankersResponse_arms:
  "switch_ListRerankersResponse W 10 m = arm_sub W (decode_with W (switch_RerankerInfo W) createBaseRerankerInfo) (\<lambda>v. m\<lparr>ListRerankersResponse_rerankers := ListRerankersResponse_rerankers m @ [v]\<rparr>)"
  by (simp_all add: switch_ListRerankersResponse_def fun_eq_iff decode_RerankerInfo_def)

lemma switch_GetRerankerResponse_arms:
  "switch_GetRerankerResponse W 10 m = arm_read (r_string W) (\<lambda>v. m\<lparr>GetRerankerResponse_rerankerId := v\<rparr>)"
  "switch_GetRerankerResponse W 18 m = arm_read (r_string W) (\<lambda>v. m\<lparr>GetRerankerResponse_grpcAddress := v\<rparr>)"
  by (simp_all add: switch_GetRerankerResponse_def fun_eq_iff)

lemma switch_ListWorkersForCollectionRequest_arms:
  "switch_ListWorkersForCollectionRequest W 10 m = arm_read (r_string W) (\<lambda>v. m\<lparr>ListWorkersForCollectionRequest_collection := v\<rparr>)"
  by (simp_all add: switch_ListWorkersForCollectionRequest_def fun_eq_iff)

lemma foldl_ListWorkersForCollectionResponse_grpcAddresses:
  "foldl (\<lambda>y v. y\<lparr>ListWorkersForCollectionResponse_grpcAddresses := ListWorkersForCollectionResponse_grpcAddresses y @ [h v]\<rparr>) m vs = m\<lparr>ListWorkersForCollectionResponse_grpcAddresses := ListWorkersForCollectionResponse_grpcAddresses m @ map h vs\<rparr>"
  by (induction vs arbitrary: m) simp_all

lemma switch_ListWorkersForCollectionResponse_arms:
  "switch_ListWorkersForCollectionResponse W 10 m = arm_read (r_string W) (\<lambda>v. m\<lparr>ListWorkersForCollectionResponse_grpcAddresses := ListWorkersForCollectionResponse_grpcAddresses m @ [v]\<rparr>)"
  by (simp_all add: switch_ListWorkersForCollectionResponse_def fun_eq_iff)

lemma switch_DrainWorkerRequest_arms:
  "switch_DrainWorkerRequest W 10 m = arm_read (r_string W) (\<lambda>v. m\<lparr>DrainWorkerRequest_workerId := v\<rparr>)"
  by (simp_all add: switch_DrainWorkerRequest_def fun_eq_iff)

lemma switch_DrainWorkerResponse_arms:
  "switch_DrainWorkerResponse W 8 m = arm_read (r_bool W) (\<lambda>v. m\<lparr>DrainWorkerResponse_success := v\<rparr>)"
  by (simp_all add: switch_DrainWorkerResponse_def fun_eq_iff)

lemma switch_RemoveWorkerRequest_arms:
  "switch_RemoveWorkerRequest W 10 m = arm_read (r_string W) (\<lambda>v. m\<lparr>RemoveWorkerRequest_workerId := v\<rparr>)"
  by (simp_all add: switch_RemoveWorkerRequest_def fun_eq_iff)

lemma switch_RemoveWorkerResponse_arms:
  "switch_RemoveWorkerResponse W 8 m = arm_read (r_bool W) (\<lambda>v. m\<lparr>RemoveWorkerResponse_success := v\<rparr>)"
  by (simp_all add: switch_RemoveWorkerResponse_def fun_eq_iff)

lemma switch_RebalanceResponse_arms:
  "switch_RebalanceResponse W 8 m = arm_read (r_bool W) (\<lambda>v. m\<lparr>RebalanceResponse_started := v\<rparr>)"
  by (simp_all add: switch_RebalanceResponse_def fun_eq_iff)

lemma switch_PdCreateCollectionRequest_arms:
  "switch_PdCreateCollectionRequest W 10 m = arm_read (r_string W) (\<lambda>v. m\<lparr>PdCreateCollectionRequest_name := v\<rparr>)"
  "switch_PdCreateCollectionRequest W 16 m = arm_read (r_int32 W) (\<lambda>v. m\<lparr>PdCreateCollectionRequest_dimension := num_of_int (sint v)\<rparr>)"
  "switch_PdCreateCollectionRequest W 26 m = arm_read (r_string W) (\<lambda>v. m\<lparr>PdCreateCollectionRequest_distance := v\<rparr>)"
  by (simp_all add: switch_PdCreateCollectionRequest_def fun_eq_iff)

lemma switch_PdCreateCollectionResponse_arms:
  "switch_PdCreateCollectionResponse W 8 m = arm_read (r_bool W) (\<lambda>v. m\<lparr>PdCreateCollectionResponse_success := v\<rparr>)"
  by (simp_all add: switch_PdCreateCollectionResponse_def fun_eq_iff)

lemma foldl_PdListCollectionsResponse_collections:
  "foldl (\<lambda>y v. y\<lparr>PdListCollectionsResponse_collections := PdListCollectionsResponse_collections y @ [h v]\<rparr>) m vs = m\<lparr>PdListCollectionsResponse_collections := PdListCollectionsResponse_collections m @ map h vs\<rparr>"
  by (induction vs arbitrary: m) simp_all

lemma switch_PdListCollectionsResponse_arms:
  "switch_PdListCollectionsResponse W 10 m = arm_read (r_string W) (\<lambda>v. m\<lparr>PdListCollectionsResponse_collections := PdListCollectionsResponse_collections m @ [v]\<rparr>)"
  by (simp_all add: switch_PdListCollectionsResponse_def fun_eq_iff)

lemma switch_PdDeleteCollectionRequest_arms:
  "switch_PdDeleteCollectionRequest W 10 m = arm_read (r_string W) (\<lambda>v. m\<lparr>PdDeleteCollectionRequest_name := v\<rparr>)"
  by (simp_all add: switch_PdDeleteCollectionRequest_def fun_eq_iff)

lemma switch_PdDeleteCollectionResponse_arms:
  "switch_PdDeleteCollectionResponse W 8 m = arm_read (r_bool W) (\<lambda>v. m\<lparr>PdDeleteCollectionResponse_success := v\<rparr>)"
  by (simp_all add: switch_PdDeleteCollectionResponse_def fun_eq_iff)

lemma switch_PdGetCollectionStatusRequest_arms:
  "switch_PdGetCollectionStatusRequest W 10 m = arm_read (r_string W) (\<lambda>v. m\<lparr>PdGetCollectionStatusRequest_name := v\<rparr>)"
  by (simp_all add: switch_PdGetCollectionStatusRequest_def fun_eq_iff)

definition wf_PdShardStatus :: "PdShardStatus \<Rightarrow> bool" where
  "wf_PdShardStatus m \<longleftrightarrow> (\<forall>s \<in> set (PdShardStatus_replicas m). uint64_string s) \<and> uint64_string (PdShardStatus_leaderId m) \<and> uint64_string (PdShardStatus_keyRangeStart m) \<and> uint64_string (PdShardStatus_keyRangeEnd m) \<and> uint64_string (PdShardStatus_shardEpoch m)"

lemma foldl_PdShardStatus_replicaGrpcAddresses:
  "foldl (\<lambda>y v. y\<lparr>PdShardStatus_replicaGrpcAddresses := PdShardStatus_replicaGrpcAddresses y @ [h v]\<rparr>) m vs = m\<lparr>PdShardStatus_replicaGrpcAddresses := PdShardStatus_replicaGrpcAddresses m @ map h vs\<rparr>"
  by (induction vs arbitrary: m) simp_all

lemma switch_PdShardStatus_arms:
  "switch_PdShardStatus W 8 m = arm_read (r_uint32 W) (\<lambda>v. m\<lparr>PdShardStatus_shardId := num_of_nat (unat v)\<rparr>)"
  "switch_PdShardStatus W 16 m = arm_read (r_uint64 W) (\<lambda>v. m\<lparr>PdShardStatus_replicas := PdShardStatus_replicas m @ [show_nat (unat v)]\<rparr>)"
  "switch_PdShardStatus W 18 m = arm_packed W (r_uint64 W) (\<lambda>vs. m\<lparr>PdShardStatus_replicas := PdShardStatus_replicas m @ map (\<lambda>v. show_nat (unat v)) vs\<rparr>)"
  "switch_PdShardStatus W 24 m = arm_read (r_uint64 W) (\<lambda>v. m\<lparr>PdShardStatus_leaderId := show_nat (unat v)\<rparr>)"
  "switch_PdShardStatus W 32 m = arm_read (r_bool W) (\<lambda>v. m\<lparr>PdShardStatus_ready := v\<rparr>)"
  "switch_PdShardStatus W 40 m = arm_read (r_uint64 W) (\<lambda>v. m\<lparr>PdShardStatus_keyRangeStart := show_nat (unat v)\<rparr>)"
  "switch_PdShardStatus W 48 m = arm_read (r_uint64 W) (\<lambda>v. m\<lparr>PdShardStatus_keyRangeEnd := show_nat (unat v)\<rparr>)"
  "switch_PdShardStatus W 56 m = arm_read (r_uint64 W) (\<lambda>v. m\<lparr>PdShardStatus_shardEpoch := show_nat (unat v)\<rparr>)"
  "switch_PdShardStatus W 66 m = arm_read (r_string W) (\<lambda>v. m\<lparr>PdShardStatus_leaderGrpcAddress := v\<rparr>)"
  "switch_PdShardStatus W 74 m = arm_read (r_string W) (\<lambda>v. m\<lparr>PdShardStatus_replicaGrpcAddresses := PdShardStatus_replicaGrpcAddresses m @ [v]\<rparr>)"
  by (simp_all add: switch_PdShardStatus_def fun_eq_iff)

definition wf_PdGetCollectionStatusResponse :: "PdGetCollectionStatusResponse \<Rightarrow> bool" where
  "wf_PdGetCollectionStatusResponse m \<longleftrightarrow> (\<forall>v \<in> set (PdGetCollectionStatusResponse_shards m). wf_PdShardStatus v)"

lemma foldl_PdGetCollectionStatusResponse_shards:
  "foldl (\<lambda>y v. y\<lparr>PdGetCollectionStatusResponse_shards := PdGetCollectionStatusResponse_shards y @ [h v]\<rparr>) m vs = m\<lparr>PdGetCollectionStatusResponse_shards := PdGetCollectionStatusResponse_shards m @ map h vs\<rparr>"
  by (induction vs arbitrary: m) simp_all

lemma switch_PdGetCollectionStatusResponse_arms:
  "switch_PdGetCollectionStatusResponse W 10 m = arm_read (r_string W) (\<lambda>v. m\<lparr>PdGetCollectionStatusResponse_name := v\<rparr>)"
  "switch_PdGetCollectionStatusResponse W 16 m = arm_read (r_int32 W) (\<lambda>v. m\<lparr>PdGetCollectionStatusResponse_dimension := num_of_int (sint v)\<rparr>)"
  "switch_PdGetCollectionStatusResponse W 26 m = arm_read (r_string W) (\<lambda>v. m\<lparr>PdGetCollectionStatusResponse_distance := v\<rparr>)"
  "switch_PdGetCollectionStatusResponse W 34 m = arm_sub W (decode_with W (switch_PdShardStatus W) createBasePdShardStatus) (\<lambda>v. m\<lparr>PdGetCollectionStatusResponse_shards := PdGetCollectionStatusResponse_shards m @ [v]\<rparr>)"
  by (simp_all add: switch_PdGetCollectionStatusResponse_def fun_eq_iff decode_PdShardStatus_def)

section \<open>Decoding returns well-formed messages\<close>

lemma decode_GetWorkerResponse_wf: "yields (decode_GetWorkerResponse W) wf_GetWorkerResponse"
  unfolding decode_GetWorkerResponse_def switch_GetWorkerResponse_def
  by (rule decode_with_yields, rule fld_keepsI)
     (rule if_keeps | rule arms_keep
       | (auto simp: wf_GetWorkerResponse_def createBaseGetWorkerResponse_def read_values) [1])+

lemma decode_RegisterWorkerRequest_wf: "yields (decode_RegisterWorkerRequest W) wf_RegisterWorkerRequest"
  unfolding decode_RegisterWorkerRequest_def switch_RegisterWorkerRequest_def
  by (rule decode_with_yields, rule fld_keepsI)
     (rule if_keeps | rule arms_keep
       | (auto simp: wf_RegisterWorkerRequest_def createBaseRegisterWorkerRequest_def read_values) [1])+

lemma decode_ShardLeaderInfo_wf: "yields (decode_ShardLeaderInfo W) wf_ShardLeaderInfo"
  unfolding decode_ShardLeaderInfo_def switch_ShardLeaderInfo_def
  by (rule decode_with_yields, rule fld_keepsI)
     (rule if_keeps | rule arms_keep
       | (auto simp: wf_ShardLeaderInfo_def createBaseShardLeaderInfo_def read_values) [1])+

lemma decode_ShardMembershipInfo_wf: "yields (decode_ShardMembershipInfo W) wf_ShardMembershipInfo"
  unfolding decode_ShardMembershipInfo_def switch_ShardMembershipInfo_def
  by (rule decode_with_yields, rule fld_keepsI)
     (rule if_keeps | rule arms_keep
       | (auto simp: wf_ShardMembershipInfo_def createBaseShardMembershipInfo_def read_values) [1])+

lemma decode_ShardProgressInfo_wf: "yields (decode_ShardProgressInfo W) wf_ShardProgressInfo"
  unfolding decode_ShardProgressInfo_def switch_ShardProgressInfo_def
  by (rule decode_with_yields, rule fld_keepsI)
     (rule if_keeps | rule arms_keep
       | (auto simp: wf_ShardProgressInfo_def createBaseShardProgressInfo_def read_values) [1])+

lemma decode_ShardLeaderTransferAck_wf: "yields (decode_ShardLeaderTransferAck W) wf_ShardLeaderTransferAck"
  unfolding decode_ShardLeaderTransferAck_def switch_ShardLeaderTransferAck_def
  by (rule decode_with_yields, rule fld_keepsI)
     (rule if_keeps | rule arms_keep
       | (auto simp: wf_ShardLeaderTransferAck_def createBaseShardLeaderTransferAck_def read_values) [1])+

lemma decode_ShardMetrics_wf: "yields (decode_ShardMetrics W) wf_ShardMetrics"
  unfolding decode_ShardMetrics_def switch_ShardMetrics_def
  by (rule decode_with_yields, rule fld_keepsI)
     (rule if_keeps | rule arms_keep
       | (auto simp: wf_ShardMetrics_def createBaseShardMetrics_def read_values) [1])+

lemma decode_HeartbeatRequest_wf: "yields (decode_HeartbeatRequest W) wf_HeartbeatRequest"
  unfolding decode_HeartbeatRequest_def switch_HeartbeatRequest_def
  by (rule decode_with_yields, rule fld_keepsI)
     (rule if_keeps | rule arm_sub_keeps [OF decode_ShardLeaderInfo_wf] | rule arm_sub_keeps [OF decode_ShardMetrics_wf] | rule arm_sub_keeps [OF decode_ShardMembershipInfo_wf] | rule arm_sub_keeps [OF decode_ShardProgressInfo_wf] | rule arm_sub_keeps [OF decode_ShardLeaderTransferAck_wf] | rule arms_keep
       | (auto simp: wf_HeartbeatRequest_def createBaseHeartbeatRequest_def read_values) [1])+

lemma decode_HeartbeatResponse_wf: "yields (decode_HeartbeatResponse W) wf_HeartbeatResponse"
  unfolding decode_HeartbeatResponse_def switch_HeartbeatResponse_def
  by (rule decode_with_yields, rule fld_keepsI)
     (rule if_keeps | rule arms_keep
       | (auto simp: wf_HeartbeatResponse_def createBaseHeartbeatResponse_def read_values) [1])+

lemma decode_WorkerInfo_wf: "yields (decode_WorkerInfo W) wf_WorkerInfo"
  unfolding decode_WorkerInfo_def switch_WorkerInfo_def
  by (rule decode_with_yields, rule fld_keepsI)
     (rule if_keeps | rule arms_keep
       | (auto simp: wf_WorkerInfo_def createBaseWorkerInfo_def read_values) [1])+

lemma decode_ListWorkersResponse_wf: "yields (decode_ListWorkersResponse W) wf_ListWorkersResponse"
  unfolding decode_ListWorkersResponse_def switch_ListWorkersResponse_def
  by (rule decode_with_yields, rule fld_keepsI)
     (rule if_keeps | rule arm_sub_keeps [OF decode_WorkerInfo_wf] | rule arms_keep
       | (auto simp: wf_ListWorkersResponse_def createBaseListWorkersResponse_def read_values) [1])+

lemma decode_RegisterRerankerRequest_wf: "yields (decode_RegisterRerankerRequest W) wf_RegisterRerankerRequest"
  unfolding decode_RegisterRerankerRequest_def switch_RegisterRerankerRequest_def
  by (rule decode_with_yields, rule fld_keepsI)
     (rule if_keeps | rule arms_keep
       | (auto simp: wf_RegisterRerankerRequest_def createBaseRegisterRerankerRequest_def read_values) [1])+

lemma decode_RerankerHeartbeatRequest_wf: "yields (decode_RerankerHeartbeatRequest W) wf_RerankerHeartbeatRequest"
  unfolding decode_RerankerHeartbeatRequest_def switch_RerankerHeartbeatRequest_def
  by (rule decode_with_yields, rule fld_keepsI)
     (rule if_keeps | rule arms_keep
       | (auto simp: wf_RerankerHeartbeatRequest_def createBaseRerankerHeartbeatRequest_def read_values) [1])+

lemma decode_RerankerInfo_wf: "yields (decode_RerankerInfo W) wf_RerankerInfo"
  unfolding decode_RerankerInfo_def switch_RerankerInfo_def
  by (rule decode_with_yields, rule fld_keepsI)
     (rule if_keeps | rule arms_keep
       | (auto simp: wf_RerankerInfo_def createBaseRerankerInfo_def read_values) [1])+

lemma decode_ListRerankersResponse_wf: "yields (decode_ListRerankersResponse W) wf_ListRerankersResponse"
  unfolding decode_ListRerankersResponse_def switch_ListRerankersResponse_def
  by (rule decode_with_yields, rule fld_keepsI)
     (rule if_keeps | rule arm_sub_keeps [OF decode_RerankerInfo_wf] | rule arms_keep
       | (auto simp: wf_ListRerankersResponse_def createBaseListRerankersResponse_def read_values) [1])+

lemma decode_PdShardStatus_wf: "yields (decode_PdShardStatus W) wf_PdShardStatus"
  unfolding decode_PdShardStatus_def switch_PdShardStatus_def
  by (rule decode_with_yields, rule fld_keepsI)
     (rule if_keeps | rule arms_keep
       | (auto simp: wf_PdShardStatus_def createBasePdShardStatus_def read_values) [1])+

lemma decode_PdGetCollectionStatusResponse_wf: "yields (decode_PdGetCollectionStatusResponse W) wf_PdGetCollectionStatusResponse"
  unfolding decode_PdGetCollectionStatusResponse_def switch_PdGetCollectionStatusResponse_def
  by (rule decode_with_yields, rule fld_keepsI)
     (rule if_keeps | rule arm_sub_keeps [OF decode_PdShardStatus_wf] | rule arms_keep
       | (auto simp: wf_PdGetCollectionStatusResponse_def createBasePdGetCollectionStatusResponse_def read_values) [1])+

section \<open>Decoding ends on every input\<close>

context wire_reader
begin

lemma GetLeaderRequest_total: "dec_total W buf (decode_GetLeaderRequest W)"
  unfolding decode_GetLeaderRequest_def
  by (intro decode_with_total) (auto simp: fld_total_def switch_GetLeaderRequest_def simp del: arm_total.simps(2) intro: arms_total)

lemma GetLeaderResponse_total: "dec_total W buf (decode_GetLeaderResponse W)"
  unfolding decode_GetLeaderResponse_def
  by (intro decode_with_total) (auto simp: fld_total_def switch_GetLeaderResponse_def simp del: arm_total.simps(2) intro: arms_total)

lemma GetWorkerRequest_total: "dec_total W buf (decode_GetWorkerRequest W)"
  unfolding decode_GetWorkerRequest_def
  by (intro decode_with_total) (auto simp: fld_total_def switch_GetWorkerRequest_def simp del: arm_total.simps(2) intro: arms_total)

lemma GetWorkerResponse_total: "dec_total W buf (decode_GetWorkerResponse W)"
  unfolding decode_GetWorkerResponse_def
  by (intro decode_with_total) (auto simp: fld_total_def switch_GetWorkerResponse_def simp del: arm_total.simps(2) intro: arms_total)

lemma RegisterWorkerRequest_total: "dec_total W buf (decode_RegisterWorkerRequest W)"
  unfolding decode_RegisterWorkerRequest_def
  by (intro decode_with_total) (auto simp: fld_total_def switch_RegisterWorkerRequest_def simp del: arm_total.simps(2) intro: arms_total)

lemma RegisterWorkerResponse_total: "dec_total W buf (decode_RegisterWorkerResponse W)"
  unfolding decode_RegisterWorkerResponse_def
  by (intro decode_with_total) (auto simp: fld_total_def switch_RegisterWorkerResponse_def simp del: arm_total.simps(2) intro: arms_total)

lemma ShardLeaderInfo_total: "dec_total W buf (decode_ShardLeaderInfo W)"
  unfolding decode_ShardLeaderInfo_def
  by (intro decode_with_total) (auto simp: fld_total_def switch_ShardLeaderInfo_def simp del: arm_total.simps(2) intro: arms_total)

lemma ShardMembershipInfo_total: "dec_total W buf (decode_ShardMembershipInfo W)"
  unfolding decode_ShardMembershipInfo_def
  by (intro decode_with_total) (auto simp: fld_total_def switch_ShardMembershipInfo_def simp del: arm_total.simps(2) intro: arms_total)

lemma ShardProgressInfo_total: "dec_total W buf (decode_ShardProgressInfo W)"
  unfolding decode_ShardProgressInfo_def
  by (intro decode_with_total) (auto simp: fld_total_def switch_ShardProgressInfo_def simp del: arm_total.simps(2) intro: arms_total)

lemma ShardLeaderTransferAck_total: "dec_total W buf (decode_ShardLeaderTransferAck W)"
  unfolding decode_ShardLeaderTransferAck_def
  by (intro decode_with_total) (auto simp: fld_total_def switch_ShardLeaderTransferAck_def simp del: arm_total.simps(2) intro: arms_total)

lemma ShardMetrics_total: "dec_total W buf (decode_ShardMetrics W)"
  unfolding decode_ShardMetrics_def
  by (intro decode_with_total) (auto simp: fld_total_def switch_ShardMetrics_def simp del: arm_total.simps(2) intro: arms_total)

lemma HeartbeatRequest_total: "dec_total W buf (decode_HeartbeatRequest W)"
  unfolding decode_HeartbeatRequest_def
  by (intro decode_with_total) (auto simp: fld_total_def switch_HeartbeatRequest_def simp del: arm_total.simps(2) intro: arms_total ShardLeaderInfo_total ShardMetrics_total ShardMembershipInfo_total ShardProgressInfo_total ShardLeaderTransferAck_total)

lemma HeartbeatResponse_total: "dec_total W buf (decode_HeartbeatResponse W)"
  unfolding decode_HeartbeatResponse_def
  by (intro decode_with_total) (auto simp: fld_total_def switch_HeartbeatResponse_def simp del: arm_total.simps(2) intro: arms_total)

lemma ListWorkersRequest_total: "dec_total W buf (decode_ListWorkersRequest W)"
  unfolding decode_ListWorkersRequest_def
  by (intro decode_with_total) (auto simp: fld_total_def switch_ListWorkersRequest_def simp del: arm_total.simps(2) intro: arms_total)

lemma WorkerInfo_MetadataEntry_total: "dec_total W buf (decode_WorkerInfo_MetadataEntry W)"
  unfolding decode_WorkerInfo_MetadataEntry_def
  by (intro decode_with_total) (auto simp: fld_total_def switch_WorkerInfo_MetadataEntry_def simp del: arm_total.simps(2) intro: arms_total)

lemma WorkerInfo_total: "dec_total W buf (decode_WorkerInfo W)"
  unfolding decode_WorkerInfo_def
  by (intro decode_with_total) (auto simp: fld_total_def switch_WorkerInfo_def simp del: arm_total.simps(2) intro: arms_total WorkerInfo_MetadataEntry_total)

lemma ListWorkersResponse_total: "dec_total W buf (decode_ListWorkersResponse W)"
  unfolding decode_ListWorkersResponse_def
  by (intro decode_with_total) (auto simp: fld_total_def switch_ListWorkersResponse_def simp del: arm_total.simps(2) intro: arms_total WorkerInfo_total)

lemma RegisterRerankerRequest_total: "dec_total W buf (decode_RegisterRerankerRequest W)"
  unfolding decode_RegisterRerankerRequest_def
  by (intro decode_with_total) (auto simp: fld_total_def switch_RegisterRerankerRequest_def simp del: arm_total.simps(2) intro: arms_total)

lemma RegisterRerankerResponse_total: "dec_total W buf (decode_RegisterRerankerResponse W)"
  unfolding decode_RegisterRerankerResponse_def
  by (intro decode_with_total) (auto simp: fld_total_def switch_RegisterRerankerResponse_def simp del: arm_total.simps(2) intro: arms_total)

lemma RerankerHeartbeatRequest_total: "dec_total W buf (decode_RerankerHeartbeatRequest W)"
  unfolding decode_RerankerHeartbeatRequest_def
  by (intro decode_with_total) (auto simp: fld_total_def switch_RerankerHeartbeatRequest_def simp del: arm_total.simps(2) intro: arms_total)

lemma RerankerHeartbeatResponse_total: "dec_total W buf (decode_RerankerHeartbeatResponse W)"
  unfolding decode_RerankerHeartbeatResponse_def
  by (intro decode_with_total) (auto simp: fld_total_def switch_RerankerHeartbeatResponse_def simp del: arm_total.simps(2) intro: arms_total)

lemma ListRerankersRequest_total: "dec_total W buf (decode_ListRerankersRequest W)"
  unfolding decode_ListRerankersRequest_def
  by (intro decode_with_total) (auto simp: fld_total_def switch_ListRerankersRequest_def simp del: arm_total.simps(2) intro: arms_total)

lemma RerankerInfo_MetadataEntry_total: "dec_total W buf (decode_RerankerInfo_MetadataEntry W)"
  unfolding decode_RerankerInfo_MetadataEntry_def
  by (intro decode_with_total) (auto simp: fld_total_def switch_RerankerInfo_MetadataEntry_def simp del: arm_total.simps(2) intro: arms_total)

lemma RerankerInfo_total: "dec_total W buf (decode_RerankerInfo W)"
  unfolding decode_RerankerInfo_def
  by (intro decode_with_total) (auto simp: fld_total_def switch_RerankerInfo_def simp del: arm_total.simps(2) intro: arms_total RerankerInfo_MetadataEntry_total)

lemma ListRerankersResponse_total: "dec_total W buf (decode_ListRerankersResponse W)"
  unfolding decode_ListRerankersResponse_def
  by (intro decode_with_total) (auto simp: fld_total_def switch_ListRerankersResponse_def simp del: arm_total.simps(2) intro: arms_total RerankerInfo_total)

lemma GetRerankerRequest_total: "dec_total W buf (decode_GetRerankerRequest W)"
  unfolding decode_GetRerankerRequest_def
  by (intro decode_with_total) (auto simp: fld_total_def switch_GetRerankerRequest_def simp del: arm_total.simps(2) intro: arms_total)

lemma GetRerankerResponse_total: "dec_total W buf (decode_GetRerankerResponse W)"
  unfolding decode_GetRerankerResponse_def
  by (intro decode_with_total) (auto simp: fld_total_def switch_GetRerankerResponse_def simp del: arm_total.simps(2) intro: arms_total)

lemma ListWorkersForCollectionRequest_total: "dec_total W buf (decode_ListWorkersForCollectionRequest W)"
  unfolding decode_ListWorkersForCollectionRequest_def
  by (intro decode_with_total) (auto simp: fld_total_def switch_ListWorkersForCollectionRequest_def simp del: arm_total.simps(2) intro: arms_total)

lemma ListWorkersForCollectionResponse_total: "dec_total W buf (decode_ListWorkersForCollectionResponse W)"
  unfolding decode_ListWorkersForCollectionResponse_def
  by (intro decode_with_total) (auto simp: fld_total_def switch_ListWorkersForCollectionResponse_def simp del: arm_total.simps(2) intro: arms_total)

lemma DrainWorkerRequest_total: "dec_total W buf (decode_DrainWorkerRequest W)"
  unfolding decode_DrainWorkerRequest_def
  by (intro decode_with_total) (auto simp: fld_total_def switch_DrainWorkerRequest_def simp del: arm_total.simps(2) intro: arms_total)

lemma DrainWorkerResponse_total: "dec_total W buf (decode_DrainWorkerResponse W)"
  unfolding decode_DrainWorkerResponse_def
  by (intro decode_with_total) (auto simp: fld_total_def switch_DrainWorkerResponse_def simp del: arm_total.simps(2) intro: arms_total)

lemma RemoveWorkerRequest_total: "dec_total W buf (decode_RemoveWorkerRequest W)"
  unfolding decode_RemoveWorkerRequest_def
  by (intro decode_with_total) (auto simp: fld_total_def switch_RemoveWorkerRequest_def simp del: arm_total.simps(2) intro: arms_total)

lemma RemoveWorkerResponse_total: "dec_total W buf (decode_RemoveWorkerResponse W)"
  unfolding decode_RemoveWorkerResponse_def
  by (intro decode_with_total) (auto simp: fld_total_def switch_RemoveWorkerResponse_def simp del: arm_total.simps(2) intro: arms_total)

lemma RebalanceRequest_total: "dec_total W buf (decode_RebalanceRequest W)"
  unfolding decode_RebalanceRequest_def
  by (intro decode_with_total) (auto simp: fld_total_def switch_RebalanceRequest_def simp del: arm_total.simps(2) intro: arms_total)

lemma RebalanceResponse_total: "dec_total W buf (decode_RebalanceResponse W)"
  unfolding decode_RebalanceResponse_def
  by (intro decode_with_total) (auto simp: fld_total_def switch_RebalanceResponse_def simp del: arm_total.simps(2) intro: arms_total)

lemma PdCreateCollectionRequest_total: "dec_total W buf (decode_PdCreateCollectionRequest W)"
  unfolding decode_PdCreateCollectionRequest_def
  by (intro decode_with_total) (auto simp: fld_total_def switch_PdCreateCollectionRequest_def simp del: arm_total.simps(2) intro: arms_total)

lemma PdCreateCollectionResponse_total: "dec_total W buf (decode_PdCreateCollectionResponse W)"
  unfolding decode_PdCreateCollectionResponse_def
  by (intro decode_with_total) (auto simp: fld_total_def switch_PdCreateCollectionResponse_def simp del: arm_total.simps(2) intro: arms_total)

lemma PdListCollectionsRequest_total: "dec_total W buf (decode_PdListCollectionsRequest W)"
  unfolding decode_PdListCollectionsRequest_def
  by (intro decode_with_total) (auto simp: fld_total_def switch_PdListCollectionsRequest_def simp del: arm_total.simps(2) intro: arms_total)

lemma PdListCollectionsResponse_total: "dec_total W buf (decode_PdListCollectionsResponse W)"
  unfolding decode_PdListCollectionsResponse_def
  by (intro decode_with_total) (auto simp: fld_total_def switch_PdListCollectionsResponse_def simp del: arm_total.simps(2) intro: arms_total)

lemma PdDeleteCollectionRequest_total: "dec_total W buf (decode_PdDeleteCollectionRequest W)"
  unfolding decode_PdDeleteCollectionRequest_def
  by (intro decode_with_total) (auto simp: fld_total_def switch_PdDeleteCollectionRequest_def simp del: arm_total.simps(2) intro: arms_total)

lemma PdDeleteCollectionResponse_total: "dec_total W buf (decode_PdDeleteCollectionResponse W)"
  unfolding decode_PdDeleteCollectionResponse_def
  by (intro decode_with_total) (auto simp: fld_total_def switch_PdDeleteCollectionResponse_def simp del: arm_total.simps(2) intro: arms_total)

lemma PdGetCollectionStatusRequest_total: "dec_total W buf (decode_PdGetCollectionStatusRequest W)"
  unfolding decode_PdGetCollectionStatusRequest_def
  by (intro decode_with_total) (auto simp: fld_total_def switch_PdGetCollectionStatusRequest_def simp del: arm_total.simps(2) intro: arms_total)

lemma PdShardStatus_total: "dec_total W buf (decode_PdShardStatus W)"
  unfolding decode_PdShardStatus_def
  by (intro decode_with_total) (auto simp: fld_total_def switch_PdShardStatus_def simp del: arm_total.simps(2) intro: arms_total)

lemma PdGetCollectionStatusResponse_total: "dec_total W buf (decode_PdGetCollectionStatusResponse W)"
  unfolding decode_PdGetCollectionStatusResponse_def
  by (intro decode_with_total) (auto simp: fld_total_def switch_PdGetCollectionStatusResponse_def simp del: arm_total.simps(2) intro: arms_total PdShardStatus_total)

end

section \<open>Encoding and decoding\<close>

context wire_codec
begin

lemma codes_GetLeaderRequest:
  "codes W frames buf (encode_GetLeaderRequest W m) (switch_GetLeaderRequest W) createBaseGetLeaderRequest m"
  unfolding encode_GetLeaderRequest_def by (rule codes_done) (cases m, simp add: createBaseGetLeaderRequest_def)

lemma codes_GetLeaderResponse:
  "codes W frames buf (encode_GetLeaderResponse W m) (switch_GetLeaderResponse W) createBaseGetLeaderResponse m"
  unfolding encode_GetLeaderResponse_def
  by (cases m) ((rule codes_fields switch_GetLeaderResponse_arms | simp add: createBaseGetLeaderResponse_def)+)

lemma codes_GetWorkerRequest:
  "codes W frames buf (encode_GetWorkerRequest W m) (switch_GetWorkerRequest W) createBaseGetWorkerRequest m"
  unfolding encode_GetWorkerRequest_def
  by (cases m) ((rule codes_fields switch_GetWorkerRequest_arms | simp add: createBaseGetWorkerRequest_def)+)

lemma codes_GetWorkerResponse:
  assumes "wf_GetWorkerResponse m"
  shows "codes W frames buf (encode_GetWorkerResponse W m) (switch_GetWorkerResponse W) createBaseGetWorkerResponse m"
  using assms
  unfolding encode_GetWorkerResponse_def
  by (cases m) ((rule codes_fields switch_GetWorkerResponse_arms | simp add: createBaseGetWorkerResponse_def wf_GetWorkerResponse_def)+)

lemma codes_RegisterWorkerRequest:
  assumes "wf_RegisterWorkerRequest m"
  shows "codes W frames buf (encode_RegisterWorkerRequest W m) (switch_RegisterWorkerRequest W) createBaseRegisterWorkerRequest m"
  using assms
  unfolding encode_RegisterWorkerRequest_def
  by (cases m) ((rule codes_fields switch_RegisterWorkerRequest_arms | simp add: createBaseRegisterWorkerRequest_def wf_RegisterWorkerRequest_def foldl_RegisterWorkerRequest_capabilities)+)

lemma codes_RegisterWorkerResponse:
  "codes W frames buf (encode_RegisterWorkerResponse W m) (switch_RegisterWorkerResponse W) createBaseRegisterWorkerResponse m"
  unfolding encode_RegisterWorkerResponse_def
  by (cases m) ((rule codes_fields switch_RegisterWorkerResponse_arms | simp add: createBaseRegisterWorkerResponse_def)+)

lemma codes_ShardLeaderInfo:
  assumes "wf_ShardLeaderInfo m"
  shows "codes W frames buf (encode_ShardLeaderInfo W m) (switch_ShardLeaderInfo W) createBaseShardLeaderInfo m"
  using assms
  unfolding encode_ShardLeaderInfo_def
  by (cases m) ((rule codes_fields switch_ShardLeaderInfo_arms | simp add: createBaseShardLeaderInfo_def wf_ShardLeaderInfo_def)+)

lemma codes_ShardMembershipInfo:
  assumes "wf_ShardMembershipInfo m"
  shows "codes W frames buf (encode_ShardMembershipInfo W m) (switch_ShardMembershipInfo W) createBaseShardMembershipInfo m"
  using assms
  unfolding encode_ShardMembershipInfo_def
  by (cases m) ((rule codes_fields switch_ShardMembershipInfo_arms | simp add: createBaseShardMembershipInfo_def wf_ShardMembershipInfo_def)+)

lemma codes_ShardProgressInfo:
  assumes "wf_ShardProgressInfo m"
  shows "codes W frames buf (encode_ShardProgressInfo W m) (switch_ShardProgressInfo W) createBaseShardProgressInfo m"
  using assms
  unfolding encode_ShardProgressInfo_def
  by (cases m) ((rule codes_fields switch_ShardProgressInfo_arms | simp add: createBaseShardProgressInfo_def wf_ShardProgressInfo_def)+)

lemma codes_ShardLeaderTransferAck:
  assumes "wf_ShardLeaderTransferAck m"
  shows "codes W frames buf (encode_ShardLeaderTransferAck W m) (switch_ShardLeaderTransferAck W) createBaseShardLeaderTransferAck m"
  using assms
  unfolding encode_ShardLeaderTransferAck_def
  by (cases m) ((rule codes_fields switch_ShardLeaderTransferAck_arms | simp add: createBaseShardLeaderTransferAck_def wf_ShardLeaderTransferAck_def)+)

lemma codes_ShardMetrics:
  assumes "wf_ShardMetrics m"
  shows "codes W frames buf (encode_ShardMetrics W m) (switch_ShardMetrics W) createBaseShardMetrics (rounded_ShardMetrics fround m)"
  using assms
  unfolding encode_ShardMetrics_def
  by (cases m) ((rule codes_fields switch_ShardMetrics_arms | simp add: createBaseShardMetrics_def rounded_ShardMetrics_def wf_ShardMetrics_def)+)

lemma codes_HeartbeatRequest:
  assumes "wf_HeartbeatRequest m"
  shows "codes W frames buf (encode_HeartbeatRequest W m) (switch_HeartbeatRequest W) createBaseHeartbeatRequest (rounded_HeartbeatRequest fround m)"
  using assms
  unfolding encode_HeartbeatRequest_def
  by (cases m) ((rule codes_fields switch_HeartbeatRequest_arms codes_ShardLeaderInfo codes_ShardMetrics codes_ShardMembershipInfo codes_ShardProgressInfo codes_ShardLeaderTransferAck | simp add: createBaseHeartbeatRequest_def rounded_HeartbeatRequest_def wf_HeartbeatRequest_def foldl_HeartbeatRequest_shardLeaderInfo foldl_HeartbeatRequest_shardMetrics foldl_HeartbeatRequest_shardMembership foldl_HeartbeatRequest_shardProgress foldl_HeartbeatRequest_leaderTransferAcks)+)

lemma codes_HeartbeatResponse:
  assumes "wf_HeartbeatResponse m"
  shows "codes W frames buf (encode_HeartbeatResponse W m) (switch_HeartbeatResponse W) createBaseHeartbeatResponse m"
  using assms
  unfolding encode_HeartbeatResponse_def
  by (cases m) ((rule codes_fields switch_HeartbeatResponse_arms | simp add: createBaseHeartbeatResponse_def wf_HeartbeatResponse_def)+)

lemma codes_ListWorkersRequest:
  "codes W frames buf (encode_ListWorkersRequest W m) (switch_ListWorkersRequest W) createBaseListWorkersRequest m"
  unfolding encode_ListWorkersRequest_def by (rule codes_done) (cases m, simp add: createBaseListWorkersRequest_def)

lemma codes_WorkerInfo_MetadataEntry:
  "codes W frames buf (encode_WorkerInfo_MetadataEntry W m) (switch_WorkerInfo_MetadataEntry W) createBaseWorkerInfo_MetadataEntry m"
  unfolding encode_WorkerInfo_MetadataEntry_def
  by (cases m) ((rule codes_fields switch_WorkerInfo_MetadataEntry_arms | simp add: createBaseWorkerInfo_MetadataEntry_def)+)

lemma codes_WorkerInfo:
  assumes "wf_WorkerInfo m"
  shows "codes W frames buf (encode_WorkerInfo W m) (switch_WorkerInfo W) createBaseWorkerInfo m"
  using assms
  unfolding encode_WorkerInfo_def
  by (cases m) ((rule codes_fields switch_WorkerInfo_arms codes_WorkerInfo_MetadataEntry | simp add: createBaseWorkerInfo_def wf_WorkerInfo_def foldl_WorkerInfo_collections foldl_WorkerInfo_metadata foldl_js_set_id)+)

lemma codes_ListWorkersResponse:
  assumes "wf_ListWorkersResponse m"
  shows "codes W frames buf (encode_ListWorkersResponse W m) (switch_ListWorkersResponse W) createBaseListWorkersResponse m"
  using assms
  unfolding encode_ListWorkersResponse_def
  by (cases m) ((rule codes_fields switch_ListWorkersResponse_arms codes_WorkerInfo | simp add: createBaseListWorkersResponse_def wf_ListWorkersResponse_def foldl_ListWorkersResponse_workers)+)

lemma codes_RegisterRerankerRequest:
  assumes "wf_RegisterRerankerRequest m"
  shows "codes W frames buf (encode_RegisterRerankerRequest W m) (switch_RegisterRerankerRequest W) createBaseRegisterRerankerRequest m"
  using assms
  unfolding encode_RegisterRerankerRequest_def
  by (cases m) ((rule codes_fields switch_RegisterRerankerRequest_arms | simp add: createBaseRegisterRerankerRequest_def wf_RegisterRerankerRequest_def foldl_RegisterRerankerRequest_capabilities)+)

lemma codes_RegisterRerankerResponse:
  "codes W frames buf (encode_RegisterRerankerResponse W m) (switch_RegisterRerankerResponse W) createBaseRegisterRerankerResponse m"
  unfolding encode_RegisterRerankerResponse_def
  by (cases m) ((rule codes_fields switch_RegisterRerankerResponse_arms | simp add: createBaseRegisterRerankerResponse_def)+)

lemma codes_RerankerHeartbeatRequest:
  assumes "wf_RerankerHeartbeatRequest m"
  shows "codes W frames buf (encode_RerankerHeartbeatRequest W m) (switch_RerankerHeartbeatRequest W) createBaseRerankerHeartbeatRequest (rounded_RerankerHeartbeatRequest fround m)"
  using assms
  unfolding encode_RerankerHeartbeatRequest_def
  by (cases m) ((rule codes_fields switch_RerankerHeartbeatRequest_arms | simp add: createBaseRerankerHeartbeatRequest_def rounded_RerankerHeartbeatRequest_def wf_RerankerHeartbeatRequest_def)+)

lemma codes_RerankerHeartbeatResponse:
  "codes W frames buf (encode_RerankerHeartbeatResponse W m) (switch_RerankerHeartbeatResponse W) createBaseRerankerHeartbeatResponse m"
  unfolding encode_RerankerHeartbeatResponse_def
  by (cases m) ((rule codes_fields switch_RerankerHeartbeatResponse_arms | simp add: createBaseRerankerHeartbeatResponse_def)+)

lemma codes_ListRerankersRequest:
  "codes W frames buf (encode_ListRerankersRequest W m) (switch_ListRerankersRequest W) createBaseListRerankersRequest m"
  unfolding encode_ListRerankersRequest_def by (rule codes_done) (cases m, simp add: createBaseListRerankersRequest_def)

lemma codes_RerankerInfo_MetadataEntry:
  "codes W frames buf (encode_RerankerInfo_MetadataEntry W m) (switch_RerankerInfo_MetadataEntry W) createBaseRerankerInfo_MetadataEntry m"
  unfolding encode_RerankerInfo_MetadataEntry_def
  by (cases m) ((rule codes_fields switch_RerankerInfo_MetadataEntry_arms | simp add: createBaseRerankerInfo_MetadataEntry_def)+)

lemma codes_RerankerInfo:
  assumes "wf_RerankerInfo m"
  shows "codes W frames buf (encode_RerankerInfo W m) (switch_RerankerInfo W) createBaseRerankerInfo m"
  using assms
  unfolding encode_RerankerInfo_def
  by (cases m) ((rule codes_fields switch_RerankerInfo_arms codes_RerankerInfo_MetadataEntry | simp add: createBaseRerankerInfo_def wf_RerankerInfo_def foldl_RerankerInfo_metadata foldl_js_set_id)+)

lemma codes_ListRerankersResponse:
  assumes "wf_ListRerankersResponse m"
  shows "codes W frames buf (encode_ListRerankersResponse W m) (switch_ListRerankersResponse W) createBaseListRerankersResponse m"
  using assms
  unfolding encode_ListRerankersResponse_def
  by (cases m) ((rule codes_fields switch_ListRerankersResponse_arms codes_RerankerInfo | simp add: createBaseListRerankersResponse_def wf_ListRerankersResponse_def foldl_ListRerankersResponse_rerankers)+)

lemma codes_GetRerankerRequest:
  "codes W frames buf (encode_GetRerankerRequest W m) (switch_GetRerankerRequest W) createBaseGetRerankerRequest m"
  unfolding encode_GetRerankerRequest_def by (rule codes_done) (cases m, simp add: createBaseGetRerankerRequest_def)

lemma codes_GetRerankerResponse:
  "codes W frames buf (encode_GetRerankerResponse W m) (switch_GetRerankerResponse W) createBaseGetRerankerResponse m"
  unfolding encode_GetRerankerResponse_def
  by (cases m) ((rule codes_fields switch_GetRerankerResponse_arms | simp add: createBaseGetRerankerResponse_def)+)

lemma codes_ListWorkersForCollectionRequest:
  "codes W frames buf (encode_ListWorkersForCollectionRequest W m) (switch_ListWorkersForCollectionRequest W) createBaseListWorkersForCollectionRequest m"
  unfolding encode_ListWorkersForCollectionRequest_def
  by (cases m) ((rule codes_fields switch_ListWorkersForCollectionRequest_arms | simp add: createBaseListWorkersForCollectionRequest_def)+)

lemma codes_ListWorkersForCollectionResponse:
  "codes W frames buf (encode_ListWorkersForCollectionResponse W m) (switch_ListWorkersForCollectionResponse W) createBaseListWorkersForCollectionResponse m"
  unfolding encode_ListWorkersForCollectionResponse_def
  by (cases m) ((rule codes_fields switch_ListWorkersForCollectionResponse_arms | simp add: createBaseListWorkersForCollectionResponse_def foldl_ListWorkersForCollectionResponse_grpcAddresses)+)

lemma codes_DrainWorkerRequest:
  "codes W frames buf (encode_DrainWorkerRequest W m) (switch_DrainWorkerRequest W) createBaseDrainWorkerRequest m"
  unfolding encode_DrainWorkerRequest_def
  by (cases m) ((rule codes_fields switch_DrainWorkerRequest_arms | simp add: createBaseDrainWorkerRequest_def)+)

lemma codes_DrainWorkerResponse:
  "codes W frames buf (encode_DrainWorkerResponse W m) (switch_DrainWorkerResponse W) createBaseDrainWorkerResponse m"
  unfolding encode_DrainWorkerResponse_def
  by (cases m) ((rule codes_fields switch_DrainWorkerResponse_arms | simp add: createBaseDrainWorkerResponse_def)+)

lemma codes_RemoveWorkerRequest:
  "codes W frames buf (encode_RemoveWorkerRequest W m) (switch_RemoveWorkerRequest W) createBaseRemoveWorkerRequest m"
  unfolding encode_RemoveWorkerRequest_def
  by (cases m) ((rule codes_fields switch_RemoveWorkerRequest_arms | simp add: createBaseRemoveWorkerRequest_def)+)

lemma codes_RemoveWorkerResponse:
  "codes W frames buf (encode_RemoveWorkerResponse W m) (switch_RemoveWorkerResponse W) createBaseRemoveWorkerResponse m"
  unfolding encode_RemoveWorkerResponse_def
  by (cases m) ((rule codes_fields switch_RemoveWorkerResponse_arms | simp add: createBaseRemoveWorkerResponse_def)+)

lemma codes_RebalanceRequest:
  "codes W frames buf (encode_RebalanceRequest W m) (switch_RebalanceRequest W) createBaseRebalanceRequest m"
  unfolding encode_RebalanceRequest_def by (rule codes_done) (cases m, simp add: createBaseRebalanceRequest_def)

lemma codes_RebalanceResponse:
  "codes W frames buf (encode_RebalanceResponse W m) (switch_RebalanceResponse W) createBaseRebalanceResponse m"
  unfolding encode_RebalanceResponse_def
  by (cases m) ((rule codes_fields switch_RebalanceResponse_arms | simp add: createBaseRebalanceResponse_def)+)

lemma codes_PdCreateCollectionRequest:
  "codes W frames buf (encode_PdCreateCollectionRequest W m) (switch_PdCreateCollectionRequest W) createBasePdCreateCollectionRequest m"
  unfolding encode_PdCreateCollectionRequest_def
  by (cases m) ((rule codes_fields switch_PdCreateCollectionRequest_arms | simp add: createBasePdCreateCollectionRequest_def)+)

lemma codes_PdCreateCollectionResponse:
  "codes W frames buf (encode_PdCreateCollectionResponse W m) (switch_PdCreateCollectionResponse W) createBasePdCreateCollectionResponse m"
  unfolding encode_PdCreateCollectionResponse_def
  by (cases m) ((rule codes_fields switch_PdCreateCollectionResponse_arms | simp add: createBasePdCreateCollectionResponse_def)+)

lemma codes_PdListCollectionsRequest:
  "codes W frames buf (encode_PdListCollectionsRequest W m) (switch_PdListCollectionsRequest W) createBasePdListCollectionsRequest m"
  unfolding encode_PdListCollectionsRequest_def by (rule codes_done) (cases m, simp add: createBasePdListCollectionsRequest_def)

lemma codes_PdListCollectionsResponse:
  "codes W frames buf (encode_PdListCollectionsResponse W m) (switch_PdListCollectionsResponse W) createBasePdListCollectionsResponse m"
  unfolding encode_PdListCollectionsResponse_def
  by (cases m) ((rule codes_fields switch_PdListCollectionsResponse_arms | simp add: createBasePdListCollectionsResponse_def foldl_PdListCollectionsResponse_collections)+)

lemma codes_PdDeleteCollectionRequest:
  "codes W frames buf (encode_PdDeleteCollectionRequest W m) (switch_PdDeleteCollectionRequest W) createBasePdDeleteCollectionRequest m"
  unfolding encode_PdDeleteCollectionRequest_def
  by (cases m) ((rule codes_fields switch_PdDeleteCollectionRequest_arms | simp add: createBasePdDeleteCollectionRequest_def)+)

lemma codes_PdDeleteCollectionResponse:
  "codes W frames buf (encode_PdDeleteCollectionResponse W m) (switch_PdDeleteCollectionResponse W) createBasePdDeleteCollectionResponse m"
  unfolding encode_PdDeleteCollectionResponse_def
  by (cases m) ((rule codes_fields switch_PdDeleteCollectionResponse_arms | simp add: createBasePdDeleteCollectionResponse_def)+)

lemma codes_PdGetCollectionStatusRequest:
  "codes W frames buf (encode_PdGetCollectionStatusRequest W m) (switch_PdGetCollectionStatusRequest W) createBasePdGetCollectionStatusRequest m"
  unfolding encode_PdGetCollectionStatusRequest_def
  by (cases m) ((rule codes_fields switch_PdGetCollectionStatusRequest_arms | simp add: createBasePdGetCollectionStatusRequest_def)+)

lemma codes_PdShardStatus:
  assumes "wf_PdShardStatus m"
  shows "codes W frames buf (encode_PdShardStatus W m) (switch_PdShardStatus W) createBasePdShardStatus m"
  using assms
  unfolding encode_PdShardStatus_def
  by (cases m) ((rule codes_fields switch_PdShardStatus_arms | simp add: createBasePdShardStatus_def wf_PdShardStatus_def foldl_PdShardStatus_replicaGrpcAddresses)+)

lemma codes_PdGetCollectionStatusResponse:
  assumes "wf_PdGetCollectionStatusResponse m"
  shows "codes W frames buf (encode_PdGetCollectionStatusResponse W m) (switch_PdGetCollectionStatusResponse W) createBasePdGetCollectionStatusResponse m"
  using assms
  unfolding encode_PdGetCollectionStatusResponse_def
  by (cases m) ((rule codes_fields switch_PdGetCollectionStatusResponse_arms codes_PdShardStatus | simp add: createBasePdGetCollectionStatusResponse_def wf_PdGetCollectionStatusResponse_def foldl_PdGetCollectionStatusResponse_shards)+)

end


end
