(* ===== verification/Placement_Json.thy ===== *)
theory Placement_Json
  imports Placement_Messages Json
begin

text \<open>
  The JSON side of the messages of \<open>Placement_Messages\<close>: \<^verbatim>\<open>fromJSON\<close> and \<^verbatim>\<open>toJSON\<close> of each of them, and the conversions of its enums.
  \<open>json_ok_X\<close> says which messages come back unchanged: their integer fields are integers
  (\<^verbatim>\<open>toJSON\<close> rounds), their enum fields have a value of the enum (others become
  \<^verbatim>\<open>UNRECOGNIZED\<close>) and their dictionaries are in the order of \<^verbatim>\<open>Object.entries\<close>. A message
  without \<open>json_ok_X\<close> always comes back.
\<close>

section \<open>Enums\<close>

definition workerStateFromJSON :: "js_val \<Rightarrow> js_num" where
  "workerStateFromJSON object =
     (if object = JNum (Fin 0) \<or> object = JStr ''WORKER_STATE_UNKNOWN'' then Fin 0
      else if object = JNum (Fin 1) \<or> object = JStr ''WORKER_STATE_JOINING'' then Fin 1
      else if object = JNum (Fin 2) \<or> object = JStr ''WORKER_STATE_READY'' then Fin 2
      else if object = JNum (Fin 3) \<or> object = JStr ''WORKER_STATE_DRAINING'' then Fin 3
      else Fin (- 1))"

definition workerStateToJSON :: "js_num \<Rightarrow> string" where
  "workerStateToJSON object =
     (if js_eq object (Fin 0) then ''WORKER_STATE_UNKNOWN''
      else if js_eq object (Fin 1) then ''WORKER_STATE_JOINING''
      else if js_eq object (Fin 2) then ''WORKER_STATE_READY''
      else if js_eq object (Fin 3) then ''WORKER_STATE_DRAINING''
      else ''UNRECOGNIZED'')"

definition workerState_values :: "js_num set" where
  "workerState_values = {Fin 0, Fin 1, Fin 2, Fin 3, Fin (- 1)}"

section \<open>\<^verbatim>\<open>fromJSON\<close> and \<^verbatim>\<open>toJSON\<close>\<close>

definition fromJSON_GetLeaderRequest :: "text_conv \<Rightarrow> js_val \<Rightarrow> thrown + GetLeaderRequest" where
  "fromJSON_GetLeaderRequest K object = Inr GetLeaderRequest"

definition toJSON_GetLeaderRequest :: "GetLeaderRequest \<Rightarrow> js_val" where
  "toJSON_GetLeaderRequest m = json_obj []"

definition fromJSON_GetLeaderResponse :: "text_conv \<Rightarrow> js_val \<Rightarrow> thrown + GetLeaderResponse" where
  "fromJSON_GetLeaderResponse K object =
     with_object object (\<lambda>object.
       Inr \<lparr>GetLeaderResponse_leaderAddress = json_string K [] (js_get object ''leaderAddress'')\<rparr>)"

definition toJSON_GetLeaderResponse :: "GetLeaderResponse \<Rightarrow> js_val" where
  "toJSON_GetLeaderResponse m =
     json_obj
      [(GetLeaderResponse_leaderAddress m \<noteq> [], ''leaderAddress'', JStr (GetLeaderResponse_leaderAddress m))]"

definition fromJSON_GetWorkerRequest :: "text_conv \<Rightarrow> js_val \<Rightarrow> thrown + GetWorkerRequest" where
  "fromJSON_GetWorkerRequest K object =
     with_object object (\<lambda>object.
       Inr \<lparr>GetWorkerRequest_collection = json_string K [] (js_get object ''collection''),
          GetWorkerRequest_vectorId = json_string K [] (js_get object ''vectorId'')\<rparr>)"

definition toJSON_GetWorkerRequest :: "GetWorkerRequest \<Rightarrow> js_val" where
  "toJSON_GetWorkerRequest m =
     json_obj
      [(GetWorkerRequest_collection m \<noteq> [], ''collection'', JStr (GetWorkerRequest_collection m)),
       (GetWorkerRequest_vectorId m \<noteq> [], ''vectorId'', JStr (GetWorkerRequest_vectorId m))]"

definition fromJSON_GetWorkerResponse :: "text_conv \<Rightarrow> js_val \<Rightarrow> thrown + GetWorkerResponse" where
  "fromJSON_GetWorkerResponse K object =
     with_object object (\<lambda>object.
       Inr \<lparr>GetWorkerResponse_grpcAddress = json_string K [] (js_get object ''grpcAddress''),
          GetWorkerResponse_shardId = json_number K (js_get object ''shardId''),
          GetWorkerResponse_shardEpoch = json_string K ''0'' (js_get object ''shardEpoch''),
          GetWorkerResponse_leaseExpiryUnixMs = json_string K ''0'' (js_get object ''leaseExpiryUnixMs'')\<rparr>)"

definition toJSON_GetWorkerResponse :: "GetWorkerResponse \<Rightarrow> js_val" where
  "toJSON_GetWorkerResponse m =
     json_obj
      [(GetWorkerResponse_grpcAddress m \<noteq> [], ''grpcAddress'', JStr (GetWorkerResponse_grpcAddress m)),
       (\<not> js_eq (GetWorkerResponse_shardId m) (Fin 0), ''shardId'', JNum (js_round (GetWorkerResponse_shardId m))),
       (GetWorkerResponse_shardEpoch m \<noteq> ''0'', ''shardEpoch'', JStr (GetWorkerResponse_shardEpoch m)),
       (GetWorkerResponse_leaseExpiryUnixMs m \<noteq> ''0'', ''leaseExpiryUnixMs'', JStr (GetWorkerResponse_leaseExpiryUnixMs m))]"

definition fromJSON_RegisterWorkerRequest :: "text_conv \<Rightarrow> js_val \<Rightarrow> thrown + RegisterWorkerRequest" where
  "fromJSON_RegisterWorkerRequest K object =
     with_object object (\<lambda>object.
       Inr \<lparr>RegisterWorkerRequest_grpcAddress = json_string K [] (js_get object ''grpcAddress''),
          RegisterWorkerRequest_raftAddress = json_string K [] (js_get object ''raftAddress''),
          RegisterWorkerRequest_capabilities = json_strings K (js_get object ''capabilities''),
          RegisterWorkerRequest_timestamp = json_string K ''0'' (js_get object ''timestamp''),
          RegisterWorkerRequest_cpuCores = json_number K (js_get object ''cpuCores''),
          RegisterWorkerRequest_memoryBytes = json_string K ''0'' (js_get object ''memoryBytes''),
          RegisterWorkerRequest_diskBytes = json_string K ''0'' (js_get object ''diskBytes''),
          RegisterWorkerRequest_rack = json_string K [] (js_get object ''rack''),
          RegisterWorkerRequest_zone = json_string K [] (js_get object ''zone''),
          RegisterWorkerRequest_region = json_string K [] (js_get object ''region'')\<rparr>)"

definition toJSON_RegisterWorkerRequest :: "RegisterWorkerRequest \<Rightarrow> js_val" where
  "toJSON_RegisterWorkerRequest m =
     json_obj
      [(RegisterWorkerRequest_grpcAddress m \<noteq> [], ''grpcAddress'', JStr (RegisterWorkerRequest_grpcAddress m)),
       (RegisterWorkerRequest_raftAddress m \<noteq> [], ''raftAddress'', JStr (RegisterWorkerRequest_raftAddress m)),
       (RegisterWorkerRequest_capabilities m \<noteq> [], ''capabilities'', JArr (map JStr (RegisterWorkerRequest_capabilities m))),
       (RegisterWorkerRequest_timestamp m \<noteq> ''0'', ''timestamp'', JStr (RegisterWorkerRequest_timestamp m)),
       (\<not> js_eq (RegisterWorkerRequest_cpuCores m) (Fin 0), ''cpuCores'', JNum (js_round (RegisterWorkerRequest_cpuCores m))),
       (RegisterWorkerRequest_memoryBytes m \<noteq> ''0'', ''memoryBytes'', JStr (RegisterWorkerRequest_memoryBytes m)),
       (RegisterWorkerRequest_diskBytes m \<noteq> ''0'', ''diskBytes'', JStr (RegisterWorkerRequest_diskBytes m)),
       (RegisterWorkerRequest_rack m \<noteq> [], ''rack'', JStr (RegisterWorkerRequest_rack m)),
       (RegisterWorkerRequest_zone m \<noteq> [], ''zone'', JStr (RegisterWorkerRequest_zone m)),
       (RegisterWorkerRequest_region m \<noteq> [], ''region'', JStr (RegisterWorkerRequest_region m))]"

definition fromJSON_RegisterWorkerResponse :: "text_conv \<Rightarrow> js_val \<Rightarrow> thrown + RegisterWorkerResponse" where
  "fromJSON_RegisterWorkerResponse K object =
     with_object object (\<lambda>object.
       Inr \<lparr>RegisterWorkerResponse_workerId = json_string K [] (js_get object ''workerId''),
          RegisterWorkerResponse_success = json_boolean (js_get object ''success'')\<rparr>)"

definition toJSON_RegisterWorkerResponse :: "RegisterWorkerResponse \<Rightarrow> js_val" where
  "toJSON_RegisterWorkerResponse m =
     json_obj
      [(RegisterWorkerResponse_workerId m \<noteq> [], ''workerId'', JStr (RegisterWorkerResponse_workerId m)),
       (RegisterWorkerResponse_success m, ''success'', JBool (RegisterWorkerResponse_success m))]"

definition fromJSON_ShardLeaderInfo :: "text_conv \<Rightarrow> js_val \<Rightarrow> thrown + ShardLeaderInfo" where
  "fromJSON_ShardLeaderInfo K object =
     with_object object (\<lambda>object.
       Inr \<lparr>ShardLeaderInfo_shardId = json_string K ''0'' (js_get object ''shardId''),
          ShardLeaderInfo_leaderId = json_string K ''0'' (js_get object ''leaderId'')\<rparr>)"

definition toJSON_ShardLeaderInfo :: "ShardLeaderInfo \<Rightarrow> js_val" where
  "toJSON_ShardLeaderInfo m =
     json_obj
      [(ShardLeaderInfo_shardId m \<noteq> ''0'', ''shardId'', JStr (ShardLeaderInfo_shardId m)),
       (ShardLeaderInfo_leaderId m \<noteq> ''0'', ''leaderId'', JStr (ShardLeaderInfo_leaderId m))]"

definition fromJSON_ShardMembershipInfo :: "text_conv \<Rightarrow> js_val \<Rightarrow> thrown + ShardMembershipInfo" where
  "fromJSON_ShardMembershipInfo K object =
     with_object object (\<lambda>object.
       Inr \<lparr>ShardMembershipInfo_shardId = json_string K ''0'' (js_get object ''shardId''),
          ShardMembershipInfo_configChangeId = json_string K ''0'' (js_get object ''configChangeId''),
          ShardMembershipInfo_nodeIds = json_strings K (js_get object ''nodeIds'')\<rparr>)"

definition toJSON_ShardMembershipInfo :: "ShardMembershipInfo \<Rightarrow> js_val" where
  "toJSON_ShardMembershipInfo m =
     json_obj
      [(ShardMembershipInfo_shardId m \<noteq> ''0'', ''shardId'', JStr (ShardMembershipInfo_shardId m)),
       (ShardMembershipInfo_configChangeId m \<noteq> ''0'', ''configChangeId'', JStr (ShardMembershipInfo_configChangeId m)),
       (ShardMembershipInfo_nodeIds m \<noteq> [], ''nodeIds'', JArr (map JStr (ShardMembershipInfo_nodeIds m)))]"

definition fromJSON_ShardProgressInfo :: "text_conv \<Rightarrow> js_val \<Rightarrow> thrown + ShardProgressInfo" where
  "fromJSON_ShardProgressInfo K object =
     with_object object (\<lambda>object.
       Inr \<lparr>ShardProgressInfo_shardId = json_string K ''0'' (js_get object ''shardId''),
          ShardProgressInfo_appliedIndex = json_string K ''0'' (js_get object ''appliedIndex''),
          ShardProgressInfo_shardEpoch = json_string K ''0'' (js_get object ''shardEpoch'')\<rparr>)"

definition toJSON_ShardProgressInfo :: "ShardProgressInfo \<Rightarrow> js_val" where
  "toJSON_ShardProgressInfo m =
     json_obj
      [(ShardProgressInfo_shardId m \<noteq> ''0'', ''shardId'', JStr (ShardProgressInfo_shardId m)),
       (ShardProgressInfo_appliedIndex m \<noteq> ''0'', ''appliedIndex'', JStr (ShardProgressInfo_appliedIndex m)),
       (ShardProgressInfo_shardEpoch m \<noteq> ''0'', ''shardEpoch'', JStr (ShardProgressInfo_shardEpoch m))]"

definition fromJSON_ShardLeaderTransferAck :: "text_conv \<Rightarrow> js_val \<Rightarrow> thrown + ShardLeaderTransferAck" where
  "fromJSON_ShardLeaderTransferAck K object =
     with_object object (\<lambda>object.
       Inr \<lparr>ShardLeaderTransferAck_shardId = json_string K ''0'' (js_get object ''shardId''),
          ShardLeaderTransferAck_fromNodeId = json_string K ''0'' (js_get object ''fromNodeId''),
          ShardLeaderTransferAck_toNodeId = json_string K ''0'' (js_get object ''toNodeId''),
          ShardLeaderTransferAck_shardEpoch = json_string K ''0'' (js_get object ''shardEpoch''),
          ShardLeaderTransferAck_timestampUnixMs = json_string K ''0'' (js_get object ''timestampUnixMs'')\<rparr>)"

definition toJSON_ShardLeaderTransferAck :: "ShardLeaderTransferAck \<Rightarrow> js_val" where
  "toJSON_ShardLeaderTransferAck m =
     json_obj
      [(ShardLeaderTransferAck_shardId m \<noteq> ''0'', ''shardId'', JStr (ShardLeaderTransferAck_shardId m)),
       (ShardLeaderTransferAck_fromNodeId m \<noteq> ''0'', ''fromNodeId'', JStr (ShardLeaderTransferAck_fromNodeId m)),
       (ShardLeaderTransferAck_toNodeId m \<noteq> ''0'', ''toNodeId'', JStr (ShardLeaderTransferAck_toNodeId m)),
       (ShardLeaderTransferAck_shardEpoch m \<noteq> ''0'', ''shardEpoch'', JStr (ShardLeaderTransferAck_shardEpoch m)),
       (ShardLeaderTransferAck_timestampUnixMs m \<noteq> ''0'', ''timestampUnixMs'', JStr (ShardLeaderTransferAck_timestampUnixMs m))]"

definition fromJSON_ShardMetrics :: "text_conv \<Rightarrow> js_val \<Rightarrow> thrown + ShardMetrics" where
  "fromJSON_ShardMetrics K object =
     with_object object (\<lambda>object.
       Inr \<lparr>ShardMetrics_shardId = json_string K ''0'' (js_get object ''shardId''),
          ShardMetrics_queriesPerSecond = json_number K (js_get object ''queriesPerSecond''),
          ShardMetrics_vectorCount = json_string K ''0'' (js_get object ''vectorCount''),
          ShardMetrics_avgLatencyMs = json_number K (js_get object ''avgLatencyMs'')\<rparr>)"

definition toJSON_ShardMetrics :: "ShardMetrics \<Rightarrow> js_val" where
  "toJSON_ShardMetrics m =
     json_obj
      [(ShardMetrics_shardId m \<noteq> ''0'', ''shardId'', JStr (ShardMetrics_shardId m)),
       (\<not> js_eq (ShardMetrics_queriesPerSecond m) (Fin 0), ''queriesPerSecond'', JNum (ShardMetrics_queriesPerSecond m)),
       (ShardMetrics_vectorCount m \<noteq> ''0'', ''vectorCount'', JStr (ShardMetrics_vectorCount m)),
       (\<not> js_eq (ShardMetrics_avgLatencyMs m) (Fin 0), ''avgLatencyMs'', JNum (ShardMetrics_avgLatencyMs m))]"

definition fromJSON_HeartbeatRequest :: "text_conv \<Rightarrow> js_val \<Rightarrow> thrown + HeartbeatRequest" where
  "fromJSON_HeartbeatRequest K object =
     with_object object (\<lambda>object.
       res_bind (json_subs (fromJSON_ShardLeaderInfo K) (js_get object ''shardLeaderInfo'')) (\<lambda>shardLeaderInfo'.
       res_bind (json_subs (fromJSON_ShardMetrics K) (js_get object ''shardMetrics'')) (\<lambda>shardMetrics'.
       res_bind (json_subs (fromJSON_ShardMembershipInfo K) (js_get object ''shardMembership'')) (\<lambda>shardMembership'.
       res_bind (json_subs (fromJSON_ShardProgressInfo K) (js_get object ''shardProgress'')) (\<lambda>shardProgress'.
       res_bind (json_subs (fromJSON_ShardLeaderTransferAck K) (js_get object ''leaderTransferAcks'')) (\<lambda>leaderTransferAcks'.
       Inr \<lparr>HeartbeatRequest_workerId = json_string K [] (js_get object ''workerId''),
          HeartbeatRequest_timestamp = json_string K ''0'' (js_get object ''timestamp''),
          HeartbeatRequest_vectorCount = json_string K ''0'' (js_get object ''vectorCount''),
          HeartbeatRequest_memoryBytes = json_string K ''0'' (js_get object ''memoryBytes''),
          HeartbeatRequest_shardLeaderInfo = shardLeaderInfo',
          HeartbeatRequest_cpuUsagePercent = json_number K (js_get object ''cpuUsagePercent''),
          HeartbeatRequest_memoryUsagePercent = json_number K (js_get object ''memoryUsagePercent''),
          HeartbeatRequest_diskUsagePercent = json_number K (js_get object ''diskUsagePercent''),
          HeartbeatRequest_queriesPerSecond = json_number K (js_get object ''queriesPerSecond''),
          HeartbeatRequest_activeShards = json_string K ''0'' (js_get object ''activeShards''),
          HeartbeatRequest_shardMetrics = shardMetrics',
          HeartbeatRequest_runningShards = json_strings K (js_get object ''runningShards''),
          HeartbeatRequest_shardMembership = shardMembership',
          HeartbeatRequest_shardProgress = shardProgress',
          HeartbeatRequest_leaderTransferAcks = leaderTransferAcks'\<rparr>))))))"

definition toJSON_HeartbeatRequest :: "HeartbeatRequest \<Rightarrow> js_val" where
  "toJSON_HeartbeatRequest m =
     json_obj
      [(HeartbeatRequest_workerId m \<noteq> [], ''workerId'', JStr (HeartbeatRequest_workerId m)),
       (HeartbeatRequest_timestamp m \<noteq> ''0'', ''timestamp'', JStr (HeartbeatRequest_timestamp m)),
       (HeartbeatRequest_vectorCount m \<noteq> ''0'', ''vectorCount'', JStr (HeartbeatRequest_vectorCount m)),
       (HeartbeatRequest_memoryBytes m \<noteq> ''0'', ''memoryBytes'', JStr (HeartbeatRequest_memoryBytes m)),
       (HeartbeatRequest_shardLeaderInfo m \<noteq> [], ''shardLeaderInfo'', JArr (map toJSON_ShardLeaderInfo (HeartbeatRequest_shardLeaderInfo m))),
       (\<not> js_eq (HeartbeatRequest_cpuUsagePercent m) (Fin 0), ''cpuUsagePercent'', JNum (HeartbeatRequest_cpuUsagePercent m)),
       (\<not> js_eq (HeartbeatRequest_memoryUsagePercent m) (Fin 0), ''memoryUsagePercent'', JNum (HeartbeatRequest_memoryUsagePercent m)),
       (\<not> js_eq (HeartbeatRequest_diskUsagePercent m) (Fin 0), ''diskUsagePercent'', JNum (HeartbeatRequest_diskUsagePercent m)),
       (\<not> js_eq (HeartbeatRequest_queriesPerSecond m) (Fin 0), ''queriesPerSecond'', JNum (HeartbeatRequest_queriesPerSecond m)),
       (HeartbeatRequest_activeShards m \<noteq> ''0'', ''activeShards'', JStr (HeartbeatRequest_activeShards m)),
       (HeartbeatRequest_shardMetrics m \<noteq> [], ''shardMetrics'', JArr (map toJSON_ShardMetrics (HeartbeatRequest_shardMetrics m))),
       (HeartbeatRequest_runningShards m \<noteq> [], ''runningShards'', JArr (map JStr (HeartbeatRequest_runningShards m))),
       (HeartbeatRequest_shardMembership m \<noteq> [], ''shardMembership'', JArr (map toJSON_ShardMembershipInfo (HeartbeatRequest_shardMembership m))),
       (HeartbeatRequest_shardProgress m \<noteq> [], ''shardProgress'', JArr (map toJSON_ShardProgressInfo (HeartbeatRequest_shardProgress m))),
       (HeartbeatRequest_leaderTransferAcks m \<noteq> [], ''leaderTransferAcks'', JArr (map toJSON_ShardLeaderTransferAck (HeartbeatRequest_leaderTransferAcks m)))]"

definition fromJSON_HeartbeatResponse :: "text_conv \<Rightarrow> js_val \<Rightarrow> thrown + HeartbeatResponse" where
  "fromJSON_HeartbeatResponse K object =
     with_object object (\<lambda>object.
       Inr \<lparr>HeartbeatResponse_ok = json_boolean (js_get object ''ok''),
          HeartbeatResponse_message = json_string K [] (js_get object ''message''),
          HeartbeatResponse_assignmentsEpoch = json_string K ''0'' (js_get object ''assignmentsEpoch'')\<rparr>)"

definition toJSON_HeartbeatResponse :: "HeartbeatResponse \<Rightarrow> js_val" where
  "toJSON_HeartbeatResponse m =
     json_obj
      [(HeartbeatResponse_ok m, ''ok'', JBool (HeartbeatResponse_ok m)),
       (HeartbeatResponse_message m \<noteq> [], ''message'', JStr (HeartbeatResponse_message m)),
       (HeartbeatResponse_assignmentsEpoch m \<noteq> ''0'', ''assignmentsEpoch'', JStr (HeartbeatResponse_assignmentsEpoch m))]"

definition fromJSON_ListWorkersRequest :: "text_conv \<Rightarrow> js_val \<Rightarrow> thrown + ListWorkersRequest" where
  "fromJSON_ListWorkersRequest K object = Inr ListWorkersRequest"

definition toJSON_ListWorkersRequest :: "ListWorkersRequest \<Rightarrow> js_val" where
  "toJSON_ListWorkersRequest m = json_obj []"

definition fromJSON_WorkerInfo_MetadataEntry :: "text_conv \<Rightarrow> js_val \<Rightarrow> thrown + WorkerInfo_MetadataEntry" where
  "fromJSON_WorkerInfo_MetadataEntry K object =
     with_object object (\<lambda>object.
       Inr \<lparr>WorkerInfo_MetadataEntry_key = json_string K [] (js_get object ''key''),
          WorkerInfo_MetadataEntry_value = json_string K [] (js_get object ''value'')\<rparr>)"

definition toJSON_WorkerInfo_MetadataEntry :: "WorkerInfo_MetadataEntry \<Rightarrow> js_val" where
  "toJSON_WorkerInfo_MetadataEntry m =
     json_obj
      [(WorkerInfo_MetadataEntry_key m \<noteq> [], ''key'', JStr (WorkerInfo_MetadataEntry_key m)),
       (WorkerInfo_MetadataEntry_value m \<noteq> [], ''value'', JStr (WorkerInfo_MetadataEntry_value m))]"

definition fromJSON_WorkerInfo :: "text_conv \<Rightarrow> js_val \<Rightarrow> thrown + WorkerInfo" where
  "fromJSON_WorkerInfo K object =
     with_object object (\<lambda>object.
       Inr \<lparr>WorkerInfo_workerId = json_string K [] (js_get object ''workerId''),
          WorkerInfo_grpcAddress = json_string K [] (js_get object ''grpcAddress''),
          WorkerInfo_raftAddress = json_string K [] (js_get object ''raftAddress''),
          WorkerInfo_collections = json_strings K (js_get object ''collections''),
          WorkerInfo_lastHeartbeat = json_string K ''0'' (js_get object ''lastHeartbeat''),
          WorkerInfo_healthy = json_boolean (js_get object ''healthy''),
          WorkerInfo_metadata = json_dict K (js_get object ''metadata''),
          WorkerInfo_state = json_enum workerStateFromJSON (js_get object ''state'')\<rparr>)"

definition toJSON_WorkerInfo :: "WorkerInfo \<Rightarrow> js_val" where
  "toJSON_WorkerInfo m =
     json_obj
      [(WorkerInfo_workerId m \<noteq> [], ''workerId'', JStr (WorkerInfo_workerId m)),
       (WorkerInfo_grpcAddress m \<noteq> [], ''grpcAddress'', JStr (WorkerInfo_grpcAddress m)),
       (WorkerInfo_raftAddress m \<noteq> [], ''raftAddress'', JStr (WorkerInfo_raftAddress m)),
       (WorkerInfo_collections m \<noteq> [], ''collections'', JArr (map JStr (WorkerInfo_collections m))),
       (WorkerInfo_lastHeartbeat m \<noteq> ''0'', ''lastHeartbeat'', JStr (WorkerInfo_lastHeartbeat m)),
       (WorkerInfo_healthy m, ''healthy'', JBool (WorkerInfo_healthy m)),
       (WorkerInfo_metadata m \<noteq> [], ''metadata'', json_of_dict (WorkerInfo_metadata m)),
       (\<not> js_eq (WorkerInfo_state m) (Fin 0), ''state'', JStr (workerStateToJSON (WorkerInfo_state m)))]"

definition fromJSON_ListWorkersResponse :: "text_conv \<Rightarrow> js_val \<Rightarrow> thrown + ListWorkersResponse" where
  "fromJSON_ListWorkersResponse K object =
     res_bind (json_subs (fromJSON_WorkerInfo K) (js_get object ''workers'')) (\<lambda>workers'.
       Inr \<lparr>ListWorkersResponse_workers = workers'\<rparr>)"

definition toJSON_ListWorkersResponse :: "ListWorkersResponse \<Rightarrow> js_val" where
  "toJSON_ListWorkersResponse m =
     json_obj
      [(ListWorkersResponse_workers m \<noteq> [], ''workers'', JArr (map toJSON_WorkerInfo (ListWorkersResponse_workers m)))]"

definition fromJSON_RegisterRerankerRequest :: "text_conv \<Rightarrow> js_val \<Rightarrow> thrown + RegisterRerankerRequest" where
  "fromJSON_RegisterRerankerRequest K object =
     with_object object (\<lambda>object.
       Inr \<lparr>RegisterRerankerRequest_grpcAddress = json_string K [] (js_get object ''grpcAddress''),
          RegisterRerankerRequest_capabilities = json_strings K (js_get object ''capabilities''),
          RegisterRerankerRequest_timestamp = json_string K ''0'' (js_get object ''timestamp''),
          RegisterRerankerRequest_cpuCores = json_number K (js_get object ''cpuCores''),
          RegisterRerankerRequest_memoryBytes = json_string K ''0'' (js_get object ''memoryBytes''),
          RegisterRerankerRequest_diskBytes = json_string K ''0'' (js_get object ''diskBytes''),
          RegisterRerankerRequest_rack = json_string K [] (js_get object ''rack''),
          RegisterRerankerRequest_zone = json_string K [] (js_get object ''zone''),
          RegisterRerankerRequest_region = json_string K [] (js_get object ''region'')\<rparr>)"

definition toJSON_RegisterRerankerRequest :: "RegisterRerankerRequest \<Rightarrow> js_val" where
  "toJSON_RegisterRerankerRequest m =
     json_obj
      [(RegisterRerankerRequest_grpcAddress m \<noteq> [], ''grpcAddress'', JStr (RegisterRerankerRequest_grpcAddress m)),
       (RegisterRerankerRequest_capabilities m \<noteq> [], ''capabilities'', JArr (map JStr (RegisterRerankerRequest_capabilities m))),
       (RegisterRerankerRequest_timestamp m \<noteq> ''0'', ''timestamp'', JStr (RegisterRerankerRequest_timestamp m)),
       (\<not> js_eq (RegisterRerankerRequest_cpuCores m) (Fin 0), ''cpuCores'', JNum (js_round (RegisterRerankerRequest_cpuCores m))),
       (RegisterRerankerRequest_memoryBytes m \<noteq> ''0'', ''memoryBytes'', JStr (RegisterRerankerRequest_memoryBytes m)),
       (RegisterRerankerRequest_diskBytes m \<noteq> ''0'', ''diskBytes'', JStr (RegisterRerankerRequest_diskBytes m)),
       (RegisterRerankerRequest_rack m \<noteq> [], ''rack'', JStr (RegisterRerankerRequest_rack m)),
       (RegisterRerankerRequest_zone m \<noteq> [], ''zone'', JStr (RegisterRerankerRequest_zone m)),
       (RegisterRerankerRequest_region m \<noteq> [], ''region'', JStr (RegisterRerankerRequest_region m))]"

definition fromJSON_RegisterRerankerResponse :: "text_conv \<Rightarrow> js_val \<Rightarrow> thrown + RegisterRerankerResponse" where
  "fromJSON_RegisterRerankerResponse K object =
     with_object object (\<lambda>object.
       Inr \<lparr>RegisterRerankerResponse_rerankerId = json_string K [] (js_get object ''rerankerId''),
          RegisterRerankerResponse_success = json_boolean (js_get object ''success'')\<rparr>)"

definition toJSON_RegisterRerankerResponse :: "RegisterRerankerResponse \<Rightarrow> js_val" where
  "toJSON_RegisterRerankerResponse m =
     json_obj
      [(RegisterRerankerResponse_rerankerId m \<noteq> [], ''rerankerId'', JStr (RegisterRerankerResponse_rerankerId m)),
       (RegisterRerankerResponse_success m, ''success'', JBool (RegisterRerankerResponse_success m))]"

definition fromJSON_RerankerHeartbeatRequest :: "text_conv \<Rightarrow> js_val \<Rightarrow> thrown + RerankerHeartbeatRequest" where
  "fromJSON_RerankerHeartbeatRequest K object =
     with_object object (\<lambda>object.
       Inr \<lparr>RerankerHeartbeatRequest_rerankerId = json_string K [] (js_get object ''rerankerId''),
          RerankerHeartbeatRequest_timestamp = json_string K ''0'' (js_get object ''timestamp''),
          RerankerHeartbeatRequest_cpuUsagePercent = json_number K (js_get object ''cpuUsagePercent''),
          RerankerHeartbeatRequest_memoryUsagePercent = json_number K (js_get object ''memoryUsagePercent''),
          RerankerHeartbeatRequest_diskUsagePercent = json_number K (js_get object ''diskUsagePercent''),
          RerankerHeartbeatRequest_queriesPerSecond = json_number K (js_get object ''queriesPerSecond'')\<rparr>)"

definition toJSON_RerankerHeartbeatRequest :: "RerankerHeartbeatRequest \<Rightarrow> js_val" where
  "toJSON_RerankerHeartbeatRequest m =
     json_obj
      [(RerankerHeartbeatRequest_rerankerId m \<noteq> [], ''rerankerId'', JStr (RerankerHeartbeatRequest_rerankerId m)),
       (RerankerHeartbeatRequest_timestamp m \<noteq> ''0'', ''timestamp'', JStr (RerankerHeartbeatRequest_timestamp m)),
       (\<not> js_eq (RerankerHeartbeatRequest_cpuUsagePercent m) (Fin 0), ''cpuUsagePercent'', JNum (RerankerHeartbeatRequest_cpuUsagePercent m)),
       (\<not> js_eq (RerankerHeartbeatRequest_memoryUsagePercent m) (Fin 0), ''memoryUsagePercent'', JNum (RerankerHeartbeatRequest_memoryUsagePercent m)),
       (\<not> js_eq (RerankerHeartbeatRequest_diskUsagePercent m) (Fin 0), ''diskUsagePercent'', JNum (RerankerHeartbeatRequest_diskUsagePercent m)),
       (\<not> js_eq (RerankerHeartbeatRequest_queriesPerSecond m) (Fin 0), ''queriesPerSecond'', JNum (RerankerHeartbeatRequest_queriesPerSecond m))]"

definition fromJSON_RerankerHeartbeatResponse :: "text_conv \<Rightarrow> js_val \<Rightarrow> thrown + RerankerHeartbeatResponse" where
  "fromJSON_RerankerHeartbeatResponse K object =
     with_object object (\<lambda>object.
       Inr \<lparr>RerankerHeartbeatResponse_ok = json_boolean (js_get object ''ok''),
          RerankerHeartbeatResponse_message = json_string K [] (js_get object ''message'')\<rparr>)"

definition toJSON_RerankerHeartbeatResponse :: "RerankerHeartbeatResponse \<Rightarrow> js_val" where
  "toJSON_RerankerHeartbeatResponse m =
     json_obj
      [(RerankerHeartbeatResponse_ok m, ''ok'', JBool (RerankerHeartbeatResponse_ok m)),
       (RerankerHeartbeatResponse_message m \<noteq> [], ''message'', JStr (RerankerHeartbeatResponse_message m))]"

definition fromJSON_ListRerankersRequest :: "text_conv \<Rightarrow> js_val \<Rightarrow> thrown + ListRerankersRequest" where
  "fromJSON_ListRerankersRequest K object = Inr ListRerankersRequest"

definition toJSON_ListRerankersRequest :: "ListRerankersRequest \<Rightarrow> js_val" where
  "toJSON_ListRerankersRequest m = json_obj []"

definition fromJSON_RerankerInfo_MetadataEntry :: "text_conv \<Rightarrow> js_val \<Rightarrow> thrown + RerankerInfo_MetadataEntry" where
  "fromJSON_RerankerInfo_MetadataEntry K object =
     with_object object (\<lambda>object.
       Inr \<lparr>RerankerInfo_MetadataEntry_key = json_string K [] (js_get object ''key''),
          RerankerInfo_MetadataEntry_value = json_string K [] (js_get object ''value'')\<rparr>)"

definition toJSON_RerankerInfo_MetadataEntry :: "RerankerInfo_MetadataEntry \<Rightarrow> js_val" where
  "toJSON_RerankerInfo_MetadataEntry m =
     json_obj
      [(RerankerInfo_MetadataEntry_key m \<noteq> [], ''key'', JStr (RerankerInfo_MetadataEntry_key m)),
       (RerankerInfo_MetadataEntry_value m \<noteq> [], ''value'', JStr (RerankerInfo_MetadataEntry_value m))]"

definition fromJSON_RerankerInfo :: "text_conv \<Rightarrow> js_val \<Rightarrow> thrown + RerankerInfo" where
  "fromJSON_RerankerInfo K object =
     with_object object (\<lambda>object.
       Inr \<lparr>RerankerInfo_rerankerId = json_string K [] (js_get object ''rerankerId''),
          RerankerInfo_grpcAddress = json_string K [] (js_get object ''grpcAddress''),
          RerankerInfo_lastHeartbeat = json_string K ''0'' (js_get object ''lastHeartbeat''),
          RerankerInfo_healthy = json_boolean (js_get object ''healthy''),
          RerankerInfo_metadata = json_dict K (js_get object ''metadata'')\<rparr>)"

definition toJSON_RerankerInfo :: "RerankerInfo \<Rightarrow> js_val" where
  "toJSON_RerankerInfo m =
     json_obj
      [(RerankerInfo_rerankerId m \<noteq> [], ''rerankerId'', JStr (RerankerInfo_rerankerId m)),
       (RerankerInfo_grpcAddress m \<noteq> [], ''grpcAddress'', JStr (RerankerInfo_grpcAddress m)),
       (RerankerInfo_lastHeartbeat m \<noteq> ''0'', ''lastHeartbeat'', JStr (RerankerInfo_lastHeartbeat m)),
       (RerankerInfo_healthy m, ''healthy'', JBool (RerankerInfo_healthy m)),
       (RerankerInfo_metadata m \<noteq> [], ''metadata'', json_of_dict (RerankerInfo_metadata m))]"

definition fromJSON_ListRerankersResponse :: "text_conv \<Rightarrow> js_val \<Rightarrow> thrown + ListRerankersResponse" where
  "fromJSON_ListRerankersResponse K object =
     res_bind (json_subs (fromJSON_RerankerInfo K) (js_get object ''rerankers'')) (\<lambda>rerankers'.
       Inr \<lparr>ListRerankersResponse_rerankers = rerankers'\<rparr>)"

definition toJSON_ListRerankersResponse :: "ListRerankersResponse \<Rightarrow> js_val" where
  "toJSON_ListRerankersResponse m =
     json_obj
      [(ListRerankersResponse_rerankers m \<noteq> [], ''rerankers'', JArr (map toJSON_RerankerInfo (ListRerankersResponse_rerankers m)))]"

definition fromJSON_GetRerankerRequest :: "text_conv \<Rightarrow> js_val \<Rightarrow> thrown + GetRerankerRequest" where
  "fromJSON_GetRerankerRequest K object = Inr GetRerankerRequest"

definition toJSON_GetRerankerRequest :: "GetRerankerRequest \<Rightarrow> js_val" where
  "toJSON_GetRerankerRequest m = json_obj []"

definition fromJSON_GetRerankerResponse :: "text_conv \<Rightarrow> js_val \<Rightarrow> thrown + GetRerankerResponse" where
  "fromJSON_GetRerankerResponse K object =
     with_object object (\<lambda>object.
       Inr \<lparr>GetRerankerResponse_rerankerId = json_string K [] (js_get object ''rerankerId''),
          GetRerankerResponse_grpcAddress = json_string K [] (js_get object ''grpcAddress'')\<rparr>)"

definition toJSON_GetRerankerResponse :: "GetRerankerResponse \<Rightarrow> js_val" where
  "toJSON_GetRerankerResponse m =
     json_obj
      [(GetRerankerResponse_rerankerId m \<noteq> [], ''rerankerId'', JStr (GetRerankerResponse_rerankerId m)),
       (GetRerankerResponse_grpcAddress m \<noteq> [], ''grpcAddress'', JStr (GetRerankerResponse_grpcAddress m))]"

definition fromJSON_ListWorkersForCollectionRequest :: "text_conv \<Rightarrow> js_val \<Rightarrow> thrown + ListWorkersForCollectionRequest" where
  "fromJSON_ListWorkersForCollectionRequest K object =
     with_object object (\<lambda>object.
       Inr \<lparr>ListWorkersForCollectionRequest_collection = json_string K [] (js_get object ''collection'')\<rparr>)"

definition toJSON_ListWorkersForCollectionRequest :: "ListWorkersForCollectionRequest \<Rightarrow> js_val" where
  "toJSON_ListWorkersForCollectionRequest m =
     json_obj
      [(ListWorkersForCollectionRequest_collection m \<noteq> [], ''collection'', JStr (ListWorkersForCollectionRequest_collection m))]"

definition fromJSON_ListWorkersForCollectionResponse :: "text_conv \<Rightarrow> js_val \<Rightarrow> thrown + ListWorkersForCollectionResponse" where
  "fromJSON_ListWorkersForCollectionResponse K object =
     Inr \<lparr>ListWorkersForCollectionResponse_grpcAddresses = json_strings K (js_get object ''grpcAddresses'')\<rparr>"

definition toJSON_ListWorkersForCollectionResponse :: "ListWorkersForCollectionResponse \<Rightarrow> js_val" where
  "toJSON_ListWorkersForCollectionResponse m =
     json_obj
      [(ListWorkersForCollectionResponse_grpcAddresses m \<noteq> [], ''grpcAddresses'', JArr (map JStr (ListWorkersForCollectionResponse_grpcAddresses m)))]"

definition fromJSON_DrainWorkerRequest :: "text_conv \<Rightarrow> js_val \<Rightarrow> thrown + DrainWorkerRequest" where
  "fromJSON_DrainWorkerRequest K object =
     with_object object (\<lambda>object.
       Inr \<lparr>DrainWorkerRequest_workerId = json_string K [] (js_get object ''workerId'')\<rparr>)"

definition toJSON_DrainWorkerRequest :: "DrainWorkerRequest \<Rightarrow> js_val" where
  "toJSON_DrainWorkerRequest m =
     json_obj
      [(DrainWorkerRequest_workerId m \<noteq> [], ''workerId'', JStr (DrainWorkerRequest_workerId m))]"

definition fromJSON_DrainWorkerResponse :: "text_conv \<Rightarrow> js_val \<Rightarrow> thrown + DrainWorkerResponse" where
  "fromJSON_DrainWorkerResponse K object =
     with_object object (\<lambda>object.
       Inr \<lparr>DrainWorkerResponse_success = json_boolean (js_get object ''success'')\<rparr>)"

definition toJSON_DrainWorkerResponse :: "DrainWorkerResponse \<Rightarrow> js_val" where
  "toJSON_DrainWorkerResponse m =
     json_obj
      [(DrainWorkerResponse_success m, ''success'', JBool (DrainWorkerResponse_success m))]"

definition fromJSON_RemoveWorkerRequest :: "text_conv \<Rightarrow> js_val \<Rightarrow> thrown + RemoveWorkerRequest" where
  "fromJSON_RemoveWorkerRequest K object =
     with_object object (\<lambda>object.
       Inr \<lparr>RemoveWorkerRequest_workerId = json_string K [] (js_get object ''workerId'')\<rparr>)"

definition toJSON_RemoveWorkerRequest :: "RemoveWorkerRequest \<Rightarrow> js_val" where
  "toJSON_RemoveWorkerRequest m =
     json_obj
      [(RemoveWorkerRequest_workerId m \<noteq> [], ''workerId'', JStr (RemoveWorkerRequest_workerId m))]"

definition fromJSON_RemoveWorkerResponse :: "text_conv \<Rightarrow> js_val \<Rightarrow> thrown + RemoveWorkerResponse" where
  "fromJSON_RemoveWorkerResponse K object =
     with_object object (\<lambda>object.
       Inr \<lparr>RemoveWorkerResponse_success = json_boolean (js_get object ''success'')\<rparr>)"

definition toJSON_RemoveWorkerResponse :: "RemoveWorkerResponse \<Rightarrow> js_val" where
  "toJSON_RemoveWorkerResponse m =
     json_obj
      [(RemoveWorkerResponse_success m, ''success'', JBool (RemoveWorkerResponse_success m))]"

definition fromJSON_RebalanceRequest :: "text_conv \<Rightarrow> js_val \<Rightarrow> thrown + RebalanceRequest" where
  "fromJSON_RebalanceRequest K object = Inr RebalanceRequest"

definition toJSON_RebalanceRequest :: "RebalanceRequest \<Rightarrow> js_val" where
  "toJSON_RebalanceRequest m = json_obj []"

definition fromJSON_RebalanceResponse :: "text_conv \<Rightarrow> js_val \<Rightarrow> thrown + RebalanceResponse" where
  "fromJSON_RebalanceResponse K object =
     with_object object (\<lambda>object.
       Inr \<lparr>RebalanceResponse_started = json_boolean (js_get object ''started'')\<rparr>)"

definition toJSON_RebalanceResponse :: "RebalanceResponse \<Rightarrow> js_val" where
  "toJSON_RebalanceResponse m =
     json_obj
      [(RebalanceResponse_started m, ''started'', JBool (RebalanceResponse_started m))]"

definition fromJSON_PdCreateCollectionRequest :: "text_conv \<Rightarrow> js_val \<Rightarrow> thrown + PdCreateCollectionRequest" where
  "fromJSON_PdCreateCollectionRequest K object =
     with_object object (\<lambda>object.
       Inr \<lparr>PdCreateCollectionRequest_name = json_string K [] (js_get object ''name''),
          PdCreateCollectionRequest_dimension = json_number K (js_get object ''dimension''),
          PdCreateCollectionRequest_distance = json_string K [] (js_get object ''distance'')\<rparr>)"

definition toJSON_PdCreateCollectionRequest :: "PdCreateCollectionRequest \<Rightarrow> js_val" where
  "toJSON_PdCreateCollectionRequest m =
     json_obj
      [(PdCreateCollectionRequest_name m \<noteq> [], ''name'', JStr (PdCreateCollectionRequest_name m)),
       (\<not> js_eq (PdCreateCollectionRequest_dimension m) (Fin 0), ''dimension'', JNum (js_round (PdCreateCollectionRequest_dimension m))),
       (PdCreateCollectionRequest_distance m \<noteq> [], ''distance'', JStr (PdCreateCollectionRequest_distance m))]"

definition fromJSON_PdCreateCollectionResponse :: "text_conv \<Rightarrow> js_val \<Rightarrow> thrown + PdCreateCollectionResponse" where
  "fromJSON_PdCreateCollectionResponse K object =
     with_object object (\<lambda>object.
       Inr \<lparr>PdCreateCollectionResponse_success = json_boolean (js_get object ''success'')\<rparr>)"

definition toJSON_PdCreateCollectionResponse :: "PdCreateCollectionResponse \<Rightarrow> js_val" where
  "toJSON_PdCreateCollectionResponse m =
     json_obj
      [(PdCreateCollectionResponse_success m, ''success'', JBool (PdCreateCollectionResponse_success m))]"

definition fromJSON_PdListCollectionsRequest :: "text_conv \<Rightarrow> js_val \<Rightarrow> thrown + PdListCollectionsRequest" where
  "fromJSON_PdListCollectionsRequest K object = Inr PdListCollectionsRequest"

definition toJSON_PdListCollectionsRequest :: "PdListCollectionsRequest \<Rightarrow> js_val" where
  "toJSON_PdListCollectionsRequest m = json_obj []"

definition fromJSON_PdListCollectionsResponse :: "text_conv \<Rightarrow> js_val \<Rightarrow> thrown + PdListCollectionsResponse" where
  "fromJSON_PdListCollectionsResponse K object =
     Inr \<lparr>PdListCollectionsResponse_collections = json_strings K (js_get object ''collections'')\<rparr>"

definition toJSON_PdListCollectionsResponse :: "PdListCollectionsResponse \<Rightarrow> js_val" where
  "toJSON_PdListCollectionsResponse m =
     json_obj
      [(PdListCollectionsResponse_collections m \<noteq> [], ''collections'', JArr (map JStr (PdListCollectionsResponse_collections m)))]"

definition fromJSON_PdDeleteCollectionRequest :: "text_conv \<Rightarrow> js_val \<Rightarrow> thrown + PdDeleteCollectionRequest" where
  "fromJSON_PdDeleteCollectionRequest K object =
     with_object object (\<lambda>object.
       Inr \<lparr>PdDeleteCollectionRequest_name = json_string K [] (js_get object ''name'')\<rparr>)"

definition toJSON_PdDeleteCollectionRequest :: "PdDeleteCollectionRequest \<Rightarrow> js_val" where
  "toJSON_PdDeleteCollectionRequest m =
     json_obj
      [(PdDeleteCollectionRequest_name m \<noteq> [], ''name'', JStr (PdDeleteCollectionRequest_name m))]"

definition fromJSON_PdDeleteCollectionResponse :: "text_conv \<Rightarrow> js_val \<Rightarrow> thrown + PdDeleteCollectionResponse" where
  "fromJSON_PdDeleteCollectionResponse K object =
     with_object object (\<lambda>object.
       Inr \<lparr>PdDeleteCollectionResponse_success = json_boolean (js_get object ''success'')\<rparr>)"

definition toJSON_PdDeleteCollectionResponse :: "PdDeleteCollectionResponse \<Rightarrow> js_val" where
  "toJSON_PdDeleteCollectionResponse m =
     json_obj
      [(PdDeleteCollectionResponse_success m, ''success'', JBool (PdDeleteCollectionResponse_success m))]"

definition fromJSON_PdGetCollectionStatusRequest :: "text_conv \<Rightarrow> js_val \<Rightarrow> thrown + PdGetCollectionStatusRequest" where
  "fromJSON_PdGetCollectionStatusRequest K object =
     with_object object (\<lambda>object.
       Inr \<lparr>PdGetCollectionStatusRequest_name = json_string K [] (js_get object ''name'')\<rparr>)"

definition toJSON_PdGetCollectionStatusRequest :: "PdGetCollectionStatusRequest \<Rightarrow> js_val" where
  "toJSON_PdGetCollectionStatusRequest m =
     json_obj
      [(PdGetCollectionStatusRequest_name m \<noteq> [], ''name'', JStr (PdGetCollectionStatusRequest_name m))]"

definition fromJSON_PdShardStatus :: "text_conv \<Rightarrow> js_val \<Rightarrow> thrown + PdShardStatus" where
  "fromJSON_PdShardStatus K object =
     with_object object (\<lambda>object.
       Inr \<lparr>PdShardStatus_shardId = json_number K (js_get object ''shardId''),
          PdShardStatus_replicas = json_strings K (js_get object ''replicas''),
          PdShardStatus_leaderId = json_string K ''0'' (js_get object ''leaderId''),
          PdShardStatus_ready = json_boolean (js_get object ''ready''),
          PdShardStatus_keyRangeStart = json_string K ''0'' (js_get object ''keyRangeStart''),
          PdShardStatus_keyRangeEnd = json_string K ''0'' (js_get object ''keyRangeEnd''),
          PdShardStatus_shardEpoch = json_string K ''0'' (js_get object ''shardEpoch''),
          PdShardStatus_leaderGrpcAddress = json_string K [] (js_get object ''leaderGrpcAddress''),
          PdShardStatus_replicaGrpcAddresses = json_strings K (js_get object ''replicaGrpcAddresses'')\<rparr>)"

definition toJSON_PdShardStatus :: "PdShardStatus \<Rightarrow> js_val" where
  "toJSON_PdShardStatus m =
     json_obj
      [(\<not> js_eq (PdShardStatus_shardId m) (Fin 0), ''shardId'', JNum (js_round (PdShardStatus_shardId m))),
       (PdShardStatus_replicas m \<noteq> [], ''replicas'', JArr (map JStr (PdShardStatus_replicas m))),
       (PdShardStatus_leaderId m \<noteq> ''0'', ''leaderId'', JStr (PdShardStatus_leaderId m)),
       (PdShardStatus_ready m, ''ready'', JBool (PdShardStatus_ready m)),
       (PdShardStatus_keyRangeStart m \<noteq> ''0'', ''keyRangeStart'', JStr (PdShardStatus_keyRangeStart m)),
       (PdShardStatus_keyRangeEnd m \<noteq> ''0'', ''keyRangeEnd'', JStr (PdShardStatus_keyRangeEnd m)),
       (PdShardStatus_shardEpoch m \<noteq> ''0'', ''shardEpoch'', JStr (PdShardStatus_shardEpoch m)),
       (PdShardStatus_leaderGrpcAddress m \<noteq> [], ''leaderGrpcAddress'', JStr (PdShardStatus_leaderGrpcAddress m)),
       (PdShardStatus_replicaGrpcAddresses m \<noteq> [], ''replicaGrpcAddresses'', JArr (map JStr (PdShardStatus_replicaGrpcAddresses m)))]"

definition fromJSON_PdGetCollectionStatusResponse :: "text_conv \<Rightarrow> js_val \<Rightarrow> thrown + PdGetCollectionStatusResponse" where
  "fromJSON_PdGetCollectionStatusResponse K object =
     with_object object (\<lambda>object.
       res_bind (json_subs (fromJSON_PdShardStatus K) (js_get object ''shards'')) (\<lambda>shards'.
       Inr \<lparr>PdGetCollectionStatusResponse_name = json_string K [] (js_get object ''name''),
          PdGetCollectionStatusResponse_dimension = json_number K (js_get object ''dimension''),
          PdGetCollectionStatusResponse_distance = json_string K [] (js_get object ''distance''),
          PdGetCollectionStatusResponse_shards = shards'\<rparr>))"

definition toJSON_PdGetCollectionStatusResponse :: "PdGetCollectionStatusResponse \<Rightarrow> js_val" where
  "toJSON_PdGetCollectionStatusResponse m =
     json_obj
      [(PdGetCollectionStatusResponse_name m \<noteq> [], ''name'', JStr (PdGetCollectionStatusResponse_name m)),
       (\<not> js_eq (PdGetCollectionStatusResponse_dimension m) (Fin 0), ''dimension'', JNum (js_round (PdGetCollectionStatusResponse_dimension m))),
       (PdGetCollectionStatusResponse_distance m \<noteq> [], ''distance'', JStr (PdGetCollectionStatusResponse_distance m)),
       (PdGetCollectionStatusResponse_shards m \<noteq> [], ''shards'', JArr (map toJSON_PdShardStatus (PdGetCollectionStatusResponse_shards m)))]"

section \<open>What \<^verbatim>\<open>toJSON\<close> writes, \<^verbatim>\<open>fromJSON\<close> reads\<close>

lemma workerState_back: "n \<in> workerState_values \<Longrightarrow> json_enum workerStateFromJSON (given (\<not> js_eq n (Fin 0)) (JStr (workerStateToJSON n))) = n"
  by (auto simp: workerState_values_def workerStateFromJSON_def workerStateToJSON_def json_enum_def given_def isSet_def js_eq_def)

lemma isSet_toJSON_GetLeaderResponse: "isSet (toJSON_GetLeaderResponse m)"
  by (simp add: toJSON_GetLeaderResponse_def isSet_json_obj)

lemma isSet_toJSON_GetWorkerRequest: "isSet (toJSON_GetWorkerRequest m)"
  by (simp add: toJSON_GetWorkerRequest_def isSet_json_obj)

lemma isSet_toJSON_GetWorkerResponse: "isSet (toJSON_GetWorkerResponse m)"
  by (simp add: toJSON_GetWorkerResponse_def isSet_json_obj)

lemma isSet_toJSON_RegisterWorkerRequest: "isSet (toJSON_RegisterWorkerRequest m)"
  by (simp add: toJSON_RegisterWorkerRequest_def isSet_json_obj)

lemma isSet_toJSON_RegisterWorkerResponse: "isSet (toJSON_RegisterWorkerResponse m)"
  by (simp add: toJSON_RegisterWorkerResponse_def isSet_json_obj)

lemma isSet_toJSON_ShardLeaderInfo: "isSet (toJSON_ShardLeaderInfo m)"
  by (simp add: toJSON_ShardLeaderInfo_def isSet_json_obj)

lemma isSet_toJSON_ShardMembershipInfo: "isSet (toJSON_ShardMembershipInfo m)"
  by (simp add: toJSON_ShardMembershipInfo_def isSet_json_obj)

lemma isSet_toJSON_ShardProgressInfo: "isSet (toJSON_ShardProgressInfo m)"
  by (simp add: toJSON_ShardProgressInfo_def isSet_json_obj)

lemma isSet_toJSON_ShardLeaderTransferAck: "isSet (toJSON_ShardLeaderTransferAck m)"
  by (simp add: toJSON_ShardLeaderTransferAck_def isSet_json_obj)

lemma isSet_toJSON_ShardMetrics: "isSet (toJSON_ShardMetrics m)"
  by (simp add: toJSON_ShardMetrics_def isSet_json_obj)

lemma isSet_toJSON_HeartbeatRequest: "isSet (toJSON_HeartbeatRequest m)"
  by (simp add: toJSON_HeartbeatRequest_def isSet_json_obj)

lemma isSet_toJSON_HeartbeatResponse: "isSet (toJSON_HeartbeatResponse m)"
  by (simp add: toJSON_HeartbeatResponse_def isSet_json_obj)

lemma isSet_toJSON_WorkerInfo_MetadataEntry: "isSet (toJSON_WorkerInfo_MetadataEntry m)"
  by (simp add: toJSON_WorkerInfo_MetadataEntry_def isSet_json_obj)

lemma isSet_toJSON_WorkerInfo: "isSet (toJSON_WorkerInfo m)"
  by (simp add: toJSON_WorkerInfo_def isSet_json_obj)

lemma isSet_toJSON_ListWorkersResponse: "isSet (toJSON_ListWorkersResponse m)"
  by (simp add: toJSON_ListWorkersResponse_def isSet_json_obj)

lemma isSet_toJSON_RegisterRerankerRequest: "isSet (toJSON_RegisterRerankerRequest m)"
  by (simp add: toJSON_RegisterRerankerRequest_def isSet_json_obj)

lemma isSet_toJSON_RegisterRerankerResponse: "isSet (toJSON_RegisterRerankerResponse m)"
  by (simp add: toJSON_RegisterRerankerResponse_def isSet_json_obj)

lemma isSet_toJSON_RerankerHeartbeatRequest: "isSet (toJSON_RerankerHeartbeatRequest m)"
  by (simp add: toJSON_RerankerHeartbeatRequest_def isSet_json_obj)

lemma isSet_toJSON_RerankerHeartbeatResponse: "isSet (toJSON_RerankerHeartbeatResponse m)"
  by (simp add: toJSON_RerankerHeartbeatResponse_def isSet_json_obj)

lemma isSet_toJSON_RerankerInfo_MetadataEntry: "isSet (toJSON_RerankerInfo_MetadataEntry m)"
  by (simp add: toJSON_RerankerInfo_MetadataEntry_def isSet_json_obj)

lemma isSet_toJSON_RerankerInfo: "isSet (toJSON_RerankerInfo m)"
  by (simp add: toJSON_RerankerInfo_def isSet_json_obj)

lemma isSet_toJSON_ListRerankersResponse: "isSet (toJSON_ListRerankersResponse m)"
  by (simp add: toJSON_ListRerankersResponse_def isSet_json_obj)

lemma isSet_toJSON_GetRerankerResponse: "isSet (toJSON_GetRerankerResponse m)"
  by (simp add: toJSON_GetRerankerResponse_def isSet_json_obj)

lemma isSet_toJSON_ListWorkersForCollectionRequest: "isSet (toJSON_ListWorkersForCollectionRequest m)"
  by (simp add: toJSON_ListWorkersForCollectionRequest_def isSet_json_obj)

lemma isSet_toJSON_ListWorkersForCollectionResponse: "isSet (toJSON_ListWorkersForCollectionResponse m)"
  by (simp add: toJSON_ListWorkersForCollectionResponse_def isSet_json_obj)

lemma isSet_toJSON_DrainWorkerRequest: "isSet (toJSON_DrainWorkerRequest m)"
  by (simp add: toJSON_DrainWorkerRequest_def isSet_json_obj)

lemma isSet_toJSON_DrainWorkerResponse: "isSet (toJSON_DrainWorkerResponse m)"
  by (simp add: toJSON_DrainWorkerResponse_def isSet_json_obj)

lemma isSet_toJSON_RemoveWorkerRequest: "isSet (toJSON_RemoveWorkerRequest m)"
  by (simp add: toJSON_RemoveWorkerRequest_def isSet_json_obj)

lemma isSet_toJSON_RemoveWorkerResponse: "isSet (toJSON_RemoveWorkerResponse m)"
  by (simp add: toJSON_RemoveWorkerResponse_def isSet_json_obj)

lemma isSet_toJSON_RebalanceResponse: "isSet (toJSON_RebalanceResponse m)"
  by (simp add: toJSON_RebalanceResponse_def isSet_json_obj)

lemma isSet_toJSON_PdCreateCollectionRequest: "isSet (toJSON_PdCreateCollectionRequest m)"
  by (simp add: toJSON_PdCreateCollectionRequest_def isSet_json_obj)

lemma isSet_toJSON_PdCreateCollectionResponse: "isSet (toJSON_PdCreateCollectionResponse m)"
  by (simp add: toJSON_PdCreateCollectionResponse_def isSet_json_obj)

lemma isSet_toJSON_PdListCollectionsResponse: "isSet (toJSON_PdListCollectionsResponse m)"
  by (simp add: toJSON_PdListCollectionsResponse_def isSet_json_obj)

lemma isSet_toJSON_PdDeleteCollectionRequest: "isSet (toJSON_PdDeleteCollectionRequest m)"
  by (simp add: toJSON_PdDeleteCollectionRequest_def isSet_json_obj)

lemma isSet_toJSON_PdDeleteCollectionResponse: "isSet (toJSON_PdDeleteCollectionResponse m)"
  by (simp add: toJSON_PdDeleteCollectionResponse_def isSet_json_obj)

lemma isSet_toJSON_PdGetCollectionStatusRequest: "isSet (toJSON_PdGetCollectionStatusRequest m)"
  by (simp add: toJSON_PdGetCollectionStatusRequest_def isSet_json_obj)

lemma isSet_toJSON_PdShardStatus: "isSet (toJSON_PdShardStatus m)"
  by (simp add: toJSON_PdShardStatus_def isSet_json_obj)

lemma isSet_toJSON_PdGetCollectionStatusResponse: "isSet (toJSON_PdGetCollectionStatusResponse m)"
  by (simp add: toJSON_PdGetCollectionStatusResponse_def isSet_json_obj)

lemma json_GetLeaderRequest: "fromJSON_GetLeaderRequest K (toJSON_GetLeaderRequest m) = Inr m"
  by (cases m) (simp add: fromJSON_GetLeaderRequest_def)

lemma json_GetLeaderResponse:
  "fromJSON_GetLeaderResponse K (toJSON_GetLeaderResponse m) = Inr m"
  by (cases m) (simp add: fromJSON_GetLeaderResponse_def toJSON_GetLeaderResponse_def json_back)

lemma json_GetWorkerRequest:
  "fromJSON_GetWorkerRequest K (toJSON_GetWorkerRequest m) = Inr m"
  by (cases m) (simp add: fromJSON_GetWorkerRequest_def toJSON_GetWorkerRequest_def json_back)

definition json_ok_GetWorkerResponse :: "GetWorkerResponse \<Rightarrow> bool" where
  "json_ok_GetWorkerResponse m \<longleftrightarrow> js_round (GetWorkerResponse_shardId m) = GetWorkerResponse_shardId m"

lemma json_GetWorkerResponse:
  assumes "json_ok_GetWorkerResponse m"
  shows "fromJSON_GetWorkerResponse K (toJSON_GetWorkerResponse m) = Inr m"
  using assms
  by (cases m) (simp add: fromJSON_GetWorkerResponse_def toJSON_GetWorkerResponse_def json_back json_ok_GetWorkerResponse_def)

definition json_ok_RegisterWorkerRequest :: "RegisterWorkerRequest \<Rightarrow> bool" where
  "json_ok_RegisterWorkerRequest m \<longleftrightarrow> js_round (RegisterWorkerRequest_cpuCores m) = RegisterWorkerRequest_cpuCores m"

lemma json_RegisterWorkerRequest:
  assumes "json_ok_RegisterWorkerRequest m"
  shows "fromJSON_RegisterWorkerRequest K (toJSON_RegisterWorkerRequest m) = Inr m"
  using assms
  by (cases m) (simp add: fromJSON_RegisterWorkerRequest_def toJSON_RegisterWorkerRequest_def json_back json_ok_RegisterWorkerRequest_def)

lemma json_RegisterWorkerResponse:
  "fromJSON_RegisterWorkerResponse K (toJSON_RegisterWorkerResponse m) = Inr m"
  by (cases m) (simp add: fromJSON_RegisterWorkerResponse_def toJSON_RegisterWorkerResponse_def json_back)

lemma json_ShardLeaderInfo:
  "fromJSON_ShardLeaderInfo K (toJSON_ShardLeaderInfo m) = Inr m"
  by (cases m) (simp add: fromJSON_ShardLeaderInfo_def toJSON_ShardLeaderInfo_def json_back)

lemma json_ShardMembershipInfo:
  "fromJSON_ShardMembershipInfo K (toJSON_ShardMembershipInfo m) = Inr m"
  by (cases m) (simp add: fromJSON_ShardMembershipInfo_def toJSON_ShardMembershipInfo_def json_back)

lemma json_ShardProgressInfo:
  "fromJSON_ShardProgressInfo K (toJSON_ShardProgressInfo m) = Inr m"
  by (cases m) (simp add: fromJSON_ShardProgressInfo_def toJSON_ShardProgressInfo_def json_back)

lemma json_ShardLeaderTransferAck:
  "fromJSON_ShardLeaderTransferAck K (toJSON_ShardLeaderTransferAck m) = Inr m"
  by (cases m) (simp add: fromJSON_ShardLeaderTransferAck_def toJSON_ShardLeaderTransferAck_def json_back)

lemma json_ShardMetrics:
  "fromJSON_ShardMetrics K (toJSON_ShardMetrics m) = Inr m"
  by (cases m) (simp add: fromJSON_ShardMetrics_def toJSON_ShardMetrics_def json_back)

lemma json_HeartbeatRequest:
  "fromJSON_HeartbeatRequest K (toJSON_HeartbeatRequest m) = Inr m"
  by (cases m) (simp add: fromJSON_HeartbeatRequest_def toJSON_HeartbeatRequest_def json_back json_ShardLeaderInfo isSet_toJSON_ShardLeaderInfo json_ShardMetrics isSet_toJSON_ShardMetrics json_ShardMembershipInfo isSet_toJSON_ShardMembershipInfo json_ShardProgressInfo isSet_toJSON_ShardProgressInfo json_ShardLeaderTransferAck isSet_toJSON_ShardLeaderTransferAck)

lemma json_HeartbeatResponse:
  "fromJSON_HeartbeatResponse K (toJSON_HeartbeatResponse m) = Inr m"
  by (cases m) (simp add: fromJSON_HeartbeatResponse_def toJSON_HeartbeatResponse_def json_back)

lemma json_ListWorkersRequest: "fromJSON_ListWorkersRequest K (toJSON_ListWorkersRequest m) = Inr m"
  by (cases m) (simp add: fromJSON_ListWorkersRequest_def)

lemma json_WorkerInfo_MetadataEntry:
  "fromJSON_WorkerInfo_MetadataEntry K (toJSON_WorkerInfo_MetadataEntry m) = Inr m"
  by (cases m) (simp add: fromJSON_WorkerInfo_MetadataEntry_def toJSON_WorkerInfo_MetadataEntry_def json_back)

definition json_ok_WorkerInfo :: "WorkerInfo \<Rightarrow> bool" where
  "json_ok_WorkerInfo m \<longleftrightarrow> js_obj_ok (WorkerInfo_metadata m) \<and> WorkerInfo_state m \<in> workerState_values"

lemma json_WorkerInfo:
  assumes "json_ok_WorkerInfo m"
  shows "fromJSON_WorkerInfo K (toJSON_WorkerInfo m) = Inr m"
  using assms
  by (cases m) (simp add: fromJSON_WorkerInfo_def toJSON_WorkerInfo_def json_back json_ok_WorkerInfo_def workerState_back)

definition json_ok_ListWorkersResponse :: "ListWorkersResponse \<Rightarrow> bool" where
  "json_ok_ListWorkersResponse m \<longleftrightarrow> (\<forall>v \<in> set (ListWorkersResponse_workers m). json_ok_WorkerInfo v)"

lemma json_ListWorkersResponse:
  assumes "json_ok_ListWorkersResponse m"
  shows "fromJSON_ListWorkersResponse K (toJSON_ListWorkersResponse m) = Inr m"
  using assms
  by (cases m) (simp add: fromJSON_ListWorkersResponse_def toJSON_ListWorkersResponse_def json_back json_ok_ListWorkersResponse_def json_WorkerInfo isSet_toJSON_WorkerInfo)

definition json_ok_RegisterRerankerRequest :: "RegisterRerankerRequest \<Rightarrow> bool" where
  "json_ok_RegisterRerankerRequest m \<longleftrightarrow> js_round (RegisterRerankerRequest_cpuCores m) = RegisterRerankerRequest_cpuCores m"

lemma json_RegisterRerankerRequest:
  assumes "json_ok_RegisterRerankerRequest m"
  shows "fromJSON_RegisterRerankerRequest K (toJSON_RegisterRerankerRequest m) = Inr m"
  using assms
  by (cases m) (simp add: fromJSON_RegisterRerankerRequest_def toJSON_RegisterRerankerRequest_def json_back json_ok_RegisterRerankerRequest_def)

lemma json_RegisterRerankerResponse:
  "fromJSON_RegisterRerankerResponse K (toJSON_RegisterRerankerResponse m) = Inr m"
  by (cases m) (simp add: fromJSON_RegisterRerankerResponse_def toJSON_RegisterRerankerResponse_def json_back)

lemma json_RerankerHeartbeatRequest:
  "fromJSON_RerankerHeartbeatRequest K (toJSON_RerankerHeartbeatRequest m) = Inr m"
  by (cases m) (simp add: fromJSON_RerankerHeartbeatRequest_def toJSON_RerankerHeartbeatRequest_def json_back)

lemma json_RerankerHeartbeatResponse:
  "fromJSON_RerankerHeartbeatResponse K (toJSON_RerankerHeartbeatResponse m) = Inr m"
  by (cases m) (simp add: fromJSON_RerankerHeartbeatResponse_def toJSON_RerankerHeartbeatResponse_def json_back)

lemma json_ListRerankersRequest: "fromJSON_ListRerankersRequest K (toJSON_ListRerankersRequest m) = Inr m"
  by (cases m) (simp add: fromJSON_ListRerankersRequest_def)

lemma json_RerankerInfo_MetadataEntry:
  "fromJSON_RerankerInfo_MetadataEntry K (toJSON_RerankerInfo_MetadataEntry m) = Inr m"
  by (cases m) (simp add: fromJSON_RerankerInfo_MetadataEntry_def toJSON_RerankerInfo_MetadataEntry_def json_back)

definition json_ok_RerankerInfo :: "RerankerInfo \<Rightarrow> bool" where
  "json_ok_RerankerInfo m \<longleftrightarrow> js_obj_ok (RerankerInfo_metadata m)"

lemma json_RerankerInfo:
  assumes "json_ok_RerankerInfo m"
  shows "fromJSON_RerankerInfo K (toJSON_RerankerInfo m) = Inr m"
  using assms
  by (cases m) (simp add: fromJSON_RerankerInfo_def toJSON_RerankerInfo_def json_back json_ok_RerankerInfo_def)

definition json_ok_ListRerankersResponse :: "ListRerankersResponse \<Rightarrow> bool" where
  "json_ok_ListRerankersResponse m \<longleftrightarrow> (\<forall>v \<in> set (ListRerankersResponse_rerankers m). json_ok_RerankerInfo v)"

lemma json_ListRerankersResponse:
  assumes "json_ok_ListRerankersResponse m"
  shows "fromJSON_ListRerankersResponse K (toJSON_ListRerankersResponse m) = Inr m"
  using assms
  by (cases m) (simp add: fromJSON_ListRerankersResponse_def toJSON_ListRerankersResponse_def json_back json_ok_ListRerankersResponse_def json_RerankerInfo isSet_toJSON_RerankerInfo)

lemma json_GetRerankerRequest: "fromJSON_GetRerankerRequest K (toJSON_GetRerankerRequest m) = Inr m"
  by (cases m) (simp add: fromJSON_GetRerankerRequest_def)

lemma json_GetRerankerResponse:
  "fromJSON_GetRerankerResponse K (toJSON_GetRerankerResponse m) = Inr m"
  by (cases m) (simp add: fromJSON_GetRerankerResponse_def toJSON_GetRerankerResponse_def json_back)

lemma json_ListWorkersForCollectionRequest:
  "fromJSON_ListWorkersForCollectionRequest K (toJSON_ListWorkersForCollectionRequest m) = Inr m"
  by (cases m) (simp add: fromJSON_ListWorkersForCollectionRequest_def toJSON_ListWorkersForCollectionRequest_def json_back)

lemma json_ListWorkersForCollectionResponse:
  "fromJSON_ListWorkersForCollectionResponse K (toJSON_ListWorkersForCollectionResponse m) = Inr m"
  by (cases m) (simp add: fromJSON_ListWorkersForCollectionResponse_def toJSON_ListWorkersForCollectionResponse_def json_back)

lemma json_DrainWorkerRequest:
  "fromJSON_DrainWorkerRequest K (toJSON_DrainWorkerRequest m) = Inr m"
  by (cases m) (simp add: fromJSON_DrainWorkerRequest_def toJSON_DrainWorkerRequest_def json_back)

lemma json_DrainWorkerResponse:
  "fromJSON_DrainWorkerResponse K (toJSON_DrainWorkerResponse m) = Inr m"
  by (cases m) (simp add: fromJSON_DrainWorkerResponse_def toJSON_DrainWorkerResponse_def json_back)

lemma json_RemoveWorkerRequest:
  "fromJSON_RemoveWorkerRequest K (toJSON_RemoveWorkerRequest m) = Inr m"
  by (cases m) (simp add: fromJSON_RemoveWorkerRequest_def toJSON_RemoveWorkerRequest_def json_back)

lemma json_RemoveWorkerResponse:
  "fromJSON_RemoveWorkerResponse K (toJSON_RemoveWorkerResponse m) = Inr m"
  by (cases m) (simp add: fromJSON_RemoveWorkerResponse_def toJSON_RemoveWorkerResponse_def json_back)

lemma json_RebalanceRequest: "fromJSON_RebalanceRequest K (toJSON_RebalanceRequest m) = Inr m"
  by (cases m) (simp add: fromJSON_RebalanceRequest_def)

lemma json_RebalanceResponse:
  "fromJSON_RebalanceResponse K (toJSON_RebalanceResponse m) = Inr m"
  by (cases m) (simp add: fromJSON_RebalanceResponse_def toJSON_RebalanceResponse_def json_back)

definition json_ok_PdCreateCollectionRequest :: "PdCreateCollectionRequest \<Rightarrow> bool" where
  "json_ok_PdCreateCollectionRequest m \<longleftrightarrow> js_round (PdCreateCollectionRequest_dimension m) = PdCreateCollectionRequest_dimension m"

lemma json_PdCreateCollectionRequest:
  assumes "json_ok_PdCreateCollectionRequest m"
  shows "fromJSON_PdCreateCollectionRequest K (toJSON_PdCreateCollectionRequest m) = Inr m"
  using assms
  by (cases m) (simp add: fromJSON_PdCreateCollectionRequest_def toJSON_PdCreateCollectionRequest_def json_back json_ok_PdCreateCollectionRequest_def)

lemma json_PdCreateCollectionResponse:
  "fromJSON_PdCreateCollectionResponse K (toJSON_PdCreateCollectionResponse m) = Inr m"
  by (cases m) (simp add: fromJSON_PdCreateCollectionResponse_def toJSON_PdCreateCollectionResponse_def json_back)

lemma json_PdListCollectionsRequest: "fromJSON_PdListCollectionsRequest K (toJSON_PdListCollectionsRequest m) = Inr m"
  by (cases m) (simp add: fromJSON_PdListCollectionsRequest_def)

lemma json_PdListCollectionsResponse:
  "fromJSON_PdListCollectionsResponse K (toJSON_PdListCollectionsResponse m) = Inr m"
  by (cases m) (simp add: fromJSON_PdListCollectionsResponse_def toJSON_PdListCollectionsResponse_def json_back)

lemma json_PdDeleteCollectionRequest:
  "fromJSON_PdDeleteCollectionRequest K (toJSON_PdDeleteCollectionRequest m) = Inr m"
  by (cases m) (simp add: fromJSON_PdDeleteCollectionRequest_def toJSON_PdDeleteCollectionRequest_def json_back)

lemma json_PdDeleteCollectionResponse:
  "fromJSON_PdDeleteCollectionResponse K (toJSON_PdDeleteCollectionResponse m) = Inr m"
  by (cases m) (simp add: fromJSON_PdDeleteCollectionResponse_def toJSON_PdDeleteCollectionResponse_def json_back)

lemma json_PdGetCollectionStatusRequest:
  "fromJSON_PdGetCollectionStatusRequest K (toJSON_PdGetCollectionStatusRequest m) = Inr m"
  by (cases m) (simp add: fromJSON_PdGetCollectionStatusRequest_def toJSON_PdGetCollectionStatusRequest_def json_back)

definition json_ok_PdShardStatus :: "PdShardStatus \<Rightarrow> bool" where
  "json_ok_PdShardStatus m \<longleftrightarrow> js_round (PdShardStatus_shardId m) = PdShardStatus_shardId m"

lemma json_PdShardStatus:
  assumes "json_ok_PdShardStatus m"
  shows "fromJSON_PdShardStatus K (toJSON_PdShardStatus m) = Inr m"
  using assms
  by (cases m) (simp add: fromJSON_PdShardStatus_def toJSON_PdShardStatus_def json_back json_ok_PdShardStatus_def)

definition json_ok_PdGetCollectionStatusResponse :: "PdGetCollectionStatusResponse \<Rightarrow> bool" where
  "json_ok_PdGetCollectionStatusResponse m \<longleftrightarrow> js_round (PdGetCollectionStatusResponse_dimension m) = PdGetCollectionStatusResponse_dimension m \<and> (\<forall>v \<in> set (PdGetCollectionStatusResponse_shards m). json_ok_PdShardStatus v)"

lemma json_PdGetCollectionStatusResponse:
  assumes "json_ok_PdGetCollectionStatusResponse m"
  shows "fromJSON_PdGetCollectionStatusResponse K (toJSON_PdGetCollectionStatusResponse m) = Inr m"
  using assms
  by (cases m) (simp add: fromJSON_PdGetCollectionStatusResponse_def toJSON_PdGetCollectionStatusResponse_def json_back json_ok_PdGetCollectionStatusResponse_def json_PdShardStatus isSet_toJSON_PdShardStatus)


end
