(* ===== verification/Worker_Messages.thy ===== *)
theory Worker_Messages
  imports Wire_Bytes
begin

unbundle bit_operations_syntax

text \<open>
  The messages of \<^verbatim>\<open>clientlibs/js/proto/worker/worker.ts\<close>, translated in the same way as those of
  \<open>Auth_Messages\<close>. Names that other services use as well carry the prefix \<^verbatim>\<open>Wk\<close>.
\<close>

section \<open>Messages\<close>

subsection \<open>\<^verbatim>\<open>Vector\<close>\<close>

record Vector =
  Vector_id :: string
  Vector_vector :: "js_num list"
  Vector_metadata :: "byte list"

definition createBaseVector :: Vector where
  "createBaseVector =
     \<lparr>Vector_id = [],
      Vector_vector = [],
      Vector_metadata = []\<rparr>"

definition encode_Vector :: "('w, 'r) wire \<Rightarrow> Vector \<Rightarrow> 'w writes" where
  "encode_Vector W m =
     w_seq
      [w_if (Vector_id m \<noteq> []) (w_field W 10 (w_string W (Vector_id m))),
       w_nested W 18 (w_seq (map (w_float W) (Vector_vector m))),
       w_if (Vector_metadata m \<noteq> []) (w_field W 26 (w_bytes W (Vector_metadata m)))]"

definition switch_Vector :: "('w, 'r) wire \<Rightarrow> ('r, Vector) switch" where
  "switch_Vector W tag m r =
     (if drop_bit 3 tag = 1 then
       (if tag \<noteq> 10 then Break
        else arm_read (r_string W) (\<lambda>v. m\<lparr>Vector_id := v\<rparr>) r)
      else if drop_bit 3 tag = 2 then
       (if tag = 21 then arm_read (r_float W) (\<lambda>v. m\<lparr>Vector_vector := Vector_vector m @ [v]\<rparr>) r
        else if tag = 18 then arm_packed W (r_float W) (\<lambda>vs. m\<lparr>Vector_vector := Vector_vector m @ vs\<rparr>) r
        else Break)
      else if drop_bit 3 tag = 3 then
       (if tag \<noteq> 26 then Break
        else arm_read (r_bytes W) (\<lambda>v. m\<lparr>Vector_metadata := v\<rparr>) r)
      else Break)"

type_synonym Vector_partial = "(string option) \<times> (js_num list option) \<times> (byte list option)"

fun fromPartial_Vector :: "Vector_partial \<Rightarrow> Vector" where
  "fromPartial_Vector (id', vector', metadata') =
     \<lparr>Vector_id = nullish id' [],
      Vector_vector = nullish vector' [],
      Vector_metadata = nullish metadata' []\<rparr>"

definition create_Vector :: "Vector_partial option \<Rightarrow> Vector" where
  "create_Vector base = fromPartial_Vector (nullish base (None, None, None))"

definition decode_Vector :: "('w, 'r) wire \<Rightarrow> 'r \<Rightarrow> nat option \<Rightarrow> (Vector \<times> 'r) comp" where
  "decode_Vector W = decode_with W (switch_Vector W) createBaseVector"

subsection \<open>\<^verbatim>\<open>StoreVectorRequest\<close>\<close>

record StoreVectorRequest =
  StoreVectorRequest_shardId :: string
  StoreVectorRequest_vector :: "Vector option"
  StoreVectorRequest_shardEpoch :: string
  StoreVectorRequest_leaseExpiryUnixMs :: string

definition createBaseStoreVectorRequest :: StoreVectorRequest where
  "createBaseStoreVectorRequest =
     \<lparr>StoreVectorRequest_shardId = ''0'',
      StoreVectorRequest_vector = None,
      StoreVectorRequest_shardEpoch = ''0'',
      StoreVectorRequest_leaseExpiryUnixMs = ''0''\<rparr>"

definition encode_StoreVectorRequest :: "('w, 'r) wire \<Rightarrow> StoreVectorRequest \<Rightarrow> 'w writes" where
  "encode_StoreVectorRequest W m =
     w_seq
      [w_if (StoreVectorRequest_shardId m \<noteq> ''0'') (w_field W 8 (w_uint64 W (StoreVectorRequest_shardId m))),
       (case StoreVectorRequest_vector m of None \<Rightarrow> w_seq [] | Some v \<Rightarrow> w_nested W 18 (encode_Vector W v)),
       w_if (StoreVectorRequest_shardEpoch m \<noteq> ''0'') (w_field W 24 (w_uint64 W (StoreVectorRequest_shardEpoch m))),
       w_if (StoreVectorRequest_leaseExpiryUnixMs m \<noteq> ''0'') (w_field W 32 (w_int64 W (StoreVectorRequest_leaseExpiryUnixMs m)))]"

definition switch_StoreVectorRequest :: "('w, 'r) wire \<Rightarrow> ('r, StoreVectorRequest) switch" where
  "switch_StoreVectorRequest W tag m r =
     (if drop_bit 3 tag = 1 then
       (if tag \<noteq> 8 then Break
        else arm_read (r_uint64 W) (\<lambda>v. m\<lparr>StoreVectorRequest_shardId := show_nat (unat v)\<rparr>) r)
      else if drop_bit 3 tag = 2 then
       (if tag \<noteq> 18 then Break
        else arm_sub W (decode_Vector W) (\<lambda>v. m\<lparr>StoreVectorRequest_vector := Some v\<rparr>) r)
      else if drop_bit 3 tag = 3 then
       (if tag \<noteq> 24 then Break
        else arm_read (r_uint64 W) (\<lambda>v. m\<lparr>StoreVectorRequest_shardEpoch := show_nat (unat v)\<rparr>) r)
      else if drop_bit 3 tag = 4 then
       (if tag \<noteq> 32 then Break
        else arm_read (r_int64 W) (\<lambda>v. m\<lparr>StoreVectorRequest_leaseExpiryUnixMs := show_int (sint v)\<rparr>) r)
      else Break)"

type_synonym StoreVectorRequest_partial = "(string option) \<times> (Vector_partial option) \<times> (string option) \<times> (string option)"

fun fromPartial_StoreVectorRequest :: "StoreVectorRequest_partial \<Rightarrow> StoreVectorRequest" where
  "fromPartial_StoreVectorRequest (shardId', vector', shardEpoch', leaseExpiryUnixMs') =
     \<lparr>StoreVectorRequest_shardId = nullish shardId' ''0'',
      StoreVectorRequest_vector = map_option fromPartial_Vector vector',
      StoreVectorRequest_shardEpoch = nullish shardEpoch' ''0'',
      StoreVectorRequest_leaseExpiryUnixMs = nullish leaseExpiryUnixMs' ''0''\<rparr>"

definition create_StoreVectorRequest :: "StoreVectorRequest_partial option \<Rightarrow> StoreVectorRequest" where
  "create_StoreVectorRequest base = fromPartial_StoreVectorRequest (nullish base (None, None, None, None))"

definition decode_StoreVectorRequest :: "('w, 'r) wire \<Rightarrow> 'r \<Rightarrow> nat option \<Rightarrow> (StoreVectorRequest \<times> 'r) comp" where
  "decode_StoreVectorRequest W = decode_with W (switch_StoreVectorRequest W) createBaseStoreVectorRequest"

subsection \<open>\<^verbatim>\<open>StoreVectorResponse\<close>\<close>

datatype StoreVectorResponse = StoreVectorResponse

definition createBaseStoreVectorResponse :: StoreVectorResponse where
  "createBaseStoreVectorResponse = StoreVectorResponse"

definition encode_StoreVectorResponse :: "('w, 'r) wire \<Rightarrow> StoreVectorResponse \<Rightarrow> 'w writes" where
  "encode_StoreVectorResponse W m = w_seq []"

definition switch_StoreVectorResponse :: "('w, 'r) wire \<Rightarrow> ('r, StoreVectorResponse) switch" where
  "switch_StoreVectorResponse W tag m r = Break"

definition fromPartial_StoreVectorResponse :: "unit \<Rightarrow> StoreVectorResponse" where
  "fromPartial_StoreVectorResponse u = createBaseStoreVectorResponse"

definition create_StoreVectorResponse :: "unit option \<Rightarrow> StoreVectorResponse" where
  "create_StoreVectorResponse base = fromPartial_StoreVectorResponse (nullish base ())"

definition decode_StoreVectorResponse :: "('w, 'r) wire \<Rightarrow> 'r \<Rightarrow> nat option \<Rightarrow> (StoreVectorResponse \<times> 'r) comp" where
  "decode_StoreVectorResponse W = decode_with W (switch_StoreVectorResponse W) createBaseStoreVectorResponse"

subsection \<open>\<^verbatim>\<open>BatchStoreVectorRequest\<close>\<close>

record BatchStoreVectorRequest =
  BatchStoreVectorRequest_shardId :: string
  BatchStoreVectorRequest_vectors :: "Vector list"
  BatchStoreVectorRequest_shardEpoch :: string
  BatchStoreVectorRequest_leaseExpiryUnixMs :: string

definition createBaseBatchStoreVectorRequest :: BatchStoreVectorRequest where
  "createBaseBatchStoreVectorRequest =
     \<lparr>BatchStoreVectorRequest_shardId = ''0'',
      BatchStoreVectorRequest_vectors = [],
      BatchStoreVectorRequest_shardEpoch = ''0'',
      BatchStoreVectorRequest_leaseExpiryUnixMs = ''0''\<rparr>"

definition encode_BatchStoreVectorRequest :: "('w, 'r) wire \<Rightarrow> BatchStoreVectorRequest \<Rightarrow> 'w writes" where
  "encode_BatchStoreVectorRequest W m =
     w_seq
      [w_if (BatchStoreVectorRequest_shardId m \<noteq> ''0'') (w_field W 8 (w_uint64 W (BatchStoreVectorRequest_shardId m))),
       w_seq (map (\<lambda>v. w_nested W 18 (encode_Vector W v)) (BatchStoreVectorRequest_vectors m)),
       w_if (BatchStoreVectorRequest_shardEpoch m \<noteq> ''0'') (w_field W 24 (w_uint64 W (BatchStoreVectorRequest_shardEpoch m))),
       w_if (BatchStoreVectorRequest_leaseExpiryUnixMs m \<noteq> ''0'') (w_field W 32 (w_int64 W (BatchStoreVectorRequest_leaseExpiryUnixMs m)))]"

definition switch_BatchStoreVectorRequest :: "('w, 'r) wire \<Rightarrow> ('r, BatchStoreVectorRequest) switch" where
  "switch_BatchStoreVectorRequest W tag m r =
     (if drop_bit 3 tag = 1 then
       (if tag \<noteq> 8 then Break
        else arm_read (r_uint64 W) (\<lambda>v. m\<lparr>BatchStoreVectorRequest_shardId := show_nat (unat v)\<rparr>) r)
      else if drop_bit 3 tag = 2 then
       (if tag \<noteq> 18 then Break
        else arm_sub W (decode_Vector W) (\<lambda>v. m\<lparr>BatchStoreVectorRequest_vectors := BatchStoreVectorRequest_vectors m @ [v]\<rparr>) r)
      else if drop_bit 3 tag = 3 then
       (if tag \<noteq> 24 then Break
        else arm_read (r_uint64 W) (\<lambda>v. m\<lparr>BatchStoreVectorRequest_shardEpoch := show_nat (unat v)\<rparr>) r)
      else if drop_bit 3 tag = 4 then
       (if tag \<noteq> 32 then Break
        else arm_read (r_int64 W) (\<lambda>v. m\<lparr>BatchStoreVectorRequest_leaseExpiryUnixMs := show_int (sint v)\<rparr>) r)
      else Break)"

type_synonym BatchStoreVectorRequest_partial = "(string option) \<times> (Vector_partial list option) \<times> (string option) \<times> (string option)"

fun fromPartial_BatchStoreVectorRequest :: "BatchStoreVectorRequest_partial \<Rightarrow> BatchStoreVectorRequest" where
  "fromPartial_BatchStoreVectorRequest (shardId', vectors', shardEpoch', leaseExpiryUnixMs') =
     \<lparr>BatchStoreVectorRequest_shardId = nullish shardId' ''0'',
      BatchStoreVectorRequest_vectors = map fromPartial_Vector (nullish vectors' []),
      BatchStoreVectorRequest_shardEpoch = nullish shardEpoch' ''0'',
      BatchStoreVectorRequest_leaseExpiryUnixMs = nullish leaseExpiryUnixMs' ''0''\<rparr>"

definition create_BatchStoreVectorRequest :: "BatchStoreVectorRequest_partial option \<Rightarrow> BatchStoreVectorRequest" where
  "create_BatchStoreVectorRequest base = fromPartial_BatchStoreVectorRequest (nullish base (None, None, None, None))"

definition decode_BatchStoreVectorRequest :: "('w, 'r) wire \<Rightarrow> 'r \<Rightarrow> nat option \<Rightarrow> (BatchStoreVectorRequest \<times> 'r) comp" where
  "decode_BatchStoreVectorRequest W = decode_with W (switch_BatchStoreVectorRequest W) createBaseBatchStoreVectorRequest"

subsection \<open>\<^verbatim>\<open>BatchStoreVectorResponse\<close>\<close>

record BatchStoreVectorResponse =
  BatchStoreVectorResponse_stored :: js_num

definition createBaseBatchStoreVectorResponse :: BatchStoreVectorResponse where
  "createBaseBatchStoreVectorResponse =
     \<lparr>BatchStoreVectorResponse_stored = Fin 0\<rparr>"

definition encode_BatchStoreVectorResponse :: "('w, 'r) wire \<Rightarrow> BatchStoreVectorResponse \<Rightarrow> 'w writes" where
  "encode_BatchStoreVectorResponse W m =
     w_seq
      [w_if (\<not> js_eq (BatchStoreVectorResponse_stored m) (Fin 0)) (w_field W 8 (w_int32 W (BatchStoreVectorResponse_stored m)))]"

definition switch_BatchStoreVectorResponse :: "('w, 'r) wire \<Rightarrow> ('r, BatchStoreVectorResponse) switch" where
  "switch_BatchStoreVectorResponse W tag m r =
     (if drop_bit 3 tag = 1 then
       (if tag \<noteq> 8 then Break
        else arm_read (r_int32 W) (\<lambda>v. m\<lparr>BatchStoreVectorResponse_stored := num_of_int (sint v)\<rparr>) r)
      else Break)"

type_synonym BatchStoreVectorResponse_partial = "js_num option"

fun fromPartial_BatchStoreVectorResponse :: "BatchStoreVectorResponse_partial \<Rightarrow> BatchStoreVectorResponse" where
  "fromPartial_BatchStoreVectorResponse stored' =
     \<lparr>BatchStoreVectorResponse_stored = nullish stored' (Fin 0)\<rparr>"

definition create_BatchStoreVectorResponse :: "BatchStoreVectorResponse_partial option \<Rightarrow> BatchStoreVectorResponse" where
  "create_BatchStoreVectorResponse base = fromPartial_BatchStoreVectorResponse (nullish base None)"

definition decode_BatchStoreVectorResponse :: "('w, 'r) wire \<Rightarrow> 'r \<Rightarrow> nat option \<Rightarrow> (BatchStoreVectorResponse \<times> 'r) comp" where
  "decode_BatchStoreVectorResponse W = decode_with W (switch_BatchStoreVectorResponse W) createBaseBatchStoreVectorResponse"

subsection \<open>\<^verbatim>\<open>GetVectorRequest\<close>\<close>

record GetVectorRequest =
  GetVectorRequest_shardId :: string
  GetVectorRequest_id :: string
  GetVectorRequest_shardEpoch :: string
  GetVectorRequest_leaseExpiryUnixMs :: string

definition createBaseGetVectorRequest :: GetVectorRequest where
  "createBaseGetVectorRequest =
     \<lparr>GetVectorRequest_shardId = ''0'',
      GetVectorRequest_id = [],
      GetVectorRequest_shardEpoch = ''0'',
      GetVectorRequest_leaseExpiryUnixMs = ''0''\<rparr>"

definition encode_GetVectorRequest :: "('w, 'r) wire \<Rightarrow> GetVectorRequest \<Rightarrow> 'w writes" where
  "encode_GetVectorRequest W m =
     w_seq
      [w_if (GetVectorRequest_shardId m \<noteq> ''0'') (w_field W 8 (w_uint64 W (GetVectorRequest_shardId m))),
       w_if (GetVectorRequest_id m \<noteq> []) (w_field W 18 (w_string W (GetVectorRequest_id m))),
       w_if (GetVectorRequest_shardEpoch m \<noteq> ''0'') (w_field W 24 (w_uint64 W (GetVectorRequest_shardEpoch m))),
       w_if (GetVectorRequest_leaseExpiryUnixMs m \<noteq> ''0'') (w_field W 32 (w_int64 W (GetVectorRequest_leaseExpiryUnixMs m)))]"

definition switch_GetVectorRequest :: "('w, 'r) wire \<Rightarrow> ('r, GetVectorRequest) switch" where
  "switch_GetVectorRequest W tag m r =
     (if drop_bit 3 tag = 1 then
       (if tag \<noteq> 8 then Break
        else arm_read (r_uint64 W) (\<lambda>v. m\<lparr>GetVectorRequest_shardId := show_nat (unat v)\<rparr>) r)
      else if drop_bit 3 tag = 2 then
       (if tag \<noteq> 18 then Break
        else arm_read (r_string W) (\<lambda>v. m\<lparr>GetVectorRequest_id := v\<rparr>) r)
      else if drop_bit 3 tag = 3 then
       (if tag \<noteq> 24 then Break
        else arm_read (r_uint64 W) (\<lambda>v. m\<lparr>GetVectorRequest_shardEpoch := show_nat (unat v)\<rparr>) r)
      else if drop_bit 3 tag = 4 then
       (if tag \<noteq> 32 then Break
        else arm_read (r_int64 W) (\<lambda>v. m\<lparr>GetVectorRequest_leaseExpiryUnixMs := show_int (sint v)\<rparr>) r)
      else Break)"

type_synonym GetVectorRequest_partial = "(string option) \<times> (string option) \<times> (string option) \<times> (string option)"

fun fromPartial_GetVectorRequest :: "GetVectorRequest_partial \<Rightarrow> GetVectorRequest" where
  "fromPartial_GetVectorRequest (shardId', id', shardEpoch', leaseExpiryUnixMs') =
     \<lparr>GetVectorRequest_shardId = nullish shardId' ''0'',
      GetVectorRequest_id = nullish id' [],
      GetVectorRequest_shardEpoch = nullish shardEpoch' ''0'',
      GetVectorRequest_leaseExpiryUnixMs = nullish leaseExpiryUnixMs' ''0''\<rparr>"

definition create_GetVectorRequest :: "GetVectorRequest_partial option \<Rightarrow> GetVectorRequest" where
  "create_GetVectorRequest base = fromPartial_GetVectorRequest (nullish base (None, None, None, None))"

definition decode_GetVectorRequest :: "('w, 'r) wire \<Rightarrow> 'r \<Rightarrow> nat option \<Rightarrow> (GetVectorRequest \<times> 'r) comp" where
  "decode_GetVectorRequest W = decode_with W (switch_GetVectorRequest W) createBaseGetVectorRequest"

subsection \<open>\<^verbatim>\<open>GetVectorResponse\<close>\<close>

record GetVectorResponse =
  GetVectorResponse_vector :: "Vector option"

definition createBaseGetVectorResponse :: GetVectorResponse where
  "createBaseGetVectorResponse =
     \<lparr>GetVectorResponse_vector = None\<rparr>"

definition encode_GetVectorResponse :: "('w, 'r) wire \<Rightarrow> GetVectorResponse \<Rightarrow> 'w writes" where
  "encode_GetVectorResponse W m =
     w_seq
      [(case GetVectorResponse_vector m of None \<Rightarrow> w_seq [] | Some v \<Rightarrow> w_nested W 10 (encode_Vector W v))]"

definition switch_GetVectorResponse :: "('w, 'r) wire \<Rightarrow> ('r, GetVectorResponse) switch" where
  "switch_GetVectorResponse W tag m r =
     (if drop_bit 3 tag = 1 then
       (if tag \<noteq> 10 then Break
        else arm_sub W (decode_Vector W) (\<lambda>v. m\<lparr>GetVectorResponse_vector := Some v\<rparr>) r)
      else Break)"

type_synonym GetVectorResponse_partial = "Vector_partial option"

fun fromPartial_GetVectorResponse :: "GetVectorResponse_partial \<Rightarrow> GetVectorResponse" where
  "fromPartial_GetVectorResponse vector' =
     \<lparr>GetVectorResponse_vector = map_option fromPartial_Vector vector'\<rparr>"

definition create_GetVectorResponse :: "GetVectorResponse_partial option \<Rightarrow> GetVectorResponse" where
  "create_GetVectorResponse base = fromPartial_GetVectorResponse (nullish base None)"

definition decode_GetVectorResponse :: "('w, 'r) wire \<Rightarrow> 'r \<Rightarrow> nat option \<Rightarrow> (GetVectorResponse \<times> 'r) comp" where
  "decode_GetVectorResponse W = decode_with W (switch_GetVectorResponse W) createBaseGetVectorResponse"

subsection \<open>\<^verbatim>\<open>DeleteVectorRequest\<close>\<close>

record DeleteVectorRequest =
  DeleteVectorRequest_shardId :: string
  DeleteVectorRequest_id :: string
  DeleteVectorRequest_shardEpoch :: string
  DeleteVectorRequest_leaseExpiryUnixMs :: string

definition createBaseDeleteVectorRequest :: DeleteVectorRequest where
  "createBaseDeleteVectorRequest =
     \<lparr>DeleteVectorRequest_shardId = ''0'',
      DeleteVectorRequest_id = [],
      DeleteVectorRequest_shardEpoch = ''0'',
      DeleteVectorRequest_leaseExpiryUnixMs = ''0''\<rparr>"

definition encode_DeleteVectorRequest :: "('w, 'r) wire \<Rightarrow> DeleteVectorRequest \<Rightarrow> 'w writes" where
  "encode_DeleteVectorRequest W m =
     w_seq
      [w_if (DeleteVectorRequest_shardId m \<noteq> ''0'') (w_field W 8 (w_uint64 W (DeleteVectorRequest_shardId m))),
       w_if (DeleteVectorRequest_id m \<noteq> []) (w_field W 18 (w_string W (DeleteVectorRequest_id m))),
       w_if (DeleteVectorRequest_shardEpoch m \<noteq> ''0'') (w_field W 24 (w_uint64 W (DeleteVectorRequest_shardEpoch m))),
       w_if (DeleteVectorRequest_leaseExpiryUnixMs m \<noteq> ''0'') (w_field W 32 (w_int64 W (DeleteVectorRequest_leaseExpiryUnixMs m)))]"

definition switch_DeleteVectorRequest :: "('w, 'r) wire \<Rightarrow> ('r, DeleteVectorRequest) switch" where
  "switch_DeleteVectorRequest W tag m r =
     (if drop_bit 3 tag = 1 then
       (if tag \<noteq> 8 then Break
        else arm_read (r_uint64 W) (\<lambda>v. m\<lparr>DeleteVectorRequest_shardId := show_nat (unat v)\<rparr>) r)
      else if drop_bit 3 tag = 2 then
       (if tag \<noteq> 18 then Break
        else arm_read (r_string W) (\<lambda>v. m\<lparr>DeleteVectorRequest_id := v\<rparr>) r)
      else if drop_bit 3 tag = 3 then
       (if tag \<noteq> 24 then Break
        else arm_read (r_uint64 W) (\<lambda>v. m\<lparr>DeleteVectorRequest_shardEpoch := show_nat (unat v)\<rparr>) r)
      else if drop_bit 3 tag = 4 then
       (if tag \<noteq> 32 then Break
        else arm_read (r_int64 W) (\<lambda>v. m\<lparr>DeleteVectorRequest_leaseExpiryUnixMs := show_int (sint v)\<rparr>) r)
      else Break)"

type_synonym DeleteVectorRequest_partial = "(string option) \<times> (string option) \<times> (string option) \<times> (string option)"

fun fromPartial_DeleteVectorRequest :: "DeleteVectorRequest_partial \<Rightarrow> DeleteVectorRequest" where
  "fromPartial_DeleteVectorRequest (shardId', id', shardEpoch', leaseExpiryUnixMs') =
     \<lparr>DeleteVectorRequest_shardId = nullish shardId' ''0'',
      DeleteVectorRequest_id = nullish id' [],
      DeleteVectorRequest_shardEpoch = nullish shardEpoch' ''0'',
      DeleteVectorRequest_leaseExpiryUnixMs = nullish leaseExpiryUnixMs' ''0''\<rparr>"

definition create_DeleteVectorRequest :: "DeleteVectorRequest_partial option \<Rightarrow> DeleteVectorRequest" where
  "create_DeleteVectorRequest base = fromPartial_DeleteVectorRequest (nullish base (None, None, None, None))"

definition decode_DeleteVectorRequest :: "('w, 'r) wire \<Rightarrow> 'r \<Rightarrow> nat option \<Rightarrow> (DeleteVectorRequest \<times> 'r) comp" where
  "decode_DeleteVectorRequest W = decode_with W (switch_DeleteVectorRequest W) createBaseDeleteVectorRequest"

subsection \<open>\<^verbatim>\<open>DeleteVectorResponse\<close>\<close>

datatype DeleteVectorResponse = DeleteVectorResponse

definition createBaseDeleteVectorResponse :: DeleteVectorResponse where
  "createBaseDeleteVectorResponse = DeleteVectorResponse"

definition encode_DeleteVectorResponse :: "('w, 'r) wire \<Rightarrow> DeleteVectorResponse \<Rightarrow> 'w writes" where
  "encode_DeleteVectorResponse W m = w_seq []"

definition switch_DeleteVectorResponse :: "('w, 'r) wire \<Rightarrow> ('r, DeleteVectorResponse) switch" where
  "switch_DeleteVectorResponse W tag m r = Break"

definition fromPartial_DeleteVectorResponse :: "unit \<Rightarrow> DeleteVectorResponse" where
  "fromPartial_DeleteVectorResponse u = createBaseDeleteVectorResponse"

definition create_DeleteVectorResponse :: "unit option \<Rightarrow> DeleteVectorResponse" where
  "create_DeleteVectorResponse base = fromPartial_DeleteVectorResponse (nullish base ())"

definition decode_DeleteVectorResponse :: "('w, 'r) wire \<Rightarrow> 'r \<Rightarrow> nat option \<Rightarrow> (DeleteVectorResponse \<times> 'r) comp" where
  "decode_DeleteVectorResponse W = decode_with W (switch_DeleteVectorResponse W) createBaseDeleteVectorResponse"

subsection \<open>\<^verbatim>\<open>SearchRequest\<close>\<close>

record WkSearchRequest =
  WkSearchRequest_shardId :: string
  WkSearchRequest_vector :: "js_num list"
  WkSearchRequest_k :: js_num
  WkSearchRequest_bruteForce :: bool
  WkSearchRequest_linearizable :: bool
  WkSearchRequest_collection :: string
  WkSearchRequest_shardEpoch :: string
  WkSearchRequest_leaseExpiryUnixMs :: string

definition createBaseWkSearchRequest :: WkSearchRequest where
  "createBaseWkSearchRequest =
     \<lparr>WkSearchRequest_shardId = ''0'',
      WkSearchRequest_vector = [],
      WkSearchRequest_k = Fin 0,
      WkSearchRequest_bruteForce = False,
      WkSearchRequest_linearizable = False,
      WkSearchRequest_collection = [],
      WkSearchRequest_shardEpoch = ''0'',
      WkSearchRequest_leaseExpiryUnixMs = ''0''\<rparr>"

definition encode_WkSearchRequest :: "('w, 'r) wire \<Rightarrow> WkSearchRequest \<Rightarrow> 'w writes" where
  "encode_WkSearchRequest W m =
     w_seq
      [w_if (WkSearchRequest_shardId m \<noteq> ''0'') (w_field W 8 (w_uint64 W (WkSearchRequest_shardId m))),
       w_nested W 18 (w_seq (map (w_float W) (WkSearchRequest_vector m))),
       w_if (\<not> js_eq (WkSearchRequest_k m) (Fin 0)) (w_field W 24 (w_int32 W (WkSearchRequest_k m))),
       w_if (WkSearchRequest_bruteForce m) (w_field W 32 (w_bool W (WkSearchRequest_bruteForce m))),
       w_if (WkSearchRequest_linearizable m) (w_field W 40 (w_bool W (WkSearchRequest_linearizable m))),
       w_if (WkSearchRequest_collection m \<noteq> []) (w_field W 50 (w_string W (WkSearchRequest_collection m))),
       w_if (WkSearchRequest_shardEpoch m \<noteq> ''0'') (w_field W 56 (w_uint64 W (WkSearchRequest_shardEpoch m))),
       w_if (WkSearchRequest_leaseExpiryUnixMs m \<noteq> ''0'') (w_field W 64 (w_int64 W (WkSearchRequest_leaseExpiryUnixMs m)))]"

definition switch_WkSearchRequest :: "('w, 'r) wire \<Rightarrow> ('r, WkSearchRequest) switch" where
  "switch_WkSearchRequest W tag m r =
     (if drop_bit 3 tag = 1 then
       (if tag \<noteq> 8 then Break
        else arm_read (r_uint64 W) (\<lambda>v. m\<lparr>WkSearchRequest_shardId := show_nat (unat v)\<rparr>) r)
      else if drop_bit 3 tag = 2 then
       (if tag = 21 then arm_read (r_float W) (\<lambda>v. m\<lparr>WkSearchRequest_vector := WkSearchRequest_vector m @ [v]\<rparr>) r
        else if tag = 18 then arm_packed W (r_float W) (\<lambda>vs. m\<lparr>WkSearchRequest_vector := WkSearchRequest_vector m @ vs\<rparr>) r
        else Break)
      else if drop_bit 3 tag = 3 then
       (if tag \<noteq> 24 then Break
        else arm_read (r_int32 W) (\<lambda>v. m\<lparr>WkSearchRequest_k := num_of_int (sint v)\<rparr>) r)
      else if drop_bit 3 tag = 4 then
       (if tag \<noteq> 32 then Break
        else arm_read (r_bool W) (\<lambda>v. m\<lparr>WkSearchRequest_bruteForce := v\<rparr>) r)
      else if drop_bit 3 tag = 5 then
       (if tag \<noteq> 40 then Break
        else arm_read (r_bool W) (\<lambda>v. m\<lparr>WkSearchRequest_linearizable := v\<rparr>) r)
      else if drop_bit 3 tag = 6 then
       (if tag \<noteq> 50 then Break
        else arm_read (r_string W) (\<lambda>v. m\<lparr>WkSearchRequest_collection := v\<rparr>) r)
      else if drop_bit 3 tag = 7 then
       (if tag \<noteq> 56 then Break
        else arm_read (r_uint64 W) (\<lambda>v. m\<lparr>WkSearchRequest_shardEpoch := show_nat (unat v)\<rparr>) r)
      else if drop_bit 3 tag = 8 then
       (if tag \<noteq> 64 then Break
        else arm_read (r_int64 W) (\<lambda>v. m\<lparr>WkSearchRequest_leaseExpiryUnixMs := show_int (sint v)\<rparr>) r)
      else Break)"

type_synonym WkSearchRequest_partial = "(string option) \<times> (js_num list option) \<times> (js_num option) \<times> (bool option) \<times> (bool option) \<times> (string option) \<times> (string option) \<times> (string option)"

fun fromPartial_WkSearchRequest :: "WkSearchRequest_partial \<Rightarrow> WkSearchRequest" where
  "fromPartial_WkSearchRequest (shardId', vector', k', bruteForce', linearizable', collection', shardEpoch', leaseExpiryUnixMs') =
     \<lparr>WkSearchRequest_shardId = nullish shardId' ''0'',
      WkSearchRequest_vector = nullish vector' [],
      WkSearchRequest_k = nullish k' (Fin 0),
      WkSearchRequest_bruteForce = nullish bruteForce' False,
      WkSearchRequest_linearizable = nullish linearizable' False,
      WkSearchRequest_collection = nullish collection' [],
      WkSearchRequest_shardEpoch = nullish shardEpoch' ''0'',
      WkSearchRequest_leaseExpiryUnixMs = nullish leaseExpiryUnixMs' ''0''\<rparr>"

definition create_WkSearchRequest :: "WkSearchRequest_partial option \<Rightarrow> WkSearchRequest" where
  "create_WkSearchRequest base = fromPartial_WkSearchRequest (nullish base (None, None, None, None, None, None, None, None))"

definition decode_WkSearchRequest :: "('w, 'r) wire \<Rightarrow> 'r \<Rightarrow> nat option \<Rightarrow> (WkSearchRequest \<times> 'r) comp" where
  "decode_WkSearchRequest W = decode_with W (switch_WkSearchRequest W) createBaseWkSearchRequest"

subsection \<open>\<^verbatim>\<open>SearchResponse\<close>\<close>

record WkSearchResponse =
  WkSearchResponse_ids :: "string list"
  WkSearchResponse_scores :: "js_num list"
  WkSearchResponse_metadata :: "byte list list"

definition createBaseWkSearchResponse :: WkSearchResponse where
  "createBaseWkSearchResponse =
     \<lparr>WkSearchResponse_ids = [],
      WkSearchResponse_scores = [],
      WkSearchResponse_metadata = []\<rparr>"

definition encode_WkSearchResponse :: "('w, 'r) wire \<Rightarrow> WkSearchResponse \<Rightarrow> 'w writes" where
  "encode_WkSearchResponse W m =
     w_seq
      [w_seq (map (\<lambda>v. w_field W 10 (w_string W v)) (WkSearchResponse_ids m)),
       w_nested W 18 (w_seq (map (w_float W) (WkSearchResponse_scores m))),
       w_seq (map (\<lambda>v. w_field W 26 (w_bytes W v)) (WkSearchResponse_metadata m))]"

definition switch_WkSearchResponse :: "('w, 'r) wire \<Rightarrow> ('r, WkSearchResponse) switch" where
  "switch_WkSearchResponse W tag m r =
     (if drop_bit 3 tag = 1 then
       (if tag \<noteq> 10 then Break
        else arm_read (r_string W) (\<lambda>v. m\<lparr>WkSearchResponse_ids := WkSearchResponse_ids m @ [v]\<rparr>) r)
      else if drop_bit 3 tag = 2 then
       (if tag = 21 then arm_read (r_float W) (\<lambda>v. m\<lparr>WkSearchResponse_scores := WkSearchResponse_scores m @ [v]\<rparr>) r
        else if tag = 18 then arm_packed W (r_float W) (\<lambda>vs. m\<lparr>WkSearchResponse_scores := WkSearchResponse_scores m @ vs\<rparr>) r
        else Break)
      else if drop_bit 3 tag = 3 then
       (if tag \<noteq> 26 then Break
        else arm_read (r_bytes W) (\<lambda>v. m\<lparr>WkSearchResponse_metadata := WkSearchResponse_metadata m @ [v]\<rparr>) r)
      else Break)"

type_synonym WkSearchResponse_partial = "(string list option) \<times> (js_num list option) \<times> (byte list list option)"

fun fromPartial_WkSearchResponse :: "WkSearchResponse_partial \<Rightarrow> WkSearchResponse" where
  "fromPartial_WkSearchResponse (ids', scores', metadata') =
     \<lparr>WkSearchResponse_ids = nullish ids' [],
      WkSearchResponse_scores = nullish scores' [],
      WkSearchResponse_metadata = nullish metadata' []\<rparr>"

definition create_WkSearchResponse :: "WkSearchResponse_partial option \<Rightarrow> WkSearchResponse" where
  "create_WkSearchResponse base = fromPartial_WkSearchResponse (nullish base (None, None, None))"

definition decode_WkSearchResponse :: "('w, 'r) wire \<Rightarrow> 'r \<Rightarrow> nat option \<Rightarrow> (WkSearchResponse \<times> 'r) comp" where
  "decode_WkSearchResponse W = decode_with W (switch_WkSearchResponse W) createBaseWkSearchResponse"

subsection \<open>\<^verbatim>\<open>BatchSearchRequest\<close>\<close>

record BatchSearchRequest =
  BatchSearchRequest_requests :: "WkSearchRequest list"

definition createBaseBatchSearchRequest :: BatchSearchRequest where
  "createBaseBatchSearchRequest =
     \<lparr>BatchSearchRequest_requests = []\<rparr>"

definition encode_BatchSearchRequest :: "('w, 'r) wire \<Rightarrow> BatchSearchRequest \<Rightarrow> 'w writes" where
  "encode_BatchSearchRequest W m =
     w_seq
      [w_seq (map (\<lambda>v. w_nested W 10 (encode_WkSearchRequest W v)) (BatchSearchRequest_requests m))]"

definition switch_BatchSearchRequest :: "('w, 'r) wire \<Rightarrow> ('r, BatchSearchRequest) switch" where
  "switch_BatchSearchRequest W tag m r =
     (if drop_bit 3 tag = 1 then
       (if tag \<noteq> 10 then Break
        else arm_sub W (decode_WkSearchRequest W) (\<lambda>v. m\<lparr>BatchSearchRequest_requests := BatchSearchRequest_requests m @ [v]\<rparr>) r)
      else Break)"

type_synonym BatchSearchRequest_partial = "WkSearchRequest_partial list option"

fun fromPartial_BatchSearchRequest :: "BatchSearchRequest_partial \<Rightarrow> BatchSearchRequest" where
  "fromPartial_BatchSearchRequest requests' =
     \<lparr>BatchSearchRequest_requests = map fromPartial_WkSearchRequest (nullish requests' [])\<rparr>"

definition create_BatchSearchRequest :: "BatchSearchRequest_partial option \<Rightarrow> BatchSearchRequest" where
  "create_BatchSearchRequest base = fromPartial_BatchSearchRequest (nullish base None)"

definition decode_BatchSearchRequest :: "('w, 'r) wire \<Rightarrow> 'r \<Rightarrow> nat option \<Rightarrow> (BatchSearchRequest \<times> 'r) comp" where
  "decode_BatchSearchRequest W = decode_with W (switch_BatchSearchRequest W) createBaseBatchSearchRequest"

subsection \<open>\<^verbatim>\<open>BatchSearchResponse\<close>\<close>

record BatchSearchResponse =
  BatchSearchResponse_responses :: "WkSearchResponse list"

definition createBaseBatchSearchResponse :: BatchSearchResponse where
  "createBaseBatchSearchResponse =
     \<lparr>BatchSearchResponse_responses = []\<rparr>"

definition encode_BatchSearchResponse :: "('w, 'r) wire \<Rightarrow> BatchSearchResponse \<Rightarrow> 'w writes" where
  "encode_BatchSearchResponse W m =
     w_seq
      [w_seq (map (\<lambda>v. w_nested W 10 (encode_WkSearchResponse W v)) (BatchSearchResponse_responses m))]"

definition switch_BatchSearchResponse :: "('w, 'r) wire \<Rightarrow> ('r, BatchSearchResponse) switch" where
  "switch_BatchSearchResponse W tag m r =
     (if drop_bit 3 tag = 1 then
       (if tag \<noteq> 10 then Break
        else arm_sub W (decode_WkSearchResponse W) (\<lambda>v. m\<lparr>BatchSearchResponse_responses := BatchSearchResponse_responses m @ [v]\<rparr>) r)
      else Break)"

type_synonym BatchSearchResponse_partial = "WkSearchResponse_partial list option"

fun fromPartial_BatchSearchResponse :: "BatchSearchResponse_partial \<Rightarrow> BatchSearchResponse" where
  "fromPartial_BatchSearchResponse responses' =
     \<lparr>BatchSearchResponse_responses = map fromPartial_WkSearchResponse (nullish responses' [])\<rparr>"

definition create_BatchSearchResponse :: "BatchSearchResponse_partial option \<Rightarrow> BatchSearchResponse" where
  "create_BatchSearchResponse base = fromPartial_BatchSearchResponse (nullish base None)"

definition decode_BatchSearchResponse :: "('w, 'r) wire \<Rightarrow> 'r \<Rightarrow> nat option \<Rightarrow> (BatchSearchResponse \<times> 'r) comp" where
  "decode_BatchSearchResponse W = decode_with W (switch_BatchSearchResponse W) createBaseBatchSearchResponse"

subsection \<open>\<^verbatim>\<open>HNSWSnapshotRequest\<close>\<close>

record HNSWSnapshotRequest =
  HNSWSnapshotRequest_shardId :: string

definition createBaseHNSWSnapshotRequest :: HNSWSnapshotRequest where
  "createBaseHNSWSnapshotRequest =
     \<lparr>HNSWSnapshotRequest_shardId = ''0''\<rparr>"

definition encode_HNSWSnapshotRequest :: "('w, 'r) wire \<Rightarrow> HNSWSnapshotRequest \<Rightarrow> 'w writes" where
  "encode_HNSWSnapshotRequest W m =
     w_seq
      [w_if (HNSWSnapshotRequest_shardId m \<noteq> ''0'') (w_field W 8 (w_uint64 W (HNSWSnapshotRequest_shardId m)))]"

definition switch_HNSWSnapshotRequest :: "('w, 'r) wire \<Rightarrow> ('r, HNSWSnapshotRequest) switch" where
  "switch_HNSWSnapshotRequest W tag m r =
     (if drop_bit 3 tag = 1 then
       (if tag \<noteq> 8 then Break
        else arm_read (r_uint64 W) (\<lambda>v. m\<lparr>HNSWSnapshotRequest_shardId := show_nat (unat v)\<rparr>) r)
      else Break)"

type_synonym HNSWSnapshotRequest_partial = "string option"

fun fromPartial_HNSWSnapshotRequest :: "HNSWSnapshotRequest_partial \<Rightarrow> HNSWSnapshotRequest" where
  "fromPartial_HNSWSnapshotRequest shardId' =
     \<lparr>HNSWSnapshotRequest_shardId = nullish shardId' ''0''\<rparr>"

definition create_HNSWSnapshotRequest :: "HNSWSnapshotRequest_partial option \<Rightarrow> HNSWSnapshotRequest" where
  "create_HNSWSnapshotRequest base = fromPartial_HNSWSnapshotRequest (nullish base None)"

definition decode_HNSWSnapshotRequest :: "('w, 'r) wire \<Rightarrow> 'r \<Rightarrow> nat option \<Rightarrow> (HNSWSnapshotRequest \<times> 'r) comp" where
  "decode_HNSWSnapshotRequest W = decode_with W (switch_HNSWSnapshotRequest W) createBaseHNSWSnapshotRequest"

subsection \<open>\<^verbatim>\<open>HNSWSnapshotChunk\<close>\<close>

record HNSWSnapshotChunk =
  HNSWSnapshotChunk_shardId :: string
  HNSWSnapshotChunk_snapshotTsUnixNano :: string
  HNSWSnapshotChunk_data :: "byte list"
  HNSWSnapshotChunk_done :: bool

definition createBaseHNSWSnapshotChunk :: HNSWSnapshotChunk where
  "createBaseHNSWSnapshotChunk =
     \<lparr>HNSWSnapshotChunk_shardId = ''0'',
      HNSWSnapshotChunk_snapshotTsUnixNano = ''0'',
      HNSWSnapshotChunk_data = [],
      HNSWSnapshotChunk_done = False\<rparr>"

definition encode_HNSWSnapshotChunk :: "('w, 'r) wire \<Rightarrow> HNSWSnapshotChunk \<Rightarrow> 'w writes" where
  "encode_HNSWSnapshotChunk W m =
     w_seq
      [w_if (HNSWSnapshotChunk_shardId m \<noteq> ''0'') (w_field W 8 (w_uint64 W (HNSWSnapshotChunk_shardId m))),
       w_if (HNSWSnapshotChunk_snapshotTsUnixNano m \<noteq> ''0'') (w_field W 16 (w_int64 W (HNSWSnapshotChunk_snapshotTsUnixNano m))),
       w_if (HNSWSnapshotChunk_data m \<noteq> []) (w_field W 26 (w_bytes W (HNSWSnapshotChunk_data m))),
       w_if (HNSWSnapshotChunk_done m) (w_field W 32 (w_bool W (HNSWSnapshotChunk_done m)))]"

definition switch_HNSWSnapshotChunk :: "('w, 'r) wire \<Rightarrow> ('r, HNSWSnapshotChunk) switch" where
  "switch_HNSWSnapshotChunk W tag m r =
     (if drop_bit 3 tag = 1 then
       (if tag \<noteq> 8 then Break
        else arm_read (r_uint64 W) (\<lambda>v. m\<lparr>HNSWSnapshotChunk_shardId := show_nat (unat v)\<rparr>) r)
      else if drop_bit 3 tag = 2 then
       (if tag \<noteq> 16 then Break
        else arm_read (r_int64 W) (\<lambda>v. m\<lparr>HNSWSnapshotChunk_snapshotTsUnixNano := show_int (sint v)\<rparr>) r)
      else if drop_bit 3 tag = 3 then
       (if tag \<noteq> 26 then Break
        else arm_read (r_bytes W) (\<lambda>v. m\<lparr>HNSWSnapshotChunk_data := v\<rparr>) r)
      else if drop_bit 3 tag = 4 then
       (if tag \<noteq> 32 then Break
        else arm_read (r_bool W) (\<lambda>v. m\<lparr>HNSWSnapshotChunk_done := v\<rparr>) r)
      else Break)"

type_synonym HNSWSnapshotChunk_partial = "(string option) \<times> (string option) \<times> (byte list option) \<times> (bool option)"

fun fromPartial_HNSWSnapshotChunk :: "HNSWSnapshotChunk_partial \<Rightarrow> HNSWSnapshotChunk" where
  "fromPartial_HNSWSnapshotChunk (shardId', snapshotTsUnixNano', data', done') =
     \<lparr>HNSWSnapshotChunk_shardId = nullish shardId' ''0'',
      HNSWSnapshotChunk_snapshotTsUnixNano = nullish snapshotTsUnixNano' ''0'',
      HNSWSnapshotChunk_data = nullish data' [],
      HNSWSnapshotChunk_done = nullish done' False\<rparr>"

definition create_HNSWSnapshotChunk :: "HNSWSnapshotChunk_partial option \<Rightarrow> HNSWSnapshotChunk" where
  "create_HNSWSnapshotChunk base = fromPartial_HNSWSnapshotChunk (nullish base (None, None, None, None))"

definition decode_HNSWSnapshotChunk :: "('w, 'r) wire \<Rightarrow> 'r \<Rightarrow> nat option \<Rightarrow> (HNSWSnapshotChunk \<times> 'r) comp" where
  "decode_HNSWSnapshotChunk W = decode_with W (switch_HNSWSnapshotChunk W) createBaseHNSWSnapshotChunk"

subsection \<open>\<^verbatim>\<open>HNSWUpdatesRequest\<close>\<close>

record HNSWUpdatesRequest =
  HNSWUpdatesRequest_shardId :: string
  HNSWUpdatesRequest_fromTsUnixNano :: string

definition createBaseHNSWUpdatesRequest :: HNSWUpdatesRequest where
  "createBaseHNSWUpdatesRequest =
     \<lparr>HNSWUpdatesRequest_shardId = ''0'',
      HNSWUpdatesRequest_fromTsUnixNano = ''0''\<rparr>"

definition encode_HNSWUpdatesRequest :: "('w, 'r) wire \<Rightarrow> HNSWUpdatesRequest \<Rightarrow> 'w writes" where
  "encode_HNSWUpdatesRequest W m =
     w_seq
      [w_if (HNSWUpdatesRequest_shardId m \<noteq> ''0'') (w_field W 8 (w_uint64 W (HNSWUpdatesRequest_shardId m))),
       w_if (HNSWUpdatesRequest_fromTsUnixNano m \<noteq> ''0'') (w_field W 16 (w_int64 W (HNSWUpdatesRequest_fromTsUnixNano m)))]"

definition switch_HNSWUpdatesRequest :: "('w, 'r) wire \<Rightarrow> ('r, HNSWUpdatesRequest) switch" where
  "switch_HNSWUpdatesRequest W tag m r =
     (if drop_bit 3 tag = 1 then
       (if tag \<noteq> 8 then Break
        else arm_read (r_uint64 W) (\<lambda>v. m\<lparr>HNSWUpdatesRequest_shardId := show_nat (unat v)\<rparr>) r)
      else if drop_bit 3 tag = 2 then
       (if tag \<noteq> 16 then Break
        else arm_read (r_int64 W) (\<lambda>v. m\<lparr>HNSWUpdatesRequest_fromTsUnixNano := show_int (sint v)\<rparr>) r)
      else Break)"

type_synonym HNSWUpdatesRequest_partial = "(string option) \<times> (string option)"

fun fromPartial_HNSWUpdatesRequest :: "HNSWUpdatesRequest_partial \<Rightarrow> HNSWUpdatesRequest" where
  "fromPartial_HNSWUpdatesRequest (shardId', fromTsUnixNano') =
     \<lparr>HNSWUpdatesRequest_shardId = nullish shardId' ''0'',
      HNSWUpdatesRequest_fromTsUnixNano = nullish fromTsUnixNano' ''0''\<rparr>"

definition create_HNSWUpdatesRequest :: "HNSWUpdatesRequest_partial option \<Rightarrow> HNSWUpdatesRequest" where
  "create_HNSWUpdatesRequest base = fromPartial_HNSWUpdatesRequest (nullish base (None, None))"

definition decode_HNSWUpdatesRequest :: "('w, 'r) wire \<Rightarrow> 'r \<Rightarrow> nat option \<Rightarrow> (HNSWUpdatesRequest \<times> 'r) comp" where
  "decode_HNSWUpdatesRequest W = decode_with W (switch_HNSWUpdatesRequest W) createBaseHNSWUpdatesRequest"

subsection \<open>\<^verbatim>\<open>HNSWUpdate\<close>\<close>

record HNSWUpdate =
  HNSWUpdate_id :: string
  HNSWUpdate_value :: "byte list"
  HNSWUpdate_delete :: bool
  HNSWUpdate_tsUnixNano :: string

definition createBaseHNSWUpdate :: HNSWUpdate where
  "createBaseHNSWUpdate =
     \<lparr>HNSWUpdate_id = [],
      HNSWUpdate_value = [],
      HNSWUpdate_delete = False,
      HNSWUpdate_tsUnixNano = ''0''\<rparr>"

definition encode_HNSWUpdate :: "('w, 'r) wire \<Rightarrow> HNSWUpdate \<Rightarrow> 'w writes" where
  "encode_HNSWUpdate W m =
     w_seq
      [w_if (HNSWUpdate_id m \<noteq> []) (w_field W 10 (w_string W (HNSWUpdate_id m))),
       w_if (HNSWUpdate_value m \<noteq> []) (w_field W 18 (w_bytes W (HNSWUpdate_value m))),
       w_if (HNSWUpdate_delete m) (w_field W 24 (w_bool W (HNSWUpdate_delete m))),
       w_if (HNSWUpdate_tsUnixNano m \<noteq> ''0'') (w_field W 32 (w_int64 W (HNSWUpdate_tsUnixNano m)))]"

definition switch_HNSWUpdate :: "('w, 'r) wire \<Rightarrow> ('r, HNSWUpdate) switch" where
  "switch_HNSWUpdate W tag m r =
     (if drop_bit 3 tag = 1 then
       (if tag \<noteq> 10 then Break
        else arm_read (r_string W) (\<lambda>v. m\<lparr>HNSWUpdate_id := v\<rparr>) r)
      else if drop_bit 3 tag = 2 then
       (if tag \<noteq> 18 then Break
        else arm_read (r_bytes W) (\<lambda>v. m\<lparr>HNSWUpdate_value := v\<rparr>) r)
      else if drop_bit 3 tag = 3 then
       (if tag \<noteq> 24 then Break
        else arm_read (r_bool W) (\<lambda>v. m\<lparr>HNSWUpdate_delete := v\<rparr>) r)
      else if drop_bit 3 tag = 4 then
       (if tag \<noteq> 32 then Break
        else arm_read (r_int64 W) (\<lambda>v. m\<lparr>HNSWUpdate_tsUnixNano := show_int (sint v)\<rparr>) r)
      else Break)"

type_synonym HNSWUpdate_partial = "(string option) \<times> (byte list option) \<times> (bool option) \<times> (string option)"

fun fromPartial_HNSWUpdate :: "HNSWUpdate_partial \<Rightarrow> HNSWUpdate" where
  "fromPartial_HNSWUpdate (id', value', delete', tsUnixNano') =
     \<lparr>HNSWUpdate_id = nullish id' [],
      HNSWUpdate_value = nullish value' [],
      HNSWUpdate_delete = nullish delete' False,
      HNSWUpdate_tsUnixNano = nullish tsUnixNano' ''0''\<rparr>"

definition create_HNSWUpdate :: "HNSWUpdate_partial option \<Rightarrow> HNSWUpdate" where
  "create_HNSWUpdate base = fromPartial_HNSWUpdate (nullish base (None, None, None, None))"

definition decode_HNSWUpdate :: "('w, 'r) wire \<Rightarrow> 'r \<Rightarrow> nat option \<Rightarrow> (HNSWUpdate \<times> 'r) comp" where
  "decode_HNSWUpdate W = decode_with W (switch_HNSWUpdate W) createBaseHNSWUpdate"

subsection \<open>\<^verbatim>\<open>HNSWUpdateBatch\<close>\<close>

record HNSWUpdateBatch =
  HNSWUpdateBatch_updates :: "HNSWUpdate list"

definition createBaseHNSWUpdateBatch :: HNSWUpdateBatch where
  "createBaseHNSWUpdateBatch =
     \<lparr>HNSWUpdateBatch_updates = []\<rparr>"

definition encode_HNSWUpdateBatch :: "('w, 'r) wire \<Rightarrow> HNSWUpdateBatch \<Rightarrow> 'w writes" where
  "encode_HNSWUpdateBatch W m =
     w_seq
      [w_seq (map (\<lambda>v. w_nested W 10 (encode_HNSWUpdate W v)) (HNSWUpdateBatch_updates m))]"

definition switch_HNSWUpdateBatch :: "('w, 'r) wire \<Rightarrow> ('r, HNSWUpdateBatch) switch" where
  "switch_HNSWUpdateBatch W tag m r =
     (if drop_bit 3 tag = 1 then
       (if tag \<noteq> 10 then Break
        else arm_sub W (decode_HNSWUpdate W) (\<lambda>v. m\<lparr>HNSWUpdateBatch_updates := HNSWUpdateBatch_updates m @ [v]\<rparr>) r)
      else Break)"

type_synonym HNSWUpdateBatch_partial = "HNSWUpdate_partial list option"

fun fromPartial_HNSWUpdateBatch :: "HNSWUpdateBatch_partial \<Rightarrow> HNSWUpdateBatch" where
  "fromPartial_HNSWUpdateBatch updates' =
     \<lparr>HNSWUpdateBatch_updates = map fromPartial_HNSWUpdate (nullish updates' [])\<rparr>"

definition create_HNSWUpdateBatch :: "HNSWUpdateBatch_partial option \<Rightarrow> HNSWUpdateBatch" where
  "create_HNSWUpdateBatch base = fromPartial_HNSWUpdateBatch (nullish base None)"

definition decode_HNSWUpdateBatch :: "('w, 'r) wire \<Rightarrow> 'r \<Rightarrow> nat option \<Rightarrow> (HNSWUpdateBatch \<times> 'r) comp" where
  "decode_HNSWUpdateBatch W = decode_with W (switch_HNSWUpdateBatch W) createBaseHNSWUpdateBatch"

subsection \<open>\<^verbatim>\<open>KeyValuePair\<close>\<close>

record KeyValuePair =
  KeyValuePair_key :: "byte list"
  KeyValuePair_value :: "byte list"

definition createBaseKeyValuePair :: KeyValuePair where
  "createBaseKeyValuePair =
     \<lparr>KeyValuePair_key = [],
      KeyValuePair_value = []\<rparr>"

definition encode_KeyValuePair :: "('w, 'r) wire \<Rightarrow> KeyValuePair \<Rightarrow> 'w writes" where
  "encode_KeyValuePair W m =
     w_seq
      [w_if (KeyValuePair_key m \<noteq> []) (w_field W 10 (w_bytes W (KeyValuePair_key m))),
       w_if (KeyValuePair_value m \<noteq> []) (w_field W 18 (w_bytes W (KeyValuePair_value m)))]"

definition switch_KeyValuePair :: "('w, 'r) wire \<Rightarrow> ('r, KeyValuePair) switch" where
  "switch_KeyValuePair W tag m r =
     (if drop_bit 3 tag = 1 then
       (if tag \<noteq> 10 then Break
        else arm_read (r_bytes W) (\<lambda>v. m\<lparr>KeyValuePair_key := v\<rparr>) r)
      else if drop_bit 3 tag = 2 then
       (if tag \<noteq> 18 then Break
        else arm_read (r_bytes W) (\<lambda>v. m\<lparr>KeyValuePair_value := v\<rparr>) r)
      else Break)"

type_synonym KeyValuePair_partial = "(byte list option) \<times> (byte list option)"

fun fromPartial_KeyValuePair :: "KeyValuePair_partial \<Rightarrow> KeyValuePair" where
  "fromPartial_KeyValuePair (key', value') =
     \<lparr>KeyValuePair_key = nullish key' [],
      KeyValuePair_value = nullish value' []\<rparr>"

definition create_KeyValuePair :: "KeyValuePair_partial option \<Rightarrow> KeyValuePair" where
  "create_KeyValuePair base = fromPartial_KeyValuePair (nullish base (None, None))"

definition decode_KeyValuePair :: "('w, 'r) wire \<Rightarrow> 'r \<Rightarrow> nat option \<Rightarrow> (KeyValuePair \<times> 'r) comp" where
  "decode_KeyValuePair W = decode_with W (switch_KeyValuePair W) createBaseKeyValuePair"

subsection \<open>\<^verbatim>\<open>PutRequest\<close>\<close>

record PutRequest =
  PutRequest_shardId :: string
  PutRequest_kv :: "KeyValuePair option"
  PutRequest_shardEpoch :: string
  PutRequest_leaseExpiryUnixMs :: string

definition createBasePutRequest :: PutRequest where
  "createBasePutRequest =
     \<lparr>PutRequest_shardId = ''0'',
      PutRequest_kv = None,
      PutRequest_shardEpoch = ''0'',
      PutRequest_leaseExpiryUnixMs = ''0''\<rparr>"

definition encode_PutRequest :: "('w, 'r) wire \<Rightarrow> PutRequest \<Rightarrow> 'w writes" where
  "encode_PutRequest W m =
     w_seq
      [w_if (PutRequest_shardId m \<noteq> ''0'') (w_field W 8 (w_uint64 W (PutRequest_shardId m))),
       (case PutRequest_kv m of None \<Rightarrow> w_seq [] | Some v \<Rightarrow> w_nested W 18 (encode_KeyValuePair W v)),
       w_if (PutRequest_shardEpoch m \<noteq> ''0'') (w_field W 24 (w_uint64 W (PutRequest_shardEpoch m))),
       w_if (PutRequest_leaseExpiryUnixMs m \<noteq> ''0'') (w_field W 32 (w_int64 W (PutRequest_leaseExpiryUnixMs m)))]"

definition switch_PutRequest :: "('w, 'r) wire \<Rightarrow> ('r, PutRequest) switch" where
  "switch_PutRequest W tag m r =
     (if drop_bit 3 tag = 1 then
       (if tag \<noteq> 8 then Break
        else arm_read (r_uint64 W) (\<lambda>v. m\<lparr>PutRequest_shardId := show_nat (unat v)\<rparr>) r)
      else if drop_bit 3 tag = 2 then
       (if tag \<noteq> 18 then Break
        else arm_sub W (decode_KeyValuePair W) (\<lambda>v. m\<lparr>PutRequest_kv := Some v\<rparr>) r)
      else if drop_bit 3 tag = 3 then
       (if tag \<noteq> 24 then Break
        else arm_read (r_uint64 W) (\<lambda>v. m\<lparr>PutRequest_shardEpoch := show_nat (unat v)\<rparr>) r)
      else if drop_bit 3 tag = 4 then
       (if tag \<noteq> 32 then Break
        else arm_read (r_int64 W) (\<lambda>v. m\<lparr>PutRequest_leaseExpiryUnixMs := show_int (sint v)\<rparr>) r)
      else Break)"

type_synonym PutRequest_partial = "(string option) \<times> (KeyValuePair_partial option) \<times> (string option) \<times> (string option)"

fun fromPartial_PutRequest :: "PutRequest_partial \<Rightarrow> PutRequest" where
  "fromPartial_PutRequest (shardId', kv', shardEpoch', leaseExpiryUnixMs') =
     \<lparr>PutRequest_shardId = nullish shardId' ''0'',
      PutRequest_kv = map_option fromPartial_KeyValuePair kv',
      PutRequest_shardEpoch = nullish shardEpoch' ''0'',
      PutRequest_leaseExpiryUnixMs = nullish leaseExpiryUnixMs' ''0''\<rparr>"

definition create_PutRequest :: "PutRequest_partial option \<Rightarrow> PutRequest" where
  "create_PutRequest base = fromPartial_PutRequest (nullish base (None, None, None, None))"

definition decode_PutRequest :: "('w, 'r) wire \<Rightarrow> 'r \<Rightarrow> nat option \<Rightarrow> (PutRequest \<times> 'r) comp" where
  "decode_PutRequest W = decode_with W (switch_PutRequest W) createBasePutRequest"

subsection \<open>\<^verbatim>\<open>PutResponse\<close>\<close>

datatype PutResponse = PutResponse

definition createBasePutResponse :: PutResponse where
  "createBasePutResponse = PutResponse"

definition encode_PutResponse :: "('w, 'r) wire \<Rightarrow> PutResponse \<Rightarrow> 'w writes" where
  "encode_PutResponse W m = w_seq []"

definition switch_PutResponse :: "('w, 'r) wire \<Rightarrow> ('r, PutResponse) switch" where
  "switch_PutResponse W tag m r = Break"

definition fromPartial_PutResponse :: "unit \<Rightarrow> PutResponse" where
  "fromPartial_PutResponse u = createBasePutResponse"

definition create_PutResponse :: "unit option \<Rightarrow> PutResponse" where
  "create_PutResponse base = fromPartial_PutResponse (nullish base ())"

definition decode_PutResponse :: "('w, 'r) wire \<Rightarrow> 'r \<Rightarrow> nat option \<Rightarrow> (PutResponse \<times> 'r) comp" where
  "decode_PutResponse W = decode_with W (switch_PutResponse W) createBasePutResponse"

subsection \<open>\<^verbatim>\<open>GetRequest\<close>\<close>

record WkGetRequest =
  WkGetRequest_shardId :: string
  WkGetRequest_key :: "byte list"
  WkGetRequest_shardEpoch :: string
  WkGetRequest_leaseExpiryUnixMs :: string

definition createBaseWkGetRequest :: WkGetRequest where
  "createBaseWkGetRequest =
     \<lparr>WkGetRequest_shardId = ''0'',
      WkGetRequest_key = [],
      WkGetRequest_shardEpoch = ''0'',
      WkGetRequest_leaseExpiryUnixMs = ''0''\<rparr>"

definition encode_WkGetRequest :: "('w, 'r) wire \<Rightarrow> WkGetRequest \<Rightarrow> 'w writes" where
  "encode_WkGetRequest W m =
     w_seq
      [w_if (WkGetRequest_shardId m \<noteq> ''0'') (w_field W 8 (w_uint64 W (WkGetRequest_shardId m))),
       w_if (WkGetRequest_key m \<noteq> []) (w_field W 18 (w_bytes W (WkGetRequest_key m))),
       w_if (WkGetRequest_shardEpoch m \<noteq> ''0'') (w_field W 24 (w_uint64 W (WkGetRequest_shardEpoch m))),
       w_if (WkGetRequest_leaseExpiryUnixMs m \<noteq> ''0'') (w_field W 32 (w_int64 W (WkGetRequest_leaseExpiryUnixMs m)))]"

definition switch_WkGetRequest :: "('w, 'r) wire \<Rightarrow> ('r, WkGetRequest) switch" where
  "switch_WkGetRequest W tag m r =
     (if drop_bit 3 tag = 1 then
       (if tag \<noteq> 8 then Break
        else arm_read (r_uint64 W) (\<lambda>v. m\<lparr>WkGetRequest_shardId := show_nat (unat v)\<rparr>) r)
      else if drop_bit 3 tag = 2 then
       (if tag \<noteq> 18 then Break
        else arm_read (r_bytes W) (\<lambda>v. m\<lparr>WkGetRequest_key := v\<rparr>) r)
      else if drop_bit 3 tag = 3 then
       (if tag \<noteq> 24 then Break
        else arm_read (r_uint64 W) (\<lambda>v. m\<lparr>WkGetRequest_shardEpoch := show_nat (unat v)\<rparr>) r)
      else if drop_bit 3 tag = 4 then
       (if tag \<noteq> 32 then Break
        else arm_read (r_int64 W) (\<lambda>v. m\<lparr>WkGetRequest_leaseExpiryUnixMs := show_int (sint v)\<rparr>) r)
      else Break)"

type_synonym WkGetRequest_partial = "(string option) \<times> (byte list option) \<times> (string option) \<times> (string option)"

fun fromPartial_WkGetRequest :: "WkGetRequest_partial \<Rightarrow> WkGetRequest" where
  "fromPartial_WkGetRequest (shardId', key', shardEpoch', leaseExpiryUnixMs') =
     \<lparr>WkGetRequest_shardId = nullish shardId' ''0'',
      WkGetRequest_key = nullish key' [],
      WkGetRequest_shardEpoch = nullish shardEpoch' ''0'',
      WkGetRequest_leaseExpiryUnixMs = nullish leaseExpiryUnixMs' ''0''\<rparr>"

definition create_WkGetRequest :: "WkGetRequest_partial option \<Rightarrow> WkGetRequest" where
  "create_WkGetRequest base = fromPartial_WkGetRequest (nullish base (None, None, None, None))"

definition decode_WkGetRequest :: "('w, 'r) wire \<Rightarrow> 'r \<Rightarrow> nat option \<Rightarrow> (WkGetRequest \<times> 'r) comp" where
  "decode_WkGetRequest W = decode_with W (switch_WkGetRequest W) createBaseWkGetRequest"

subsection \<open>\<^verbatim>\<open>GetResponse\<close>\<close>

record WkGetResponse =
  WkGetResponse_kv :: "KeyValuePair option"

definition createBaseWkGetResponse :: WkGetResponse where
  "createBaseWkGetResponse =
     \<lparr>WkGetResponse_kv = None\<rparr>"

definition encode_WkGetResponse :: "('w, 'r) wire \<Rightarrow> WkGetResponse \<Rightarrow> 'w writes" where
  "encode_WkGetResponse W m =
     w_seq
      [(case WkGetResponse_kv m of None \<Rightarrow> w_seq [] | Some v \<Rightarrow> w_nested W 10 (encode_KeyValuePair W v))]"

definition switch_WkGetResponse :: "('w, 'r) wire \<Rightarrow> ('r, WkGetResponse) switch" where
  "switch_WkGetResponse W tag m r =
     (if drop_bit 3 tag = 1 then
       (if tag \<noteq> 10 then Break
        else arm_sub W (decode_KeyValuePair W) (\<lambda>v. m\<lparr>WkGetResponse_kv := Some v\<rparr>) r)
      else Break)"

type_synonym WkGetResponse_partial = "KeyValuePair_partial option"

fun fromPartial_WkGetResponse :: "WkGetResponse_partial \<Rightarrow> WkGetResponse" where
  "fromPartial_WkGetResponse kv' =
     \<lparr>WkGetResponse_kv = map_option fromPartial_KeyValuePair kv'\<rparr>"

definition create_WkGetResponse :: "WkGetResponse_partial option \<Rightarrow> WkGetResponse" where
  "create_WkGetResponse base = fromPartial_WkGetResponse (nullish base None)"

definition decode_WkGetResponse :: "('w, 'r) wire \<Rightarrow> 'r \<Rightarrow> nat option \<Rightarrow> (WkGetResponse \<times> 'r) comp" where
  "decode_WkGetResponse W = decode_with W (switch_WkGetResponse W) createBaseWkGetResponse"

subsection \<open>\<^verbatim>\<open>DeleteRequest\<close>\<close>

record WkDeleteRequest =
  WkDeleteRequest_shardId :: string
  WkDeleteRequest_key :: "byte list"
  WkDeleteRequest_shardEpoch :: string
  WkDeleteRequest_leaseExpiryUnixMs :: string

definition createBaseWkDeleteRequest :: WkDeleteRequest where
  "createBaseWkDeleteRequest =
     \<lparr>WkDeleteRequest_shardId = ''0'',
      WkDeleteRequest_key = [],
      WkDeleteRequest_shardEpoch = ''0'',
      WkDeleteRequest_leaseExpiryUnixMs = ''0''\<rparr>"

definition encode_WkDeleteRequest :: "('w, 'r) wire \<Rightarrow> WkDeleteRequest \<Rightarrow> 'w writes" where
  "encode_WkDeleteRequest W m =
     w_seq
      [w_if (WkDeleteRequest_shardId m \<noteq> ''0'') (w_field W 8 (w_uint64 W (WkDeleteRequest_shardId m))),
       w_if (WkDeleteRequest_key m \<noteq> []) (w_field W 18 (w_bytes W (WkDeleteRequest_key m))),
       w_if (WkDeleteRequest_shardEpoch m \<noteq> ''0'') (w_field W 24 (w_uint64 W (WkDeleteRequest_shardEpoch m))),
       w_if (WkDeleteRequest_leaseExpiryUnixMs m \<noteq> ''0'') (w_field W 32 (w_int64 W (WkDeleteRequest_leaseExpiryUnixMs m)))]"

definition switch_WkDeleteRequest :: "('w, 'r) wire \<Rightarrow> ('r, WkDeleteRequest) switch" where
  "switch_WkDeleteRequest W tag m r =
     (if drop_bit 3 tag = 1 then
       (if tag \<noteq> 8 then Break
        else arm_read (r_uint64 W) (\<lambda>v. m\<lparr>WkDeleteRequest_shardId := show_nat (unat v)\<rparr>) r)
      else if drop_bit 3 tag = 2 then
       (if tag \<noteq> 18 then Break
        else arm_read (r_bytes W) (\<lambda>v. m\<lparr>WkDeleteRequest_key := v\<rparr>) r)
      else if drop_bit 3 tag = 3 then
       (if tag \<noteq> 24 then Break
        else arm_read (r_uint64 W) (\<lambda>v. m\<lparr>WkDeleteRequest_shardEpoch := show_nat (unat v)\<rparr>) r)
      else if drop_bit 3 tag = 4 then
       (if tag \<noteq> 32 then Break
        else arm_read (r_int64 W) (\<lambda>v. m\<lparr>WkDeleteRequest_leaseExpiryUnixMs := show_int (sint v)\<rparr>) r)
      else Break)"

type_synonym WkDeleteRequest_partial = "(string option) \<times> (byte list option) \<times> (string option) \<times> (string option)"

fun fromPartial_WkDeleteRequest :: "WkDeleteRequest_partial \<Rightarrow> WkDeleteRequest" where
  "fromPartial_WkDeleteRequest (shardId', key', shardEpoch', leaseExpiryUnixMs') =
     \<lparr>WkDeleteRequest_shardId = nullish shardId' ''0'',
      WkDeleteRequest_key = nullish key' [],
      WkDeleteRequest_shardEpoch = nullish shardEpoch' ''0'',
      WkDeleteRequest_leaseExpiryUnixMs = nullish leaseExpiryUnixMs' ''0''\<rparr>"

definition create_WkDeleteRequest :: "WkDeleteRequest_partial option \<Rightarrow> WkDeleteRequest" where
  "create_WkDeleteRequest base = fromPartial_WkDeleteRequest (nullish base (None, None, None, None))"

definition decode_WkDeleteRequest :: "('w, 'r) wire \<Rightarrow> 'r \<Rightarrow> nat option \<Rightarrow> (WkDeleteRequest \<times> 'r) comp" where
  "decode_WkDeleteRequest W = decode_with W (switch_WkDeleteRequest W) createBaseWkDeleteRequest"

subsection \<open>\<^verbatim>\<open>DeleteResponse\<close>\<close>

datatype WkDeleteResponse = WkDeleteResponse

definition createBaseWkDeleteResponse :: WkDeleteResponse where
  "createBaseWkDeleteResponse = WkDeleteResponse"

definition encode_WkDeleteResponse :: "('w, 'r) wire \<Rightarrow> WkDeleteResponse \<Rightarrow> 'w writes" where
  "encode_WkDeleteResponse W m = w_seq []"

definition switch_WkDeleteResponse :: "('w, 'r) wire \<Rightarrow> ('r, WkDeleteResponse) switch" where
  "switch_WkDeleteResponse W tag m r = Break"

definition fromPartial_WkDeleteResponse :: "unit \<Rightarrow> WkDeleteResponse" where
  "fromPartial_WkDeleteResponse u = createBaseWkDeleteResponse"

definition create_WkDeleteResponse :: "unit option \<Rightarrow> WkDeleteResponse" where
  "create_WkDeleteResponse base = fromPartial_WkDeleteResponse (nullish base ())"

definition decode_WkDeleteResponse :: "('w, 'r) wire \<Rightarrow> 'r \<Rightarrow> nat option \<Rightarrow> (WkDeleteResponse \<times> 'r) comp" where
  "decode_WkDeleteResponse W = decode_with W (switch_WkDeleteResponse W) createBaseWkDeleteResponse"

subsection \<open>\<^verbatim>\<open>StatusRequest\<close>\<close>

record StatusRequest =
  StatusRequest_shardId :: string
  StatusRequest_shardEpoch :: string
  StatusRequest_leaseExpiryUnixMs :: string

definition createBaseStatusRequest :: StatusRequest where
  "createBaseStatusRequest =
     \<lparr>StatusRequest_shardId = ''0'',
      StatusRequest_shardEpoch = ''0'',
      StatusRequest_leaseExpiryUnixMs = ''0''\<rparr>"

definition encode_StatusRequest :: "('w, 'r) wire \<Rightarrow> StatusRequest \<Rightarrow> 'w writes" where
  "encode_StatusRequest W m =
     w_seq
      [w_if (StatusRequest_shardId m \<noteq> ''0'') (w_field W 8 (w_uint64 W (StatusRequest_shardId m))),
       w_if (StatusRequest_shardEpoch m \<noteq> ''0'') (w_field W 16 (w_uint64 W (StatusRequest_shardEpoch m))),
       w_if (StatusRequest_leaseExpiryUnixMs m \<noteq> ''0'') (w_field W 24 (w_int64 W (StatusRequest_leaseExpiryUnixMs m)))]"

definition switch_StatusRequest :: "('w, 'r) wire \<Rightarrow> ('r, StatusRequest) switch" where
  "switch_StatusRequest W tag m r =
     (if drop_bit 3 tag = 1 then
       (if tag \<noteq> 8 then Break
        else arm_read (r_uint64 W) (\<lambda>v. m\<lparr>StatusRequest_shardId := show_nat (unat v)\<rparr>) r)
      else if drop_bit 3 tag = 2 then
       (if tag \<noteq> 16 then Break
        else arm_read (r_uint64 W) (\<lambda>v. m\<lparr>StatusRequest_shardEpoch := show_nat (unat v)\<rparr>) r)
      else if drop_bit 3 tag = 3 then
       (if tag \<noteq> 24 then Break
        else arm_read (r_int64 W) (\<lambda>v. m\<lparr>StatusRequest_leaseExpiryUnixMs := show_int (sint v)\<rparr>) r)
      else Break)"

type_synonym StatusRequest_partial = "(string option) \<times> (string option) \<times> (string option)"

fun fromPartial_StatusRequest :: "StatusRequest_partial \<Rightarrow> StatusRequest" where
  "fromPartial_StatusRequest (shardId', shardEpoch', leaseExpiryUnixMs') =
     \<lparr>StatusRequest_shardId = nullish shardId' ''0'',
      StatusRequest_shardEpoch = nullish shardEpoch' ''0'',
      StatusRequest_leaseExpiryUnixMs = nullish leaseExpiryUnixMs' ''0''\<rparr>"

definition create_StatusRequest :: "StatusRequest_partial option \<Rightarrow> StatusRequest" where
  "create_StatusRequest base = fromPartial_StatusRequest (nullish base (None, None, None))"

definition decode_StatusRequest :: "('w, 'r) wire \<Rightarrow> 'r \<Rightarrow> nat option \<Rightarrow> (StatusRequest \<times> 'r) comp" where
  "decode_StatusRequest W = decode_with W (switch_StatusRequest W) createBaseStatusRequest"

subsection \<open>\<^verbatim>\<open>StatusResponse\<close>\<close>

record StatusResponse =
  StatusResponse_status :: string

definition createBaseStatusResponse :: StatusResponse where
  "createBaseStatusResponse =
     \<lparr>StatusResponse_status = []\<rparr>"

definition encode_StatusResponse :: "('w, 'r) wire \<Rightarrow> StatusResponse \<Rightarrow> 'w writes" where
  "encode_StatusResponse W m =
     w_seq
      [w_if (StatusResponse_status m \<noteq> []) (w_field W 10 (w_string W (StatusResponse_status m)))]"

definition switch_StatusResponse :: "('w, 'r) wire \<Rightarrow> ('r, StatusResponse) switch" where
  "switch_StatusResponse W tag m r =
     (if drop_bit 3 tag = 1 then
       (if tag \<noteq> 10 then Break
        else arm_read (r_string W) (\<lambda>v. m\<lparr>StatusResponse_status := v\<rparr>) r)
      else Break)"

type_synonym StatusResponse_partial = "string option"

fun fromPartial_StatusResponse :: "StatusResponse_partial \<Rightarrow> StatusResponse" where
  "fromPartial_StatusResponse status' =
     \<lparr>StatusResponse_status = nullish status' []\<rparr>"

definition create_StatusResponse :: "StatusResponse_partial option \<Rightarrow> StatusResponse" where
  "create_StatusResponse base = fromPartial_StatusResponse (nullish base None)"

definition decode_StatusResponse :: "('w, 'r) wire \<Rightarrow> 'r \<Rightarrow> nat option \<Rightarrow> (StatusResponse \<times> 'r) comp" where
  "decode_StatusResponse W = decode_with W (switch_StatusResponse W) createBaseStatusResponse"

subsection \<open>\<^verbatim>\<open>FlushRequest\<close>\<close>

record FlushRequest =
  FlushRequest_shardId :: string
  FlushRequest_shardEpoch :: string
  FlushRequest_leaseExpiryUnixMs :: string

definition createBaseFlushRequest :: FlushRequest where
  "createBaseFlushRequest =
     \<lparr>FlushRequest_shardId = ''0'',
      FlushRequest_shardEpoch = ''0'',
      FlushRequest_leaseExpiryUnixMs = ''0''\<rparr>"

definition encode_FlushRequest :: "('w, 'r) wire \<Rightarrow> FlushRequest \<Rightarrow> 'w writes" where
  "encode_FlushRequest W m =
     w_seq
      [w_if (FlushRequest_shardId m \<noteq> ''0'') (w_field W 8 (w_uint64 W (FlushRequest_shardId m))),
       w_if (FlushRequest_shardEpoch m \<noteq> ''0'') (w_field W 16 (w_uint64 W (FlushRequest_shardEpoch m))),
       w_if (FlushRequest_leaseExpiryUnixMs m \<noteq> ''0'') (w_field W 24 (w_int64 W (FlushRequest_leaseExpiryUnixMs m)))]"

definition switch_FlushRequest :: "('w, 'r) wire \<Rightarrow> ('r, FlushRequest) switch" where
  "switch_FlushRequest W tag m r =
     (if drop_bit 3 tag = 1 then
       (if tag \<noteq> 8 then Break
        else arm_read (r_uint64 W) (\<lambda>v. m\<lparr>FlushRequest_shardId := show_nat (unat v)\<rparr>) r)
      else if drop_bit 3 tag = 2 then
       (if tag \<noteq> 16 then Break
        else arm_read (r_uint64 W) (\<lambda>v. m\<lparr>FlushRequest_shardEpoch := show_nat (unat v)\<rparr>) r)
      else if drop_bit 3 tag = 3 then
       (if tag \<noteq> 24 then Break
        else arm_read (r_int64 W) (\<lambda>v. m\<lparr>FlushRequest_leaseExpiryUnixMs := show_int (sint v)\<rparr>) r)
      else Break)"

type_synonym FlushRequest_partial = "(string option) \<times> (string option) \<times> (string option)"

fun fromPartial_FlushRequest :: "FlushRequest_partial \<Rightarrow> FlushRequest" where
  "fromPartial_FlushRequest (shardId', shardEpoch', leaseExpiryUnixMs') =
     \<lparr>FlushRequest_shardId = nullish shardId' ''0'',
      FlushRequest_shardEpoch = nullish shardEpoch' ''0'',
      FlushRequest_leaseExpiryUnixMs = nullish leaseExpiryUnixMs' ''0''\<rparr>"

definition create_FlushRequest :: "FlushRequest_partial option \<Rightarrow> FlushRequest" where
  "create_FlushRequest base = fromPartial_FlushRequest (nullish base (None, None, None))"

definition decode_FlushRequest :: "('w, 'r) wire \<Rightarrow> 'r \<Rightarrow> nat option \<Rightarrow> (FlushRequest \<times> 'r) comp" where
  "decode_FlushRequest W = decode_with W (switch_FlushRequest W) createBaseFlushRequest"

subsection \<open>\<^verbatim>\<open>FlushResponse\<close>\<close>

datatype FlushResponse = FlushResponse

definition createBaseFlushResponse :: FlushResponse where
  "createBaseFlushResponse = FlushResponse"

definition encode_FlushResponse :: "('w, 'r) wire \<Rightarrow> FlushResponse \<Rightarrow> 'w writes" where
  "encode_FlushResponse W m = w_seq []"

definition switch_FlushResponse :: "('w, 'r) wire \<Rightarrow> ('r, FlushResponse) switch" where
  "switch_FlushResponse W tag m r = Break"

definition fromPartial_FlushResponse :: "unit \<Rightarrow> FlushResponse" where
  "fromPartial_FlushResponse u = createBaseFlushResponse"

definition create_FlushResponse :: "unit option \<Rightarrow> FlushResponse" where
  "create_FlushResponse base = fromPartial_FlushResponse (nullish base ())"

definition decode_FlushResponse :: "('w, 'r) wire \<Rightarrow> 'r \<Rightarrow> nat option \<Rightarrow> (FlushResponse \<times> 'r) comp" where
  "decode_FlushResponse W = decode_with W (switch_FlushResponse W) createBaseFlushResponse"

section \<open>The switches, arm by arm\<close>

definition rounded_Vector :: "(js_num \<Rightarrow> js_num) \<Rightarrow> Vector \<Rightarrow> Vector" where
  "rounded_Vector fround m = m\<lparr>Vector_vector := map fround (Vector_vector m)\<rparr>"

lemma switch_Vector_arms:
  "switch_Vector W 10 m = arm_read (r_string W) (\<lambda>v. m\<lparr>Vector_id := v\<rparr>)"
  "switch_Vector W 21 m = arm_read (r_float W) (\<lambda>v. m\<lparr>Vector_vector := Vector_vector m @ [v]\<rparr>)"
  "switch_Vector W 18 m = arm_packed W (r_float W) (\<lambda>vs. m\<lparr>Vector_vector := Vector_vector m @ vs\<rparr>)"
  "switch_Vector W 26 m = arm_read (r_bytes W) (\<lambda>v. m\<lparr>Vector_metadata := v\<rparr>)"
  by (simp_all add: switch_Vector_def fun_eq_iff)

definition rounded_StoreVectorRequest :: "(js_num \<Rightarrow> js_num) \<Rightarrow> StoreVectorRequest \<Rightarrow> StoreVectorRequest" where
  "rounded_StoreVectorRequest fround m = m\<lparr>StoreVectorRequest_vector := map_option (rounded_Vector fround) (StoreVectorRequest_vector m)\<rparr>"

definition wf_StoreVectorRequest :: "StoreVectorRequest \<Rightarrow> bool" where
  "wf_StoreVectorRequest m \<longleftrightarrow> uint64_string (StoreVectorRequest_shardId m) \<and> uint64_string (StoreVectorRequest_shardEpoch m) \<and> int64_string (StoreVectorRequest_leaseExpiryUnixMs m)"

lemma switch_StoreVectorRequest_arms:
  "switch_StoreVectorRequest W 8 m = arm_read (r_uint64 W) (\<lambda>v. m\<lparr>StoreVectorRequest_shardId := show_nat (unat v)\<rparr>)"
  "switch_StoreVectorRequest W 18 m = arm_sub W (decode_with W (switch_Vector W) createBaseVector) (\<lambda>v. m\<lparr>StoreVectorRequest_vector := Some v\<rparr>)"
  "switch_StoreVectorRequest W 24 m = arm_read (r_uint64 W) (\<lambda>v. m\<lparr>StoreVectorRequest_shardEpoch := show_nat (unat v)\<rparr>)"
  "switch_StoreVectorRequest W 32 m = arm_read (r_int64 W) (\<lambda>v. m\<lparr>StoreVectorRequest_leaseExpiryUnixMs := show_int (sint v)\<rparr>)"
  by (simp_all add: switch_StoreVectorRequest_def fun_eq_iff decode_Vector_def)

definition rounded_BatchStoreVectorRequest :: "(js_num \<Rightarrow> js_num) \<Rightarrow> BatchStoreVectorRequest \<Rightarrow> BatchStoreVectorRequest" where
  "rounded_BatchStoreVectorRequest fround m = m\<lparr>BatchStoreVectorRequest_vectors := map (rounded_Vector fround) (BatchStoreVectorRequest_vectors m)\<rparr>"

definition wf_BatchStoreVectorRequest :: "BatchStoreVectorRequest \<Rightarrow> bool" where
  "wf_BatchStoreVectorRequest m \<longleftrightarrow> uint64_string (BatchStoreVectorRequest_shardId m) \<and> uint64_string (BatchStoreVectorRequest_shardEpoch m) \<and> int64_string (BatchStoreVectorRequest_leaseExpiryUnixMs m)"

lemma foldl_BatchStoreVectorRequest_vectors:
  "foldl (\<lambda>y v. y\<lparr>BatchStoreVectorRequest_vectors := BatchStoreVectorRequest_vectors y @ [h v]\<rparr>) m vs = m\<lparr>BatchStoreVectorRequest_vectors := BatchStoreVectorRequest_vectors m @ map h vs\<rparr>"
  by (induction vs arbitrary: m) simp_all

lemma switch_BatchStoreVectorRequest_arms:
  "switch_BatchStoreVectorRequest W 8 m = arm_read (r_uint64 W) (\<lambda>v. m\<lparr>BatchStoreVectorRequest_shardId := show_nat (unat v)\<rparr>)"
  "switch_BatchStoreVectorRequest W 18 m = arm_sub W (decode_with W (switch_Vector W) createBaseVector) (\<lambda>v. m\<lparr>BatchStoreVectorRequest_vectors := BatchStoreVectorRequest_vectors m @ [v]\<rparr>)"
  "switch_BatchStoreVectorRequest W 24 m = arm_read (r_uint64 W) (\<lambda>v. m\<lparr>BatchStoreVectorRequest_shardEpoch := show_nat (unat v)\<rparr>)"
  "switch_BatchStoreVectorRequest W 32 m = arm_read (r_int64 W) (\<lambda>v. m\<lparr>BatchStoreVectorRequest_leaseExpiryUnixMs := show_int (sint v)\<rparr>)"
  by (simp_all add: switch_BatchStoreVectorRequest_def fun_eq_iff decode_Vector_def)

lemma switch_BatchStoreVectorResponse_arms:
  "switch_BatchStoreVectorResponse W 8 m = arm_read (r_int32 W) (\<lambda>v. m\<lparr>BatchStoreVectorResponse_stored := num_of_int (sint v)\<rparr>)"
  by (simp_all add: switch_BatchStoreVectorResponse_def fun_eq_iff)

definition wf_GetVectorRequest :: "GetVectorRequest \<Rightarrow> bool" where
  "wf_GetVectorRequest m \<longleftrightarrow> uint64_string (GetVectorRequest_shardId m) \<and> uint64_string (GetVectorRequest_shardEpoch m) \<and> int64_string (GetVectorRequest_leaseExpiryUnixMs m)"

lemma switch_GetVectorRequest_arms:
  "switch_GetVectorRequest W 8 m = arm_read (r_uint64 W) (\<lambda>v. m\<lparr>GetVectorRequest_shardId := show_nat (unat v)\<rparr>)"
  "switch_GetVectorRequest W 18 m = arm_read (r_string W) (\<lambda>v. m\<lparr>GetVectorRequest_id := v\<rparr>)"
  "switch_GetVectorRequest W 24 m = arm_read (r_uint64 W) (\<lambda>v. m\<lparr>GetVectorRequest_shardEpoch := show_nat (unat v)\<rparr>)"
  "switch_GetVectorRequest W 32 m = arm_read (r_int64 W) (\<lambda>v. m\<lparr>GetVectorRequest_leaseExpiryUnixMs := show_int (sint v)\<rparr>)"
  by (simp_all add: switch_GetVectorRequest_def fun_eq_iff)

definition rounded_GetVectorResponse :: "(js_num \<Rightarrow> js_num) \<Rightarrow> GetVectorResponse \<Rightarrow> GetVectorResponse" where
  "rounded_GetVectorResponse fround m = m\<lparr>GetVectorResponse_vector := map_option (rounded_Vector fround) (GetVectorResponse_vector m)\<rparr>"

lemma switch_GetVectorResponse_arms:
  "switch_GetVectorResponse W 10 m = arm_sub W (decode_with W (switch_Vector W) createBaseVector) (\<lambda>v. m\<lparr>GetVectorResponse_vector := Some v\<rparr>)"
  by (simp_all add: switch_GetVectorResponse_def fun_eq_iff decode_Vector_def)

definition wf_DeleteVectorRequest :: "DeleteVectorRequest \<Rightarrow> bool" where
  "wf_DeleteVectorRequest m \<longleftrightarrow> uint64_string (DeleteVectorRequest_shardId m) \<and> uint64_string (DeleteVectorRequest_shardEpoch m) \<and> int64_string (DeleteVectorRequest_leaseExpiryUnixMs m)"

lemma switch_DeleteVectorRequest_arms:
  "switch_DeleteVectorRequest W 8 m = arm_read (r_uint64 W) (\<lambda>v. m\<lparr>DeleteVectorRequest_shardId := show_nat (unat v)\<rparr>)"
  "switch_DeleteVectorRequest W 18 m = arm_read (r_string W) (\<lambda>v. m\<lparr>DeleteVectorRequest_id := v\<rparr>)"
  "switch_DeleteVectorRequest W 24 m = arm_read (r_uint64 W) (\<lambda>v. m\<lparr>DeleteVectorRequest_shardEpoch := show_nat (unat v)\<rparr>)"
  "switch_DeleteVectorRequest W 32 m = arm_read (r_int64 W) (\<lambda>v. m\<lparr>DeleteVectorRequest_leaseExpiryUnixMs := show_int (sint v)\<rparr>)"
  by (simp_all add: switch_DeleteVectorRequest_def fun_eq_iff)

definition rounded_WkSearchRequest :: "(js_num \<Rightarrow> js_num) \<Rightarrow> WkSearchRequest \<Rightarrow> WkSearchRequest" where
  "rounded_WkSearchRequest fround m = m\<lparr>WkSearchRequest_vector := map fround (WkSearchRequest_vector m)\<rparr>"

definition wf_WkSearchRequest :: "WkSearchRequest \<Rightarrow> bool" where
  "wf_WkSearchRequest m \<longleftrightarrow> uint64_string (WkSearchRequest_shardId m) \<and> uint64_string (WkSearchRequest_shardEpoch m) \<and> int64_string (WkSearchRequest_leaseExpiryUnixMs m)"

lemma switch_WkSearchRequest_arms:
  "switch_WkSearchRequest W 8 m = arm_read (r_uint64 W) (\<lambda>v. m\<lparr>WkSearchRequest_shardId := show_nat (unat v)\<rparr>)"
  "switch_WkSearchRequest W 21 m = arm_read (r_float W) (\<lambda>v. m\<lparr>WkSearchRequest_vector := WkSearchRequest_vector m @ [v]\<rparr>)"
  "switch_WkSearchRequest W 18 m = arm_packed W (r_float W) (\<lambda>vs. m\<lparr>WkSearchRequest_vector := WkSearchRequest_vector m @ vs\<rparr>)"
  "switch_WkSearchRequest W 24 m = arm_read (r_int32 W) (\<lambda>v. m\<lparr>WkSearchRequest_k := num_of_int (sint v)\<rparr>)"
  "switch_WkSearchRequest W 32 m = arm_read (r_bool W) (\<lambda>v. m\<lparr>WkSearchRequest_bruteForce := v\<rparr>)"
  "switch_WkSearchRequest W 40 m = arm_read (r_bool W) (\<lambda>v. m\<lparr>WkSearchRequest_linearizable := v\<rparr>)"
  "switch_WkSearchRequest W 50 m = arm_read (r_string W) (\<lambda>v. m\<lparr>WkSearchRequest_collection := v\<rparr>)"
  "switch_WkSearchRequest W 56 m = arm_read (r_uint64 W) (\<lambda>v. m\<lparr>WkSearchRequest_shardEpoch := show_nat (unat v)\<rparr>)"
  "switch_WkSearchRequest W 64 m = arm_read (r_int64 W) (\<lambda>v. m\<lparr>WkSearchRequest_leaseExpiryUnixMs := show_int (sint v)\<rparr>)"
  by (simp_all add: switch_WkSearchRequest_def fun_eq_iff)

definition rounded_WkSearchResponse :: "(js_num \<Rightarrow> js_num) \<Rightarrow> WkSearchResponse \<Rightarrow> WkSearchResponse" where
  "rounded_WkSearchResponse fround m = m\<lparr>WkSearchResponse_scores := map fround (WkSearchResponse_scores m)\<rparr>"

lemma foldl_WkSearchResponse_ids:
  "foldl (\<lambda>y v. y\<lparr>WkSearchResponse_ids := WkSearchResponse_ids y @ [h v]\<rparr>) m vs = m\<lparr>WkSearchResponse_ids := WkSearchResponse_ids m @ map h vs\<rparr>"
  by (induction vs arbitrary: m) simp_all

lemma foldl_WkSearchResponse_metadata:
  "foldl (\<lambda>y v. y\<lparr>WkSearchResponse_metadata := WkSearchResponse_metadata y @ [h v]\<rparr>) m vs = m\<lparr>WkSearchResponse_metadata := WkSearchResponse_metadata m @ map h vs\<rparr>"
  by (induction vs arbitrary: m) simp_all

lemma switch_WkSearchResponse_arms:
  "switch_WkSearchResponse W 10 m = arm_read (r_string W) (\<lambda>v. m\<lparr>WkSearchResponse_ids := WkSearchResponse_ids m @ [v]\<rparr>)"
  "switch_WkSearchResponse W 21 m = arm_read (r_float W) (\<lambda>v. m\<lparr>WkSearchResponse_scores := WkSearchResponse_scores m @ [v]\<rparr>)"
  "switch_WkSearchResponse W 18 m = arm_packed W (r_float W) (\<lambda>vs. m\<lparr>WkSearchResponse_scores := WkSearchResponse_scores m @ vs\<rparr>)"
  "switch_WkSearchResponse W 26 m = arm_read (r_bytes W) (\<lambda>v. m\<lparr>WkSearchResponse_metadata := WkSearchResponse_metadata m @ [v]\<rparr>)"
  by (simp_all add: switch_WkSearchResponse_def fun_eq_iff)

definition rounded_BatchSearchRequest :: "(js_num \<Rightarrow> js_num) \<Rightarrow> BatchSearchRequest \<Rightarrow> BatchSearchRequest" where
  "rounded_BatchSearchRequest fround m = m\<lparr>BatchSearchRequest_requests := map (rounded_WkSearchRequest fround) (BatchSearchRequest_requests m)\<rparr>"

definition wf_BatchSearchRequest :: "BatchSearchRequest \<Rightarrow> bool" where
  "wf_BatchSearchRequest m \<longleftrightarrow> (\<forall>v \<in> set (BatchSearchRequest_requests m). wf_WkSearchRequest v)"

lemma foldl_BatchSearchRequest_requests:
  "foldl (\<lambda>y v. y\<lparr>BatchSearchRequest_requests := BatchSearchRequest_requests y @ [h v]\<rparr>) m vs = m\<lparr>BatchSearchRequest_requests := BatchSearchRequest_requests m @ map h vs\<rparr>"
  by (induction vs arbitrary: m) simp_all

lemma switch_BatchSearchRequest_arms:
  "switch_BatchSearchRequest W 10 m = arm_sub W (decode_with W (switch_WkSearchRequest W) createBaseWkSearchRequest) (\<lambda>v. m\<lparr>BatchSearchRequest_requests := BatchSearchRequest_requests m @ [v]\<rparr>)"
  by (simp_all add: switch_BatchSearchRequest_def fun_eq_iff decode_WkSearchRequest_def)

definition rounded_BatchSearchResponse :: "(js_num \<Rightarrow> js_num) \<Rightarrow> BatchSearchResponse \<Rightarrow> BatchSearchResponse" where
  "rounded_BatchSearchResponse fround m = m\<lparr>BatchSearchResponse_responses := map (rounded_WkSearchResponse fround) (BatchSearchResponse_responses m)\<rparr>"

lemma foldl_BatchSearchResponse_responses:
  "foldl (\<lambda>y v. y\<lparr>BatchSearchResponse_responses := BatchSearchResponse_responses y @ [h v]\<rparr>) m vs = m\<lparr>BatchSearchResponse_responses := BatchSearchResponse_responses m @ map h vs\<rparr>"
  by (induction vs arbitrary: m) simp_all

lemma switch_BatchSearchResponse_arms:
  "switch_BatchSearchResponse W 10 m = arm_sub W (decode_with W (switch_WkSearchResponse W) createBaseWkSearchResponse) (\<lambda>v. m\<lparr>BatchSearchResponse_responses := BatchSearchResponse_responses m @ [v]\<rparr>)"
  by (simp_all add: switch_BatchSearchResponse_def fun_eq_iff decode_WkSearchResponse_def)

definition wf_HNSWSnapshotRequest :: "HNSWSnapshotRequest \<Rightarrow> bool" where
  "wf_HNSWSnapshotRequest m \<longleftrightarrow> uint64_string (HNSWSnapshotRequest_shardId m)"

lemma switch_HNSWSnapshotRequest_arms:
  "switch_HNSWSnapshotRequest W 8 m = arm_read (r_uint64 W) (\<lambda>v. m\<lparr>HNSWSnapshotRequest_shardId := show_nat (unat v)\<rparr>)"
  by (simp_all add: switch_HNSWSnapshotRequest_def fun_eq_iff)

definition wf_HNSWSnapshotChunk :: "HNSWSnapshotChunk \<Rightarrow> bool" where
  "wf_HNSWSnapshotChunk m \<longleftrightarrow> uint64_string (HNSWSnapshotChunk_shardId m) \<and> int64_string (HNSWSnapshotChunk_snapshotTsUnixNano m)"

lemma switch_HNSWSnapshotChunk_arms:
  "switch_HNSWSnapshotChunk W 8 m = arm_read (r_uint64 W) (\<lambda>v. m\<lparr>HNSWSnapshotChunk_shardId := show_nat (unat v)\<rparr>)"
  "switch_HNSWSnapshotChunk W 16 m = arm_read (r_int64 W) (\<lambda>v. m\<lparr>HNSWSnapshotChunk_snapshotTsUnixNano := show_int (sint v)\<rparr>)"
  "switch_HNSWSnapshotChunk W 26 m = arm_read (r_bytes W) (\<lambda>v. m\<lparr>HNSWSnapshotChunk_data := v\<rparr>)"
  "switch_HNSWSnapshotChunk W 32 m = arm_read (r_bool W) (\<lambda>v. m\<lparr>HNSWSnapshotChunk_done := v\<rparr>)"
  by (simp_all add: switch_HNSWSnapshotChunk_def fun_eq_iff)

definition wf_HNSWUpdatesRequest :: "HNSWUpdatesRequest \<Rightarrow> bool" where
  "wf_HNSWUpdatesRequest m \<longleftrightarrow> uint64_string (HNSWUpdatesRequest_shardId m) \<and> int64_string (HNSWUpdatesRequest_fromTsUnixNano m)"

lemma switch_HNSWUpdatesRequest_arms:
  "switch_HNSWUpdatesRequest W 8 m = arm_read (r_uint64 W) (\<lambda>v. m\<lparr>HNSWUpdatesRequest_shardId := show_nat (unat v)\<rparr>)"
  "switch_HNSWUpdatesRequest W 16 m = arm_read (r_int64 W) (\<lambda>v. m\<lparr>HNSWUpdatesRequest_fromTsUnixNano := show_int (sint v)\<rparr>)"
  by (simp_all add: switch_HNSWUpdatesRequest_def fun_eq_iff)

definition wf_HNSWUpdate :: "HNSWUpdate \<Rightarrow> bool" where
  "wf_HNSWUpdate m \<longleftrightarrow> int64_string (HNSWUpdate_tsUnixNano m)"

lemma switch_HNSWUpdate_arms:
  "switch_HNSWUpdate W 10 m = arm_read (r_string W) (\<lambda>v. m\<lparr>HNSWUpdate_id := v\<rparr>)"
  "switch_HNSWUpdate W 18 m = arm_read (r_bytes W) (\<lambda>v. m\<lparr>HNSWUpdate_value := v\<rparr>)"
  "switch_HNSWUpdate W 24 m = arm_read (r_bool W) (\<lambda>v. m\<lparr>HNSWUpdate_delete := v\<rparr>)"
  "switch_HNSWUpdate W 32 m = arm_read (r_int64 W) (\<lambda>v. m\<lparr>HNSWUpdate_tsUnixNano := show_int (sint v)\<rparr>)"
  by (simp_all add: switch_HNSWUpdate_def fun_eq_iff)

definition wf_HNSWUpdateBatch :: "HNSWUpdateBatch \<Rightarrow> bool" where
  "wf_HNSWUpdateBatch m \<longleftrightarrow> (\<forall>v \<in> set (HNSWUpdateBatch_updates m). wf_HNSWUpdate v)"

lemma foldl_HNSWUpdateBatch_updates:
  "foldl (\<lambda>y v. y\<lparr>HNSWUpdateBatch_updates := HNSWUpdateBatch_updates y @ [h v]\<rparr>) m vs = m\<lparr>HNSWUpdateBatch_updates := HNSWUpdateBatch_updates m @ map h vs\<rparr>"
  by (induction vs arbitrary: m) simp_all

lemma switch_HNSWUpdateBatch_arms:
  "switch_HNSWUpdateBatch W 10 m = arm_sub W (decode_with W (switch_HNSWUpdate W) createBaseHNSWUpdate) (\<lambda>v. m\<lparr>HNSWUpdateBatch_updates := HNSWUpdateBatch_updates m @ [v]\<rparr>)"
  by (simp_all add: switch_HNSWUpdateBatch_def fun_eq_iff decode_HNSWUpdate_def)

lemma switch_KeyValuePair_arms:
  "switch_KeyValuePair W 10 m = arm_read (r_bytes W) (\<lambda>v. m\<lparr>KeyValuePair_key := v\<rparr>)"
  "switch_KeyValuePair W 18 m = arm_read (r_bytes W) (\<lambda>v. m\<lparr>KeyValuePair_value := v\<rparr>)"
  by (simp_all add: switch_KeyValuePair_def fun_eq_iff)

definition wf_PutRequest :: "PutRequest \<Rightarrow> bool" where
  "wf_PutRequest m \<longleftrightarrow> uint64_string (PutRequest_shardId m) \<and> uint64_string (PutRequest_shardEpoch m) \<and> int64_string (PutRequest_leaseExpiryUnixMs m)"

lemma switch_PutRequest_arms:
  "switch_PutRequest W 8 m = arm_read (r_uint64 W) (\<lambda>v. m\<lparr>PutRequest_shardId := show_nat (unat v)\<rparr>)"
  "switch_PutRequest W 18 m = arm_sub W (decode_with W (switch_KeyValuePair W) createBaseKeyValuePair) (\<lambda>v. m\<lparr>PutRequest_kv := Some v\<rparr>)"
  "switch_PutRequest W 24 m = arm_read (r_uint64 W) (\<lambda>v. m\<lparr>PutRequest_shardEpoch := show_nat (unat v)\<rparr>)"
  "switch_PutRequest W 32 m = arm_read (r_int64 W) (\<lambda>v. m\<lparr>PutRequest_leaseExpiryUnixMs := show_int (sint v)\<rparr>)"
  by (simp_all add: switch_PutRequest_def fun_eq_iff decode_KeyValuePair_def)

definition wf_WkGetRequest :: "WkGetRequest \<Rightarrow> bool" where
  "wf_WkGetRequest m \<longleftrightarrow> uint64_string (WkGetRequest_shardId m) \<and> uint64_string (WkGetRequest_shardEpoch m) \<and> int64_string (WkGetRequest_leaseExpiryUnixMs m)"

lemma switch_WkGetRequest_arms:
  "switch_WkGetRequest W 8 m = arm_read (r_uint64 W) (\<lambda>v. m\<lparr>WkGetRequest_shardId := show_nat (unat v)\<rparr>)"
  "switch_WkGetRequest W 18 m = arm_read (r_bytes W) (\<lambda>v. m\<lparr>WkGetRequest_key := v\<rparr>)"
  "switch_WkGetRequest W 24 m = arm_read (r_uint64 W) (\<lambda>v. m\<lparr>WkGetRequest_shardEpoch := show_nat (unat v)\<rparr>)"
  "switch_WkGetRequest W 32 m = arm_read (r_int64 W) (\<lambda>v. m\<lparr>WkGetRequest_leaseExpiryUnixMs := show_int (sint v)\<rparr>)"
  by (simp_all add: switch_WkGetRequest_def fun_eq_iff)

lemma switch_WkGetResponse_arms:
  "switch_WkGetResponse W 10 m = arm_sub W (decode_with W (switch_KeyValuePair W) createBaseKeyValuePair) (\<lambda>v. m\<lparr>WkGetResponse_kv := Some v\<rparr>)"
  by (simp_all add: switch_WkGetResponse_def fun_eq_iff decode_KeyValuePair_def)

definition wf_WkDeleteRequest :: "WkDeleteRequest \<Rightarrow> bool" where
  "wf_WkDeleteRequest m \<longleftrightarrow> uint64_string (WkDeleteRequest_shardId m) \<and> uint64_string (WkDeleteRequest_shardEpoch m) \<and> int64_string (WkDeleteRequest_leaseExpiryUnixMs m)"

lemma switch_WkDeleteRequest_arms:
  "switch_WkDeleteRequest W 8 m = arm_read (r_uint64 W) (\<lambda>v. m\<lparr>WkDeleteRequest_shardId := show_nat (unat v)\<rparr>)"
  "switch_WkDeleteRequest W 18 m = arm_read (r_bytes W) (\<lambda>v. m\<lparr>WkDeleteRequest_key := v\<rparr>)"
  "switch_WkDeleteRequest W 24 m = arm_read (r_uint64 W) (\<lambda>v. m\<lparr>WkDeleteRequest_shardEpoch := show_nat (unat v)\<rparr>)"
  "switch_WkDeleteRequest W 32 m = arm_read (r_int64 W) (\<lambda>v. m\<lparr>WkDeleteRequest_leaseExpiryUnixMs := show_int (sint v)\<rparr>)"
  by (simp_all add: switch_WkDeleteRequest_def fun_eq_iff)

definition wf_StatusRequest :: "StatusRequest \<Rightarrow> bool" where
  "wf_StatusRequest m \<longleftrightarrow> uint64_string (StatusRequest_shardId m) \<and> uint64_string (StatusRequest_shardEpoch m) \<and> int64_string (StatusRequest_leaseExpiryUnixMs m)"

lemma switch_StatusRequest_arms:
  "switch_StatusRequest W 8 m = arm_read (r_uint64 W) (\<lambda>v. m\<lparr>StatusRequest_shardId := show_nat (unat v)\<rparr>)"
  "switch_StatusRequest W 16 m = arm_read (r_uint64 W) (\<lambda>v. m\<lparr>StatusRequest_shardEpoch := show_nat (unat v)\<rparr>)"
  "switch_StatusRequest W 24 m = arm_read (r_int64 W) (\<lambda>v. m\<lparr>StatusRequest_leaseExpiryUnixMs := show_int (sint v)\<rparr>)"
  by (simp_all add: switch_StatusRequest_def fun_eq_iff)

lemma switch_StatusResponse_arms:
  "switch_StatusResponse W 10 m = arm_read (r_string W) (\<lambda>v. m\<lparr>StatusResponse_status := v\<rparr>)"
  by (simp_all add: switch_StatusResponse_def fun_eq_iff)

definition wf_FlushRequest :: "FlushRequest \<Rightarrow> bool" where
  "wf_FlushRequest m \<longleftrightarrow> uint64_string (FlushRequest_shardId m) \<and> uint64_string (FlushRequest_shardEpoch m) \<and> int64_string (FlushRequest_leaseExpiryUnixMs m)"

lemma switch_FlushRequest_arms:
  "switch_FlushRequest W 8 m = arm_read (r_uint64 W) (\<lambda>v. m\<lparr>FlushRequest_shardId := show_nat (unat v)\<rparr>)"
  "switch_FlushRequest W 16 m = arm_read (r_uint64 W) (\<lambda>v. m\<lparr>FlushRequest_shardEpoch := show_nat (unat v)\<rparr>)"
  "switch_FlushRequest W 24 m = arm_read (r_int64 W) (\<lambda>v. m\<lparr>FlushRequest_leaseExpiryUnixMs := show_int (sint v)\<rparr>)"
  by (simp_all add: switch_FlushRequest_def fun_eq_iff)

section \<open>Decoding returns well-formed messages\<close>

lemma decode_StoreVectorRequest_wf: "yields (decode_StoreVectorRequest W) wf_StoreVectorRequest"
  unfolding decode_StoreVectorRequest_def switch_StoreVectorRequest_def
  by (rule decode_with_yields, rule fld_keepsI)
     (rule if_keeps | rule arms_keep
       | (auto simp: wf_StoreVectorRequest_def createBaseStoreVectorRequest_def read_values) [1])+

lemma decode_BatchStoreVectorRequest_wf: "yields (decode_BatchStoreVectorRequest W) wf_BatchStoreVectorRequest"
  unfolding decode_BatchStoreVectorRequest_def switch_BatchStoreVectorRequest_def
  by (rule decode_with_yields, rule fld_keepsI)
     (rule if_keeps | rule arms_keep
       | (auto simp: wf_BatchStoreVectorRequest_def createBaseBatchStoreVectorRequest_def read_values) [1])+

lemma decode_GetVectorRequest_wf: "yields (decode_GetVectorRequest W) wf_GetVectorRequest"
  unfolding decode_GetVectorRequest_def switch_GetVectorRequest_def
  by (rule decode_with_yields, rule fld_keepsI)
     (rule if_keeps | rule arms_keep
       | (auto simp: wf_GetVectorRequest_def createBaseGetVectorRequest_def read_values) [1])+

lemma decode_DeleteVectorRequest_wf: "yields (decode_DeleteVectorRequest W) wf_DeleteVectorRequest"
  unfolding decode_DeleteVectorRequest_def switch_DeleteVectorRequest_def
  by (rule decode_with_yields, rule fld_keepsI)
     (rule if_keeps | rule arms_keep
       | (auto simp: wf_DeleteVectorRequest_def createBaseDeleteVectorRequest_def read_values) [1])+

lemma decode_WkSearchRequest_wf: "yields (decode_WkSearchRequest W) wf_WkSearchRequest"
  unfolding decode_WkSearchRequest_def switch_WkSearchRequest_def
  by (rule decode_with_yields, rule fld_keepsI)
     (rule if_keeps | rule arms_keep
       | (auto simp: wf_WkSearchRequest_def createBaseWkSearchRequest_def read_values) [1])+

lemma decode_BatchSearchRequest_wf: "yields (decode_BatchSearchRequest W) wf_BatchSearchRequest"
  unfolding decode_BatchSearchRequest_def switch_BatchSearchRequest_def
  by (rule decode_with_yields, rule fld_keepsI)
     (rule if_keeps | rule arm_sub_keeps [OF decode_WkSearchRequest_wf] | rule arms_keep
       | (auto simp: wf_BatchSearchRequest_def createBaseBatchSearchRequest_def read_values) [1])+

lemma decode_HNSWSnapshotRequest_wf: "yields (decode_HNSWSnapshotRequest W) wf_HNSWSnapshotRequest"
  unfolding decode_HNSWSnapshotRequest_def switch_HNSWSnapshotRequest_def
  by (rule decode_with_yields, rule fld_keepsI)
     (rule if_keeps | rule arms_keep
       | (auto simp: wf_HNSWSnapshotRequest_def createBaseHNSWSnapshotRequest_def read_values) [1])+

lemma decode_HNSWSnapshotChunk_wf: "yields (decode_HNSWSnapshotChunk W) wf_HNSWSnapshotChunk"
  unfolding decode_HNSWSnapshotChunk_def switch_HNSWSnapshotChunk_def
  by (rule decode_with_yields, rule fld_keepsI)
     (rule if_keeps | rule arms_keep
       | (auto simp: wf_HNSWSnapshotChunk_def createBaseHNSWSnapshotChunk_def read_values) [1])+

lemma decode_HNSWUpdatesRequest_wf: "yields (decode_HNSWUpdatesRequest W) wf_HNSWUpdatesRequest"
  unfolding decode_HNSWUpdatesRequest_def switch_HNSWUpdatesRequest_def
  by (rule decode_with_yields, rule fld_keepsI)
     (rule if_keeps | rule arms_keep
       | (auto simp: wf_HNSWUpdatesRequest_def createBaseHNSWUpdatesRequest_def read_values) [1])+

lemma decode_HNSWUpdate_wf: "yields (decode_HNSWUpdate W) wf_HNSWUpdate"
  unfolding decode_HNSWUpdate_def switch_HNSWUpdate_def
  by (rule decode_with_yields, rule fld_keepsI)
     (rule if_keeps | rule arms_keep
       | (auto simp: wf_HNSWUpdate_def createBaseHNSWUpdate_def read_values) [1])+

lemma decode_HNSWUpdateBatch_wf: "yields (decode_HNSWUpdateBatch W) wf_HNSWUpdateBatch"
  unfolding decode_HNSWUpdateBatch_def switch_HNSWUpdateBatch_def
  by (rule decode_with_yields, rule fld_keepsI)
     (rule if_keeps | rule arm_sub_keeps [OF decode_HNSWUpdate_wf] | rule arms_keep
       | (auto simp: wf_HNSWUpdateBatch_def createBaseHNSWUpdateBatch_def read_values) [1])+

lemma decode_PutRequest_wf: "yields (decode_PutRequest W) wf_PutRequest"
  unfolding decode_PutRequest_def switch_PutRequest_def
  by (rule decode_with_yields, rule fld_keepsI)
     (rule if_keeps | rule arms_keep
       | (auto simp: wf_PutRequest_def createBasePutRequest_def read_values) [1])+

lemma decode_WkGetRequest_wf: "yields (decode_WkGetRequest W) wf_WkGetRequest"
  unfolding decode_WkGetRequest_def switch_WkGetRequest_def
  by (rule decode_with_yields, rule fld_keepsI)
     (rule if_keeps | rule arms_keep
       | (auto simp: wf_WkGetRequest_def createBaseWkGetRequest_def read_values) [1])+

lemma decode_WkDeleteRequest_wf: "yields (decode_WkDeleteRequest W) wf_WkDeleteRequest"
  unfolding decode_WkDeleteRequest_def switch_WkDeleteRequest_def
  by (rule decode_with_yields, rule fld_keepsI)
     (rule if_keeps | rule arms_keep
       | (auto simp: wf_WkDeleteRequest_def createBaseWkDeleteRequest_def read_values) [1])+

lemma decode_StatusRequest_wf: "yields (decode_StatusRequest W) wf_StatusRequest"
  unfolding decode_StatusRequest_def switch_StatusRequest_def
  by (rule decode_with_yields, rule fld_keepsI)
     (rule if_keeps | rule arms_keep
       | (auto simp: wf_StatusRequest_def createBaseStatusRequest_def read_values) [1])+

lemma decode_FlushRequest_wf: "yields (decode_FlushRequest W) wf_FlushRequest"
  unfolding decode_FlushRequest_def switch_FlushRequest_def
  by (rule decode_with_yields, rule fld_keepsI)
     (rule if_keeps | rule arms_keep
       | (auto simp: wf_FlushRequest_def createBaseFlushRequest_def read_values) [1])+

section \<open>Decoding ends on every input\<close>

context wire_reader
begin

lemma Vector_total: "dec_total W buf (decode_Vector W)"
  unfolding decode_Vector_def
  by (intro decode_with_total) (auto simp: fld_total_def switch_Vector_def simp del: arm_total.simps(2) intro: arms_total)

lemma StoreVectorRequest_total: "dec_total W buf (decode_StoreVectorRequest W)"
  unfolding decode_StoreVectorRequest_def
  by (intro decode_with_total) (auto simp: fld_total_def switch_StoreVectorRequest_def simp del: arm_total.simps(2) intro: arms_total Vector_total)

lemma StoreVectorResponse_total: "dec_total W buf (decode_StoreVectorResponse W)"
  unfolding decode_StoreVectorResponse_def
  by (intro decode_with_total) (auto simp: fld_total_def switch_StoreVectorResponse_def simp del: arm_total.simps(2) intro: arms_total)

lemma BatchStoreVectorRequest_total: "dec_total W buf (decode_BatchStoreVectorRequest W)"
  unfolding decode_BatchStoreVectorRequest_def
  by (intro decode_with_total) (auto simp: fld_total_def switch_BatchStoreVectorRequest_def simp del: arm_total.simps(2) intro: arms_total Vector_total)

lemma BatchStoreVectorResponse_total: "dec_total W buf (decode_BatchStoreVectorResponse W)"
  unfolding decode_BatchStoreVectorResponse_def
  by (intro decode_with_total) (auto simp: fld_total_def switch_BatchStoreVectorResponse_def simp del: arm_total.simps(2) intro: arms_total)

lemma GetVectorRequest_total: "dec_total W buf (decode_GetVectorRequest W)"
  unfolding decode_GetVectorRequest_def
  by (intro decode_with_total) (auto simp: fld_total_def switch_GetVectorRequest_def simp del: arm_total.simps(2) intro: arms_total)

lemma GetVectorResponse_total: "dec_total W buf (decode_GetVectorResponse W)"
  unfolding decode_GetVectorResponse_def
  by (intro decode_with_total) (auto simp: fld_total_def switch_GetVectorResponse_def simp del: arm_total.simps(2) intro: arms_total Vector_total)

lemma DeleteVectorRequest_total: "dec_total W buf (decode_DeleteVectorRequest W)"
  unfolding decode_DeleteVectorRequest_def
  by (intro decode_with_total) (auto simp: fld_total_def switch_DeleteVectorRequest_def simp del: arm_total.simps(2) intro: arms_total)

lemma DeleteVectorResponse_total: "dec_total W buf (decode_DeleteVectorResponse W)"
  unfolding decode_DeleteVectorResponse_def
  by (intro decode_with_total) (auto simp: fld_total_def switch_DeleteVectorResponse_def simp del: arm_total.simps(2) intro: arms_total)

lemma WkSearchRequest_total: "dec_total W buf (decode_WkSearchRequest W)"
  unfolding decode_WkSearchRequest_def
  by (intro decode_with_total) (auto simp: fld_total_def switch_WkSearchRequest_def simp del: arm_total.simps(2) intro: arms_total)

lemma WkSearchResponse_total: "dec_total W buf (decode_WkSearchResponse W)"
  unfolding decode_WkSearchResponse_def
  by (intro decode_with_total) (auto simp: fld_total_def switch_WkSearchResponse_def simp del: arm_total.simps(2) intro: arms_total)

lemma BatchSearchRequest_total: "dec_total W buf (decode_BatchSearchRequest W)"
  unfolding decode_BatchSearchRequest_def
  by (intro decode_with_total) (auto simp: fld_total_def switch_BatchSearchRequest_def simp del: arm_total.simps(2) intro: arms_total WkSearchRequest_total)

lemma BatchSearchResponse_total: "dec_total W buf (decode_BatchSearchResponse W)"
  unfolding decode_BatchSearchResponse_def
  by (intro decode_with_total) (auto simp: fld_total_def switch_BatchSearchResponse_def simp del: arm_total.simps(2) intro: arms_total WkSearchResponse_total)

lemma HNSWSnapshotRequest_total: "dec_total W buf (decode_HNSWSnapshotRequest W)"
  unfolding decode_HNSWSnapshotRequest_def
  by (intro decode_with_total) (auto simp: fld_total_def switch_HNSWSnapshotRequest_def simp del: arm_total.simps(2) intro: arms_total)

lemma HNSWSnapshotChunk_total: "dec_total W buf (decode_HNSWSnapshotChunk W)"
  unfolding decode_HNSWSnapshotChunk_def
  by (intro decode_with_total) (auto simp: fld_total_def switch_HNSWSnapshotChunk_def simp del: arm_total.simps(2) intro: arms_total)

lemma HNSWUpdatesRequest_total: "dec_total W buf (decode_HNSWUpdatesRequest W)"
  unfolding decode_HNSWUpdatesRequest_def
  by (intro decode_with_total) (auto simp: fld_total_def switch_HNSWUpdatesRequest_def simp del: arm_total.simps(2) intro: arms_total)

lemma HNSWUpdate_total: "dec_total W buf (decode_HNSWUpdate W)"
  unfolding decode_HNSWUpdate_def
  by (intro decode_with_total) (auto simp: fld_total_def switch_HNSWUpdate_def simp del: arm_total.simps(2) intro: arms_total)

lemma HNSWUpdateBatch_total: "dec_total W buf (decode_HNSWUpdateBatch W)"
  unfolding decode_HNSWUpdateBatch_def
  by (intro decode_with_total) (auto simp: fld_total_def switch_HNSWUpdateBatch_def simp del: arm_total.simps(2) intro: arms_total HNSWUpdate_total)

lemma KeyValuePair_total: "dec_total W buf (decode_KeyValuePair W)"
  unfolding decode_KeyValuePair_def
  by (intro decode_with_total) (auto simp: fld_total_def switch_KeyValuePair_def simp del: arm_total.simps(2) intro: arms_total)

lemma PutRequest_total: "dec_total W buf (decode_PutRequest W)"
  unfolding decode_PutRequest_def
  by (intro decode_with_total) (auto simp: fld_total_def switch_PutRequest_def simp del: arm_total.simps(2) intro: arms_total KeyValuePair_total)

lemma PutResponse_total: "dec_total W buf (decode_PutResponse W)"
  unfolding decode_PutResponse_def
  by (intro decode_with_total) (auto simp: fld_total_def switch_PutResponse_def simp del: arm_total.simps(2) intro: arms_total)

lemma WkGetRequest_total: "dec_total W buf (decode_WkGetRequest W)"
  unfolding decode_WkGetRequest_def
  by (intro decode_with_total) (auto simp: fld_total_def switch_WkGetRequest_def simp del: arm_total.simps(2) intro: arms_total)

lemma WkGetResponse_total: "dec_total W buf (decode_WkGetResponse W)"
  unfolding decode_WkGetResponse_def
  by (intro decode_with_total) (auto simp: fld_total_def switch_WkGetResponse_def simp del: arm_total.simps(2) intro: arms_total KeyValuePair_total)

lemma WkDeleteRequest_total: "dec_total W buf (decode_WkDeleteRequest W)"
  unfolding decode_WkDeleteRequest_def
  by (intro decode_with_total) (auto simp: fld_total_def switch_WkDeleteRequest_def simp del: arm_total.simps(2) intro: arms_total)

lemma WkDeleteResponse_total: "dec_total W buf (decode_WkDeleteResponse W)"
  unfolding decode_WkDeleteResponse_def
  by (intro decode_with_total) (auto simp: fld_total_def switch_WkDeleteResponse_def simp del: arm_total.simps(2) intro: arms_total)

lemma StatusRequest_total: "dec_total W buf (decode_StatusRequest W)"
  unfolding decode_StatusRequest_def
  by (intro decode_with_total) (auto simp: fld_total_def switch_StatusRequest_def simp del: arm_total.simps(2) intro: arms_total)

lemma StatusResponse_total: "dec_total W buf (decode_StatusResponse W)"
  unfolding decode_StatusResponse_def
  by (intro decode_with_total) (auto simp: fld_total_def switch_StatusResponse_def simp del: arm_total.simps(2) intro: arms_total)

lemma FlushRequest_total: "dec_total W buf (decode_FlushRequest W)"
  unfolding decode_FlushRequest_def
  by (intro decode_with_total) (auto simp: fld_total_def switch_FlushRequest_def simp del: arm_total.simps(2) intro: arms_total)

lemma FlushResponse_total: "dec_total W buf (decode_FlushResponse W)"
  unfolding decode_FlushResponse_def
  by (intro decode_with_total) (auto simp: fld_total_def switch_FlushResponse_def simp del: arm_total.simps(2) intro: arms_total)

end

section \<open>Encoding and decoding\<close>

context wire_codec
begin

lemma codes_Vector:
  "codes W frames buf (encode_Vector W m) (switch_Vector W) createBaseVector (rounded_Vector fround m)"
  unfolding encode_Vector_def
  by (cases m) ((rule codes_fields switch_Vector_arms | simp add: createBaseVector_def rounded_Vector_def)+)

lemma codes_StoreVectorRequest:
  assumes "wf_StoreVectorRequest m"
  shows "codes W frames buf (encode_StoreVectorRequest W m) (switch_StoreVectorRequest W) createBaseStoreVectorRequest (rounded_StoreVectorRequest fround m)"
  using assms
  unfolding encode_StoreVectorRequest_def
  by (cases m) ((rule codes_fields switch_StoreVectorRequest_arms codes_Vector | simp add: createBaseStoreVectorRequest_def rounded_StoreVectorRequest_def wf_StoreVectorRequest_def option.map_ident)+)

lemma codes_StoreVectorResponse:
  "codes W frames buf (encode_StoreVectorResponse W m) (switch_StoreVectorResponse W) createBaseStoreVectorResponse m"
  unfolding encode_StoreVectorResponse_def by (rule codes_done) (cases m, simp add: createBaseStoreVectorResponse_def)

lemma codes_BatchStoreVectorRequest:
  assumes "wf_BatchStoreVectorRequest m"
  shows "codes W frames buf (encode_BatchStoreVectorRequest W m) (switch_BatchStoreVectorRequest W) createBaseBatchStoreVectorRequest (rounded_BatchStoreVectorRequest fround m)"
  using assms
  unfolding encode_BatchStoreVectorRequest_def
  by (cases m) ((rule codes_fields switch_BatchStoreVectorRequest_arms codes_Vector | simp add: createBaseBatchStoreVectorRequest_def rounded_BatchStoreVectorRequest_def wf_BatchStoreVectorRequest_def foldl_BatchStoreVectorRequest_vectors)+)

lemma codes_BatchStoreVectorResponse:
  "codes W frames buf (encode_BatchStoreVectorResponse W m) (switch_BatchStoreVectorResponse W) createBaseBatchStoreVectorResponse m"
  unfolding encode_BatchStoreVectorResponse_def
  by (cases m) ((rule codes_fields switch_BatchStoreVectorResponse_arms | simp add: createBaseBatchStoreVectorResponse_def)+)

lemma codes_GetVectorRequest:
  assumes "wf_GetVectorRequest m"
  shows "codes W frames buf (encode_GetVectorRequest W m) (switch_GetVectorRequest W) createBaseGetVectorRequest m"
  using assms
  unfolding encode_GetVectorRequest_def
  by (cases m) ((rule codes_fields switch_GetVectorRequest_arms | simp add: createBaseGetVectorRequest_def wf_GetVectorRequest_def)+)

lemma codes_GetVectorResponse:
  "codes W frames buf (encode_GetVectorResponse W m) (switch_GetVectorResponse W) createBaseGetVectorResponse (rounded_GetVectorResponse fround m)"
  unfolding encode_GetVectorResponse_def
  by (cases m) ((rule codes_fields switch_GetVectorResponse_arms codes_Vector | simp add: createBaseGetVectorResponse_def rounded_GetVectorResponse_def option.map_ident)+)

lemma codes_DeleteVectorRequest:
  assumes "wf_DeleteVectorRequest m"
  shows "codes W frames buf (encode_DeleteVectorRequest W m) (switch_DeleteVectorRequest W) createBaseDeleteVectorRequest m"
  using assms
  unfolding encode_DeleteVectorRequest_def
  by (cases m) ((rule codes_fields switch_DeleteVectorRequest_arms | simp add: createBaseDeleteVectorRequest_def wf_DeleteVectorRequest_def)+)

lemma codes_DeleteVectorResponse:
  "codes W frames buf (encode_DeleteVectorResponse W m) (switch_DeleteVectorResponse W) createBaseDeleteVectorResponse m"
  unfolding encode_DeleteVectorResponse_def by (rule codes_done) (cases m, simp add: createBaseDeleteVectorResponse_def)

lemma codes_WkSearchRequest:
  assumes "wf_WkSearchRequest m"
  shows "codes W frames buf (encode_WkSearchRequest W m) (switch_WkSearchRequest W) createBaseWkSearchRequest (rounded_WkSearchRequest fround m)"
  using assms
  unfolding encode_WkSearchRequest_def
  by (cases m) ((rule codes_fields switch_WkSearchRequest_arms | simp add: createBaseWkSearchRequest_def rounded_WkSearchRequest_def wf_WkSearchRequest_def)+)

lemma codes_WkSearchResponse:
  "codes W frames buf (encode_WkSearchResponse W m) (switch_WkSearchResponse W) createBaseWkSearchResponse (rounded_WkSearchResponse fround m)"
  unfolding encode_WkSearchResponse_def
  by (cases m) ((rule codes_fields switch_WkSearchResponse_arms | simp add: createBaseWkSearchResponse_def rounded_WkSearchResponse_def foldl_WkSearchResponse_ids foldl_WkSearchResponse_metadata)+)

lemma codes_BatchSearchRequest:
  assumes "wf_BatchSearchRequest m"
  shows "codes W frames buf (encode_BatchSearchRequest W m) (switch_BatchSearchRequest W) createBaseBatchSearchRequest (rounded_BatchSearchRequest fround m)"
  using assms
  unfolding encode_BatchSearchRequest_def
  by (cases m) ((rule codes_fields switch_BatchSearchRequest_arms codes_WkSearchRequest | simp add: createBaseBatchSearchRequest_def rounded_BatchSearchRequest_def wf_BatchSearchRequest_def foldl_BatchSearchRequest_requests)+)

lemma codes_BatchSearchResponse:
  "codes W frames buf (encode_BatchSearchResponse W m) (switch_BatchSearchResponse W) createBaseBatchSearchResponse (rounded_BatchSearchResponse fround m)"
  unfolding encode_BatchSearchResponse_def
  by (cases m) ((rule codes_fields switch_BatchSearchResponse_arms codes_WkSearchResponse | simp add: createBaseBatchSearchResponse_def rounded_BatchSearchResponse_def foldl_BatchSearchResponse_responses)+)

lemma codes_HNSWSnapshotRequest:
  assumes "wf_HNSWSnapshotRequest m"
  shows "codes W frames buf (encode_HNSWSnapshotRequest W m) (switch_HNSWSnapshotRequest W) createBaseHNSWSnapshotRequest m"
  using assms
  unfolding encode_HNSWSnapshotRequest_def
  by (cases m) ((rule codes_fields switch_HNSWSnapshotRequest_arms | simp add: createBaseHNSWSnapshotRequest_def wf_HNSWSnapshotRequest_def)+)

lemma codes_HNSWSnapshotChunk:
  assumes "wf_HNSWSnapshotChunk m"
  shows "codes W frames buf (encode_HNSWSnapshotChunk W m) (switch_HNSWSnapshotChunk W) createBaseHNSWSnapshotChunk m"
  using assms
  unfolding encode_HNSWSnapshotChunk_def
  by (cases m) ((rule codes_fields switch_HNSWSnapshotChunk_arms | simp add: createBaseHNSWSnapshotChunk_def wf_HNSWSnapshotChunk_def)+)

lemma codes_HNSWUpdatesRequest:
  assumes "wf_HNSWUpdatesRequest m"
  shows "codes W frames buf (encode_HNSWUpdatesRequest W m) (switch_HNSWUpdatesRequest W) createBaseHNSWUpdatesRequest m"
  using assms
  unfolding encode_HNSWUpdatesRequest_def
  by (cases m) ((rule codes_fields switch_HNSWUpdatesRequest_arms | simp add: createBaseHNSWUpdatesRequest_def wf_HNSWUpdatesRequest_def)+)

lemma codes_HNSWUpdate:
  assumes "wf_HNSWUpdate m"
  shows "codes W frames buf (encode_HNSWUpdate W m) (switch_HNSWUpdate W) createBaseHNSWUpdate m"
  using assms
  unfolding encode_HNSWUpdate_def
  by (cases m) ((rule codes_fields switch_HNSWUpdate_arms | simp add: createBaseHNSWUpdate_def wf_HNSWUpdate_def)+)

lemma codes_HNSWUpdateBatch:
  assumes "wf_HNSWUpdateBatch m"
  shows "codes W frames buf (encode_HNSWUpdateBatch W m) (switch_HNSWUpdateBatch W) createBaseHNSWUpdateBatch m"
  using assms
  unfolding encode_HNSWUpdateBatch_def
  by (cases m) ((rule codes_fields switch_HNSWUpdateBatch_arms codes_HNSWUpdate | simp add: createBaseHNSWUpdateBatch_def wf_HNSWUpdateBatch_def foldl_HNSWUpdateBatch_updates)+)

lemma codes_KeyValuePair:
  "codes W frames buf (encode_KeyValuePair W m) (switch_KeyValuePair W) createBaseKeyValuePair m"
  unfolding encode_KeyValuePair_def
  by (cases m) ((rule codes_fields switch_KeyValuePair_arms | simp add: createBaseKeyValuePair_def)+)

lemma codes_PutRequest:
  assumes "wf_PutRequest m"
  shows "codes W frames buf (encode_PutRequest W m) (switch_PutRequest W) createBasePutRequest m"
  using assms
  unfolding encode_PutRequest_def
  by (cases m) ((rule codes_fields switch_PutRequest_arms codes_KeyValuePair | simp add: createBasePutRequest_def wf_PutRequest_def option.map_ident)+)

lemma codes_PutResponse:
  "codes W frames buf (encode_PutResponse W m) (switch_PutResponse W) createBasePutResponse m"
  unfolding encode_PutResponse_def by (rule codes_done) (cases m, simp add: createBasePutResponse_def)

lemma codes_WkGetRequest:
  assumes "wf_WkGetRequest m"
  shows "codes W frames buf (encode_WkGetRequest W m) (switch_WkGetRequest W) createBaseWkGetRequest m"
  using assms
  unfolding encode_WkGetRequest_def
  by (cases m) ((rule codes_fields switch_WkGetRequest_arms | simp add: createBaseWkGetRequest_def wf_WkGetRequest_def)+)

lemma codes_WkGetResponse:
  "codes W frames buf (encode_WkGetResponse W m) (switch_WkGetResponse W) createBaseWkGetResponse m"
  unfolding encode_WkGetResponse_def
  by (cases m) ((rule codes_fields switch_WkGetResponse_arms codes_KeyValuePair | simp add: createBaseWkGetResponse_def option.map_ident)+)

lemma codes_WkDeleteRequest:
  assumes "wf_WkDeleteRequest m"
  shows "codes W frames buf (encode_WkDeleteRequest W m) (switch_WkDeleteRequest W) createBaseWkDeleteRequest m"
  using assms
  unfolding encode_WkDeleteRequest_def
  by (cases m) ((rule codes_fields switch_WkDeleteRequest_arms | simp add: createBaseWkDeleteRequest_def wf_WkDeleteRequest_def)+)

lemma codes_WkDeleteResponse:
  "codes W frames buf (encode_WkDeleteResponse W m) (switch_WkDeleteResponse W) createBaseWkDeleteResponse m"
  unfolding encode_WkDeleteResponse_def by (rule codes_done) (cases m, simp add: createBaseWkDeleteResponse_def)

lemma codes_StatusRequest:
  assumes "wf_StatusRequest m"
  shows "codes W frames buf (encode_StatusRequest W m) (switch_StatusRequest W) createBaseStatusRequest m"
  using assms
  unfolding encode_StatusRequest_def
  by (cases m) ((rule codes_fields switch_StatusRequest_arms | simp add: createBaseStatusRequest_def wf_StatusRequest_def)+)

lemma codes_StatusResponse:
  "codes W frames buf (encode_StatusResponse W m) (switch_StatusResponse W) createBaseStatusResponse m"
  unfolding encode_StatusResponse_def
  by (cases m) ((rule codes_fields switch_StatusResponse_arms | simp add: createBaseStatusResponse_def)+)

lemma codes_FlushRequest:
  assumes "wf_FlushRequest m"
  shows "codes W frames buf (encode_FlushRequest W m) (switch_FlushRequest W) createBaseFlushRequest m"
  using assms
  unfolding encode_FlushRequest_def
  by (cases m) ((rule codes_fields switch_FlushRequest_arms | simp add: createBaseFlushRequest_def wf_FlushRequest_def)+)

lemma codes_FlushResponse:
  "codes W frames buf (encode_FlushResponse W m) (switch_FlushResponse W) createBaseFlushResponse m"
  unfolding encode_FlushResponse_def by (rule codes_done) (cases m, simp add: createBaseFlushResponse_def)

end


end
