(* ===== verification/Worker_Json.thy ===== *)
theory Worker_Json
  imports Worker_Messages Json
begin

text \<open>
  The JSON side of the messages of \<open>Worker_Messages\<close>: \<^verbatim>\<open>fromJSON\<close> and \<^verbatim>\<open>toJSON\<close> of each of them.
  \<open>json_ok_X\<close> says which messages come back unchanged: their integer fields are integers
  (\<^verbatim>\<open>toJSON\<close> rounds), their enum fields have a value of the enum (others become
  \<^verbatim>\<open>UNRECOGNIZED\<close>) and their dictionaries are in the order of \<^verbatim>\<open>Object.entries\<close>. A message
  without \<open>json_ok_X\<close> always comes back.
\<close>

section \<open>\<^verbatim>\<open>fromJSON\<close> and \<^verbatim>\<open>toJSON\<close>\<close>

definition fromJSON_Vector :: "text_conv \<Rightarrow> js_val \<Rightarrow> thrown + Vector" where
  "fromJSON_Vector K object =
     with_object object (\<lambda>object.
       res_bind (json_bytes K (js_get object ''metadata'')) (\<lambda>metadata'.
       Inr \<lparr>Vector_id = json_string K [] (js_get object ''id''),
          Vector_vector = json_numbers K (js_get object ''vector''),
          Vector_metadata = metadata'\<rparr>))"

definition toJSON_Vector :: "Vector \<Rightarrow> js_val" where
  "toJSON_Vector m =
     json_obj
      [(Vector_id m \<noteq> [], ''id'', JStr (Vector_id m)),
       (Vector_vector m \<noteq> [], ''vector'', JArr (map JNum (Vector_vector m))),
       (Vector_metadata m \<noteq> [], ''metadata'', JStr (base64FromBytes (Vector_metadata m)))]"

definition fromJSON_StoreVectorRequest :: "text_conv \<Rightarrow> js_val \<Rightarrow> thrown + StoreVectorRequest" where
  "fromJSON_StoreVectorRequest K object =
     with_object object (\<lambda>object.
       res_bind (json_sub (fromJSON_Vector K) (js_get object ''vector'')) (\<lambda>vector'.
       Inr \<lparr>StoreVectorRequest_shardId = json_string K ''0'' (js_get object ''shardId''),
          StoreVectorRequest_vector = vector',
          StoreVectorRequest_shardEpoch = json_string K ''0'' (js_get object ''shardEpoch''),
          StoreVectorRequest_leaseExpiryUnixMs = json_string K ''0'' (js_get object ''leaseExpiryUnixMs'')\<rparr>))"

definition toJSON_StoreVectorRequest :: "StoreVectorRequest \<Rightarrow> js_val" where
  "toJSON_StoreVectorRequest m =
     json_obj
      [(StoreVectorRequest_shardId m \<noteq> ''0'', ''shardId'', JStr (StoreVectorRequest_shardId m)),
       (StoreVectorRequest_vector m \<noteq> None, ''vector'', (case StoreVectorRequest_vector m of None \<Rightarrow> JUndefined | Some v \<Rightarrow> toJSON_Vector v)),
       (StoreVectorRequest_shardEpoch m \<noteq> ''0'', ''shardEpoch'', JStr (StoreVectorRequest_shardEpoch m)),
       (StoreVectorRequest_leaseExpiryUnixMs m \<noteq> ''0'', ''leaseExpiryUnixMs'', JStr (StoreVectorRequest_leaseExpiryUnixMs m))]"

definition fromJSON_StoreVectorResponse :: "text_conv \<Rightarrow> js_val \<Rightarrow> thrown + StoreVectorResponse" where
  "fromJSON_StoreVectorResponse K object = Inr StoreVectorResponse"

definition toJSON_StoreVectorResponse :: "StoreVectorResponse \<Rightarrow> js_val" where
  "toJSON_StoreVectorResponse m = json_obj []"

definition fromJSON_BatchStoreVectorRequest :: "text_conv \<Rightarrow> js_val \<Rightarrow> thrown + BatchStoreVectorRequest" where
  "fromJSON_BatchStoreVectorRequest K object =
     with_object object (\<lambda>object.
       res_bind (json_subs (fromJSON_Vector K) (js_get object ''vectors'')) (\<lambda>vectors'.
       Inr \<lparr>BatchStoreVectorRequest_shardId = json_string K ''0'' (js_get object ''shardId''),
          BatchStoreVectorRequest_vectors = vectors',
          BatchStoreVectorRequest_shardEpoch = json_string K ''0'' (js_get object ''shardEpoch''),
          BatchStoreVectorRequest_leaseExpiryUnixMs = json_string K ''0'' (js_get object ''leaseExpiryUnixMs'')\<rparr>))"

definition toJSON_BatchStoreVectorRequest :: "BatchStoreVectorRequest \<Rightarrow> js_val" where
  "toJSON_BatchStoreVectorRequest m =
     json_obj
      [(BatchStoreVectorRequest_shardId m \<noteq> ''0'', ''shardId'', JStr (BatchStoreVectorRequest_shardId m)),
       (BatchStoreVectorRequest_vectors m \<noteq> [], ''vectors'', JArr (map toJSON_Vector (BatchStoreVectorRequest_vectors m))),
       (BatchStoreVectorRequest_shardEpoch m \<noteq> ''0'', ''shardEpoch'', JStr (BatchStoreVectorRequest_shardEpoch m)),
       (BatchStoreVectorRequest_leaseExpiryUnixMs m \<noteq> ''0'', ''leaseExpiryUnixMs'', JStr (BatchStoreVectorRequest_leaseExpiryUnixMs m))]"

definition fromJSON_BatchStoreVectorResponse :: "text_conv \<Rightarrow> js_val \<Rightarrow> thrown + BatchStoreVectorResponse" where
  "fromJSON_BatchStoreVectorResponse K object =
     with_object object (\<lambda>object.
       Inr \<lparr>BatchStoreVectorResponse_stored = json_number K (js_get object ''stored'')\<rparr>)"

definition toJSON_BatchStoreVectorResponse :: "BatchStoreVectorResponse \<Rightarrow> js_val" where
  "toJSON_BatchStoreVectorResponse m =
     json_obj
      [(\<not> js_eq (BatchStoreVectorResponse_stored m) (Fin 0), ''stored'', JNum (js_round (BatchStoreVectorResponse_stored m)))]"

definition fromJSON_GetVectorRequest :: "text_conv \<Rightarrow> js_val \<Rightarrow> thrown + GetVectorRequest" where
  "fromJSON_GetVectorRequest K object =
     with_object object (\<lambda>object.
       Inr \<lparr>GetVectorRequest_shardId = json_string K ''0'' (js_get object ''shardId''),
          GetVectorRequest_id = json_string K [] (js_get object ''id''),
          GetVectorRequest_shardEpoch = json_string K ''0'' (js_get object ''shardEpoch''),
          GetVectorRequest_leaseExpiryUnixMs = json_string K ''0'' (js_get object ''leaseExpiryUnixMs'')\<rparr>)"

definition toJSON_GetVectorRequest :: "GetVectorRequest \<Rightarrow> js_val" where
  "toJSON_GetVectorRequest m =
     json_obj
      [(GetVectorRequest_shardId m \<noteq> ''0'', ''shardId'', JStr (GetVectorRequest_shardId m)),
       (GetVectorRequest_id m \<noteq> [], ''id'', JStr (GetVectorRequest_id m)),
       (GetVectorRequest_shardEpoch m \<noteq> ''0'', ''shardEpoch'', JStr (GetVectorRequest_shardEpoch m)),
       (GetVectorRequest_leaseExpiryUnixMs m \<noteq> ''0'', ''leaseExpiryUnixMs'', JStr (GetVectorRequest_leaseExpiryUnixMs m))]"

definition fromJSON_GetVectorResponse :: "text_conv \<Rightarrow> js_val \<Rightarrow> thrown + GetVectorResponse" where
  "fromJSON_GetVectorResponse K object =
     with_object object (\<lambda>object.
       res_bind (json_sub (fromJSON_Vector K) (js_get object ''vector'')) (\<lambda>vector'.
       Inr \<lparr>GetVectorResponse_vector = vector'\<rparr>))"

definition toJSON_GetVectorResponse :: "GetVectorResponse \<Rightarrow> js_val" where
  "toJSON_GetVectorResponse m =
     json_obj
      [(GetVectorResponse_vector m \<noteq> None, ''vector'', (case GetVectorResponse_vector m of None \<Rightarrow> JUndefined | Some v \<Rightarrow> toJSON_Vector v))]"

definition fromJSON_DeleteVectorRequest :: "text_conv \<Rightarrow> js_val \<Rightarrow> thrown + DeleteVectorRequest" where
  "fromJSON_DeleteVectorRequest K object =
     with_object object (\<lambda>object.
       Inr \<lparr>DeleteVectorRequest_shardId = json_string K ''0'' (js_get object ''shardId''),
          DeleteVectorRequest_id = json_string K [] (js_get object ''id''),
          DeleteVectorRequest_shardEpoch = json_string K ''0'' (js_get object ''shardEpoch''),
          DeleteVectorRequest_leaseExpiryUnixMs = json_string K ''0'' (js_get object ''leaseExpiryUnixMs'')\<rparr>)"

definition toJSON_DeleteVectorRequest :: "DeleteVectorRequest \<Rightarrow> js_val" where
  "toJSON_DeleteVectorRequest m =
     json_obj
      [(DeleteVectorRequest_shardId m \<noteq> ''0'', ''shardId'', JStr (DeleteVectorRequest_shardId m)),
       (DeleteVectorRequest_id m \<noteq> [], ''id'', JStr (DeleteVectorRequest_id m)),
       (DeleteVectorRequest_shardEpoch m \<noteq> ''0'', ''shardEpoch'', JStr (DeleteVectorRequest_shardEpoch m)),
       (DeleteVectorRequest_leaseExpiryUnixMs m \<noteq> ''0'', ''leaseExpiryUnixMs'', JStr (DeleteVectorRequest_leaseExpiryUnixMs m))]"

definition fromJSON_DeleteVectorResponse :: "text_conv \<Rightarrow> js_val \<Rightarrow> thrown + DeleteVectorResponse" where
  "fromJSON_DeleteVectorResponse K object = Inr DeleteVectorResponse"

definition toJSON_DeleteVectorResponse :: "DeleteVectorResponse \<Rightarrow> js_val" where
  "toJSON_DeleteVectorResponse m = json_obj []"

definition fromJSON_WkSearchRequest :: "text_conv \<Rightarrow> js_val \<Rightarrow> thrown + WkSearchRequest" where
  "fromJSON_WkSearchRequest K object =
     with_object object (\<lambda>object.
       Inr \<lparr>WkSearchRequest_shardId = json_string K ''0'' (js_get object ''shardId''),
          WkSearchRequest_vector = json_numbers K (js_get object ''vector''),
          WkSearchRequest_k = json_number K (js_get object ''k''),
          WkSearchRequest_bruteForce = json_boolean (js_get object ''bruteForce''),
          WkSearchRequest_linearizable = json_boolean (js_get object ''linearizable''),
          WkSearchRequest_collection = json_string K [] (js_get object ''collection''),
          WkSearchRequest_shardEpoch = json_string K ''0'' (js_get object ''shardEpoch''),
          WkSearchRequest_leaseExpiryUnixMs = json_string K ''0'' (js_get object ''leaseExpiryUnixMs'')\<rparr>)"

definition toJSON_WkSearchRequest :: "WkSearchRequest \<Rightarrow> js_val" where
  "toJSON_WkSearchRequest m =
     json_obj
      [(WkSearchRequest_shardId m \<noteq> ''0'', ''shardId'', JStr (WkSearchRequest_shardId m)),
       (WkSearchRequest_vector m \<noteq> [], ''vector'', JArr (map JNum (WkSearchRequest_vector m))),
       (\<not> js_eq (WkSearchRequest_k m) (Fin 0), ''k'', JNum (js_round (WkSearchRequest_k m))),
       (WkSearchRequest_bruteForce m, ''bruteForce'', JBool (WkSearchRequest_bruteForce m)),
       (WkSearchRequest_linearizable m, ''linearizable'', JBool (WkSearchRequest_linearizable m)),
       (WkSearchRequest_collection m \<noteq> [], ''collection'', JStr (WkSearchRequest_collection m)),
       (WkSearchRequest_shardEpoch m \<noteq> ''0'', ''shardEpoch'', JStr (WkSearchRequest_shardEpoch m)),
       (WkSearchRequest_leaseExpiryUnixMs m \<noteq> ''0'', ''leaseExpiryUnixMs'', JStr (WkSearchRequest_leaseExpiryUnixMs m))]"

definition fromJSON_WkSearchResponse :: "text_conv \<Rightarrow> js_val \<Rightarrow> thrown + WkSearchResponse" where
  "fromJSON_WkSearchResponse K object =
     res_bind (json_bytess K (js_get object ''metadata'')) (\<lambda>metadata'.
       Inr \<lparr>WkSearchResponse_ids = json_strings K (js_get object ''ids''),
          WkSearchResponse_scores = json_numbers K (js_get object ''scores''),
          WkSearchResponse_metadata = metadata'\<rparr>)"

definition toJSON_WkSearchResponse :: "WkSearchResponse \<Rightarrow> js_val" where
  "toJSON_WkSearchResponse m =
     json_obj
      [(WkSearchResponse_ids m \<noteq> [], ''ids'', JArr (map JStr (WkSearchResponse_ids m))),
       (WkSearchResponse_scores m \<noteq> [], ''scores'', JArr (map JNum (WkSearchResponse_scores m))),
       (WkSearchResponse_metadata m \<noteq> [], ''metadata'', JArr (map (\<lambda>e. JStr (base64FromBytes e)) (WkSearchResponse_metadata m)))]"

definition fromJSON_BatchSearchRequest :: "text_conv \<Rightarrow> js_val \<Rightarrow> thrown + BatchSearchRequest" where
  "fromJSON_BatchSearchRequest K object =
     res_bind (json_subs (fromJSON_WkSearchRequest K) (js_get object ''requests'')) (\<lambda>requests'.
       Inr \<lparr>BatchSearchRequest_requests = requests'\<rparr>)"

definition toJSON_BatchSearchRequest :: "BatchSearchRequest \<Rightarrow> js_val" where
  "toJSON_BatchSearchRequest m =
     json_obj
      [(BatchSearchRequest_requests m \<noteq> [], ''requests'', JArr (map toJSON_WkSearchRequest (BatchSearchRequest_requests m)))]"

definition fromJSON_BatchSearchResponse :: "text_conv \<Rightarrow> js_val \<Rightarrow> thrown + BatchSearchResponse" where
  "fromJSON_BatchSearchResponse K object =
     res_bind (json_subs (fromJSON_WkSearchResponse K) (js_get object ''responses'')) (\<lambda>responses'.
       Inr \<lparr>BatchSearchResponse_responses = responses'\<rparr>)"

definition toJSON_BatchSearchResponse :: "BatchSearchResponse \<Rightarrow> js_val" where
  "toJSON_BatchSearchResponse m =
     json_obj
      [(BatchSearchResponse_responses m \<noteq> [], ''responses'', JArr (map toJSON_WkSearchResponse (BatchSearchResponse_responses m)))]"

definition fromJSON_HNSWSnapshotRequest :: "text_conv \<Rightarrow> js_val \<Rightarrow> thrown + HNSWSnapshotRequest" where
  "fromJSON_HNSWSnapshotRequest K object =
     with_object object (\<lambda>object.
       Inr \<lparr>HNSWSnapshotRequest_shardId = json_string K ''0'' (js_get object ''shardId'')\<rparr>)"

definition toJSON_HNSWSnapshotRequest :: "HNSWSnapshotRequest \<Rightarrow> js_val" where
  "toJSON_HNSWSnapshotRequest m =
     json_obj
      [(HNSWSnapshotRequest_shardId m \<noteq> ''0'', ''shardId'', JStr (HNSWSnapshotRequest_shardId m))]"

definition fromJSON_HNSWSnapshotChunk :: "text_conv \<Rightarrow> js_val \<Rightarrow> thrown + HNSWSnapshotChunk" where
  "fromJSON_HNSWSnapshotChunk K object =
     with_object object (\<lambda>object.
       res_bind (json_bytes K (js_get object ''data'')) (\<lambda>data'.
       Inr \<lparr>HNSWSnapshotChunk_shardId = json_string K ''0'' (js_get object ''shardId''),
          HNSWSnapshotChunk_snapshotTsUnixNano = json_string K ''0'' (js_get object ''snapshotTsUnixNano''),
          HNSWSnapshotChunk_data = data',
          HNSWSnapshotChunk_done = json_boolean (js_get object ''done'')\<rparr>))"

definition toJSON_HNSWSnapshotChunk :: "HNSWSnapshotChunk \<Rightarrow> js_val" where
  "toJSON_HNSWSnapshotChunk m =
     json_obj
      [(HNSWSnapshotChunk_shardId m \<noteq> ''0'', ''shardId'', JStr (HNSWSnapshotChunk_shardId m)),
       (HNSWSnapshotChunk_snapshotTsUnixNano m \<noteq> ''0'', ''snapshotTsUnixNano'', JStr (HNSWSnapshotChunk_snapshotTsUnixNano m)),
       (HNSWSnapshotChunk_data m \<noteq> [], ''data'', JStr (base64FromBytes (HNSWSnapshotChunk_data m))),
       (HNSWSnapshotChunk_done m, ''done'', JBool (HNSWSnapshotChunk_done m))]"

definition fromJSON_HNSWUpdatesRequest :: "text_conv \<Rightarrow> js_val \<Rightarrow> thrown + HNSWUpdatesRequest" where
  "fromJSON_HNSWUpdatesRequest K object =
     with_object object (\<lambda>object.
       Inr \<lparr>HNSWUpdatesRequest_shardId = json_string K ''0'' (js_get object ''shardId''),
          HNSWUpdatesRequest_fromTsUnixNano = json_string K ''0'' (js_get object ''fromTsUnixNano'')\<rparr>)"

definition toJSON_HNSWUpdatesRequest :: "HNSWUpdatesRequest \<Rightarrow> js_val" where
  "toJSON_HNSWUpdatesRequest m =
     json_obj
      [(HNSWUpdatesRequest_shardId m \<noteq> ''0'', ''shardId'', JStr (HNSWUpdatesRequest_shardId m)),
       (HNSWUpdatesRequest_fromTsUnixNano m \<noteq> ''0'', ''fromTsUnixNano'', JStr (HNSWUpdatesRequest_fromTsUnixNano m))]"

definition fromJSON_HNSWUpdate :: "text_conv \<Rightarrow> js_val \<Rightarrow> thrown + HNSWUpdate" where
  "fromJSON_HNSWUpdate K object =
     with_object object (\<lambda>object.
       res_bind (json_bytes K (js_get object ''value'')) (\<lambda>value'.
       Inr \<lparr>HNSWUpdate_id = json_string K [] (js_get object ''id''),
          HNSWUpdate_value = value',
          HNSWUpdate_delete = json_boolean (js_get object ''delete''),
          HNSWUpdate_tsUnixNano = json_string K ''0'' (js_get object ''tsUnixNano'')\<rparr>))"

definition toJSON_HNSWUpdate :: "HNSWUpdate \<Rightarrow> js_val" where
  "toJSON_HNSWUpdate m =
     json_obj
      [(HNSWUpdate_id m \<noteq> [], ''id'', JStr (HNSWUpdate_id m)),
       (HNSWUpdate_value m \<noteq> [], ''value'', JStr (base64FromBytes (HNSWUpdate_value m))),
       (HNSWUpdate_delete m, ''delete'', JBool (HNSWUpdate_delete m)),
       (HNSWUpdate_tsUnixNano m \<noteq> ''0'', ''tsUnixNano'', JStr (HNSWUpdate_tsUnixNano m))]"

definition fromJSON_HNSWUpdateBatch :: "text_conv \<Rightarrow> js_val \<Rightarrow> thrown + HNSWUpdateBatch" where
  "fromJSON_HNSWUpdateBatch K object =
     res_bind (json_subs (fromJSON_HNSWUpdate K) (js_get object ''updates'')) (\<lambda>updates'.
       Inr \<lparr>HNSWUpdateBatch_updates = updates'\<rparr>)"

definition toJSON_HNSWUpdateBatch :: "HNSWUpdateBatch \<Rightarrow> js_val" where
  "toJSON_HNSWUpdateBatch m =
     json_obj
      [(HNSWUpdateBatch_updates m \<noteq> [], ''updates'', JArr (map toJSON_HNSWUpdate (HNSWUpdateBatch_updates m)))]"

definition fromJSON_KeyValuePair :: "text_conv \<Rightarrow> js_val \<Rightarrow> thrown + KeyValuePair" where
  "fromJSON_KeyValuePair K object =
     with_object object (\<lambda>object.
       res_bind (json_bytes K (js_get object ''key'')) (\<lambda>key'.
       res_bind (json_bytes K (js_get object ''value'')) (\<lambda>value'.
       Inr \<lparr>KeyValuePair_key = key',
          KeyValuePair_value = value'\<rparr>)))"

definition toJSON_KeyValuePair :: "KeyValuePair \<Rightarrow> js_val" where
  "toJSON_KeyValuePair m =
     json_obj
      [(KeyValuePair_key m \<noteq> [], ''key'', JStr (base64FromBytes (KeyValuePair_key m))),
       (KeyValuePair_value m \<noteq> [], ''value'', JStr (base64FromBytes (KeyValuePair_value m)))]"

definition fromJSON_PutRequest :: "text_conv \<Rightarrow> js_val \<Rightarrow> thrown + PutRequest" where
  "fromJSON_PutRequest K object =
     with_object object (\<lambda>object.
       res_bind (json_sub (fromJSON_KeyValuePair K) (js_get object ''kv'')) (\<lambda>kv'.
       Inr \<lparr>PutRequest_shardId = json_string K ''0'' (js_get object ''shardId''),
          PutRequest_kv = kv',
          PutRequest_shardEpoch = json_string K ''0'' (js_get object ''shardEpoch''),
          PutRequest_leaseExpiryUnixMs = json_string K ''0'' (js_get object ''leaseExpiryUnixMs'')\<rparr>))"

definition toJSON_PutRequest :: "PutRequest \<Rightarrow> js_val" where
  "toJSON_PutRequest m =
     json_obj
      [(PutRequest_shardId m \<noteq> ''0'', ''shardId'', JStr (PutRequest_shardId m)),
       (PutRequest_kv m \<noteq> None, ''kv'', (case PutRequest_kv m of None \<Rightarrow> JUndefined | Some v \<Rightarrow> toJSON_KeyValuePair v)),
       (PutRequest_shardEpoch m \<noteq> ''0'', ''shardEpoch'', JStr (PutRequest_shardEpoch m)),
       (PutRequest_leaseExpiryUnixMs m \<noteq> ''0'', ''leaseExpiryUnixMs'', JStr (PutRequest_leaseExpiryUnixMs m))]"

definition fromJSON_PutResponse :: "text_conv \<Rightarrow> js_val \<Rightarrow> thrown + PutResponse" where
  "fromJSON_PutResponse K object = Inr PutResponse"

definition toJSON_PutResponse :: "PutResponse \<Rightarrow> js_val" where
  "toJSON_PutResponse m = json_obj []"

definition fromJSON_WkGetRequest :: "text_conv \<Rightarrow> js_val \<Rightarrow> thrown + WkGetRequest" where
  "fromJSON_WkGetRequest K object =
     with_object object (\<lambda>object.
       res_bind (json_bytes K (js_get object ''key'')) (\<lambda>key'.
       Inr \<lparr>WkGetRequest_shardId = json_string K ''0'' (js_get object ''shardId''),
          WkGetRequest_key = key',
          WkGetRequest_shardEpoch = json_string K ''0'' (js_get object ''shardEpoch''),
          WkGetRequest_leaseExpiryUnixMs = json_string K ''0'' (js_get object ''leaseExpiryUnixMs'')\<rparr>))"

definition toJSON_WkGetRequest :: "WkGetRequest \<Rightarrow> js_val" where
  "toJSON_WkGetRequest m =
     json_obj
      [(WkGetRequest_shardId m \<noteq> ''0'', ''shardId'', JStr (WkGetRequest_shardId m)),
       (WkGetRequest_key m \<noteq> [], ''key'', JStr (base64FromBytes (WkGetRequest_key m))),
       (WkGetRequest_shardEpoch m \<noteq> ''0'', ''shardEpoch'', JStr (WkGetRequest_shardEpoch m)),
       (WkGetRequest_leaseExpiryUnixMs m \<noteq> ''0'', ''leaseExpiryUnixMs'', JStr (WkGetRequest_leaseExpiryUnixMs m))]"

definition fromJSON_WkGetResponse :: "text_conv \<Rightarrow> js_val \<Rightarrow> thrown + WkGetResponse" where
  "fromJSON_WkGetResponse K object =
     with_object object (\<lambda>object.
       res_bind (json_sub (fromJSON_KeyValuePair K) (js_get object ''kv'')) (\<lambda>kv'.
       Inr \<lparr>WkGetResponse_kv = kv'\<rparr>))"

definition toJSON_WkGetResponse :: "WkGetResponse \<Rightarrow> js_val" where
  "toJSON_WkGetResponse m =
     json_obj
      [(WkGetResponse_kv m \<noteq> None, ''kv'', (case WkGetResponse_kv m of None \<Rightarrow> JUndefined | Some v \<Rightarrow> toJSON_KeyValuePair v))]"

definition fromJSON_WkDeleteRequest :: "text_conv \<Rightarrow> js_val \<Rightarrow> thrown + WkDeleteRequest" where
  "fromJSON_WkDeleteRequest K object =
     with_object object (\<lambda>object.
       res_bind (json_bytes K (js_get object ''key'')) (\<lambda>key'.
       Inr \<lparr>WkDeleteRequest_shardId = json_string K ''0'' (js_get object ''shardId''),
          WkDeleteRequest_key = key',
          WkDeleteRequest_shardEpoch = json_string K ''0'' (js_get object ''shardEpoch''),
          WkDeleteRequest_leaseExpiryUnixMs = json_string K ''0'' (js_get object ''leaseExpiryUnixMs'')\<rparr>))"

definition toJSON_WkDeleteRequest :: "WkDeleteRequest \<Rightarrow> js_val" where
  "toJSON_WkDeleteRequest m =
     json_obj
      [(WkDeleteRequest_shardId m \<noteq> ''0'', ''shardId'', JStr (WkDeleteRequest_shardId m)),
       (WkDeleteRequest_key m \<noteq> [], ''key'', JStr (base64FromBytes (WkDeleteRequest_key m))),
       (WkDeleteRequest_shardEpoch m \<noteq> ''0'', ''shardEpoch'', JStr (WkDeleteRequest_shardEpoch m)),
       (WkDeleteRequest_leaseExpiryUnixMs m \<noteq> ''0'', ''leaseExpiryUnixMs'', JStr (WkDeleteRequest_leaseExpiryUnixMs m))]"

definition fromJSON_WkDeleteResponse :: "text_conv \<Rightarrow> js_val \<Rightarrow> thrown + WkDeleteResponse" where
  "fromJSON_WkDeleteResponse K object = Inr WkDeleteResponse"

definition toJSON_WkDeleteResponse :: "WkDeleteResponse \<Rightarrow> js_val" where
  "toJSON_WkDeleteResponse m = json_obj []"

definition fromJSON_StatusRequest :: "text_conv \<Rightarrow> js_val \<Rightarrow> thrown + StatusRequest" where
  "fromJSON_StatusRequest K object =
     with_object object (\<lambda>object.
       Inr \<lparr>StatusRequest_shardId = json_string K ''0'' (js_get object ''shardId''),
          StatusRequest_shardEpoch = json_string K ''0'' (js_get object ''shardEpoch''),
          StatusRequest_leaseExpiryUnixMs = json_string K ''0'' (js_get object ''leaseExpiryUnixMs'')\<rparr>)"

definition toJSON_StatusRequest :: "StatusRequest \<Rightarrow> js_val" where
  "toJSON_StatusRequest m =
     json_obj
      [(StatusRequest_shardId m \<noteq> ''0'', ''shardId'', JStr (StatusRequest_shardId m)),
       (StatusRequest_shardEpoch m \<noteq> ''0'', ''shardEpoch'', JStr (StatusRequest_shardEpoch m)),
       (StatusRequest_leaseExpiryUnixMs m \<noteq> ''0'', ''leaseExpiryUnixMs'', JStr (StatusRequest_leaseExpiryUnixMs m))]"

definition fromJSON_StatusResponse :: "text_conv \<Rightarrow> js_val \<Rightarrow> thrown + StatusResponse" where
  "fromJSON_StatusResponse K object =
     with_object object (\<lambda>object.
       Inr \<lparr>StatusResponse_status = json_string K [] (js_get object ''status'')\<rparr>)"

definition toJSON_StatusResponse :: "StatusResponse \<Rightarrow> js_val" where
  "toJSON_StatusResponse m =
     json_obj
      [(StatusResponse_status m \<noteq> [], ''status'', JStr (StatusResponse_status m))]"

definition fromJSON_FlushRequest :: "text_conv \<Rightarrow> js_val \<Rightarrow> thrown + FlushRequest" where
  "fromJSON_FlushRequest K object =
     with_object object (\<lambda>object.
       Inr \<lparr>FlushRequest_shardId = json_string K ''0'' (js_get object ''shardId''),
          FlushRequest_shardEpoch = json_string K ''0'' (js_get object ''shardEpoch''),
          FlushRequest_leaseExpiryUnixMs = json_string K ''0'' (js_get object ''leaseExpiryUnixMs'')\<rparr>)"

definition toJSON_FlushRequest :: "FlushRequest \<Rightarrow> js_val" where
  "toJSON_FlushRequest m =
     json_obj
      [(FlushRequest_shardId m \<noteq> ''0'', ''shardId'', JStr (FlushRequest_shardId m)),
       (FlushRequest_shardEpoch m \<noteq> ''0'', ''shardEpoch'', JStr (FlushRequest_shardEpoch m)),
       (FlushRequest_leaseExpiryUnixMs m \<noteq> ''0'', ''leaseExpiryUnixMs'', JStr (FlushRequest_leaseExpiryUnixMs m))]"

definition fromJSON_FlushResponse :: "text_conv \<Rightarrow> js_val \<Rightarrow> thrown + FlushResponse" where
  "fromJSON_FlushResponse K object = Inr FlushResponse"

definition toJSON_FlushResponse :: "FlushResponse \<Rightarrow> js_val" where
  "toJSON_FlushResponse m = json_obj []"

section \<open>What \<^verbatim>\<open>toJSON\<close> writes, \<^verbatim>\<open>fromJSON\<close> reads\<close>

lemma isSet_toJSON_Vector: "isSet (toJSON_Vector m)"
  by (simp add: toJSON_Vector_def isSet_json_obj)

lemma isSet_toJSON_StoreVectorRequest: "isSet (toJSON_StoreVectorRequest m)"
  by (simp add: toJSON_StoreVectorRequest_def isSet_json_obj)

lemma isSet_toJSON_BatchStoreVectorRequest: "isSet (toJSON_BatchStoreVectorRequest m)"
  by (simp add: toJSON_BatchStoreVectorRequest_def isSet_json_obj)

lemma isSet_toJSON_BatchStoreVectorResponse: "isSet (toJSON_BatchStoreVectorResponse m)"
  by (simp add: toJSON_BatchStoreVectorResponse_def isSet_json_obj)

lemma isSet_toJSON_GetVectorRequest: "isSet (toJSON_GetVectorRequest m)"
  by (simp add: toJSON_GetVectorRequest_def isSet_json_obj)

lemma isSet_toJSON_GetVectorResponse: "isSet (toJSON_GetVectorResponse m)"
  by (simp add: toJSON_GetVectorResponse_def isSet_json_obj)

lemma isSet_toJSON_DeleteVectorRequest: "isSet (toJSON_DeleteVectorRequest m)"
  by (simp add: toJSON_DeleteVectorRequest_def isSet_json_obj)

lemma isSet_toJSON_WkSearchRequest: "isSet (toJSON_WkSearchRequest m)"
  by (simp add: toJSON_WkSearchRequest_def isSet_json_obj)

lemma isSet_toJSON_WkSearchResponse: "isSet (toJSON_WkSearchResponse m)"
  by (simp add: toJSON_WkSearchResponse_def isSet_json_obj)

lemma isSet_toJSON_BatchSearchRequest: "isSet (toJSON_BatchSearchRequest m)"
  by (simp add: toJSON_BatchSearchRequest_def isSet_json_obj)

lemma isSet_toJSON_BatchSearchResponse: "isSet (toJSON_BatchSearchResponse m)"
  by (simp add: toJSON_BatchSearchResponse_def isSet_json_obj)

lemma isSet_toJSON_HNSWSnapshotRequest: "isSet (toJSON_HNSWSnapshotRequest m)"
  by (simp add: toJSON_HNSWSnapshotRequest_def isSet_json_obj)

lemma isSet_toJSON_HNSWSnapshotChunk: "isSet (toJSON_HNSWSnapshotChunk m)"
  by (simp add: toJSON_HNSWSnapshotChunk_def isSet_json_obj)

lemma isSet_toJSON_HNSWUpdatesRequest: "isSet (toJSON_HNSWUpdatesRequest m)"
  by (simp add: toJSON_HNSWUpdatesRequest_def isSet_json_obj)

lemma isSet_toJSON_HNSWUpdate: "isSet (toJSON_HNSWUpdate m)"
  by (simp add: toJSON_HNSWUpdate_def isSet_json_obj)

lemma isSet_toJSON_HNSWUpdateBatch: "isSet (toJSON_HNSWUpdateBatch m)"
  by (simp add: toJSON_HNSWUpdateBatch_def isSet_json_obj)

lemma isSet_toJSON_KeyValuePair: "isSet (toJSON_KeyValuePair m)"
  by (simp add: toJSON_KeyValuePair_def isSet_json_obj)

lemma isSet_toJSON_PutRequest: "isSet (toJSON_PutRequest m)"
  by (simp add: toJSON_PutRequest_def isSet_json_obj)

lemma isSet_toJSON_WkGetRequest: "isSet (toJSON_WkGetRequest m)"
  by (simp add: toJSON_WkGetRequest_def isSet_json_obj)

lemma isSet_toJSON_WkGetResponse: "isSet (toJSON_WkGetResponse m)"
  by (simp add: toJSON_WkGetResponse_def isSet_json_obj)

lemma isSet_toJSON_WkDeleteRequest: "isSet (toJSON_WkDeleteRequest m)"
  by (simp add: toJSON_WkDeleteRequest_def isSet_json_obj)

lemma isSet_toJSON_StatusRequest: "isSet (toJSON_StatusRequest m)"
  by (simp add: toJSON_StatusRequest_def isSet_json_obj)

lemma isSet_toJSON_StatusResponse: "isSet (toJSON_StatusResponse m)"
  by (simp add: toJSON_StatusResponse_def isSet_json_obj)

lemma isSet_toJSON_FlushRequest: "isSet (toJSON_FlushRequest m)"
  by (simp add: toJSON_FlushRequest_def isSet_json_obj)

lemma json_StoreVectorResponse: "fromJSON_StoreVectorResponse K (toJSON_StoreVectorResponse m) = Inr m"
  by (cases m) (simp add: fromJSON_StoreVectorResponse_def)

definition json_ok_BatchStoreVectorResponse :: "BatchStoreVectorResponse \<Rightarrow> bool" where
  "json_ok_BatchStoreVectorResponse m \<longleftrightarrow> js_round (BatchStoreVectorResponse_stored m) = BatchStoreVectorResponse_stored m"

lemma json_BatchStoreVectorResponse:
  assumes "json_ok_BatchStoreVectorResponse m"
  shows "fromJSON_BatchStoreVectorResponse K (toJSON_BatchStoreVectorResponse m) = Inr m"
  using assms
  by (cases m) (simp add: fromJSON_BatchStoreVectorResponse_def toJSON_BatchStoreVectorResponse_def json_back json_ok_BatchStoreVectorResponse_def)

lemma json_GetVectorRequest:
  "fromJSON_GetVectorRequest K (toJSON_GetVectorRequest m) = Inr m"
  by (cases m) (simp add: fromJSON_GetVectorRequest_def toJSON_GetVectorRequest_def json_back)

lemma json_DeleteVectorRequest:
  "fromJSON_DeleteVectorRequest K (toJSON_DeleteVectorRequest m) = Inr m"
  by (cases m) (simp add: fromJSON_DeleteVectorRequest_def toJSON_DeleteVectorRequest_def json_back)

lemma json_DeleteVectorResponse: "fromJSON_DeleteVectorResponse K (toJSON_DeleteVectorResponse m) = Inr m"
  by (cases m) (simp add: fromJSON_DeleteVectorResponse_def)

definition json_ok_WkSearchRequest :: "WkSearchRequest \<Rightarrow> bool" where
  "json_ok_WkSearchRequest m \<longleftrightarrow> js_round (WkSearchRequest_k m) = WkSearchRequest_k m"

lemma json_WkSearchRequest:
  assumes "json_ok_WkSearchRequest m"
  shows "fromJSON_WkSearchRequest K (toJSON_WkSearchRequest m) = Inr m"
  using assms
  by (cases m) (simp add: fromJSON_WkSearchRequest_def toJSON_WkSearchRequest_def json_back json_ok_WkSearchRequest_def)

definition json_ok_BatchSearchRequest :: "BatchSearchRequest \<Rightarrow> bool" where
  "json_ok_BatchSearchRequest m \<longleftrightarrow> (\<forall>v \<in> set (BatchSearchRequest_requests m). json_ok_WkSearchRequest v)"

lemma json_BatchSearchRequest:
  assumes "json_ok_BatchSearchRequest m"
  shows "fromJSON_BatchSearchRequest K (toJSON_BatchSearchRequest m) = Inr m"
  using assms
  by (cases m) (simp add: fromJSON_BatchSearchRequest_def toJSON_BatchSearchRequest_def json_back json_ok_BatchSearchRequest_def json_WkSearchRequest isSet_toJSON_WkSearchRequest)

lemma json_HNSWSnapshotRequest:
  "fromJSON_HNSWSnapshotRequest K (toJSON_HNSWSnapshotRequest m) = Inr m"
  by (cases m) (simp add: fromJSON_HNSWSnapshotRequest_def toJSON_HNSWSnapshotRequest_def json_back)

lemma json_HNSWUpdatesRequest:
  "fromJSON_HNSWUpdatesRequest K (toJSON_HNSWUpdatesRequest m) = Inr m"
  by (cases m) (simp add: fromJSON_HNSWUpdatesRequest_def toJSON_HNSWUpdatesRequest_def json_back)

lemma json_PutResponse: "fromJSON_PutResponse K (toJSON_PutResponse m) = Inr m"
  by (cases m) (simp add: fromJSON_PutResponse_def)

lemma json_WkDeleteResponse: "fromJSON_WkDeleteResponse K (toJSON_WkDeleteResponse m) = Inr m"
  by (cases m) (simp add: fromJSON_WkDeleteResponse_def)

lemma json_StatusRequest:
  "fromJSON_StatusRequest K (toJSON_StatusRequest m) = Inr m"
  by (cases m) (simp add: fromJSON_StatusRequest_def toJSON_StatusRequest_def json_back)

lemma json_StatusResponse:
  "fromJSON_StatusResponse K (toJSON_StatusResponse m) = Inr m"
  by (cases m) (simp add: fromJSON_StatusResponse_def toJSON_StatusResponse_def json_back)

lemma json_FlushRequest:
  "fromJSON_FlushRequest K (toJSON_FlushRequest m) = Inr m"
  by (cases m) (simp add: fromJSON_FlushRequest_def toJSON_FlushRequest_def json_back)

lemma json_FlushResponse: "fromJSON_FlushResponse K (toJSON_FlushResponse m) = Inr m"
  by (cases m) (simp add: fromJSON_FlushResponse_def)


context base64_runtime
begin

lemma json_Vector:
  "fromJSON_Vector K (toJSON_Vector m) = Inr m"
  by (cases m) (simp add: fromJSON_Vector_def toJSON_Vector_def json_back json_bytes_back json_bytess_back)

lemma json_StoreVectorRequest:
  "fromJSON_StoreVectorRequest K (toJSON_StoreVectorRequest m) = Inr m"
  by (cases m) (simp add: fromJSON_StoreVectorRequest_def toJSON_StoreVectorRequest_def json_back json_bytes_back json_bytess_back json_Vector isSet_toJSON_Vector)

lemma json_BatchStoreVectorRequest:
  "fromJSON_BatchStoreVectorRequest K (toJSON_BatchStoreVectorRequest m) = Inr m"
  by (cases m) (simp add: fromJSON_BatchStoreVectorRequest_def toJSON_BatchStoreVectorRequest_def json_back json_bytes_back json_bytess_back json_Vector isSet_toJSON_Vector)

lemma json_GetVectorResponse:
  "fromJSON_GetVectorResponse K (toJSON_GetVectorResponse m) = Inr m"
  by (cases m) (simp add: fromJSON_GetVectorResponse_def toJSON_GetVectorResponse_def json_back json_bytes_back json_bytess_back json_Vector isSet_toJSON_Vector)

lemma json_WkSearchResponse:
  "fromJSON_WkSearchResponse K (toJSON_WkSearchResponse m) = Inr m"
  by (cases m) (simp add: fromJSON_WkSearchResponse_def toJSON_WkSearchResponse_def json_back json_bytes_back json_bytess_back)

lemma json_BatchSearchResponse:
  "fromJSON_BatchSearchResponse K (toJSON_BatchSearchResponse m) = Inr m"
  by (cases m) (simp add: fromJSON_BatchSearchResponse_def toJSON_BatchSearchResponse_def json_back json_bytes_back json_bytess_back json_WkSearchResponse isSet_toJSON_WkSearchResponse)

lemma json_HNSWSnapshotChunk:
  "fromJSON_HNSWSnapshotChunk K (toJSON_HNSWSnapshotChunk m) = Inr m"
  by (cases m) (simp add: fromJSON_HNSWSnapshotChunk_def toJSON_HNSWSnapshotChunk_def json_back json_bytes_back json_bytess_back)

lemma json_HNSWUpdate:
  "fromJSON_HNSWUpdate K (toJSON_HNSWUpdate m) = Inr m"
  by (cases m) (simp add: fromJSON_HNSWUpdate_def toJSON_HNSWUpdate_def json_back json_bytes_back json_bytess_back)

lemma json_HNSWUpdateBatch:
  "fromJSON_HNSWUpdateBatch K (toJSON_HNSWUpdateBatch m) = Inr m"
  by (cases m) (simp add: fromJSON_HNSWUpdateBatch_def toJSON_HNSWUpdateBatch_def json_back json_bytes_back json_bytess_back json_HNSWUpdate isSet_toJSON_HNSWUpdate)

lemma json_KeyValuePair:
  "fromJSON_KeyValuePair K (toJSON_KeyValuePair m) = Inr m"
  by (cases m) (simp add: fromJSON_KeyValuePair_def toJSON_KeyValuePair_def json_back json_bytes_back json_bytess_back)

lemma json_PutRequest:
  "fromJSON_PutRequest K (toJSON_PutRequest m) = Inr m"
  by (cases m) (simp add: fromJSON_PutRequest_def toJSON_PutRequest_def json_back json_bytes_back json_bytess_back json_KeyValuePair isSet_toJSON_KeyValuePair)

lemma json_WkGetRequest:
  "fromJSON_WkGetRequest K (toJSON_WkGetRequest m) = Inr m"
  by (cases m) (simp add: fromJSON_WkGetRequest_def toJSON_WkGetRequest_def json_back json_bytes_back json_bytess_back)

lemma json_WkGetResponse:
  "fromJSON_WkGetResponse K (toJSON_WkGetResponse m) = Inr m"
  by (cases m) (simp add: fromJSON_WkGetResponse_def toJSON_WkGetResponse_def json_back json_bytes_back json_bytess_back json_KeyValuePair isSet_toJSON_KeyValuePair)

lemma json_WkDeleteRequest:
  "fromJSON_WkDeleteRequest K (toJSON_WkDeleteRequest m) = Inr m"
  by (cases m) (simp add: fromJSON_WkDeleteRequest_def toJSON_WkDeleteRequest_def json_back json_bytes_back json_bytess_back)

end

section \<open>Properties\<close>

text \<open>A request to store a vector survives JSON, byte fields included: they travel as base64, and
  \<^verbatim>\<open>Buffer.from(text, "base64")\<close> of the runtime gives back the bytes that were encoded.\<close>

theorem StoreVectorRequest_json:
  assumes "base64_runtime K"
  shows "fromJSON_StoreVectorRequest K (toJSON_StoreVectorRequest m) = Inr m"
  by (rule base64_runtime.json_StoreVectorRequest [OF assms])

definition sample_store :: StoreVectorRequest where
  "sample_store =
     createBaseStoreVectorRequest
       \<lparr>StoreVectorRequest_shardId := ''7'',
        StoreVectorRequest_vector := Some \<lparr>Vector_id = ''a'', Vector_vector = [Fin (1 / 3)],
          Vector_metadata = [0, 255, 16, 9]\<rparr>\<rparr>"

theorem StoreVectorRequest_json_witness:
  "fromJSON_StoreVectorRequest plain_conv (toJSON_StoreVectorRequest sample_store) = Inr sample_store"
  by (rule StoreVectorRequest_json [OF node.base64_runtime_axioms])


end
