(* ===== verification/Internal_Services.thy ===== *)
theory Internal_Services
  imports Service_Wire Reranker_Json Placement_Json Worker_Json
begin

text \<open>
  The method tables of the services behind the gateway: \<^verbatim>\<open>RerankServiceService\<close> in
  \<^verbatim>\<open>reranker.ts\<close>, \<^verbatim>\<open>PlacementServiceService\<close> in \<^verbatim>\<open>placementdriver.ts\<close> and \<^verbatim>\<open>WorkerServiceService\<close>
  in \<^verbatim>\<open>worker.ts\<close>, with the same record \<open>rpc_method\<close> as the tables of \<open>Service_Wire\<close>.
\<close>

section \<open>The reranker\<close>

definition RerankService_rerank :: "('w, 'r) wire \<Rightarrow> (RerankRequest, RerankResponse) rpc_method" where
  "RerankService_rerank W =
     \<lparr>path = ''/vectron.reranker.v1.RerankService/Rerank'', requestStream = False, responseStream = False,
      requestSerialize = serialize W (encode_RerankRequest W), requestDeserialize = decode_bytes W (decode_RerankRequest W),
      responseSerialize = serialize W (encode_RerankResponse W), responseDeserialize = decode_bytes W (decode_RerankResponse W)\<rparr>"

definition RerankService_getStrategy :: "('w, 'r) wire \<Rightarrow> (GetStrategyRequest, GetStrategyResponse) rpc_method" where
  "RerankService_getStrategy W =
     \<lparr>path = ''/vectron.reranker.v1.RerankService/GetStrategy'', requestStream = False, responseStream = False,
      requestSerialize = serialize W (encode_GetStrategyRequest W), requestDeserialize = decode_bytes W (decode_GetStrategyRequest W),
      responseSerialize = serialize W (encode_GetStrategyResponse W), responseDeserialize = decode_bytes W (decode_GetStrategyResponse W)\<rparr>"

definition RerankService_invalidateCache :: "('w, 'r) wire \<Rightarrow> (InvalidateCacheRequest, InvalidateCacheResponse) rpc_method" where
  "RerankService_invalidateCache W =
     \<lparr>path = ''/vectron.reranker.v1.RerankService/InvalidateCache'', requestStream = False, responseStream = False,
      requestSerialize = serialize W (encode_InvalidateCacheRequest W), requestDeserialize = decode_bytes W (decode_InvalidateCacheRequest W),
      responseSerialize = serialize W (encode_InvalidateCacheResponse W), responseDeserialize = decode_bytes W (decode_InvalidateCacheResponse W)\<rparr>"

section \<open>The placement driver\<close>

definition PlacementService_getWorker :: "('w, 'r) wire \<Rightarrow> (GetWorkerRequest, GetWorkerResponse) rpc_method" where
  "PlacementService_getWorker W =
     \<lparr>path = ''/vectron.placementdriver.v1.PlacementService/GetWorker'', requestStream = False, responseStream = False,
      requestSerialize = serialize W (encode_GetWorkerRequest W), requestDeserialize = decode_bytes W (decode_GetWorkerRequest W),
      responseSerialize = serialize W (encode_GetWorkerResponse W), responseDeserialize = decode_bytes W (decode_GetWorkerResponse W)\<rparr>"

definition PlacementService_registerWorker :: "('w, 'r) wire \<Rightarrow> (RegisterWorkerRequest, RegisterWorkerResponse) rpc_method" where
  "PlacementService_registerWorker W =
     \<lparr>path = ''/vectron.placementdriver.v1.PlacementService/RegisterWorker'', requestStream = False, responseStream = False,
      requestSerialize = serialize W (encode_RegisterWorkerRequest W), requestDeserialize = decode_bytes W (decode_RegisterWorkerRequest W),
      responseSerialize = serialize W (encode_RegisterWorkerResponse W), responseDeserialize = decode_bytes W (decode_RegisterWorkerResponse W)\<rparr>"

definition PlacementService_heartbeat :: "('w, 'r) wire \<Rightarrow> (HeartbeatRequest, HeartbeatResponse) rpc_method" where
  "PlacementService_heartbeat W =
     \<lparr>path = ''/vectron.placementdriver.v1.PlacementService/Heartbeat'', requestStream = False, responseStream = False,
      requestSerialize = serialize W (encode_HeartbeatRequest W), requestDeserialize = decode_bytes W (decode_HeartbeatRequest W),
      responseSerialize = serialize W (encode_HeartbeatResponse W), responseDeserialize = decode_bytes W (decode_HeartbeatResponse W)\<rparr>"

definition PlacementService_listWorkers :: "('w, 'r) wire \<Rightarrow> (ListWorkersRequest, ListWorkersResponse) rpc_method" where
  "PlacementService_listWorkers W =
     \<lparr>path = ''/vectron.placementdriver.v1.PlacementService/ListWorkers'', requestStream = False, responseStream = False,
      requestSerialize = serialize W (encode_ListWorkersRequest W), requestDeserialize = decode_bytes W (decode_ListWorkersRequest W),
      responseSerialize = serialize W (encode_ListWorkersResponse W), responseDeserialize = decode_bytes W (decode_ListWorkersResponse W)\<rparr>"

definition PlacementService_registerReranker :: "('w, 'r) wire \<Rightarrow> (RegisterRerankerRequest, RegisterRerankerResponse) rpc_method" where
  "PlacementService_registerReranker W =
     \<lparr>path = ''/vectron.placementdriver.v1.PlacementService/RegisterReranker'', requestStream = False, responseStream = False,
      requestSerialize = serialize W (encode_RegisterRerankerRequest W), requestDeserialize = decode_bytes W (decode_RegisterRerankerRequest W),
      responseSerialize = serialize W (encode_RegisterRerankerResponse W), responseDeserialize = decode_bytes W (decode_RegisterRerankerResponse W)\<rparr>"

definition PlacementService_rerankerHeartbeat :: "('w, 'r) wire \<Rightarrow> (RerankerHeartbeatRequest, RerankerHeartbeatResponse) rpc_method" where
  "PlacementService_rerankerHeartbeat W =
     \<lparr>path = ''/vectron.placementdriver.v1.PlacementService/RerankerHeartbeat'', requestStream = False, responseStream = False,
      requestSerialize = serialize W (encode_RerankerHeartbeatRequest W), requestDeserialize = decode_bytes W (decode_RerankerHeartbeatRequest W),
      responseSerialize = serialize W (encode_RerankerHeartbeatResponse W), responseDeserialize = decode_bytes W (decode_RerankerHeartbeatResponse W)\<rparr>"

definition PlacementService_listRerankers :: "('w, 'r) wire \<Rightarrow> (ListRerankersRequest, ListRerankersResponse) rpc_method" where
  "PlacementService_listRerankers W =
     \<lparr>path = ''/vectron.placementdriver.v1.PlacementService/ListRerankers'', requestStream = False, responseStream = False,
      requestSerialize = serialize W (encode_ListRerankersRequest W), requestDeserialize = decode_bytes W (decode_ListRerankersRequest W),
      responseSerialize = serialize W (encode_ListRerankersResponse W), responseDeserialize = decode_bytes W (decode_ListRerankersResponse W)\<rparr>"

definition PlacementService_getReranker :: "('w, 'r) wire \<Rightarrow> (GetRerankerRequest, GetRerankerResponse) rpc_method" where
  "PlacementService_getReranker W =
     \<lparr>path = ''/vectron.placementdriver.v1.PlacementService/GetReranker'', requestStream = False, responseStream = False,
      requestSerialize = serialize W (encode_GetRerankerRequest W), requestDeserialize = decode_bytes W (decode_GetRerankerRequest W),
      responseSerialize = serialize W (encode_GetRerankerResponse W), responseDeserialize = decode_bytes W (decode_GetRerankerResponse W)\<rparr>"

definition PlacementService_listWorkersForCollection :: "('w, 'r) wire \<Rightarrow> (ListWorkersForCollectionRequest, ListWorkersForCollectionResponse) rpc_method" where
  "PlacementService_listWorkersForCollection W =
     \<lparr>path = ''/vectron.placementdriver.v1.PlacementService/ListWorkersForCollection'', requestStream = False, responseStream = False,
      requestSerialize = serialize W (encode_ListWorkersForCollectionRequest W), requestDeserialize = decode_bytes W (decode_ListWorkersForCollectionRequest W),
      responseSerialize = serialize W (encode_ListWorkersForCollectionResponse W), responseDeserialize = decode_bytes W (decode_ListWorkersForCollectionResponse W)\<rparr>"

definition PlacementService_drainWorker :: "('w, 'r) wire \<Rightarrow> (DrainWorkerRequest, DrainWorkerResponse) rpc_method" where
  "PlacementService_drainWorker W =
     \<lparr>path = ''/vectron.placementdriver.v1.PlacementService/DrainWorker'', requestStream = False, responseStream = False,
      requestSerialize = serialize W (encode_DrainWorkerRequest W), requestDeserialize = decode_bytes W (decode_DrainWorkerRequest W),
      responseSerialize = serialize W (encode_DrainWorkerResponse W), responseDeserialize = decode_bytes W (decode_DrainWorkerResponse W)\<rparr>"

definition PlacementService_removeWorker :: "('w, 'r) wire \<Rightarrow> (RemoveWorkerRequest, RemoveWorkerResponse) rpc_method" where
  "PlacementService_removeWorker W =
     \<lparr>path = ''/vectron.placementdriver.v1.PlacementService/RemoveWorker'', requestStream = False, responseStream = False,
      requestSerialize = serialize W (encode_RemoveWorkerRequest W), requestDeserialize = decode_bytes W (decode_RemoveWorkerRequest W),
      responseSerialize = serialize W (encode_RemoveWorkerResponse W), responseDeserialize = decode_bytes W (decode_RemoveWorkerResponse W)\<rparr>"

definition PlacementService_rebalance :: "('w, 'r) wire \<Rightarrow> (RebalanceRequest, RebalanceResponse) rpc_method" where
  "PlacementService_rebalance W =
     \<lparr>path = ''/vectron.placementdriver.v1.PlacementService/Rebalance'', requestStream = False, responseStream = False,
      requestSerialize = serialize W (encode_RebalanceRequest W), requestDeserialize = decode_bytes W (decode_RebalanceRequest W),
      responseSerialize = serialize W (encode_RebalanceResponse W), responseDeserialize = decode_bytes W (decode_RebalanceResponse W)\<rparr>"

definition PlacementService_createCollection :: "('w, 'r) wire \<Rightarrow> (PdCreateCollectionRequest, PdCreateCollectionResponse) rpc_method" where
  "PlacementService_createCollection W =
     \<lparr>path = ''/vectron.placementdriver.v1.PlacementService/CreateCollection'', requestStream = False, responseStream = False,
      requestSerialize = serialize W (encode_PdCreateCollectionRequest W), requestDeserialize = decode_bytes W (decode_PdCreateCollectionRequest W),
      responseSerialize = serialize W (encode_PdCreateCollectionResponse W), responseDeserialize = decode_bytes W (decode_PdCreateCollectionResponse W)\<rparr>"

definition PlacementService_listCollections :: "('w, 'r) wire \<Rightarrow> (PdListCollectionsRequest, PdListCollectionsResponse) rpc_method" where
  "PlacementService_listCollections W =
     \<lparr>path = ''/vectron.placementdriver.v1.PlacementService/ListCollections'', requestStream = False, responseStream = False,
      requestSerialize = serialize W (encode_PdListCollectionsRequest W), requestDeserialize = decode_bytes W (decode_PdListCollectionsRequest W),
      responseSerialize = serialize W (encode_PdListCollectionsResponse W), responseDeserialize = decode_bytes W (decode_PdListCollectionsResponse W)\<rparr>"

definition PlacementService_deleteCollection :: "('w, 'r) wire \<Rightarrow> (PdDeleteCollectionRequest, PdDeleteCollectionResponse) rpc_method" where
  "PlacementService_deleteCollection W =
     \<lparr>path = ''/vectron.placementdriver.v1.PlacementService/DeleteCollection'', requestStream = False, responseStream = False,
      requestSerialize = serialize W (encode_PdDeleteCollectionRequest W), requestDeserialize = decode_bytes W (decode_PdDeleteCollectionRequest W),
      responseSerialize = serialize W (encode_PdDeleteCollectionResponse W), responseDeserialize = decode_bytes W (decode_PdDeleteCollectionResponse W)\<rparr>"

definition PlacementService_getCollectionStatus :: "('w, 'r) wire \<Rightarrow> (PdGetCollectionStatusRequest, PdGetCollectionStatusResponse) rpc_method" where
  "PlacementService_getCollectionStatus W =
     \<lparr>path = ''/vectron.placementdriver.v1.PlacementService/GetCollectionStatus'', requestStream = False, responseStream = False,
      requestSerialize = serialize W (encode_PdGetCollectionStatusRequest W), requestDeserialize = decode_bytes W (decode_PdGetCollectionStatusRequest W),
      responseSerialize = serialize W (encode_PdGetCollectionStatusResponse W), responseDeserialize = decode_bytes W (decode_PdGetCollectionStatusResponse W)\<rparr>"

definition PlacementService_getLeader :: "('w, 'r) wire \<Rightarrow> (GetLeaderRequest, GetLeaderResponse) rpc_method" where
  "PlacementService_getLeader W =
     \<lparr>path = ''/vectron.placementdriver.v1.PlacementService/GetLeader'', requestStream = False, responseStream = False,
      requestSerialize = serialize W (encode_GetLeaderRequest W), requestDeserialize = decode_bytes W (decode_GetLeaderRequest W),
      responseSerialize = serialize W (encode_GetLeaderResponse W), responseDeserialize = decode_bytes W (decode_GetLeaderResponse W)\<rparr>"

section \<open>The worker\<close>

definition WorkerService_storeVector :: "('w, 'r) wire \<Rightarrow> (StoreVectorRequest, StoreVectorResponse) rpc_method" where
  "WorkerService_storeVector W =
     \<lparr>path = ''/vectron.worker.v1.WorkerService/StoreVector'', requestStream = False, responseStream = False,
      requestSerialize = serialize W (encode_StoreVectorRequest W), requestDeserialize = decode_bytes W (decode_StoreVectorRequest W),
      responseSerialize = serialize W (encode_StoreVectorResponse W), responseDeserialize = decode_bytes W (decode_StoreVectorResponse W)\<rparr>"

definition WorkerService_batchStoreVector :: "('w, 'r) wire \<Rightarrow> (BatchStoreVectorRequest, BatchStoreVectorResponse) rpc_method" where
  "WorkerService_batchStoreVector W =
     \<lparr>path = ''/vectron.worker.v1.WorkerService/BatchStoreVector'', requestStream = False, responseStream = False,
      requestSerialize = serialize W (encode_BatchStoreVectorRequest W), requestDeserialize = decode_bytes W (decode_BatchStoreVectorRequest W),
      responseSerialize = serialize W (encode_BatchStoreVectorResponse W), responseDeserialize = decode_bytes W (decode_BatchStoreVectorResponse W)\<rparr>"

definition WorkerService_streamBatchStoreVector :: "('w, 'r) wire \<Rightarrow> (BatchStoreVectorRequest, BatchStoreVectorResponse) rpc_method" where
  "WorkerService_streamBatchStoreVector W =
     \<lparr>path = ''/vectron.worker.v1.WorkerService/StreamBatchStoreVector'', requestStream = True, responseStream = False,
      requestSerialize = serialize W (encode_BatchStoreVectorRequest W), requestDeserialize = decode_bytes W (decode_BatchStoreVectorRequest W),
      responseSerialize = serialize W (encode_BatchStoreVectorResponse W), responseDeserialize = decode_bytes W (decode_BatchStoreVectorResponse W)\<rparr>"

definition WorkerService_getVector :: "('w, 'r) wire \<Rightarrow> (GetVectorRequest, GetVectorResponse) rpc_method" where
  "WorkerService_getVector W =
     \<lparr>path = ''/vectron.worker.v1.WorkerService/GetVector'', requestStream = False, responseStream = False,
      requestSerialize = serialize W (encode_GetVectorRequest W), requestDeserialize = decode_bytes W (decode_GetVectorRequest W),
      responseSerialize = serialize W (encode_GetVectorResponse W), responseDeserialize = decode_bytes W (decode_GetVectorResponse W)\<rparr>"

definition WorkerService_deleteVector :: "('w, 'r) wire \<Rightarrow> (DeleteVectorRequest, DeleteVectorResponse) rpc_method" where
  "WorkerService_deleteVector W =
     \<lparr>path = ''/vectron.worker.v1.WorkerService/DeleteVector'', requestStream = False, responseStream = False,
      requestSerialize = serialize W (encode_DeleteVectorRequest W), requestDeserialize = decode_bytes W (decode_DeleteVectorRequest W),
      responseSerialize = serialize W (encode_DeleteVectorResponse W), responseDeserialize = decode_bytes W (decode_DeleteVectorResponse W)\<rparr>"

definition WorkerService_search :: "('w, 'r) wire \<Rightarrow> (WkSearchRequest, WkSearchResponse) rpc_method" where
  "WorkerService_search W =
     \<lparr>path = ''/vectron.worker.v1.WorkerService/Search'', requestStream = False, responseStream = False,
      requestSerialize = serialize W (encode_WkSearchRequest W), requestDeserialize = decode_bytes W (decode_WkSearchRequest W),
      responseSerialize = serialize W (encode_WkSearchResponse W), responseDeserialize = decode_bytes W (decode_WkSearchResponse W)\<rparr>"

definition WorkerService_batchSearch :: "('w, 'r) wire \<Rightarrow> (BatchSearchRequest, BatchSearchResponse) rpc_method" where
  "WorkerService_batchSearch W =
     \<lparr>path = ''/vectron.worker.v1.WorkerService/BatchSearch'', requestStream = False, responseStream = False,
      requestSerialize = serialize W (encode_BatchSearchRequest W), requestDeserialize = decode_bytes W (decode_BatchSearchRequest W),
      responseSerialize = serialize W (encode_BatchSearchResponse W), responseDeserialize = decode_bytes W (decode_BatchSearchResponse W)\<rparr>"

definition WorkerService_streamHnswSnapshot :: "('w, 'r) wire \<Rightarrow> (HNSWSnapshotRequest, HNSWSnapshotChunk) rpc_method" where
  "WorkerService_streamHnswSnapshot W =
     \<lparr>path = ''/vectron.worker.v1.WorkerService/StreamHNSWSnapshot'', requestStream = False, responseStream = True,
      requestSerialize = serialize W (encode_HNSWSnapshotRequest W), requestDeserialize = decode_bytes W (decode_HNSWSnapshotRequest W),
      responseSerialize = serialize W (encode_HNSWSnapshotChunk W), responseDeserialize = decode_bytes W (decode_HNSWSnapshotChunk W)\<rparr>"

definition WorkerService_streamHnswUpdates :: "('w, 'r) wire \<Rightarrow> (HNSWUpdatesRequest, HNSWUpdateBatch) rpc_method" where
  "WorkerService_streamHnswUpdates W =
     \<lparr>path = ''/vectron.worker.v1.WorkerService/StreamHNSWUpdates'', requestStream = False, responseStream = True,
      requestSerialize = serialize W (encode_HNSWUpdatesRequest W), requestDeserialize = decode_bytes W (decode_HNSWUpdatesRequest W),
      responseSerialize = serialize W (encode_HNSWUpdateBatch W), responseDeserialize = decode_bytes W (decode_HNSWUpdateBatch W)\<rparr>"

definition WorkerService_put :: "('w, 'r) wire \<Rightarrow> (PutRequest, PutResponse) rpc_method" where
  "WorkerService_put W =
     \<lparr>path = ''/vectron.worker.v1.WorkerService/Put'', requestStream = False, responseStream = False,
      requestSerialize = serialize W (encode_PutRequest W), requestDeserialize = decode_bytes W (decode_PutRequest W),
      responseSerialize = serialize W (encode_PutResponse W), responseDeserialize = decode_bytes W (decode_PutResponse W)\<rparr>"

definition WorkerService_get :: "('w, 'r) wire \<Rightarrow> (WkGetRequest, WkGetResponse) rpc_method" where
  "WorkerService_get W =
     \<lparr>path = ''/vectron.worker.v1.WorkerService/Get'', requestStream = False, responseStream = False,
      requestSerialize = serialize W (encode_WkGetRequest W), requestDeserialize = decode_bytes W (decode_WkGetRequest W),
      responseSerialize = serialize W (encode_WkGetResponse W), responseDeserialize = decode_bytes W (decode_WkGetResponse W)\<rparr>"

definition WorkerService_delete :: "('w, 'r) wire \<Rightarrow> (WkDeleteRequest, WkDeleteResponse) rpc_method" where
  "WorkerService_delete W =
     \<lparr>path = ''/vectron.worker.v1.WorkerService/Delete'', requestStream = False, responseStream = False,
      requestSerialize = serialize W (encode_WkDeleteRequest W), requestDeserialize = decode_bytes W (decode_WkDeleteRequest W),
      responseSerialize = serialize W (encode_WkDeleteResponse W), responseDeserialize = decode_bytes W (decode_WkDeleteResponse W)\<rparr>"

definition WorkerService_status :: "('w, 'r) wire \<Rightarrow> (StatusRequest, StatusResponse) rpc_method" where
  "WorkerService_status W =
     \<lparr>path = ''/vectron.worker.v1.WorkerService/Status'', requestStream = False, responseStream = False,
      requestSerialize = serialize W (encode_StatusRequest W), requestDeserialize = decode_bytes W (decode_StatusRequest W),
      responseSerialize = serialize W (encode_StatusResponse W), responseDeserialize = decode_bytes W (decode_StatusResponse W)\<rparr>"

definition WorkerService_flush :: "('w, 'r) wire \<Rightarrow> (FlushRequest, FlushResponse) rpc_method" where
  "WorkerService_flush W =
     \<lparr>path = ''/vectron.worker.v1.WorkerService/Flush'', requestStream = False, responseStream = False,
      requestSerialize = serialize W (encode_FlushRequest W), requestDeserialize = decode_bytes W (decode_FlushRequest W),
      responseSerialize = serialize W (encode_FlushResponse W), responseDeserialize = decode_bytes W (decode_FlushResponse W)\<rparr>"


end
