(* ===== verification/Auth_Json.thy ===== *)
theory Auth_Json
  imports Auth_Messages Json
begin

text \<open>
  The JSON side of the messages of \<open>Auth_Messages\<close>: \<^verbatim>\<open>fromJSON\<close> and \<^verbatim>\<open>toJSON\<close> of each of them, and the conversions of its enums.
  \<open>json_ok_X\<close> says which messages come back unchanged: their integer fields are integers
  (\<^verbatim>\<open>toJSON\<close> rounds), their enum fields have a value of the enum (others become
  \<^verbatim>\<open>UNRECOGNIZED\<close>) and their dictionaries are in the order of \<^verbatim>\<open>Object.entries\<close>. A message
  without \<open>json_ok_X\<close> always comes back.
\<close>

section \<open>Enums\<close>

definition planFromJSON :: "js_val \<Rightarrow> js_num" where
  "planFromJSON object =
     (if object = JNum (Fin 0) \<or> object = JStr ''PLAN_UNSPECIFIED'' then Fin 0
      else if object = JNum (Fin 1) \<or> object = JStr ''FREE'' then Fin 1
      else if object = JNum (Fin 2) \<or> object = JStr ''PAID'' then Fin 2
      else Fin (- 1))"

definition planToJSON :: "js_num \<Rightarrow> string" where
  "planToJSON object =
     (if js_eq object (Fin 0) then ''PLAN_UNSPECIFIED''
      else if js_eq object (Fin 1) then ''FREE''
      else if js_eq object (Fin 2) then ''PAID''
      else ''UNRECOGNIZED'')"

definition plan_values :: "js_num set" where
  "plan_values = {Fin 0, Fin 1, Fin 2, Fin (- 1)}"

definition subscriptionStatusFromJSON :: "js_val \<Rightarrow> js_num" where
  "subscriptionStatusFromJSON object =
     (if object = JNum (Fin 0) \<or> object = JStr ''SUBSCRIPTION_STATUS_UNSPECIFIED'' then Fin 0
      else if object = JNum (Fin 1) \<or> object = JStr ''ACTIVE'' then Fin 1
      else if object = JNum (Fin 2) \<or> object = JStr ''CANCELED'' then Fin 2
      else if object = JNum (Fin 3) \<or> object = JStr ''PAST_DUE'' then Fin 3
      else Fin (- 1))"

definition subscriptionStatusToJSON :: "js_num \<Rightarrow> string" where
  "subscriptionStatusToJSON object =
     (if js_eq object (Fin 0) then ''SUBSCRIPTION_STATUS_UNSPECIFIED''
      else if js_eq object (Fin 1) then ''ACTIVE''
      else if js_eq object (Fin 2) then ''CANCELED''
      else if js_eq object (Fin 3) then ''PAST_DUE''
      else ''UNRECOGNIZED'')"

definition subscriptionStatus_values :: "js_num set" where
  "subscriptionStatus_values = {Fin 0, Fin 1, Fin 2, Fin 3, Fin (- 1)}"

section \<open>\<^verbatim>\<open>fromJSON\<close> and \<^verbatim>\<open>toJSON\<close>\<close>

definition fromJSON_UserProfile :: "text_conv \<Rightarrow> js_val \<Rightarrow> thrown + UserProfile" where
  "fromJSON_UserProfile K object =
     with_object object (\<lambda>object.
       Inr \<lparr>UserProfile_id = json_string K [] (js_get object ''id''),
          UserProfile_email = json_string K [] (js_get object ''email''),
          UserProfile_createdAt = json_string K ''0'' (js_get object ''createdAt''),
          UserProfile_plan = json_enum planFromJSON (js_get object ''plan''),
          UserProfile_subscriptionStatus = json_enum subscriptionStatusFromJSON (js_get object ''subscriptionStatus'')\<rparr>)"

definition toJSON_UserProfile :: "UserProfile \<Rightarrow> js_val" where
  "toJSON_UserProfile m =
     json_obj
      [(UserProfile_id m \<noteq> [], ''id'', JStr (UserProfile_id m)),
       (UserProfile_email m \<noteq> [], ''email'', JStr (UserProfile_email m)),
       (UserProfile_createdAt m \<noteq> ''0'', ''createdAt'', JStr (UserProfile_createdAt m)),
       (\<not> js_eq (UserProfile_plan m) (Fin 0), ''plan'', JStr (planToJSON (UserProfile_plan m))),
       (\<not> js_eq (UserProfile_subscriptionStatus m) (Fin 0), ''subscriptionStatus'', JStr (subscriptionStatusToJSON (UserProfile_subscriptionStatus m)))]"

definition fromJSON_APIKey :: "text_conv \<Rightarrow> js_val \<Rightarrow> thrown + APIKey" where
  "fromJSON_APIKey K object =
     with_object object (\<lambda>object.
       Inr \<lparr>APIKey_keyPrefix = json_string K [] (js_get object ''keyPrefix''),
          APIKey_userId = json_string K [] (js_get object ''userId''),
          APIKey_createdAt = json_string K ''0'' (js_get object ''createdAt''),
          APIKey_name = json_string K [] (js_get object ''name'')\<rparr>)"

definition toJSON_APIKey :: "APIKey \<Rightarrow> js_val" where
  "toJSON_APIKey m =
     json_obj
      [(APIKey_keyPrefix m \<noteq> [], ''keyPrefix'', JStr (APIKey_keyPrefix m)),
       (APIKey_userId m \<noteq> [], ''userId'', JStr (APIKey_userId m)),
       (APIKey_createdAt m \<noteq> ''0'', ''createdAt'', JStr (APIKey_createdAt m)),
       (APIKey_name m \<noteq> [], ''name'', JStr (APIKey_name m))]"

definition fromJSON_RegisterUserRequest :: "text_conv \<Rightarrow> js_val \<Rightarrow> thrown + RegisterUserRequest" where
  "fromJSON_RegisterUserRequest K object =
     with_object object (\<lambda>object.
       Inr \<lparr>RegisterUserRequest_email = json_string K [] (js_get object ''email''),
          RegisterUserRequest_password = json_string K [] (js_get object ''password'')\<rparr>)"

definition toJSON_RegisterUserRequest :: "RegisterUserRequest \<Rightarrow> js_val" where
  "toJSON_RegisterUserRequest m =
     json_obj
      [(RegisterUserRequest_email m \<noteq> [], ''email'', JStr (RegisterUserRequest_email m)),
       (RegisterUserRequest_password m \<noteq> [], ''password'', JStr (RegisterUserRequest_password m))]"

definition fromJSON_RegisterUserResponse :: "text_conv \<Rightarrow> js_val \<Rightarrow> thrown + RegisterUserResponse" where
  "fromJSON_RegisterUserResponse K object =
     with_object object (\<lambda>object.
       res_bind (json_sub (fromJSON_UserProfile K) (js_get object ''user'')) (\<lambda>user'.
       Inr \<lparr>RegisterUserResponse_user = user'\<rparr>))"

definition toJSON_RegisterUserResponse :: "RegisterUserResponse \<Rightarrow> js_val" where
  "toJSON_RegisterUserResponse m =
     json_obj
      [(RegisterUserResponse_user m \<noteq> None, ''user'', (case RegisterUserResponse_user m of None \<Rightarrow> JUndefined | Some v \<Rightarrow> toJSON_UserProfile v))]"

definition fromJSON_LoginRequest :: "text_conv \<Rightarrow> js_val \<Rightarrow> thrown + LoginRequest" where
  "fromJSON_LoginRequest K object =
     with_object object (\<lambda>object.
       Inr \<lparr>LoginRequest_email = json_string K [] (js_get object ''email''),
          LoginRequest_password = json_string K [] (js_get object ''password'')\<rparr>)"

definition toJSON_LoginRequest :: "LoginRequest \<Rightarrow> js_val" where
  "toJSON_LoginRequest m =
     json_obj
      [(LoginRequest_email m \<noteq> [], ''email'', JStr (LoginRequest_email m)),
       (LoginRequest_password m \<noteq> [], ''password'', JStr (LoginRequest_password m))]"

definition fromJSON_LoginResponse :: "text_conv \<Rightarrow> js_val \<Rightarrow> thrown + LoginResponse" where
  "fromJSON_LoginResponse K object =
     with_object object (\<lambda>object.
       res_bind (json_sub (fromJSON_UserProfile K) (js_get object ''user'')) (\<lambda>user'.
       Inr \<lparr>LoginResponse_jwtToken = json_string K [] (js_get object ''jwtToken''),
          LoginResponse_user = user'\<rparr>))"

definition toJSON_LoginResponse :: "LoginResponse \<Rightarrow> js_val" where
  "toJSON_LoginResponse m =
     json_obj
      [(LoginResponse_jwtToken m \<noteq> [], ''jwtToken'', JStr (LoginResponse_jwtToken m)),
       (LoginResponse_user m \<noteq> None, ''user'', (case LoginResponse_user m of None \<Rightarrow> JUndefined | Some v \<Rightarrow> toJSON_UserProfile v))]"

definition fromJSON_GetUserProfileRequest :: "text_conv \<Rightarrow> js_val \<Rightarrow> thrown + GetUserProfileRequest" where
  "fromJSON_GetUserProfileRequest K object = Inr GetUserProfileRequest"

definition toJSON_GetUserProfileRequest :: "GetUserProfileRequest \<Rightarrow> js_val" where
  "toJSON_GetUserProfileRequest m = json_obj []"

definition fromJSON_GetUserProfileResponse :: "text_conv \<Rightarrow> js_val \<Rightarrow> thrown + GetUserProfileResponse" where
  "fromJSON_GetUserProfileResponse K object =
     with_object object (\<lambda>object.
       res_bind (json_sub (fromJSON_UserProfile K) (js_get object ''user'')) (\<lambda>user'.
       Inr \<lparr>GetUserProfileResponse_user = user'\<rparr>))"

definition toJSON_GetUserProfileResponse :: "GetUserProfileResponse \<Rightarrow> js_val" where
  "toJSON_GetUserProfileResponse m =
     json_obj
      [(GetUserProfileResponse_user m \<noteq> None, ''user'', (case GetUserProfileResponse_user m of None \<Rightarrow> JUndefined | Some v \<Rightarrow> toJSON_UserProfile v))]"

definition fromJSON_AuthUpdateUserProfileRequest :: "text_conv \<Rightarrow> js_val \<Rightarrow> thrown + AuthUpdateUserProfileRequest" where
  "fromJSON_AuthUpdateUserProfileRequest K object =
     with_object object (\<lambda>object.
       Inr \<lparr>AuthUpdateUserProfileRequest_plan = json_enum planFromJSON (js_get object ''plan'')\<rparr>)"

definition toJSON_AuthUpdateUserProfileRequest :: "AuthUpdateUserProfileRequest \<Rightarrow> js_val" where
  "toJSON_AuthUpdateUserProfileRequest m =
     json_obj
      [(\<not> js_eq (AuthUpdateUserProfileRequest_plan m) (Fin 0), ''plan'', JStr (planToJSON (AuthUpdateUserProfileRequest_plan m)))]"

definition fromJSON_AuthUpdateUserProfileResponse :: "text_conv \<Rightarrow> js_val \<Rightarrow> thrown + AuthUpdateUserProfileResponse" where
  "fromJSON_AuthUpdateUserProfileResponse K object =
     with_object object (\<lambda>object.
       res_bind (json_sub (fromJSON_UserProfile K) (js_get object ''user'')) (\<lambda>user'.
       Inr \<lparr>AuthUpdateUserProfileResponse_user = user',
          AuthUpdateUserProfileResponse_jwtToken = json_string K [] (js_get object ''jwtToken'')\<rparr>))"

definition toJSON_AuthUpdateUserProfileResponse :: "AuthUpdateUserProfileResponse \<Rightarrow> js_val" where
  "toJSON_AuthUpdateUserProfileResponse m =
     json_obj
      [(AuthUpdateUserProfileResponse_user m \<noteq> None, ''user'', (case AuthUpdateUserProfileResponse_user m of None \<Rightarrow> JUndefined | Some v \<Rightarrow> toJSON_UserProfile v)),
       (AuthUpdateUserProfileResponse_jwtToken m \<noteq> [], ''jwtToken'', JStr (AuthUpdateUserProfileResponse_jwtToken m))]"

definition fromJSON_CreateAPIKeyRequest :: "text_conv \<Rightarrow> js_val \<Rightarrow> thrown + CreateAPIKeyRequest" where
  "fromJSON_CreateAPIKeyRequest K object =
     with_object object (\<lambda>object.
       Inr \<lparr>CreateAPIKeyRequest_name = json_string K [] (js_get object ''name'')\<rparr>)"

definition toJSON_CreateAPIKeyRequest :: "CreateAPIKeyRequest \<Rightarrow> js_val" where
  "toJSON_CreateAPIKeyRequest m =
     json_obj
      [(CreateAPIKeyRequest_name m \<noteq> [], ''name'', JStr (CreateAPIKeyRequest_name m))]"

definition fromJSON_CreateAPIKeyResponse :: "text_conv \<Rightarrow> js_val \<Rightarrow> thrown + CreateAPIKeyResponse" where
  "fromJSON_CreateAPIKeyResponse K object =
     with_object object (\<lambda>object.
       res_bind (json_sub (fromJSON_APIKey K) (js_get object ''keyInfo'')) (\<lambda>keyInfo'.
       Inr \<lparr>CreateAPIKeyResponse_fullKey = json_string K [] (js_get object ''fullKey''),
          CreateAPIKeyResponse_keyInfo = keyInfo'\<rparr>))"

definition toJSON_CreateAPIKeyResponse :: "CreateAPIKeyResponse \<Rightarrow> js_val" where
  "toJSON_CreateAPIKeyResponse m =
     json_obj
      [(CreateAPIKeyResponse_fullKey m \<noteq> [], ''fullKey'', JStr (CreateAPIKeyResponse_fullKey m)),
       (CreateAPIKeyResponse_keyInfo m \<noteq> None, ''keyInfo'', (case CreateAPIKeyResponse_keyInfo m of None \<Rightarrow> JUndefined | Some v \<Rightarrow> toJSON_APIKey v))]"

definition fromJSON_ListAPIKeysRequest :: "text_conv \<Rightarrow> js_val \<Rightarrow> thrown + ListAPIKeysRequest" where
  "fromJSON_ListAPIKeysRequest K object = Inr ListAPIKeysRequest"

definition toJSON_ListAPIKeysRequest :: "ListAPIKeysRequest \<Rightarrow> js_val" where
  "toJSON_ListAPIKeysRequest m = json_obj []"

definition fromJSON_ListAPIKeysResponse :: "text_conv \<Rightarrow> js_val \<Rightarrow> thrown + ListAPIKeysResponse" where
  "fromJSON_ListAPIKeysResponse K object =
     res_bind (json_subs (fromJSON_APIKey K) (js_get object ''keys'')) (\<lambda>keys'.
       Inr \<lparr>ListAPIKeysResponse_keys = keys'\<rparr>)"

definition toJSON_ListAPIKeysResponse :: "ListAPIKeysResponse \<Rightarrow> js_val" where
  "toJSON_ListAPIKeysResponse m =
     json_obj
      [(ListAPIKeysResponse_keys m \<noteq> [], ''keys'', JArr (map toJSON_APIKey (ListAPIKeysResponse_keys m)))]"

definition fromJSON_DeleteAPIKeyRequest :: "text_conv \<Rightarrow> js_val \<Rightarrow> thrown + DeleteAPIKeyRequest" where
  "fromJSON_DeleteAPIKeyRequest K object =
     with_object object (\<lambda>object.
       Inr \<lparr>DeleteAPIKeyRequest_keyPrefix = json_string K [] (js_get object ''keyPrefix'')\<rparr>)"

definition toJSON_DeleteAPIKeyRequest :: "DeleteAPIKeyRequest \<Rightarrow> js_val" where
  "toJSON_DeleteAPIKeyRequest m =
     json_obj
      [(DeleteAPIKeyRequest_keyPrefix m \<noteq> [], ''keyPrefix'', JStr (DeleteAPIKeyRequest_keyPrefix m))]"

definition fromJSON_DeleteAPIKeyResponse :: "text_conv \<Rightarrow> js_val \<Rightarrow> thrown + DeleteAPIKeyResponse" where
  "fromJSON_DeleteAPIKeyResponse K object =
     with_object object (\<lambda>object.
       Inr \<lparr>DeleteAPIKeyResponse_success = json_boolean (js_get object ''success'')\<rparr>)"

definition toJSON_DeleteAPIKeyResponse :: "DeleteAPIKeyResponse \<Rightarrow> js_val" where
  "toJSON_DeleteAPIKeyResponse m =
     json_obj
      [(DeleteAPIKeyResponse_success m, ''success'', JBool (DeleteAPIKeyResponse_success m))]"

definition fromJSON_ValidateAPIKeyRequest :: "text_conv \<Rightarrow> js_val \<Rightarrow> thrown + ValidateAPIKeyRequest" where
  "fromJSON_ValidateAPIKeyRequest K object =
     with_object object (\<lambda>object.
       Inr \<lparr>ValidateAPIKeyRequest_fullKey = json_string K [] (js_get object ''fullKey'')\<rparr>)"

definition toJSON_ValidateAPIKeyRequest :: "ValidateAPIKeyRequest \<Rightarrow> js_val" where
  "toJSON_ValidateAPIKeyRequest m =
     json_obj
      [(ValidateAPIKeyRequest_fullKey m \<noteq> [], ''fullKey'', JStr (ValidateAPIKeyRequest_fullKey m))]"

definition fromJSON_ValidateAPIKeyResponse :: "text_conv \<Rightarrow> js_val \<Rightarrow> thrown + ValidateAPIKeyResponse" where
  "fromJSON_ValidateAPIKeyResponse K object =
     with_object object (\<lambda>object.
       Inr \<lparr>ValidateAPIKeyResponse_valid = json_boolean (js_get object ''valid''),
          ValidateAPIKeyResponse_userId = json_string K [] (js_get object ''userId''),
          ValidateAPIKeyResponse_plan = json_string K [] (js_get object ''plan''),
          ValidateAPIKeyResponse_apiKeyId = json_string K [] (js_get object ''apiKeyId'')\<rparr>)"

definition toJSON_ValidateAPIKeyResponse :: "ValidateAPIKeyResponse \<Rightarrow> js_val" where
  "toJSON_ValidateAPIKeyResponse m =
     json_obj
      [(ValidateAPIKeyResponse_valid m, ''valid'', JBool (ValidateAPIKeyResponse_valid m)),
       (ValidateAPIKeyResponse_userId m \<noteq> [], ''userId'', JStr (ValidateAPIKeyResponse_userId m)),
       (ValidateAPIKeyResponse_plan m \<noteq> [], ''plan'', JStr (ValidateAPIKeyResponse_plan m)),
       (ValidateAPIKeyResponse_apiKeyId m \<noteq> [], ''apiKeyId'', JStr (ValidateAPIKeyResponse_apiKeyId m))]"

definition fromJSON_CreateSDKJWTRequest :: "text_conv \<Rightarrow> js_val \<Rightarrow> thrown + CreateSDKJWTRequest" where
  "fromJSON_CreateSDKJWTRequest K object =
     with_object object (\<lambda>object.
       Inr \<lparr>CreateSDKJWTRequest_apiKeyId = json_string K [] (js_get object ''apiKeyId'')\<rparr>)"

definition toJSON_CreateSDKJWTRequest :: "CreateSDKJWTRequest \<Rightarrow> js_val" where
  "toJSON_CreateSDKJWTRequest m =
     json_obj
      [(CreateSDKJWTRequest_apiKeyId m \<noteq> [], ''apiKeyId'', JStr (CreateSDKJWTRequest_apiKeyId m))]"

definition fromJSON_CreateSDKJWTResponse :: "text_conv \<Rightarrow> js_val \<Rightarrow> thrown + CreateSDKJWTResponse" where
  "fromJSON_CreateSDKJWTResponse K object =
     with_object object (\<lambda>object.
       Inr \<lparr>CreateSDKJWTResponse_sdkJwt = json_string K [] (js_get object ''sdkJwt'')\<rparr>)"

definition toJSON_CreateSDKJWTResponse :: "CreateSDKJWTResponse \<Rightarrow> js_val" where
  "toJSON_CreateSDKJWTResponse m =
     json_obj
      [(CreateSDKJWTResponse_sdkJwt m \<noteq> [], ''sdkJwt'', JStr (CreateSDKJWTResponse_sdkJwt m))]"

definition fromJSON_GetAuthDetailsForSDKRequest :: "text_conv \<Rightarrow> js_val \<Rightarrow> thrown + GetAuthDetailsForSDKRequest" where
  "fromJSON_GetAuthDetailsForSDKRequest K object =
     with_object object (\<lambda>object.
       Inr \<lparr>GetAuthDetailsForSDKRequest_apiKeyId = json_string K [] (js_get object ''apiKeyId'')\<rparr>)"

definition toJSON_GetAuthDetailsForSDKRequest :: "GetAuthDetailsForSDKRequest \<Rightarrow> js_val" where
  "toJSON_GetAuthDetailsForSDKRequest m =
     json_obj
      [(GetAuthDetailsForSDKRequest_apiKeyId m \<noteq> [], ''apiKeyId'', JStr (GetAuthDetailsForSDKRequest_apiKeyId m))]"

definition fromJSON_GetAuthDetailsForSDKResponse :: "text_conv \<Rightarrow> js_val \<Rightarrow> thrown + GetAuthDetailsForSDKResponse" where
  "fromJSON_GetAuthDetailsForSDKResponse K object =
     with_object object (\<lambda>object.
       Inr \<lparr>GetAuthDetailsForSDKResponse_userId = json_string K [] (js_get object ''userId''),
          GetAuthDetailsForSDKResponse_plan = json_enum planFromJSON (js_get object ''plan''),
          GetAuthDetailsForSDKResponse_success = json_boolean (js_get object ''success'')\<rparr>)"

definition toJSON_GetAuthDetailsForSDKResponse :: "GetAuthDetailsForSDKResponse \<Rightarrow> js_val" where
  "toJSON_GetAuthDetailsForSDKResponse m =
     json_obj
      [(GetAuthDetailsForSDKResponse_userId m \<noteq> [], ''userId'', JStr (GetAuthDetailsForSDKResponse_userId m)),
       (\<not> js_eq (GetAuthDetailsForSDKResponse_plan m) (Fin 0), ''plan'', JStr (planToJSON (GetAuthDetailsForSDKResponse_plan m))),
       (GetAuthDetailsForSDKResponse_success m, ''success'', JBool (GetAuthDetailsForSDKResponse_success m))]"

definition fromJSON_DeleteUserRequest :: "text_conv \<Rightarrow> js_val \<Rightarrow> thrown + DeleteUserRequest" where
  "fromJSON_DeleteUserRequest K object =
     with_object object (\<lambda>object.
       Inr \<lparr>DeleteUserRequest_password = json_string K [] (js_get object ''password'')\<rparr>)"

definition toJSON_DeleteUserRequest :: "DeleteUserRequest \<Rightarrow> js_val" where
  "toJSON_DeleteUserRequest m =
     json_obj
      [(DeleteUserRequest_password m \<noteq> [], ''password'', JStr (DeleteUserRequest_password m))]"

definition fromJSON_DeleteUserResponse :: "text_conv \<Rightarrow> js_val \<Rightarrow> thrown + DeleteUserResponse" where
  "fromJSON_DeleteUserResponse K object =
     with_object object (\<lambda>object.
       Inr \<lparr>DeleteUserResponse_success = json_boolean (js_get object ''success'')\<rparr>)"

definition toJSON_DeleteUserResponse :: "DeleteUserResponse \<Rightarrow> js_val" where
  "toJSON_DeleteUserResponse m =
     json_obj
      [(DeleteUserResponse_success m, ''success'', JBool (DeleteUserResponse_success m))]"

definition fromJSON_RefreshTokenRequest :: "text_conv \<Rightarrow> js_val \<Rightarrow> thrown + RefreshTokenRequest" where
  "fromJSON_RefreshTokenRequest K object = Inr RefreshTokenRequest"

definition toJSON_RefreshTokenRequest :: "RefreshTokenRequest \<Rightarrow> js_val" where
  "toJSON_RefreshTokenRequest m = json_obj []"

definition fromJSON_RefreshTokenResponse :: "text_conv \<Rightarrow> js_val \<Rightarrow> thrown + RefreshTokenResponse" where
  "fromJSON_RefreshTokenResponse K object =
     with_object object (\<lambda>object.
       Inr \<lparr>RefreshTokenResponse_jwtToken = json_string K [] (js_get object ''jwtToken''),
          RefreshTokenResponse_expiresAt = json_string K ''0'' (js_get object ''expiresAt'')\<rparr>)"

definition toJSON_RefreshTokenResponse :: "RefreshTokenResponse \<Rightarrow> js_val" where
  "toJSON_RefreshTokenResponse m =
     json_obj
      [(RefreshTokenResponse_jwtToken m \<noteq> [], ''jwtToken'', JStr (RefreshTokenResponse_jwtToken m)),
       (RefreshTokenResponse_expiresAt m \<noteq> ''0'', ''expiresAt'', JStr (RefreshTokenResponse_expiresAt m))]"

section \<open>What \<^verbatim>\<open>toJSON\<close> writes, \<^verbatim>\<open>fromJSON\<close> reads\<close>

lemma plan_back: "n \<in> plan_values \<Longrightarrow> json_enum planFromJSON (given (\<not> js_eq n (Fin 0)) (JStr (planToJSON n))) = n"
  by (auto simp: plan_values_def planFromJSON_def planToJSON_def json_enum_def given_def isSet_def js_eq_def)

lemma subscriptionStatus_back: "n \<in> subscriptionStatus_values \<Longrightarrow> json_enum subscriptionStatusFromJSON (given (\<not> js_eq n (Fin 0)) (JStr (subscriptionStatusToJSON n))) = n"
  by (auto simp: subscriptionStatus_values_def subscriptionStatusFromJSON_def subscriptionStatusToJSON_def json_enum_def given_def isSet_def js_eq_def)

lemma isSet_toJSON_UserProfile: "isSet (toJSON_UserProfile m)"
  by (simp add: toJSON_UserProfile_def isSet_json_obj)

lemma isSet_toJSON_APIKey: "isSet (toJSON_APIKey m)"
  by (simp add: toJSON_APIKey_def isSet_json_obj)

lemma isSet_toJSON_RegisterUserRequest: "isSet (toJSON_RegisterUserRequest m)"
  by (simp add: toJSON_RegisterUserRequest_def isSet_json_obj)

lemma isSet_toJSON_RegisterUserResponse: "isSet (toJSON_RegisterUserResponse m)"
  by (simp add: toJSON_RegisterUserResponse_def isSet_json_obj)

lemma isSet_toJSON_LoginRequest: "isSet (toJSON_LoginRequest m)"
  by (simp add: toJSON_LoginRequest_def isSet_json_obj)

lemma isSet_toJSON_LoginResponse: "isSet (toJSON_LoginResponse m)"
  by (simp add: toJSON_LoginResponse_def isSet_json_obj)

lemma isSet_toJSON_GetUserProfileResponse: "isSet (toJSON_GetUserProfileResponse m)"
  by (simp add: toJSON_GetUserProfileResponse_def isSet_json_obj)

lemma isSet_toJSON_AuthUpdateUserProfileRequest: "isSet (toJSON_AuthUpdateUserProfileRequest m)"
  by (simp add: toJSON_AuthUpdateUserProfileRequest_def isSet_json_obj)

lemma isSet_toJSON_AuthUpdateUserProfileResponse: "isSet (toJSON_AuthUpdateUserProfileResponse m)"
  by (simp add: toJSON_AuthUpdateUserProfileResponse_def isSet_json_obj)

lemma isSet_toJSON_CreateAPIKeyRequest: "isSet (toJSON_CreateAPIKeyRequest m)"
  by (simp add: toJSON_CreateAPIKeyRequest_def isSet_json_obj)

lemma isSet_toJSON_CreateAPIKeyResponse: "isSet (toJSON_CreateAPIKeyResponse m)"
  by (simp add: toJSON_CreateAPIKeyResponse_def isSet_json_obj)

lemma isSet_toJSON_ListAPIKeysResponse: "isSet (toJSON_ListAPIKeysResponse m)"
  by (simp add: toJSON_ListAPIKeysResponse_def isSet_json_obj)

lemma isSet_toJSON_DeleteAPIKeyRequest: "isSet (toJSON_DeleteAPIKeyRequest m)"
  by (simp add: toJSON_DeleteAPIKeyRequest_def isSet_json_obj)

lemma isSet_toJSON_DeleteAPIKeyResponse: "isSet (toJSON_DeleteAPIKeyResponse m)"
  by (simp add: toJSON_DeleteAPIKeyResponse_def isSet_json_obj)

lemma isSet_toJSON_ValidateAPIKeyRequest: "isSet (toJSON_ValidateAPIKeyRequest m)"
  by (simp add: toJSON_ValidateAPIKeyRequest_def isSet_json_obj)

lemma isSet_toJSON_ValidateAPIKeyResponse: "isSet (toJSON_ValidateAPIKeyResponse m)"
  by (simp add: toJSON_ValidateAPIKeyResponse_def isSet_json_obj)

lemma isSet_toJSON_CreateSDKJWTRequest: "isSet (toJSON_CreateSDKJWTRequest m)"
  by (simp add: toJSON_CreateSDKJWTRequest_def isSet_json_obj)

lemma isSet_toJSON_CreateSDKJWTResponse: "isSet (toJSON_CreateSDKJWTResponse m)"
  by (simp add: toJSON_CreateSDKJWTResponse_def isSet_json_obj)

lemma isSet_toJSON_GetAuthDetailsForSDKRequest: "isSet (toJSON_GetAuthDetailsForSDKRequest m)"
  by (simp add: toJSON_GetAuthDetailsForSDKRequest_def isSet_json_obj)

lemma isSet_toJSON_GetAuthDetailsForSDKResponse: "isSet (toJSON_GetAuthDetailsForSDKResponse m)"
  by (simp add: toJSON_GetAuthDetailsForSDKResponse_def isSet_json_obj)

lemma isSet_toJSON_DeleteUserRequest: "isSet (toJSON_DeleteUserRequest m)"
  by (simp add: toJSON_DeleteUserRequest_def isSet_json_obj)

lemma isSet_toJSON_DeleteUserResponse: "isSet (toJSON_DeleteUserResponse m)"
  by (simp add: toJSON_DeleteUserResponse_def isSet_json_obj)

lemma isSet_toJSON_RefreshTokenResponse: "isSet (toJSON_RefreshTokenResponse m)"
  by (simp add: toJSON_RefreshTokenResponse_def isSet_json_obj)

definition json_ok_UserProfile :: "UserProfile \<Rightarrow> bool" where
  "json_ok_UserProfile m \<longleftrightarrow> UserProfile_plan m \<in> plan_values \<and> UserProfile_subscriptionStatus m \<in> subscriptionStatus_values"

lemma json_UserProfile:
  assumes "json_ok_UserProfile m"
  shows "fromJSON_UserProfile K (toJSON_UserProfile m) = Inr m"
  using assms
  by (cases m) (simp add: fromJSON_UserProfile_def toJSON_UserProfile_def json_back json_ok_UserProfile_def plan_back subscriptionStatus_back)

lemma json_APIKey:
  "fromJSON_APIKey K (toJSON_APIKey m) = Inr m"
  by (cases m) (simp add: fromJSON_APIKey_def toJSON_APIKey_def json_back)

lemma json_RegisterUserRequest:
  "fromJSON_RegisterUserRequest K (toJSON_RegisterUserRequest m) = Inr m"
  by (cases m) (simp add: fromJSON_RegisterUserRequest_def toJSON_RegisterUserRequest_def json_back)

definition json_ok_RegisterUserResponse :: "RegisterUserResponse \<Rightarrow> bool" where
  "json_ok_RegisterUserResponse m \<longleftrightarrow> (\<forall>v \<in> set_option (RegisterUserResponse_user m). json_ok_UserProfile v)"

lemma json_RegisterUserResponse:
  assumes "json_ok_RegisterUserResponse m"
  shows "fromJSON_RegisterUserResponse K (toJSON_RegisterUserResponse m) = Inr m"
  using assms
  by (cases m) (simp add: fromJSON_RegisterUserResponse_def toJSON_RegisterUserResponse_def json_back json_ok_RegisterUserResponse_def json_UserProfile isSet_toJSON_UserProfile)

lemma json_LoginRequest:
  "fromJSON_LoginRequest K (toJSON_LoginRequest m) = Inr m"
  by (cases m) (simp add: fromJSON_LoginRequest_def toJSON_LoginRequest_def json_back)

definition json_ok_LoginResponse :: "LoginResponse \<Rightarrow> bool" where
  "json_ok_LoginResponse m \<longleftrightarrow> (\<forall>v \<in> set_option (LoginResponse_user m). json_ok_UserProfile v)"

lemma json_LoginResponse:
  assumes "json_ok_LoginResponse m"
  shows "fromJSON_LoginResponse K (toJSON_LoginResponse m) = Inr m"
  using assms
  by (cases m) (simp add: fromJSON_LoginResponse_def toJSON_LoginResponse_def json_back json_ok_LoginResponse_def json_UserProfile isSet_toJSON_UserProfile)

lemma json_GetUserProfileRequest: "fromJSON_GetUserProfileRequest K (toJSON_GetUserProfileRequest m) = Inr m"
  by (cases m) (simp add: fromJSON_GetUserProfileRequest_def)

definition json_ok_GetUserProfileResponse :: "GetUserProfileResponse \<Rightarrow> bool" where
  "json_ok_GetUserProfileResponse m \<longleftrightarrow> (\<forall>v \<in> set_option (GetUserProfileResponse_user m). json_ok_UserProfile v)"

lemma json_GetUserProfileResponse:
  assumes "json_ok_GetUserProfileResponse m"
  shows "fromJSON_GetUserProfileResponse K (toJSON_GetUserProfileResponse m) = Inr m"
  using assms
  by (cases m) (simp add: fromJSON_GetUserProfileResponse_def toJSON_GetUserProfileResponse_def json_back json_ok_GetUserProfileResponse_def json_UserProfile isSet_toJSON_UserProfile)

definition json_ok_AuthUpdateUserProfileRequest :: "AuthUpdateUserProfileRequest \<Rightarrow> bool" where
  "json_ok_AuthUpdateUserProfileRequest m \<longleftrightarrow> AuthUpdateUserProfileRequest_plan m \<in> plan_values"

lemma json_AuthUpdateUserProfileRequest:
  assumes "json_ok_AuthUpdateUserProfileRequest m"
  shows "fromJSON_AuthUpdateUserProfileRequest K (toJSON_AuthUpdateUserProfileRequest m) = Inr m"
  using assms
  by (cases m) (simp add: fromJSON_AuthUpdateUserProfileRequest_def toJSON_AuthUpdateUserProfileRequest_def json_back json_ok_AuthUpdateUserProfileRequest_def plan_back)

definition json_ok_AuthUpdateUserProfileResponse :: "AuthUpdateUserProfileResponse \<Rightarrow> bool" where
  "json_ok_AuthUpdateUserProfileResponse m \<longleftrightarrow> (\<forall>v \<in> set_option (AuthUpdateUserProfileResponse_user m). json_ok_UserProfile v)"

lemma json_AuthUpdateUserProfileResponse:
  assumes "json_ok_AuthUpdateUserProfileResponse m"
  shows "fromJSON_AuthUpdateUserProfileResponse K (toJSON_AuthUpdateUserProfileResponse m) = Inr m"
  using assms
  by (cases m) (simp add: fromJSON_AuthUpdateUserProfileResponse_def toJSON_AuthUpdateUserProfileResponse_def json_back json_ok_AuthUpdateUserProfileResponse_def json_UserProfile isSet_toJSON_UserProfile)

lemma json_CreateAPIKeyRequest:
  "fromJSON_CreateAPIKeyRequest K (toJSON_CreateAPIKeyRequest m) = Inr m"
  by (cases m) (simp add: fromJSON_CreateAPIKeyRequest_def toJSON_CreateAPIKeyRequest_def json_back)

lemma json_CreateAPIKeyResponse:
  "fromJSON_CreateAPIKeyResponse K (toJSON_CreateAPIKeyResponse m) = Inr m"
  by (cases m) (simp add: fromJSON_CreateAPIKeyResponse_def toJSON_CreateAPIKeyResponse_def json_back json_APIKey isSet_toJSON_APIKey)

lemma json_ListAPIKeysRequest: "fromJSON_ListAPIKeysRequest K (toJSON_ListAPIKeysRequest m) = Inr m"
  by (cases m) (simp add: fromJSON_ListAPIKeysRequest_def)

lemma json_ListAPIKeysResponse:
  "fromJSON_ListAPIKeysResponse K (toJSON_ListAPIKeysResponse m) = Inr m"
  by (cases m) (simp add: fromJSON_ListAPIKeysResponse_def toJSON_ListAPIKeysResponse_def json_back json_APIKey isSet_toJSON_APIKey)

lemma json_DeleteAPIKeyRequest:
  "fromJSON_DeleteAPIKeyRequest K (toJSON_DeleteAPIKeyRequest m) = Inr m"
  by (cases m) (simp add: fromJSON_DeleteAPIKeyRequest_def toJSON_DeleteAPIKeyRequest_def json_back)

lemma json_DeleteAPIKeyResponse:
  "fromJSON_DeleteAPIKeyResponse K (toJSON_DeleteAPIKeyResponse m) = Inr m"
  by (cases m) (simp add: fromJSON_DeleteAPIKeyResponse_def toJSON_DeleteAPIKeyResponse_def json_back)

lemma json_ValidateAPIKeyRequest:
  "fromJSON_ValidateAPIKeyRequest K (toJSON_ValidateAPIKeyRequest m) = Inr m"
  by (cases m) (simp add: fromJSON_ValidateAPIKeyRequest_def toJSON_ValidateAPIKeyRequest_def json_back)

lemma json_ValidateAPIKeyResponse:
  "fromJSON_ValidateAPIKeyResponse K (toJSON_ValidateAPIKeyResponse m) = Inr m"
  by (cases m) (simp add: fromJSON_ValidateAPIKeyResponse_def toJSON_ValidateAPIKeyResponse_def json_back)

lemma json_CreateSDKJWTRequest:
  "fromJSON_CreateSDKJWTRequest K (toJSON_CreateSDKJWTRequest m) = Inr m"
  by (cases m) (simp add: fromJSON_CreateSDKJWTRequest_def toJSON_CreateSDKJWTRequest_def json_back)

lemma json_CreateSDKJWTResponse:
  "fromJSON_CreateSDKJWTResponse K (toJSON_CreateSDKJWTResponse m) = Inr m"
  by (cases m) (simp add: fromJSON_CreateSDKJWTResponse_def toJSON_CreateSDKJWTResponse_def json_back)

lemma json_GetAuthDetailsForSDKRequest:
  "fromJSON_GetAuthDetailsForSDKRequest K (toJSON_GetAuthDetailsForSDKRequest m) = Inr m"
  by (cases m) (simp add: fromJSON_GetAuthDetailsForSDKRequest_def toJSON_GetAuthDetailsForSDKRequest_def json_back)

definition json_ok_GetAuthDetailsForSDKResponse :: "GetAuthDetailsForSDKResponse \<Rightarrow> bool" where
  "json_ok_GetAuthDetailsForSDKResponse m \<longleftrightarrow> GetAuthDetailsForSDKResponse_plan m \<in> plan_values"

lemma json_GetAuthDetailsForSDKResponse:
  assumes "json_ok_GetAuthDetailsForSDKResponse m"
  shows "fromJSON_GetAuthDetailsForSDKResponse K (toJSON_GetAuthDetailsForSDKResponse m) = Inr m"
  using assms
  by (cases m) (simp add: fromJSON_GetAuthDetailsForSDKResponse_def toJSON_GetAuthDetailsForSDKResponse_def json_back json_ok_GetAuthDetailsForSDKResponse_def plan_back)

lemma json_DeleteUserRequest:
  "fromJSON_DeleteUserRequest K (toJSON_DeleteUserRequest m) = Inr m"
  by (cases m) (simp add: fromJSON_DeleteUserRequest_def toJSON_DeleteUserRequest_def json_back)

lemma json_DeleteUserResponse:
  "fromJSON_DeleteUserResponse K (toJSON_DeleteUserResponse m) = Inr m"
  by (cases m) (simp add: fromJSON_DeleteUserResponse_def toJSON_DeleteUserResponse_def json_back)

lemma json_RefreshTokenRequest: "fromJSON_RefreshTokenRequest K (toJSON_RefreshTokenRequest m) = Inr m"
  by (cases m) (simp add: fromJSON_RefreshTokenRequest_def)

lemma json_RefreshTokenResponse:
  "fromJSON_RefreshTokenResponse K (toJSON_RefreshTokenResponse m) = Inr m"
  by (cases m) (simp add: fromJSON_RefreshTokenResponse_def toJSON_RefreshTokenResponse_def json_back)


end
