(* ===== verification/Api_Json.thy ===== *)
theory Api_Json
  imports Api_Messages Auth_Json
begin

text \<open>
  The JSON side of the messages of \<open>Api_Messages\<close>: \<^verbatim>\<open>fromJSON\<close> and \<^verbatim>\<open>toJSON\<close> of each of them.
  \<open>json_ok_X\<close> says which messages come back unchanged: their integer fields are integers
  (\<^verbatim>\<open>toJSON\<close> rounds), their enum fields have a value of the enum (others become
  \<^verbatim>\<open>UNRECOGNIZED\<close>) and their dictionaries are in the order of \<^verbatim>\<open>Object.entries\<close>. A message
  without \<open>json_ok_X\<close> always comes back.
\<close>

section \<open>\<^verbatim>\<open>fromJSON\<close> and \<^verbatim>\<open>toJSON\<close>\<close>

definition fromJSON_CreateCollectionRequest :: "text_conv \<Rightarrow> js_val \<Rightarrow> thrown + CreateCollectionRequest" where
  "fromJSON_CreateCollectionRequest K object =
     with_object object (\<lambda>object.
       Inr \<lparr>CreateCollectionRequest_name = json_string K [] (js_get object ''name''),
          CreateCollectionRequest_dimension = json_number K (js_get object ''dimension''),
          CreateCollectionRequest_distance = json_string K [] (js_get object ''distance'')\<rparr>)"

definition toJSON_CreateCollectionRequest :: "CreateCollectionRequest \<Rightarrow> js_val" where
  "toJSON_CreateCollectionRequest m =
     json_obj
      [(CreateCollectionRequest_name m \<noteq> [], ''name'', JStr (CreateCollectionRequest_name m)),
       (\<not> js_eq (CreateCollectionRequest_dimension m) (Fin 0), ''dimension'', JNum (js_round (CreateCollectionRequest_dimension m))),
       (CreateCollectionRequest_distance m \<noteq> [], ''distance'', JStr (CreateCollectionRequest_distance m))]"

definition fromJSON_CreateCollectionResponse :: "text_conv \<Rightarrow> js_val \<Rightarrow> thrown + CreateCollectionResponse" where
  "fromJSON_CreateCollectionResponse K object =
     with_object object (\<lambda>object.
       Inr \<lparr>CreateCollectionResponse_success = json_boolean (js_get object ''success'')\<rparr>)"

definition toJSON_CreateCollectionResponse :: "CreateCollectionResponse \<Rightarrow> js_val" where
  "toJSON_CreateCollectionResponse m =
     json_obj
      [(CreateCollectionResponse_success m, ''success'', JBool (CreateCollectionResponse_success m))]"

definition fromJSON_DeleteCollectionRequest :: "text_conv \<Rightarrow> js_val \<Rightarrow> thrown + DeleteCollectionRequest" where
  "fromJSON_DeleteCollectionRequest K object =
     with_object object (\<lambda>object.
       Inr \<lparr>DeleteCollectionRequest_name = json_string K [] (js_get object ''name'')\<rparr>)"

definition toJSON_DeleteCollectionRequest :: "DeleteCollectionRequest \<Rightarrow> js_val" where
  "toJSON_DeleteCollectionRequest m =
     json_obj
      [(DeleteCollectionRequest_name m \<noteq> [], ''name'', JStr (DeleteCollectionRequest_name m))]"

definition fromJSON_DeleteCollectionResponse :: "text_conv \<Rightarrow> js_val \<Rightarrow> thrown + DeleteCollectionResponse" where
  "fromJSON_DeleteCollectionResponse K object =
     with_object object (\<lambda>object.
       Inr \<lparr>DeleteCollectionResponse_success = json_boolean (js_get object ''success'')\<rparr>)"

definition toJSON_DeleteCollectionResponse :: "DeleteCollectionResponse \<Rightarrow> js_val" where
  "toJSON_DeleteCollectionResponse m =
     json_obj
      [(DeleteCollectionResponse_success m, ''success'', JBool (DeleteCollectionResponse_success m))]"

definition fromJSON_Point_PayloadEntry :: "text_conv \<Rightarrow> js_val \<Rightarrow> thrown + Point_PayloadEntry" where
  "fromJSON_Point_PayloadEntry K object =
     with_object object (\<lambda>object.
       Inr \<lparr>Point_PayloadEntry_key = json_string K [] (js_get object ''key''),
          Point_PayloadEntry_value = json_string K [] (js_get object ''value'')\<rparr>)"

definition toJSON_Point_PayloadEntry :: "Point_PayloadEntry \<Rightarrow> js_val" where
  "toJSON_Point_PayloadEntry m =
     json_obj
      [(Point_PayloadEntry_key m \<noteq> [], ''key'', JStr (Point_PayloadEntry_key m)),
       (Point_PayloadEntry_value m \<noteq> [], ''value'', JStr (Point_PayloadEntry_value m))]"

definition fromJSON_Point :: "text_conv \<Rightarrow> js_val \<Rightarrow> thrown + Point" where
  "fromJSON_Point K object =
     with_object object (\<lambda>object.
       Inr \<lparr>Point_id = json_string K [] (js_get object ''id''),
          Point_vector = json_numbers K (js_get object ''vector''),
          Point_payload = json_dict K (js_get object ''payload'')\<rparr>)"

definition toJSON_Point :: "Point \<Rightarrow> js_val" where
  "toJSON_Point m =
     json_obj
      [(Point_id m \<noteq> [], ''id'', JStr (Point_id m)),
       (Point_vector m \<noteq> [], ''vector'', JArr (map JNum (Point_vector m))),
       (Point_payload m \<noteq> [], ''payload'', json_of_dict (Point_payload m))]"

definition fromJSON_UpsertRequest :: "text_conv \<Rightarrow> js_val \<Rightarrow> thrown + UpsertRequest" where
  "fromJSON_UpsertRequest K object =
     with_object object (\<lambda>object.
       res_bind (json_subs (fromJSON_Point K) (js_get object ''points'')) (\<lambda>points'.
       Inr \<lparr>UpsertRequest_collection = json_string K [] (js_get object ''collection''),
          UpsertRequest_points = points'\<rparr>))"

definition toJSON_UpsertRequest :: "UpsertRequest \<Rightarrow> js_val" where
  "toJSON_UpsertRequest m =
     json_obj
      [(UpsertRequest_collection m \<noteq> [], ''collection'', JStr (UpsertRequest_collection m)),
       (UpsertRequest_points m \<noteq> [], ''points'', JArr (map toJSON_Point (UpsertRequest_points m)))]"

definition fromJSON_UpsertResponse :: "text_conv \<Rightarrow> js_val \<Rightarrow> thrown + UpsertResponse" where
  "fromJSON_UpsertResponse K object =
     with_object object (\<lambda>object.
       Inr \<lparr>UpsertResponse_upserted = json_number K (js_get object ''upserted'')\<rparr>)"

definition toJSON_UpsertResponse :: "UpsertResponse \<Rightarrow> js_val" where
  "toJSON_UpsertResponse m =
     json_obj
      [(\<not> js_eq (UpsertResponse_upserted m) (Fin 0), ''upserted'', JNum (js_round (UpsertResponse_upserted m)))]"

definition fromJSON_SearchRequest :: "text_conv \<Rightarrow> js_val \<Rightarrow> thrown + SearchRequest" where
  "fromJSON_SearchRequest K object =
     with_object object (\<lambda>object.
       Inr \<lparr>SearchRequest_collection = json_string K [] (js_get object ''collection''),
          SearchRequest_vector = json_numbers K (js_get object ''vector''),
          SearchRequest_topK = json_number K (js_get object ''topK''),
          SearchRequest_query = json_string K [] (js_get object ''query''),
          SearchRequest_timeoutMs = json_number K (js_get object ''timeoutMs''),
          SearchRequest_includeVectors = json_boolean (js_get object ''includeVectors''),
          SearchRequest_includeMetadata = json_boolean (js_get object ''includeMetadata'')\<rparr>)"

definition toJSON_SearchRequest :: "SearchRequest \<Rightarrow> js_val" where
  "toJSON_SearchRequest m =
     json_obj
      [(SearchRequest_collection m \<noteq> [], ''collection'', JStr (SearchRequest_collection m)),
       (SearchRequest_vector m \<noteq> [], ''vector'', JArr (map JNum (SearchRequest_vector m))),
       (\<not> js_eq (SearchRequest_topK m) (Fin 0), ''topK'', JNum (js_round (SearchRequest_topK m))),
       (SearchRequest_query m \<noteq> [], ''query'', JStr (SearchRequest_query m)),
       (\<not> js_eq (SearchRequest_timeoutMs m) (Fin 0), ''timeoutMs'', JNum (js_round (SearchRequest_timeoutMs m))),
       (SearchRequest_includeVectors m, ''includeVectors'', JBool (SearchRequest_includeVectors m)),
       (SearchRequest_includeMetadata m, ''includeMetadata'', JBool (SearchRequest_includeMetadata m))]"

definition fromJSON_SearchResult_PayloadEntry :: "text_conv \<Rightarrow> js_val \<Rightarrow> thrown + SearchResult_PayloadEntry" where
  "fromJSON_SearchResult_PayloadEntry K object =
     with_object object (\<lambda>object.
       Inr \<lparr>SearchResult_PayloadEntry_key = json_string K [] (js_get object ''key''),
          SearchResult_PayloadEntry_value = json_string K [] (js_get object ''value'')\<rparr>)"

definition toJSON_SearchResult_PayloadEntry :: "SearchResult_PayloadEntry \<Rightarrow> js_val" where
  "toJSON_SearchResult_PayloadEntry m =
     json_obj
      [(SearchResult_PayloadEntry_key m \<noteq> [], ''key'', JStr (SearchResult_PayloadEntry_key m)),
       (SearchResult_PayloadEntry_value m \<noteq> [], ''value'', JStr (SearchResult_PayloadEntry_value m))]"

definition fromJSON_SearchResult :: "text_conv \<Rightarrow> js_val \<Rightarrow> thrown + SearchResult" where
  "fromJSON_SearchResult K object =
     with_object object (\<lambda>object.
       Inr \<lparr>SearchResult_id = json_string K [] (js_get object ''id''),
          SearchResult_score = json_number K (js_get object ''score''),
          SearchResult_payload = json_dict K (js_get object ''payload''),
          SearchResult_vector = json_numbers K (js_get object ''vector'')\<rparr>)"

definition toJSON_SearchResult :: "SearchResult \<Rightarrow> js_val" where
  "toJSON_SearchResult m =
     json_obj
      [(SearchResult_id m \<noteq> [], ''id'', JStr (SearchResult_id m)),
       (\<not> js_eq (SearchResult_score m) (Fin 0), ''score'', JNum (SearchResult_score m)),
       (SearchResult_payload m \<noteq> [], ''payload'', json_of_dict (SearchResult_payload m)),
       (SearchResult_vector m \<noteq> [], ''vector'', JArr (map JNum (SearchResult_vector m)))]"

definition fromJSON_SearchResponse :: "text_conv \<Rightarrow> js_val \<Rightarrow> thrown + SearchResponse" where
  "fromJSON_SearchResponse K object =
     res_bind (json_subs (fromJSON_SearchResult K) (js_get object ''results'')) (\<lambda>results'.
       Inr \<lparr>SearchResponse_results = results'\<rparr>)"

definition toJSON_SearchResponse :: "SearchResponse \<Rightarrow> js_val" where
  "toJSON_SearchResponse m =
     json_obj
      [(SearchResponse_results m \<noteq> [], ''results'', JArr (map toJSON_SearchResult (SearchResponse_results m)))]"

definition fromJSON_GetRequest :: "text_conv \<Rightarrow> js_val \<Rightarrow> thrown + GetRequest" where
  "fromJSON_GetRequest K object =
     with_object object (\<lambda>object.
       Inr \<lparr>GetRequest_collection = json_string K [] (js_get object ''collection''),
          GetRequest_id = json_string K [] (js_get object ''id'')\<rparr>)"

definition toJSON_GetRequest :: "GetRequest \<Rightarrow> js_val" where
  "toJSON_GetRequest m =
     json_obj
      [(GetRequest_collection m \<noteq> [], ''collection'', JStr (GetRequest_collection m)),
       (GetRequest_id m \<noteq> [], ''id'', JStr (GetRequest_id m))]"

definition fromJSON_GetResponse :: "text_conv \<Rightarrow> js_val \<Rightarrow> thrown + GetResponse" where
  "fromJSON_GetResponse K object =
     with_object object (\<lambda>object.
       res_bind (json_sub (fromJSON_Point K) (js_get object ''point'')) (\<lambda>point'.
       Inr \<lparr>GetResponse_point = point'\<rparr>))"

definition toJSON_GetResponse :: "GetResponse \<Rightarrow> js_val" where
  "toJSON_GetResponse m =
     json_obj
      [(GetResponse_point m \<noteq> None, ''point'', (case GetResponse_point m of None \<Rightarrow> JUndefined | Some v \<Rightarrow> toJSON_Point v))]"

definition fromJSON_DeleteRequest :: "text_conv \<Rightarrow> js_val \<Rightarrow> thrown + DeleteRequest" where
  "fromJSON_DeleteRequest K object =
     with_object object (\<lambda>object.
       Inr \<lparr>DeleteRequest_collection = json_string K [] (js_get object ''collection''),
          DeleteRequest_id = json_string K [] (js_get object ''id'')\<rparr>)"

definition toJSON_DeleteRequest :: "DeleteRequest \<Rightarrow> js_val" where
  "toJSON_DeleteRequest m =
     json_obj
      [(DeleteRequest_collection m \<noteq> [], ''collection'', JStr (DeleteRequest_collection m)),
       (DeleteRequest_id m \<noteq> [], ''id'', JStr (DeleteRequest_id m))]"

definition fromJSON_DeleteResponse :: "text_conv \<Rightarrow> js_val \<Rightarrow> thrown + DeleteResponse" where
  "fromJSON_DeleteResponse K object = Inr DeleteResponse"

definition toJSON_DeleteResponse :: "DeleteResponse \<Rightarrow> js_val" where
  "toJSON_DeleteResponse m = json_obj []"

definition fromJSON_ListCollectionsRequest :: "text_conv \<Rightarrow> js_val \<Rightarrow> thrown + ListCollectionsRequest" where
  "fromJSON_ListCollectionsRequest K object = Inr ListCollectionsRequest"

definition toJSON_ListCollectionsRequest :: "ListCollectionsRequest \<Rightarrow> js_val" where
  "toJSON_ListCollectionsRequest m = json_obj []"

definition fromJSON_ListCollectionsResponse :: "text_conv \<Rightarrow> js_val \<Rightarrow> thrown + ListCollectionsResponse" where
  "fromJSON_ListCollectionsResponse K object =
     Inr \<lparr>ListCollectionsResponse_collections = json_strings K (js_get object ''collections'')\<rparr>"

definition toJSON_ListCollectionsResponse :: "ListCollectionsResponse \<Rightarrow> js_val" where
  "toJSON_ListCollectionsResponse m =
     json_obj
      [(ListCollectionsResponse_collections m \<noteq> [], ''collections'', JArr (map JStr (ListCollectionsResponse_collections m)))]"

definition fromJSON_GetCollectionStatusRequest :: "text_conv \<Rightarrow> js_val \<Rightarrow> thrown + GetCollectionStatusRequest" where
  "fromJSON_GetCollectionStatusRequest K object =
     with_object object (\<lambda>object.
       Inr \<lparr>GetCollectionStatusRequest_name = json_string K [] (js_get object ''name'')\<rparr>)"

definition toJSON_GetCollectionStatusRequest :: "GetCollectionStatusRequest \<Rightarrow> js_val" where
  "toJSON_GetCollectionStatusRequest m =
     json_obj
      [(GetCollectionStatusRequest_name m \<noteq> [], ''name'', JStr (GetCollectionStatusRequest_name m))]"

definition fromJSON_ShardStatus :: "text_conv \<Rightarrow> js_val \<Rightarrow> thrown + ShardStatus" where
  "fromJSON_ShardStatus K object =
     with_object object (\<lambda>object.
       Inr \<lparr>ShardStatus_shardId = json_number K (js_get object ''shardId''),
          ShardStatus_replicas = json_strings K (js_get object ''replicas''),
          ShardStatus_leaderId = json_string K ''0'' (js_get object ''leaderId''),
          ShardStatus_ready = json_boolean (js_get object ''ready'')\<rparr>)"

definition toJSON_ShardStatus :: "ShardStatus \<Rightarrow> js_val" where
  "toJSON_ShardStatus m =
     json_obj
      [(\<not> js_eq (ShardStatus_shardId m) (Fin 0), ''shardId'', JNum (js_round (ShardStatus_shardId m))),
       (ShardStatus_replicas m \<noteq> [], ''replicas'', JArr (map JStr (ShardStatus_replicas m))),
       (ShardStatus_leaderId m \<noteq> ''0'', ''leaderId'', JStr (ShardStatus_leaderId m)),
       (ShardStatus_ready m, ''ready'', JBool (ShardStatus_ready m))]"

definition fromJSON_GetCollectionStatusResponse :: "text_conv \<Rightarrow> js_val \<Rightarrow> thrown + GetCollectionStatusResponse" where
  "fromJSON_GetCollectionStatusResponse K object =
     with_object object (\<lambda>object.
       res_bind (json_subs (fromJSON_ShardStatus K) (js_get object ''shards'')) (\<lambda>shards'.
       Inr \<lparr>GetCollectionStatusResponse_name = json_string K [] (js_get object ''name''),
          GetCollectionStatusResponse_dimension = json_number K (js_get object ''dimension''),
          GetCollectionStatusResponse_distance = json_string K [] (js_get object ''distance''),
          GetCollectionStatusResponse_shards = shards'\<rparr>))"

definition toJSON_GetCollectionStatusResponse :: "GetCollectionStatusResponse \<Rightarrow> js_val" where
  "toJSON_GetCollectionStatusResponse m =
     json_obj
      [(GetCollectionStatusResponse_name m \<noteq> [], ''name'', JStr (GetCollectionStatusResponse_name m)),
       (\<not> js_eq (GetCollectionStatusResponse_dimension m) (Fin 0), ''dimension'', JNum (js_round (GetCollectionStatusResponse_dimension m))),
       (GetCollectionStatusResponse_distance m \<noteq> [], ''distance'', JStr (GetCollectionStatusResponse_distance m)),
       (GetCollectionStatusResponse_shards m \<noteq> [], ''shards'', JArr (map toJSON_ShardStatus (GetCollectionStatusResponse_shards m)))]"

definition fromJSON_UpdateUserProfileRequest :: "text_conv \<Rightarrow> js_val \<Rightarrow> thrown + UpdateUserProfileRequest" where
  "fromJSON_UpdateUserProfileRequest K object =
     with_object object (\<lambda>object.
       Inr \<lparr>UpdateUserProfileRequest_plan = json_enum planFromJSON (js_get object ''plan'')\<rparr>)"

definition toJSON_UpdateUserProfileRequest :: "UpdateUserProfileRequest \<Rightarrow> js_val" where
  "toJSON_UpdateUserProfileRequest m =
     json_obj
      [(\<not> js_eq (UpdateUserProfileRequest_plan m) (Fin 0), ''plan'', JStr (planToJSON (UpdateUserProfileRequest_plan m)))]"

definition fromJSON_UpdateUserProfileResponse :: "text_conv \<Rightarrow> js_val \<Rightarrow> thrown + UpdateUserProfileResponse" where
  "fromJSON_UpdateUserProfileResponse K object =
     with_object object (\<lambda>object.
       res_bind (json_sub (fromJSON_UserProfile K) (js_get object ''user'')) (\<lambda>user'.
       Inr \<lparr>UpdateUserProfileResponse_user = user'\<rparr>))"

definition toJSON_UpdateUserProfileResponse :: "UpdateUserProfileResponse \<Rightarrow> js_val" where
  "toJSON_UpdateUserProfileResponse m =
     json_obj
      [(UpdateUserProfileResponse_user m \<noteq> None, ''user'', (case UpdateUserProfileResponse_user m of None \<Rightarrow> JUndefined | Some v \<Rightarrow> toJSON_UserProfile v))]"

definition fromJSON_FeedbackItem :: "text_conv \<Rightarrow> js_val \<Rightarrow> thrown + FeedbackItem" where
  "fromJSON_FeedbackItem K object =
     with_object object (\<lambda>object.
       Inr \<lparr>FeedbackItem_resultId = json_string K [] (js_get object ''resultId''),
          FeedbackItem_relevanceScore = json_number K (js_get object ''relevanceScore''),
          FeedbackItem_clicked = json_boolean (js_get object ''clicked''),
          FeedbackItem_position = json_number K (js_get object ''position''),
          FeedbackItem_comment = json_string K [] (js_get object ''comment'')\<rparr>)"

definition toJSON_FeedbackItem :: "FeedbackItem \<Rightarrow> js_val" where
  "toJSON_FeedbackItem m =
     json_obj
      [(FeedbackItem_resultId m \<noteq> [], ''resultId'', JStr (FeedbackItem_resultId m)),
       (\<not> js_eq (FeedbackItem_relevanceScore m) (Fin 0), ''relevanceScore'', JNum (js_round (FeedbackItem_relevanceScore m))),
       (FeedbackItem_clicked m, ''clicked'', JBool (FeedbackItem_clicked m)),
       (\<not> js_eq (FeedbackItem_position m) (Fin 0), ''position'', JNum (js_round (FeedbackItem_position m))),
       (FeedbackItem_comment m \<noteq> [], ''comment'', JStr (FeedbackItem_comment m))]"

definition fromJSON_SubmitFeedbackRequest_ContextEntry :: "text_conv \<Rightarrow> js_val \<Rightarrow> thrown + SubmitFeedbackRequest_ContextEntry" where
  "fromJSON_SubmitFeedbackRequest_ContextEntry K object =
     with_object object (\<lambda>object.
       Inr \<lparr>SubmitFeedbackRequest_ContextEntry_key = json_string K [] (js_get object ''key''),
          SubmitFeedbackRequest_ContextEntry_value = json_string K [] (js_get object ''value'')\<rparr>)"

definition toJSON_SubmitFeedbackRequest_ContextEntry :: "SubmitFeedbackRequest_ContextEntry \<Rightarrow> js_val" where
  "toJSON_SubmitFeedbackRequest_ContextEntry m =
     json_obj
      [(SubmitFeedbackRequest_ContextEntry_key m \<noteq> [], ''key'', JStr (SubmitFeedbackRequest_ContextEntry_key m)),
       (SubmitFeedbackRequest_ContextEntry_value m \<noteq> [], ''value'', JStr (SubmitFeedbackRequest_ContextEntry_value m))]"

definition fromJSON_SubmitFeedbackRequest :: "text_conv \<Rightarrow> js_val \<Rightarrow> thrown + SubmitFeedbackRequest" where
  "fromJSON_SubmitFeedbackRequest K object =
     with_object object (\<lambda>object.
       res_bind (json_subs (fromJSON_FeedbackItem K) (js_get object ''feedbackItems'')) (\<lambda>feedbackItems'.
       Inr \<lparr>SubmitFeedbackRequest_collection = json_string K [] (js_get object ''collection''),
          SubmitFeedbackRequest_query = json_string K [] (js_get object ''query''),
          SubmitFeedbackRequest_resultIds = json_strings K (js_get object ''resultIds''),
          SubmitFeedbackRequest_feedbackItems = feedbackItems',
          SubmitFeedbackRequest_context = json_dict K (js_get object ''context'')\<rparr>))"

definition toJSON_SubmitFeedbackRequest :: "SubmitFeedbackRequest \<Rightarrow> js_val" where
  "toJSON_SubmitFeedbackRequest m =
     json_obj
      [(SubmitFeedbackRequest_collection m \<noteq> [], ''collection'', JStr (SubmitFeedbackRequest_collection m)),
       (SubmitFeedbackRequest_query m \<noteq> [], ''query'', JStr (SubmitFeedbackRequest_query m)),
       (SubmitFeedbackRequest_resultIds m \<noteq> [], ''resultIds'', JArr (map JStr (SubmitFeedbackRequest_resultIds m))),
       (SubmitFeedbackRequest_feedbackItems m \<noteq> [], ''feedbackItems'', JArr (map toJSON_FeedbackItem (SubmitFeedbackRequest_feedbackItems m))),
       (SubmitFeedbackRequest_context m \<noteq> [], ''context'', json_of_dict (SubmitFeedbackRequest_context m))]"

definition fromJSON_SubmitFeedbackResponse :: "text_conv \<Rightarrow> js_val \<Rightarrow> thrown + SubmitFeedbackResponse" where
  "fromJSON_SubmitFeedbackResponse K object =
     with_object object (\<lambda>object.
       Inr \<lparr>SubmitFeedbackResponse_success = json_boolean (js_get object ''success''),
          SubmitFeedbackResponse_feedbackId = json_string K [] (js_get object ''feedbackId'')\<rparr>)"

definition toJSON_SubmitFeedbackResponse :: "SubmitFeedbackResponse \<Rightarrow> js_val" where
  "toJSON_SubmitFeedbackResponse m =
     json_obj
      [(SubmitFeedbackResponse_success m, ''success'', JBool (SubmitFeedbackResponse_success m)),
       (SubmitFeedbackResponse_feedbackId m \<noteq> [], ''feedbackId'', JStr (SubmitFeedbackResponse_feedbackId m))]"

section \<open>What \<^verbatim>\<open>toJSON\<close> writes, \<^verbatim>\<open>fromJSON\<close> reads\<close>

lemma isSet_toJSON_CreateCollectionRequest: "isSet (toJSON_CreateCollectionRequest m)"
  by (simp add: toJSON_CreateCollectionRequest_def isSet_json_obj)

lemma isSet_toJSON_CreateCollectionResponse: "isSet (toJSON_CreateCollectionResponse m)"
  by (simp add: toJSON_CreateCollectionResponse_def isSet_json_obj)

lemma isSet_toJSON_DeleteCollectionRequest: "isSet (toJSON_DeleteCollectionRequest m)"
  by (simp add: toJSON_DeleteCollectionRequest_def isSet_json_obj)

lemma isSet_toJSON_DeleteCollectionResponse: "isSet (toJSON_DeleteCollectionResponse m)"
  by (simp add: toJSON_DeleteCollectionResponse_def isSet_json_obj)

lemma isSet_toJSON_Point_PayloadEntry: "isSet (toJSON_Point_PayloadEntry m)"
  by (simp add: toJSON_Point_PayloadEntry_def isSet_json_obj)

lemma isSet_toJSON_Point: "isSet (toJSON_Point m)"
  by (simp add: toJSON_Point_def isSet_json_obj)

lemma isSet_toJSON_UpsertRequest: "isSet (toJSON_UpsertRequest m)"
  by (simp add: toJSON_UpsertRequest_def isSet_json_obj)

lemma isSet_toJSON_UpsertResponse: "isSet (toJSON_UpsertResponse m)"
  by (simp add: toJSON_UpsertResponse_def isSet_json_obj)

lemma isSet_toJSON_SearchRequest: "isSet (toJSON_SearchRequest m)"
  by (simp add: toJSON_SearchRequest_def isSet_json_obj)

lemma isSet_toJSON_SearchResult_PayloadEntry: "isSet (toJSON_SearchResult_PayloadEntry m)"
  by (simp add: toJSON_SearchResult_PayloadEntry_def isSet_json_obj)

lemma isSet_toJSON_SearchResult: "isSet (toJSON_SearchResult m)"
  by (simp add: toJSON_SearchResult_def isSet_json_obj)

lemma isSet_toJSON_SearchResponse: "isSet (toJSON_SearchResponse m)"
  by (simp add: toJSON_SearchResponse_def isSet_json_obj)

lemma isSet_toJSON_GetRequest: "isSet (toJSON_GetRequest m)"
  by (simp add: toJSON_GetRequest_def isSet_json_obj)

lemma isSet_toJSON_GetResponse: "isSet (toJSON_GetResponse m)"
  by (simp add: toJSON_GetResponse_def isSet_json_obj)

lemma isSet_toJSON_DeleteRequest: "isSet (toJSON_DeleteRequest m)"
  by (simp add: toJSON_DeleteRequest_def isSet_json_obj)

lemma isSet_toJSON_ListCollectionsResponse: "isSet (toJSON_ListCollectionsResponse m)"
  by (simp add: toJSON_ListCollectionsResponse_def isSet_json_obj)

lemma isSet_toJSON_GetCollectionStatusRequest: "isSet (toJSON_GetCollectionStatusRequest m)"
  by (simp add: toJSON_GetCollectionStatusRequest_def isSet_json_obj)

lemma isSet_toJSON_ShardStatus: "isSet (toJSON_ShardStatus m)"
  by (simp add: toJSON_ShardStatus_def isSet_json_obj)

lemma isSet_toJSON_GetCollectionStatusResponse: "isSet (toJSON_GetCollectionStatusResponse m)"
  by (simp add: toJSON_GetCollectionStatusResponse_def isSet_json_obj)

lemma isSet_toJSON_UpdateUserProfileRequest: "isSet (toJSON_UpdateUserProfileRequest m)"
  by (simp add: toJSON_UpdateUserProfileRequest_def isSet_json_obj)

lemma isSet_toJSON_UpdateUserProfileResponse: "isSet (toJSON_UpdateUserProfileResponse m)"
  by (simp add: toJSON_UpdateUserProfileResponse_def isSet_json_obj)

lemma isSet_toJSON_FeedbackItem: "isSet (toJSON_FeedbackItem m)"
  by (simp add: toJSON_FeedbackItem_def isSet_json_obj)

lemma isSet_toJSON_SubmitFeedbackRequest_ContextEntry: "isSet (toJSON_SubmitFeedbackRequest_ContextEntry m)"
  by (simp add: toJSON_SubmitFeedbackRequest_ContextEntry_def isSet_json_obj)

lemma isSet_toJSON_SubmitFeedbackRequest: "isSet (toJSON_SubmitFeedbackRequest m)"
  by (simp add: toJSON_SubmitFeedbackRequest_def isSet_json_obj)

lemma isSet_toJSON_SubmitFeedbackResponse: "isSet (toJSON_SubmitFeedbackResponse m)"
  by (simp add: toJSON_SubmitFeedbackResponse_def isSet_json_obj)

definition json_ok_CreateCollectionRequest :: "CreateCollectionRequest \<Rightarrow> bool" where
  "json_ok_CreateCollectionRequest m \<longleftrightarrow> js_round (CreateCollectionRequest_dimension m) = CreateCollectionRequest_dimension m"

lemma json_CreateCollectionRequest:
  assumes "json_ok_CreateCollectionRequest m"
  shows "fromJSON_CreateCollectionRequest K (toJSON_CreateCollectionRequest m) = Inr m"
  using assms
  by (cases m) (simp add: fromJSON_CreateCollectionRequest_def toJSON_CreateCollectionRequest_def json_back json_ok_CreateCollectionRequest_def)

lemma json_CreateCollectionResponse:
  "fromJSON_CreateCollectionResponse K (toJSON_CreateCollectionResponse m) = Inr m"
  by (cases m) (simp add: fromJSON_CreateCollectionResponse_def toJSON_CreateCollectionResponse_def json_back)

lemma json_DeleteCollectionRequest:
  "fromJSON_DeleteCollectionRequest K (toJSON_DeleteCollectionRequest m) = Inr m"
  by (cases m) (simp add: fromJSON_DeleteCollectionRequest_def toJSON_DeleteCollectionRequest_def json_back)

lemma json_DeleteCollectionResponse:
  "fromJSON_DeleteCollectionResponse K (toJSON_DeleteCollectionResponse m) = Inr m"
  by (cases m) (simp add: fromJSON_DeleteCollectionResponse_def toJSON_DeleteCollectionResponse_def json_back)

lemma json_Point_PayloadEntry:
  "fromJSON_Point_PayloadEntry K (toJSON_Point_PayloadEntry m) = Inr m"
  by (cases m) (simp add: fromJSON_Point_PayloadEntry_def toJSON_Point_PayloadEntry_def json_back)

definition json_ok_Point :: "Point \<Rightarrow> bool" where
  "json_ok_Point m \<longleftrightarrow> js_obj_ok (Point_payload m)"

lemma json_Point:
  assumes "json_ok_Point m"
  shows "fromJSON_Point K (toJSON_Point m) = Inr m"
  using assms
  by (cases m) (simp add: fromJSON_Point_def toJSON_Point_def json_back json_ok_Point_def)

definition json_ok_UpsertRequest :: "UpsertRequest \<Rightarrow> bool" where
  "json_ok_UpsertRequest m \<longleftrightarrow> (\<forall>v \<in> set (UpsertRequest_points m). json_ok_Point v)"

lemma json_UpsertRequest:
  assumes "json_ok_UpsertRequest m"
  shows "fromJSON_UpsertRequest K (toJSON_UpsertRequest m) = Inr m"
  using assms
  by (cases m) (simp add: fromJSON_UpsertRequest_def toJSON_UpsertRequest_def json_back json_ok_UpsertRequest_def json_Point isSet_toJSON_Point)

definition json_ok_UpsertResponse :: "UpsertResponse \<Rightarrow> bool" where
  "json_ok_UpsertResponse m \<longleftrightarrow> js_round (UpsertResponse_upserted m) = UpsertResponse_upserted m"

lemma json_UpsertResponse:
  assumes "json_ok_UpsertResponse m"
  shows "fromJSON_UpsertResponse K (toJSON_UpsertResponse m) = Inr m"
  using assms
  by (cases m) (simp add: fromJSON_UpsertResponse_def toJSON_UpsertResponse_def json_back json_ok_UpsertResponse_def)

definition json_ok_SearchRequest :: "SearchRequest \<Rightarrow> bool" where
  "json_ok_SearchRequest m \<longleftrightarrow> js_round (SearchRequest_topK m) = SearchRequest_topK m \<and> js_round (SearchRequest_timeoutMs m) = SearchRequest_timeoutMs m"

lemma json_SearchRequest:
  assumes "json_ok_SearchRequest m"
  shows "fromJSON_SearchRequest K (toJSON_SearchRequest m) = Inr m"
  using assms
  by (cases m) (simp add: fromJSON_SearchRequest_def toJSON_SearchRequest_def json_back json_ok_SearchRequest_def)

lemma json_SearchResult_PayloadEntry:
  "fromJSON_SearchResult_PayloadEntry K (toJSON_SearchResult_PayloadEntry m) = Inr m"
  by (cases m) (simp add: fromJSON_SearchResult_PayloadEntry_def toJSON_SearchResult_PayloadEntry_def json_back)

definition json_ok_SearchResult :: "SearchResult \<Rightarrow> bool" where
  "json_ok_SearchResult m \<longleftrightarrow> js_obj_ok (SearchResult_payload m)"

lemma json_SearchResult:
  assumes "json_ok_SearchResult m"
  shows "fromJSON_SearchResult K (toJSON_SearchResult m) = Inr m"
  using assms
  by (cases m) (simp add: fromJSON_SearchResult_def toJSON_SearchResult_def json_back json_ok_SearchResult_def)

definition json_ok_SearchResponse :: "SearchResponse \<Rightarrow> bool" where
  "json_ok_SearchResponse m \<longleftrightarrow> (\<forall>v \<in> set (SearchResponse_results m). json_ok_SearchResult v)"

lemma json_SearchResponse:
  assumes "json_ok_SearchResponse m"
  shows "fromJSON_SearchResponse K (toJSON_SearchResponse m) = Inr m"
  using assms
  by (cases m) (simp add: fromJSON_SearchResponse_def toJSON_SearchResponse_def json_back json_ok_SearchResponse_def json_SearchResult isSet_toJSON_SearchResult)

lemma json_GetRequest:
  "fromJSON_GetRequest K (toJSON_GetRequest m) = Inr m"
  by (cases m) (simp add: fromJSON_GetRequest_def toJSON_GetRequest_def json_back)

definition json_ok_GetResponse :: "GetResponse \<Rightarrow> bool" where
  "json_ok_GetResponse m \<longleftrightarrow> (\<forall>v \<in> set_option (GetResponse_point m). json_ok_Point v)"

lemma json_GetResponse:
  assumes "json_ok_GetResponse m"
  shows "fromJSON_GetResponse K (toJSON_GetResponse m) = Inr m"
  using assms
  by (cases m) (simp add: fromJSON_GetResponse_def toJSON_GetResponse_def json_back json_ok_GetResponse_def json_Point isSet_toJSON_Point)

lemma json_DeleteRequest:
  "fromJSON_DeleteRequest K (toJSON_DeleteRequest m) = Inr m"
  by (cases m) (simp add: fromJSON_DeleteRequest_def toJSON_DeleteRequest_def json_back)

lemma json_DeleteResponse: "fromJSON_DeleteResponse K (toJSON_DeleteResponse m) = Inr m"
  by (cases m) (simp add: fromJSON_DeleteResponse_def)

lemma json_ListCollectionsRequest: "fromJSON_ListCollectionsRequest K (toJSON_ListCollectionsRequest m) = Inr m"
  by (cases m) (simp add: fromJSON_ListCollectionsRequest_def)

lemma json_ListCollectionsResponse:
  "fromJSON_ListCollectionsResponse K (toJSON_ListCollectionsResponse m) = Inr m"
  by (cases m) (simp add: fromJSON_ListCollectionsResponse_def toJSON_ListCollectionsResponse_def json_back)

lemma json_GetCollectionStatusRequest:
  "fromJSON_GetCollectionStatusRequest K (toJSON_GetCollectionStatusRequest m) = Inr m"
  by (cases m) (simp add: fromJSON_GetCollectionStatusRequest_def toJSON_GetCollectionStatusRequest_def json_back)

definition json_ok_ShardStatus :: "ShardStatus \<Rightarrow> bool" where
  "json_ok_ShardStatus m \<longleftrightarrow> js_round (ShardStatus_shardId m) = ShardStatus_shardId m"

lemma json_ShardStatus:
  assumes "json_ok_ShardStatus m"
  shows "fromJSON_ShardStatus K (toJSON_ShardStatus m) = Inr m"
  using assms
  by (cases m) (simp add: fromJSON_ShardStatus_def toJSON_ShardStatus_def json_back json_ok_ShardStatus_def)

definition json_ok_GetCollectionStatusResponse :: "GetCollectionStatusResponse \<Rightarrow> bool" where
  "json_ok_GetCollectionStatusResponse m \<longleftrightarrow> js_round (GetCollectionStatusResponse_dimension m) = GetCollectionStatusResponse_dimension m \<and> (\<forall>v \<in> set (GetCollectionStatusResponse_shards m). json_ok_ShardStatus v)"

lemma json_GetCollectionStatusResponse:
  assumes "json_ok_GetCollectionStatusResponse m"
  shows "fromJSON_GetCollectionStatusResponse K (toJSON_GetCollectionStatusResponse m) = Inr m"
  using assms
  by (cases m) (simp add: fromJSON_GetCollectionStatusResponse_def toJSON_GetCollectionStatusResponse_def json_back json_ok_GetCollectionStatusResponse_def json_ShardStatus isSet_toJSON_ShardStatus)

definition json_ok_UpdateUserProfileRequest :: "UpdateUserProfileRequest \<Rightarrow> bool" where
  "json_ok_UpdateUserProfileRequest m \<longleftrightarrow> UpdateUserProfileRequest_plan m \<in> plan_values"

lemma json_UpdateUserProfileRequest:
  assumes "json_ok_UpdateUserProfileRequest m"
  shows "fromJSON_UpdateUserProfileRequest K (toJSON_UpdateUserProfileRequest m) = Inr m"
  using assms
  by (cases m) (simp add: fromJSON_UpdateUserProfileRequest_def toJSON_UpdateUserProfileRequest_def json_back json_ok_UpdateUserProfileRequest_def plan_back)

definition json_ok_UpdateUserProfileResponse :: "UpdateUserProfileResponse \<Rightarrow> bool" where
  "json_ok_UpdateUserProfileResponse m \<longleftrightarrow> (\<forall>v \<in> set_option (UpdateUserProfileResponse_user m). json_ok_UserProfile v)"

lemma json_UpdateUserProfileResponse:
  assumes "json_ok_UpdateUserProfileResponse m"
  shows "fromJSON_UpdateUserProfileResponse K (toJSON_UpdateUserProfileResponse m) = Inr m"
  using assms
  by (cases m) (simp add: fromJSON_UpdateUserProfileResponse_def toJSON_UpdateUserProfileResponse_def json_back json_ok_UpdateUserProfileResponse_def json_UserProfile isSet_toJSON_UserProfile)

definition json_ok_FeedbackItem :: "FeedbackItem \<Rightarrow> bool" where
  "json_ok_FeedbackItem m \<longleftrightarrow> js_round (FeedbackItem_relevanceScore m) = FeedbackItem_relevanceScore m \<and> js_round (FeedbackItem_position m) = FeedbackItem_position m"

lemma json_FeedbackItem:
  assumes "json_ok_FeedbackItem m"
  shows "fromJSON_FeedbackItem K (toJSON_FeedbackItem m) = Inr m"
  using assms
  by (cases m) (simp add: fromJSON_FeedbackItem_def toJSON_FeedbackItem_def json_back json_ok_FeedbackItem_def)

lemma json_SubmitFeedbackRequest_ContextEntry:
  "fromJSON_SubmitFeedbackRequest_ContextEntry K (toJSON_SubmitFeedbackRequest_ContextEntry m) = Inr m"
  by (cases m) (simp add: fromJSON_SubmitFeedbackRequest_ContextEntry_def toJSON_SubmitFeedbackRequest_ContextEntry_def json_back)

definition json_ok_SubmitFeedbackRequest :: "SubmitFeedbackRequest \<Rightarrow> bool" where
  "json_ok_SubmitFeedbackRequest m \<longleftrightarrow> (\<forall>v \<in> set (SubmitFeedbackRequest_feedbackItems m). json_ok_FeedbackItem v) \<and> js_obj_ok (SubmitFeedbackRequest_context m)"

lemma json_SubmitFeedbackRequest:
  assumes "json_ok_SubmitFeedbackRequest m"
  shows "fromJSON_SubmitFeedbackRequest K (toJSON_SubmitFeedbackRequest m) = Inr m"
  using assms
  by (cases m) (simp add: fromJSON_SubmitFeedbackRequest_def toJSON_SubmitFeedbackRequest_def json_back json_ok_SubmitFeedbackRequest_def json_FeedbackItem isSet_toJSON_FeedbackItem)

lemma json_SubmitFeedbackResponse:
  "fromJSON_SubmitFeedbackResponse K (toJSON_SubmitFeedbackResponse m) = Inr m"
  by (cases m) (simp add: fromJSON_SubmitFeedbackResponse_def toJSON_SubmitFeedbackResponse_def json_back)

section \<open>Properties\<close>

text \<open>C19: An upsert request survives JSON: the collection, every id, the payloads in their order and
  all components of the vectors come back exactly, for any text conversion of the runtime. The
  one condition is that the payloads are in \<^verbatim>\<open>Object.entries\<close> order, as every JavaScript object is.\<close>

theorem UpsertRequest_json:
  assumes "wf_UpsertRequest m"
  shows "fromJSON_UpsertRequest K (toJSON_UpsertRequest m) = Inr m"
  using assms
  by (simp add: json_UpsertRequest json_ok_UpsertRequest_def json_ok_Point_def wf_UpsertRequest_def wf_Point_def)

theorem UpsertRequest_json_witness:
  "fromJSON_UpsertRequest plain_conv (toJSON_UpsertRequest (sample_upsert (Fin (1 / 3))))
     = Inr (sample_upsert (Fin (1 / 3)))"
  by (rule UpsertRequest_json) (simp add: sample_upsert_def wf_UpsertRequest_def wf_Point_def)

text \<open>C7: Whatever bytes a server sends as a search response, \<^verbatim>\<open>decode\<close> returns: with an exception, or
  with a well-formed message, each payload of which is an object in \<^verbatim>\<open>Object.entries\<close> order without
  repeated keys, and which therefore also survives \<^verbatim>\<open>toJSON\<close> and \<^verbatim>\<open>fromJSON\<close>.\<close>

theorem SearchResponse_decode_typed:
  assumes "wire_reader W buf"
  shows "(\<exists>e. decode_bytes W (decode_SearchResponse W) bs = Some (Inl e))
     \<or> (\<exists>m. decode_bytes W (decode_SearchResponse W) bs = Some (Inr m)
          \<and> wf_SearchResponse m \<and> fromJSON_SearchResponse K (toJSON_SearchResponse m) = Inr m)"
proof -
  have "wf_SearchResponse m \<Longrightarrow> fromJSON_SearchResponse K (toJSON_SearchResponse m) = Inr m" for m
    by (simp add: json_SearchResponse json_ok_SearchResponse_def json_ok_SearchResult_def
        wf_SearchResponse_def wf_SearchResult_def)
  moreover obtain x where x: "decode_bytes W (decode_SearchResponse W) bs = Some x"
    using wire_reader.decode_bytes_returns [OF assms wire_reader.SearchResponse_total [OF assms]] by blast
  ultimately show ?thesis
    using decode_bytes_yields [OF decode_SearchResponse_wf, of W] by (cases x) auto
qed

theorem SearchResponse_decode_typed_witness:
  "(\<exists>e. decode_bytes protobuf (decode_SearchResponse protobuf) [10, 200, 1, 255] = Some (Inl e))
   \<or> (\<exists>m. decode_bytes protobuf (decode_SearchResponse protobuf) [10, 200, 1, 255] = Some (Inr m)
        \<and> wf_SearchResponse m
        \<and> fromJSON_SearchResponse plain_conv (toJSON_SearchResponse m) = Inr m)"
  by (rule SearchResponse_decode_typed [OF pb.wire_reader_axioms])


end
