(* ===== verification/Upsert_Batch.thy ===== *)
theory Upsert_Batch
  imports Client_Api "HOL-Library.Multiset"
begin

text \<open>
  \<^verbatim>\<open>VectronClient.upsertBatch\<close> (\<^verbatim>\<open>clientlibs/js/src/client.ts\<close>): splitting points into batches,
  by count or by estimated size, distributing the batches over workers, and summing up.

  \<^verbatim>\<open>batchSize\<close> and \<^verbatim>\<open>concurrency\<close> are JavaScript numbers, so they may be fractional, infinite
  or not numbers at all, and the loops over them need not end: \<open>None\<close> is a call that never
  returns. The workers run concurrently: a schedule says whose upsert is the next to take effect.
  One upsert takes effect as a whole; its own retries are part of it.
\<close>

section \<open>Batches\<close>

definition estimatePointBytes :: "ClientPoint \<Rightarrow> nat" where
  "estimatePointBytes p =
     (let size = length (cp_id p) + length (cp_vector p) * 4;
          size' = (case cp_payload p of
                     None \<Rightarrow> size
                   | Some payload \<Rightarrow> foldl (\<lambda>s (k, v). s + (length k + length v)) size payload)
      in size' + 16)"

text \<open>\<^verbatim>\<open>xs.slice(i, j)\<close>: the arguments are truncated, negative ones count from the end.\<close>

definition slice_index :: "nat \<Rightarrow> js_num \<Rightarrow> nat" where
  "slice_index len n =
     (case n of
        NaN \<Rightarrow> 0
      | NegInf \<Rightarrow> 0
      | PosInf \<Rightarrow> len
      | Fin q \<Rightarrow> if q < 0 then len - nat \<lfloor>- q\<rfloor> else min len (nat \<lfloor>q\<rfloor>))"

definition slice :: "js_num \<Rightarrow> js_num \<Rightarrow> 'a list \<Rightarrow> 'a list" where
  "slice i j xs =
     (let a = slice_index (length xs) i; b = slice_index (length xs) j in take (b - a) (drop a xs))"

text \<open>The loop over \<^verbatim>\<open>i\<close> that pushes slices of \<^verbatim>\<open>batchSize\<close> points.\<close>

partial_function (option) count_batches ::
  "js_num \<Rightarrow> 'p list \<Rightarrow> js_num \<Rightarrow> 'p list list \<Rightarrow> 'p list list option" where
  "count_batches batchSize points i batches =
     (if js_lt i (num_of_nat (length points))
      then count_batches batchSize points (js_add i batchSize)
             (batches @ [slice i (js_add i batchSize) points])
      else Some batches)"

text \<open>The inner loop of the byte-limited mode: it fills one batch from the points that are left,
  and the first point always fits.\<close>

fun fill_batch ::
  "js_num \<Rightarrow> js_num \<Rightarrow> ('p \<Rightarrow> nat) \<Rightarrow> 'p list \<Rightarrow> 'p list \<Rightarrow> nat \<Rightarrow> 'p list \<times> 'p list" where
  "fill_batch batchSize maxBytes est [] batch bytes = (batch, [])"
| "fill_batch batchSize maxBytes est (p # ps) batch bytes =
     (if js_lt (num_of_nat (length batch)) batchSize
      then if length batch = 0 \<or> js_le (num_of_nat (bytes + est p)) maxBytes
           then fill_batch batchSize maxBytes est ps (batch @ [p]) (bytes + est p)
           else (batch, p # ps)
      else (batch, p # ps))"

partial_function (option) byte_batches ::
  "js_num \<Rightarrow> js_num \<Rightarrow> ('p \<Rightarrow> nat) \<Rightarrow> 'p list \<Rightarrow> 'p list list \<Rightarrow> 'p list list option" where
  "byte_batches batchSize maxBytes est points batches =
     (if points = [] then Some batches
      else case fill_batch batchSize maxBytes est points [] 0 of
             (batch, rest) \<Rightarrow> byte_batches batchSize maxBytes est rest (batches @ [batch]))"

definition make_batches :: "js_num \<Rightarrow> js_num \<Rightarrow> ClientPoint list \<Rightarrow> ClientPoint list list option" where
  "make_batches maxBytes batchSize points =
     (if js_lt (Fin 0) maxBytes
      then byte_batches batchSize maxBytes estimatePointBytes points []
      else count_batches batchSize points (Fin 0) [])"

section \<open>Running the batches\<close>

type_synonym ('p, 'w) upserter = "'p list \<Rightarrow> 'w \<Rightarrow> (js_num, 'w) outcome"

text \<open>One after the other.\<close>

fun upsert_all ::
  "('p, 'w) upserter \<Rightarrow> 'p list list \<Rightarrow> js_num \<Rightarrow> js_num list \<Rightarrow> 'w \<Rightarrow> (js_num, 'w) outcome" where
  "upsert_all up [] tot slept w = Some (Inr tot, slept, w)"
| "upsert_all up (b # bs) tot slept w =
     Option.bind (up b w) (\<lambda>(res, sl, w').
       case res of
         Inl e \<Rightarrow> Some (Inl e, slept @ sl, w')
       | Inr n \<Rightarrow> upsert_all up bs (js_add tot n) (slept @ sl) w')"

text \<open>\<^verbatim>\<open>idx % concurrency === i\<close> for the positive numbers that occur here.\<close>

definition js_mod :: "rat \<Rightarrow> rat \<Rightarrow> rat" where
  "js_mod a b = a - b * of_int \<lfloor>a / b\<rfloor>"

definition shard :: "js_num \<Rightarrow> nat \<Rightarrow> 'b list \<Rightarrow> 'b list" where
  "shard concurrency i batches =
     map snd (filter (\<lambda>(idx, b). case concurrency of Fin q \<Rightarrow> js_mod (of_nat idx) q = of_nat i | _ \<Rightarrow> False)
       (enumerate 0 batches))"

text \<open>How many workers the loop \<^verbatim>\<open>for (i = 0; i < concurrency; i += 1)\<close> starts; it never ends for an
  infinite bound.\<close>

definition worker_count :: "js_num \<Rightarrow> nat option" where
  "worker_count concurrency =
     (case concurrency of
        NaN \<Rightarrow> Some 0 | NegInf \<Rightarrow> Some 0 | PosInf \<Rightarrow> None | Fin q \<Rightarrow> Some (nat \<lceil>q\<rceil>))"

record 'p worker =
  todo :: "'p list list"
  subtotal :: js_num

record ('p, 'w) crew =
  workers :: "'p worker list"
  failed :: "thrown option"
  crew_slept :: "js_num list"
  world :: 'w

definition start_crew :: "js_num \<Rightarrow> nat \<Rightarrow> 'p list list \<Rightarrow> 'w \<Rightarrow> ('p, 'w) crew" where
  "start_crew concurrency n batches w =
     \<lparr>workers = map (\<lambda>i. \<lparr>todo = shard concurrency i batches, subtotal = Fin 0\<rparr>) [0..<n],
      failed = None, crew_slept = [], world = w\<rparr>"

text \<open>The next upsert of worker \<open>i\<close> takes effect. A failing upsert ends its worker and, if it is
  the first to fail, rejects \<^verbatim>\<open>Promise.all\<close>; the other workers go on.\<close>

definition crew_step :: "('p, 'w) upserter \<Rightarrow> nat \<Rightarrow> ('p, 'w) crew \<Rightarrow> ('p, 'w) crew option" where
  "crew_step up i s =
     (if i < length (workers s)
      then case todo (workers s ! i) of
          [] \<Rightarrow> None
        | b # bs \<Rightarrow>
            Option.bind (up b (world s)) (\<lambda>(res, sl, w').
              let s1 = s\<lparr>crew_slept := crew_slept s @ sl, world := w'\<rparr> in
              case res of
                Inr n \<Rightarrow> Some (s1\<lparr>workers := (workers s)[i :=
                    \<lparr>todo = bs, subtotal = js_add (subtotal (workers s ! i)) n\<rparr>]\<rparr>)
              | Inl e \<Rightarrow> Some (s1\<lparr>workers := (workers s)[i := (workers s ! i)\<lparr>todo := []\<rparr>],
                    failed := (case failed s of None \<Rightarrow> Some e | Some f \<Rightarrow> Some f)\<rparr>))
      else None)"

fun crew_run :: "('p, 'w) upserter \<Rightarrow> nat list \<Rightarrow> ('p, 'w) crew \<Rightarrow> ('p, 'w) crew option" where
  "crew_run up [] s = Some s"
| "crew_run up (i # is) s = Option.bind (crew_step up i s) (crew_run up is)"

text \<open>\<^verbatim>\<open>await Promise.all(workers)\<close> and the sum of the results: rejected with the first error, pending
  while some worker has batches left.\<close>

definition crew_result :: "('p, 'w) crew \<Rightarrow> (js_num, 'w) outcome" where
  "crew_result s =
     (case failed s of
        Some e \<Rightarrow> Some (Inl e, crew_slept s, world s)
      | None \<Rightarrow>
          if \<forall>k \<in> set (workers s). todo k = []
          then Some (Inr (foldl js_add (Fin 0) (map subtotal (workers s))), crew_slept s, world s)
          else None)"

definition upsertBatch ::
  "VectronClient \<Rightarrow> 'w service \<Rightarrow> string \<Rightarrow> ClientPoint list \<Rightarrow> js_num \<Rightarrow> js_num \<Rightarrow> nat list \<Rightarrow> 'w
     \<Rightarrow> (js_num, 'w) outcome" where
  "upsertBatch c S collection points batchSize concurrency sched w =
     (let batchSize = (if js_le batchSize (Fin 0) then Fin 256 else batchSize);
          concurrency = (if js_le concurrency (Fin 0) then Fin 1 else concurrency)
      in if points = [] then Some (Inr (Fin 0), [], w)
         else Option.bind
           (make_batches (nullish (o_maxBatchBytes (c_options c)) (Fin 0)) batchSize points)
           (\<lambda>batches.
              if js_eq concurrency (Fin 1)
              then upsert_all (upsert c S collection) batches (Fin 0) [] w
              else Option.bind (worker_count concurrency) (\<lambda>n.
                Option.bind
                  (crew_run (upsert c S collection) sched (start_crew concurrency n batches w))
                  crew_result)))"

section \<open>Laws of the batches\<close>

lemma js_add_nat: "js_add (num_of_nat a) (num_of_nat b) = num_of_nat (a + b)"
  by simp

lemma slice_index_nat: "slice_index len (num_of_nat n) = min len n"
  by (simp add: slice_index_def)

lemma slice_nat: "m < length xs \<Longrightarrow> slice (num_of_nat m) (num_of_nat (m + k)) xs = take k (drop m xs)"
  unfolding slice_def Let_def slice_index_nat by (simp add: min_def)

text \<open>The reference: cut off \<open>k\<close> elements at a time.\<close>

function chunks :: "nat \<Rightarrow> 'a list \<Rightarrow> 'a list list" where
  "chunks k xs = (if xs = [] \<or> k = 0 then [] else take k xs # chunks k (drop k xs))"
  by pat_completeness auto
termination by (relation "measure (length \<circ> snd)") auto

declare chunks.simps [simp del]

lemma concat_chunks: "0 < k \<Longrightarrow> concat (chunks k xs) = xs"
proof (induction k xs rule: chunks.induct)
  case (1 k xs)
  then show ?case by (cases "xs = []") (simp_all add: chunks.simps)
qed

lemma chunks_bounds: "b \<in> set (chunks k xs) \<Longrightarrow> b \<noteq> [] \<and> length b \<le> k"
proof (induction k xs rule: chunks.induct)
  case (1 k xs)
  then show ?case
    by (subst (asm) chunks.simps) (auto split: if_splits)
qed

lemma count_batches_chunks:
  assumes "0 < k"
  shows "count_batches (num_of_nat k) points (num_of_nat m) batches
           = Some (batches @ chunks k (drop m points))"
proof (induction "length points - m" arbitrary: m batches rule: less_induct)
  case less
  show ?case
  proof (cases "m < length points")
    case True
    have step: "count_batches (num_of_nat k) points (num_of_nat m) batches
        = count_batches (num_of_nat k) points (num_of_nat (m + k))
            (batches @ [take k (drop m points)])"
      using True slice_nat [OF True, of k]
      by (subst count_batches.simps) simp
    have "length points - (m + k) < length points - m" using True assms by simp
    from less [OF this] step True assms show ?thesis
      by (subst chunks.simps) (simp add: add.commute)
  next
    case False
    then show ?thesis
      by (subst count_batches.simps, subst chunks.simps) simp
  qed
qed

definition batch_bytes :: "('p \<Rightarrow> nat) \<Rightarrow> 'p list \<Rightarrow> nat" where
  "batch_bytes est b = sum_list (map est b)"

text \<open>A batch is within its limits: the number of points, and the bytes unless it is a single
  point that is too large by itself.\<close>

definition batch_ok :: "js_num \<Rightarrow> js_num \<Rightarrow> ('p \<Rightarrow> nat) \<Rightarrow> 'p list \<Rightarrow> bool" where
  "batch_ok sz maxBytes est b \<longleftrightarrow>
     b \<noteq> [] \<and> js_lt (num_of_nat (length b - 1)) sz
     \<and> (length b = 1 \<or> js_le (num_of_nat (batch_bytes est b)) maxBytes)"

lemma fill_batch_spec:
  assumes "fill_batch sz maxBytes est ps batch bytes = (b, rest)"
    and "bytes = batch_bytes est batch" "batch = [] \<or> batch_ok sz maxBytes est batch"
  shows "b @ rest = batch @ ps \<and> (b = batch \<or> batch_ok sz maxBytes est b)"
  using assms
proof (induction ps arbitrary: batch bytes)
  case Nil
  then show ?case by simp
next
  case (Cons p ps)
  show ?case
  proof (cases "js_lt (num_of_nat (length batch)) sz
      \<and> (length batch = 0 \<or> js_le (num_of_nat (bytes + est p)) maxBytes)")
    case True
    with Cons.prems have f: "fill_batch sz maxBytes est ps (batch @ [p]) (bytes + est p) = (b, rest)"
      by auto
    have bytes: "bytes + est p = batch_bytes est (batch @ [p])"
      using Cons.prems(2) by (simp add: batch_bytes_def)
    have "batch_ok sz maxBytes est (batch @ [p])"
      using True unfolding batch_ok_def bytes by auto
    with Cons.IH [OF f bytes] show ?thesis by auto
  next
    case False
    with Cons.prems show ?thesis by (auto split: if_splits)
  qed
qed

lemma fill_batch_takes:
  assumes "js_lt (Fin 0) sz" "fill_batch sz maxBytes est (p # ps) [] 0 = (b, rest)"
  shows "batch_ok sz maxBytes est b \<and> b @ rest = p # ps"
proof -
  from assms have f: "fill_batch sz maxBytes est ps [p] (est p) = (b, rest)" by simp
  moreover have "batch_ok sz maxBytes est [p]" using assms(1) by (simp add: batch_ok_def)
  ultimately show ?thesis
    using fill_batch_spec [OF f] by (auto simp: batch_bytes_def)
qed

lemma byte_batches_spec:
  assumes "js_lt (Fin 0) sz"
  shows "\<exists>bs. byte_batches sz maxBytes est points batches = Some (batches @ bs)
     \<and> concat bs = points \<and> (\<forall>b \<in> set bs. batch_ok sz maxBytes est b)"
proof (induction "length points" arbitrary: points batches rule: less_induct)
  case less
  show ?case
  proof (cases points)
    case Nil
    then show ?thesis by (simp add: byte_batches.simps)
  next
    case (Cons p ps)
    obtain b rest where f: "fill_batch sz maxBytes est points [] 0 = (b, rest)" by fastforce
    then have f': "fill_batch sz maxBytes est (p # ps) [] 0 = (b, rest)" by (simp only: Cons)
    from fill_batch_takes [OF assms f'] Cons
    have b: "batch_ok sz maxBytes est b" "b @ rest = points" by auto
    then have "length rest < length points" by (auto simp: batch_ok_def)
    from less [OF this, of "batches @ [b]"] obtain bs where
      bs: "byte_batches sz maxBytes est rest (batches @ [b]) = Some ((batches @ [b]) @ bs)"
      "concat bs = rest" "\<forall>b \<in> set bs. batch_ok sz maxBytes est b" by blast
    have "byte_batches sz maxBytes est points batches = Some (batches @ (b # bs))"
      using bs(1) by (subst byte_batches.simps) (simp add: f' Cons del: fill_batch.simps)
    with bs b show ?thesis by (intro exI [of _ "b # bs"]) auto
  qed
qed

lemma make_batches_spec:
  assumes "0 < k"
  shows "\<exists>bs. make_batches maxBytes (num_of_nat k) points = Some bs \<and> concat bs = points
     \<and> (\<forall>b \<in> set bs. b \<noteq> [] \<and> length b \<le> k
          \<and> (js_lt (Fin 0) maxBytes \<longrightarrow> length b = 1
               \<or> js_le (num_of_nat (batch_bytes estimatePointBytes b)) maxBytes))"
proof (cases "js_lt (Fin 0) maxBytes")
  case True
  have "js_lt (Fin 0) (num_of_nat k)" using assms by simp
  from byte_batches_spec [OF this, of maxBytes estimatePointBytes points "[]"] obtain bs where
    "make_batches maxBytes (num_of_nat k) points = Some bs" "concat bs = points"
    "\<forall>b \<in> set bs. batch_ok (num_of_nat k) maxBytes estimatePointBytes b"
    using True by (auto simp: make_batches_def)
  then show ?thesis by (fastforce simp: batch_ok_def)
next
  case False
  then show ?thesis
    using count_batches_chunks [OF assms, of points 0 "[]"] concat_chunks [OF assms, of points]
      chunks_bounds [of _ k points]
    by (auto simp: make_batches_def)
qed

section \<open>Laws of the workers\<close>

lemma js_mod_nat: "0 < n \<Longrightarrow> js_mod (of_nat a) (of_nat n) = of_nat (a mod n)"
proof -
  assume n: "0 < n"
  have "\<lfloor>(of_nat a :: rat) / of_nat n\<rfloor> = int (a div n)"
    using floor_divide_of_nat_eq [of a n, where 'a = rat] by simp
  then have "js_mod (of_nat a) (of_nat n) = of_nat a - of_nat n * of_nat (a div n)"
    by (simp add: js_mod_def)
  moreover have "(of_nat a :: rat) = of_nat n * of_nat (a div n) + of_nat (a mod n)"
    by (metis of_nat_add of_nat_mult mult_div_mod_eq)
  ultimately show ?thesis by linarith
qed

lemma shard_nat:
  "0 < n \<Longrightarrow> shard (num_of_nat n) i batches
     = map snd (filter (\<lambda>(idx, b). idx mod n = i) (enumerate 0 batches))"
  by (simp add: shard_def js_mod_nat)

lemma deal_mset:
  fixes ys :: "(nat \<times> 'b) list"
  assumes "0 < n"
  shows "(\<Sum>i<n. mset (map snd (filter (\<lambda>(idx, b). idx mod n = i) ys))) = mset (map snd ys)"
proof (induction ys)
  case Nil
  then show ?case by simp
next
  case (Cons y ys)
  obtain idx b where y: "y = (idx, b)" by (cases y)
  have split: "mset (map snd (filter (\<lambda>(idx, b). idx mod n = i) (y # ys)))
      = (if idx mod n = i then {#b#} else {#}) + mset (map snd (filter (\<lambda>(idx, b). idx mod n = i) ys))"
    for i by (simp add: y)
  have one: "(\<Sum>i<n. if idx mod n = i then {#b#} else {#}) = {#b#}"
    using assms sum.delta' [of "{..<n}" "idx mod n" "\<lambda>_. {#b#}"] by simp
  show ?case unfolding split sum.distrib one Cons.IH by (simp add: y)
qed

lemma shards_partition:
  "0 < n \<Longrightarrow> (\<Sum>i<n. mset (shard (num_of_nat n) i batches)) = mset batches"
  using deal_mset [of n "enumerate 0 batches"] by (simp add: shard_nat)

text \<open>Every upsert of a batch is acknowledged in full.\<close>

definition acknowledges :: "('p, 'w) upserter \<Rightarrow> 'p list set \<Rightarrow> bool" where
  "acknowledges up B \<longleftrightarrow>
     (\<forall>b \<in> B. \<forall>w. \<exists>sl w'. up b w = Some (Inr (num_of_nat (length b)), sl, w'))"

lemma upsert_all_counts:
  assumes "acknowledges up (set bs)"
  shows "\<exists>sl w'. upsert_all up bs (num_of_nat n) slept w
     = Some (Inr (num_of_nat (n + length (concat bs))), sl, w')"
  using assms
proof (induction bs arbitrary: n slept w)
  case Nil
  then show ?case by simp
next
  case (Cons b bs)
  from Cons.prems have "\<exists>sl w'. up b w = Some (Inr (num_of_nat (length b)), sl, w')"
    by (simp add: acknowledges_def)
  then obtain sl w' where b: "up b w = Some (Inr (num_of_nat (length b)), sl, w')" by blast
  have "acknowledges up (set bs)" using Cons.prems by (auto simp: acknowledges_def)
  from Cons.IH [OF this, of "n + length b" "slept @ sl" w'] b show ?case
    by (auto simp: add.assoc)
qed

text \<open>What the crew has counted and what is still to do add up to the whole at every moment.\<close>

definition left :: "'p worker \<Rightarrow> nat" where
  "left k = length (concat (todo k))"

definition crew_inv :: "'p list set \<Rightarrow> nat \<Rightarrow> ('p, 'w) crew \<Rightarrow> bool" where
  "crew_inv B N s \<longleftrightarrow>
     failed s = None \<and> (\<forall>k \<in> set (workers s). set (todo k) \<subseteq> B)
     \<and> (\<exists>ns. map subtotal (workers s) = map num_of_nat ns
          \<and> sum_list ns + sum_list (map left (workers s)) = N)"

lemma sum_list_update_add:
  fixes xs :: "'a :: comm_monoid_add list"
  shows "i < length xs \<Longrightarrow> sum_list (xs[i := v]) + xs ! i = sum_list xs + v"
proof (induction xs arbitrary: i)
  case (Cons x xs)
  then show ?case by (cases i) (auto simp: ac_simps)
qed simp

lemma crew_step_acknowledged:
  assumes ack: "acknowledges up B" and inv: "crew_inv B N s"
    and i: "i < length (workers s)" "todo (workers s ! i) = b # bs"
  shows "\<exists>t. crew_step up i s = Some t \<and> crew_inv B N t
    \<and> sum_list (map (length \<circ> todo) (workers t)) < sum_list (map (length \<circ> todo) (workers s))"
proof -
  from inv obtain ns where
    inv': "failed s = None" "\<forall>k \<in> set (workers s). set (todo k) \<subseteq> B"
    "map subtotal (workers s) = map num_of_nat ns" "sum_list ns + sum_list (map left (workers s)) = N"
    by (auto simp: crew_inv_def)
  then have len: "length ns = length (workers s)" by (metis length_map)
  have sub: "subtotal (workers s ! i) = num_of_nat (ns ! i)"
    using inv'(3) i(1) len by (metis nth_map)
  have kB: "set (b # bs) \<subseteq> B" using inv'(2) i by (metis nth_mem)
  then obtain sl w' where up: "up b (world s) = Some (Inr (num_of_nat (length b)), sl, w')"
    using ack by (force simp: acknowledges_def)
  let ?k = "\<lparr>todo = bs, subtotal = num_of_nat (ns ! i + length b)\<rparr>"
  define t where "t = s\<lparr>crew_slept := crew_slept s @ sl, world := w', workers := (workers s)[i := ?k]\<rparr>"
  have step: "crew_step up i s = Some t"
    using i up by (simp add: crew_step_def Let_def t_def sub)
  have "sum_list (ns[i := ns ! i + length b]) + sum_list (map left ((workers s)[i := ?k])) = N"
    using sum_list_update_add [of i ns "ns ! i + length b"]
      sum_list_update_add [of i "map left (workers s)" "left ?k"] inv'(4) i len
    by (simp add: map_update left_def)
  moreover have "map subtotal ((workers s)[i := ?k]) = map num_of_nat (ns[i := ns ! i + length b])"
    using inv'(3) by (simp add: map_update)
  moreover have "\<forall>k \<in> set ((workers s)[i := ?k]). set (todo k) \<subseteq> B"
    using inv'(2) kB by (auto dest!: subsetD [OF set_update_subset_insert])
  ultimately have "crew_inv B N t"
    using inv'(1) unfolding crew_inv_def t_def by auto
  moreover have "sum_list (map (length \<circ> todo) (workers t)) < sum_list (map (length \<circ> todo) (workers s))"
    using sum_list_update_add [of i "map (length \<circ> todo) (workers s)" "length bs"] i
    by (simp add: t_def map_update)
  ultimately show ?thesis using step by blast
qed

text \<open>Whatever every step of a worker with work keeps holds after every run, and some run does all the
  work.\<close>

definition crew_progress :: "('p, 'w) upserter \<Rightarrow> (('p, 'w) crew \<Rightarrow> bool) \<Rightarrow> bool" where
  "crew_progress up I \<longleftrightarrow>
     (\<forall>s i b bs. I s \<longrightarrow> i < length (workers s) \<longrightarrow> todo (workers s ! i) = b # bs \<longrightarrow>
        (\<exists>t. crew_step up i s = Some t \<and> I t
          \<and> sum_list (map (length \<circ> todo) (workers t)) < sum_list (map (length \<circ> todo) (workers s))))"

lemma crew_run_keeps:
  assumes "crew_progress up I" and "I s"
  shows "\<And>sched t. crew_run up sched s = Some t \<Longrightarrow> I t"
    and "\<exists>sched t. crew_run up sched s = Some t \<and> I t \<and> (\<forall>k \<in> set (workers t). todo k = [])"
proof -
  note step = assms(1) [unfolded crew_progress_def, rule_format]
  show "I t" if "crew_run up sched s = Some t" for sched t
    using that \<open>I s\<close>
  proof (induction sched arbitrary: s)
    case (Cons i sched)
    then obtain u where u: "crew_step up i s = Some u" "crew_run up sched u = Some t"
      by (auto simp: bind_eq_Some_conv)
    then obtain b bs where "i < length (workers s)" "todo (workers s ! i) = b # bs"
      by (auto simp: crew_step_def split: if_splits list.splits)
    with step [OF Cons.prems(2)] u(1) have "I u" by fastforce
    with Cons.IH [OF u(2)] show ?case by simp
  qed simp
  show "\<exists>sched t. crew_run up sched s = Some t \<and> I t \<and> (\<forall>k \<in> set (workers t). todo k = [])"
    using \<open>I s\<close>
  proof (induction "sum_list (map (length \<circ> todo) (workers s))" arbitrary: s rule: less_induct)
    case less
    show ?case
    proof (cases "\<forall>k \<in> set (workers s). todo k = []")
      case True
      with less.prems show ?thesis by (intro exI [of _ "[]"] exI [of _ s]) simp
    next
      case False
      then obtain i b bs where "i < length (workers s)" "todo (workers s ! i) = b # bs"
        by (metis in_set_conv_nth neq_Nil_conv)
      from step [OF less.prems this] obtain u where
        u: "crew_step up i s = Some u" "I u"
          "sum_list (map (length \<circ> todo) (workers u)) < sum_list (map (length \<circ> todo) (workers s))"
        by blast
      from less.hyps [OF u(3,2)] obtain sched t where
        "crew_run up sched u = Some t" "I t" "\<forall>k \<in> set (workers t). todo k = []" by blast
      with u(1) show ?thesis by (intro exI [of _ "i # sched"] exI [of _ t]) simp
    qed
  qed
qed

lemma acknowledged_progress: "acknowledges up B \<Longrightarrow> crew_progress up (crew_inv B N)"
  unfolding crew_progress_def using crew_step_acknowledged by blast

lemma foldl_js_add: "foldl js_add (num_of_nat a) (map num_of_nat ns) = num_of_nat (a + sum_list ns)"
  by (induction ns arbitrary: a) (simp_all add: add.assoc flip: of_nat_add)

lemma crew_result_counts:
  assumes "crew_inv B N s" "crew_result s = Some r"
  shows "r = (Inr (num_of_nat N), crew_slept s, world s)"
proof -
  from assms(1) obtain ns where ns: "failed s = None" "map subtotal (workers s) = map num_of_nat ns"
    "sum_list ns + sum_list (map left (workers s)) = N" by (auto simp: crew_inv_def)
  with assms(2) have "\<forall>k \<in> set (workers s). todo k = []"
    and r: "r = (Inr (foldl js_add (num_of_nat 0) (map num_of_nat ns)), crew_slept s, world s)"
    by (auto simp: crew_result_def split: if_splits)
  then have "sum_list (map left (workers s)) = 0" by (simp add: left_def)
  with ns(3) r show ?thesis unfolding foldl_js_add by simp
qed

lemma length_concat_mset: "length (concat xs) = (\<Sum>b \<in># mset xs. length b)"
  by (simp add: length_concat sum_mset_sum_list flip: mset_map)

lemma sum_mset_family:
  fixes g :: "'b \<Rightarrow> 'c :: comm_monoid_add" and n :: nat
  shows "(\<Sum>b \<in># (\<Sum>i<n. f i). g b) = (\<Sum>i<n. \<Sum>b \<in># f i. g b)"
  by (induction n) simp_all

lemma start_crew_inv:
  assumes "0 < n"
  shows "crew_inv (set batches) (length (concat batches)) (start_crew (num_of_nat n) n batches w)"
proof -
  let ?sh = "\<lambda>i. shard (num_of_nat n) i batches"
  have "sum_list (map (\<lambda>i. length (concat (?sh i))) [0..<n]) = (\<Sum>i<n. \<Sum>b \<in># mset (?sh i). length b)"
    by (simp add: length_concat_mset interv_sum_list_conv_sum_set_nat atLeast0LessThan)
  also have "\<dots> = (\<Sum>b \<in># (\<Sum>i<n. mset (?sh i)). length b)"
    by (simp only: sum_mset_family)
  also have "\<dots> = length (concat batches)"
    by (simp only: shards_partition [OF assms] length_concat_mset)
  finally have "sum_list (map (\<lambda>i. length (concat (?sh i))) [0..<n]) = length (concat batches)" .
  then have "sum_list (replicate n 0) + sum_list (map left (workers (start_crew (num_of_nat n) n batches w)))
      = length (concat batches)"
    by (simp add: start_crew_def left_def comp_def)
  moreover have "map subtotal (workers (start_crew (num_of_nat n) n batches w)) = map num_of_nat (replicate n 0)"
    by (simp add: start_crew_def comp_def map_replicate_const)
  moreover have "set (?sh i) \<subseteq> set batches" for i
  proof
    fix b assume "b \<in> set (?sh i)"
    then show "b \<in> set batches"
      using assms by (auto simp: shard_nat in_set_enumerate_eq)
  qed
  then have "\<forall>k \<in> set (workers (start_crew (num_of_nat n) n batches w)). set (todo k) \<subseteq> set batches"
    by (auto simp: start_crew_def)
  moreover have "failed (start_crew (num_of_nat n) n batches w) = None" by (simp add: start_crew_def)
  ultimately show ?thesis unfolding crew_inv_def by blast
qed

section \<open>What the server has\<close>

text \<open>\<open>has w\<close> is what the server has of the points, \<open>eff p\<close> what it makes of the point \<open>p\<close>. An upsert
  that succeeds counts and stores its whole batch; one that fails may have stored any part of it.\<close>

definition store_effect ::
  "('w \<Rightarrow> 'q multiset) \<Rightarrow> ('p \<Rightarrow> 'q) \<Rightarrow> 'p list \<Rightarrow> 'w \<Rightarrow> thrown + js_num \<Rightarrow> 'w \<Rightarrow> bool" where
  "store_effect has eff b w res w' \<longleftrightarrow>
     (case res of
        Inr n \<Rightarrow> n = num_of_nat (length b) \<and> has w' = has w + image_mset eff (mset b)
      | Inl e \<Rightarrow> has w \<subseteq># has w' \<and> has w' \<subseteq># has w + image_mset eff (mset b))"

definition stores :: "('w \<Rightarrow> 'q multiset) \<Rightarrow> ('p \<Rightarrow> 'q) \<Rightarrow> ('p, 'w) upserter \<Rightarrow> 'p list set \<Rightarrow> bool" where
  "stores has eff up B \<longleftrightarrow>
     (\<forall>b \<in> B. \<forall>w. \<exists>res sl w'. up b w = Some (res, sl, w') \<and> store_effect has eff b w res w')"

lemma store_effect_append:
  assumes "store_effect has eff b w (Inr n) w'" "store_effect has eff c w' res w''"
  shows "case res of
      Inr m \<Rightarrow> store_effect has eff (b @ c) w (Inr (js_add n m)) w''
    | Inl e \<Rightarrow> store_effect has eff (b @ c) w (Inl e) w''"
  using assms
  by (auto simp: store_effect_def ac_simps split: sum.splits
      intro: subset_mset.order_trans [OF mset_subset_eq_add_left])

lemma storesD:
  "stores has eff up B \<Longrightarrow> b \<in> B \<Longrightarrow> \<exists>res sl w'. up b w = Some (res, sl, w') \<and> store_effect has eff b w res w'"
  by (simp add: stores_def)

lemma upsert_all_stores:
  assumes "stores has eff up (set bs)"
  shows "\<exists>res sl w'. upsert_all up bs tot slept w = Some (res, sl, w')
    \<and> (\<forall>ds w0. store_effect has eff ds w0 (Inr tot) w \<longrightarrow>
         store_effect has eff (ds @ concat bs) w0 res w')"
  using assms
proof (induction bs arbitrary: tot slept w)
  case Nil
  then show ?case by simp
next
  case (Cons b bs)
  then have bs: "stores has eff up (set bs)" by (simp add: stores_def)
  from storesD [OF Cons.prems, of b w] obtain res sl w' where
    b: "up b w = Some (res, sl, w')" "store_effect has eff b w res w'" by auto
  show ?case
  proof (cases res)
    case (Inl e)
    have "store_effect has eff (ds @ b @ concat bs) w0 (Inl e) w'"
      if "store_effect has eff ds w0 (Inr tot) w" for ds w0
      using store_effect_append [OF that b(2) [unfolded Inl]]
      by (auto simp: store_effect_def intro: subset_mset.order_trans)
    with b(1) Inl show ?thesis by simp
  next
    case (Inr n)
    from Cons.IH [OF bs, of "js_add tot n" "slept @ sl" w'] obtain r s u where
      IH: "upsert_all up bs (js_add tot n) (slept @ sl) w' = Some (r, s, u)"
      "\<And>ds w0. store_effect has eff ds w0 (Inr (js_add tot n)) w' \<Longrightarrow>
         store_effect has eff (ds @ concat bs) w0 r u" by blast
    have "store_effect has eff (ds @ b @ concat bs) w0 r u"
      if "store_effect has eff ds w0 (Inr tot) w" for ds w0
      using IH(2) [of "ds @ b" w0] store_effect_append [OF that b(2) [unfolded Inr]] by simp
    with b(1) Inr IH(1) show ?thesis by simp
  qed
qed

text \<open>The invariant of the crew: what is stored, what was lost by failures and what is still to do are
  the whole; while nothing has failed nothing is lost, and the workers have counted what is stored.\<close>

definition pending :: "('p, 'w) crew \<Rightarrow> 'p multiset" where
  "pending s = sum_list (map (\<lambda>k. mset (concat (todo k))) (workers s))"

definition crew_store ::
  "('w \<Rightarrow> 'q multiset) \<Rightarrow> ('p \<Rightarrow> 'q) \<Rightarrow> 'p list set \<Rightarrow> 'p list \<Rightarrow> 'w \<Rightarrow> ('p, 'w) crew \<Rightarrow> bool" where
  "crew_store has eff B points w s \<longleftrightarrow>
     (\<forall>k \<in> set (workers s). set (todo k) \<subseteq> B) \<and> has w \<subseteq># has (world s)
     \<and> (\<exists>lost. has (world s) + lost + image_mset eff (pending s) = has w + image_mset eff (mset points)
          \<and> (failed s = None \<longrightarrow> lost = {#}))
     \<and> (failed s = None \<longrightarrow>
          (\<exists>ns. map subtotal (workers s) = map num_of_nat ns \<and> sum_list ns + size (pending s) = length points))"

lemma pending_update:
  assumes "i < length (workers s)" "workers t = (workers s)[i := k]"
  shows "pending t + mset (concat (todo (workers s ! i))) = pending s + mset (concat (todo k))"
  using sum_list_update_add [of i "map (\<lambda>k. mset (concat (todo k))) (workers s)" "mset (concat (todo k))"] assms
  by (simp add: pending_def map_update)

lemma crew_store_todo:
  assumes "\<forall>k \<in> set (workers s). set (todo k) \<subseteq> B" "set (todo k) \<subseteq> B"
  shows "\<forall>k \<in> set ((workers s)[i := k]). set (todo k) \<subseteq> B"
  using assms by (auto dest!: subsetD [OF set_update_subset_insert])

lemma crew_store_success:
  assumes inv: "crew_store has eff B points w s" and i: "i < length (workers s)" "todo (workers s ! i) = b # bs"
    and eff: "store_effect has eff b (world s) (Inr n) u"
    and t: "workers t = (workers s)[i := \<lparr>todo = bs, subtotal = js_add (subtotal (workers s ! i)) n\<rparr>]"
      "failed t = failed s" "world t = u"
  shows "crew_store has eff B points w t"
proof -
  have n: "n = num_of_nat (length b)" "has u = has (world s) + image_mset eff (mset b)"
    using eff by (simp_all add: store_effect_def)
  have p: "pending s = pending t + mset b"
    using pending_update [OF i(1) t(1)] i(2) by (simp add: ac_simps)
  have "set bs \<subseteq> B" using inv i by (force simp: crew_store_def dest: nth_mem)
  then have "\<forall>k \<in> set (workers t). set (todo k) \<subseteq> B"
    using inv unfolding t(1) by (intro crew_store_todo) (simp_all add: crew_store_def)
  moreover have "\<exists>ms. map subtotal (workers t) = map num_of_nat ms \<and> sum_list ms + size (pending t) = length points"
    if "failed s = None"
  proof -
    from that inv obtain ns where ns: "map subtotal (workers s) = map num_of_nat ns"
      "sum_list ns + size (pending s) = length points" by (auto simp: crew_store_def)
    then have len: "length ns = length (workers s)" by (metis length_map)
    then have "subtotal (workers s ! i) = num_of_nat (ns ! i)" using ns(1) i(1) by (metis nth_map)
    then have "map subtotal (workers t) = map num_of_nat (ns[i := ns ! i + length b])"
      using ns(1) by (simp add: t(1) map_update n(1))
    then show ?thesis
      using sum_list_update_add [of i ns "ns ! i + length b"] ns(2) p i(1) len
      by (intro exI [of _ "ns[i := ns ! i + length b]"]) simp
  qed
  ultimately show ?thesis
    using inv unfolding crew_store_def t(2,3) n(2) p
    by (auto simp: ac_simps intro: subset_mset.order_trans)
qed

lemma crew_store_failure:
  assumes inv: "crew_store has eff B points w s" and i: "i < length (workers s)" "todo (workers s ! i) = b # bs"
    and eff: "store_effect has eff b (world s) (Inl e) u"
    and t: "workers t = (workers s)[i := (workers s ! i)\<lparr>todo := []\<rparr>]" "failed t \<noteq> None" "world t = u"
  shows "crew_store has eff B points w t"
proof -
  have p: "pending s = pending t + mset b + mset (concat bs)"
    using pending_update [OF i(1) t(1)] i(2) by (simp add: ac_simps)
  from inv obtain lost where l: "has (world s) + lost + image_mset eff (pending s) = has w + image_mset eff (mset points)"
    "has w \<subseteq># has (world s)" by (auto simp: crew_store_def)
  from eff obtain x where x: "has (world s) + image_mset eff (mset b) = has u + x" "has (world s) \<subseteq># has u"
    by (auto simp: store_effect_def mset_subset_eq_exists_conv)
  have "has u + (x + lost + image_mset eff (mset (concat bs))) + image_mset eff (pending t)
      = (has u + x) + lost + image_mset eff (mset (concat bs)) + image_mset eff (pending t)"
    by (simp add: ac_simps)
  also have "\<dots> = has (world s) + lost + image_mset eff (pending s)"
    unfolding x(1) [symmetric] p by (simp add: ac_simps)
  finally have "\<exists>lost'. has u + lost' + image_mset eff (pending t) = has w + image_mset eff (mset points)"
    using l(1) by auto
  moreover have "\<forall>k \<in> set (workers t). set (todo k) \<subseteq> B"
    using inv unfolding t(1) by (intro crew_store_todo) (simp_all add: crew_store_def)
  ultimately show ?thesis
    using subset_mset.order_trans [OF l(2) x(2)] t(2) unfolding crew_store_def t(3) by auto
qed

lemma crew_step_store:
  assumes "stores has eff up B" "crew_store has eff B points w s"
    and i: "i < length (workers s)" "todo (workers s ! i) = b # bs"
  shows "\<exists>t. crew_step up i s = Some t \<and> crew_store has eff B points w t
    \<and> sum_list (map (length \<circ> todo) (workers t)) < sum_list (map (length \<circ> todo) (workers s))"
proof -
  have "b \<in> B" using assms(2) i by (force simp: crew_store_def dest: nth_mem)
  from storesD [OF assms(1) this, of "world s"] obtain res sl u where
    up: "up b (world s) = Some (res, sl, u)" "store_effect has eff b (world s) res u" by blast
  have less: "sum_list (map (length \<circ> todo) ((workers s)[i := k])) < sum_list (map (length \<circ> todo) (workers s))"
    if "length (todo k) \<le> length bs" for k
    using sum_list_update_add [of i "map (length \<circ> todo) (workers s)" "length (todo k)"] that i
    by (simp add: map_update)
  show ?thesis
  proof (cases res)
    case (Inr n)
    let ?t = "s\<lparr>crew_slept := crew_slept s @ sl, world := u, workers := (workers s)[i :=
                 \<lparr>todo = bs, subtotal = js_add (subtotal (workers s ! i)) n\<rparr>]\<rparr>"
    have "crew_step up i s = Some ?t" using i up(1) Inr by (simp add: crew_step_def Let_def)
    moreover have "crew_store has eff B points w ?t"
      by (rule crew_store_success [OF assms(2) i up(2) [unfolded Inr]]) simp_all
    ultimately show ?thesis using less by auto
  next
    case (Inl e)
    let ?t = "s\<lparr>crew_slept := crew_slept s @ sl, world := u, workers := (workers s)[i := (workers s ! i)\<lparr>todo := []\<rparr>],
                failed := (case failed s of None \<Rightarrow> Some e | Some f \<Rightarrow> Some f)\<rparr>"
    have "crew_step up i s = Some ?t" using i up(1) Inl by (simp add: crew_step_def Let_def)
    moreover have "crew_store has eff B points w ?t"
      by (rule crew_store_failure [OF assms(2) i up(2) [unfolded Inl]]) (simp_all split: option.splits)
    ultimately show ?thesis using less by auto
  qed
qed

lemma stores_progress: "stores has eff up B \<Longrightarrow> crew_progress up (crew_store has eff B points w)"
  unfolding crew_progress_def by (intro allI impI) (rule crew_step_store)

lemma mset_concat_sum: "mset (concat xs) = (\<Sum>b \<in># mset xs. mset b)"
  by (induction xs) simp_all

lemma start_crew_store:
  assumes "0 < n"
  shows "crew_store has eff (set batches) (concat batches) w (start_crew (num_of_nat n) n batches w)"
proof -
  let ?sh = "\<lambda>i. shard (num_of_nat n) i batches" and ?s = "start_crew (num_of_nat n) n batches w"
  have "pending ?s = (\<Sum>i<n. \<Sum>b \<in># mset (?sh i). mset b)"
    by (simp add: pending_def start_crew_def comp_def mset_concat_sum interv_sum_list_conv_sum_set_nat atLeast0LessThan)
  also have "\<dots> = (\<Sum>b \<in># (\<Sum>i<n. mset (?sh i)). mset b)"
    by (simp only: sum_mset_family)
  finally have p: "pending ?s = mset (concat batches)"
    by (simp only: shards_partition [OF assms] mset_concat_sum)
  moreover have "map subtotal (workers ?s) = map num_of_nat (replicate n 0)
      \<and> sum_list (replicate n 0) + size (pending ?s) = length (concat batches)"
    unfolding p by (simp add: start_crew_def comp_def map_replicate_const)
  then have "\<exists>ns. map subtotal (workers ?s) = map num_of_nat ns \<and> sum_list ns + size (pending ?s) = length (concat batches)"
    by (rule exI)
  moreover have "set (?sh i) \<subseteq> set batches" for i
    using assms by (auto simp: shard_nat in_set_enumerate_eq)
  then have "\<forall>k \<in> set (workers ?s). set (todo k) \<subseteq> set batches"
    by (auto simp: start_crew_def)
  moreover have "world ?s = w" "failed ?s = None" by (simp_all add: start_crew_def)
  ultimately show ?thesis unfolding crew_store_def by simp
qed

lemma sum_list_todo: "\<forall>k \<in> set ks. todo k = [] \<Longrightarrow> sum_list (map (\<lambda>k. mset (concat (todo k))) ks) = {#}"
  by (induction ks) simp_all

lemma crew_result_store:
  assumes "crew_store has eff B points w s" "crew_result s = Some (res, sl, w')"
  shows "store_effect has eff points w res w'"
proof (cases "failed s")
  case None
  with assms obtain ns where ns: "map subtotal (workers s) = map num_of_nat ns"
    "sum_list ns + size (pending s) = length points"
    "has (world s) + image_mset eff (pending s) = has w + image_mset eff (mset points)"
    by (auto simp: crew_store_def)
  from None assms(2) have "\<forall>k \<in> set (workers s). todo k = []"
    and r: "res = Inr (foldl js_add (num_of_nat 0) (map num_of_nat ns))" "w' = world s"
    using ns(1) by (auto simp: crew_result_def split: if_splits)
  then have "pending s = {#}" unfolding pending_def by (intro sum_list_todo)
  with ns r show ?thesis unfolding foldl_js_add by (simp add: store_effect_def)
next
  case (Some e)
  with assms(2) have r: "res = Inl e" "w' = world s" by (auto simp: crew_result_def)
  from assms(1) obtain lost where
    "has (world s) + lost + image_mset eff (pending s) = has w + image_mset eff (mset points)"
    "has w \<subseteq># has (world s)" by (auto simp: crew_store_def)
  then show ?thesis
    by (auto simp: store_effect_def r mset_subset_eq_exists_conv) (metis add.assoc)
qed

text \<open>Under every schedule, a batched upsert has the effect of one upsert of all points, and some
  schedule completes.\<close>

lemma upsertBatch_stores_points:
  assumes "0 < k" "0 < n" "points \<noteq> []"
    and atomic: "\<And>b w. b \<noteq> [] \<Longrightarrow> set b \<subseteq> set points \<Longrightarrow>
        \<exists>res sl w'. upsert c S collection b w = Some (res, sl, w') \<and> store_effect has eff b w res w'"
  shows "(\<forall>sched res sl w'.
            upsertBatch c S collection points (num_of_nat k) (num_of_nat n) sched w = Some (res, sl, w')
            \<longrightarrow> store_effect has eff points w res w')
       \<and> (\<exists>sched r. upsertBatch c S collection points (num_of_nat k) (num_of_nat n) sched w = Some r)"
proof -
  let ?up = "upsert c S collection"
  obtain bs where bs: "make_batches (nullish (o_maxBatchBytes (c_options c)) (Fin 0)) (num_of_nat k) points = Some bs"
    "concat bs = points" "\<forall>b \<in> set bs. b \<noteq> []"
    using make_batches_spec [OF assms(1)] by metis
  have "set b \<subseteq> set points" if "b \<in> set bs" for b using that bs(2) by auto
  with bs(3) atomic have up: "stores has eff ?up (set bs)" by (simp add: stores_def)
  have whole: "\<not> js_le (num_of_nat k) (Fin 0)" "\<not> js_le (num_of_nat n) (Fin 0)"
    using assms(1,2) by (simp_all add: js_le_def)
  show ?thesis
  proof (cases "n = 1")
    case True
    have "store_effect has eff [] w (Inr (Fin 0)) w" by (simp add: store_effect_def)
    with upsert_all_stores [OF up, of "Fin 0" "[]" w] bs(2) obtain r sl u where
      "upsert_all ?up bs (Fin 0) [] w = Some (r, sl, u)" "store_effect has eff points w r u" by fastforce
    moreover have "upsertBatch c S collection points (num_of_nat k) (num_of_nat n) sched w
        = upsert_all ?up bs (Fin 0) [] w" for sched
      using True whole bs(1) assms(3) by (simp add: upsertBatch_def js_eq_def)
    ultimately show ?thesis by simp
  next
    case False
    let ?s = "start_crew (num_of_nat n) n bs w"
    have batch: "upsertBatch c S collection points (num_of_nat k) (num_of_nat n) sched w
        = Option.bind (crew_run ?up sched ?s) crew_result" for sched
      using False whole bs(1) assms(3) by (simp add: upsertBatch_def js_eq_def worker_count_def)
    have inv: "crew_store has eff (set bs) points w ?s"
      using start_crew_store [OF assms(2), of has eff bs w] bs(2) by simp
    note run = crew_run_keeps [OF stores_progress [OF up] inv]
    from run(2) obtain sched t where
      t: "crew_run ?up sched ?s = Some t" "\<forall>k \<in> set (workers t). todo k = []" by blast
    then have "\<exists>r. crew_result t = Some r" by (cases "failed t") (simp_all add: crew_result_def)
    with t(1) have "\<exists>sched r. upsertBatch c S collection points (num_of_nat k) (num_of_nat n) sched w = Some r"
      unfolding batch by (metis bind.bind_lunit)
    moreover have "store_effect has eff points w res w'"
      if "upsertBatch c S collection points (num_of_nat k) (num_of_nat n) sched w = Some (res, sl, w')"
      for sched res sl w'
      using that run(1) crew_result_store
      unfolding batch bind_eq_Some_conv by metis
    ultimately show ?thesis by blast
  qed
qed

section \<open>Properties\<close>

text \<open>C4: Whatever byte limit is set, splitting with a whole positive batch size ends and loses,
  duplicates or reorders nothing: the batches joined together are the points. No batch is
  empty or has more than \<^verbatim>\<open>batchSize\<close> points, and with a byte limit only a batch of a single
  point can be estimated above it.\<close>

theorem batches_cover_points:
  assumes "0 < k"
  shows "\<exists>bs. make_batches maxBytes (num_of_nat k) points = Some bs \<and> concat bs = points
     \<and> (\<forall>b \<in> set bs. b \<noteq> [] \<and> length b \<le> k
          \<and> (js_lt (Fin 0) maxBytes \<longrightarrow> length b = 1
               \<or> js_le (num_of_nat (sum_list (map estimatePointBytes b))) maxBytes))"
  using make_batches_spec [OF assms] unfolding batch_bytes_def .

definition sample_points :: "ClientPoint list" where
  "sample_points =
     map (\<lambda>i. \<lparr>cp_id = [i], cp_vector = [Fin 1, Fin 2], cp_payload = None\<rparr>) ''abc''"

theorem batches_cover_points_witness:
  "\<exists>bs. make_batches (Fin 60) (num_of_nat 2) sample_points = Some bs \<and> concat bs = sample_points
     \<and> (\<forall>b \<in> set bs. b \<noteq> [] \<and> length b \<le> 2
          \<and> (js_lt (Fin 0) (Fin 60) \<longrightarrow> length b = 1
               \<or> js_le (num_of_nat (sum_list (map estimatePointBytes b))) (Fin 60)))"
  by (rule batches_cover_points) simp

text \<open>With a whole number of workers every batch is dealt to exactly one of them: the shards
  taken together are the batches, as multisets.\<close>

theorem shards_deal_every_batch:
  assumes "0 < n"
  shows "(\<Sum>i<n. mset (shard (num_of_nat n) i batches)) = mset batches"
  using assms by (rule shards_partition)

theorem shards_deal_every_batch_witness:
  "(\<Sum>i<2. mset (shard (num_of_nat 2) i [''a'', ''b'', ''c''])) = mset [''a'', ''b'', ''c'']"
  by (rule shards_deal_every_batch) simp

text \<open>C3: If the server acknowledges every batch in full, \<^verbatim>\<open>upsertBatch\<close> reports the number of
  points, with any whole number of workers: under every schedule the result, once there is one,
  is that number, and some schedule completes the work, so the count does not depend on how the
  workers interleave.\<close>

theorem upsertBatch_counts_points:
  assumes "0 < k" "0 < n" "points \<noteq> []"
    and ack: "\<And>b w. b \<noteq> [] \<Longrightarrow> set b \<subseteq> set points \<Longrightarrow>
        \<exists>sl w'. upsert c S collection b w = Some (Inr (num_of_nat (length b)), sl, w')"
  shows "(\<forall>sched r. upsertBatch c S collection points (num_of_nat k) (num_of_nat n) sched w = Some r
            \<longrightarrow> fst r = Inr (num_of_nat (length points)))
       \<and> (\<exists>sched r. upsertBatch c S collection points (num_of_nat k) (num_of_nat n) sched w = Some r)"
proof -
  let ?up = "upsert c S collection"
  obtain bs where bs: "make_batches (nullish (o_maxBatchBytes (c_options c)) (Fin 0)) (num_of_nat k) points = Some bs"
    "concat bs = points" "\<forall>b \<in> set bs. b \<noteq> []"
    using make_batches_spec [OF assms(1)] by metis
  have "set b \<subseteq> set points" if "b \<in> set bs" for b using that bs(2) by auto
  with bs(3) ack have up: "acknowledges ?up (set bs)" by (simp add: acknowledges_def)
  have whole: "\<not> js_le (num_of_nat k) (Fin 0)" "\<not> js_le (num_of_nat n) (Fin 0)"
    using assms(1,2) by (simp_all add: js_le_def)
  show ?thesis
  proof (cases "n = 1")
    case True
    from upsert_all_counts [OF up, of 0 "[]" w] True whole bs(1,2) assms(3) show ?thesis
      by (auto simp: upsertBatch_def js_eq_def js_le_def)
  next
    case False
    let ?s = "start_crew (num_of_nat n) n bs w"
    have batch: "upsertBatch c S collection points (num_of_nat k) (num_of_nat n) sched w
        = Option.bind (crew_run ?up sched ?s) crew_result" for sched
      using False whole bs(1) assms(3) by (simp add: upsertBatch_def js_eq_def worker_count_def)
    have inv: "crew_inv (set bs) (length points) ?s"
      using start_crew_inv [OF assms(2), of bs w] bs(2) by simp
    note run = crew_run_keeps [OF acknowledged_progress [OF up] inv]
    from run(2) obtain sched t where
      t: "crew_run ?up sched ?s = Some t" "\<forall>k \<in> set (workers t). todo k = []" by blast
    have "failed t = None" using run(1) [OF t(1)] by (simp add: crew_inv_def)
    with t have "\<exists>r. upsertBatch c S collection points (num_of_nat k) (num_of_nat n) sched w = Some r"
      by (simp add: batch crew_result_def)
    moreover have "fst r = Inr (num_of_nat (length points))"
      if "upsertBatch c S collection points (num_of_nat k) (num_of_nat n) sched w = Some r" for sched r
      using that run(1) crew_result_counts
      unfolding batch bind_eq_Some_conv by fastforce
    ultimately show ?thesis by blast
  qed
qed

lemma echo_acknowledges:
  assumes "b \<noteq> []" "set b \<subseteq> set sample_points"
  shows "\<exists>sl w'. upsert sample_client echo_service ''docs'' b w = Some (Inr (num_of_nat (length b)), sl, w')"
proof -
  have "\<forall>p \<in> set b. storable sample_client p"
    using assms(2) by (auto simp: sample_points_def sample_simps)
  then have "upsert sample_client echo_service ''docs'' b w =
      write_call sample_client echo_service (s_upsert echo_service) (upsert_request ''docs'' b)
       (\<lambda>response. Inr (UpsertResponse_upserted response)) w"
    using assms(1) by (intro upsert_valid) simp_all
  also have "\<dots> = Some (settle (res_bind (Inr \<lparr>UpsertResponse_upserted = num_of_nat (length b)\<rparr>)
      (\<lambda>response. Inr (UpsertResponse_upserted response))), [], Suc w)"
    by (rule write_call_once) (simp_all add: sample_simps upsert_request_def)
  finally show ?thesis by (simp add: settle_def)
qed

theorem upsertBatch_counts_points_witness:
  "\<exists>sched r. upsertBatch sample_client echo_service ''docs'' sample_points (num_of_nat 1) (num_of_nat 2)
      sched 0 = Some r \<and> fst r = Inr (Fin 3)"
proof -
  have "sample_points \<noteq> []" "length sample_points = 3" by (simp_all add: sample_points_def)
  with upsertBatch_counts_points [of 1 2 sample_points sample_client echo_service "''docs''" 0]
    echo_acknowledges
  show ?thesis by fastforce
qed

text \<open>A batch size that is not a number loses every point silently: one empty batch is made,
  nothing is sent, and the caller is told that 0 points were stored.\<close>

theorem nan_batch_size_drops_points:
  assumes "collection \<noteq> []" "\<not> js_lt (Fin 0) (nullish (o_maxBatchBytes (c_options c)) (Fin 0))"
  shows "upsertBatch c S collection points NaN (Fin 1) sched w = Some (Inr (Fin 0), [], w)"
proof -
  have "points \<noteq> [] \<Longrightarrow> count_batches NaN points (Fin 0) [] = Some [[]]"
    by (simp add: count_batches.simps slice_def slice_index_def)
  with assms show ?thesis
    by (simp add: upsertBatch_def js_le_def make_batches_def js_eq_def upsert_def Let_def)
qed

theorem nan_batch_size_drops_points_witness:
  "upsertBatch sample_client echo_service ''docs'' sample_points NaN (Fin 1) [] 0
     = Some (Inr (Fin 0), [], 0)"
  by (rule nan_batch_size_drops_points) (simp_all add: sample_simps)










end
