(* ===== verification/Client_Pool.thy ===== *)
theory Client_Pool
  imports Upsert_Batch
begin

text \<open>
  \<^verbatim>\<open>VectronClientPool\<close> and the static \<^verbatim>\<open>VectronClient.help\<close> of \<^verbatim>\<open>clientlibs/js/src/client.ts\<close>.

  The clients of a pool are distinct objects with the same configuration; each is paired with
  the number of its construction, which stands for its identity and its channel. The index is a
  JavaScript number: for a pool without clients it becomes \<^verbatim>\<open>NaN\<close>.
\<close>

section \<open>The pool\<close>

record VectronClientPool =
  p_clients :: "(nat \<times> VectronClient) list"
  p_index :: js_num

text \<open>The length of \<^verbatim>\<open>Array.from({ length: count })\<close>: fractions are cut off, and an array cannot have
  more than \<open>2 ^ 32 - 1\<close> elements.\<close>

definition array_length :: "js_num \<Rightarrow> thrown + nat" where
  "array_length n =
     (case n of
        Fin q \<Rightarrow> if q < 2 ^ 32 then Inr (nat \<lfloor>q\<rfloor>) else Inl (TOther ''RangeError: Invalid array length'')
      | PosInf \<Rightarrow> Inl (TOther ''RangeError: Invalid array length'')
      | _ \<Rightarrow> Inr 0)"

text \<open>\<^verbatim>\<open>size\<close> has the default value 1.\<close>

definition new_VectronClientPool ::
  "string \<Rightarrow> string option \<Rightarrow> ClientOptions option \<Rightarrow> js_num option \<Rightarrow> thrown + VectronClientPool" where
  "new_VectronClientPool host apiKey options size' =
     (let sz = nullish size' (Fin 1);
          count = (if js_lt (Fin 0) sz then sz else Fin 1)
      in res_bind (array_length count) (\<lambda>n.
           res_bind (res_map (\<lambda>i. res_bind (new_VectronClient host apiKey options) (\<lambda>c. Inr (i, c))) [0..<n])
             (\<lambda>cs. Inr \<lparr>p_clients = cs, p_index = Fin 0\<rparr>)))"

definition element_at :: "'a list \<Rightarrow> js_num \<Rightarrow> 'a option" where
  "element_at xs n =
     (case n of
        Fin q \<Rightarrow> if 0 \<le> q \<and> of_int \<lfloor>q\<rfloor> = q \<and> nat \<lfloor>q\<rfloor> < length xs then Some (xs ! nat \<lfloor>q\<rfloor>) else None
      | _ \<Rightarrow> None)"

definition js_rem :: "js_num \<Rightarrow> nat \<Rightarrow> js_num" where
  "js_rem n m =
     (case n of Fin q \<Rightarrow> if m = 0 then NaN else Fin (js_mod q (of_nat m)) | _ \<Rightarrow> NaN)"

text \<open>\<^verbatim>\<open>next()\<close>; \<open>None\<close> is \<^verbatim>\<open>undefined\<close>.\<close>

definition pool_next :: "VectronClientPool \<Rightarrow> (nat \<times> VectronClient) option \<times> VectronClientPool" where
  "pool_next p =
     (let client = element_at (p_clients p) (p_index p)
      in (client, p\<lparr>p_index := js_rem (js_add (p_index p) (Fin 1)) (length (p_clients p))\<rparr>))"

text \<open>\<open>services\<close> gives the service behind the channel of each client.\<close>

definition pool_close :: "(nat \<Rightarrow> 'w service) \<Rightarrow> VectronClientPool \<Rightarrow> 'w \<Rightarrow> 'w" where
  "pool_close services p w = foldl (\<lambda>w (r, c). close c (services r) w) w (p_clients p)"

fun pool_nexts :: "nat \<Rightarrow> VectronClientPool \<Rightarrow> (nat \<times> VectronClient) option list \<times> VectronClientPool" where
  "pool_nexts 0 p = ([], p)"
| "pool_nexts (Suc n) p =
     (let (c, p1) = pool_next p; (cs, p2) = pool_nexts n p1 in (c # cs, p2))"

section \<open>Help\<close>

definition unlines :: "string list \<Rightarrow> string" where
  "unlines ls = concat (map (\<lambda>l. l @ [CHR 0x0A]) (butlast ls)) @ last ls"

definition VectronClient_help :: "string \<times> norm_options" where
  \<open>VectronClient_help = (unlines
     [''Vectron JS/TS Client Help'',
      [],
      ''Constructor:'',
      ''- new VectronClient(host, apiKey?, options?)'',
      [],
      ''Options (ClientOptions):'',
      ''- timeoutMs: per-RPC timeout in ms (default 10000, <= 0 disables)'',
      ''- useTLS: enable TLS (default false)'',
      ''- tlsRootCerts: custom root certs (Buffer, optional)'',
      ''- tlsServerName: TLS server name override (optional)'',
      ''- maxRecvMsgSize: max inbound bytes (default 16MB)'',
      ''- maxSendMsgSize: max outbound bytes (default 16MB)'',
      ''- keepaliveTimeMs: keepalive ping interval (default 30000)'',
      ''- keepaliveTimeoutMs: keepalive ack timeout (default 10000)'',
      ''- keepalivePermitWithoutCalls: allow pings without active RPCs (default false)'',
      ''- expectedVectorDim: validate vector length when > 0 (default 0, disabled)'',
      ''- userAgent: custom gRPC user agent (default "vectron-js-client")'',
      ''- compression: gRPC compression (default disabled, set "gzip")'',
      ''- hedgedReads: enable duplicate reads to reduce tail latency (default false)'',
      ''- hedgeDelayMs: delay before hedged read (default 75)'',
      ''- maxBatchBytes: max batch payload size in bytes (approximate, default 0)'',
      ''- retryMaxAttempts: max attempts including first (default 3)'',
      ''- retryInitialBackoffMs: base backoff (default 100)'',
      ''- retryMaxBackoffMs: max backoff (default 2000)'',
      ''- retryBackoffMultiplier: exponential factor (default 2)'',
      ''- retryJitter: random jitter fraction (default 0.2)'',
      ''- retryOnWrites: retry non-idempotent ops (default false)'',
      ''- retryableStatusCodes: override retryable grpc.status codes (optional)'',
      [],
      ''Safety defaults:'',
      ''- Timeouts enabled'',
      ''- Message sizes capped'',
      ''- Optional vector dimension validation'',
      ''- Retries enabled for read-only operations only'',
      ''- Hedged reads disabled by default'',
      [],
      ''Performance defaults:'',
      ''- Reused gRPC channel'',
      ''- Keepalive enabled with conservative intervals'',
      []],
     defaultOptions)\<close>

section \<open>Laws\<close>

definition pool_ok :: "VectronClientPool \<Rightarrow> bool" where
  "pool_ok p \<longleftrightarrow> (\<exists>i < length (p_clients p). p_index p = num_of_nat i)"

lemma element_at_nat: "i < length xs \<Longrightarrow> element_at xs (num_of_nat i) = Some (xs ! i)"
  by (simp add: element_at_def)

lemma pool_next_nat:
  assumes "i < length (p_clients p)" "p_index p = num_of_nat i"
  shows "pool_next p = (Some (p_clients p ! i),
     p\<lparr>p_index := num_of_nat (Suc i mod length (p_clients p))\<rparr>)"
proof -
  have "js_mod (of_nat (Suc i)) (of_nat (length (p_clients p))) = of_nat (Suc i mod length (p_clients p))"
    using assms(1) by (intro js_mod_nat) auto
  then show ?thesis
    using assms by (auto simp: pool_next_def element_at_nat js_rem_def add.commute)
qed

lemma pool_next_ok:
  assumes "pool_ok p"
  shows "pool_ok (snd (pool_next p))"
proof -
  from assms obtain i where i: "i < length (p_clients p)" "p_index p = num_of_nat i"
    by (auto simp: pool_ok_def)
  then have "Suc i mod length (p_clients p) < length (p_clients p)" by (intro mod_less_divisor) linarith
  then show ?thesis by (auto simp: pool_next_nat [OF i] pool_ok_def)
qed

lemma pool_nexts_from:
  assumes "i < length (p_clients p)" "p_index p = num_of_nat i"
  shows "pool_nexts n p = (map (\<lambda>k. Some (p_clients p ! ((i + k) mod length (p_clients p)))) [0..<n],
     p\<lparr>p_index := num_of_nat ((i + n) mod length (p_clients p))\<rparr>)"
  using assms
proof (induction n arbitrary: p i)
  case 0
  then show ?case by simp
next
  case (Suc n)
  let ?len = "length (p_clients p)"
  let ?p1 = "p\<lparr>p_index := num_of_nat (Suc i mod ?len)\<rparr>"
  have "0 < ?len" using Suc.prems(1) by linarith
  then have "Suc i mod ?len < length (p_clients ?p1)" by simp
  from Suc.IH [OF this] have
    "pool_nexts n ?p1 = (map (\<lambda>k. Some (p_clients p ! ((Suc i mod ?len + k) mod ?len))) [0..<n],
       p\<lparr>p_index := num_of_nat ((Suc i mod ?len + n) mod ?len)\<rparr>)" by simp
  moreover have "[0..<Suc n] = 0 # map Suc [0..<n]" by (simp add: map_Suc_upt upt_conv_Cons)
  ultimately show ?case
    using Suc.prems by (simp add: pool_next_nat mod_simps comp_def)
qed

lemma new_pool_shape:
  assumes "new_VectronClientPool host key opts (Some (num_of_nat k)) = Inr p" "0 < k"
  shows "map fst (p_clients p) = [0..<k] \<and> p_index p = Fin 0"
proof -
  from assms obtain cs where
    cs: "res_map (\<lambda>i. res_bind (new_VectronClient host key opts) (\<lambda>c. Inr (i, c))) [0..<k] = Inr cs"
    and p: "p = \<lparr>p_clients = cs, p_index = Fin 0\<rparr>"
    by (auto simp: new_VectronClientPool_def array_length_def res_bind_Inr_iff split: if_splits)
  have "list_all2 (\<lambda>i y. fst y = i) [0..<k] cs"
    using cs unfolding res_map_Inr_iff
    by (rule list_all2_mono) (auto simp: res_bind_Inr_iff)
  then have "map fst cs = [0..<k]"
    by (auto simp: list_all2_conv_all_nth intro: nth_equalityI)
  with p show ?thesis by simp
qed

section \<open>The abstract pool\<close>

text \<open>What a pool promises, without index arithmetic: the clients form a queue, and a call takes the
  first one and puts it back at the end.\<close>

locale dealer =
  fixes deal :: "'p \<Rightarrow> 'c option \<times> 'p" and ok :: "'p \<Rightarrow> bool" and queue :: "'p \<Rightarrow> 'c list"
  assumes queue_filled: "ok p \<Longrightarrow> queue p \<noteq> []"
    and deal_first: "ok p \<Longrightarrow> fst (deal p) = Some (hd (queue p))"
    and deal_rotates: "ok p \<Longrightarrow> queue (snd (deal p)) = rotate1 (queue p)"
    and deal_ok: "ok p \<Longrightarrow> ok (snd (deal p))"
begin

lemma dealt_state:
  "ok p \<Longrightarrow> ok (((\<lambda>p. snd (deal p)) ^^ n) p) \<and> queue (((\<lambda>p. snd (deal p)) ^^ n) p) = rotate n (queue p)"
  by (induction n) (simp_all add: deal_ok deal_rotates)

lemma dealt_nth:
  assumes "ok p"
  shows "fst (deal (((\<lambda>p. snd (deal p)) ^^ n) p)) = Some (queue p ! (n mod length (queue p)))"
  using dealt_state [OF assms, of n] queue_filled [OF assms] deal_first by (simp add: hd_rotate_conv_nth)

lemma dealt_again:
  assumes "ok p"
  shows "queue (((\<lambda>p. snd (deal p)) ^^ length (queue p)) p) = queue p"
  using dealt_state [OF assms] by simp

end

definition pool_queue :: "VectronClientPool \<Rightarrow> (nat \<times> VectronClient) list" where
  "pool_queue p = (case p_index p of Fin q \<Rightarrow> rotate (nat \<lfloor>q\<rfloor>) (p_clients p) | _ \<Rightarrow> p_clients p)"

lemma pool_queue_nat: "p_index p = num_of_nat i \<Longrightarrow> pool_queue p = rotate i (p_clients p)"
  by (simp add: pool_queue_def)

lemma pool_next_queue:
  assumes "pool_ok p"
  shows "fst (pool_next p) = Some (hd (pool_queue p)) \<and> pool_queue (snd (pool_next p)) = rotate1 (pool_queue p)"
proof -
  from assms obtain i where i: "i < length (p_clients p)" "p_index p = num_of_nat i"
    by (auto simp: pool_ok_def)
  then have "p_clients p \<noteq> []" by auto
  with i show ?thesis
    by (simp add: pool_next_nat [OF i] pool_queue_nat hd_rotate_conv_nth)
       (metis rotate_Suc rotate_conv_mod)
qed

interpretation pool: dealer pool_next pool_ok pool_queue
proof
  fix p
  assume "pool_ok p"
  then show "pool_queue p \<noteq> []" by (auto simp: pool_ok_def pool_queue_def)
qed (simp_all add: pool_next_queue pool_next_ok)

lemma pool_nexts_deals:
  "pool_ok p \<Longrightarrow> pool_nexts n p =
     (map (\<lambda>k. fst (pool_next (((\<lambda>p. snd (pool_next p)) ^^ k) p))) [0..<n], ((\<lambda>p. snd (pool_next p)) ^^ n) p)"
proof (induction n arbitrary: p)
  case (Suc n)
  have "[0..<Suc n] = 0 # map Suc [0..<n]" by (simp add: map_Suc_upt upt_conv_Cons)
  with Suc.IH [OF pool_next_ok [OF Suc.prems]] show ?case
    by (simp add: split_beta Let_def funpow_swap1 [of "\<lambda>p. snd (pool_next p)"] comp_def del: upt_Suc)
qed simp

section \<open>Properties\<close>

text \<open>C11: A pool refines a queue of clients. Any sequence of calls of \<^verbatim>\<open>next\<close> on a pool that is in
  order returns what the same calls return on the queue, where a call takes the first client and
  puts it back at the end; afterwards the pool still represents the queue, now rotated by the number of
  calls, and is in order.\<close>

theorem pool_refines_queue:
  assumes "pool_ok p"
  shows "fst (pool_nexts n p) = map (\<lambda>k. Some (hd (rotate k (pool_queue p)))) [0..<n]
     \<and> pool_queue (snd (pool_nexts n p)) = rotate n (pool_queue p) \<and> pool_ok (snd (pool_nexts n p))"
proof -
  have "fst (pool_next (((\<lambda>p. snd (pool_next p)) ^^ k) p)) = Some (hd (rotate k (pool_queue p)))" for k
    using pool.dealt_state [OF assms, of k] pool.deal_first by simp
  then show ?thesis
    using pool.dealt_state [OF assms, of n] by (simp add: pool_nexts_deals [OF assms])
qed

definition sample_pool :: VectronClientPool where
  "sample_pool =
     (let c = \<lparr>c_host = ''h'', c_creds = CreateInsecure, c_channelOptions = [], c_apiKey = None, c_options = defaultOptions\<rparr>
      in \<lparr>p_clients = [(0, c), (1, c), (2, c)], p_index = Fin 2\<rparr>)"

theorem pool_refines_queue_witness:
  "map (map_option fst) (fst (pool_nexts 4 sample_pool)) = [Some 2, Some 0, Some 1, Some 2]"
proof -
  have "pool_ok sample_pool"
    unfolding pool_ok_def by (rule exI [of _ 2]) (simp add: sample_pool_def Let_def)
  from pool_refines_queue [OF this, of 4] have
    "fst (pool_nexts 4 sample_pool) = map (\<lambda>k. Some (hd (rotate k (pool_queue sample_pool)))) [0..<4]" ..
  moreover have "map fst (pool_queue sample_pool) = [2, 0, 1]"
    by (simp add: sample_pool_def pool_queue_def Let_def numeral_2_eq_2)
  then obtain a b c where "pool_queue sample_pool = [a, b, c]" "map fst [a, b, c] = [2, 0, 1]"
    by (auto simp: map_eq_Cons_conv)
  moreover have "[0..<4] = [0, 1, 2, 3]" by (simp add: upt_rec)
  ultimately show ?thesis
    by (simp only: list.map) (simp add: numeral_2_eq_2 numeral_3_eq_3)
qed

text \<open>A pool of \<open>k\<close> clients hands them out in turn: the clients that \<open>n\<close> calls of \<^verbatim>\<open>next\<close> return
  are number \<open>0, 1, ..., k - 1, 0, 1, ...\<close> of the constructed ones, and the index stays in range
  for ever.\<close>

theorem pool_round_robin:
  assumes "new_VectronClientPool host key opts (Some (num_of_nat k)) = Inr p" "0 < k"
  shows "map (map_option fst) (fst (pool_nexts n p)) = map (\<lambda>i. Some (i mod k)) [0..<n]
     \<and> pool_ok (snd (pool_nexts n p))"
proof -
  from new_pool_shape [OF assms] have ids: "map fst (p_clients p) = [0..<k]" and i: "p_index p = num_of_nat 0"
    by simp_all
  then have len: "length (p_clients p) = k" by (metis length_map length_upt diff_zero)
  then have "0 < length (p_clients p)" using assms(2) by simp
  from pool_nexts_from [OF this i] have
    "pool_nexts n p = (map (\<lambda>j. Some (p_clients p ! (j mod k))) [0..<n], p\<lparr>p_index := num_of_nat (n mod k)\<rparr>)"
    by (simp add: len)
  moreover have "fst (p_clients p ! (j mod k)) = j mod k" for j
    using ids len assms(2) by (metis mod_less_divisor nth_map nth_upt add_0)
  ultimately show ?thesis using len assms(2) by (simp add: pool_ok_def comp_def)
qed

theorem pool_round_robin_witness:
  "\<exists>p. new_VectronClientPool ''h'' None None (Some (num_of_nat 2)) = Inr p
     \<and> map (map_option fst) (fst (pool_nexts 5 p)) = map (\<lambda>i. Some (i mod 2)) [0..<5]"
proof -
  have "\<exists>p. new_VectronClientPool ''h'' None None (Some (num_of_nat 2)) = Inr p"
    by (simp add: new_VectronClientPool_def array_length_def new_VectronClient_def Let_def
        upt_rec)
  then obtain p where "new_VectronClientPool ''h'' None None (Some (num_of_nat 2)) = Inr p" ..
  with pool_round_robin [OF this, of 5] show ?thesis by auto
qed

text \<open>A pool size strictly between 0 and 1 passes the guard \<^verbatim>\<open>size > 0\<close> but makes a pool without
  clients: every call of \<^verbatim>\<open>next\<close> returns \<^verbatim>\<open>undefined\<close>.\<close>

theorem fractional_pool_is_empty:
  assumes "0 < q" "q < 1"
  shows "\<exists>p. new_VectronClientPool host key opts (Some (Fin q)) = Inr p
     \<and> list_all (\<lambda>c. c = None) (fst (pool_nexts n p))"
proof -
  have "\<lfloor>q\<rfloor> = 0" using assms by (simp add: floor_eq_iff)
  moreover have "q < 2 ^ 32" using assms(2) by simp
  ultimately have "new_VectronClientPool host key opts (Some (Fin q)) = Inr \<lparr>p_clients = [], p_index = Fin 0\<rparr>"
    using assms by (simp add: new_VectronClientPool_def array_length_def)
  moreover have "list_all (\<lambda>c. c = None) (fst (pool_nexts n p))" if "p_clients p = []" for p
    using that
  proof (induction n arbitrary: p)
    case (Suc n)
    have "fst (pool_next p) = None" "p_clients (snd (pool_next p)) = []"
      using Suc.prems by (simp_all add: pool_next_def element_at_def Let_def split: js_num.splits)
    with Suc.IH show ?case by (simp add: split_beta Let_def)
  qed simp
  ultimately show ?thesis by auto
qed

theorem fractional_pool_is_empty_witness:
  "\<exists>p. new_VectronClientPool ''h'' None None (Some (Fin (1 / 2))) = Inr p
     \<and> list_all (\<lambda>c. c = None) (fst (pool_nexts 3 p))"
  by (rule fractional_pool_is_empty) simp_all

end
