(* ===== verification/React.thy ===== *)
theory React
  imports Json "HOL-Library.Multiset"
begin

text \<open>
  What the pages of the console share: JavaScript operators on untyped values, HTTP requests
  and their answers, and the way React runs a page.

  A page is a state with handlers. A handler runs up to its next \<^verbatim>\<open>await\<close> in one go: this is a
  \<open>seg\<close>, which changes the state and leaves what it waits for. What waits is a closure, the
  rest of the handler with the variables that it captured, as a value of a type of the page. An
  input of the page is an event (a click, a timer) or the answer to one of the closures that
  wait; the answers come in any order, and each carries the token that is in
  \<^verbatim>\<open>localStorage\<close> when it arrives. After every segment React commits the new state and runs the
  effects whose dependencies changed.

  The locale \<open>page_inv\<close> proves once that what every segment keeps holds in all reachable states;
  \<open>page_busy\<close> derives from it that a busy flag is only set while one of its requests is open, and
  \<open>page_lock\<close> that a flag which disables its own handlers admits one open request at a time.
\<close>

section \<open>Operators on untyped values\<close>

text \<open>\<^verbatim>\<open>v || d\<close> and \<^verbatim>\<open>v ?? d\<close>. \<^verbatim>\<open>v?.f\<close> is \<open>js_get v f\<close>; \<^verbatim>\<open>v.f\<close> throws on null and undefined.\<close>

definition js_or :: "js_val \<Rightarrow> js_val \<Rightarrow> js_val" where
  "js_or v d = (if js_Boolean v then v else d)"

definition js_coalesce :: "js_val \<Rightarrow> js_val \<Rightarrow> js_val" where
  "js_coalesce v d = (if isSet v then v else d)"

text \<open>What is thrown: an \<^verbatim>\<open>Error\<close> with its \<^verbatim>\<open>message\<close>; the errors of axios have a \<^verbatim>\<open>response\<close> when the
  server answered.\<close>

record js_error =
  error_response :: js_val
  error_message :: string

definition type_error :: js_error where
  "type_error = \<lparr>error_response = JUndefined, error_message = ''TypeError''\<rparr>"

definition js_dot :: "js_val \<Rightarrow> string \<Rightarrow> js_error + js_val" where
  "js_dot v f = (if isSet v then Inr (js_get v f) else Inl type_error)"

text \<open>\<^verbatim>\<open>v.map(f)\<close>, \<^verbatim>\<open>v.filter(f)\<close> and the other methods of arrays throw on anything else.\<close>

definition js_array :: "js_val \<Rightarrow> js_error + js_val list" where
  "js_array v = (if isArray v then Inr (elements v) else Inl type_error)"

definition js_is_number :: "js_val \<Rightarrow> bool" where
  "js_is_number v = (case v of JNum n \<Rightarrow> True | _ \<Rightarrow> False)"

definition js_is_string :: "js_val \<Rightarrow> bool" where
  "js_is_string v = (case v of JStr s \<Rightarrow> True | _ \<Rightarrow> False)"

fun js_length :: "js_val \<Rightarrow> js_val" where
  "js_length (JArr vs) = JNum (num_of_nat (length vs))"
| "js_length (JStr s) = JNum (num_of_nat (length s))"
| "js_length v = js_get v ''length''"

text \<open>\<^verbatim>\<open>a === b\<close>: values of primitive types compare by value, \<^verbatim>\<open>NaN\<close> equals nothing.\<close>

fun js_strict_eq :: "js_val \<Rightarrow> js_val \<Rightarrow> bool" where
  "js_strict_eq (JNum a) (JNum b) = js_eq a b"
| "js_strict_eq a b = (a = b)"

text \<open>\<^verbatim>\<open>{ ...v, f: x, ... }\<close>. Unlike an assignment, this makes \<^verbatim>\<open>__proto__\<close> an own entry.\<close>

definition js_define :: "string \<Rightarrow> 'v \<Rightarrow> 'v js_obj \<Rightarrow> 'v js_obj" where
  "js_define k v obj =
     (if k = ''__proto__''
      then if k \<in> fst ` set obj then AList.update k v obj else obj @ [(k, v)]
      else js_set k v obj)"

definition js_spread :: "js_val \<Rightarrow> (string \<times> js_val) list \<Rightarrow> js_val" where
  "js_spread v fs = JObj (foldl (\<lambda>o' (k, x). js_define k x o') [] (js_entries v @ fs))"

text \<open>\<^verbatim>\<open>s.trim()\<close>, for the white space below code 256.\<close>

definition js_space :: "char \<Rightarrow> bool" where
  "js_space c = (of_char c \<in> {9, 10, 11, 12, 13, 32, 160 :: nat})"

definition js_trim :: "string \<Rightarrow> string" where
  "js_trim s = rev (dropWhile js_space (rev (dropWhile js_space s)))"

section \<open>Requests\<close>

datatype verb = GET | POST | DELETE

record http_request =
  hr_verb :: verb
  hr_url :: string
  hr_body :: js_val
  hr_headers :: "(string \<times> string) list"

text \<open>The answer to a request is the \<^verbatim>\<open>data\<close> of the response, or an error.\<close>

type_synonym answer = "js_error + js_val"

text \<open>\<^verbatim>\<open>err.response?.data?.message || fallback\<close>\<close>

definition server_message :: "js_error \<Rightarrow> string \<Rightarrow> js_val" where
  "server_message err fallback =
     js_or (js_get (js_get (error_response err) ''data'') ''message'') (JStr fallback)"

lemma server_message_fallback:
  "error_response err = JUndefined \<Longrightarrow> server_message err fallback = JStr fallback"
  by (simp add: server_message_def js_or_def)

section \<open>Pages\<close>

type_synonym ('s, 'k) seg = "'s \<Rightarrow> 's \<times> 'k list"

definition set_state :: "('s \<Rightarrow> 's) \<Rightarrow> ('s, 'k) seg" where
  "set_state f s = (f s, [])"

definition await :: "'k \<Rightarrow> ('s, 'k) seg" where
  "await k s = (s, [k])"

definition seg_then :: "('s, 'k) seg \<Rightarrow> ('s, 'k) seg \<Rightarrow> ('s, 'k) seg" where
  "seg_then f g s = (case f s of (s1, a) \<Rightarrow> case g s1 of (s2, b) \<Rightarrow> (s2, a @ b))"

definition seg_skip :: "('s, 'k) seg" where
  "seg_skip s = (s, [])"

text \<open>A page: the effects that run when it is mounted, its handlers, what runs when an awaited
  answer is there, and the effects that run when the committed state differs from the one before.\<close>

record ('s, 'e, 'k) page =
  on_mount :: "string option \<Rightarrow> ('s, 'k) seg"
  on_event :: "'e \<Rightarrow> string option \<Rightarrow> ('s, 'k) seg"
  on_answer :: "'k \<Rightarrow> string option \<Rightarrow> answer \<Rightarrow> ('s, 'k) seg"
  on_commit :: "'s \<Rightarrow> string option \<Rightarrow> ('s, 'k) seg"

datatype 'e input = Event "string option" 'e | Answer "string option" nat answer

definition commit_seg :: "('s, 'e, 'k) page \<Rightarrow> string option \<Rightarrow> ('s, 'k) seg \<Rightarrow> ('s, 'k) seg" where
  "commit_seg P tok f s = seg_then f (on_commit P s tok) s"

fun page_next :: "('s, 'e, 'k) page \<Rightarrow> 'e input \<Rightarrow> 's \<times> 'k list \<Rightarrow> 's \<times> 'k list" where
  "page_next P (Event tok e) (s, p) =
     (case commit_seg P tok (on_event P e tok) s of (s', a) \<Rightarrow> (s', p @ a))"
| "page_next P (Answer tok i ans) (s, p) =
     (if i < length p
      then case commit_seg P tok (on_answer P (p ! i) tok ans) s of
             (s', a) \<Rightarrow> (s', take i p @ drop (Suc i) p @ a)
      else (s, p))"

definition page_start :: "('s, 'e, 'k) page \<Rightarrow> string option \<Rightarrow> 's \<Rightarrow> 's \<times> 'k list" where
  "page_start P tok s = commit_seg P tok (on_mount P tok) s"

definition page_run :: "('s, 'e, 'k) page \<Rightarrow> 'e input list \<Rightarrow> 's \<times> 'k list \<Rightarrow> 's \<times> 'k list" where
  "page_run P ins st = fold (page_next P) ins st"

inductive page_reach :: "('s, 'e, 'k) page \<Rightarrow> 's \<Rightarrow> 's \<times> 'k list \<Rightarrow> bool"
  for P s0 where
  mounted: "page_reach P s0 (page_start P tok s0)"
| stepped: "page_reach P s0 st \<Longrightarrow> page_reach P s0 (page_next P i st)"

lemma page_reach_run: "page_reach P s0 st \<Longrightarrow> page_reach P s0 (page_run P ins st)"
  unfolding page_run_def by (induction ins arbitrary: st) (simp_all add: stepped)

lemmas seg_defs = set_state_def await_def seg_then_def seg_skip_def commit_seg_def

subsection \<open>Invariants\<close>

text \<open>\<open>I\<close> is about the state and the closures that wait. A segment keeps it when it holds after the
  segment for the closures that waited before, without the one that runs, and the new ones.\<close>

locale page_inv =
  fixes P :: "('s, 'e, 'k) page" and s0 :: 's and I :: "'s \<Rightarrow> 'k multiset \<Rightarrow> bool"
  assumes mount_keeps: "on_mount P tok s0 = (s, a) \<Longrightarrow> I s (mset a)"
    and event_keeps: "I s K \<Longrightarrow> on_event P e tok s = (s', a) \<Longrightarrow> I s' (K + mset a)"
    and answer_keeps: "I s (add_mset k K) \<Longrightarrow> on_answer P k tok ans s = (s', a) \<Longrightarrow> I s' (K + mset a)"
    and commit_keeps: "I s K \<Longrightarrow> on_commit P old tok s = (s', a) \<Longrightarrow> I s' (K + mset a)"
begin

lemma commit_inv:
  assumes "\<And>s' a. f s = (s', a) \<Longrightarrow> I s' (K + mset a)" and "commit_seg P tok f s = (s', a)"
  shows "I s' (K + mset a)"
proof -
  obtain s1 b where f: "f s = (s1, b)" by (cases "f s")
  obtain s2 c where g: "on_commit P s tok s1 = (s2, c)" by (cases "on_commit P s tok s1")
  from commit_keeps [OF assms(1) [OF f] g] f g assms(2) show ?thesis
    by (auto simp: commit_seg_def seg_then_def ac_simps)
qed

lemma page_next_inv:
  assumes "I s (mset p)" and "page_next P i (s, p) = (s', p')"
  shows "I s' (mset p')"
proof (cases i)
  case (Event tok e)
  obtain s1 a where c: "commit_seg P tok (on_event P e tok) s = (s1, a)"
    by (cases "commit_seg P tok (on_event P e tok) s")
  have "I s1 (mset p + mset a)"
    by (rule commit_inv [OF _ c]) (rule event_keeps [OF assms(1)])
  with c assms(2) Event show ?thesis by auto
next
  case (Answer tok j ans)
  show ?thesis
  proof (cases "j < length p")
    case True
    obtain s1 a where c: "commit_seg P tok (on_answer P (p ! j) tok ans) s = (s1, a)"
      by (cases "commit_seg P tok (on_answer P (p ! j) tok ans) s")
    let ?q = "mset (take j p) + mset (drop (Suc j) p)"
    have "mset p = mset (take j p @ p ! j # drop (Suc j) p)"
      by (simp only: id_take_nth_drop [OF True, symmetric])
    with assms(1) have "I s (add_mset (p ! j) ?q)" by simp
    then have "I s1 (?q + mset a)" by (intro commit_inv [OF _ c]) (rule answer_keeps)
    with c True assms(2) Answer show ?thesis by (auto simp: ac_simps)
  next
    case False
    with assms Answer show ?thesis by simp
  qed
qed

theorem reach_inv: "page_reach P s0 st \<Longrightarrow> I (fst st) (mset (snd st))"
proof (induction rule: page_reach.induct)
  case (mounted tok)
  obtain s a where c: "commit_seg P tok (on_mount P tok) s0 = (s, a)"
    by (cases "commit_seg P tok (on_mount P tok) s0")
  from commit_inv [where K = "{#}", OF _ c] mount_keeps c show ?case
    by (simp add: page_start_def)
next
  case (stepped st i)
  obtain s' p' where n: "page_next P i (fst st, snd st) = (s', p')"
    by (cases "page_next P i (fst st, snd st)")
  from page_next_inv [OF stepped.IH n] n show ?case by simp
qed

end

text \<open>A flag that is set while a request of its kind is open: segments set it only when they leave
  such a request, and the answer to such a request clears it unless another one follows.\<close>

locale page_busy =
  fixes P :: "('s, 'e, 'k) page" and s0 :: 's and busy :: "'s \<Rightarrow> bool" and mine :: "'k \<Rightarrow> bool"
  assumes mount_busy: "on_mount P tok s0 = (s, a) \<Longrightarrow> busy s \<Longrightarrow> \<exists>k \<in> set a. mine k"
    and event_busy: "on_event P e tok s = (s', a) \<Longrightarrow> busy s' \<Longrightarrow> busy s \<or> (\<exists>k \<in> set a. mine k)"
    and answer_busy: "on_answer P k tok ans s = (s', a) \<Longrightarrow> busy s' \<Longrightarrow>
        (busy s \<and> \<not> mine k) \<or> (\<exists>k \<in> set a. mine k)"
    and commit_busy: "on_commit P old tok s = (s', a) \<Longrightarrow> busy s' \<Longrightarrow> busy s \<or> (\<exists>k \<in> set a. mine k)"

sublocale page_busy \<subseteq> page_inv P s0 "\<lambda>s K. busy s \<longrightarrow> (\<exists>k. k \<in># K \<and> mine k)"
proof unfold_locales
  fix s k K tok ans s' a
  assume inv: "busy s \<longrightarrow> (\<exists>k'. k' \<in># add_mset k K \<and> mine k')" and run: "on_answer P k tok ans s = (s', a)"
  show "busy s' \<longrightarrow> (\<exists>k. k \<in># K + mset a \<and> mine k)"
    using answer_busy [OF run] inv by auto
next
  fix s K e tok s' a
  assume "busy s \<longrightarrow> (\<exists>k. k \<in># K \<and> mine k)" and run: "on_event P e tok s = (s', a)"
  then show "busy s' \<longrightarrow> (\<exists>k. k \<in># K + mset a \<and> mine k)" using event_busy [OF run] by auto
next
  fix s K old tok s' a
  assume "busy s \<longrightarrow> (\<exists>k. k \<in># K \<and> mine k)" and run: "on_commit P old tok s = (s', a)"
  then show "busy s' \<longrightarrow> (\<exists>k. k \<in># K + mset a \<and> mine k)" using commit_busy [OF run] by auto
qed (use mount_busy in fastforce)

context page_busy
begin

lemma busy_has_request: "page_reach P s0 (s, p) \<Longrightarrow> busy s \<Longrightarrow> \<exists>k \<in> set p. mine k"
  using reach_inv by fastforce

end

text \<open>A flag that ends: all closures of a page are of a form, \<open>fine\<close>, in which the answer to a request of
  the flag clears it. Then whenever the flag is set, some open request clears it, whatever its
  answer.\<close>

locale page_settles = page_busy P s0 busy mine
  for P :: "('s, 'e, 'k) page" and s0 :: 's and busy :: "'s \<Rightarrow> bool" and mine :: "'k \<Rightarrow> bool" +
  fixes fine :: "'k \<Rightarrow> bool"
  assumes mount_fine: "on_mount P tok s0 = (s, a) \<Longrightarrow> list_all fine a"
    and event_fine: "on_event P e tok s = (s', a) \<Longrightarrow> list_all fine a"
    and answer_fine: "fine k \<Longrightarrow> on_answer P k tok ans s = (s', a) \<Longrightarrow> list_all fine a"
    and commit_fine: "on_commit P old tok s = (s', a) \<Longrightarrow> list_all fine a"
    and answer_settles: "fine k \<Longrightarrow> mine k \<Longrightarrow> on_answer P k tok ans s = (s', a) \<Longrightarrow> \<not> busy s'"
    and commit_settles: "on_commit P old tok s = (s', a) \<Longrightarrow> busy s' \<Longrightarrow> busy s"

sublocale page_settles \<subseteq> form: page_inv P s0 "\<lambda>s K. \<forall>k. k \<in># K \<longrightarrow> fine k"
proof unfold_locales
  fix s k K tok ans s' a
  assume "\<forall>k'. k' \<in># add_mset k K \<longrightarrow> fine k'" and "on_answer P k tok ans s = (s', a)"
  then show "\<forall>k. k \<in># K + mset a \<longrightarrow> fine k" using answer_fine [of k tok ans s s' a] by (auto simp: list_all_iff)
qed (use mount_fine event_fine commit_fine in \<open>fastforce simp: list_all_iff\<close>)+

context page_settles
begin

lemma settles:
  assumes "page_reach P s0 (s, p)" and "busy s"
  shows "\<exists>i < length p. \<forall>tok ans. \<not> busy (fst (page_next P (Answer tok i ans) (s, p)))"
proof -
  from busy_has_request [OF assms] obtain i where i: "i < length p" "mine (p ! i)"
    by (auto simp: in_set_conv_nth)
  with form.reach_inv [OF assms(1)] have "fine (p ! i)" by simp
  have "\<not> busy (fst (page_next P (Answer tok i ans) (s, p)))" for tok ans
  proof -
    obtain s1 a where run: "on_answer P (p ! i) tok ans s = (s1, a)"
      by (cases "on_answer P (p ! i) tok ans s")
    obtain s2 b where com: "on_commit P s tok s1 = (s2, b)" by (cases "on_commit P s tok s1")
    from answer_settles [OF \<open>fine (p ! i)\<close> i(2) run] commit_settles [OF com] run com i(1) show ?thesis
      by (auto simp: commit_seg_def seg_then_def)
  qed
  with i(1) show ?thesis by blast
qed

end

text \<open>A flag that locks: no segment leaves a request of its kind while the flag is set, and the flag
  is set exactly while such a request is open. Then at most one of them is open at any time.\<close>

locale page_lock =
  fixes P :: "('s, 'e, 'k) page" and s0 :: 's and locked :: "'s \<Rightarrow> bool" and mine :: "'k \<Rightarrow> bool"
  assumes mount_lock: "on_mount P tok s0 = (s, a) \<Longrightarrow> length (filter mine a) = of_bool (locked s)"
    and event_lock: "on_event P e tok s = (s', a) \<Longrightarrow>
        length (filter mine a) + of_bool (locked s) = of_bool (locked s')"
    and answer_lock: "on_answer P k tok ans s = (s', a) \<Longrightarrow> (mine k \<Longrightarrow> locked s) \<Longrightarrow>
        (if mine k then of_bool (locked s') = length (filter mine a)
         else length (filter mine a) + of_bool (locked s) = of_bool (locked s'))"
    and commit_lock: "on_commit P old tok s = (s', a) \<Longrightarrow>
        length (filter mine a) + of_bool (locked s) = of_bool (locked s')"

sublocale page_lock \<subseteq> page_inv P s0 "\<lambda>s K. size (filter_mset mine K) = of_bool (locked s)"
proof unfold_locales
  fix tok s a
  assume "on_mount P tok s0 = (s, a)"
  from mount_lock [OF this] show "size (filter_mset mine (mset a)) = of_bool (locked s)"
    by (simp flip: mset_filter)
next
  fix s K e tok s' a
  assume "size (filter_mset mine K) = of_bool (locked s)" and run: "on_event P e tok s = (s', a)"
  with event_lock [OF run] show "size (filter_mset mine (K + mset a)) = of_bool (locked s')"
    by (simp flip: mset_filter)
next
  fix s K old tok s' a
  assume "size (filter_mset mine K) = of_bool (locked s)" and run: "on_commit P old tok s = (s', a)"
  with commit_lock [OF run] show "size (filter_mset mine (K + mset a)) = of_bool (locked s')"
    by (simp flip: mset_filter)
next
  fix s k K tok ans s' a
  assume inv: "size (filter_mset mine (add_mset k K)) = of_bool (locked s)"
    and run: "on_answer P k tok ans s = (s', a)"
  have "size (filter_mset mine K) = (if mine k then 0 else of_bool (locked s))"
    and "mine k \<Longrightarrow> locked s"
    using inv by (cases "locked s"; auto split: if_splits)+
  with answer_lock [OF run] show "size (filter_mset mine (K + mset a)) = of_bool (locked s')"
    by (cases "locked s"; cases "locked s'") (auto simp flip: mset_filter split: if_splits)
qed

context page_lock
begin

lemma lock_counts_requests:
  "page_reach P s0 (s, p) \<Longrightarrow> length (filter mine p) = of_bool (locked s)"
  using reach_inv by (fastforce simp flip: mset_filter)

end

text \<open>A dialog with a lock: dialogs are numbered as they open, \<open>view\<close> is the number of the open one and
  whether its button is locked. The requests of a dialog carry its number and may outlive it. Then
  an open dialog is locked exactly while it has a request, and never has two.\<close>

locale page_dialog =
  fixes P :: "('s, 'e, 'k) page" and s0 :: 's and view :: "'s \<Rightarrow> (nat \<times> bool) option"
    and opened :: "'s \<Rightarrow> nat" and mine :: "nat \<Rightarrow> 'k \<Rightarrow> bool"
  assumes mount_dialog: "on_mount P tok s0 = (s, a) \<Longrightarrow> view s = None \<and> (\<forall>k \<in> set a. \<forall>n. \<not> mine n k)"
    and event_dialog: "on_event P e tok s = (s', a) \<Longrightarrow>
        opened s' = opened s \<and> (\<forall>k \<in> set a. \<forall>n. mine n k \<longrightarrow> (\<exists>b. view s = Some (n, b)))
        \<and> (\<forall>n b. view s' = Some (n, b) \<longrightarrow>
             (\<exists>c. view s = Some (n, c) \<and> length (filter (mine n) a) + of_bool c = of_bool b))"
    and answer_dialog: "on_answer P k tok ans s = (s', a) \<Longrightarrow>
        \<forall>n c. view s = Some (n, c) \<and> mine n k \<longrightarrow> c \<Longrightarrow>
        opened s' = opened s \<and> (\<forall>k' \<in> set a. \<forall>n. mine n k' \<longrightarrow> mine n k)
        \<and> (\<forall>n b. view s' = Some (n, b) \<longrightarrow>
             (\<exists>c. view s = Some (n, c)
                \<and> length (filter (mine n) a) + of_bool (c \<and> \<not> mine n k) = of_bool b))"
    and commit_dialog: "on_commit P old tok s = (s', a) \<Longrightarrow>
        opened s \<le> opened s' \<and> a = []
        \<and> (\<forall>n b. view s' = Some (n, b) \<longrightarrow> view s = Some (n, b) \<or> (opened s \<le> n \<and> n < opened s' \<and> \<not> b))"

definition dialog_inv ::
  "('s \<Rightarrow> (nat \<times> bool) option) \<Rightarrow> ('s \<Rightarrow> nat) \<Rightarrow> (nat \<Rightarrow> 'k \<Rightarrow> bool) \<Rightarrow> 's \<Rightarrow> 'k multiset \<Rightarrow> bool" where
  "dialog_inv view opened mine s K \<longleftrightarrow>
     (\<forall>k n. k \<in># K \<longrightarrow> mine n k \<longrightarrow> n < opened s)
     \<and> (\<forall>n b. view s = Some (n, b) \<longrightarrow> n < opened s \<and> size (filter_mset (mine n) K) = of_bool b)"

sublocale page_dialog \<subseteq> page_inv P s0 "dialog_inv view opened mine"
proof unfold_locales
  fix tok s a
  assume "on_mount P tok s0 = (s, a)"
  from mount_dialog [OF this] show "dialog_inv view opened mine s (mset a)" by (simp add: dialog_inv_def)
next
  fix s K e tok s' a
  assume inv: "dialog_inv view opened mine s K" and "on_event P e tok s = (s', a)"
  note ev = event_dialog [OF this(2)]
  show "dialog_inv view opened mine s' (K + mset a)" unfolding dialog_inv_def
  proof (intro conjI allI impI)
    fix n b assume "view s' = Some (n, b)"
    with ev obtain c where c: "view s = Some (n, c)" "length (filter (mine n) a) + of_bool c = of_bool b" by blast
    with inv have "size (filter_mset (mine n) K) = of_bool c" "n < opened s" by (auto simp: dialog_inv_def)
    with c ev show "n < opened s'" "size (filter_mset (mine n) (K + mset a)) = of_bool b"
      by (simp_all flip: mset_filter)
  next
    fix k n assume "k \<in># K + mset a" "mine n k"
    with inv ev show "n < opened s'" unfolding dialog_inv_def by (metis in_multiset_in_set union_iff)
  qed
next
  fix s k K tok ans s' a
  assume inv: "dialog_inv view opened mine s (add_mset k K)" and run: "on_answer P k tok ans s = (s', a)"
  have "\<forall>n c. view s = Some (n, c) \<and> mine n k \<longrightarrow> c"
  proof (intro allI impI)
    fix n c assume "view s = Some (n, c) \<and> mine n k"
    with inv have "Suc (size (filter_mset (mine n) K)) = of_bool c" by (fastforce simp: dialog_inv_def)
    then show c by (cases c) simp_all
  qed
  note an = answer_dialog [OF run this]
  show "dialog_inv view opened mine s' (K + mset a)" unfolding dialog_inv_def
  proof (intro conjI allI impI)
    fix n b assume "view s' = Some (n, b)"
    with an obtain c where c: "view s = Some (n, c)"
      "length (filter (mine n) a) + of_bool (c \<and> \<not> mine n k) = of_bool b" by blast
    with inv have "size (filter_mset (mine n) (add_mset k K)) = of_bool c" "n < opened s"
      by (auto simp: dialog_inv_def)
    moreover from this(1) have "size (filter_mset (mine n) K) = of_bool (c \<and> \<not> mine n k)"
      by (cases c) (auto split: if_splits)
    ultimately show "n < opened s'" "size (filter_mset (mine n) (K + mset a)) = of_bool b"
      using c(2) an by (simp_all flip: mset_filter)
  qed (use inv an in \<open>auto simp: dialog_inv_def\<close>)
next
  fix s K old tok s' a
  assume inv: "dialog_inv view opened mine s K" and "on_commit P old tok s = (s', a)"
  note co = commit_dialog [OF this(2)]
  show "dialog_inv view opened mine s' (K + mset a)" unfolding dialog_inv_def
  proof (intro conjI allI impI)
    fix n b assume v: "view s' = Some (n, b)"
    have "filter_mset (mine n) K = {#}" if "opened s \<le> n"
      using inv that by (force simp: dialog_inv_def filter_mset_eq_conv)
    with v inv co show "n < opened s'" "size (filter_mset (mine n) (K + mset a)) = of_bool b"
      by (auto simp: dialog_inv_def)
  next
    fix k n assume "k \<in># K + mset a" "mine n k"
    with inv co show "n < opened s'" by (fastforce simp: dialog_inv_def)
  qed
qed

context page_dialog
begin

lemma dialog_counts_requests:
  "page_reach P s0 (s, p) \<Longrightarrow> view s = Some (n, b) \<Longrightarrow> length (filter (mine n) p) = of_bool b"
  using reach_inv [of "(s, p)"] by (simp add: dialog_inv_def flip: mset_filter)

end

end
