(* ===== verification/Api_Keys.thy ===== *)
theory Api_Keys
  imports React
begin

text \<open>
  The API key page of the console, \<^verbatim>\<open>auth/frontend/src/components/ApiKeyManager.tsx\<close>, as a page in the
  sense of \<open>React\<close>. The states of the component are a record; each handler is a segment up to its
  \<^verbatim>\<open>await\<close>, and a closure of \<open>key_await\<close> is the rest of it, with the variables that it uses. The
  clipboard is left out; the timer of the copy mark is an await whose answer is ignored.
\<close>

section \<open>State\<close>

record api_key =
  ak_keyPrefix :: js_val
  ak_userId :: js_val
  ak_createdAt :: js_val
  ak_name :: js_val

record api_keys =
  keys :: "api_key list"
  newKeyName :: string
  newlyGeneratedToken :: js_val
  sdkJwt :: js_val
  keyForJwt :: "api_key option"
  keys_loading :: bool
  actionLoading :: js_val
  toastMessage :: "(js_val \<times> string) option"
  copiedValue :: "string option"
  openDeleteDialog :: bool
  openCreateDialog :: bool
  keyToDelete :: js_val

definition new_api_keys :: api_keys where
  "new_api_keys =
     \<lparr>keys = [], newKeyName = [], newlyGeneratedToken = JNull, sdkJwt = JNull, keyForJwt = None,
      keys_loading = False, actionLoading = JBool False, toastMessage = None, copiedValue = None,
      openDeleteDialog = False, openCreateDialog = False, keyToDelete = JNull\<rparr>"

definition normalizeKey :: "js_val \<Rightarrow> api_key" where
  "normalizeKey key =
     \<lparr>ak_keyPrefix = js_coalesce (js_coalesce (js_get key ''keyPrefix'') (js_get key ''key_prefix'')) (JStr []),
      ak_userId = js_coalesce (js_coalesce (js_get key ''userId'') (js_get key ''user_id'')) (JStr []),
      ak_createdAt = js_coalesce (js_coalesce (js_get key ''createdAt'') (js_get key ''created_at'')) (JNum (Fin 0)),
      ak_name = js_coalesce (js_get key ''name'') (JStr [])\<rparr>"

definition normalizeSdkJwt :: "js_val \<Rightarrow> js_val" where
  "normalizeSdkJwt v =
     (if \<not> js_Boolean v then JStr []
      else js_or (js_or (js_get v ''sdkJwt'') (js_get v ''sdk_jwt'')) (JStr []))"

section \<open>Handlers\<close>

datatype key_await =
    AwKeys | AwCreate string | AwCreateJwt js_val | AwDelete js_val | AwJwt api_key | AwCopyMark

fun key_request :: "text_conv \<Rightarrow> key_await \<Rightarrow> http_request option" where
  "key_request K AwKeys = Some \<lparr>hr_verb = GET, hr_url = ''/v1/keys'', hr_body = JUndefined, hr_headers = []\<rparr>"
| "key_request K (AwCreate nm) =
     Some \<lparr>hr_verb = POST, hr_url = ''/v1/keys'', hr_body = JObj [(''name'', JStr nm)], hr_headers = []\<rparr>"
| "key_request K (AwCreateJwt prefix) =
     Some \<lparr>hr_verb = POST, hr_url = ''/v1/sdk-jwt'', hr_body = JObj [(''api_key_id'', prefix)], hr_headers = []\<rparr>"
| "key_request K (AwDelete prefix) =
     Some \<lparr>hr_verb = DELETE, hr_url = ''/v1/keys/'' @ js_String K prefix, hr_body = JUndefined, hr_headers = []\<rparr>"
| "key_request K (AwJwt key) =
     Some \<lparr>hr_verb = POST, hr_url = ''/v1/sdk-jwt'', hr_body = JObj [(''api_key_id'', ak_keyPrefix key)],
           hr_headers = []\<rparr>"
| "key_request K AwCopyMark = None"

definition key_toast :: "js_val \<Rightarrow> string \<Rightarrow> api_keys \<Rightarrow> api_keys" where
  "key_toast msg ty s = s\<lparr>toastMessage := Some (msg, ty)\<rparr>"

definition fetchKeys :: "(api_keys, key_await) seg" where
  "fetchKeys = seg_then (set_state (\<lambda>s. s\<lparr>keys_loading := True\<rparr>)) (await AwKeys)"

text \<open>\<^verbatim>\<open>(response.data.keys || []).map(normalizeKey)\<close>\<close>

definition keys_of :: "answer \<Rightarrow> js_error + api_key list" where
  "keys_of ans =
     res_bind ans (\<lambda>d. res_bind (js_dot d ''keys'') (\<lambda>v.
       res_bind (js_array (js_or v (JArr []))) (\<lambda>ks. Inr (map normalizeKey ks))))"

definition fetchKeys_answer :: "answer \<Rightarrow> (api_keys, key_await) seg" where
  "fetchKeys_answer ans =
     set_state (\<lambda>s.
       (case keys_of ans of
          Inr ks \<Rightarrow> s\<lparr>keys := ks\<rparr>
        | Inl err \<Rightarrow> key_toast (JStr ''Failed to fetch API keys.'') ''danger'' s)\<lparr>keys_loading := False\<rparr>)"

definition handleCreateKey :: "(api_keys, key_await) seg" where
  "handleCreateKey s =
     (if js_trim (newKeyName s) = []
      then set_state (key_toast (JStr ''Please provide a name for the key.'') ''danger'') s
      else seg_then (set_state (\<lambda>s. s\<lparr>actionLoading := JBool True, newlyGeneratedToken := JNull\<rparr>))
             (await (AwCreate (newKeyName s))) s)"

text \<open>The \<^verbatim>\<open>finally\<close> and the \<^verbatim>\<open>catch\<close> of \<^verbatim>\<open>handleCreateKey\<close>.\<close>

definition create_finally :: "api_keys \<Rightarrow> api_keys" where
  "create_finally s = s\<lparr>actionLoading := JBool False, openCreateDialog := False\<rparr>"

definition create_failed :: "js_error \<Rightarrow> (api_keys, key_await) seg" where
  "create_failed err =
     set_state (\<lambda>s. create_finally
       (key_toast (server_message err ''Failed to complete key creation process.'') ''danger'' s))"

text \<open>\<^verbatim>\<open>keyResponse.data.keyInfo || keyResponse.data.key_info\<close>, and the prefix of the key in it.\<close>

definition created_prefix :: "answer \<Rightarrow> js_error + js_val" where
  "created_prefix ans =
     res_bind ans (\<lambda>d. res_bind (js_dot d ''keyInfo'') (\<lambda>a.
       let raw = js_or a (js_get d ''key_info'')
       in if js_Boolean raw \<and> js_Boolean (ak_keyPrefix (normalizeKey raw))
          then Inr (ak_keyPrefix (normalizeKey raw))
          else Inl \<lparr>error_response = JUndefined, error_message = ''Failed to get key info after creation.''\<rparr>))"

definition created_answer :: "answer \<Rightarrow> (api_keys, key_await) seg" where
  "created_answer ans =
     (case created_prefix ans of Inl err \<Rightarrow> create_failed err | Inr prefix \<Rightarrow> await (AwCreateJwt prefix))"

definition createJwt_answer :: "answer \<Rightarrow> (api_keys, key_await) seg" where
  "createJwt_answer ans =
     (case ans of
        Inl err \<Rightarrow> create_failed err
      | Inr d \<Rightarrow>
          seg_then
            (set_state (\<lambda>s. s\<lparr>newlyGeneratedToken := normalizeSdkJwt d, newKeyName := []\<rparr>))
            (seg_then fetchKeys
               (set_state (\<lambda>s. create_finally
                  (key_toast (JStr ''API Key and SDK JWT created successfully'') ''success'' s)))))"

definition handleDeleteConfirmation :: "js_val \<Rightarrow> (api_keys, key_await) seg" where
  "handleDeleteConfirmation prefix = set_state (\<lambda>s. s\<lparr>keyToDelete := prefix, openDeleteDialog := True\<rparr>)"

definition handleDeleteKey :: "(api_keys, key_await) seg" where
  "handleDeleteKey s =
     (if \<not> js_Boolean (keyToDelete s) then seg_skip s
      else seg_then (set_state (\<lambda>s. s\<lparr>actionLoading := JBool True\<rparr>)) (await (AwDelete (keyToDelete s))) s)"

definition deleteKey_answer :: "js_val \<Rightarrow> answer \<Rightarrow> (api_keys, key_await) seg" where
  "deleteKey_answer prefix ans =
     seg_then
       (case ans of
          Inr d \<Rightarrow>
            set_state (\<lambda>s. key_toast (JStr ''Key revoked successfully'') ''success''
              (s\<lparr>keys := filter (\<lambda>k. \<not> js_strict_eq (ak_keyPrefix k) prefix) (keys s)\<rparr>))
        | Inl err \<Rightarrow>
            seg_then (set_state (key_toast (server_message err ''Failed to revoke key.'') ''danger'')) fetchKeys)
       (set_state (\<lambda>s. s\<lparr>actionLoading := JBool False, openDeleteDialog := False, keyToDelete := JNull\<rparr>))"

definition handleGetSdkJwt :: "api_key \<Rightarrow> (api_keys, key_await) seg" where
  "handleGetSdkJwt key =
     seg_then (set_state (\<lambda>s. s\<lparr>actionLoading := ak_keyPrefix key\<rparr>)) (await (AwJwt key))"

definition getSdkJwt_answer :: "api_key \<Rightarrow> answer \<Rightarrow> (api_keys, key_await) seg" where
  "getSdkJwt_answer key ans =
     set_state (\<lambda>s.
       (case ans of
          Inr d \<Rightarrow> key_toast (JStr ''SDK JWT created'') ''success''
                      (s\<lparr>sdkJwt := normalizeSdkJwt d, keyForJwt := Some key\<rparr>)
        | Inl err \<Rightarrow> key_toast (server_message err ''Failed to create SDK JWT.'') ''danger'' s)
       \<lparr>actionLoading := JBool False\<rparr>)"

definition copyToClipboard :: "string \<Rightarrow> (api_keys, key_await) seg" where
  "copyToClipboard mark =
     seg_then
       (set_state (\<lambda>s. key_toast (JStr ''Copied to clipboard'') ''info'' (s\<lparr>copiedValue := Some mark\<rparr>)))
       (await AwCopyMark)"

section \<open>The page\<close>

text \<open>What the user can do. The buttons are disabled by \<^verbatim>\<open>actionLoading\<close>; the Enter key in the name
  field is not.\<close>

datatype key_event =
    NameTyped string | CreateClicked | CreateEntered | OpenCreate | CloseCreate
  | DeleteAsked js_val | DeleteClicked | CloseDelete | JwtClicked api_key
  | CopyClicked string | CloseToken | CloseJwt | ToastClosed

fun key_on_event :: "key_event \<Rightarrow> (api_keys, key_await) seg" where
  "key_on_event (NameTyped n) s = set_state (\<lambda>s. s\<lparr>newKeyName := n\<rparr>) s"
| "key_on_event CreateClicked s = (if actionLoading s = JBool True then seg_skip s else handleCreateKey s)"
| "key_on_event CreateEntered s = handleCreateKey s"
| "key_on_event OpenCreate s = set_state (\<lambda>s. s\<lparr>openCreateDialog := True\<rparr>) s"
| "key_on_event CloseCreate s = set_state (\<lambda>s. s\<lparr>openCreateDialog := False\<rparr>) s"
| "key_on_event (DeleteAsked p) s = handleDeleteConfirmation p s"
| "key_on_event DeleteClicked s = (if actionLoading s = JBool True then seg_skip s else handleDeleteKey s)"
| "key_on_event CloseDelete s = set_state (\<lambda>s. s\<lparr>openDeleteDialog := False\<rparr>) s"
| "key_on_event (JwtClicked k) s =
     (if js_strict_eq (actionLoading s) (ak_keyPrefix k) then seg_skip s else handleGetSdkJwt k s)"
| "key_on_event (CopyClicked mark) s = copyToClipboard mark s"
| "key_on_event CloseToken s = set_state (\<lambda>s. s\<lparr>newlyGeneratedToken := JNull\<rparr>) s"
| "key_on_event CloseJwt s = set_state (\<lambda>s. s\<lparr>sdkJwt := JNull\<rparr>) s"
| "key_on_event ToastClosed s = set_state (\<lambda>s. s\<lparr>toastMessage := None\<rparr>) s"

fun key_on_answer :: "key_await \<Rightarrow> answer \<Rightarrow> (api_keys, key_await) seg" where
  "key_on_answer AwKeys ans = fetchKeys_answer ans"
| "key_on_answer (AwCreate nm) ans = created_answer ans"
| "key_on_answer (AwCreateJwt prefix) ans = createJwt_answer ans"
| "key_on_answer (AwDelete prefix) ans = deleteKey_answer prefix ans"
| "key_on_answer (AwJwt key) ans = getSdkJwt_answer key ans"
| "key_on_answer AwCopyMark ans = set_state (\<lambda>s. s\<lparr>copiedValue := None\<rparr>)"

definition ApiKeyManager :: "(api_keys, key_event, key_await) page" where
  "ApiKeyManager =
     \<lparr>on_mount = (\<lambda>tok. fetchKeys), on_event = (\<lambda>e tok. key_on_event e),
      on_answer = (\<lambda>k tok ans. key_on_answer k ans), on_commit = (\<lambda>old tok. seg_skip)\<rparr>"

lemmas key_defs =
  fetchKeys_def fetchKeys_answer_def handleCreateKey_def create_finally_def create_failed_def
  created_answer_def createJwt_answer_def handleDeleteConfirmation_def handleDeleteKey_def
  deleteKey_answer_def handleGetSdkJwt_def getSdkJwt_answer_def copyToClipboard_def key_toast_def seg_defs

section \<open>The spinners\<close>

fun is_key_action :: "key_await \<Rightarrow> bool" where
  "is_key_action (AwCreate nm) = True"
| "is_key_action (AwCreateJwt p) = True"
| "is_key_action (AwDelete p) = True"
| "is_key_action (AwJwt k) = True"
| "is_key_action _ = False"

lemma key_event_loading:
  "key_on_event e s = (s', a) \<Longrightarrow> keys_loading s' \<Longrightarrow> keys_loading s \<or> AwKeys \<in> set a"
  by (cases e) (auto simp: key_defs split: if_splits)

lemma key_answer_loading:
  assumes "key_on_answer k ans s = (s', a)" "keys_loading s'"
  shows "(keys_loading s \<and> k \<noteq> AwKeys) \<or> AwKeys \<in> set a"
  using assms by (cases k; cases ans) (auto simp: key_defs split: sum.splits)

lemma key_event_action:
  "key_on_event e s = (s', a) \<Longrightarrow> actionLoading s' \<noteq> JBool False \<Longrightarrow>
     actionLoading s \<noteq> JBool False \<or> (\<exists>k \<in> set a. is_key_action k)"
  by (cases e) (auto simp: key_defs split: if_splits)

lemma key_answer_action:
  assumes "key_on_answer k ans s = (s', a)" "actionLoading s' \<noteq> JBool False"
  shows "(actionLoading s \<noteq> JBool False \<and> \<not> is_key_action k) \<or> (\<exists>k \<in> set a. is_key_action k)"
  using assms by (cases k; cases ans) (auto simp: key_defs split: sum.splits)

interpretation keys_fetch: page_busy ApiKeyManager new_api_keys keys_loading "\<lambda>k. k = AwKeys"
proof unfold_locales
  fix k tok ans s s' a
  assume "on_answer ApiKeyManager k tok ans s = (s', a)" "keys_loading s'"
  with key_answer_loading [of k ans s s' a]
  show "(keys_loading s \<and> k \<noteq> AwKeys) \<or> (\<exists>k \<in> set a. k = AwKeys)" by (simp add: ApiKeyManager_def)
next
  fix e tok s s' a
  assume "on_event ApiKeyManager e tok s = (s', a)" "keys_loading s'"
  with key_event_loading [of e s s' a]
  show "keys_loading s \<or> (\<exists>k \<in> set a. k = AwKeys)" by (simp add: ApiKeyManager_def)
qed (auto simp: ApiKeyManager_def key_defs)

interpretation keys_action: page_busy ApiKeyManager new_api_keys
  "\<lambda>s. actionLoading s \<noteq> JBool False" is_key_action
proof unfold_locales
  fix k tok ans s s' a
  assume "on_answer ApiKeyManager k tok ans s = (s', a)" "actionLoading s' \<noteq> JBool False"
  with key_answer_action [of k ans s s' a]
  show "(actionLoading s \<noteq> JBool False \<and> \<not> is_key_action k) \<or> (\<exists>k \<in> set a. is_key_action k)"
    by (simp add: ApiKeyManager_def)
next
  fix e tok s s' a
  assume "on_event ApiKeyManager e tok s = (s', a)" "actionLoading s' \<noteq> JBool False"
  with key_event_action [of e s s' a]
  show "actionLoading s \<noteq> JBool False \<or> (\<exists>k \<in> set a. is_key_action k)" by (simp add: ApiKeyManager_def)
qed (auto simp: ApiKeyManager_def key_defs new_api_keys_def)

section \<open>Properties\<close>

text \<open>C36: No spinner of the key page stays on by itself: in every reachable state, \<^verbatim>\<open>loading\<close> is set only
  while a list request is open, and \<^verbatim>\<open>actionLoading\<close> only while a request of an action is open, in
  whatever order the answers come and whatever they are. With no request open, both are off.\<close>

theorem key_spinners_have_requests:
  assumes "page_reach ApiKeyManager new_api_keys (s, p)"
  shows "(keys_loading s \<longrightarrow> AwKeys \<in> set p)
     \<and> (actionLoading s \<noteq> JBool False \<longrightarrow> (\<exists>k \<in> set p. is_key_action k))
     \<and> (p = [] \<longrightarrow> \<not> keys_loading s \<and> actionLoading s = JBool False)"
  using keys_fetch.busy_has_request [OF assms] keys_action.busy_has_request [OF assms]
  by (cases "actionLoading s = JBool False") auto

text \<open>A key that is created while the list is still loading.\<close>

definition sample_key_run :: "key_event input list" where
  "sample_key_run =
     [Event None (NameTyped ''ci''), Event None CreateClicked,
      Answer None 1 (Inr (JObj [(''key_info'', JObj [(''key_prefix'', JStr ''k1'')])]))]"

theorem key_spinners_have_requests_witness:
  "\<exists>s. page_run ApiKeyManager sample_key_run (page_start ApiKeyManager None new_api_keys)
        = (s, [AwKeys, AwCreateJwt (JStr ''k1'')])
     \<and> keys_loading s \<and> actionLoading s = JBool True
     \<and> AwKeys \<in> set [AwKeys, AwCreateJwt (JStr ''k1'')]
     \<and> (\<exists>k \<in> set [AwKeys, AwCreateJwt (JStr ''k1'')]. is_key_action k)"
proof -
  let ?st = "page_run ApiKeyManager sample_key_run (page_start ApiKeyManager None new_api_keys)"
  have st: "snd ?st = [AwKeys, AwCreateJwt (JStr ''k1'')]" "keys_loading (fst ?st)"
    "actionLoading (fst ?st) = JBool True"
    by (simp_all add: sample_key_run_def page_run_def page_start_def ApiKeyManager_def key_defs
        new_api_keys_def js_trim_def js_space_def created_prefix_def js_dot_def js_or_def js_coalesce_def
        isSet_def normalizeKey_def Let_def)
  have "page_reach ApiKeyManager new_api_keys (fst ?st, snd ?st)"
    using page_reach_run [OF page_reach.mounted] by simp
  from key_spinners_have_requests [OF this] st show ?thesis
    by (intro exI [of _ "fst ?st"]) (auto simp: prod_eq_iff)
qed

text \<open>Revoking a key asks for it, sends one DELETE for exactly its prefix and, when that succeeds,
  removes the keys with this prefix from the list and no others, clears the spinner and closes
  the dialog, from every state in which no action is running.\<close>

theorem revoke_removes_key:
  assumes "actionLoading s \<noteq> JBool True" and "js_Boolean prefix"
  shows "\<exists>s1 s2.
      page_run ApiKeyManager [Event tok (DeleteAsked prefix), Event tok DeleteClicked] (s, p)
        = (s1, p @ [AwDelete prefix])
    \<and> keys s1 = keys s \<and> actionLoading s1 = JBool True
    \<and> key_request K (AwDelete prefix)
        = Some \<lparr>hr_verb = DELETE, hr_url = ''/v1/keys/'' @ js_String K prefix, hr_body = JUndefined, hr_headers = []\<rparr>
    \<and> page_next ApiKeyManager (Answer tok (length p) (Inr d)) (s1, p @ [AwDelete prefix]) = (s2, p)
    \<and> keys s2 = filter (\<lambda>k. \<not> js_strict_eq (ak_keyPrefix k) prefix) (keys s)
    \<and> actionLoading s2 = JBool False \<and> \<not> openDeleteDialog s2 \<and> keyToDelete s2 = JNull"
  using assms by (simp add: page_run_def ApiKeyManager_def key_defs)

theorem revoke_removes_key_witness:
  "\<exists>s1 s2.
      page_run ApiKeyManager [Event None (DeleteAsked (JStr ''k1'')), Event None DeleteClicked] (new_api_keys, [])
        = (s1, [AwDelete (JStr ''k1'')])
    \<and> page_next ApiKeyManager (Answer None 0 (Inr JNull)) (s1, [AwDelete (JStr ''k1'')]) = (s2, [])
    \<and> keys s2 = []"
  using revoke_removes_key [of new_api_keys "JStr ''k1''" None "[]" plain_conv JNull]
  by (auto simp: new_api_keys_def)

text \<open>When the server has created a key but the request for its SDK token fails, the page reports a
  failure, shows no token and leaves its list as it was, without asking for it again: the new key
  exists but is not shown.\<close>

theorem created_key_not_listed:
  assumes "created_prefix ans = Inr prefix"
  shows "\<exists>s1 s2.
      page_next ApiKeyManager (Answer tok 0 ans) (s, [AwCreate nm]) = (s1, [AwCreateJwt prefix])
    \<and> page_next ApiKeyManager (Answer tok 0 (Inl err)) (s1, [AwCreateJwt prefix]) = (s2, [])
    \<and> keys s2 = keys s \<and> newlyGeneratedToken s2 = newlyGeneratedToken s
    \<and> toastMessage s2 = Some (server_message err ''Failed to complete key creation process.'', ''danger'')
    \<and> \<not> openCreateDialog s2"
  using assms by (simp add: ApiKeyManager_def key_defs)

theorem created_key_not_listed_witness:
  "\<exists>s1 s2.
      page_next ApiKeyManager
        (Answer None 0 (Inr (JObj [(''keyInfo'', JObj [(''keyPrefix'', JStr ''k1'')])]))) (new_api_keys, [AwCreate ''ci''])
        = (s1, [AwCreateJwt (JStr ''k1'')])
    \<and> page_next ApiKeyManager (Answer None 0 (Inl type_error)) (s1, [AwCreateJwt (JStr ''k1'')]) = (s2, [])
    \<and> keys s2 = []"
proof -
  have "created_prefix (Inr (JObj [(''keyInfo'', JObj [(''keyPrefix'', JStr ''k1'')])])) = Inr (JStr ''k1'')"
    by (simp add: created_prefix_def js_dot_def js_or_def js_coalesce_def isSet_def normalizeKey_def Let_def)
  from created_key_not_listed [OF this, of None new_api_keys "''ci''" type_error] show ?thesis
    by (auto simp: new_api_keys_def)
qed

text \<open>The Enter key in the name field starts a creation even while one is running: pressing it
  twice sends two requests, and the disabled button does not prevent this.\<close>

theorem enter_creates_twice:
  assumes "js_trim (newKeyName s) \<noteq> []"
  shows "\<exists>s'. page_run ApiKeyManager [Event tok CreateEntered, Event tok CreateEntered, Event tok CreateClicked] (s, p)
     = (s', p @ [AwCreate (newKeyName s), AwCreate (newKeyName s)])"
  using assms by (simp add: page_run_def ApiKeyManager_def key_defs)

theorem enter_creates_twice_witness:
  "\<exists>s'. page_run ApiKeyManager [Event None CreateEntered, Event None CreateEntered, Event None CreateClicked]
       (new_api_keys\<lparr>newKeyName := ''ci''\<rparr>, []) = (s', [AwCreate ''ci'', AwCreate ''ci''])"
  using enter_creates_twice [of "new_api_keys\<lparr>newKeyName := ''ci''\<rparr>" None "[]"]
  by (simp add: js_trim_def js_space_def)

end
