(* ===== verification/Overlays.thy ===== *)
theory Overlays
  imports React
begin

text \<open>
  The toast and the dialog of the console, \<^verbatim>\<open>auth/frontend/src/components/Toast.tsx\<close> and
  \<^verbatim>\<open>Dialog.tsx\<close>.

  A toast is a machine with three timers. Its state holds the properties that the parent passes,
  the two states \<^verbatim>\<open>isVisible\<close> and \<^verbatim>\<open>shouldRender\<close>, the deadlines of the timers that are set, the
  time, and how often \<^verbatim>\<open>onClose\<close> was called. After every change React runs the effects whose
  dependencies changed, each after the cleanup of its previous run. Parents pass a new function
  \<^verbatim>\<open>onClose\<close> whenever they render, so a rendering parent restarts the second effect.

  A dialog registers a listener for the Escape key and stops the page from scrolling while it is
  open; several dialogs share the document.
\<close>

section \<open>The toast\<close>

record toast =
  t_message :: string
  t_duration :: nat
  t_isVisible :: bool
  t_shouldRender :: bool
  t_showTimer :: "nat option"
  t_hideTimer :: "nat option"
  t_closeTimer :: "nat option"
  t_now :: nat
  t_closed :: nat

text \<open>A missing message is the empty string here: both are false.\<close>

definition new_Toast :: "nat \<Rightarrow> toast" where
  "new_Toast duration =
     \<lparr>t_message = [], t_duration = duration, t_isVisible = False, t_shouldRender = False,
      t_showTimer = None, t_hideTimer = None, t_closeTimer = None, t_now = 0, t_closed = 0\<rparr>"

text \<open>The two effects, with their cleanups.\<close>

definition message_effect :: "toast \<Rightarrow> toast" where
  "message_effect t =
     (let t1 = t\<lparr>t_showTimer := None, t_hideTimer := None\<rparr>
      in if t_message t = [] then t1
         else t1\<lparr>t_shouldRender := True, t_showTimer := Some (t_now t + 10),
                 t_hideTimer := Some (t_now t + t_duration t)\<rparr>)"

definition close_effect :: "toast \<Rightarrow> toast" where
  "close_effect t =
     t\<lparr>t_closeTimer := (if \<not> t_isVisible t \<and> t_shouldRender t then Some (t_now t + 300) else None)\<rparr>"

definition toast_commit :: "bool \<Rightarrow> toast \<Rightarrow> toast \<Rightarrow> toast" where
  "toast_commit newClose old t =
     (let t1 = (if t_message t \<noteq> t_message old \<or> t_duration t \<noteq> t_duration old
                then message_effect t else t)
      in if newClose \<or> t_isVisible t1 \<noteq> t_isVisible old \<or> t_shouldRender t1 \<noteq> t_shouldRender old
         then close_effect t1 else t1)"

text \<open>The parent renders, with the same or another message; a timer fires.\<close>

definition toast_props :: "string \<Rightarrow> nat \<Rightarrow> toast \<Rightarrow> toast" where
  "toast_props msg duration t = toast_commit True t (t\<lparr>t_message := msg, t_duration := duration\<rparr>)"

definition show_fires :: "nat \<Rightarrow> toast \<Rightarrow> toast" where
  "show_fires d t =
     toast_commit False t (t\<lparr>t_now := d, t_showTimer := None, t_isVisible := True\<rparr>)"

definition hide_fires :: "nat \<Rightarrow> toast \<Rightarrow> toast" where
  "hide_fires d t =
     toast_commit False t (t\<lparr>t_now := d, t_hideTimer := None, t_isVisible := False\<rparr>)"

definition close_fires :: "nat \<Rightarrow> toast \<Rightarrow> toast" where
  "close_fires d t =
     toast_commit False t
       (t\<lparr>t_now := d, t_closeTimer := None, t_shouldRender := False, t_closed := Suc (t_closed t)\<rparr>)"

definition Toast_rendered :: "toast \<Rightarrow> bool" where
  "Toast_rendered t = (t_shouldRender t \<and> t_message t \<noteq> [])"

text \<open>The button of the toast, which is there while the toast is drawn.\<close>

definition close_click :: "toast \<Rightarrow> toast" where
  "close_click t = toast_commit False t (t\<lparr>t_isVisible := False\<rparr>)"

text \<open>Timers fire in the order of their deadlines. Time passes up to the next deadline.\<close>

definition deadlines :: "toast \<Rightarrow> nat set" where
  "deadlines t = set_option (t_showTimer t) \<union> set_option (t_hideTimer t) \<union> set_option (t_closeTimer t)"

inductive toast_fire :: "toast \<Rightarrow> toast \<Rightarrow> bool" where
  pass: "t_now t \<le> d \<Longrightarrow> \<forall>d' \<in> deadlines t. d \<le> d' \<Longrightarrow> toast_fire t (t\<lparr>t_now := d\<rparr>)"
| fire_show: "t_showTimer t = Some d \<Longrightarrow> \<forall>d' \<in> deadlines t. d \<le> d' \<Longrightarrow> toast_fire t (show_fires d t)"
| fire_hide: "t_hideTimer t = Some d \<Longrightarrow> \<forall>d' \<in> deadlines t. d \<le> d' \<Longrightarrow> toast_fire t (hide_fires d t)"
| fire_close: "t_closeTimer t = Some d \<Longrightarrow> \<forall>d' \<in> deadlines t. d \<le> d' \<Longrightarrow> toast_fire t (close_fires d t)"

inductive toast_step :: "toast \<Rightarrow> toast \<Rightarrow> bool" where
  props: "toast_step t (toast_props msg duration t)"
| timer: "toast_fire t t' \<Longrightarrow> toast_step t t'"
| click: "Toast_rendered t \<Longrightarrow> toast_step t (close_click t)"

inductive_cases toast_fireE: "toast_fire t t'"

lemmas toast_defs =
  toast_props_def show_fires_def hide_fires_def close_fires_def close_click_def toast_commit_def message_effect_def
  close_effect_def Let_def

section \<open>The dialog\<close>

record document =
  d_keydown :: nat
  d_overflow :: string

text \<open>All cleanups of a commit run before the effects. The listener of a dialog that was never
  registered cannot be removed.\<close>

definition dialog_cleanup :: "bool \<Rightarrow> document \<Rightarrow> document" where
  "dialog_cleanup was_open d =
     d\<lparr>d_keydown := (if was_open then d_keydown d - 1 else d_keydown d), d_overflow := ''unset''\<rparr>"

definition dialog_effect :: "bool \<Rightarrow> document \<Rightarrow> document" where
  "dialog_effect opened d =
     (if opened then d\<lparr>d_keydown := Suc (d_keydown d), d_overflow := ''hidden''\<rparr> else d)"

text \<open>A page renders its dialogs: \<open>old\<close> and \<open>new\<close> are the \<^verbatim>\<open>open\<close> properties before and after.\<close>

definition dialogs_commit :: "bool list \<Rightarrow> bool list \<Rightarrow> document \<Rightarrow> document" where
  "dialogs_commit old new d = fold dialog_effect new (fold dialog_cleanup old d)"

definition dialog_key :: "string \<Rightarrow> bool \<Rightarrow> bool" where
  "dialog_key key registered = (registered \<and> key = ''Escape'')"

lemma fold_dialog_cleanup:
  "fold dialog_cleanup old d =
     d\<lparr>d_keydown := d_keydown d - length (filter id old),
       d_overflow := (if old = [] then d_overflow d else ''unset'')\<rparr>"
  by (induction old arbitrary: d) (simp_all add: dialog_cleanup_def)

lemma fold_dialog_effect:
  "fold dialog_effect new d =
     d\<lparr>d_keydown := d_keydown d + length (filter id new),
       d_overflow := (if True \<in> set new then ''hidden'' else d_overflow d)\<rparr>"
  by (induction new arbitrary: d) (auto simp: dialog_effect_def)

lemma dialogs_commit_state:
  assumes "d_keydown d = length (filter id old)" and "old \<noteq> []"
  shows "d_keydown (dialogs_commit old new d) = length (filter id new)"
    and "d_overflow (dialogs_commit old new d) = (if True \<in> set new then ''hidden'' else ''unset'')"
  using assms by (simp_all add: dialogs_commit_def fold_dialog_cleanup fold_dialog_effect)

section \<open>The life of a toast\<close>

text \<open>The invariant of a toast: the closing timer runs exactly while it fades out, and no deadline
  has passed.\<close>

definition toast_ok :: "toast \<Rightarrow> bool" where
  "toast_ok t \<longleftrightarrow> (t_closeTimer t \<noteq> None \<longleftrightarrow> \<not> t_isVisible t \<and> t_shouldRender t)
     \<and> (\<forall>d \<in> deadlines t. t_now t \<le> d)"

lemma toast_step_ok: "toast_step t t' \<Longrightarrow> toast_ok t \<Longrightarrow> toast_ok t'"
proof (induction rule: toast_step.induct)
  case (props t msg duration)
  then show ?case by (auto simp: toast_ok_def toast_defs deadlines_def)
next
  case (timer t t')
  then show ?case
    by (induction rule: toast_fire.induct) (auto simp: toast_ok_def toast_defs deadlines_def)
next
  case (click t)
  then show ?case by (auto simp: toast_ok_def toast_defs deadlines_def)
qed

text \<open>The phases of a toast that was given a message at time \<open>n\<close> and is left alone.\<close>

datatype phase = Opening | Shown | Closing | Closed

fun in_phase :: "nat \<Rightarrow> nat \<Rightarrow> nat \<Rightarrow> phase \<Rightarrow> toast \<Rightarrow> bool" where
  "in_phase D n c Opening t \<longleftrightarrow> \<not> t_isVisible t \<and> t_shouldRender t \<and> t_closed t = c \<and> t_now t \<le> n + 10
     \<and> t_showTimer t = Some (n + 10) \<and> t_hideTimer t = Some (n + D) \<and> t_closeTimer t = Some (n + 300)"
| "in_phase D n c Shown t \<longleftrightarrow> t_isVisible t \<and> t_shouldRender t \<and> t_closed t = c \<and> t_now t \<le> n + D
     \<and> t_showTimer t = None \<and> t_hideTimer t = Some (n + D) \<and> t_closeTimer t = None"
| "in_phase D n c Closing t \<longleftrightarrow> \<not> t_isVisible t \<and> t_shouldRender t \<and> t_closed t = c \<and> t_now t \<le> n + D + 300
     \<and> t_showTimer t = None \<and> t_hideTimer t = None \<and> t_closeTimer t = Some (n + D + 300)"
| "in_phase D n c Closed t \<longleftrightarrow> \<not> t_isVisible t \<and> \<not> t_shouldRender t \<and> t_closed t = Suc c
     \<and> n + D + 300 \<le> t_now t \<and> t_showTimer t = None \<and> t_hideTimer t = None \<and> t_closeTimer t = None"

fun next_phase :: "phase \<Rightarrow> phase" where
  "next_phase Opening = Shown"
| "next_phase Shown = Closing"
| "next_phase Closing = Closed"
| "next_phase Closed = Closed"

lemma fires_message [simp]:
  "t_message (show_fires d t) = t_message t" "t_message (hide_fires d t) = t_message t"
  "t_message (close_fires d t) = t_message t"
  by (simp_all add: toast_defs)

lemma toast_fire_message: "toast_fire t t' \<Longrightarrow> t_message t' = t_message t"
  by (induction rule: toast_fire.induct) simp_all

lemma opening_fires:
  assumes "in_phase D n c Opening t" "10 < D" "toast_fire t t'"
  shows "in_phase D n c Opening t' \<or> in_phase D n c Shown t'"
  using assms(3) assms(1,2)
proof cases
  case (fire_show d)
  with assms show ?thesis by (simp add: toast_defs)
qed (simp_all add: deadlines_def)

lemma shown_fires:
  assumes "in_phase D n c Shown t" "toast_fire t t'"
  shows "in_phase D n c Shown t' \<or> in_phase D n c Closing t'"
  using assms(2) assms(1)
proof cases
  case (fire_hide d)
  with assms show ?thesis by (simp add: toast_defs)
qed (simp_all add: deadlines_def)

lemma closing_fires:
  assumes "in_phase D n c Closing t" "toast_fire t t'"
  shows "in_phase D n c Closing t' \<or> in_phase D n c Closed t'"
  using assms(2) assms(1)
proof cases
  case (fire_close d)
  with assms show ?thesis by (simp add: toast_defs)
qed (simp_all add: deadlines_def)

lemma closed_fires:
  assumes "in_phase D n c Closed t" "toast_fire t t'"
  shows "in_phase D n c Closed t'"
  using assms(2) assms(1) by cases (simp_all add: deadlines_def)

lemma phase_fires:
  assumes "toast_fire t t'" "in_phase D n c ph t" "10 < D"
  shows "\<exists>ph'. in_phase D n c ph' t'"
proof (cases ph)
  case Opening
  with assms opening_fires show ?thesis by blast
next
  case Shown
  with assms shown_fires show ?thesis by blast
next
  case Closing
  with assms closing_fires show ?thesis by blast
next
  case Closed
  with assms closed_fires show ?thesis by blast
qed

lemma phase_advances:
  assumes "in_phase D n c ph t" "10 < D" "ph \<noteq> Closed"
  shows "\<exists>t'. toast_fire t t' \<and> in_phase D n c (next_phase ph) t'"
proof (cases ph)
  case Opening
  with assms have "toast_fire t (show_fires (n + 10) t)"
    by (intro fire_show) (simp_all add: deadlines_def)
  moreover have "in_phase D n c Shown (show_fires (n + 10) t)"
    using Opening assms by (simp add: toast_defs)
  ultimately show ?thesis using Opening by auto
next
  case Shown
  with assms have "toast_fire t (hide_fires (n + D) t)"
    by (intro fire_hide) (simp_all add: deadlines_def)
  moreover have "in_phase D n c Closing (hide_fires (n + D) t)"
    using Shown assms by (simp add: toast_defs)
  ultimately show ?thesis using Shown by auto
next
  case Closing
  with assms have "toast_fire t (close_fires (n + D + 300) t)"
    by (intro fire_close) (simp_all add: deadlines_def)
  moreover have "in_phase D n c Closed (close_fires (n + D + 300) t)"
    using Closing assms by (simp add: toast_defs)
  ultimately show ?thesis using Closing by auto
qed (use assms in simp)

lemma phase_reach:
  assumes "toast_fire\<^sup>*\<^sup>* t t'" "in_phase D n c ph t" "10 < D"
  shows "(\<exists>ph'. in_phase D n c ph' t') \<and> t_message t' = t_message t"
  using assms
proof (induction rule: rtranclp_induct)
  case (step t' t'')
  then obtain ph' where "in_phase D n c ph' t'" by blast
  from phase_fires [OF step.hyps(2) this step.prems(2)] step toast_fire_message [OF step.hyps(2)]
  show ?case by simp
qed blast

lemma phase_ends:
  assumes "in_phase D n c ph t" "10 < D"
  shows "\<exists>t'. toast_fire\<^sup>*\<^sup>* t t' \<and> in_phase D n c Closed t'"
proof -
  have step: "\<exists>t'. toast_fire\<^sup>*\<^sup>* t t' \<and> in_phase D n c Closed t'"
    if "in_phase D n c ph t" "ph \<noteq> Closed"
      "\<And>t'. in_phase D n c (next_phase ph) t' \<Longrightarrow> \<exists>t''. toast_fire\<^sup>*\<^sup>* t' t'' \<and> in_phase D n c Closed t''"
    for ph t
    using phase_advances [OF that(1) assms(2) that(2)] that(3)
    by (metis converse_rtranclp_into_rtranclp)
  have closing: "\<exists>t'. toast_fire\<^sup>*\<^sup>* t t' \<and> in_phase D n c Closed t'" if "in_phase D n c Closing t" for t
    using step [OF that] by (metis next_phase.simps(3) phase.distinct(11) rtranclp.rtrancl_refl)
  have shown: "\<exists>t'. toast_fire\<^sup>*\<^sup>* t t' \<and> in_phase D n c Closed t'" if "in_phase D n c Shown t" for t
    using step [OF that] closing by simp
  show ?thesis
  proof (cases ph)
    case Opening
    then show ?thesis using step [OF assms(1)] shown by simp
  next
    case Shown
    then show ?thesis using shown assms(1) by simp
  next
    case Closing
    then show ?thesis using closing assms(1) by simp
  next
    case Closed
    then show ?thesis using assms(1) by blast
  qed
qed

text \<open>A toast whose button was clicked: it fades out until \<open>m\<close>, whether or not its other timer runs out in
  between.\<close>

definition fading :: "nat \<Rightarrow> nat \<Rightarrow> toast \<Rightarrow> bool" where
  "fading m c t \<longleftrightarrow> \<not> t_isVisible t \<and> t_showTimer t = None \<and>
     (if t_shouldRender t then t_closed t = c \<and> t_closeTimer t = Some m \<and> t_now t \<le> m
      else t_closed t = Suc c \<and> t_closeTimer t = None \<and> m \<le> t_now t)"

lemma fading_fires:
  assumes "toast_fire t t'" "fading m c t" "toast_ok t"
  shows "fading m c t'"
  using assms(1) assms(2,3)
  by cases (auto simp: fading_def toast_defs deadlines_def toast_ok_def split: if_splits)

lemma fading_runs:
  assumes "toast_fire\<^sup>*\<^sup>* t t'" "fading m c t" "toast_ok t"
  shows "fading m c t' \<and> toast_ok t'"
  using assms
  by (induction rule: rtranclp_induct) (auto intro: fading_fires toast_step_ok toast_step.timer)

lemma fading_closes:
  assumes "fading m c t" "toast_ok t" "t_shouldRender t"
  shows "\<exists>t'. toast_fire\<^sup>*\<^sup>* t t' \<and> t_closed t' = Suc c"
proof -
  have closes: "\<exists>t'. toast_fire\<^sup>*\<^sup>* u t' \<and> t_closed t' = Suc c"
    if "fading m c u" "t_shouldRender u" "\<forall>d \<in> set_option (t_hideTimer u). m \<le> d" for u
  proof -
    from that have "toast_fire u (close_fires m u)"
      by (intro fire_close) (auto simp: fading_def deadlines_def)
    moreover have "t_closed (close_fires m u) = Suc c" using that by (simp add: fading_def toast_defs)
    ultimately show ?thesis by blast
  qed
  show ?thesis
  proof (cases "\<exists>d. t_hideTimer t = Some d \<and> d < m")
    case True
    then obtain d where d: "t_hideTimer t = Some d" "d < m" by blast
    have fire: "toast_fire t (hide_fires d t)"
      using assms d by (intro fire_hide) (auto simp: fading_def deadlines_def)
    from fading_fires [OF fire assms(1,2)] have "fading m c (hide_fires d t)" .
    moreover have "t_shouldRender (hide_fires d t)" "t_hideTimer (hide_fires d t) = None"
      using assms(1,3) by (auto simp: fading_def toast_defs)
    ultimately show ?thesis using closes [of "hide_fires d t"] fire
      by (auto intro: converse_rtranclp_into_rtranclp)
  next
    case False
    with closes [OF assms(1,3)] show ?thesis by (cases "t_hideTimer t") auto
  qed
qed

section \<open>Properties\<close>

text \<open>C26: A toast with a duration above 10 ms that is given a message while it is closed lives as intended: under any order of its
  timers it is drawn until \<^verbatim>\<open>onClose\<close> has been called, \<^verbatim>\<open>onClose\<close> is called at most once and not
  before the duration and the 300 ms of the animation are over, it can always run on to that
  point, and afterwards no timer is left.\<close>

theorem toast_closes_once:
  assumes "toast_ok t" and "\<not> t_shouldRender t" and "\<not> t_isVisible t" and "msg \<noteq> []"
    and "t_message t \<noteq> msg" and "10 < D" and "toast_fire\<^sup>*\<^sup>* (toast_props msg D t) t'"
  shows "(Toast_rendered t' \<longleftrightarrow> t_closed t' = t_closed t) \<and> t_closed t' \<le> Suc (t_closed t)
    \<and> (t_closed t' = Suc (t_closed t) \<longrightarrow> t_now t + D + 300 \<le> t_now t' \<and> deadlines t' = {})
    \<and> (\<exists>t''. toast_fire\<^sup>*\<^sup>* t' t'' \<and> t_closed t'' = Suc (t_closed t))"
proof -
  have "in_phase D (t_now t) (t_closed t) Opening (toast_props msg D t)"
    using assms by (simp add: toast_defs)
  note start = this assms(6)
  from phase_reach [OF assms(7) start] obtain ph where
    ph: "in_phase D (t_now t) (t_closed t) ph t'" and msg: "t_message t' = msg"
    by (auto simp: toast_defs)
  have "(Toast_rendered t' \<longleftrightarrow> t_closed t' = t_closed t) \<and> t_closed t' \<le> Suc (t_closed t)
      \<and> (t_closed t' = Suc (t_closed t) \<longrightarrow> t_now t + D + 300 \<le> t_now t' \<and> deadlines t' = {})"
    using ph msg assms(4) by (cases ph) (simp_all add: Toast_rendered_def deadlines_def)
  moreover from phase_ends [OF ph assms(6)]
  have "\<exists>t''. toast_fire\<^sup>*\<^sup>* t' t'' \<and> t_closed t'' = Suc (t_closed t)" by auto
  ultimately show ?thesis by blast
qed

theorem toast_closes_once_witness:
  "\<exists>t''. toast_fire\<^sup>*\<^sup>* (toast_props ''hi'' 4000 (new_Toast 4000)) t'' \<and> t_closed t'' = 1
     \<and> 4300 \<le> t_now t'' \<and> deadlines t'' = {}"
proof -
  have new: "toast_ok (new_Toast 4000)" "\<not> t_shouldRender (new_Toast 4000)"
    "\<not> t_isVisible (new_Toast 4000)" "''hi'' \<noteq> []" "t_message (new_Toast 4000) \<noteq> ''hi''" "10 < (4000 :: nat)"
    by (simp_all add: toast_ok_def new_Toast_def deadlines_def)
  have zero: "t_now (new_Toast 4000) = 0" "t_closed (new_Toast 4000) = 0" by (simp_all add: new_Toast_def)
  from toast_closes_once [OF new rtranclp.rtrancl_refl] zero obtain t'' where
    t: "toast_fire\<^sup>*\<^sup>* (toast_props ''hi'' 4000 (new_Toast 4000)) t''" "t_closed t'' = 1" by auto
  from toast_closes_once [OF new t(1)] t zero show ?thesis by auto
qed

text \<open>The button of a visible toast closes it: \<^verbatim>\<open>onClose\<close> is called once, 300 ms after the click and not before,
  also when the timer of the duration runs out meanwhile or later.\<close>

theorem toast_click_closes:
  assumes "toast_ok t" "t_isVisible t" "t_shouldRender t" "t_showTimer t = None" "toast_fire\<^sup>*\<^sup>* (close_click t) t'"
  shows "t_closed t' = (if t_shouldRender t' then t_closed t else Suc (t_closed t))
    \<and> (if t_shouldRender t' then t_now t' \<le> t_now t + 300 else t_now t + 300 \<le> t_now t')
    \<and> (\<exists>t''. toast_fire\<^sup>*\<^sup>* t' t'' \<and> t_closed t'' = Suc (t_closed t))"
proof -
  have "fading (t_now t + 300) (t_closed t) (close_click t)"
    using assms by (simp add: fading_def toast_defs)
  moreover have "toast_ok (close_click t)"
    using assms by (auto simp: toast_ok_def toast_defs deadlines_def)
  ultimately have f: "fading (t_now t + 300) (t_closed t) t'" "toast_ok t'"
    using fading_runs [OF assms(5)] by auto
  then have "\<exists>t''. toast_fire\<^sup>*\<^sup>* t' t'' \<and> t_closed t'' = Suc (t_closed t)"
    using fading_closes [OF f] by (cases "t_shouldRender t'") (auto simp: fading_def)
  with f(1) show ?thesis by (auto simp: fading_def)
qed

end
