(* ===== verification/Console_Format.thy ===== *)
theory Console_Format
  imports React
begin

text \<open>
  The formatting functions of the console, \<^verbatim>\<open>auth/frontend/src/utils/format.ts\<close>. Numbers are exact,
  as everywhere in the development; in particular \<^verbatim>\<open>Math.log(x) / Math.log(1024)\<close> is the logarithm.
  How the browser prints a number (\<^verbatim>\<open>toString\<close>, \<^verbatim>\<open>toLocaleString\<close>) and a time in the local language is the
  parameter \<open>L\<close>, next to the parameter \<open>K\<close> of \<open>Json\<close>; \<^verbatim>\<open>toFixed\<close> is defined here.
\<close>

section \<open>Printing\<close>

record locale_conv =
  locale_num :: "js_num \<Rightarrow> string"
  locale_date_time :: "rat \<Rightarrow> string"
  locale_time :: "rat \<Rightarrow> string"

text \<open>\<^verbatim>\<open>toLowerCase\<close>, for the letters below code 256.\<close>

definition lower_char :: "char \<Rightarrow> char" where
  "lower_char c =
     (let n = of_char c :: nat
      in if (65 \<le> n \<and> n \<le> 90) \<or> (192 \<le> n \<and> n \<le> 222 \<and> n \<noteq> 215) then char_of (n + 32) else c)"

definition js_lower :: "string \<Rightarrow> string" where
  "js_lower s = map lower_char s"

definition isFinite :: "js_num \<Rightarrow> bool" where
  "isFinite x = (case x of Fin a \<Rightarrow> True | _ \<Rightarrow> False)"

text \<open>\<^verbatim>\<open>x.toFixed(d)\<close>: the integer nearest to \<open>x * 10 ^ d\<close>, the larger of two, with the decimal point
  put back.\<close>

definition pad_left :: "nat \<Rightarrow> string \<Rightarrow> string" where
  "pad_left n s = replicate (n - length s) CHR ''0'' @ s"

definition fixed_digits :: "nat \<Rightarrow> rat \<Rightarrow> string" where
  "fixed_digits d a =
     (let n = nat \<lfloor>a * 10 ^ d + 1 / 2\<rfloor>
      in if d = 0 then show_nat n
         else show_nat (n div 10 ^ d) @ ''.'' @ pad_left d (show_nat (n mod 10 ^ d)))"

fun toFixed :: "text_conv \<Rightarrow> nat \<Rightarrow> js_num \<Rightarrow> string" where
  "toFixed K d (Fin a) =
     (if 10 ^ 21 \<le> \<bar>a\<bar> then str_of_num K (Fin a)
      else if a < 0 then ''-'' @ fixed_digits d (- a)
      else fixed_digits d a)"
| "toFixed K d x = str_of_num K x"

section \<open>\<^verbatim>\<open>format.ts\<close>\<close>

definition toNumber :: "text_conv \<Rightarrow> js_val \<Rightarrow> js_num \<Rightarrow> js_num" where
  "toNumber K v fallback =
     (case v of
        JNum n \<Rightarrow> if isFinite n then n else fallback
      | _ \<Rightarrow> let parsed = js_Number K v in if isFinite parsed then parsed else fallback)"

definition toStringSafe :: "text_conv \<Rightarrow> js_val \<Rightarrow> string \<Rightarrow> string" where
  "toStringSafe K v fallback =
     (case v of JStr s \<Rightarrow> s | _ \<Rightarrow> if v = JNull \<or> v = JUndefined then fallback else js_String K v)"

definition toLowerSafe :: "text_conv \<Rightarrow> js_val \<Rightarrow> string" where
  "toLowerSafe K v = js_lower (toStringSafe K v [])"

definition formatNumber :: "text_conv \<Rightarrow> locale_conv \<Rightarrow> js_val \<Rightarrow> string \<Rightarrow> string" where
  "formatNumber K L v fallback =
     (let num = toNumber K v NaN in if \<not> isFinite num then fallback else locale_num L num)"

definition formatCompactNumber :: "text_conv \<Rightarrow> js_val \<Rightarrow> string \<Rightarrow> string" where
  "formatCompactNumber K v fallback =
     (case toNumber K v NaN of
        Fin num \<Rightarrow>
          if 1000000 \<le> num then toFixed K 1 (Fin (num / 1000000)) @ ''M''
          else if 1000 \<le> num then toFixed K 1 (Fin (num / 1000)) @ ''K''
          else str_of_num K (Fin num)
      | _ \<Rightarrow> fallback)"

text \<open>\<^verbatim>\<open>Math.floor(Math.log(x) / Math.log(1024))\<close> of a positive number: the powers of 1024 up to \<open>x\<close>
  are counted, and below 1 the powers that are missing.\<close>

function up_1024 :: "rat \<Rightarrow> nat" where
  "up_1024 x = (if x < 1024 then 0 else Suc (up_1024 (x / 1024)))"
  by auto

termination
proof (relation "measure (\<lambda>x. nat \<lfloor>x\<rfloor>)")
  fix x :: rat
  assume "\<not> x < 1024"
  then have "1024 \<le> \<lfloor>x\<rfloor>" by (simp add: le_floor_iff)
  moreover have "\<lfloor>x / 1024\<rfloor> < \<lfloor>x\<rfloor>"
  proof -
    have "x / 1024 \<le> x - 1" using \<open>\<not> x < 1024\<close> by simp
    then have "\<lfloor>x / 1024\<rfloor> \<le> \<lfloor>x - 1\<rfloor>" by (rule floor_mono)
    then show ?thesis by simp
  qed
  ultimately show "(x / 1024, x) \<in> measure (\<lambda>x. nat \<lfloor>x\<rfloor>)" by simp
qed simp

declare up_1024.simps [simp del]

definition floor_log_1024 :: "rat \<Rightarrow> int" where
  "floor_log_1024 x =
     (if 1 \<le> x then int (up_1024 x)
      else let k = up_1024 (inverse x)
           in if x * 1024 ^ k = 1 then - int k else - int k - 1)"

definition pow_1024 :: "int \<Rightarrow> rat" where
  "pow_1024 i = (if 0 \<le> i then 1024 ^ nat i else inverse (1024 ^ nat (- i)))"

definition byte_sizes :: "string list" where
  "byte_sizes = [''B'', ''KB'', ''MB'', ''GB'', ''TB'']"

text \<open>\<^verbatim>\<open>sizes[i]\<close> is undefined outside the array, and prints as \<^verbatim>\<open>undefined\<close>.\<close>

definition size_name :: "int \<Rightarrow> string" where
  "size_name i = (if 0 \<le> i \<and> i < 5 then byte_sizes ! nat i else ''undefined'')"

definition formatBytes :: "text_conv \<Rightarrow> js_val \<Rightarrow> string \<Rightarrow> string" where
  "formatBytes K v fallback =
     (case toNumber K v NaN of
        Fin bytes \<Rightarrow>
          if bytes < 0 then fallback
          else if bytes = 0 then ''0 B''
          else let i = min (floor_log_1024 bytes) 4;
                   rounded = of_int \<lfloor>bytes / pow_1024 i * 100 + 1 / 2\<rfloor> / 100
               in str_of_num K (Fin rounded) @ '' '' @ size_name i
      | _ \<Rightarrow> fallback)"

text \<open>\<^verbatim>\<open>a % b\<close> for non-negative numbers.\<close>

definition rat_rem :: "rat \<Rightarrow> rat \<Rightarrow> rat" where
  "rat_rem a b = a - b * of_int \<lfloor>a / b\<rfloor>"

definition formatUptime :: "text_conv \<Rightarrow> js_val \<Rightarrow> string \<Rightarrow> string" where
  "formatUptime K v fallback =
     (case toNumber K v NaN of
        Fin seconds \<Rightarrow>
          if seconds < 0 then fallback
          else let days = \<lfloor>seconds / 86400\<rfloor>; hours = \<lfloor>rat_rem seconds 86400 / 3600\<rfloor>;
                   minutes = \<lfloor>rat_rem seconds 3600 / 60\<rfloor>;
                   str = (\<lambda>i. str_of_num K (num_of_int i))
               in if days > 0 then str days @ ''d '' @ str hours @ ''h '' @ str minutes @ ''m''
                  else if hours > 0 then str hours @ ''h '' @ str minutes @ ''m''
                  else str minutes @ ''m''
      | _ \<Rightarrow> fallback)"

text \<open>\<^verbatim>\<open>new Date(ts)\<close> is invalid beyond 8.64e15 milliseconds and drops fractions.\<close>

definition date_of :: "rat \<Rightarrow> rat option" where
  "date_of ts = (if \<bar>ts\<bar> \<le> 8640000000000000 then Some (of_int \<lfloor>ts\<rfloor>) else None)"

definition formatDateTime :: "text_conv \<Rightarrow> locale_conv \<Rightarrow> js_val \<Rightarrow> string \<Rightarrow> string" where
  "formatDateTime K L v fallback =
     (case toNumber K v NaN of
        Fin ts \<Rightarrow>
          if ts \<le> 0 then fallback
          else (case date_of ts of None \<Rightarrow> fallback | Some d \<Rightarrow> locale_date_time L d)
      | _ \<Rightarrow> fallback)"

definition formatTime :: "text_conv \<Rightarrow> locale_conv \<Rightarrow> js_val \<Rightarrow> string \<Rightarrow> string" where
  "formatTime K L v fallback =
     (case toNumber K v NaN of
        Fin ts \<Rightarrow>
          if ts \<le> 0 then fallback
          else (case date_of ts of None \<Rightarrow> fallback | Some d \<Rightarrow> locale_time L d)
      | _ \<Rightarrow> fallback)"

definition formatPercent :: "text_conv \<Rightarrow> js_val \<Rightarrow> nat \<Rightarrow> string \<Rightarrow> string" where
  "formatPercent K v digits fallback =
     (case toNumber K v NaN of Fin num \<Rightarrow> toFixed K digits (Fin num) @ ''%'' | _ \<Rightarrow> fallback)"

section \<open>Lemmas\<close>

lemma isFinite_Fin [simp]: "isFinite (Fin a)" "\<not> isFinite NaN" "\<not> isFinite PosInf" "\<not> isFinite NegInf"
  by (simp_all add: isFinite_def)

lemma toNumber_cases:
  obtains (finite) a where "toNumber K v NaN = Fin a" | (fallback) "toNumber K v NaN = NaN"
proof -
  have "toNumber K v NaN = Fin a \<or> toNumber K v NaN = NaN" if "js_Number K v = Fin a" for a
    using that by (cases v) (auto simp: toNumber_def Let_def)
  moreover have "toNumber K v NaN = NaN" if "\<not> isFinite (js_Number K v)"
    using that by (cases v) (auto simp: toNumber_def Let_def)
  ultimately show thesis using that by (cases "js_Number K v") auto
qed

lemma up_1024_bounds: "1 \<le> x \<Longrightarrow> 1024 ^ up_1024 x \<le> x \<and> x < 1024 ^ Suc (up_1024 x)"
proof (induction x rule: up_1024.induct)
  case (1 x)
  show ?case
  proof (cases "x < 1024")
    case True
    with 1 show ?thesis by (simp add: up_1024.simps)
  next
    case False
    with 1 have "1024 ^ up_1024 (x / 1024) \<le> x / 1024" "x / 1024 < 1024 ^ Suc (up_1024 (x / 1024))"
      by auto
    with False show ?thesis by (simp add: up_1024.simps [of x] field_simps)
  qed
qed

lemma floor_log_1024_at_least_one:
  assumes "1 \<le> x"
  shows "pow_1024 (floor_log_1024 x) \<le> x" "x < 1024 * pow_1024 (floor_log_1024 x)" "0 \<le> floor_log_1024 x"
  using up_1024_bounds [OF assms] assms by (simp_all add: floor_log_1024_def pow_1024_def)

lemma floor_log_1024_below_one: "0 < x \<Longrightarrow> x < 1 \<Longrightarrow> floor_log_1024 x < 0"
proof -
  assume x: "0 < x" "x < 1"
  have "x * 1024 ^ 0 \<noteq> 1" using x by simp
  then have "x * 1024 ^ up_1024 (inverse x) = 1 \<Longrightarrow> up_1024 (inverse x) \<noteq> 0" by metis
  with x show ?thesis by (auto simp: floor_log_1024_def Let_def)
qed

lemma pow_1024_mono: "0 \<le> i \<Longrightarrow> i \<le> j \<Longrightarrow> pow_1024 i \<le> pow_1024 j"
  by (simp add: pow_1024_def power_increasing nat_mono)

lemma floor_rat_div:
  fixes x :: rat
  assumes "0 < k"
  shows "\<lfloor>x / of_int k\<rfloor> = \<lfloor>x\<rfloor> div k"
proof (rule floor_unique)
  define n q where "n = \<lfloor>x\<rfloor>" and "q = \<lfloor>x\<rfloor> div k"
  have n: "of_int n \<le> x" "x < of_int n + 1" unfolding n_def by linarith+
  have "q * k \<le> n" "n + 1 \<le> (q + 1) * k"
    using assms pos_mod_bound [of k n] pos_mod_sign [of k n] div_mult_mod_eq [of n k]
    unfolding n_def [symmetric] q_def by (simp_all only: distrib_right, linarith+)
  then have "of_int q * of_int k \<le> (of_int n :: rat)" "of_int n + 1 \<le> (of_int q + 1) * (of_int k :: rat)"
    by (metis of_int_le_iff of_int_mult, metis of_int_1 of_int_add of_int_le_iff of_int_mult)
  with n have "of_int q * of_int k \<le> x" "x < (of_int q + 1) * of_int k" by linarith+
  with assms show "of_int (\<lfloor>x\<rfloor> div k) \<le> x / of_int k" "x / of_int k < of_int (\<lfloor>x\<rfloor> div k) + 1"
    unfolding q_def [symmetric] by (simp_all add: le_divide_eq divide_less_eq)
qed

lemma floor_rat_rem_div:
  fixes x :: rat
  assumes "0 < k" "0 < l"
  shows "\<lfloor>rat_rem x (of_int k) / of_int l\<rfloor> = \<lfloor>x\<rfloor> mod k div l"
proof -
  have "rat_rem x (of_int k) = x - of_int (k * (\<lfloor>x\<rfloor> div k))"
    by (simp add: rat_rem_def floor_rat_div [OF assms(1)])
  then have "\<lfloor>rat_rem x (of_int k)\<rfloor> = \<lfloor>x\<rfloor> mod k"
    by (simp only: floor_diff_of_int minus_mult_div_eq_mod)
  then show ?thesis by (simp add: floor_rat_div [OF assms(2)])
qed

text \<open>The days, hours and minutes that \<^verbatim>\<open>formatUptime\<close> computes.\<close>

lemma uptime_parts:
  fixes s :: rat
  shows "\<lfloor>s / 86400\<rfloor> = \<lfloor>s\<rfloor> div 86400" "\<lfloor>rat_rem s 86400 / 3600\<rfloor> = \<lfloor>s\<rfloor> mod 86400 div 3600"
    "\<lfloor>rat_rem s 3600 / 60\<rfloor> = \<lfloor>s\<rfloor> mod 3600 div 60"
  using floor_rat_div [of 86400 s] floor_rat_rem_div [of 86400 3600 s] floor_rat_rem_div [of 3600 60 s]
  by simp_all

lemma uptime_sum:
  fixes n :: int
  shows "n = 86400 * (n div 86400) + 3600 * (n mod 86400 div 3600) + 60 * (n mod 3600 div 60) + n mod 60"
proof -
  have a: "n mod 86400 mod 3600 = n mod 3600" "n mod 3600 mod 60 = n mod 60"
    by (simp_all add: mod_mod_cancel)
  have "n = 86400 * (n div 86400) + n mod 86400" by simp
  also have "n mod 86400 = 3600 * (n mod 86400 div 3600) + n mod 3600"
    using mult_div_mod_eq [of 3600 "n mod 86400"] by (simp only: a)
  also have "n mod 3600 = 60 * (n mod 3600 div 60) + n mod 60"
    using mult_div_mod_eq [of 60 "n mod 3600"] by (simp only: a)
  finally show ?thesis by simp
qed

section \<open>Properties\<close>

text \<open>An uptime of \<^verbatim>\<open>s >= 0\<close> seconds is printed as days, hours below 24 and minutes below 60 that
  make up \<^verbatim>\<open>s\<close> up to less than a minute; leading parts that are 0 are left out.\<close>

theorem formatUptime_parts:
  assumes "toNumber K v NaN = Fin s" and "0 \<le> s"
  shows "\<exists>d h m :: int. 0 \<le> d \<and> 0 \<le> h \<and> h < 24 \<and> 0 \<le> m \<and> m < 60
      \<and> of_int (86400 * d + 3600 * h + 60 * m) \<le> s \<and> s < of_int (86400 * d + 3600 * h + 60 * m) + 60
      \<and> formatUptime K v fallback
          = (if d > 0 then str_of_num K (num_of_int d) @ ''d '' else [])
            @ (if d > 0 \<or> h > 0 then str_of_num K (num_of_int h) @ ''h '' else [])
            @ str_of_num K (num_of_int m) @ ''m''"
proof (intro exI conjI)
  let ?n = "\<lfloor>s\<rfloor>"
  let ?d = "?n div 86400" and ?h = "?n mod 86400 div 3600" and ?m = "?n mod 3600 div 60"
  have n: "0 \<le> ?n" using assms(2) by simp
  show "0 \<le> ?d" "0 \<le> ?h" "0 \<le> ?m" using n by (simp_all only: pos_imp_zdiv_nonneg_iff)
  have "?n mod 86400 < 86400" "?n mod 3600 < 3600" by simp_all
  then show "?h < 24" "?m < 60" by linarith+
  have "?n - ?n mod 60 = 86400 * ?d + 3600 * ?h + 60 * ?m" using uptime_sum [of ?n] by linarith
  moreover have "of_int k \<le> s \<and> s < of_int k + 60" if "k = ?n - ?n mod 60" for k
  proof -
    have k: "k \<le> ?n" "?n + 1 \<le> k + 60" by (simp_all add: that)
    from k(1) have "of_int k \<le> s" by (simp only: le_floor_iff)
    moreover from k(2) have "(of_int (?n + 1) :: rat) \<le> of_int (k + 60)" by (simp only: of_int_le_iff)
    ultimately show ?thesis using floor_correct [of s] by auto
  qed
  ultimately show "of_int (86400 * ?d + 3600 * ?h + 60 * ?m) \<le> s"
    "s < of_int (86400 * ?d + 3600 * ?h + 60 * ?m) + 60" by simp_all
  show "formatUptime K v fallback
      = (if ?d > 0 then str_of_num K (num_of_int ?d) @ ''d '' else [])
        @ (if ?d > 0 \<or> ?h > 0 then str_of_num K (num_of_int ?h) @ ''h '' else [])
        @ str_of_num K (num_of_int ?m) @ ''m''"
    using assms by (simp add: formatUptime_def uptime_parts Let_def not_less)
qed

lemma toNumber_Fin: "toNumber K (JNum (Fin a)) NaN = Fin a"
  by (simp add: toNumber_def)

theorem formatUptime_parts_witness:
  "formatUptime plain_conv (JNum (Fin 93784)) ''--'' = ''1d 2h 3m''
   \<and> (\<exists>d h m :: int. 0 \<le> d \<and> 0 \<le> h \<and> h < 24 \<and> 0 \<le> m \<and> m < 60
      \<and> of_int (86400 * d + 3600 * h + 60 * m) \<le> (93784 :: rat)
      \<and> (93784 :: rat) < of_int (86400 * d + 3600 * h + 60 * m) + 60
      \<and> formatUptime plain_conv (JNum (Fin 93784)) ''--''
          = (if d > 0 then str_of_num plain_conv (num_of_int d) @ ''d '' else [])
            @ (if d > 0 \<or> h > 0 then str_of_num plain_conv (num_of_int h) @ ''h '' else [])
            @ str_of_num plain_conv (num_of_int m) @ ''m'')"
proof
  show "formatUptime plain_conv (JNum (Fin 93784)) ''--'' = ''1d 2h 3m''" by code_simp
qed (rule formatUptime_parts [OF toNumber_Fin], simp)

text \<open>A size of at least one byte is printed in the largest unit up to TB that it reaches: the
  printed number is the size in that unit, rounded to two decimals, at least 1 and, below TB,
  less than 1024 before rounding.\<close>

theorem formatBytes_unit:
  assumes "toNumber K v NaN = Fin b" and "1 \<le> b"
  shows "\<exists>i. 0 \<le> i \<and> i < 5 \<and> pow_1024 i \<le> b \<and> (i < 4 \<longrightarrow> b < 1024 * pow_1024 i)
      \<and> formatBytes K v fallback
          = str_of_num K (Fin (of_int \<lfloor>b / pow_1024 i * 100 + 1 / 2\<rfloor> / 100)) @ '' '' @ byte_sizes ! nat i"
proof (intro exI conjI)
  let ?i = "min (floor_log_1024 b) 4"
  note l = floor_log_1024_at_least_one [OF assms(2)]
  show i: "0 \<le> ?i" "?i < 5" using l(3) by simp_all
  show "pow_1024 ?i \<le> b" using l pow_1024_mono [of ?i "floor_log_1024 b"] by linarith
  show "?i < 4 \<longrightarrow> b < 1024 * pow_1024 ?i" using l(2) by (simp add: min_def)
  show "formatBytes K v fallback
      = str_of_num K (Fin (of_int \<lfloor>b / pow_1024 ?i * 100 + 1 / 2\<rfloor> / 100)) @ '' '' @ byte_sizes ! nat ?i"
    using assms i by (simp add: formatBytes_def Let_def size_name_def)
qed

theorem formatBytes_unit_witness:
  "\<exists>i. 0 \<le> i \<and> i < 5 \<and> pow_1024 i \<le> 3145728 \<and> (i < 4 \<longrightarrow> 3145728 < 1024 * pow_1024 i)
      \<and> formatBytes plain_conv (JNum (Fin 3145728)) ''--''
          = str_of_num plain_conv (Fin (of_int \<lfloor>3145728 / pow_1024 i * 100 + 1 / 2\<rfloor> / 100)) @ '' ''
              @ byte_sizes ! nat i
      \<and> formatBytes plain_conv (JNum (Fin 3145728)) ''--'' = ''3 MB''"
proof -
  have "formatBytes plain_conv (JNum (Fin 3145728)) ''--'' = ''3 MB''" by code_simp
  with formatBytes_unit [OF toNumber_Fin, of 3145728 plain_conv "''--''"] show ?thesis by auto
qed

text \<open>A positive size below one byte, such as an average, is printed with the unit
  \<^verbatim>\<open>undefined\<close>.\<close>

theorem formatBytes_fraction_undefined:
  assumes "toNumber K v NaN = Fin b" and "0 < b" and "b < 1"
  shows "\<exists>s. formatBytes K v fallback = s @ '' undefined''"
  using assms floor_log_1024_below_one [OF assms(2,3)]
  by (simp add: formatBytes_def Let_def size_name_def min_def)

theorem formatBytes_fraction_undefined_witness:
  "\<exists>s. formatBytes plain_conv (JNum (Fin (1 / 2))) ''--'' = s @ '' undefined''
     \<and> formatBytes plain_conv (JNum (Fin (1 / 2))) ''--'' = ''512 undefined''"
proof -
  have "formatBytes plain_conv (JNum (Fin (1 / 2))) ''--'' = ''512 undefined''" by code_simp
  with formatBytes_fraction_undefined [OF toNumber_Fin, of "1 / 2" plain_conv "''--''"] show ?thesis
    by auto
qed

end
