(* ===== verification/Management_Api.thy ===== *)
theory Management_Api
  imports Console_Format
begin

text \<open>
  The management service of the console, \<^verbatim>\<open>auth/frontend/src/services/managementApi.ts\<close>. Each method is
  a \<open>flow\<close>: the request that it sends, and what it does with the answer, which may be another
  request. A method reads the token from \<^verbatim>\<open>localStorage\<close> whenever it builds a request, so a flow
  is given the token of that moment. \<^verbatim>\<open>axios\<close> is whatever answers the requests; \<open>run_flow\<close> runs a flow
  against a server whose answers may depend on all requests before. Logging is left out.
\<close>

section \<open>Flows\<close>

datatype 'a flow = Finished "js_error + 'a" | Request http_request "string option \<Rightarrow> answer \<Rightarrow> 'a flow"

primrec flow_map :: "(js_error + 'a \<Rightarrow> js_error + 'b) \<Rightarrow> 'a flow \<Rightarrow> 'b flow" where
  "flow_map f (Finished r) = Finished (f r)"
| "flow_map f (Request q k) = Request q (\<lambda>tok ans. flow_map f (k tok ans))"

primrec run_flow ::
  "'a flow \<Rightarrow> (http_request list \<Rightarrow> http_request \<Rightarrow> answer) \<Rightarrow> (nat \<Rightarrow> string option)
     \<Rightarrow> http_request list \<Rightarrow> (js_error + 'a) \<times> http_request list" where
  "run_flow (Finished r) srv toks sent = (r, sent)"
| "run_flow (Request q k) srv toks sent =
     run_flow (k (toks (Suc (length sent))) (srv sent q)) srv toks (sent @ [q])"

lemma run_flow_map:
  "run_flow (flow_map f fl) srv toks sent = map_prod f id (run_flow fl srv toks sent)"
proof (induction fl arbitrary: sent)
  case (Request q k)
  show ?case unfolding flow_map.simps run_flow.simps by (rule Request.IH) (rule rangeI)+
qed simp

section \<open>Requests\<close>

text \<open>\<^verbatim>\<open>import.meta.env.VITE_APIGATEWAY_API_BASE_URL || 'http://localhost:10012'\<close>\<close>

definition apiGatewayUrl :: "string option \<Rightarrow> string" where
  "apiGatewayUrl env =
     (case env of None \<Rightarrow> ''http://localhost:10012''
      | Some u \<Rightarrow> if u = [] then ''http://localhost:10012'' else u)"

definition getAuthHeaders :: "string option \<Rightarrow> (string \<times> string) list" where
  "getAuthHeaders token =
     (case token of None \<Rightarrow> []
      | Some t \<Rightarrow> if t = [] then [] else [(''Authorization'', ''Bearer '' @ t)])"

definition admin_request :: "verb \<Rightarrow> string \<Rightarrow> js_val \<Rightarrow> string option \<Rightarrow> http_request" where
  "admin_request v url body tok =
     \<lparr>hr_verb = v, hr_url = url, hr_body = body, hr_headers = getAuthHeaders tok\<rparr>"

text \<open>\<^verbatim>\<open>response.data.f || []\<close>\<close>

definition list_field :: "string \<Rightarrow> answer \<Rightarrow> js_error + js_val" where
  "list_field f ans =
     res_bind ans (\<lambda>d. res_bind (js_dot d f) (\<lambda>v. Inr (js_or v (JArr []))))"

definition no_result :: "answer \<Rightarrow> js_error + js_val" where
  "no_result ans = res_bind ans (\<lambda>d. Inr JUndefined)"

text \<open>\<^verbatim>\<open>URLSearchParams\<close>: application/x-www-form-urlencoded.\<close>

definition hex_digit :: "nat \<Rightarrow> char" where
  "hex_digit n = ''0123456789ABCDEF'' ! n"

definition form_byte :: "nat \<Rightarrow> string" where
  "form_byte n =
     (if n = 32 then ''+''
      else if (48 \<le> n \<and> n \<le> 57) \<or> (65 \<le> n \<and> n \<le> 90) \<or> (97 \<le> n \<and> n \<le> 122) \<or> n \<in> {42, 45, 46, 95}
      then [char_of n]
      else ''%'' @ [hex_digit (n div 16), hex_digit (n mod 16)])"

definition utf8_codes :: "char \<Rightarrow> nat list" where
  "utf8_codes c = (let n = of_char c in if n < 128 then [n] else [192 + n div 64, 128 + n mod 64])"

definition form_encode :: "string \<Rightarrow> string" where
  "form_encode s = concat (map form_byte (concat (map utf8_codes s)))"

fun params_string :: "(string \<times> string) list \<Rightarrow> string" where
  "params_string [] = []"
| "params_string [(k, v)] = form_encode k @ ''='' @ form_encode v"
| "params_string ((k, v) # p # ps) = form_encode k @ ''='' @ form_encode v @ ''&'' @ params_string (p # ps)"

section \<open>Methods\<close>

definition getWorkers :: "string \<Rightarrow> string option \<Rightarrow> js_val flow" where
  "getWorkers url tok =
     Request (admin_request GET (url @ ''/v1/admin/workers'') JUndefined tok)
       (\<lambda>tok' ans. Finished (list_field ''workers'' ans))"

text \<open>\<^verbatim>\<open>workers.find(w => w.worker_id === workerId)\<close>\<close>

fun find_worker :: "string \<Rightarrow> js_val list \<Rightarrow> js_error + js_val" where
  "find_worker workerId [] = Inr JUndefined"
| "find_worker workerId (w # ws) =
     res_bind (js_dot w ''worker_id'') (\<lambda>x.
       if js_strict_eq x (JStr workerId) then Inr w else find_worker workerId ws)"

definition getWorkerStats :: "string \<Rightarrow> string \<Rightarrow> string option \<Rightarrow> js_val flow" where
  "getWorkerStats url workerId tok =
     flow_map
       (\<lambda>r. case res_bind r (\<lambda>ws. res_bind (js_array ws) (find_worker workerId)) of
              Inl e \<Rightarrow> Inr JNull
            | Inr v \<Rightarrow> Inr (js_or v JNull))
       (getWorkers url tok)"

definition getCollections :: "string \<Rightarrow> string option \<Rightarrow> js_val flow" where
  "getCollections url tok =
     Request (admin_request GET (url @ ''/v1/admin/collections'') JUndefined tok)
       (\<lambda>tok' ans. case list_field ''collections'' ans of
          Inr v \<Rightarrow> Finished (Inr v)
        | Inl e \<Rightarrow>
            Request (admin_request GET (url @ ''/v1/collections'') JUndefined tok')
              (\<lambda>tok'' ans'. Finished (list_field ''collections'' ans')))"

definition mgmt_createCollection ::
  "string \<Rightarrow> string \<Rightarrow> js_num \<Rightarrow> string \<Rightarrow> string option \<Rightarrow> js_val flow" where
  "mgmt_createCollection url nm dimension distance tok =
     Request
       (admin_request POST (url @ ''/v1/collections'')
          (JObj [(''name'', JStr nm), (''dimension'', JNum dimension), (''distance'', JStr distance)]) tok)
       (\<lambda>tok' ans. Finished (no_result ans))"

definition mgmt_deleteCollection :: "string \<Rightarrow> string \<Rightarrow> string option \<Rightarrow> js_val flow" where
  "mgmt_deleteCollection url nm tok =
     Request (admin_request DELETE (url @ ''/v1/collections/'' @ nm) JUndefined tok)
       (\<lambda>tok' ans. Finished (no_result ans))"

definition getSystemHealth :: "string \<Rightarrow> string option \<Rightarrow> js_val flow" where
  "getSystemHealth url tok =
     Request (admin_request GET (url @ ''/v1/system/health'') JUndefined tok)
       (\<lambda>tok' ans. Finished ans)"

definition getGatewayStats :: "string \<Rightarrow> string option \<Rightarrow> js_val flow" where
  "getGatewayStats url tok =
     Request (admin_request GET (url @ ''/v1/admin/stats'') JUndefined tok)
       (\<lambda>tok' ans. Finished
          (res_bind ans (\<lambda>d. res_bind (js_dot d ''stats'') (\<lambda>st. res_bind (js_dot d ''endpoints'') (\<lambda>es.
             Inr (JObj [(''stats'', st), (''endpoints'', js_or es (JArr []))]))))))"

definition alert_params :: "string option \<Rightarrow> string option \<Rightarrow> (string \<times> string) list" where
  "alert_params status level =
     (case status of Some s \<Rightarrow> if s = [] then [] else [(''status'', s)] | None \<Rightarrow> [])
     @ (case level of Some l \<Rightarrow> if l = [] then [] else [(''level'', l)] | None \<Rightarrow> [])"

definition getAlerts :: "string \<Rightarrow> string option \<Rightarrow> string option \<Rightarrow> string option \<Rightarrow> js_val flow" where
  "getAlerts url status level tok =
     Request
       (admin_request GET (url @ ''/v1/alerts?'' @ params_string (alert_params status level)) JUndefined tok)
       (\<lambda>tok' ans. Finished (list_field ''alerts'' ans))"

definition mgmt_resolveAlert :: "string \<Rightarrow> string \<Rightarrow> string option \<Rightarrow> js_val flow" where
  "mgmt_resolveAlert url alertId tok =
     Request (admin_request POST (url @ ''/v1/alerts/'' @ alertId @ ''/resolve'') (JObj []) tok)
       (\<lambda>tok' ans. Finished (no_result ans))"

lemmas mgmt_defs =
  getWorkers_def getWorkerStats_def getCollections_def mgmt_createCollection_def
  mgmt_deleteCollection_def getSystemHealth_def getGatewayStats_def getAlerts_def
  mgmt_resolveAlert_def

section \<open>Properties\<close>

text \<open>\<^verbatim>\<open>getCollections\<close> asks the admin endpoint and, only when that fails or returns no object, the
  public one. It throws only when both failed, and then the second error; otherwise it returns
  the collections of the first answer that arrived, or an empty list if they are missing.\<close>

theorem getCollections_fallback:
  fixes url tok srv toks
  defines "admin \<equiv> admin_request GET (url @ ''/v1/admin/collections'') JUndefined tok"
    and "public \<equiv> admin_request GET (url @ ''/v1/collections'') JUndefined (toks 1)"
  shows "run_flow (getCollections url tok) srv toks [] =
      (case srv [] admin of
         Inr d \<Rightarrow>
           if isSet d then (Inr (js_or (js_get d ''collections'') (JArr [])), [admin])
           else (list_field ''collections'' (srv [admin] public), [admin, public])
       | Inl e \<Rightarrow> (list_field ''collections'' (srv [admin] public), [admin, public]))
    \<and> (\<forall>e. fst (run_flow (getCollections url tok) srv toks []) = Inl e \<longrightarrow>
         srv [admin] public = Inl e \<or> (\<exists>d. srv [admin] public = Inr d \<and> \<not> isSet d \<and> e = type_error))"
  by (cases "srv [] admin"; cases "srv [admin] public")
     (auto simp: getCollections_def list_field_def js_dot_def admin_def public_def)

definition sample_srv :: "http_request list \<Rightarrow> http_request \<Rightarrow> answer" where
  "sample_srv sent q =
     (if hr_url q = ''u/v1/admin/collections'' then Inl \<lparr>error_response = JUndefined, error_message = ''403''\<rparr>
      else Inr (JObj [(''collections'', JArr [JStr ''docs''])]))"

theorem getCollections_fallback_witness:
  "run_flow (getCollections ''u'' (Some ''t'')) sample_srv (\<lambda>i. Some ''t'') []
     = (Inr (JArr [JStr ''docs'']),
        [admin_request GET ''u/v1/admin/collections'' JUndefined (Some ''t''),
         admin_request GET ''u/v1/collections'' JUndefined (Some ''t'')])"
  using getCollections_fallback [of "''u''" "Some ''t''" sample_srv "\<lambda>i. Some ''t''"]
  by (simp add: sample_srv_def admin_request_def list_field_def js_dot_def js_or_def isSet_def)

text \<open>The flows of all methods.\<close>

datatype mgmt_call =
    GetWorkers | GetWorkerStats string | GetCollections | CreateCollection string js_num string
  | DeleteCollection string | GetSystemHealth | GetGatewayStats | GetAlerts "string option" "string option"
  | ResolveAlert string

fun mgmt_flow :: "string \<Rightarrow> mgmt_call \<Rightarrow> string option \<Rightarrow> js_val flow" where
  "mgmt_flow url GetWorkers = getWorkers url"
| "mgmt_flow url (GetWorkerStats w) = getWorkerStats url w"
| "mgmt_flow url GetCollections = getCollections url"
| "mgmt_flow url (CreateCollection n d m) = mgmt_createCollection url n d m"
| "mgmt_flow url (DeleteCollection n) = mgmt_deleteCollection url n"
| "mgmt_flow url GetSystemHealth = getSystemHealth url"
| "mgmt_flow url GetGatewayStats = getGatewayStats url"
| "mgmt_flow url (GetAlerts s l) = getAlerts url s l"
| "mgmt_flow url (ResolveAlert a) = mgmt_resolveAlert url a"

text \<open>C34: Every method ends after at most two requests, whatever the server answers, and every request
  that it sends carries the stored token as a bearer token, or no \<^verbatim>\<open>Authorization\<close> header when no
  token is stored. The token is the same during the call.\<close>

theorem mgmt_requests_authorised:
  "length (snd (run_flow (mgmt_flow url c tok) srv (\<lambda>i. tok) [])) \<in> {1, 2}
   \<and> (\<forall>q \<in> set (snd (run_flow (mgmt_flow url c tok) srv (\<lambda>i. tok) [])).
        hr_headers q = (if tok = None \<or> tok = Some [] then []
                        else [(''Authorization'', ''Bearer '' @ the tok)]))"
proof (cases c)
  case GetCollections
  then show ?thesis
    by (auto simp: getCollections_def admin_request_def getAuthHeaders_def split: sum.split option.split)
qed (auto simp: mgmt_defs run_flow_map admin_request_def getAuthHeaders_def split: option.split)

theorem mgmt_requests_authorised_witness:
  "map hr_headers (snd (run_flow (mgmt_flow ''u'' GetCollections (Some ''t'')) sample_srv (\<lambda>i. Some ''t'') []))
     = [[(''Authorization'', ''Bearer t'')], [(''Authorization'', ''Bearer t'')]]"
proof -
  let ?qs = "snd (run_flow (mgmt_flow ''u'' GetCollections (Some ''t'')) sample_srv (\<lambda>i. Some ''t'') [])"
  have "length ?qs = 2" by (simp add: getCollections_def sample_srv_def admin_request_def list_field_def)
  then obtain a b where "?qs = [a, b]" by (auto simp: length_Suc_conv numeral_2_eq_2)
  with mgmt_requests_authorised [of "''u''" GetCollections "Some ''t''" sample_srv] show ?thesis by simp
qed

lemma find_worker_id:
  "find_worker i ws = Inr w \<Longrightarrow> w = JUndefined \<or> (w \<in> set ws \<and> js_get w ''worker_id'' = JStr i)"
proof (induction ws)
  case (Cons v ws)
  have "js_strict_eq x (JStr i) \<longleftrightarrow> x = JStr i" for x by (cases x) auto
  with Cons show ?case by (auto simp: js_dot_def split: if_splits)
qed simp

text \<open>The worker that \<^verbatim>\<open>getWorkerStats\<close> returns has the id that was asked for; whatever goes wrong,
  the method returns null and never throws.\<close>

theorem getWorkerStats_finds:
  "\<exists>w. fst (run_flow (getWorkerStats url i tok) srv toks []) = Inr w
     \<and> (w = JNull \<or> js_get w ''worker_id'' = JStr i)"
proof -
  let ?r = "run_flow (getWorkers url tok) srv toks []"
  have *: "fst (run_flow (getWorkerStats url i tok) srv toks []) =
      (case res_bind (fst ?r) (\<lambda>ws. res_bind (js_array ws) (find_worker i)) of
         Inl e \<Rightarrow> Inr JNull | Inr v \<Rightarrow> Inr (js_or v JNull))"
    by (simp add: getWorkerStats_def run_flow_map)
  show ?thesis
  proof (cases "res_bind (fst ?r) (\<lambda>ws. res_bind (js_array ws) (find_worker i))")
    case (Inl e)
    with * show ?thesis by simp
  next
    case (Inr v)
    then obtain ws where "find_worker i ws = Inr v" by (auto simp: res_bind_Inr_iff)
    from find_worker_id [OF this] have "js_or v JNull = JNull \<or> js_get (js_or v JNull) ''worker_id'' = JStr i"
      by (auto simp: js_or_def)
    with Inr * show ?thesis by simp
  qed
qed

end
