(* ===== verification/Monitor_Pages.thy ===== *)
theory Monitor_Pages
  imports Management_Api
begin

text \<open>
  The pages of the console that watch the system: \<^verbatim>\<open>WorkersManagement.tsx\<close>,
  \<^verbatim>\<open>ApiGatewayManagement.tsx\<close>, \<^verbatim>\<open>SystemHealthPage.tsx\<close> and \<^verbatim>\<open>ManagementDashboard.tsx\<close>, under
  \<^verbatim>\<open>auth/frontend/src/pages\<close>. Each calls the management service when it is mounted, by a button, and every
  30 seconds while \<^verbatim>\<open>autoRefresh\<close> is on; the timer is the event \<open>Tick\<close>. Buttons exist only while they
  are rendered, which is the guard of their events. Nothing cancels a call, so calls overlap.
\<close>

section \<open>Calls of the management service\<close>

text \<open>A handler that awaits a method of the service waits for its flow; \<open>'k\<close> is the rest of the
  handler. When the last answer of the flow is there, the rest runs.\<close>

datatype 'k waiting = Waiting (wait_flow: "js_val flow") (wait_rest: 'k)

definition call :: "js_val flow \<Rightarrow> 'k \<Rightarrow> ('s, 'k waiting) seg" where
  "call fl k = await (Waiting fl k)"

fun flow_step :: "'a flow \<Rightarrow> string option \<Rightarrow> answer \<Rightarrow> 'a flow" where
  "flow_step (Finished r) tok ans = Finished r"
| "flow_step (Request q c) tok ans = c tok ans"

fun resume ::
  "('k \<Rightarrow> string option \<Rightarrow> js_error + js_val \<Rightarrow> ('s, 'k waiting) seg)
     \<Rightarrow> 'k waiting \<Rightarrow> string option \<Rightarrow> answer \<Rightarrow> ('s, 'k waiting) seg" where
  "resume rest (Waiting fl k) tok ans =
     (case flow_step fl tok ans of
        Finished r \<Rightarrow> rest k tok r
      | Request q c \<Rightarrow> call (Request q c) k)"

text \<open>A flag that the rest of a call clears is set only while such a call is open.\<close>

lemma resume_busy:
  assumes "resume rest w tok ans s = (s', a)" and "busy s'"
    and "\<And>k r. rest k tok r s = (s', a) \<Longrightarrow> (busy s \<and> \<not> mine k) \<or> (\<exists>w \<in> set a. mine (wait_rest w))"
  shows "(busy s \<and> \<not> mine (wait_rest w)) \<or> (\<exists>w \<in> set a. mine (wait_rest w))"
proof (cases w)
  case (Waiting fl k)
  show ?thesis
  proof (cases "flow_step fl tok ans")
    case (Finished r)
    with Waiting assms show ?thesis by auto
  next
    case (Request q c)
    with Waiting assms(1,2) show ?thesis by (auto simp: call_def await_def)
  qed
qed

text \<open>\<^verbatim>\<open>a + b\<close>: strings, arrays and objects are joined as strings.\<close>

definition js_plus :: "text_conv \<Rightarrow> js_val \<Rightarrow> js_val \<Rightarrow> js_val" where
  "js_plus K a b =
     (if js_is_string a \<or> js_is_string b \<or> isObject a \<or> isObject b
      then JStr (js_String K a @ js_String K b) else JNum (js_add (js_Number K a) (js_Number K b)))"

section \<open>State\<close>

record monitor =
  mo_loading :: bool
  mo_error :: "string option"
  mo_autoRefresh :: bool

definition new_monitor :: monitor where
  "new_monitor = \<lparr>mo_loading = True, mo_error = None, mo_autoRefresh = True\<rparr>"

text \<open>The calls end alike: a failure leaves a message, and \<^verbatim>\<open>finally\<close> clears the loading flag.\<close>

definition clear_error :: "('m monitor_scheme, 'k) seg" where
  "clear_error = set_state (\<lambda>s. s\<lparr>mo_error := None\<rparr>)"

definition fetched ::
  "(js_val \<Rightarrow> 'm monitor_scheme \<Rightarrow> 'm monitor_scheme) \<Rightarrow> string \<Rightarrow> js_error + js_val \<Rightarrow> ('m monitor_scheme, 'k) seg" where
  "fetched store msg r =
     set_state (\<lambda>s. (case r of Inr v \<Rightarrow> store v s | Inl err \<Rightarrow> s\<lparr>mo_error := Some msg\<rparr>)\<lparr>mo_loading := False\<rparr>)"

definition toggle_refresh :: "('m monitor_scheme, 'k) seg" where
  "toggle_refresh = set_state (\<lambda>s. s\<lparr>mo_autoRefresh := \<not> mo_autoRefresh s\<rparr>)"

section \<open>Workers\<close>

definition getHealthState :: "text_conv \<Rightarrow> js_val \<Rightarrow> js_error + string" where
  "getHealthState K worker =
     res_bind (js_dot worker ''last_heartbeat'') (\<lambda>beat.
       Inr (if \<not> js_lt (Fin 0) (toNumber K beat (Fin 0)) then ''starting''
            else if js_Boolean (js_get worker ''healthy'') then ''healthy'' else ''unhealthy''))"

record workers_page = monitor +
  wm_workers :: js_val
  wm_selectedWorker :: js_val

definition new_workers_page :: workers_page where
  "new_workers_page = monitor.extend new_monitor \<lparr>wm_workers = JArr [], wm_selectedWorker = JNull\<rparr>"

definition fetchWorkers :: "string \<Rightarrow> string option \<Rightarrow> (workers_page, unit waiting) seg" where
  "fetchWorkers url tok = seg_then clear_error (call (getWorkers url tok) ())"

definition fetchWorkers_rest :: "js_error + js_val \<Rightarrow> (workers_page, unit waiting) seg" where
  "fetchWorkers_rest = fetched (\<lambda>v s. s\<lparr>wm_workers := v\<rparr>) ''Failed to fetch worker nodes''"

definition healthyWorkers :: "workers_page \<Rightarrow> js_error + nat" where
  "healthyWorkers s =
     res_bind (js_array (wm_workers s)) (\<lambda>ws.
       res_bind (res_map (\<lambda>w. js_dot w ''healthy'') ws) (\<lambda>hs. Inr (length (filter js_Boolean hs))))"

text \<open>\<^verbatim>\<open>totalVectors\<close> and \<^verbatim>\<open>totalMemory\<close> sum the fields \<^verbatim>\<open>vector_count\<close> and \<^verbatim>\<open>memory_bytes\<close>.\<close>

definition stats_total :: "text_conv \<Rightarrow> string \<Rightarrow> workers_page \<Rightarrow> js_error + js_val" where
  "stats_total K f s =
     res_bind (js_array (wm_workers s)) (\<lambda>ws.
       res_bind (res_map (\<lambda>w. js_dot w ''stats'') ws) (\<lambda>sts.
         Inr (foldl (\<lambda>sum st. js_plus K sum (js_or (js_get st f) (JNum (Fin 0)))) (JNum (Fin 0)) sts)))"

datatype workers_event = WorkersTick | WorkersRefresh | WorkersAuto | WorkerChosen js_val | WorkerClosed

text \<open>While the page loads it shows only a spinner, after a failure only a button that tries again.\<close>

fun workers_on_event :: "string \<Rightarrow> workers_event \<Rightarrow> string option \<Rightarrow> (workers_page, unit waiting) seg" where
  "workers_on_event url WorkersTick tok s = (if mo_autoRefresh s then fetchWorkers url tok s else seg_skip s)"
| "workers_on_event url WorkersRefresh tok s = (if mo_loading s then seg_skip s else fetchWorkers url tok s)"
| "workers_on_event url WorkersAuto tok s =
     (if mo_loading s \<or> mo_error s \<noteq> None then seg_skip s else toggle_refresh s)"
| "workers_on_event url (WorkerChosen w) tok s =
     (if mo_loading s \<or> mo_error s \<noteq> None then seg_skip s
      else set_state (\<lambda>s. s\<lparr>wm_selectedWorker := w\<rparr>) s)"
| "workers_on_event url WorkerClosed tok s =
     (if mo_loading s \<or> mo_error s \<noteq> None then seg_skip s
      else set_state (\<lambda>s. s\<lparr>wm_selectedWorker := JNull\<rparr>) s)"

definition WorkersManagement :: "string \<Rightarrow> (workers_page, workers_event, unit waiting) page" where
  "WorkersManagement url =
     \<lparr>on_mount = fetchWorkers url, on_event = workers_on_event url,
      on_answer = resume (\<lambda>k tok r. fetchWorkers_rest r), on_commit = (\<lambda>old tok. seg_skip)\<rparr>"

section \<open>API gateway\<close>

record gateway_page = monitor +
  gw_stats :: js_val
  gw_endpoints :: js_val

definition new_gateway_page :: gateway_page where
  "new_gateway_page = monitor.extend new_monitor \<lparr>gw_stats = JNull, gw_endpoints = JArr []\<rparr>"

definition fetchGatewayStats :: "string \<Rightarrow> string option \<Rightarrow> (gateway_page, unit waiting) seg" where
  "fetchGatewayStats url tok = seg_then clear_error (call (getGatewayStats url tok) ())"

definition fetchGatewayStats_rest :: "js_error + js_val \<Rightarrow> (gateway_page, unit waiting) seg" where
  "fetchGatewayStats_rest =
     fetched (\<lambda>data s. s\<lparr>gw_stats := js_get data ''stats'', gw_endpoints := js_get data ''endpoints''\<rparr>)
       ''Failed to fetch API Gateway statistics''"

definition getErrorRateColor :: "text_conv \<Rightarrow> js_val \<Rightarrow> string" where
  "getErrorRateColor K rate =
     (let safeRate = toNumber K rate (Fin 0)
      in if js_lt safeRate (Fin (1 / 100)) then ''text-green-400''
         else if js_lt safeRate (Fin (5 / 100)) then ''text-yellow-400'' else ''text-red-400'')"

definition getLatencyColor :: "text_conv \<Rightarrow> js_val \<Rightarrow> string" where
  "getLatencyColor K latency =
     (let safeLatency = toNumber K latency (Fin 0)
      in if js_lt safeLatency (Fin 100) then ''text-green-400''
         else if js_lt safeLatency (Fin 500) then ''text-yellow-400'' else ''text-red-400'')"

datatype gateway_event = GatewayTick | GatewayRefresh | GatewayAuto

definition gateway_shown :: "gateway_page \<Rightarrow> bool" where
  "gateway_shown s = (\<not> mo_loading s \<and> mo_error s = None \<and> js_Boolean (gw_stats s))"

fun gateway_on_event :: "string \<Rightarrow> gateway_event \<Rightarrow> string option \<Rightarrow> (gateway_page, unit waiting) seg" where
  "gateway_on_event url GatewayTick tok s = (if mo_autoRefresh s then fetchGatewayStats url tok s else seg_skip s)"
| "gateway_on_event url GatewayRefresh tok s = (if mo_loading s then seg_skip s else fetchGatewayStats url tok s)"
| "gateway_on_event url GatewayAuto tok s = (if gateway_shown s then toggle_refresh s else seg_skip s)"

definition ApiGatewayManagement :: "string \<Rightarrow> (gateway_page, gateway_event, unit waiting) page" where
  "ApiGatewayManagement url =
     \<lparr>on_mount = fetchGatewayStats url, on_event = gateway_on_event url,
      on_answer = resume (\<lambda>k tok r. fetchGatewayStats_rest r), on_commit = (\<lambda>old tok. seg_skip)\<rparr>"

section \<open>System health\<close>

datatype alert_filter = AllAlerts | ActiveAlerts | ResolvedAlerts

record health_page = monitor +
  sh_systemHealth :: js_val
  sh_alertFilter :: alert_filter

definition new_health_page :: health_page where
  "new_health_page = monitor.extend new_monitor \<lparr>sh_systemHealth = JNull, sh_alertFilter = AllAlerts\<rparr>"

text \<open>\<^verbatim>\<open>resolveAlert\<close> captures the health data of the render in which its button was clicked.\<close>

datatype health_rest = HealthFetched | AlertResolved js_val js_val

definition fetchSystemHealth :: "string \<Rightarrow> string option \<Rightarrow> (health_page, health_rest waiting) seg" where
  "fetchSystemHealth url tok = seg_then clear_error (call (getSystemHealth url tok) HealthFetched)"

definition fetchSystemHealth_rest :: "js_error + js_val \<Rightarrow> (health_page, health_rest waiting) seg" where
  "fetchSystemHealth_rest = fetched (\<lambda>v s. s\<lparr>sh_systemHealth := v\<rparr>) ''Failed to fetch system health''"

definition resolveAlert ::
  "text_conv \<Rightarrow> string \<Rightarrow> js_val \<Rightarrow> string option \<Rightarrow> (health_page, health_rest waiting) seg" where
  "resolveAlert K url alertId tok s =
     (if js_Boolean (sh_systemHealth s)
      then call (mgmt_resolveAlert url (js_String K alertId) tok) (AlertResolved alertId (sh_systemHealth s)) s
      else seg_skip s)"

definition mark_resolved :: "js_val \<Rightarrow> js_val \<Rightarrow> js_error + js_val" where
  "mark_resolved alertId alert =
     res_bind (js_dot alert ''id'') (\<lambda>i.
       Inr (if js_strict_eq i alertId then js_spread alert [(''resolved'', JBool True)] else alert))"

definition updated_health :: "js_val \<Rightarrow> js_val \<Rightarrow> js_error + js_val" where
  "updated_health alertId health =
     res_bind (js_array (js_get health ''alerts'')) (\<lambda>alerts.
       res_bind (res_map (mark_resolved alertId) alerts) (\<lambda>updatedAlerts.
         Inr (js_spread health [(''alerts'', JArr updatedAlerts)])))"

definition resolveAlert_rest ::
  "js_val \<Rightarrow> js_val \<Rightarrow> js_error + js_val \<Rightarrow> (health_page, health_rest waiting) seg" where
  "resolveAlert_rest alertId health r =
     set_state (\<lambda>s. case res_bind r (\<lambda>v. updated_health alertId health) of
        Inr h \<Rightarrow> s\<lparr>sh_systemHealth := h\<rparr>
      | Inl err \<Rightarrow> s\<lparr>mo_error := Some ''Failed to resolve alert. Please try again.''\<rparr>)"

fun alert_passes :: "alert_filter \<Rightarrow> js_val \<Rightarrow> bool" where
  "alert_passes ActiveAlerts r = (\<not> js_Boolean r)"
| "alert_passes ResolvedAlerts r = js_Boolean r"
| "alert_passes AllAlerts r = True"

definition filteredAlerts :: "health_page \<Rightarrow> js_error + js_val list" where
  "filteredAlerts s =
     (if isSet (sh_systemHealth s)
      then res_bind (js_array (js_get (sh_systemHealth s) ''alerts'')) (\<lambda>alerts.
             if sh_alertFilter s = AllAlerts then Inr alerts
             else res_bind (res_map (\<lambda>alert. js_dot alert ''resolved'') alerts) (\<lambda>rs.
                    Inr (map fst (filter (\<lambda>(alert, r). alert_passes (sh_alertFilter s) r) (zip alerts rs)))))
      else Inr [])"

datatype health_event = HealthTick | HealthRefresh | HealthAuto | FilterChosen alert_filter | ResolveClicked js_val

definition health_shown :: "health_page \<Rightarrow> bool" where
  "health_shown s = (\<not> mo_loading s \<and> mo_error s = None \<and> js_Boolean (sh_systemHealth s))"

fun health_on_event ::
  "text_conv \<Rightarrow> string \<Rightarrow> health_event \<Rightarrow> string option \<Rightarrow> (health_page, health_rest waiting) seg" where
  "health_on_event K url HealthTick tok s = (if mo_autoRefresh s then fetchSystemHealth url tok s else seg_skip s)"
| "health_on_event K url HealthRefresh tok s = (if mo_loading s then seg_skip s else fetchSystemHealth url tok s)"
| "health_on_event K url HealthAuto tok s = (if health_shown s then toggle_refresh s else seg_skip s)"
| "health_on_event K url (FilterChosen f) tok s =
     (if health_shown s then set_state (\<lambda>s. s\<lparr>sh_alertFilter := f\<rparr>) s else seg_skip s)"
| "health_on_event K url (ResolveClicked a) tok s =
     (if health_shown s then resolveAlert K url a tok s else seg_skip s)"

fun health_rest_run :: "health_rest \<Rightarrow> js_error + js_val \<Rightarrow> (health_page, health_rest waiting) seg" where
  "health_rest_run HealthFetched r = fetchSystemHealth_rest r"
| "health_rest_run (AlertResolved a h) r = resolveAlert_rest a h r"

definition SystemHealthPage :: "text_conv \<Rightarrow> string \<Rightarrow> (health_page, health_event, health_rest waiting) page" where
  "SystemHealthPage K url =
     \<lparr>on_mount = fetchSystemHealth url, on_event = health_on_event K url,
      on_answer = resume (\<lambda>k tok r. health_rest_run k r), on_commit = (\<lambda>old tok. seg_skip)\<rparr>"

section \<open>Overview of the management console\<close>

record overview_page =
  ov_systemHealth :: js_val
  ov_loading :: bool

definition new_overview_page :: overview_page where
  "new_overview_page = \<lparr>ov_systemHealth = JNull, ov_loading = True\<rparr>"

definition ov_fetchData :: "string \<Rightarrow> string option \<Rightarrow> (overview_page, unit waiting) seg" where
  "ov_fetchData url tok = call (getSystemHealth url tok) ()"

definition ov_fetchData_rest :: "js_error + js_val \<Rightarrow> (overview_page, unit waiting) seg" where
  "ov_fetchData_rest r =
     set_state (\<lambda>s. (case r of Inr health \<Rightarrow> s\<lparr>ov_systemHealth := health\<rparr> | Inl err \<Rightarrow> s)\<lparr>ov_loading := False\<rparr>)"

text \<open>\<^verbatim>\<open>Math.min(Math.max(toNumber(systemHealth?.metrics.cpu_usage, 0), 0), 100)\<close>\<close>

definition cpuUsage :: "text_conv \<Rightarrow> overview_page \<Rightarrow> js_error + js_num" where
  "cpuUsage K s =
     res_bind (if isSet (ov_systemHealth s)
               then js_dot (js_get (ov_systemHealth s) ''metrics'') ''cpu_usage'' else Inr JUndefined)
       (\<lambda>v. let x = js_max (toNumber K v (Fin 0)) (Fin 0) in Inr (if js_lt (Fin 100) x then Fin 100 else x))"

datatype overview_event = OverviewTick | OverviewRefresh

fun overview_on_event :: "string \<Rightarrow> overview_event \<Rightarrow> string option \<Rightarrow> (overview_page, unit waiting) seg" where
  "overview_on_event url OverviewTick tok s = ov_fetchData url tok s"
| "overview_on_event url OverviewRefresh tok s =
     (if ov_loading s \<or> \<not> js_Boolean (ov_systemHealth s) then seg_skip s else ov_fetchData url tok s)"

definition ManagementDashboard :: "string \<Rightarrow> (overview_page, overview_event, unit waiting) page" where
  "ManagementDashboard url =
     \<lparr>on_mount = ov_fetchData url, on_event = overview_on_event url,
      on_answer = resume (\<lambda>k tok r. ov_fetchData_rest r), on_commit = (\<lambda>old tok. seg_skip)\<rparr>"

section \<open>Loading ends\<close>

lemmas monitor_defs =
  clear_error_def fetched_def toggle_refresh_def call_def fetchWorkers_def fetchWorkers_rest_def
  fetchGatewayStats_def fetchGatewayStats_rest_def fetchSystemHealth_def fetchSystemHealth_rest_def
  resolveAlert_def resolveAlert_rest_def ov_fetchData_def ov_fetchData_rest_def seg_defs

lemmas monitor_starts =
  new_monitor_def new_workers_page_def new_gateway_page_def new_health_page_def new_overview_page_def
  monitor.extend_def

text \<open>A method that returns after its only request.\<close>

definition one_request :: "'k waiting \<Rightarrow> bool" where
  "one_request w \<longleftrightarrow> (\<exists>q c. wait_flow w = Request q c \<and> (\<forall>tok ans. \<exists>r. c tok ans = Finished r))"

lemma one_request_methods [simp]:
  "one_request (Waiting (getWorkers url tok) k)" "one_request (Waiting (getGatewayStats url tok) k)"
  "one_request (Waiting (getSystemHealth url tok) k)" "one_request (Waiting (mgmt_resolveAlert url i tok) k)"
  by (simp_all add: one_request_def mgmt_defs)

lemma resume_one_request:
  assumes "one_request w"
  obtains r where "resume rest w tok ans = rest (wait_rest w) tok r"
proof -
  from assms obtain q c r where "wait_flow w = Request q c" "c tok ans = Finished r"
    unfolding one_request_def by metis
  then have "resume rest w tok ans = rest (wait_rest w) tok r" by (cases w) simp
  then show ?thesis by (rule that)
qed

text \<open>What the pages here have in common: their closures are calls of the service with one request, and
  the rest of a fetch clears the busy flag.\<close>

locale service_page =
  fixes P :: "('s, 'e, 'k waiting) page" and s0 :: 's and busy :: "'s \<Rightarrow> bool"
    and fetch :: "'k \<Rightarrow> bool" and rest :: "'k \<Rightarrow> string option \<Rightarrow> js_error + js_val \<Rightarrow> ('s, 'k waiting) seg"
  assumes answers_resume: "on_answer P = resume rest"
    and commits_skip: "on_commit P = (\<lambda>old tok. seg_skip)"
    and mount_fetches: "on_mount P tok s0 = (s, a) \<Longrightarrow>
        list_all one_request a \<and> (busy s \<longrightarrow> (\<exists>w \<in> set a. fetch (wait_rest w)))"
    and event_fetches: "on_event P e tok s = (s', a) \<Longrightarrow>
        list_all one_request a \<and> (busy s' \<longrightarrow> busy s \<or> (\<exists>w \<in> set a. fetch (wait_rest w)))"
    and rest_clears: "rest k tok r s = (s', a) \<Longrightarrow> a = [] \<and> busy s' = (busy s \<and> \<not> fetch k)"

sublocale service_page \<subseteq> page_settles P s0 busy "\<lambda>w. fetch (wait_rest w)" one_request
proof unfold_locales
  fix k tok ans s s' a
  assume run: "on_answer P k tok ans s = (s', a)" and "busy s'"
  show "busy s \<and> \<not> fetch (wait_rest k) \<or> (\<exists>w \<in> set a. fetch (wait_rest w))"
    by (rule resume_busy [where busy = busy, OF run [unfolded answers_resume] \<open>busy s'\<close>])
       (use \<open>busy s'\<close> in \<open>auto dest: rest_clears\<close>)
next
  fix k tok ans s s' a
  assume "one_request k" and run: "on_answer P k tok ans s = (s', a)"
  then obtain r where "rest (wait_rest k) tok r s = (s', a)"
    by (auto simp: answers_resume elim: resume_one_request [of k rest tok ans])
  from rest_clears [OF this] show "list_all one_request a" "fetch (wait_rest k) \<Longrightarrow> \<not> busy s'" by auto
qed (auto simp: commits_skip seg_skip_def dest: mount_fetches event_fetches)

interpretation workers: service_page "WorkersManagement url" new_workers_page mo_loading
  "\<lambda>k. True" "\<lambda>k tok r. fetchWorkers_rest r" for url
proof unfold_locales
  fix e tok s s' a
  assume "on_event (WorkersManagement url) e tok s = (s', a)"
  then show "list_all one_request a \<and> (mo_loading s' \<longrightarrow> mo_loading s \<or> (\<exists>w \<in> set a. True))"
    by (cases e) (auto simp: WorkersManagement_def monitor_defs split: if_splits)
qed (auto simp: WorkersManagement_def monitor_defs monitor_starts)

interpretation gateway: service_page "ApiGatewayManagement url" new_gateway_page mo_loading
  "\<lambda>k. True" "\<lambda>k tok r. fetchGatewayStats_rest r" for url
proof unfold_locales
  fix e tok s s' a
  assume "on_event (ApiGatewayManagement url) e tok s = (s', a)"
  then show "list_all one_request a \<and> (mo_loading s' \<longrightarrow> mo_loading s \<or> (\<exists>w \<in> set a. True))"
    by (cases e) (auto simp: ApiGatewayManagement_def monitor_defs split: if_splits)
qed (auto simp: ApiGatewayManagement_def monitor_defs monitor_starts)

interpretation health: service_page "SystemHealthPage K url" new_health_page mo_loading
  "\<lambda>k. k = HealthFetched" "\<lambda>k tok r. health_rest_run k r" for K url
proof unfold_locales
  fix e tok s s' a
  assume "on_event (SystemHealthPage K url) e tok s = (s', a)"
  then show "list_all one_request a
      \<and> (mo_loading s' \<longrightarrow> mo_loading s \<or> (\<exists>w \<in> set a. wait_rest w = HealthFetched))"
    by (cases e) (auto simp: SystemHealthPage_def monitor_defs split: if_splits)
next
  fix k tok r s s' a
  assume "health_rest_run k r s = (s', a)"
  then show "a = [] \<and> mo_loading s' = (mo_loading s \<and> k \<noteq> HealthFetched)"
    by (cases k) (auto simp: monitor_defs split: sum.splits)
qed (auto simp: SystemHealthPage_def monitor_defs monitor_starts)

interpretation overview: service_page "ManagementDashboard url" new_overview_page ov_loading
  "\<lambda>k. True" "\<lambda>k tok r. ov_fetchData_rest r" for url
proof unfold_locales
  fix e tok s s' a
  assume "on_event (ManagementDashboard url) e tok s = (s', a)"
  then show "list_all one_request a \<and> (ov_loading s' \<longrightarrow> ov_loading s \<or> (\<exists>w \<in> set a. True))"
    by (cases e) (auto simp: ManagementDashboard_def monitor_defs split: if_splits)
qed (auto simp: ManagementDashboard_def monitor_defs monitor_starts)

section \<open>Alerts\<close>

lemma js_define_lookup: "map_of (js_define k v obj) = (map_of obj)(k \<mapsto> v)"
proof (cases "k = ''__proto__''")
  case True
  then show ?thesis
    by (auto simp: js_define_def update_conv' fun_eq_iff map_add_def dom_map_of_conv_image_fst [symmetric]
        domIff split: option.splits)
next
  case False
  then show ?thesis by (simp add: js_define_def js_set_lookup)
qed

lemma js_spread_lookup: "js_get (js_spread v (fs @ [(k, x)])) f = (if f = k then x else js_get (js_spread v fs) f)"
  by (simp add: js_spread_def js_define_lookup)

lemmas js_spread_one = js_spread_lookup [of _ "[]", simplified]

lemma isSet_js_spread [simp]: "isSet (js_spread v fs)"
  by (simp add: js_spread_def isSet_def)

lemma js_Boolean_isSet: "js_Boolean v \<Longrightarrow> isSet v"
  by (cases v) (simp_all add: isSet_def)

text \<open>What \<^verbatim>\<open>resolveAlert\<close> makes of one alert.\<close>

definition marked :: "js_val \<Rightarrow> js_val \<Rightarrow> js_val" where
  "marked i x = (if js_strict_eq (js_get x ''id'') i then js_spread x [(''resolved'', JBool True)] else x)"

lemma mark_all:
  "(\<forall>x \<in> set xs. isSet x) \<Longrightarrow> res_map (mark_resolved i) xs = Inr (map (marked i) xs)"
  by (induction xs) (simp_all add: mark_resolved_def marked_def js_dot_def)

lemma updated_alerts:
  assumes "js_get h ''alerts'' = JArr xs" and "\<forall>x \<in> set xs. isSet x"
  shows "updated_health i h = Inr (js_spread h [(''alerts'', JArr (map (marked i) xs))])"
  using assms by (simp add: updated_health_def js_array_def mark_all)

lemma alerts_shown:
  assumes "js_get (sh_systemHealth s) ''alerts'' = JArr xs" and "isSet (sh_systemHealth s)"
    and "\<forall>x \<in> set xs. isSet x"
  shows "filteredAlerts s = Inr (filter (\<lambda>x. alert_passes (sh_alertFilter s) (js_get x ''resolved'')) xs)"
proof -
  have "res_map (\<lambda>x. js_dot x ''resolved'') xs = Inr (map (\<lambda>x. js_get x ''resolved'') xs)"
    using assms(3) by (induction xs) (simp_all add: js_dot_def)
  moreover have "map fst (filter (\<lambda>(x, r). Q r) (zip xs (map g xs))) = filter (\<lambda>x. Q (g x)) xs"
    for Q and g :: "js_val \<Rightarrow> js_val"
    by (induction xs) simp_all
  ultimately show ?thesis using assms(1,2) by (simp add: filteredAlerts_def js_array_def)
qed

lemma isSet_marked: "isSet x \<Longrightarrow> isSet (marked i x)"
  by (simp add: marked_def)

text \<open>A click on the button of an alert, and the answer of the service.\<close>

lemma resolve_clicked:
  assumes "health_shown s"
  shows "page_next (SystemHealthPage K url) (Event tok (ResolveClicked i)) (s, p) =
     (s, p @ [Waiting (mgmt_resolveAlert url (js_String K i) tok) (AlertResolved i (sh_systemHealth s))])"
  using assms by (simp add: SystemHealthPage_def monitor_defs health_shown_def)

lemma resolve_answered:
  assumes "j < length p" and "p ! j = Waiting (mgmt_resolveAlert url a tok) (AlertResolved i h)"
    and "js_get h ''alerts'' = JArr xs" and "\<forall>x \<in> set xs. isSet x"
  shows "page_next (SystemHealthPage K url) (Answer tok' j (Inr d)) (s, p) =
     (s\<lparr>sh_systemHealth := js_spread h [(''alerts'', JArr (map (marked i) xs))]\<rparr>,
      take j p @ drop (Suc j) p)"
  using assms(1,2)
  by (simp add: SystemHealthPage_def monitor_defs mgmt_resolveAlert_def no_result_def updated_alerts [OF assms(3,4)])

section \<open>Properties\<close>

text \<open>C25: The pages that watch the system never hang in their loading screen: in every reachable state
  in which the worker page, the gateway page, the health page or the overview is loading, one of its
  requests is open whose answer, success or failure, ends the loading.\<close>

theorem monitors_leave_loading:
  "(\<forall>s p. page_reach (WorkersManagement url) new_workers_page (s, p) \<and> mo_loading s \<longrightarrow>
      (\<exists>i < length p. \<forall>tok ans. \<not> mo_loading (fst (page_next (WorkersManagement url) (Answer tok i ans) (s, p)))))
   \<and> (\<forall>s p. page_reach (ApiGatewayManagement url) new_gateway_page (s, p) \<and> mo_loading s \<longrightarrow>
      (\<exists>i < length p. \<forall>tok ans. \<not> mo_loading (fst (page_next (ApiGatewayManagement url) (Answer tok i ans) (s, p)))))
   \<and> (\<forall>s p. page_reach (SystemHealthPage K url) new_health_page (s, p) \<and> mo_loading s \<longrightarrow>
      (\<exists>i < length p. \<forall>tok ans. \<not> mo_loading (fst (page_next (SystemHealthPage K url) (Answer tok i ans) (s, p)))))
   \<and> (\<forall>s p. page_reach (ManagementDashboard url) new_overview_page (s, p) \<and> ov_loading s \<longrightarrow>
      (\<exists>i < length p. \<forall>tok ans. \<not> ov_loading (fst (page_next (ManagementDashboard url) (Answer tok i ans) (s, p)))))"
  by (intro conjI allI impI; elim conjE)
     (rule workers.settles gateway.settles health.settles overview.settles; assumption)+

theorem monitors_leave_loading_witness:
  "\<exists>s p. page_reach (SystemHealthPage plain_conv ''u'') new_health_page (s, p) \<and> mo_loading s
     \<and> (\<exists>i < length p. \<forall>tok ans.
          \<not> mo_loading (fst (page_next (SystemHealthPage plain_conv ''u'') (Answer tok i ans) (s, p))))"
proof -
  let ?P = "SystemHealthPage plain_conv ''u''"
  have "page_reach ?P new_health_page (page_start ?P None new_health_page)" by (rule page_reach.mounted)
  moreover obtain s p where st: "page_start ?P None new_health_page = (s, p)"
    by (cases "page_start ?P None new_health_page")
  moreover have "mo_loading s"
    using st by (auto simp: page_start_def SystemHealthPage_def monitor_defs monitor_starts)
  ultimately show ?thesis
    using monitors_leave_loading [of "''u''" plain_conv] by metis
qed

text \<open>Resolving an alert, undisturbed, marks it: when the service accepts, every alert that has the
  id is marked as resolved and disappears from the active alerts, all other alerts are as before, and
  the page shows no error.\<close>

theorem resolve_marks_alert:
  fixes s K url tok a d
  assumes "health_shown s" and "js_get (sh_systemHealth s) ''alerts'' = JArr xs" and "\<forall>x \<in> set xs. isSet x"
  defines "s' \<equiv> fst (page_run (SystemHealthPage K url)
      [Event tok (ResolveClicked (JStr a)), Answer tok 0 (Inr d)] (s, []))"
  shows "js_get (sh_systemHealth s') ''alerts'' = JArr (map (marked (JStr a)) xs)
     \<and> mo_error s' = None
     \<and> filteredAlerts (s'\<lparr>sh_alertFilter := ActiveAlerts\<rparr>) =
         Inr (filter (\<lambda>x. js_get x ''id'' \<noteq> JStr a \<and> \<not> js_Boolean (js_get x ''resolved'')) xs)"
proof -
  let ?h = "js_spread (sh_systemHealth s) [(''alerts'', JArr (map (marked (JStr a)) xs))]"
  have s': "s' = s\<lparr>sh_systemHealth := ?h\<rparr>"
    using assms(1-3) by (simp add: s'_def page_run_def resolve_clicked resolve_answered del: page_next.simps)
  have eq: "js_strict_eq x (JStr a) \<longleftrightarrow> x = JStr a" for x by (cases x) auto
  have "filter (\<lambda>x. alert_passes ActiveAlerts (js_get x ''resolved'')) (map (marked (JStr a)) xs)
      = filter (\<lambda>x. js_get x ''id'' \<noteq> JStr a \<and> \<not> js_Boolean (js_get x ''resolved'')) xs"
    by (induction xs) (simp_all add: marked_def eq js_spread_one)
  moreover have "\<forall>x \<in> set (map (marked (JStr a)) xs). isSet x"
    using assms(3) by (auto simp: isSet_marked)
  ultimately have "filteredAlerts (s'\<lparr>sh_alertFilter := ActiveAlerts\<rparr>) =
      Inr (filter (\<lambda>x. js_get x ''id'' \<noteq> JStr a \<and> \<not> js_Boolean (js_get x ''resolved'')) xs)"
    by (subst alerts_shown [where xs = "map (marked (JStr a)) xs"]) (simp_all add: s' js_spread_one)
  then show ?thesis using assms(1) by (simp add: s' js_spread_one health_shown_def)
qed

definition sample_alert :: "string \<Rightarrow> js_val" where
  "sample_alert i = JObj [(''id'', JStr i), (''resolved'', JBool False)]"

definition sample_health :: health_page where
  "sample_health = new_health_page
     \<lparr>mo_loading := False, sh_systemHealth := JObj [(''alerts'', JArr [sample_alert ''a'', sample_alert ''b''])]\<rparr>"

lemma sample_health_shown:
  "health_shown sample_health"
  "js_get (sh_systemHealth sample_health) ''alerts'' = JArr [sample_alert ''a'', sample_alert ''b'']"
  "\<forall>x \<in> set [sample_alert ''a'', sample_alert ''b'']. isSet x"
  by (simp_all add: sample_health_def sample_alert_def health_shown_def monitor_starts isSet_def)

theorem resolve_marks_alert_witness:
  "filteredAlerts ((fst (page_run (SystemHealthPage plain_conv ''u'')
      [Event None (ResolveClicked (JStr ''a'')), Answer None 0 (Inr JNull)] (sample_health, [])))
        \<lparr>sh_alertFilter := ActiveAlerts\<rparr>) = Inr [sample_alert ''b'']"
  using resolve_marks_alert [OF sample_health_shown, of plain_conv "''u''" None "''a''" JNull]
  by (simp add: sample_alert_def)

text \<open>C39: Two alerts that are resolved one after the other, the second before the first is answered, with
  the answers in the order of the clicks: the
  service accepts both, but the page ends up with the first one still active. The second handler
  overwrites the list with its own copy, which it captured when its button was clicked.\<close>

theorem second_resolve_overwrites:
  fixes s K url tok a b d
  assumes "health_shown s" and "js_get (sh_systemHealth s) ''alerts'' = JArr xs" and "\<forall>x \<in> set xs. isSet x"
    and "x \<in> set xs" and "js_get x ''id'' = JStr a" and "\<not> js_Boolean (js_get x ''resolved'')" and "a \<noteq> b"
  defines "s' \<equiv> fst (page_run (SystemHealthPage K url)
      [Event tok (ResolveClicked (JStr a)), Event tok (ResolveClicked (JStr b)),
       Answer tok 0 (Inr d), Answer tok 0 (Inr d)] (s, []))"
  shows "\<exists>shown. filteredAlerts (s'\<lparr>sh_alertFilter := ActiveAlerts\<rparr>) = Inr shown \<and> x \<in> set shown"
proof -
  let ?h = "js_spread (sh_systemHealth s) [(''alerts'', JArr (map (marked (JStr b)) xs))]"
  have s': "s' = s\<lparr>sh_systemHealth := ?h\<rparr>"
    using assms(1-3) by (simp add: s'_def page_run_def resolve_clicked resolve_answered del: page_next.simps)
  have "\<forall>x \<in> set (map (marked (JStr b)) xs). isSet x" using assms(3) by (auto simp: isSet_marked)
  then have "filteredAlerts (s'\<lparr>sh_alertFilter := ActiveAlerts\<rparr>) =
      Inr (filter (\<lambda>x. alert_passes ActiveAlerts (js_get x ''resolved'')) (map (marked (JStr b)) xs))"
    by (subst alerts_shown [where xs = "map (marked (JStr b)) xs"]) (simp_all add: s' js_spread_one)
  moreover have "marked (JStr b) x = x" using assms(5,7) by (simp add: marked_def)
  then have "x \<in> set (map (marked (JStr b)) xs)" using assms(4) by (metis image_eqI set_map)
  ultimately show ?thesis using assms(6) by simp
qed

theorem second_resolve_overwrites_witness:
  "\<exists>shown. filteredAlerts ((fst (page_run (SystemHealthPage plain_conv ''u'')
      [Event None (ResolveClicked (JStr ''a'')), Event None (ResolveClicked (JStr ''b'')),
       Answer None 0 (Inr JNull), Answer None 0 (Inr JNull)] (sample_health, [])))
        \<lparr>sh_alertFilter := ActiveAlerts\<rparr>) = Inr shown \<and> sample_alert ''a'' \<in> set shown"
  using second_resolve_overwrites
    [OF sample_health_shown, of "sample_alert ''a''" "''a''" "''b''" plain_conv "''u''" None JNull]
  by (simp add: sample_alert_def)

lemma toNumber_finite: "\<exists>q. toNumber K v (Fin d) = Fin q"
proof -
  have "\<exists>q. (if isFinite n then n else Fin d) = Fin q" for n by (cases n) (simp_all add: isFinite_def)
  then show ?thesis by (cases v) (simp_all only: toNumber_def js_val.case Let_def)
qed

text \<open>The meter of the overview stays on its scale, whatever the server reports.\<close>

lemma cpuUsage_range:
  assumes "cpuUsage K s = Inr n"
  shows "\<exists>q. n = Fin q \<and> 0 \<le> q \<and> q \<le> 100"
proof -
  from assms obtain v where
    n: "n = (let x = js_max (toNumber K v (Fin 0)) (Fin 0) in if js_lt (Fin 100) x then Fin 100 else x)"
    by (auto simp: cpuUsage_def res_bind_Inr_iff Let_def)
  obtain q where "toNumber K v (Fin 0) = Fin q"
    using toNumber_finite [of K v 0] by blast
  with n show ?thesis by (auto simp: Let_def max_def)
qed

end
