(* ===== verification/Vector_Ops.thy ===== *)
theory Vector_Ops
  imports Console_Format
begin

text \<open>
  The vector page of the console, \<^verbatim>\<open>auth/frontend/src/pages/VectorOperationsPage.tsx\<close>, as a page in
  the sense of \<open>React\<close>: the parser of the vector field, the checks before a request, and the
  handlers of the list of collections, of the status of the selected one, and of upsert, search,
  get and delete. Of a collection the page uses the name, the dimension and the count. The tab and
  the open menu are left out, as they only choose what is drawn.
\<close>

section \<open>Reading vectors\<close>

text \<open>\<^verbatim>\<open>parseFloat\<close>: the longest prefix that is a decimal literal, after white space.\<close>

definition parse_exponent :: "string \<Rightarrow> int" where
  "parse_exponent s =
     (case s of
        c # r \<Rightarrow>
          if c = CHR ''e'' \<or> c = CHR ''E''
          then let (neg, r') = (case r of d # t \<Rightarrow> if d = CHR ''-'' then (True, t)
                                  else if d = CHR ''+'' then (False, t) else (False, r) | [] \<Rightarrow> (False, r));
                   ds = takeWhile is_digit r'
               in if ds = [] then 0 else if neg then - int (parse_nat ds) else int (parse_nat ds)
          else 0
      | [] \<Rightarrow> 0)"

definition scale10 :: "rat \<Rightarrow> int \<Rightarrow> rat" where
  "scale10 a e = (if 0 \<le> e then a * 10 ^ nat e else a / 10 ^ nat (- e))"

definition parse_unsigned :: "string \<Rightarrow> js_num" where
  "parse_unsigned s =
     (if take 8 s = ''Infinity'' then PosInf
      else let ip = takeWhile is_digit s; r = dropWhile is_digit s;
               (fp, r') = (case r of c # t \<Rightarrow> if c = CHR ''.'' then (takeWhile is_digit t, dropWhile is_digit t)
                                      else ([], r) | [] \<Rightarrow> ([], r))
           in if ip = [] \<and> fp = [] then NaN
              else Fin (scale10 (of_nat (parse_nat (ip @ fp)) / 10 ^ length fp) (parse_exponent r')))"

fun js_neg :: "js_num \<Rightarrow> js_num" where
  "js_neg NaN = NaN"
| "js_neg PosInf = NegInf"
| "js_neg NegInf = PosInf"
| "js_neg (Fin a) = Fin (- a)"

definition parseFloat :: "string \<Rightarrow> js_num" where
  "parseFloat s =
     (case dropWhile js_space s of
        c # r \<Rightarrow> if c = CHR ''-'' then js_neg (parse_unsigned r)
                 else if c = CHR ''+'' then parse_unsigned r else parse_unsigned (c # r)
      | [] \<Rightarrow> NaN)"

text \<open>\<^verbatim>\<open>s.split(",")\<close>\<close>

fun split_comma :: "string \<Rightarrow> string list" where
  "split_comma [] = [[]]"
| "split_comma (c # cs) =
     (if c = CHR '','' then [] # split_comma cs
      else case split_comma cs of s # ss \<Rightarrow> (c # s) # ss | [] \<Rightarrow> [[c]])"

definition parseVectorString :: "string \<Rightarrow> js_num list" where
  "parseVectorString input =
     filter (\<lambda>v. v \<noteq> NaN)
       (map parseFloat (filter (\<lambda>v. v \<noteq> []) (map js_trim (split_comma input))))"

section \<open>State\<close>

record vec_collection =
  vc_name :: js_val
  vc_dimension :: js_num
  vc_count :: js_num

datatype TabType = TabUpsert | TabSearch | TabManage

record vector_ops =
  vo_collections :: "vec_collection list"
  selectedCollection :: js_val
  activeTab :: TabType
  vo_isLoading :: bool
  isActionLoading :: bool
  vo_toast :: "(js_val \<times> string) option"
  isDropdownOpen :: bool
  isDeleteDialogOpen :: bool
  vectorId :: string
  vectorValues :: string
  searchVector :: string
  vo_topK :: js_num
  searchResults :: js_val
  manageVectorId :: string
  foundVector :: "(js_val \<times> js_val) option"
  deleteVectorId :: js_val

definition new_vector_ops :: vector_ops where
  "new_vector_ops =
     \<lparr>vo_collections = [], selectedCollection = JStr [], activeTab = TabUpsert, vo_isLoading = False,
      isActionLoading = False, vo_toast = None, isDropdownOpen = False, isDeleteDialogOpen = False, vectorId = [], vectorValues = [], searchVector = [],
      vo_topK = Fin 10, searchResults = JArr [], manageVectorId = [], foundVector = None,
      deleteVectorId = JStr []\<rparr>"

text \<open>The closures: a list request with the selection at the time, the status of a collection, and the
  four actions with what they send.\<close>

datatype vec_await =
    AwCollections js_val | AwStatus js_val | AwUpsert js_val string "js_num list"
  | AwSearch js_val "js_num list" js_num | AwGet js_val string
  | AwDeleteVector js_val js_val "(js_val \<times> js_val) option"

fun is_vec_action :: "vec_await \<Rightarrow> bool" where
  "is_vec_action (AwCollections c) = False"
| "is_vec_action (AwStatus c) = False"
| "is_vec_action _ = True"

definition vec_path :: "text_conv \<Rightarrow> js_val \<Rightarrow> string \<Rightarrow> string" where
  "vec_path K c rest = ''/v1/collections/'' @ js_String K c @ rest"

fun vec_request :: "text_conv \<Rightarrow> vec_await \<Rightarrow> http_request" where
  "vec_request K (AwCollections c) =
     \<lparr>hr_verb = GET, hr_url = ''/v1/collections'', hr_body = JUndefined, hr_headers = []\<rparr>"
| "vec_request K (AwStatus c) =
     \<lparr>hr_verb = GET, hr_url = vec_path K c ''/status'', hr_body = JUndefined, hr_headers = []\<rparr>"
| "vec_request K (AwUpsert c i v) =
     \<lparr>hr_verb = POST, hr_url = vec_path K c ''/points'',
      hr_body = JObj [(''points'', JArr [JObj [(''id'', JStr i), (''vector'', JArr (map JNum v))]])], hr_headers = []\<rparr>"
| "vec_request K (AwSearch c v k) =
     \<lparr>hr_verb = POST, hr_url = vec_path K c ''/points/search'',
      hr_body = JObj [(''vector'', JArr (map JNum v)), (''top_k'', JNum k)], hr_headers = []\<rparr>"
| "vec_request K (AwGet c i) =
     \<lparr>hr_verb = GET, hr_url = vec_path K c (''/points/'' @ i), hr_body = JUndefined, hr_headers = []\<rparr>"
| "vec_request K (AwDeleteVector c i fv) =
     \<lparr>hr_verb = DELETE, hr_url = vec_path K c (''/points/'' @ js_String K i), hr_body = JUndefined, hr_headers = []\<rparr>"

section \<open>Collections\<close>

definition vec_toast :: "js_val \<Rightarrow> string \<Rightarrow> vector_ops \<Rightarrow> vector_ops" where
  "vec_toast msg ty s = s\<lparr>vo_toast := Some (msg, ty)\<rparr>"

text \<open>\<^verbatim>\<open>typeof v === "number" ? v : 0\<close>\<close>

definition number_or_zero :: "js_val \<Rightarrow> js_num" where
  "number_or_zero v = (case v of JNum n \<Rightarrow> n | _ \<Rightarrow> Fin 0)"

text \<open>The page reads only these fields of a collection; the others that \<^verbatim>\<open>...c\<close> copies are left out.\<close>

definition map_collection :: "js_val \<Rightarrow> js_error + vec_collection" where
  "map_collection c =
     (if js_is_string c then Inr \<lparr>vc_name = c, vc_dimension = Fin 0, vc_count = Fin 0\<rparr>
      else res_bind (js_dot c ''name'') (\<lambda>n.
        Inr \<lparr>vc_name = js_or n (JStr ''Unnamed Collection''),
             vc_dimension = number_or_zero (js_get c ''dimension''),
             vc_count = number_or_zero (js_get c ''count'')\<rparr>))"

definition mapped_collections :: "answer \<Rightarrow> js_error + vec_collection list" where
  "mapped_collections ans =
     res_bind ans (\<lambda>d. res_bind (js_dot d ''collections'') (\<lambda>v.
       res_bind (js_array (js_or v (JArr []))) (res_map map_collection)))"

definition vec_fetchCollections :: "(vector_ops, vec_await) seg" where
  "vec_fetchCollections s =
     seg_then (set_state (\<lambda>s. s\<lparr>vo_isLoading := True\<rparr>)) (await (AwCollections (selectedCollection s))) s"

definition vec_collections_answer :: "js_val \<Rightarrow> answer \<Rightarrow> (vector_ops, vec_await) seg" where
  "vec_collections_answer selected ans =
     set_state (\<lambda>s.
       (case mapped_collections ans of
          Inr mapped \<Rightarrow>
            (let s1 = s\<lparr>vo_collections := mapped\<rparr>
             in if mapped \<noteq> [] \<and> \<not> js_Boolean selected
                then s1\<lparr>selectedCollection := vc_name (hd mapped)\<rparr> else s1)
        | Inl err \<Rightarrow> vec_toast (server_message err ''Failed to load collections'') ''danger'' s)
       \<lparr>vo_isLoading := False\<rparr>)"

definition fetchCollectionStatus :: "js_val \<Rightarrow> (vector_ops, vec_await) seg" where
  "fetchCollectionStatus c = (if js_Boolean c then await (AwStatus c) else seg_skip)"

definition status_answer :: "js_val \<Rightarrow> answer \<Rightarrow> (vector_ops, vec_await) seg" where
  "status_answer c ans =
     (case ans of
        Inl err \<Rightarrow> seg_skip
      | Inr d \<Rightarrow>
          let dimension = number_or_zero (js_get d ''dimension'')
          in if js_lt (Fin 0) dimension
             then set_state (\<lambda>s. s\<lparr>vo_collections :=
                    map (\<lambda>x. if js_strict_eq (vc_name x) c then x\<lparr>vc_dimension := dimension\<rparr> else x) (vo_collections s)\<rparr>)
             else seg_skip)"

definition selectedCollectionData :: "vector_ops \<Rightarrow> vec_collection option" where
  "selectedCollectionData s = find (\<lambda>c. js_strict_eq (vc_name c) (selectedCollection s)) (vo_collections s)"

section \<open>Actions\<close>

text \<open>\<^verbatim>\<open>selectedCollectionData?.dimension || 0\<close>\<close>

definition expected_dimension :: "vector_ops \<Rightarrow> js_num" where
  "expected_dimension s =
     (case selectedCollectionData s of
        None \<Rightarrow> Fin 0
      | Some c \<Rightarrow> if truthy_num (vc_dimension c) then vc_dimension c else Fin 0)"

definition dimension_ok :: "vector_ops \<Rightarrow> js_num list \<Rightarrow> bool" where
  "dimension_ok s v =
     (\<not> (js_lt (Fin 0) (expected_dimension s) \<and> \<not> js_eq (num_of_nat (length v)) (expected_dimension s)))"

definition mismatch_text :: "text_conv \<Rightarrow> vector_ops \<Rightarrow> js_num list \<Rightarrow> string" where
  "mismatch_text K s v =
     ''Vector dimension mismatch: expected '' @ str_of_num K (expected_dimension s) @ '', got ''
       @ str_of_num K (num_of_nat (length v))"

definition start_action :: "vec_await \<Rightarrow> (vector_ops, vec_await) seg" where
  "start_action k = seg_then (set_state (\<lambda>s. s\<lparr>isActionLoading := True\<rparr>)) (await k)"

definition vec_fail :: "string \<Rightarrow> (vector_ops, vec_await) seg" where
  "vec_fail msg = set_state (vec_toast (JStr msg) ''danger'')"

definition handleUpsert :: "text_conv \<Rightarrow> (vector_ops, vec_await) seg" where
  "handleUpsert K s =
     (let v = parseVectorString (vectorValues s)
      in if \<not> js_Boolean (selectedCollection s) then vec_fail ''Please select a collection'' s
         else if js_trim (vectorId s) = [] then vec_fail ''Please enter a vector ID'' s
         else if v = [] then vec_fail ''Please enter valid vector values'' s
         else if \<not> dimension_ok s v then vec_fail (mismatch_text K s v) s
         else start_action (AwUpsert (selectedCollection s) (vectorId s) v) s)"

definition upsert_answer :: "answer \<Rightarrow> (vector_ops, vec_await) seg" where
  "upsert_answer ans =
     set_state (\<lambda>s.
       (case ans of
          Inr d \<Rightarrow> (vec_toast (JStr ''Vector upserted successfully'') ''success'' s)
                      \<lparr>vectorId := [], vectorValues := []\<rparr>
        | Inl err \<Rightarrow> vec_toast (server_message err ''Failed to upsert vector'') ''danger'' s)
       \<lparr>isActionLoading := False\<rparr>)"

definition handleSearch :: "text_conv \<Rightarrow> (vector_ops, vec_await) seg" where
  "handleSearch K s =
     (let v = parseVectorString (searchVector s)
      in if \<not> js_Boolean (selectedCollection s) then vec_fail ''Please select a collection'' s
         else if v = [] then vec_fail ''Please enter a valid query vector'' s
         else if \<not> dimension_ok s v then vec_fail (mismatch_text K s v) s
         else start_action (AwSearch (selectedCollection s) v (vo_topK s)) s)"

definition search_answer :: "answer \<Rightarrow> (vector_ops, vec_await) seg" where
  "search_answer ans =
     set_state (\<lambda>s.
       (case res_bind ans (\<lambda>d. res_bind (js_dot d ''results'') (\<lambda>v. Inr (js_or v (JArr [])))) of
          Inr results \<Rightarrow>
            (let s1 = s\<lparr>searchResults := results\<rparr>
             in if js_strict_eq (js_length results) (JNum (Fin 0))
                then vec_toast (JStr ''No results found'') ''info'' s1 else s1)
        | Inl err \<Rightarrow> vec_toast (server_message err ''Failed to search vectors'') ''danger'' s)
       \<lparr>isActionLoading := False\<rparr>)"

definition handleGetVector :: "(vector_ops, vec_await) seg" where
  "handleGetVector s =
     (if \<not> js_Boolean (selectedCollection s) then vec_fail ''Please select a collection'' s
      else if js_trim (manageVectorId s) = [] then vec_fail ''Please enter a vector ID'' s
      else start_action (AwGet (selectedCollection s) (manageVectorId s)) s)"

text \<open>\<^verbatim>\<open>response.data?.point ?? response.data\<close>\<close>

definition got_point :: "answer \<Rightarrow> js_error + js_val \<times> js_val" where
  "got_point ans =
     res_bind ans (\<lambda>d.
       let point = js_coalesce (js_get d ''point'') d
       in if js_Boolean point then Inr (js_get point ''id'', js_or (js_get point ''vector'') (JArr []))
          else Inl \<lparr>error_response = JUndefined, error_message = ''Vector not found''\<rparr>)"

definition get_answer :: "answer \<Rightarrow> (vector_ops, vec_await) seg" where
  "get_answer ans =
     set_state (\<lambda>s.
       (case got_point ans of
          Inr p \<Rightarrow> vec_toast (JStr ''Vector found'') ''success'' (s\<lparr>foundVector := Some p\<rparr>)
        | Inl err \<Rightarrow> (vec_toast (server_message err ''Vector not found'') ''danger'' s)\<lparr>foundVector := None\<rparr>)
       \<lparr>isActionLoading := False\<rparr>)"

definition handleDeleteVector :: "(vector_ops, vec_await) seg" where
  "handleDeleteVector s =
     (if \<not> js_Boolean (selectedCollection s) \<or> \<not> js_Boolean (deleteVectorId s) then seg_skip s
      else start_action (AwDeleteVector (selectedCollection s) (deleteVectorId s) (foundVector s)) s)"

definition delete_answer :: "js_val \<Rightarrow> (js_val \<times> js_val) option \<Rightarrow> answer \<Rightarrow> (vector_ops, vec_await) seg" where
  "delete_answer i fv ans =
     set_state (\<lambda>s.
       (case ans of
          Inr d \<Rightarrow>
            (let s1 = (vec_toast (JStr ''Vector deleted successfully'') ''success'' s)
                        \<lparr>deleteVectorId := JStr [], isDeleteDialogOpen := False\<rparr>
             in case fv of
                  Some p \<Rightarrow> if js_strict_eq (fst p) i then s1\<lparr>foundVector := None\<rparr> else s1
                | None \<Rightarrow> s1)
        | Inl err \<Rightarrow> vec_toast (server_message err ''Failed to delete vector'') ''danger'' s)
       \<lparr>isActionLoading := False\<rparr>)"

definition vec_openDeleteDialog :: "js_val \<Rightarrow> (vector_ops, vec_await) seg" where
  "vec_openDeleteDialog i = set_state (\<lambda>s. s\<lparr>deleteVectorId := i, isDeleteDialogOpen := True\<rparr>)"

section \<open>The page\<close>

datatype vec_event =
    RefreshClicked | DropdownClicked | DropdownLeft | CollectionChosen js_val | TabChosen TabType
  | IdTyped string | ValuesTyped string | QueryTyped string
  | TopKTyped js_num | ManageIdTyped string | UpsertClicked | SearchClicked | GetClicked
  | DeleteVectorAsked | DeleteVectorClicked | CloseDeleteVector | VecToastClosed

definition action_disabled :: "vector_ops \<Rightarrow> bool" where
  "action_disabled s = (isActionLoading s \<or> \<not> js_Boolean (selectedCollection s))"

text \<open>The fields and buttons of a tab are on the page only while the tab is active, the entries of the
  selector only while it is open, and a dialog is drawn only while it is open.\<close>

definition on_tab :: "TabType \<Rightarrow> (vector_ops, vec_await) seg \<Rightarrow> (vector_ops, vec_await) seg" where
  "on_tab t f s = (if activeTab s = t then f s else seg_skip s)"

fun vec_on_event :: "text_conv \<Rightarrow> vec_event \<Rightarrow> (vector_ops, vec_await) seg" where
  "vec_on_event K RefreshClicked s = vec_fetchCollections s"
| "vec_on_event K DropdownClicked s = set_state (\<lambda>s. s\<lparr>isDropdownOpen := \<not> isDropdownOpen s\<rparr>) s"
| "vec_on_event K DropdownLeft s = set_state (\<lambda>s. s\<lparr>isDropdownOpen := False\<rparr>) s"
| "vec_on_event K (CollectionChosen c) s =
     (if isDropdownOpen s \<and> c \<in> vc_name ` set (vo_collections s)
      then set_state (\<lambda>s. s\<lparr>selectedCollection := c, isDropdownOpen := False\<rparr>) s else seg_skip s)"
| "vec_on_event K (TabChosen t) s = set_state (\<lambda>s. s\<lparr>activeTab := t\<rparr>) s"
| "vec_on_event K (IdTyped t) s = on_tab TabUpsert (set_state (\<lambda>s. s\<lparr>vectorId := t\<rparr>)) s"
| "vec_on_event K (ValuesTyped t) s = on_tab TabUpsert (set_state (\<lambda>s. s\<lparr>vectorValues := t\<rparr>)) s"
| "vec_on_event K (QueryTyped t) s = on_tab TabSearch (set_state (\<lambda>s. s\<lparr>searchVector := t\<rparr>)) s"
| "vec_on_event K (TopKTyped n) s = on_tab TabSearch (set_state (\<lambda>s. s\<lparr>vo_topK := n\<rparr>)) s"
| "vec_on_event K (ManageIdTyped t) s = on_tab TabManage (set_state (\<lambda>s. s\<lparr>manageVectorId := t\<rparr>)) s"
| "vec_on_event K UpsertClicked s =
     on_tab TabUpsert (\<lambda>s. if action_disabled s then seg_skip s else handleUpsert K s) s"
| "vec_on_event K SearchClicked s =
     on_tab TabSearch (\<lambda>s. if action_disabled s then seg_skip s else handleSearch K s) s"
| "vec_on_event K GetClicked s =
     on_tab TabManage (\<lambda>s. if action_disabled s then seg_skip s else handleGetVector s) s"
| "vec_on_event K DeleteVectorAsked s =
     on_tab TabManage (\<lambda>s. case foundVector s of
         Some (i, v) \<Rightarrow> vec_openDeleteDialog i s | None \<Rightarrow> seg_skip s) s"
| "vec_on_event K DeleteVectorClicked s =
     (if isActionLoading s \<or> \<not> isDeleteDialogOpen s then seg_skip s else handleDeleteVector s)"
| "vec_on_event K CloseDeleteVector s = set_state (\<lambda>s. s\<lparr>isDeleteDialogOpen := False\<rparr>) s"
| "vec_on_event K VecToastClosed s = set_state (\<lambda>s. s\<lparr>vo_toast := None\<rparr>) s"

fun vec_on_answer :: "vec_await \<Rightarrow> answer \<Rightarrow> (vector_ops, vec_await) seg" where
  "vec_on_answer (AwCollections c) ans = vec_collections_answer c ans"
| "vec_on_answer (AwStatus c) ans = status_answer c ans"
| "vec_on_answer (AwUpsert c i v) ans = upsert_answer ans"
| "vec_on_answer (AwSearch c v k) ans = search_answer ans"
| "vec_on_answer (AwGet c i) ans = get_answer ans"
| "vec_on_answer (AwDeleteVector c i fv) ans = delete_answer i fv ans"

text \<open>\<^verbatim>\<open>fetchCollections\<close> is a new function whenever the selection changes, so a new selection runs both
  effects: the list is fetched again, and the status of the selected collection.\<close>

definition vec_on_commit :: "vector_ops \<Rightarrow> (vector_ops, vec_await) seg" where
  "vec_on_commit old s =
     (if js_strict_eq (selectedCollection s) (selectedCollection old) then seg_skip s
      else seg_then vec_fetchCollections (fetchCollectionStatus (selectedCollection s)) s)"

definition VectorOperationsPage :: "text_conv \<Rightarrow> (vector_ops, vec_event, vec_await) page" where
  "VectorOperationsPage K =
     \<lparr>on_mount = (\<lambda>tok. vec_fetchCollections), on_event = (\<lambda>e tok. vec_on_event K e),
      on_answer = (\<lambda>k tok ans. vec_on_answer k ans), on_commit = (\<lambda>old tok. vec_on_commit old)\<rparr>"

lemmas vec_defs =
  vec_fetchCollections_def vec_collections_answer_def fetchCollectionStatus_def status_answer_def
  start_action_def vec_fail_def handleUpsert_def upsert_answer_def handleSearch_def search_answer_def
  handleGetVector_def get_answer_def handleDeleteVector_def delete_answer_def vec_openDeleteDialog_def
  vec_toast_def vec_on_commit_def on_tab_def Let_def seg_defs

section \<open>The spinners\<close>

lemma vec_event_lock:
  assumes "vec_on_event K e s = (s', a)"
  shows "length (filter is_vec_action a) + of_bool (isActionLoading s) = of_bool (isActionLoading s')"
  using assms by (cases e) (auto simp: vec_defs action_disabled_def split: if_splits option.splits)

lemma vec_answer_lock:
  assumes "vec_on_answer k ans s = (s', a)"
  shows "if is_vec_action k then of_bool (isActionLoading s') = length (filter is_vec_action a)
     else length (filter is_vec_action a) + of_bool (isActionLoading s) = of_bool (isActionLoading s')"
  using assms
  by (cases k; cases ans) (auto simp: vec_defs split: sum.splits if_splits option.splits)

lemma vec_commit_lock:
  assumes "vec_on_commit old s = (s', a)"
  shows "length (filter is_vec_action a) + of_bool (isActionLoading s) = of_bool (isActionLoading s')"
  using assms by (auto simp: vec_defs split: if_splits)

interpretation vec_lock: page_lock "VectorOperationsPage K" new_vector_ops isActionLoading is_vec_action
  for K
proof unfold_locales
  fix k tok ans s s' a
  assume "on_answer (VectorOperationsPage K) k tok ans s = (s', a)"
  then show "if is_vec_action k then of_bool (isActionLoading s') = length (filter is_vec_action a)
     else length (filter is_vec_action a) + of_bool (isActionLoading s) = of_bool (isActionLoading s')"
    by (intro vec_answer_lock) (simp add: VectorOperationsPage_def)
next
  fix e tok s s' a
  assume "on_event (VectorOperationsPage K) e tok s = (s', a)"
  then show "length (filter is_vec_action a) + of_bool (isActionLoading s) = of_bool (isActionLoading s')"
    by (intro vec_event_lock) (simp add: VectorOperationsPage_def)
next
  fix old tok s s' a
  assume "on_commit (VectorOperationsPage K) old tok s = (s', a)"
  then show "length (filter is_vec_action a) + of_bool (isActionLoading s) = of_bool (isActionLoading s')"
    by (intro vec_commit_lock) (simp add: VectorOperationsPage_def)
qed (auto simp: VectorOperationsPage_def new_vector_ops_def vec_defs)

fun is_vec_list :: "vec_await \<Rightarrow> bool" where
  "is_vec_list (AwCollections c) = True"
| "is_vec_list _ = False"

lemma vec_event_loading:
  "vec_on_event K e s = (s', a) \<Longrightarrow> vo_isLoading s' \<Longrightarrow> vo_isLoading s \<or> (\<exists>k \<in> set a. is_vec_list k)"
  by (cases e) (auto simp: vec_defs split: if_splits option.splits)

lemma vec_answer_loading:
  assumes "vec_on_answer k ans s = (s', a)" "vo_isLoading s'"
  shows "(vo_isLoading s \<and> \<not> is_vec_list k) \<or> (\<exists>k \<in> set a. is_vec_list k)"
  using assms
  by (cases k; cases ans) (auto simp: vec_defs split: sum.splits if_splits option.splits)

interpretation vec_list: page_busy "VectorOperationsPage K" new_vector_ops vo_isLoading is_vec_list
  for K
proof unfold_locales
  fix k tok ans s s' a
  assume "on_answer (VectorOperationsPage K) k tok ans s = (s', a)" "vo_isLoading s'"
  then show "(vo_isLoading s \<and> \<not> is_vec_list k) \<or> (\<exists>k \<in> set a. is_vec_list k)"
    by (intro vec_answer_loading) (simp_all add: VectorOperationsPage_def)
next
  fix e tok s s' a
  assume "on_event (VectorOperationsPage K) e tok s = (s', a)" "vo_isLoading s'"
  then show "vo_isLoading s \<or> (\<exists>k \<in> set a. is_vec_list k)"
    by (intro vec_event_loading) (simp_all add: VectorOperationsPage_def)
qed (auto simp: VectorOperationsPage_def vec_defs split: if_splits)

section \<open>The parser\<close>

lemma parse_unsigned_show_nat: "parse_unsigned (show_nat n) = num_of_nat n"
proof -
  have digits: "\<forall>c \<in> set (show_nat n). is_digit c" by (rule show_nat_digits)
  then have all: "takeWhile is_digit (show_nat n) = show_nat n" "dropWhile is_digit (show_nat n) = []"
    by simp_all
  have ne: "show_nat n \<noteq> []" by (simp add: show_nat.simps)
  have "take 8 (show_nat n) \<noteq> ''Infinity''"
  proof
    assume "take 8 (show_nat n) = ''Infinity''"
    then have "CHR ''I'' \<in> set (show_nat n)" by (metis in_set_takeD list.set_intros(1))
    with digits show False by (auto simp: is_digit_def)
  qed
  then show ?thesis
    unfolding parse_unsigned_def Let_def all using ne by (simp add: scale10_def parse_exponent_def)
qed

lemma show_int_start: "show_int i \<noteq> [] \<and> (hd (show_int i) = CHR ''-'' \<or> is_digit (hd (show_int i)))"
proof -
  have "show_nat n \<noteq> []" for n by (simp add: show_nat.simps)
  moreover have "is_digit (hd (show_nat n))" for n
    using show_nat_digits [of n] calculation [of n] by (simp add: hd_in_set)
  ultimately show ?thesis by (simp add: show_int_def)
qed

lemma digit_not_space: "is_digit c \<or> c = CHR ''-'' \<Longrightarrow> \<not> js_space c"
  by (auto simp: is_digit_def js_space_def)

lemma show_int_chars: "\<forall>c \<in> set (show_int i). is_digit c \<or> c = CHR ''-''"
  using show_nat_digits by (auto simp: show_int_def)

lemma parseFloat_show_int: "parseFloat (show_int i) = num_of_int i"
proof -
  obtain c r where s: "show_int i = c # r" using show_int_start [of i] by (cases "show_int i") auto
  have "\<not> js_space c" using show_int_start [of i] s by (intro digit_not_space) auto
  then have drop: "dropWhile js_space (show_int i) = show_int i" by (simp add: s)
  show ?thesis
  proof (cases "i < 0")
    case True
    then show ?thesis unfolding parseFloat_def drop
      by (simp add: show_int_def parse_unsigned_show_nat)
  next
    case False
    then have n: "show_int i = show_nat (nat i)" by (simp add: show_int_def)
    have "is_digit c" using show_nat_digits [of "nat i"] s n by auto
    then have "c \<noteq> CHR ''-''" "c \<noteq> CHR ''+''" by (auto simp: is_digit_def)
    then have "parseFloat (show_int i) = parse_unsigned (show_nat (nat i))"
      unfolding parseFloat_def drop by (simp add: s flip: n)
    with False show ?thesis by (simp add: parse_unsigned_show_nat)
  qed
qed

lemma js_trim_plain: "\<forall>c \<in> set s. \<not> js_space c \<Longrightarrow> js_trim s = s"
proof -
  assume s: "\<forall>c \<in> set s. \<not> js_space c"
  then have "dropWhile js_space s = s" by (cases s) simp_all
  moreover have "dropWhile js_space (rev s) = rev s" using s by (cases "rev s") (auto simp: rev_eq_Cons_iff)
  ultimately show ?thesis by (simp add: js_trim_def)
qed

lemma js_trim_space: "js_trim (CHR '' '' # s) = js_trim s"
  by (simp add: js_trim_def js_space_def)

lemma split_comma_plain: "CHR '','' \<notin> set s \<Longrightarrow> split_comma s = [s]"
  by (induction s) auto

lemma split_comma_not_Nil: "split_comma s \<noteq> []"
  by (cases s) (auto split: list.split)

lemma split_comma_last:
  assumes "CHR '','' \<notin> set t"
  shows "split_comma (u @ CHR '','' # t) = split_comma u @ [t]"
  using split_comma_plain [OF assms] split_comma_not_Nil by (induction u) (auto split: list.split)

lemma split_comma_append:
  "CHR '','' \<notin> set s \<Longrightarrow> split_comma (s @ CHR '','' # t) = s # split_comma t"
  by (induction s) auto

text \<open>How a user writes a list of integers.\<close>

fun write_ints :: "int list \<Rightarrow> string" where
  "write_ints [] = []"
| "write_ints [i] = show_int i"
| "write_ints (i # j # is) = show_int i @ '', '' @ write_ints (j # is)"

lemma show_int_no_comma: "CHR '','' \<notin> set (show_int i)"
  using show_int_chars [of i] by (auto simp: is_digit_def)

lemma show_int_trim: "js_trim (show_int i) = show_int i"
  using show_int_chars digit_not_space by (intro js_trim_plain) blast

lemma split_write_ints:
  "map js_trim (split_comma (write_ints (i # is))) = map show_int (i # is)
   \<and> map js_trim (split_comma (CHR '' '' # write_ints (i # is))) = map show_int (i # is)"
proof (induction "is" arbitrary: i)
  case Nil
  have "CHR '','' \<notin> set (CHR '' '' # show_int i)" using show_int_no_comma by simp
  from split_comma_plain [OF this] show ?case
    by (simp add: split_comma_plain show_int_no_comma show_int_trim js_trim_space)
next
  case (Cons j "is")
  have *: "CHR '','' \<notin> set (CHR '' '' # show_int i)" using show_int_no_comma by simp
  have "split_comma (write_ints (i # j # is)) = show_int i # split_comma (CHR '' '' # write_ints (j # is))"
    by (simp only: write_ints.simps append_Cons append_Nil split_comma_append [OF show_int_no_comma])
  moreover have "split_comma (CHR '' '' # write_ints (i # j # is))
      = (CHR '' '' # show_int i) # split_comma (CHR '' '' # write_ints (j # is))"
    using split_comma_append [OF *] by (simp only: write_ints.simps append_Cons append_Nil)
  ultimately show ?case using Cons.IH [of j] by (simp add: show_int_trim js_trim_space)
qed

section \<open>Properties\<close>

text \<open>C20: On the vector page at most one action (upsert, search, get or delete) is in flight at any
  time, and the flag \<^verbatim>\<open>isActionLoading\<close> is set exactly then. The buttons of upsert, search and get
  are disabled by this flag and also while no collection is selected; so they are disabled while
  an action is in flight and, once a collection is selected, only then. The spinner of the list
  is set only while a list request is open. This holds in every reachable state, in whatever
  order the answers come.\<close>

theorem one_vector_action:
  assumes "page_reach (VectorOperationsPage K) new_vector_ops (s, p)"
  shows "length (filter is_vec_action p) = of_bool (isActionLoading s)
     \<and> (action_disabled s \<longleftrightarrow> (\<exists>k \<in> set p. is_vec_action k) \<or> \<not> js_Boolean (selectedCollection s))
     \<and> (vo_isLoading s \<longrightarrow> (\<exists>k \<in> set p. is_vec_list k))"
proof -
  note lock = vec_lock.lock_counts_requests [OF assms]
  then have "isActionLoading s \<longleftrightarrow> filter is_vec_action p \<noteq> []" by (cases "isActionLoading s") auto
  then have "action_disabled s \<longleftrightarrow> (\<exists>k \<in> set p. is_vec_action k) \<or> \<not> js_Boolean (selectedCollection s)"
    by (auto simp: action_disabled_def filter_empty_conv)
  with lock vec_list.busy_has_request [OF assms] show ?thesis by blast
qed

text \<open>Two clicks on the upsert button, with one collection loaded.\<close>

definition sample_vec_run :: "vec_event input list" where
  "sample_vec_run =
     [Answer None 0 (Inr (JObj [(''collections'', JArr [JStr ''docs''])])),
      Event None (IdTyped ''a''), Event None (ValuesTyped ''1, 2''),
      Event None UpsertClicked, Event None UpsertClicked]"

lemma sample_vec_state:
  "snd (page_run (VectorOperationsPage plain_conv) sample_vec_run
      (page_start (VectorOperationsPage plain_conv) None new_vector_ops))
     = [AwCollections (JStr ''docs''), AwStatus (JStr ''docs''),
        AwUpsert (JStr ''docs'') ''a'' [Fin 1, Fin 2]]"
  by code_simp

theorem one_vector_action_witness:
  "\<exists>s. page_reach (VectorOperationsPage plain_conv) new_vector_ops
        (s, [AwCollections (JStr ''docs''), AwStatus (JStr ''docs''),
             AwUpsert (JStr ''docs'') ''a'' [Fin 1, Fin 2]])
     \<and> isActionLoading s \<and> action_disabled s"
proof -
  let ?P = "VectorOperationsPage plain_conv"
  let ?st = "page_run ?P sample_vec_run (page_start ?P None new_vector_ops)"
  have r: "page_reach ?P new_vector_ops (fst ?st, snd ?st)"
    using page_reach_run [OF page_reach.mounted] by simp
  from one_vector_action [OF r] have "isActionLoading (fst ?st) \<and> action_disabled (fst ?st)"
    by (cases "isActionLoading (fst ?st)") (simp_all add: sample_vec_state)
  with r show ?thesis unfolding sample_vec_state by blast
qed

lemma upsert_event:
  assumes "vec_on_event K e s = (s', a)" and "AwUpsert c i v \<in> set a"
  shows "e = UpsertClicked \<and> c = selectedCollection s \<and> js_Boolean c \<and> i = vectorId s \<and> js_trim i \<noteq> []
     \<and> v = parseVectorString (vectorValues s) \<and> v \<noteq> [] \<and> dimension_ok s v"
  using assms by (cases e) (auto simp: vec_defs action_disabled_def split: if_splits option.splits)

lemma dimension_ok_known:
  assumes "dimension_ok s v" and "selectedCollectionData s = Some x" and "js_lt (Fin 0) (vc_dimension x)"
  shows "vc_dimension x = num_of_nat (length v)"
  using assms by (cases "vc_dimension x") (simp_all add: dimension_ok_def expected_dimension_def js_eq_def truthy_num_def)

text \<open>C21: An upsert is requested only for a selected collection, with an id that is not blank and a
  vector that is not empty, has no NaN component and, when the dimension of the collection is
  known, has that dimension. Everything sent comes from the fields of the page.\<close>

theorem upsert_request_checked:
  assumes "page_next (VectorOperationsPage K) (Event tok e) (s, p) = (s', p @ a)"
    and "AwUpsert c i v \<in> set a"
  shows "e = UpsertClicked \<and> c = selectedCollection s \<and> js_Boolean c \<and> i = vectorId s \<and> js_trim i \<noteq> []
     \<and> v = parseVectorString (vectorValues s) \<and> v \<noteq> [] \<and> NaN \<notin> set v
     \<and> (\<forall>x. selectedCollectionData s = Some x \<and> js_lt (Fin 0) (vc_dimension x)
            \<longrightarrow> vc_dimension x = num_of_nat (length v))"
proof -
  obtain s1 b where run: "vec_on_event K e s = (s1, b)" by (cases "vec_on_event K e s")
  obtain s2 d where com: "vec_on_commit s s1 = (s2, d)" by (cases "vec_on_commit s s1")
  from run com assms(1) have a: "a = b @ d"
    by (auto simp: VectorOperationsPage_def commit_seg_def seg_then_def)
  have "AwUpsert c i v \<notin> set d" using com by (auto simp: vec_defs split: if_splits)
  with a assms(2) have "AwUpsert c i v \<in> set b" by simp
  from upsert_event [OF run this] show ?thesis
    using dimension_ok_known [of s v] by (auto simp: parseVectorString_def)
qed

lemma sample_upsert_step:
  "page_next (VectorOperationsPage plain_conv) (Event None UpsertClicked)
      (new_vector_ops\<lparr>selectedCollection := JStr ''docs'', vectorId := ''a'', vectorValues := ''1, 2''\<rparr>, [])
    = (new_vector_ops\<lparr>selectedCollection := JStr ''docs'', vectorId := ''a'', vectorValues := ''1, 2'',
         isActionLoading := True\<rparr>, [] @ [AwUpsert (JStr ''docs'') ''a'' [Fin 1, Fin 2]])"
  by code_simp

theorem upsert_request_checked_witness:
  "parseVectorString ''1, 2'' = [Fin 1, Fin 2] \<and> js_trim ''a'' \<noteq> []"
  using upsert_request_checked [OF sample_upsert_step, of "JStr ''docs''" "''a''" "[Fin 1, Fin 2]"] by simp

text \<open>A list of integers written with commas is read back: the parser of the vector field returns
  exactly these integers, in order.\<close>

theorem parseVectorString_ints: "parseVectorString (write_ints is) = map num_of_int is"
proof (cases "is")
  case Nil
  then show ?thesis by (simp add: parseVectorString_def js_trim_def)
next
  case (Cons i js)
  have "filter (\<lambda>v. v \<noteq> []) (map show_int is) = map show_int is"
    using show_int_start by (simp add: filter_id_conv)
  with split_write_ints [of i js] Cons show ?thesis
    by (simp add: parseVectorString_def parseFloat_show_int comp_def filter_id_conv)
qed

text \<open>Components that are not numbers are dropped without a message: if the dimension of the
  collection is not known, a vector with a misspelt component is stored with one component less.\<close>

theorem misspelt_component_dropped:
  assumes "parseFloat (js_trim t) = NaN" and "CHR '','' \<notin> set t" and "\<not> isActionLoading s" and "activeTab s = TabUpsert"
    and "js_Boolean (selectedCollection s)" and "js_trim (vectorId s) \<noteq> []"
    and "expected_dimension s = Fin 0" and "vectorValues s = write_ints (i # is) @ CHR '','' # t"
  shows "parseVectorString (vectorValues s) = map num_of_int (i # is)
     \<and> snd (vec_on_event K UpsertClicked s)
         = [AwUpsert (selectedCollection s) (vectorId s) (map num_of_int (i # is))]"
proof -
  have "parseVectorString (vectorValues s) = parseVectorString (write_ints (i # is))"
    using assms(1) by (simp add: assms(8) parseVectorString_def split_comma_last [OF assms(2)])
  also have "\<dots> = map num_of_int (i # is)"
  proof -
    have "filter (\<lambda>v. v \<noteq> []) (map show_int (i # is)) = map show_int (i # is)"
      using show_int_start by (simp add: filter_id_conv)
    with split_write_ints [of i "is"] show ?thesis
      by (simp add: parseVectorString_def parseFloat_show_int comp_def filter_id_conv)
  qed
  finally have v: "parseVectorString (vectorValues s) = map num_of_int (i # is)" .
  then show ?thesis
    using assms by (simp add: vec_defs action_disabled_def dimension_ok_def)
qed

theorem misspelt_component_dropped_witness:
  "parseVectorString ''1, 2,x'' = [Fin 1, Fin 2]"
proof -
  let ?s = "new_vector_ops\<lparr>selectedCollection := JStr ''docs'', vectorId := ''a'', vectorValues := ''1, 2,x''\<rparr>"
  have "parseFloat (js_trim ''x'') = NaN" "CHR '','' \<notin> set ''x''" "\<not> isActionLoading ?s" "activeTab ?s = TabUpsert"
    "js_Boolean (selectedCollection ?s)" "js_trim (vectorId ?s) \<noteq> []" "expected_dimension ?s = Fin 0"
    "vectorValues ?s = write_ints (1 # [2]) @ CHR '','' # ''x''"
    by code_simp+
  from misspelt_component_dropped [OF this, of plain_conv] show ?thesis by simp
qed

text \<open>The dimension of a collection can be forgotten. Choosing a collection fetches the list again
  together with its status; when the server lists names only and the list arrives after the
  status, the dimension that the status gave is overwritten by 0, and from then on vectors of any
  length pass the check.\<close>

theorem dimension_forgotten:
  assumes "nm \<noteq> []" and "0 < d"
  defines "names \<equiv> Inr (JObj [(''collections'', JArr [JStr nm])]) :: answer"
    and "status \<equiv> Inr (JObj [(''dimension'', JNum (Fin d))]) :: answer"
  shows "\<exists>s1 s2.
      page_run (VectorOperationsPage K) [Answer tok 0 names, Answer tok 1 status]
        (page_start (VectorOperationsPage K) tok new_vector_ops) = (s1, [AwCollections (JStr nm)])
    \<and> expected_dimension s1 = Fin d
    \<and> page_next (VectorOperationsPage K) (Answer tok 0 names) (s1, [AwCollections (JStr nm)]) = (s2, [])
    \<and> selectedCollection s2 = JStr nm \<and> expected_dimension s2 = Fin 0 \<and> (\<forall>v. dimension_ok s2 v)"
  using assms(1,2)
  by (simp add: names_def status_def page_run_def page_start_def VectorOperationsPage_def vec_defs
      new_vector_ops_def mapped_collections_def map_collection_def js_dot_def js_or_def isSet_def
      js_array_def js_is_string_def number_or_zero_def expected_dimension_def selectedCollectionData_def
      dimension_ok_def)

theorem dimension_forgotten_witness:
  "\<exists>s1 s2.
      page_run (VectorOperationsPage plain_conv)
        [Answer None 0 (Inr (JObj [(''collections'', JArr [JStr ''docs''])])),
         Answer None 1 (Inr (JObj [(''dimension'', JNum (Fin 3))]))]
        (page_start (VectorOperationsPage plain_conv) None new_vector_ops) = (s1, [AwCollections (JStr ''docs'')])
    \<and> expected_dimension s1 = Fin 3
    \<and> page_next (VectorOperationsPage plain_conv)
        (Answer None 0 (Inr (JObj [(''collections'', JArr [JStr ''docs''])]))) (s1, [AwCollections (JStr ''docs'')])
        = (s2, [])
    \<and> expected_dimension s2 = Fin 0"
  using dimension_forgotten [of "''docs''" 3 plain_conv None] by auto

lemma js_strict_eq_refl: "js_Boolean c \<Longrightarrow> js_strict_eq c c"
  by (cases c) (auto simp: js_eq_def truthy_num_def split: js_num.splits)

text \<open>C38: A found vector outlives the selection it was found in. When another collection is chosen while a
  vector is shown, the vector stays on the page, and its delete button asks for nothing but a
  confirmation: the vector with this id is deleted from the other collection.\<close>

theorem deletes_from_other_collection:
  assumes "foundVector s = Some (i, v)" "js_Boolean i" "activeTab s = TabManage"
    and "\<not> isActionLoading s" "\<not> isDropdownOpen s"
    and "c \<in> vc_name ` set (vo_collections s)" "js_Boolean c"
  shows "\<exists>s' p'. page_run (VectorOperationsPage K)
      [Event tok DropdownClicked, Event tok (CollectionChosen c), Event tok DeleteVectorAsked, Event tok DeleteVectorClicked]
      (s, p) = (s', p @ p') \<and> last p' = AwDeleteVector c i (Some (i, v)) \<and> p' \<noteq> []"
  using assms
  by (simp add: page_run_def VectorOperationsPage_def commit_seg_def vec_defs js_strict_eq_refl)

text \<open>The vector \<^verbatim>\<open>a\<close> is found in \<^verbatim>\<open>docs\<close>, then \<^verbatim>\<open>imgs\<close> is chosen.\<close>

definition found_vec_run :: "vec_event input list" where
  "found_vec_run =
     [Answer None 0 (Inr (JObj [(''collections'', JArr [JStr ''docs'', JStr ''imgs''])])),
      Event None (TabChosen TabManage), Event None (ManageIdTyped ''a''), Event None GetClicked,
      Answer None 2 (Inr (JObj [(''id'', JStr ''a''), (''vector'', JArr [])]))]"

definition found_vec_state :: "vector_ops \<times> vec_await list" where
  "found_vec_state = page_run (VectorOperationsPage plain_conv) found_vec_run
     (page_start (VectorOperationsPage plain_conv) None new_vector_ops)"

lemma found_vec_facts:
  "selectedCollection (fst found_vec_state) = JStr ''docs''"
  "foundVector (fst found_vec_state) = Some (JStr ''a'', JArr [])"
  "activeTab (fst found_vec_state) = TabManage" "\<not> isActionLoading (fst found_vec_state)"
  "\<not> isDropdownOpen (fst found_vec_state)"
  "JStr ''imgs'' \<in> vc_name ` set (vo_collections (fst found_vec_state))"
  by code_simp+

theorem deletes_from_other_collection_witness:
  "page_reach (VectorOperationsPage plain_conv) new_vector_ops found_vec_state
   \<and> selectedCollection (fst found_vec_state) = JStr ''docs''
   \<and> (\<exists>s' p'. page_run (VectorOperationsPage plain_conv)
      [Event None DropdownClicked, Event None (CollectionChosen (JStr ''imgs'')), Event None DeleteVectorAsked,
       Event None DeleteVectorClicked] found_vec_state = (s', snd found_vec_state @ p')
      \<and> last p' = AwDeleteVector (JStr ''imgs'') (JStr ''a'') (Some (JStr ''a'', JArr [])))"
proof -
  have "page_reach (VectorOperationsPage plain_conv) new_vector_ops found_vec_state"
    unfolding found_vec_state_def using page_reach_run [OF page_reach.mounted] .
  moreover have "\<exists>s' p'. page_run (VectorOperationsPage plain_conv)
      [Event None DropdownClicked, Event None (CollectionChosen (JStr ''imgs'')), Event None DeleteVectorAsked,
       Event None DeleteVectorClicked] (fst found_vec_state, snd found_vec_state) = (s', snd found_vec_state @ p')
      \<and> last p' = AwDeleteVector (JStr ''imgs'') (JStr ''a'') (Some (JStr ''a'', JArr [])) \<and> p' \<noteq> []"
    by (rule deletes_from_other_collection) (simp_all add: found_vec_facts del: image_iff)
  ultimately show ?thesis using found_vec_facts(1) by auto
qed

end
