(* ===== verification/Collection_Pages.thy ===== *)
theory Collection_Pages
  imports Monitor_Pages Vector_Ops
begin

text \<open>
  The two pages of the console that manage collections: \<^verbatim>\<open>CollectionsManagement.tsx\<close> with its dialogs,
  which uses the management service, and \<^verbatim>\<open>CollectionsPage.tsx\<close>, which talks to the gateway itself.

  A dialog is a component with a state of its own, which is created when the dialog opens and thrown
  away when it closes. Its handlers may outlive it; a handler that finds its dialog gone changes
  nothing there. To tell a dialog from a later one, each gets a number when it opens.
\<close>

section \<open>Searching\<close>

fun js_includes :: "string \<Rightarrow> string \<Rightarrow> bool" where
  "js_includes [] t = (t = [])"
| "js_includes (c # s) t = (take (length t) (c # s) = t \<or> js_includes s t)"

lemma js_includes_iff: "js_includes s t \<longleftrightarrow> (\<exists>p q. s = p @ t @ q)"
proof (induction s)
  case (Cons c s)
  have "take (length t) (c # s) = t \<longleftrightarrow> (\<exists>q. c # s = t @ q)"
    by (metis append_eq_conv_conj append_take_drop_id)
  with Cons show ?case by (auto simp: Cons_eq_append_conv)
qed simp

text \<open>\<^verbatim>\<open>collections.filter(c => toLowerSafe(c.name).includes(searchQuery.toLowerCase()))\<close>\<close>

fun search_collections :: "text_conv \<Rightarrow> string \<Rightarrow> js_val list \<Rightarrow> js_error + js_val list" where
  "search_collections K query [] = Inr []"
| "search_collections K query (c # cs) =
     res_bind (js_dot c ''name'') (\<lambda>n. res_bind (search_collections K query cs) (\<lambda>found.
       Inr (if js_includes (toLowerSafe K n) (js_lower query) then c # found else found)))"

section \<open>Management of collections\<close>

record create_modal =
  cr_number :: nat
  cr_name :: string
  cr_dimension :: js_num
  cr_distance :: string
  cr_loading :: bool
  cr_error :: "string option"

definition new_create_modal :: "nat \<Rightarrow> create_modal" where
  "new_create_modal n =
     \<lparr>cr_number = n, cr_name = [], cr_dimension = Fin 1536, cr_distance = ''cosine'', cr_loading = False,
      cr_error = None\<rparr>"

record delete_modal =
  dm_number :: nat
  dm_confirmText :: string
  dm_loading :: bool

definition new_delete_modal :: "nat \<Rightarrow> delete_modal" where
  "new_delete_modal n = \<lparr>dm_number = n, dm_confirmText = [], dm_loading = False\<rparr>"

record manage_page = monitor +
  cm_collections :: js_val
  cm_searchQuery :: string
  cm_showCreateModal :: bool
  cm_selectedCollection :: js_val
  cm_collectionToDelete :: js_val
  cm_deleteError :: "string option"
  cm_create :: "create_modal option"
  cm_delete :: "delete_modal option"
  cm_opened :: nat

definition new_manage_page :: manage_page where
  "new_manage_page = monitor.extend new_monitor
     \<lparr>cm_collections = JArr [], cm_searchQuery = [], cm_showCreateModal = False, cm_selectedCollection = JNull,
      cm_collectionToDelete = JNull, cm_deleteError = None, cm_create = None, cm_delete = None, cm_opened = 0\<rparr>"

datatype manage_rest = ListFetched | CollectionCreated nat | CollectionDeleted nat | ListAfterDelete nat

text \<open>Setters of a dialog, called by a handler of the dialog with number \<open>n\<close>.\<close>

definition in_create :: "nat \<Rightarrow> (create_modal \<Rightarrow> create_modal) \<Rightarrow> manage_page \<Rightarrow> manage_page" where
  "in_create n f s = s\<lparr>cm_create := map_option (\<lambda>m. if cr_number m = n then f m else m) (cm_create s)\<rparr>"

definition in_delete :: "nat \<Rightarrow> (delete_modal \<Rightarrow> delete_modal) \<Rightarrow> manage_page \<Rightarrow> manage_page" where
  "in_delete n f s = s\<lparr>cm_delete := map_option (\<lambda>m. if dm_number m = n then f m else m) (cm_delete s)\<rparr>"

definition cm_fetchCollections ::
  "string \<Rightarrow> manage_rest \<Rightarrow> string option \<Rightarrow> (manage_page, manage_rest waiting) seg" where
  "cm_fetchCollections url k tok = seg_then clear_error (call (getCollections url tok) k)"

definition cm_fetchCollections_rest :: "js_error + js_val \<Rightarrow> (manage_page, manage_rest waiting) seg" where
  "cm_fetchCollections_rest = fetched (\<lambda>v s. s\<lparr>cm_collections := v\<rparr>) ''Failed to fetch collections''"

definition cm_filteredCollections :: "text_conv \<Rightarrow> manage_page \<Rightarrow> js_error + js_val list" where
  "cm_filteredCollections K s =
     res_bind (js_array (cm_collections s)) (search_collections K (cm_searchQuery s))"

text \<open>\<^verbatim>\<open>totalVectors\<close> and \<^verbatim>\<open>totalSize\<close> sum \<^verbatim>\<open>vector_count\<close> and \<^verbatim>\<open>size_bytes\<close>.\<close>

definition cm_total :: "text_conv \<Rightarrow> string \<Rightarrow> manage_page \<Rightarrow> js_error + js_num" where
  "cm_total K f s =
     res_bind (js_array (cm_collections s)) (\<lambda>cs.
       res_bind (res_map (\<lambda>c. js_dot c f) cs) (\<lambda>vs.
         Inr (foldl (\<lambda>sum v. js_add sum (toNumber K v (Fin 0))) (Fin 0) vs)))"

definition activeCollections :: "manage_page \<Rightarrow> js_error + nat" where
  "activeCollections s =
     res_bind (js_array (cm_collections s)) (\<lambda>cs.
       res_bind (res_map (\<lambda>c. js_dot c ''status'') cs) (\<lambda>sts.
         Inr (length (filter (\<lambda>v. js_strict_eq v (JStr ''active'')) sts))))"

subsection \<open>The dialog that creates a collection\<close>

text \<open>The button is disabled while the request runs and for a blank name; the browser does not submit the
  form while the dimension is below its minimum, 1.\<close>

definition create_handleSubmit ::
  "string \<Rightarrow> string option \<Rightarrow> (manage_page, manage_rest waiting) seg" where
  "create_handleSubmit url tok s =
     (case cm_create s of
        None \<Rightarrow> seg_skip s
      | Some m \<Rightarrow>
          if cr_loading m \<or> js_trim (cr_name m) = [] \<or> \<not> js_le (Fin 1) (cr_dimension m) then seg_skip s
          else seg_then
                 (set_state (in_create (cr_number m) (\<lambda>m. m\<lparr>cr_loading := True, cr_error := None\<rparr>)))
                 (call (mgmt_createCollection url (js_trim (cr_name m)) (cr_dimension m) (cr_distance m) tok)
                    (CollectionCreated (cr_number m))) s)"

text \<open>\<^verbatim>\<open>onCreated\<close> fetches the list and closes the dialog, \<^verbatim>\<open>onClose\<close> closes it.\<close>

definition create_handleSubmit_rest ::
  "string \<Rightarrow> nat \<Rightarrow> string option \<Rightarrow> js_error + js_val \<Rightarrow> (manage_page, manage_rest waiting) seg" where
  "create_handleSubmit_rest url n tok r =
     seg_then
       (case r of
          Inr v \<Rightarrow> seg_then (cm_fetchCollections url ListFetched tok)
                     (set_state (\<lambda>s. s\<lparr>cm_showCreateModal := False\<rparr>))
        | Inl err \<Rightarrow> set_state (in_create n (\<lambda>m. m\<lparr>cr_error := Some ''Failed to create collection''\<rparr>)))
       (set_state (in_create n (\<lambda>m. m\<lparr>cr_loading := False\<rparr>)))"

subsection \<open>The dialog that deletes a collection\<close>

definition handleDeleteCollection ::
  "text_conv \<Rightarrow> string \<Rightarrow> nat \<Rightarrow> string option \<Rightarrow> (manage_page, manage_rest waiting) seg" where
  "handleDeleteCollection K url n tok s =
     (if js_Boolean (cm_collectionToDelete s)
      then seg_then (set_state (\<lambda>s. s\<lparr>cm_deleteError := None\<rparr>))
             (call (mgmt_deleteCollection url (js_String K (js_get (cm_collectionToDelete s) ''name'')) tok)
                (CollectionDeleted n)) s
      else set_state (in_delete n (\<lambda>m. m\<lparr>dm_loading := False\<rparr>)) s)"

definition delete_handleConfirm ::
  "text_conv \<Rightarrow> string \<Rightarrow> string option \<Rightarrow> (manage_page, manage_rest waiting) seg" where
  "delete_handleConfirm K url tok s =
     (case cm_delete s of
        None \<Rightarrow> seg_skip s
      | Some m \<Rightarrow>
          if dm_loading m
             \<or> \<not> js_strict_eq (JStr (dm_confirmText m)) (js_get (cm_collectionToDelete s) ''name'')
          then seg_skip s
          else seg_then (set_state (in_delete (dm_number m) (\<lambda>m. m\<lparr>dm_loading := True\<rparr>)))
                 (handleDeleteCollection K url (dm_number m) tok) s)"

definition handleDeleteCollection_rest ::
  "string \<Rightarrow> nat \<Rightarrow> string option \<Rightarrow> js_error + js_val \<Rightarrow> (manage_page, manage_rest waiting) seg" where
  "handleDeleteCollection_rest url n tok r =
     (case r of
        Inr v \<Rightarrow> cm_fetchCollections url (ListAfterDelete n) tok
      | Inl err \<Rightarrow> set_state (\<lambda>s. in_delete n (\<lambda>m. m\<lparr>dm_loading := False\<rparr>)
                              (s\<lparr>cm_deleteError := Some (error_message err)\<rparr>)))"

definition listAfterDelete_rest :: "nat \<Rightarrow> js_error + js_val \<Rightarrow> (manage_page, manage_rest waiting) seg" where
  "listAfterDelete_rest n r =
     seg_then (cm_fetchCollections_rest r)
       (set_state (\<lambda>s. in_delete n (\<lambda>m. m\<lparr>dm_loading := False\<rparr>)
                         (s\<lparr>cm_collectionToDelete := JNull, cm_deleteError := None\<rparr>)))"

subsection \<open>The page\<close>

datatype manage_event =
    ListTick | ListRefresh | ListAuto | SearchTyped string
  | CreateOpened | CreateClosed | NameTyped string | DimensionTyped js_num | DistanceChosen string | CreateSubmitted
  | DetailsOpened js_val | DetailsClosed
  | DeleteOpened js_val | DeleteClosed | ConfirmTyped string | DeleteConfirmed

definition listed :: "text_conv \<Rightarrow> js_val \<Rightarrow> manage_page \<Rightarrow> bool" where
  "listed K c s =
     (mo_error s = None \<and> (case cm_filteredCollections K s of Inr cs \<Rightarrow> c \<in> set cs | Inl e \<Rightarrow> False))"

fun manage_click ::
  "text_conv \<Rightarrow> string \<Rightarrow> manage_event \<Rightarrow> string option \<Rightarrow> (manage_page, manage_rest waiting) seg" where
  "manage_click K url ListTick tok s = seg_skip s"
| "manage_click K url ListRefresh tok s = cm_fetchCollections url ListFetched tok s"
| "manage_click K url ListAuto tok s = toggle_refresh s"
| "manage_click K url (SearchTyped q) tok s = set_state (\<lambda>s. s\<lparr>cm_searchQuery := q\<rparr>) s"
| "manage_click K url CreateOpened tok s = set_state (\<lambda>s. s\<lparr>cm_showCreateModal := True\<rparr>) s"
| "manage_click K url CreateClosed tok s = set_state (\<lambda>s. s\<lparr>cm_showCreateModal := False\<rparr>) s"
| "manage_click K url (NameTyped t) tok s =
     set_state (\<lambda>s. s\<lparr>cm_create := map_option (\<lambda>m. m\<lparr>cr_name := t\<rparr>) (cm_create s)\<rparr>) s"
| "manage_click K url (DimensionTyped n) tok s =
     set_state (\<lambda>s. s\<lparr>cm_create := map_option (\<lambda>m. m\<lparr>cr_dimension := if truthy_num n then n else Fin 0\<rparr>)
                       (cm_create s)\<rparr>) s"
| "manage_click K url (DistanceChosen d) tok s =
     set_state (\<lambda>s. s\<lparr>cm_create := map_option (\<lambda>m. m\<lparr>cr_distance := d\<rparr>) (cm_create s)\<rparr>) s"
| "manage_click K url CreateSubmitted tok s = create_handleSubmit url tok s"
| "manage_click K url (DetailsOpened c) tok s =
     (if listed K c s then set_state (\<lambda>s. s\<lparr>cm_selectedCollection := c\<rparr>) s else seg_skip s)"
| "manage_click K url DetailsClosed tok s = set_state (\<lambda>s. s\<lparr>cm_selectedCollection := JNull\<rparr>) s"
| "manage_click K url (DeleteOpened c) tok s =
     (if listed K c s then set_state (\<lambda>s. s\<lparr>cm_collectionToDelete := c\<rparr>) s else seg_skip s)"
| "manage_click K url DeleteClosed tok s =
     set_state (\<lambda>s. s\<lparr>cm_collectionToDelete := JNull, cm_deleteError := None\<rparr>) s"
| "manage_click K url (ConfirmTyped t) tok s =
     set_state (\<lambda>s. s\<lparr>cm_delete := map_option (\<lambda>m. m\<lparr>dm_confirmText := t\<rparr>) (cm_delete s)\<rparr>) s"
| "manage_click K url DeleteConfirmed tok s = delete_handleConfirm K url tok s"

definition manage_on_event ::
  "text_conv \<Rightarrow> string \<Rightarrow> manage_event \<Rightarrow> string option \<Rightarrow> (manage_page, manage_rest waiting) seg" where
  "manage_on_event K url e tok s =
     (if e = ListTick
      then if mo_autoRefresh s then cm_fetchCollections url ListFetched tok s else seg_skip s
      else if mo_loading s then seg_skip s else manage_click K url e tok s)"

fun manage_rest_run ::
  "string \<Rightarrow> manage_rest \<Rightarrow> string option \<Rightarrow> js_error + js_val \<Rightarrow> (manage_page, manage_rest waiting) seg" where
  "manage_rest_run url ListFetched tok r = cm_fetchCollections_rest r"
| "manage_rest_run url (CollectionCreated n) tok r = create_handleSubmit_rest url n tok r"
| "manage_rest_run url (CollectionDeleted n) tok r = handleDeleteCollection_rest url n tok r"
| "manage_rest_run url (ListAfterDelete n) tok r = listAfterDelete_rest n r"

text \<open>Dialogs come and go with the state that shows them.\<close>

definition commit_create :: "manage_page \<Rightarrow> manage_page" where
  "commit_create s =
     (if cm_showCreateModal s
      then if cm_create s = None
           then s\<lparr>cm_create := Some (new_create_modal (cm_opened s)), cm_opened := Suc (cm_opened s)\<rparr> else s
      else s\<lparr>cm_create := None\<rparr>)"

definition commit_delete :: "manage_page \<Rightarrow> manage_page" where
  "commit_delete s =
     (if js_Boolean (cm_collectionToDelete s)
      then if cm_delete s = None
           then s\<lparr>cm_delete := Some (new_delete_modal (cm_opened s)), cm_opened := Suc (cm_opened s)\<rparr> else s
      else s\<lparr>cm_delete := None\<rparr>)"

definition CollectionsManagement ::
  "text_conv \<Rightarrow> string \<Rightarrow> (manage_page, manage_event, manage_rest waiting) page" where
  "CollectionsManagement K url =
     \<lparr>on_mount = cm_fetchCollections url ListFetched, on_event = manage_on_event K url,
      on_answer = resume (manage_rest_run url),
      on_commit = (\<lambda>old tok. set_state (\<lambda>s. commit_delete (commit_create s)))\<rparr>"

subsection \<open>Invariants of the management page\<close>

lemmas manage_defs =
  monitor_defs in_create_def in_delete_def cm_fetchCollections_def cm_fetchCollections_rest_def
  create_handleSubmit_def create_handleSubmit_rest_def handleDeleteCollection_def delete_handleConfirm_def
  handleDeleteCollection_rest_def listAfterDelete_rest_def

fun creating :: "nat \<Rightarrow> manage_rest \<Rightarrow> bool" where
  "creating n (CollectionCreated m) = (m = n)"
| "creating n _ = False"

fun deleting :: "nat \<Rightarrow> manage_rest \<Rightarrow> bool" where
  "deleting n (CollectionDeleted m) = (m = n)"
| "deleting n (ListAfterDelete m) = (m = n)"
| "deleting n _ = False"

definition create_view :: "manage_page \<Rightarrow> (nat \<times> bool) option" where
  "create_view s = map_option (\<lambda>m. (cr_number m, cr_loading m)) (cm_create s)"

definition delete_view :: "manage_page \<Rightarrow> (nat \<times> bool) option" where
  "delete_view s = map_option (\<lambda>m. (dm_number m, dm_loading m)) (cm_delete s)"

text \<open>What a segment does to a dialog: \<open>c\<close> says that it ends a request of that dialog.\<close>

definition keeps_dialog ::
  "(manage_page \<Rightarrow> (nat \<times> bool) option) \<Rightarrow> (nat \<Rightarrow> manage_rest \<Rightarrow> bool) \<Rightarrow> (nat \<Rightarrow> bool)
     \<Rightarrow> manage_page \<Rightarrow> manage_page \<Rightarrow> manage_rest waiting list \<Rightarrow> bool" where
  "keeps_dialog view mine ends s s' a \<longleftrightarrow>
     cm_opened s' = cm_opened s
     \<and> (\<forall>n b. view s' = Some (n, b) \<longrightarrow>
          (\<exists>c. view s = Some (n, c)
             \<and> length (filter (\<lambda>w. mine n (wait_rest w)) a) + of_bool (c \<and> \<not> ends n) = of_bool b))"

lemma keeps_ends:
  assumes "cm_opened s' = cm_opened s" and "view s' = map_option (\<lambda>(n, b). (n, b \<and> \<not> ends n)) (view s)"
    and "\<forall>w \<in> set a. \<forall>n. \<not> mine n (wait_rest w)"
  shows "keeps_dialog view mine ends s s' a"
  unfolding keeps_dialog_def
proof (intro conjI allI impI)
  fix n b assume "view s' = Some (n, b)"
  with assms(2) obtain c where "view s = Some (n, c)" "b = (c \<and> \<not> ends n)" by (cases "view s") auto
  moreover have "filter (\<lambda>w. mine n (wait_rest w)) a = []" using assms(3) by (simp add: filter_empty_conv)
  ultimately show "\<exists>c. view s = Some (n, c)
      \<and> length (filter (\<lambda>w. mine n (wait_rest w)) a) + of_bool (c \<and> \<not> ends n) = of_bool b"
    by (intro exI [of _ c]) simp
qed (rule assms(1))

lemma keeps_same:
  assumes "cm_opened s' = cm_opened s" and "view s' = view s" and "\<forall>w \<in> set a. \<forall>n. \<not> mine n (wait_rest w)"
  shows "keeps_dialog view mine (\<lambda>n. False) s s' a"
  by (rule keeps_ends [OF assms(1) _ assms(3)]) (cases "view s"; simp add: assms(2) case_prod_beta)

text \<open>A segment that leaves one request of the open dialog: it locks the dialog, or goes on with a lock
  that it has.\<close>

lemma keeps_request:
  assumes "cm_opened s' = cm_opened s" and "a = [Waiting fl k]"
    and "\<And>n b. view s' = Some (n, b) \<Longrightarrow>
        \<exists>c. view s = Some (n, c) \<and> of_bool (mine n k) + of_bool (c \<and> \<not> ends n) = (of_bool b :: nat)"
  shows "keeps_dialog view mine ends s s' a"
  unfolding keeps_dialog_def
proof (intro conjI allI impI)
  fix n b assume "view s' = Some (n, b)"
  from assms(3) [OF this] show "\<exists>c. view s = Some (n, c)
      \<and> length (filter (\<lambda>w. mine n (wait_rest w)) a) + of_bool (c \<and> \<not> ends n) = of_bool b"
    by (cases "mine n k") (simp_all add: assms(2))
qed (rule assms(1))

lemma keeps_locks:
  assumes "cm_opened s' = cm_opened s \<and> (view s' = view s \<and> a = []
      \<or> (\<exists>n fl. view s = Some (n, False) \<and> view s' = Some (n, True) \<and> a = [Waiting fl (k n)]))"
    and "\<And>m n. mine m (k n) = (m = n)"
  shows "keeps_dialog view mine (\<lambda>n. False) s s' a
    \<and> (\<forall>w \<in> set a. \<forall>n. mine n (wait_rest w) \<longrightarrow> (\<exists>b. view s = Some (n, b)))"
  using assms(1)
proof (elim conjE disjE exE)
  fix n fl
  assume "cm_opened s' = cm_opened s" and a: "a = [Waiting fl (k n)]" and v: "view s = Some (n, False)" "view s' = Some (n, True)"
  then show ?thesis using assms(2) by (intro conjI keeps_request [OF _ a]) auto
qed (simp add: keeps_same)

lemma other_event_create:
  assumes "manage_on_event K url e tok s = (s', a)" and "e \<noteq> CreateSubmitted"
  shows "cm_opened s' = cm_opened s \<and> create_view s' = create_view s \<and> (\<forall>w \<in> set a. \<forall>n. \<not> creating n (wait_rest w))"
  using assms
  by (cases e) (auto simp: manage_on_event_def create_view_def manage_defs option.map_comp comp_def
      split: if_splits option.splits)

lemma submit_create:
  assumes "manage_on_event K url CreateSubmitted tok s = (s', a)"
  shows "cm_opened s' = cm_opened s
    \<and> (create_view s' = create_view s \<and> a = []
       \<or> (\<exists>n fl. create_view s = Some (n, False) \<and> create_view s' = Some (n, True)
            \<and> a = [Waiting fl (CollectionCreated n)]))"
  using assms
  by (auto simp: manage_on_event_def create_view_def manage_defs split: if_splits option.splits)

lemma manage_event_create:
  assumes "manage_on_event K url e tok s = (s', a)"
  shows "keeps_dialog create_view creating (\<lambda>n. False) s s' a
    \<and> (\<forall>w \<in> set a. \<forall>n. creating n (wait_rest w) \<longrightarrow> (\<exists>b. create_view s = Some (n, b)))"
proof (cases "e = CreateSubmitted")
  case True
  show ?thesis by (rule keeps_locks [OF submit_create [OF assms [unfolded True]]]) auto
next
  case False
  with other_event_create [OF assms] show ?thesis by (auto intro: keeps_same)
qed

lemma other_event_delete:
  assumes "manage_on_event K url e tok s = (s', a)" and "e \<noteq> DeleteConfirmed"
  shows "cm_opened s' = cm_opened s \<and> delete_view s' = delete_view s \<and> (\<forall>w \<in> set a. \<forall>n. \<not> deleting n (wait_rest w))"
  using assms
  by (cases e) (auto simp: manage_on_event_def delete_view_def manage_defs option.map_comp comp_def
      split: if_splits option.splits)

lemma confirm_delete:
  assumes "manage_on_event K url DeleteConfirmed tok s = (s', a)"
  shows "cm_opened s' = cm_opened s
    \<and> (delete_view s' = delete_view s \<and> a = []
       \<or> (\<exists>n fl. delete_view s = Some (n, False) \<and> delete_view s' = Some (n, True)
            \<and> a = [Waiting fl (CollectionDeleted n)]))"
  using assms
  by (auto simp: manage_on_event_def delete_view_def manage_defs split: if_splits option.splits)

lemma manage_event_delete:
  assumes "manage_on_event K url e tok s = (s', a)"
  shows "keeps_dialog delete_view deleting (\<lambda>n. False) s s' a
    \<and> (\<forall>w \<in> set a. \<forall>n. deleting n (wait_rest w) \<longrightarrow> (\<exists>b. delete_view s = Some (n, b)))"
proof (cases "e = DeleteConfirmed")
  case True
  show ?thesis by (rule keeps_locks [OF confirm_delete [OF assms [unfolded True]]]) auto
next
  case False
  with other_event_delete [OF assms] show ?thesis by (auto intro: keeps_same)
qed

lemma rest_create:
  assumes "manage_rest_run url k tok r s = (s', a)"
  shows "cm_opened s' = cm_opened s
    \<and> create_view s' = map_option (\<lambda>(n, b). (n, b \<and> \<not> creating n k)) (create_view s)
    \<and> (\<forall>w \<in> set a. \<forall>n. \<not> creating n (wait_rest w))"
  using assms
  by (cases k; cases r; cases "cm_create s") (auto simp: create_view_def manage_defs)

lemma rest_delete:
  assumes "manage_rest_run url k tok r s = (s', a)"
  shows "cm_opened s' = cm_opened s
    \<and> (delete_view s' = map_option (\<lambda>(n, b). (n, b \<and> \<not> deleting n k)) (delete_view s)
         \<and> (\<forall>w \<in> set a. \<forall>n. \<not> deleting n (wait_rest w))
       \<or> (\<exists>n fl. k = CollectionDeleted n \<and> delete_view s' = delete_view s \<and> a = [Waiting fl (ListAfterDelete n)]))"
  using assms
  by (cases k; cases r; cases "cm_delete s") (auto simp: delete_view_def manage_defs)

lemma resume_dialog:
  assumes "resume (manage_rest_run url) w tok ans s = (s', a)"
    and "\<forall>n c. view s = Some (n, c) \<and> mine n (wait_rest w) \<longrightarrow> c"
    and "\<And>r. manage_rest_run url (wait_rest w) tok r s = (s', a) \<Longrightarrow>
        keeps_dialog view mine (\<lambda>n. mine n (wait_rest w)) s s' a
        \<and> (\<forall>w' \<in> set a. \<forall>n. mine n (wait_rest w') \<longrightarrow> mine n (wait_rest w))"
  shows "keeps_dialog view mine (\<lambda>n. mine n (wait_rest w)) s s' a
    \<and> (\<forall>w' \<in> set a. \<forall>n. mine n (wait_rest w') \<longrightarrow> mine n (wait_rest w))"
proof (cases w)
  case (Waiting fl k)
  show ?thesis
  proof (cases "flow_step fl tok ans")
    case (Finished r)
    with Waiting assms(1,3) show ?thesis by simp
  next
    case (Request q c)
    with Waiting assms(1) have s': "s' = s" and a: "a = [Waiting (Request q c) k]"
      by (simp_all add: call_def await_def)
    with Waiting assms(2) show ?thesis by (intro conjI keeps_request [OF _ a]) auto
  qed
qed

lemma manage_rest_create:
  assumes "manage_rest_run url k tok r s = (s', a)"
  shows "keeps_dialog create_view creating (\<lambda>n. creating n k) s s' a
    \<and> (\<forall>w \<in> set a. \<forall>n. creating n (wait_rest w) \<longrightarrow> creating n k)"
  using rest_create [OF assms] by (auto intro: keeps_ends)

lemma manage_rest_delete:
  assumes "manage_rest_run url k tok r s = (s', a)" and "\<forall>n c. delete_view s = Some (n, c) \<and> deleting n k \<longrightarrow> c"
  shows "keeps_dialog delete_view deleting (\<lambda>n. deleting n k) s s' a
    \<and> (\<forall>w \<in> set a. \<forall>n. deleting n (wait_rest w) \<longrightarrow> deleting n k)"
  using rest_delete [OF assms(1)]
proof (elim conjE disjE exE)
  fix n fl
  assume "cm_opened s' = cm_opened s" and k: "k = CollectionDeleted n" and v: "delete_view s' = delete_view s"
    and a: "a = [Waiting fl (ListAfterDelete n)]"
  have "keeps_dialog delete_view deleting (\<lambda>n. deleting n k) s s' a"
  proof (rule keeps_request [OF \<open>cm_opened s' = cm_opened s\<close> a])
    fix m b assume "delete_view s' = Some (m, b)"
    with v have "delete_view s = Some (m, b)" by simp
    moreover from this assms(2) k have "m = n \<Longrightarrow> b" by simp
    ultimately show "\<exists>c. delete_view s = Some (m, c)
        \<and> of_bool (deleting m (ListAfterDelete n)) + of_bool (c \<and> \<not> deleting m k) = (of_bool b :: nat)"
      using k by (intro exI [of _ b]) (cases "m = n"; simp)
  qed
  with a k show ?thesis by simp
qed (auto intro: keeps_ends)

lemma manage_answer_create:
  assumes "resume (manage_rest_run url) w tok ans s = (s', a)"
    and "\<forall>n c. create_view s = Some (n, c) \<and> creating n (wait_rest w) \<longrightarrow> c"
  shows "keeps_dialog create_view creating (\<lambda>n. creating n (wait_rest w)) s s' a
    \<and> (\<forall>w' \<in> set a. \<forall>n. creating n (wait_rest w') \<longrightarrow> creating n (wait_rest w))"
  by (rule resume_dialog [where view = create_view and mine = creating, OF assms]) (rule manage_rest_create)

lemma manage_answer_delete:
  assumes "resume (manage_rest_run url) w tok ans s = (s', a)"
    and "\<forall>n c. delete_view s = Some (n, c) \<and> deleting n (wait_rest w) \<longrightarrow> c"
  shows "keeps_dialog delete_view deleting (\<lambda>n. deleting n (wait_rest w)) s s' a
    \<and> (\<forall>w' \<in> set a. \<forall>n. deleting n (wait_rest w') \<longrightarrow> deleting n (wait_rest w))"
  by (rule resume_dialog [where view = delete_view and mine = deleting, OF assms]) (rule manage_rest_delete [OF _ assms(2)])

lemma commit_views:
  "create_view (commit_delete s) = create_view s" "delete_view (commit_create s) = delete_view s"
  "cm_opened s \<le> cm_opened (commit_create s)" "cm_opened s \<le> cm_opened (commit_delete s)"
  by (simp_all add: commit_delete_def commit_create_def create_view_def delete_view_def)

lemma commit_create_view:
  "create_view (commit_create s) = Some (n, b) \<Longrightarrow>
     create_view s = Some (n, b) \<or> (cm_opened s = n \<and> n < cm_opened (commit_create s) \<and> \<not> b)"
  by (auto simp: commit_create_def create_view_def new_create_modal_def split: if_splits)

lemma commit_delete_view:
  "delete_view (commit_delete s) = Some (n, b) \<Longrightarrow>
     delete_view s = Some (n, b) \<or> (cm_opened s = n \<and> n < cm_opened (commit_delete s) \<and> \<not> b)"
  by (auto simp: commit_delete_def delete_view_def new_delete_modal_def split: if_splits)

lemma manage_mount:
  "cm_fetchCollections url ListFetched tok new_manage_page = (s, a) \<Longrightarrow>
     create_view s = None \<and> delete_view s = None \<and> wait_rest ` set a = {ListFetched}"
  by (auto simp: manage_defs create_view_def delete_view_def new_manage_page_def monitor_starts)

interpretation create_dialog: page_dialog "CollectionsManagement K url" new_manage_page create_view cm_opened
  "\<lambda>n w. creating n (wait_rest w)" for K url
proof unfold_locales
  fix old tok s s' a
  assume "on_commit (CollectionsManagement K url) old tok s = (s', a)"
  then have "s' = commit_delete (commit_create s)" "a = []" by (simp_all add: CollectionsManagement_def set_state_def)
  then show "cm_opened s \<le> cm_opened s' \<and> a = [] \<and> (\<forall>n b. create_view s' = Some (n, b) \<longrightarrow>
      create_view s = Some (n, b) \<or> (cm_opened s \<le> n \<and> n < cm_opened s' \<and> \<not> b))"
    using commit_create_view [of s] commit_views(3) [of s] commit_views(4) [of "commit_create s"]
    by (fastforce simp: commit_views(1))
next
  fix k tok ans s s' a
  assume "on_answer (CollectionsManagement K url) k tok ans s = (s', a)"
    and "\<forall>n c. create_view s = Some (n, c) \<and> creating n (wait_rest k) \<longrightarrow> c"
  then show "cm_opened s' = cm_opened s
      \<and> (\<forall>k' \<in> set a. \<forall>n. creating n (wait_rest k') \<longrightarrow> creating n (wait_rest k))
      \<and> (\<forall>n b. create_view s' = Some (n, b) \<longrightarrow> (\<exists>c. create_view s = Some (n, c)
            \<and> length (filter (\<lambda>w. creating n (wait_rest w)) a) + of_bool (c \<and> \<not> creating n (wait_rest k)) = of_bool b))"
    using manage_answer_create [of url k tok ans s s' a] unfolding keeps_dialog_def
    by (simp add: CollectionsManagement_def)
next
  fix e tok s s' a
  assume "on_event (CollectionsManagement K url) e tok s = (s', a)"
  then have "manage_on_event K url e tok s = (s', a)" by (simp add: CollectionsManagement_def)
  from manage_event_create [OF this] show "cm_opened s' = cm_opened s
      \<and> (\<forall>k \<in> set a. \<forall>n. creating n (wait_rest k) \<longrightarrow> (\<exists>b. create_view s = Some (n, b)))
      \<and> (\<forall>n b. create_view s' = Some (n, b) \<longrightarrow> (\<exists>c. create_view s = Some (n, c)
            \<and> length (filter (\<lambda>w. creating n (wait_rest w)) a) + of_bool c = of_bool b))"
    unfolding keeps_dialog_def by simp
next
  fix tok s a
  assume "on_mount (CollectionsManagement K url) tok new_manage_page = (s, a)"
  then have "cm_fetchCollections url ListFetched tok new_manage_page = (s, a)" by (simp add: CollectionsManagement_def)
  from manage_mount [OF this] show "create_view s = None \<and> (\<forall>k \<in> set a. \<forall>n. \<not> creating n (wait_rest k))"
    by (metis creating.simps(2) imageI singletonD)
qed

interpretation delete_dialog: page_dialog "CollectionsManagement K url" new_manage_page delete_view cm_opened
  "\<lambda>n w. deleting n (wait_rest w)" for K url
proof unfold_locales
  fix old tok s s' a
  assume "on_commit (CollectionsManagement K url) old tok s = (s', a)"
  then have "s' = commit_delete (commit_create s)" "a = []" by (simp_all add: CollectionsManagement_def set_state_def)
  then show "cm_opened s \<le> cm_opened s' \<and> a = [] \<and> (\<forall>n b. delete_view s' = Some (n, b) \<longrightarrow>
      delete_view s = Some (n, b) \<or> (cm_opened s \<le> n \<and> n < cm_opened s' \<and> \<not> b))"
    using commit_delete_view [of "commit_create s"] commit_views(3) [of s] commit_views(4) [of "commit_create s"]
    by (fastforce simp: commit_views(2))
next
  fix k tok ans s s' a
  assume "on_answer (CollectionsManagement K url) k tok ans s = (s', a)"
    and "\<forall>n c. delete_view s = Some (n, c) \<and> deleting n (wait_rest k) \<longrightarrow> c"
  then show "cm_opened s' = cm_opened s
      \<and> (\<forall>k' \<in> set a. \<forall>n. deleting n (wait_rest k') \<longrightarrow> deleting n (wait_rest k))
      \<and> (\<forall>n b. delete_view s' = Some (n, b) \<longrightarrow> (\<exists>c. delete_view s = Some (n, c)
            \<and> length (filter (\<lambda>w. deleting n (wait_rest w)) a) + of_bool (c \<and> \<not> deleting n (wait_rest k)) = of_bool b))"
    using manage_answer_delete [of url k tok ans s s' a] unfolding keeps_dialog_def
    by (simp add: CollectionsManagement_def)
next
  fix e tok s s' a
  assume "on_event (CollectionsManagement K url) e tok s = (s', a)"
  then have "manage_on_event K url e tok s = (s', a)" by (simp add: CollectionsManagement_def)
  from manage_event_delete [OF this] show "cm_opened s' = cm_opened s
      \<and> (\<forall>k \<in> set a. \<forall>n. deleting n (wait_rest k) \<longrightarrow> (\<exists>b. delete_view s = Some (n, b)))
      \<and> (\<forall>n b. delete_view s' = Some (n, b) \<longrightarrow> (\<exists>c. delete_view s = Some (n, c)
            \<and> length (filter (\<lambda>w. deleting n (wait_rest w)) a) + of_bool c = of_bool b))"
    unfolding keeps_dialog_def by simp
next
  fix tok s a
  assume "on_mount (CollectionsManagement K url) tok new_manage_page = (s, a)"
  then have "cm_fetchCollections url ListFetched tok new_manage_page = (s, a)" by (simp add: CollectionsManagement_def)
  from manage_mount [OF this] show "delete_view s = None \<and> (\<forall>k \<in> set a. \<forall>n. \<not> deleting n (wait_rest k))"
    by (metis deleting.simps(3) imageI singletonD)
qed

section \<open>The page of collections\<close>

record coll_page =
  cp_collections :: "js_val list"
  cp_isLoading :: bool
  cp_isActionLoading :: bool
  cp_searchQuery :: string
  cp_isCreateOpen :: bool
  cp_toast :: "(js_val \<times> string) option"
  newCollectionName :: string
  newCollectionDimension :: js_val

definition new_coll_page :: coll_page where
  "new_coll_page =
     \<lparr>cp_collections = [], cp_isLoading = False, cp_isActionLoading = False, cp_searchQuery = [],
      cp_isCreateOpen = False, cp_toast = None, newCollectionName = [], newCollectionDimension = JNum (Fin 1536)\<rparr>"

datatype coll_await = AwList | AwCreate string js_num | AwListAfterCreate | AwDelete js_val

fun coll_request :: "text_conv \<Rightarrow> coll_await \<Rightarrow> http_request" where
  "coll_request K (AwCreate nm dimension) =
     \<lparr>hr_verb = POST, hr_url = ''/v1/collections'',
      hr_body = JObj [(''name'', JStr nm), (''dimension'', JNum dimension)], hr_headers = []\<rparr>"
| "coll_request K (AwDelete nm) =
     \<lparr>hr_verb = DELETE, hr_url = ''/v1/collections/'' @ js_String K nm, hr_body = JUndefined, hr_headers = []\<rparr>"
| "coll_request K _ = \<lparr>hr_verb = GET, hr_url = ''/v1/collections'', hr_body = JUndefined, hr_headers = []\<rparr>"

definition cp_map_collection :: "js_val \<Rightarrow> js_error + js_val" where
  "cp_map_collection c =
     (if js_is_string c
      then Inr (JObj [(''name'', c), (''dimension'', JNum (Fin 0)), (''status'', JStr ''ready''), (''count'', JNum (Fin 0))])
      else res_bind (js_dot c ''name'') (\<lambda>n.
        Inr (js_spread c [(''name'', js_or n (JStr ''Unnamed Collection'')),
               (''dimension'', JNum (number_or_zero (js_get c ''dimension''))),
               (''status'', js_or (js_get c ''status'') (JStr ''ready'')),
               (''count'', JNum (number_or_zero (js_get c ''count'')))])))"

definition cp_mapped :: "answer \<Rightarrow> js_error + js_val list" where
  "cp_mapped ans =
     res_bind ans (\<lambda>d. res_bind (js_dot d ''collections'') (\<lambda>v.
       res_bind (js_array (js_or v (JArr []))) (res_map cp_map_collection)))"

definition cp_toasted :: "js_val \<Rightarrow> string \<Rightarrow> coll_page \<Rightarrow> coll_page" where
  "cp_toasted msg ty s = s\<lparr>cp_toast := Some (msg, ty)\<rparr>"

definition cp_fetchCollections :: "coll_await \<Rightarrow> (coll_page, coll_await) seg" where
  "cp_fetchCollections k = seg_then (set_state (\<lambda>s. s\<lparr>cp_isLoading := True\<rparr>)) (await k)"

definition cp_fetched :: "answer \<Rightarrow> coll_page \<Rightarrow> coll_page" where
  "cp_fetched ans s =
     (case cp_mapped ans of
        Inr mapped \<Rightarrow> s\<lparr>cp_collections := mapped\<rparr>
      | Inl err \<Rightarrow> cp_toasted (server_message err ''Failed to load collections'') ''danger'' s)
     \<lparr>cp_isLoading := False\<rparr>"

definition handleCreateCollection :: "text_conv \<Rightarrow> (coll_page, coll_await) seg" where
  "handleCreateCollection K s =
     (if js_trim (newCollectionName s) = [] then seg_skip s
      else seg_then (set_state (\<lambda>s. s\<lparr>cp_isActionLoading := True\<rparr>))
             (await (AwCreate (newCollectionName s) (js_Number K (newCollectionDimension s)))) s)"

definition collectionCreated :: "answer \<Rightarrow> (coll_page, coll_await) seg" where
  "collectionCreated ans =
     (case ans of
        Inr d \<Rightarrow> seg_then (set_state (cp_toasted (JStr ''Collection created successfully'') ''success''))
                   (cp_fetchCollections AwListAfterCreate)
      | Inl err \<Rightarrow> set_state (\<lambda>s. (cp_toasted (server_message err ''Failed to create collection'') ''danger'' s)
                              \<lparr>cp_isActionLoading := False\<rparr>))"

definition create_form_reset :: "answer \<Rightarrow> (coll_page, coll_await) seg" where
  "create_form_reset ans =
     set_state (\<lambda>s. (cp_fetched ans s)
       \<lparr>cp_isCreateOpen := False, newCollectionName := [], newCollectionDimension := JNum (Fin 1536),
        cp_isActionLoading := False\<rparr>)"

text \<open>\<open>confirmed\<close> is the answer of \<^verbatim>\<open>confirm\<close>.\<close>

definition cp_handleDelete :: "js_val \<Rightarrow> bool \<Rightarrow> (coll_page, coll_await) seg" where
  "cp_handleDelete nm confirmed = (if confirmed then await (AwDelete nm) else seg_skip)"

definition cp_deleted :: "js_val \<Rightarrow> answer \<Rightarrow> (coll_page, coll_await) seg" where
  "cp_deleted nm ans =
     (case ans of
        Inr d \<Rightarrow> set_state (\<lambda>s. cp_toasted (JStr ''Collection deleted'') ''success''
                   (s\<lparr>cp_collections := filter (\<lambda>c. \<not> js_strict_eq (js_get c ''name'') nm) (cp_collections s)\<rparr>))
      | Inl err \<Rightarrow> set_state (cp_toasted (server_message err ''Failed to delete collection'') ''danger''))"

definition cp_filteredCollections :: "text_conv \<Rightarrow> coll_page \<Rightarrow> js_error + js_val list" where
  "cp_filteredCollections K s = search_collections K (cp_searchQuery s) (cp_collections s)"

datatype coll_event =
    CollRefresh | CollSearch string | CollOpenCreate | CollCloseCreate | CollName string | CollDimension string
  | CollCreate | CollDelete js_val bool | CollToastClosed

fun coll_on_event :: "text_conv \<Rightarrow> coll_event \<Rightarrow> (coll_page, coll_await) seg" where
  "coll_on_event K CollRefresh s = cp_fetchCollections AwList s"
| "coll_on_event K (CollSearch q) s = set_state (\<lambda>s. s\<lparr>cp_searchQuery := q\<rparr>) s"
| "coll_on_event K CollOpenCreate s = set_state (\<lambda>s. s\<lparr>cp_isCreateOpen := True\<rparr>) s"
| "coll_on_event K CollCloseCreate s = set_state (\<lambda>s. s\<lparr>cp_isCreateOpen := False\<rparr>) s"
| "coll_on_event K (CollName t) s = set_state (\<lambda>s. s\<lparr>newCollectionName := t\<rparr>) s"
| "coll_on_event K (CollDimension t) s = set_state (\<lambda>s. s\<lparr>newCollectionDimension := JStr t\<rparr>) s"
| "coll_on_event K CollCreate s =
     (if \<not> cp_isCreateOpen s \<or> cp_isActionLoading s then seg_skip s else handleCreateCollection K s)"
| "coll_on_event K (CollDelete nm confirmed) s = cp_handleDelete nm confirmed s"
| "coll_on_event K CollToastClosed s = set_state (\<lambda>s. s\<lparr>cp_toast := None\<rparr>) s"

fun coll_on_answer :: "coll_await \<Rightarrow> answer \<Rightarrow> (coll_page, coll_await) seg" where
  "coll_on_answer AwList ans = set_state (cp_fetched ans)"
| "coll_on_answer (AwCreate nm d) ans = collectionCreated ans"
| "coll_on_answer AwListAfterCreate ans = create_form_reset ans"
| "coll_on_answer (AwDelete nm) ans = cp_deleted nm ans"

definition CollectionsPage :: "text_conv \<Rightarrow> (coll_page, coll_event, coll_await) page" where
  "CollectionsPage K =
     \<lparr>on_mount = (\<lambda>tok. cp_fetchCollections AwList), on_event = (\<lambda>e tok. coll_on_event K e),
      on_answer = (\<lambda>k tok ans. coll_on_answer k ans), on_commit = (\<lambda>old tok. seg_skip)\<rparr>"

lemmas coll_defs =
  cp_fetchCollections_def cp_fetched_def cp_toasted_def handleCreateCollection_def collectionCreated_def
  create_form_reset_def cp_handleDelete_def cp_deleted_def seg_defs

fun is_create :: "coll_await \<Rightarrow> bool" where
  "is_create (AwCreate nm d) = True"
| "is_create AwListAfterCreate = True"
| "is_create _ = False"

lemma coll_event_lock:
  assumes "coll_on_event K e s = (s', a)"
  shows "length (filter is_create a) + of_bool (cp_isActionLoading s) = of_bool (cp_isActionLoading s')"
  using assms by (cases e) (auto simp: coll_defs split: if_splits)

lemma coll_answer_lock:
  assumes "coll_on_answer k ans s = (s', a)" and "is_create k \<Longrightarrow> cp_isActionLoading s"
  shows "if is_create k then of_bool (cp_isActionLoading s') = length (filter is_create a)
     else length (filter is_create a) + of_bool (cp_isActionLoading s) = of_bool (cp_isActionLoading s')"
  using assms
  by (cases k; cases ans; cases "cp_mapped ans") (auto simp: coll_defs cp_mapped_def split: sum.splits)

interpretation coll_lock: page_lock "CollectionsPage K" new_coll_page cp_isActionLoading is_create for K
proof unfold_locales
  fix k tok ans s s' a
  assume "on_answer (CollectionsPage K) k tok ans s = (s', a)" and "is_create k \<Longrightarrow> cp_isActionLoading s"
  then show "if is_create k then of_bool (cp_isActionLoading s') = length (filter is_create a)
     else length (filter is_create a) + of_bool (cp_isActionLoading s) = of_bool (cp_isActionLoading s')"
    by (intro coll_answer_lock) (simp add: CollectionsPage_def)
next
  fix e tok s s' a
  assume "on_event (CollectionsPage K) e tok s = (s', a)"
  then show "length (filter is_create a) + of_bool (cp_isActionLoading s) = of_bool (cp_isActionLoading s')"
    by (intro coll_event_lock) (simp add: CollectionsPage_def)
qed (auto simp: CollectionsPage_def new_coll_page_def coll_defs)

section \<open>Properties\<close>

text \<open>C23: The two dialogs of the management page send one request at a time. In every reachable state the
  open dialog for creating, or for deleting, has exactly one request of its own under way while its
  loading flag is set and none otherwise, whatever requests older dialogs left behind. The flag
  disables the button of the dialog, as do a blank name or a name that was not typed.\<close>

theorem one_request_per_dialog:
  assumes "page_reach (CollectionsManagement K url) new_manage_page (s, p)"
  shows "(\<forall>m. cm_create s = Some m \<longrightarrow>
        length (filter (\<lambda>w. creating (cr_number m) (wait_rest w)) p) = of_bool (cr_loading m))
   \<and> (\<forall>m. cm_delete s = Some m \<longrightarrow>
        length (filter (\<lambda>w. deleting (dm_number m) (wait_rest w)) p) = of_bool (dm_loading m))"
  using create_dialog.dialog_counts_requests [OF assms] delete_dialog.dialog_counts_requests [OF assms]
  by (simp add: create_view_def delete_view_def)

text \<open>A run in which a collection is listed and its deletion asked for and confirmed twice.\<close>

definition sample_list :: answer where
  "sample_list = Inr (JObj [(''collections'', JArr [JObj [(''name'', JStr ''docs'')]])])"

definition sample_manage_run :: "manage_event input list" where
  "sample_manage_run =
     [Answer None 0 sample_list, Event None (DeleteOpened (JObj [(''name'', JStr ''docs'')])),
      Event None (ConfirmTyped ''docs''), Event None DeleteConfirmed, Event None DeleteConfirmed]"

lemma sample_manage_state:
  "map wait_rest (snd (page_run (CollectionsManagement plain_conv ''u'') sample_manage_run
      (page_start (CollectionsManagement plain_conv ''u'') None new_manage_page))) = [CollectionDeleted 0]
   \<and> map_option dm_number (cm_delete (fst (page_run (CollectionsManagement plain_conv ''u'') sample_manage_run
      (page_start (CollectionsManagement plain_conv ''u'') None new_manage_page)))) = Some 0"
  by code_simp

theorem one_request_per_dialog_witness:
  "\<exists>s p. page_reach (CollectionsManagement plain_conv ''u'') new_manage_page (s, p)
     \<and> map wait_rest p = [CollectionDeleted 0] \<and> (\<exists>m. cm_delete s = Some m \<and> dm_loading m)"
proof -
  let ?P = "CollectionsManagement plain_conv ''u''"
  let ?st = "page_run ?P sample_manage_run (page_start ?P None new_manage_page)"
  have r: "page_reach ?P new_manage_page (fst ?st, snd ?st)"
    using page_reach_run [OF page_reach.mounted] by simp
  from sample_manage_state obtain m where m: "cm_delete (fst ?st) = Some m" "dm_number m = 0" by blast
  from sample_manage_state obtain w where w: "snd ?st = [w]" "wait_rest w = CollectionDeleted 0" by auto
  from one_request_per_dialog [OF r] m w have "dm_loading m" by (cases "dm_loading m") simp_all
  with r m(1) w show ?thesis by (intro exI conjI) (assumption | simp)+
qed

lemma confirmed_event:
  assumes "manage_on_event K url e tok s = (s', a)" and "Waiting fl (CollectionDeleted n) \<in> set a"
  shows "e = DeleteConfirmed \<and> (\<exists>m. cm_delete s = Some m \<and> \<not> dm_loading m
     \<and> js_get (cm_collectionToDelete s) ''name'' = JStr (dm_confirmText m)
     \<and> fl = mgmt_deleteCollection url (dm_confirmText m) tok
     \<and> a = [Waiting fl (CollectionDeleted (dm_number m))])"
proof -
  have "js_strict_eq (JStr t) v \<longleftrightarrow> v = JStr t" for t v by (cases v) auto
  with assms show ?thesis
    by (cases e) (auto simp: manage_on_event_def manage_defs split: if_splits option.splits)
qed

fun deletion :: "manage_rest \<Rightarrow> bool" where
  "deletion (CollectionDeleted n) = True"
| "deletion _ = False"

text \<open>A deletion is one request, so its answer ends it: no answer is followed by another deletion.\<close>

definition one_delete :: "string \<Rightarrow> manage_rest waiting \<Rightarrow> bool" where
  "one_delete url w \<longleftrightarrow>
     (deletion (wait_rest w) \<longrightarrow> (\<exists>nm tok. wait_flow w = mgmt_deleteCollection url nm tok))"

lemma one_deleteI:
  "\<not> deletion k \<Longrightarrow> one_delete url (Waiting fl k)"
  "one_delete url (Waiting (mgmt_deleteCollection url nm tok) k)"
  unfolding one_delete_def by (simp, intro impI exI) simp

lemma event_one_delete: "manage_on_event K url e tok s = (s', a) \<Longrightarrow> w \<in> set a \<Longrightarrow> one_delete url w"
  by (cases e) (auto simp: one_deleteI manage_on_event_def manage_defs split: if_splits option.splits)

lemma rest_no_delete: "manage_rest_run url k tok r s = (s', a) \<Longrightarrow> w \<in> set a \<Longrightarrow> \<not> deletion (wait_rest w)"
  by (cases k; cases r) (auto simp: manage_defs)

lemma answer_no_delete:
  assumes "one_delete url v" "resume (manage_rest_run url) v tok ans s = (s', a)" "w \<in> set a"
  shows "\<not> deletion (wait_rest w)"
proof (cases v)
  case (Waiting fl k)
  show ?thesis
  proof (cases "flow_step fl tok ans")
    case (Finished r)
    with Waiting assms(2,3) show ?thesis by (auto dest: rest_no_delete)
  next
    case (Request q c)
    with Waiting assms have "\<not> deletion k" by (auto simp: one_delete_def mgmt_deleteCollection_def)
    with Request Waiting assms(2,3) show ?thesis by (auto simp: manage_defs)
  qed
qed

interpretation delete_flows: page_inv "CollectionsManagement K url" new_manage_page
  "\<lambda>s W. \<forall>w. w \<in># W \<longrightarrow> one_delete url w" for K url
proof unfold_locales
  fix s W e tok s' a
  assume "\<forall>w. w \<in># W \<longrightarrow> one_delete url w" and "on_event (CollectionsManagement K url) e tok s = (s', a)"
  then show "\<forall>w. w \<in># W + mset a \<longrightarrow> one_delete url w"
    by (auto simp: CollectionsManagement_def dest: event_one_delete)
next
  fix s v W tok ans s' a
  assume "\<forall>w. w \<in># add_mset v W \<longrightarrow> one_delete url w" and "on_answer (CollectionsManagement K url) v tok ans s = (s', a)"
  then show "\<forall>w. w \<in># W + mset a \<longrightarrow> one_delete url w"
    using answer_no_delete [of url v tok ans s s' a] by (auto simp: CollectionsManagement_def one_delete_def)
qed (auto simp: CollectionsManagement_def one_delete_def manage_defs)

lemma answer_deletions:
  assumes "page_reach (CollectionsManagement K url) new_manage_page (s, p)"
    and "page_next (CollectionsManagement K url) (Answer tok j ans) (s, p) = (s', p')"
  shows "mset (filter (\<lambda>w. deletion (wait_rest w)) p') \<subseteq># mset (filter (\<lambda>w. deletion (wait_rest w)) p)"
proof (cases "j < length p")
  case True
  obtain s1 a where run: "resume (manage_rest_run url) (p ! j) tok ans s = (s1, a)" by fastforce
  with True assms(2) have p': "p' = take j p @ drop (Suc j) p @ a"
    by (auto simp: CollectionsManagement_def seg_defs)
  have "one_delete url (p ! j)" using delete_flows.reach_inv [OF assms(1)] True by simp
  from answer_no_delete [OF this run] have "filter (\<lambda>w. deletion (wait_rest w)) a = []"
    by (simp add: filter_empty_conv)
  moreover have "mset (take j p @ drop (Suc j) p) \<subseteq># mset p"
    using arg_cong [OF id_take_nth_drop [OF True], of mset] by simp
  then have "filter_mset (\<lambda>w. deletion (wait_rest w)) (mset (take j p @ drop (Suc j) p))
      \<subseteq># filter_mset (\<lambda>w. deletion (wait_rest w)) (mset p)" by (rule multiset_filter_mono)
  ultimately show ?thesis unfolding p' by (simp flip: mset_filter)
next
  case False
  with assms(2) show ?thesis by simp
qed

text \<open>C24: On the management page \<^verbatim>\<open>CollectionsManagement\<close> a step after which a deletion is under way that was
  not before is a click on the confirmation button, while no other request of the dialog runs and
  with the name of the shown collection typed into the dialog exactly; it sends one request, for that
  name and with the stored token. (\<^verbatim>\<open>CollectionsPage\<close> asks for no name, only \<^verbatim>\<open>confirm\<close>: see
  \<open>cp_handleDelete\<close>.)\<close>

theorem delete_needs_typed_name:
  assumes "page_reach (CollectionsManagement K url) new_manage_page (s, p)"
    and "page_next (CollectionsManagement K url) i (s, p) = (s', p')"
    and "\<not> mset (filter (\<lambda>w. deletion (wait_rest w)) p') \<subseteq># mset (filter (\<lambda>w. deletion (wait_rest w)) p)"
  shows "\<exists>tok m c. i = Event tok DeleteConfirmed \<and> cm_delete s = Some m \<and> \<not> dm_loading m
     \<and> js_get (cm_collectionToDelete s) ''name'' = JStr (dm_confirmText m)
     \<and> p' = p @ [Waiting (Request (admin_request DELETE (url @ ''/v1/collections/'' @ dm_confirmText m) JUndefined tok) c)
                   (CollectionDeleted (dm_number m))]"
proof (cases i)
  case (Event tok e)
  obtain s1 a where run: "manage_on_event K url e tok s = (s1, a)" by fastforce
  with assms(2) Event have p': "p' = p @ a" by (auto simp: CollectionsManagement_def seg_defs)
  with assms(3) obtain w where "w \<in> set a" "deletion (wait_rest w)"
    by (cases "filter (\<lambda>w. deletion (wait_rest w)) a = []") (auto simp: filter_empty_conv)
  then obtain fl n where "Waiting fl (CollectionDeleted n) \<in> set a"
    by (metis deletion.elims(2) waiting.collapse)
  from confirmed_event [OF run this] Event p' show ?thesis by (auto simp: mgmt_deleteCollection_def)
next
  case (Answer tok j ans)
  with answer_deletions [OF assms(1)] assms(2,3) show ?thesis by blast
qed

text \<open>The first three steps of the run above: listed, dialog opened, name typed.\<close>

lemma sample_typed_state:
  "snd (page_run (CollectionsManagement plain_conv ''u'') (take 3 sample_manage_run)
      (page_start (CollectionsManagement plain_conv ''u'') None new_manage_page)) = []
   \<and> map_option (\<lambda>m. (dm_number m, dm_confirmText m)) (cm_delete (fst (page_run (CollectionsManagement plain_conv ''u'')
      (take 3 sample_manage_run) (page_start (CollectionsManagement plain_conv ''u'') None new_manage_page)))) = Some (0, ''docs'')"
  by code_simp

lemma sample_confirmed_state:
  "filter (\<lambda>w. deletion (wait_rest w)) (snd (page_next (CollectionsManagement plain_conv ''u'') (Event None DeleteConfirmed)
      (page_run (CollectionsManagement plain_conv ''u'') (take 3 sample_manage_run)
        (page_start (CollectionsManagement plain_conv ''u'') None new_manage_page)))) = [] \<longleftrightarrow> False"
  by code_simp

theorem delete_needs_typed_name_witness:
  "\<exists>s s' c. page_reach (CollectionsManagement plain_conv ''u'') new_manage_page (s, [])
     \<and> page_next (CollectionsManagement plain_conv ''u'') (Event None DeleteConfirmed) (s, [])
       = (s', [Waiting (Request (admin_request DELETE ''u/v1/collections/docs'' JUndefined None) c) (CollectionDeleted 0)])"
proof -
  let ?P = "CollectionsManagement plain_conv ''u''"
  let ?st = "page_run ?P (take 3 sample_manage_run) (page_start ?P None new_manage_page)"
  obtain s where st: "?st = (s, [])" using sample_typed_state by (cases ?st) simp
  have r: "page_reach ?P new_manage_page (s, [])" using page_reach_run [OF page_reach.mounted] st by metis
  obtain s' p' where n: "page_next ?P (Event None DeleteConfirmed) (s, []) = (s', p')" by fastforce
  from sample_confirmed_state st n
  have "filter (\<lambda>w. deletion (wait_rest w)) p' \<noteq> []" by simp
  then have "\<not> mset (filter (\<lambda>w. deletion (wait_rest w)) p') \<subseteq># mset (filter (\<lambda>w. deletion (wait_rest w)) [])"
    by (simp del: mset_filter)
  from delete_needs_typed_name [OF r n this] obtain m c where "cm_delete s = Some m"
    "p' = [] @ [Waiting (Request (admin_request DELETE (''u'' @ ''/v1/collections/'' @ dm_confirmText m) JUndefined None) c)
                   (CollectionDeleted (dm_number m))]" by blast
  with sample_typed_state st r n show ?thesis by (intro exI [of _ s] exI [of _ s'] exI [of _ c]) simp
qed

text \<open>The two pages create different collections from the same input. For a name typed with blanks
  around it, the management page asks for the trimmed name, the collection page for the name with
  its blanks, although both check that the trimmed name is not empty.\<close>

theorem created_names_differ:
  assumes "js_trim t \<noteq> []" and "js_trim t \<noteq> t"
    and "\<not> mo_loading s" "cm_create s = Some m" "\<not> cr_loading m" "cr_name m = t" "js_le (Fin 1) (cr_dimension m)"
    and "cp_isCreateOpen u" "\<not> cp_isActionLoading u" "newCollectionName u = t"
  shows "\<exists>a b. js_trim t = a \<and> a \<noteq> b
     \<and> map wait_flow (snd (manage_on_event K url CreateSubmitted tok s))
         = [mgmt_createCollection url a (cr_dimension m) (cr_distance m) tok]
     \<and> snd (coll_on_event K CollCreate u) = [AwCreate b (js_Number K (newCollectionDimension u))]"
  using assms by (auto simp: manage_on_event_def manage_defs coll_defs)

theorem created_names_differ_witness:
  "snd (coll_on_event plain_conv CollCreate (new_coll_page\<lparr>cp_isCreateOpen := True, newCollectionName := '' docs''\<rparr>))
     = [AwCreate '' docs'' (Fin 1536)]
   \<and> js_trim '' docs'' = ''docs''"
proof -
  let ?u = "new_coll_page\<lparr>cp_isCreateOpen := True, newCollectionName := '' docs''\<rparr>"
  let ?m = "new_create_modal 0\<lparr>cr_name := '' docs''\<rparr>"
  let ?s = "new_manage_page\<lparr>mo_loading := False, cm_create := Some ?m\<rparr>"
  have t: "js_trim '' docs'' = ''docs''" by code_simp
  have "\<exists>a b. js_trim '' docs'' = a \<and> a \<noteq> b
     \<and> map wait_flow (snd (manage_on_event plain_conv ''u'' CreateSubmitted None ?s))
         = [mgmt_createCollection ''u'' a (cr_dimension ?m) (cr_distance ?m) None]
     \<and> snd (coll_on_event plain_conv CollCreate ?u) = [AwCreate b (js_Number plain_conv (newCollectionDimension ?u))]"
    by (rule created_names_differ)
       (simp_all add: t new_create_modal_def new_manage_page_def new_coll_page_def monitor_starts)
  with t show ?thesis by (auto simp: new_coll_page_def coll_defs)
qed

text \<open>The collection page removes a collection from its list only after the server has deleted it:
  the click changes nothing but sends the request, the success of the request removes exactly the
  collections of that name from the list that is shown then, and a failure leaves the list as it is.\<close>

theorem list_follows_delete:
  "page_next (CollectionsPage K) (Event tok (CollDelete (JStr nm) True)) (s, p) = (s, p @ [AwDelete (JStr nm)])
   \<and> (j < length q \<and> q ! j = AwDelete (JStr nm) \<longrightarrow>
        cp_collections (fst (page_next (CollectionsPage K) (Answer tok' j ans) (u, q))) =
          (case ans of Inr d \<Rightarrow> filter (\<lambda>c. js_get c ''name'' \<noteq> JStr nm) (cp_collections u)
                     | Inl err \<Rightarrow> cp_collections u))"
proof -
  have "js_strict_eq v (JStr nm) \<longleftrightarrow> v = JStr nm" for v by (cases v) auto
  then show ?thesis by (cases ans) (auto simp: CollectionsPage_def coll_defs)
qed

theorem list_follows_delete_witness:
  "cp_collections (fst (page_next (CollectionsPage plain_conv) (Answer None 0 (Inr JNull))
      (new_coll_page\<lparr>cp_collections := [JObj [(''name'', JStr ''a'')], JObj [(''name'', JStr ''b'')]]\<rparr>,
       [AwDelete (JStr ''a'')]))) = [JObj [(''name'', JStr ''b'')]]"
  using list_follows_delete [of plain_conv None "''a''" new_coll_page "[]" 0 "[AwDelete (JStr ''a'')]" None "Inr JNull"
      "new_coll_page\<lparr>cp_collections := [JObj [(''name'', JStr ''a'')], JObj [(''name'', JStr ''b'')]]\<rparr>"]
  by simp

text \<open>On the collection page at most one collection is being created at any time, and the button is
  disabled exactly then, until the list has been fetched again.\<close>

theorem one_creation_at_a_time:
  assumes "page_reach (CollectionsPage K) new_coll_page (s, p)"
  shows "length (filter is_create p) = of_bool (cp_isActionLoading s)"
  by (rule coll_lock.lock_counts_requests [OF assms])

theorem one_creation_at_a_time_witness:
  "length (filter is_create (snd (page_start (CollectionsPage plain_conv) None new_coll_page))) = 0"
proof -
  obtain s p where st: "page_start (CollectionsPage plain_conv) None new_coll_page = (s, p)"
    by (cases "page_start (CollectionsPage plain_conv) None new_coll_page")
  then have "\<not> cp_isActionLoading s"
    by (auto simp: page_start_def CollectionsPage_def new_coll_page_def coll_defs)
  with one_creation_at_a_time [of plain_conv s p] page_reach.mounted [of "CollectionsPage plain_conv" new_coll_page None]
  show ?thesis by (simp add: st)
qed

text \<open>The search field finds by substring, without regard to case: the list is filtered, in its
  order, to the collections whose name in lower case contains the query in lower case.\<close>

theorem search_finds_substrings:
  assumes "\<forall>c \<in> set cs. isSet c"
  shows "search_collections K query cs =
     Inr (filter (\<lambda>c. \<exists>p q. toLowerSafe K (js_get c ''name'') = p @ js_lower query @ q) cs)"
  using assms by (induction cs) (simp_all add: js_dot_def js_includes_iff)

theorem search_finds_substrings_witness:
  "search_collections plain_conv ''OC'' [JObj [(''name'', JStr ''Docs'')]] = Inr [JObj [(''name'', JStr ''Docs'')]]"
proof -
  have "toLowerSafe plain_conv (JStr ''Docs'') = ''d'' @ js_lower ''OC'' @ ''s''" by code_simp
  then have "\<exists>p q. toLowerSafe plain_conv (JStr ''Docs'') = p @ js_lower ''OC'' @ q" by blast
  with search_finds_substrings [of "[JObj [(''name'', JStr ''Docs'')]]" plain_conv "''OC''"] show ?thesis
    by (simp add: isSet_def)
qed

end
