(* ===== verification/Session.thy ===== *)
theory Session
  imports Json
begin

text \<open>
  The session of the web console: \<^verbatim>\<open>auth/frontend/src/contexts/AuthContext.tsx\<close> with the guard
  \<^verbatim>\<open>components/ProtectedRoute.tsx\<close>, the routes of \<^verbatim>\<open>App.tsx\<close> and the forms \<^verbatim>\<open>LoginPage.tsx\<close>,
  \<^verbatim>\<open>SignupPage.tsx\<close> and \<^verbatim>\<open>PlanChangePage.tsx\<close> that drive it.

  The state of \<^verbatim>\<open>AuthProvider\<close> (with the entry of \<^verbatim>\<open>localStorage\<close> and the requests in flight) is a
  record; \<open>session_step\<close> is what happens on a call of one of its functions and on the answer to
  one of its requests. After each such event React commits the new state and runs the effect if
  \<^verbatim>\<open>token\<close> or \<^verbatim>\<open>user\<close> changed; a user set from a response is a new object, hence a change.
  Answers may arrive in any order and at any time. They are well-typed: a login answer without a user,
  for which \<^verbatim>\<open>updateUserAndToken\<close> throws between \<^verbatim>\<open>setToken\<close> and \<^verbatim>\<open>localStorage.setItem\<close>, is not modelled.
\<close>

section \<open>Profiles\<close>

text \<open>The objects of the enums \<^verbatim>\<open>Plan\<close> and \<^verbatim>\<open>SubscriptionStatus\<close>: names to numbers and back.\<close>

definition Plan :: "js_val js_obj" where
  "Plan =
     [(''0'', JStr ''PLAN_UNSPECIFIED''), (''1'', JStr ''FREE''), (''2'', JStr ''PAID''),
      (''PLAN_UNSPECIFIED'', JNum (Fin 0)), (''FREE'', JNum (Fin 1)), (''PAID'', JNum (Fin 2))]"

definition SubscriptionStatus :: "js_val js_obj" where
  "SubscriptionStatus =
     [(''0'', JStr ''SUBSCRIPTION_STATUS_UNSPECIFIED''), (''1'', JStr ''ACTIVE''),
      (''2'', JStr ''CANCELED''), (''3'', JStr ''PAST_DUE''),
      (''SUBSCRIPTION_STATUS_UNSPECIFIED'', JNum (Fin 0)), (''ACTIVE'', JNum (Fin 1)),
      (''CANCELED'', JNum (Fin 2)), (''PAST_DUE'', JNum (Fin 3))]"

definition normalizePlan :: "js_val \<Rightarrow> js_num" where
  "normalizePlan plan =
     (case plan of
        JNum n \<Rightarrow> n
      | JStr s \<Rightarrow> (case map_of Plan s of Some (JNum n) \<Rightarrow> n | _ \<Rightarrow> Fin 1)
      | _ \<Rightarrow> Fin 1)"

definition normalizeSubscriptionStatus :: "js_val \<Rightarrow> js_num" where
  "normalizeSubscriptionStatus status =
     (case status of
        JNum n \<Rightarrow> n
      | JStr s \<Rightarrow> (case map_of SubscriptionStatus s of Some (JNum n) \<Rightarrow> n | _ \<Rightarrow> Fin 0)
      | _ \<Rightarrow> Fin 0)"

record session_user =
  su_id :: string
  su_email :: string
  su_created_at :: js_num
  su_plan :: js_val
  su_subscription_status :: js_val

definition normalizeUserProfile :: "session_user \<Rightarrow> session_user" where
  "normalizeUserProfile user =
     user\<lparr>su_plan := JNum (normalizePlan (su_plan user)),
          su_subscription_status := JNum (normalizeSubscriptionStatus (su_subscription_status user))\<rparr>"

section \<open>The provider\<close>

datatype request = ReqProfile | ReqLogin | ReqRegister | ReqSignupLogin

record session =
  s_stored :: "string option"
  s_token :: "string option"
  s_user :: "session_user option"
  s_isLoading :: bool
  s_error :: "string option"
  s_pending :: "request list"
  s_due :: bool

definition setToken :: "string option \<Rightarrow> session \<Rightarrow> session" where
  "setToken t s = s\<lparr>s_token := t, s_due := s_due s \<or> t \<noteq> s_token s\<rparr>"

definition setUser :: "session_user option \<Rightarrow> session \<Rightarrow> session" where
  "setUser u s = s\<lparr>s_user := u, s_due := s_due s \<or> u \<noteq> None \<or> s_user s \<noteq> None\<rparr>"

definition setError :: "string option \<Rightarrow> session \<Rightarrow> session" where
  "setError e s = s\<lparr>s_error := e\<rparr>"

definition setIsLoading :: "bool \<Rightarrow> session \<Rightarrow> session" where
  "setIsLoading b s = s\<lparr>s_isLoading := b\<rparr>"

definition setItem :: "string option \<Rightarrow> session \<Rightarrow> session" where
  "setItem t s = s\<lparr>s_stored := t\<rparr>"

definition send :: "request \<Rightarrow> session \<Rightarrow> session" where
  "send r s = s\<lparr>s_pending := s_pending s @ [r]\<rparr>"

definition logout :: "session \<Rightarrow> session" where
  "logout s = setError None (setUser None (setToken None (setItem None s)))"

definition updateUserAndToken :: "session_user \<Rightarrow> string \<Rightarrow> session \<Rightarrow> session" where
  "updateUserAndToken user token s =
     setItem (Some token) (setUser (Some (normalizeUserProfile user)) (setToken (Some token) s))"

definition truthy_str :: "string option \<Rightarrow> bool" where
  "truthy_str x = (case x of None \<Rightarrow> False | Some s \<Rightarrow> s \<noteq> [])"

text \<open>The effect with dependencies \<^verbatim>\<open>[token, user]\<close>.\<close>

definition run_effect :: "session \<Rightarrow> session" where
  "run_effect s =
     (if truthy_str (s_token s) \<and> s_user s = None then send ReqProfile s else setIsLoading False s)"

definition commit :: "session \<Rightarrow> session" where
  "commit s = (if s_due s then run_effect (s\<lparr>s_due := False\<rparr>) else s)"

definition AuthProvider :: "string option \<Rightarrow> session" where
  "AuthProvider stored =
     commit \<lparr>s_stored = stored, s_token = stored, s_user = None, s_isLoading = True, s_error = None,
             s_pending = [], s_due = True\<rparr>"

text \<open>The errors of \<^verbatim>\<open>axios\<close>: the message in the body of the answer, and the one of the exception.\<close>

record http_error =
  he_response :: "string option"
  he_message :: "string option"

definition error_text :: "http_error \<Rightarrow> string \<Rightarrow> string" where
  "error_text err fallback =
     (if truthy_str (he_response err) then the (he_response err)
      else if truthy_str (he_message err) then the (he_message err)
      else fallback)"

text \<open>The two halves of \<^verbatim>\<open>login\<close> and of \<^verbatim>\<open>signup\<close>, before and after the request. The login inside
  \<^verbatim>\<open>signup\<close> reports its failure first; then the handler of \<^verbatim>\<open>signup\<close> reports it again.\<close>

definition login_call :: "request \<Rightarrow> session \<Rightarrow> session" where
  "login_call r s = send r (setError None s)"

definition login_failed :: "http_error \<Rightarrow> session \<Rightarrow> session" where
  "login_failed err s =
     setError (Some (error_text err ''Login failed. Please check your credentials.'')) s"

definition signup_failed :: "http_error \<Rightarrow> session \<Rightarrow> session" where
  "signup_failed err s = setError (Some (error_text err ''Signup failed. Please try again.'')) s"

definition profile_failed :: "session \<Rightarrow> session" where
  "profile_failed s =
     setIsLoading False (logout
       (setError (Some ''Failed to fetch user profile. Please log in again.'') s))"

datatype session_event =
    CallLogin | CallSignup | CallLogout
  | CallUpdate session_user string | CallSetUser session_user
  | ProfileOk session_user | ProfileFail
  | LoginOk session_user string | LoginFail http_error
  | RegisterOk | RegisterFail http_error
  | SignupLoginOk session_user string | SignupLoginFail http_error

text \<open>An answer needs a request it answers, which is then no longer in flight.\<close>

definition answered :: "request \<Rightarrow> (session \<Rightarrow> session) \<Rightarrow> session \<Rightarrow> session option" where
  "answered r f s =
     (if r \<in> set (s_pending s) then Some (commit (f (s\<lparr>s_pending := remove1 r (s_pending s)\<rparr>)))
      else None)"

fun session_step :: "session_event \<Rightarrow> session \<Rightarrow> session option" where
  "session_step CallLogin s = Some (commit (login_call ReqLogin s))"
| "session_step CallSignup s = Some (commit (send ReqRegister (setError None s)))"
| "session_step CallLogout s = Some (commit (logout s))"
| "session_step (CallUpdate u t) s = Some (commit (updateUserAndToken u t s))"
| "session_step (CallSetUser u) s = Some (commit (setUser (Some u) s))"
| "session_step (ProfileOk u) s =
     answered ReqProfile (\<lambda>s. setIsLoading False (setUser (Some (normalizeUserProfile u)) s)) s"
| "session_step ProfileFail s = answered ReqProfile profile_failed s"
| "session_step (LoginOk u t) s = answered ReqLogin (updateUserAndToken u t) s"
| "session_step (LoginFail err) s = answered ReqLogin (login_failed err) s"
| "session_step RegisterOk s = answered ReqRegister (login_call ReqSignupLogin) s"
| "session_step (RegisterFail err) s = answered ReqRegister (signup_failed err) s"
| "session_step (SignupLoginOk u t) s = answered ReqSignupLogin (updateUserAndToken u t) s"
| "session_step (SignupLoginFail err) s =
     answered ReqSignupLogin (\<lambda>s. signup_failed err (login_failed err s)) s"

fun session_run :: "session_event list \<Rightarrow> session \<Rightarrow> session option" where
  "session_run [] s = Some s"
| "session_run (e # es) s = Option.bind (session_step e s) (session_run es)"

inductive session_reach :: "session \<Rightarrow> bool" where
  mount: "session_reach (AuthProvider stored)"
| event: "session_reach s \<Longrightarrow> session_step e s = Some t \<Longrightarrow> session_reach t"

section \<open>What the session gates\<close>

text \<open>The two API clients of the console; \<open>url\<close> is the variable of the build that names the server, and
  may be missing or empty.\<close>

record axios_config =
  ac_baseURL :: string
  ac_headers :: "string js_obj"
  ac_timeout :: nat

definition authApiClient :: "string option \<Rightarrow> axios_config" where
  "authApiClient url =
     \<lparr>ac_baseURL = (if truthy_str url then the url else ''http://localhost:10009''),
      ac_headers = [(''Content-Type'', ''application/json'')], ac_timeout = 15000\<rparr>"

definition apiGatewayApiClient :: "string option \<Rightarrow> axios_config" where
  "apiGatewayApiClient url =
     \<lparr>ac_baseURL = (if truthy_str url then the url else ''http://localhost:10012''),
      ac_headers = [(''Content-Type'', ''application/json'')], ac_timeout = 15000\<rparr>"

text \<open>The interceptor of both API clients, and \<^verbatim>\<open>getAuthHeaders\<close> of the management service.\<close>

definition authInterceptor :: "session \<Rightarrow> string js_obj \<Rightarrow> string js_obj" where
  "authInterceptor s headers =
     (case s_stored s of
        Some token \<Rightarrow> if token \<noteq> [] then js_set ''Authorization'' (''Bearer '' @ token) headers else headers
      | None \<Rightarrow> headers)"

datatype view = Spinner | RedirectLogin | Children

definition ProtectedRoute :: "session \<Rightarrow> view" where
  "ProtectedRoute s =
     (if s_isLoading s then Spinner else if s_user s = None then RedirectLogin else Children)"

text \<open>The routes: path, whether the element is wrapped in \<^verbatim>\<open>ProtectedRoute\<close>, and the nested routes,
  which are shown inside the element of their parent.\<close>

datatype route = Route string bool "route list"

definition App :: "route list" where
  "App =
     [Route ''/'' False [], Route ''/login'' False [], Route ''/signup'' False [],
      Route ''/dashboard'' True
        [Route [] False [], Route ''keys'' False [], Route ''settings'' False [],
         Route ''profile'' False [], Route ''billing'' False [], Route ''billing/change'' False [],
         Route ''collections'' False [], Route ''vectors'' False [], Route ''sdk'' False [],
         Route ''management'' False [], Route ''management/gateway'' False [],
         Route ''management/workers'' False [], Route ''management/collections'' False [],
         Route ''management/health'' False []],
      Route ''/dashboard/documentation'' True [],
      Route ''/*'' False []]"

fun flatten :: "string \<Rightarrow> bool \<Rightarrow> route \<Rightarrow> (string \<times> bool) list" where
  "flatten prefix guarded (Route path g children) =
     (let p = (if path = [] then prefix else if prefix = [] then path else prefix @ ''/'' @ path)
      in (p, guarded \<or> g) # concat (map (flatten p (guarded \<or> g)) children))"

section \<open>The forms\<close>

text \<open>The character classes of \<^verbatim>\<open>validatePassword\<close>: the loop tests them in this order.\<close>

definition in_range :: "nat \<Rightarrow> nat \<Rightarrow> char \<Rightarrow> bool" where
  "in_range a b c = (a \<le> (of_char c :: nat) \<and> (of_char c :: nat) \<le> b)"

abbreviation is_upper :: "char \<Rightarrow> bool" where "is_upper \<equiv> in_range 65 90"
abbreviation is_lower :: "char \<Rightarrow> bool" where "is_lower \<equiv> in_range 97 122"

fun scan_password :: "string \<Rightarrow> bool \<times> bool \<times> bool \<times> bool \<Rightarrow> bool \<times> bool \<times> bool \<times> bool" where
  "scan_password [] flags = flags"
| "scan_password (ch # value) (hasUpper, hasLower, hasDigit, hasSpecial) =
     (if is_upper ch then scan_password value (True, hasLower, hasDigit, hasSpecial)
      else if is_lower ch then scan_password value (hasUpper, True, hasDigit, hasSpecial)
      else if is_digit ch then scan_password value (hasUpper, hasLower, True, hasSpecial)
      else if \<not> (is_upper ch \<or> is_lower ch \<or> is_digit ch)
      then scan_password value (hasUpper, hasLower, hasDigit, True)
      else scan_password value (hasUpper, hasLower, hasDigit, hasSpecial))"

definition validatePassword :: "string \<Rightarrow> string option" where
  "validatePassword value =
     (if value = [] then Some ''Password is required.''
      else if length value < 8 then Some ''Password must be at least 8 characters long.''
      else if length value > 128 then Some ''Password must be at most 128 characters long.''
      else case scan_password value (False, False, False, False) of
          (hasUpper, hasLower, hasDigit, hasSpecial) \<Rightarrow>
            if length (filter id [hasUpper, hasLower, hasDigit, hasSpecial]) < 3
            then Some ''Password must contain at least 3 of: uppercase, lowercase, digits, special characters.''
            else None)"

text \<open>The fields of both forms; \<open>session_event option\<close> is the call made on submission.\<close>

record form =
  f_email :: string
  f_password :: string
  f_formError :: "string option"
  f_loading :: bool

definition LoginPage_handleSubmit :: "form \<Rightarrow> form \<times> session_event option" where
  "LoginPage_handleSubmit f = (f\<lparr>f_formError := None, f_loading := True\<rparr>, Some CallLogin)"

definition SignupPage_handleSubmit :: "form \<Rightarrow> form \<times> session_event option" where
  "SignupPage_handleSubmit f =
     (let f1 = f\<lparr>f_formError := None\<rparr> in
      case validatePassword (f_password f1) of
        Some pwdError \<Rightarrow>
          if pwdError \<noteq> [] then (f1\<lparr>f_formError := Some pwdError\<rparr>, None)
          else (f1\<lparr>f_loading := True\<rparr>, Some CallSignup)
      | None \<Rightarrow> (f1\<lparr>f_loading := True\<rparr>, Some CallSignup))"

text \<open>The handlers of a rejected \<^verbatim>\<open>login\<close> or \<^verbatim>\<open>signup\<close>, and the effect that leaves the form once there
  is a user.\<close>

definition form_rejected :: "form \<Rightarrow> form" where
  "form_rejected f = f\<lparr>f_loading := False\<rparr>"

definition LoginPage_navigate :: "session \<Rightarrow> string option \<Rightarrow> string option" where
  "LoginPage_navigate s from =
     (if s_user s \<noteq> None then Some (if truthy_str from then the from else ''/dashboard'') else None)"

definition SignupPage_navigate :: "session \<Rightarrow> string option" where
  "SignupPage_navigate s = (if s_user s \<noteq> None then Some ''/dashboard'' else None)"

section \<open>Changing the plan\<close>

record plan_change =
  pc_isLoading :: bool
  pc_error :: "string option"
  pc_navigate :: "string option"

definition currentPlan :: "session \<Rightarrow> js_val" where
  "currentPlan s = (case s_user s of None \<Rightarrow> JNum (Fin 1) | Some u \<Rightarrow> su_plan u)"

definition resolvedTargetPlan :: "session \<Rightarrow> js_num option \<Rightarrow> js_num" where
  "resolvedTargetPlan s targetPlan =
     (case targetPlan of
        Some p \<Rightarrow> p
      | None \<Rightarrow> if currentPlan s = JNum (Fin 2) then Fin 1 else Fin 2)"

definition isUpgrade :: "session \<Rightarrow> js_num option \<Rightarrow> bool" where
  "isUpgrade s targetPlan = js_eq (resolvedTargetPlan s targetPlan) (Fin 2)"

text \<open>\<^verbatim>\<open>handleConfirm\<close>: the request body, and what the answer does to the page and the session.\<close>

definition handleConfirm_call :: "plan_change \<Rightarrow> plan_change" where
  "handleConfirm_call p = p\<lparr>pc_isLoading := True, pc_error := None\<rparr>"

fun handleConfirm_answer ::
  "http_error + session_user \<times> string \<Rightarrow> plan_change \<times> session \<Rightarrow> plan_change \<times> session" where
  "handleConfirm_answer (Inr (updatedUser, jwtToken)) (p, s) =
     (p\<lparr>pc_navigate := Some ''/dashboard/billing'', pc_isLoading := False\<rparr>,
      commit (updateUserAndToken updatedUser jwtToken s))"
| "handleConfirm_answer (Inl err) (p, s) =
     (p\<lparr>pc_error := Some (error_text err ''An unexpected error occurred''), pc_isLoading := False\<rparr>, s)"

section \<open>Invariants\<close>

lemmas setter_defs =
  setToken_def setUser_def setError_def setIsLoading_def setItem_def send_def logout_def
  updateUserAndToken_def login_call_def login_failed_def signup_failed_def profile_failed_def

lemmas session_defs = setter_defs commit_def run_effect_def answered_def AuthProvider_def

text \<open>The token in \<^verbatim>\<open>localStorage\<close> is the one in the state; the spinner turns only while a profile is
  being fetched; and a token without a user means that its profile is still to come.\<close>

definition session_inv :: "session \<Rightarrow> bool" where
  "session_inv s \<longleftrightarrow>
     s_stored s = s_token s
     \<and> \<not> s_due s
     \<and> (s_isLoading s \<longrightarrow> ReqProfile \<in> set (s_pending s))
     \<and> (truthy_str (s_token s) \<and> s_user s = None \<longrightarrow> ReqProfile \<in> set (s_pending s))
     \<and> count_list (s_pending s) ReqProfile \<le> 1"

lemma session_inv_mount: "session_inv (AuthProvider stored)"
  by (simp add: session_inv_def session_defs)

lemma count_remove1: "x \<in> set xs \<Longrightarrow> count_list (remove1 x xs) x = count_list xs x - 1"
  by (induction xs) auto

lemma count_remove1_other: "x \<noteq> y \<Longrightarrow> count_list (remove1 y xs) x = count_list xs x"
  by (induction xs) auto

lemma in_remove1_other: "x \<noteq> y \<Longrightarrow> x \<in> set (remove1 y xs) \<longleftrightarrow> x \<in> set xs"
  by (induction xs) auto

lemma not_in_remove1: "count_list xs x \<le> 1 \<Longrightarrow> x \<notin> set (remove1 x xs)"
  by (induction xs) (auto simp: count_list_0_iff split: if_splits)

lemmas pending_simps =
  count_remove1 count_remove1_other in_remove1_other not_in_remove1

lemma session_inv_call:
  assumes "session_inv s"
  shows "session_inv (commit (login_call ReqLogin s))"
    "session_inv (commit (send ReqRegister (setError None s)))"
    "session_inv (commit (logout s))"
    "session_inv (commit (updateUserAndToken u t s))"
    "session_inv (commit (setUser (Some u) s))"
  using assms by (auto simp: session_inv_def session_defs pending_simps truthy_str_def)

lemma session_inv_answers:
  "session_inv s \<Longrightarrow> answered ReqProfile (\<lambda>s. setIsLoading False (setUser (Some u) s)) s = Some t \<Longrightarrow>
     session_inv t"
  "session_inv s \<Longrightarrow> answered ReqProfile profile_failed s = Some t \<Longrightarrow> session_inv t"
  "session_inv s \<Longrightarrow> answered r (updateUserAndToken u tok) s = Some t \<Longrightarrow> r \<noteq> ReqProfile \<Longrightarrow> session_inv t"
  "session_inv s \<Longrightarrow> answered r (login_failed err) s = Some t \<Longrightarrow> r \<noteq> ReqProfile \<Longrightarrow> session_inv t"
  "session_inv s \<Longrightarrow> answered r (signup_failed err) s = Some t \<Longrightarrow> r \<noteq> ReqProfile \<Longrightarrow> session_inv t"
  "session_inv s \<Longrightarrow> answered r (login_call ReqSignupLogin) s = Some t \<Longrightarrow> r \<noteq> ReqProfile \<Longrightarrow> session_inv t"
  "session_inv s \<Longrightarrow> answered r (\<lambda>s. signup_failed err (login_failed err s)) s = Some t \<Longrightarrow>
     r \<noteq> ReqProfile \<Longrightarrow> session_inv t"
  by (auto simp: session_inv_def session_defs pending_simps truthy_str_def split: if_splits option.splits)

lemma session_inv_step: "session_inv s \<Longrightarrow> session_step e s = Some t \<Longrightarrow> session_inv t"
  by (cases e) (auto dest: session_inv_answers simp: session_inv_call)

lemma session_reach_inv: "session_reach s \<Longrightarrow> session_inv s"
  by (induction rule: session_reach.induct) (auto intro: session_inv_mount session_inv_step)

text \<open>The requests of both clients are JSON and carry the token of the session, if it has one.\<close>

lemma requests_carry_token:
  assumes "session_reach s" "client \<in> {authApiClient url, apiGatewayApiClient url}"
  shows "map_of (authInterceptor s (ac_headers client)) =
    [''Content-Type'' \<mapsto> ''application/json'']
      (''Authorization'' := if truthy_str (s_token s) then Some (''Bearer '' @ the (s_token s)) else None)"
proof -
  have headers: "ac_headers client = [(''Content-Type'', ''application/json'')]"
    using assms(2) by (elim insertE emptyE) (simp_all add: authApiClient_def apiGatewayApiClient_def)
  have stored: "s_stored s = s_token s" using session_reach_inv [OF assms(1)] by (simp add: session_inv_def)
  show ?thesis
    by (cases "s_token s") (simp_all add: authInterceptor_def headers stored truthy_str_def js_set_lookup)
qed

text \<open>Orderly runs: nobody logs out while the first profile is being fetched, and \<^verbatim>\<open>setUser\<close> is called
  only in a session that has a token.\<close>

definition orderly :: "session_event \<Rightarrow> session \<Rightarrow> bool" where
  "orderly e s =
     (case e of
        CallLogout \<Rightarrow> ReqProfile \<notin> set (s_pending s)
      | CallSetUser u \<Rightarrow> s_token s \<noteq> None
      | _ \<Rightarrow> True)"

inductive orderly_reach :: "session \<Rightarrow> bool" where
  mount: "orderly_reach (AuthProvider stored)"
| event: "orderly_reach s \<Longrightarrow> orderly e s \<Longrightarrow> session_step e s = Some t \<Longrightarrow> orderly_reach t"

definition token_inv :: "session \<Rightarrow> bool" where
  "token_inv s \<longleftrightarrow>
     session_inv s \<and> (s_user s \<noteq> None \<or> ReqProfile \<in> set (s_pending s) \<longrightarrow> s_token s \<noteq> None)"

lemma token_inv_mount: "token_inv (AuthProvider stored)"
  using session_inv_mount [of stored]
  by (auto simp: token_inv_def session_defs truthy_str_def split: option.splits)

lemma token_inv_step:
  assumes "token_inv s" "orderly e s" "session_step e s = Some t"
  shows "token_inv t"
proof -
  have "session_inv t" using assms session_inv_step by (auto simp: token_inv_def)
  moreover have "s_token t \<noteq> None" if "s_user t \<noteq> None \<or> ReqProfile \<in> set (s_pending t)"
    using assms that
    by (cases e)
       (auto simp: token_inv_def session_inv_def orderly_def session_defs pending_simps truthy_str_def
         split: if_splits option.splits)
  ultimately show ?thesis by (simp add: token_inv_def)
qed

lemma orderly_reach_inv: "orderly_reach s \<Longrightarrow> token_inv s"
  by (induction rule: orderly_reach.induct) (auto intro: token_inv_mount token_inv_step)

section \<open>Properties\<close>

text \<open>C31: In every reachable session the token in \<^verbatim>\<open>localStorage\<close>, which the request interceptor
  reads, is the token of the state, and the loading spinner is shown only while a profile request is
  still unanswered: the console cannot stay stuck on it once the request has settled.\<close>

theorem session_consistent:
  assumes "session_reach s"
  shows "s_stored s = s_token s \<and> (s_isLoading s \<longrightarrow> ReqProfile \<in> set (s_pending s))"
  using session_reach_inv [OF assms] by (simp add: session_inv_def)

definition sample_user :: session_user where
  "sample_user =
     \<lparr>su_id = ''u1'', su_email = ''a@b'', su_created_at = Fin 0, su_plan = JStr ''PAID'',
      su_subscription_status = JNull\<rparr>"

theorem session_consistent_witness:
  "s_stored (AuthProvider (Some ''t'')) = s_token (AuthProvider (Some ''t''))
     \<and> s_isLoading (AuthProvider (Some ''t'')) \<and> ReqProfile \<in> set (s_pending (AuthProvider (Some ''t'')))"
  using session_consistent [OF session_reach.mount [of "Some ''t''"]]
  by (auto simp: session_defs truthy_str_def)

text \<open>C10: In orderly runs (no logout while the first profile is being fetched) protected pages are
  shown only in a session that has a token, so the requests they make carry it.\<close>

theorem protected_pages_have_token:
  assumes "orderly_reach s" "ProtectedRoute s = Children"
  shows "\<exists>t. s_stored s = Some t \<and> s_token s = Some t"
proof -
  have "s_user s \<noteq> None" using assms(2) by (auto simp: ProtectedRoute_def split: if_splits)
  with orderly_reach_inv [OF assms(1)] show ?thesis by (auto simp: token_inv_def session_inv_def)
qed

lemma orderly_login:
  "\<exists>s. orderly_reach s \<and> ProtectedRoute s = Children \<and> s_token s = Some ''t''"
proof -
  let ?s0 = "AuthProvider None"
  have s1: "session_step CallLogin ?s0 = Some (commit (login_call ReqLogin ?s0))" by simp
  have r1: "orderly_reach (commit (login_call ReqLogin ?s0))"
    by (rule orderly_reach.event [OF orderly_reach.mount _ s1]) (simp add: orderly_def)
  obtain s2 where s2: "session_step (LoginOk sample_user ''t'') (commit (login_call ReqLogin ?s0)) = Some s2"
    by (simp add: session_defs truthy_str_def)
  have "orderly_reach s2" by (rule orderly_reach.event [OF r1 _ s2]) (simp add: orderly_def)
  moreover have "ProtectedRoute s2 = Children \<and> s_token s2 = Some ''t''"
    using s2 by (auto simp: session_defs truthy_str_def ProtectedRoute_def)
  ultimately show ?thesis by blast
qed

theorem protected_pages_have_token_witness:
  "\<exists>s. orderly_reach s \<and> ProtectedRoute s = Children \<and> s_stored s = Some ''t''"
proof -
  obtain s where s: "orderly_reach s" "ProtectedRoute s = Children" "s_token s = Some ''t''"
    using orderly_login by blast
  from protected_pages_have_token [OF s(1,2)] s show ?thesis by auto
qed

text \<open>C37: Logging out while the first profile is being fetched does not end the session: the late
  answer puts the user back, and the protected pages are shown although the token is gone.\<close>

theorem late_profile_after_logout:
  assumes "session_reach s" "ReqProfile \<in> set (s_pending s)"
  shows "\<exists>t. session_run [CallLogout, ProfileOk u] s = Some t
     \<and> s_token t = None \<and> s_stored t = None \<and> ProtectedRoute t = Children"
  using assms(2) session_reach_inv [OF assms(1)]
  by (simp add: session_inv_def session_defs truthy_str_def ProtectedRoute_def)

theorem late_profile_after_logout_witness:
  "\<exists>t. session_run [CallLogout, ProfileOk sample_user] (AuthProvider (Some ''t'')) = Some t
     \<and> s_token t = None \<and> s_stored t = None \<and> ProtectedRoute t = Children"
  by (rule late_profile_after_logout [OF session_reach.mount])
     (simp add: session_defs truthy_str_def)

text \<open>A login that succeeds while the profile of an expired token is still being fetched is lost
  again when that fetch fails: the new token is removed, and the user is sent to the login page
  without an error message.\<close>

theorem stale_failure_discards_login:
  assumes "session_reach s" "ReqProfile \<in> set (s_pending s)" "ReqLogin \<in> set (s_pending s)"
  shows "\<exists>t. session_run [LoginOk u tok, ProfileFail] s = Some t
     \<and> s_stored t = None \<and> s_error t = None \<and> ProtectedRoute t = RedirectLogin"
  using assms(2,3) session_reach_inv [OF assms(1)]
  by (simp add: session_inv_def session_defs truthy_str_def ProtectedRoute_def in_remove1_other)

theorem stale_failure_discards_login_witness:
  "\<exists>t. session_run [LoginOk sample_user ''new'', ProfileFail]
       (commit (login_call ReqLogin (AuthProvider (Some ''old'')))) = Some t
     \<and> s_stored t = None \<and> s_error t = None \<and> ProtectedRoute t = RedirectLogin"
proof (rule stale_failure_discards_login)
  show "session_reach (commit (login_call ReqLogin (AuthProvider (Some ''old''))))"
    by (rule session_reach.event [OF session_reach.mount, of CallLogin "Some ''old''"]) simp
qed (simp_all add: session_defs truthy_str_def)

text \<open>The message that a failed profile fetch sets is never seen: the logout that follows in the
  same handler clears it, so the user is redirected to the login page without an explanation.\<close>

theorem profile_failure_is_silent:
  assumes "session_step ProfileFail s = Some t"
  shows "s_error t = None \<and> ProtectedRoute t = RedirectLogin"
  using assms by (auto simp: session_defs truthy_str_def ProtectedRoute_def split: if_splits)

theorem profile_failure_is_silent_witness:
  "\<exists>t. session_step ProfileFail (AuthProvider (Some ''t'')) = Some t
     \<and> s_error t = None \<and> ProtectedRoute t = RedirectLogin"
proof -
  obtain t where "session_step ProfileFail (AuthProvider (Some ''t'')) = Some t"
    by (simp add: session_defs truthy_str_def)
  with profile_failure_is_silent [OF this] show ?thesis by blast
qed

text \<open>The classes that occur in a password.\<close>

definition char_class :: "char \<Rightarrow> nat" where
  "char_class c = (if is_upper c then 0 else if is_lower c then 1 else if is_digit c then 2 else 3)"

lemma scan_password_flags:
  "scan_password pw (u, l, d, s) =
     (u \<or> 0 \<in> char_class ` set pw, l \<or> 1 \<in> char_class ` set pw,
      d \<or> 2 \<in> char_class ` set pw, s \<or> 3 \<in> char_class ` set pw)"
proof (induction pw arbitrary: u l d s)
  case Nil
  then show ?case by simp
next
  case (Cons c cs)
  then show ?case
    by (cases "is_upper c"; cases "is_lower c"; cases "is_digit c") (auto simp: char_class_def)
qed

lemma count_classes:
  assumes "A \<subseteq> {0, 1, 2, 3 :: nat}"
  shows "length (filter id [0 \<in> A, 1 \<in> A, 2 \<in> A, 3 \<in> A]) = card A"
proof -
  have "A = set (filter (\<lambda>i. i \<in> A) [0, 1, 2, 3])" using assms by auto
  moreover have "distinct (filter (\<lambda>i. i \<in> A) [0, 1, 2, 3])" by simp
  ultimately have "card A = length (filter (\<lambda>i. i \<in> A) [0, 1, 2, 3])" by (metis distinct_card)
  then show ?thesis by simp
qed

text \<open>C32: The sign-up form accepts exactly the passwords of 8 to 128 characters that contain
  characters of at least three of the four classes upper case, lower case, digit and other.\<close>

theorem validatePassword_iff:
  "validatePassword pw = None \<longleftrightarrow>
     8 \<le> length pw \<and> length pw \<le> 128 \<and> 3 \<le> card (char_class ` set pw)"
proof -
  have "char_class ` set pw \<subseteq> {0, 1, 2, 3}" by (auto simp: char_class_def)
  note classes = count_classes [OF this]
  have "validatePassword pw = None \<longleftrightarrow> pw \<noteq> [] \<and> \<not> length pw < 8 \<and> \<not> length pw > 128
      \<and> \<not> card (char_class ` set pw) < 3"
    unfolding validatePassword_def scan_password_flags prod.case simp_thms classes by simp
  then show ?thesis by auto
qed

text \<open>Exactly the routes under \<^verbatim>\<open>/dashboard\<close> are guarded by \<^verbatim>\<open>ProtectedRoute\<close>, the nested ones
  and the documentation page included; the landing, login, sign-up and fallback pages are not.\<close>

theorem dashboard_routes_guarded:
  "list_all (\<lambda>(path, guarded). guarded = (take (length ''/dashboard'') path = ''/dashboard''))
     (concat (map (flatten [] False) App))"
  by code_simp

end
