(* ===== verification/Dashboard_Page.thy ===== *)
theory Dashboard_Page
  imports Monitor_Pages Vector_Ops
begin

text \<open>
  The overview of the dashboard, \<^verbatim>\<open>auth/frontend/src/pages/Dashboard.tsx\<close>: three requests that are sent
  together and joined by \<^verbatim>\<open>Promise.all\<close>, and the bars of the request volume.

  \<^verbatim>\<open>Promise.all\<close> keeps the results that arrived and settles once: with all three results, or with the
  first failure. Here the results are part of the state of the page, \<open>join\<close>.
\<close>

section \<open>Loading\<close>

record join =
  j_health :: "js_val option"
  j_gateway :: "js_val option"
  j_collections :: "js_val option"

record dashboard =
  db_systemHealth :: js_val
  db_gatewayStats :: js_val
  db_gatewayEndpoints :: js_val
  db_collections :: "vec_collection list"
  db_loading :: bool
  db_join :: "join option"

definition new_dashboard :: dashboard where
  "new_dashboard =
     \<lparr>db_systemHealth = JNull, db_gatewayStats = JNull, db_gatewayEndpoints = JArr [], db_collections = [],
      db_loading = True, db_join = None\<rparr>"

datatype overview_part = PartHealth | PartGateway | PartCollections

text \<open>\<^verbatim>\<open>apiGatewayApiClient.get("/v1/collections")\<close>; the result here is the data of the response.\<close>

definition list_request :: "js_val flow" where
  "list_request =
     Request \<lparr>hr_verb = GET, hr_url = ''/v1/collections'', hr_body = JUndefined, hr_headers = []\<rparr>
       (\<lambda>tok ans. Finished ans)"

definition fetchOverviewData :: "string \<Rightarrow> string option \<Rightarrow> (dashboard, overview_part waiting) seg" where
  "fetchOverviewData url tok =
     seg_then (set_state (\<lambda>s. s\<lparr>db_join := Some \<lparr>j_health = None, j_gateway = None, j_collections = None\<rparr>\<rparr>))
       (seg_then (call (getSystemHealth url tok) PartHealth)
         (seg_then (call (getGatewayStats url tok) PartGateway) (call list_request PartCollections)))"

text \<open>The \<^verbatim>\<open>finally\<close>; the join is over.\<close>

definition overview_done :: "dashboard \<Rightarrow> dashboard" where
  "overview_done s = s\<lparr>db_loading := False, db_join := None\<rparr>"

text \<open>The setters run one after the other; an exception in the \<^verbatim>\<open>map\<close> of the collections comes after the
  first three.\<close>

definition overview_loaded :: "js_val \<Rightarrow> js_val \<Rightarrow> js_val \<Rightarrow> dashboard \<Rightarrow> dashboard" where
  "overview_loaded health gateway data s =
     (let s1 = s\<lparr>db_systemHealth := health, db_gatewayStats := js_get gateway ''stats'',
                 db_gatewayEndpoints := js_or (js_get gateway ''endpoints'') (JArr [])\<rparr>
      in case mapped_collections (Inr data) of
           Inr mapped \<Rightarrow> overview_done (s1\<lparr>db_collections := mapped\<rparr>)
         | Inl err \<Rightarrow> overview_done s1)"

fun join_part :: "overview_part \<Rightarrow> js_val \<Rightarrow> join \<Rightarrow> join" where
  "join_part PartHealth v j = j\<lparr>j_health := Some v\<rparr>"
| "join_part PartGateway v j = j\<lparr>j_gateway := Some v\<rparr>"
| "join_part PartCollections v j = j\<lparr>j_collections := Some v\<rparr>"

definition overview_part_settled ::
  "overview_part \<Rightarrow> js_error + js_val \<Rightarrow> (dashboard, overview_part waiting) seg" where
  "overview_part_settled part r =
     set_state (\<lambda>s. case db_join s of
        None \<Rightarrow> s
      | Some j \<Rightarrow>
          (case r of
             Inl err \<Rightarrow> overview_done s
           | Inr v \<Rightarrow>
               let j' = join_part part v j
               in case (j_health j', j_gateway j', j_collections j') of
                    (Some h, Some g, Some d) \<Rightarrow> overview_loaded h g d s
                  | _ \<Rightarrow> s\<lparr>db_join := Some j'\<rparr>))"

text \<open>Nothing on the page fetches again; it has no events.\<close>

definition Dashboard :: "string \<Rightarrow> (dashboard, unit, overview_part waiting) page" where
  "Dashboard url =
     \<lparr>on_mount = fetchOverviewData url, on_event = (\<lambda>e tok. seg_skip),
      on_answer = resume (\<lambda>k tok r. overview_part_settled k r), on_commit = (\<lambda>old tok. seg_skip)\<rparr>"

section \<open>Breadcrumbs\<close>

text \<open>\<^verbatim>\<open>s.split(c)\<close> and \<^verbatim>\<open>ss.join(c)\<close> for a separator of one character.\<close>

fun js_split :: "char \<Rightarrow> string \<Rightarrow> string list" where
  "js_split sep [] = [[]]"
| "js_split sep (c # cs) =
     (if c = sep then [] # js_split sep cs
      else (c # hd (js_split sep cs)) # tl (js_split sep cs))"

fun js_join :: "char \<Rightarrow> string list \<Rightarrow> string" where
  "js_join sep [] = []"
| "js_join sep [s] = s"
| "js_join sep (s # ss) = s @ sep # js_join sep ss"

definition pathnames :: "string \<Rightarrow> string list" where
  "pathnames path = filter (\<lambda>x. x \<noteq> []) (js_split (CHR ''/'') path)"

definition isMainDashboard :: "string \<Rightarrow> bool" where
  "isMainDashboard path = (length (pathnames path) = 1 \<and> pathnames path ! 0 = ''dashboard'')"

text \<open>The entries after the first one: the link and its text.\<close>

definition breadcrumbs :: "string \<Rightarrow> (string \<times> string) list" where
  "breadcrumbs path =
     map (\<lambda>index. (''/dashboard/'' @ js_join (CHR ''/'') (take (index + 1) (drop 1 (pathnames path))),
                   drop 1 (pathnames path) ! index))
       [0..<length (drop 1 (pathnames path))]"

lemma js_split_free: "sep \<notin> set s \<Longrightarrow> js_split sep s = [s]"
  by (induction s) auto

lemma js_split_append: "sep \<notin> set s \<Longrightarrow> js_split sep (s @ sep # t) = s # js_split sep t"
  by (induction s) auto

lemma js_split_join:
  "list_all (\<lambda>s. sep \<notin> set s) ss \<Longrightarrow> ss \<noteq> [] \<Longrightarrow> js_split sep (js_join sep ss) = ss"
  by (induction sep ss rule: js_join.induct) (auto simp: js_split_free js_split_append)

text \<open>The paths of the pages under the dashboard.\<close>

definition page_path :: "string list \<Rightarrow> string" where
  "page_path segs = CHR ''/'' # js_join (CHR ''/'') (''dashboard'' # segs)"

lemma pathnames_page_path:
  assumes "list_all (\<lambda>s. s \<noteq> [] \<and> CHR ''/'' \<notin> set s) segs"
  shows "pathnames (page_path segs) = ''dashboard'' # segs"
proof -
  have "js_split (CHR ''/'') (js_join (CHR ''/'') (''dashboard'' # segs)) = ''dashboard'' # segs"
    using assms by (intro js_split_join) (auto simp: list_all_iff)
  then show ?thesis
    using assms by (auto simp: pathnames_def page_path_def list_all_iff filter_id_conv)
qed

lemma page_path_take:
  "i < length segs \<Longrightarrow> page_path (take (Suc i) segs) = ''/dashboard/'' @ js_join (CHR ''/'') (take (Suc i) segs)"
  by (cases segs) (simp_all add: page_path_def)

text \<open>On the page with the given parts of its path there is one breadcrumb for each part, and the link of
  the last one is the page itself.\<close>

theorem breadcrumbs_lead_here:
  assumes "list_all (\<lambda>s. s \<noteq> [] \<and> CHR ''/'' \<notin> set s) segs"
  shows "breadcrumbs (page_path segs) = map (\<lambda>i. (page_path (take (Suc i) segs), segs ! i)) [0..<length segs]
    \<and> isMainDashboard (page_path segs) = (segs = [])"
  using pathnames_page_path [OF assms]
  by (auto simp: breadcrumbs_def isMainDashboard_def page_path_take)
section \<open>Bars\<close>

text \<open>\<^verbatim>\<open>e.count || 0\<close> as a number. The code sorts a copy by \<^verbatim>\<open>(b.count || 0) - (a.count || 0)\<close>; the sort is
  stable, and an element goes before another when the comparison is negative. (For counts that are
  not numbers the order is left to the engine.)\<close>

definition count_of :: "text_conv \<Rightarrow> js_val \<Rightarrow> js_num" where
  "count_of K e = js_Number K (js_or (js_get e ''count'') (JNum (Fin 0)))"

fun insert_by_count :: "text_conv \<Rightarrow> js_val \<Rightarrow> js_val list \<Rightarrow> js_val list" where
  "insert_by_count K x [] = [x]"
| "insert_by_count K x (y # ys) =
     (if js_lt (count_of K x) (count_of K y) then y # insert_by_count K x ys else x # y # ys)"

definition sort_by_count :: "text_conv \<Rightarrow> js_val list \<Rightarrow> js_val list" where
  "sort_by_count K es = foldr (insert_by_count K) es []"

record bar =
  bar_key :: string
  bar_height :: js_num
  bar_count :: js_val

definition js_div_num :: "js_num \<Rightarrow> js_num \<Rightarrow> js_num" where
  "js_div_num x y =
     (case (x, y) of
        (Fin a, Fin b) \<Rightarrow> if b \<noteq> 0 then Fin (a / b) else if a = 0 then NaN else if 0 < a then PosInf else NegInf
      | (Fin a, PosInf) \<Rightarrow> Fin 0
      | (Fin a, NegInf) \<Rightarrow> Fin 0
      | (PosInf, Fin b) \<Rightarrow> if 0 \<le> b then PosInf else NegInf
      | (NegInf, Fin b) \<Rightarrow> if 0 \<le> b then NegInf else PosInf
      | _ \<Rightarrow> NaN)"

definition bar_of :: "text_conv \<Rightarrow> js_num \<Rightarrow> js_val \<Rightarrow> bar" where
  "bar_of K m e =
     \<lparr>bar_key = js_String K (js_or (js_get e ''method'') (JStr ''GET'')) @ '' ''
                  @ js_String K (js_or (js_get e ''path'') (JStr ''-'')),
      bar_height = js_max (Fin 5) (js_round (js_mul (js_div_num (count_of K e) m) (Fin 100))),
      bar_count = js_or (js_get e ''count'') (JNum (Fin 0))\<rparr>"

definition requestVolumeBars :: "text_conv \<Rightarrow> dashboard \<Rightarrow> js_error + bar list" where
  "requestVolumeBars K s =
     (if \<not> js_Boolean (db_gatewayEndpoints s) then Inr []
      else res_bind (js_array (db_gatewayEndpoints s)) (\<lambda>es.
        if es = [] then Inr []
        else if list_all isSet es
        then let sorted = take 12 (sort_by_count K es);
                 m = foldl js_max (Fin 1) (map (count_of K) sorted)
             in Inr (map (bar_of K m) sorted)
        else Inl type_error))"

section \<open>Laws\<close>

lemma mset_insert_by_count: "mset (insert_by_count K x ys) = add_mset x (mset ys)"
  by (induction ys) auto

lemma mset_sort_by_count: "mset (sort_by_count K es) = mset es"
  unfolding sort_by_count_def by (induction es) (simp_all add: mset_insert_by_count)

lemma set_insert_by_count: "set (insert_by_count K x ys) = insert x (set ys)"
  by (metis mset_insert_by_count set_mset_add_mset_insert set_mset_mset)

lemma set_sort_by_count: "set (sort_by_count K es) = set es"
  by (metis mset_sort_by_count set_mset_mset)

text \<open>Counts are numbers, as the type of the endpoints says.\<close>

definition counts_ok :: "text_conv \<Rightarrow> js_val list \<Rightarrow> bool" where
  "counts_ok K es \<longleftrightarrow> (\<forall>e \<in> set es. isSet e \<and> (\<exists>q \<ge> 0. count_of K e = Fin q))"

definition the_count :: "text_conv \<Rightarrow> js_val \<Rightarrow> rat" where
  "the_count K e = (case count_of K e of Fin q \<Rightarrow> q | _ \<Rightarrow> 0)"

lemma the_count: "counts_ok K es \<Longrightarrow> e \<in> set es \<Longrightarrow> count_of K e = Fin (the_count K e) \<and> 0 \<le> the_count K e"
  by (auto simp: counts_ok_def the_count_def)

lemma sorted_insert_by_count:
  assumes "sorted_wrt (\<lambda>a b. the_count K b \<le> the_count K a) ys" and "counts_ok K (x # ys)"
  shows "sorted_wrt (\<lambda>a b. the_count K b \<le> the_count K a) (insert_by_count K x ys)"
  using assms
proof (induction ys)
  case (Cons y ys)
  then have "counts_ok K (x # ys)" by (simp add: counts_ok_def)
  from Cons.IH [OF _ this] Cons.prems the_count [OF Cons.prems(2), of x] the_count [OF Cons.prems(2), of y]
  show ?case by (auto simp: set_insert_by_count)
qed simp

lemma sorted_sort_by_count:
  "counts_ok K es \<Longrightarrow> sorted_wrt (\<lambda>a b. the_count K b \<le> the_count K a) (sort_by_count K es)"
proof (induction es)
  case (Cons e es)
  then have "counts_ok K es" by (simp add: counts_ok_def)
  moreover from Cons.prems have "counts_ok K (e # sort_by_count K es)"
    by (simp add: counts_ok_def set_sort_by_count)
  ultimately show ?case
    using Cons.IH sorted_insert_by_count unfolding sort_by_count_def by simp
qed (simp add: sort_by_count_def)

lemma foldl_js_max:
  "\<forall>x \<in> set xs. \<exists>q. x = Fin q \<Longrightarrow> \<exists>m \<ge> a. foldl js_max (Fin a) xs = Fin m \<and> (\<forall>q. Fin q \<in> set xs \<longrightarrow> q \<le> m)"
proof (induction xs arbitrary: a)
  case (Cons x xs)
  then obtain q where x: "x = Fin q" by auto
  from Cons.IH [of "max a q"] Cons.prems obtain m where
    "m \<ge> max a q" "foldl js_max (Fin (max a q)) xs = Fin m" "\<forall>q. Fin q \<in> set xs \<longrightarrow> q \<le> m" by auto
  with x show ?case by (intro exI [of _ m]) auto
qed auto

lemma bar_height_range:
  assumes "count_of K e = Fin c" "0 \<le> c" "c \<le> m" "1 \<le> m"
  shows "bar_height (bar_of K (Fin m) e) = num_of_int (max 5 \<lfloor>c / m * 100 + 1 / 2\<rfloor>)
    \<and> \<lfloor>c / m * 100 + 1 / 2\<rfloor> \<le> 100"
proof -
  have "c / m \<le> 1" using assms by simp
  then have "\<lfloor>c / m * 100 + 1 / 2\<rfloor> \<le> 100" by linarith
  moreover have "max 5 (of_int i) = (of_int (max 5 i) :: rat)" for i :: int by (simp add: max_def)
  ultimately show ?thesis using assms by (simp add: bar_of_def js_div_num_def)
qed

lemma bars_shape:
  assumes "db_gatewayEndpoints s = JArr es" and "counts_ok K es"
  obtains m where "requestVolumeBars K s = Inr (map (bar_of K (Fin m)) (take 12 (sort_by_count K es)))"
    and "1 \<le> m" and "\<forall>e \<in> set (take 12 (sort_by_count K es)). the_count K e \<le> m"
proof (cases "es = []")
  case True
  with assms(1) show ?thesis by (intro that [of 1]) (simp_all add: requestVolumeBars_def js_array_def sort_by_count_def)
next
  case False
  let ?top = "take 12 (sort_by_count K es)"
  have sub: "e \<in> set ?top \<Longrightarrow> e \<in> set es" for e by (metis in_set_takeD set_sort_by_count)
  with the_count [OF assms(2)] have "\<forall>x \<in> set (map (count_of K) ?top). \<exists>q. x = Fin q" by fastforce
  from foldl_js_max [OF this, of 1] obtain m where m: "1 \<le> m"
    "foldl js_max (Fin 1) (map (count_of K) ?top) = Fin m" "\<forall>q. Fin q \<in> set (map (count_of K) ?top) \<longrightarrow> q \<le> m" by blast
  moreover have "\<forall>e \<in> set ?top. the_count K e \<le> m"
    using m(3) the_count [OF assms(2)] sub by (metis image_eqI set_map)
  moreover have "list_all isSet es" using assms(2) by (simp add: counts_ok_def list_all_iff)
  ultimately show ?thesis
    using False assms(1) by (intro that [of m]) (simp_all add: requestVolumeBars_def js_array_def Let_def)
qed

section \<open>Properties\<close>

text \<open>C35: The bars of the request volume fit their frame and show the busiest endpoints: there are at most
  twelve, each is between 5 and 100 percent high, they fall from left to right, and no endpoint
  that is left out has more requests than one that is shown.\<close>

theorem bars_show_busiest:
  assumes "db_gatewayEndpoints s = JArr es" and "counts_ok K es"
  shows "\<exists>bars shown rest. requestVolumeBars K s = Inr bars \<and> mset (shown @ rest) = mset es
     \<and> length bars = length shown \<and> length shown = min 12 (length es)
     \<and> map bar_count bars = map (\<lambda>e. js_or (js_get e ''count'') (JNum (Fin 0))) shown
     \<and> (\<forall>b \<in> set bars. \<exists>h. bar_height b = num_of_int h \<and> 5 \<le> h \<and> h \<le> 100)
     \<and> sorted_wrt (\<lambda>a b. js_le (bar_height b) (bar_height a)) bars
     \<and> (\<forall>e \<in> set shown. \<forall>x \<in> set rest. the_count K x \<le> the_count K e)"
proof -
  let ?es = "sort_by_count K es"
  let ?shown = "take 12 ?es" and ?rest = "drop 12 ?es"
  from bars_shape [OF assms] obtain m where bars: "requestVolumeBars K s = Inr (map (bar_of K (Fin m)) ?shown)"
    and m: "1 \<le> m" "\<forall>e \<in> set ?shown. the_count K e \<le> m" by blast
  have sub: "e \<in> set ?shown \<Longrightarrow> e \<in> set es" for e by (metis in_set_takeD set_sort_by_count)
  have height: "bar_height (bar_of K (Fin m) e) = num_of_int (max 5 \<lfloor>the_count K e / m * 100 + 1 / 2\<rfloor>)
      \<and> \<lfloor>the_count K e / m * 100 + 1 / 2\<rfloor> \<le> 100" if "e \<in> set ?shown" for e
    using the_count [OF assms(2) sub [OF that]] m that by (intro bar_height_range) auto
  have "sorted_wrt (\<lambda>a b. the_count K b \<le> the_count K a) (?shown @ ?rest)"
    using sorted_sort_by_count [OF assms(2)] by simp
  then have fall: "sorted_wrt (\<lambda>a b. the_count K b \<le> the_count K a) ?shown"
    and top: "\<forall>e \<in> set ?shown. \<forall>x \<in> set ?rest. the_count K x \<le> the_count K e"
    unfolding sorted_wrt_append by blast+
  have mono: "js_le (bar_height (bar_of K (Fin m) b)) (bar_height (bar_of K (Fin m) a))"
    if "a \<in> set ?shown" "b \<in> set ?shown" "the_count K b \<le> the_count K a" for a b
  proof -
    have "the_count K b / m * 100 + 1 / 2 \<le> the_count K a / m * 100 + 1 / 2"
      using that(3) m(1) by (simp add: divide_right_mono)
    from floor_mono [OF this] height [OF that(1)] height [OF that(2)] show ?thesis by auto
  qed
  from fall have "sorted_wrt (\<lambda>a b. js_le (bar_height b) (bar_height a)) (map (bar_of K (Fin m)) ?shown)"
    unfolding sorted_wrt_map by (rule sorted_wrt_mono_rel [rotated]) (rule mono)
  moreover have "\<forall>b \<in> set (map (bar_of K (Fin m)) ?shown). \<exists>h. bar_height b = num_of_int h \<and> 5 \<le> h \<and> h \<le> 100"
    using height by auto
  moreover have "mset (?shown @ ?rest) = mset es" by (simp add: mset_sort_by_count)
  moreover have "length ?es = length es" by (metis mset_sort_by_count size_mset)
  moreover have "map bar_count (map (bar_of K (Fin m)) ?shown) = map (\<lambda>e. js_or (js_get e ''count'') (JNum (Fin 0))) ?shown"
    by (simp add: bar_of_def)
  ultimately show ?thesis using bars top
    by (intro exI [of _ "map (bar_of K (Fin m)) ?shown"] exI [of _ ?shown] exI [of _ ?rest]) simp
qed

definition sample_endpoint :: "rat \<Rightarrow> js_val" where
  "sample_endpoint n = JObj [(''count'', JNum (Fin n))]"

theorem bars_show_busiest_witness:
  "\<exists>bars. requestVolumeBars plain_conv
      (new_dashboard\<lparr>db_gatewayEndpoints := JArr [sample_endpoint 1, sample_endpoint 400]\<rparr>) = Inr bars \<and> length bars = 2"
proof -
  have "counts_ok plain_conv [sample_endpoint 1, sample_endpoint 400]"
    by (simp add: counts_ok_def sample_endpoint_def count_of_def js_or_def isSet_def truthy_num_def)
  from bars_show_busiest [OF _ this, of "new_dashboard\<lparr>db_gatewayEndpoints := JArr [sample_endpoint 1, sample_endpoint 400]\<rparr>"]
  show ?thesis by auto
qed

lemma overview_loaded_fields:
  "overview_loaded h (JObj [(''stats'', st), (''endpoints'', js_or es (JArr []))]) d new_dashboard =
     \<lparr>db_systemHealth = h, db_gatewayStats = st, db_gatewayEndpoints = js_or es (JArr []),
      db_collections = (case mapped_collections (Inr d) of Inr cs \<Rightarrow> cs | Inl err \<Rightarrow> []),
      db_loading = False, db_join = None\<rparr>"
  by (auto simp: overview_loaded_def overview_done_def new_dashboard_def js_or_def Let_def split: sum.split)

text \<open>What the method of the management service makes of the gateway's answer.\<close>

definition gateway_answer :: "answer \<Rightarrow> js_error + js_val" where
  "gateway_answer ans = fst (run_flow (getGatewayStats [] None) (\<lambda>sent q. ans) (\<lambda>n. None) [])"

lemma gateway_answer_simps:
  "gateway_answer (Inl err) = Inl err"
  "\<not> isSet v \<Longrightarrow> gateway_answer (Inr v) = Inl type_error"
  "isSet v \<Longrightarrow> gateway_answer (Inr v) =
     Inr (JObj [(''stats'', js_get v ''stats''), (''endpoints'', js_or (js_get v ''endpoints'') (JArr []))])"
  by (simp_all add: gateway_answer_def getGatewayStats_def js_dot_def)

lemma getGatewayStats_answer:
  "\<exists>q. getGatewayStats url tok = Request q (\<lambda>tok ans. Finished (gateway_answer ans))"
  by (simp add: gateway_answer_def getGatewayStats_def)

text \<open>C40: The overview is loaded from all three requests or from none, in whatever order they are answered.
  When all succeed and the gateway answers with an object, the page shows the health as it was
  answered, the field \<^verbatim>\<open>stats\<close> of the gateway's answer, its \<^verbatim>\<open>endpoints\<close> (or an empty list) and the
  mapped collections, or no collections if their answer cannot be mapped. If one request fails,
  or the gateway's answer is empty, nothing that the other two delivered is shown. In all cases
  the page stops loading and waits for nothing more.\<close>

theorem overview_all_or_nothing:
  fixes f :: "overview_part \<Rightarrow> answer" and url tok
  assumes "i < 3" and "j < 2"
  defines "ps \<equiv> [PartHealth, PartGateway, PartCollections]"
    and "qs \<equiv> take i [PartHealth, PartGateway, PartCollections] @ drop (Suc i) [PartHealth, PartGateway, PartCollections]"
  shows "page_run (Dashboard url)
       [Answer t0 i (f (ps ! i)), Answer t1 j (f (qs ! j)), Answer t2 0 (f (qs ! (1 - j)))]
       (page_start (Dashboard url) tok new_dashboard)
     = (if (\<exists>h g d. f PartHealth = Inr h \<and> f PartGateway = Inr g \<and> isSet g \<and> f PartCollections = Inr d)
        then \<lparr>db_systemHealth = projr (f PartHealth),
              db_gatewayStats = js_get (projr (f PartGateway)) ''stats'',
              db_gatewayEndpoints = js_or (js_get (projr (f PartGateway)) ''endpoints'') (JArr []),
              db_collections = (case mapped_collections (f PartCollections) of Inr cs \<Rightarrow> cs | Inl err \<Rightarrow> []),
              db_loading = False, db_join = None\<rparr>
        else \<lparr>db_systemHealth = JNull, db_gatewayStats = JNull, db_gatewayEndpoints = JArr [],
              db_collections = [], db_loading = False, db_join = None\<rparr>, [])"
proof -
  obtain q where fl: "getGatewayStats url tok = Request q (\<lambda>tok ans. Finished (gateway_answer ans))"
    using getGatewayStats_answer by blast
  have ij: "i = 0 \<or> i = 1 \<or> i = 2" "j = 0 \<or> j = 1" using assms(1,2) by auto
  have run: "page_run (Dashboard url)
       [Answer t0 i (f (ps ! i)), Answer t1 j (f (qs ! j)), Answer t2 0 (f (qs ! (1 - j)))]
       (page_start (Dashboard url) tok new_dashboard)
     = (case (f PartHealth, gateway_answer (f PartGateway), f PartCollections) of
          (Inr h, Inr v, Inr d) \<Rightarrow> overview_loaded h v d new_dashboard
        | _ \<Rightarrow> new_dashboard\<lparr>db_loading := False\<rparr>, [])"
    using ij
    by (elim disjE; cases "f PartHealth"; cases "gateway_answer (f PartGateway)"; cases "f PartCollections")
       (simp_all add: page_run_def page_start_def Dashboard_def fetchOverviewData_def overview_part_settled_def
         overview_done_def overview_loaded_def new_dashboard_def list_request_def getSystemHealth_def fl call_def
         seg_defs Let_def ps_def qs_def numeral_2_eq_2 split: sum.splits)
  have none: "new_dashboard\<lparr>db_loading := False\<rparr> =
      \<lparr>db_systemHealth = JNull, db_gatewayStats = JNull, db_gatewayEndpoints = JArr [],
       db_collections = [], db_loading = False, db_join = None\<rparr>" by (simp add: new_dashboard_def)
  show ?thesis unfolding run none
    by (cases "f PartHealth"; cases "f PartGateway"; cases "isSet (projr (f PartGateway))"; cases "f PartCollections")
       (simp_all add: gateway_answer_simps overview_loaded_fields)
qed

text \<open>The gateway answers first, then the health, then the list of collections.\<close>

theorem overview_all_or_nothing_witness:
  "fst (page_run (Dashboard ''u'')
      [Answer None 1 (Inr (JObj [(''stats'', JNum (Fin 7))])), Answer None 0 (Inr (JStr ''up'')),
       Answer None 0 (Inr (JObj [(''collections'', JArr [JStr ''docs''])]))]
      (page_start (Dashboard ''u'') None new_dashboard))
    = \<lparr>db_systemHealth = JStr ''up'', db_gatewayStats = JNum (Fin 7), db_gatewayEndpoints = JArr [],
       db_collections = [\<lparr>vc_name = JStr ''docs'', vc_dimension = Fin 0, vc_count = Fin 0\<rparr>],
       db_loading = False, db_join = None\<rparr>"
  using overview_all_or_nothing
    [where i = 1 and j = 0 and url = "''u''" and tok = None and ?t0.0 = None and ?t1.0 = None and ?t2.0 = None
      and f = "\<lambda>p. Inr (case p of PartHealth \<Rightarrow> JStr ''up'' | PartGateway \<Rightarrow> JObj [(''stats'', JNum (Fin 7))]
                 | PartCollections \<Rightarrow> JObj [(''collections'', JArr [JStr ''docs''])])"]
  by (simp add: mapped_collections_def map_collection_def js_dot_def js_or_def isSet_def js_array_def js_is_string_def)

end
