(* ===== verification/Account_Pages.thy ===== *)
theory Account_Pages
  imports Session Dashboard_Page
begin

text \<open>
  The frame of the console and the pages about the account: \<^verbatim>\<open>NewLayout.tsx\<close>, \<^verbatim>\<open>NewSidebar.tsx\<close> and
  \<^verbatim>\<open>NewNavbar.tsx\<close>; \<^verbatim>\<open>BillingPage.tsx\<close> with its data \<^verbatim>\<open>billingPage.data.ts\<close> and the way from it to
  \<^verbatim>\<open>PlanChangePage.tsx\<close>; \<^verbatim>\<open>ProfilePage.tsx\<close>; and the copy buttons of \<^verbatim>\<open>SDKDownloadPage.tsx\<close>,
  \<^verbatim>\<open>HomePage.tsx\<close> and \<^verbatim>\<open>Documentation.tsx\<close>. Shown: where the links of the sidebar lead, how a change of
  plan goes through, what the usage bars and the copy marks show.
\<close>

section \<open>Layout\<close>

record nav_item =
  nav_name :: string
  nav_to :: string
  nav_end :: bool

definition nav :: "string \<Rightarrow> string \<Rightarrow> bool \<Rightarrow> nav_item" where
  "nav n t e = \<lparr>nav_name = n, nav_to = t, nav_end = e\<rparr>"

definition mainNav :: "nav_item list" where
  "mainNav =
     [nav ''Overview'' ''/dashboard'' True,
      nav ''Collections'' ''/dashboard/collections'' False,
      nav ''Vector Operations'' ''/dashboard/vectors'' False,
      nav ''API Keys'' ''/dashboard/keys'' False,
      nav ''SDK'' ''/dashboard/sdk'' False]"

definition managementNav :: "nav_item list" where
  "managementNav =
     [nav ''System Dashboard'' ''/dashboard/management'' False,
      nav ''API Gateway'' ''/dashboard/management/gateway'' False,
      nav ''Workers'' ''/dashboard/management/workers'' False,
      nav ''Collections Manager'' ''/dashboard/management/collections'' False,
      nav ''System Health'' ''/dashboard/management/health'' False]"

definition secondaryNav :: "nav_item list" where
  "secondaryNav =
     [nav ''Billing'' ''/dashboard/billing'' False,
      nav ''Profile'' ''/dashboard/profile'' False,
      nav ''Documentation'' ''/dashboard/documentation'' False]"

text \<open>The drawer of the layout: the state \<^verbatim>\<open>mobileOpen\<close>, its toggle, and what a link does to it.\<close>

definition handleDrawerToggle :: "bool \<Rightarrow> bool" where
  "handleDrawerToggle mobileOpen = (\<not> mobileOpen)"

definition nav_click :: "bool \<Rightarrow> bool" where
  "nav_click mobileOpen = (if mobileOpen then handleDrawerToggle mobileOpen else mobileOpen)"

text \<open>\<^verbatim>\<open>email.charAt(0).toUpperCase() || "U"\<close> and \<^verbatim>\<open>email.split("@")[0]\<close>. Capitals are those of the letters
  below code 256 whose capital is below it too.\<close>

definition upper_char :: "char \<Rightarrow> string" where
  "upper_char c =
     (let n = of_char c :: nat
      in if n = 223 then ''SS''
         else if (97 \<le> n \<and> n \<le> 122) \<or> (224 \<le> n \<and> n \<le> 254 \<and> n \<noteq> 247) then [char_of (n - 32)] else [c])"

definition user_initial :: "session \<Rightarrow> string" where
  "user_initial s =
     (case s_user s of
        None \<Rightarrow> ''U''
      | Some u \<Rightarrow> (case su_email u of [] \<Rightarrow> ''U'' | c # cs \<Rightarrow> upper_char c))"

definition email_name :: "session \<Rightarrow> string option" where
  "email_name s = map_option (\<lambda>u. hd (js_split (CHR ''@'') (su_email u))) (s_user s)"

text \<open>The text under the name in the sidebar is constant.\<close>

definition sidebar_plan :: "session \<Rightarrow> string" where
  "sidebar_plan s = ''Free Plan''"

section \<open>Billing\<close>

record plan_usage =
  u_used :: rat
  u_limit :: string
  u_unit :: string

record plan_data =
  pd_title :: string
  pd_price :: string
  pd_features :: "string list"
  pd_vectors :: plan_usage
  pd_reads :: plan_usage

definition free_plan :: plan_data where
  "free_plan =
     \<lparr>pd_title = ''Hobby'', pd_price = ''Free'',
      pd_features = [''Up to 10k vectors'', ''Community Support'', ''Shared Infrastructure'', ''30-day log retention''],
      pd_vectors = \<lparr>u_used = 8500, u_limit = ''10,000'', u_unit = ''vectors''\<rparr>,
      pd_reads = \<lparr>u_used = 45200, u_limit = ''50,000'', u_unit = ''req/mo''\<rparr>\<rparr>"

definition pro_plan :: plan_data where
  "pro_plan =
     \<lparr>pd_title = ''Pro'', pd_price = ''$29'',
      pd_features = [''Up to 10M vectors'', ''Priority Email Support'', ''Dedicated Processing Units'',
                     ''Unlimited log retention'', ''RBAC & SSO''],
      pd_vectors = \<lparr>u_used = 124500, u_limit = ''10,000,000'', u_unit = ''vectors''\<rparr>,
      pd_reads = \<lparr>u_used = 45200, u_limit = ''Unlimited'', u_unit = ''req/mo''\<rparr>\<rparr>"

text \<open>\<^verbatim>\<open>parseInt(s)\<close> without a radix: leading white space and a sign are allowed, \<^verbatim>\<open>0x\<close> selects base 16,
  and the longest run of digits counts.\<close>

definition digit_of :: "nat \<Rightarrow> char \<Rightarrow> nat option" where
  "digit_of radix c =
     (let n = of_char c :: nat;
          d = (if 48 \<le> n \<and> n \<le> 57 then n - 48
               else if 97 \<le> n \<and> n \<le> 122 then n - 87
               else if 65 \<le> n \<and> n \<le> 90 then n - 55 else radix)
      in if d < radix then Some d else None)"

definition parse_digits :: "nat \<Rightarrow> string \<Rightarrow> nat option" where
  "parse_digits radix s =
     (let ds = takeWhile (\<lambda>c. digit_of radix c \<noteq> None) s
      in if ds = [] then None else Some (foldl (\<lambda>a c. radix * a + the (digit_of radix c)) 0 ds))"

definition js_parseInt :: "string \<Rightarrow> js_num" where
  "js_parseInt s =
     (let s1 = dropWhile js_space s;
          neg = (s1 \<noteq> [] \<and> hd s1 = CHR ''-'');
          s2 = (if s1 \<noteq> [] \<and> (hd s1 = CHR ''-'' \<or> hd s1 = CHR ''+'') then tl s1 else s1);
          hex = (take 2 s2 = ''0x'' \<or> take 2 s2 = ''0X'')
      in case parse_digits (if hex then 16 else 10) (if hex then drop 2 s2 else s2) of
           None \<Rightarrow> NaN
         | Some n \<Rightarrow> Fin (if neg then - of_nat n else of_nat n))"

definition js_min :: "js_num \<Rightarrow> js_num \<Rightarrow> js_num" where
  "js_min x y = (if x = NaN \<or> y = NaN then NaN else if js_lt y x then y else x)"

text \<open>The width of a \<^verbatim>\<open>UsageBar\<close> in percent; the separators of the limit are removed first.\<close>

definition UsageBar :: "plan_usage \<Rightarrow> js_num" where
  "UsageBar u =
     js_min (js_mul (js_div_num (Fin (u_used u)) (js_parseInt (filter (\<lambda>c. c \<noteq> CHR '','') (u_limit u)))) (Fin 100))
       (Fin 100)"

text \<open>The page: \<^verbatim>\<open>isPaid\<close>, the data shown, and the two cards with their buttons. A button of the current
  plan is disabled; another one opens the page for the change, with the plan in the state of the
  location.\<close>

definition isPaid :: "session \<Rightarrow> bool" where
  "isPaid s = (case s_user s of None \<Rightarrow> False | Some u \<Rightarrow> js_strict_eq (su_plan u) (JNum (Fin 2)))"

definition currentPlanData :: "session \<Rightarrow> plan_data" where
  "currentPlanData s = (if isPaid s then pro_plan else free_plan)"

definition currentPlanLabel :: "session \<Rightarrow> string" where
  "currentPlanLabel s = (if isPaid s then ''Pro'' else ''Free'')"

record plan_card =
  card_data :: plan_data
  card_plan :: js_num
  card_isCurrent :: bool
  card_actionLabel :: string

definition plan_cards :: "session \<Rightarrow> plan_card list" where
  "plan_cards s =
     [\<lparr>card_data = free_plan, card_plan = Fin 1, card_isCurrent = \<not> isPaid s,
       card_actionLabel = (if isPaid s then ''Downgrade to Free'' else ''Current Plan'')\<rparr>,
      \<lparr>card_data = pro_plan, card_plan = Fin 2, card_isCurrent = isPaid s,
       card_actionLabel = (if isPaid s then ''Current Plan'' else ''Upgrade to Pro'')\<rparr>]"

record billing_page =
  bp_error :: "string option"
  bp_navigate :: "(string \<times> js_num) option"

definition handlePlanChange :: "js_num \<Rightarrow> billing_page \<Rightarrow> billing_page" where
  "handlePlanChange plan b =
     b\<lparr>bp_error := None, bp_navigate := Some (''/dashboard/billing/change'', plan)\<rparr>"

definition card_click :: "plan_card \<Rightarrow> billing_page \<Rightarrow> billing_page" where
  "card_click c b = (if card_isCurrent c then b else handlePlanChange (card_plan c) b)"

section \<open>Profile\<close>

definition profile_id :: "session \<Rightarrow> string" where
  "profile_id s =
     ''usr_'' @ (case email_name s of None \<Rightarrow> ''undefined'' | Some n \<Rightarrow> n) @ ''_8x9234''"

definition profile_plan :: "session \<Rightarrow> string" where
  "profile_plan s = (if isPaid s then ''Vectron Pro'' else ''Hobby Plan'')"

section \<open>Copy buttons\<close>

text \<open>State, clipboard, clock and the deadlines of the timers that a button has set. Time passes by
  single milliseconds; the timers whose time has come fire.\<close>

record copy_button =
  cb_copied :: bool
  cb_clipboard :: "string option"
  cb_now :: nat
  cb_timers :: "nat list"

definition new_copy_button :: copy_button where
  "new_copy_button = \<lparr>cb_copied = False, cb_clipboard = None, cb_now = 0, cb_timers = []\<rparr>"

definition handleCopy :: "string \<Rightarrow> copy_button \<Rightarrow> copy_button" where
  "handleCopy str c =
     c\<lparr>cb_clipboard := Some str, cb_copied := True, cb_timers := cb_timers c @ [cb_now c + 2000]\<rparr>"

definition copy_tick :: "copy_button \<Rightarrow> copy_button" where
  "copy_tick c =
     (let t = Suc (cb_now c)
      in c\<lparr>cb_now := t, cb_copied := cb_copied c \<and> (\<forall>d \<in> set (cb_timers c). t < d),
           cb_timers := filter (\<lambda>d. t < d) (cb_timers c)\<rparr>)"

datatype copy_event = CopyClick | CopyTick

fun copy_run :: "string \<Rightarrow> copy_event list \<Rightarrow> copy_button \<Rightarrow> copy_button" where
  "copy_run str [] c = c"
| "copy_run str (CopyClick # es) c = copy_run str es (handleCopy str c)"
| "copy_run str (CopyTick # es) c = copy_run str es (copy_tick c)"

section \<open>Links and plans\<close>

lemma nav_click_closes: "\<not> nav_click mobileOpen"
  by (simp add: nav_click_def handleDrawerToggle_def)

definition guarded_paths :: "string list" where
  "guarded_paths = map fst (filter snd (concat (map (flatten [] False) App)))"

definition sidebar_links :: "string list" where
  "sidebar_links = map nav_to (mainNav @ managementNav @ secondaryNav)"

text \<open>The sidebar has one link to every page behind the login, except the placeholder for the
  settings and the page of a plan change, which opens from the billing page.\<close>

theorem sidebar_links_reach_pages:
  "distinct sidebar_links
   \<and> set sidebar_links = set guarded_paths - {''/dashboard/settings'', ''/dashboard/billing/change''}"
proof
  show "distinct sidebar_links" by code_simp
  show "set sidebar_links = set guarded_paths - {''/dashboard/settings'', ''/dashboard/billing/change''}"
    by code_simp
qed

lemma one_current_card: "length (filter card_isCurrent (plan_cards s)) = 1"
  by (simp add: plan_cards_def)

lemma js_eq_Fin [simp]: "js_eq (Fin a) (Fin b) \<longleftrightarrow> a = b"
  by (simp add: js_eq_def)

lemma isPaid_updated:
  "isPaid (commit (updateUserAndToken u t s)) \<longleftrightarrow> js_eq (normalizePlan (su_plan u)) (Fin 2)"
  by (simp add: isPaid_def session_defs normalizeUserProfile_def)

text \<open>C29: A change of plan goes through: a card that can be clicked opens the guarded page of the change,
  which asks the server for the plan of that card, as an upgrade exactly if the user does not pay
  yet. When the server answers with a profile that has this plan, the user is led back to the
  billing page, and there the same card is marked as the current one; the other card is not.\<close>

theorem plan_change_goes_through:
  assumes "c \<in> set (plan_cards s)" "\<not> card_isCurrent c"
    and "bp_navigate (card_click c b) = Some (path, plan)"
    and "normalizePlan (su_plan u) = resolvedTargetPlan s (Some plan)"
    and "handleConfirm_answer (Inr (u, t)) (handleConfirm_call p, s) = (p', s')"
  shows "path \<in> set guarded_paths \<and> plan = card_plan c
    \<and> isUpgrade s (Some plan) = (\<not> isPaid s)
    \<and> pc_navigate p' = Some ''/dashboard/billing'' \<and> \<not> pc_isLoading p'
    \<and> isPaid s' = (\<not> isPaid s)
    \<and> map card_data (filter card_isCurrent (plan_cards s')) = [card_data c]"
proof -
  have "''/dashboard/billing/change'' \<in> set guarded_paths" by code_simp
  moreover have plan: "path = ''/dashboard/billing/change'' \<and> plan = card_plan c"
    using assms(2,3) by (auto simp: card_click_def handlePlanChange_def)
  moreover have "isPaid s' = js_eq (card_plan c) (Fin 2)"
    using assms(4,5) plan by (auto simp: isPaid_updated resolvedTargetPlan_def)
  ultimately show ?thesis
    using assms(1,2,5) by (auto simp: plan_cards_def resolvedTargetPlan_def isUpgrade_def handleConfirm_call_def)
qed

theorem plan_change_goes_through_witness:
  "\<exists>c p s'. c \<in> set (plan_cards (AuthProvider (Some ''t''))) \<and> card_data c = pro_plan
     \<and> handleConfirm_answer (Inr (\<lparr>su_id = ''1'', su_email = ''a@b'', su_created_at = Fin 0,
           su_plan = JStr ''PAID'', su_subscription_status = JNum (Fin 1)\<rparr>, ''t2''))
         (handleConfirm_call \<lparr>pc_isLoading = False, pc_error = None, pc_navigate = None\<rparr>,
          AuthProvider (Some ''t'')) = (p, s')
     \<and> isPaid s' \<and> map card_data (filter card_isCurrent (plan_cards s')) = [pro_plan]"
proof -
  let ?s = "AuthProvider (Some ''t'')"
  let ?u = "\<lparr>su_id = ''1'', su_email = ''a@b'', su_created_at = Fin 0,
    su_plan = JStr ''PAID'', su_subscription_status = JNum (Fin 1)\<rparr>"
  let ?p = "\<lparr>pc_isLoading = False, pc_error = None, pc_navigate = None\<rparr> :: plan_change"
  have unpaid: "\<not> isPaid ?s" by (simp add: isPaid_def session_defs)
  obtain p s' where a: "handleConfirm_answer (Inr (?u, ''t2'')) (handleConfirm_call ?p, ?s) = (p, s')"
    by (metis surj_pair)
  have c: "plan_cards ?s ! 1 \<in> set (plan_cards ?s)" "card_data (plan_cards ?s ! 1) = pro_plan"
    "\<not> card_isCurrent (plan_cards ?s ! 1)" "card_plan (plan_cards ?s ! 1) = Fin 2"
    using unpaid by (simp_all add: plan_cards_def)
  have n: "bp_navigate (card_click (plan_cards ?s ! 1) \<lparr>bp_error = None, bp_navigate = None\<rparr>)
      = Some (''/dashboard/billing/change'', Fin 2)"
    using c(3,4) by (simp add: card_click_def handlePlanChange_def)
  have "normalizePlan (su_plan ?u) = resolvedTargetPlan ?s (Some (Fin 2))"
    by (simp add: normalizePlan_def Plan_def resolvedTargetPlan_def)
  from plan_change_goes_through [OF c(1,3) n this a] unpaid c a show ?thesis by auto
qed

section \<open>Usage bars\<close>

lemma digit_of_10: "is_digit c \<Longrightarrow> digit_of 10 c = Some (digit_val c)"
  by (auto simp: digit_of_def is_digit_def digit_val_def Let_def)

lemma parse_digits_nat:
  assumes "list_all is_digit ds" "ds \<noteq> []"
  shows "parse_digits 10 ds = Some (parse_nat ds)"
proof -
  have "takeWhile (\<lambda>c. \<exists>y. digit_of 10 c = Some y) ds = ds"
    using assms by (auto simp: list_all_iff digit_of_10)
  moreover have "foldl (\<lambda>a c. 10 * a + the (digit_of 10 c)) k ds = foldl (\<lambda>a c. 10 * a + digit_val c) k ds" for k
    using assms(1) by (induction ds arbitrary: k) (auto simp: digit_of_10)
  ultimately show ?thesis using assms(2) by (simp only: parse_digits_def parse_nat_def Let_def not_None_eq if_False)
qed

lemma digit_not_sign: "is_digit c \<Longrightarrow> \<not> js_space c \<and> c \<noteq> CHR ''-'' \<and> c \<noteq> CHR ''+'' \<and> c \<noteq> CHR ''x'' \<and> c \<noteq> CHR ''X''"
  by (auto simp: is_digit_def js_space_def)

lemma js_parseInt_show: "js_parseInt (show_nat n) = Fin (of_nat n)"
proof -
  have digits: "list_all is_digit (show_nat n)" by (simp add: list_all_iff show_nat_digits)
  obtain c cs where s: "show_nat n = c # cs" by (cases "show_nat n") auto
  with digits have c: "is_digit c" "list_all is_digit cs" by auto
  then have "take 2 (show_nat n) \<noteq> ''0x''" "take 2 (show_nat n) \<noteq> ''0X''"
    by (cases cs; auto simp: s dest: digit_not_sign)+
  moreover have "dropWhile js_space (show_nat n) = show_nat n" "hd (show_nat n) = c"
    using digit_not_sign [OF c(1)] by (simp_all add: s)
  ultimately show ?thesis
    using digit_not_sign [OF c(1)] parse_digits_nat [OF digits] by (simp add: js_parseInt_def)
qed

text \<open>A usage bar reads its limit with the separators of thousands: for a limit that is the decimal
  number \<open>n\<close> with any commas in it, the bar is the used share of \<open>n\<close> in percent, at most full.\<close>

theorem UsageBar_share:
  assumes "filter (\<lambda>c. c \<noteq> CHR '','') (u_limit u) = show_nat n" "0 < n" "0 \<le> u_used u"
  shows "\<exists>w. UsageBar u = Fin w \<and> 0 \<le> w \<and> w \<le> 100 \<and> w = min (u_used u / of_nat n * 100) 100
    \<and> (w = 100 \<longleftrightarrow> of_nat n \<le> u_used u)"
  using assms
  by (auto simp: UsageBar_def js_parseInt_show js_div_num_def js_min_def min_def field_simps)

text \<open>Both bars of the free plan are of this kind. The bar for the reads of the paid plan is not: its
  limit is the word \<^verbatim>\<open>Unlimited\<close>, and its width is not a number.\<close>

lemma usage_bars_shown:
  "UsageBar (pd_vectors free_plan) = Fin 85" "UsageBar (pd_reads free_plan) = Fin (904 / 10)"
  "UsageBar (pd_vectors pro_plan) = Fin (1245 / 1000)" "UsageBar (pd_reads pro_plan) = NaN"
  by (simp_all add: UsageBar_def free_plan_def pro_plan_def js_parseInt_def parse_digits_def digit_of_def
      js_space_def js_div_num_def js_min_def)

section \<open>Copy marks\<close>

text \<open>The mark is shown only while a timer runs, and a timer runs at most two seconds.\<close>

definition copy_inv :: "copy_button \<Rightarrow> bool" where
  "copy_inv c \<longleftrightarrow> (cb_copied c \<longrightarrow> cb_timers c \<noteq> [])
     \<and> (\<forall>d \<in> set (cb_timers c). cb_now c < d \<and> d \<le> cb_now c + 2000)"

lemma copy_inv_run: "copy_inv c \<Longrightarrow> copy_inv (copy_run str es c)"
proof (induction str es c rule: copy_run.induct)
  case (3 str es c)
  have "copy_inv (copy_tick c)"
    using 3(2) by (auto simp: copy_inv_def copy_tick_def Let_def filter_empty_conv)
  then show ?case using 3(1) by simp
qed (auto simp: copy_inv_def handleCopy_def)

lemma copy_ticks:
  assumes "copy_inv c"
  shows "copy_run str (replicate n CopyTick) c =
    c\<lparr>cb_now := cb_now c + n, cb_copied := cb_copied c \<and> (\<forall>d \<in> set (cb_timers c). cb_now c + n < d),
      cb_timers := filter (\<lambda>d. cb_now c + n < d) (cb_timers c)\<rparr>"
  using assms
proof (induction n arbitrary: c)
  case 0
  then show ?case by (auto simp: copy_inv_def filter_id_conv)
next
  case (Suc n)
  have "copy_inv (copy_tick c)" using copy_inv_run [OF Suc.prems, of str "[CopyTick]"] by simp
  from Suc.IH [OF this] show ?case
    by (simp, intro copy_button.equality) (auto simp: copy_tick_def Let_def intro!: filter_cong)
qed

lemma copy_run_append: "copy_run str (es @ fs) c = copy_run str fs (copy_run str es c)"
  by (induction str es c rule: copy_run.induct) auto

text \<open>Whatever was clicked before, a click copies the text and shows the mark, the mark is gone two
  seconds after the last click, and it stays for these two seconds if no older mark was shown.\<close>

theorem copy_mark_lasts:
  assumes "c = copy_run str es new_copy_button" "n < 2000"
  shows "cb_clipboard (copy_run str (CopyClick # replicate n CopyTick) c) = Some str
    \<and> (cb_timers c = [] \<longrightarrow> cb_copied (copy_run str (CopyClick # replicate n CopyTick) c))
    \<and> \<not> cb_copied (copy_run str (CopyClick # replicate 2000 CopyTick) c)"
proof -
  have "copy_inv new_copy_button" by (simp add: copy_inv_def new_copy_button_def)
  with assms(1) have inv: "copy_inv (handleCopy str c)"
    using copy_inv_run [of new_copy_button str "es @ [CopyClick]"] by (simp add: copy_run_append)
  show ?thesis
    using assms(2) by (auto simp: copy_ticks [OF inv]) (auto simp: handleCopy_def)
qed

text \<open>A second click does not prolong the mark: the timer of the first one removes it.\<close>

lemma second_copy_mark_short:
  "\<not> cb_copied (copy_run str
     (CopyClick # replicate 1500 CopyTick @ CopyClick # replicate 500 CopyTick) new_copy_button)"
proof -
  let ?c = "handleCopy str new_copy_button"
  have inv: "copy_inv ?c" by (simp add: copy_inv_def handleCopy_def new_copy_button_def)
  let ?d = "copy_run str (replicate 1500 CopyTick) ?c"
  have "copy_inv (handleCopy str ?d)"
    using copy_inv_run [OF inv, of str "replicate 1500 CopyTick @ [CopyClick]"] by (simp add: copy_run_append)
  from copy_ticks [OF this, of str 500] show ?thesis
    by (simp add: copy_run_append copy_ticks [OF inv]) (simp add: handleCopy_def new_copy_button_def)
qed

text \<open>The user id on the profile page is made of the name in the address; the id of the user does not
  enter.\<close>

lemma hd_js_split: "hd (js_split c s) = takeWhile (\<lambda>d. d \<noteq> c) s"
  by (induction s) auto

lemma profile_id_of_name:
  "s_user s = Some u \<Longrightarrow> profile_id s = ''usr_'' @ takeWhile (\<lambda>d. d \<noteq> CHR ''@'') (su_email u) @ ''_8x9234''"
  by (simp add: profile_id_def email_name_def hd_js_split)

end
