(* ===== verification/Auth_Forms.thy ===== *)
theory Auth_Forms
  imports Session "HOL-Library.Multiset"
begin

text \<open>
  The login page and the sign-up page, \<^verbatim>\<open>LoginPage.tsx\<close> and \<^verbatim>\<open>SignupPage.tsx\<close>, together with the session
  of \<open>Session\<close> that they drive: what is typed, submitted and answered, and where the page leads.

  A page that has navigated away is gone. While it is there, its form waits for the call of
  \<^verbatim>\<open>login\<close> or \<^verbatim>\<open>signup\<close> that it made; the session goes on with its own requests in between. A page
  may be opened at any time, also while requests of forms that were left are still under way: their
  answers reach the session, but no longer the form that sent them.
\<close>

section \<open>The pages\<close>

datatype form_kind = LoginForm | SignupForm

record auth_page =
  ap_form :: form
  ap_session :: session
  ap_sent :: "(string \<times> string) list"
  ap_left :: "string option"
  ap_own :: "request option"
  ap_older :: "request list"

text \<open>\<open>ap_own\<close> is the request that the form awaits, \<open>ap_older\<close> are those of forms that were left: an answer
  resumes the handler that made the call.\<close>

datatype form_event = EmailTyped string | PasswordTyped string | FormSubmitted

definition new_form :: form where
  "new_form = \<lparr>f_email = [], f_password = [], f_formError = None, f_loading = False\<rparr>"

definition setEmail :: "string \<Rightarrow> form \<Rightarrow> form" where
  "setEmail t f = f\<lparr>f_email := t\<rparr>"

definition setPassword :: "string \<Rightarrow> form \<Rightarrow> form" where
  "setPassword t f = f\<lparr>f_password := t\<rparr>"

definition handleSubmit :: "form_kind \<Rightarrow> form \<Rightarrow> form \<times> session_event option" where
  "handleSubmit kd f =
     (case kd of LoginForm \<Rightarrow> LoginPage_handleSubmit f | SignupForm \<Rightarrow> SignupPage_handleSubmit f)"

text \<open>The effect: there is a user, so leave; the login page leads back to where the user came from.\<close>

definition form_effect :: "form_kind \<Rightarrow> string option \<Rightarrow> auth_page \<Rightarrow> auth_page" where
  "form_effect kd origin a =
     a\<lparr>ap_left := (case kd of
          LoginForm \<Rightarrow> LoginPage_navigate (ap_session a) origin
        | SignupForm \<Rightarrow> SignupPage_navigate (ap_session a))\<rparr>"

definition is_form_request :: "request \<Rightarrow> bool" where
  "is_form_request r = (r \<noteq> ReqProfile)"

definition form_mount :: "form_kind \<Rightarrow> string option \<Rightarrow> session \<Rightarrow> auth_page" where
  "form_mount kd origin s =
     form_effect kd origin \<lparr>ap_form = new_form, ap_session = s, ap_sent = [], ap_left = None,
       ap_own = None, ap_older = filter is_form_request (s_pending s)\<rparr>"

text \<open>The button is disabled while the form is loading, and so is the Enter key. A submission sends the
  fields.\<close>

definition call_request :: "form_kind \<Rightarrow> request" where
  "call_request kd = (case kd of LoginForm \<Rightarrow> ReqLogin | SignupForm \<Rightarrow> ReqRegister)"

definition form_submit :: "form_kind \<Rightarrow> string option \<Rightarrow> auth_page \<Rightarrow> auth_page" where
  "form_submit kd origin a =
     (if f_loading (ap_form a) then a
      else case handleSubmit kd (ap_form a) of
          (f, None) \<Rightarrow> a\<lparr>ap_form := f\<rparr>
        | (f, Some e) \<Rightarrow>
            (case session_step e (ap_session a) of
               None \<Rightarrow> a
             | Some s \<Rightarrow> form_effect kd origin (a\<lparr>ap_form := f, ap_session := s,
                 ap_sent := ap_sent a @ [(f_email (ap_form a), f_password (ap_form a))],
                 ap_own := Some (call_request kd)\<rparr>)))"

fun form_input :: "form_kind \<Rightarrow> string option \<Rightarrow> form_event \<Rightarrow> auth_page \<Rightarrow> auth_page" where
  "form_input kd origin (EmailTyped t) a = a\<lparr>ap_form := setEmail t (ap_form a)\<rparr>"
| "form_input kd origin (PasswordTyped t) a = a\<lparr>ap_form := setPassword t (ap_form a)\<rparr>"
| "form_input kd origin FormSubmitted a = form_submit kd origin a"

text \<open>The answers with which \<^verbatim>\<open>login\<close> or \<^verbatim>\<open>signup\<close> throws, and the other events of the session: answers to its
  requests. Calls of its functions come from this page only.\<close>

fun rejects :: "session_event \<Rightarrow> bool" where
  "rejects (LoginFail err) = True"
| "rejects (RegisterFail err) = True"
| "rejects (SignupLoginFail err) = True"
| "rejects _ = False"

fun is_answer :: "session_event \<Rightarrow> bool" where
  "is_answer CallLogin = False"
| "is_answer CallSignup = False"
| "is_answer CallLogout = False"
| "is_answer (CallUpdate u t) = False"
| "is_answer (CallSetUser u) = False"
| "is_answer _ = True"

text \<open>The request that an event answers, and the one it is followed by.\<close>

fun answered_request :: "session_event \<Rightarrow> request" where
  "answered_request (ProfileOk u) = ReqProfile"
| "answered_request ProfileFail = ReqProfile"
| "answered_request (LoginOk u t) = ReqLogin"
| "answered_request (LoginFail err) = ReqLogin"
| "answered_request RegisterOk = ReqRegister"
| "answered_request (RegisterFail err) = ReqRegister"
| "answered_request e = ReqSignupLogin"

fun next_requests :: "session_event \<Rightarrow> request list" where
  "next_requests RegisterOk = [ReqSignupLogin]"
| "next_requests _ = []"

text \<open>The answer to the request of this form, and the answer to any other request. Only the first one
  resumes \<^verbatim>\<open>handleSubmit\<close> of this form.\<close>

definition own_answer :: "form_kind \<Rightarrow> string option \<Rightarrow> session_event \<Rightarrow> auth_page \<Rightarrow> auth_page option" where
  "own_answer kd origin e a =
     (if ap_own a = Some (answered_request e) then
        map_option (\<lambda>s. form_effect kd origin (a\<lparr>ap_session := s,
            ap_form := (if rejects e then form_rejected (ap_form a) else ap_form a),
            ap_own := (case next_requests e of [] \<Rightarrow> None | r # _ \<Rightarrow> Some r)\<rparr>))
          (session_step e (ap_session a))
      else None)"

definition other_answer :: "form_kind \<Rightarrow> string option \<Rightarrow> session_event \<Rightarrow> auth_page \<Rightarrow> auth_page option" where
  "other_answer kd origin e a =
     (if answered_request e = ReqProfile \<or> answered_request e \<in> set (ap_older a) then
        map_option (\<lambda>s. form_effect kd origin (a\<lparr>ap_session := s,
            ap_older := remove1 (answered_request e) (ap_older a) @ next_requests e\<rparr>))
          (session_step e (ap_session a))
      else None)"

definition form_answer ::
  "form_kind \<Rightarrow> string option \<Rightarrow> bool \<Rightarrow> session_event \<Rightarrow> auth_page \<Rightarrow> auth_page option" where
  "form_answer kd origin own = (if own then own_answer kd origin else other_answer kd origin)"

text \<open>\<^verbatim>\<open>formError || authError\<close>\<close>

definition shown_error :: "auth_page \<Rightarrow> string option" where
  "shown_error a = (if truthy_str (f_formError (ap_form a)) then f_formError (ap_form a) else s_error (ap_session a))"

text \<open>The effect of the landing page.\<close>

definition HomePage_navigate :: "session \<Rightarrow> string option" where
  "HomePage_navigate s = (if s_user s \<noteq> None then Some ''/dashboard'' else None)"

text \<open>The life of a page that is opened when the session is \<open>s\<close>.\<close>

inductive form_reach :: "form_kind \<Rightarrow> string option \<Rightarrow> session \<Rightarrow> auth_page \<Rightarrow> bool"
  for kd :: form_kind and origin :: "string option" and s :: session where
  open_form: "session_reach s \<Longrightarrow> form_reach kd origin s (form_mount kd origin s)"
| input: "form_reach kd origin s a \<Longrightarrow> ap_left a = None \<Longrightarrow> form_reach kd origin s (form_input kd origin e a)"
| answer: "form_reach kd origin s a \<Longrightarrow> ap_left a = None \<Longrightarrow> is_answer e \<Longrightarrow> form_answer kd origin own e a = Some b \<Longrightarrow>
    form_reach kd origin s b"

section \<open>One request at a time\<close>

lemmas form_defs =
  form_effect_def form_mount_def form_submit_def form_answer_def own_answer_def other_answer_def
  call_request_def handleSubmit_def setEmail_def setPassword_def
  new_form_def form_rejected_def LoginPage_navigate_def SignupPage_navigate_def LoginPage_handleSubmit_def
  SignupPage_handleSubmit_def

definition own_request :: "form_kind \<Rightarrow> request \<Rightarrow> bool" where
  "own_request kd r = (case kd of LoginForm \<Rightarrow> r = ReqLogin | SignupForm \<Rightarrow> r \<in> {ReqRegister, ReqSignupLogin})"

definition form_target :: "form_kind \<Rightarrow> string option \<Rightarrow> string" where
  "form_target kd origin = (if kd = LoginForm \<and> truthy_str origin then the origin else ''/dashboard'')"

text \<open>While the page is there, nobody is logged in, and the requests of forms are the older ones and,
  while the button is disabled, one of this form. \<open>n\<close> bounds the older ones.\<close>

definition own_list :: "auth_page \<Rightarrow> request list" where
  "own_list a = (case ap_own a of None \<Rightarrow> [] | Some r \<Rightarrow> [r])"

definition requests_inv :: "form_kind \<Rightarrow> nat \<Rightarrow> auth_page \<Rightarrow> bool" where
  "requests_inv kd n a \<longleftrightarrow>
     mset (filter is_form_request (s_pending (ap_session a))) = mset (ap_older a) + mset (own_list a)
     \<and> (f_loading (ap_form a) \<longleftrightarrow> ap_own a \<noteq> None)
     \<and> list_all (own_request kd) (own_list a) \<and> length (ap_older a) \<le> n"

definition form_inv :: "form_kind \<Rightarrow> string option \<Rightarrow> nat \<Rightarrow> auth_page \<Rightarrow> bool" where
  "form_inv kd origin n a \<longleftrightarrow>
     ap_left a = (if s_user (ap_session a) = None then None else Some (form_target kd origin))
     \<and> (s_user (ap_session a) = None \<longrightarrow> requests_inv kd n a)"

lemma form_effect_left:
  "ap_left (form_effect kd origin a) = (if s_user (ap_session a) = None then None else Some (form_target kd origin))"
  by (cases kd) (simp_all add: form_defs form_target_def)

lemma form_effect_simps [simp]:
  "ap_session (form_effect kd origin a) = ap_session a" "ap_form (form_effect kd origin a) = ap_form a"
  "ap_own (form_effect kd origin a) = ap_own a" "ap_older (form_effect kd origin a) = ap_older a"
  "ap_sent (form_effect kd origin a) = ap_sent a"
  by (simp_all add: form_effect_def)

lemma form_effect_inv:
  "(s_user (ap_session a) = None \<Longrightarrow> requests_inv kd n a) \<Longrightarrow> form_inv kd origin n (form_effect kd origin a)"
  by (simp add: form_inv_def form_effect_left requests_inv_def own_list_def)

text \<open>What a submission and an answer do to the requests of the session.\<close>

lemma session_call_requests:
  "session_step CallLogin s = Some t \<Longrightarrow> s_user s = None \<Longrightarrow>
     s_user t = None \<and> filter is_form_request (s_pending t) = filter is_form_request (s_pending s) @ [ReqLogin]"
  "session_step CallSignup s = Some t \<Longrightarrow> s_user s = None \<Longrightarrow>
     s_user t = None \<and> filter is_form_request (s_pending t) = filter is_form_request (s_pending s) @ [ReqRegister]"
  by (auto simp: session_defs is_form_request_def)

lemma form_submit_inv:
  assumes "form_inv kd origin n a" "ap_left a = None"
  shows "form_inv kd origin n (form_submit kd origin a)"
proof (cases "f_loading (ap_form a)")
  case True
  with assms show ?thesis by (simp add: form_submit_def)
next
  case False
  with assms have user: "s_user (ap_session a) = None" and inv: "requests_inv kd n a" and own: "ap_own a = None"
    by (auto simp: form_inv_def requests_inv_def own_list_def split: if_splits option.splits)
  obtain f e where sub: "handleSubmit kd (ap_form a) = (f, e)" by fastforce
  show ?thesis
  proof (cases e)
    case None
    then have "f_loading f = f_loading (ap_form a)"
      using sub by (cases kd) (auto simp: form_defs Let_def split: option.splits if_splits)
    with None False sub assms show ?thesis
      by (simp add: form_submit_def form_inv_def requests_inv_def own_list_def)
  next
    case (Some ev)
    then have f: "f_loading f" "ev = (case kd of LoginForm \<Rightarrow> CallLogin | SignupForm \<Rightarrow> CallSignup)"
      using sub by (cases kd; auto simp: form_defs Let_def split: option.splits if_splits)+
    then obtain t where t: "session_step ev (ap_session a) = Some t" by (cases kd) auto
    then have "filter is_form_request (s_pending t) = filter is_form_request (s_pending (ap_session a)) @ [call_request kd]"
      using session_call_requests [of "ap_session a" t] user f(2) by (cases kd) (auto simp: call_request_def)
    moreover have "own_request kd (call_request kd)" by (cases kd) (simp_all add: own_request_def call_request_def)
    ultimately show ?thesis
      using Some False sub t f(1) inv own unfolding form_submit_def
      by (auto intro!: form_effect_inv simp: requests_inv_def own_list_def)
  qed
qed

lemma filter_remove1: "filter P (remove1 x xs) = (if P x then remove1 x (filter P xs) else filter P xs)"
  by (induction xs) auto

lemma commit_requests [simp]:
  "filter is_form_request (s_pending (commit s)) = filter is_form_request (s_pending s)"
  "s_user (commit s) = s_user s"
  by (simp_all add: commit_def run_effect_def send_def setIsLoading_def is_form_request_def)

lemma form_request_simps:
  "\<not> is_form_request ReqProfile" "is_form_request ReqLogin" "is_form_request ReqRegister"
  "is_form_request ReqSignupLogin"
  by (simp_all add: is_form_request_def)

lemma session_answer_pending:
  assumes "session_step e s = Some t" "is_answer e"
  shows "answered_request e \<in> set (s_pending s)
    \<and> filter is_form_request (s_pending t) =
        filter is_form_request (remove1 (answered_request e) (s_pending s)) @ next_requests e"
  using assms
  by (cases e) (auto simp: answered_def setter_defs form_request_simps split: if_splits)

lemma session_answer_user:
  assumes "session_step e s = Some t" "is_answer e" "s_user t = None"
  shows "e = ProfileFail \<or> e = RegisterOk \<or> rejects e"
  using assms by (cases e) (auto simp: answered_def setter_defs split: if_splits)

text \<open>An answer uses up its request; the answer to a registration is followed by a login.\<close>

lemma session_answer_mset:
  assumes "session_step e s = Some t" "is_answer e"
  shows "mset (filter is_form_request (s_pending t)) =
     mset (filter is_form_request (s_pending s)) - {#answered_request e#} + mset (next_requests e)"
proof -
  have "{#x \<in># mset xs. is_form_request x#} - {#ReqProfile#} = {#x \<in># mset xs. is_form_request x#}" for xs
    by (simp add: diff_single_trivial form_request_simps)
  then show ?thesis
    using session_answer_pending [OF assms] by (auto simp: filter_remove1 is_form_request_def)
qed

lemma own_answer_inv:
  assumes "form_inv kd origin n a" "ap_left a = None" "is_answer e" "own_answer kd origin e a = Some b"
  shows "form_inv kd origin n b"
proof -
  from assms(4) obtain t where t: "session_step e (ap_session a) = Some t"
    and own: "ap_own a = Some (answered_request e)"
    and b: "b = form_effect kd origin (a\<lparr>ap_session := t,
         ap_form := (if rejects e then form_rejected (ap_form a) else ap_form a),
         ap_own := (case next_requests e of [] \<Rightarrow> None | r # _ \<Rightarrow> Some r)\<rparr>)"
    by (auto simp: own_answer_def split: if_splits)
  from assms(1,2) own have inv: "requests_inv kd n a" and load: "f_loading (ap_form a)"
    by (auto simp: form_inv_def requests_inv_def own_list_def split: if_splits)
  have form: "is_form_request (answered_request e)"
    using inv own by (cases kd) (auto simp: requests_inv_def own_list_def own_request_def is_form_request_def)
  let ?c = "a\<lparr>ap_session := t, ap_form := (if rejects e then form_rejected (ap_form a) else ap_form a),
         ap_own := (case next_requests e of [] \<Rightarrow> None | r # _ \<Rightarrow> Some r)\<rparr>"
  show ?thesis unfolding b
  proof (rule form_effect_inv)
    assume "s_user (ap_session ?c) = None"
    then have "s_user t = None" by simp
    with session_answer_user [OF t assms(3)] form consider "e = RegisterOk" | "rejects e" "next_requests e = []"
      by (cases e) (auto simp: form_request_simps)
    then show "requests_inv kd n ?c"
      using inv own load session_answer_mset [OF t assms(3)]
      by cases (cases kd; auto simp: requests_inv_def own_list_def own_request_def form_rejected_def)+
  qed
qed

lemma other_answer_inv:
  assumes "form_inv kd origin n a" "ap_left a = None" "is_answer e" "other_answer kd origin e a = Some b"
  shows "form_inv kd origin n b"
proof -
  from assms(4) obtain t where t: "session_step e (ap_session a) = Some t"
    and old: "answered_request e = ReqProfile \<or> answered_request e \<in> set (ap_older a)"
    and b: "b = form_effect kd origin (a\<lparr>ap_session := t,
         ap_older := remove1 (answered_request e) (ap_older a) @ next_requests e\<rparr>)"
    by (auto simp: other_answer_def split: if_splits)
  from assms(1,2) have inv: "requests_inv kd n a"
    by (auto simp: form_inv_def split: if_splits)
  then have pend: "mset (filter is_form_request (s_pending (ap_session a))) = mset (ap_older a) + mset (own_list a)"
    by (simp add: requests_inv_def)
  then have "ReqProfile \<notin># mset (ap_older a) + mset (own_list a)"
    by (metis filter_mset_eq_conv form_request_simps(1) mset_filter)
  with old have "mset (ap_older a) + mset (own_list a) - {#answered_request e#}
      = mset (remove1 (answered_request e) (ap_older a)) + mset (own_list a)"
    by (auto simp: diff_single_trivial)
  with pend session_answer_mset [OF t assms(3)]
  have "mset (filter is_form_request (s_pending t)) =
      mset (remove1 (answered_request e) (ap_older a) @ next_requests e) + mset (own_list a)" by simp
  moreover have "length (remove1 (answered_request e) (ap_older a) @ next_requests e) \<le> length (ap_older a)"
    using old assms(3)
    by (cases e) (auto simp: length_remove1 dest: length_pos_if_in_set)
  ultimately show ?thesis
    unfolding b using inv by (intro form_effect_inv) (simp add: requests_inv_def own_list_def)
qed

lemma form_reach_inv:
  "form_reach kd origin s a \<Longrightarrow> form_inv kd origin (length (filter is_form_request (s_pending s))) a"
proof (induction rule: form_reach.induct)
  case open_form
  show ?case unfolding form_mount_def
    by (intro form_effect_inv) (simp add: new_form_def requests_inv_def own_list_def)
next
  case (input a e)
  show ?case
  proof (cases e)
    case FormSubmitted
    with input show ?thesis by (simp add: form_submit_inv)
  qed (use input in \<open>simp_all add: form_inv_def requests_inv_def own_list_def setEmail_def setPassword_def\<close>)
next
  case (answer a e own b)
  then show ?case by (auto simp: form_answer_def intro: own_answer_inv other_answer_inv split: if_splits)
qed

section \<open>Properties\<close>

text \<open>C22: On the login page and on the sign-up page, whenever it was opened: while the page is there the
  requests of forms under way are those still open of forms that were left before (no more than
  there were when the page was opened), and, exactly while this form's button is disabled, one
  request of this form. In particular, a page opened with no such request under way has one
  request while its button is disabled and none otherwise. The page is left exactly when
  somebody is logged in, and then for the page the user came from, or for the dashboard.\<close>

theorem form_one_request:
  assumes "form_reach kd origin s a"
  shows "ap_left a = (if s_user (ap_session a) = None then None else Some (form_target kd origin))
    \<and> (ap_left a = None \<longrightarrow>
         (case ap_own a of None \<Rightarrow> \<not> f_loading (ap_form a)
          | Some r \<Rightarrow> f_loading (ap_form a) \<and> own_request kd r)
         \<and> mset (filter is_form_request (s_pending (ap_session a)))
             = mset (ap_older a) + (case ap_own a of None \<Rightarrow> {#} | Some r \<Rightarrow> {#r#})
         \<and> length (ap_older a) \<le> length (filter is_form_request (s_pending s))
         \<and> (filter is_form_request (s_pending s) = [] \<longrightarrow>
              length (filter is_form_request (s_pending (ap_session a))) = of_bool (f_loading (ap_form a))))"
proof -
  note inv = form_reach_inv [OF assms, unfolded form_inv_def]
  have "length (filter is_form_request (s_pending (ap_session a))) = of_bool (f_loading (ap_form a))"
    if "requests_inv kd 0 a"
  proof -
    from that have "mset (filter is_form_request (s_pending (ap_session a))) = mset (own_list a)"
      by (simp add: requests_inv_def)
    from mset_eq_length [OF this] that show ?thesis
      by (auto simp: requests_inv_def own_list_def split: option.splits)
  qed
  with inv show ?thesis
    by (auto simp: requests_inv_def own_list_def split: if_splits option.splits)
qed

text \<open>The login page of a new session is submitted, left for the sign-up page and opened again while its
  request still runs: the button is enabled, and a second login is sent beside the first one.\<close>

theorem form_one_request_witness:
  "\<exists>s a. form_reach LoginForm None s a \<and> f_loading (ap_form a) \<and> ap_left a = None
     \<and> ap_own a = Some ReqLogin
     \<and> length (ap_older a) \<le> length (filter is_form_request (s_pending s))
     \<and> mset (filter is_form_request (s_pending (ap_session a))) = {#ReqLogin, ReqLogin#}"
proof -
  let ?m0 = "form_mount LoginForm None (AuthProvider None)"
  let ?s = "ap_session (form_input LoginForm None FormSubmitted ?m0)"
  let ?m = "form_mount LoginForm None ?s"
  let ?a = "form_input LoginForm None FormSubmitted (form_input LoginForm None FormSubmitted ?m)"
  have "s_user (AuthProvider None) = None" by (simp add: session_defs truthy_str_def)
  then have "session_step CallLogin (AuthProvider None) = Some ?s"
    by (simp add: form_defs)
  then have "session_reach ?s" by (rule session_reach.event [OF session_reach.mount])
  then have m: "form_reach LoginForm None ?s ?m" by (rule form_reach.open_form)
  have l: "ap_left ?m = None" "ap_left (form_input LoginForm None FormSubmitted ?m) = None"
    "ap_left ?a = None" "f_loading (ap_form ?a)" "ap_own ?a = Some ReqLogin" "ap_older ?a = [ReqLogin]"
    by (simp_all add: form_defs session_defs truthy_str_def is_form_request_def)
  have "form_reach LoginForm None ?s ?a"
    by (intro form_reach.input) (rule m l(1,2))+
  with form_one_request [OF this] l(3-6) show ?thesis
    by (intro exI [of _ ?s] exI [of _ ?a]) simp
qed

lemma form_loading_clean: "form_reach kd origin s a \<Longrightarrow> f_loading (ap_form a) \<longrightarrow> f_formError (ap_form a) = None"
proof (induction rule: form_reach.induct)
  case open_form
  show ?case by (simp add: form_mount_def new_form_def)
next
  case (input a e)
  have "f_loading f \<longrightarrow> f_formError f = None" if "handleSubmit kd (ap_form a) = (f, ev)" "\<not> f_loading (ap_form a)" for f ev
    using that by (cases kd) (auto simp: form_defs Let_def split: option.splits if_splits)
  with input.IH show ?case
    by (cases e) (auto simp: form_submit_def setEmail_def setPassword_def split: prod.splits option.splits)
next
  case (answer a e own b)
  then show ?case
    by (auto simp: form_answer_def own_answer_def other_answer_def form_rejected_def split: if_splits)
qed

text \<open>C33: A failure is reported and can be corrected: when the login, the registration or the login
  after it that this form awaits fails, the page stays, shows the message of the server, or else of
  the exception, or else a text of its own, keeps what was typed, and enables its button. This
  holds in every reachable state, also with requests of earlier forms under way.\<close>

theorem form_failure_shown:
  assumes "form_reach kd origin s a" "ap_left a = None" "form_answer kd origin True e a = Some b"
    and "e = LoginFail err \<and> kd = LoginForm \<or> (e = RegisterFail err \<or> e = SignupLoginFail err) \<and> kd = SignupForm"
  shows "shown_error b = Some (error_text err
        (if kd = LoginForm then ''Login failed. Please check your credentials.'' else ''Signup failed. Please try again.''))
    \<and> ap_left b = None \<and> \<not> f_loading (ap_form b)
    \<and> f_email (ap_form b) = f_email (ap_form a) \<and> f_password (ap_form b) = f_password (ap_form a)"
proof -
  from assms(3) have "ap_own a \<noteq> None" by (auto simp: form_answer_def own_answer_def split: if_splits)
  then have "f_loading (ap_form a)"
    using form_reach_inv [OF assms(1)] assms(2)
    by (auto simp: form_inv_def requests_inv_def own_list_def split: if_splits)
  with form_loading_clean [OF assms(1)] have "f_formError (ap_form a) = None" by simp
  moreover have "s_user (ap_session a) = None"
    using form_reach_inv [OF assms(1)] assms(2) by (auto simp: form_inv_def split: if_splits)
  ultimately show ?thesis
    using assms(3,4)
    by (auto simp: form_answer_def own_answer_def shown_error_def form_rejected_def truthy_str_def answered_def
        form_effect_left commit_def run_effect_def setter_defs split: if_splits)
qed

text \<open>A login that the server refuses with a message.\<close>

theorem form_failure_shown_witness:
  "\<exists>a b. form_reach LoginForm None (AuthProvider None) a \<and> f_loading (ap_form a)
     \<and> form_answer LoginForm None True (LoginFail \<lparr>he_response = Some ''Locked'', he_message = Some ''403''\<rparr>) a = Some b
     \<and> shown_error b = Some ''Locked'' \<and> ap_left b = None \<and> \<not> f_loading (ap_form b)"
proof -
  let ?m = "form_mount LoginForm None (AuthProvider None)"
  let ?a = "form_input LoginForm None FormSubmitted ?m"
  let ?e = "LoginFail \<lparr>he_response = Some ''Locked'', he_message = Some ''403''\<rparr>"
  have m: "form_reach LoginForm None (AuthProvider None) ?m"
    by (rule form_reach.open_form [OF session_reach.mount])
  have l: "ap_left ?m = None" "ap_left ?a = None" "f_loading (ap_form ?a)" "ap_own ?a = Some ReqLogin"
    "ReqLogin \<in> set (s_pending (ap_session ?a))"
    by (simp_all add: form_defs session_defs truthy_str_def)
  have r: "form_reach LoginForm None (AuthProvider None) ?a" by (rule form_reach.input [OF m l(1)])
  from l(4,5) obtain b where b: "form_answer LoginForm None True ?e ?a = Some b"
    by (auto simp: form_answer_def own_answer_def answered_def)
  from form_failure_shown [OF r l(2) b] have "shown_error b = Some ''Locked''" "ap_left b = None" "\<not> f_loading (ap_form b)"
    by (simp_all add: error_text_def truthy_str_def)
  with r l(3) b show ?thesis by blast
qed

text \<open>The sign-up page registers only passwords that pass its check, and sends what was typed.\<close>

lemma validatePassword_message: "validatePassword v \<noteq> Some []"
  by (simp add: validatePassword_def split: prod.splits)

lemma signup_call_checked: "SignupPage_handleSubmit f = (f', Some e) \<Longrightarrow> validatePassword (f_password f) = None"
  using validatePassword_message by (auto simp: SignupPage_handleSubmit_def Let_def split: option.splits if_splits)

theorem signup_sends_checked:
  "form_reach SignupForm origin s a \<Longrightarrow> list_all (\<lambda>(email, password). validatePassword password = None) (ap_sent a)"
proof (induction rule: form_reach.induct)
  case open_form
  show ?case by (simp add: form_mount_def)
next
  case (input a e)
  then show ?case
    by (cases e)
       (auto simp: form_submit_def handleSubmit_def split: option.splits prod.splits dest: signup_call_checked)
next
  case (answer a e own b)
  then show ?case by (auto simp: form_answer_def own_answer_def other_answer_def split: if_splits)
qed

text \<open>The message of a failed login is still shown by a sign-up page that is opened later.\<close>

lemma stale_error_shown: "shown_error (form_mount kd origin s) = s_error s"
  by (simp add: shown_error_def form_defs truthy_str_def)

end
