(* ===== verification/Status_Views.thy ===== *)
theory Status_Views
  imports Dashboard_Page
begin

text \<open>
  How the console shows states: the icons and colours of \<^verbatim>\<open>SystemHealthPage.tsx\<close>, \<^verbatim>\<open>ManagementDashboard.tsx\<close>,
  \<^verbatim>\<open>CollectionsManagement.tsx\<close> and \<^verbatim>\<open>WorkersManagement.tsx\<close>, the figures of the collection dialog, and the topics of
  \<^verbatim>\<open>Documentation.tsx\<close>. An icon is its name and its colour. Shown: on every page the colour of a text is
  the colour of its icon, two pages show the state of the system in the same colours, which
  states crash the overview, and which topics of the documentation are empty.
\<close>

section \<open>Icons and colours\<close>

datatype icon = CheckCircle | AlertTriangle | XCircle | RefreshCw | Clock

definition sh_getStatusIcon :: "string \<Rightarrow> icon \<times> string" where
  "sh_getStatusIcon status =
     (if status = ''up'' \<or> status = ''healthy'' then (CheckCircle, ''text-green-400'')
      else if status = ''degraded'' then (AlertTriangle, ''text-yellow-400'')
      else if status = ''down'' \<or> status = ''critical'' then (XCircle, ''text-red-400'')
      else (RefreshCw, ''text-neutral-400''))"

definition sh_getStatusColor :: "string \<Rightarrow> string" where
  "sh_getStatusColor status =
     (if status = ''up'' \<or> status = ''healthy'' then ''text-green-400''
      else if status = ''degraded'' then ''text-yellow-400''
      else if status = ''down'' \<or> status = ''critical'' then ''text-red-400''
      else ''text-neutral-400'')"

definition getAlertLevelColor :: "string \<Rightarrow> string list" where
  "getAlertLevelColor level =
     (if level = ''critical'' then [''bg-red-500/10'', ''border-red-500/20'', ''text-red-400'']
      else if level = ''error'' then [''bg-red-500/10'', ''border-red-500/20'', ''text-red-400'']
      else if level = ''warning'' then [''bg-yellow-500/10'', ''border-yellow-500/20'', ''text-yellow-400'']
      else if level = ''info'' then [''bg-blue-500/10'', ''border-blue-500/20'', ''text-blue-400'']
      else [''bg-neutral-500/10'', ''border-neutral-500/20'', ''text-neutral-400''])"

text \<open>The dialog of a collection and the list of collections.\<close>

definition cd_getStatusIcon :: "string \<Rightarrow> icon \<times> string" where
  "cd_getStatusIcon status =
     (if status = ''healthy'' \<or> status = ''active'' then (CheckCircle, ''text-green-400'')
      else if status = ''degraded'' then (AlertTriangle, ''text-yellow-400'')
      else if status = ''error'' then (XCircle, ''text-red-400'')
      else (Clock, ''text-neutral-400''))"

definition cd_getStatusColor :: "string \<Rightarrow> string" where
  "cd_getStatusColor status =
     (if status = ''healthy'' \<or> status = ''active'' then ''text-green-400''
      else if status = ''degraded'' then ''text-yellow-400''
      else if status = ''error'' then ''text-red-400''
      else ''text-neutral-400'')"

definition cm_getStatusIcon :: "string \<Rightarrow> icon \<times> string" where
  "cm_getStatusIcon status =
     (if status = ''active'' then (CheckCircle, ''text-green-400'')
      else if status = ''creating'' then (Clock, ''text-yellow-400'')
      else if status = ''error'' then (XCircle, ''text-red-400'')
      else (Clock, ''text-neutral-400''))"

definition cm_badge :: "string \<Rightarrow> string list" where
  "cm_badge status =
     (if status = ''active'' then [''bg-green-500/10'', ''text-green-400'']
      else if status = ''creating'' then [''bg-yellow-500/10'', ''text-yellow-400'']
      else [''bg-red-500/10'', ''text-red-400''])"

definition healthColor :: "string \<Rightarrow> string" where
  "healthColor healthState =
     (if healthState = ''healthy'' then ''text-green-400''
      else if healthState = ''starting'' then ''text-yellow-400'' else ''text-red-400'')"

text \<open>The overview. \<^verbatim>\<open>statusConfig[status]\<close> is undefined for a state it does not name, and then \<^verbatim>\<open>config.icon\<close>
  throws; the alerts look up their classes without a default.\<close>

definition overall_badge :: "string \<Rightarrow> string list" where
  "overall_badge overall_status =
     (if overall_status = ''healthy'' then [''border-green-500/20'', ''bg-green-500/10'', ''text-green-400'']
      else if overall_status = ''degraded'' then [''border-yellow-500/20'', ''bg-yellow-500/10'', ''text-yellow-400'']
      else [''border-red-500/20'', ''bg-red-500/10'', ''text-red-400''])"

record status_config =
  sc_icon :: icon
  sc_color :: string
  sc_bg :: string

definition statusConfig :: "status_config js_obj" where
  "statusConfig =
     [(''up'', \<lparr>sc_icon = CheckCircle, sc_color = ''text-green-400'', sc_bg = ''bg-green-500/10''\<rparr>),
      (''down'', \<lparr>sc_icon = XCircle, sc_color = ''text-red-400'', sc_bg = ''bg-red-500/10''\<rparr>),
      (''degraded'', \<lparr>sc_icon = AlertTriangle, sc_color = ''text-yellow-400'', sc_bg = ''bg-yellow-500/10''\<rparr>)]"

definition ServiceStatusCard :: "string \<Rightarrow> js_error + status_config" where
  "ServiceStatusCard status =
     (case map_of statusConfig status of Some config \<Rightarrow> Inr config | None \<Rightarrow> Inl type_error)"

definition render_services :: "string list \<Rightarrow> js_error + status_config list" where
  "render_services statuses = res_map ServiceStatusCard statuses"

definition levelConfig :: "string list js_obj" where
  "levelConfig =
     [(''info'', [''border-blue-500/20'', ''bg-blue-500/10'', ''text-blue-400'']),
      (''warning'', [''border-yellow-500/20'', ''bg-yellow-500/10'', ''text-yellow-400'']),
      (''error'', [''border-red-500/20'', ''bg-red-500/10'', ''text-red-400'']),
      (''critical'', [''border-red-500/30'', ''bg-red-500/20'', ''text-red-300''])]"

section \<open>Figures\<close>

text \<open>The average number of vectors of a shard, for a number of shards.\<close>

definition avg_per_shard :: "text_conv \<Rightarrow> js_val \<Rightarrow> js_num \<Rightarrow> js_num" where
  "avg_per_shard K vector_count shard_count =
     (if js_lt (Fin 0) shard_count
      then js_round (js_div_num (toNumber K vector_count (Fin 0)) (js_max shard_count (Fin 1)))
      else Fin 0)"

section \<open>Topics\<close>

definition DOC_SECTIONS :: "(string \<times> string list) list" where
  "DOC_SECTIONS =
     [(''Getting Started'', [''intro'', ''setup'', ''auth'']),
      (''Core Concepts'', [''vectors'', ''collections'']),
      (''Resources'', [''faq''])]"

text \<open>Which contents a topic has; \<open>None\<close> is the default, the advice to select a topic.\<close>

definition getContent :: "string \<Rightarrow> string option" where
  "getContent i = (if i \<in> {''intro'', ''setup'', ''auth'', ''faq''} then Some i else None)"

record documentation =
  activeSection :: string
  sidebarOpen :: bool

definition new_documentation :: documentation where
  "new_documentation = \<lparr>activeSection = ''intro'', sidebarOpen = False\<rparr>"

definition toggle_sidebar :: "documentation \<Rightarrow> documentation" where
  "toggle_sidebar d = d\<lparr>sidebarOpen := \<not> sidebarOpen d\<rparr>"

definition topic_clicked :: "string \<Rightarrow> documentation \<Rightarrow> documentation" where
  "topic_clicked i d = d\<lparr>activeSection := i, sidebarOpen := False\<rparr>"

section \<open>Laws\<close>

text \<open>The texts have the colours of their icons, whatever the state.\<close>

lemma icon_colors:
  "snd (sh_getStatusIcon status) = sh_getStatusColor status"
  "snd (cd_getStatusIcon status) = cd_getStatusColor status"
  by (simp_all add: sh_getStatusIcon_def sh_getStatusColor_def cd_getStatusIcon_def cd_getStatusColor_def)

text \<open>The declared states of \<^verbatim>\<open>api-types.ts\<close>.\<close>

definition overall_states :: "string list" where
  "overall_states = [''healthy'', ''degraded'', ''critical'']"

definition service_states :: "string list" where
  "service_states = [''up'', ''down'', ''degraded'']"

definition collection_states :: "string list" where
  "collection_states = [''active'', ''creating'', ''error'']"

text \<open>The two pages that show the state of the system agree on its colour, for every declared state, and
  so do they for the services; outside the declared states of the system they differ.\<close>

lemma pages_agree_on_health:
  "list_all (\<lambda>st. last (overall_badge st) = sh_getStatusColor st) overall_states"
  "list_all (\<lambda>st. \<exists>c. ServiceStatusCard st = Inr c \<and> (sc_icon c, sc_color c) = sh_getStatusIcon st) service_states"
  "last (overall_badge ''unknown'') \<noteq> sh_getStatusColor ''unknown''"
  by (simp_all add: overall_badge_def sh_getStatusColor_def overall_states_def service_states_def
      ServiceStatusCard_def statusConfig_def sh_getStatusIcon_def)

text \<open>The list and the dialog of a collection do not: a collection that is being created is yellow in the
  list and grey in its dialog, a healthy or degraded one red in the list.\<close>

lemma collection_views_differ:
  "filter (\<lambda>st. last (cm_badge st) \<noteq> cd_getStatusColor st) (collection_states @ [''healthy'', ''degraded''])
     = [''creating'', ''healthy'', ''degraded'']"
  by (simp add: cm_badge_def cd_getStatusColor_def collection_states_def)

lemma ServiceStatusCard_total: "(\<exists>c. ServiceStatusCard st = Inr c) \<longleftrightarrow> st \<in> set service_states"
  by (auto simp: ServiceStatusCard_def statusConfig_def service_states_def split: option.splits if_splits)

lemma res_map_defined: "(\<exists>ys. res_map f xs = Inr ys) \<longleftrightarrow> (\<forall>x \<in> set xs. \<exists>y. f x = Inr y)"
  by (induction xs) (auto simp: res_bind_def split: sum.splits)

text \<open>The overview can be drawn if and only if every service has one of the three declared states: one
  other state of one service makes the whole page throw.\<close>

theorem overview_draws_iff: "(\<exists>cs. render_services statuses = Inr cs) \<longleftrightarrow> set statuses \<subseteq> set service_states"
  unfolding render_services_def res_map_defined ServiceStatusCard_total by auto

text \<open>The average of a collection with shards is the rounded quotient; a count below the number of
  shards still shows a whole number, and no division by zero happens.\<close>

lemma avg_per_shard_nat:
  assumes "toNumber K vc (Fin 0) = num_of_nat v" "0 < n"
  shows "avg_per_shard K vc (num_of_nat n) = js_round (Fin (of_nat v / of_nat n))"
  using assms by (simp add: avg_per_shard_def js_max_def js_div_num_def)

text \<open>The topics without contents.\<close>

lemma empty_topics: "filter (\<lambda>i. getContent i = None) (concat (map snd DOC_SECTIONS)) = [''vectors'', ''collections'']"
  by (simp add: DOC_SECTIONS_def getContent_def)

end
