(* ===== verification/Spec2Isabelle.thy ===== *)
theory Spec2Isabelle
  imports Internal_Services Api_Json Client_Pool Api_Keys Overlays Collection_Pages Account_Pages Auth_Forms Status_Views
begin

text \<open>
  A verification library for Vectron, a distributed vector database: its TypeScript code, that is
  the client library (\<^verbatim>\<open>clientlibs/js\<close>) and the web console (\<^verbatim>\<open>auth/frontend\<close>).

  \<^bold>\<open>The program.\<close> A \<^verbatim>\<open>VectronClient\<close> checks the arguments of a call, builds a protobuf message, sends it
  through a generated gRPC stub and translates what comes back. Writes go through \<^verbatim>\<open>callWithRetry\<close>,
  reads through \<^verbatim>\<open>callRead\<close>, which may hedge them with a second run. \<^verbatim>\<open>upsertBatch\<close> splits points
  into batches and runs them by concurrent workers; \<^verbatim>\<open>VectronClientPool\<close> deals out clients. The
  messages are encoded and decoded by code that ts-proto generated. The console keeps a session
  (token, user, loading flag, error) that its forms change and its routes are guarded by; its pages
  request data from the gateway, show it, and change it by dialogs.

  \<^bold>\<open>The theories\<close>, each with the code it models:

  \<^item> \<open>Vectron_Prelude\<close>: the JavaScript values the code relies on. Numbers are \<open>js_num\<close> (exact
    rationals with \<^verbatim>\<open>NaN\<close> and the infinities; rounding of 64-bit floats is not modelled), errors
    are left values of sums, objects used as dictionaries are their entry lists in
    \<^verbatim>\<open>Object.entries\<close> order with assignment \<open>js_set\<close>. Strings are lists of characters with codes
    below 256, where JavaScript has UTF-16 code units: texts with other characters are not covered.
  \<^item> \<open>Client_Errors\<close> (\<^verbatim>\<open>errors.ts\<close>, \<^verbatim>\<open>_handleError\<close>) and \<open>Client_Options\<close> (\<^verbatim>\<open>ClientOptions\<close>,
    \<^verbatim>\<open>normalizeOptions\<close>, the constructor, metadata and call options): an option is absent, present
    but undefined, or has a value.
  \<^item> \<open>Retry\<close>: \<^verbatim>\<open>shouldRetry\<close>, \<^verbatim>\<open>computeBackoffMs\<close> and the loop of \<^verbatim>\<open>callWithRetry\<close>, a partial function
    into \<open>option\<close> (\<open>None\<close>: never settles) that records every wait. Shown: it terminates for every
    limit that is a number, what it returns and how long it waits, that writes run once, that
    no gRPC error escapes. Its contract is the locale \<open>runner\<close>, interpreted on \<open>callWithRetry\<close>.
  \<^item> \<open>Hedged_Read\<close>: \<^verbatim>\<open>hedged\<close> and \<^verbatim>\<open>callRead\<close>, as a step relation over the events of its two runs and
    its timer, with the equivalent function \<open>hedge_exec\<close>; invariants by rule induction. The promise
    is the outcome of the first event that settles it (\<open>first_outcome\<close>).
  \<^item> \<open>Wire\<close>, \<open>Wire_Laws\<close>, \<open>Wire_Bytes\<close>: the shape of generated \<^verbatim>\<open>encode\<close> and \<^verbatim>\<open>decode\<close> functions over
    the reader and writer of \<^verbatim>\<open>@bufbuild/protobuf\<close>, which are a parameter. What the code relies on
    is stated in the locales \<open>wire_writer\<close>, \<open>wire_reader\<close> and \<open>wire_codec\<close>; the rules for fields are
    proved once inside them; \<open>Wire_Bytes\<close> interprets all three on the protobuf wire format.
  \<^item> \<open>Auth_Messages\<close>, \<open>Api_Messages\<close>, \<open>Reranker_Messages\<close>, \<open>Placement_Messages\<close>, \<open>Worker_Messages\<close> (the
    generated files under \<^verbatim>\<open>proto/\<close>): each message with \<^verbatim>\<open>createBase\<close>, \<^verbatim>\<open>encode\<close>, \<^verbatim>\<open>decode\<close>, \<^verbatim>\<open>fromPartial\<close>
    and \<^verbatim>\<open>create\<close>. Every message has its round trip (\<open>codes_X\<close>), the totality of its decoder
    (\<open>X_total\<close>) and, where it has a well-formedness predicate, that decoding any bytes yields only
    well-formed messages (\<open>decode_X_wf\<close>). Where two services use one name for different messages,
    those of the placement driver start with \<open>Pd\<close> and those of the worker with \<open>Wk\<close>.
  \<^item> \<open>Json\<close>, and for every one of these theories its \<open>_Json\<close>: untyped values, \<^verbatim>\<open>fromJSON\<close> and \<^verbatim>\<open>toJSON\<close> of
    each message and their round trip (\<open>json_X\<close>). How the runtime prints and reads numbers and
    what \<^verbatim>\<open>Buffer.from\<close> does are parameters; the locale \<open>base64_runtime\<close> has what is needed of it.
  \<^item> \<open>Service_Wire\<close>, \<open>Internal_Services\<close>: the method tables of the five services, and an RPC carried as
    bytes.
  \<^item> \<open>Client_Api\<close>: the public calls of \<^verbatim>\<open>VectronClient\<close>; the service behind the stub is a parameter.
  \<^item> \<open>Upsert_Batch\<close>: \<^verbatim>\<open>upsertBatch\<close>; the workers take turns by an arbitrary schedule, and one upsert
    takes effect as a whole. No client call, \<^verbatim>\<open>upsertBatch\<close> included, throws a raw gRPC error. What every step of a worker keeps holds after every run
    (\<open>crew_run_keeps\<close>); from this follow the count and, for servers that may fail, that a batched
    upsert has the effect of one upsert of all points (\<open>upsertBatch_stores_points\<close>).
  \<^item> \<open>Client_Pool\<close>: \<^verbatim>\<open>VectronClientPool\<close> and \<^verbatim>\<open>help\<close>. The pool refines a queue that is rotated by every
    call: the locale \<open>dealer\<close>, interpreted on \<open>pool_next\<close>.
  \<^item> \<open>Session\<close> (\<^verbatim>\<open>AuthContext.tsx\<close>, \<^verbatim>\<open>ProtectedRoute.tsx\<close>, \<^verbatim>\<open>App.tsx\<close>, the login, sign-up and plan forms): the
    session as a state machine whose answers may arrive late and in any order. The answers are
    well-typed: a login answer without a user, for which \<^verbatim>\<open>updateUserAndToken\<close> throws between
    setting the token and storing it, is not an event of the model.
  \<^item> \<open>React\<close>: how a page of the console runs. A handler is cut at its \<^verbatim>\<open>await\<close>s; what waits is a value; the
    answers arrive in any order. Its locales give what holds in all reachable states: \<open>page_inv\<close>
    (invariants), \<open>page_busy\<close> and \<open>page_settles\<close> (spinners), \<open>page_lock\<close> and \<open>page_dialog\<close> (buttons that
    are disabled while their request runs). Each is interpreted on the pages below.
  \<^item> \<open>Console_Format\<close> (\<^verbatim>\<open>format.ts\<close>), \<open>Management_Api\<close> (\<^verbatim>\<open>managementApi.ts\<close>: methods as flows of requests and
    answers), \<open>Overlays\<close> (\<^verbatim>\<open>Toast.tsx\<close> with its timers, \<^verbatim>\<open>Dialog.tsx\<close>).
  \<^item> \<open>Api_Keys\<close> (\<^verbatim>\<open>ApiKeyManager.tsx\<close>), \<open>Vector_Ops\<close> (\<^verbatim>\<open>VectorOperationsPage.tsx\<close>), \<open>Monitor_Pages\<close>
    (\<^verbatim>\<open>WorkersManagement.tsx\<close>, \<^verbatim>\<open>ApiGatewayManagement.tsx\<close>, \<^verbatim>\<open>SystemHealthPage.tsx\<close>,
    \<^verbatim>\<open>ManagementDashboard.tsx\<close>), \<open>Collection_Pages\<close> (\<^verbatim>\<open>CollectionsManagement.tsx\<close>,
    \<^verbatim>\<open>CollectionsPage.tsx\<close>), \<open>Dashboard_Page\<close> (\<^verbatim>\<open>Dashboard.tsx\<close>): state, handlers and effects of the
    pages, what they request and what they show.
  \<^item> \<open>Account_Pages\<close> (\<^verbatim>\<open>NewSidebar.tsx\<close>, \<^verbatim>\<open>NewLayout.tsx\<close>, \<^verbatim>\<open>BillingPage.tsx\<close>, \<^verbatim>\<open>ProfilePage.tsx\<close>, the copy
    buttons): the links of the sidebar against the routes of \<open>Session\<close>, the way of a plan change from
    the billing page through the session and back, usage bars, copy marks with their timers.
  \<^item> \<open>Auth_Forms\<close> (\<^verbatim>\<open>LoginPage.tsx\<close>, \<^verbatim>\<open>SignupPage.tsx\<close>, the effect of \<^verbatim>\<open>HomePage.tsx\<close>): the forms run together with
    the session, as one state machine. A page may be opened while requests of forms that were left
    are under way; an answer is told to be of this form or of another by the request it answers.
  \<^item> \<open>Status_Views\<close>: icons, colours and figures of the monitoring pages, topics of \<^verbatim>\<open>Documentation.tsx\<close>.
  \<^item> this theory: properties that span the client, the retry loop, the method tables and the wire
    format.

  \<^bold>\<open>Fuel.\<close> No definition of the program takes fuel. Loops that need not end are partial functions, and
  each claim that something is returned is proved as such. Only skipping an unknown field in
  \<open>Wire_Bytes\<close> counts down, from twice the input length plus two: each level of nesting takes a tag byte.

  \<^bold>\<open>Not modelled.\<close> Markup and texts, the spotlight and the language tabs of the landing page; React, axios and the router
  beyond the order of events; files generated from third-party definitions, which the client does
  not use at run time; the Go services and the Go and Python clients.
\<close>

section \<open>From the caller to the server and back\<close>

lemma upsert_request_wf: "wf_UpsertRequest (upsert_request collection ps)"
  by (simp add: wf_UpsertRequest_def upsert_request_def stored_wf)

lemma rounded_upsert_request:
  assumes "\<forall>p \<in> set ps. js_obj_ok (nullish (cp_payload p) [])"
  shows "rounded_UpsertRequest fround (upsert_request collection ps) =
     \<lparr>UpsertRequest_collection = collection,
      UpsertRequest_points = map (\<lambda>p.
        \<lparr>Point_id = cp_id p, Point_vector = map fround (cp_vector p),
         Point_payload = nullish (cp_payload p) []\<rparr>) ps\<rparr>"
  using assms
  by (simp add: rounded_UpsertRequest_def upsert_request_def rounded_Point_def stored_def js_copy_id
      comp_def)

lemma upsert_delivered:
  assumes "wire_codec W frames enc buf fround"
    and "collection \<noteq> []" "ps \<noteq> []"
    and "\<forall>p \<in> set ps. storable c p \<and> js_obj_ok (nullish (cp_payload p) [])"
    and "\<not> truthy_obool (o_retryOnWrites (c_options c))"
    and "unary (s_upsert S) = remote (VectronService_upsert W) handler"
    and "requestSerialize (VectronService_upsert W) (upsert_request collection ps) = Inr bs"
    and "responseSerialize (VectronService_upsert W) r = Inr bs'"
    and "handler
          \<lparr>UpsertRequest_collection = collection,
           UpsertRequest_points = map (\<lambda>p.
             \<lparr>Point_id = cp_id p, Point_vector = map fround (cp_vector p),
              Point_payload = nullish (cp_payload p) []\<rparr>) ps\<rparr>
          (getMetadata c) (getCallOptions c (s_now S w)) w = Some (Inr r, w')"
  shows "upsert c S collection ps w = Some (Inr (UpsertResponse_upserted r), [], w')"
proof -
  let ?q = "upsert_request collection ps"
  have "carries (VectronService_upsert W) (rounded_UpsertRequest fround) id ?q r"
    by (rule wire_codec.upsert_carries [OF assms(1) upsert_request_wf])
  moreover have "handler (rounded_UpsertRequest fround ?q) (getMetadata c) (getCallOptions c (s_now S w)) w
      = Some (Inr r, w')"
    using assms(4,9) by (simp add: rounded_upsert_request)
  ultimately have "unary (s_upsert S) ?q (getMetadata c) (getCallOptions c (s_now S w)) w = Some (Inr r, w')"
    using remote_carried [OF _ assms(7,8)] assms(6) by fastforce
  from write_call_once [OF assms(5) this, of "\<lambda>response. Inr (UpsertResponse_upserted response)"] assms(4)
  show ?thesis by (simp add: upsert_valid [OF assms(2,3)] settle_def)
qed

lemma get_delivered:
  assumes "wire_codec W frames enc buf fround"
    and "collection \<noteq> []" "pointId \<noteq> []" "wf_Point p"
    and "\<not> truthy_obool (o_hedgedReads (c_options c))"
    and "unary (s_get S) = remote (VectronService_get W) handler"
    and "requestSerialize (VectronService_get W)
           \<lparr>GetRequest_collection = collection, GetRequest_id = pointId\<rparr> = Inr bs"
    and "responseSerialize (VectronService_get W) \<lparr>GetResponse_point = Some p\<rparr> = Inr bs'"
    and "handler \<lparr>GetRequest_collection = collection, GetRequest_id = pointId\<rparr>
           (getMetadata c) (getCallOptions c (s_now S w)) w
         = Some (Inr \<lparr>GetResponse_point = Some p\<rparr>, w')"
  shows "get c S collection pointId w =
     Some (Inr \<lparr>cp_id = Point_id p, cp_vector = map fround (Point_vector p),
                cp_payload = Some (Point_payload p)\<rparr>, [], w')"
proof -
  let ?q = "\<lparr>GetRequest_collection = collection, GetRequest_id = pointId\<rparr>"
  have "carries (VectronService_get W) id (rounded_GetResponse fround) ?q \<lparr>GetResponse_point = Some p\<rparr>"
    by (rule wire_codec.get_carries [OF assms(1)]) (simp add: wf_GetResponse_def assms(4))
  from remote_carried [OF this assms(7,8)] assms(6,9)
  have "unary (s_get S) ?q (getMetadata c) (getCallOptions c (s_now S w)) w
      = Some (Inr \<lparr>GetResponse_point = Some (rounded_Point fround p)\<rparr>, w')"
    by (simp add: rounded_GetResponse_def)
  note answered = read_call_answered(1) [OF assms(5) this]
  show ?thesis using assms(2,3)
    by (auto simp: get_def create_GetRequest_def rounded_Point_def intro!: answered)
qed

text \<open>C1: End to end, an upsert delivers the caller's points: the server's handler receives the
  collection and, in order, every id, every vector (rounded to binary32) and every payload that
  the caller passed, exactly once, and the caller gets the server's count. This composes the
  checks of \<^verbatim>\<open>upsert\<close>, the request it builds, the retry loop, the method table and the wire format.\<close>

theorem upsert_end_to_end:
  assumes "wire_codec W frames enc buf fround"
    and "collection \<noteq> []" "ps \<noteq> []"
    and "\<forall>p \<in> set ps. storable c p \<and> js_obj_ok (nullish (cp_payload p) [])"
    and "\<not> truthy_obool (o_retryOnWrites (c_options c))"
    and "unary (s_upsert S) = remote (VectronService_upsert W) handler"
    and "requestSerialize (VectronService_upsert W) (upsert_request collection ps) = Inr bs"
    and "responseSerialize (VectronService_upsert W) r = Inr bs'"
    and "handler
          \<lparr>UpsertRequest_collection = collection,
           UpsertRequest_points = map (\<lambda>p.
             \<lparr>Point_id = cp_id p, Point_vector = map fround (cp_vector p),
              Point_payload = nullish (cp_payload p) []\<rparr>) ps\<rparr>
          (getMetadata c) (getCallOptions c (s_now S w)) w = Some (Inr r, w')"
  shows "upsert c S collection ps w = Some (Inr (UpsertResponse_upserted r), [], w')"
  by (rule upsert_delivered [OF assms])

text \<open>C12: End to end, a point that the server finds reaches the caller whole: id and payload as the
  server has them, the vector rounded to binary32.\<close>

theorem get_end_to_end:
  assumes "wire_codec W frames enc buf fround"
    and "collection \<noteq> []" "pointId \<noteq> []" "wf_Point p"
    and "\<not> truthy_obool (o_hedgedReads (c_options c))"
    and "unary (s_get S) = remote (VectronService_get W) handler"
    and "requestSerialize (VectronService_get W)
           \<lparr>GetRequest_collection = collection, GetRequest_id = pointId\<rparr> = Inr bs"
    and "responseSerialize (VectronService_get W) \<lparr>GetResponse_point = Some p\<rparr> = Inr bs'"
    and "handler \<lparr>GetRequest_collection = collection, GetRequest_id = pointId\<rparr>
           (getMetadata c) (getCallOptions c (s_now S w)) w
         = Some (Inr \<lparr>GetResponse_point = Some p\<rparr>, w')"
  shows "get c S collection pointId w =
     Some (Inr \<lparr>cp_id = Point_id p, cp_vector = map fround (Point_vector p),
                cp_payload = Some (Point_payload p)\<rparr>, [], w')"
  by (rule get_delivered [OF assms])

text \<open>C16: End to end, a search finds what the server found: the server receives the query with its
  vector rounded to binary32 and \<^verbatim>\<open>topK\<close>, 10 by default, and the caller gets one result per hit in the
  server's order, with its id and payload and with the score rounded to binary32.\<close>

theorem search_end_to_end:
  assumes "wire_codec W frames enc buf fround"
    and "collection \<noteq> []" "vector \<noteq> []" "dim_ok c vector" "wf_SearchResponse \<lparr>SearchResponse_results = hits\<rparr>"
    and "\<not> truthy_obool (o_hedgedReads (c_options c))"
    and "unary (s_search S) = remote (VectronService_search W) handler"
    and "requestSerialize (VectronService_search W)
           (createBaseSearchRequest\<lparr>SearchRequest_collection := collection,
              SearchRequest_vector := vector, SearchRequest_topK := nullish topK (Fin 10)\<rparr>) = Inr bs"
    and "responseSerialize (VectronService_search W) \<lparr>SearchResponse_results = hits\<rparr> = Inr bs'"
    and "handler
           (createBaseSearchRequest\<lparr>SearchRequest_collection := collection,
              SearchRequest_vector := map fround vector, SearchRequest_topK := nullish topK (Fin 10)\<rparr>)
           (getMetadata c) (getCallOptions c (s_now S w)) w = Some (Inr \<lparr>SearchResponse_results = hits\<rparr>, w')"
  shows "search c S collection vector topK w =
     Some (Inr (map (\<lambda>h. \<lparr>csr_id = SearchResult_id h, csr_score = fround (SearchResult_score h),
                         csr_payload = Some (SearchResult_payload h)\<rparr>) hits), [], w')"
proof -
  let ?q = "createBaseSearchRequest\<lparr>SearchRequest_collection := collection,
              SearchRequest_vector := vector, SearchRequest_topK := nullish topK (Fin 10)\<rparr>"
  have "rounded_SearchRequest fround ?q =
      createBaseSearchRequest\<lparr>SearchRequest_collection := collection,
        SearchRequest_vector := map fround vector, SearchRequest_topK := nullish topK (Fin 10)\<rparr>"
    by (simp add: rounded_SearchRequest_def createBaseSearchRequest_def)
  from remote_carried [OF wire_codec.search_carries [OF assms(1,5)] assms(8,9), of handler, unfolded this, OF assms(10)]
    assms(7)
  have "unary (s_search S) ?q (getMetadata c) (getCallOptions c (s_now S w)) w
      = Some (Inr (rounded_SearchResponse fround \<lparr>SearchResponse_results = hits\<rparr>), w')"
    by simp
  moreover have "create_SearchRequest (Some (Some collection, Some vector, Some (nullish topK (Fin 10)), None, None, None, None)) = ?q"
    by (simp add: create_SearchRequest_def createBaseSearchRequest_def)
  ultimately have "unary (s_search S)
      (create_SearchRequest (Some (Some collection, Some vector, Some (nullish topK (Fin 10)), None, None, None, None)))
      (getMetadata c) (getCallOptions c (s_now S w)) w
      = Some (Inr (rounded_SearchResponse fround \<lparr>SearchResponse_results = hits\<rparr>), w')" by simp
  note answered = read_call_answered(1) [OF assms(6) this]
  show ?thesis
    using assms(2-4)
    by (simp add: search_def validateVectorDim_ok [THEN iffD2] Let_def answered rounded_SearchResponse_def
        rounded_SearchResult_def comp_def)
qed

text \<open>C17: End to end, what is stored is read back. If the server returns, for a point that it has just
  stored, that point, then \<^verbatim>\<open>get\<close> after \<^verbatim>\<open>upsert\<close> returns the caller's point: same id, same payload, the
  vector rounded to binary32 on its way there and on its way back.\<close>

theorem upsert_then_get:
  assumes "wire_codec W frames enc buf fround"
    and "collection \<noteq> []" "p \<in> set ps"
    and "\<forall>p \<in> set ps. storable c p \<and> js_obj_ok (nullish (cp_payload p) [])"
    and "\<not> truthy_obool (o_retryOnWrites (c_options c))" "\<not> truthy_obool (o_hedgedReads (c_options c))"
    and "unary (s_upsert S) = remote (VectronService_upsert W) upsertHandler"
    and "unary (s_get S) = remote (VectronService_get W) getHandler"
    and "requestSerialize (VectronService_upsert W) (upsert_request collection ps) = Inr b1"
    and "responseSerialize (VectronService_upsert W) r = Inr b2"
    and "requestSerialize (VectronService_get W)
           \<lparr>GetRequest_collection = collection, GetRequest_id = cp_id p\<rparr> = Inr b3"
    and "responseSerialize (VectronService_get W)
           \<lparr>GetResponse_point = Some \<lparr>Point_id = cp_id p, Point_vector = map fround (cp_vector p),
              Point_payload = nullish (cp_payload p) []\<rparr>\<rparr> = Inr b4"
    and "upsertHandler
          \<lparr>UpsertRequest_collection = collection,
           UpsertRequest_points = map (\<lambda>p.
             \<lparr>Point_id = cp_id p, Point_vector = map fround (cp_vector p),
              Point_payload = nullish (cp_payload p) []\<rparr>) ps\<rparr>
          (getMetadata c) (getCallOptions c (s_now S w)) w = Some (Inr r, w1)"
    and "\<And>q x. x \<in> set (UpsertRequest_points q) \<Longrightarrow>
           upsertHandler q (getMetadata c) (getCallOptions c (s_now S w)) w = Some (Inr r, w1) \<Longrightarrow>
           getHandler \<lparr>GetRequest_collection = UpsertRequest_collection q, GetRequest_id = Point_id x\<rparr>
             (getMetadata c) (getCallOptions c (s_now S w1)) w1 = Some (Inr \<lparr>GetResponse_point = Some x\<rparr>, w2)"
  shows "upsert c S collection ps w = Some (Inr (UpsertResponse_upserted r), [], w1)
     \<and> get c S collection (cp_id p) w1 =
         Some (Inr \<lparr>cp_id = cp_id p, cp_vector = map fround (map fround (cp_vector p)),
                    cp_payload = Some (nullish (cp_payload p) [])\<rparr>, [], w2)"
proof -
  let ?pt = "\<lambda>p. \<lparr>Point_id = cp_id p, Point_vector = map fround (cp_vector p), Point_payload = nullish (cp_payload p) []\<rparr>"
  let ?q = "\<lparr>UpsertRequest_collection = collection, UpsertRequest_points = map ?pt ps\<rparr>"
  have "ps \<noteq> []" using assms(3) by auto
  then have up: "upsert c S collection ps w = Some (Inr (UpsertResponse_upserted r), [], w1)"
    by (rule upsert_delivered [OF assms(1,2) _ assms(4,5,7,9,10,13)])
  have "?pt p \<in> set (UpsertRequest_points ?q)" using assms(3) by simp
  from assms(14) [OF this assms(13)] have found:
    "getHandler \<lparr>GetRequest_collection = collection, GetRequest_id = cp_id p\<rparr>
       (getMetadata c) (getCallOptions c (s_now S w1)) w1 = Some (Inr \<lparr>GetResponse_point = Some (?pt p)\<rparr>, w2)"
    by simp
  have "cp_id p \<noteq> []" "wf_Point (?pt p)" using assms(3,4) by (auto simp: storable_def wf_Point_def)
  from get_delivered [OF assms(1,2) this assms(6,8,11,12) found] up show ?thesis by simp
qed

section \<open>Batches from the caller to the server\<close>

text \<open>A server that keeps points: an upsert that it acknowledges is counted and kept as a whole, one that
  it refuses may be kept in part. \<open>received\<close> is the point as it arrives.\<close>

definition keeps_points ::
  "('w \<Rightarrow> Point multiset) \<Rightarrow> (UpsertRequest \<Rightarrow> metadata \<Rightarrow> call_options \<Rightarrow> (UpsertResponse, 'w) async) \<Rightarrow> bool" where
  "keeps_points has handler \<longleftrightarrow>
     (\<forall>q meta opts w. \<exists>res w'. handler q meta opts w = Some (res, w') \<and>
        (case res of
           Inr r \<Rightarrow> UpsertResponse_upserted r = num_of_nat (length (UpsertRequest_points q))
             \<and> has w' = has w + mset (UpsertRequest_points q)
         | Inl e \<Rightarrow> has w \<subseteq># has w' \<and> has w' \<subseteq># has w + mset (UpsertRequest_points q)))"

definition received :: "(js_num \<Rightarrow> js_num) \<Rightarrow> ClientPoint \<Rightarrow> Point" where
  "received fround p =
     \<lparr>Point_id = cp_id p, Point_vector = map fround (cp_vector p), Point_payload = nullish (cp_payload p) []\<rparr>"

lemma rounded_points:
  assumes "\<forall>p \<in> set ps. js_obj_ok (nullish (cp_payload p) [])"
  shows "UpsertRequest_points (rounded_UpsertRequest fround (upsert_request collection ps)) = map (received fround) ps"
  using assms by (simp add: rounded_upsert_request received_def [abs_def])

text \<open>An RPC to such a server, whatever goes wrong on the way.\<close>

lemma upsert_rpc_kept:
  assumes "wire_codec W frames enc buf fround" "keeps_points has handler" "wf_UpsertRequest q"
  shows "\<exists>res w'. remote (VectronService_upsert W) handler q meta opts w = Some (res, w') \<and>
     (case res of
        Inr r \<Rightarrow> UpsertResponse_upserted r = num_of_nat (length (UpsertRequest_points (rounded_UpsertRequest fround q)))
          \<and> has w' = has w + mset (UpsertRequest_points (rounded_UpsertRequest fround q))
      | Inl e \<Rightarrow> has w \<subseteq># has w' \<and> has w' \<subseteq># has w + mset (UpsertRequest_points (rounded_UpsertRequest fround q)))"
proof -
  let ?q = "rounded_UpsertRequest fround q"
  note carried = wire_codec.upsert_carries [OF assms(1,3), unfolded carries_def]
  from assms(2) obtain res w' where h: "handler ?q meta opts w = Some (res, w')"
    "case res of
       Inr r \<Rightarrow> UpsertResponse_upserted r = num_of_nat (length (UpsertRequest_points ?q))
         \<and> has w' = has w + mset (UpsertRequest_points ?q)
     | Inl e \<Rightarrow> has w \<subseteq># has w' \<and> has w' \<subseteq># has w + mset (UpsertRequest_points ?q)"
    unfolding keeps_points_def by meson
  show ?thesis
  proof (cases "requestSerialize (VectronService_upsert W) q")
    case (Inl e)
    then show ?thesis by (simp add: remote_def)
  next
    case (Inr bs)
    then have d: "requestDeserialize (VectronService_upsert W) bs = Some (Inr ?q)" using carried by blast
    show ?thesis
    proof (cases res)
      case (Inl e)
      with h Inr d show ?thesis by (simp add: remote_def)
    next
      case r: (Inr r)
      show ?thesis
      proof (cases "responseSerialize (VectronService_upsert W) r")
        case (Inl e)
        with h Inr d r show ?thesis by (simp add: remote_def)
      next
        case bs': (Inr bs')
        then have "responseDeserialize (VectronService_upsert W) bs' = Some (Inr r)" using carried by fastforce
        with h Inr d r bs' show ?thesis by (simp add: remote_def)
      qed
    qed
  qed
qed

lemma upsert_kept:
  assumes "wire_codec W frames enc buf fround" "keeps_points has handler"
    and "collection \<noteq> []" "ps \<noteq> []"
    and "\<forall>p \<in> set ps. storable c p \<and> js_obj_ok (nullish (cp_payload p) [])"
    and "\<not> truthy_obool (o_retryOnWrites (c_options c))"
    and "unary (s_upsert S) = remote (VectronService_upsert W) handler"
  shows "\<exists>res sl w'. upsert c S collection ps w = Some (res, sl, w') \<and> store_effect has (received fround) ps w res w'"
proof -
  have points: "UpsertRequest_points (rounded_UpsertRequest fround (upsert_request collection ps)) = map (received fround) ps"
    using assms(5) by (intro rounded_points) simp
  from upsert_rpc_kept [OF assms(1,2) upsert_request_wf, of collection ps "getMetadata c" "getCallOptions c (s_now S w)" w,
      folded assms(7), unfolded points length_map]
  obtain res w' where r: "unary (s_upsert S) (upsert_request collection ps) (getMetadata c) (getCallOptions c (s_now S w)) w
      = Some (res, w')"
    "case res of
       Inr r \<Rightarrow> UpsertResponse_upserted r = num_of_nat (length ps) \<and> has w' = has w + mset (map (received fround) ps)
     | Inl e \<Rightarrow> has w \<subseteq># has w' \<and> has w' \<subseteq># has w + mset (map (received fround) ps)"
    by blast
  have "upsert c S collection ps w =
      Some (case res of Inl e \<Rightarrow> Inl (rethrow e) | Inr r \<Rightarrow> Inr (UpsertResponse_upserted r), [], w')"
    using r(1) assms(3-6) by (intro upsert_sends_once) (auto simp: upsert_request_def)
  with r(2) show ?thesis by (auto simp: store_effect_def split: sum.splits)
qed

text \<open>C2: A batched upsert with several workers stores every point once. The points are split, dealt to
  the workers, sent as bytes in requests that interleave in any order, and each request may fail
  anywhere on its way. If \<^verbatim>\<open>upsertBatch\<close> reports a number, it is the number of points, and the server
  has exactly the caller's points more than before, each once, with ids and payloads unchanged
  and vectors rounded to binary32. If it throws, the server has lost nothing and no point was
  stored twice. And some order of the workers completes.\<close>

theorem upsertBatch_end_to_end:
  assumes "wire_codec W frames enc buf fround" "keeps_points has handler"
    and "0 < k" "0 < n" "collection \<noteq> []" "points \<noteq> []"
    and "\<forall>p \<in> set points. storable c p \<and> js_obj_ok (nullish (cp_payload p) [])"
    and "\<not> truthy_obool (o_retryOnWrites (c_options c))"
    and "unary (s_upsert S) = remote (VectronService_upsert W) handler"
  shows "(\<forall>sched res sl w'.
      upsertBatch c S collection points (num_of_nat k) (num_of_nat n) sched w = Some (res, sl, w') \<longrightarrow>
        (case res of
           Inr m \<Rightarrow> m = num_of_nat (length points) \<and> has w' = has w + image_mset (received fround) (mset points)
         | Inl e \<Rightarrow> has w \<subseteq># has w' \<and> has w' \<subseteq># has w + image_mset (received fround) (mset points)))
    \<and> (\<exists>sched r. upsertBatch c S collection points (num_of_nat k) (num_of_nat n) sched w = Some r)"
  unfolding store_effect_def [symmetric]
proof (rule upsertBatch_stores_points [OF assms(3,4,6)])
  fix b w assume "b \<noteq> []" "set b \<subseteq> set points"
  then show "\<exists>res sl w'. upsert c S collection b w = Some (res, sl, w') \<and> store_effect has (received fround) b w res w'"
    using assms(7) by (intro upsert_kept [OF assms(1,2,5) _ _ assms(8,9)]) auto
qed

text \<open>A server for the examples: it counts calls, acknowledges every point and finds one point.\<close>

definition wire_service :: "nat service" where
  "wire_service = echo_service
     \<lparr>s_upsert :=
        \<lparr>unary = remote (VectronService_upsert protobuf) (\<lambda>q meta opts n.
           Some (Inr \<lparr>UpsertResponse_upserted = num_of_nat (length (UpsertRequest_points q))\<rparr>, Suc n)),
         events = (\<lambda>q meta opts n. ([], n))\<rparr>,
      s_get :=
        \<lparr>unary = remote (VectronService_get protobuf) (\<lambda>q meta opts n.
           Some (Inr \<lparr>GetResponse_point = Some \<lparr>Point_id = GetRequest_id q,
             Point_vector = [Fin 16777217], Point_payload = [(''k'', ''v'')]\<rparr>\<rparr>, Suc n)),
         events = (\<lambda>q meta opts n. ([], n))\<rparr>\<rparr>"

lemmas wire_sample =
  VectronService_upsert_def VectronService_get_def serialize_def upsert_request_def stored_def
  js_copy_def js_set_def is_index_key_def is_digit_def
  encode_UpsertRequest_def encode_UpsertResponse_def encode_Point_def encode_Point_PayloadEntry_def
  encode_GetRequest_def encode_GetResponse_def protobuf_eval

theorem upsert_end_to_end_witness:
  "upsert sample_client wire_service ''docs''
     [\<lparr>cp_id = ''a'', cp_vector = [Fin 1, Fin 16777217], cp_payload = Some [(''k'', ''v'')]\<rparr>] 0
   = Some (Inr (Fin 1), [], 1)"
proof -
  let ?ps = "[\<lparr>cp_id = ''a'', cp_vector = [Fin 1, Fin 16777217], cp_payload = Some [(''k'', ''v'')]\<rparr>]"
  have "\<exists>bs. requestSerialize (VectronService_upsert protobuf) (upsert_request ''docs'' ?ps) = Inr bs"
    by (simp add: wire_sample del: float32_bits.simps)
  moreover have "\<exists>bs. responseSerialize (VectronService_upsert protobuf) \<lparr>UpsertResponse_upserted = Fin 1\<rparr> = Inr bs"
    by (simp add: wire_sample)
  ultimately obtain bs bs' where
    "requestSerialize (VectronService_upsert protobuf) (upsert_request ''docs'' ?ps) = Inr bs"
    "responseSerialize (VectronService_upsert protobuf) \<lparr>UpsertResponse_upserted = Fin 1\<rparr> = Inr bs'"
    by blast
  from upsert_end_to_end [OF pb.wire_codec_axioms _ _ _ _ _ this, of sample_client wire_service
      "\<lambda>q meta opts n. Some (Inr \<lparr>UpsertResponse_upserted = num_of_nat (length (UpsertRequest_points q))\<rparr>, Suc n)" 0 1]
  show ?thesis by (simp add: wire_service_def sample_simps)
qed

theorem get_end_to_end_witness:
  "get sample_client wire_service ''docs'' ''a'' 0 =
     Some (Inr \<lparr>cp_id = ''a'', cp_vector = [Fin 16777216], cp_payload = Some [(''k'', ''v'')]\<rparr>, [], 1)"
proof -
  let ?p = "\<lparr>Point_id = ''a'', Point_vector = [Fin 16777217], Point_payload = [(''k'', ''v'')]\<rparr>"
  have "\<exists>bs. requestSerialize (VectronService_get protobuf)
      \<lparr>GetRequest_collection = ''docs'', GetRequest_id = ''a''\<rparr> = Inr bs"
    by (simp add: wire_sample)
  moreover have "\<exists>bs. responseSerialize (VectronService_get protobuf) \<lparr>GetResponse_point = Some ?p\<rparr> = Inr bs"
    by (simp add: wire_sample del: float32_bits.simps)
  ultimately obtain bs bs' where s:
    "requestSerialize (VectronService_get protobuf)
      \<lparr>GetRequest_collection = ''docs'', GetRequest_id = ''a''\<rparr> = Inr bs"
    "responseSerialize (VectronService_get protobuf) \<lparr>GetResponse_point = Some ?p\<rparr> = Inr bs'"
    by blast
  have "wf_Point ?p" by (simp add: wf_Point_def)
  from get_end_to_end [OF pb.wire_codec_axioms _ _ this _ _ s, of sample_client wire_service
      "\<lambda>q meta opts n. Some (Inr \<lparr>GetResponse_point = Some \<lparr>Point_id = GetRequest_id q,
         Point_vector = [Fin 16777217], Point_payload = [(''k'', ''v'')]\<rparr>\<rparr>, Suc n)" 0 1]
  show ?thesis by (simp add: wire_service_def sample_simps fround32_values)
qed

theorem search_end_to_end_witness:
  "search sample_client
     (wire_service\<lparr>s_search := \<lparr>unary = remote (VectronService_search protobuf) (\<lambda>q meta opts n.
        Some (Inr \<lparr>SearchResponse_results = [hit]\<rparr>, Suc n)), events = (\<lambda>q meta opts n. ([], n))\<rparr>\<rparr>)
     ''docs'' [Fin 1, Fin 2] None 0
   = Some (Inr [\<lparr>csr_id = ''a'', csr_score = Fin 1, csr_payload = Some []\<rparr>], [], 1)"
proof -
  let ?q = "createBaseSearchRequest\<lparr>SearchRequest_collection := ''docs'',
      SearchRequest_vector := [Fin 1, Fin 2], SearchRequest_topK := nullish None (Fin 10)\<rparr>"
  note eval = VectronService_search_def serialize_def encode_SearchRequest_def encode_SearchResponse_def
    encode_SearchResult_def createBaseSearchRequest_def hit_def protobuf_eval
  have "\<exists>bs. requestSerialize (VectronService_search protobuf) ?q = Inr bs"
    by (simp add: eval del: float32_bits.simps)
  moreover have "\<exists>bs. responseSerialize (VectronService_search protobuf) \<lparr>SearchResponse_results = [hit]\<rparr> = Inr bs"
    by (simp add: eval del: float32_bits.simps)
  ultimately obtain bs bs' where s: "requestSerialize (VectronService_search protobuf) ?q = Inr bs"
    "responseSerialize (VectronService_search protobuf) \<lparr>SearchResponse_results = [hit]\<rparr> = Inr bs'"
    by blast
  have "wf_SearchResponse \<lparr>SearchResponse_results = [hit]\<rparr>"
    by (simp add: wf_SearchResponse_def wf_SearchResult_def hit_def)
  from search_end_to_end [OF pb.wire_codec_axioms _ _ _ this _ _ s, of sample_client
      "wire_service\<lparr>s_search := \<lparr>unary = remote (VectronService_search protobuf) (\<lambda>q meta opts n.
        Some (Inr \<lparr>SearchResponse_results = [hit]\<rparr>, Suc n)), events = (\<lambda>q meta opts n. ([], n))\<rparr>\<rparr>"
      "\<lambda>q meta opts n. Some (Inr \<lparr>SearchResponse_results = [hit]\<rparr>, Suc n)" 0 1]
  show ?thesis by (simp add: sample_simps fround32_values)
qed

text \<open>A server that keeps the points of the last upsert.\<close>

definition idle :: "('q, 'r, 'w) rpc" where
  "idle = \<lparr>unary = (\<lambda>q meta opts w. None), events = (\<lambda>q meta opts w. ([], w))\<rparr>"

definition store_upsert :: "UpsertRequest \<Rightarrow> metadata \<Rightarrow> call_options \<Rightarrow> (UpsertResponse, UpsertRequest option) async" where
  "store_upsert q meta opts w =
     Some (Inr \<lparr>UpsertResponse_upserted = num_of_nat (length (UpsertRequest_points q))\<rparr>, Some q)"

definition store_get :: "GetRequest \<Rightarrow> metadata \<Rightarrow> call_options \<Rightarrow> (GetResponse, UpsertRequest option) async" where
  "store_get g meta opts w =
     Some (Inr \<lparr>GetResponse_point = Option.bind w (\<lambda>q.
       if UpsertRequest_collection q = GetRequest_collection g
       then find (\<lambda>p. Point_id p = GetRequest_id g) (UpsertRequest_points q) else None)\<rparr>, w)"

definition store_service :: "UpsertRequest option service" where
  "store_service =
     \<lparr>s_now = (\<lambda>w. Fin 0), s_random = (\<lambda>n. 0), s_show = (\<lambda>n. []), s_createCollection = idle,
      s_listCollections = idle, s_getCollectionStatus = idle,
      s_upsert = idle\<lparr>unary := remote (VectronService_upsert protobuf) store_upsert\<rparr>, s_search = idle,
      s_get = idle\<lparr>unary := remote (VectronService_get protobuf) store_get\<rparr>, s_delete = idle, s_close = id\<rparr>"

theorem upsert_then_get_witness:
  "\<exists>w. upsert sample_client store_service ''docs''
       [\<lparr>cp_id = ''a'', cp_vector = [Fin 1, Fin 1], cp_payload = Some [(''k'', ''v'')]\<rparr>] None
       = Some (Inr (Fin 1), [], w)
     \<and> get sample_client store_service ''docs'' ''a'' w =
         Some (Inr \<lparr>cp_id = ''a'', cp_vector = [Fin 1, Fin 1], cp_payload = Some [(''k'', ''v'')]\<rparr>, [], w)"
proof -
  let ?p = "\<lparr>cp_id = ''a'', cp_vector = [Fin 1, Fin 1], cp_payload = Some [(''k'', ''v'')]\<rparr> :: ClientPoint"
  let ?pt = "\<lparr>Point_id = ''a'', Point_vector = [Fin 1, Fin 1], Point_payload = [(''k'', ''v'')]\<rparr>"
  let ?w = "Some \<lparr>UpsertRequest_collection = ''docs'', UpsertRequest_points = [?pt]\<rparr>"
  have "\<exists>bs. requestSerialize (VectronService_upsert protobuf) (upsert_request ''docs'' [?p]) = Inr bs"
    "\<exists>bs. responseSerialize (VectronService_upsert protobuf) \<lparr>UpsertResponse_upserted = Fin 1\<rparr> = Inr bs"
    "\<exists>bs. requestSerialize (VectronService_get protobuf)
      \<lparr>GetRequest_collection = ''docs'', GetRequest_id = cp_id ?p\<rparr> = Inr bs"
    "\<exists>bs. responseSerialize (VectronService_get protobuf) \<lparr>GetResponse_point = Some ?pt\<rparr> = Inr bs"
    by (simp_all add: wire_sample del: float32_bits.simps)
  then obtain b1 b2 b3 b4 where
    b1: "requestSerialize (VectronService_upsert protobuf) (upsert_request ''docs'' [?p]) = Inr b1"
    and b2: "responseSerialize (VectronService_upsert protobuf) \<lparr>UpsertResponse_upserted = Fin 1\<rparr> = Inr b2"
    and b3: "requestSerialize (VectronService_get protobuf)
      \<lparr>GetRequest_collection = ''docs'', GetRequest_id = cp_id ?p\<rparr> = Inr b3"
    and b4: "responseSerialize (VectronService_get protobuf) \<lparr>GetResponse_point = Some ?pt\<rparr> = Inr b4"
    by blast
  have "upsert sample_client store_service ''docs'' [?p] None
      = Some (Inr (UpsertResponse_upserted \<lparr>UpsertResponse_upserted = Fin 1\<rparr>), [], ?w)
    \<and> get sample_client store_service ''docs'' (cp_id ?p) ?w =
        Some (Inr \<lparr>cp_id = cp_id ?p, cp_vector = map fround32 (map fround32 (cp_vector ?p)),
                   cp_payload = Some (nullish (cp_payload ?p) [])\<rparr>, [], ?w)"
    by (rule upsert_then_get [OF pb.wire_codec_axioms, where upsertHandler = store_upsert and getHandler = store_get,
          OF _ _ _ _ _ _ _ b1 b2 b3])
       (use b4 in \<open>auto simp: store_service_def store_upsert_def store_get_def idle_def sample_simps fround32_values\<close>)
  then show ?thesis by (auto simp: fround32_values)
qed

text \<open>A server that keeps every point it is sent.\<close>

definition log_upsert :: "UpsertRequest \<Rightarrow> metadata \<Rightarrow> call_options \<Rightarrow> (UpsertResponse, Point list) async" where
  "log_upsert q meta opts w =
     Some (Inr \<lparr>UpsertResponse_upserted = num_of_nat (length (UpsertRequest_points q))\<rparr>, w @ UpsertRequest_points q)"

definition log_service :: "Point list service" where
  "log_service =
     \<lparr>s_now = (\<lambda>w. Fin 0), s_random = (\<lambda>n. 0), s_show = (\<lambda>n. []), s_createCollection = idle,
      s_listCollections = idle, s_getCollectionStatus = idle,
      s_upsert = idle\<lparr>unary := remote (VectronService_upsert protobuf) log_upsert\<rparr>, s_search = idle,
      s_get = idle, s_delete = idle, s_close = id\<rparr>"

theorem upsertBatch_end_to_end_witness:
  "\<exists>sched res sl w'.
     upsertBatch sample_client log_service ''docs'' sample_points (num_of_nat 1) (num_of_nat 2) sched [] = Some (res, sl, w')
     \<and> (case res of
          Inr m \<Rightarrow> m = Fin 3 \<and> mset w' = image_mset (received fround32) (mset sample_points)
        | Inl e \<Rightarrow> mset w' \<subseteq># image_mset (received fround32) (mset sample_points))"
proof -
  have points: "\<forall>p \<in> set sample_points. storable sample_client p \<and> js_obj_ok (nullish (cp_payload p) [])"
    "sample_points \<noteq> []" "length sample_points = 3"
    by (auto simp: sample_points_def sample_simps)
  have all: "(\<forall>sched res sl w'.
      upsertBatch sample_client log_service ''docs'' sample_points (num_of_nat 1) (num_of_nat 2) sched [] = Some (res, sl, w') \<longrightarrow>
        (case res of
           Inr m \<Rightarrow> m = num_of_nat (length sample_points)
             \<and> mset w' = mset [] + image_mset (received fround32) (mset sample_points)
         | Inl e \<Rightarrow> mset [] \<subseteq># mset w' \<and> mset w' \<subseteq># mset [] + image_mset (received fround32) (mset sample_points)))
    \<and> (\<exists>sched r. upsertBatch sample_client log_service ''docs'' sample_points (num_of_nat 1) (num_of_nat 2) sched [] = Some r)"
  proof (rule upsertBatch_end_to_end [OF pb.wire_codec_axioms _ _ _ _ points(2,1)])
    show "keeps_points mset log_upsert" by (simp add: keeps_points_def log_upsert_def)
    show "unary (s_upsert log_service) = remote (VectronService_upsert protobuf) log_upsert"
      by (simp add: log_service_def)
    show "\<not> truthy_obool (o_retryOnWrites (c_options sample_client))" by (simp add: sample_simps)
  qed simp_all
  then obtain sched res sl w' where run:
    "upsertBatch sample_client log_service ''docs'' sample_points (num_of_nat 1) (num_of_nat 2) sched [] = Some (res, sl, w')"
    by (metis prod_cases3)
  with all have "case res of
      Inr m \<Rightarrow> m = Fin 3 \<and> mset w' = image_mset (received fround32) (mset sample_points)
    | Inl e \<Rightarrow> mset w' \<subseteq># image_mset (received fround32) (mset sample_points)"
    by (cases res) (fastforce simp: points(3))+
  with run show ?thesis by blast
qed

end
